(* ===== verification/Prelude.thy ===== *)
theory Prelude
  imports Complex_Main "HOL-Library.Sublist" "HOL-Library.AList" "HOL-Library.Char_ord"
    "HOL-Library.List_Lexorder" "HOL-Library.Product_Lexorder"
begin

text \<open>
  Shared vocabulary of the development: the result type of fallible Python code, Python's
  insertion ordered dictionaries as association lists, the contract of a state machine whose
  steps keep an invariant, decimal rendering of integers, JSON values, and generic list lemmas.
\<close>

named_theorems dict_simps \<open>equations of the dictionary operations\<close>

section \<open>Results\<close>

type_synonym ('e, 'a) result = "'e + 'a"

definition result_bind :: "('e, 'a) result \<Rightarrow> ('a \<Rightarrow> ('e, 'b) result) \<Rightarrow> ('e, 'b) result" where
  "result_bind r f = (case r of Inl e \<Rightarrow> Inl e | Inr x \<Rightarrow> f x)"

lemma result_bind_simps [simp]:
  "result_bind (Inl e) f = Inl e" "result_bind (Inr x) f = f x"
  by (simp_all add: result_bind_def)

fun map_result :: "('a \<Rightarrow> ('e, 'b) result) \<Rightarrow> 'a list \<Rightarrow> ('e, 'b list) result" where
  "map_result f [] = Inr []"
| "map_result f (x # xs) =
     result_bind (f x) (\<lambda>y. result_bind (map_result f xs) (\<lambda>ys. Inr (y # ys)))"

lemma map_result_cong [fundef_cong]:
  "xs = ys \<Longrightarrow> (\<And>x. x \<in> set ys \<Longrightarrow> f x = g x) \<Longrightarrow> map_result f xs = map_result g ys"
  by (induction xs arbitrary: ys) auto

lemma map_result_map: "(\<And>x. x \<in> set xs \<Longrightarrow> f (g x) = Inr (h x)) \<Longrightarrow>
    map_result f (map g xs) = Inr (map h xs)"
  by (induction xs) auto

section \<open>Python dictionaries\<close>

text \<open>
  A \<open>dict\<close> iterates in insertion order, an assignment to a present key keeps its position and
  \<open>pop\<close> forgets it. The association lists of the library behave the same way.
\<close>

type_synonym ('k, 'v) dict = "('k \<times> 'v) list"

definition dict_get :: "('k, 'v) dict \<Rightarrow> 'k \<Rightarrow> 'v option" where
  "dict_get d k = map_of d k"

definition dict_set :: "'k \<Rightarrow> 'v \<Rightarrow> ('k, 'v) dict \<Rightarrow> ('k, 'v) dict" where
  "dict_set k v d = AList.update k v d"

definition dict_pop :: "'k \<Rightarrow> ('k, 'v) dict \<Rightarrow> ('k, 'v) dict" where
  "dict_pop k d = AList.delete k d"

definition dict_keys :: "('k, 'v) dict \<Rightarrow> 'k list" where
  "dict_keys d = map fst d"

definition dict_values :: "('k, 'v) dict \<Rightarrow> 'v list" where
  "dict_values d = map snd d"

definition wf_dict :: "('k, 'v) dict \<Rightarrow> bool" where
  "wf_dict d = distinct (map fst d)"

text \<open>The interface the components rely on, and what follows from it.\<close>

locale ordered_dict =
  fixes get :: "'d \<Rightarrow> 'k \<Rightarrow> 'v option"
    and set_item :: "'k \<Rightarrow> 'v \<Rightarrow> 'd \<Rightarrow> 'd"
    and pop :: "'k \<Rightarrow> 'd \<Rightarrow> 'd"
    and keys :: "'d \<Rightarrow> 'k list"
    and inv :: "'d \<Rightarrow> bool"
  assumes get_set: "get (set_item k v d) k' = (if k' = k then Some v else get d k')"
    and get_pop: "inv d \<Longrightarrow> get (pop k d) k' = (if k' = k then None else get d k')"
    and get_iff_key: "(get d k \<noteq> None) = (k \<in> set (keys d))"
    and inv_set: "inv d \<Longrightarrow> inv (set_item k v d)"
    and inv_pop: "inv d \<Longrightarrow> inv (pop k d)"
    and inv_distinct: "inv d \<Longrightarrow> distinct (keys d)"
    and keys_set: "keys (set_item k v d) = (if k \<in> set (keys d) then keys d else keys d @ [k])"
    and keys_pop: "inv d \<Longrightarrow> keys (pop k d) = filter (\<lambda>k'. k' \<noteq> k) (keys d)"
begin

lemma length_set_le: "length (keys (set_item k v d)) \<le> Suc (length (keys d))"
  by (simp add: keys_set)

lemma length_set_new: "get d k = None \<Longrightarrow> length (keys (set_item k v d)) = Suc (length (keys d))"
  using get_iff_key [of d k] by (simp add: keys_set)

lemma get_set_same: "get (set_item k v d) k = Some v"
  by (simp add: get_set)

lemma get_set_other: "k' \<noteq> k \<Longrightarrow> get (set_item k v d) k' = get d k'"
  by (simp add: get_set)

lemma fold_pop_get:
  "inv d \<Longrightarrow> get (fold pop ks d) k = (if k \<in> set ks then None else get d k)"
  by (induction ks arbitrary: d) (auto simp: get_pop inv_pop)

lemma fold_pop_inv: "inv d \<Longrightarrow> inv (fold pop ks d)"
  by (induction ks arbitrary: d) (auto simp: inv_pop)

lemma fold_set_get:
  "get (fold (\<lambda>x. set_item (f x) (g x)) xs d) k =
     (case List.find (\<lambda>x. f x = k) (rev xs) of None \<Rightarrow> get d k | Some x \<Rightarrow> Some (g x))"
proof (induction xs rule: rev_induct)
  case Nil
  then show ?case by simp
next
  case (snoc x xs)
  then show ?case by (auto simp: get_set)
qed

lemma fold_set_inv: "inv d \<Longrightarrow> inv (fold (\<lambda>x. set_item (f x) (g x)) xs d)"
  by (induction xs arbitrary: d) (auto simp: inv_set)

end

lemma keys_alist_update:
  "map fst (AList.update k v d) = (if k \<in> set (map fst d) then map fst d else map fst d @ [k])"
  by (induction d) auto

lemma keys_alist_delete: "map fst (AList.delete k d) = filter (\<lambda>k'. k' \<noteq> k) (map fst d)"
  by (induction d) auto

interpretation alist_dict: ordered_dict dict_get dict_set dict_pop dict_keys wf_dict
proof unfold_locales
  fix d :: "('k, 'v) dict" and k k' v
  show "dict_get (dict_set k v d) k' = (if k' = k then Some v else dict_get d k')"
    by (simp add: dict_get_def dict_set_def update_conv')
  show "(dict_get d k \<noteq> None) = (k \<in> set (dict_keys d))"
    by (auto simp: dict_get_def dict_keys_def map_of_eq_None_iff)
  show "dict_keys (dict_set k v d) =
      (if k \<in> set (dict_keys d) then dict_keys d else dict_keys d @ [k])"
    by (simp add: dict_keys_def dict_set_def keys_alist_update del: set_map)
  assume inv: "wf_dict d"
  show "dict_get (dict_pop k d) k' = (if k' = k then None else dict_get d k')"
    by (simp add: dict_get_def dict_pop_def delete_conv')
  show "wf_dict (dict_set k v d)"
    using inv by (simp add: wf_dict_def dict_set_def distinct_update)
  show "wf_dict (dict_pop k d)"
    using inv by (simp add: wf_dict_def dict_pop_def distinct_delete)
  show "distinct (dict_keys d)"
    using inv by (simp add: wf_dict_def dict_keys_def)
  show "dict_keys (dict_pop k d) = filter (\<lambda>k'. k' \<noteq> k) (dict_keys d)"
    by (simp add: dict_keys_def dict_pop_def keys_alist_delete)
qed

lemma dict_get_Nil [simp, dict_simps]: "dict_get [] k = None"
  by (simp add: dict_get_def)

lemma dict_keys_Nil [simp]: "dict_keys [] = []"
  by (simp add: dict_keys_def)

lemma dict_get_Cons [dict_simps]:
  "dict_get ((a, b) # d) k = (if k = a then Some b else dict_get d k)"
  by (simp add: dict_get_def)

lemmas dict_get_set [simp, dict_simps] = alist_dict.get_set

lemma set_dict_keys_set [simp]: "set (dict_keys (dict_set k v d)) = insert k (set (dict_keys d))"
  by (auto simp: alist_dict.keys_set)

lemma set_dict_keys_pop [simp]: "set (dict_keys (dict_pop k d)) = set (dict_keys d) - {k}"
  by (auto simp: dict_keys_def dict_pop_def keys_alist_delete)

lemma wf_dict_Nil [simp]: "wf_dict []"
  by (simp add: wf_dict_def)

lemma dict_get_pop [simp, dict_simps]:
  "dict_get (dict_pop k d) k' = (if k' = k then None else dict_get d k')"
  by (simp add: dict_get_def dict_pop_def delete_conv')

lemma dict_get_in_set: "dict_get d k = Some v \<Longrightarrow> (k, v) \<in> set d"
  by (simp add: dict_get_def map_of_SomeD)

lemma dict_get_iff: "wf_dict d \<Longrightarrow> (dict_get d k = Some v) = ((k, v) \<in> set d)"
  by (simp add: dict_get_def wf_dict_def)

lemma fold_dict_set_distinct: "distinct (map f xs) \<Longrightarrow>
    fold (\<lambda>x. dict_set (f x) (g x)) xs [] = map (\<lambda>x. (f x, g x)) xs"
proof (induction xs rule: rev_induct)
  case (snoc x xs)
  have "k \<notin> fst ` set d \<Longrightarrow> dict_set k v d = d @ [(k, v)]" for k :: 'a and v :: 'c and d
    unfolding dict_set_def by (induction d) auto
  with snoc show ?case by (simp add: image_image)
qed simp

section \<open>State machines that keep an invariant\<close>

text \<open>
  Many components are a state and an operation applied event by event. The client of such a
  component needs one law, that an operation keeps the invariant, and gets it for every run.
\<close>

text \<open>Every event of a run is admissible in the state it meets.\<close>

fun good_run :: "('s \<Rightarrow> 'e \<Rightarrow> 's) \<Rightarrow> ('s \<Rightarrow> 'e \<Rightarrow> bool) \<Rightarrow> 's \<Rightarrow> 'e list \<Rightarrow> bool" where
  "good_run step good s [] = True"
| "good_run step good s (e # es) = (good s e \<and> good_run step good (step s e) es)"

locale step_invariant =
  fixes step :: "'s \<Rightarrow> 'e \<Rightarrow> 's"
    and good :: "'s \<Rightarrow> 'e \<Rightarrow> bool"
    and inv :: "'s \<Rightarrow> bool"
  assumes step_inv: "inv s \<Longrightarrow> good s e \<Longrightarrow> inv (step s e)"
begin

lemma run_inv: "inv s \<Longrightarrow> good_run step good s es \<Longrightarrow> inv (foldl step s es)"
  by (induction es arbitrary: s) (auto simp: step_inv)

lemma run_inv_total: "inv s \<Longrightarrow> (\<And>s e. good s e) \<Longrightarrow> inv (foldl step s es)"
  by (induction es arbitrary: s) (auto simp: step_inv)

lemma prefix_run_inv:
  "inv s \<Longrightarrow> good_run step good s (es @ fs) \<Longrightarrow>
    inv (foldl step s es) \<and> good_run step good (foldl step s es) fs"
  by (induction es arbitrary: s) (auto simp: step_inv)

end

section \<open>Rendering and JSON\<close>

fun digits_rev :: "nat \<Rightarrow> string" where
  "digits_rev n =
     (if n < 10 then [char_of (48 + n)]
      else char_of (48 + n mod 10) # digits_rev (n div 10))"

declare digits_rev.simps [simp del]

definition show_nat :: "nat \<Rightarrow> string" where
  "show_nat n = rev (digits_rev n)"

definition show_int :: "int \<Rightarrow> string" where
  "show_int i = (if i < 0 then CHR ''-'' # show_nat (nat (- i)) else show_nat (nat i))"

text \<open>Floats are exact rationals: the models idealise binary rounding.\<close>

type_synonym py_float = rat

datatype json =
    JNull
  | JBool bool
  | JInt int
  | JFloat py_float
  | JStr string
  | JArr "json list"
  | JObj "(string \<times> json) list"

fun json_field :: "json \<Rightarrow> string \<Rightarrow> json option" where
  "json_field (JObj kvs) k = map_of kvs k"
| "json_field _ k = None"

fun join_with :: "'c list \<Rightarrow> 'c list list \<Rightarrow> 'c list" where
  "join_with sep [] = []"
| "join_with sep [x] = x"
| "join_with sep (x # y # xs) = x @ sep @ join_with sep (y # xs)"

text \<open>
  \<open>str.strip\<close> on characters below 256: Python strips the ASCII white space, the separators
  28 to 31, NEL and the no-break space.
\<close>

definition py_isspace :: "char \<Rightarrow> bool" where
  "py_isspace c \<longleftrightarrow> (let n = (of_char c :: nat)
     in (9 \<le> n \<and> n \<le> 13) \<or> (28 \<le> n \<and> n \<le> 32) \<or> n = 133 \<or> n = 160)"

definition py_lstrip :: "string \<Rightarrow> string" where
  "py_lstrip s = dropWhile py_isspace s"

definition py_rstrip :: "string \<Rightarrow> string" where
  "py_rstrip s = rev (dropWhile py_isspace (rev s))"

definition py_strip :: "string \<Rightarrow> string" where
  "py_strip s = py_rstrip (py_lstrip s)"

definition newline :: string where
  "newline = [CHR 0x0A]"

section \<open>Decimal rendering is injective\<close>

definition is_digit :: "char \<Rightarrow> bool" where
  "is_digit c \<longleftrightarrow> 48 \<le> (of_char c :: nat) \<and> (of_char c :: nat) \<le> 57"

fun undigits :: "string \<Rightarrow> nat" where
  "undigits [] = 0"
| "undigits (c # cs) = (of_char c - 48) + 10 * undigits cs"

lemma of_char_digit [simp]: "n < 10 \<Longrightarrow> of_char (char_of (48 + n) :: char) = (48 + n :: nat)"
  by (simp add: of_char_of)

lemma undigits_digits_rev [simp]: "undigits (digits_rev n) = n"
proof (induction n rule: digits_rev.induct)
  case (1 n)
  then show ?case by (cases "n < 10") (subst digits_rev.simps; simp)+
qed

lemma digits_rev_digits: "c \<in> set (digits_rev n) \<Longrightarrow> is_digit c"
proof (induction n rule: digits_rev.induct)
  case (1 n)
  show ?case
  proof (cases "n < 10")
    case True
    with 1(2) show ?thesis by (subst (asm) digits_rev.simps) (auto simp: is_digit_def)
  next
    case False
    with 1(2) have "c = char_of (48 + n mod 10) \<or> c \<in> set (digits_rev (n div 10))"
      by (subst (asm) digits_rev.simps) auto
    with 1(1) False show ?thesis by (auto simp: is_digit_def)
  qed
qed

lemma digits_rev_nonempty [simp]: "digits_rev n \<noteq> []"
  by (subst digits_rev.simps) simp

lemma show_nat_inj [simp]: "show_nat m = show_nat n \<longleftrightarrow> m = n"
  unfolding show_nat_def by (metis rev_rev_ident undigits_digits_rev)

lemma show_nat_digits: "c \<in> set (show_nat n) \<Longrightarrow> is_digit c"
  by (simp add: show_nat_def digits_rev_digits)

lemma show_nat_nonempty [simp]: "show_nat n \<noteq> []"
  by (simp add: show_nat_def)

lemma show_nat_no_minus: "show_nat n \<noteq> CHR ''-'' # s"
  using show_nat_digits [of "CHR ''-''" n] by (auto simp: is_digit_def)

lemma show_int_inj [simp]: "show_int i = show_int j \<longleftrightarrow> i = j"
  using show_nat_no_minus show_nat_no_minus [symmetric] by (auto simp: show_int_def)

lemma show_int_no_colon: "CHR '':'' \<notin> set (show_int i)"
  using show_nat_digits [of "CHR '':''"] by (auto simp: show_int_def is_digit_def)

section \<open>Nodes free of cycles\<close>

text \<open>A set of nodes closed under the edges, none of which lies on a cycle.\<close>

definition cycle_free :: "('a \<times> 'a) set \<Rightarrow> 'a set \<Rightarrow> bool" where
  "cycle_free R B \<longleftrightarrow> R `` B \<subseteq> B \<and> (\<forall>n \<in> B. (n, n) \<notin> R\<^sup>+)"

lemma cycle_free_insert:
  assumes "cycle_free R B" "R `` {n} \<subseteq> B" "n \<notin> B"
  shows "cycle_free R (insert n B)"
proof -
  have "(n, n) \<notin> R\<^sup>+"
  proof
    assume "(n, n) \<in> R\<^sup>+"
    then obtain m where m: "(n, m) \<in> R" "(m, n) \<in> R\<^sup>*" by (meson tranclD)
    have "x \<in> B" if "(m, x) \<in> R\<^sup>*" for x
      using that by (induction rule: rtrancl_induct) (use m assms in \<open>auto simp: cycle_free_def\<close>)
    with m(2) assms(3) show False by blast
  qed
  with assms show ?thesis by (auto simp: cycle_free_def)
qed

section \<open>Generic lemmas\<close>

lemma join_with_snoc:
  "join_with sep (xs @ [x]) = (if xs = [] then x else join_with sep xs @ sep @ x)"
  by (induction xs rule: induct_list012) auto

lemma take_append_bound: "take n (take n xs @ ys) = take n (xs @ ys)"
  by (cases "n \<le> length xs") auto

lemma find_sorted_least:
  "List.find P (sort_key f xs) = Some x \<Longrightarrow>
    x \<in> set xs \<and> P x \<and> (\<forall>y \<in> set xs. P y \<longrightarrow> (f x :: 'b :: linorder) \<le> f y)"
proof -
  have "sorted (map f ys) \<Longrightarrow> List.find P ys = Some x \<Longrightarrow>
      x \<in> set ys \<and> P x \<and> (\<forall>y \<in> set ys. P y \<longrightarrow> f x \<le> f y)" for ys
    by (induction ys) (auto split: if_splits)
  from this [of "sort_key f xs"] show "List.find P (sort_key f xs) = Some x \<Longrightarrow> ?thesis" by simp
qed

lemma find_map_filter: "map_of (List.map_filter (\<lambda>k. map_option (Pair k) (f k)) ks) k =
    (if k \<in> set ks then f k else None)"
  by (induction ks) (auto simp: List.map_filter_def split: option.splits)

lemma partition_length: "length (filter P xs) + length (filter (\<lambda>x. \<not> P x) xs) = length xs"
  by (rule sum_length_filter_compl)

end
