(* ===== verification/Text_Search.thy ===== *)
theory Text_Search
  imports Prelude
begin

text \<open>
  The string operations the streaming and parsing components use, over lists of any character
  type: \<open>str.find\<close>, \<open>str.startswith\<close>, \<open>str.endswith\<close>, \<open>in\<close>, and the facts about
  leftmost occurrences that make searching a stream chunk by chunk sound.
\<close>

section \<open>Operations\<close>

fun find_sub :: "'c list \<Rightarrow> 'c list \<Rightarrow> nat option" where
  "find_sub pat [] = (if pat = [] then Some 0 else None)"
| "find_sub pat (x # xs) =
     (if prefix pat (x # xs) then Some 0 else map_option Suc (find_sub pat xs))"

definition contains_sub :: "'c list \<Rightarrow> 'c list \<Rightarrow> bool" where
  "contains_sub pat hay \<longleftrightarrow> find_sub pat hay \<noteq> None"

definition starts_with :: "'c list \<Rightarrow> 'c list \<Rightarrow> bool" where
  "starts_with hay pat \<longleftrightarrow> prefix pat hay"

definition ends_with :: "'c list \<Rightarrow> 'c list \<Rightarrow> bool" where
  "ends_with hay pat \<longleftrightarrow> suffix pat hay"

lemma starts_with_code [simp]:
  "starts_with hay []" "starts_with [] (y # ys) = False"
  "starts_with (x # xs) (y # ys) = (x = y \<and> starts_with xs ys)"
  by (auto simp: starts_with_def)

section \<open>Leftmost occurrences\<close>

definition occurs_at :: "'c list \<Rightarrow> 'c list \<Rightarrow> nat \<Rightarrow> bool" where
  "occurs_at pat hay i \<longleftrightarrow> i \<le> length hay \<and> prefix pat (drop i hay)"

lemma find_sub_Nil_pat [simp]: "find_sub [] hay = Some 0"
  by (cases hay) auto

lemma find_sub_Some_occurs: "find_sub pat hay = Some i \<Longrightarrow> occurs_at pat hay i"
  by (induction pat hay arbitrary: i rule: find_sub.induct)
    (auto simp: occurs_at_def split: if_splits)

lemma find_sub_Some_least: "find_sub pat hay = Some i \<Longrightarrow> j < i \<Longrightarrow> \<not> occurs_at pat hay j"
proof (induction pat hay arbitrary: i j rule: find_sub.induct)
  case (1 pat)
  then show ?case by (auto split: if_splits)
next
  case (2 pat x xs)
  then obtain i' where i': "\<not> prefix pat (x # xs)" "find_sub pat xs = Some i'" "i = Suc i'"
    by (auto split: if_splits)
  then show ?case
    using "2.IH" [of i'] "2.prems" by (cases j) (auto simp: occurs_at_def)
qed

lemma find_sub_None_occurs: "find_sub pat hay = None \<Longrightarrow> \<not> occurs_at pat hay j"
proof (induction pat hay arbitrary: j rule: find_sub.induct)
  case (1 pat)
  then show ?case by (auto simp: occurs_at_def split: if_splits)
next
  case (2 pat x xs)
  then show ?case by (cases j) (auto simp: occurs_at_def split: if_splits)
qed

lemma find_sub_None_iff: "find_sub pat hay = None \<longleftrightarrow> (\<forall>j. \<not> occurs_at pat hay j)"
proof
  assume "\<forall>j. \<not> occurs_at pat hay j"
  then show "find_sub pat hay = None"
    by (cases "find_sub pat hay") (auto dest: find_sub_Some_occurs)
qed (simp add: find_sub_None_occurs)

lemma find_sub_Some_iff:
  "find_sub pat hay = Some i \<longleftrightarrow> occurs_at pat hay i \<and> (\<forall>j<i. \<not> occurs_at pat hay j)"
proof
  assume "find_sub pat hay = Some i"
  then show "occurs_at pat hay i \<and> (\<forall>j<i. \<not> occurs_at pat hay j)"
    by (simp add: find_sub_Some_occurs find_sub_Some_least)
next
  assume i: "occurs_at pat hay i \<and> (\<forall>j<i. \<not> occurs_at pat hay j)"
  then have "find_sub pat hay \<noteq> None"
    using find_sub_None_occurs by blast
  then obtain k where k: "find_sub pat hay = Some k"
    by auto
  then have "k = i"
    using i find_sub_Some_occurs [OF k] find_sub_Some_least [OF k] nat_neq_iff by metis
  with k show "find_sub pat hay = Some i" by simp
qed

lemma find_sub_bound: "find_sub pat hay = Some i \<Longrightarrow> i + length pat \<le> length hay"
  using find_sub_Some_occurs [of pat hay i] prefix_length_le [of pat "drop i hay"]
  by (auto simp: occurs_at_def)

lemma find_sub_split:
  assumes "find_sub pat hay = Some i"
  shows "hay = take i hay @ pat @ drop (i + length pat) hay"
proof -
  from assms have "prefix pat (drop i hay)"
    using find_sub_Some_occurs by (auto simp: occurs_at_def)
  then obtain r where "drop i hay = pat @ r" by (auto simp: prefix_def)
  moreover from this have "drop (i + length pat) hay = r"
    by (metis add.commute append_eq_conv_conj drop_drop)
  ultimately show ?thesis by (metis append_take_drop_id)
qed

lemma prefix_append_short: "length p \<le> length a \<Longrightarrow> prefix p (a @ r) = prefix p a"
  by (metis prefixI prefix_length_prefix prefix_prefix)

lemma find_sub_progress:
  "find_sub pat hay = Some i \<Longrightarrow> pat \<noteq> [] \<Longrightarrow> length (drop (i + length pat) hay) < length hay"
  using find_sub_bound [of pat hay i] by (cases pat) auto

lemma occurs_at_append: "i + length pat \<le> length hay \<Longrightarrow>
    occurs_at pat (hay @ rest) i = occurs_at pat hay i"
  by (simp add: occurs_at_def prefix_append_short)

lemma find_sub_append_Some: "find_sub pat hay = Some i \<Longrightarrow> find_sub pat (hay @ rest) = Some i"
proof -
  assume f: "find_sub pat hay = Some i"
  then have b: "i + length pat \<le> length hay" by (rule find_sub_bound)
  have "\<not> occurs_at pat (hay @ rest) j" if "j < i" for j
    using that b find_sub_Some_least [OF f that] by (simp add: occurs_at_append)
  then show ?thesis
    using b find_sub_Some_occurs [OF f] by (simp add: find_sub_Some_iff occurs_at_append)
qed

lemma contains_sub_iff: "contains_sub pat hay \<longleftrightarrow> sublist pat hay"
proof
  assume "contains_sub pat hay"
  then obtain i where "find_sub pat hay = Some i" by (auto simp: contains_sub_def)
  from find_sub_split [OF this] show "sublist pat hay"
    by (metis sublist_appendI)
next
  assume "sublist pat hay"
  then obtain ps ss where "hay = ps @ pat @ ss" by (auto simp: sublist_def)
  then have "occurs_at pat hay (length ps)" by (simp add: occurs_at_def)
  then show "contains_sub pat hay"
    using find_sub_None_occurs by (auto simp: contains_sub_def)
qed

lemma find_sub_None_sublist: "find_sub pat hay = None \<longleftrightarrow> \<not> sublist pat hay"
  using contains_sub_iff [of pat hay] by (simp add: contains_sub_def del: not_None_eq) blast

lemma not_contains_prefix: "\<not> contains_sub pat (a @ b) \<Longrightarrow> \<not> contains_sub pat a"
  by (auto simp: contains_sub_iff sublist_append)

lemma not_contains_suffix: "\<not> contains_sub pat (a @ b) \<Longrightarrow> \<not> contains_sub pat b"
  by (auto simp: contains_sub_iff sublist_append)

section \<open>Searching a stream that arrives in pieces\<close>

text \<open>
  A scanner that has not found the pattern may emit what it has read only up to a cut: the part
  behind the cut must keep every place where an occurrence could still begin. The contract of
  such a cut, and the fact that makes the scanner sound: the search of the whole stream is the
  search from the cut on.
\<close>

locale stream_cut =
  fixes cut :: "'c list \<Rightarrow> 'c list \<Rightarrow> nat"
  assumes cut_le: "cut hay pat \<le> length hay"
    and cut_keeps: "find_sub pat hay = None \<Longrightarrow> i < cut hay pat \<Longrightarrow>
      \<not> prefix (drop i hay) pat"
    and cut_short: "drop (cut hay pat) hay \<noteq> [] \<Longrightarrow>
      strict_prefix (drop (cut hay pat) hay) pat"
begin

lemma no_early_occurrence:
  assumes "find_sub pat hay = None" and "i < cut hay pat"
  shows "\<not> occurs_at pat (hay @ rest) i"
proof
  assume occ: "occurs_at pat (hay @ rest) i"
  have i: "i < length hay" using assms(2) cut_le [of hay pat] by simp
  show False
  proof (cases "i + length pat \<le> length hay")
    case True
    then show ?thesis
      using occ assms(1) find_sub_None_occurs by (auto simp: occurs_at_append)
  next
    case False
    from occ i have "prefix pat (drop i hay @ rest)" by (simp add: occurs_at_def)
    with False have "prefix (drop i hay) pat"
      by (metis append_prefixD length_drop linear le_diff_conv2 less_imp_le_nat i add.commute
          prefix_length_prefix prefix_order.refl prefixI)
    with cut_keeps [OF assms] show ?thesis by simp
  qed
qed

lemma search_from_cut:
  assumes none: "find_sub pat hay = None"
  shows "find_sub pat (hay @ rest) =
    map_option (\<lambda>i. cut hay pat + i) (find_sub pat (drop (cut hay pat) hay @ rest))"
proof -
  let ?c = "cut hay pat"
  have c: "?c \<le> length hay" by (rule cut_le)
  have shift: "occurs_at pat (drop ?c hay @ rest) j = occurs_at pat (hay @ rest) (?c + j)" for j
    using c by (auto simp: occurs_at_def add.commute)
  have early: "\<not> occurs_at pat (hay @ rest) i" if "i < ?c" for i
    using no_early_occurrence [OF none that] .
  show ?thesis
  proof (cases "find_sub pat (drop ?c hay @ rest)")
    case None
    then have "\<not> occurs_at pat (hay @ rest) i" for i
      using early [of i] shift [of "i - ?c"] find_sub_None_occurs by (cases "i < ?c") auto
    then have "find_sub pat (hay @ rest) = None" by (simp add: find_sub_None_iff)
    with None show ?thesis by simp
  next
    case (Some j)
    have "\<not> occurs_at pat (hay @ rest) i" if "i < ?c + j" for i
      using early [of i] shift [of "i - ?c"] find_sub_Some_least [OF Some, of "i - ?c"] that
      by (cases "i < ?c") auto
    then have "find_sub pat (hay @ rest) = Some (?c + j)"
      using shift [of j] find_sub_Some_occurs [OF Some] by (simp add: find_sub_Some_iff)
    with Some show ?thesis by simp
  qed
qed

lemma rest_has_no_occurrence: "find_sub pat hay = None \<Longrightarrow> find_sub pat (drop (cut hay pat) hay) = None"
  using search_from_cut [of pat hay "[]"] by simp

end

section \<open>Splitting and replacing\<close>

text \<open>
  \<open>s.split(sep)\<close> and \<open>s.replace(old, new)\<close> for a non-empty separator, the only kind the
  program passes.
\<close>

function py_split :: "'c list \<Rightarrow> 'c list \<Rightarrow> 'c list list" where
  "py_split sep s =
     (case (if sep = [] then None else find_sub sep s) of
        None \<Rightarrow> [s]
      | Some i \<Rightarrow> take i s # py_split sep (drop (i + length sep) s))"
  by pat_completeness auto
termination
proof (relation "measure (length \<circ> snd)", goal_cases)
  case (2 sep s i)
  then have "find_sub sep s = Some i" "sep \<noteq> []" by (auto split: if_splits)
  then show ?case using find_sub_bound [of sep s i] by (cases sep) auto
qed simp

declare py_split.simps [simp del]

lemma py_split_nonempty [simp]: "py_split sep s \<noteq> []"
  by (subst py_split.simps) (simp split: option.splits)

definition py_replace :: "'c list \<Rightarrow> 'c list \<Rightarrow> 'c list \<Rightarrow> 'c list" where
  "py_replace old new s = join_with new (py_split old s)"

lemma join_with_Cons: "xs \<noteq> [] \<Longrightarrow> join_with sep (x # xs) = x @ sep @ join_with sep xs"
  by (cases xs) auto

lemma join_py_split [simp]: "join_with sep (py_split sep s) = s"
proof (induction sep s rule: py_split.induct)
  case (1 sep s)
  show ?case
  proof (cases "if sep = [] then None else find_sub sep s")
    case None
    then show ?thesis by (subst py_split.simps) (simp del: if_split)
  next
    case (Some i)
    then have "find_sub sep s = Some i" by (auto split: if_splits)
    then have "take i s @ sep @ drop (i + length sep) s = s"
      using find_sub_split by metis
    with Some 1 show ?thesis by (subst py_split.simps) (simp add: join_with_Cons del: if_split)
  qed
qed

lemma py_replace_absent: "\<not> contains_sub old s \<Longrightarrow> py_replace old new s = s"
  by (simp add: py_replace_def contains_sub_def py_split.simps)

lemma find_sub_char: "c \<notin> set h \<Longrightarrow> find_sub [c] (h @ c # r) = Some (length h)"
  by (induction h) auto

lemma find_sub_char_absent: "c \<notin> set h \<Longrightarrow> find_sub [c] h = None"
  by (induction h) auto

lemma py_split_char: "c \<notin> set h \<Longrightarrow> py_split [c] (h @ c # r) = h # py_split [c] r"
  by (subst py_split.simps) (simp add: find_sub_char)

lemma py_split_char_absent: "c \<notin> set h \<Longrightarrow> py_split [c] h = [h]"
  by (subst py_split.simps) (simp add: find_sub_char_absent)

lemma py_split_join_with:
  "list_all (\<lambda>p. c \<notin> set p) ps \<Longrightarrow> ps \<noteq> [] \<Longrightarrow> py_split [c] (join_with [c] ps) = ps"
proof (induction ps)
  case (Cons p ps)
  then show ?case by (cases ps) (simp_all add: py_split_char py_split_char_absent)
qed simp

end
