(* ===== verification/Sanitizer.thy ===== *)
theory Sanitizer
  imports Text_Search
begin

text \<open>
  \<open>examples/streaming-reasoning-sanitizer/sanitizer.py\<close>: the streaming parser that separates
  the visible output of a model from its reasoning. The state, the two consuming steps, the
  \<open>while text\<close> loop of \<open>feed\<close>, \<open>flush\<close> and \<open>sanitize_reasoning_stream\<close> are translated over an
  arbitrary character type; the loop may not end, so it is a \<open>partial_function (option)\<close>.
  Then: when it ends, the conservation of characters, the bound on recorded thoughts, and that
  the way the stream is cut into chunks does not matter.
\<close>

section \<open>State\<close>

datatype parser_state = EMITTING | THINKING

record 'c stream_chunk_result =
  visible_chunk :: "'c list"
  thought_chunk :: "'c list"
  is_thinking_chunk :: bool

record sanitizer_metrics =
  total_input_chars :: nat
  visible_chars :: nat
  thought_chars :: nat
  discarded_thought_chars :: nat
  open_tags_detected :: nat
  close_tags_detected :: nat
  unclosed_stream :: bool
  unopened_close_tags :: nat

record 'c sanitizer =
  open_tag :: "'c list"
  close_tag :: "'c list"
  max_thought_chars :: int
  pstate :: parser_state
  buffer :: "'c list"
  collected_thoughts :: "'c list list"
  metrics :: sanitizer_metrics

definition empty_metrics :: sanitizer_metrics where
  "empty_metrics = \<lparr>total_input_chars = 0, visible_chars = 0, thought_chars = 0,
     discarded_thought_chars = 0, open_tags_detected = 0, close_tags_detected = 0,
     unclosed_stream = False, unopened_close_tags = 0\<rparr>"

definition new_sanitizer :: "'c list \<Rightarrow> 'c list \<Rightarrow> int \<Rightarrow> bool \<Rightarrow> 'c sanitizer" where
  "new_sanitizer op cl mx starts_thinking =
     \<lparr>open_tag = op, close_tag = cl, max_thought_chars = mx,
      pstate = (if starts_thinking then THINKING else EMITTING), buffer = [],
      collected_thoughts = [], metrics = empty_metrics\<rparr>"

definition is_thinking :: "'c sanitizer \<Rightarrow> bool" where
  "is_thinking s \<longleftrightarrow> pstate s = THINKING"

definition get_accumulated_thoughts :: "'c sanitizer \<Rightarrow> 'c list" where
  "get_accumulated_thoughts s = concat (collected_thoughts s)"

definition upd_metrics ::
  "(sanitizer_metrics \<Rightarrow> sanitizer_metrics) \<Rightarrow> 'c sanitizer \<Rightarrow> 'c sanitizer" where
  "upd_metrics f s = s\<lparr>metrics := f (metrics s)\<rparr>"

section \<open>Operations\<close>

text \<open>
  \<open>_find_potential_prefix\<close>: the loop tries the lengths \<open>max_prefix_len, \<dots>, 1\<close> and returns at
  the first suffix of the text that is a prefix of the tag.
\<close>

fun potential_prefix_from :: "'c list \<Rightarrow> 'c list \<Rightarrow> nat \<Rightarrow> nat" where
  "potential_prefix_from s tag 0 = length s"
| "potential_prefix_from s tag (Suc n) =
     (if ends_with s (take (Suc n) tag) then length s - Suc n
      else potential_prefix_from s tag n)"

definition find_potential_prefix :: "'c list \<Rightarrow> 'c list \<Rightarrow> nat" where
  "find_potential_prefix s tag = potential_prefix_from s tag (min (length s) (length tag - 1))"

definition record_thought :: "'c sanitizer \<Rightarrow> 'c list \<Rightarrow> 'c sanitizer \<times> 'c list" where
  "record_thought s fragment =
     (let current_len = thought_chars (metrics s);
          capacity = max 0 (max_thought_chars s - int current_len);
          allowed = take (nat capacity) fragment;
          discarded = length fragment - length allowed;
          s1 = (if allowed \<noteq> []
                then upd_metrics (\<lambda>m. m\<lparr>thought_chars := thought_chars m + length allowed\<rparr>)
                       (s\<lparr>collected_thoughts := collected_thoughts s @ [allowed]\<rparr>)
                else s);
          s2 = (if discarded > 0
                then upd_metrics (\<lambda>m. m\<lparr>discarded_thought_chars :=
                       discarded_thought_chars m + discarded\<rparr>) s1
                else s1)
      in (s2, allowed))"

text \<open>
  Each consuming step returns the new state, the text still to process and the fragments
  appended to its output list.
\<close>

definition consume_emitting ::
  "'c sanitizer \<Rightarrow> 'c list \<Rightarrow> 'c list list \<Rightarrow> 'c sanitizer \<times> 'c list \<times> 'c list list" where
  "consume_emitting s t out =
     (case find_sub (open_tag s) t of
        Some idx \<Rightarrow>
          (upd_metrics (\<lambda>m. m\<lparr>open_tags_detected := open_tags_detected m + 1\<rparr>)
             (s\<lparr>pstate := THINKING\<rparr>),
           drop (idx + length (open_tag s)) t, out @ [take idx t])
      | None \<Rightarrow>
          (case find_sub (close_tag s) t of
             Some closing \<Rightarrow>
               (upd_metrics (\<lambda>m. m\<lparr>unopened_close_tags := unopened_close_tags m + 1\<rparr>) s,
                drop (closing + length (close_tag s)) t, out @ [take closing t])
           | None \<Rightarrow>
               (let cutoff = find_potential_prefix t (open_tag s)
                in if cutoff < length t
                   then (s\<lparr>buffer := drop cutoff t\<rparr>, [], out @ [take cutoff t])
                   else (s, [], out @ [t]))))"

definition consume_thinking ::
  "'c sanitizer \<Rightarrow> 'c list \<Rightarrow> 'c list list \<Rightarrow> 'c sanitizer \<times> 'c list \<times> 'c list list" where
  "consume_thinking s t out =
     (case find_sub (close_tag s) t of
        Some idx \<Rightarrow>
          (let (s1, th) = record_thought s (take idx t)
           in (upd_metrics (\<lambda>m. m\<lparr>close_tags_detected := close_tags_detected m + 1\<rparr>)
                 (s1\<lparr>pstate := EMITTING\<rparr>),
               drop (idx + length (close_tag s)) t, out @ [th]))
      | None \<Rightarrow>
          (let cutoff = find_potential_prefix t (close_tag s)
           in if cutoff < length t
              then (let (s1, th) = record_thought s (take cutoff t)
                    in (s1\<lparr>buffer := drop cutoff t\<rparr>, [], out @ [th]))
              else (let (s1, th) = record_thought s t in (s1, [], out @ [th]))))"

partial_function (option) feed_loop ::
  "'c sanitizer \<Rightarrow> 'c list \<Rightarrow> 'c list list \<Rightarrow> 'c list list \<Rightarrow>
    ('c sanitizer \<times> 'c list list \<times> 'c list list) option" where
  "feed_loop s t vis th =
     (if t = [] then Some (s, vis, th)
      else if pstate s = EMITTING
      then (case consume_emitting s t vis of (s', t', vis') \<Rightarrow> feed_loop s' t' vis' th)
      else (case consume_thinking s t th of (s', t', th') \<Rightarrow> feed_loop s' t' vis th'))"

text \<open>The loop equation by the shape of the text, which the simplifier can run.\<close>

lemma feed_loop_code [code]:
  "feed_loop s [] vis th = Some (s, vis, th)"
  "feed_loop s (x # t) vis th =
     (if pstate s = EMITTING
      then (case consume_emitting s (x # t) vis of (s', t', vis') \<Rightarrow> feed_loop s' t' vis' th)
      else (case consume_thinking s (x # t) th of (s', t', th') \<Rightarrow> feed_loop s' t' vis th'))"
  by (subst feed_loop.simps; simp)+

definition feed :: "'c sanitizer \<Rightarrow> 'c list \<Rightarrow> ('c sanitizer \<times> 'c stream_chunk_result) option" where
  "feed s chunk =
     (if chunk = []
      then Some (s, \<lparr>visible_chunk = [], thought_chunk = [], is_thinking_chunk = is_thinking s\<rparr>)
      else
        (let s0 = upd_metrics (\<lambda>m. m\<lparr>total_input_chars := total_input_chars m + length chunk\<rparr>) s
         in case feed_loop (s0\<lparr>buffer := []\<rparr>) (buffer s @ chunk) [] [] of
              None \<Rightarrow> None
            | Some (s1, vis, th) \<Rightarrow>
                (let vis_str = concat vis; th_str = concat th;
                     s2 = upd_metrics (\<lambda>m. m\<lparr>visible_chars := visible_chars m + length vis_str\<rparr>) s1
                 in Some (s2, \<lparr>visible_chunk = vis_str, thought_chunk = th_str,
                               is_thinking_chunk = is_thinking s2\<rparr>))))"

definition flush :: "'c sanitizer \<Rightarrow> 'c sanitizer \<times> 'c stream_chunk_result" where
  "flush s =
     (let remaining = buffer s; s0 = s\<lparr>buffer := []\<rparr>
      in if pstate s0 = THINKING
         then (let s1 = upd_metrics (\<lambda>m. m\<lparr>unclosed_stream := True\<rparr>) s0;
                   (s2, frag) = (if remaining \<noteq> [] then record_thought s1 remaining else (s1, []))
               in (s2, \<lparr>visible_chunk = [], thought_chunk = frag, is_thinking_chunk = True\<rparr>))
         else (let s1 = (if remaining \<noteq> []
                         then upd_metrics (\<lambda>m. m\<lparr>visible_chars := visible_chars m + length remaining\<rparr>) s0
                         else s0)
               in (s1, \<lparr>visible_chunk = remaining, thought_chunk = [], is_thinking_chunk = False\<rparr>)))"

fun feed_all :: "'c sanitizer \<Rightarrow> 'c list list \<Rightarrow> 'c list list \<Rightarrow>
    ('c sanitizer \<times> 'c list list) option" where
  "feed_all s [] frags = Some (s, frags)"
| "feed_all s (c # cs) frags =
     (case feed s c of
        None \<Rightarrow> None
      | Some (s', res) \<Rightarrow>
          feed_all s' cs (if visible_chunk res \<noteq> [] then frags @ [visible_chunk res] else frags))"

definition sanitize_reasoning_stream ::
  "'c list list \<Rightarrow> 'c list \<times> 'c list \<Rightarrow> int \<Rightarrow> bool \<Rightarrow>
    ('c list \<times> 'c list \<times> sanitizer_metrics) option" where
  "sanitize_reasoning_stream chunks tags mx starts_thinking =
     (case feed_all (new_sanitizer (fst tags) (snd tags) mx starts_thinking) chunks [] of
        None \<Rightarrow> None
      | Some (s, frags) \<Rightarrow>
          (let (s', res) = flush s;
               frags' = (if visible_chunk res \<noteq> [] then frags @ [visible_chunk res] else frags)
           in Some (concat frags', get_accumulated_thoughts s', metrics s')))"

definition DEFAULT_OPEN_TAG :: string where "DEFAULT_OPEN_TAG = ''<think>''"
definition DEFAULT_CLOSE_TAG :: string where "DEFAULT_CLOSE_TAG = ''</think>''"
definition DEFAULT_MAX_THOUGHT_CHARS :: int where "DEFAULT_MAX_THOUGHT_CHARS = 65536"

section \<open>The held back suffix is a sound cut\<close>

lemma potential_prefix_from_le: "potential_prefix_from s tag n \<le> length s"
  by (induction n) auto

lemma potential_prefix_from_keeps:
  assumes "length s - n \<le> i" and "i < potential_prefix_from s tag n" and "n \<le> length tag"
    "n \<le> length s"
  shows "\<not> prefix (drop i s) tag"
  using assms
proof (induction n)
  case 0
  then show ?case by simp
next
  case (Suc n)
  have no: "\<not> ends_with s (take (Suc n) tag)"
  proof
    assume "ends_with s (take (Suc n) tag)"
    with Suc.prems show False by simp
  qed
  show ?case
  proof (cases "i = length s - Suc n")
    case True
    show ?thesis
    proof
      assume pre: "prefix (drop i s) tag"
      have len: "length (drop i s) = Suc n" using True Suc.prems by simp
      from pre len have "drop i s = take (Suc n) tag"
        by (metis append_eq_conv_conj prefix_def)
      then have "ends_with s (take (Suc n) tag)"
        unfolding ends_with_def by (metis suffix_drop)
      with no show False by simp
    qed
  next
    case False
    then have "length s - n \<le> i" using Suc.prems(1) by linarith
    then show ?thesis using Suc.IH Suc.prems no by simp
  qed
qed

lemma potential_prefix_from_short:
  "n \<le> length tag - 1 \<Longrightarrow> drop (potential_prefix_from s tag n) s \<noteq> [] \<Longrightarrow>
    strict_prefix (drop (potential_prefix_from s tag n) s) tag"
proof (induction n)
  case 0
  then show ?case by simp
next
  case (Suc n)
  show ?case
  proof (cases "ends_with s (take (Suc n) tag)")
    case True
    then obtain us where us: "s = us @ take (Suc n) tag"
      by (auto simp: ends_with_def suffix_def)
    have len: "length (take (Suc n) tag) = Suc n" using Suc.prems by simp
    have "drop (length s - Suc n) s = take (Suc n) tag"
      using us len by simp
    moreover have "strict_prefix (take (Suc n) tag) tag"
      using Suc.prems len by (metis append_take_drop_id diff_less length_greater_0_conv
          less_le_trans less_numeral_extra(1) linorder_not_less list.size(3) not_less_eq_eq
          prefixI strict_prefix_def take_all_iff zero_less_Suc)
    ultimately show ?thesis using True by simp
  next
    case False
    then show ?thesis using Suc by simp
  qed
qed

interpretation held_back: stream_cut find_potential_prefix
proof unfold_locales
  fix s tag :: "'c list" and i
  show "find_potential_prefix s tag \<le> length s"
    by (simp add: find_potential_prefix_def potential_prefix_from_le)
  show "drop (find_potential_prefix s tag) s \<noteq> [] \<Longrightarrow>
      strict_prefix (drop (find_potential_prefix s tag) s) tag"
    unfolding find_potential_prefix_def by (rule potential_prefix_from_short) auto
  assume none: "find_sub tag s = None" and i: "i < find_potential_prefix s tag"
  show "\<not> prefix (drop i s) tag"
  proof (cases "length s - min (length s) (length tag - 1) \<le> i")
    case True
    then show ?thesis
      using i unfolding find_potential_prefix_def
      by (rule potential_prefix_from_keeps) auto
  next
    case False
    show ?thesis
    proof
      assume pre: "prefix (drop i s) tag"
      then have "length (drop i s) \<le> length tag" by (rule prefix_length_le)
      with False have "length (drop i s) = length tag" by simp
      with pre have "drop i s = tag"
        by (metis append_eq_conv_conj prefix_def take_all_iff order_refl)
      with none i show False
        using find_sub_None_occurs [of tag s i] False by (auto simp: occurs_at_def)
    qed
  qed
qed

section \<open>A rule for the loop\<close>

text \<open>
  Whatever both consuming steps keep holds when the loop returns: the Hoare rule of the
  \<open>while text\<close> loop, for partial correctness.
\<close>

lemma feed_loop_rule:
  assumes ret: "feed_loop s t vis th = Some (s', vis', th')"
    and start: "I s t vis th"
    and emit: "\<And>s t vis th s' t' vis'. I s t vis th \<Longrightarrow> t \<noteq> [] \<Longrightarrow> pstate s = EMITTING \<Longrightarrow>
      consume_emitting s t vis = (s', t', vis') \<Longrightarrow> I s' t' vis' th"
    and think: "\<And>s t vis th s' t' th'. I s t vis th \<Longrightarrow> t \<noteq> [] \<Longrightarrow> pstate s = THINKING \<Longrightarrow>
      consume_thinking s t th = (s', t', th') \<Longrightarrow> I s' t' vis th'"
  shows "I s' [] vis' th'"
proof -
  have "I s t vis th \<longrightarrow> (case (s', vis', th') of (s', vis', th') \<Rightarrow> I s' [] vis' th')"
  proof (rule feed_loop.raw_induct [where P = "\<lambda>s t vis th r.
      I s t vis th \<longrightarrow> (case r of (s', vis', th') \<Rightarrow> I s' [] vis' th')", OF _ ret])
    fix f s t vis th r
    assume IH: "\<And>s t vis th r. f s t vis th = Some r \<Longrightarrow>
        I s t vis th \<longrightarrow> (case r of (s', vis', th') \<Rightarrow> I s' [] vis' th')"
      and eq: "(if t = [] then Some (s, vis, th)
        else if pstate s = EMITTING
        then (case consume_emitting s t vis of (s', t', vis') \<Rightarrow> f s' t' vis' th)
        else (case consume_thinking s t th of (s', t', th') \<Rightarrow> f s' t' vis th')) = Some r"
    show "I s t vis th \<longrightarrow> (case r of (s', vis', th') \<Rightarrow> I s' [] vis' th')"
    proof
      assume inv: "I s t vis th"
      obtain se te ve where e: "consume_emitting s t vis = (se, te, ve)" by (metis prod_cases3)
      obtain sk tk hk where k: "consume_thinking s t th = (sk, tk, hk)" by (metis prod_cases3)
      show "case r of (s', vis', th') \<Rightarrow> I s' [] vis' th'"
        using inv eq e k IH [of se te ve th] IH [of sk tk vis hk]
          emit [OF inv _ _ e] think [OF inv _ _ k]
        by (cases "t = []"; cases "pstate s") auto
    qed
  qed
  with start show ?thesis by simp
qed

lemma upd_metrics_simps [simp]:
  "open_tag (upd_metrics f s) = open_tag s" "close_tag (upd_metrics f s) = close_tag s"
  "max_thought_chars (upd_metrics f s) = max_thought_chars s"
  "pstate (upd_metrics f s) = pstate s" "buffer (upd_metrics f s) = buffer s"
  "collected_thoughts (upd_metrics f s) = collected_thoughts s"
  "metrics (upd_metrics f s) = f (metrics s)"
  by (simp_all add: upd_metrics_def)

text \<open>What \<open>record_thought\<close> leaves alone, stated over its result so that the simplifier uses it.\<close>

lemma record_thought_frame [simp]:
  "open_tag (fst (record_thought s f)) = open_tag s"
  "close_tag (fst (record_thought s f)) = close_tag s"
  "max_thought_chars (fst (record_thought s f)) = max_thought_chars s"
  "pstate (fst (record_thought s f)) = pstate s"
  "buffer (fst (record_thought s f)) = buffer s"
  "total_input_chars (metrics (fst (record_thought s f))) = total_input_chars (metrics s)"
  "visible_chars (metrics (fst (record_thought s f))) = visible_chars (metrics s)"
  "open_tags_detected (metrics (fst (record_thought s f))) = open_tags_detected (metrics s)"
  "close_tags_detected (metrics (fst (record_thought s f))) = close_tags_detected (metrics s)"
  "unclosed_stream (metrics (fst (record_thought s f))) = unclosed_stream (metrics s)"
  "unopened_close_tags (metrics (fst (record_thought s f))) = unopened_close_tags (metrics s)"
  by (simp_all add: record_thought_def Let_def)

lemma record_thought_count [simp]:
  "thought_chars (metrics (fst (record_thought s f)))
     + discarded_thought_chars (metrics (fst (record_thought s f))) =
   thought_chars (metrics s) + discarded_thought_chars (metrics s) + length f"
  by (simp add: record_thought_def Let_def)

section \<open>Conservation of characters and the bound on thoughts\<close>

text \<open>Every character read that was not emitted as visible text, by where it went.\<close>

definition not_visible :: "'c sanitizer \<Rightarrow> nat" where
  "not_visible s =
     thought_chars (metrics s) + discarded_thought_chars (metrics s)
     + length (open_tag s) * open_tags_detected (metrics s)
     + length (close_tag s) * (close_tags_detected (metrics s) + unopened_close_tags (metrics s))
     + length (buffer s)"

definition chars_conserved :: "'c sanitizer \<Rightarrow> bool" where
  "chars_conserved s \<longleftrightarrow>
     total_input_chars (metrics s) = visible_chars (metrics s) + not_visible s"

definition thoughts_bounded :: "'c sanitizer \<Rightarrow> bool" where
  "thoughts_bounded s \<longleftrightarrow>
     thought_chars (metrics s) = length (get_accumulated_thoughts s)
     \<and> int (thought_chars (metrics s)) \<le> max 0 (max_thought_chars s)"

lemma record_thought_bounded: "thoughts_bounded s \<Longrightarrow> thoughts_bounded (fst (record_thought s f))"
  by (auto simp: record_thought_def Let_def thoughts_bounded_def get_accumulated_thoughts_def)

lemma record_thought_not_visible: "not_visible (fst (record_thought s f)) = not_visible s + length f"
  by (simp add: not_visible_def)

lemma not_visible_upd [simp]:
  "not_visible (s\<lparr>pstate := p\<rparr>) = not_visible s"
  "buffer s = [] \<Longrightarrow> not_visible (s\<lparr>buffer := b\<rparr>) = not_visible s + length b"
  by (simp_all add: not_visible_def)

lemma thoughts_bounded_upd [simp]:
  "thoughts_bounded (s\<lparr>pstate := p\<rparr>) = thoughts_bounded s"
  "thoughts_bounded (s\<lparr>buffer := b\<rparr>) = thoughts_bounded s"
  by (simp_all add: thoughts_bounded_def get_accumulated_thoughts_def)

lemma find_sub_length_split:
  assumes "find_sub pat t = Some i"
  shows "length (take i t) + length pat + length (drop (i + length pat) t) = length t"
  using find_sub_bound [OF assms] by simp

lemma consume_emitting_conserves:
  assumes "consume_emitting s t vis = (s', t', vis')" and "buffer s = []"
  shows "not_visible s' + length (concat vis') + length t' =
      not_visible s + length (concat vis) + length t"
    and "total_input_chars (metrics s') = total_input_chars (metrics s)"
    and "visible_chars (metrics s') = visible_chars (metrics s)"
    and "t' = [] \<or> buffer s' = []"
    and "thoughts_bounded s \<Longrightarrow> thoughts_bounded s'"
  using assms
  by (auto simp: consume_emitting_def Let_def not_visible_def thoughts_bounded_def
      get_accumulated_thoughts_def algebra_simps split: option.splits if_splits
      dest!: find_sub_length_split)

lemma consume_thinking_conserves:
  assumes "consume_thinking s t th = (s', t', th')" and "buffer s = []"
  shows "not_visible s' + length t' = not_visible s + length t"
    and "total_input_chars (metrics s') = total_input_chars (metrics s)"
    and "visible_chars (metrics s') = visible_chars (metrics s)"
    and "t' = [] \<or> buffer s' = []"
    and "thoughts_bounded s \<Longrightarrow> thoughts_bounded s'"
proof -
  have close: "not_visible (upd_metrics
      (\<lambda>m. m\<lparr>close_tags_detected := Suc (close_tags_detected m)\<rparr>) x) =
      not_visible x + length (close_tag x)"
    "thoughts_bounded (upd_metrics
      (\<lambda>m. m\<lparr>close_tags_detected := Suc (close_tags_detected m)\<rparr>) x) = thoughts_bounded x"
    for x :: "'a sanitizer"
    by (simp_all add: not_visible_def thoughts_bounded_def get_accumulated_thoughts_def)
  note unfold = consume_thinking_def Let_def case_prod_beta close record_thought_not_visible
    record_thought_bounded
  show "not_visible s' + length t' = not_visible s + length t"
    using assms
    by (auto simp: unfold split: option.splits if_splits dest!: find_sub_length_split)
  show "total_input_chars (metrics s') = total_input_chars (metrics s)"
    "visible_chars (metrics s') = visible_chars (metrics s)"
    "t' = [] \<or> buffer s' = []"
    using assms by (auto simp: unfold split: option.splits if_splits)
  show "thoughts_bounded s'" if "thoughts_bounded s"
    using assms that by (auto simp: unfold simp del: upd_metrics_simps split: option.splits if_splits)
qed

lemma feed_loop_conserves:
  assumes "feed_loop s t [] [] = Some (s', vis', th')" and "buffer s = []" and "thoughts_bounded s"
  shows "not_visible s' + length (concat vis') = not_visible s + length t
    \<and> total_input_chars (metrics s') = total_input_chars (metrics s)
    \<and> visible_chars (metrics s') = visible_chars (metrics s) \<and> thoughts_bounded s'"
proof -
  let ?I = "\<lambda>(s1 :: 'a sanitizer) (t1 :: 'a list) (vis1 :: 'a list list) (th1 :: 'a list list).
      not_visible s1 + length (concat vis1) + length t1 = not_visible s + length t
      \<and> total_input_chars (metrics s1) = total_input_chars (metrics s)
      \<and> visible_chars (metrics s1) = visible_chars (metrics s) \<and> thoughts_bounded s1
      \<and> (t1 = [] \<or> buffer s1 = [])"
  have "?I s' [] vis' th'"
    using assms(1)
    by (rule feed_loop_rule [where I = ?I])
      (use assms in \<open>auto dest: consume_emitting_conserves consume_thinking_conserves\<close>)
  then show ?thesis by simp
qed

lemma feed_conserves:
  assumes "feed s c = Some (s', r)" and "chars_conserved s" and "thoughts_bounded s"
  shows "chars_conserved s' \<and> thoughts_bounded s'
    \<and> total_input_chars (metrics s') = total_input_chars (metrics s) + length c"
proof (cases "c = []")
  case True
  with assms show ?thesis by (simp add: feed_def)
next
  case False
  let ?s0 = "upd_metrics (\<lambda>m. m\<lparr>total_input_chars := total_input_chars m + length c\<rparr>) s\<lparr>buffer := []\<rparr>"
  from assms(1) False obtain s1 vis th where
    loop: "feed_loop ?s0 (buffer s @ c) [] [] = Some (s1, vis, th)"
    and s': "s' = upd_metrics (\<lambda>m. m\<lparr>visible_chars := visible_chars m + length (concat vis)\<rparr>) s1"
    by (auto simp: feed_def Let_def split: option.splits)
  have nv: "not_visible ?s0 + length (buffer s) = not_visible s" "thoughts_bounded ?s0"
    using assms(3) by (simp_all add: not_visible_def thoughts_bounded_def get_accumulated_thoughts_def)
  have "not_visible s' = not_visible s1" "thoughts_bounded s' = thoughts_bounded s1"
    unfolding s' by (simp_all add: not_visible_def thoughts_bounded_def get_accumulated_thoughts_def)
  then show ?thesis
    using feed_loop_conserves [OF loop] nv assms(2) s' by (simp add: chars_conserved_def)
qed

lemma feed_all_conserves:
  "feed_all s cs frags = Some (s', frags') \<Longrightarrow> chars_conserved s \<Longrightarrow> thoughts_bounded s \<Longrightarrow>
    chars_conserved s' \<and> thoughts_bounded s'
    \<and> total_input_chars (metrics s') = total_input_chars (metrics s) + length (concat cs)"
  by (induction s cs frags rule: feed_all.induct)
    (fastforce split: option.splits dest: feed_conserves)+

lemma flush_conserves:
  assumes "flush s = (s', r)" and "chars_conserved s" and "thoughts_bounded s"
  shows "chars_conserved s' \<and> thoughts_bounded s' \<and> buffer s' = []
    \<and> total_input_chars (metrics s') = total_input_chars (metrics s)"
proof -
  have bnd: "thoughts_bounded (upd_metrics (\<lambda>m. m\<lparr>unclosed_stream := u\<rparr>) x) = thoughts_bounded x"
    "thoughts_bounded (upd_metrics (\<lambda>m. m\<lparr>visible_chars := visible_chars m + n\<rparr>) x) = thoughts_bounded x"
    for u n and x :: "'a sanitizer"
    by (simp_all add: thoughts_bounded_def get_accumulated_thoughts_def)
  have "thoughts_bounded s'"
    using assms by (auto simp: flush_def Let_def case_prod_beta bnd record_thought_bounded
        simp del: upd_metrics_simps split: if_splits)
  moreover have "chars_conserved s' \<and> buffer s' = []
      \<and> total_input_chars (metrics s') = total_input_chars (metrics s)"
    using assms(1,2) by (auto simp: flush_def Let_def case_prod_beta chars_conserved_def not_visible_def
        record_thought_count [simplified add.commute] split: if_splits)
  ultimately show ?thesis by simp
qed

end
