(* ===== verification/Sanitizer_Spec.thy ===== *)
theory Sanitizer_Spec
  imports Sanitizer
begin

text \<open>
  What the streaming sanitizer promises, as a function of the whole stream, and the refinement
  proof: for non-empty tags the chunked parser computes exactly that function, however the stream
  is cut, when no close tag is met while emitting. Also here: when the loop ends, and when it hangs.
\<close>

section \<open>Termination of the loop\<close>

definition text_measure :: "'c sanitizer \<Rightarrow> 'c list \<Rightarrow> nat" where
  "text_measure s t = 2 * length t + (if pstate s = EMITTING then 1 else 0)"

lemma consume_emitting_decreases:
  assumes "consume_emitting s t vis = (s', t', vis')" "t \<noteq> []" "pstate s = EMITTING"
    "close_tag s \<noteq> []"
  shows "text_measure s' t' < text_measure s t \<and> close_tag s' = close_tag s"
  using assms
  by (auto simp: consume_emitting_def Let_def text_measure_def split: option.splits if_splits
      dest!: find_sub_length_split)

lemma consume_thinking_decreases:
  assumes "consume_thinking s t th = (s', t', th')" "t \<noteq> []" "pstate s = THINKING"
    "close_tag s \<noteq> []"
  shows "text_measure s' t' < text_measure s t \<and> close_tag s' = close_tag s"
proof (cases "find_sub (close_tag s) t")
  case None
  with assms show ?thesis
    by (auto simp: consume_thinking_def Let_def case_prod_beta text_measure_def split: if_splits)
next
  case (Some i)
  from find_sub_progress [OF Some assms(4)]
  have "Suc (2 * length (drop (i + length (close_tag s)) t)) < 2 * length t" by linarith
  with Some assms show ?thesis
    by (auto simp: consume_thinking_def Let_def case_prod_beta text_measure_def)
qed

lemma feed_loop_terminates:
  "close_tag s \<noteq> [] \<Longrightarrow> \<exists>r. feed_loop s t vis th = Some r"
proof (induction "text_measure s t" arbitrary: s t vis th rule: less_induct)
  case less
  obtain se te ve where e: "consume_emitting s t vis = (se, te, ve)" by (metis prod_cases3)
  obtain sk tk hk where k: "consume_thinking s t th = (sk, tk, hk)" by (metis prod_cases3)
  show ?case
  proof (cases "t = []")
    case True
    then show ?thesis by (simp add: feed_loop.simps)
  next
    case False
    then show ?thesis
      using less e k consume_emitting_decreases [OF e] consume_thinking_decreases [OF k]
      by (subst feed_loop.simps) (cases "pstate s"; simp)
  qed
qed

lemma feed_loop_frame:
  assumes "feed_loop s t vis th = Some (s', vis', th')"
  shows "open_tag s' = open_tag s \<and> close_tag s' = close_tag s
    \<and> max_thought_chars s' = max_thought_chars s"
proof -
  let ?I = "\<lambda>(s1 :: 'a sanitizer) (t1 :: 'a list) (v :: 'a list list) (h :: 'a list list).
    open_tag s1 = open_tag s \<and> close_tag s1 = close_tag s
    \<and> max_thought_chars s1 = max_thought_chars s"
  show ?thesis
    by (rule feed_loop_rule [where I = ?I, OF assms])
      (auto simp: consume_emitting_def consume_thinking_def Let_def case_prod_beta
        split: option.splits if_splits)
qed

lemma feed_frame:
  assumes "feed s c = Some (s', r)"
  shows "open_tag s' = open_tag s \<and> close_tag s' = close_tag s
    \<and> max_thought_chars s' = max_thought_chars s"
  using assms by (auto simp: feed_def Let_def split: if_splits option.splits dest!: feed_loop_frame)

lemma feed_terminates:
  assumes "close_tag s \<noteq> []"
  shows "\<exists>r. feed s c = Some r"
proof (cases "c = []")
  case False
  let ?s0 = "upd_metrics (\<lambda>m. m\<lparr>total_input_chars := total_input_chars m + length c\<rparr>) s\<lparr>buffer := []\<rparr>"
  have "\<exists>r. feed_loop ?s0 (buffer s @ c) [] [] = Some r"
    by (rule feed_loop_terminates) (simp add: assms)
  then obtain s1 v h where "feed_loop ?s0 (buffer s @ c) [] [] = Some (s1, v, h)"
    by (metis prod_cases3)
  with False show ?thesis by (simp add: feed_def Let_def)
qed (simp add: feed_def)

lemma feed_all_terminates: "close_tag s \<noteq> [] \<Longrightarrow> \<exists>r. feed_all s cs frags = Some r"
proof (induction cs arbitrary: s frags)
  case (Cons c cs)
  obtain s' r where f: "feed s c = Some (s', r)"
    using feed_terminates [OF Cons.prems] by (metis prod.exhaust)
  with Cons show ?case using feed_frame [OF f] by simp
qed simp

text \<open>With an empty close tag the emitting step makes no progress, so the loop never returns.\<close>

lemma feed_loop_diverges:
  assumes "close_tag s = []" "pstate s = EMITTING" "t \<noteq> []" "find_sub (open_tag s) t = None"
  shows "feed_loop s t vis th = None"
proof (rule ccontr)
  assume "feed_loop s t vis th \<noteq> None"
  then obtain s' vis' th' where ret: "feed_loop s t vis th = Some (s', vis', th')" by auto
  let ?I = "\<lambda>(s1 :: 'a sanitizer) (t1 :: 'a list) (v :: 'a list list) (h :: 'a list list).
    close_tag s1 = [] \<and> open_tag s1 = open_tag s \<and> pstate s1 = EMITTING \<and> t1 = t"
  have "?I s' [] vis' th'"
    by (rule feed_loop_rule [where I = ?I, OF ret])
      (use assms in \<open>auto simp: consume_emitting_def\<close>)
  with assms(3) show False by simp
qed

section \<open>The function of the whole stream\<close>

text \<open>
  Visible text, raw thoughts and the final state of a stream that starts in the given state,
  for non-empty tags (the recursion stops at an empty tag).
\<close>

function spec_split ::
  "'c list \<Rightarrow> 'c list \<Rightarrow> parser_state \<Rightarrow> 'c list \<Rightarrow> 'c list \<times> 'c list \<times> parser_state" where
  "spec_split op cl EMITTING t =
     (case (if op = [] then None else find_sub op t) of
        None \<Rightarrow> (t, [], EMITTING)
      | Some i \<Rightarrow> (case spec_split op cl THINKING (drop (i + length op) t) of
                     (v, h, e) \<Rightarrow> (take i t @ v, h, e)))"
| "spec_split op cl THINKING t =
     (case (if cl = [] then None else find_sub cl t) of
        None \<Rightarrow> ([], t, THINKING)
      | Some i \<Rightarrow> (case spec_split op cl EMITTING (drop (i + length cl) t) of
                     (v, h, e) \<Rightarrow> (v, take i t @ h, e)))"
  by pat_completeness auto
termination
  by (relation "measure (\<lambda>(op, cl, st, t). length t)")
    (auto split: if_splits dest: find_sub_progress)

text \<open>No close tag is met while emitting: neither inside a visible segment nor across the
  beginning of the open tag that ends it.\<close>

function no_stray_close :: "'c list \<Rightarrow> 'c list \<Rightarrow> parser_state \<Rightarrow> 'c list \<Rightarrow> bool" where
  "no_stray_close op cl EMITTING t =
     (case (if op = [] then None else find_sub op t) of
        None \<Rightarrow> \<not> contains_sub cl t
      | Some i \<Rightarrow> \<not> contains_sub cl (take i t @ butlast op)
                  \<and> no_stray_close op cl THINKING (drop (i + length op) t))"
| "no_stray_close op cl THINKING t =
     (case (if cl = [] then None else find_sub cl t) of
        None \<Rightarrow> True
      | Some i \<Rightarrow> no_stray_close op cl EMITTING (drop (i + length cl) t))"
  by pat_completeness auto
termination
  by (relation "measure (\<lambda>(op, cl, st, t). length t)")
    (auto split: if_splits dest: find_sub_progress)

declare spec_split.simps [simp del] no_stray_close.simps [simp del]

text \<open>The equations with the search decided, as the proofs use them.\<close>

named_theorems scan_simps \<open>one step of the whole-stream functions\<close>

lemma spec_split_emitting [scan_simps]:
  "find_sub op t = None \<Longrightarrow> spec_split op cl EMITTING t = (t, [], EMITTING)"
  "find_sub op t = Some i \<Longrightarrow> op \<noteq> [] \<Longrightarrow> spec_split op cl EMITTING t =
     (case spec_split op cl THINKING (drop (i + length op) t) of (v, h, e) \<Rightarrow> (take i t @ v, h, e))"
  by (simp_all add: spec_split.simps(1))

lemma spec_split_thinking [scan_simps]:
  "find_sub cl t = None \<Longrightarrow> spec_split op cl THINKING t = ([], t, THINKING)"
  "find_sub cl t = Some i \<Longrightarrow> cl \<noteq> [] \<Longrightarrow> spec_split op cl THINKING t =
     (case spec_split op cl EMITTING (drop (i + length cl) t) of (v, h, e) \<Rightarrow> (v, take i t @ h, e))"
  by (simp_all add: spec_split.simps(2))

lemma no_stray_emitting [scan_simps]:
  "find_sub op t = None \<Longrightarrow> no_stray_close op cl EMITTING t = (\<not> contains_sub cl t)"
  "find_sub op t = Some i \<Longrightarrow> op \<noteq> [] \<Longrightarrow> no_stray_close op cl EMITTING t =
     (\<not> contains_sub cl (take i t @ butlast op)
      \<and> no_stray_close op cl THINKING (drop (i + length op) t))"
  by (simp_all add: no_stray_close.simps(1))

lemma no_stray_thinking [scan_simps]:
  "find_sub cl t = None \<Longrightarrow> no_stray_close op cl THINKING t"
  "find_sub cl t = Some i \<Longrightarrow> cl \<noteq> [] \<Longrightarrow> no_stray_close op cl THINKING t =
     no_stray_close op cl EMITTING (drop (i + length cl) t)"
  by (simp_all add: no_stray_close.simps(2))

text \<open>
  Text without the awaited tag, cut where the tag could still begin: the part before the cut goes
  to the output of the state, the scan continues from the cut.
\<close>

lemma cut_scan:
  fixes t rest tag :: "'c list"
  assumes none: "find_sub tag t = None"
  defines "c \<equiv> find_potential_prefix t tag"
  obtains w where "w = drop c t @ rest" "t @ rest = take c t @ w"
    "find_sub tag (t @ rest) = map_option (\<lambda>i. c + i) (find_sub tag w)"
    "\<And>n. drop (c + n) (t @ rest) = drop n w" "\<And>n. take (c + n) (t @ rest) = take c t @ take n w"
proof
  have c_le: "c \<le> length t" unfolding c_def by (rule held_back.cut_le)
  show "t @ rest = take c t @ (drop c t @ rest)" by simp
  show "find_sub tag (t @ rest) = map_option (\<lambda>i. c + i) (find_sub tag (drop c t @ rest))"
    using held_back.search_from_cut [OF none, of rest] by (simp add: c_def)
  show "drop (c + n) (t @ rest) = drop n (drop c t @ rest)" for n
    using c_le by (simp add: add.commute)
  have "take c (t @ rest) = take c t" "drop c (t @ rest) = drop c t @ rest"
    using c_le by simp_all
  then show "take (c + n) (t @ rest) = take c t @ take n (drop c t @ rest)" for n
    by (simp only: take_add)
qed simp

lemma spec_split_cut_emitting:
  assumes none: "find_sub op t = None" and op: "op \<noteq> []"
    and b: "spec_split op cl EMITTING (drop (find_potential_prefix t op) t @ rest) = (v, h, e)"
  shows "spec_split op cl EMITTING (t @ rest) =
    (take (find_potential_prefix t op) t @ v, h, e)"
proof -
  define c where "c = find_potential_prefix t op"
  obtain w where w: "w = drop c t @ rest" "t @ rest = take c t @ w"
    "find_sub op (t @ rest) = map_option (\<lambda>i. c + i) (find_sub op w)"
    "\<And>n. drop (c + n) (t @ rest) = drop n w" "\<And>n. take (c + n) (t @ rest) = take c t @ take n w"
    using cut_scan [OF none, of rest] c_def by metis
  have b: "spec_split op cl EMITTING w = (v, h, e)" using b by (simp add: w(1) c_def)
  show ?thesis
  proof (cases "find_sub op w")
    case None
    with b w(2,3) show ?thesis by (simp add: scan_simps c_def)
  next
    case (Some i)
    with b op w(3) w(4) [of "i + length op"] w(5) [of i] show ?thesis
      by (auto simp: scan_simps c_def add.assoc split: prod.splits)
  qed
qed

lemma spec_split_cut_thinking:
  assumes none: "find_sub cl t = None" and cl: "cl \<noteq> []"
    and b: "spec_split op cl THINKING (drop (find_potential_prefix t cl) t @ rest) = (v, h, e)"
  shows "spec_split op cl THINKING (t @ rest) =
    (v, take (find_potential_prefix t cl) t @ h, e)"
proof -
  define c where "c = find_potential_prefix t cl"
  obtain w where w: "w = drop c t @ rest" "t @ rest = take c t @ w"
    "find_sub cl (t @ rest) = map_option (\<lambda>i. c + i) (find_sub cl w)"
    "\<And>n. drop (c + n) (t @ rest) = drop n w" "\<And>n. take (c + n) (t @ rest) = take c t @ take n w"
    using cut_scan [OF none, of rest] c_def by metis
  have b: "spec_split op cl THINKING w = (v, h, e)" using b by (simp add: w(1) c_def)
  show ?thesis
  proof (cases "find_sub cl w")
    case None
    with b w(2,3) show ?thesis by (simp add: scan_simps c_def)
  next
    case (Some i)
    with b cl w(3) w(4) [of "i + length cl"] w(5) [of i] show ?thesis
      by (auto simp: scan_simps c_def add.assoc split: prod.splits)
  qed
qed

lemma no_stray_cut_emitting:
  assumes none: "find_sub op t = None" and op: "op \<noteq> []"
    and n: "no_stray_close op cl EMITTING (t @ rest)"
  shows "no_stray_close op cl EMITTING (drop (find_potential_prefix t op) t @ rest)"
proof -
  define c where "c = find_potential_prefix t op"
  obtain w where w: "w = drop c t @ rest" "t @ rest = take c t @ w"
    "find_sub op (t @ rest) = map_option (\<lambda>i. c + i) (find_sub op w)"
    "\<And>n. drop (c + n) (t @ rest) = drop n w" "\<And>n. take (c + n) (t @ rest) = take c t @ take n w"
    using cut_scan [OF none, of rest] c_def by metis
  have "no_stray_close op cl EMITTING w"
  proof (cases "find_sub op w")
    case None
    with n w(2,3) show ?thesis by (auto simp: scan_simps dest: not_contains_suffix)
  next
    case (Some i)
    then have at: "find_sub op (t @ rest) = Some (c + i)" by (simp add: w(3))
    from n [unfolded no_stray_emitting(2) [OF at op]]
    have "\<not> contains_sub cl (take c t @ take i w @ butlast op)"
      "no_stray_close op cl THINKING (drop (i + length op) w)"
      by (simp_all only: w(4,5) add.assoc append_assoc simp_thms)
    then show ?thesis
      using Some op by (simp add: scan_simps not_contains_suffix)
  qed
  then show ?thesis by (simp add: w(1) c_def)
qed

lemma no_stray_cut_thinking:
  assumes none: "find_sub cl t = None" and cl: "cl \<noteq> []"
    and n: "no_stray_close op cl THINKING (t @ rest)"
  shows "no_stray_close op cl THINKING (drop (find_potential_prefix t cl) t @ rest)"
proof -
  define c where "c = find_potential_prefix t cl"
  obtain w where w: "w = drop c t @ rest" "t @ rest = take c t @ w"
    "find_sub cl (t @ rest) = map_option (\<lambda>i. c + i) (find_sub cl w)"
    "\<And>n. drop (c + n) (t @ rest) = drop n w" "\<And>n. take (c + n) (t @ rest) = take c t @ take n w"
    using cut_scan [OF none, of rest] c_def by metis
  have "no_stray_close op cl THINKING w"
  proof (cases "find_sub cl w")
    case None
    then show ?thesis by (simp add: scan_simps)
  next
    case (Some i)
    with n cl w(3) w(4) [of "i + length cl"] show ?thesis by (simp add: scan_simps add.assoc)
  qed
  then show ?thesis by (simp add: w(1) c_def)
qed

lemma no_stray_chunk:
  assumes "no_stray_close op cl EMITTING (t @ rest)" "find_sub op t = None" "op \<noteq> []"
  shows "find_sub cl t = None"
proof -
  have "\<not> contains_sub cl t"
  proof (cases "find_sub op (t @ rest)")
    case None
    with assms show ?thesis by (auto simp: scan_simps dest: not_contains_prefix)
  next
    case (Some i)
    with assms have no: "\<not> contains_sub cl (take i (t @ rest) @ butlast op)"
      by (simp add: scan_simps)
    have "t @ rest = take i (t @ rest) @ op @ drop (i + length op) (t @ rest)"
      by (rule find_sub_split [OF Some])
    moreover have "length t < i + length op"
    proof (rule ccontr)
      assume "\<not> length t < i + length op"
      then have "occurs_at op t i"
        using find_sub_Some_occurs [OF Some] by (simp add: occurs_at_append)
      with assms(2) show False by (simp add: find_sub_None_occurs)
    qed
    moreover have "i + length op \<le> length (t @ rest)" by (rule find_sub_bound [OF Some])
    ultimately have "prefix (take i (t @ rest) @ butlast op) (t @ rest)"
      "length t \<le> length (take i (t @ rest) @ butlast op)"
      using assms(3) by (metis append_assoc append_butlast_last_id prefixI, simp)
    then have "prefix t (take i (t @ rest) @ butlast op)"
      using prefix_length_prefix [of t "t @ rest"] by simp
    then show ?thesis using no not_contains_prefix by (metis prefix_def)
  qed
  then show ?thesis by (simp add: contains_sub_def)
qed

section \<open>The simulation\<close>

text \<open>The recorded thoughts are the raw thoughts up to the bound, the rest is counted as discarded.\<close>

definition thoughts_rep :: "'c sanitizer \<Rightarrow> 'c list \<Rightarrow> bool" where
  "thoughts_rep s raw \<longleftrightarrow>
     get_accumulated_thoughts s = take (nat (max_thought_chars s)) raw
     \<and> thought_chars (metrics s) = length (take (nat (max_thought_chars s)) raw)
     \<and> discarded_thought_chars (metrics s) = length raw - nat (max_thought_chars s)"

lemma record_thought_effect:
  fixes s :: "'c sanitizer" and f :: "'c list"
  defines "a \<equiv> take (nat (max 0 (max_thought_chars s - int (thought_chars (metrics s))))) f"
  shows "get_accumulated_thoughts (fst (record_thought s f)) = get_accumulated_thoughts s @ a"
    and "thought_chars (metrics (fst (record_thought s f))) = thought_chars (metrics s) + length a"
    and "discarded_thought_chars (metrics (fst (record_thought s f))) =
      discarded_thought_chars (metrics s) + (length f - length a)"
  unfolding a_def record_thought_def Let_def get_accumulated_thoughts_def by simp_all

lemma record_thought_rep:
  assumes "thoughts_rep s raw"
  shows "thoughts_rep (fst (record_thought s f)) (raw @ f)"
proof -
  let ?N = "nat (max_thought_chars s)"
  have cap: "nat (max 0 (max_thought_chars s - int (thought_chars (metrics s)))) = ?N - length raw"
    using assms by (auto simp: thoughts_rep_def)
  have split: "take ?N (raw @ f) = take ?N raw @ take (?N - length raw) f" by simp
  have "length raw - ?N + (length f - length (take (?N - length raw) f)) = length (raw @ f) - ?N"
    by (simp add: min_def) arith
  then show ?thesis
    using assms record_thought_effect [of s f, unfolded cap]
    unfolding thoughts_rep_def split record_thought_frame(3) length_append by (metis length_append)
qed

lemma thoughts_rep_frame [simp]:
  "thoughts_rep (s\<lparr>pstate := p\<rparr>) raw = thoughts_rep s raw"
  "thoughts_rep (s\<lparr>buffer := b\<rparr>) raw = thoughts_rep s raw"
  by (simp_all add: thoughts_rep_def get_accumulated_thoughts_def)

lemma thoughts_rep_upd [simp]:
  "thought_chars (f (metrics s)) = thought_chars (metrics s) \<Longrightarrow>
   discarded_thought_chars (f (metrics s)) = discarded_thought_chars (metrics s) \<Longrightarrow>
   thoughts_rep (upd_metrics f s) raw = thoughts_rep s raw"
  by (simp add: thoughts_rep_def get_accumulated_thoughts_def)

definition awaited_tag :: "'c sanitizer \<Rightarrow> 'c list" where
  "awaited_tag s = (if pstate s = EMITTING then open_tag s else close_tag s)"

lemma awaited_tag_upd [simp]: "awaited_tag (upd_metrics f s) = awaited_tag s"
  by (simp add: awaited_tag_def)

text \<open>
  What is pending (held back, being processed, still to arrive) scans to what is missing of the
  whole stream's visible text \<open>V\<close> and raw thoughts \<open>H\<close>, and ends in the stream's final state.
\<close>

definition simulates ::
  "'c list \<Rightarrow> 'c list \<Rightarrow> parser_state \<Rightarrow> 'c list \<Rightarrow> 'c sanitizer \<Rightarrow> 'c list \<Rightarrow> 'c list \<Rightarrow> bool" where
  "simulates V H E rest s t vis \<longleftrightarrow>
     open_tag s \<noteq> [] \<and> close_tag s \<noteq> [] \<and> unopened_close_tags (metrics s) = 0
     \<and> (t = [] \<or> buffer s = []) \<and> (buffer s \<noteq> [] \<longrightarrow> strict_prefix (buffer s) (awaited_tag s))
     \<and> no_stray_close (open_tag s) (close_tag s) (pstate s) (buffer s @ t @ rest)
     \<and> (\<exists>v h raw. spec_split (open_tag s) (close_tag s) (pstate s) (buffer s @ t @ rest) = (v, h, E)
          \<and> vis @ v = V \<and> thoughts_rep s raw \<and> raw @ h = H)"

lemma simulates_upd [simp]:
  "unopened_close_tags (f (metrics s)) = unopened_close_tags (metrics s) \<Longrightarrow>
   thought_chars (f (metrics s)) = thought_chars (metrics s) \<Longrightarrow>
   discarded_thought_chars (f (metrics s)) = discarded_thought_chars (metrics s) \<Longrightarrow>
   simulates V H E rest (upd_metrics f s) t vis = simulates V H E rest s t vis"
  by (simp add: simulates_def)

lemma simulates_emitting:
  assumes sim: "simulates V H E rest s t vis" and t: "t \<noteq> []" and st: "pstate s = EMITTING"
    and step: "consume_emitting s t out = (s', t', out')"
  shows "\<exists>d. out' = out @ [d] \<and> simulates V H E rest s' t' (vis @ d)"
proof -
  let ?op = "open_tag s" and ?cl = "close_tag s"
  from sim t have op: "?op \<noteq> []" and cl: "?cl \<noteq> []" and buf: "buffer s = []"
    and ns: "no_stray_close ?op ?cl EMITTING (t @ rest)" and un: "unopened_close_tags (metrics s) = 0"
    by (auto simp: simulates_def st)
  from sim st buf obtain v h raw where spec: "spec_split ?op ?cl EMITTING (t @ rest) = (v, h, E)"
    and v: "vis @ v = V" and raw: "thoughts_rep s raw" "raw @ h = H"
    by (auto simp: simulates_def)
  show ?thesis
  proof (cases "find_sub ?op t")
    case (Some i)
    then have at: "find_sub ?op (t @ rest) = Some i" by (rule find_sub_append_Some)
    have len: "i \<le> length t" "i + length ?op \<le> length t" using find_sub_bound [OF Some] by simp_all
    obtain v' where v': "spec_split ?op ?cl THINKING (drop (i + length ?op) t @ rest) = (v', h, E)"
      "v = take i t @ v'"
      using spec spec_split_emitting(2) [OF at op, of ?cl] len by (auto split: prod.splits)
    have ns': "no_stray_close ?op ?cl THINKING (drop (i + length ?op) t @ rest)"
      using ns no_stray_emitting(2) [OF at op, of ?cl] len by simp
    have "s' = upd_metrics (\<lambda>m. m\<lparr>open_tags_detected := open_tags_detected m + 1\<rparr>) (s\<lparr>pstate := THINKING\<rparr>)"
      "t' = drop (i + length ?op) t" "out' = out @ [take i t]"
      using step Some by (simp_all add: consume_emitting_def)
    then show ?thesis
      using v v' raw op cl buf un ns' by (auto simp: simulates_def)
  next
    case None
    have no_cl: "find_sub ?cl t = None" by (rule no_stray_chunk [OF ns None op])
    define c where "c = find_potential_prefix t ?op"
    obtain v' h' E' where at: "spec_split ?op ?cl EMITTING (drop c t @ rest) = (v', h', E')"
      by (metis prod_cases3)
    with spec spec_split_cut_emitting [OF None op at [unfolded c_def]]
    have v': "spec_split ?op ?cl EMITTING (drop c t @ rest) = (v', h, E)" "v = take c t @ v'"
      by (simp_all add: c_def)
    have ns': "no_stray_close ?op ?cl EMITTING (drop c t @ rest)"
      using no_stray_cut_emitting [OF None op ns] by (simp add: c_def)
    have pre: "drop c t \<noteq> [] \<Longrightarrow> strict_prefix (drop c t) ?op"
      unfolding c_def by (rule held_back.cut_short)
    have "out' = out @ [take c t]" "t' = []"
      "s' = (if c < length t then s\<lparr>buffer := drop c t\<rparr> else s)"
      using step None no_cl by (auto simp: consume_emitting_def c_def Let_def split: if_splits)
    then show ?thesis
      using v v' raw op cl buf un ns' pre st
      by (auto simp: simulates_def awaited_tag_def)
  qed
qed

lemma simulates_thinking:
  assumes sim: "simulates V H E rest s t vis" and t: "t \<noteq> []" and st: "pstate s = THINKING"
    and step: "consume_thinking s t out = (s', t', out')"
  shows "simulates V H E rest s' t' vis"
proof -
  let ?op = "open_tag s" and ?cl = "close_tag s"
  from sim t have op: "?op \<noteq> []" and cl: "?cl \<noteq> []" and buf: "buffer s = []"
    and ns: "no_stray_close ?op ?cl THINKING (t @ rest)" and un: "unopened_close_tags (metrics s) = 0"
    by (auto simp: simulates_def st)
  from sim st buf obtain v h raw where spec: "spec_split ?op ?cl THINKING (t @ rest) = (v, h, E)"
    and v: "vis @ v = V" and raw: "thoughts_rep s raw" "raw @ h = H"
    by (auto simp: simulates_def)
  show ?thesis
  proof (cases "find_sub ?cl t")
    case (Some i)
    then have at: "find_sub ?cl (t @ rest) = Some i" by (rule find_sub_append_Some)
    have len: "i \<le> length t" "i + length ?cl \<le> length t" using find_sub_bound [OF Some] by simp_all
    obtain h' where h': "spec_split ?op ?cl EMITTING (drop (i + length ?cl) t @ rest) = (v, h', E)"
      "h = take i t @ h'"
      using spec spec_split_thinking(2) [OF at cl, of ?op] len by (auto split: prod.splits)
    have ns': "no_stray_close ?op ?cl EMITTING (drop (i + length ?cl) t @ rest)"
      using ns no_stray_thinking(2) [OF at cl, of ?op] len by simp
    have "s' = upd_metrics (\<lambda>m. m\<lparr>close_tags_detected := close_tags_detected m + 1\<rparr>)
        (fst (record_thought s (take i t))\<lparr>pstate := EMITTING\<rparr>)" "t' = drop (i + length ?cl) t"
      using step Some by (auto simp: consume_thinking_def Let_def case_prod_beta)
    then show ?thesis
      using v h' raw op cl buf un ns' record_thought_rep [OF raw(1), of "take i t"]
      by (auto simp: simulates_def)
  next
    case None
    define c where "c = find_potential_prefix t ?cl"
    obtain v' h' E' where at: "spec_split ?op ?cl THINKING (drop c t @ rest) = (v', h', E')"
      by (metis prod_cases3)
    with spec spec_split_cut_thinking [OF None cl at [unfolded c_def]]
    have h': "spec_split ?op ?cl THINKING (drop c t @ rest) = (v, h', E)" "h = take c t @ h'"
      by (simp_all add: c_def)
    have ns': "no_stray_close ?op ?cl THINKING (drop c t @ rest)"
      using no_stray_cut_thinking [OF None cl ns] by (simp add: c_def)
    have pre: "drop c t \<noteq> [] \<Longrightarrow> strict_prefix (drop c t) ?cl"
      unfolding c_def by (rule held_back.cut_short)
    have "t' = []"
      "s' = (if c < length t then fst (record_thought s (take c t))\<lparr>buffer := drop c t\<rparr>
             else fst (record_thought s (take c t)))"
      using step None by (auto simp: consume_thinking_def c_def Let_def case_prod_beta split: if_splits)
    then show ?thesis
      using v h' raw op cl buf un ns' pre st record_thought_rep [OF raw(1), of "take c t"]
      by (auto simp: simulates_def awaited_tag_def)
  qed
qed

lemma simulates_loop:
  assumes ret: "feed_loop s t [] [] = Some (s', vis', th')" and sim: "simulates V H E rest s t v0"
  shows "simulates V H E rest s' [] (v0 @ concat vis')"
proof -
  let ?I = "\<lambda>(s1 :: 'a sanitizer) (t1 :: 'a list) (v :: 'a list list) (h :: 'a list list).
    simulates V H E rest s1 t1 (v0 @ concat v)"
  have emit: "?I s2 t2 o2 h" if "?I s1 t1 o1 h" "t1 \<noteq> []" "pstate s1 = EMITTING"
    "consume_emitting s1 t1 o1 = (s2, t2, o2)" for s1 t1 o1 s2 t2 o2 h
    using simulates_emitting [OF that] by auto
  have think: "?I s2 t2 v h2" if "?I s1 t1 v h1" "t1 \<noteq> []" "pstate s1 = THINKING"
    "consume_thinking s1 t1 h1 = (s2, t2, h2)" for s1 t1 v h1 s2 t2 h2
    using simulates_thinking [OF that] .
  have start: "?I s t [] []" using sim by simp
  show ?thesis
    by (rule feed_loop_rule [where I = ?I, OF ret start emit think])
qed

lemma simulates_feed:
  assumes f: "feed s c = Some (s', r)" and sim: "simulates V H E (c @ rest) s [] v0"
  shows "simulates V H E rest s' [] (v0 @ visible_chunk r)
    \<and> visible_chars (metrics s') = visible_chars (metrics s) + length (visible_chunk r)"
proof (cases "c = []")
  case True
  with f sim show ?thesis by (auto simp: feed_def)
next
  case False
  let ?s0 = "upd_metrics (\<lambda>m. m\<lparr>total_input_chars := total_input_chars m + length c\<rparr>) s\<lparr>buffer := []\<rparr>"
  from f False obtain s1 vis th where
    loop: "feed_loop ?s0 (buffer s @ c) [] [] = Some (s1, vis, th)"
    and s': "s' = upd_metrics (\<lambda>m. m\<lparr>visible_chars := visible_chars m + length (concat vis)\<rparr>) s1"
    and r: "visible_chunk r = concat vis"
    by (auto simp: feed_def Let_def split: option.splits)
  have "simulates V H E rest ?s0 (buffer s @ c) v0"
    using sim by (auto simp: simulates_def)
  from simulates_loop [OF loop this] have "simulates V H E rest s' [] (v0 @ concat vis)"
    unfolding s' by simp
  moreover have "visible_chars (metrics s1) = visible_chars (metrics s)"
  proof -
    let ?I = "\<lambda>(s2 :: 'a sanitizer) (t1 :: 'a list) (v :: 'a list list) (h :: 'a list list).
      visible_chars (metrics s2) = visible_chars (metrics s)"
    show ?thesis
      by (rule feed_loop_rule [where I = ?I, OF loop])
        (auto simp: consume_emitting_def consume_thinking_def Let_def case_prod_beta
          split: option.splits if_splits)
  qed
  ultimately show ?thesis by (simp add: r s')
qed

lemma simulates_feed_all:
  "feed_all s cs frags = Some (s', frags') \<Longrightarrow> simulates V H E (concat cs @ rest) s [] (concat frags) \<Longrightarrow>
    visible_chars (metrics s) = length (concat frags) \<Longrightarrow>
    simulates V H E rest s' [] (concat frags') \<and> visible_chars (metrics s') = length (concat frags')"
proof (induction s cs frags rule: feed_all.induct)
  case (2 s c cs frags)
  then obtain s1 r where f: "feed s c = Some (s1, r)" by (auto split: option.splits)
  let ?frags = "if visible_chunk r \<noteq> [] then frags @ [visible_chunk r] else frags"
  have frags: "concat ?frags = concat frags @ visible_chunk r" by simp
  from simulates_feed [OF f, of V H E "concat cs @ rest" "concat frags"] 2(3,4)
  have "simulates V H E (concat cs @ rest) s1 [] (concat ?frags)"
    "visible_chars (metrics s1) = length (concat ?frags)"
    by (simp_all add: frags)
  with 2(1) [OF f refl] 2(2) f show ?case by simp
qed simp

lemma awaited_tag_not_in_buffer:
  assumes "strict_prefix b tag"
  shows "find_sub tag b = None"
proof (rule ccontr)
  assume "find_sub tag b \<noteq> None"
  then obtain i where "find_sub tag b = Some i" by auto
  from find_sub_bound [OF this] prefix_length_less [OF assms] show False by simp
qed

lemma simulates_flush:
  assumes fl: "flush s = (s', r)" and sim: "simulates V H E [] s [] v0"
  shows "v0 @ visible_chunk r = V \<and> thoughts_rep s' H \<and> unopened_close_tags (metrics s') = 0
    \<and> visible_chars (metrics s') = visible_chars (metrics s) + length (visible_chunk r)
    \<and> (unclosed_stream (metrics s') \<longleftrightarrow> E = THINKING \<or> unclosed_stream (metrics s))
    \<and> max_thought_chars s' = max_thought_chars s"
proof -
  from sim have none: "find_sub (awaited_tag s) (buffer s) = None"
    by (cases "buffer s = []") (auto simp: simulates_def awaited_tag_def intro: awaited_tag_not_in_buffer)
  show ?thesis
  proof (cases "pstate s")
    case EMITTING
    with none sim fl show ?thesis
      by (auto simp: simulates_def flush_def Let_def awaited_tag_def scan_simps split: if_splits)
  next
    case THINKING
    with none sim obtain raw where raw: "thoughts_rep s raw" "raw @ buffer s = H" "v0 = V" "E = THINKING"
      "unopened_close_tags (metrics s) = 0"
      by (auto simp: simulates_def awaited_tag_def scan_simps)
    let ?s = "upd_metrics (\<lambda>m. m\<lparr>unclosed_stream := True\<rparr>) (s\<lparr>buffer := []\<rparr>)"
    have "thoughts_rep ?s raw" using raw(1) by simp
    from record_thought_rep [OF this, of "buffer s"] show ?thesis
      using THINKING fl raw by (auto simp: flush_def Let_def case_prod_beta split: if_splits)
  qed
qed

lemma feed_loop_visible_chars:
  assumes "feed_loop s t vis th = Some (s', vis', th')"
  shows "visible_chars (metrics s') = visible_chars (metrics s)"
proof -
  let ?I = "\<lambda>(s2 :: 'a sanitizer) (t1 :: 'a list) (v :: 'a list list) (h :: 'a list list).
    visible_chars (metrics s2) = visible_chars (metrics s)"
  show ?thesis
    by (rule feed_loop_rule [where I = ?I, OF assms])
      (auto simp: consume_emitting_def consume_thinking_def Let_def case_prod_beta
        split: option.splits if_splits)
qed

lemma feed_visible_chars:
  "feed s c = Some (s', r) \<Longrightarrow>
    visible_chars (metrics s') = visible_chars (metrics s) + length (visible_chunk r)"
  by (auto simp: feed_def Let_def split: if_splits option.splits dest!: feed_loop_visible_chars)

lemma feed_all_visible_chars:
  "feed_all s cs frags = Some (s', frags') \<Longrightarrow> visible_chars (metrics s) = length (concat frags) \<Longrightarrow>
    visible_chars (metrics s') = length (concat frags')"
proof (induction s cs frags rule: feed_all.induct)
  case (2 s c cs frags)
  then obtain s1 r where "feed s c = Some (s1, r)" by (auto split: option.splits)
  with 2 show ?case by (auto simp: feed_visible_chars split: if_splits)
qed simp

lemma flush_visible_chars:
  "flush s = (s', r) \<Longrightarrow>
    visible_chars (metrics s') = visible_chars (metrics s) + length (visible_chunk r)"
  by (auto simp: flush_def Let_def case_prod_beta split: if_splits)

lemma feed_all_rule:
  assumes "feed_all s cs frags = Some (s', frags')" and "P s"
    and "\<And>s c s' r. feed s c = Some (s', r) \<Longrightarrow> P s \<Longrightarrow> P s'"
  shows "P s'"
  using assms(1,2)
proof (induction s cs frags rule: feed_all.induct)
  case (2 s c cs frags)
  then obtain s1 r where "feed s c = Some (s1, r)" by (auto split: option.splits)
  with 2 assms(3) show ?case by (auto split: if_splits)
qed simp

lemma feed_all_frame:
  assumes "feed_all s cs frags = Some (s', frags')"
  shows "open_tag s' = open_tag s \<and> close_tag s' = close_tag s
    \<and> max_thought_chars s' = max_thought_chars s"
  using assms by (rule feed_all_rule) (auto dest!: feed_frame)

lemma flush_frame:
  "flush s = (s', r) \<Longrightarrow> open_tag s' = open_tag s \<and> close_tag s' = close_tag s
    \<and> max_thought_chars s' = max_thought_chars s"
  by (auto simp: flush_def Let_def case_prod_beta split: if_splits)

lemma sanitize_cases:
  assumes "sanitize_reasoning_stream cs (op, cl) mx b = Some (v, th, m)"
  obtains s frags s' r where "feed_all (new_sanitizer op cl mx b) cs [] = Some (s, frags)"
    "flush s = (s', r)" "v = concat frags @ visible_chunk r" "th = get_accumulated_thoughts s'"
    "m = metrics s'"
proof -
  from assms obtain s frags where fa: "feed_all (new_sanitizer op cl mx b) cs [] = Some (s, frags)"
    by (auto simp: sanitize_reasoning_stream_def split: option.splits)
  obtain s' r where fl: "flush s = (s', r)" by (metis prod.exhaust)
  from assms fa fl have "v = concat frags @ visible_chunk r" "th = get_accumulated_thoughts s'"
    "m = metrics s'"
    by (auto simp: sanitize_reasoning_stream_def Let_def split: if_splits)
  with fa fl show thesis by (rule that)
qed

lemma new_sanitizer_simps [simp]:
  "open_tag (new_sanitizer op cl mx b) = op" "close_tag (new_sanitizer op cl mx b) = cl"
  "max_thought_chars (new_sanitizer op cl mx b) = mx" "buffer (new_sanitizer op cl mx b) = []"
  "metrics (new_sanitizer op cl mx b) = empty_metrics"
  "pstate (new_sanitizer op cl mx b) = (if b then THINKING else EMITTING)"
  "collected_thoughts (new_sanitizer op cl mx b) = []"
  by (simp_all add: new_sanitizer_def)

lemma empty_metrics_simps [simp]:
  "total_input_chars empty_metrics = 0" "visible_chars empty_metrics = 0"
  "thought_chars empty_metrics = 0" "discarded_thought_chars empty_metrics = 0"
  "open_tags_detected empty_metrics = 0" "close_tags_detected empty_metrics = 0"
  "unclosed_stream empty_metrics = False" "unopened_close_tags empty_metrics = 0"
  by (simp_all add: empty_metrics_def)

lemma feed_loop_unclosed:
  assumes "feed_loop s t vis th = Some (s', vis', th')"
  shows "unclosed_stream (metrics s') = unclosed_stream (metrics s)"
proof -
  let ?I = "\<lambda>(s2 :: 'a sanitizer) (t1 :: 'a list) (v :: 'a list list) (h :: 'a list list).
    unclosed_stream (metrics s2) = unclosed_stream (metrics s)"
  show ?thesis
    by (rule feed_loop_rule [where I = ?I, OF assms])
      (auto simp: consume_emitting_def consume_thinking_def Let_def case_prod_beta
        split: option.splits if_splits)
qed

lemma feed_all_unclosed:
  assumes "feed_all s cs frags = Some (s', frags')" and "\<not> unclosed_stream (metrics s)"
  shows "\<not> unclosed_stream (metrics s')"
  using assms by (rule feed_all_rule)
    (auto simp: feed_def Let_def split: option.splits if_splits dest!: feed_loop_unclosed)

lemma sanitize_result:
  assumes "op \<noteq> []" "cl \<noteq> []"
    and "no_stray_close op cl (if b then THINKING else EMITTING) (concat chunks)"
    and "spec_split op cl (if b then THINKING else EMITTING) (concat chunks) = (V, H, E)"
  shows "\<exists>m. sanitize_reasoning_stream chunks (op, cl) mx b = Some (V, take (nat mx) H, m)
    \<and> total_input_chars m = length (concat chunks) \<and> visible_chars m = length V
    \<and> thought_chars m = min (length H) (nat mx) \<and> discarded_thought_chars m = length H - nat mx
    \<and> unclosed_stream m = (E = THINKING) \<and> unopened_close_tags m = 0"
proof -
  let ?s = "new_sanitizer op cl mx b"
  obtain s frags where fa: "feed_all ?s chunks [] = Some (s, frags)"
    using feed_all_terminates [of ?s chunks "[]"] assms(2) by auto
  obtain s' r where fl: "flush s = (s', r)" by (metis prod.exhaust)
  have "simulates V H E (concat chunks @ []) ?s [] (concat [])"
    using assms by (auto simp: simulates_def thoughts_rep_def get_accumulated_thoughts_def)
  with fa have sim: "simulates V H E [] s [] (concat frags)"
    using simulates_feed_all [OF fa] by simp
  have unc: "\<not> unclosed_stream (metrics s)"
    using fa by (rule feed_all_unclosed) simp
  have cons: "chars_conserved ?s" "thoughts_bounded ?s"
    by (simp_all add: chars_conserved_def not_visible_def thoughts_bounded_def
        get_accumulated_thoughts_def)
  have "sanitize_reasoning_stream chunks (op, cl) mx b =
      Some (concat frags @ visible_chunk r, get_accumulated_thoughts s', metrics s')"
    using fa fl by (simp add: sanitize_reasoning_stream_def Let_def)
  then show ?thesis
    using simulates_flush [OF fl sim] unc feed_all_conserves [OF fa cons] flush_conserves [OF fl]
      feed_all_visible_chars [OF fa] flush_visible_chars [OF fl] feed_all_frame [OF fa]
    by (auto simp: thoughts_rep_def)
qed

lemma sanitize_total: "cl \<noteq> [] \<Longrightarrow> \<exists>v th m. sanitize_reasoning_stream cs (op, cl) mx b = Some (v, th, m)"
proof -
  assume "cl \<noteq> []"
  then obtain s frags where "feed_all (new_sanitizer op cl mx b) cs [] = Some (s, frags)"
    using feed_all_terminates [of "new_sanitizer op cl mx b" cs "[]"] by auto
  then show ?thesis
    by (auto simp: sanitize_reasoning_stream_def Let_def split: prod.splits)
qed

section \<open>Properties\<close>

text \<open>C1: For non-empty tags and a stream that meets no close tag while emitting,
  \<open>sanitize_reasoning_stream\<close> returns, for every way of cutting the stream into chunks, the
  visible text and the (bounded) thoughts of the whole stream, with matching telemetry.\<close>

theorem sanitize_refines_spec:
  assumes "op \<noteq> []" "cl \<noteq> []"
    and "no_stray_close op cl (if b then THINKING else EMITTING) (concat chunks)"
    and "spec_split op cl (if b then THINKING else EMITTING) (concat chunks) = (V, H, E)"
  shows "\<exists>m. sanitize_reasoning_stream chunks (op, cl) mx b = Some (V, take (nat mx) H, m)
    \<and> total_input_chars m = length (concat chunks) \<and> visible_chars m = length V
    \<and> thought_chars m = min (length H) (nat mx) \<and> discarded_thought_chars m = length H - nat mx
    \<and> unclosed_stream m = (E = THINKING) \<and> unopened_close_tags m = 0"
  using assms by (rule sanitize_result)

lemma sanitize_refines_spec_witness:
  "\<exists>m. sanitize_reasoning_stream [''hi <th'', ''ink>why'', '' not</thi'', ''nk> you'']
      (''<think>'', ''</think>'') 5 False = Some (''hi  you'', take (nat 5) ''why not'', m)
    \<and> total_input_chars m = length (concat [''hi <th'', ''ink>why'', '' not</thi'', ''nk> you''])
    \<and> visible_chars m = length ''hi  you'' \<and> thought_chars m = min (length ''why not'') (nat 5)
    \<and> discarded_thought_chars m = length ''why not'' - nat 5
    \<and> unclosed_stream m = (EMITTING = THINKING) \<and> unopened_close_tags m = 0"
  by (rule sanitize_refines_spec) (simp_all add: spec_split.simps no_stray_close.simps contains_sub_def)

text \<open>The chunk boundaries do not matter: two ways of cutting the same stream give the same
  visible text and the same thoughts.\<close>

theorem chunking_irrelevant:
  assumes "op \<noteq> []" "cl \<noteq> []" "concat cs = concat ds"
    and "no_stray_close op cl (if b then THINKING else EMITTING) (concat cs)"
  shows "map_option (\<lambda>(v, h, m). (v, h)) (sanitize_reasoning_stream cs (op, cl) mx b) =
    map_option (\<lambda>(v, h, m). (v, h)) (sanitize_reasoning_stream ds (op, cl) mx b)"
proof -
  obtain V H E where split:
    "spec_split op cl (if b then THINKING else EMITTING) (concat cs) = (V, H, E)"
    by (metis prod_cases3)
  have "\<exists>m. sanitize_reasoning_stream xs (op, cl) mx b = Some (V, take (nat mx) H, m)"
    if "concat xs = concat cs" for xs
    using sanitize_result [of op cl b xs V H E mx] assms split that by auto
  from this [of cs] this [of ds] assms(3) show ?thesis by auto
qed

lemma chunking_irrelevant_witness:
  "map_option (\<lambda>(v, h, m). (v, h))
      (sanitize_reasoning_stream [''a<think>b</think>c''] (''<think>'', ''</think>'') 9 False) =
   map_option (\<lambda>(v, h, m). (v, h))
      (sanitize_reasoning_stream [''a<'', ''think>b</thin'', ''k>c''] (''<think>'', ''</think>'') 9 False)"
  by (rule chunking_irrelevant) (simp_all add: no_stray_close.simps contains_sub_def)

text \<open>No character is lost or invented, for any tags and chunks: what was read is what was
  emitted, recorded, discarded or recognised as a tag; and the recorded thoughts never exceed
  the bound.\<close>

theorem sanitize_conserves_chars:
  assumes "sanitize_reasoning_stream chunks (op, cl) mx b = Some (v, th, m)"
  shows "length (concat chunks) = length v + length th + discarded_thought_chars m
      + length op * open_tags_detected m
      + length cl * (close_tags_detected m + unopened_close_tags m)
    \<and> int (length th) \<le> max 0 mx"
proof -
  from sanitize_cases [OF assms] obtain s frags s' r where
    fa: "feed_all (new_sanitizer op cl mx b) chunks [] = Some (s, frags)"
    and fl: "flush s = (s', r)"
    and out: "v = concat frags @ visible_chunk r" "th = get_accumulated_thoughts s'" "m = metrics s'"
    by blast
  have cons: "chars_conserved (new_sanitizer op cl mx b)" "thoughts_bounded (new_sanitizer op cl mx b)"
    by (simp_all add: chars_conserved_def not_visible_def thoughts_bounded_def
        get_accumulated_thoughts_def)
  have "visible_chars (metrics s') = length v"
    using feed_all_visible_chars [OF fa] flush_visible_chars [OF fl] out by simp
  then show ?thesis
    using feed_all_conserves [OF fa cons] flush_conserves [OF fl] feed_all_frame [OF fa]
      flush_frame [OF fl] out
    by (auto simp: chars_conserved_def thoughts_bounded_def not_visible_def)
qed

lemma sanitize_conserves_chars_witness:
  "\<exists>v th m. sanitize_reasoning_stream [''a</think>b'', ''<think>cd''] (''<think>'', ''</think>'') 1 False
      = Some (v, th, m)
    \<and> length (concat [''a</think>b'', ''<think>cd'']) = length v + length th
        + discarded_thought_chars m + length ''<think>'' * open_tags_detected m
        + length ''</think>'' * (close_tags_detected m + unopened_close_tags m)
    \<and> int (length th) \<le> max 0 1"
proof -
  obtain v th m where r: "sanitize_reasoning_stream [''a</think>b'', ''<think>cd'']
      (''<think>'', ''</think>'') 1 False = Some (v, th, m)"
    using sanitize_total [of "''</think>''"] by blast
  from r sanitize_conserves_chars [OF r] show ?thesis by blast
qed

text \<open>C40: With a non-empty close tag \<open>sanitize_reasoning_stream\<close> returns on every input.\<close>

theorem sanitize_returns:
  assumes "cl \<noteq> []"
  shows "sanitize_reasoning_stream chunks (op, cl) mx b \<noteq> None"
  using sanitize_total [OF assms] by fastforce

lemma sanitize_returns_witness:
  "sanitize_reasoning_stream [''<'', ''think>a''] (DEFAULT_OPEN_TAG, DEFAULT_CLOSE_TAG)
     DEFAULT_MAX_THOUGHT_CHARS False \<noteq> None"
  by (rule sanitize_returns) (simp add: DEFAULT_CLOSE_TAG_def)

text \<open>With an empty close tag the call hangs on a first chunk that holds no open tag: the
  emitting step finds the empty tag at position 0 and returns its text unchanged.\<close>

theorem sanitize_hangs_on_empty_close_tag:
  assumes "c \<noteq> []" "find_sub op c = None"
  shows "sanitize_reasoning_stream (c # cs) (op, []) mx False = None"
proof -
  have "feed_loop (upd_metrics (\<lambda>m. m\<lparr>total_input_chars := total_input_chars m + length c\<rparr>)
      (new_sanitizer op [] mx False)\<lparr>buffer := []\<rparr>) c [] [] = None"
    by (rule feed_loop_diverges) (simp_all add: assms)
  then show ?thesis
    using assms(1) by (simp add: sanitize_reasoning_stream_def feed_def Let_def)
qed

lemma sanitize_hangs_on_empty_close_tag_witness:
  "sanitize_reasoning_stream [''x''] (''<think>'', []) 10 False = None"
  by (rule sanitize_hangs_on_empty_close_tag) simp_all

text \<open>Where a close tag does occur in emitted text the result depends on the chunking: in one
  chunk the tag reaches the visible output, cut in two it is dropped and counted.\<close>

theorem stray_close_depends_on_chunks:
  "map_option fst (sanitize_reasoning_stream [''a</think>b<think>c'']
      (DEFAULT_OPEN_TAG, DEFAULT_CLOSE_TAG) 10 False) = Some ''a</think>b''
   \<and> map_option fst (sanitize_reasoning_stream [''a</think>b'', ''<think>c'']
      (DEFAULT_OPEN_TAG, DEFAULT_CLOSE_TAG) 10 False) = Some ''ab''"
  by code_simp

end
