(* ===== verification/Tree_CRDT.thy ===== *)
theory Tree_CRDT
  imports Prelude
begin

text \<open>
  \<open>examples/ast-crdt-collaborative-editor/ast_crdt.py\<close>: the replicated syntax tree. State,
  operations, the bounded ancestor walk, peer synchronisation, the ordered view of a node's
  children and the source it materialises to, and the reports. An exception of a handler is the
  second component of its result; the state it left behind is the first.
\<close>

section \<open>Data\<close>

datatype node_kind = ROOT | MODULE | IMPORT | FUNCTION | CLASS | DECORATOR | STATEMENT

datatype op_type = INSERT_NODE | DELETE_NODE | UPDATE_ATTR | MOVE_NODE

datatype diagnostic_rule = CRDT001 | CRDT002 | CRDT003 | CRDT004 | CRDT005

definition node_kind_value :: "node_kind \<Rightarrow> string" where
  "node_kind_value k = (case k of
     ROOT \<Rightarrow> ''ROOT'' | MODULE \<Rightarrow> ''MODULE'' | IMPORT \<Rightarrow> ''IMPORT'' | FUNCTION \<Rightarrow> ''FUNCTION''
   | CLASS \<Rightarrow> ''CLASS'' | DECORATOR \<Rightarrow> ''DECORATOR'' | STATEMENT \<Rightarrow> ''STATEMENT'')"

definition parse_node_kind :: "string \<Rightarrow> node_kind option" where
  "parse_node_kind s = List.find (\<lambda>k. node_kind_value k = s)
     [ROOT, MODULE, IMPORT, FUNCTION, CLASS, DECORATOR, STATEMENT]"

definition diagnostic_rule_value :: "diagnostic_rule \<Rightarrow> string" where
  "diagnostic_rule_value r = (case r of CRDT001 \<Rightarrow> ''CRDT001'' | CRDT002 \<Rightarrow> ''CRDT002''
     | CRDT003 \<Rightarrow> ''CRDT003'' | CRDT004 \<Rightarrow> ''CRDT004'' | CRDT005 \<Rightarrow> ''CRDT005'')"

record crdt_node =
  node_id :: string
  kind :: node_kind
  parent_id :: string
  pos :: string
  attrs :: "(string, string) dict"
  is_tombstone :: bool

record insert_target =
  target_node_id :: string
  target_parent_id :: string
  target_pos :: string
  target_kind :: node_kind
  target_name :: string

record crdt_operation =
  op_kind :: op_type
  op_node_id :: string
  op_parent_id :: string
  op_pos :: string
  op_attrs :: "(string, string) dict"
  op_lamport :: int
  op_agent_id :: string

record crdt_finding =
  finding_rule :: diagnostic_rule
  finding_message :: string
  finding_target :: string
  finding_severity :: string

type_synonym node_map = "(string, crdt_node) dict"

record tree_crdt =
  agent_id :: string
  clock :: int
  counter :: int
  nodes :: node_map
  op_log :: "crdt_operation list"
  findings :: "crdt_finding list"

datatype crdt_error = ValueError string

section \<open>Operations\<close>

definition create_node_id :: "string \<Rightarrow> int \<Rightarrow> int \<Rightarrow> string" where
  "create_node_id agent lamport cnt = agent @ '':'' @ show_int lamport @ '':'' @ show_int cnt"

definition create_insert_op :: "string \<Rightarrow> int \<Rightarrow> insert_target \<Rightarrow> crdt_operation" where
  "create_insert_op agent lamport t =
     \<lparr>op_kind = INSERT_NODE, op_node_id = target_node_id t, op_parent_id = target_parent_id t,
      op_pos = target_pos t,
      op_attrs = [(''kind'', node_kind_value (target_kind t)), (''name'', target_name t)],
      op_lamport = lamport, op_agent_id = agent\<rparr>"

definition create_delete_op :: "string \<Rightarrow> int \<Rightarrow> string \<Rightarrow> crdt_operation" where
  "create_delete_op agent lamport nid =
     \<lparr>op_kind = DELETE_NODE, op_node_id = nid, op_parent_id = '''', op_pos = '''', op_attrs = [],
      op_lamport = lamport, op_agent_id = agent\<rparr>"

definition create_move_op :: "string \<Rightarrow> int \<Rightarrow> string \<Rightarrow> string \<times> string \<Rightarrow> crdt_operation" where
  "create_move_op agent lamport nid dest =
     \<lparr>op_kind = MOVE_NODE, op_node_id = nid, op_parent_id = fst dest, op_pos = snd dest,
      op_attrs = [], op_lamport = lamport, op_agent_id = agent\<rparr>"

definition root_node :: crdt_node where
  "root_node = \<lparr>node_id = ''root'', kind = ROOT, parent_id = '''', pos = ''0.0'', attrs = [],
     is_tombstone = False\<rparr>"

text \<open>The constructor with its \<open>__post_init__\<close>.\<close>

definition new_crdt :: "string \<Rightarrow> tree_crdt" where
  "new_crdt agent = \<lparr>agent_id = agent, clock = 0, counter = 0, nodes = [(''root'', root_node)],
     op_log = [], findings = []\<rparr>"

definition next_node_id :: "tree_crdt \<Rightarrow> tree_crdt \<times> string" where
  "next_node_id c =
     (let c' = c\<lparr>clock := clock c + 1, counter := counter c + 1\<rparr>
      in (c', create_node_id (agent_id c') (clock c') (counter c')))"

definition next_parent :: "node_map \<Rightarrow> string \<Rightarrow> string" where
  "next_parent m cur = (case dict_get m cur of Some n \<Rightarrow> parent_id n | None \<Rightarrow> '''')"

text \<open>The walk of \<open>is_ancestor\<close>; the first argument is what is left of the step limit.\<close>

fun ancestor_walk :: "nat \<Rightarrow> node_map \<Rightarrow> string \<Rightarrow> string \<Rightarrow> string" where
  "ancestor_walk 0 m anc cur = cur"
| "ancestor_walk (Suc n) m anc cur =
     (if cur \<noteq> '''' \<and> cur \<noteq> anc then ancestor_walk n m anc (next_parent m cur) else cur)"

definition is_ancestor :: "node_map \<Rightarrow> string \<Rightarrow> string \<Rightarrow> bool" where
  "is_ancestor m anc target \<longleftrightarrow> ancestor_walk (length m + 2) m anc target = anc"

definition check_orphan :: "tree_crdt \<Rightarrow> string \<Rightarrow> bool \<Rightarrow> tree_crdt" where
  "check_orphan c pid present =
     (if \<not> present \<and> pid \<noteq> ''root''
      then c\<lparr>findings := findings c @ [\<lparr>finding_rule = CRDT002,
             finding_message = ''Orphan node hazard: parent '' @ [CHR 0x27] @ pid @ [CHR 0x27]
               @ '' absent, attached to root'',
             finding_target = pid, finding_severity = ''warning''\<rparr>]\<rparr>
      else c)"

definition apply_insert :: "tree_crdt \<Rightarrow> crdt_operation \<Rightarrow> tree_crdt \<times> crdt_error option" where
  "apply_insert c op =
     (case dict_get (nodes c) (op_node_id op) of
        Some existing \<Rightarrow> (c, None)
      | None \<Rightarrow>
          (let parent = dict_get (nodes c) (op_parent_id op);
               pid = (if parent \<noteq> None then op_parent_id op else ''root'');
               c1 = check_orphan c (op_parent_id op) (parent \<noteq> None);
               kind_str = (case dict_get (op_attrs op) ''kind'' of
                             Some k \<Rightarrow> k | None \<Rightarrow> node_kind_value STATEMENT)
           in (case parse_node_kind kind_str of
                 None \<Rightarrow> (c1, Some (ValueError kind_str))
               | Some k \<Rightarrow>
                   (c1\<lparr>nodes := dict_set (op_node_id op)
                          \<lparr>node_id = op_node_id op, kind = k, parent_id = pid, pos = op_pos op,
                           attrs = op_attrs op, is_tombstone = False\<rparr> (nodes c1)\<rparr>, None))))"

definition apply_delete :: "tree_crdt \<Rightarrow> crdt_operation \<Rightarrow> tree_crdt" where
  "apply_delete c op =
     (case dict_get (nodes c) (op_node_id op) of
        None \<Rightarrow> c
      | Some n \<Rightarrow> c\<lparr>nodes := dict_set (op_node_id op) (n\<lparr>is_tombstone := True\<rparr>) (nodes c)\<rparr>)"

definition apply_move :: "tree_crdt \<Rightarrow> crdt_operation \<Rightarrow> tree_crdt" where
  "apply_move c op =
     (case dict_get (nodes c) (op_node_id op) of
        None \<Rightarrow> c
      | Some n \<Rightarrow>
          (if is_ancestor (nodes c) (op_node_id op) (op_parent_id op)
           then c\<lparr>findings := findings c @ [\<lparr>finding_rule = CRDT001,
                  finding_message = ''Cycle induction prevented: '' @ [CHR 0x27] @ op_node_id op
                    @ [CHR 0x27] @ '' is ancestor of '' @ [CHR 0x27] @ op_parent_id op @ [CHR 0x27],
                  finding_target = op_node_id op, finding_severity = ''warning''\<rparr>]\<rparr>
           else c\<lparr>nodes := dict_set (op_node_id op)
                    (n\<lparr>parent_id := op_parent_id op, pos := op_pos op\<rparr>) (nodes c)\<rparr>))"

definition apply_operation :: "tree_crdt \<Rightarrow> crdt_operation \<Rightarrow> tree_crdt \<times> crdt_error option" where
  "apply_operation c op =
     (let c1 = c\<lparr>clock := max (clock c) (op_lamport op) + 1, op_log := op_log c @ [op]\<rparr>
      in case op_kind op of
           INSERT_NODE \<Rightarrow> apply_insert c1 op
         | DELETE_NODE \<Rightarrow> (apply_delete c1 op, None)
         | MOVE_NODE \<Rightarrow> (apply_move c1 op, None)
         | UPDATE_ATTR \<Rightarrow> (c1, None))"

fun apply_operations :: "tree_crdt \<Rightarrow> crdt_operation list \<Rightarrow> tree_crdt \<times> crdt_error option" where
  "apply_operations c [] = (c, None)"
| "apply_operations c (op # ops) =
     (case apply_operation c op of
        (c', Some e) \<Rightarrow> (c', Some e)
      | (c', None) \<Rightarrow> apply_operations c' ops)"

text \<open>Both logs are read before either peer changes; the peers are distinct objects.\<close>

definition sync_peers ::
  "tree_crdt \<Rightarrow> tree_crdt \<Rightarrow> tree_crdt \<times> tree_crdt \<times> crdt_error option" where
  "sync_peers a b =
     (let log_a = op_log a; log_b = op_log b
      in case apply_operations b log_a of
           (b', Some e) \<Rightarrow> (a, b', Some e)
         | (b', None) \<Rightarrow> (case apply_operations a log_b of (a', r) \<Rightarrow> (a', b', r)))"

definition get_active_children :: "tree_crdt \<Rightarrow> string \<Rightarrow> crdt_node list" where
  "get_active_children c pid =
     sort_key (\<lambda>n. (pos n, node_id n))
       (filter (\<lambda>n. parent_id n = pid \<and> \<not> is_tombstone n) (dict_values (nodes c)))"

definition attr_or_empty :: "crdt_node \<Rightarrow> string \<Rightarrow> string" where
  "attr_or_empty n k = (case dict_get (attrs n) k of Some v \<Rightarrow> v | None \<Rightarrow> '''')"

definition render_import :: "crdt_node \<Rightarrow> string list" where
  "render_import n =
     (let name = attr_or_empty n ''name''; code = attr_or_empty n ''code''
      in [if code \<noteq> '''' then code else ''import '' @ name])"

definition render_function :: "crdt_node \<Rightarrow> string list" where
  "render_function n = [''def '' @ attr_or_empty n ''name'' @ ''():'', ''    pass'', '''']"

definition render_class :: "crdt_node \<Rightarrow> string list" where
  "render_class n = [''class '' @ attr_or_empty n ''name'' @ '':'', ''    pass'', '''']"

definition render_node :: "crdt_node \<Rightarrow> string list" where
  "render_node n = (case kind n of
       IMPORT \<Rightarrow> render_import n
     | FUNCTION \<Rightarrow> render_function n
     | CLASS \<Rightarrow> render_class n
     | _ \<Rightarrow> [])"

definition materialize_to_source :: "tree_crdt \<Rightarrow> string" where
  "materialize_to_source c =
     py_strip (join_with newline (concat (map render_node (get_active_children c ''root''))))
       @ newline"

section \<open>Reports\<close>

definition crdt_finding_to_sarif :: "crdt_finding \<Rightarrow> json" where
  "crdt_finding_to_sarif f = JObj
     [(''ruleId'', JStr (diagnostic_rule_value (finding_rule f))),
      (''level'', JStr (finding_severity f)),
      (''message'', JObj [(''text'', JStr (finding_message f))]),
      (''locations'', JArr [JObj [(''physicalLocation'', JObj
         [(''artifactLocation'', JObj [(''uri'', JStr (finding_target f))])])]])]"

text \<open>The value handed to \<open>json.dumps\<close>.\<close>

definition crdt_export_sarif :: "crdt_finding list \<Rightarrow> string \<Rightarrow> json" where
  "crdt_export_sarif fs tool = JObj
     [(''$schema'', JStr ''https://json.schemastore.org/sarif-2.1.0.json''),
      (''version'', JStr ''2.1.0''),
      (''runs'', JArr [JObj
         [(''tool'', JObj [(''driver'', JObj [(''name'', JStr tool), (''version'', JStr ''0.1.0'')])]),
          (''results'', JArr (map crdt_finding_to_sarif fs))]])]"

definition crdt_findings_table_lines :: "crdt_finding list \<Rightarrow> string list" where
  "crdt_findings_table_lines fs =
     [''## Diagnostic Findings'', '''', ''| Rule | Message | Target |'', ''|---|---|---|'']
     @ map (\<lambda>f. ''| `'' @ diagnostic_rule_value (finding_rule f) @ ''` | '' @ finding_message f
              @ '' | `'' @ finding_target f @ ''` |'') fs
     @ ['''']"

definition crdt_markdown_report :: "tree_crdt \<Rightarrow> string" where
  "crdt_markdown_report c =
     (let active = length (filter (\<lambda>n. \<not> is_tombstone n) (dict_values (nodes c)));
          ls = [''# AST-CRDT State Report (Agent: '' @ agent_id c @ '')'', '''',
                ''| Metric | Value |'', ''|---|---|'',
                ''| Lamport Clock | '' @ show_int (clock c) @ '' |'',
                ''| Active Nodes | '' @ show_nat active @ '' |'',
                ''| Operation Log Length | '' @ show_nat (length (op_log c)) @ '' |'',
                ''| Diagnostic Findings | '' @ show_nat (length (findings c)) @ '' |'', '''']
      in join_with newline
           (if findings c \<noteq> [] then ls @ crdt_findings_table_lines (findings c) else ls))"

section \<open>Well-formed node maps\<close>

text \<open>Keys are distinct and every node is stored under its own id.\<close>

definition wf_nodes :: "node_map \<Rightarrow> bool" where
  "wf_nodes m \<longleftrightarrow> wf_dict m \<and> (\<forall>k n. dict_get m k = Some n \<longrightarrow> node_id n = k)"

lemma wf_nodes_set: "wf_nodes m \<Longrightarrow> node_id n = k \<Longrightarrow> wf_nodes (dict_set k n m)"
  by (simp add: wf_nodes_def alist_dict.inv_set)

lemma check_orphan_frame [simp]:
  "nodes (check_orphan c p b) = nodes c" "op_log (check_orphan c p b) = op_log c"
  "clock (check_orphan c p b) = clock c" "agent_id (check_orphan c p b) = agent_id c"
  by (simp_all add: check_orphan_def)

lemma apply_operation_wf_nodes:
  assumes "wf_nodes (nodes c)" and "apply_operation c op = (c', r)"
  shows "wf_nodes (nodes c')"
proof -
  have node: "node_id n = k" if "dict_get (nodes c) k = Some n" for k n
    using assms(1) that by (simp add: wf_nodes_def)
  show ?thesis
    using assms
    by (auto simp: apply_operation_def apply_insert_def apply_delete_def apply_move_def Let_def
        node intro!: wf_nodes_set split: op_type.splits option.splits if_splits)
qed

lemma apply_operations_rule:
  assumes "apply_operations c ops = (c', r)" and "P c"
    and "\<And>c op c' r. op \<in> set ops \<Longrightarrow> P c \<Longrightarrow> apply_operation c op = (c', r) \<Longrightarrow> P c'"
  shows "P c'"
  using assms
proof (induction ops arbitrary: c)
  case (Cons op ops)
  obtain c1 r1 where s: "apply_operation c op = (c1, r1)" by (metis prod.exhaust)
  with Cons.prems have p1: "P c1" by (meson list.set_intros(1))
  have step: "P d'" if "x \<in> set ops" "P d" "apply_operation d x = (d', q)" for x d d' q
    using Cons.prems(3) that by (meson list.set_intros(2))
  show ?case
  proof (cases r1)
    case None
    with Cons.prems(1) s have "apply_operations c1 ops = (c', r)" by simp
    then show ?thesis using p1 step by (rule Cons.IH)
  next
    case (Some e)
    with Cons.prems(1) s p1 show ?thesis by simp
  qed
qed simp

lemma apply_operations_append:
  "apply_operations c (xs @ ys) =
     (case apply_operations c xs of
        (c', Some e) \<Rightarrow> (c', Some e)
      | (c', None) \<Rightarrow> apply_operations c' ys)"
  by (induction xs arbitrary: c) (auto split: prod.splits option.splits)

end
