(* ===== verification/Tree_CRDT_Props.thy ===== *)
theory Tree_CRDT_Props
  imports Tree_CRDT
begin

text \<open>
  What the replicated tree guarantees: the bounded ancestor walk decides ancestry, moves below
  present nodes keep the tree rooted and acyclic, peers whose logs hold no moves converge, node
  ids are injective; and where it does not: concurrent moves diverge, a move below an absent
  node opens the way to a cycle.
\<close>

section \<open>The ancestor walk\<close>

inductive on_chain :: "node_map \<Rightarrow> string \<Rightarrow> string \<Rightarrow> bool" for m t where
  here: "on_chain m t t"
| up: "on_chain m t x \<Longrightarrow> x \<noteq> '''' \<Longrightarrow> on_chain m t (next_parent m x)"

inductive_cases on_chain_end: "on_chain m t x"

lemma walk_on_chain: "on_chain m t0 t \<Longrightarrow> on_chain m t0 (ancestor_walk n m a t)"
  by (induction n m a t rule: ancestor_walk.induct) (auto intro: on_chain.intros)

lemma on_chain_funpow:
  "on_chain m t a \<Longrightarrow> \<exists>k. (next_parent m ^^ k) t = a \<and> (\<forall>j<k. (next_parent m ^^ j) t \<noteq> '''')"
proof (induction rule: on_chain.induct)
  case here
  show ?case by (rule exI [of _ 0]) simp
next
  case (up x)
  then obtain k where "(next_parent m ^^ k) t = x" "\<forall>j<k. (next_parent m ^^ j) t \<noteq> ''''" by auto
  with up(2) show ?case by (intro exI [of _ "Suc k"]) (auto simp: less_Suc_eq)
qed

lemma walk_reaches:
  "(next_parent m ^^ k) t = a \<Longrightarrow> \<forall>j<k. (next_parent m ^^ j) t \<noteq> '''' \<Longrightarrow>
    \<forall>j<k. (next_parent m ^^ j) t \<noteq> a \<Longrightarrow> k \<le> n \<Longrightarrow> ancestor_walk n m a t = a"
proof (induction k arbitrary: t n)
  case 0
  then show ?case by (cases n) auto
next
  case (Suc k)
  then obtain n' where n: "n = Suc n'" "k \<le> n'" by (cases n) auto
  have "ancestor_walk n' m a (next_parent m t) = a"
  proof (rule Suc.IH)
    show "(next_parent m ^^ k) (next_parent m t) = a"
      using Suc.prems(1) by (simp add: funpow_swap1)
    show "\<forall>j<k. (next_parent m ^^ j) (next_parent m t) \<noteq> ''''"
      "\<forall>j<k. (next_parent m ^^ j) (next_parent m t) \<noteq> a"
      using Suc.prems(2,3) by (metis Suc_less_eq funpow_Suc_right o_apply)+
  qed (rule n(2))
  moreover have "t \<noteq> ''''" "t \<noteq> a" using Suc.prems(2,3) by (metis funpow_0 zero_less_Suc)+
  ultimately show ?case by (simp add: n(1))
qed

lemma next_parent_absent: "x \<notin> set (dict_keys m) \<Longrightarrow> next_parent m x = ''''"
  using alist_dict.get_iff_key [of m x] by (auto simp: next_parent_def)

text \<open>A shortest chain visits no node twice and only stored nodes before its last step, so it is
  no longer than the map has nodes, plus one.\<close>

lemma shortest_chain_bound:
  fixes m :: node_map
  assumes k: "(next_parent m ^^ k) t = a" and ne: "\<forall>j<k. (next_parent m ^^ j) t \<noteq> ''''"
    and least: "\<And>i. (next_parent m ^^ i) t = a \<Longrightarrow> k \<le> i"
  shows "k \<le> length m + 1"
proof -
  let ?f = "next_parent m"
  have inj: "inj_on (\<lambda>j. (?f ^^ j) t) {..<k}"
  proof (rule linorder_inj_onI)
    fix i j assume ij: "i < j" "i \<in> {..<k}" "j \<in> {..<k}"
    show "(?f ^^ i) t \<noteq> (?f ^^ j) t"
    proof
      assume eq: "(?f ^^ i) t = (?f ^^ j) t"
      have "(?f ^^ (k - j + i)) t = (?f ^^ (k - j)) ((?f ^^ j) t)"
        by (simp add: funpow_add eq)
      also have "\<dots> = (?f ^^ (k - j + j)) t" by (simp only: funpow_add o_apply)
      also have "\<dots> = a" using ij k by simp
      finally have "k \<le> k - j + i" by (rule least)
      with ij show False by simp
    qed
  qed auto
  have "(\<lambda>j. (?f ^^ j) t) ` {..<k - 1} \<subseteq> set (dict_keys m)"
  proof
    fix x assume "x \<in> (\<lambda>j. (?f ^^ j) t) ` {..<k - 1}"
    then obtain j where j: "x = (?f ^^ j) t" "Suc j < k" by auto
    have "?f x = (?f ^^ Suc j) t" by (simp add: j)
    with ne j(2) have "?f x \<noteq> ''''" by metis
    then show "x \<in> set (dict_keys m)" using next_parent_absent by blast
  qed
  then have "card ((\<lambda>j. (?f ^^ j) t) ` {..<k - 1}) \<le> card (set (dict_keys m))"
    by (rule card_mono [rotated]) simp
  also have "\<dots> \<le> length m" by (metis card_length dict_keys_def length_map)
  also have "card ((\<lambda>j. (?f ^^ j) t) ` {..<k - 1}) = k - 1"
    using inj by (subst card_image) (auto intro: inj_on_subset)
  finally show ?thesis by simp
qed

lemma is_ancestor_on_chain: "is_ancestor m a t \<longleftrightarrow> on_chain m t a"
proof
  assume "is_ancestor m a t"
  then show "on_chain m t a"
    using walk_on_chain [OF on_chain.here, of m t "length m + 2" a] by (simp add: is_ancestor_def)
next
  assume "on_chain m t a"
  then obtain k0 where k0: "(next_parent m ^^ k0) t = a" "\<forall>j<k0. (next_parent m ^^ j) t \<noteq> ''''"
    using on_chain_funpow by blast
  define k where "k = (LEAST i. (next_parent m ^^ i) t = a)"
  have k: "(next_parent m ^^ k) t = a" unfolding k_def by (rule LeastI) (rule k0)
  have least: "k \<le> i" if "(next_parent m ^^ i) t = a" for i
    unfolding k_def using that by (rule Least_le)
  have ne: "\<forall>j<k. (next_parent m ^^ j) t \<noteq> ''''" using k0(2) least [OF k0(1)] by simp
  have "k \<le> length m + 2" using shortest_chain_bound [OF k ne least] by simp
  moreover have "\<forall>j<k. (next_parent m ^^ j) t \<noteq> a" using least not_le by blast
  ultimately show "is_ancestor m a t"
    unfolding is_ancestor_def using walk_reaches [OF k ne] by blast
qed

section \<open>Rooted trees\<close>

inductive reaches_root :: "node_map \<Rightarrow> string \<Rightarrow> bool" for m where
  root: "reaches_root m ''root''"
| child: "dict_get m k = Some n \<Longrightarrow> k \<noteq> '''' \<Longrightarrow> reaches_root m (parent_id n) \<Longrightarrow> reaches_root m k"

definition rooted_tree :: "node_map \<Rightarrow> bool" where
  "rooted_tree m \<longleftrightarrow> next_parent m ''root'' = '''' \<and> ''root'' \<in> set (dict_keys m)
     \<and> (\<forall>k\<in>set (dict_keys m). k \<noteq> '''' \<and> reaches_root m k)"

lemma on_chain_shift: "on_chain m (next_parent m x) y \<Longrightarrow> x \<noteq> '''' \<Longrightarrow> on_chain m x y"
  by (induction rule: on_chain.induct) (auto intro: on_chain.intros)

lemma reaches_root_on_chain: "reaches_root m k \<Longrightarrow> on_chain m k ''root''"
proof (induction rule: reaches_root.induct)
  case (child k n)
  then have "next_parent m k = parent_id n" by (simp add: next_parent_def)
  with child show ?case using on_chain_shift by simp
qed (rule on_chain.here)

lemma reaches_root_mono:
  "reaches_root m k \<Longrightarrow> (\<And>x n. dict_get m x = Some n \<Longrightarrow>
     \<exists>n'. dict_get m' x = Some n' \<and> parent_id n' = parent_id n) \<Longrightarrow> reaches_root m' k"
proof (induction rule: reaches_root.induct)
  case (child k n)
  then show ?case by (metis reaches_root.child)
qed (rule reaches_root.root)

lemma reaches_root_move_off:
  assumes "reaches_root m y" and "\<not> on_chain m y k"
    and "\<And>x. x \<noteq> k \<Longrightarrow> dict_get m' x = dict_get m x"
  shows "reaches_root m' y"
  using assms(1,2)
proof (induction rule: reaches_root.induct)
  case (child x n)
  have "next_parent m x = parent_id n" using child by (simp add: next_parent_def)
  then have "\<not> on_chain m (parent_id n) k"
    using child on_chain_shift by metis
  moreover have "x \<noteq> k" using child on_chain.here by blast
  ultimately show ?case using child assms(3) by (metis reaches_root.child)
qed (rule reaches_root.root)

lemma reaches_root_move:
  assumes "reaches_root m y" and "reaches_root m' k"
    and "\<And>x. x \<noteq> k \<Longrightarrow> dict_get m' x = dict_get m x"
  shows "reaches_root m' y"
  using assms(1)
proof (induction rule: reaches_root.induct)
  case (child x n)
  then show ?case using assms(2,3) by (cases "x = k") (auto intro: reaches_root.child)
qed (rule reaches_root.root)

lemma rooted_tree_frame:
  assumes "rooted_tree m" and "set (dict_keys m') = set (dict_keys m)"
    and "\<And>x n. dict_get m x = Some n \<Longrightarrow> \<exists>n'. dict_get m' x = Some n' \<and> parent_id n' = parent_id n"
  shows "rooted_tree m'"
proof -
  have "next_parent m' x = next_parent m x" if x: "x \<in> set (dict_keys m)" for x
  proof -
    obtain n where n: "dict_get m x = Some n" using x alist_dict.get_iff_key [of m x] by auto
    with assms(3) [OF n] show ?thesis by (auto simp: next_parent_def)
  qed
  then show ?thesis
    using assms reaches_root_mono by (auto simp: rooted_tree_def)
qed

lemma rooted_tree_insert:
  assumes rt: "rooted_tree m" and new: "dict_get m k = None" and k: "k \<noteq> ''''"
    and p: "parent_id n \<in> set (dict_keys m)"
  shows "rooted_tree (dict_set k n m)"
proof -
  have kk: "k \<notin> set (dict_keys m)" using new alist_dict.get_iff_key [of m k] by auto
  have up: "reaches_root (dict_set k n m) x" if "x \<in> set (dict_keys m)" for x
  proof (rule reaches_root_mono)
    show "reaches_root m x" using rt that by (simp add: rooted_tree_def)
    show "\<exists>n'. dict_get (dict_set k n m) x = Some n' \<and> parent_id n' = parent_id na"
      if "dict_get m x = Some na" for x na
      using that new by auto
  qed
  then have "reaches_root (dict_set k n m) k"
    using k p by (intro reaches_root.child [of _ k n]) simp_all
  then show ?thesis
    using rt up kk k by (auto simp: rooted_tree_def alist_dict.keys_set next_parent_def)
qed

lemma rooted_tree_move:
  assumes rt: "rooted_tree m" and n: "dict_get m k = Some n"
    and anc: "\<not> is_ancestor m k (parent_id n')" and p: "parent_id n' \<in> set (dict_keys m)"
  shows "rooted_tree (dict_set k n' m)"
proof -
  let ?m = "dict_set k n' m"
  have chain: "\<not> on_chain m (parent_id n') k" using anc by (simp add: is_ancestor_on_chain)
  have k: "k \<in> set (dict_keys m)" using n alist_dict.get_iff_key [of m k] by auto
  have pr: "reaches_root m (parent_id n')" using rt p by (simp add: rooted_tree_def)
  with chain have not_root: "k \<noteq> ''root''" using reaches_root_on_chain by blast
  have "reaches_root ?m (parent_id n')" by (rule reaches_root_move_off [OF pr chain]) simp
  then have at_k: "reaches_root ?m k"
    using rt k by (intro reaches_root.child [of _ k n']) (auto simp: rooted_tree_def)
  have "reaches_root ?m x" if "x \<in> set (dict_keys m)" for x
    using rt that by (intro reaches_root_move [OF _ at_k]) (auto simp: rooted_tree_def)
  then show ?thesis
    using rt k not_root by (auto simp: rooted_tree_def alist_dict.keys_set next_parent_def)
qed

text \<open>The step relation of a replica whose caller swallows exceptions, and the operations that
  keep the tree: a node id is not empty, the target of a move is present.\<close>

definition crdt_step :: "tree_crdt \<Rightarrow> crdt_operation \<Rightarrow> tree_crdt" where
  "crdt_step c op = fst (apply_operation c op)"

definition op_grounded :: "tree_crdt \<Rightarrow> crdt_operation \<Rightarrow> bool" where
  "op_grounded c op \<longleftrightarrow>
     (case op_kind op of
        INSERT_NODE \<Rightarrow> op_node_id op \<noteq> ''''
      | MOVE_NODE \<Rightarrow> dict_get (nodes c) (op_parent_id op) \<noteq> None
      | _ \<Rightarrow> True)"

lemma rooted_tree_keys: "rooted_tree m \<Longrightarrow> ''root'' \<in> set (dict_keys m)"
  by (simp add: rooted_tree_def)

lemma crdt_step_rooted:
  assumes rt: "rooted_tree (nodes c)" and ok: "op_grounded c op"
  shows "rooted_tree (nodes (crdt_step c op))"
proof (cases "op_kind op")
  case INSERT_NODE
  show ?thesis
  proof (cases "dict_get (nodes c) (op_node_id op)")
    case None
    let ?p = "if dict_get (nodes c) (op_parent_id op) \<noteq> None then op_parent_id op else ''root''"
    have "?p \<in> set (dict_keys (nodes c))"
      using rooted_tree_keys [OF rt] alist_dict.get_iff_key [of "nodes c" "op_parent_id op"] by auto
    then show ?thesis
      using INSERT_NODE None ok rt
      by (auto simp: crdt_step_def apply_operation_def apply_insert_def Let_def op_grounded_def
          intro!: rooted_tree_insert split: option.splits)
  qed (use INSERT_NODE rt in \<open>simp add: crdt_step_def apply_operation_def apply_insert_def\<close>)
next
  case DELETE_NODE
  have "rooted_tree (dict_set k (n\<lparr>is_tombstone := True\<rparr>) (nodes c))"
    if "dict_get (nodes c) k = Some n" for k n
    using that alist_dict.get_iff_key [of "nodes c" k]
    by (intro rooted_tree_frame [OF rt]) (auto simp: alist_dict.keys_set)
  with DELETE_NODE rt show ?thesis
    by (auto simp: crdt_step_def apply_operation_def apply_delete_def Let_def split: option.splits)
next
  case MOVE_NODE
  have p: "op_parent_id op \<in> set (dict_keys (nodes c))"
    using MOVE_NODE ok alist_dict.get_iff_key [of "nodes c" "op_parent_id op"]
    by (auto simp: op_grounded_def)
  have "rooted_tree (dict_set (op_node_id op)
      (n\<lparr>parent_id := op_parent_id op, pos := op_pos op\<rparr>) (nodes c))"
    if "dict_get (nodes c) (op_node_id op) = Some n"
      "\<not> is_ancestor (nodes c) (op_node_id op) (op_parent_id op)" for n
    using rooted_tree_move [OF rt that(1)] that(2) p by simp
  with MOVE_NODE rt show ?thesis
    by (auto simp: crdt_step_def apply_operation_def apply_move_def Let_def split: option.splits)
qed (use rt in \<open>simp add: crdt_step_def apply_operation_def\<close>)

interpretation crdt_replica: step_invariant crdt_step op_grounded "\<lambda>c. rooted_tree (nodes c)"
  by unfold_locales (rule crdt_step_rooted)

lemma new_crdt_rooted: "rooted_tree (nodes (new_crdt agent))"
  by (simp add: rooted_tree_def new_crdt_def next_parent_def dict_get_def root_node_def dict_keys_def
      reaches_root.root)

lemma parent_of_empty: "rooted_tree m \<Longrightarrow> next_parent m '''' = ''''"
  by (rule next_parent_absent) (auto simp: rooted_tree_def)

lemma funpow_fixed: "f x = x \<Longrightarrow> (f ^^ n) x = x"
  by (induction n) auto

lemma rooted_tree_acyclic:
  assumes rt: "rooted_tree m" and k: "k \<in> set (dict_keys m)"
  shows "\<not> on_chain m (next_parent m k) k"
proof
  let ?f = "next_parent m"
  assume "on_chain m (?f k) k"
  then obtain i where "(?f ^^ i) (?f k) = k" using on_chain_funpow by blast
  then have cycle: "(?f ^^ Suc i) k = k" by (simp add: funpow_swap1)
  have cycles: "(?f ^^ (Suc i * r)) k = k" for r
    using funpow_fixed [of "?f ^^ Suc i" k r] cycle by (simp only: funpow_mult)
  from rt k have "on_chain m k ''root''" by (auto simp: rooted_tree_def dest: reaches_root_on_chain)
  then obtain n where n: "(?f ^^ n) k = ''root''" using on_chain_funpow by blast
  have "(?f ^^ (j + Suc n)) k = ''''" for j
    using rt n funpow_fixed [where f = ?f, OF parent_of_empty [OF rt], of j]
    by (simp only: funpow_add o_apply funpow.simps(2)) (simp add: rooted_tree_def)
  from this [of "Suc i * Suc n - Suc n"] have "(?f ^^ (Suc i * Suc n)) k = ''''"
    by (simp add: algebra_simps)
  with cycles have "k = ''''" by metis
  with rt k show False unfolding rooted_tree_def by blast
qed

section \<open>Convergence without moves\<close>

text \<open>
  A log is causal over the known ids: an insert names a known parent and a valid kind, a delete a
  known node, and there are no moves.
\<close>

definition op_node_kind :: "crdt_operation \<Rightarrow> node_kind option" where
  "op_node_kind op = parse_node_kind (case dict_get (op_attrs op) ''kind'' of
     Some k \<Rightarrow> k | None \<Rightarrow> node_kind_value STATEMENT)"

fun causal_log :: "string set \<Rightarrow> crdt_operation list \<Rightarrow> bool" where
  "causal_log K [] = True"
| "causal_log K (op # ops) =
     (case op_kind op of
        INSERT_NODE \<Rightarrow> op_parent_id op \<in> K \<and> op_node_kind op \<noteq> None
          \<and> causal_log (insert (op_node_id op) K) ops
      | DELETE_NODE \<Rightarrow> op_node_id op \<in> K \<and> causal_log K ops
      | UPDATE_ATTR \<Rightarrow> causal_log K ops
      | MOVE_NODE \<Rightarrow> False)"

definition inserts_node :: "string \<Rightarrow> crdt_operation \<Rightarrow> bool" where
  "inserts_node k op \<longleftrightarrow> op_kind op = INSERT_NODE \<and> op_node_id op = k"

definition deletes_node :: "string \<Rightarrow> crdt_operation \<Rightarrow> bool" where
  "deletes_node k op \<longleftrightarrow> op_kind op = DELETE_NODE \<and> op_node_id op = k"

definition inserted_ids :: "crdt_operation list \<Rightarrow> string set" where
  "inserted_ids ops = op_node_id ` {op \<in> set ops. op_kind op = INSERT_NODE}"

text \<open>The node an insert creates when its parent is known.\<close>

definition node_of_insert :: "crdt_operation \<Rightarrow> crdt_node" where
  "node_of_insert op = \<lparr>node_id = op_node_id op, kind = the (op_node_kind op),
     parent_id = op_parent_id op, pos = op_pos op, attrs = op_attrs op, is_tombstone = False\<rparr>"

text \<open>What a causal log makes of a node: the first insert creates it, any delete buries it.\<close>

definition bury :: "bool \<Rightarrow> crdt_node \<Rightarrow> crdt_node" where
  "bury b n = n\<lparr>is_tombstone := is_tombstone n \<or> b\<rparr>"

definition replay_node :: "crdt_node option \<Rightarrow> crdt_operation list \<Rightarrow> string \<Rightarrow> crdt_node option" where
  "replay_node n0 ops k =
     map_option (bury (\<exists>op\<in>set ops. deletes_node k op))
       (case n0 of Some n \<Rightarrow> Some n
        | None \<Rightarrow> map_option node_of_insert (List.find (inserts_node k) ops))"

lemma inserted_ids_simps [simp]:
  "inserted_ids [] = {}"
  "inserted_ids (op # ops) =
     (if op_kind op = INSERT_NODE then insert (op_node_id op) (inserted_ids ops) else inserted_ids ops)"
  by (auto simp: inserted_ids_def)

lemma causal_log_mono: "causal_log K ops \<Longrightarrow> K \<subseteq> K' \<Longrightarrow> causal_log K' ops"
proof (induction ops arbitrary: K K')
  case (Cons op ops)
  then show ?case
    using Cons.IH [of "insert (op_node_id op) K" "insert (op_node_id op) K'"] Cons.IH [of K K']
    by (cases "op_kind op") auto
qed simp

lemma bury_bury [simp]: "bury b (bury c n) = bury (c \<or> b) n"
  by (simp add: bury_def disj_ac)

lemma bury_False [simp]: "bury False n = n"
  by (simp add: bury_def)

lemma bury_node_id [simp]: "node_id (bury b n) = node_id n" "parent_id (bury b n) = parent_id n"
  by (simp_all add: bury_def)

text \<open>One causal operation does to the node map what the specification says.\<close>

lemma apply_causal_op:
  assumes "causal_log (set (dict_keys (nodes c))) [op]"
  obtains c' where "apply_operation c op = (c', None)" "op_log c' = op_log c @ [op]"
    "\<And>k. dict_get (nodes c') k = replay_node (dict_get (nodes c) k) [op] k"
    "set (dict_keys (nodes c')) = set (dict_keys (nodes c)) \<union> inserted_ids [op]"
proof -
  have known: "dict_get (nodes c) k \<noteq> None \<longleftrightarrow> k \<in> set (dict_keys (nodes c))" for k
    by (rule alist_dict.get_iff_key)
  show thesis
  proof (cases "op_kind op")
    case INSERT_NODE
    with assms obtain p nk where p: "dict_get (nodes c) (op_parent_id op) = Some p"
      and nk: "op_node_kind op = Some nk"
      using known [of "op_parent_id op"] by auto
    show thesis
    proof (cases "dict_get (nodes c) (op_node_id op)")
      case None
      have "apply_operation c op = (c\<lparr>clock := max (clock c) (op_lamport op) + 1,
          op_log := op_log c @ [op],
          nodes := dict_set (op_node_id op) (node_of_insert op) (nodes c)\<rparr>, None)"
        using INSERT_NODE None p nk
        by (simp add: apply_operation_def apply_insert_def Let_def check_orphan_def node_of_insert_def
            op_node_kind_def)
      then show thesis
        using INSERT_NODE None known
        by (intro that) (auto simp: replay_node_def inserts_node_def deletes_node_def
            split: option.splits)
    next
      case (Some n)
      have "op_node_id op \<in> set (dict_keys (nodes c))" using Some known [of "op_node_id op"] by simp
      with INSERT_NODE Some show thesis
        by (intro that [of "c\<lparr>clock := max (clock c) (op_lamport op) + 1, op_log := op_log c @ [op]\<rparr>"])
          (auto simp: apply_operation_def apply_insert_def Let_def replay_node_def inserts_node_def
            deletes_node_def split: option.splits)
    qed
  next
    case DELETE_NODE
    with assms obtain n where n: "dict_get (nodes c) (op_node_id op) = Some n"
      using known [of "op_node_id op"] by auto
    then have "op_node_id op \<in> set (dict_keys (nodes c))" using known [of "op_node_id op"] by simp
    with DELETE_NODE n show thesis
      by (intro that [of "c\<lparr>clock := max (clock c) (op_lamport op) + 1, op_log := op_log c @ [op],
            nodes := dict_set (op_node_id op) (n\<lparr>is_tombstone := True\<rparr>) (nodes c)\<rparr>"])
        (auto simp: apply_operation_def apply_delete_def Let_def replay_node_def inserts_node_def
          deletes_node_def bury_def alist_dict.keys_set split: option.splits)
  next
    case UPDATE_ATTR
    then show thesis
      by (intro that [of "c\<lparr>clock := max (clock c) (op_lamport op) + 1, op_log := op_log c @ [op]\<rparr>"])
        (auto simp: apply_operation_def Let_def replay_node_def inserts_node_def deletes_node_def
          split: option.splits)
  next
    case MOVE_NODE
    with assms show thesis by simp
  qed
qed

lemma replay_node_Cons:
  assumes "n1 = replay_node n0 [op] k" and "n0 = None \<Longrightarrow> deletes_node k op \<Longrightarrow> False"
  shows "replay_node n1 ops k = replay_node n0 (op # ops) k"
proof (cases n0)
  case None
  with assms(2) have nd: "\<not> deletes_node k op" by blast
  show ?thesis
    using None nd by (cases "inserts_node k op") (auto simp: assms(1) replay_node_def)
next
  case (Some n)
  then show ?thesis by (simp add: assms(1) replay_node_def)
qed

lemma apply_causal_log:
  "causal_log (set (dict_keys (nodes c))) ops \<Longrightarrow>
    \<exists>c'. apply_operations c ops = (c', None) \<and> op_log c' = op_log c @ ops
      \<and> (\<forall>k. dict_get (nodes c') k = replay_node (dict_get (nodes c) k) ops k)
      \<and> set (dict_keys (nodes c')) = set (dict_keys (nodes c)) \<union> inserted_ids ops"
proof (induction ops arbitrary: c)
  case Nil
  have "replay_node n [] k = n" for n k by (cases n) (simp_all add: replay_node_def)
  then show ?case by simp
next
  case (Cons op ops)
  have one: "causal_log (set (dict_keys (nodes c))) [op]"
    using Cons.prems by (auto split: op_type.splits)
  obtain c1 where c1: "apply_operation c op = (c1, None)" "op_log c1 = op_log c @ [op]"
    "\<And>k. dict_get (nodes c1) k = replay_node (dict_get (nodes c) k) [op] k"
    "set (dict_keys (nodes c1)) = set (dict_keys (nodes c)) \<union> inserted_ids [op]"
    using apply_causal_op [OF one] by blast
  have "causal_log (set (dict_keys (nodes c1))) ops"
    using Cons.prems
    unfolding c1(4) by (cases "op_kind op") (auto elim!: causal_log_mono)
  from Cons.IH [OF this] obtain c' where c': "apply_operations c1 ops = (c', None)"
    "op_log c' = op_log c1 @ ops"
    "\<And>k. dict_get (nodes c') k = replay_node (dict_get (nodes c1) k) ops k"
    "set (dict_keys (nodes c')) = set (dict_keys (nodes c1)) \<union> inserted_ids ops"
    by blast
  have "replay_node (dict_get (nodes c1) k) ops k = replay_node (dict_get (nodes c) k) (op # ops) k" for k
  proof (rule replay_node_Cons [OF c1(3)])
    assume "dict_get (nodes c) k = None" "deletes_node k op"
    with Cons.prems show False
      using alist_dict.get_iff_key [of "nodes c" k] by (auto simp: deletes_node_def)
  qed
  moreover have "inserted_ids (op # ops) = inserted_ids [op] \<union> inserted_ids ops"
    by simp
  ultimately show ?case using c1 c' by auto
qed

section \<open>Equal maps give equal views\<close>

lemma sort_key_unique:
  fixes f :: "'a \<Rightarrow> 'b::linorder"
  assumes "set xs = set ys" "distinct xs" "distinct ys" "inj_on f (set xs)"
  shows "sort_key f xs = sort_key f ys"
proof (rule map_inj_on [of f])
  have "sorted (map f (sort_key f xs))" "distinct (map f (sort_key f xs))"
    "sorted (map f (sort_key f ys))" "distinct (map f (sort_key f ys))"
    "set (map f (sort_key f xs)) = set (map f (sort_key f ys))"
    using assms by (simp_all add: distinct_map)
  then show "map f (sort_key f xs) = map f (sort_key f ys)"
    by (rule sorted_distinct_set_unique)
  show "inj_on f (set (sort_key f xs) \<union> set (sort_key f ys))"
    using assms by simp
qed

lemma wf_nodes_values:
  assumes "wf_nodes m"
  shows "n \<in> set (dict_values m) \<longleftrightarrow> dict_get m (node_id n) = Some n"
    and "distinct (dict_values m)" and "inj_on node_id (set (dict_values m))"
proof -
  have wf: "wf_dict m" using assms by (simp add: wf_nodes_def)
  have mem: "(k, n) \<in> set m \<longleftrightarrow> k = node_id n \<and> dict_get m k = Some n" for k n
    using assms dict_get_iff [OF wf] by (auto simp: wf_nodes_def)
  show iff: "n \<in> set (dict_values m) \<longleftrightarrow> dict_get m (node_id n) = Some n" for n
    by (auto simp: dict_values_def image_iff mem intro!: bexI [of _ "(node_id n, n)"])
  show "inj_on node_id (set (dict_values m))"
  proof (rule inj_onI)
    fix x y assume "x \<in> set (dict_values m)" "y \<in> set (dict_values m)" "node_id x = node_id y"
    then have "Some x = Some y" using iff [of x] iff [of y] by simp
    then show "x = y" by simp
  qed
  have "map node_id (dict_values m) = map fst m"
    unfolding dict_values_def map_map by (rule map_cong [OF refl]) (use mem in force)
  with wf show "distinct (dict_values m)"
    by (metis distinct_map wf_dict_def)
qed

lemma same_map_same_children:
  assumes "wf_nodes (nodes c)" "wf_nodes (nodes d)"
    and same: "\<And>k. dict_get (nodes c) k = dict_get (nodes d) k"
  shows "get_active_children c p = get_active_children d p"
  unfolding get_active_children_def
proof (rule sort_key_unique)
  show "set (filter (\<lambda>n. parent_id n = p \<and> \<not> is_tombstone n) (dict_values (nodes c))) =
      set (filter (\<lambda>n. parent_id n = p \<and> \<not> is_tombstone n) (dict_values (nodes d)))"
    using assms by (auto simp: wf_nodes_values(1))
  show "distinct (filter (\<lambda>n. parent_id n = p \<and> \<not> is_tombstone n) (dict_values (nodes c)))"
    "distinct (filter (\<lambda>n. parent_id n = p \<and> \<not> is_tombstone n) (dict_values (nodes d)))"
    using assms by (simp_all add: wf_nodes_values(2))
  show "inj_on (\<lambda>n. (pos n, node_id n))
      (set (filter (\<lambda>n. parent_id n = p \<and> \<not> is_tombstone n) (dict_values (nodes c))))"
    using wf_nodes_values(3) [OF assms(1)] by (auto simp: inj_on_def)
qed

lemma wf_nodes_new: "wf_nodes (nodes (new_crdt agent))"
  by (simp add: wf_nodes_def new_crdt_def wf_dict_def dict_get_def root_node_def)

lemma apply_operations_wf:
  assumes "apply_operations c ops = (c', r)" "wf_nodes (nodes c)"
  shows "wf_nodes (nodes c')"
  using assms by (rule apply_operations_rule) (rule apply_operation_wf_nodes)

text \<open>Two logs that insert the same node insert it alike.\<close>

definition logs_agree :: "crdt_operation list \<Rightarrow> crdt_operation list \<Rightarrow> bool" where
  "logs_agree xs ys \<longleftrightarrow> (\<forall>x\<in>set xs. \<forall>y\<in>set ys.
     op_kind x = INSERT_NODE \<and> op_kind y = INSERT_NODE \<and> op_node_id x = op_node_id y
     \<longrightarrow> node_of_insert x = node_of_insert y)"

lemma find_append: "List.find P (xs @ ys) = (case List.find P xs of None \<Rightarrow> List.find P ys | Some x \<Rightarrow> Some x)"
  by (induction xs) auto

lemma replay_node_commutes:
  assumes "logs_agree xs ys"
  shows "replay_node n0 (xs @ ys) k = replay_node n0 (ys @ xs) k"
proof -
  have "node_of_insert x = node_of_insert y"
    if "List.find (inserts_node k) xs = Some x" "List.find (inserts_node k) ys = Some y" for x y
    using that assms by (auto simp: find_Some_iff logs_agree_def inserts_node_def)
  then show ?thesis
    by (auto simp: replay_node_def find_append disj_commute Un_commute split: option.splits)
qed

lemma new_crdt_keys [simp]:
  "set (dict_keys (nodes (new_crdt agent))) = {''root''}" "op_log (new_crdt agent) = []"
  by (simp_all add: new_crdt_def dict_keys_def)

lemma causal_log_append:
  "causal_log K xs \<Longrightarrow> causal_log K ys \<Longrightarrow> causal_log K (xs @ ys)"
proof (induction xs arbitrary: K)
  case (Cons op xs)
  have "causal_log (insert (op_node_id op) K) ys"
    using Cons.prems(2) by (rule causal_log_mono) auto
  with Cons show ?case by (cases "op_kind op") auto
qed simp

lemma new_crdt_log:
  assumes "causal_log {''root''} xs" "causal_log {''root''} ys"
  obtains a a' where "apply_operations (new_crdt agent) xs = (a, None)" "op_log a = xs"
    "apply_operations a ys = (a', None)" "wf_nodes (nodes a')"
    "\<And>k. dict_get (nodes a') k = replay_node (if k = ''root'' then Some root_node else None) (xs @ ys) k"
proof -
  let ?n = "new_crdt agent"
  from apply_causal_log [of ?n xs] assms(1) obtain a where
    a: "apply_operations ?n xs = (a, None)" "op_log a = xs"
    by auto
  from apply_causal_log [of ?n "xs @ ys"] causal_log_append [OF assms] obtain a' where
    a': "apply_operations ?n (xs @ ys) = (a', None)"
    "\<And>k. dict_get (nodes a') k = replay_node (dict_get (nodes ?n) k) (xs @ ys) k"
    by auto
  have init: "dict_get (nodes ?n) k = (if k = ''root'' then Some root_node else None)" for k
    by (simp add: new_crdt_def dict_get_def)
  show thesis
  proof (rule that)
    show "apply_operations a ys = (a', None)"
      using a'(1) a(1) by (simp add: apply_operations_append)
    show "dict_get (nodes a') k =
        replay_node (if k = ''root'' then Some root_node else None) (xs @ ys) k" for k
      using a'(2) [of k] by (simp only: init)
  qed (rule a apply_operations_wf [OF a'(1) wf_nodes_new])+
qed

section \<open>Properties\<close>

text \<open>The step-limited walk of \<open>is_ancestor\<close> decides ancestry in every node map, cyclic ones
  included: the limit of two more steps than there are nodes cuts nothing off.\<close>

theorem is_ancestor_decides: "is_ancestor m a t \<longleftrightarrow> on_chain m t a"
  by (rule is_ancestor_on_chain)

text \<open>C2: A replica whose moves name present parents and whose inserts name non-empty ids stays a
  tree: every node descends from the root, and none is an ancestor of its own parent.\<close>

theorem grounded_runs_stay_trees:
  assumes "good_run crdt_step op_grounded (new_crdt agent) ops"
    and "k \<in> set (dict_keys (nodes (foldl crdt_step (new_crdt agent) ops)))"
  shows "is_ancestor (nodes (foldl crdt_step (new_crdt agent) ops)) ''root'' k
    \<and> \<not> is_ancestor (nodes (foldl crdt_step (new_crdt agent) ops)) k
        (next_parent (nodes (foldl crdt_step (new_crdt agent) ops)) k)"
proof -
  let ?m = "nodes (foldl crdt_step (new_crdt agent) ops)"
  have rt: "rooted_tree ?m"
    by (rule crdt_replica.run_inv [OF new_crdt_rooted assms(1)])
  then have "reaches_root ?m k" using assms(2) by (simp add: rooted_tree_def)
  then show ?thesis
    using rooted_tree_acyclic [OF rt assms(2)] reaches_root_on_chain
    by (simp add: is_ancestor_on_chain)
qed

definition demo_ops :: "crdt_operation list" where
  "demo_ops =
     [create_insert_op ''a'' 1 \<lparr>target_node_id = ''c'', target_parent_id = ''root'',
        target_pos = ''1.0'', target_kind = CLASS, target_name = ''C''\<rparr>,
      create_insert_op ''a'' 2 \<lparr>target_node_id = ''f'', target_parent_id = ''c'',
        target_pos = ''1.1'', target_kind = FUNCTION, target_name = ''f''\<rparr>]"

lemma grounded_runs_stay_trees_witness:
  "is_ancestor (nodes (foldl crdt_step (new_crdt ''a'')
      (demo_ops @ [create_move_op ''a'' 3 ''f'' (''root'', ''2.0'')]))) ''root'' ''f''
   \<and> \<not> is_ancestor (nodes (foldl crdt_step (new_crdt ''a'')
      (demo_ops @ [create_move_op ''a'' 3 ''f'' (''root'', ''2.0'')]))) ''f''
      (next_parent (nodes (foldl crdt_step (new_crdt ''a'')
        (demo_ops @ [create_move_op ''a'' 3 ''f'' (''root'', ''2.0'')]))) ''f'')"
  by (rule grounded_runs_stay_trees) code_simp+

text \<open>C29: Peers whose logs are causal, hold no moves and agree on what they both insert converge:
  after one synchronisation no handler has raised, every node has the same ordered children on
  both, and both materialise to the same source.\<close>

theorem sync_converges:
  assumes "causal_log {''root''} xs" "causal_log {''root''} ys" "logs_agree xs ys"
    and "apply_operations (new_crdt p) xs = (a, None)" "apply_operations (new_crdt q) ys = (b, None)"
  shows "\<exists>a' b'. sync_peers a b = (a', b', None)
    \<and> (\<forall>n. get_active_children a' n = get_active_children b' n)
    \<and> materialize_to_source a' = materialize_to_source b'"
proof -
  obtain a' where a: "op_log a = xs" "apply_operations a ys = (a', None)" "wf_nodes (nodes a')"
    "\<And>k. dict_get (nodes a') k = replay_node (if k = ''root'' then Some root_node else None) (xs @ ys) k"
    using new_crdt_log [OF assms(1,2), of p] assms(4) by (metis prod.inject)
  obtain b' where b: "op_log b = ys" "apply_operations b xs = (b', None)" "wf_nodes (nodes b')"
    "\<And>k. dict_get (nodes b') k = replay_node (if k = ''root'' then Some root_node else None) (ys @ xs) k"
    using new_crdt_log [OF assms(2,1), of q] assms(5) by (metis prod.inject)
  have "dict_get (nodes a') k = dict_get (nodes b') k" for k
    by (simp add: a(4) b(4) replay_node_commutes [OF assms(3)])
  then have "get_active_children a' n = get_active_children b' n" for n
    by (rule same_map_same_children [OF a(3) b(3)])
  moreover have "sync_peers a b = (a', b', None)"
    by (simp add: sync_peers_def Let_def a b)
  ultimately show ?thesis by (simp add: materialize_to_source_def)
qed

lemma sync_converges_witness:
  "\<exists>a' b'. sync_peers (fst (apply_operations (new_crdt ''a'') demo_ops))
        (fst (apply_operations (new_crdt ''b'')
          (demo_ops @ [create_delete_op ''b'' 3 ''f'']))) = (a', b', None)
    \<and> (\<forall>n. get_active_children a' n = get_active_children b' n)
    \<and> materialize_to_source a' = materialize_to_source b'"
  by (rule sync_converges [of demo_ops "demo_ops @ [create_delete_op ''b'' 3 ''f'']"]) code_simp+

text \<open>Concurrent moves do not commute: two peers that hold the same node and move it apart
  disagree about its position after synchronising.\<close>

theorem concurrent_moves_diverge:
  "(case sync_peers
      (fst (apply_operations (new_crdt ''a'') (demo_ops @ [create_move_op ''a'' 3 ''f'' (''root'', ''2.0'')])))
      (fst (apply_operations (new_crdt ''b'') (demo_ops @ [create_move_op ''b'' 3 ''f'' (''root'', ''0.5'')])))
    of (a', b', e) \<Rightarrow> e = None \<and> materialize_to_source a' \<noteq> materialize_to_source b')"
  by code_simp

text \<open>The cycle check of \<open>apply_move\<close> can be passed by: move a node below an id that is not
  present, then insert that id below the node. No cycle finding is recorded, both nodes are
  ancestors of each other and neither descends from the root.\<close>

theorem absent_parent_opens_cycle:
  "let c = fst (apply_operations (new_crdt ''a'')
         (demo_ops @ [create_move_op ''a'' 3 ''c'' (''g'', ''1.0''),
           create_insert_op ''b'' 4 \<lparr>target_node_id = ''g'', target_parent_id = ''c'',
             target_pos = ''1.0'', target_kind = CLASS, target_name = ''G''\<rparr>]))
   in is_ancestor (nodes c) ''c'' ''g'' \<and> is_ancestor (nodes c) ''g'' ''c''
      \<and> \<not> is_ancestor (nodes c) ''root'' ''c'' \<and> findings c = []"
  by code_simp

text \<open>Canonical node ids are injective: agent, Lamport time and counter can be read back, even
  where the agent's name itself holds colons.\<close>

theorem create_node_id_inj:
  "create_node_id ag l c = create_node_id ag' l' c' \<longleftrightarrow> ag = ag' \<and> l = l' \<and> c = c'"
proof
  have last_colon: "s = s' \<and> t = t'"
    if "s @ '':'' @ t = s' @ '':'' @ t'" "CHR '':'' \<notin> set t" "CHR '':'' \<notin> set t'" for s s' t t'
    using that by (auto simp: append_eq_append_conv2 append_eq_Cons_conv Cons_eq_append_conv)
  assume "create_node_id ag l c = create_node_id ag' l' c'"
  then have "(ag @ '':'' @ show_int l) @ '':'' @ show_int c = (ag' @ '':'' @ show_int l') @ '':'' @ show_int c'"
    by (simp add: create_node_id_def)
  from last_colon [OF this show_int_no_colon show_int_no_colon]
  have "ag @ '':'' @ show_int l = ag' @ '':'' @ show_int l'" "c = c'" by simp_all
  with last_colon [OF this(1) show_int_no_colon show_int_no_colon]
  show "ag = ag' \<and> l = l' \<and> c = c'" by simp
qed simp

end
