(* ===== verification/Code_Memory.thy ===== *)
theory Code_Memory
  imports Text_Search
begin

text \<open>
  \<open>tools/code_memory.py\<close>: the semantic code graph. The visitor that extracts symbols and edges
  from a syntax tree, the incremental index with its adjacency tables, the blast radius search,
  the depth first cycle search, the audits and the (de)serialisation of the index. Parsing and
  hashing are \<open>ast.parse\<close> and \<open>hashlib.sha256\<close>: parameters of the operations that call them.
  A syntax tree is what the visitor reads of one: the node classes it has a handler for with the
  attributes the handlers use, and the children \<open>generic_visit\<close> visits, in order.
\<close>

section \<open>Data\<close>

datatype symbol_kind = SK_MODULE | SK_CLASS | SK_FUNCTION | SK_METHOD | SK_VARIABLE

datatype edge_kind = CALLS | IMPORTS | INHERITS | DEFINES

definition symbol_kind_value :: "symbol_kind \<Rightarrow> string" where
  "symbol_kind_value k = (case k of SK_MODULE \<Rightarrow> ''module'' | SK_CLASS \<Rightarrow> ''class''
     | SK_FUNCTION \<Rightarrow> ''function'' | SK_METHOD \<Rightarrow> ''method'' | SK_VARIABLE \<Rightarrow> ''variable'')"

definition edge_kind_value :: "edge_kind \<Rightarrow> string" where
  "edge_kind_value k = (case k of CALLS \<Rightarrow> ''calls'' | IMPORTS \<Rightarrow> ''imports''
     | INHERITS \<Rightarrow> ''inherits'' | DEFINES \<Rightarrow> ''defines'')"

definition parse_symbol_kind :: "string \<Rightarrow> symbol_kind option" where
  "parse_symbol_kind s = List.find (\<lambda>k. symbol_kind_value k = s)
     [SK_MODULE, SK_CLASS, SK_FUNCTION, SK_METHOD, SK_VARIABLE]"

definition parse_edge_kind :: "string \<Rightarrow> edge_kind option" where
  "parse_edge_kind s = List.find (\<lambda>k. edge_kind_value k = s) [CALLS, IMPORTS, INHERITS, DEFINES]"

record symbol_signature =
  sig_params :: "string list"
  required_count :: int
  total_count :: int
  has_varargs :: bool
  has_varkwargs :: bool
  kwonly_args :: "string list"

record symbol_node =
  sym_id :: string
  sym_name :: string
  sym_kind :: symbol_kind
  sym_file :: string
  sym_line :: int
  sym_signature :: "symbol_signature option"
  sym_docstring :: "string option"
  sym_hash :: string

record graph_edge =
  source_id :: string
  target_id :: string
  edge_kind :: edge_kind
  call_site_line :: int
  call_arg_count :: "int option"

record memory_finding =
  mf_rule :: string
  mf_severity :: string
  mf_message :: string
  mf_file :: string
  mf_line :: int
  mf_symbol :: "string option"

section \<open>The visitor\<close>

text \<open>The argument lists of a function definition, as \<open>ast.arguments\<close> holds them.\<close>

record function_arguments =
  posonlyargs :: "string list"
  pos_args :: "string list"
  defaults_count :: nat
  vararg :: "string option"
  kwarg :: "string option"
  kwonlyargs :: "string list"

datatype ast_info =
    AImport "(string \<times> string option) list" int
  | AImportFrom "string option" "(string \<times> string option) list" int
  | AClassDef string int "string option list" "string option"
  | AFunctionDef bool string int function_arguments "string option"
  | ACall "string option" nat int
  | AOther

datatype py_ast = AstNode ast_info "py_ast list"

record visitor =
  v_file :: string
  scope_stack :: "string list"
  v_symbols :: "symbol_node list"
  v_edges :: "graph_edge list"
  imports_map :: "(string, string) dict"

definition extract_function_signature :: "function_arguments \<Rightarrow> symbol_signature" where
  "extract_function_signature a =
     (let pos = posonlyargs a @ pos_args a; total_pos = int (length pos)
      in \<lparr>sig_params = pos, required_count = max 0 (total_pos - int (defaults_count a)),
          total_count = total_pos, has_varargs = (vararg a \<noteq> None),
          has_varkwargs = (kwarg a \<noteq> None), kwonly_args = kwonlyargs a\<rparr>)"

definition new_visitor :: "string \<Rightarrow> visitor" where
  "new_visitor path = \<lparr>v_file = path, scope_stack = [path], v_symbols = [], v_edges = [],
     imports_map = []\<rparr>"

definition current_scope :: "visitor \<Rightarrow> string" where
  "current_scope v = last (scope_stack v)"

definition add_edge :: "string \<Rightarrow> string \<Rightarrow> edge_kind \<Rightarrow> int \<Rightarrow> int option \<Rightarrow> visitor \<Rightarrow> visitor" where
  "add_edge src tgt k line args v = v\<lparr>v_edges := v_edges v @
     [\<lparr>source_id = src, target_id = tgt, edge_kind = k, call_site_line = line, call_arg_count = args\<rparr>]\<rparr>"

definition alias_name :: "string \<times> string option \<Rightarrow> string" where
  "alias_name al = (case snd al of Some a \<Rightarrow> (if a \<noteq> '''' then a else fst al) | None \<Rightarrow> fst al)"

definition visit_Import :: "(string \<times> string option) list \<Rightarrow> int \<Rightarrow> visitor \<Rightarrow> visitor" where
  "visit_Import names line v = fold (\<lambda>al v.
     add_edge (v_file v) (fst al) IMPORTS line None
       (v\<lparr>imports_map := dict_set (alias_name al) (fst al) (imports_map v)\<rparr>)) names v"

definition visit_ImportFrom ::
  "string option \<Rightarrow> (string \<times> string option) list \<Rightarrow> int \<Rightarrow> visitor \<Rightarrow> visitor" where
  "visit_ImportFrom md names line v =
     (let module_name = (case md of Some m \<Rightarrow> m | None \<Rightarrow> '''') in
      fold (\<lambda>al v.
        let tgt = (if module_name \<noteq> '''' then module_name @ ''.'' @ fst al else fst al)
        in add_edge (v_file v) tgt IMPORTS line None
             (v\<lparr>imports_map := dict_set (alias_name al) tgt (imports_map v)\<rparr>)) names v)"

definition resolve_import :: "visitor \<Rightarrow> string \<Rightarrow> string" where
  "resolve_import v name = (case dict_get (imports_map v) name of Some t \<Rightarrow> t | None \<Rightarrow> name)"

text \<open>The list literal \<open>['a', 'b']\<close> a hash input embeds; parameter names are identifiers.\<close>

definition repr_names :: "string list \<Rightarrow> string" where
  "repr_names ns = ''['' @ join_with '', '' (map (\<lambda>n. [CHR 0x27] @ n @ [CHR 0x27]) ns) @ '']''"

definition enter_class ::
  "(string \<Rightarrow> string) \<Rightarrow> string \<Rightarrow> int \<Rightarrow> string option list \<Rightarrow> string option \<Rightarrow> visitor \<Rightarrow> visitor" where
  "enter_class sha name line bases doc v =
     (let class_id = v_file v @ ''::'' @ name;
          sym = \<lparr>sym_id = class_id, sym_name = name, sym_kind = SK_CLASS, sym_file = v_file v,
                 sym_line = line, sym_signature = None, sym_docstring = doc,
                 sym_hash = sha (''class:'' @ name @ '':'' @ show_int line)\<rparr>;
          v1 = add_edge (current_scope v) class_id DEFINES line None
                 (v\<lparr>v_symbols := v_symbols v @ [sym]\<rparr>);
          v2 = fold (\<lambda>b v. case b of
                   Some base \<Rightarrow> if base \<noteq> '''' then add_edge class_id (resolve_import v base) INHERITS line None v else v
                 | None \<Rightarrow> v) bases v1
      in v2\<lparr>scope_stack := scope_stack v2 @ [class_id]\<rparr>)"

definition enter_function ::
  "(string \<Rightarrow> string) \<Rightarrow> bool \<Rightarrow> string \<Rightarrow> int \<Rightarrow> function_arguments \<Rightarrow> string option \<Rightarrow> visitor \<Rightarrow> visitor" where
  "enter_function sha is_async name line args doc v =
     (let is_method = length (scope_stack v) > 1 \<and> contains_sub ''::'' (current_scope v);
          k = (if is_method then SK_METHOD else SK_FUNCTION);
          func_id = (if is_method then current_scope v @ ''.'' @ name else v_file v @ ''::'' @ name);
          sig = extract_function_signature args;
          node_hash = sha ((if is_async then ''async_'' else '''') @ ''func:'' @ name @ '':''
                        @ repr_names (sig_params sig) @ '':'' @ show_int line);
          sym = \<lparr>sym_id = func_id, sym_name = name, sym_kind = k, sym_file = v_file v,
                 sym_line = line, sym_signature = Some sig, sym_docstring = doc, sym_hash = node_hash\<rparr>;
          v1 = add_edge (current_scope v) func_id DEFINES line None
                 (v\<lparr>v_symbols := v_symbols v @ [sym]\<rparr>)
      in v1\<lparr>scope_stack := scope_stack v1 @ [func_id]\<rparr>)"

definition visit_Call :: "string option \<Rightarrow> nat \<Rightarrow> int \<Rightarrow> visitor \<Rightarrow> visitor" where
  "visit_Call name argc line v =
     (case name of
        Some n \<Rightarrow> if n \<noteq> '''' then add_edge (current_scope v) (resolve_import v n) CALLS line (Some (int argc)) v else v
      | None \<Rightarrow> v)"

definition pop_scope :: "visitor \<Rightarrow> visitor" where
  "pop_scope v = v\<lparr>scope_stack := butlast (scope_stack v)\<rparr>"

fun visit :: "(string \<Rightarrow> string) \<Rightarrow> py_ast \<Rightarrow> visitor \<Rightarrow> visitor"
and visit_all :: "(string \<Rightarrow> string) \<Rightarrow> py_ast list \<Rightarrow> visitor \<Rightarrow> visitor" where
  "visit sha (AstNode info children) v =
     (case info of
        AImport names line \<Rightarrow> visit_all sha children (visit_Import names line v)
      | AImportFrom md names line \<Rightarrow> visit_all sha children (visit_ImportFrom md names line v)
      | AClassDef name line bases doc \<Rightarrow>
          pop_scope (visit_all sha children (enter_class sha name line bases doc v))
      | AFunctionDef is_async name line args doc \<Rightarrow>
          pop_scope (visit_all sha children (enter_function sha is_async name line args doc v))
      | ACall name argc line \<Rightarrow> visit_all sha children (visit_Call name argc line v)
      | AOther \<Rightarrow> visit_all sha children v)"
| "visit_all sha [] v = v"
| "visit_all sha (t # ts) v = visit_all sha ts (visit sha t v)"

section \<open>The index\<close>

record memory_index =
  symbols :: "(string, symbol_node) dict"
  edges :: "graph_edge list"
  file_hashes :: "(string, string) dict"
  file_symbols :: "(string, string list) dict"
  forward_edges :: "(string, graph_edge list) dict"
  backward_edges :: "(string, graph_edge list) dict"

definition new_index :: memory_index where
  "new_index = \<lparr>symbols = [], edges = [], file_hashes = [], file_symbols = [],
     forward_edges = [], backward_edges = []\<rparr>"

definition dict_list :: "(string, 'a list) dict \<Rightarrow> string \<Rightarrow> 'a list" where
  "dict_list d k = (case dict_get d k of Some xs \<Rightarrow> xs | None \<Rightarrow> [])"

text \<open>\<open>d.setdefault(k, []).append(x)\<close>.\<close>

definition dict_append :: "string \<Rightarrow> 'a \<Rightarrow> (string, 'a list) dict \<Rightarrow> (string, 'a list) dict" where
  "dict_append k x d = dict_set k (dict_list d k @ [x]) d"

definition rebuild_adjacency :: "memory_index \<Rightarrow> memory_index" where
  "rebuild_adjacency idx = idx
     \<lparr>forward_edges := fold (\<lambda>e d. dict_append (source_id e) e d) (edges idx) [],
      backward_edges := fold (\<lambda>e d. dict_append (target_id e) e d) (edges idx) []\<rparr>"

definition remove_file_symbols :: "string \<Rightarrow> memory_index \<Rightarrow> memory_index" where
  "remove_file_symbols path idx =
     (let old_ids = dict_list (file_symbols idx) path;
          idx1 = idx\<lparr>symbols := fold dict_pop old_ids (symbols idx)\<rparr>;
          idx2 = idx1\<lparr>edges := filter (\<lambda>e. source_id e \<notin> set old_ids \<and> target_id e \<notin> set old_ids
                   \<and> \<not> starts_with (source_id e) (path @ ''::'')) (edges idx1)\<rparr>
      in rebuild_adjacency idx2)"

definition add_file_artifacts ::
  "string \<Rightarrow> string \<Rightarrow> symbol_node list \<Rightarrow> graph_edge list \<Rightarrow> memory_index \<Rightarrow> memory_index" where
  "add_file_artifacts path h new_symbols new_edges idx =
     rebuild_adjacency (idx
       \<lparr>file_hashes := dict_set path h (file_hashes idx),
        file_symbols := dict_set path (map sym_id new_symbols) (file_symbols idx),
        symbols := fold (\<lambda>s. dict_set (sym_id s) s) new_symbols (symbols idx),
        edges := edges idx @ new_edges\<rparr>)"

definition index_file ::
  "(string \<Rightarrow> string) \<Rightarrow> (string \<Rightarrow> py_ast option) \<Rightarrow> string \<Rightarrow> string \<Rightarrow> memory_index \<Rightarrow> memory_index \<times> bool" where
  "index_file sha parse path code idx =
     (let cur_hash = sha code in
      if dict_get (file_hashes idx) path = Some cur_hash then (idx, False)
      else
        (let idx1 = remove_file_symbols path idx
         in case parse code of
              None \<Rightarrow> (idx1, False)
            | Some tree \<Rightarrow>
                (let v = visit sha tree (new_visitor path)
                 in (add_file_artifacts path cur_hash (v_symbols v) (v_edges v) idx1, True))))"

section \<open>Blast radius\<close>

definition blast_edge :: "graph_edge \<Rightarrow> string set \<times> string list \<Rightarrow> string set \<times> string list" where
  "blast_edge e st =
     (let (visited, queue) = st; src = source_id e in
      if edge_kind e = DEFINES then (visited, queue)
      else if src \<notin> visited then (insert src visited, queue @ [src])
      else (visited, queue))"

definition step_blast_radius ::
  "(string, graph_edge list) dict \<Rightarrow> string \<Rightarrow> string set \<times> string list \<Rightarrow> string set \<times> string list" where
  "step_blast_radius bw cur st = fold blast_edge (dict_list bw cur) st"

definition table_sources :: "(string, graph_edge list) dict \<Rightarrow> string set" where
  "table_sources bw = set (map source_id (concat (dict_values bw)))"

definition work_left :: "string set \<Rightarrow> string set \<times> string list \<Rightarrow> nat" where
  "work_left S st = card (S - fst st) + length (snd st)"

lemma dict_list_in_values: "e \<in> set (dict_list d k) \<Longrightarrow> e \<in> set (concat (dict_values d))"
  using dict_get_in_set [of d k] by (cases "dict_get d k") (force simp: dict_list_def dict_values_def)+

lemma blast_edge_cases:
  "blast_edge e (vis, q) =
     (if edge_kind e = DEFINES \<or> source_id e \<in> vis then (vis, q)
      else (insert (source_id e) vis, q @ [source_id e]))"
  by (simp add: blast_edge_def Let_def)

lemma blast_edge_work:
  assumes "finite S" "source_id e \<in> S"
  shows "work_left S (blast_edge e st) = work_left S st"
proof (cases st)
  case [simp]: (Pair vis q)
  have "Suc (card (S - insert (source_id e) vis)) = card (S - vis)" if "source_id e \<notin> vis"
  proof -
    have "S - insert (source_id e) vis = (S - vis) - {source_id e}" by blast
    then show ?thesis using that assms by (metis Diff_iff card.remove finite_Diff)
  qed
  then show ?thesis by (simp add: blast_edge_cases work_left_def)
qed

lemma fold_blast_edge_work:
  assumes "finite S" "source_id ` set es \<subseteq> S"
  shows "work_left S (fold blast_edge es st) = work_left S st"
  using assms(2) by (induction es arbitrary: st) (auto simp: blast_edge_work assms(1))

lemma step_blast_radius_work:
  "work_left (table_sources bw) (step_blast_radius bw cur st) = work_left (table_sources bw) st"
  unfolding step_blast_radius_def
  by (rule fold_blast_edge_work) (auto simp: table_sources_def dest: dict_list_in_values)

text \<open>The \<open>while queue\<close> loop: what is left to visit plus the queue shrinks.\<close>

function blast_loop :: "(string, graph_edge list) dict \<Rightarrow> string set \<Rightarrow> string list \<Rightarrow> string set" where
  "blast_loop bw visited [] = visited"
| "blast_loop bw visited (cur # queue) =
     (let st = step_blast_radius bw cur (visited, queue) in blast_loop bw (fst st) (snd st))"
  by pat_completeness auto
termination
proof (relation "measure (\<lambda>(bw, visited, queue). work_left (table_sources bw) (visited, queue))",
    goal_cases)
  case (2 bw visited cur queue st)
  have "work_left (table_sources bw) st < work_left (table_sources bw) (visited, cur # queue)"
    unfolding 2 step_blast_radius_work by (simp add: work_left_def)
  then show ?case by simp
qed simp

definition calculate_blast_radius :: "memory_index \<Rightarrow> string \<Rightarrow> string set" where
  "calculate_blast_radius idx sid = blast_loop (backward_edges idx) {} [sid] - {sid}"

section \<open>Cycle search\<close>

text \<open>
  The state of the search: \<open>visited\<close> (1 on the path, 2 done), the path and the cycles found.
  The recursion is bounded by its depth, which never exceeds the number of ids of the graph
  (\<open>dfs_universe\<close>); \<open>None\<close> is running out of depth.
\<close>

record dfs_state =
  visited :: "(string, nat) dict"
  dfs_path :: "string list"
  cycles :: "string list list"

definition visit_state :: "dfs_state \<Rightarrow> string \<Rightarrow> nat" where
  "visit_state st n = (case dict_get (visited st) n of Some s \<Rightarrow> s | None \<Rightarrow> 0)"

definition set_visit :: "string \<Rightarrow> nat \<Rightarrow> dfs_state \<Rightarrow> dfs_state" where
  "set_visit n k st = st\<lparr>visited := dict_set n k (visited st)\<rparr>"

text \<open>\<open>path[path.index(n):]\<close>.\<close>

definition path_from :: "string list \<Rightarrow> string \<Rightarrow> string list" where
  "path_from path n = dropWhile (\<lambda>x. x \<noteq> n) path"

fun fold_opt :: "('a \<Rightarrow> 's \<Rightarrow> 's option) \<Rightarrow> 'a list \<Rightarrow> 's \<Rightarrow> 's option" where
  "fold_opt f [] s = Some s"
| "fold_opt f (x # xs) s = (case f x s of None \<Rightarrow> None | Some s' \<Rightarrow> fold_opt f xs s')"

definition step_cycle_edge ::
  "(string \<Rightarrow> dfs_state \<Rightarrow> dfs_state option) \<Rightarrow> graph_edge \<Rightarrow> dfs_state \<Rightarrow> dfs_state option" where
  "step_cycle_edge dfs e st =
     (let nxt = target_id e; state = visit_state st nxt in
      if state = 1 then Some (st\<lparr>cycles := cycles st @ [path_from (dfs_path st) nxt @ [nxt]]\<rparr>)
      else if state = 0 \<and> length (cycles st) < 10 then dfs nxt st
      else Some st)"

primrec dfs_cycle ::
  "nat \<Rightarrow> (string, graph_edge list) dict \<Rightarrow> string \<Rightarrow> dfs_state \<Rightarrow> dfs_state option" where
  "dfs_cycle 0 fw cur st = None"
| "dfs_cycle (Suc depth) fw cur st =
     (case fold_opt (step_cycle_edge (dfs_cycle depth fw)) (dict_list fw cur)
             ((set_visit cur 1 st)\<lparr>dfs_path := dfs_path st @ [cur]\<rparr>) of
        None \<Rightarrow> None
      | Some st' \<Rightarrow> Some (set_visit cur 2 (st'\<lparr>dfs_path := butlast (dfs_path st')\<rparr>)))"

definition dfs_node ::
  "nat \<Rightarrow> (string, graph_edge list) dict \<Rightarrow> string \<Rightarrow> dfs_state \<Rightarrow> dfs_state option" where
  "dfs_node depth fw n st = (if visit_state st n = 0 then dfs_cycle depth fw n st else Some st)"

definition dfs_universe :: "memory_index \<Rightarrow> string list" where
  "dfs_universe idx = dict_keys (symbols idx) @ map target_id (concat (dict_values (forward_edges idx)))"

definition detect_dependency_cycles :: "memory_index \<Rightarrow> string list list option" where
  "detect_dependency_cycles idx =
     map_option cycles
       (fold_opt (dfs_node (length (dfs_universe idx) + 1) (forward_edges idx)) (dict_keys (symbols idx))
         \<lparr>visited = [], dfs_path = [], cycles = []\<rparr>)"

end
