(* ===== verification/Code_Memory_Audit.thy ===== *)
theory Code_Memory_Audit
  imports Code_Memory
begin

text \<open>
  \<open>tools/code_memory.py\<close>, second half: the (de)serialisation of the index, the audits SGM001
  to SGM005 of \<open>CodeMemoryOracle\<close>, the SARIF, Mermaid and Markdown reports, and the indexing of
  a directory, whose listing and file reads are values handed in.
\<close>

section \<open>Serialisation\<close>

definition json_opt :: "('a \<Rightarrow> json) \<Rightarrow> 'a option \<Rightarrow> json" where
  "json_opt f x = (case x of None \<Rightarrow> JNull | Some y \<Rightarrow> f y)"

definition signature_to_dict :: "symbol_signature \<Rightarrow> json" where
  "signature_to_dict g = JObj
     [(''params'', JArr (map JStr (sig_params g))), (''required_count'', JInt (required_count g)),
      (''total_count'', JInt (total_count g)), (''has_varargs'', JBool (has_varargs g)),
      (''has_varkwargs'', JBool (has_varkwargs g)), (''kwonly_args'', JArr (map JStr (kwonly_args g)))]"

definition symbol_to_dict :: "symbol_node \<Rightarrow> json" where
  "symbol_to_dict s = JObj
     [(''id'', JStr (sym_id s)), (''name'', JStr (sym_name s)),
      (''kind'', JStr (symbol_kind_value (sym_kind s))), (''file_path'', JStr (sym_file s)),
      (''line'', JInt (sym_line s)), (''signature'', json_opt signature_to_dict (sym_signature s)),
      (''docstring'', json_opt JStr (sym_docstring s)), (''content_hash'', JStr (sym_hash s))]"

definition edge_to_dict :: "graph_edge \<Rightarrow> json" where
  "edge_to_dict e = JObj
     [(''source_id'', JStr (source_id e)), (''target_id'', JStr (target_id e)),
      (''kind'', JStr (edge_kind_value (edge_kind e))), (''call_site_line'', JInt (call_site_line e)),
      (''call_arg_count'', json_opt JInt (call_arg_count e))]"

definition index_to_dict :: "memory_index \<Rightarrow> json" where
  "index_to_dict idx = JObj
     [(''symbols'', JObj (map (\<lambda>(k, s). (k, symbol_to_dict s)) (symbols idx))),
      (''edges'', JArr (map edge_to_dict (edges idx))),
      (''file_hashes'', JObj (map (\<lambda>(k, h). (k, JStr h)) (file_hashes idx))),
      (''file_symbols'', JObj (map (\<lambda>(k, ids). (k, JArr (map JStr ids))) (file_symbols idx)))]"

text \<open>
  What \<open>from_dict\<close> raises. Python stores a field of a wrong JSON type unchecked; a typed record
  cannot, so the model reports \<open>TypeMismatch\<close> there.
\<close>

datatype load_error = KeyError string | ValueError string | TypeError | TypeMismatch

type_synonym 'a loaded = "(load_error, 'a) result"

fun as_str :: "json \<Rightarrow> string loaded" where
  "as_str (JStr s) = Inr s"
| "as_str _ = Inl TypeMismatch"

fun as_int :: "json \<Rightarrow> int loaded" where
  "as_int (JInt i) = Inr i"
| "as_int _ = Inl TypeMismatch"

fun as_bool :: "json \<Rightarrow> bool loaded" where
  "as_bool (JBool b) = Inr b"
| "as_bool _ = Inl TypeMismatch"

fun as_arr :: "json \<Rightarrow> json list loaded" where
  "as_arr (JArr xs) = Inr xs"
| "as_arr _ = Inl TypeMismatch"

fun as_obj :: "json \<Rightarrow> (string \<times> json) list loaded" where
  "as_obj (JObj kvs) = Inr kvs"
| "as_obj _ = Inl TypeMismatch"

fun as_opt :: "(json \<Rightarrow> 'a loaded) \<Rightarrow> json \<Rightarrow> 'a option loaded" where
  "as_opt f JNull = Inr None"
| "as_opt f j = result_bind (f j) (\<lambda>x. Inr (Some x))"

text \<open>\<open>v[k]\<close> and \<open>v.get(k, d)\<close>.\<close>

definition need :: "json \<Rightarrow> string \<Rightarrow> (json \<Rightarrow> 'a loaded) \<Rightarrow> 'a loaded" where
  "need j k f = (case json_field j k of None \<Rightarrow> Inl (KeyError k) | Some v \<Rightarrow> f v)"

definition get_or :: "json \<Rightarrow> string \<Rightarrow> json \<Rightarrow> (json \<Rightarrow> 'a loaded) \<Rightarrow> 'a loaded" where
  "get_or j k d f = (case json_field j k of None \<Rightarrow> f d | Some v \<Rightarrow> f v)"

definition as_symbol_kind :: "json \<Rightarrow> symbol_kind loaded" where
  "as_symbol_kind j = result_bind (as_str j)
     (\<lambda>s. case parse_symbol_kind s of None \<Rightarrow> Inl (ValueError s) | Some k \<Rightarrow> Inr k)"

definition as_edge_kind :: "json \<Rightarrow> edge_kind loaded" where
  "as_edge_kind j = result_bind (as_str j)
     (\<lambda>s. case parse_edge_kind s of None \<Rightarrow> Inl (ValueError s) | Some k \<Rightarrow> Inr k)"

definition signature_fields :: "string list" where
  "signature_fields = [''params'', ''required_count'', ''total_count'', ''has_varargs'',
     ''has_varkwargs'', ''kwonly_args'']"

text \<open>\<open>SymbolSignature(**sig_data)\<close>: a missing or an unexpected keyword is a \<open>TypeError\<close>.\<close>

definition signature_from_dict :: "json \<Rightarrow> symbol_signature loaded" where
  "signature_from_dict j = result_bind (as_obj j) (\<lambda>kvs.
     if set (map fst kvs) \<noteq> set signature_fields then Inl TypeError
     else result_bind (need j ''params'' as_arr) (\<lambda>ps.
       result_bind (map_result as_str ps) (\<lambda>params.
       result_bind (need j ''required_count'' as_int) (\<lambda>req.
       result_bind (need j ''total_count'' as_int) (\<lambda>tot.
       result_bind (need j ''has_varargs'' as_bool) (\<lambda>va.
       result_bind (need j ''has_varkwargs'' as_bool) (\<lambda>vk.
       result_bind (need j ''kwonly_args'' as_arr) (\<lambda>ks.
       result_bind (map_result as_str ks) (\<lambda>kwonly.
         Inr \<lparr>sig_params = params, required_count = req, total_count = tot, has_varargs = va,
              has_varkwargs = vk, kwonly_args = kwonly\<rparr>)))))))))"

text \<open>\<open>if sig_data\<close>: \<open>None\<close> and the empty dict are falsy.\<close>

definition as_signature :: "json \<Rightarrow> symbol_signature option loaded" where
  "as_signature j = (if j = JNull \<or> j = JObj [] then Inr None
     else result_bind (signature_from_dict j) (\<lambda>g. Inr (Some g)))"

definition symbol_from_dict :: "json \<Rightarrow> symbol_node loaded" where
  "symbol_from_dict v =
     result_bind (get_or v ''signature'' JNull as_signature) (\<lambda>sig.
     result_bind (need v ''id'' as_str) (\<lambda>i.
     result_bind (need v ''name'' as_str) (\<lambda>nm.
     result_bind (need v ''kind'' as_symbol_kind) (\<lambda>k.
     result_bind (need v ''file_path'' as_str) (\<lambda>fp.
     result_bind (need v ''line'' as_int) (\<lambda>ln.
     result_bind (get_or v ''docstring'' JNull (as_opt as_str)) (\<lambda>doc.
     result_bind (need v ''content_hash'' as_str) (\<lambda>h.
       Inr \<lparr>sym_id = i, sym_name = nm, sym_kind = k, sym_file = fp, sym_line = ln,
            sym_signature = sig, sym_docstring = doc, sym_hash = h\<rparr>))))))))"

definition edge_from_dict :: "json \<Rightarrow> graph_edge loaded" where
  "edge_from_dict e =
     result_bind (need e ''source_id'' as_str) (\<lambda>s.
     result_bind (need e ''target_id'' as_str) (\<lambda>t.
     result_bind (need e ''kind'' as_edge_kind) (\<lambda>k.
     result_bind (need e ''call_site_line'' as_int) (\<lambda>ln.
     result_bind (get_or e ''call_arg_count'' JNull (as_opt as_int)) (\<lambda>n.
       Inr \<lparr>source_id = s, target_id = t, edge_kind = k, call_site_line = ln, call_arg_count = n\<rparr>)))))"

definition items_from :: "(json \<Rightarrow> 'a loaded) \<Rightarrow> (string \<times> json) list \<Rightarrow> (string \<times> 'a) list loaded" where
  "items_from f kvs = map_result (\<lambda>(k, v). result_bind (f v) (\<lambda>x. Inr (k, x))) kvs"

definition index_from_dict :: "json \<Rightarrow> memory_index loaded" where
  "index_from_dict data =
     result_bind (get_or data ''file_hashes'' (JObj []) as_obj) (\<lambda>fh.
     result_bind (items_from as_str fh) (\<lambda>hashes.
     result_bind (get_or data ''file_symbols'' (JObj []) as_obj) (\<lambda>fs.
     result_bind (items_from (\<lambda>j. result_bind (as_arr j) (map_result as_str)) fs) (\<lambda>fsyms.
     result_bind (get_or data ''symbols'' (JObj []) as_obj) (\<lambda>ss.
     result_bind (items_from symbol_from_dict ss) (\<lambda>syms.
     result_bind (get_or data ''edges'' (JArr []) as_arr) (\<lambda>es.
     result_bind (map_result edge_from_dict es) (\<lambda>eds.
       Inr (rebuild_adjacency (new_index
         \<lparr>file_hashes := hashes, file_symbols := fsyms,
          symbols := fold (\<lambda>(k, s). dict_set k s) syms [], edges := eds\<rparr>))))))))))"

section \<open>Audits\<close>

definition finding_file :: "memory_index \<Rightarrow> string \<Rightarrow> string" where
  "finding_file idx sid = (case dict_get (symbols idx) sid of Some s \<Rightarrow> sym_file s | None \<Rightarrow> ''unknown'')"

definition check_dangling_edge :: "memory_index \<Rightarrow> graph_edge \<Rightarrow> memory_finding option" where
  "check_dangling_edge idx e =
     (let target = target_id e in
      if edge_kind e \<notin> {CALLS, IMPORTS} then None
      else if \<not> contains_sub ''::'' target \<or> target \<in> set (dict_keys (symbols idx)) then None
      else Some \<lparr>mf_rule = ''SGM001'', mf_severity = ''error'',
             mf_message = ''Dangling reference to unindexed symbol '' @ [CHR 0x27] @ target @ [CHR 0x27] @ ''.'',
             mf_file = finding_file idx (source_id e), mf_line = call_site_line e,
             mf_symbol = Some (source_id e)\<rparr>)"

definition audit_dangling_references :: "memory_index \<Rightarrow> memory_finding list" where
  "audit_dangling_references idx = List.map_filter (check_dangling_edge idx) (edges idx)"

definition create_sig_finding ::
  "memory_index \<Rightarrow> graph_edge \<Rightarrow> symbol_node \<Rightarrow> string \<Rightarrow> memory_finding" where
  "create_sig_finding idx e target msg =
     \<lparr>mf_rule = ''SGM002'', mf_severity = ''error'', mf_message = msg,
      mf_file = finding_file idx (source_id e), mf_line = call_site_line e,
      mf_symbol = Some (source_id e)\<rparr>"

definition check_sig_mismatch ::
  "memory_index \<Rightarrow> graph_edge \<Rightarrow> symbol_node \<Rightarrow> memory_finding option" where
  "check_sig_mismatch idx e target =
     (case (sym_signature target, call_arg_count e) of
        (Some sig, Some passed) \<Rightarrow>
          (if passed < required_count sig
           then Some (create_sig_finding idx e target
             (''Call passes '' @ show_int passed @ '' args; '' @ [CHR 0x27] @ sym_name target
              @ [CHR 0x27] @ '' requires '' @ show_int (required_count sig) @ ''.''))
           else if \<not> has_varargs sig \<and> passed > total_count sig
           then Some (create_sig_finding idx e target
             (''Call passes '' @ show_int passed @ '' args; '' @ [CHR 0x27] @ sym_name target
              @ [CHR 0x27] @ '' accepts at most '' @ show_int (total_count sig) @ ''.''))
           else None)
      | _ \<Rightarrow> None)"

definition resolve_target_symbol :: "memory_index \<Rightarrow> string \<Rightarrow> symbol_node option" where
  "resolve_target_symbol idx tid =
     (case dict_get (symbols idx) tid of
        Some s \<Rightarrow> Some s
      | None \<Rightarrow> (case filter (\<lambda>s. sym_name s = tid) (dict_values (symbols idx)) of
                   [s] \<Rightarrow> Some s | _ \<Rightarrow> None))"

definition evaluate_sig_edge :: "memory_index \<Rightarrow> graph_edge \<Rightarrow> memory_finding option" where
  "evaluate_sig_edge idx e =
     (if edge_kind e \<noteq> CALLS then None
      else (case resolve_target_symbol idx (target_id e) of
              None \<Rightarrow> None | Some target \<Rightarrow> check_sig_mismatch idx e target))"

definition audit_signature_mismatches :: "memory_index \<Rightarrow> memory_finding list" where
  "audit_signature_mismatches idx = List.map_filter (evaluate_sig_edge idx) (edges idx)"

definition cycle_finding :: "memory_index \<Rightarrow> string list \<Rightarrow> memory_finding" where
  "cycle_finding idx cycle =
     (let chain = join_with '' -> '' (map (\<lambda>s. last (py_split ''::'' s)) cycle);
          head = hd cycle; sym = dict_get (symbols idx) head
      in \<lparr>mf_rule = ''SGM003'', mf_severity = ''error'',
          mf_message = ''Circular dependency cycle detected: '' @ chain,
          mf_file = finding_file idx head,
          mf_line = (case sym of Some s \<Rightarrow> sym_line s | None \<Rightarrow> 1), mf_symbol = Some head\<rparr>)"

definition audit_dependency_cycles :: "memory_index \<Rightarrow> memory_finding list option" where
  "audit_dependency_cycles idx = map_option (map (cycle_finding idx)) (detect_dependency_cycles idx)"

definition is_exempt_orphan :: "symbol_node \<Rightarrow> bool" where
  "is_exempt_orphan s \<longleftrightarrow>
     starts_with (sym_name s) ''test_'' \<or> sym_name s = ''main''
     \<or> (starts_with (sym_name s) ''__'' \<and> ends_with (sym_name s) ''__'') \<or> sym_kind s = SK_MODULE"

definition orphan_finding :: "memory_index \<Rightarrow> string \<times> symbol_node \<Rightarrow> memory_finding option" where
  "orphan_finding idx item =
     (let (sid, s) = item;
          calls_in = filter (\<lambda>e. edge_kind e \<in> {CALLS, INHERITS}) (dict_list (backward_edges idx) sid) in
      if is_exempt_orphan s then None
      else if calls_in \<noteq> [] then None
      else Some \<lparr>mf_rule = ''SGM004'', mf_severity = ''warning'',
             mf_message = ''Orphaned symbol '' @ [CHR 0x27] @ sym_name s @ [CHR 0x27]
               @ '' has 0 incoming references.'',
             mf_file = sym_file s, mf_line = sym_line s, mf_symbol = Some sid\<rparr>)"

definition audit_orphaned_definitions :: "memory_index \<Rightarrow> memory_finding list" where
  "audit_orphaned_definitions idx = List.map_filter (orphan_finding idx) (symbols idx)"

text \<open>\<open>modified_symbols\<close> is a set, iterated in some order: the list handed in.\<close>

definition HIGH_BLAST_RADIUS_THRESHOLD :: nat where
  "HIGH_BLAST_RADIUS_THRESHOLD = 5"

definition blast_finding :: "memory_index \<Rightarrow> nat \<Rightarrow> string \<Rightarrow> memory_finding option" where
  "blast_finding idx threshold sid =
     (case dict_get (symbols idx) sid of
        None \<Rightarrow> None
      | Some s \<Rightarrow>
          (let radius = calculate_blast_radius idx sid in
           if card radius \<ge> threshold
           then Some \<lparr>mf_rule = ''SGM005'', mf_severity = ''warning'',
               mf_message = ''High blast radius refactor on '' @ [CHR 0x27] @ sym_name s @ [CHR 0x27]
                 @ '': impacts '' @ show_nat (card radius) @ '' upstream callers.'',
               mf_file = sym_file s, mf_line = sym_line s, mf_symbol = Some sid\<rparr>
           else None))"

definition audit_high_blast_radius :: "memory_index \<Rightarrow> string list \<Rightarrow> nat \<Rightarrow> memory_finding list" where
  "audit_high_blast_radius idx modified threshold = List.map_filter (blast_finding idx threshold) modified"

definition audit_all :: "memory_index \<Rightarrow> string list \<Rightarrow> memory_finding list option" where
  "audit_all idx modified =
     (case audit_dependency_cycles idx of
        None \<Rightarrow> None
      | Some cs \<Rightarrow> Some (audit_dangling_references idx @ audit_signature_mismatches idx @ cs
          @ audit_orphaned_definitions idx
          @ (if modified \<noteq> [] then audit_high_blast_radius idx modified HIGH_BLAST_RADIUS_THRESHOLD else [])))"

section \<open>Reports\<close>

definition memory_finding_to_sarif :: "memory_finding \<Rightarrow> json" where
  "memory_finding_to_sarif f = JObj
     [(''ruleId'', JStr (mf_rule f)),
      (''level'', JStr (if mf_severity f = ''error'' then ''error'' else ''warning'')),
      (''message'', JObj [(''text'', JStr (mf_message f))]),
      (''locations'', JArr [JObj [(''physicalLocation'', JObj
         [(''artifactLocation'', JObj [(''uri'', JStr (mf_file f))]),
          (''region'', JObj [(''startLine'', JInt (mf_line f))])])]])]"

definition sarif_rule :: "string \<times> string \<times> string \<Rightarrow> json" where
  "sarif_rule r = (case r of (i, n, t) \<Rightarrow>
     JObj [(''id'', JStr i), (''name'', JStr n), (''shortDescription'', JObj [(''text'', JStr t)])])"

definition memory_sarif :: "memory_finding list \<Rightarrow> json" where
  "memory_sarif fs = JObj
     [(''$schema'', JStr ''https://raw.githubusercontent.com/oasis-tcs/sarif-spec/master/Schemata/sarif-schema-2.1.0.json''),
      (''version'', JStr ''2.1.0''),
      (''runs'', JArr [JObj
         [(''tool'', JObj [(''driver'', JObj
            [(''name'', JStr ''vibes-code-memory''),
             (''informationUri'', JStr ''https://github.com/dan-petty/vibes''),
             (''rules'', JArr (map sarif_rule
               [(''SGM001'', ''DanglingSymbolReference'', ''Invocation targets unindexed or removed symbol.''),
                (''SGM002'', ''SignatureMismatchRegression'', ''Call site passes mismatched parameter arity.''),
                (''SGM003'', ''CyclicDependencyInduction'', ''Circular dependency cycle detected in graph.''),
                (''SGM004'', ''OrphanedDefinition'', ''Symbol definition has zero incoming references.''),
                (''SGM005'', ''HighBlastRadiusUnverifiedRefactor'',
                 ''Symbol refactoring impacts extensive call hierarchy.'')]))])]),
          (''results'', JArr (map memory_finding_to_sarif fs))]])]"

definition safe_mermaid_id :: "string \<Rightarrow> string" where
  "safe_mermaid_id i =
     py_replace ''-'' ''_'' (py_replace ''::'' ''_'' (py_replace ''.'' ''_'' (py_replace ''/'' ''_'' i)))"

definition dquote :: string where
  "dquote = [CHR 0x22]"

definition mermaid_node_line :: "symbol_node \<Rightarrow> string" where
  "mermaid_node_line n =
     (let lbl = py_replace dquote ([CHR 0x5C] @ dquote) (sym_name n)
      in ''    '' @ safe_mermaid_id (sym_id n) @ ''['' @ dquote @ lbl @ ''<br>(''
         @ symbol_kind_value (sym_kind n) @ '')'' @ dquote @ '']'')"

definition mermaid_edge_line :: "string list \<Rightarrow> graph_edge \<Rightarrow> string option" where
  "mermaid_edge_line node_ids e =
     (if source_id e \<in> set node_ids \<and> target_id e \<in> set node_ids
      then Some (''    '' @ safe_mermaid_id (source_id e) @ '' -->|'' @ edge_kind_value (edge_kind e)
                 @ ''| '' @ safe_mermaid_id (target_id e))
      else None)"

definition mermaid_style_line :: "symbol_node \<Rightarrow> string" where
  "mermaid_style_line n =
     (let fill = (if sym_kind n = SK_CLASS then ''#1e3a8a'' else ''#064e3b'');
          stroke = (if sym_kind n = SK_CLASS then ''#38bdf8'' else ''#10b981'')
      in ''    style '' @ safe_mermaid_id (sym_id n) @ '' fill:'' @ fill @ '',stroke:'' @ stroke
         @ '',stroke-width:2px,color:#ffffff'')"

definition memory_mermaid_graph :: "memory_index \<Rightarrow> nat \<Rightarrow> string" where
  "memory_mermaid_graph idx max_nodes =
     (let ns = take max_nodes (dict_values (symbols idx)); node_ids = map sym_id ns
      in join_with newline (''flowchart TD'' # map mermaid_node_line ns
           @ List.map_filter (mermaid_edge_line node_ids) (edges idx) @ map mermaid_style_line ns))"

definition memory_markdown_report :: "memory_finding list \<Rightarrow> memory_index \<Rightarrow> string" where
  "memory_markdown_report fs idx = join_with newline
     ([''# Semantic Graph AST Code Memory Audit Report'', '''', ''## Summary Metrics'',
       ''- **Total Indexed Symbols**: '' @ show_nat (length (symbols idx)),
       ''- **Total Dependency Edges**: '' @ show_nat (length (edges idx)),
       ''- **Indexed Source Files**: '' @ show_nat (length (file_hashes idx)),
       ''- **Invariant Violations Identified**: '' @ show_nat (length fs), '''',
       ''## Diagnostic Findings'', '''',
       ''| Rule ID | Severity | File | Line | Finding Message |'', ''|---|---|---|---|---|'']
      @ map (\<lambda>f. ''| `'' @ mf_rule f @ ''` | `'' @ mf_severity f @ ''` | `'' @ mf_file f @ ''` | ''
          @ show_int (mf_line f) @ '' | '' @ mf_message f @ '' |'') fs)"

section \<open>Directories\<close>

text \<open>A file \<open>rglob\<close> yields: its path parts, its path below the root, its text if it can be read.\<close>

record listed_file =
  path_parts :: "string list"
  rel_path :: string
  file_text :: "string option"

definition index_single_file ::
  "(string \<Rightarrow> string) \<Rightarrow> (string \<Rightarrow> py_ast option) \<Rightarrow> listed_file \<Rightarrow> memory_index \<Rightarrow> memory_index" where
  "index_single_file sha parse f idx =
     (if ''.venv'' \<in> set (path_parts f) \<or> ''.git'' \<in> set (path_parts f) then idx
      else (case file_text f of
              None \<Rightarrow> idx
            | Some content \<Rightarrow> fst (index_file sha parse (rel_path f) content idx)))"

definition index_directory ::
  "(string \<Rightarrow> string) \<Rightarrow> (string \<Rightarrow> py_ast option) \<Rightarrow> listed_file list \<Rightarrow> memory_index \<Rightarrow> memory_index" where
  "index_directory sha parse fs idx = fold (index_single_file sha parse) fs idx"

text \<open>The exit status of \<open>main\<close> on an indexed directory.\<close>

definition code_memory_exit :: "bool \<Rightarrow> memory_index \<Rightarrow> int option" where
  "code_memory_exit verify idx = map_option
     (\<lambda>fs. if list_ex (\<lambda>f. mf_severity f = ''error'') fs then 1 else 0)
     (if verify then audit_all idx [] else Some [])"

end
