(* ===== verification/Code_Memory_Props.thy ===== *)
theory Code_Memory_Props
  imports Code_Memory_Audit
begin

text \<open>
  What the code memory guarantees: the index after any sequence of \<open>index_file\<close> calls is well
  formed, the blast radius is the transitive closure of the dependency edges, the cycle search
  is total, sound and complete, the serialised index loads back, and two places where the
  incremental index loses information.
\<close>

section \<open>Adjacency tables\<close>

lemma dict_list_append [simp]:
  "dict_list (dict_append k x d) k' = (if k' = k then dict_list d k @ [x] else dict_list d k')"
  by (simp add: dict_append_def dict_list_def)

lemma dict_list_fold_append:
  "dict_list (fold (\<lambda>e d. dict_append (f e) e d) es d) k = dict_list d k @ filter (\<lambda>e. f e = k) es"
  by (induction es arbitrary: d) auto

definition adjacency_ok :: "memory_index \<Rightarrow> bool" where
  "adjacency_ok idx \<longleftrightarrow> rebuild_adjacency idx = idx"

lemma rebuild_adjacency_ok [simp]: "adjacency_ok (rebuild_adjacency idx)"
  by (simp add: adjacency_ok_def rebuild_adjacency_def)

lemma rebuild_adjacency_tables:
  "dict_list (forward_edges (rebuild_adjacency idx)) k = filter (\<lambda>e. source_id e = k) (edges idx)"
  "dict_list (backward_edges (rebuild_adjacency idx)) k = filter (\<lambda>e. target_id e = k) (edges idx)"
  by (simp_all add: rebuild_adjacency_def dict_list_fold_append) (simp_all add: dict_list_def)

lemma adjacency_forward:
  "adjacency_ok idx \<Longrightarrow> dict_list (forward_edges idx) k = filter (\<lambda>e. source_id e = k) (edges idx)"
  using rebuild_adjacency_tables(1) [of idx k] by (simp add: adjacency_ok_def)

lemma adjacency_backward:
  "adjacency_ok idx \<Longrightarrow> dict_list (backward_edges idx) k = filter (\<lambda>e. target_id e = k) (edges idx)"
  using rebuild_adjacency_tables(2) [of idx k] by (simp add: adjacency_ok_def)

section \<open>Runs of the index\<close>

definition index_step ::
  "(string \<Rightarrow> string) \<Rightarrow> (string \<Rightarrow> py_ast option) \<Rightarrow> memory_index \<Rightarrow> string \<times> string \<Rightarrow> memory_index" where
  "index_step sha parse idx ev = fst (index_file sha parse (fst ev) (snd ev) idx)"

definition index_run ::
  "(string \<Rightarrow> string) \<Rightarrow> (string \<Rightarrow> py_ast option) \<Rightarrow> (string \<times> string) list \<Rightarrow> memory_index" where
  "index_run sha parse evs = foldl (index_step sha parse) new_index evs"

definition index_wf :: "memory_index \<Rightarrow> bool" where
  "index_wf idx \<longleftrightarrow> adjacency_ok idx \<and> wf_dict (symbols idx)"

lemma index_step_wf: "index_wf idx \<Longrightarrow> index_wf (index_step sha parse idx ev)"
  by (auto simp: index_wf_def index_step_def index_file_def remove_file_symbols_def
      add_file_artifacts_def Let_def rebuild_adjacency_def adjacency_ok_def
      intro!: alist_dict.fold_pop_inv alist_dict.fold_set_inv split: option.splits)

interpretation code_index: step_invariant "index_step sha parse" "\<lambda>_ _. True" index_wf
  for sha parse
  by unfold_locales (simp add: index_step_wf)

lemma new_index_wf: "index_wf new_index"
  by (simp add: index_wf_def adjacency_ok_def rebuild_adjacency_def new_index_def)

lemma index_run_wf: "index_wf (index_run sha parse evs)"
  unfolding index_run_def by (rule code_index.run_inv_total) (simp_all add: new_index_wf)

lemma index_run_adjacency: "adjacency_ok (index_run sha parse evs)"
  using index_run_wf by (simp add: index_wf_def)

section \<open>Blast radius\<close>

definition upstream :: "(string, graph_edge list) dict \<Rightarrow> (string \<times> string) set" where
  "upstream bw = {(a, source_id e) | a e. e \<in> set (dict_list bw a) \<and> edge_kind e \<noteq> DEFINES}"

definition depends_on :: "memory_index \<Rightarrow> (string \<times> string) set" where
  "depends_on idx = {(source_id e, target_id e) | e. e \<in> set (edges idx) \<and> edge_kind e \<noteq> DEFINES}"

lemma fold_blast_edge_sets:
  "fst (fold blast_edge es (vis, q)) =
      vis \<union> {source_id e | e. e \<in> set es \<and> edge_kind e \<noteq> DEFINES}
    \<and> set (snd (fold blast_edge es (vis, q))) = set q \<union>
      ({source_id e | e. e \<in> set es \<and> edge_kind e \<noteq> DEFINES} - vis)"
  by (induction es arbitrary: vis q) (auto simp: blast_edge_cases)

lemma step_blast_radius_sets:
  "fst (step_blast_radius bw cur (vis, q)) = vis \<union> upstream bw `` {cur}"
  "set (snd (step_blast_radius bw cur (vis, q))) = set q \<union> (upstream bw `` {cur} - vis)"
proof -
  have "upstream bw `` {cur} = {source_id e | e. e \<in> set (dict_list bw cur) \<and> edge_kind e \<noteq> DEFINES}"
    by (auto simp: upstream_def)
  then show "fst (step_blast_radius bw cur (vis, q)) = vis \<union> upstream bw `` {cur}"
    "set (snd (step_blast_radius bw cur (vis, q))) = set q \<union> (upstream bw `` {cur} - vis)"
    using fold_blast_edge_sets [of _ vis q] by (auto simp: step_blast_radius_def)
qed

lemma blast_loop_closure:
  assumes "\<forall>v \<in> insert s vis. v \<notin> set q \<longrightarrow> upstream bw `` {v} \<subseteq> vis"
    and "vis \<subseteq> (upstream bw)\<^sup>+ `` {s}" and "set q \<subseteq> insert s vis"
  shows "blast_loop bw vis q = (upstream bw)\<^sup>+ `` {s}"
  using assms
proof (induction bw vis q rule: blast_loop.induct)
  case (1 bw vis)
  have "v \<in> vis" if "(s, v) \<in> (upstream bw)\<^sup>+" for v
    using that by (induction rule: trancl_induct) (use 1 in auto)
  with 1 show ?case by auto
next
  case (2 bw vis cur q)
  define st where "st = step_blast_radius bw cur (vis, q)"
  note sets = step_blast_radius_sets [of bw cur vis q, folded st_def]
  have cur: "cur \<in> insert s vis" using 2(4) by auto
  have new: "upstream bw `` {cur} \<subseteq> (upstream bw)\<^sup>+ `` {s}"
    using cur 2(3) by (auto intro: trancl_into_trancl)
  have "blast_loop bw (fst st) (snd st) = (upstream bw)\<^sup>+ `` {s}"
  proof (rule 2(1) [OF st_def])
    show "\<forall>v \<in> insert s (fst st). v \<notin> set (snd st) \<longrightarrow> upstream bw `` {v} \<subseteq> fst st"
      using 2(2) unfolding sets by auto
    show "fst st \<subseteq> (upstream bw)\<^sup>+ `` {s}"
      using 2(3) new unfolding sets by blast
    show "set (snd st) \<subseteq> insert s (fst st)"
      using 2(4) unfolding sets by auto
  qed
  then show ?case by (simp add: st_def Let_def)
qed

lemma upstream_converse: "adjacency_ok idx \<Longrightarrow> upstream (backward_edges idx) = (depends_on idx)\<inverse>"
  by (auto simp: upstream_def depends_on_def adjacency_backward)

lemma blast_radius_of_wf:
  assumes "adjacency_ok idx"
  shows "calculate_blast_radius idx sid = {x. (x, sid) \<in> (depends_on idx)\<^sup>+} - {sid}"
  using blast_loop_closure [of sid "{}" "[sid]" "backward_edges idx"]
  by (auto simp: calculate_blast_radius_def upstream_converse [OF assms] trancl_converse)

section \<open>Cycle search\<close>

definition edge_rel :: "(string, graph_edge list) dict \<Rightarrow> (string \<times> string) set" where
  "edge_rel fw = {(a, target_id e) | a e. e \<in> set (dict_list fw a)}"

definition is_cycle :: "(string \<times> string) set \<Rightarrow> string list \<Rightarrow> bool" where
  "is_cycle R c \<longleftrightarrow> 2 \<le> length c \<and> hd c = last c \<and> successively (\<lambda>a b. (a, b) \<in> R) c"

definition black :: "dfs_state \<Rightarrow> string set" where
  "black st = {n. visit_state st n \<noteq> 0 \<and> visit_state st n \<noteq> 1}"

text \<open>
  The invariant of the search inside a set \<open>D\<close> closed under the edges: the path is a walk of
  pairwise different nodes, exactly its nodes have state 1, the reported cycles are cycles, and
  as long as none is reported the finished nodes are closed under the edges and free of cycles.
\<close>

definition dfs_inv :: "(string \<times> string) set \<Rightarrow> string set \<Rightarrow> dfs_state \<Rightarrow> bool" where
  "dfs_inv R D st \<longleftrightarrow>
     distinct (dfs_path st) \<and> set (dfs_path st) = {n. visit_state st n = 1}
     \<and> set (dfs_path st) \<subseteq> D \<and> successively (\<lambda>a b. (a, b) \<in> R) (dfs_path st)
     \<and> (\<forall>c \<in> set (cycles st). is_cycle R c \<and> set c \<subseteq> D)
     \<and> (cycles st = [] \<longrightarrow> cycle_free R (black st))"

text \<open>What a call or a loop of the search leaves behind.\<close>

definition dfs_post :: "(string \<times> string) set \<Rightarrow> string set \<Rightarrow> dfs_state \<Rightarrow> dfs_state \<Rightarrow> bool" where
  "dfs_post R D st st' \<longleftrightarrow> dfs_inv R D st' \<and> dfs_path st' = dfs_path st
     \<and> prefix (cycles st) (cycles st') \<and> black st \<subseteq> black st'"

lemma dfs_post_refl: "dfs_inv R D st \<Longrightarrow> dfs_post R D st st"
  by (simp add: dfs_post_def)

lemma dfs_post_trans: "dfs_post R D a b \<Longrightarrow> dfs_post R D b c \<Longrightarrow> dfs_post R D a c"
  unfolding dfs_post_def by (metis prefix_order.trans subset_trans)

lemma visit_state_set [simp]: "visit_state (set_visit n k st) m = (if m = n then k else visit_state st m)"
  by (simp add: visit_state_def set_visit_def)

lemma visit_state_updates [simp]:
  "visit_state (st\<lparr>dfs_path := p\<rparr>) m = visit_state st m"
  "visit_state (st\<lparr>cycles := c\<rparr>) m = visit_state st m"
  by (simp_all add: visit_state_def)

lemma set_visit_fields [simp]:
  "dfs_path (set_visit n k st) = dfs_path st" "cycles (set_visit n k st) = cycles st"
  by (simp_all add: set_visit_def)

lemma path_from_split: "n \<in> set path \<Longrightarrow> \<exists>p. path = p @ path_from path n \<and> hd (path_from path n) = n
    \<and> path_from path n \<noteq> []"
  unfolding path_from_def
  by (metis (mono_tags, lifting) dropWhile_eq_Nil_conv hd_dropWhile takeWhile_dropWhile_id)

lemma back_edge_cycle:
  assumes "successively (\<lambda>a b. (a, b) \<in> R) path" "n \<in> set path" "(last path, n) \<in> R"
  shows "is_cycle R (path_from path n @ [n]) \<and> set (path_from path n @ [n]) \<subseteq> set path"
proof -
  obtain p where p: "path = p @ path_from path n" "hd (path_from path n) = n" "path_from path n \<noteq> []"
    using path_from_split [OF assms(2)] by blast
  have "successively (\<lambda>a b. (a, b) \<in> R) (path_from path n)"
    using assms(1) p(1) successively_append_iff by metis
  moreover have "last path = last (path_from path n)"
    using p(1,3) by (metis last_appendR)
  ultimately have "successively (\<lambda>a b. (a, b) \<in> R) (path_from path n @ [n])"
    using assms(3) p(3) by (simp add: successively_append_iff)
  moreover have "length (path_from path n) \<ge> 1" using p(3) by (cases "path_from path n") auto
  moreover have "set (path_from path n) \<subseteq> set path" using p(1) by (metis set_append Un_upper2)
  ultimately show ?thesis using p(2,3) assms(2) by (auto simp: is_cycle_def)
qed

lemma back_edge_inv:
  assumes "dfs_inv R D st" "visit_state st n = 1" "(last (dfs_path st), n) \<in> R"
  shows "dfs_post R D st (st\<lparr>cycles := cycles st @ [path_from (dfs_path st) n @ [n]]\<rparr>)"
proof -
  have n: "n \<in> set (dfs_path st)" using assms(1,2) by (auto simp: dfs_inv_def)
  have "is_cycle R (path_from (dfs_path st) n @ [n]) \<and> set (path_from (dfs_path st) n @ [n]) \<subseteq> D"
    using back_edge_cycle [of R "dfs_path st" n] n assms by (auto simp: dfs_inv_def)
  then show ?thesis using assms(1) by (auto simp: dfs_post_def dfs_inv_def black_def)
qed

definition enter_node :: "string \<Rightarrow> dfs_state \<Rightarrow> dfs_state" where
  "enter_node cur st = (set_visit cur 1 st)\<lparr>dfs_path := dfs_path st @ [cur]\<rparr>"

definition leave_node :: "string \<Rightarrow> dfs_state \<Rightarrow> dfs_state" where
  "leave_node cur st = set_visit cur 2 (st\<lparr>dfs_path := butlast (dfs_path st)\<rparr>)"

lemma dfs_cycle_Suc:
  "dfs_cycle (Suc depth) fw cur st =
     map_option (leave_node cur)
       (fold_opt (step_cycle_edge (dfs_cycle depth fw)) (dict_list fw cur) (enter_node cur st))"
  by (simp add: enter_node_def leave_node_def split: option.splits)

lemma enter_node_inv:
  assumes "dfs_inv R D st" "visit_state st cur = 0" "cur \<in> D"
    and "dfs_path st = [] \<or> (last (dfs_path st), cur) \<in> R"
  shows "dfs_inv R D (enter_node cur st)" and "black (enter_node cur st) = black st"
proof -
  show b: "black (enter_node cur st) = black st"
    using assms(2) by (auto simp: black_def enter_node_def)
  have "cur \<notin> set (dfs_path st)" using assms(1,2) by (auto simp: dfs_inv_def)
  moreover have "successively (\<lambda>a b. (a, b) \<in> R) (dfs_path st @ [cur])"
    using assms(1,4) by (auto simp: dfs_inv_def successively_append_iff)
  ultimately show "dfs_inv R D (enter_node cur st)"
    using assms(1,3) b by (auto simp: dfs_inv_def enter_node_def)
qed

lemma leave_node_post:
  assumes pre: "dfs_inv R D st" "visit_state st cur = 0"
    and post: "dfs_post R D (enter_node cur st) st'"
    and b: "black (enter_node cur st) = black st"
    and succs: "cycles st' = [] \<longrightarrow> R `` {cur} \<subseteq> black st'"
  shows "dfs_post R D st (leave_node cur st') \<and> cur \<in> black (leave_node cur st')"
proof -
  have path: "dfs_path st' = dfs_path st @ [cur]"
    using post by (simp add: dfs_post_def enter_node_def)
  have inv': "dfs_inv R D st'" using post by (simp add: dfs_post_def)
  have fresh: "cur \<notin> set (dfs_path st)" using pre by (auto simp: dfs_inv_def)
  have gray: "set (dfs_path st) = {n. visit_state (leave_node cur st') n = 1}"
    using inv' fresh path by (auto simp: dfs_inv_def leave_node_def)
  have "visit_state st' cur = 1" using inv' path by (auto simp: dfs_inv_def)
  then have nb: "cur \<notin> black st'" and black': "black (leave_node cur st') = insert cur (black st')"
    by (auto simp: black_def leave_node_def)
  have "cycle_free R (black (leave_node cur st'))" if "cycles st' = []"
    unfolding black' using inv' succs nb that
    by (intro cycle_free_insert) (auto simp: dfs_inv_def)
  then have "dfs_inv R D (leave_node cur st')"
    using inv' pre(1) gray path by (simp add: dfs_inv_def leave_node_def)
  moreover have "prefix (cycles st) (cycles st')" "black st \<subseteq> black st'"
    using post b by (auto simp: dfs_post_def enter_node_def)
  ultimately show ?thesis
    using path black' by (auto simp: dfs_post_def leave_node_def)
qed

text \<open>A search that behaves on every fresh node behaves along a list of edges.\<close>

definition dfs_ok :: "(string \<times> string) set \<Rightarrow> string set \<Rightarrow> string list \<Rightarrow>
    (string \<Rightarrow> dfs_state \<Rightarrow> dfs_state option) \<Rightarrow> bool" where
  "dfs_ok R D path dfs \<longleftrightarrow> (\<forall>n st. dfs_inv R D st \<and> dfs_path st = path \<and> n \<in> D \<and>
     visit_state st n = 0 \<and> (path = [] \<or> (last path, n) \<in> R) \<longrightarrow>
     (\<exists>st'. dfs n st = Some st' \<and> dfs_post R D st st' \<and> n \<in> black st'))"

lemma step_cycle_edge_ok:
  assumes "dfs_ok R D path dfs" "dfs_inv R D st" "dfs_path st = path" "path \<noteq> []"
    and "(last path, target_id e) \<in> R" "target_id e \<in> D"
  shows "\<exists>st'. step_cycle_edge dfs e st = Some st' \<and> dfs_post R D st st' \<and>
    (cycles st' = [] \<longrightarrow> target_id e \<in> black st')"
proof -
  consider (gray) "visit_state st (target_id e) = 1" | (fresh) "visit_state st (target_id e) = 0"
    | (finished) "target_id e \<in> black st" by (auto simp: black_def)
  then show ?thesis
  proof cases
    case gray
    then show ?thesis using back_edge_inv [OF assms(2)] assms(3,5)
      by (auto simp: step_cycle_edge_def Let_def)
  next
    case fresh
    then obtain st' where "dfs (target_id e) st = Some st'" "dfs_post R D st st'" "target_id e \<in> black st'"
      using assms unfolding dfs_ok_def by blast
    with fresh show ?thesis
      using dfs_post_refl [OF assms(2)] by (auto simp: step_cycle_edge_def Let_def)
  next
    case finished
    then show ?thesis
      using dfs_post_refl [OF assms(2)] by (auto simp: step_cycle_edge_def Let_def black_def)
  qed
qed

lemma edge_loop_ok:
  assumes "dfs_ok R D path dfs" "dfs_inv R D st" "dfs_path st = path" "path \<noteq> []"
    and "\<forall>e \<in> set es. (last path, target_id e) \<in> R \<and> target_id e \<in> D"
  shows "\<exists>st'. fold_opt (step_cycle_edge dfs) es st = Some st' \<and> dfs_post R D st st' \<and>
    (cycles st' = [] \<longrightarrow> target_id ` set es \<subseteq> black st')"
  using assms(2,3,5)
proof (induction es arbitrary: st)
  case (Cons e es)
  obtain st1 where st1: "step_cycle_edge dfs e st = Some st1" "dfs_post R D st st1"
    "cycles st1 = [] \<longrightarrow> target_id e \<in> black st1"
    using step_cycle_edge_ok [OF assms(1) Cons.prems(1,2) assms(4)] Cons.prems(3) by force
  then have "dfs_inv R D st1" "dfs_path st1 = path" using Cons.prems by (auto simp: dfs_post_def)
  then obtain st2 where st2: "fold_opt (step_cycle_edge dfs) es st1 = Some st2"
    "dfs_post R D st1 st2" "cycles st2 = [] \<longrightarrow> target_id ` set es \<subseteq> black st2"
    using Cons.IH [of st1] Cons.prems(3) by (meson list.set_intros(2))
  have "cycles st2 = [] \<longrightarrow> target_id e \<in> black st2"
    using st1(3) st2(2) by (auto simp: dfs_post_def)
  then show ?case using st1 st2 dfs_post_trans by auto
qed (auto simp: dfs_post_refl)

lemma path_shorter:
  assumes "dfs_inv R D st" "finite D" "n \<in> D" "visit_state st n = 0"
  shows "length (dfs_path st) < card D"
proof -
  have "set (dfs_path st) \<subset> D" using assms by (auto simp: dfs_inv_def)
  then show ?thesis
    using assms psubset_card_mono [of D "set (dfs_path st)"] distinct_card [of "dfs_path st"]
    by (simp add: dfs_inv_def)
qed

lemma dfs_cycle_ok:
  assumes "finite D" "edge_rel fw `` D \<subseteq> D" "card D \<le> depth + length path"
  shows "dfs_ok (edge_rel fw) D path (dfs_cycle depth fw)"
  using assms(3)
proof (induction depth arbitrary: path)
  case 0
  then show ?case using path_shorter [OF _ assms(1)] by (fastforce simp: dfs_ok_def)
next
  case (Suc depth)
  show ?case unfolding dfs_ok_def
  proof (intro allI impI, elim conjE)
    fix n st assume st: "dfs_inv (edge_rel fw) D st" "dfs_path st = path" "n \<in> D"
      "visit_state st n = 0" "path = [] \<or> (last path, n) \<in> edge_rel fw"
    note enter = enter_node_inv [OF st(1,4,3)] 
    have inv1: "dfs_inv (edge_rel fw) D (enter_node n st)" and b: "black (enter_node n st) = black st"
      using enter st(2,5) by auto
    have path1: "dfs_path (enter_node n st) = path @ [n]" using st(2) by (simp add: enter_node_def)
    have ok: "dfs_ok (edge_rel fw) D (path @ [n]) (dfs_cycle depth fw)"
      using Suc by simp
    have edges_in: "\<forall>e \<in> set (dict_list fw n). (last (path @ [n]), target_id e) \<in> edge_rel fw \<and> target_id e \<in> D"
      using assms(2) st(3) by (auto simp: edge_rel_def)
    obtain st' where st': "fold_opt (step_cycle_edge (dfs_cycle depth fw)) (dict_list fw n) (enter_node n st) = Some st'"
      "dfs_post (edge_rel fw) D (enter_node n st) st'"
      "cycles st' = [] \<longrightarrow> target_id ` set (dict_list fw n) \<subseteq> black st'"
      using edge_loop_ok [OF ok inv1 path1 _ edges_in] by blast
    have "edge_rel fw `` {n} = target_id ` set (dict_list fw n)" by (auto simp: edge_rel_def)
    then show "\<exists>st'. dfs_cycle (Suc depth) fw n st = Some st' \<and> dfs_post (edge_rel fw) D st st' \<and> n \<in> black st'"
      using leave_node_post [OF st(1,4) st'(2) b] st'(1,3) by (simp add: dfs_cycle_Suc del: dfs_cycle.simps)
  qed
qed

lemma dfs_node_ok:
  assumes "dfs_ok R D [] (dfs_cycle depth fw)" "dfs_inv R D st" "dfs_path st = []" "n \<in> D"
  shows "\<exists>st'. dfs_node depth fw n st = Some st' \<and> dfs_post R D st st' \<and>
    (cycles st' = [] \<longrightarrow> n \<in> black st')"
proof (cases "visit_state st n = 0")
  case True
  then show ?thesis using assms unfolding dfs_ok_def dfs_node_def by auto
next
  case False
  then have "n \<in> black st" using assms by (auto simp: black_def dfs_inv_def)
  with False show ?thesis using dfs_post_refl [OF assms(2)] by (simp add: dfs_node_def)
qed

lemma dfs_nodes_ok:
  assumes "dfs_ok R D [] (dfs_cycle depth fw)" "dfs_inv R D st" "dfs_path st = []" "set ns \<subseteq> D"
  shows "\<exists>st'. fold_opt (dfs_node depth fw) ns st = Some st' \<and> dfs_post R D st st' \<and>
    (cycles st' = [] \<longrightarrow> set ns \<subseteq> black st')"
  using assms(2,3,4)
proof (induction ns arbitrary: st)
  case (Cons n ns)
  obtain st1 where st1: "dfs_node depth fw n st = Some st1" "dfs_post R D st st1"
    "cycles st1 = [] \<longrightarrow> n \<in> black st1"
    using dfs_node_ok [OF assms(1) Cons.prems(1,2)] Cons.prems(3) by force
  then have "dfs_inv R D st1" "dfs_path st1 = []" using Cons.prems by (auto simp: dfs_post_def)
  then obtain st2 where st2: "fold_opt (dfs_node depth fw) ns st1 = Some st2"
    "dfs_post R D st1 st2" "cycles st2 = [] \<longrightarrow> set ns \<subseteq> black st2"
    using Cons.IH [of st1] Cons.prems(3) by (meson list.set_intros(2) subset_code(1))
  have "cycles st2 = [] \<longrightarrow> n \<in> black st2"
    using st1(3) st2(2) by (auto simp: dfs_post_def)
  then show ?case using st1 st2 dfs_post_trans by auto
qed (auto simp: dfs_post_refl)

definition dep_edges :: "memory_index \<Rightarrow> (string \<times> string) set" where
  "dep_edges idx = {(source_id e, target_id e) | e. e \<in> set (edges idx)}"

definition reachable_ids :: "memory_index \<Rightarrow> string set" where
  "reachable_ids idx = (dep_edges idx)\<^sup>* `` set (dict_keys (symbols idx))"

lemma edge_rel_wf: "adjacency_ok idx \<Longrightarrow> edge_rel (forward_edges idx) = dep_edges idx"
  by (auto simp: edge_rel_def dep_edges_def adjacency_forward)

lemma reachable_in_universe: "adjacency_ok idx \<Longrightarrow> reachable_ids idx \<subseteq> set (dfs_universe idx)"
proof
  fix x assume ok: "adjacency_ok idx" and "x \<in> reachable_ids idx"
  then obtain s where s: "s \<in> set (dict_keys (symbols idx))" "(s, x) \<in> (dep_edges idx)\<^sup>*"
    by (auto simp: reachable_ids_def)
  from s(2) show "x \<in> set (dfs_universe idx)"
  proof (cases rule: rtranclE)
    case base
    with s show ?thesis by (simp add: dfs_universe_def)
  next
    case (step y)
    then have "(y, x) \<in> edge_rel (forward_edges idx)" by (simp add: edge_rel_wf [OF ok])
    then obtain e where "e \<in> set (dict_list (forward_edges idx) y)" "target_id e = x"
      by (auto simp: edge_rel_def)
    then show ?thesis using dict_list_in_values [of e] by (auto simp: dfs_universe_def)
  qed
qed

lemma detect_cycles_wf:
  assumes ok: "adjacency_ok idx"
  shows "\<exists>cs. detect_dependency_cycles idx = Some cs
    \<and> (\<forall>c \<in> set cs. is_cycle (dep_edges idx) c \<and> set c \<subseteq> reachable_ids idx)
    \<and> (cs = [] \<longrightarrow> (\<forall>n \<in> reachable_ids idx. (n, n) \<notin> (dep_edges idx)\<^sup>+))"
proof -
  let ?D = "reachable_ids idx" and ?R = "dep_edges idx"
  let ?n = "length (dfs_universe idx) + 1"
  define st0 :: dfs_state where "st0 = \<lparr>visited = [], dfs_path = [], cycles = []\<rparr>"
  have fin: "finite ?D" using reachable_in_universe [OF ok] finite_subset by blast
  have closed: "?R `` ?D \<subseteq> ?D" by (auto simp: reachable_ids_def intro: rtrancl_into_rtrancl)
  have "card ?D \<le> length (dfs_universe idx)"
    using reachable_in_universe [OF ok] by (meson List.finite_set card_length card_mono order_trans)
  then have dfs: "dfs_ok ?R ?D [] (dfs_cycle ?n (forward_edges idx))"
    using dfs_cycle_ok [of ?D "forward_edges idx" ?n "[]"] fin closed by (simp add: edge_rel_wf [OF ok])
  have inv0: "dfs_inv ?R ?D st0"
    by (simp add: dfs_inv_def st0_def visit_state_def black_def cycle_free_def)
  obtain st where st: "fold_opt (dfs_node ?n (forward_edges idx)) (dict_keys (symbols idx)) st0 = Some st"
    "dfs_post ?R ?D st0 st" "cycles st = [] \<longrightarrow> set (dict_keys (symbols idx)) \<subseteq> black st"
    using dfs_nodes_ok [OF dfs inv0, of "dict_keys (symbols idx)"]
    by (auto simp: st0_def reachable_ids_def)
  have "?D \<subseteq> black st" if none: "cycles st = []" "cycle_free ?R (black st)"
  proof
    fix x assume "x \<in> ?D"
    then obtain s where s: "s \<in> black st" "(s, x) \<in> ?R\<^sup>*"
      using st(3) none(1) by (auto simp: reachable_ids_def)
    from s(2,1) show "x \<in> black st"
      by (induction rule: rtrancl_induct) (use none(2) in \<open>auto simp: cycle_free_def\<close>)
  qed
  moreover have inv: "dfs_inv ?R ?D st" using st(2) by (simp add: dfs_post_def)
  ultimately have "cycles st = [] \<longrightarrow> (\<forall>n \<in> ?D. (n, n) \<notin> ?R\<^sup>+)"
    unfolding dfs_inv_def cycle_free_def by blast
  moreover have "detect_dependency_cycles idx = Some (cycles st)"
    using st(1) by (simp add: detect_dependency_cycles_def st0_def)
  ultimately show ?thesis using inv by (auto simp: dfs_inv_def)
qed

lemma is_cycle_trancl: "is_cycle R c \<Longrightarrow> (hd c, hd c) \<in> R\<^sup>+"
proof -
  have walk: "(hd c, last c) \<in> R\<^sup>+" if "successively (\<lambda>a b. (a, b) \<in> R) c" "2 \<le> length c" for c
    using that
  proof (induction c rule: induct_list012)
    case (3 x y zs)
    then show ?case by (cases zs) (auto intro: trancl_into_trancl2)
  qed auto
  assume "is_cycle R c"
  then show ?thesis using walk [of c] by (auto simp: is_cycle_def)
qed

lemma detect_cycles_decides:
  assumes "adjacency_ok idx"
  shows "\<exists>cs. detect_dependency_cycles idx = Some cs \<and> (\<forall>c \<in> set cs. is_cycle (dep_edges idx) c)
    \<and> (cs = [] \<longleftrightarrow> \<not> (\<exists>n \<in> reachable_ids idx. (n, n) \<in> (dep_edges idx)\<^sup>+))"
proof -
  obtain cs where cs: "detect_dependency_cycles idx = Some cs"
    "\<forall>c \<in> set cs. is_cycle (dep_edges idx) c \<and> set c \<subseteq> reachable_ids idx"
    "cs = [] \<longrightarrow> (\<forall>n \<in> reachable_ids idx. (n, n) \<notin> (dep_edges idx)\<^sup>+)"
    using detect_cycles_wf [OF assms] by blast
  have "\<exists>n \<in> reachable_ids idx. (n, n) \<in> (dep_edges idx)\<^sup>+" if "c \<in> set cs" for c
  proof -
    have "is_cycle (dep_edges idx) c" "set c \<subseteq> reachable_ids idx" using cs(2) that by auto
    moreover from this have "hd c \<in> set c" by (cases c) (auto simp: is_cycle_def)
    ultimately show ?thesis using is_cycle_trancl by blast
  qed
  then have "cs = []" if "\<not> (\<exists>n \<in> reachable_ids idx. (n, n) \<in> (dep_edges idx)\<^sup>+)"
    using that by (metis list.set_intros(1) neq_Nil_conv)
  with cs show ?thesis by blast
qed

section \<open>Saving and loading\<close>

lemma parse_symbol_kind_value [simp]: "parse_symbol_kind (symbol_kind_value k) = Some k"
  by (cases k) (simp_all add: parse_symbol_kind_def symbol_kind_value_def)

lemma parse_edge_kind_value [simp]: "parse_edge_kind (edge_kind_value k) = Some k"
  by (cases k) (simp_all add: parse_edge_kind_def edge_kind_value_def)

lemma map_result_inverse: "(\<And>x. f (g x) = Inr x) \<Longrightarrow> map_result f (map g xs) = Inr xs"
  using map_result_map [of xs f g "\<lambda>x. x"] by simp

lemma as_opt_not_null: "j \<noteq> JNull \<Longrightarrow> as_opt f j = result_bind (f j) (\<lambda>x. Inr (Some x))"
  by (cases j) simp_all

lemma as_opt_json_opt:
  assumes "\<And>x. f (g x) = Inr x" "\<And>x. g x \<noteq> JNull"
  shows "as_opt f (json_opt g y) = Inr y"
  by (cases y) (simp_all add: json_opt_def as_opt_not_null assms)

lemma signature_roundtrip: "signature_from_dict (signature_to_dict g) = Inr g"
  by (simp add: signature_from_dict_def signature_to_dict_def signature_fields_def need_def
      map_result_inverse insert_commute)

lemma as_signature_roundtrip: "as_signature (json_opt signature_to_dict g) = Inr g"
  using signature_roundtrip
  by (cases g) (simp_all add: as_signature_def json_opt_def, simp add: signature_to_dict_def)

lemma symbol_roundtrip: "symbol_from_dict (symbol_to_dict s) = Inr s"
  by (simp add: symbol_from_dict_def symbol_to_dict_def need_def get_or_def as_signature_roundtrip
      as_opt_json_opt as_symbol_kind_def)

lemma edge_roundtrip: "edge_from_dict (edge_to_dict e) = Inr e"
  by (simp add: edge_from_dict_def edge_to_dict_def need_def get_or_def as_opt_json_opt as_edge_kind_def)

lemma items_roundtrip: "(\<And>x. f (g x) = Inr x) \<Longrightarrow> items_from f (map (\<lambda>(k, v). (k, g v)) d) = Inr d"
  by (induction d) (auto simp: items_from_def)

lemma fold_dict_set_append:
  "distinct (map fst (d @ xs)) \<Longrightarrow> fold (\<lambda>(k, s). dict_set k s) xs d = d @ xs"
proof (induction xs arbitrary: d)
  case (Cons x xs)
  have "AList.update k v d = d @ [(k, v)]" if "k \<notin> fst ` set d" for k v
    using that by (induction d) auto
  then show ?case using Cons by (cases x) (auto simp: dict_set_def)
qed simp

lemma index_roundtrip_wf:
  assumes "index_wf idx"
  shows "index_from_dict (index_to_dict idx) = Inr idx"
proof -
  have "fold (\<lambda>(k, s). dict_set k s) (symbols idx) [] = symbols idx"
    using assms fold_dict_set_append [of "[]" "symbols idx"] by (simp add: index_wf_def wf_dict_def)
  moreover have "rebuild_adjacency (new_index\<lparr>file_hashes := file_hashes idx, file_symbols := file_symbols idx,
      symbols := symbols idx, edges := edges idx\<rparr>) = rebuild_adjacency idx"
    by (simp add: rebuild_adjacency_def new_index_def)
  moreover have "rebuild_adjacency idx = idx" using assms by (simp add: index_wf_def adjacency_ok_def)
  ultimately show ?thesis
    by (simp add: index_from_dict_def index_to_dict_def get_or_def items_roundtrip symbol_roundtrip
        edge_roundtrip map_result_inverse)
qed

section \<open>A syntax error loses the file\<close>

lemma stale_hash_helper:
  assumes "parse good = Some t" "parse bad = None" "sha bad \<noteq> sha good"
  shows "index_file sha parse path good (index_run sha parse (evs @ [(path, good), (path, bad)])) =
      (index_run sha parse (evs @ [(path, good), (path, bad)]), False)
    \<and> (\<forall>sid \<in> set (dict_list (file_symbols (index_run sha parse (evs @ [(path, good)]))) path).
         dict_get (symbols (index_run sha parse (evs @ [(path, good), (path, bad)]))) sid = None)"
proof -
  define idx0 idx1 where "idx0 = index_run sha parse evs"
    and "idx1 = index_run sha parse (evs @ [(path, good)])"
  have idx1: "idx1 = fst (index_file sha parse path good idx0)"
    by (simp add: idx1_def idx0_def index_run_def index_step_def)
  have h: "dict_get (file_hashes idx1) path = Some (sha good)"
    using assms(1) unfolding idx1
    by (simp add: index_file_def Let_def add_file_artifacts_def rebuild_adjacency_def)
  have wf: "wf_dict (symbols idx1)" using index_run_wf by (simp add: idx1_def index_wf_def)
  have idx2: "index_run sha parse (evs @ [(path, good), (path, bad)]) = remove_file_symbols path idx1"
    using assms(2,3) h by (simp add: idx1_def index_run_def index_step_def index_file_def Let_def)
  have "dict_get (file_hashes (remove_file_symbols path idx1)) path = Some (sha good)"
    using h by (simp add: remove_file_symbols_def rebuild_adjacency_def Let_def)
  moreover have "dict_get (symbols (remove_file_symbols path idx1)) sid = None"
    if "sid \<in> set (dict_list (file_symbols idx1) path)" for sid
    using that alist_dict.fold_pop_get [OF wf]
    by (simp add: remove_file_symbols_def rebuild_adjacency_def Let_def)
  ultimately show ?thesis
    unfolding idx2 by (simp add: index_file_def idx1_def [symmetric])
qed

section \<open>No edge of the visitor targets an indexed symbol\<close>

text \<open>
  The names of a parsed module are identifiers, and dotted identifiers in imports: none holds a
  colon. The ids the visitor gives to symbols all hold one, but the targets it gives to calls,
  imports and base classes are those names.
\<close>

definition no_colon :: "string \<Rightarrow> bool" where
  "no_colon s \<longleftrightarrow> CHR '':'' \<notin> set s"

fun plain_info :: "ast_info \<Rightarrow> bool" where
  "plain_info (AImport names line) = list_all (\<lambda>al. no_colon (fst al)) names"
| "plain_info (AImportFrom md names line) =
     ((case md of Some m \<Rightarrow> no_colon m | None \<Rightarrow> True) \<and> list_all (\<lambda>al. no_colon (fst al)) names)"
| "plain_info (AClassDef name line bases doc) =
     list_all (\<lambda>b. case b of Some n \<Rightarrow> no_colon n | None \<Rightarrow> True) bases"
| "plain_info (ACall name argc line) = (case name of Some n \<Rightarrow> no_colon n | None \<Rightarrow> True)"
| "plain_info _ = True"

fun plain_ast :: "py_ast \<Rightarrow> bool" where
  "plain_ast (AstNode info children) = (plain_info info \<and> list_all plain_ast children)"

definition blind_edge :: "graph_edge \<Rightarrow> bool" where
  "blind_edge e \<longleftrightarrow> edge_kind e = DEFINES \<or> no_colon (target_id e)"

definition blind_visitor :: "visitor \<Rightarrow> bool" where
  "blind_visitor v \<longleftrightarrow> (\<forall>e \<in> set (v_edges v). blind_edge e)
     \<and> (\<forall>k t. dict_get (imports_map v) k = Some t \<longrightarrow> no_colon t)
     \<and> (\<forall>s \<in> set (v_symbols v). \<not> no_colon (sym_id s))"

lemma no_colon_simps [simp]:
  "no_colon []" "no_colon (a @ b) = (no_colon a \<and> no_colon b)"
  "no_colon (c # s) = (c \<noteq> CHR '':'' \<and> no_colon s)"
  by (auto simp: no_colon_def)

lemma contains_colons: "contains_sub ''::'' s \<Longrightarrow> \<not> no_colon s"
  by (auto simp: contains_sub_iff sublist_def)

lemma blind_add_edge:
  "blind_visitor v \<Longrightarrow> k = DEFINES \<or> no_colon t \<Longrightarrow> blind_visitor (add_edge s t k line args v)"
  by (auto simp: blind_visitor_def add_edge_def blind_edge_def)

lemma blind_set_import:
  "blind_visitor v \<Longrightarrow> no_colon t \<Longrightarrow> blind_visitor (v\<lparr>imports_map := dict_set a t (imports_map v)\<rparr>)"
  by (auto simp: blind_visitor_def split: if_splits)

lemma blind_add_symbol:
  "blind_visitor v \<Longrightarrow> \<not> no_colon (sym_id s) \<Longrightarrow> blind_visitor (v\<lparr>v_symbols := v_symbols v @ [s]\<rparr>)"
  by (auto simp: blind_visitor_def)

lemma blind_scope: "blind_visitor (v\<lparr>scope_stack := ss\<rparr>) = blind_visitor v"
  by (simp add: blind_visitor_def)

lemma resolve_import_plain: "blind_visitor v \<Longrightarrow> no_colon n \<Longrightarrow> no_colon (resolve_import v n)"
  by (auto simp: blind_visitor_def resolve_import_def split: option.splits)

lemma fold_keeps: "(\<And>x v. x \<in> set xs \<Longrightarrow> P v \<Longrightarrow> P (f x v)) \<Longrightarrow> P v \<Longrightarrow> P (fold f xs v)"
  by (induction xs arbitrary: v) auto

lemma blind_visit_Import:
  "blind_visitor v \<Longrightarrow> list_all (\<lambda>al. no_colon (fst al)) names \<Longrightarrow> blind_visitor (visit_Import names line v)"
  unfolding visit_Import_def
  by (rule fold_keeps) (auto intro!: blind_add_edge blind_set_import simp: list_all_iff)

lemma blind_visit_ImportFrom:
  "blind_visitor v \<Longrightarrow> plain_info (AImportFrom md names line) \<Longrightarrow>
    blind_visitor (visit_ImportFrom md names line v)"
  unfolding visit_ImportFrom_def Let_def
  by (rule fold_keeps)
    (auto intro!: blind_add_edge blind_set_import simp: list_all_iff split: option.splits)

lemma blind_enter_class:
  "blind_visitor v \<Longrightarrow> plain_info (AClassDef name line bases doc) \<Longrightarrow>
    blind_visitor (enter_class sha name line bases doc v)"
  unfolding enter_class_def Let_def blind_scope
  by (rule fold_keeps)
    (auto intro!: blind_add_edge blind_add_symbol resolve_import_plain simp: list_all_iff split: option.splits)

lemma blind_enter_function:
  "blind_visitor v \<Longrightarrow> blind_visitor (enter_function sha asy name line args doc v)"
  unfolding enter_function_def Let_def blind_scope
  by (intro blind_add_edge blind_add_symbol) (auto dest: contains_colons)

lemma blind_visit_Call:
  "blind_visitor v \<Longrightarrow> plain_info (ACall name argc line) \<Longrightarrow> blind_visitor (visit_Call name argc line v)"
  by (auto simp: visit_Call_def intro!: blind_add_edge resolve_import_plain split: option.splits)

lemma blind_visit:
  "blind_visitor v \<Longrightarrow> plain_ast t \<Longrightarrow> blind_visitor (visit sha t v)"
  "blind_visitor v \<Longrightarrow> list_all plain_ast ts \<Longrightarrow> blind_visitor (visit_all sha ts v)"
proof (induction sha t v and sha ts v rule: visit_visit_all.induct)
  case (1 sha info children v)
  then show ?case
    by (cases info) (simp_all add: blind_visit_Import blind_visit_ImportFrom blind_enter_class
        blind_enter_function blind_visit_Call pop_scope_def blind_scope)
qed simp_all

definition blind_index :: "memory_index \<Rightarrow> bool" where
  "blind_index idx \<longleftrightarrow> (\<forall>e \<in> set (edges idx). blind_edge e)
     \<and> (\<forall>k \<in> set (dict_keys (symbols idx)). \<not> no_colon k)"

lemma keys_fold_set:
  "set (dict_keys (fold (\<lambda>s. dict_set (f s) s) xs d)) = set (dict_keys d) \<union> f ` set xs"
  by (induction xs arbitrary: d) auto

lemma keys_fold_pop: "set (dict_keys (fold dict_pop ks d)) = set (dict_keys d) - set ks"
  by (induction ks arbitrary: d) auto

lemma rebuild_adjacency_fields [simp]:
  "edges (rebuild_adjacency idx) = edges idx" "symbols (rebuild_adjacency idx) = symbols idx"
  by (simp_all add: rebuild_adjacency_def)

lemma blind_remove: "blind_index idx \<Longrightarrow> blind_index (remove_file_symbols path idx)"
  by (auto simp: blind_index_def remove_file_symbols_def Let_def keys_fold_pop)

lemma blind_add:
  "blind_index idx \<Longrightarrow> blind_visitor v \<Longrightarrow>
    blind_index (add_file_artifacts path h (v_symbols v) (v_edges v) idx)"
  by (auto simp: blind_index_def blind_visitor_def add_file_artifacts_def keys_fold_set)

lemma blind_new_visitor: "blind_visitor (new_visitor path)"
  by (simp add: blind_visitor_def new_visitor_def)

lemma blind_index_step:
  assumes "\<forall>code t. parse code = Some t \<longrightarrow> plain_ast t" "blind_index idx"
  shows "blind_index (index_step sha parse idx ev)"
  using assms blind_visit(1) [OF blind_new_visitor]
  by (auto simp: index_step_def index_file_def Let_def intro: blind_remove
      intro!: blind_add split: option.splits)

lemma blind_run:
  assumes "\<forall>code t. parse code = Some t \<longrightarrow> plain_ast t"
  shows "blind_index (index_run sha parse evs)"
proof -
  have "blind_index idx \<Longrightarrow> blind_index (foldl (index_step sha parse) idx evs)" for idx
    by (induction evs arbitrary: idx) (simp_all add: blind_index_step [OF assms])
  moreover have "blind_index new_index" by (simp add: blind_index_def new_index_def dict_keys_def)
  ultimately show ?thesis by (simp add: index_run_def)
qed

lemma blind_index_radius:
  assumes "blind_index idx" "adjacency_ok idx" "sid \<in> set (dict_keys (symbols idx))"
  shows "calculate_blast_radius idx sid = {}"
proof -
  have "(x, sid) \<notin> depends_on idx" for x
    using assms(1,3) by (auto simp: blind_index_def blind_edge_def depends_on_def)
  then have "(x, sid) \<notin> (depends_on idx)\<^sup>+" for x by (meson tranclE)
  then show ?thesis using blast_radius_of_wf [OF assms(2)] by simp
qed

section \<open>Properties\<close>

text \<open>C9: after any sequence of \<open>index_file\<close> calls, the blast radius of a symbol is the set of
  other symbols from which a path of call, import and inheritance edges leads to it.\<close>

theorem blast_radius_is_closure:
  "calculate_blast_radius (index_run sha parse evs) sid =
    {x. (x, sid) \<in> (depends_on (index_run sha parse evs))\<^sup>+} - {sid}"
  by (rule blast_radius_of_wf) (rule index_run_adjacency)

text \<open>C8: after any sequence of \<open>index_file\<close> calls, the cycle search returns, every cycle it
  reports is a cycle of the graph, and it reports none exactly when no symbol reaches a node on
  a cycle; the cut at ten cycles loses none of that.\<close>

theorem cycle_search_decides:
  "\<exists>cs. detect_dependency_cycles (index_run sha parse evs) = Some cs
    \<and> list_all (is_cycle (dep_edges (index_run sha parse evs))) cs
    \<and> (cs = [] \<longleftrightarrow> \<not> (\<exists>n \<in> reachable_ids (index_run sha parse evs).
         (n, n) \<in> (dep_edges (index_run sha parse evs))\<^sup>+))"
  using detect_cycles_decides [OF index_run_adjacency] by (fastforce simp: list_all_iff)

text \<open>an index built by \<open>index_file\<close> calls and written by \<open>to_dict\<close> is read back unchanged by
  \<open>from_dict\<close>.\<close>

theorem index_roundtrip:
  "index_from_dict (index_to_dict (index_run sha parse evs)) = Inr (index_run sha parse evs)"
  by (rule index_roundtrip_wf) (rule index_run_wf)

text \<open>when a file is indexed, then saved with a syntax error, then restored, the last
  \<open>index_file\<close> reports it unchanged and leaves the index without the symbols of the file.\<close>

theorem restored_file_stays_unindexed:
  assumes "parse good = Some t" "parse bad = None" "sha bad \<noteq> sha good"
  shows "index_file sha parse path good (index_run sha parse (evs @ [(path, good), (path, bad)])) =
      (index_run sha parse (evs @ [(path, good), (path, bad)]), False)
    \<and> list_all (\<lambda>sid. dict_get (symbols (index_run sha parse (evs @ [(path, good), (path, bad)]))) sid = None)
        (dict_list (file_symbols (index_run sha parse (evs @ [(path, good)]))) path)"
  using stale_hash_helper [OF assms] by (simp add: list_all_iff)

text \<open>the blast radius of every symbol an index built from sources holds is empty: the
  visitor names a callee by its bare name and a symbol by \<open>path::name\<close>, and the two never meet.\<close>

theorem blast_radius_blind:
  assumes "\<forall>code t. parse code = Some t \<longrightarrow> plain_ast t"
    and "sid \<in> set (dict_keys (symbols (index_run sha parse evs)))"
  shows "calculate_blast_radius (index_run sha parse evs) sid = {}"
  by (rule blind_index_radius [OF blind_run [OF assms(1)] index_run_adjacency assms(2)])

text \<open>A module with a function \<open>f\<close> and a function \<open>g\<close> that calls it; any other text fails to parse.\<close>

definition no_args :: function_arguments where
  "no_args = \<lparr>posonlyargs = [], pos_args = [], defaults_count = 0, vararg = None, kwarg = None,
     kwonlyargs = []\<rparr>"

definition sample_parse :: "string \<Rightarrow> py_ast option" where
  "sample_parse c = (if c = ''ok'' then Some (AstNode AOther
     [AstNode (AFunctionDef False ''f'' 1 no_args None) [],
      AstNode (AFunctionDef False ''g'' 2 no_args None) [AstNode (ACall (Some ''f'') 0 3) []]])
   else None)"

theorem restored_file_stays_unindexed_witness:
  "index_file id sample_parse ''a.py'' ''ok''
      (index_run id sample_parse ([] @ [(''a.py'', ''ok''), (''a.py'', ''def'')])) =
      (index_run id sample_parse ([] @ [(''a.py'', ''ok''), (''a.py'', ''def'')]), False)
    \<and> list_all (\<lambda>sid. dict_get (symbols (index_run id sample_parse
          ([] @ [(''a.py'', ''ok''), (''a.py'', ''def'')]))) sid = None)
        (dict_list (file_symbols (index_run id sample_parse ([] @ [(''a.py'', ''ok'')]))) ''a.py'')"
  by (rule restored_file_stays_unindexed) (simp_all add: sample_parse_def)

theorem blast_radius_blind_witness:
  "calculate_blast_radius (index_run id sample_parse [(''a.py'', ''ok'')]) ''a.py::f'' = {}"
proof (rule blast_radius_blind)
  show "\<forall>code t. sample_parse code = Some t \<longrightarrow> plain_ast t"
    by (auto simp: sample_parse_def)
  show "''a.py::f'' \<in> set (dict_keys (symbols (index_run id sample_parse [(''a.py'', ''ok'')])))"
    by code_simp
qed

end
