(* ===== verification/Py_Float.thy ===== *)
theory Py_Float
  imports Text_Search
begin

text \<open>
  Rounding and rendering of floats, over exact rationals: \<open>round(x, n)\<close> with ties to even, the
  fixed point formats \<open>{x:.nf}\<close> and \<open>{x:.0%}\<close>, padding, and \<open>repr\<close> of a float that has a short
  decimal form.
\<close>

definition round_half_even :: "py_float \<Rightarrow> int" where
  "round_half_even q = (let f = \<lfloor>q\<rfloor>; d = q - of_int f in
     if d < 1 / 2 then f else if d > 1 / 2 then f + 1 else if even f then f else f + 1)"

definition py_round :: "nat \<Rightarrow> py_float \<Rightarrow> py_float" where
  "py_round n q = of_int (round_half_even (q * 10 ^ n)) / 10 ^ n"

definition pad_left :: "char \<Rightarrow> nat \<Rightarrow> string \<Rightarrow> string" where
  "pad_left c w s = replicate (w - length s) c @ s"

definition pad_right :: "char \<Rightarrow> nat \<Rightarrow> string \<Rightarrow> string" where
  "pad_right c w s = s @ replicate (w - length s) c"

definition fmt_fixed :: "nat \<Rightarrow> py_float \<Rightarrow> string" where
  "fmt_fixed n q = (let k = round_half_even (\<bar>q\<bar> * 10 ^ n);
       body = show_int (k div 10 ^ n)
         @ (if n = 0 then '''' else ''.'' @ pad_left CHR ''0'' n (show_int (k mod 10 ^ n)))
     in if q < 0 then CHR ''-'' # body else body)"

definition fmt_percent :: "nat \<Rightarrow> py_float \<Rightarrow> string" where
  "fmt_percent n q = fmt_fixed n (q * 100) @ ''%''"

text \<open>The least number of decimals, at least one, that writes \<open>q\<close> exactly; at most 17.\<close>

definition show_float :: "py_float \<Rightarrow> string" where
  "show_float q =
     (case List.find (\<lambda>n. of_int \<lfloor>q * 10 ^ n\<rfloor> = q * 10 ^ n) [1..<18] of
        Some n \<Rightarrow> fmt_fixed n q | None \<Rightarrow> fmt_fixed 17 q)"

lemma round_half_even_int [simp]: "round_half_even (of_int i) = i"
  by (simp add: round_half_even_def)

lemma round_half_even_nonneg: "0 \<le> q \<Longrightarrow> 0 \<le> round_half_even q"
  by (auto simp: round_half_even_def Let_def)

lemma py_round_nonneg: "0 \<le> q \<Longrightarrow> 0 \<le> py_round n q"
  by (simp add: py_round_def round_half_even_nonneg)

lemma round_half_even_mono: "a \<le> b \<Longrightarrow> round_half_even a \<le> round_half_even b"
proof -
  assume ab: "a \<le> b"
  show ?thesis
  proof (cases "\<lfloor>a\<rfloor> = \<lfloor>b\<rfloor>")
    case True
    then show ?thesis using ab by (auto simp: round_half_even_def Let_def)
  next
    case False
    then have "\<lfloor>a\<rfloor> + 1 \<le> \<lfloor>b\<rfloor>" using floor_mono [OF ab] by linarith
    moreover have "round_half_even a \<le> \<lfloor>a\<rfloor> + 1" "\<lfloor>b\<rfloor> \<le> round_half_even b"
      by (auto simp: round_half_even_def Let_def)
    ultimately show ?thesis by linarith
  qed
qed

lemma py_round_mono: "a \<le> b \<Longrightarrow> py_round n a \<le> py_round n b"
  by (simp add: py_round_def divide_right_mono round_half_even_mono)

lemma py_round_int: "py_round n (of_int i) = of_int i"
proof -
  have "of_int i * 10 ^ n = (of_int (i * 10 ^ n) :: py_float)" by simp
  then show ?thesis by (simp only: py_round_def round_half_even_int) simp
qed

end
