(* ===== verification/Py_Text.thy ===== *)
theory Py_Text
  imports Py_Float
begin

text \<open>
  The text functions of Python's \<open>str\<close> that the tools use, on characters below 256: case mapping,
  \<open>splitlines\<close>, \<open>repr\<close> and \<open>str\<close> of the values JSON can hold, and the iteration of such values.
\<close>

section \<open>Characters and lines\<close>

definition py_lower_char :: "char \<Rightarrow> char" where
  "py_lower_char c = (let n = (of_char c :: nat) in
     if (65 \<le> n \<and> n \<le> 90) \<or> (192 \<le> n \<and> n \<le> 222 \<and> n \<noteq> 215) then char_of (n + 32) else c)"

definition py_lower :: "string \<Rightarrow> string" where
  "py_lower s = map py_lower_char s"

definition line_break :: "char \<Rightarrow> bool" where
  "line_break c \<longleftrightarrow> (let n = (of_char c :: nat) in (10 \<le> n \<and> n \<le> 13) \<or> (28 \<le> n \<and> n \<le> 30) \<or> n = 133)"

fun lines_from :: "string \<Rightarrow> string \<Rightarrow> string list" where
  "lines_from cur [] = (if cur = [] then [] else [rev cur])"
| "lines_from cur [c] = (if line_break c then [rev cur] else [rev (c # cur)])"
| "lines_from cur (c # d # cs) =
     (if line_break c
      then rev cur # (if c = CHR 0x0D \<and> d = CHR 0x0A then lines_from [] cs else lines_from [] (d # cs))
      else lines_from (c # cur) (d # cs))"

definition py_splitlines :: "string \<Rightarrow> string list" where
  "py_splitlines s = lines_from [] s"

section \<open>repr and str\<close>

definition hex_digit :: "nat \<Rightarrow> char" where
  "hex_digit n = (if n < 10 then char_of (48 + n) else char_of (87 + n))"

definition repr_char :: "char \<Rightarrow> char \<Rightarrow> string" where
  "repr_char q c = (let n = (of_char c :: nat) in
     if c = q \<or> c = CHR 0x5C then [CHR 0x5C, c]
     else if n = 9 then [CHR 0x5C, CHR ''t'']
     else if n = 10 then [CHR 0x5C, CHR ''n'']
     else if n = 13 then [CHR 0x5C, CHR ''r'']
     else if n < 32 \<or> (127 \<le> n \<and> n \<le> 160) \<or> n = 173
     then [CHR 0x5C, CHR ''x'', hex_digit (n div 16), hex_digit (n mod 16)]
     else [c])"

text \<open>Python quotes with an apostrophe unless the text holds one and no double quote.\<close>

definition py_repr :: "string \<Rightarrow> string" where
  "py_repr s = (let q = (if CHR 0x27 \<in> set s \<and> CHR 0x22 \<notin> set s then CHR 0x22 else CHR 0x27)
     in [q] @ concat (map (repr_char q) s) @ [q])"

definition py_repr_list :: "string list \<Rightarrow> string" where
  "py_repr_list xs = ''['' @ join_with '', '' (map py_repr xs) @ '']''"

fun json_repr :: "json \<Rightarrow> string" where
  "json_repr JNull = ''None''"
| "json_repr (JBool b) = (if b then ''True'' else ''False'')"
| "json_repr (JInt i) = show_int i"
| "json_repr (JFloat q) = show_float q"
| "json_repr (JStr s) = py_repr s"
| "json_repr (JArr xs) = ''['' @ join_with '', '' (map json_repr xs) @ '']''"
| "json_repr (JObj kvs) =
     ''{'' @ join_with '', '' (map (\<lambda>(k, v). py_repr k @ '': '' @ json_repr v) kvs) @ ''}''"

definition json_str :: "json \<Rightarrow> string" where
  "json_str j = (case j of JStr s \<Rightarrow> s | _ \<Rightarrow> json_repr j)"

lemma json_str_JStr [simp]: "json_str (JStr s) = s"
  by (simp add: json_str_def)

section \<open>Untyped access to decoded JSON\<close>

text \<open>What reading a decoded document of an unexpected shape raises.\<close>

datatype py_error =
    Key_Error string
  | Type_Error
  | Attribute_Error
  | Value_Error string
  | Zero_Division
  | Decode_Error
  | Os_Error
  | Not_Finite

type_synonym 'a py = "(py_error, 'a) result"

text \<open>\<open>v.get(k, d)\<close>: only a dict has the attribute.\<close>

definition py_get :: "json \<Rightarrow> string \<Rightarrow> json \<Rightarrow> json py" where
  "py_get v k d = (case v of
     JObj kvs \<Rightarrow> Inr (case map_of kvs k of Some x \<Rightarrow> x | None \<Rightarrow> d)
   | _ \<Rightarrow> Inl Attribute_Error)"

text \<open>\<open>v[k]\<close> with a string key.\<close>

definition py_item :: "json \<Rightarrow> string \<Rightarrow> json py" where
  "py_item v k = (case v of
     JObj kvs \<Rightarrow> (case map_of kvs k of Some x \<Rightarrow> Inr x | None \<Rightarrow> Inl (Key_Error k))
   | _ \<Rightarrow> Inl Type_Error)"

text \<open>\<open>for x in v\<close>: a list yields its elements, a dict its keys, a string its characters.\<close>

definition py_iter :: "json \<Rightarrow> json list py" where
  "py_iter v = (case v of
     JArr xs \<Rightarrow> Inr xs
   | JObj kvs \<Rightarrow> Inr (map (JStr \<circ> fst) kvs)
   | JStr s \<Rightarrow> Inr (map (\<lambda>c. JStr [c]) s)
   | _ \<Rightarrow> Inl Type_Error)"

text \<open>Truth value, number and length of a decoded value.\<close>

definition py_truthy :: "json \<Rightarrow> bool" where
  "py_truthy v = (case v of
     JNull \<Rightarrow> False | JBool b \<Rightarrow> b | JInt i \<Rightarrow> i \<noteq> 0 | JFloat q \<Rightarrow> q \<noteq> 0
   | JStr s \<Rightarrow> s \<noteq> '''' | JArr xs \<Rightarrow> xs \<noteq> [] | JObj kvs \<Rightarrow> kvs \<noteq> [])"

definition py_number :: "json \<Rightarrow> py_float py" where
  "py_number v = (case v of
     JBool b \<Rightarrow> Inr (if b then 1 else 0) | JInt i \<Rightarrow> Inr (of_int i) | JFloat q \<Rightarrow> Inr q
   | _ \<Rightarrow> Inl Type_Error)"

lemma py_get_JObj [simp]: "py_get (JObj kvs) k d = Inr (case map_of kvs k of Some x \<Rightarrow> x | None \<Rightarrow> d)"
  by (simp add: py_get_def)

lemma py_item_JObj [simp]: "py_item (JObj kvs) k =
    (case map_of kvs k of Some x \<Rightarrow> Inr x | None \<Rightarrow> Inl (Key_Error k))"
  by (simp add: py_item_def)

lemma py_iter_JArr [simp]: "py_iter (JArr xs) = Inr xs"
  by (simp add: py_iter_def)

section \<open>Sorting\<close>

lemma sorted_list_of_set_set: "sorted_list_of_set (set xs) = sort (remdups xs)"
  by (rule sorted_list_of_set_sort_remdups)

end
