(* ===== verification/Seccomp_Synthesizer.thy ===== *)
theory Seccomp_Synthesizer
  imports Py_Text
begin

text \<open>
  \<open>tools/seccomp_synthesizer.py\<close>: the tables that map modules and names to system calls, the
  visitor that collects them from a syntax tree, the trace parser, the synthesis of an OCI
  profile and its (de)serialisation, the audit, the comparison of two profiles, and the exit
  status of the command line. Python sets are HOL sets; \<open>ast.parse\<close> and \<open>json.loads\<close> are
  parameters.
\<close>

section \<open>Tables\<close>

definition SUPPORTED_ARCHITECTURES :: "string list" where
  "SUPPORTED_ARCHITECTURES = [''SCMP_ARCH_X86_64'', ''SCMP_ARCH_AARCH64'']"

definition ACT_ERRNO :: string where "ACT_ERRNO = ''SCMP_ACT_ERRNO''"
definition ACT_KILL :: string where "ACT_KILL = ''SCMP_ACT_KILL_PROCESS''"
definition ACT_LOG :: string where "ACT_LOG = ''SCMP_ACT_LOG''"
definition ACT_ALLOW :: string where "ACT_ALLOW = ''SCMP_ACT_ALLOW''"

definition VALID_ACTIONS :: "string list" where
  "VALID_ACTIONS = [ACT_ERRNO, ACT_KILL, ACT_LOG, ACT_ALLOW]"

definition BASELINE_RUNTIME_SYSCALLS :: "string list" where
  "BASELINE_RUNTIME_SYSCALLS =
    [''access'', ''arch_prctl'', ''brk'', ''clock_gettime'', ''close'', ''dup'', ''dup2'',
     ''dup3'', ''execve'', ''exit'', ''exit_group'', ''faccessat'', ''faccessat2'', ''fcntl'',
     ''fstat'', ''futex'', ''getcwd'', ''getdents64'', ''getegid'', ''geteuid'', ''getgid'',
     ''getpid'', ''getppid'', ''getrandom'', ''gettid'', ''gettimeofday'', ''getuid'', ''ioctl'',
     ''lseek'', ''mmap'', ''mprotect'', ''munmap'', ''newfstatat'', ''prlimit64'', ''read'',
     ''readlink'', ''readlinkat'', ''rseq'', ''rt_sigaction'', ''rt_sigprocmask'',
     ''rt_sigreturn'', ''set_robust_list'', ''set_tid_address'', ''sigaltstack'', ''stat'',
     ''sysinfo'', ''write'']"

definition MODULE_SYSCALL_MAP :: "(string, string list) dict" where
  "MODULE_SYSCALL_MAP =
    [(''socket'',
      [''accept'', ''accept4'', ''bind'', ''connect'', ''getpeername'', ''getsockname'',
       ''getsockopt'', ''listen'', ''recvfrom'', ''recvmsg'', ''sendmsg'', ''sendto'',
       ''setsockopt'', ''shutdown'', ''socket'', ''socketpair'']),
     (''ssl'',
      [''poll'', ''recvfrom'', ''recvmsg'', ''sendmsg'', ''sendto'']),
     (''http'',
      [''poll'', ''recvfrom'', ''sendto'']),
     (''urllib'',
      [''poll'', ''recvfrom'', ''sendto'']),
     (''httpx'',
      [''epoll_create1'', ''epoll_ctl'', ''epoll_wait'', ''poll'', ''recvfrom'', ''sendto'']),
     (''requests'',
      [''poll'', ''recvfrom'', ''sendto'']),
     (''asyncio'',
      [''epoll_create1'', ''epoll_ctl'', ''epoll_wait'', ''eventfd2'', ''pipe2'',
       ''timerfd_create'', ''timerfd_settime'']),
     (''select'',
      [''epoll_create1'', ''epoll_ctl'', ''epoll_wait'', ''poll'', ''ppoll'', ''pselect6'',
       ''select'']),
     (''subprocess'',
      [''clone'', ''clone3'', ''fork'', ''pipe'', ''pipe2'', ''prctl'', ''vfork'', ''wait4'',
       ''waitid'']),
     (''multiprocessing'',
      [''clone'', ''clone3'', ''fork'', ''pipe'', ''pipe2'', ''wait4'']),
     (''signal'',
      [''kill'', ''rt_sigpending'', ''rt_sigsuspend'', ''tgkill'']),
     (''time'',
      [''clock_nanosleep'', ''nanosleep'']),
     (''shutil'',
      [''copy_file_range'', ''mkdir'', ''mkdirat'', ''rename'', ''renameat'', ''renameat2'',
       ''rmdir'', ''unlink'', ''unlinkat'']),
     (''tempfile'',
      [''mkdir'', ''mkdirat'', ''openat'', ''unlink'', ''unlinkat'']),
     (''sqlite3'',
      [''fdatasync'', ''flock'', ''fsync'', ''ftruncate'', ''openat'']),
     (''threading'',
      [''clone'', ''clone3'', ''futex'']),
     (''posix'',
      [''openat'', ''pipe'', ''pipe2''])]"

definition SYMBOL_SYSCALL_MAP :: "(string, string list) dict" where
  "SYMBOL_SYSCALL_MAP =
    [(''open'',
      [''open'', ''openat'']),
     (''openat'',
      [''openat'']),
     (''unlink'',
      [''unlink'', ''unlinkat'']),
     (''remove'',
      [''unlink'', ''unlinkat'']),
     (''rmdir'',
      [''rmdir'']),
     (''mkdir'',
      [''mkdir'', ''mkdirat'']),
     (''rename'',
      [''rename'', ''renameat'', ''renameat2'']),
     (''replace'',
      [''renameat2'']),
     (''scandir'',
      [''getdents64'']),
     (''listdir'',
      [''getdents64'']),
     (''chmod'',
      [''chmod'', ''fchmod'', ''fchmodat'']),
     (''chown'',
      [''chown'', ''fchown'', ''fchownat'']),
     (''kill'',
      [''kill'', ''tgkill'']),
     (''fork'',
      [''fork'', ''clone'', ''clone3'']),
     (''system'',
      [''clone'', ''clone3'', ''execve'', ''wait4'']),
     (''popen'',
      [''clone'', ''clone3'', ''pipe2'', ''wait4'']),
     (''connect'',
      [''connect'']),
     (''bind'',
      [''bind'']),
     (''listen'',
      [''listen'']),
     (''accept'',
      [''accept'', ''accept4'']),
     (''send'',
      [''sendto'', ''sendmsg'']),
     (''recv'',
      [''recvfrom'', ''recvmsg'']),
     (''pipe'',
      [''pipe'', ''pipe2'']),
     (''symlink'',
      [''symlink'', ''symlinkat'']),
     (''readlink'',
      [''readlink'', ''readlinkat''])]"

definition HIGH_RISK_SYSCALLS :: "string list" where
  "HIGH_RISK_SYSCALLS =
    [''adjtimex'', ''bpf'', ''chroot'', ''clock_settime'', ''delete_module'', ''finit_module'',
     ''init_module'', ''ioperm'', ''iopl'', ''kexec_file_load'', ''kexec_load'', ''mount'',
     ''perf_event_open'', ''pivot_root'', ''process_vm_readv'', ''process_vm_writev'',
     ''ptrace'', ''reboot'', ''setns'', ''settimeofday'', ''swapoff'', ''swapon'', ''umount2'',
     ''unshare'', ''userfaultfd'']"

section \<open>Source analysis\<close>

text \<open>The nodes the visitor handles, with the children \<open>generic_visit\<close> goes to.\<close>

datatype sc_info =
    ScImport "string list"
  | ScImportFrom "string option" "string list"
  | ScCall "string option"
  | ScAttribute string
  | ScOther

datatype sc_ast = ScNode sc_info "sc_ast list"

record analysis_result =
  ar_modules :: "string set"
  ar_symbols :: "string set"
  ar_syscalls :: "string set"

definition empty_analysis :: analysis_result where
  "empty_analysis = \<lparr>ar_modules = {}, ar_symbols = {}, ar_syscalls = {}\<rparr>"

definition table_calls :: "(string, string list) dict \<Rightarrow> string \<Rightarrow> string set" where
  "table_calls table k = (case dict_get table k of None \<Rightarrow> {} | Some xs \<Rightarrow> set xs)"

definition record_module :: "string \<Rightarrow> analysis_result \<Rightarrow> analysis_result" where
  "record_module m r = r\<lparr>ar_modules := insert m (ar_modules r),
     ar_syscalls := ar_syscalls r \<union> table_calls MODULE_SYSCALL_MAP m\<rparr>"

definition record_symbol :: "string \<Rightarrow> analysis_result \<Rightarrow> analysis_result" where
  "record_symbol n r = r\<lparr>ar_symbols := insert n (ar_symbols r),
     ar_syscalls := ar_syscalls r \<union> table_calls SYMBOL_SYSCALL_MAP n\<rparr>"

definition base_module :: "string \<Rightarrow> string" where
  "base_module name = hd (py_split ''.'' name)"

fun sc_enter :: "sc_info \<Rightarrow> analysis_result \<Rightarrow> analysis_result" where
  "sc_enter (ScImport names) r = fold (\<lambda>n. record_module (base_module n)) names r"
| "sc_enter (ScImportFrom md names) r =
     fold record_symbol names
       (case md of Some m \<Rightarrow> if m \<noteq> '''' then record_module (base_module m) r else r | None \<Rightarrow> r)"
| "sc_enter (ScCall name) r =
     (case name of Some n \<Rightarrow> if n \<noteq> '''' then record_symbol n r else r | None \<Rightarrow> r)"
| "sc_enter (ScAttribute attr) r = record_symbol attr r"
| "sc_enter ScOther r = r"

fun sc_visit :: "sc_ast \<Rightarrow> analysis_result \<Rightarrow> analysis_result"
and sc_visit_all :: "sc_ast list \<Rightarrow> analysis_result \<Rightarrow> analysis_result" where
  "sc_visit (ScNode info children) r = sc_visit_all children (sc_enter info r)"
| "sc_visit_all [] r = r"
| "sc_visit_all (t # ts) r = sc_visit_all ts (sc_visit t r)"

definition analyze_source_code :: "(string \<Rightarrow> sc_ast option) \<Rightarrow> string \<Rightarrow> analysis_result" where
  "analyze_source_code parse src =
     (case parse src of None \<Rightarrow> empty_analysis | Some tree \<Rightarrow> sc_visit tree empty_analysis)"

definition merge_results :: "analysis_result \<Rightarrow> analysis_result \<Rightarrow> analysis_result" where
  "merge_results target incoming = target
     \<lparr>ar_modules := ar_modules target \<union> ar_modules incoming,
      ar_symbols := ar_symbols target \<union> ar_symbols incoming,
      ar_syscalls := ar_syscalls target \<union> ar_syscalls incoming\<rparr>"

text \<open>The texts of the file, or of the \<open>*.py\<close> files below the directory.\<close>

definition analyze_path :: "(string \<Rightarrow> sc_ast option) \<Rightarrow> string list \<Rightarrow> analysis_result" where
  "analyze_path parse texts =
     fold (\<lambda>t r. merge_results r (analyze_source_code parse t)) texts empty_analysis"

section \<open>Traces\<close>

definition name_char :: "char \<Rightarrow> bool" where
  "name_char c \<longleftrightarrow> (let n = (of_char c :: nat) in
     (48 \<le> n \<and> n \<le> 57) \<or> (65 \<le> n \<and> n \<le> 90) \<or> (97 \<le> n \<and> n \<le> 122) \<or> n = 95)"

text \<open>
  The pattern \<open>^(?:\[pid\s+\d+\]\s+)?([a-zA-Z0-9_]+)\(\<close>. No name starts with a bracket, so the
  optional prefix is taken exactly when it matches.
\<close>

definition skip_pid :: "string \<Rightarrow> string" where
  "skip_pid s =
     (if starts_with s ''[pid''
      then (let r1 = drop 4 s; r2 = dropWhile py_isspace r1; r3 = dropWhile is_digit r2;
                r4 = drop 1 r3; r5 = dropWhile py_isspace r4
            in if r1 \<noteq> r2 \<and> r2 \<noteq> r3 \<and> starts_with r3 '']'' \<and> r4 \<noteq> r5 then r5 else s)
      else s)"

definition match_call :: "string \<Rightarrow> string option" where
  "match_call s =
     (let r = skip_pid s; name = takeWhile name_char r
      in if name \<noteq> '''' \<and> starts_with (drop (length name) r) ''('' then Some name else None)"

definition parse_strace_line :: "string \<Rightarrow> string option" where
  "parse_strace_line line =
     (let cleaned = py_strip line in
      if cleaned = '''' \<or> starts_with cleaned ''+'' \<or> starts_with cleaned ''-'' then None
      else (case match_call cleaned of
              None \<Rightarrow> None
            | Some name \<Rightarrow> Some (if starts_with name ''sys_'' then drop 4 name else name)))"

fun extract_json_syscall :: "string list \<Rightarrow> (string \<times> json) list \<Rightarrow> string option" where
  "extract_json_syscall [] payload = None"
| "extract_json_syscall (k # ks) payload =
     (case map_of payload k of
        Some (JStr v) \<Rightarrow> if py_strip v \<noteq> '''' then Some (py_strip v) else extract_json_syscall ks payload
      | _ \<Rightarrow> extract_json_syscall ks payload)"

definition parse_json_line :: "(string \<Rightarrow> json option) \<Rightarrow> string \<Rightarrow> string option" where
  "parse_json_line loads line =
     (if \<not> (starts_with line ''{'' \<and> ends_with line ''}'') then None
      else (case loads line of
              Some (JObj payload) \<Rightarrow> extract_json_syscall [''syscall'', ''name'', ''call''] payload
            | _ \<Rightarrow> None))"

text \<open>\<open>a or b\<close> of two optional strings: the empty string is falsy.\<close>

definition parse_line_candidate :: "(string \<Rightarrow> json option) \<Rightarrow> string \<Rightarrow> string option" where
  "parse_line_candidate loads line =
     (case parse_json_line loads line of
        Some s \<Rightarrow> if s \<noteq> '''' then Some s else parse_strace_line line
      | None \<Rightarrow> parse_strace_line line)"

definition trace_step :: "(string \<Rightarrow> json option) \<Rightarrow> string \<Rightarrow> string set \<Rightarrow> string set" where
  "trace_step loads line detected =
     (let cleaned = py_strip line in
      if cleaned = '''' then detected
      else (case parse_line_candidate loads cleaned of
              Some s \<Rightarrow> if s \<noteq> '''' then insert s detected else detected
            | None \<Rightarrow> detected))"

definition parse_trace_lines :: "(string \<Rightarrow> json option) \<Rightarrow> string list \<Rightarrow> string set" where
  "parse_trace_lines loads ls = fold (trace_step loads) ls {}"

section \<open>Profiles\<close>

record syscall_rule =
  rule_names :: "string list"
  rule_action :: string
  rule_args :: "json list"

record seccomp_profile =
  default_action :: string
  architectures :: "string list"
  syscalls :: "syscall_rule list"

definition rule_to_dict :: "syscall_rule \<Rightarrow> json" where
  "rule_to_dict r = JObj [(''names'', JArr (map JStr (rule_names r))), (''action'', JStr (rule_action r)),
     (''args'', JArr (rule_args r))]"

definition profile_to_dict :: "seccomp_profile \<Rightarrow> json" where
  "profile_to_dict p = JObj
     [(''defaultAction'', JStr (default_action p)),
      (''architectures'', JArr (map JStr (architectures p))),
      (''syscalls'', JArr (map rule_to_dict (syscalls p)))]"

definition allowed_syscalls :: "seccomp_profile \<Rightarrow> string set" where
  "allowed_syscalls p =
     fold (\<lambda>r names. if rule_action r = ACT_ALLOW then names \<union> set (rule_names r) else names)
       (syscalls p) {}"

record synthesis_config =
  cfg_default_action :: string
  cfg_architectures :: "string list"
  include_baseline :: bool

definition default_config :: synthesis_config where
  "default_config = \<lparr>cfg_default_action = ACT_ERRNO, cfg_architectures = SUPPORTED_ARCHITECTURES,
     include_baseline = True\<rparr>"

definition synthesize_profile ::
  "string set \<Rightarrow> synthesis_config \<Rightarrow> string set \<Rightarrow> string set \<Rightarrow> seccomp_profile py" where
  "synthesize_profile detected cfg allow_extra deny_extra =
     (if cfg_default_action cfg \<notin> set VALID_ACTIONS
      then Inl (Value_Error (''Invalid default action: '' @ py_repr (cfg_default_action cfg)
             @ ''; must be one of '' @ py_repr_list (sort VALID_ACTIONS)))
      else
        (let a0 = (if include_baseline cfg then set BASELINE_RUNTIME_SYSCALLS else {});
             allowed = ((a0 \<union> detected) \<union> allow_extra) - deny_extra
         in Inr \<lparr>default_action = cfg_default_action cfg, architectures = cfg_architectures cfg,
              syscalls = [\<lparr>rule_names = sorted_list_of_set allowed, rule_action = ACT_ALLOW,
                           rule_args = []\<rparr>]\<rparr>))"

text \<open>
  \<open>tuple(v)\<close> of a decoded value whose elements the profile holds as strings. Python stores an
  element that is no string as it is; the typed record cannot, so that is a \<open>Type_Error\<close> here.
\<close>

definition as_text :: "json \<Rightarrow> string py" where
  "as_text j = (case j of JStr s \<Rightarrow> Inr s | _ \<Rightarrow> Inl Type_Error)"

definition text_tuple :: "json \<Rightarrow> string list py" where
  "text_tuple j = result_bind (py_iter j) (map_result as_text)"

definition load_rule :: "json \<Rightarrow> syscall_rule py" where
  "load_rule rule =
     result_bind (py_get rule ''names'' (JArr [])) (\<lambda>ns. result_bind (text_tuple ns) (\<lambda>names.
     result_bind (py_get rule ''action'' (JStr ACT_ALLOW)) (\<lambda>a. result_bind (as_text a) (\<lambda>action.
     result_bind (py_get rule ''args'' (JArr [])) (\<lambda>xs. result_bind (py_iter xs) (\<lambda>args.
       Inr \<lparr>rule_names = names, rule_action = action, rule_args = args\<rparr>))))))"

definition load_profile :: "json \<Rightarrow> seccomp_profile py" where
  "load_profile data =
     result_bind (py_get data ''defaultAction'' (JStr ACT_ERRNO)) (\<lambda>d. result_bind (as_text d) (\<lambda>action.
     result_bind (py_get data ''architectures'' (JArr (map JStr SUPPORTED_ARCHITECTURES))) (\<lambda>as.
     result_bind (text_tuple as) (\<lambda>archs.
     result_bind (py_get data ''syscalls'' (JArr [])) (\<lambda>rs. result_bind (py_iter rs) (\<lambda>raw.
     result_bind (map_result load_rule raw) (\<lambda>rules.
       Inr \<lparr>default_action = action, architectures = archs, syscalls = rules\<rparr>)))))))"

section \<open>Audit and comparison\<close>

definition high_risk_line :: "string \<Rightarrow> string" where
  "high_risk_line d = ''HIGH_RISK: Permitted dangerous syscall '' @ py_repr d"

definition audit_profile :: "seccomp_profile \<Rightarrow> string list" where
  "audit_profile p =
     (let allowed = allowed_syscalls p;
          dangerous = sorted_list_of_set (allowed \<inter> set HIGH_RISK_SYSCALLS);
          missing = sorted_list_of_set (set BASELINE_RUNTIME_SYSCALLS - allowed)
      in map high_risk_line dangerous
         @ (if missing \<noteq> []
            then [''BASELINE_DEFICIT: Missing '' @ show_nat (length missing)
                  @ '' essential runtime syscalls: '' @ py_repr_list (take 5 missing)] else [])
         @ (if default_action p = ACT_ALLOW
            then [''INSECURE_DEFAULT: defaultAction is SCMP_ACT_ALLOW (fails open)''] else []))"

record profile_diff =
  action_changed :: bool
  base_action :: string
  cand_action :: string
  added_syscalls :: "string list"
  removed_syscalls :: "string list"

definition diff_profiles :: "seccomp_profile \<Rightarrow> seccomp_profile \<Rightarrow> profile_diff" where
  "diff_profiles base cand =
     \<lparr>action_changed = (default_action base \<noteq> default_action cand),
      base_action = default_action base, cand_action = default_action cand,
      added_syscalls = sorted_list_of_set (allowed_syscalls cand - allowed_syscalls base),
      removed_syscalls = sorted_list_of_set (allowed_syscalls base - allowed_syscalls cand)\<rparr>"

section \<open>Command line\<close>

text \<open>
  The parsed arguments: the texts below \<open>--source\<close> and of \<open>--trace\<close> where given (a trace that is
  no file is \<open>Some None\<close>), the two lists, and the switches.
\<close>

record seccomp_args =
  arg_source :: "string list option"
  arg_trace :: "string option option"
  arg_default_action :: string
  arg_allow :: string
  arg_deny :: string
  arg_strict :: bool

definition split_csv_tokens :: "string \<Rightarrow> string list" where
  "split_csv_tokens raw = map py_strip (filter (\<lambda>t. py_strip t \<noteq> '''') (py_split '','' raw))"

definition has_cli_inputs :: "seccomp_args \<Rightarrow> bool" where
  "has_cli_inputs a \<longleftrightarrow> arg_source a \<noteq> None \<or> arg_trace a \<noteq> None \<or> arg_allow a \<noteq> ''''"

definition read_source_syscalls :: "(string \<Rightarrow> sc_ast option) \<Rightarrow> string list option \<Rightarrow> string set" where
  "read_source_syscalls parse src =
     (case src of None \<Rightarrow> {} | Some texts \<Rightarrow> ar_syscalls (analyze_path parse texts))"

definition read_trace_syscalls :: "(string \<Rightarrow> json option) \<Rightarrow> string option option \<Rightarrow> string set" where
  "read_trace_syscalls loads trace =
     (case trace of Some (Some t) \<Rightarrow> parse_trace_lines loads (py_splitlines t) | _ \<Rightarrow> {})"

definition collect_cli_syscalls ::
  "(string \<Rightarrow> sc_ast option) \<Rightarrow> (string \<Rightarrow> json option) \<Rightarrow> seccomp_args \<Rightarrow> string set" where
  "collect_cli_syscalls parse loads a =
     read_source_syscalls parse (arg_source a) \<union> read_trace_syscalls loads (arg_trace a)"

definition build_profile_from_args ::
  "(string \<Rightarrow> sc_ast option) \<Rightarrow> (string \<Rightarrow> json option) \<Rightarrow> seccomp_args \<Rightarrow> seccomp_profile py" where
  "build_profile_from_args parse loads a =
     synthesize_profile (collect_cli_syscalls parse loads a)
       (default_config\<lparr>cfg_default_action := arg_default_action a\<rparr>)
       (set (split_csv_tokens (arg_allow a))) (set (split_csv_tokens (arg_deny a)))"

definition has_strict_violations :: "string list \<Rightarrow> bool" where
  "has_strict_violations fs \<longleftrightarrow> list_ex (\<lambda>f. starts_with f ''HIGH_RISK'') fs"

text \<open>The exit status and, where one is written, the profile.\<close>

definition seccomp_main ::
  "(string \<Rightarrow> sc_ast option) \<Rightarrow> (string \<Rightarrow> json option) \<Rightarrow> seccomp_args \<Rightarrow>
   (int \<times> seccomp_profile option) py" where
  "seccomp_main parse loads a =
     (if \<not> has_cli_inputs a then Inr (2, None)
      else result_bind (build_profile_from_args parse loads a) (\<lambda>p.
        if arg_strict a \<and> has_strict_violations (audit_profile p) then Inr (1, None)
        else Inr (0, Some p)))"

end
