(* ===== verification/Seccomp_Props.thy ===== *)
theory Seccomp_Props
  imports Seccomp_Synthesizer
begin

text \<open>
  What the seccomp synthesizer guarantees: the profile it writes allows exactly the baseline, the
  detected and the extra calls less the denied ones, strict mode never lets a high risk call
  through, the audit is exact, the analysis is the union over files and tables, and a profile
  read back from its JSON form is the profile.
\<close>

section \<open>Sets of calls are finite\<close>

lemma finite_table_calls [simp]: "finite (table_calls t k)"
  by (simp add: table_calls_def split: option.splits)

section \<open>Analysis\<close>

definition explained :: "analysis_result \<Rightarrow> bool" where
  "explained r \<longleftrightarrow> ar_syscalls r =
     (\<Union>m \<in> ar_modules r. table_calls MODULE_SYSCALL_MAP m)
     \<union> (\<Union>n \<in> ar_symbols r. table_calls SYMBOL_SYSCALL_MAP n)
   \<and> finite (ar_syscalls r)"

lemma explained_record:
  "explained r \<Longrightarrow> explained (record_module m r)" "explained r \<Longrightarrow> explained (record_symbol m r)"
  by (auto simp: explained_def record_module_def record_symbol_def)

lemma explained_fold: "(\<And>x r. explained r \<Longrightarrow> explained (f x r)) \<Longrightarrow> explained r \<Longrightarrow> explained (fold f xs r)"
  by (induction xs arbitrary: r) auto

lemma explained_enter: "explained r \<Longrightarrow> explained (sc_enter info r)"
  by (cases info) (auto intro!: explained_fold explained_record split: option.splits)

lemma explained_visit:
  "explained r \<Longrightarrow> explained (sc_visit t r)"
  "explained r \<Longrightarrow> explained (sc_visit_all ts r)"
  by (induction t r and ts r rule: sc_visit_sc_visit_all.induct) (auto simp: explained_enter)

lemma explained_empty: "explained empty_analysis"
  by (simp add: explained_def empty_analysis_def)

lemma explained_source: "explained (analyze_source_code parse src)"
  by (auto simp: analyze_source_code_def explained_empty explained_visit split: option.splits)

lemma explained_merge: "explained a \<Longrightarrow> explained b \<Longrightarrow> explained (merge_results a b)"
  by (auto simp: explained_def merge_results_def)

lemma explained_path: "explained (analyze_path parse texts)"
  unfolding analyze_path_def by (rule explained_fold) (auto intro: explained_merge explained_source explained_empty)

lemma merge_union: "ar_syscalls (fold (\<lambda>t r. merge_results r (analyze_source_code parse t)) texts r) =
    ar_syscalls r \<union> (\<Union>t \<in> set texts. ar_syscalls (analyze_source_code parse t))"
  by (induction texts arbitrary: r) (auto simp: merge_results_def)

section \<open>Collected calls\<close>

lemma finite_path: "finite (ar_syscalls (analyze_path parse texts))"
  using explained_path [of parse texts] unfolding explained_def by blast

lemma finite_trace_step: "finite d \<Longrightarrow> finite (trace_step loads l d)"
  by (simp add: trace_step_def Let_def split: option.splits)

lemma finite_trace: "finite (parse_trace_lines loads ls)"
proof -
  have "finite d \<Longrightarrow> finite (fold (trace_step loads) ls d)" for d
    by (induction ls arbitrary: d) (auto simp: finite_trace_step)
  then show ?thesis by (simp add: parse_trace_lines_def)
qed

lemma finite_collected: "finite (collect_cli_syscalls parse loads a)"
  by (auto simp: collect_cli_syscalls_def read_source_syscalls_def read_trace_syscalls_def
      finite_path finite_trace split: option.splits)

lemma allowed_single:
  "allowed_syscalls \<lparr>default_action = d, architectures = as,
     syscalls = [\<lparr>rule_names = ns, rule_action = ACT_ALLOW, rule_args = xs\<rparr>]\<rparr> = set ns"
  by (simp add: allowed_syscalls_def)

lemma finite_allowed: "finite (allowed_syscalls p)"
proof -
  have "finite A \<Longrightarrow> finite (fold (\<lambda>r names. if rule_action r = ACT_ALLOW
      then names \<union> set (rule_names r) else names) rs A)" for A rs
    by (induction rs arbitrary: A) auto
  from this [OF finite.emptyI] show ?thesis by (simp add: allowed_syscalls_def)
qed

section \<open>Audit\<close>

lemma high_risk_prefix: "starts_with (high_risk_line d) ''HIGH_RISK''"
  by (simp add: high_risk_line_def)

lemma strict_violations_iff:
  "has_strict_violations (audit_profile p) \<longleftrightarrow> allowed_syscalls p \<inter> set HIGH_RISK_SYSCALLS \<noteq> {}"
proof -
  have "has_strict_violations (map high_risk_line xs @ ys)"
    if "xs \<noteq> []" for xs ys
    using that high_risk_prefix by (cases xs) (auto simp: has_strict_violations_def)
  moreover have "finite (allowed_syscalls p \<inter> set HIGH_RISK_SYSCALLS)" by simp
  ultimately show ?thesis
    by (cases "allowed_syscalls p \<inter> set HIGH_RISK_SYSCALLS = {}")
      (auto simp: audit_profile_def Let_def has_strict_violations_def)
qed

lemma audit_empty_iff:
  "audit_profile p = [] \<longleftrightarrow>
    allowed_syscalls p \<inter> set HIGH_RISK_SYSCALLS = {}
    \<and> set BASELINE_RUNTIME_SYSCALLS \<subseteq> allowed_syscalls p \<and> default_action p \<noteq> ACT_ALLOW"
  by (auto simp: audit_profile_def Let_def)

section \<open>JSON\<close>

lemma text_tuple_roundtrip: "text_tuple (JArr (map JStr xs)) = Inr xs"
  using map_result_map [of xs as_text JStr "\<lambda>x. x"] by (simp add: text_tuple_def as_text_def)

lemma load_rule_roundtrip: "load_rule (rule_to_dict r) = Inr r"
  by (simp add: load_rule_def rule_to_dict_def text_tuple_roundtrip as_text_def)

lemma load_profile_roundtrip: "load_profile (profile_to_dict p) = Inr p"
  using map_result_map [of "syscalls p" load_rule rule_to_dict "\<lambda>x. x"]
  by (simp add: load_profile_def profile_to_dict_def text_tuple_roundtrip as_text_def load_rule_roundtrip)

section \<open>Command line\<close>

lemma seccomp_main_profile:
  assumes "seccomp_main parse loads a = Inr (c, Some p)"
  shows "c = 0 \<and> allowed_syscalls p =
      (set BASELINE_RUNTIME_SYSCALLS \<union> collect_cli_syscalls parse loads a
        \<union> set (split_csv_tokens (arg_allow a))) - set (split_csv_tokens (arg_deny a))
    \<and> \<not> (arg_strict a \<and> allowed_syscalls p \<inter> set HIGH_RISK_SYSCALLS \<noteq> {})"
proof -
  obtain q where q: "build_profile_from_args parse loads a = Inr q" "c = 0" "p = q"
    "\<not> (arg_strict a \<and> has_strict_violations (audit_profile q))"
    using assms by (auto simp: seccomp_main_def result_bind_def split: if_splits sum.splits)
  have "allowed_syscalls q = (set BASELINE_RUNTIME_SYSCALLS \<union> collect_cli_syscalls parse loads a
        \<union> set (split_csv_tokens (arg_allow a))) - set (split_csv_tokens (arg_deny a))"
    using q(1) finite_collected [of parse loads a]
    by (auto simp: build_profile_from_args_def synthesize_profile_def default_config_def Let_def
        allowed_single split: if_splits)
  with q show ?thesis by (simp add: strict_violations_iff)
qed

section \<open>Properties\<close>

text \<open>a profile the command line writes allows exactly the baseline, the detected and the
  \<open>--allow\<close> calls less the \<open>--deny\<close> calls, and in strict mode none of them is high risk.\<close>

theorem written_profile_is_exact:
  assumes "seccomp_main parse loads a = Inr (c, Some p)"
  shows "c = 0 \<and> allowed_syscalls p =
      (set BASELINE_RUNTIME_SYSCALLS \<union> collect_cli_syscalls parse loads a
        \<union> set (split_csv_tokens (arg_allow a))) - set (split_csv_tokens (arg_deny a))
    \<and> \<not> (arg_strict a \<and> allowed_syscalls p \<inter> set HIGH_RISK_SYSCALLS \<noteq> {})"
  using assms by (rule seccomp_main_profile)

text \<open>the calls found below a path are the union of those found in its files, and are
  exactly what the two tables give for the modules and names found.\<close>

theorem analysis_is_union:
  "ar_syscalls (analyze_path parse texts) = (\<Union>t \<in> set texts. ar_syscalls (analyze_source_code parse t))
    \<and> ar_syscalls (analyze_path parse texts) =
      (\<Union>m \<in> ar_modules (analyze_path parse texts). table_calls MODULE_SYSCALL_MAP m)
      \<union> (\<Union>n \<in> ar_symbols (analyze_path parse texts). table_calls SYMBOL_SYSCALL_MAP n)"
  using explained_path [of parse texts] merge_union [of parse texts empty_analysis]
  by (simp add: explained_def analyze_path_def empty_analysis_def)

text \<open>the audit is silent exactly on a profile that fails closed, permits no high risk call
  and permits the whole runtime baseline.\<close>

theorem audit_silent_iff_safe:
  "audit_profile p = [] \<longleftrightarrow>
    allowed_syscalls p \<inter> set HIGH_RISK_SYSCALLS = {}
    \<and> set BASELINE_RUNTIME_SYSCALLS \<subseteq> allowed_syscalls p \<and> default_action p \<noteq> ACT_ALLOW"
  by (rule audit_empty_iff)

text \<open>\<open>load_profile_from_json\<close> inverts \<open>to_dict\<close>.\<close>

theorem seccomp_profile_roundtrip: "load_profile (profile_to_dict p) = Inr p"
  by (rule load_profile_roundtrip)

text \<open>the profile of a module that only imports \<open>json\<close> passes the audit and does not allow
  \<open>openat\<close>, the call the interpreter opens the imported module with.\<close>

theorem import_profile_cannot_open:
  "(case seccomp_main (\<lambda>s. Some (ScNode ScOther [ScNode (ScImport [''json'']) []])) (\<lambda>s. None)
      \<lparr>arg_source = Some [''import json''], arg_trace = None, arg_default_action = ACT_ERRNO,
       arg_allow = '''', arg_deny = '''', arg_strict = True\<rparr>
    of Inr (c, Some p) \<Rightarrow> c = 0 \<and> audit_profile p = []
         \<and> ''openat'' \<notin> allowed_syscalls p \<and> ''open'' \<notin> allowed_syscalls p
     | _ \<Rightarrow> False)"
  by code_simp

text \<open>A run on a source that spawns a process and on a two line trace.\<close>

definition sample_source :: "string \<Rightarrow> sc_ast option" where
  "sample_source s = Some (ScNode ScOther [ScNode (ScImport [''subprocess'']) [],
     ScNode (ScCall (Some ''open'')) [ScNode ScOther []]])"

definition sample_args :: seccomp_args where
  "sample_args = \<lparr>arg_source = Some [''import subprocess''],
     arg_trace = Some (Some (''[pid 7] sys_mount(1)'' @ newline @ ''+++ exited'')),
     arg_default_action = ACT_KILL, arg_allow = ''poll, ,uname'', arg_deny = ''mount,ioctl'', arg_strict = False\<rparr>"

definition sample_profile :: seccomp_profile where
  "sample_profile = (case seccomp_main sample_source (\<lambda>s. None) sample_args of
     Inr (c, Some p) \<Rightarrow> p
   | _ \<Rightarrow> \<lparr>default_action = '''', architectures = [], syscalls = []\<rparr>)"

theorem written_profile_is_exact_witness:
  "0 = (0 :: int) \<and> allowed_syscalls sample_profile =
      (set BASELINE_RUNTIME_SYSCALLS \<union> collect_cli_syscalls sample_source (\<lambda>s. None) sample_args
        \<union> set (split_csv_tokens (arg_allow sample_args))) - set (split_csv_tokens (arg_deny sample_args))
    \<and> \<not> (arg_strict sample_args \<and> allowed_syscalls sample_profile \<inter> set HIGH_RISK_SYSCALLS \<noteq> {})"
proof (rule written_profile_is_exact)
  show "seccomp_main sample_source (\<lambda>s. None) sample_args = Inr (0, Some sample_profile)"
    by (simp add: sample_profile_def seccomp_main_def has_cli_inputs_def build_profile_from_args_def
        synthesize_profile_def sample_args_def VALID_ACTIONS_def default_config_def)
qed

end
