(* ===== verification/Slo_Engine.thy ===== *)
theory Slo_Engine
  imports Py_Text
begin

text \<open>
  \<open>tools/reliability_slo.py\<close>: the indicators measured on an iteration report, the bounded history
  in a ledger file or a directory of shards, the error budget arithmetic, and the policy that
  maps budget states to the phase of the loop and to the release verdict. A report is the decoded
  JSON document; a history entry is a value \<open>record_iteration\<close> wrote, and a file that cannot be
  read or decoded is \<open>None\<close>.
\<close>

section \<open>Data\<close>

definition MAX_HISTORY_ITERATIONS :: nat where "MAX_HISTORY_ITERATIONS = 100"
definition FAST_FEEDBACK_CEILING_SECONDS :: py_float where "FAST_FEEDBACK_CEILING_SECONDS = 2"
definition CRITICAL_BURN_RATE :: py_float where "CRITICAL_BURN_RATE = 2"
definition MIN_BURN_RATE_ITERATIONS :: nat where "MIN_BURN_RATE_ITERATIONS = 3"
definition SLACK_BUDGET_THRESHOLD :: py_float where "SLACK_BUDGET_THRESHOLD = 0"

datatype loop_phase = REACTIVE_REMEDIATION | PROACTIVE_ELEVATION | OBJECTIVE_REVIEW

datatype budget_status = INSUFFICIENT_DATA | EXHAUSTED | BURNING | HEALTHY | UNSPENT

record sli_measurement =
  sli_name :: string
  good_events :: nat
  valid_events :: nat

definition sli_ratio :: "sli_measurement \<Rightarrow> py_float" where
  "sli_ratio m = (if valid_events m = 0 then 1 else of_nat (good_events m) / of_nat (valid_events m))"

record service_level_objective =
  slo_sli :: string
  slo_target :: py_float
  window_iterations :: nat
  slo_rationale :: string
  min_valid :: int
  gating :: bool

record budget_state =
  objective :: service_level_objective
  observed :: py_float
  iterations :: nat
  consumed :: py_float
  burn_rate :: py_float
  status :: budget_status

definition remaining :: "budget_state \<Rightarrow> py_float" where
  "remaining s = max 0 (1 - consumed s)"

record policy_decision =
  phase :: loop_phase
  driver :: string
  rationale :: string

section \<open>Indicators\<close>

definition resources :: "json \<Rightarrow> json list py" where
  "resources report = result_bind (py_get report ''resources_evaluated'' (JArr [])) py_iter"

definition filter_result :: "('a \<Rightarrow> bool py) \<Rightarrow> 'a list \<Rightarrow> 'a list py" where
  "filter_result p xs =
     result_bind (map_result (\<lambda>x. result_bind (p x) (\<lambda>b. Inr (b, x))) xs)
       (\<lambda>ys. Inr (map snd (filter fst ys)))"

definition measure_by :: "string \<Rightarrow> (json \<Rightarrow> bool py) \<Rightarrow> json list \<Rightarrow> sli_measurement py" where
  "measure_by name good items = result_bind (filter_result good items)
     (\<lambda>gs. Inr \<lparr>sli_name = name, good_events = length gs, valid_events = length items\<rparr>)"

definition feedback :: "json \<Rightarrow> json list py" where
  "feedback report = result_bind (py_get report ''improvement_feedback'' (JArr [])) (\<lambda>v.
     result_bind (py_iter v) (filter_result (\<lambda>item.
       result_bind (py_get item ''category'' JNull) (\<lambda>c. Inr (c \<noteq> JStr ''POSITIVE_REINFORCEMENT'')))))"

definition measure_gate_pass_rate :: "json \<Rightarrow> sli_measurement py" where
  "measure_gate_pass_rate report = result_bind (resources report)
     (measure_by ''gate_pass_rate'' (\<lambda>item.
        result_bind (py_get item ''health_status'' JNull) (\<lambda>h. Inr (h = JStr ''HEALTHY''))))"

text \<open>\<open>not item["scan_metrics"][key]\<close>.\<close>

definition scan_free :: "string \<Rightarrow> json \<Rightarrow> bool py" where
  "scan_free key item = result_bind (py_item item ''scan_metrics'') (\<lambda>m.
     result_bind (py_item m key) (\<lambda>v. Inr (\<not> py_truthy v)))"

definition measure_invariant_compliance :: "json \<Rightarrow> sli_measurement py" where
  "measure_invariant_compliance report = result_bind (resources report)
     (measure_by ''invariant_compliance'' (\<lambda>item.
        result_bind (scan_free ''complexity_violations'' item) (\<lambda>a.
          if a then scan_free ''sanitization_violations'' item else Inr False)))"

definition execution_seconds :: "json \<Rightarrow> json py" where
  "execution_seconds run = result_bind (py_get run ''execution_seconds'' JNull) (\<lambda>reported.
     if reported = JNull then py_get run ''duration_seconds'' (JFloat 0) else Inr reported)"

definition run_results :: "json list \<Rightarrow> json list py" where
  "run_results items = result_bind
     (filter_result (\<lambda>item. result_bind (py_get item ''run_result'' JNull) (\<lambda>r. Inr (py_truthy r))) items)
     (map_result (\<lambda>item. py_item item ''run_result''))"

definition measure_feedback_latency :: "json \<Rightarrow> sli_measurement py" where
  "measure_feedback_latency report = result_bind (resources report) (\<lambda>items.
     result_bind (run_results items) (measure_by ''feedback_latency'' (\<lambda>run.
        result_bind (execution_seconds run) (\<lambda>v.
          result_bind (py_number v) (\<lambda>x. Inr (x \<le> FAST_FEEDBACK_CEILING_SECONDS))))))"

definition measure_headroom_saturation :: "json \<Rightarrow> sli_measurement py" where
  "measure_headroom_saturation report = result_bind (resources report)
     (measure_by ''headroom_saturation'' (scan_free ''near_threshold_functions''))"

definition AUTOMATABLE_CATEGORIES :: "string list" where
  "AUTOMATABLE_CATEGORIES = [''PROACTIVE_REFACTOR'', ''DOCUMENTATION'']"

text \<open>Membership in a frozenset hashes the value: lists and dicts raise.\<close>

definition in_categories :: "json \<Rightarrow> bool py" where
  "in_categories c = (case c of JArr _ \<Rightarrow> Inl Type_Error | JObj _ \<Rightarrow> Inl Type_Error
     | JStr s \<Rightarrow> Inr (s \<in> set AUTOMATABLE_CATEGORIES) | _ \<Rightarrow> Inr False)"

definition measure_toil_containment :: "json \<Rightarrow> sli_measurement py" where
  "measure_toil_containment report = result_bind (feedback report)
     (measure_by ''toil_containment'' (\<lambda>item.
        result_bind (py_get item ''category'' JNull) (\<lambda>c.
          result_bind (in_categories c) (\<lambda>b. Inr (\<not> b)))))"

definition SLI_REGISTRY :: "(string \<times> (json \<Rightarrow> sli_measurement py)) list" where
  "SLI_REGISTRY =
     [(''gate_pass_rate'', measure_gate_pass_rate),
      (''invariant_compliance'', measure_invariant_compliance),
      (''feedback_latency'', measure_feedback_latency),
      (''headroom_saturation'', measure_headroom_saturation),
      (''toil_containment'', measure_toil_containment)]"

definition measure_report :: "json \<Rightarrow> (string, sli_measurement) dict py" where
  "measure_report report = map_result (\<lambda>(name, measure).
     result_bind (measure report) (\<lambda>m. Inr (name, m))) SLI_REGISTRY"

section \<open>History\<close>

record slo_entry =
  e_timestamp :: json
  e_measurements :: "(string, nat \<times> nat) dict"

text \<open>A path: a ledger file, or a directory with its \<open>*.json\<close> files by name.\<close>

datatype slo_store = Ledger "slo_entry list option" | Shards "(string, slo_entry option) dict"

definition last_n :: "nat \<Rightarrow> 'a list \<Rightarrow> 'a list" where
  "last_n n xs = drop (length xs - n) xs"

definition sorted_names :: "(string, 'a) dict \<Rightarrow> string list" where
  "sorted_names d = sort (dict_keys d)"

definition shard_entries :: "(string, slo_entry option) dict \<Rightarrow> slo_entry list" where
  "shard_entries d = List.map_filter (\<lambda>n. case dict_get d n of Some e \<Rightarrow> e | None \<Rightarrow> None) (sorted_names d)"

definition load_history :: "slo_store \<Rightarrow> slo_entry list" where
  "load_history st = (case st of
     Shards d \<Rightarrow> last_n MAX_HISTORY_ITERATIONS (shard_entries d)
   | Ledger (Some es) \<Rightarrow> last_n MAX_HISTORY_ITERATIONS es
   | Ledger None \<Rightarrow> [])"

definition five_digits :: "nat \<Rightarrow> string" where
  "five_digits n = pad_left CHR ''0'' 5 (show_nat n)"

definition shard_name :: "slo_entry \<Rightarrow> nat \<Rightarrow> string" where
  "shard_name e existing =
     (let s = py_replace ''-'' '''' (py_replace '':'' '''' (json_str (e_timestamp e)));
          stamp = (if s \<noteq> '''' then s else five_digits existing)
      in stamp @ ''-'' @ five_digits existing @ ''.json'')"

definition prune_shards :: "(string, 'a) dict \<Rightarrow> (string, 'a) dict" where
  "prune_shards d = fold dict_pop (take (length d - MAX_HISTORY_ITERATIONS) (sorted_names d)) d"

definition write_shard :: "slo_entry \<Rightarrow> (string, slo_entry option) dict \<Rightarrow> (string, slo_entry option) dict" where
  "write_shard e d = prune_shards (dict_set (shard_name e (length d)) (Some e) d)"

definition record_entry :: "slo_entry \<Rightarrow> slo_store \<Rightarrow> slo_store \<times> slo_entry list" where
  "record_entry e st = (case st of
     Shards d \<Rightarrow> (let st' = Shards (write_shard e d) in (st', load_history st'))
   | Ledger _ \<Rightarrow> (let history = last_n MAX_HISTORY_ITERATIONS (load_history st @ [e])
                  in (Ledger (Some history), history)))"

definition record_iteration :: "json \<Rightarrow> slo_store \<Rightarrow> (slo_store \<times> slo_entry list) py" where
  "record_iteration report st =
     result_bind (py_get report ''timestamp'' (JStr '''')) (\<lambda>ts.
     result_bind (measure_report report) (\<lambda>ms.
       Inr (record_entry \<lparr>e_timestamp = ts,
              e_measurements = map (\<lambda>(n, m). (n, (good_events m, valid_events m))) ms\<rparr> st)))"

section \<open>Error budgets\<close>

text \<open>\<open>history[-window:]\<close>; a window of 0 takes everything.\<close>

definition window_slice :: "nat \<Rightarrow> 'a list \<Rightarrow> 'a list" where
  "window_slice w xs = (if w = 0 then xs else last_n w xs)"

definition window_totals :: "slo_entry list \<Rightarrow> string \<Rightarrow> nat \<Rightarrow> nat \<times> nat" where
  "window_totals history sli window =
     (let pairs = List.map_filter (\<lambda>e. dict_get (e_measurements e) sli) (window_slice window history)
      in (sum_list (map fst pairs), sum_list (map snd pairs)))"

definition consumed_fraction :: "py_float \<Rightarrow> py_float \<Rightarrow> py_float" where
  "consumed_fraction obs target =
     (let budget = 1 - target in
      if budget \<le> 0 then (if obs \<ge> 1 then 0 else 1)
      else if obs < 1 then min ((1 - obs) / budget) 1 else 0)"

record budget_sample =
  bs_consumed :: py_float
  bs_burn_rate :: py_float
  bs_iterations :: nat
  bs_valid_events :: nat
  bs_min_valid :: int
  bs_window_full :: bool

definition is_undersampled :: "budget_sample \<Rightarrow> bool" where
  "is_undersampled s \<longleftrightarrow> int (bs_valid_events s) < bs_min_valid s"

definition is_exhausted :: "budget_sample \<Rightarrow> bool" where
  "is_exhausted s \<longleftrightarrow> bs_consumed s \<ge> 1"

definition is_burning :: "budget_sample \<Rightarrow> bool" where
  "is_burning s \<longleftrightarrow> bs_burn_rate s > CRITICAL_BURN_RATE \<and> bs_iterations s \<ge> MIN_BURN_RATE_ITERATIONS"

definition is_unspent :: "budget_sample \<Rightarrow> bool" where
  "is_unspent s \<longleftrightarrow> bs_window_full s \<and> bs_consumed s \<le> SLACK_BUDGET_THRESHOLD"

definition STATUS_RULES :: "((budget_sample \<Rightarrow> bool) \<times> budget_status) list" where
  "STATUS_RULES = [(is_undersampled, INSUFFICIENT_DATA), (is_exhausted, EXHAUSTED),
     (is_burning, BURNING), (is_unspent, UNSPENT)]"

definition find_budget_status :: "budget_sample \<Rightarrow> budget_status" where
  "find_budget_status s = (case List.find (\<lambda>(p, st). p s) STATUS_RULES of
     Some (p, st) \<Rightarrow> st | None \<Rightarrow> HEALTHY)"

definition evaluate_objective :: "service_level_objective \<Rightarrow> slo_entry list \<Rightarrow> budget_state py" where
  "evaluate_objective ob history =
     (let (good, valid) = window_totals history (slo_sli ob) (window_iterations ob);
          obs = (if valid = 0 then 1 else of_nat good / of_nat valid);
          iters = min (length history) (window_iterations ob);
          used = consumed_fraction obs (slo_target ob)
      in if window_iterations ob = 0 then Inl Zero_Division
         else
           (let elapsed = max (of_nat iters / of_nat (window_iterations ob)) (1 / 10 ^ 9);
                burn = used / elapsed
            in Inr \<lparr>objective = ob, observed = obs, iterations = iters, consumed = used, burn_rate = burn,
                 status = find_budget_status \<lparr>bs_consumed = used, bs_burn_rate = burn,
                   bs_iterations = iters, bs_valid_events = valid, bs_min_valid = min_valid ob,
                   bs_window_full = (iters \<ge> window_iterations ob)\<rparr>\<rparr>))"

definition DEFAULT_OBJECTIVES :: "service_level_objective list" where
  "DEFAULT_OBJECTIVES =
     [\<lparr>slo_sli = ''invariant_compliance'', slo_target = 1, window_iterations = 20,
       slo_rationale = ''Invariants are the one thing with no acceptable failure rate; a breach is never routine.'',
       min_valid = 1, gating = True\<rparr>,
      \<lparr>slo_sli = ''gate_pass_rate'', slo_target = 98 / 100, window_iterations = 20,
       slo_rationale = ''A gate failing on 2% of resources is a working gate, not an incident.'',
       min_valid = 10, gating = True\<rparr>,
      \<lparr>slo_sli = ''feedback_latency'', slo_target = 95 / 100, window_iterations = 20,
       slo_rationale = ''Agent agility depends on the tail, so one slow suite in twenty is the affordable limit.'',
       min_valid = 10, gating = False\<rparr>,
      \<lparr>slo_sli = ''headroom_saturation'', slo_target = 90 / 100, window_iterations = 20,
       slo_rationale = ''Functions may sit near the ceiling briefly; a tenth of the tree doing so permanently is drift.'',
       min_valid = 10, gating = False\<rparr>,
      \<lparr>slo_sli = ''toil_containment'', slo_target = 50 / 100, window_iterations = 20,
       slo_rationale = ''SRE'' @ [CHR 0x27] @ ''s toil ceiling: over half the backlog being machine-fixable means the machine should fix it.'',
       min_valid = 10, gating = False\<rparr>]"

definition evaluate_all :: "slo_entry list \<Rightarrow> service_level_objective list \<Rightarrow> budget_state list py" where
  "evaluate_all history obs = map_result (\<lambda>ob. evaluate_objective ob history) obs"

section \<open>Policy\<close>

definition phase_by_status :: "budget_status \<Rightarrow> loop_phase" where
  "phase_by_status s = (case s of
     EXHAUSTED \<Rightarrow> REACTIVE_REMEDIATION | BURNING \<Rightarrow> REACTIVE_REMEDIATION
   | UNSPENT \<Rightarrow> OBJECTIVE_REVIEW | HEALTHY \<Rightarrow> PROACTIVE_ELEVATION
   | INSUFFICIENT_DATA \<Rightarrow> PROACTIVE_ELEVATION)"

text \<open>\<open>_STATUS_PRECEDENCE.index\<close>.\<close>

definition status_precedence :: "budget_status \<Rightarrow> nat" where
  "status_precedence s = (case s of EXHAUSTED \<Rightarrow> 0 | BURNING \<Rightarrow> 1 | HEALTHY \<Rightarrow> 2
     | INSUFFICIENT_DATA \<Rightarrow> 3 | UNSPENT \<Rightarrow> 4)"

definition decision_text :: "budget_state \<Rightarrow> string" where
  "decision_text w =
     slo_sli (objective w) @ '' observed '' @ fmt_fixed 3 (observed w) @ '' against a ''
     @ fmt_fixed 3 (slo_target (objective w)) @ '' target over '' @ show_nat (iterations w)
     @ '' iteration(s): '' @ fmt_percent 0 (consumed w) @ '' of budget spent, burn rate ''
     @ fmt_fixed 2 (burn_rate w) @ ''x. '' @ slo_rationale (objective w)"

definition decide_phase :: "budget_state list \<Rightarrow> policy_decision" where
  "decide_phase states =
     (if states = [] then \<lparr>phase = PROACTIVE_ELEVATION, driver = ''none'',
        rationale = ''No objectives recorded yet; proceed with proactive elevation.''\<rparr>
      else
        (let ranked = sort_key (\<lambda>s. (status_precedence (status s), - burn_rate s)) states;
             worst = hd ranked
         in if list_all (\<lambda>s. status s = UNSPENT) states
            then \<lparr>phase = OBJECTIVE_REVIEW, driver = ''all objectives'',
              rationale = ''Every budget closed a full window unspent. The objectives are not steering ''
                @ ''anything: tighten the targets, or take the risk they were reserving.''\<rparr>
            else \<lparr>phase = phase_by_status (status worst), driver = slo_sli (objective worst),
              rationale = decision_text worst\<rparr>))"

definition gating_states :: "budget_state list \<Rightarrow> budget_state list" where
  "gating_states states = filter (\<lambda>s. gating (objective s)) states"

text \<open>The exit status of \<open>status\<close> and \<open>policy\<close>, and the decision they print.\<close>

definition slo_status :: "slo_store \<Rightarrow> (policy_decision \<times> int) py" where
  "slo_status st = result_bind (evaluate_all (load_history st) DEFAULT_OBJECTIVES) (\<lambda>states.
     Inr (decide_phase states,
          if phase (decide_phase (gating_states states)) \<noteq> REACTIVE_REMEDIATION then 0 else 1))"

end
