(* ===== verification/Slo_Props.thy ===== *)
theory Slo_Props
  imports Slo_Engine "HOL-Library.Multiset"
begin

text \<open>
  What the reliability engine guarantees: when a budget counts as exhausted, how the phase and the
  release verdict follow from the budget states, how many iterations the shard directory keeps,
  and how a full directory loses one.
\<close>

section \<open>Budgets\<close>

lemma consumed_exhausted: "consumed_fraction obs target \<ge> 1 \<longleftrightarrow> obs \<le> target \<and> obs < 1"
  by (auto simp: consumed_fraction_def Let_def min_def field_simps)

lemma find_budget_status_eq:
  "find_budget_status s =
     (if is_undersampled s then INSUFFICIENT_DATA else if is_exhausted s then EXHAUSTED
      else if is_burning s then BURNING else if is_unspent s then UNSPENT else HEALTHY)"
  by (simp add: find_budget_status_def STATUS_RULES_def)

lemma evaluate_objective_exhausted:
  assumes "evaluate_objective ob history = Inr s"
  shows "status s = EXHAUSTED \<longleftrightarrow>
    min_valid ob \<le> int (snd (window_totals history (slo_sli ob) (window_iterations ob)))
    \<and> observed s \<le> slo_target ob \<and> observed s < 1"
  using assms
  by (auto simp: evaluate_objective_def Let_def find_budget_status_eq is_undersampled_def is_exhausted_def
      consumed_exhausted split: prod.splits if_splits)

section \<open>Policy\<close>

definition breached :: "budget_state \<Rightarrow> bool" where
  "breached s \<longleftrightarrow> status s \<in> {EXHAUSTED, BURNING}"

lemma breached_precedence: "breached s \<longleftrightarrow> status_precedence (status s) \<le> 1"
  by (cases "status s") (auto simp: breached_def status_precedence_def)

lemma phase_reactive: "phase_by_status (status s) = REACTIVE_REMEDIATION \<longleftrightarrow> breached s"
  by (cases "status s") (auto simp: breached_def phase_by_status_def)

lemma phase_review: "phase_by_status (status s) = OBJECTIVE_REVIEW \<longleftrightarrow> status s = UNSPENT"
  by (cases "status s") (auto simp: phase_by_status_def)

lemma hd_sort_key_least:
  assumes "x \<in> set xs"
  shows "f (hd (sort_key f xs)) \<le> f x" and "hd (sort_key f xs) \<in> set xs"
proof -
  obtain y ys where y: "sort_key f xs = y # ys"
    using assms by (cases "sort_key f xs") (auto dest: arg_cong [of _ _ set])
  have s: "sorted (map f (sort_key f xs))" by simp
  have "x \<in> set (sort_key f xs)" using assms by simp
  then show "f (hd (sort_key f xs)) \<le> f x" using s unfolding y by auto
  show "hd (sort_key f xs) \<in> set xs" using y by (metis list.sel(1) list.set_intros(1) set_sort)
qed

lemma worst_state:
  assumes "states \<noteq> []"
  defines "worst \<equiv> hd (sort_key (\<lambda>s. (status_precedence (status s), - burn_rate s)) states)"
  shows "worst \<in> set states" and "s \<in> set states \<Longrightarrow>
    status_precedence (status worst) \<le> status_precedence (status s)"
proof -
  have "hd states \<in> set states" using assms(1) by simp
  then show "worst \<in> set states" unfolding worst_def by (rule hd_sort_key_least)
  assume "s \<in> set states"
  then show "status_precedence (status worst) \<le> status_precedence (status s)"
    using hd_sort_key_least(1) [of s states "\<lambda>s. (status_precedence (status s), - burn_rate s)"]
    unfolding worst_def by (auto simp: less_eq_prod_def)
qed

lemma decide_phase_eq:
  "phase (decide_phase states) =
     (if list_ex breached states then REACTIVE_REMEDIATION
      else if states \<noteq> [] \<and> list_all (\<lambda>s. status s = UNSPENT) states then OBJECTIVE_REVIEW
      else PROACTIVE_ELEVATION)"
proof (cases "states = []")
  case False
  define worst where "worst = hd (sort_key (\<lambda>s. (status_precedence (status s), - burn_rate s)) states)"
  have mem: "worst \<in> set states" and least: "\<And>s. s \<in> set states \<Longrightarrow>
      status_precedence (status worst) \<le> status_precedence (status s)"
    using worst_state [OF False] by (auto simp: worst_def)
  have bad: "list_ex breached states \<longleftrightarrow> breached worst"
    using mem least by (force simp: list_ex_iff breached_precedence)
  have unspent: "status worst = UNSPENT \<longleftrightarrow> list_all (\<lambda>s. status s = UNSPENT) states"
  proof
    assume "status worst = UNSPENT"
    then have "status_precedence (status s) \<ge> 4" if "s \<in> set states" for s
      using least [OF that] by (simp add: status_precedence_def)
    then have "status s = UNSPENT" if "s \<in> set states" for s
      using that by (fastforce simp: status_precedence_def split: budget_status.splits)
    then show "list_all (\<lambda>s. status s = UNSPENT) states" by (simp add: list_all_iff)
  qed (use mem in \<open>simp add: list_all_iff\<close>)
  have "phase (decide_phase states) = (if list_all (\<lambda>s. status s = UNSPENT) states
      then OBJECTIVE_REVIEW else phase_by_status (status worst))"
    using False by (simp add: decide_phase_def worst_def Let_def)
  moreover have "\<not> breached worst" if "status worst = UNSPENT" using that by (simp add: breached_def)
  moreover have "phase_by_status (status worst) = (if breached worst then REACTIVE_REMEDIATION
      else if status worst = UNSPENT then OBJECTIVE_REVIEW else PROACTIVE_ELEVATION)"
    by (cases "status worst") (auto simp: phase_by_status_def breached_def)
  ultimately show ?thesis using False bad unspent by auto
qed (simp add: decide_phase_def)

lemma evaluate_all_defaults:
  "\<exists>states. evaluate_all history DEFAULT_OBJECTIVES = Inr states \<and> map objective states = DEFAULT_OBJECTIVES"
proof -
  have "\<exists>s. evaluate_objective ob history = Inr s \<and> objective s = ob" if "window_iterations ob \<noteq> 0" for ob
    using that by (simp add: evaluate_objective_def Let_def split: prod.splits)
  then have "\<exists>states. map_result (\<lambda>ob. evaluate_objective ob history) obs = Inr states
      \<and> map objective states = obs" if "list_all (\<lambda>ob. window_iterations ob \<noteq> 0) obs" for obs
    using that by (induction obs) fastforce+
  moreover have "list_all (\<lambda>ob. window_iterations ob \<noteq> 0) DEFAULT_OBJECTIVES"
    by (simp add: DEFAULT_OBJECTIVES_def)
  ultimately show ?thesis unfolding evaluate_all_def by blast
qed

lemma gating_default_objectives:
  "ob \<in> set DEFAULT_OBJECTIVES \<Longrightarrow>
    gating ob \<longleftrightarrow> slo_sli ob \<in> {''invariant_compliance'', ''gate_pass_rate''}"
  by (auto simp: DEFAULT_OBJECTIVES_def)

lemma slo_status_eq:
  "\<exists>states. evaluate_all (load_history st) DEFAULT_OBJECTIVES = Inr states
    \<and> slo_status st = Inr (decide_phase states,
        if list_ex (\<lambda>s. slo_sli (objective s) \<in> {''invariant_compliance'', ''gate_pass_rate''} \<and> breached s) states
        then 1 else 0)"
proof -
  obtain states where states: "evaluate_all (load_history st) DEFAULT_OBJECTIVES = Inr states"
    "map objective states = DEFAULT_OBJECTIVES" using evaluate_all_defaults by blast
  have "gating (objective s) \<longleftrightarrow> slo_sli (objective s) \<in> {''invariant_compliance'', ''gate_pass_rate''}"
    if "s \<in> set states" for s
    by (rule gating_default_objectives) (use that in \<open>simp add: states(2) [symmetric]\<close>)
  then have "list_ex breached (gating_states states) \<longleftrightarrow>
      list_ex (\<lambda>s. slo_sli (objective s) \<in> {''invariant_compliance'', ''gate_pass_rate''} \<and> breached s) states"
    by (auto simp: gating_states_def list_ex_iff)
  then show ?thesis using states(1) by (simp add: slo_status_def decide_phase_eq)
qed

section \<open>Shards\<close>

lemma keys_fold_pop_filter:
  "dict_keys (fold dict_pop ks d) = filter (\<lambda>k. k \<notin> set ks) (dict_keys d)"
proof (induction ks arbitrary: d)
  case (Cons k ks)
  have "dict_keys (dict_pop k d) = filter (\<lambda>k'. k' \<noteq> k) (dict_keys d)"
    by (simp add: dict_keys_def dict_pop_def keys_alist_delete)
  with Cons show ?case by (simp add: conj_commute)
qed simp

lemma length_keys: "length (dict_keys d) = length d"
  by (simp add: dict_keys_def)

lemma length_dict_set:
  "length (dict_set k v d) = (if k \<in> set (dict_keys d) then length d else Suc (length d))"
  using arg_cong [OF alist_dict.keys_set [of k v d], of length] by (simp add: length_keys split: if_splits)

lemma prune_shards_length:
  assumes "wf_dict d"
  shows "length (prune_shards d) = min (length d) 100"
proof -
  let ?old = "take (length d - MAX_HISTORY_ITERATIONS) (sorted_names d)"
  have dist: "distinct (dict_keys d)" using assms by (rule alist_dict.inv_distinct)
  have old: "set ?old \<subseteq> set (dict_keys d)" "distinct ?old"
    using set_take_subset [of _ "sorted_names d"] dist by (auto simp: sorted_names_def)
  have "length (prune_shards d) = card (set (filter (\<lambda>k. k \<notin> set ?old) (dict_keys d)))"
    unfolding prune_shards_def
    by (metis length_keys keys_fold_pop_filter distinct_card distinct_filter dist)
  also have "set (filter (\<lambda>k. k \<notin> set ?old) (dict_keys d)) = set (dict_keys d) - set ?old" by auto
  also have "card \<dots> = length d - length ?old"
    using old dist by (simp add: card_Diff_subset distinct_card length_keys)
  also have "\<dots> = min (length d) 100"
    by (simp add: sorted_names_def length_keys MAX_HISTORY_ITERATIONS_def)
  finally show ?thesis .
qed

lemma prune_shards_wf: "wf_dict d \<Longrightarrow> wf_dict (prune_shards d)"
  by (simp add: prune_shards_def alist_dict.fold_pop_inv)

lemma prune_shards_small: "length d \<le> 100 \<Longrightarrow> prune_shards d = d"
  by (simp add: prune_shards_def MAX_HISTORY_ITERATIONS_def)

definition shard_suffix :: "nat \<Rightarrow> string" where
  "shard_suffix n = five_digits n @ ''.json''"

text \<open>A directory that is not full yet: every name ends with the number of an earlier write.\<close>

definition shard_dir_ok :: "(string, slo_entry option) dict \<Rightarrow> bool" where
  "shard_dir_ok d \<longleftrightarrow> wf_dict d \<and> length d \<le> 100
     \<and> (length d < 100 \<longrightarrow> (\<forall>k \<in> set (dict_keys d). \<exists>m < length d. ends_with k (shard_suffix m)))"

lemma undigits_pad: "undigits (xs @ replicate n CHR ''0'') = undigits xs"
proof -
  have "undigits (replicate n CHR ''0'') = 0" by (induction n) auto
  then show ?thesis by (induction xs) auto
qed

lemma five_digits_inj: "five_digits m = five_digits n \<Longrightarrow> m = n"
proof -
  assume "five_digits m = five_digits n"
  then have "undigits (rev (five_digits m)) = undigits (rev (five_digits n))" by simp
  then show ?thesis by (simp add: five_digits_def pad_left_def show_nat_def undigits_pad)
qed

lemma length_show_nat_small: "n < 100 \<Longrightarrow> length (show_nat n) \<le> 2"
proof -
  assume "n < 100"
  then have "n div 10 < 10" by simp
  then show ?thesis by (simp add: show_nat_def digits_rev.simps [of n] digits_rev.simps [of "n div 10"])
qed

lemma length_five_digits: "n < 100 \<Longrightarrow> length (five_digits n) = 5"
  using length_show_nat_small [of n] by (simp add: five_digits_def pad_left_def)

lemma shard_suffix_unique:
  assumes "ends_with k (shard_suffix m)" "ends_with k (shard_suffix n)" "m < 100" "n < 100"
  shows "m = n"
proof -
  have "length (shard_suffix m) = length (shard_suffix n)"
    using assms by (simp add: shard_suffix_def length_five_digits)
  then have "shard_suffix m = shard_suffix n"
    using assms(1,2) unfolding ends_with_def by (metis suffix_def append_eq_append_conv)
  then show ?thesis by (auto simp: shard_suffix_def intro: five_digits_inj)
qed

lemma shard_name_suffix: "ends_with (shard_name e n) (shard_suffix n)"
  by (simp add: shard_name_def shard_suffix_def ends_with_def Let_def suffix_def)

lemma write_shard_ok:
  assumes "shard_dir_ok d"
  shows "shard_dir_ok (write_shard e d) \<and> length (write_shard e d) = min (Suc (length d)) 100"
proof (cases "length d < 100")
  case True
  have "shard_name e (length d) \<notin> set (dict_keys d)"
    using assms True shard_name_suffix [of e "length d"] shard_suffix_unique
    by (fastforce simp: shard_dir_ok_def)
  then have len: "length (dict_set (shard_name e (length d)) (Some e) d) = Suc (length d)"
    by (simp add: length_dict_set)
  then have "write_shard e d = dict_set (shard_name e (length d)) (Some e) d"
    using True by (simp add: write_shard_def prune_shards_small)
  then show ?thesis
    using assms True len shard_name_suffix [of e "length d"]
    by (auto simp: shard_dir_ok_def alist_dict.inv_set less_Suc_eq)
next
  case False
  then have wf: "wf_dict (dict_set (shard_name e (length d)) (Some e) d)" and "length d = 100"
    using assms by (auto simp: shard_dir_ok_def alist_dict.inv_set)
  then have "length (write_shard e d) = 100"
    by (simp add: write_shard_def prune_shards_length length_dict_set)
  then show ?thesis using wf False by (simp add: shard_dir_ok_def write_shard_def prune_shards_wf)
qed

interpretation slo_shards: step_invariant "\<lambda>d e. write_shard e d" "\<lambda>_ _. True" shard_dir_ok
  by unfold_locales (simp add: write_shard_ok)

lemma shards_kept: "length (foldl (\<lambda>d e. write_shard e d) [] es) = min (length es) 100"
proof -
  have empty: "shard_dir_ok []" by (simp add: shard_dir_ok_def dict_keys_def)
  have "shard_dir_ok d \<Longrightarrow> length (foldl (\<lambda>d e. write_shard e d) d es) = min (length d + length es) 100" for d
  proof (induction es arbitrary: d)
    case (Cons e es)
    then show ?case using write_shard_ok [of d e] by auto
  qed (simp add: shard_dir_ok_def)
  from this [OF empty] show ?thesis by simp
qed

lemma sorted_names_last:
  assumes "\<forall>k \<in> set (dict_keys d). k < n" "n \<notin> set (dict_keys d)"
  shows "sorted_names (dict_set n v d) = sorted_names d @ [n]"
proof -
  have keys: "dict_keys (dict_set n v d) = dict_keys d @ [n]"
    using assms(2) by (simp add: alist_dict.keys_set)
  have "sorted (sorted_names d @ [n])"
    using assms(1) by (auto simp: sorted_names_def sorted_append)
  then show ?thesis
    unfolding sorted_names_def keys by (intro properties_for_sort) simp_all
qed

lemma full_directory_write:
  assumes "wf_dict d" "length d = 100" "list_all (\<lambda>k. k < shard_name e 100) (dict_keys d)"
  shows "length (write_shard e d) = 100 \<and> wf_dict (write_shard e d)
    \<and> shard_name e 100 \<in> set (dict_keys (write_shard e d))"
proof -
  let ?n = "shard_name e 100"
  have lt: "\<forall>k \<in> set (dict_keys d). k < ?n" using assms(3) by (simp add: list_all_iff)
  then have new: "?n \<notin> set (dict_keys d)" by blast
  have wf: "wf_dict (dict_set ?n (Some e) d)" using assms(1) by (rule alist_dict.inv_set)
  have "take (length (dict_set ?n (Some e) d) - MAX_HISTORY_ITERATIONS) (sorted_names (dict_set ?n (Some e) d))
      = take 1 (sorted_names d)"
    unfolding sorted_names_last [OF lt new]
    using assms(2) new by (simp add: length_dict_set MAX_HISTORY_ITERATIONS_def sorted_names_def length_keys)
  moreover have "?n \<notin> set (take 1 (sorted_names d))"
    using new set_take_subset [of 1 "sorted_names d"] by (auto simp: sorted_names_def)
  ultimately have "?n \<in> set (dict_keys (write_shard e d))"
    by (simp add: write_shard_def assms(2) prune_shards_def keys_fold_pop_filter)
  then show ?thesis
    using wf assms(2) new
    by (simp add: write_shard_def prune_shards_length length_dict_set prune_shards_wf)
qed

lemma full_directory_overwrites:
  assumes "wf_dict d" "length d = 100" "list_all (\<lambda>k. k < shard_name e 100) (dict_keys d)"
    and "shard_name e' 100 = shard_name e 100"
  shows "write_shard e' (write_shard e d) = dict_set (shard_name e 100) (Some e') (write_shard e d)
    \<and> dict_keys (write_shard e' (write_shard e d)) = dict_keys (write_shard e d)"
proof -
  note w = full_directory_write [OF assms(1-3)]
  have "write_shard e' (write_shard e d) = prune_shards (dict_set (shard_name e 100) (Some e') (write_shard e d))"
    using w assms(4) by (simp add: write_shard_def [of e' "write_shard e d"])
  moreover have "length (dict_set (shard_name e 100) (Some e') (write_shard e d)) = 100"
    using w by (simp add: length_dict_set)
  ultimately show ?thesis using w by (simp add: prune_shards_small alist_dict.keys_set)
qed

section \<open>Properties\<close>

text \<open>an objective is exhausted exactly when enough events were measured in its window and the
  observed ratio does not exceed the target and is below 1; a ratio that meets a target below 1
  exactly counts as exhausted.\<close>

theorem exhausted_iff_at_or_below_target:
  assumes "evaluate_objective ob history = Inr s"
  shows "status s = EXHAUSTED \<longleftrightarrow>
    min_valid ob \<le> int (snd (window_totals history (slo_sli ob) (window_iterations ob)))
    \<and> observed s \<le> slo_target ob \<and> observed s < 1"
  using assms by (rule evaluate_objective_exhausted)

text \<open>the loop is sent to remediation exactly when some objective is exhausted or burning, to a
  review of the objectives exactly when there are some and all are unspent, and elevates
  otherwise; the ranking by precedence and burn rate only picks the driver.\<close>

theorem phase_by_worst_state:
  "phase (decide_phase states) =
     (if list_ex breached states then REACTIVE_REMEDIATION
      else if states \<noteq> [] \<and> list_all (\<lambda>s. status s = UNSPENT) states then OBJECTIVE_REVIEW
      else PROACTIVE_ELEVATION)"
  by (rule decide_phase_eq)

text \<open>\<open>status\<close> and \<open>policy\<close> answer on every history, and fail exactly when the invariant
  compliance or the gate pass rate is exhausted or burning, whatever the steering objectives are.\<close>

theorem release_blocked_by_gates_only:
  "\<exists>states. evaluate_all (load_history st) DEFAULT_OBJECTIVES = Inr states
    \<and> slo_status st = Inr (decide_phase states,
        if list_ex (\<lambda>s. slo_sli (objective s) \<in> {''invariant_compliance'', ''gate_pass_rate''} \<and> breached s) states
        then 1 else 0)"
  by (rule slo_status_eq)

text \<open>a shard directory holds one file per iteration recorded into it, up to the retention
  window of 100, whatever the timestamps of the reports.\<close>

theorem shard_directory_retention:
  "length (foldl (\<lambda>d e. write_shard e d) [] es) = min (length es) 100"
  by (rule shards_kept)

text \<open>in a full directory the running number no longer grows, so an iteration with the timestamp
  of the last one (or, like it, with none) replaces it instead of being added.\<close>

theorem full_directory_replaces_last:
  assumes "wf_dict d" "length d = 100" "list_all (\<lambda>k. k < shard_name e 100) (dict_keys d)"
    and "shard_name e' 100 = shard_name e 100"
  shows "write_shard e' (write_shard e d) = dict_set (shard_name e 100) (Some e') (write_shard e d)
    \<and> dict_keys (write_shard e' (write_shard e d)) = dict_keys (write_shard e d)"
  using assms by (rule full_directory_overwrites)

text \<open>A gate that failed once in fifty, and a full directory of reports without timestamps.\<close>

definition sample_history :: "slo_entry list" where
  "sample_history = [\<lparr>e_timestamp = JStr '''', e_measurements = [(''gate_pass_rate'', (49, 50))]\<rparr>]"

definition bare_entry :: "nat \<Rightarrow> slo_entry" where
  "bare_entry n = \<lparr>e_timestamp = JStr '''', e_measurements = [(''gate_pass_rate'', (n, n))]\<rparr>"

definition full_directory :: "(string, slo_entry option) dict" where
  "full_directory = map (\<lambda>i. (shard_name (bare_entry i) i, Some (bare_entry i))) [0..<100]"

lemma full_directory_names: "dict_keys full_directory = map (\<lambda>i. five_digits i @ ''-'' @ shard_suffix i) [0..<100]"
  by (simp add: full_directory_def dict_keys_def shard_name_def bare_entry_def shard_suffix_def comp_def)
    (simp add: py_replace_def py_split.simps)

lemma sample_totals: "window_totals sample_history ''gate_pass_rate'' 20 = (49, 50)"
  by (simp add: sample_history_def window_totals_def window_slice_def last_n_def List.map_filter_def dict_get_Cons)

theorem exhausted_iff_at_or_below_target_witness:
  "case evaluate_objective (DEFAULT_OBJECTIVES ! 1) sample_history of
     Inl e \<Rightarrow> False
   | Inr s \<Rightarrow> (status s = EXHAUSTED \<longleftrightarrow>
      min_valid (DEFAULT_OBJECTIVES ! 1) \<le> int (snd (window_totals sample_history
        (slo_sli (DEFAULT_OBJECTIVES ! 1)) (window_iterations (DEFAULT_OBJECTIVES ! 1))))
      \<and> observed s \<le> slo_target (DEFAULT_OBJECTIVES ! 1) \<and> observed s < 1) \<and> observed s = 49 / 50"
proof (cases "evaluate_objective (DEFAULT_OBJECTIVES ! 1) sample_history")
  case (Inl e)
  then show ?thesis
    by (simp add: evaluate_objective_def DEFAULT_OBJECTIVES_def Let_def sample_totals)
next
  case (Inr s)
  then have "observed s = 49 / 50"
    by (auto simp: evaluate_objective_def DEFAULT_OBJECTIVES_def Let_def sample_totals)
  then show ?thesis
    unfolding Inr sum.case by (intro conjI exhausted_iff_at_or_below_target [OF Inr])
qed

lemma five_digits_below_100: "i < 100 \<Longrightarrow> \<exists>r. five_digits i = ''000'' @ r"
proof -
  assume i: "i < 100"
  then have "5 - length (show_nat i) = 3 + (2 - length (show_nat i))"
    using length_show_nat_small [of i] by simp
  then show ?thesis by (simp add: five_digits_def pad_left_def replicate_add numeral_3_eq_3)
qed

lemma shard_names_below: "i < 100 \<Longrightarrow> five_digits i @ r < ''001'' @ r'"
  using five_digits_below_100 [of i] by (auto simp: less_char_def)

lemma bare_name_100: "shard_name (bare_entry n) 100 = ''00100-00100.json''"
  by code_simp

theorem full_directory_replaces_last_witness:
  "write_shard (bare_entry 2) (write_shard (bare_entry 1) full_directory) =
      dict_set (shard_name (bare_entry 1) 100) (Some (bare_entry 2)) (write_shard (bare_entry 1) full_directory)
    \<and> dict_keys (write_shard (bare_entry 2) (write_shard (bare_entry 1) full_directory)) =
      dict_keys (write_shard (bare_entry 1) full_directory)"
proof (rule full_directory_replaces_last)
  have "inj_on (\<lambda>i. five_digits i @ ''-'' @ shard_suffix i) (set [0..<100])"
  proof (rule inj_onI)
    fix i j assume *: "i \<in> set [0..<100]" "j \<in> set [0..<100]"
      "five_digits i @ ''-'' @ shard_suffix i = five_digits j @ ''-'' @ shard_suffix j"
    then have "length (five_digits i) = length (five_digits j)" by (simp add: length_five_digits)
    with *(3) show "i = j" by (auto intro: five_digits_inj)
  qed
  then have "distinct (dict_keys full_directory)"
    unfolding full_directory_names by (simp add: distinct_map)
  then show "wf_dict full_directory" by (simp add: wf_dict_def dict_keys_def)
  show "length full_directory = 100" by (simp add: full_directory_def)
  show "list_all (\<lambda>k. k < shard_name (bare_entry 1) 100) (dict_keys full_directory)"
    unfolding full_directory_names bare_name_100 list_all_iff
    using shard_names_below [where r' = "''00-00100.json''"] by simp
  show "shard_name (bare_entry 2) 100 = shard_name (bare_entry 1) 100"
    by (simp add: shard_name_def bare_entry_def)
qed

end
