(* ===== verification/Finding_Baseline.thy ===== *)
theory Finding_Baseline
  imports Py_Text "HOL-Library.Multiset"
begin

text \<open>
  \<open>tools/finding_baseline.py\<close>: accepted findings. Reading and writing the baseline file, the
  split of current findings against it, pruning, the reader of SARIF logs, and the three
  commands. A file is its decoded JSON document; the clock is an argument.
\<close>

section \<open>Data\<close>

datatype json_file = Missing | Malformed | Document json

record baseline_entry =
  be_fingerprint :: string
  be_rule :: string
  be_file :: string
  be_subject :: string
  first_seen :: string

text \<open>The protocol \<open>Finding\<close>: what a baseline reads of a finding, its identity for a fixed root.\<close>

record 'f finding_protocol =
  fp_rule :: "'f \<Rightarrow> string"
  fp_file :: "'f \<Rightarrow> string"
  fp_subject :: "'f \<Rightarrow> string"
  fp_fingerprint :: "'f \<Rightarrow> string"

record 'f partition_result =
  new_findings :: "'f list"
  known_findings :: "'f list"
  resolved :: "baseline_entry list"

definition is_stale :: "'f partition_result \<Rightarrow> bool" where
  "is_stale p \<longleftrightarrow> resolved p \<noteq> []"

type_synonym baseline = "(string, baseline_entry) dict"

definition entry_to_json :: "baseline_entry \<Rightarrow> json" where
  "entry_to_json e = JObj
     [(''fingerprint'', JStr (be_fingerprint e)), (''rule'', JStr (be_rule e)),
      (''file'', JStr (be_file e)), (''subject'', JStr (be_subject e)),
      (''first_seen'', JStr (first_seen e))]"

definition entry_from_json :: "json \<Rightarrow> baseline_entry py" where
  "entry_from_json payload =
     result_bind (py_item payload ''fingerprint'') (\<lambda>fp.
     result_bind (py_get payload ''rule'' (JStr '''')) (\<lambda>r.
     result_bind (py_get payload ''file'' (JStr '''')) (\<lambda>f.
     result_bind (py_get payload ''subject'' (JStr '''')) (\<lambda>s.
     result_bind (py_get payload ''first_seen'' (JStr '''')) (\<lambda>t.
       Inr \<lparr>be_fingerprint = json_str fp, be_rule = json_str r, be_file = json_str f,
            be_subject = json_str s, first_seen = json_str t\<rparr>)))))"

section \<open>The baseline file\<close>

definition keyed :: "baseline_entry list \<Rightarrow> baseline" where
  "keyed es = fold (\<lambda>e. dict_set (be_fingerprint e) e) es []"

definition load_baseline :: "json_file \<Rightarrow> baseline py" where
  "load_baseline file = (case file of
     Missing \<Rightarrow> Inr []
   | Malformed \<Rightarrow> Inl Decode_Error
   | Document payload \<Rightarrow>
       result_bind (py_get payload ''findings'' (JArr [])) (\<lambda>v.
       result_bind (py_iter v) (\<lambda>items.
       result_bind (map_result entry_from_json items) (\<lambda>es. Inr (keyed es)))))"

definition entry_order :: "baseline_entry \<Rightarrow> string \<times> string \<times> string" where
  "entry_order e = (be_rule e, be_file e, be_fingerprint e)"

definition baseline_document :: "string \<Rightarrow> baseline_entry list \<Rightarrow> json" where
  "baseline_document stamp es = JObj
     [(''version'', JInt 1), (''recorded_at'', JStr stamp),
      (''findings'', JArr (map entry_to_json (sort_key entry_order es)))]"

text \<open>\<open>recorded_at or now\<close>: an empty stamp is replaced too.\<close>

definition save_baseline ::
  "'f finding_protocol \<Rightarrow> string \<Rightarrow> 'f list \<Rightarrow> string option \<Rightarrow> json_file \<times> nat" where
  "save_baseline P now findings recorded_at =
     (let stamp = (case recorded_at of Some s \<Rightarrow> if s \<noteq> '''' then s else now | None \<Rightarrow> now);
          entries = map (\<lambda>f. \<lparr>be_fingerprint = fp_fingerprint P f, be_rule = fp_rule P f,
             be_file = fp_file P f, be_subject = fp_subject P f, first_seen = stamp\<rparr>) findings;
          unique = keyed entries
      in (Document (baseline_document stamp (dict_values unique)), length unique))"

section \<open>Splitting and pruning\<close>

definition partition_step ::
  "('f \<Rightarrow> string) \<Rightarrow> baseline \<Rightarrow> 'f \<Rightarrow> string set \<times> 'f list \<times> 'f list \<Rightarrow> string set \<times> 'f list \<times> 'f list" where
  "partition_step fp bl finding st =
     (let (seen, new, known) = st; digest = fp finding in
      if digest \<in> set (dict_keys bl) then (insert digest seen, new, known @ [finding])
      else (insert digest seen, new @ [finding], known))"

definition partition_findings :: "('f \<Rightarrow> string) \<Rightarrow> 'f list \<Rightarrow> baseline \<Rightarrow> 'f partition_result" where
  "partition_findings fp findings bl =
     (let (seen, new, known) = fold (partition_step fp bl) findings ({}, [], [])
      in \<lparr>new_findings = new, known_findings = known,
          resolved = map snd (filter (\<lambda>(digest, e). digest \<notin> seen) (sort_key fst bl))\<rparr>)"

definition prune :: "string \<Rightarrow> json_file \<Rightarrow> baseline_entry list \<Rightarrow> (json_file \<times> nat) py" where
  "prune now file res =
     (if res = [] then Inr (file, 0)
      else
        (let stale = remdups (map be_fingerprint res)
         in result_bind (load_baseline file) (\<lambda>bl.
              Inr (Document (baseline_document now
                     (map snd (filter (\<lambda>(digest, e). digest \<notin> set stale) bl))), length stale))))"

section \<open>SARIF logs\<close>

record sarif_finding =
  sf_rule :: string
  sf_file :: string
  sf_subject :: string
  sf_digest :: string

definition sarif_protocol :: "sarif_finding finding_protocol" where
  "sarif_protocol = \<lparr>fp_rule = sf_rule, fp_file = sf_file, fp_subject = sf_subject,
     fp_fingerprint = sf_digest\<rparr>"

text \<open>\<open>"uri" in artifact\<close> and \<open>artifact["uri"]\<close>; a string artifact that holds the three letters
  passes the test and then cannot be indexed by a string.\<close>

definition location_uri :: "json \<Rightarrow> string option py" where
  "location_uri loc =
     result_bind (py_get loc ''physicalLocation'' (JObj [])) (\<lambda>p.
     result_bind (py_get p ''artifactLocation'' (JObj [])) (\<lambda>artifact.
       case artifact of
         JObj kvs \<Rightarrow> Inr (map_option json_str (map_of kvs ''uri''))
       | JArr xs \<Rightarrow> if JStr ''uri'' \<in> set xs then Inl Type_Error else Inr None
       | JStr s \<Rightarrow> if contains_sub ''uri'' s then Inl Type_Error else Inr None
       | _ \<Rightarrow> Inl Type_Error))"

fun first_uri :: "json list \<Rightarrow> string py" where
  "first_uri [] = Inr ''''"
| "first_uri (loc # ls) =
     result_bind (location_uri loc) (\<lambda>u. case u of Some s \<Rightarrow> Inr s | None \<Rightarrow> first_uri ls)"

definition result_uri :: "json \<Rightarrow> string py" where
  "result_uri res = result_bind (py_get res ''locations'' (JArr [])) (\<lambda>v.
     result_bind (py_iter v) first_uri)"

text \<open>\<open>list(v.values())\<close>.\<close>

definition py_values :: "json \<Rightarrow> json list py" where
  "py_values v = (case v of JObj kvs \<Rightarrow> Inr (map snd kvs) | _ \<Rightarrow> Inl Attribute_Error)"

definition finding_of_result :: "json \<Rightarrow> sarif_finding option py" where
  "finding_of_result res =
     result_bind (py_get res ''partialFingerprints'' (JObj [])) (\<lambda>fps.
     result_bind (py_values fps) (\<lambda>digests.
       case digests of
         [] \<Rightarrow> Inr None
       | d # ds \<Rightarrow>
           result_bind (py_get res ''ruleId'' (JStr '''')) (\<lambda>rule.
           result_bind (result_uri res) (\<lambda>uri.
           result_bind (py_get res ''message'' (JObj [])) (\<lambda>msg.
           result_bind (py_get msg ''text'' (JStr '''')) (\<lambda>txt.
             Inr (Some \<lparr>sf_rule = json_str rule, sf_file = uri, sf_subject = take 80 (json_str txt),
                        sf_digest = json_str d\<rparr>)))))))"

definition findings_in_run :: "json \<Rightarrow> sarif_finding list py" where
  "findings_in_run run =
     result_bind (py_get run ''results'' (JArr [])) (\<lambda>v.
     result_bind (py_iter v) (\<lambda>results.
     result_bind (map_result finding_of_result results) (\<lambda>fs. Inr (List.map_filter id fs))))"

definition read_sarif :: "json_file \<Rightarrow> sarif_finding list py" where
  "read_sarif file = (case file of
     Missing \<Rightarrow> Inl Os_Error
   | Malformed \<Rightarrow> Inl Decode_Error
   | Document payload \<Rightarrow>
       result_bind (py_get payload ''runs'' (JArr [])) (\<lambda>v.
       result_bind (py_iter v) (\<lambda>runs.
       result_bind (map_result findings_in_run runs) (\<lambda>fss. Inr (concat fss)))))"

section \<open>Commands\<close>

definition handle_record :: "string \<Rightarrow> json_file \<Rightarrow> json_file \<Rightarrow> (json_file \<times> nat) py" where
  "handle_record now source file =
     result_bind (read_sarif source) (\<lambda>fs. Inr (save_baseline sarif_protocol now fs None))"

definition stale_line :: "baseline_entry \<Rightarrow> string" where
  "stale_line e = ''    stale: '' @ be_rule e @ '' '' @ be_file e @ '' '' @ take 50 (be_subject e)"

definition count_line :: "string \<Rightarrow> nat \<Rightarrow> string \<Rightarrow> string" where
  "count_line name n what = ''  '' @ pad_right CHR '' '' 8 name @ ''  '' @ pad_left CHR '' '' 4 (show_nat n)
     @ ''  '' @ what"

text \<open>The lines after the first, which names the path, and the exit status.\<close>

definition handle_status :: "bool \<Rightarrow> json_file \<Rightarrow> json_file \<Rightarrow> (string list \<times> int) py" where
  "handle_status strict source file =
     result_bind (load_baseline file) (\<lambda>bl.
     result_bind (read_sarif source) (\<lambda>fs.
       (let split = partition_findings sf_digest fs bl in
        Inr ([count_line ''new'' (length (new_findings split)) ''reported by the gate'',
              count_line ''known'' (length (known_findings split)) ''suppressed by the baseline'',
              count_line ''resolved'' (length (resolved split)) ''fixed since recording; prune them'']
             @ map stale_line (take 10 (resolved split)),
             if strict \<and> is_stale split then 1 else 0))))"

definition handle_prune :: "string \<Rightarrow> json_file \<Rightarrow> json_file \<Rightarrow> (json_file \<times> nat) py" where
  "handle_prune now source file =
     result_bind (read_sarif source) (\<lambda>fs.
     result_bind (load_baseline file) (\<lambda>bl.
       prune now file (resolved (partition_findings sf_digest fs bl))))"

text \<open>
  What the baseline promises: a recorded finding is never reported again and nothing else is
  suppressed, and pruning drops exactly the entries nothing produces any more.
\<close>

section \<open>Entries and files\<close>

lemma entry_roundtrip: "entry_from_json (entry_to_json e) = Inr e"
  by (simp add: entry_from_json_def entry_to_json_def)

lemma load_document: "load_baseline (Document (baseline_document stamp es)) = Inr (keyed (sort_key entry_order es))"
proof -
  have "map_result entry_from_json (map entry_to_json xs) = Inr xs" for xs
    using map_result_map [of xs entry_from_json entry_to_json "\<lambda>x. x"] by (simp add: entry_roundtrip)
  then show ?thesis by (simp add: load_baseline_def baseline_document_def)
qed

lemma keys_fold_set_by:
  "set (dict_keys (fold (\<lambda>e. dict_set (f e) e) xs d)) = set (dict_keys d) \<union> f ` set xs"
  by (induction xs arbitrary: d) auto

lemma keyed_keys [simp]: "set (dict_keys (keyed es)) = be_fingerprint ` set es"
  by (simp add: keyed_def keys_fold_set_by)

text \<open>The contract of a baseline in memory: keys are distinct and every entry sits under its own
  fingerprint.\<close>

definition baseline_ok :: "baseline \<Rightarrow> bool" where
  "baseline_ok bl \<longleftrightarrow> wf_dict bl \<and> (\<forall>k e. (k, e) \<in> set bl \<longrightarrow> be_fingerprint e = k)"

lemma keyed_ok: "baseline_ok (keyed es)"
proof -
  have wf: "wf_dict (keyed es)"
    unfolding keyed_def by (rule alist_dict.fold_set_inv) simp
  have "be_fingerprint e = k" if "(k, e) \<in> set (keyed es)" for k e
  proof -
    have "dict_get (keyed es) k = Some e" using that wf by (simp add: dict_get_iff)
    then have "List.find (\<lambda>e. be_fingerprint e = k) (rev es) = Some e"
      using alist_dict.fold_set_get [of be_fingerprint "\<lambda>e. e" es "[]" k]
      by (simp add: keyed_def split: option.splits)
    then show ?thesis by (auto simp: find_Some_iff)
  qed
  with wf show ?thesis by (simp add: baseline_ok_def)
qed

lemma baseline_ok_fingerprints: "baseline_ok bl \<Longrightarrow> be_fingerprint ` snd ` set bl = set (dict_keys bl)"
  by (force simp: baseline_ok_def dict_keys_def)

lemma load_baseline_ok: "load_baseline file = Inr bl \<Longrightarrow> baseline_ok bl"
  by (auto simp: load_baseline_def result_bind_def keyed_ok baseline_ok_def split: json_file.splits sum.splits)
    (metis baseline_ok_def keyed_ok)+

section \<open>Splitting\<close>

lemma fold_partition_step:
  "fold (partition_step fp bl) gs (seen, new, known) =
     (seen \<union> fp ` set gs, new @ filter (\<lambda>g. fp g \<notin> set (dict_keys bl)) gs,
      known @ filter (\<lambda>g. fp g \<in> set (dict_keys bl)) gs)"
  by (induction gs arbitrary: seen new known) (auto simp: partition_step_def Let_def)

lemma partition_eq:
  "partition_findings fp gs bl =
     \<lparr>new_findings = filter (\<lambda>g. fp g \<notin> set (dict_keys bl)) gs,
      known_findings = filter (\<lambda>g. fp g \<in> set (dict_keys bl)) gs,
      resolved = map snd (filter (\<lambda>(digest, e). digest \<notin> fp ` set gs) (sort_key fst bl))\<rparr>"
  by (simp add: partition_findings_def fold_partition_step)

lemma resolved_fingerprints:
  assumes "baseline_ok bl"
  shows "be_fingerprint ` set (resolved (partition_findings fp gs bl)) = set (dict_keys bl) - fp ` set gs"
proof -
  have "be_fingerprint ` snd ` {x \<in> set bl. fst x \<notin> fp ` set gs} = set (dict_keys bl) - fp ` set gs"
    using assms by (force simp: baseline_ok_def dict_keys_def)
  then show ?thesis by (simp add: partition_eq case_prod_beta)
qed

lemma resolved_empty_iff:
  assumes "baseline_ok bl"
  shows "resolved (partition_findings fp gs bl) = [] \<longleftrightarrow> set (dict_keys bl) \<subseteq> fp ` set gs"
proof -
  have "resolved (partition_findings fp gs bl) = [] \<longleftrightarrow>
      be_fingerprint ` set (resolved (partition_findings fp gs bl)) = {}" by simp
  then show ?thesis unfolding resolved_fingerprints [OF assms] by blast
qed

section \<open>Recording\<close>

lemma saved_keys:
  "\<exists>bl. load_baseline (fst (save_baseline P now fs t)) = Inr bl
    \<and> set (dict_keys bl) = fp_fingerprint P ` set fs \<and> baseline_ok bl"
proof -
  define stamp where "stamp = (case t of Some s \<Rightarrow> if s \<noteq> '''' then s else now | None \<Rightarrow> now)"
  define es where "es = map (\<lambda>f. \<lparr>be_fingerprint = fp_fingerprint P f, be_rule = fp_rule P f,
             be_file = fp_file P f, be_subject = fp_subject P f, first_seen = stamp\<rparr>) fs"
  have "fst (save_baseline P now fs t) = Document (baseline_document stamp (dict_values (keyed es)))"
    by (simp add: save_baseline_def es_def stamp_def Let_def)
  then have "load_baseline (fst (save_baseline P now fs t)) = Inr (keyed (sort_key entry_order (dict_values (keyed es))))"
    by (simp only: load_document)
  moreover have "be_fingerprint ` set (dict_values (keyed es)) = fp_fingerprint P ` set fs"
    using baseline_ok_fingerprints [OF keyed_ok [of es]]
    by (simp add: dict_values_def) (auto simp: es_def image_image)
  ultimately show ?thesis using keyed_ok by simp
qed

section \<open>Pruning\<close>

lemma prune_keys:
  assumes load: "load_baseline file = Inr bl"
    and res: "res = resolved (partition_findings fp gs bl)"
  shows "\<exists>file' n bl'. prune now file res = Inr (file', n) \<and> load_baseline file' = Inr bl'
    \<and> set (dict_keys bl') = set (dict_keys bl) \<inter> fp ` set gs \<and> baseline_ok bl'"
proof (cases "res = []")
  case True
  then have "set (dict_keys bl) \<subseteq> fp ` set gs"
    using resolved_empty_iff [OF load_baseline_ok [OF load], of fp gs] by (simp add: res)
  then show ?thesis using True load load_baseline_ok [OF load] by (auto simp: prune_def)
next
  case False
  have ok: "baseline_ok bl" by (rule load_baseline_ok [OF load])
  let ?stale = "remdups (map be_fingerprint res)"
  let ?kept = "map snd (filter (\<lambda>(digest, e). digest \<notin> set ?stale) bl)"
  have stale: "set ?stale = set (dict_keys bl) - fp ` set gs"
    using resolved_fingerprints [OF ok] by (simp add: res)
  have "be_fingerprint ` set ?kept = set (dict_keys bl) \<inter> fp ` set gs"
    using ok unfolding stale by (force simp: baseline_ok_def dict_keys_def)
  moreover have "prune now file res = Inr (Document (baseline_document now ?kept), length ?stale)"
    using False load by (simp add: prune_def)
  ultimately show ?thesis using load_document keyed_ok by fastforce
qed

section \<open>Properties\<close>

text \<open>after a set of findings was recorded, a later scan reports exactly the findings whose
  fingerprint was not among them, suppresses the others, and calls resolved exactly the recorded
  fingerprints the scan no longer produces.\<close>

theorem baseline_reports_only_new:
  "\<exists>bl. load_baseline (fst (save_baseline P now fs t)) = Inr bl
    \<and> new_findings (partition_findings (fp_fingerprint P) gs bl) =
        filter (\<lambda>g. fp_fingerprint P g \<notin> fp_fingerprint P ` set fs) gs
    \<and> known_findings (partition_findings (fp_fingerprint P) gs bl) =
        filter (\<lambda>g. fp_fingerprint P g \<in> fp_fingerprint P ` set fs) gs
    \<and> be_fingerprint ` set (resolved (partition_findings (fp_fingerprint P) gs bl)) =
        fp_fingerprint P ` set fs - fp_fingerprint P ` set gs"
proof -
  obtain bl where bl: "load_baseline (fst (save_baseline P now fs t)) = Inr bl"
    "set (dict_keys bl) = fp_fingerprint P ` set fs" "baseline_ok bl"
    using saved_keys [of P now fs t] by blast
  then show ?thesis
    using resolved_fingerprints [OF bl(3), of "fp_fingerprint P" gs] by (simp add: partition_eq)
qed

text \<open>pruning with the resolved entries of a scan keeps exactly the entries the scan still
  produces, so a finding that was fixed and comes back is reported as new.\<close>

theorem prune_keeps_live_entries:
  assumes "load_baseline file = Inr bl"
  shows "\<exists>file' n bl'. prune now file (resolved (partition_findings fp gs bl)) = Inr (file', n)
    \<and> load_baseline file' = Inr bl' \<and> set (dict_keys bl') = set (dict_keys bl) \<inter> fp ` set gs
    \<and> resolved (partition_findings fp gs bl') = []
    \<and> new_findings (partition_findings fp hs bl') =
        filter (\<lambda>h. fp h \<notin> set (dict_keys bl) \<or> fp h \<notin> fp ` set gs) hs"
proof -
  obtain file' n bl' where *: "prune now file (resolved (partition_findings fp gs bl)) = Inr (file', n)"
    "load_baseline file' = Inr bl'" "set (dict_keys bl') = set (dict_keys bl) \<inter> fp ` set gs" "baseline_ok bl'"
    using prune_keys [OF assms, of _ fp gs now] by blast
  then have "resolved (partition_findings fp gs bl') = []" by (simp add: resolved_empty_iff)
  moreover have "new_findings (partition_findings fp hs bl') =
      filter (\<lambda>h. fp h \<notin> set (dict_keys bl) \<or> fp h \<notin> fp ` set gs) hs"
    using *(3) by (simp add: partition_eq)
  ultimately show ?thesis using * by blast
qed

text \<open>Two accepted findings, of which the scan still produces one.\<close>

definition sample_document :: json_file where
  "sample_document = Document (JObj [(''findings'', JArr
     [JObj [(''fingerprint'', JStr ''a'')], JObj [(''fingerprint'', JStr ''b''), (''rule'', JInt 7)]])])"

definition sample_baseline :: baseline where
  "sample_baseline = (case load_baseline sample_document of Inr bl \<Rightarrow> bl | Inl e \<Rightarrow> [])"

theorem prune_keeps_live_entries_witness:
  "\<exists>file' n bl'. prune ''now'' sample_document (resolved (partition_findings id [''a''] sample_baseline)) = Inr (file', n)
    \<and> load_baseline file' = Inr bl' \<and> set (dict_keys bl') = set (dict_keys sample_baseline) \<inter> id ` set [''a'']
    \<and> resolved (partition_findings id [''a''] bl') = []
    \<and> new_findings (partition_findings id [''a'', ''b''] bl') =
        filter (\<lambda>h. id h \<notin> set (dict_keys sample_baseline) \<or> id h \<notin> id ` set [''a'']) [''a'', ''b'']"
proof (rule prune_keeps_live_entries)
  show "load_baseline sample_document = Inr sample_baseline" by code_simp
qed

end
