(* ===== verification/Py_Json.thy ===== *)
theory Py_Json
  imports Py_Text
begin

text \<open>
  Conversions and comparisons of decoded JSON values that several tools share: \<open>int(x)\<close>,
  \<open>float(x)\<close>, \<open>data.get(k, d)\<close> on a dict, \<open>{**a, **b}\<close>, and Python's \<open>==\<close>, for which \<open>1\<close>,
  \<open>1.0\<close> and \<open>True\<close> are equal and the order of the keys does not matter.
\<close>

section \<open>Numbers\<close>

text \<open>Digits with single underscores between them, and the number they write.\<close>

definition digit_groups :: "string \<Rightarrow> bool" where
  "digit_groups s \<longleftrightarrow> list_all (\<lambda>g. g \<noteq> '''' \<and> list_all is_digit g) (py_split ''_'' s)"

definition plain_digits :: "string \<Rightarrow> string" where
  "plain_digits s = concat (py_split ''_'' s)"

definition digits_value :: "string \<Rightarrow> int" where
  "digits_value s = int (undigits (rev (plain_digits s)))"

definition split_sign :: "string \<Rightarrow> bool \<times> string" where
  "split_sign t =
     (if starts_with t ''-'' then (True, tl t)
      else if starts_with t ''+'' then (False, tl t) else (False, t))"

text \<open>
  The blanks that \<open>int\<close> and \<open>float\<close> skip around a text: those of C when it is all ASCII, which leave
  out the separators 28 to 31, else the white space of \<open>str\<close>.
\<close>

definition number_blank :: "string \<Rightarrow> char \<Rightarrow> bool" where
  "number_blank s c \<longleftrightarrow> (if list_all (\<lambda>d. (of_char d :: nat) < 128) s
     then (9 \<le> (of_char c :: nat) \<and> (of_char c :: nat) \<le> 13) \<or> c = CHR '' ''
     else py_isspace c)"

definition number_strip :: "string \<Rightarrow> string" where
  "number_strip s = rev (dropWhile (number_blank s) (rev (dropWhile (number_blank s) s)))"

text \<open>\<open>int(x)\<close>: a string may have blanks around it, a sign, and single underscores between digits.\<close>

definition int_of_text :: "string \<Rightarrow> int py" where
  "int_of_text s =
     (case split_sign (number_strip s) of (neg, body) \<Rightarrow>
        if digit_groups body
        then Inr (if neg then - digits_value body else digits_value body)
        else Inl (Value_Error s))"

definition py_int :: "json \<Rightarrow> int py" where
  "py_int j = (case j of
     JInt i \<Rightarrow> Inr i | JBool b \<Rightarrow> Inr (if b then 1 else 0)
   | JFloat q \<Rightarrow> Inr (if q < 0 then - \<lfloor>- q\<rfloor> else \<lfloor>q\<rfloor>)
   | JStr s \<Rightarrow> int_of_text s | _ \<Rightarrow> Inl Type_Error)"

text \<open>
  \<open>float(x)\<close> of a string: a decimal number with an optional point and exponent. The words for
  infinities and NaN name values outside the rationals of the model: they give \<open>Not_Finite\<close>,
  which is no exception of Python but the limit of the model.
\<close>

definition decimal_value :: "string \<Rightarrow> py_float option" where
  "decimal_value m = (case py_split ''.'' m of
     [i] \<Rightarrow> if digit_groups i then Some (of_int (digits_value i)) else None
   | [i, f] \<Rightarrow>
       if (i = '''' \<or> digit_groups i) \<and> (f = '''' \<or> digit_groups f) \<and> \<not> (i = '''' \<and> f = '''')
       then Some (of_int (digits_value i) + of_int (digits_value f) / 10 ^ length (plain_digits f))
       else None
   | _ \<Rightarrow> None)"

definition scale_by_ten :: "py_float \<Rightarrow> int \<Rightarrow> py_float" where
  "scale_by_ten q e = (if 0 \<le> e then q * 10 ^ nat e else q / 10 ^ nat (- e))"

definition exponent_value :: "string \<Rightarrow> int option" where
  "exponent_value s = (case split_sign s of (neg, body) \<Rightarrow>
     if digit_groups body then Some (if neg then - digits_value body else digits_value body) else None)"

definition unsigned_float :: "string \<Rightarrow> py_float option" where
  "unsigned_float body = (case py_split ''e'' body of
     [m] \<Rightarrow> decimal_value m
   | [m, e] \<Rightarrow> (case (decimal_value m, exponent_value e) of
        (Some q, Some k) \<Rightarrow> Some (scale_by_ten q k) | _ \<Rightarrow> None)
   | _ \<Rightarrow> None)"

definition float_of_text :: "string \<Rightarrow> py_float py" where
  "float_of_text s =
     (case split_sign (py_lower (number_strip s)) of (neg, body) \<Rightarrow>
        if body \<in> {''inf'', ''infinity'', ''nan''} then Inl Not_Finite
        else (case unsigned_float body of
                Some q \<Rightarrow> Inr (if neg then - q else q)
              | None \<Rightarrow> Inl (Value_Error s)))"

definition py_float_of :: "json \<Rightarrow> py_float py" where
  "py_float_of j = (case j of
     JStr s \<Rightarrow> float_of_text s
   | _ \<Rightarrow> py_number j)"

text \<open>\<open>type(v).__name__\<close>, and a text between apostrophes.\<close>

definition type_name :: "json \<Rightarrow> string" where
  "type_name v = (case v of JNull \<Rightarrow> ''NoneType'' | JBool _ \<Rightarrow> ''bool'' | JInt _ \<Rightarrow> ''int''
     | JFloat _ \<Rightarrow> ''float'' | JStr _ \<Rightarrow> ''str'' | JArr _ \<Rightarrow> ''list'' | JObj _ \<Rightarrow> ''dict'')"

definition quoted :: "string \<Rightarrow> string" where
  "quoted s = [CHR 0x27] @ s @ [CHR 0x27]"

section \<open>Dictionaries\<close>

definition field_or :: "(string, json) dict \<Rightarrow> string \<Rightarrow> json \<Rightarrow> json" where
  "field_or kvs k d = (case map_of kvs k of Some v \<Rightarrow> v | None \<Rightarrow> d)"

definition dict_merge :: "('k, 'v) dict \<Rightarrow> ('k, 'v) dict \<Rightarrow> ('k, 'v) dict" where
  "dict_merge a b = fold (\<lambda>kv. dict_set (fst kv) (snd kv)) b a"

lemma field_or_get: "field_or kvs k d = (case dict_get kvs k of Some v \<Rightarrow> v | None \<Rightarrow> d)"
  by (simp add: field_or_def dict_get_def)

lemma field_or_set [simp]: "field_or (dict_set k v kvs) k' d = (if k' = k then v else field_or kvs k' d)"
  by (simp add: field_or_get)

lemma dict_get_merge: "distinct (map fst b) \<Longrightarrow> dict_get (dict_merge a b) k =
    (case dict_get b k of Some v \<Rightarrow> Some v | None \<Rightarrow> dict_get a k)"
proof (induction b arbitrary: a)
  case (Cons kv b)
  have "dict_get b (fst kv) = None"
    using Cons.prems by (auto simp: dict_get_def map_of_eq_None_iff)
  with Cons show ?case
    by (cases kv) (auto simp: dict_merge_def dict_get_Cons split: option.splits)
qed (simp add: dict_merge_def)

lemma dict_set_same: "dict_get d k = Some v \<Longrightarrow> dict_set k v d = d"
  unfolding dict_set_def dict_get_def by (induction d) (auto split: if_splits)

lemma wf_dict_set [simp]: "wf_dict d \<Longrightarrow> wf_dict (dict_set k v d)"
  by (rule alist_dict.inv_set)

lemma wf_dict_merge [simp]: "wf_dict a \<Longrightarrow> wf_dict (dict_merge a b)"
  unfolding dict_merge_def by (rule alist_dict.fold_set_inv)

section \<open>Equality\<close>

text \<open>A canonical form: numbers as floats, the items of a dict in the order of their keys.\<close>

fun json_key :: "json \<Rightarrow> json" where
  "json_key (JBool b) = JFloat (if b then 1 else 0)"
| "json_key (JInt i) = JFloat (of_int i)"
| "json_key (JArr xs) = JArr (map json_key xs)"
| "json_key (JObj kvs) = JObj (sort_key fst (map (\<lambda>(k, v). (k, json_key v)) kvs))"
| "json_key j = j"

definition json_same :: "json \<Rightarrow> json \<Rightarrow> bool" where
  "json_same a b \<longleftrightarrow> json_key a = json_key b"

lemma json_same_refl [simp]: "json_same a a"
  by (simp add: json_same_def)

end
