(* ===== verification/Milestone_Governor.thy ===== *)
theory Milestone_Governor
  imports Py_Json
begin

text \<open>
  \<open>tools/milestone_governor.py\<close>: milestone issues read from JSON, the velocity metrics, the audit
  rules MLS001 to MLS004, the rollover plan, the SARIF export and the exit status. Floats are
  rationals. The parser of ISO timestamps is a parameter that gives the seconds of an instant,
  and the current time is an argument.
\<close>

section \<open>Issues\<close>

definition DEFAULT_MAX_MILESTONE_ISSUES :: int where "DEFAULT_MAX_MILESTONE_ISSUES = 50"
definition CRITICAL_MEGA_MILESTONE_ISSUES :: int where "CRITICAL_MEGA_MILESTONE_ISSUES = 100"
definition MIN_CONVERGENCE_RATIO :: py_float where "MIN_CONVERGENCE_RATIO = 12 / 10"
definition WINDOW_DAYS_DEFAULT :: py_float where "WINDOW_DAYS_DEFAULT = 7"

datatype milestone_phase = INTAKE | AIR_LOCKED | FROZEN | CLOSED

record milestone_issue =
  iss_number :: int
  iss_title :: string
  iss_state :: string
  iss_labels :: "string list"
  created_at :: string
  closed_at :: json
  milestone :: string

fun extract_label_item :: "json \<Rightarrow> string" where
  "extract_label_item (JObj kvs) = json_str (case map_of kvs ''name'' of Some v \<Rightarrow> v | None \<Rightarrow> JStr '''')"
| "extract_label_item (JStr s) = s"
| "extract_label_item _ = ''''"

fun extract_labels :: "json \<Rightarrow> string list" where
  "extract_labels (JArr xs) = map extract_label_item xs"
| "extract_labels _ = []"

fun extract_milestone_title :: "json \<Rightarrow> string" where
  "extract_milestone_title (JObj kvs) = json_str (case map_of kvs ''title'' of Some v \<Rightarrow> v | None \<Rightarrow> JStr '''')"
| "extract_milestone_title (JStr s) = s"
| "extract_milestone_title _ = ''''"

definition is_open :: "milestone_issue \<Rightarrow> bool" where
  "is_open i \<longleftrightarrow> py_lower (iss_state i) = ''open''"

definition is_p0_blocker :: "milestone_issue \<Rightarrow> bool" where
  "is_p0_blocker i \<longleftrightarrow> list_ex (\<lambda>l. py_lower l \<in>
     {''priority/p0-critical'', ''p0'', ''priority/p0'', ''blocker'', ''critical''}) (iss_labels i)"

definition is_feature :: "milestone_issue \<Rightarrow> bool" where
  "is_feature i \<longleftrightarrow> list_ex (\<lambda>l. py_lower l \<in> {''type/feature'', ''feature''}) (iss_labels i)"

definition issue_from_dict :: "(string \<times> json) list \<Rightarrow> milestone_issue py" where
  "issue_from_dict data = result_bind (py_int (field_or data ''number'' (JInt 0))) (\<lambda>n.
     Inr \<lparr>iss_number = n, iss_title = json_str (field_or data ''title'' (JStr '''')),
          iss_state = json_str (field_or data ''state'' (JStr ''open'')),
          iss_labels = extract_labels (field_or data ''labels'' (JArr [])),
          created_at = json_str (field_or data ''created_at'' (JStr '''')),
          closed_at = field_or data ''closed_at'' JNull,
          milestone = extract_milestone_title (field_or data ''milestone'' JNull)\<rparr>)"

fun extract_dict_items :: "json \<Rightarrow> (string \<times> json) list list" where
  "extract_dict_items (JArr xs) = List.map_filter (\<lambda>x. case x of JObj kvs \<Rightarrow> Some kvs | _ \<Rightarrow> None) xs"
| "extract_dict_items _ = []"

fun extract_raw_issue_list :: "json \<Rightarrow> (string \<times> json) list list" where
  "extract_raw_issue_list (JArr xs) = extract_dict_items (JArr xs)"
| "extract_raw_issue_list (JObj kvs) =
     (let a = field_or kvs ''issues'' JNull
      in extract_dict_items (if py_truthy a then a else field_or kvs ''resources'' JNull))"
| "extract_raw_issue_list _ = []"

definition load_issues :: "json \<Rightarrow> milestone_issue list py" where
  "load_issues data = map_result issue_from_dict (extract_raw_issue_list data)"

section \<open>Metrics\<close>

record milestone_metrics =
  milestone_title :: string
  total_issues :: nat
  open_issues :: nat
  closed_issues :: nat
  completion_rate :: py_float
  scope_velocity :: py_float
  burn_velocity :: py_float
  convergence_ratio :: py_float
  days_to_convergence :: "py_float option"
  is_live_locked :: bool

type_synonym iso_parser = "string \<Rightarrow> py_float option"

definition parse_iso_datetime :: "iso_parser \<Rightarrow> string \<Rightarrow> py_float option" where
  "parse_iso_datetime fromiso s = (if s = '''' then None else fromiso (py_replace ''Z'' ''+00:00'' s))"

definition empty_milestone_metrics :: "string \<Rightarrow> milestone_metrics" where
  "empty_milestone_metrics title = \<lparr>milestone_title = title, total_issues = 0, open_issues = 0,
     closed_issues = 0, completion_rate = 1, scope_velocity = 0, burn_velocity = 0,
     convergence_ratio = 1, days_to_convergence = Some 0, is_live_locked = False\<rparr>"

definition convergence_projection :: "nat \<Rightarrow> py_float \<Rightarrow> py_float option \<times> bool" where
  "convergence_projection open_count net =
     (if open_count = 0 then (Some 0, False)
      else if net > 5 / 100 then (Some (py_round 1 (of_nat open_count / net)), False)
      else (None, True))"

definition is_within_window :: "iso_parser \<Rightarrow> string \<Rightarrow> py_float \<Rightarrow> py_float \<Rightarrow> bool" where
  "is_within_window fromiso s now window_sec \<longleftrightarrow>
     s \<noteq> '''' \<and> (case parse_iso_datetime fromiso s of None \<Rightarrow> False | Some dt \<Rightarrow> now - dt \<le> window_sec)"

text \<open>\<open>issue.closed_at and _is_within_window(...)\<close>: a truthy value that is no string has no \<open>replace\<close>.\<close>

definition closed_within :: "iso_parser \<Rightarrow> py_float \<Rightarrow> py_float \<Rightarrow> milestone_issue \<Rightarrow> bool py" where
  "closed_within fromiso now window_sec i =
     (if \<not> py_truthy (closed_at i) then Inr False
      else (case closed_at i of JStr s \<Rightarrow> Inr (is_within_window fromiso s now window_sec)
              | _ \<Rightarrow> Inl Attribute_Error))"

definition calculate_velocities ::
  "iso_parser \<Rightarrow> milestone_issue list \<Rightarrow> py_float \<Rightarrow> py_float \<Rightarrow> (py_float \<times> py_float) py" where
  "calculate_velocities fromiso issues now window_days =
     (let window_sec = max (window_days * 86400) 1;
          created = length (filter (\<lambda>i. is_within_window fromiso (created_at i) now window_sec) issues);
          norm_days = max window_days (1 / 10)
      in result_bind (map_result (closed_within fromiso now window_sec) issues) (\<lambda>bs.
           Inr (of_nat created / norm_days, of_nat (length (filter id bs)) / norm_days)))"

definition calculate_milestone_metrics ::
  "iso_parser \<Rightarrow> milestone_issue list \<Rightarrow> string \<Rightarrow> py_float \<Rightarrow> py_float \<Rightarrow> milestone_metrics py" where
  "calculate_milestone_metrics fromiso issues title window_days now =
     (let total = length issues in
      if total = 0 then Inr (empty_milestone_metrics title)
      else
        (let open_count = length (filter is_open issues);
             closed_count = total - open_count
         in result_bind (calculate_velocities fromiso issues now window_days) (\<lambda>(scope, burn).
              (let (days, locked) = convergence_projection open_count (burn - scope)
               in Inr \<lparr>milestone_title = title, total_issues = total, open_issues = open_count,
                    closed_issues = closed_count,
                    completion_rate = py_round 4 (of_nat closed_count / of_nat total),
                    scope_velocity = py_round 2 scope, burn_velocity = py_round 2 burn,
                    convergence_ratio = py_round 2 (burn / max scope (1 / 100)),
                    days_to_convergence = days, is_live_locked = locked\<rparr>))))"

section \<open>Audit\<close>

record governor_finding =
  gf_rule :: string
  gf_level :: string
  gf_message :: string
  gf_issue :: "int option"
  gf_recommendation :: string

definition quoted :: "string \<Rightarrow> string" where
  "quoted s = [CHR 0x27] @ s @ [CHR 0x27]"

definition check_sizing_rules :: "milestone_metrics \<Rightarrow> int \<Rightarrow> governor_finding list" where
  "check_sizing_rules m max_issues =
     (if int (total_issues m) > CRITICAL_MEGA_MILESTONE_ISSUES
      then [\<lparr>gf_rule = ''MLS003'', gf_level = ''error'',
         gf_message = ''Milestone '' @ quoted (milestone_title m) @ '' contains '' @ show_nat (total_issues m)
           @ '' issues (exceeds critical ceiling of '' @ show_int CRITICAL_MEGA_MILESTONE_ISSUES @ '').'',
         gf_issue = None,
         gf_recommendation = ''Slice milestone immediately into decoupled releases or roll over non-blockers.''\<rparr>]
      else if int (total_issues m) > max_issues
      then [\<lparr>gf_rule = ''MLS003'', gf_level = ''warning'',
         gf_message = ''Milestone '' @ quoted (milestone_title m) @ '' contains '' @ show_nat (total_issues m)
           @ '' issues (exceeds recommended threshold of '' @ show_int max_issues @ '').'',
         gf_issue = None,
         gf_recommendation = ''Audit active issues and apply milestone air-lock to halt secondary scope additions.''\<rparr>]
      else [])"

definition check_stagnant_horizon :: "milestone_metrics \<Rightarrow> governor_finding list" where
  "check_stagnant_horizon m =
     (if 70 / 100 \<le> completion_rate m \<and> completion_rate m \<le> 90 / 100 \<and> open_issues m \<ge> 15
      then [\<lparr>gf_rule = ''MLS004'', gf_level = ''warning'',
         gf_message = ''Milestone completion trapped at '' @ fmt_fixed 1 (completion_rate m * 100) @ ''% with ''
           @ show_nat (open_issues m) @ '' open items remaining despite '' @ show_nat (closed_issues m) @ '' closed.'',
         gf_issue = None,
         gf_recommendation = ''Execute scope rollover: non-essential open items should be rolled over to next release.''\<rparr>]
      else [])"

definition check_convergence_rules :: "milestone_metrics \<Rightarrow> milestone_phase \<Rightarrow> governor_finding list" where
  "check_convergence_rules m ph =
     (if open_issues m = 0 then []
      else
        (if is_live_locked m
         then [\<lparr>gf_rule = ''MLS001'',
            gf_level = (if ph \<in> {AIR_LOCKED, FROZEN} then ''error'' else ''warning''),
            gf_message = ''Milestone '' @ quoted (milestone_title m) @ '' is in scope live-lock: scope velocity (''
              @ show_float (scope_velocity m) @ ''/day) >= burn velocity ('' @ show_float (burn_velocity m)
              @ ''/day). Convergence ratio: '' @ fmt_fixed 2 (convergence_ratio m) @ ''.'',
            gf_issue = None,
            gf_recommendation = ''Enforce Milestone Scope Air-Lock. Route new defect and feature intake to next milestone.''\<rparr>]
         else if convergence_ratio m < MIN_CONVERGENCE_RATIO
         then [\<lparr>gf_rule = ''MLS001'', gf_level = ''warning'',
            gf_message = ''Milestone '' @ quoted (milestone_title m) @ '' convergence ratio (''
              @ fmt_fixed 2 (convergence_ratio m) @ '') is below healthy threshold (''
              @ fmt_fixed 1 MIN_CONVERGENCE_RATIO @ '').'',
            gf_issue = None,
            gf_recommendation = ''Prioritize closing active PRs and restrict non-critical issue creation.''\<rparr>]
         else []) @ check_stagnant_horizon m)"

definition audit_airlocked_issue :: "milestone_phase \<Rightarrow> milestone_issue \<Rightarrow> governor_finding list" where
  "audit_airlocked_issue ph i =
     (if ph = FROZEN
      then [\<lparr>gf_rule = ''MLS002'', gf_level = ''error'',
         gf_message = ''Issue #'' @ show_int (iss_number i) @ '' ('' @ quoted (take 60 (iss_title i))
           @ '') remains open during FROZEN release phase.'',
         gf_issue = Some (iss_number i),
         gf_recommendation = ''Roll over issue to next release or close before tagging release.''\<rparr>]
      else if ph = AIR_LOCKED \<and> \<not> is_p0_blocker i
      then [\<lparr>gf_rule = ''MLS002'', gf_level = ''error'',
         gf_message = ''Non-P0 issue #'' @ show_int (iss_number i) @ '' ('' @ quoted (take 60 (iss_title i))
           @ '') admitted to milestone during AIR_LOCKED phase.'',
         gf_issue = Some (iss_number i),
         gf_recommendation = ''Roll over non-blocker issue to next milestone.''\<rparr>]
      else [])"

definition check_airlock_rules :: "milestone_issue list \<Rightarrow> milestone_phase \<Rightarrow> governor_finding list" where
  "check_airlock_rules issues ph =
     (if ph \<notin> {AIR_LOCKED, FROZEN} then []
      else concat (map (\<lambda>i. if is_open i then audit_airlocked_issue ph i else []) issues))"

definition audit_milestone ::
  "milestone_issue list \<Rightarrow> milestone_phase \<Rightarrow> milestone_metrics \<Rightarrow> int \<Rightarrow> governor_finding list" where
  "audit_milestone issues ph m max_issues =
     check_sizing_rules m max_issues @ check_convergence_rules m ph @ check_airlock_rules issues ph"

section \<open>Rollover\<close>

definition rollover_step ::
  "string \<Rightarrow> milestone_issue \<Rightarrow> milestone_issue list \<times> milestone_issue list \<Rightarrow>
   milestone_issue list \<times> milestone_issue list" where
  "rollover_step target i st =
     (let (keep, rollover) = st in
      if \<not> is_open i then (keep @ [i], rollover)
      else if is_p0_blocker i \<or> ''type/epic'' \<in> set (iss_labels i) then (keep @ [i], rollover)
      else (keep, rollover @ [if target \<noteq> '''' then i\<lparr>milestone := target\<rparr> else i]))"

definition partition_milestone_rollover ::
  "milestone_issue list \<Rightarrow> string \<Rightarrow> milestone_issue list \<times> milestone_issue list" where
  "partition_milestone_rollover issues target = fold (rollover_step target) issues ([], [])"

section \<open>Export\<close>

definition RULE_CATALOG :: "(string, string \<times> string) dict" where
  "RULE_CATALOG =
     [(''MLS001'', (''ScopeExpansionLiveLock'',
       ''Milestone scope injection velocity meets or exceeds burn-down velocity, causing release live-lock.'')),
      (''MLS002'', (''AirLockBoundaryBreach'',
       ''Non-P0 issue admitted to milestone during AIR_LOCKED or FROZEN lifecycle phases.'')),
      (''MLS003'', (''MegaMilestoneSizingAlert'',
       ''Milestone issue count exceeds safe sizing boundaries, indicating uncurated scope sprawl.'')),
      (''MLS004'', (''StagnantHorizonRatchet'',
       ''Milestone completion percentage trapped in stagnant band despite continuous issue closures.''))]"

definition build_rule_metadata :: "string \<Rightarrow> json" where
  "build_rule_metadata rule =
     (let (name, descr) = (case dict_get RULE_CATALOG rule of Some m \<Rightarrow> m | None \<Rightarrow> (rule, rule))
      in JObj [(''id'', JStr rule), (''name'', JStr name),
               (''shortDescription'', JObj [(''text'', JStr descr)])])"

definition build_sarif_result :: "governor_finding \<Rightarrow> string \<Rightarrow> json" where
  "build_sarif_result f title = JObj
     [(''ruleId'', JStr (gf_rule f)),
      (''level'', JStr (if gf_level f \<in> {''error'', ''warning'', ''note''} then gf_level f else ''warning'')),
      (''message'', JObj [(''text'', JStr (gf_message f))]),
      (''properties'', JObj
         ([(''milestone'', JStr title), (''recommendation'', JStr (gf_recommendation f))]
          @ (case gf_issue f of Some n \<Rightarrow> if n \<noteq> 0 then [(''issueNumber'', JInt n)] else [] | None \<Rightarrow> [])))]"

definition rules_used :: "governor_finding list \<Rightarrow> json list" where
  "rules_used fs = dict_values (fold (\<lambda>f d. if gf_rule f \<in> set (dict_keys d) then d
     else dict_set (gf_rule f) (build_rule_metadata (gf_rule f)) d) fs [])"

definition governor_sarif :: "governor_finding list \<Rightarrow> string \<Rightarrow> json" where
  "governor_sarif fs title = JObj
     [(''$schema'', JStr ''https://raw.githubusercontent.com/oasis-tcs/sarif-spec/master/Schemata/sarif-schema-2.1.0.json''),
      (''version'', JStr ''2.1.0''),
      (''runs'', JArr [JObj
         [(''tool'', JObj [(''driver'', JObj
            [(''name'', JStr ''vibes-milestone-governor''), (''semanticVersion'', JStr ''1.0.0''),
             (''rules'', JArr (rules_used fs))])]),
          (''results'', JArr (map (\<lambda>f. build_sarif_result f title) fs))]])]"

definition has_critical_errors :: "governor_finding list \<Rightarrow> bool" where
  "has_critical_errors fs \<longleftrightarrow> list_ex (\<lambda>f. gf_level f = ''error'') fs"

text \<open>The audit and the exit status of \<open>main\<close> on the decoded issue file.\<close>

definition governor_main ::
  "iso_parser \<Rightarrow> py_float \<Rightarrow> json \<Rightarrow> milestone_phase \<Rightarrow> string \<Rightarrow> int \<Rightarrow> py_float \<Rightarrow> string \<Rightarrow>
   (governor_finding list \<times> milestone_issue list \<times> int) py" where
  "governor_main fromiso now data ph title max_issues window_days rollover_to =
     result_bind (load_issues data) (\<lambda>issues.
     result_bind (calculate_milestone_metrics fromiso issues title window_days now) (\<lambda>m.
       (let fs = audit_milestone issues ph m max_issues;
            rollover = snd (partition_milestone_rollover issues rollover_to)
        in Inr (fs, rollover, if has_critical_errors fs then 1 else 0))))"

text \<open>
  What the milestone governor decides: when its exit status fails the build, when a milestone is
  live-locked, and what the rollover plan leaves behind.
\<close>

section \<open>Levels of the findings\<close>

lemma critical_append [simp]:
  "has_critical_errors (xs @ ys) \<longleftrightarrow> has_critical_errors xs \<or> has_critical_errors ys"
  by (simp add: has_critical_errors_def)

lemma critical_Nil [simp]: "\<not> has_critical_errors []"
  by (simp add: has_critical_errors_def)

lemma critical_sizing: "has_critical_errors (check_sizing_rules m mx) \<longleftrightarrow> total_issues m > 100"
  by (simp add: check_sizing_rules_def has_critical_errors_def CRITICAL_MEGA_MILESTONE_ISSUES_def)

lemma critical_stagnant: "\<not> has_critical_errors (check_stagnant_horizon m)"
  by (simp add: check_stagnant_horizon_def has_critical_errors_def)

lemma critical_convergence:
  "has_critical_errors (check_convergence_rules m ph) \<longleftrightarrow>
    open_issues m \<noteq> 0 \<and> is_live_locked m \<and> ph \<in> {AIR_LOCKED, FROZEN}"
  by (simp add: check_convergence_rules_def critical_stagnant) (simp add: has_critical_errors_def)

lemma critical_airlocked_issue:
  "has_critical_errors (audit_airlocked_issue ph i) \<longleftrightarrow> ph = FROZEN \<or> ph = AIR_LOCKED \<and> \<not> is_p0_blocker i"
  by (simp add: audit_airlocked_issue_def has_critical_errors_def)

lemma critical_concat: "has_critical_errors (concat fss) \<longleftrightarrow> list_ex has_critical_errors fss"
  by (induction fss) auto

lemma critical_airlock:
  "has_critical_errors (check_airlock_rules issues ph) \<longleftrightarrow>
    list_ex (\<lambda>i. is_open i \<and> (ph = FROZEN \<or> ph = AIR_LOCKED \<and> \<not> is_p0_blocker i)) issues"
  unfolding check_airlock_rules_def
  by (cases ph; induction issues) (auto simp: critical_concat critical_airlocked_issue)

section \<open>Metrics\<close>

definition created_count :: "iso_parser \<Rightarrow> py_float \<Rightarrow> py_float \<Rightarrow> milestone_issue list \<Rightarrow> nat" where
  "created_count fromiso now days issues = length (filter (\<lambda>i.
     is_within_window fromiso (created_at i) now (max (days * 86400) 1)) issues)"

definition closed_count_in :: "iso_parser \<Rightarrow> py_float \<Rightarrow> py_float \<Rightarrow> milestone_issue list \<Rightarrow> nat" where
  "closed_count_in fromiso now days issues = length (filter (\<lambda>i.
     closed_within fromiso now (max (days * 86400) 1) i = Inr True) issues)"

lemma count_true: "map_result f xs = Inr bs \<Longrightarrow> length (filter id bs) = length (filter (\<lambda>x. f x = Inr True) xs)"
proof (induction xs arbitrary: bs)
  case (Cons x xs)
  then obtain b bs' where "f x = Inr b" "map_result f xs = Inr bs'" "bs = b # bs'"
    by (auto simp: result_bind_def split: sum.splits)
  with Cons.IH show ?case by simp
qed simp

lemma calculate_velocities_counts:
  assumes "calculate_velocities fromiso issues now days = Inr (scope, burn)"
  shows "scope = of_nat (created_count fromiso now days issues) / max days (1 / 10)
    \<and> burn = of_nat (closed_count_in fromiso now days issues) / max days (1 / 10)"
proof (cases "map_result (closed_within fromiso now (max (days * 86400) 1)) issues")
  case (Inl e)
  with assms show ?thesis by (simp add: calculate_velocities_def Let_def)
next
  case (Inr bs)
  with assms count_true [OF Inr] show ?thesis
    by (auto simp: calculate_velocities_def created_count_def closed_count_in_def Let_def)
qed

lemma metrics_locked:
  assumes "calculate_milestone_metrics fromiso issues title days now = Inr m"
  shows "open_issues m = length (filter is_open issues) \<and> total_issues m = length issues
    \<and> (is_live_locked m \<longleftrightarrow> open_issues m \<noteq> 0 \<and>
        of_nat (closed_count_in fromiso now days issues) - of_nat (created_count fromiso now days issues)
          \<le> 5 / 100 * max days (1 / 10))
    \<and> (is_live_locked m \<longleftrightarrow> days_to_convergence m = None)"
proof (cases "issues = []")
  case True
  with assms show ?thesis by (auto simp: calculate_milestone_metrics_def empty_milestone_metrics_def)
next
  case False
  then obtain scope burn where v: "calculate_velocities fromiso issues now days = Inr (scope, burn)"
    using assms by (auto simp: calculate_milestone_metrics_def Let_def result_bind_def split: sum.splits prod.splits)
  have pos: "max days (1 / 10) > 0" by simp
  have "burn - scope = (of_nat (closed_count_in fromiso now days issues)
      - of_nat (created_count fromiso now days issues)) / max days (1 / 10)"
    using calculate_velocities_counts [OF v] by (simp add: diff_divide_distrib)
  then have net: "\<not> burn - scope > 5 / 100 \<longleftrightarrow> of_nat (closed_count_in fromiso now days issues)
      - of_nat (created_count fromiso now days issues) \<le> 5 / 100 * max days (1 / 10)"
    using pos by (simp only: not_less pos_divide_le_eq)
  show ?thesis
    using assms False v unfolding net [symmetric]
    by (auto simp: calculate_milestone_metrics_def Let_def convergence_projection_def split: if_splits)
qed

section \<open>Rollover\<close>

definition retained :: "milestone_issue \<Rightarrow> bool" where
  "retained i \<longleftrightarrow> \<not> is_open i \<or> is_p0_blocker i \<or> ''type/epic'' \<in> set (iss_labels i)"

lemma fold_rollover:
  "fold (rollover_step target) issues (keep, roll) =
     (keep @ filter retained issues,
      roll @ map (\<lambda>i. if target \<noteq> '''' then i\<lparr>milestone := target\<rparr> else i)
        (filter (\<lambda>i. \<not> retained i) issues))"
  by (induction issues arbitrary: keep roll) (auto simp: rollover_step_def retained_def)

lemma rollover_eq:
  "partition_milestone_rollover issues target =
     (filter retained issues,
      map (\<lambda>i. if target \<noteq> '''' then i\<lparr>milestone := target\<rparr> else i)
        (filter (\<lambda>i. \<not> retained i) issues))"
  by (simp add: partition_milestone_rollover_def fold_rollover)

lemma governor_main_parts:
  assumes "governor_main fromiso now data ph title mx days target = Inr (fs, roll, c)"
  obtains issues m where "load_issues data = Inr issues"
    "calculate_milestone_metrics fromiso issues title days now = Inr m"
    "fs = audit_milestone issues ph m mx" "c = (if has_critical_errors fs then 1 else 0)"
  using assms by (auto simp: governor_main_def Let_def result_bind_def split: sum.splits)

section \<open>Properties\<close>

text \<open>the governor fails the build exactly when the milestone has more than a hundred issues,
  or is live-locked in a restricted phase, or holds an open issue in the frozen phase, or an open
  issue that is no blocker in the air-locked phase.\<close>

theorem governor_verdict:
  assumes "governor_main fromiso now data ph title mx days target = Inr (fs, roll, c)"
  shows "\<exists>issues m. load_issues data = Inr issues
    \<and> calculate_milestone_metrics fromiso issues title days now = Inr m
    \<and> (c = 1 \<longleftrightarrow> length issues > 100
        \<or> (is_live_locked m \<and> ph \<in> {AIR_LOCKED, FROZEN})
        \<or> list_ex (\<lambda>i. is_open i \<and> (ph = FROZEN \<or> ph = AIR_LOCKED \<and> \<not> is_p0_blocker i)) issues)"
proof -
  obtain issues m where i: "load_issues data = Inr issues"
    and m: "calculate_milestone_metrics fromiso issues title days now = Inr m"
    and fs: "fs = audit_milestone issues ph m mx" and c: "c = (if has_critical_errors fs then 1 else 0)"
    using governor_main_parts [OF assms] by blast
  have "c = 1 \<longleftrightarrow> has_critical_errors fs" using c by simp
  then have "c = 1 \<longleftrightarrow> length issues > 100
        \<or> (is_live_locked m \<and> ph \<in> {AIR_LOCKED, FROZEN})
        \<or> list_ex (\<lambda>i. is_open i \<and> (ph = FROZEN \<or> ph = AIR_LOCKED \<and> \<not> is_p0_blocker i)) issues"
    unfolding fs audit_milestone_def critical_append critical_sizing critical_convergence critical_airlock
    using metrics_locked [OF m] by auto
  with i m show ?thesis by blast
qed

text \<open>a milestone is live-locked exactly when it has open issues and the closures in the window
  exceed the creations by at most a twentieth of an issue per day; exactly then no completion
  date is estimated.\<close>

theorem live_lock_iff:
  assumes "calculate_milestone_metrics fromiso issues title days now = Inr m"
  shows "open_issues m = length (filter is_open issues) \<and> total_issues m = length issues
    \<and> (is_live_locked m \<longleftrightarrow> open_issues m \<noteq> 0 \<and>
        of_nat (closed_count_in fromiso now days issues) - of_nat (created_count fromiso now days issues)
          \<le> 5 / 100 * max days (1 / 10))
    \<and> (is_live_locked m \<longleftrightarrow> days_to_convergence m = None)"
  using assms by (rule metrics_locked)

text \<open>after the planned rollover of an air-locked milestone the audit still rejects exactly the
  open epics that are no blockers: the plan keeps them, the air lock does not admit them.\<close>

theorem rollover_leaves_epics:
  "check_airlock_rules (fst (partition_milestone_rollover issues target)) AIR_LOCKED =
     concat (map (audit_airlocked_issue AIR_LOCKED)
       (filter (\<lambda>i. is_open i \<and> \<not> is_p0_blocker i \<and> ''type/epic'' \<in> set (iss_labels i)) issues))"
proof -
  have "check_airlock_rules (filter retained xs) AIR_LOCKED =
      concat (map (audit_airlocked_issue AIR_LOCKED)
        (filter (\<lambda>i. is_open i \<and> \<not> is_p0_blocker i \<and> ''type/epic'' \<in> set (iss_labels i)) xs))" for xs
    by (induction xs) (auto simp: check_airlock_rules_def retained_def audit_airlocked_issue_def)
  then show ?thesis by (simp add: rollover_eq)
qed

text \<open>A milestone with one open epic, and one issue closed within the last thirty days: it burns
  faster than it grows, and is called live-locked. Timestamps are read as their first letter.\<close>

definition sample_iso :: iso_parser where
  "sample_iso s = (if s = ''now'' then Some 0 else None)"

definition sample_issues :: json where
  "sample_issues = JArr
     [JObj [(''number'', JInt 1), (''labels'', JArr [JStr ''type/epic''])],
      JObj [(''number'', JStr ''2''), (''state'', JStr ''closed''), (''closed_at'', JStr ''now'')]]"

definition sample_loaded :: "milestone_issue list" where
  "sample_loaded = [\<lparr>iss_number = 1, iss_title = '''', iss_state = ''open'', iss_labels = [''type/epic''],
       created_at = '''', closed_at = JNull, milestone = ''''\<rparr>,
     \<lparr>iss_number = 2, iss_title = '''', iss_state = ''closed'', iss_labels = [],
       created_at = '''', closed_at = JStr ''now'', milestone = ''''\<rparr>]"

lemma sample_issues_loaded: "load_issues sample_issues = Inr sample_loaded"
  by code_simp

definition sample_metrics :: milestone_metrics where
  "sample_metrics = (case calculate_milestone_metrics sample_iso sample_loaded ''v1'' 30 0 of
     Inr m \<Rightarrow> m | Inl e \<Rightarrow> empty_milestone_metrics '''')"

lemma sample_metrics_eq: "calculate_milestone_metrics sample_iso sample_loaded ''v1'' 30 0 = Inr sample_metrics"
  by (simp add: sample_metrics_def calculate_milestone_metrics_def calculate_velocities_def Let_def
      sample_loaded_def closed_within_def is_within_window_def parse_iso_datetime_def py_truthy_def
      split: prod.splits)

theorem live_lock_iff_witness:
  "open_issues sample_metrics = length (filter is_open sample_loaded)
    \<and> total_issues sample_metrics = length sample_loaded
    \<and> (is_live_locked sample_metrics \<longleftrightarrow> open_issues sample_metrics \<noteq> 0 \<and>
        of_nat (closed_count_in sample_iso 0 30 sample_loaded)
          - of_nat (created_count sample_iso 0 30 sample_loaded) \<le> (5 / 100 * max 30 (1 / 10) :: py_float))
    \<and> (is_live_locked sample_metrics \<longleftrightarrow> days_to_convergence sample_metrics = None)"
  by (rule live_lock_iff) (rule sample_metrics_eq)

theorem governor_verdict_witness:
  "\<exists>issues m. load_issues sample_issues = Inr issues
    \<and> calculate_milestone_metrics sample_iso issues ''v1'' 30 0 = Inr m
    \<and> ((1 :: int) = 1 \<longleftrightarrow> length issues > 100
        \<or> (is_live_locked m \<and> FROZEN \<in> {AIR_LOCKED, FROZEN})
        \<or> list_ex (\<lambda>i. is_open i \<and> (FROZEN = FROZEN \<or> FROZEN = AIR_LOCKED \<and> \<not> is_p0_blocker i)) issues)"
proof (rule governor_verdict)
  have "has_critical_errors (audit_milestone sample_loaded FROZEN sample_metrics 50)"
    by (simp add: audit_milestone_def critical_airlock sample_loaded_def is_open_def)
      (simp add: py_lower_def py_lower_char_def)
  then show "governor_main sample_iso 0 sample_issues FROZEN ''v1'' 50 30 ''v2'' =
      Inr (audit_milestone sample_loaded FROZEN sample_metrics 50,
           snd (partition_milestone_rollover sample_loaded ''v2''), 1)"
    by (simp add: governor_main_def sample_issues_loaded sample_metrics_eq)
qed

text \<open>The sample burns faster than it grows and is live-locked all the same.\<close>

lemma live_lock_while_burning_faster:
  "is_live_locked sample_metrics \<and> scope_velocity sample_metrics < burn_velocity sample_metrics"
  by (simp add: sample_metrics_def calculate_milestone_metrics_def calculate_velocities_def Let_def
      sample_loaded_def closed_within_def is_within_window_def parse_iso_datetime_def py_truthy_def
      sample_iso_def py_replace_def py_split.simps is_open_def py_lower_def py_lower_char_def
      convergence_projection_def py_round_def round_half_even_def)

end
