(* ===== verification/Wasm_Sandbox.thy ===== *)
theory Wasm_Sandbox
  imports Py_Text "HOL-Library.Word"
begin

text \<open>
  \<open>examples/wasm-capability-sandbox/wasm_sandbox.py\<close>: capability handles and the file system and
  network checks, the reader of Wasm headers with its LEB128 decoder, WIT contracts, gas metering
  and memory growth, and the reports. Bytes are 8 bit words. The hash, the clock and
  \<open>Path.resolve\<close>, which asks the file system, are parameters; a resolved path is its list of
  components below the root.
\<close>

unbundle bit_operations_syntax

section \<open>Data\<close>

definition WASM_MAGIC :: "8 word list" where "WASM_MAGIC = [0, 97, 115, 109]"
definition DEFAULT_MAX_PAGES :: int where "DEFAULT_MAX_PAGES = 16"
definition DEFAULT_GAS_BUDGET :: int where "DEFAULT_GAS_BUDGET = 10000"

datatype capability_kind = FILESYSTEM_READ | FILESYSTEM_WRITE | NETWORK_DIAL | CLOCK_MONOTONIC | ENV_VAR

definition capability_kind_value :: "capability_kind \<Rightarrow> string" where
  "capability_kind_value k = (case k of FILESYSTEM_READ \<Rightarrow> ''FILESYSTEM_READ''
     | FILESYSTEM_WRITE \<Rightarrow> ''FILESYSTEM_WRITE'' | NETWORK_DIAL \<Rightarrow> ''NETWORK_DIAL''
     | CLOCK_MONOTONIC \<Rightarrow> ''CLOCK_MONOTONIC'' | ENV_VAR \<Rightarrow> ''ENV_VAR'')"

datatype trap_kind = TRAP_NONE | GAS_EXHAUSTED | MEMORY_CEILING_BREACH | CAPABILITY_DENIED
  | WIT_CONTRACT_MISMATCH | INVALID_BYTECODE

definition trap_kind_value :: "trap_kind \<Rightarrow> string" where
  "trap_kind_value t = (case t of TRAP_NONE \<Rightarrow> ''NONE'' | GAS_EXHAUSTED \<Rightarrow> ''GAS_EXHAUSTED''
     | MEMORY_CEILING_BREACH \<Rightarrow> ''MEMORY_CEILING_BREACH'' | CAPABILITY_DENIED \<Rightarrow> ''CAPABILITY_DENIED''
     | WIT_CONTRACT_MISMATCH \<Rightarrow> ''WIT_CONTRACT_MISMATCH'' | INVALID_BYTECODE \<Rightarrow> ''INVALID_BYTECODE'')"

datatype cap_rule = CAP001 | CAP002 | CAP003 | CAP004 | CAP005

definition cap_rule_value :: "cap_rule \<Rightarrow> string" where
  "cap_rule_value r = (case r of CAP001 \<Rightarrow> ''CAP001'' | CAP002 \<Rightarrow> ''CAP002'' | CAP003 \<Rightarrow> ''CAP003''
     | CAP004 \<Rightarrow> ''CAP004'' | CAP005 \<Rightarrow> ''CAP005'')"

record capability_handle =
  handle_id :: string
  cap_kind :: capability_kind
  scope :: string
  granted_at :: py_float

record cap_finding =
  cf_rule :: cap_rule
  cf_message :: string
  cf_target :: string
  cf_severity :: string

record wasm_header_info =
  is_valid :: bool
  wasm_version :: nat
  sections :: "8 word list"
  error_message :: string

record wit_contract =
  wit_package :: string
  interface_name :: string
  wit_imports :: "string list"
  wit_exports :: "string list"

record execution_result =
  res_trap :: trap_kind
  res_gas_consumed :: int
  res_gas_remaining :: int
  pages_allocated :: int
  res_output :: string
  res_findings :: "cap_finding list"

definition create_capability ::
  "(string \<Rightarrow> string) \<Rightarrow> py_float \<Rightarrow> capability_kind \<Rightarrow> string \<Rightarrow> string \<Rightarrow> capability_handle" where
  "create_capability sha now k sc salt =
     (let raw = capability_kind_value k @ '':'' @ sc @ '':'' @ salt
      in \<lparr>handle_id = ''cap-'' @ take 16 (sha raw), cap_kind = k, scope = sc, granted_at = now\<rparr>)"

section \<open>Wasm headers\<close>

text \<open>The loop over the bytes of a LEB128 number; Python's integers have no width.\<close>

fun varuint_loop :: "8 word list \<Rightarrow> int \<Rightarrow> nat \<Rightarrow> nat \<Rightarrow> int \<times> nat" where
  "varuint_loop [] result shift idx = (result, idx)"
| "varuint_loop (b # bs) result shift idx =
     (let result' = result OR push_bit shift (uint (b AND 0x7F))
      in if b AND 0x80 \<noteq> 0 then varuint_loop bs result' (shift + 7) (idx + 1)
         else (result', idx + 1))"

definition read_varuint :: "8 word list \<Rightarrow> int \<times> nat" where
  "read_varuint buf = varuint_loop buf 0 0 0"

definition read_next_section :: "8 word list \<Rightarrow> nat \<Rightarrow> 8 word \<times> nat" where
  "read_next_section payload idx =
     (let sec_id = payload ! idx; (len, n) = read_varuint (drop (idx + 1) payload)
      in (sec_id, idx + 1 + n + nat len))"

function parse_sections_from :: "8 word list \<Rightarrow> nat \<Rightarrow> 8 word list" where
  "parse_sections_from payload idx =
     (if idx < length payload
      then (let (sec_id, next) = read_next_section payload idx
            in sec_id # parse_sections_from payload next)
      else [])"
  by pat_completeness auto
termination
  by (relation "measure (\<lambda>(payload, idx). length payload - idx)")
    (auto simp: read_next_section_def Let_def split: prod.splits)

declare parse_sections_from.simps [simp del]

definition parse_section_ids :: "8 word list \<Rightarrow> 8 word list" where
  "parse_section_ids payload = parse_sections_from payload 0"

text \<open>\<open>struct.unpack("<I", ...)\<close> of four bytes.\<close>

fun little_endian :: "8 word list \<Rightarrow> nat" where
  "little_endian [] = 0"
| "little_endian (b # bs) = unat b + 256 * little_endian bs"

definition validate_wasm_header :: "8 word list \<Rightarrow> wasm_header_info" where
  "validate_wasm_header data =
     (if length data < 8 \<or> take 4 data \<noteq> WASM_MAGIC
      then \<lparr>is_valid = False, wasm_version = 0, sections = [], error_message = ''Invalid Wasm magic bytes''\<rparr>
      else
        (let ver = little_endian (take 4 (drop 4 data)) in
         if ver \<noteq> 1
         then \<lparr>is_valid = False, wasm_version = ver, sections = [],
                error_message = ''Unsupported Wasm version: '' @ show_nat ver\<rparr>
         else \<lparr>is_valid = True, wasm_version = ver, sections = parse_section_ids (drop 8 data),
                error_message = ''''\<rparr>))"

section \<open>WIT contracts\<close>

text \<open>\<open>s.split()\<close> and \<open>s.rstrip(c)\<close>.\<close>

function split_blanks :: "string \<Rightarrow> string list" where
  "split_blanks s =
     (let t = dropWhile py_isspace s in
      if t = [] then [] else takeWhile (\<lambda>c. \<not> py_isspace c) t # split_blanks (dropWhile (\<lambda>c. \<not> py_isspace c) t))"
  by pat_completeness auto
termination
proof (relation "measure length", goal_cases)
  case (2 s t)
  then obtain c cs where t: "t = c # cs" by (metis list.exhaust)
  then have "\<not> py_isspace c" using 2 hd_dropWhile [of py_isspace s] by (metis list.sel(1))
  then have "length (dropWhile (\<lambda>c. \<not> py_isspace c) t) < length t"
    using length_dropWhile_le [of "\<lambda>c. \<not> py_isspace c" cs] by (simp add: t)
  then show ?case using 2(1) length_dropWhile_le [of py_isspace s] by simp
qed simp

declare split_blanks.simps [simp del]

definition rstrip_char :: "char \<Rightarrow> string \<Rightarrow> string" where
  "rstrip_char c s = rev (dropWhile (\<lambda>x. x = c) (rev s))"

text \<open>\<open>parts[1]\<close>; \<open>None\<close> is the \<open>IndexError\<close>.\<close>

definition second_word :: "string \<Rightarrow> string option" where
  "second_word line = (case split_blanks line of (_ # w # _) \<Rightarrow> Some w | _ \<Rightarrow> None)"

definition parse_wit_header_line :: "string \<Rightarrow> string \<Rightarrow> string \<Rightarrow> (string \<times> string) option" where
  "parse_wit_header_line line pkg iface =
     (if starts_with line ''package ''
      then map_option (\<lambda>w. (rstrip_char CHR '';'' w, iface)) (second_word line)
      else if starts_with line ''interface ''
      then map_option (\<lambda>w. (pkg, py_strip (rstrip_char CHR ''{'' w))) (second_word line)
      else Some (pkg, iface))"

definition wit_member :: "string \<Rightarrow> string \<Rightarrow> string list \<Rightarrow> string list" where
  "wit_member keyword line xs =
     (if starts_with line keyword then xs @ [py_strip (rstrip_char CHR '';'' (drop 7 line))] else xs)"

definition wit_line :: "wit_contract \<Rightarrow> string \<Rightarrow> wit_contract option" where
  "wit_line c line =
     (let trimmed = py_strip line in
      map_option (\<lambda>(pkg, iface). \<lparr>wit_package = pkg, interface_name = iface,
          wit_imports = wit_member ''import '' trimmed (wit_imports c),
          wit_exports = wit_member ''export '' trimmed (wit_exports c)\<rparr>)
        (parse_wit_header_line trimmed (wit_package c) (interface_name c)))"

fun wit_lines :: "wit_contract \<Rightarrow> string list \<Rightarrow> wit_contract option" where
  "wit_lines c [] = Some c"
| "wit_lines c (l # ls) = (case wit_line c l of None \<Rightarrow> None | Some c' \<Rightarrow> wit_lines c' ls)"

definition parse_wit_contract :: "string \<Rightarrow> wit_contract option" where
  "parse_wit_contract t = wit_lines
     \<lparr>wit_package = ''unknown:pkg'', interface_name = ''main'', wit_imports = [], wit_exports = []\<rparr>
     (py_splitlines t)"

definition single_quoted :: "string \<Rightarrow> string" where
  "single_quoted s = [CHR 0x27] @ s @ [CHR 0x27]"

definition wit_missing_finding :: "string \<Rightarrow> cap_finding" where
  "wit_missing_finding req = \<lparr>cf_rule = CAP005,
     cf_message = ''Missing capability grant for WIT import '' @ single_quoted req,
     cf_target = req, cf_severity = ''error''\<rparr>"

definition verify_wit_contract :: "wit_contract \<Rightarrow> string list \<Rightarrow> cap_finding list" where
  "verify_wit_contract c granted =
     map wit_missing_finding (filter (\<lambda>req. req \<notin> set granted) (wit_imports c))"

section \<open>Capability checks\<close>

text \<open>\<open>Path(p).as_posix()\<close>: repeated slashes and single dots go, two leading slashes stay.\<close>

definition path_root :: "string \<Rightarrow> string" where
  "path_root p = (if starts_with p ''//'' \<and> \<not> starts_with p ''///'' then ''//''
     else if starts_with p ''/'' then ''/'' else '''')"

definition path_posix :: "string \<Rightarrow> string" where
  "path_posix p =
     (let parts = filter (\<lambda>c. c \<noteq> '''' \<and> c \<noteq> ''.'') (py_split ''/'' p);
          s = path_root p @ join_with ''/'' parts
      in if s = '''' then ''.'' else s)"

type_synonym resolver = "string \<Rightarrow> string list"

definition resolved_posix :: "resolver \<Rightarrow> string \<Rightarrow> string" where
  "resolved_posix resolve p = ''/'' @ join_with ''/'' (resolve p)"

definition is_scoped_path :: "resolver \<Rightarrow> string \<Rightarrow> string \<Rightarrow> bool" where
  "is_scoped_path resolve target sc =
     (let norm_target = resolved_posix resolve target; norm_scope = resolved_posix resolve sc
      in norm_target = norm_scope \<or> starts_with norm_target (norm_scope @ ''/''))"

definition has_fs_grant :: "resolver \<Rightarrow> string \<Rightarrow> capability_handle \<Rightarrow> bool" where
  "has_fs_grant resolve target h =
     (if cap_kind h \<notin> {FILESYSTEM_READ, FILESYSTEM_WRITE} then False
      else is_scoped_path resolve target (scope h))"

definition check_filesystem_access :: "resolver \<Rightarrow> string \<Rightarrow> capability_handle list \<Rightarrow> cap_finding option" where
  "check_filesystem_access resolve p handles =
     (if list_ex (has_fs_grant resolve (path_posix p)) handles then None
      else Some \<lparr>cf_rule = CAP001, cf_message = ''Ambient filesystem access denied: '' @ single_quoted p,
             cf_target = p, cf_severity = ''error''\<rparr>)"

definition matches_network_scope :: "string \<Rightarrow> capability_handle \<Rightarrow> bool" where
  "matches_network_scope target h =
     (if cap_kind h \<noteq> NETWORK_DIAL then False else scope h = ''*'' \<or> scope h = target)"

definition check_network_dial :: "string \<Rightarrow> capability_handle list \<Rightarrow> cap_finding option" where
  "check_network_dial target handles =
     (if list_ex (matches_network_scope target) handles then None
      else Some \<lparr>cf_rule = CAP002, cf_message = ''Ambient network egress denied to '' @ single_quoted target,
             cf_target = target, cf_severity = ''error''\<rparr>)"

section \<open>Execution\<close>

record sandbox_env =
  gas_budget :: int
  max_pages :: int
  capabilities :: "capability_handle list"
  allocated_pages :: int
  gas_consumed :: int
  output_log :: "string list"

definition new_sandbox_env :: sandbox_env where
  "new_sandbox_env = \<lparr>gas_budget = DEFAULT_GAS_BUDGET, max_pages = DEFAULT_MAX_PAGES, capabilities = [],
     allocated_pages = 1, gas_consumed = 0, output_log = []\<rparr>"

definition execute_instruction :: "sandbox_env \<Rightarrow> string \<Rightarrow> int \<Rightarrow> sandbox_env \<times> trap_kind" where
  "execute_instruction env op cost =
     (if gas_consumed env + cost > gas_budget env
      then (env\<lparr>gas_consumed := gas_budget env\<rparr>, GAS_EXHAUSTED)
      else (env\<lparr>gas_consumed := gas_consumed env + cost\<rparr>, TRAP_NONE))"

definition grow_memory :: "sandbox_env \<Rightarrow> int \<Rightarrow> sandbox_env \<times> trap_kind" where
  "grow_memory env delta_pages =
     (if allocated_pages env + delta_pages > max_pages env then (env, MEMORY_CEILING_BREACH)
      else (env\<lparr>allocated_pages := allocated_pages env + delta_pages\<rparr>, TRAP_NONE))"

text \<open>The loop stops at the first trap.\<close>

fun step_workload :: "sandbox_env \<Rightarrow> (string \<times> int) list \<Rightarrow> sandbox_env \<times> trap_kind" where
  "step_workload env [] = (env, TRAP_NONE)"
| "step_workload env ((op, cost) # rest) =
     (case execute_instruction env op cost of
        (env', trap) \<Rightarrow> if trap = TRAP_NONE then step_workload env' rest else (env', trap))"

definition collect_trap_findings :: "trap_kind \<Rightarrow> cap_finding list" where
  "collect_trap_findings trap = (case trap of
     GAS_EXHAUSTED \<Rightarrow> [\<lparr>cf_rule = CAP003, cf_message = ''Execution halted: gas budget exhausted'',
        cf_target = ''instruction_stream'', cf_severity = ''error''\<rparr>]
   | MEMORY_CEILING_BREACH \<Rightarrow> [\<lparr>cf_rule = CAP004,
        cf_message = ''Execution halted: linear memory ceiling breached'',
        cf_target = ''linear_memory'', cf_severity = ''error''\<rparr>]
   | _ \<Rightarrow> [])"

definition run_metered_workload :: "sandbox_env \<Rightarrow> (string \<times> int) list \<Rightarrow> sandbox_env \<times> execution_result" where
  "run_metered_workload env instructions =
     (let (env', trap) = step_workload env instructions;
          rem = gas_budget env' - gas_consumed env'
      in (env', \<lparr>res_trap = trap, res_gas_consumed = gas_consumed env', res_gas_remaining = max 0 rem,
                pages_allocated = allocated_pages env', res_output = join_with ''; '' (output_log env'),
                res_findings = collect_trap_findings trap\<rparr>))"

section \<open>Reports and the audit command\<close>

definition cap_finding_to_sarif :: "cap_finding \<Rightarrow> json" where
  "cap_finding_to_sarif f = JObj
     [(''ruleId'', JStr (cap_rule_value (cf_rule f))), (''level'', JStr (cf_severity f)),
      (''message'', JObj [(''text'', JStr (cf_message f))]),
      (''locations'', JArr [JObj [(''physicalLocation'',
         JObj [(''artifactLocation'', JObj [(''uri'', JStr (cf_target f))])])]])]"

definition cap_export_sarif :: "cap_finding list \<Rightarrow> string \<Rightarrow> json" where
  "cap_export_sarif fs tool = JObj
     [(''$schema'', JStr ''https://json.schemastore.org/sarif-2.1.0.json''), (''version'', JStr ''2.1.0''),
      (''runs'', JArr [JObj
         [(''tool'', JObj [(''driver'', JObj [(''name'', JStr tool), (''version'', JStr ''0.1.0'')])]),
          (''results'', JArr (map cap_finding_to_sarif fs))]])]"

definition cap_findings_table :: "cap_finding list \<Rightarrow> string list" where
  "cap_findings_table fs =
     [''## Diagnostic Findings'', '''', ''| Rule | Severity | Message | Target |'', ''|---|---|---|---|'']
     @ map (\<lambda>f. ''| `'' @ cap_rule_value (cf_rule f) @ ''` | `'' @ cf_severity f @ ''` | '' @ cf_message f
          @ '' | `'' @ cf_target f @ ''` |'') fs @ ['''']"

definition cap_markdown_report :: "execution_result \<Rightarrow> string \<Rightarrow> string" where
  "cap_markdown_report r title = join_with newline
     ([''# '' @ title, '''', ''| Metric | Value |'', ''|---|---|'',
       ''| Trap Status | `'' @ trap_kind_value (res_trap r) @ ''` |'',
       ''| Gas Consumed | '' @ show_int (res_gas_consumed r) @ '' |'',
       ''| Gas Remaining | '' @ show_int (res_gas_remaining r) @ '' |'',
       ''| Pages Allocated | '' @ show_int (pages_allocated r) @ '' |'',
       ''| Findings Count | '' @ show_nat (length (res_findings r)) @ '' |'', '''']
      @ (if res_findings r \<noteq> [] then cap_findings_table (res_findings r) else []))"

text \<open>The parsed options of \<open>audit\<close>: two scopes to grant, a path and a host to check.\<close>

record audit_args =
  grant_fs :: "string option"
  grant_net :: "string option"
  check_path :: "string option"
  check_net :: "string option"

definition given :: "string option \<Rightarrow> string list" where
  "given x = (case x of Some s \<Rightarrow> if s \<noteq> '''' then [s] else [] | None \<Rightarrow> [])"

definition collect_cli_handles :: "(string \<Rightarrow> string) \<Rightarrow> py_float \<Rightarrow> audit_args \<Rightarrow> capability_handle list" where
  "collect_cli_handles sha now a =
     map (\<lambda>s. create_capability sha now FILESYSTEM_READ s ''wasi-cap'') (given (grant_fs a))
     @ map (\<lambda>s. create_capability sha now NETWORK_DIAL s ''wasi-cap'') (given (grant_net a))"

definition audit_targets :: "resolver \<Rightarrow> audit_args \<Rightarrow> capability_handle list \<Rightarrow> cap_finding list" where
  "audit_targets resolve a handles =
     List.map_filter (\<lambda>p. check_filesystem_access resolve p handles) (given (check_path a))
     @ List.map_filter (\<lambda>n. check_network_dial n handles) (given (check_net a))"

definition cmd_audit ::
  "(string \<Rightarrow> string) \<Rightarrow> py_float \<Rightarrow> resolver \<Rightarrow> audit_args \<Rightarrow> json \<times> int" where
  "cmd_audit sha now resolve a =
     (let findings = audit_targets resolve a (collect_cli_handles sha now a)
      in (cap_export_sarif findings ''wasm-sandbox'', if findings \<noteq> [] then 1 else 0))"

definition cmd_validate :: "8 word list \<Rightarrow> int" where
  "cmd_validate data = (if is_valid (validate_wasm_header data) then 0 else 1)"

end
