(* ===== verification/Wasm_Props.thy ===== *)
theory Wasm_Props
  imports Wasm_Sandbox
begin

text \<open>
  What the capability sandbox guarantees: gas accounting, path containment of a file system scope,
  LEB128 decoding against a reference encoder, totality of the WIT parser, and what the header
  check lets through.
\<close>

section \<open>Gas\<close>

definition total_cost :: "(string \<times> int) list \<Rightarrow> int" where
  "total_cost instrs = sum_list (map snd instrs)"

lemma total_cost_nonneg: "list_all (\<lambda>i. 0 \<le> snd i) instrs \<Longrightarrow> 0 \<le> total_cost instrs"
  by (induction instrs) (auto simp: total_cost_def)

lemma step_workload_gas:
  assumes "list_all (\<lambda>i. 0 \<le> snd i) instrs" "gas_consumed env \<le> gas_budget env"
  shows "step_workload env instrs =
    (env\<lparr>gas_consumed := min (gas_consumed env + total_cost instrs) (gas_budget env)\<rparr>,
     if gas_consumed env + total_cost instrs \<le> gas_budget env then TRAP_NONE else GAS_EXHAUSTED)"
  using assms
proof (induction env instrs rule: step_workload.induct)
  case (2 env op cost rest)
  have "0 \<le> total_cost rest" using 2(2) total_cost_nonneg by simp
  with 2 show ?case
    by (auto simp: execute_instruction_def total_cost_def min_def algebra_simps)
qed (simp add: total_cost_def min_def)

section \<open>Path containment\<close>

definition plain_components :: "string list \<Rightarrow> bool" where
  "plain_components cs \<longleftrightarrow> list_all (\<lambda>c. c \<noteq> '''' \<and> CHR ''/'' \<notin> set c) cs"

lemma join_slash_prefix:
  assumes "CHR ''/'' \<notin> set c" "CHR ''/'' \<notin> set d" "c @ CHR ''/'' # s = d @ CHR ''/'' # t"
  shows "c = d \<and> s = t"
  using assms by (auto simp: append_eq_append_conv2 append_eq_Cons_conv Cons_eq_append_conv)

lemma scoped_join:
  assumes "plain_components ts" "plain_components ss" "ss \<noteq> []"
  shows "join_with ''/'' ts = join_with ''/'' ss \<or> prefix (join_with ''/'' ss @ ''/'') (join_with ''/'' ts)
    \<longleftrightarrow> prefix ss ts"
  using assms
proof (induction ss arbitrary: ts)
  case (Cons s ss)
  have s: "s \<noteq> ''''" "CHR ''/'' \<notin> set s" "plain_components ss"
    using Cons.prems by (auto simp: plain_components_def)
  show ?case
  proof (cases ts)
    case Nil
    then show ?thesis using s(1) by (cases ss) (auto simp: prefix_def)
  next
    case (Cons t ts')
    have t: "t \<noteq> ''''" "CHR ''/'' \<notin> set t" "plain_components ts'"
      using Cons.prems Cons by (auto simp: plain_components_def)
    have eq: "t @ ''/'' @ a = s @ ''/'' @ x \<longleftrightarrow> t = s \<and> a = x" for a x
      using join_slash_prefix [OF t(2) s(2)] by auto
    have pre: "prefix (s @ ''/'' @ x) (t @ ''/'' @ a) \<longleftrightarrow> t = s \<and> prefix x a" for a x
      unfolding prefix_def append_assoc eq by auto
    show ?thesis
    proof (cases "ss = []")
      case True
      show ?thesis
      proof (cases "ts' = []")
        case True': True
        have "\<not> prefix (s @ ''/'') t" using t(2) by (auto simp: prefix_def)
        then show ?thesis using True True' Cons by auto
      next
        case False
        have "prefix (s @ ''/'') (t @ ''/'' @ join_with ''/'' ts') \<longleftrightarrow> s = t"
          using pre [of "[]"] by auto
        moreover have "t @ ''/'' @ join_with ''/'' ts' \<noteq> s" using s(2) by auto
        ultimately show ?thesis using True False Cons by (auto simp: join_with_Cons)
      qed
    next
      case False
      show ?thesis
      proof (cases "ts' = []")
        case True
        have "s @ ''/'' @ x \<noteq> t" for x using t(2) by auto
        then show ?thesis using True False Cons by (auto simp: join_with_Cons prefix_def)
      next
        case False': False
        show ?thesis
          using Cons.IH [OF t(3) s(3) False] Cons eq pre by (auto simp: join_with_Cons False False')
      qed
    qed
  qed
qed simp

lemma join_first_char:
  assumes "plain_components ts" "ts \<noteq> []"
  shows "\<exists>c r. join_with ''/'' ts = c # r \<and> c \<noteq> CHR ''/''"
proof -
  obtain t ts' where ts: "ts = t # ts'" using assms(2) by (cases ts) auto
  then obtain c t' where "t = c # t'" "c \<noteq> CHR ''/''"
    using assms(1) by (cases t) (auto simp: plain_components_def)
  with ts show ?thesis by (cases ts') auto
qed

lemma is_scoped_path_prefix:
  assumes "plain_components (resolve target)" "plain_components (resolve sc)"
  shows "is_scoped_path resolve target sc \<longleftrightarrow>
    (if resolve sc = [] then resolve target = [] else prefix (resolve sc) (resolve target))"
proof (cases "resolve sc = []")
  case True
  then show ?thesis
    using join_first_char [OF assms(1)]
    by (cases "resolve target = []") (auto simp: is_scoped_path_def resolved_posix_def starts_with_def)
next
  case False
  then show ?thesis
    using scoped_join [OF assms False] by (simp add: is_scoped_path_def resolved_posix_def starts_with_def)
qed

section \<open>LEB128\<close>

text \<open>The encoder of the WebAssembly specification.\<close>

fun leb128 :: "nat \<Rightarrow> 8 word list" where
  "leb128 n = (if n < 128 then [word_of_nat n] else word_of_nat (n mod 128 + 128) # leb128 (n div 128))"

declare leb128.simps [simp del]

lemma low_bits: "uint ((b :: 8 word) AND 0x7F) = uint b mod 128"
proof -
  have "uint (b AND 0x7F) = uint b AND mask 7" by (simp add: unsigned_and_eq mask_eq_exp_minus_1)
  then show ?thesis by (simp add: take_bit_eq_mask [symmetric] take_bit_eq_mod)
qed

lemma high_bit: "(b :: 8 word) AND 0x80 \<noteq> 0 \<longleftrightarrow> 128 \<le> uint b"
proof -
  have "(0x80 :: 8 word) = 2 ^ 7" by simp
  then have "b AND 0x80 \<noteq> 0 \<longleftrightarrow> bit b 7" by (simp only: and_exp_eq_0_iff_not_bit not_not)
  also have "\<dots> \<longleftrightarrow> bit (uint b) 7" by (simp add: bit_uint_iff)
  also have "\<dots> \<longleftrightarrow> odd (uint b div 128)" by (simp add: bit_iff_odd)
  also have "\<dots> \<longleftrightarrow> 128 \<le> uint b"
  proof -
    have "0 \<le> uint b" "uint b < 256" using uint_lt2p [of b] by simp_all
    then have "uint b div 128 = 0 \<or> uint b div 128 = 1" by linarith
    with \<open>0 \<le> uint b\<close> show ?thesis by (auto simp: zdiv_eq_0_iff)
  qed
  finally show ?thesis .
qed

lemma uint_byte: "n < 256 \<Longrightarrow> uint (word_of_nat n :: 8 word) = int n"
  by (simp add: uint_word_of_int_eq take_bit_eq_mod unsigned_of_nat)

lemma group_or: "(a OR push_bit s (int n mod 128)) OR push_bit (s + 7) (int n div 128) = a OR push_bit s (int n)"
proof (rule bit_eqI)
  fix k
  have "int n mod 128 = take_bit 7 (int n)" "int n div 128 = drop_bit 7 (int n)"
    by (simp_all add: take_bit_eq_mod drop_bit_eq_div)
  moreover have "k - s = 7 + (k - (s + 7))" if "s + 7 \<le> k" using that by simp
  ultimately show "bit ((a OR push_bit s (int n mod 128)) OR push_bit (s + 7) (int n div 128)) k =
      bit (a OR push_bit s (int n)) k"
    by (cases "s + 7 \<le> k") (auto simp: bit_or_iff bit_push_bit_iff bit_take_bit_iff bit_drop_bit_eq)
qed

lemma varuint_loop_leb128:
  "varuint_loop (leb128 n @ rest) result shift idx = (result OR push_bit shift (int n), idx + length (leb128 n))"
proof (induction n arbitrary: result shift idx rule: leb128.induct)
  case (1 n)
  show ?case
  proof (cases "n < 128")
    case True
    then show ?thesis by (simp add: leb128.simps [of n] low_bits high_bit uint_byte Let_def)
  next
    case False
    define b :: "8 word" where "b = word_of_nat (n mod 128 + 128)"
    have ub: "uint b = int n mod 128 + 128"
      unfolding b_def by (subst uint_byte) (simp_all add: zmod_int)
    have code: "leb128 n = b # leb128 (n div 128)"
      unfolding b_def using False by (subst leb128.simps) simp
    have "b AND 0x80 \<noteq> 0" "uint (b AND 0x7F) = int n mod 128"
      unfolding high_bit low_bits ub by simp_all
    then show ?thesis
      using 1 [OF False, of "result OR push_bit shift (int n mod 128)" "shift + 7" "idx + 1"]
      by (simp add: code zdiv_int group_or Let_def)
  qed
qed

lemma read_varuint_leb128: "read_varuint (leb128 n @ rest) = (int n, length (leb128 n))"
  by (simp add: read_varuint_def varuint_loop_leb128)

section \<open>The WIT parser\<close>

lemma last_rstrip: "py_rstrip s \<noteq> [] \<Longrightarrow> \<not> py_isspace (last (py_rstrip s))"
  using hd_dropWhile [of py_isspace "rev s"] by (auto simp: py_rstrip_def last_rev dropWhile_eq_Nil_conv)

lemma split_blanks_nonempty: "\<exists>c \<in> set s. \<not> py_isspace c \<Longrightarrow> split_blanks s \<noteq> []"
  by (subst split_blanks.simps) (auto simp: Let_def dropWhile_eq_Nil_conv)

lemma split_keyword:
  assumes "kw \<noteq> []" "list_all (\<lambda>c. \<not> py_isspace c) kw"
  shows "split_blanks (kw @ CHR '' '' # r) = kw # split_blanks (CHR '' '' # r)"
proof -
  have "dropWhile py_isspace (kw @ CHR '' '' # r) = kw @ CHR '' '' # r"
    using assms by (cases kw) auto
  moreover have "py_isspace CHR '' ''" by (simp add: py_isspace_def)
  then have "takeWhile (\<lambda>c. \<not> py_isspace c) (kw @ CHR '' '' # r) = kw"
    "dropWhile (\<lambda>c. \<not> py_isspace c) (kw @ CHR '' '' # r) = CHR '' '' # r"
    using assms(2) by (simp_all add: list_all_iff takeWhile_append2 dropWhile_append2)
  ultimately show ?thesis using assms(1) by (subst split_blanks.simps) (simp add: Let_def)
qed

lemma second_word_of_stripped:
  assumes "starts_with (py_strip line) (kw @ '' '')" "kw \<noteq> []" "list_all (\<lambda>c. \<not> py_isspace c) kw"
  shows "second_word (py_strip line) \<noteq> None"
proof -
  obtain r where r: "py_strip line = kw @ CHR '' '' # r"
    using assms(1) by (auto simp: starts_with_def prefix_def)
  then have "\<not> py_isspace (last (kw @ CHR '' '' # r))"
    using last_rstrip [of "py_lstrip line"] by (simp add: py_strip_def)
  moreover have "py_isspace CHR '' ''" by (simp add: py_isspace_def)
  ultimately have "r \<noteq> []" "\<not> py_isspace (last r)" by (auto split: if_splits)
  then have "split_blanks (CHR '' '' # r) \<noteq> []" by (intro split_blanks_nonempty) auto
  then show ?thesis
    using r by (auto simp: second_word_def split_keyword [OF assms(2,3)] neq_Nil_conv)
qed

lemma wit_line_total: "wit_line c line \<noteq> None"
proof -
  have "second_word (py_strip line) \<noteq> None" if "starts_with (py_strip line) ''package ''"
    by (rule second_word_of_stripped [of _ "''package''"]) (use that in \<open>simp_all add: py_isspace_def\<close>)
  moreover have "second_word (py_strip line) \<noteq> None" if "starts_with (py_strip line) ''interface ''"
    by (rule second_word_of_stripped [of _ "''interface''"]) (use that in \<open>simp_all add: py_isspace_def\<close>)
  ultimately show ?thesis by (simp add: wit_line_def parse_wit_header_line_def Let_def)
qed

lemma wit_lines_total: "wit_lines c ls \<noteq> None"
  by (induction ls arbitrary: c) (use wit_line_total in \<open>auto split: option.splits\<close>)

section \<open>Properties\<close>

text \<open>with costs that are not negative a metered run stops exactly when the costs exceed the gas
  left, and never accounts more than the budget.\<close>

theorem gas_accounting:
  assumes "list_all (\<lambda>i. 0 \<le> snd i) instrs" "gas_consumed env \<le> gas_budget env"
  shows "run_metered_workload env instrs =
    (let trap = (if gas_consumed env + total_cost instrs \<le> gas_budget env then TRAP_NONE else GAS_EXHAUSTED);
         used = min (gas_consumed env + total_cost instrs) (gas_budget env)
     in (env\<lparr>gas_consumed := used\<rparr>,
         \<lparr>res_trap = trap, res_gas_consumed = used, res_gas_remaining = gas_budget env - used,
          pages_allocated = allocated_pages env, res_output = join_with ''; '' (output_log env),
          res_findings = collect_trap_findings trap\<rparr>))"
  using step_workload_gas [OF assms] assms(2) by (simp add: run_metered_workload_def Let_def)

text \<open>a path is granted exactly when the components of some file system scope, resolved, are a
  prefix of its own: no sibling with the same first letters, no dot-dot detour; a scope that
  resolves to the root grants the root alone.\<close>

theorem filesystem_scope_is_component_prefix:
  assumes "\<forall>q. plain_components (resolve q)"
  shows "check_filesystem_access resolve p handles = None \<longleftrightarrow>
    list_ex (\<lambda>h. cap_kind h \<in> {FILESYSTEM_READ, FILESYSTEM_WRITE} \<and>
      (if resolve (scope h) = [] then resolve (path_posix p) = []
       else prefix (resolve (scope h)) (resolve (path_posix p)))) handles"
  using assms by (auto simp: check_filesystem_access_def has_fs_grant_def is_scoped_path_prefix list_ex_iff)

text \<open>the LEB128 reader decodes what the encoder of the specification writes, of any size and
  before any other bytes, and consumes exactly that.\<close>

theorem read_varuint_decodes: "read_varuint (leb128 n @ rest) = (int n, length (leb128 n))"
  by (rule read_varuint_leb128)

text \<open>a module whose only section claims 127 bytes and ends inside its own length is accepted.\<close>

theorem truncated_module_accepted:
  "validate_wasm_header (WASM_MAGIC @ [1, 0, 0, 0] @ [1, 0xFF]) =
     \<lparr>is_valid = True, wasm_version = 1, sections = [1], error_message = ''''\<rparr>"
  by (simp add: validate_wasm_header_def WASM_MAGIC_def parse_section_ids_def
      parse_sections_from.simps read_next_section_def read_varuint_def)

text \<open>the WIT parser never raises: a stripped line that starts with a keyword and a blank has a
  second word.\<close>

theorem wit_parser_total: "parse_wit_contract t \<noteq> None"
  by (simp add: parse_wit_contract_def wit_lines_total)

text \<open>A run that stops at its third instruction, and a scope with a sibling that shares its letters.\<close>

theorem gas_accounting_witness:
  "run_metered_workload (new_sandbox_env\<lparr>gas_budget := 5\<rparr>) [(''a'', 2), (''b'', 3), (''c'', 1)] =
    (let trap = (if gas_consumed (new_sandbox_env\<lparr>gas_budget := 5\<rparr>) + total_cost [(''a'', 2), (''b'', 3), (''c'', 1)]
                   \<le> gas_budget (new_sandbox_env\<lparr>gas_budget := 5\<rparr>) then TRAP_NONE else GAS_EXHAUSTED);
         used = min (gas_consumed (new_sandbox_env\<lparr>gas_budget := 5\<rparr>) + total_cost [(''a'', 2), (''b'', 3), (''c'', 1)])
                  (gas_budget (new_sandbox_env\<lparr>gas_budget := 5\<rparr>))
     in (new_sandbox_env\<lparr>gas_budget := 5\<rparr>\<lparr>gas_consumed := used\<rparr>,
         \<lparr>res_trap = trap, res_gas_consumed = used,
          res_gas_remaining = gas_budget (new_sandbox_env\<lparr>gas_budget := 5\<rparr>) - used,
          pages_allocated = allocated_pages (new_sandbox_env\<lparr>gas_budget := 5\<rparr>),
          res_output = join_with ''; '' (output_log (new_sandbox_env\<lparr>gas_budget := 5\<rparr>)),
          res_findings = collect_trap_findings trap\<rparr>))"
  by (rule gas_accounting) (simp_all add: new_sandbox_env_def)

definition sample_resolve :: resolver where
  "sample_resolve p = (if p = ''/data/x'' then [''data'', ''x''] else if p = ''/data'' then [''data'']
     else if p = ''/database'' then [''database''] else [])"

definition sample_handle :: capability_handle where
  "sample_handle = create_capability id 0 FILESYSTEM_READ ''/data'' ''wasi-cap''"

theorem filesystem_scope_is_component_prefix_witness:
  "check_filesystem_access sample_resolve ''/data//x'' [sample_handle] = None \<longleftrightarrow>
    list_ex (\<lambda>h. cap_kind h \<in> {FILESYSTEM_READ, FILESYSTEM_WRITE} \<and>
      (if sample_resolve (scope h) = [] then sample_resolve (path_posix ''/data//x'') = []
       else prefix (sample_resolve (scope h)) (sample_resolve (path_posix ''/data//x'')))) [sample_handle]"
  by (rule filesystem_scope_is_component_prefix) (simp add: sample_resolve_def plain_components_def)

end
