(* ===== verification/Syscall_Filter.thy ===== *)
theory Syscall_Filter
  imports Py_Text "HOL-Library.Word"
begin

text \<open>
  \<open>examples/ephemeral-container-sandbox/syscall_filter.py\<close>: the deny groups, their expansion to
  actions, the assembler of the BPF program, and what is installed in the child. The fields of
  \<open>struct sock_filter\<close> are words of the widths \<open>ctypes\<close> declares, so a value that does not fit is
  cut off. The kernel, \<open>prctl\<close> and \<open>platform\<close> are parameters.
\<close>

unbundle bit_operations_syntax

section \<open>Constants and tables\<close>

definition SECCOMP_RET_KILL_PROCESS :: int where "SECCOMP_RET_KILL_PROCESS = 0x80000000"
definition SECCOMP_RET_ERRNO :: int where "SECCOMP_RET_ERRNO = 0x00050000"
definition SECCOMP_RET_ALLOW :: int where "SECCOMP_RET_ALLOW = 0x7FFF0000"
definition EPERM :: int where "EPERM = 1"
definition DENY_EPERM :: int where "DENY_EPERM = SECCOMP_RET_ERRNO OR EPERM"
definition X32_SYSCALL_BIT :: int where "X32_SYSCALL_BIT = 0x40000000"
definition AUDIT_ARCH_X86_64 :: int where "AUDIT_ARCH_X86_64 = 0xC000003E"
definition BPF_LD :: int where "BPF_LD = 0x00"
definition BPF_W :: int where "BPF_W = 0x00"
definition BPF_ABS :: int where "BPF_ABS = 0x20"
definition BPF_JMP :: int where "BPF_JMP = 0x05"
definition BPF_JEQ :: int where "BPF_JEQ = 0x10"
definition BPF_JGE :: int where "BPF_JGE = 0x30"
definition BPF_K :: int where "BPF_K = 0x00"
definition BPF_RET :: int where "BPF_RET = 0x06"
definition OFFSET_NR :: int where "OFFSET_NR = 0"
definition OFFSET_ARCH :: int where "OFFSET_ARCH = 4"
definition SUPPORTED_ARCH :: string where "SUPPORTED_ARCH = ''x86_64''"

lemmas bpf_constants = BPF_LD_def BPF_W_def BPF_ABS_def BPF_JMP_def BPF_JEQ_def BPF_JGE_def
  BPF_K_def BPF_RET_def OFFSET_NR_def OFFSET_ARCH_def AUDIT_ARCH_X86_64_def X32_SYSCALL_BIT_def

lemmas action_constants = SECCOMP_RET_KILL_PROCESS_def SECCOMP_RET_ERRNO_def SECCOMP_RET_ALLOW_def
  EPERM_def DENY_EPERM_def

definition SYSCALLS :: "(string, int) dict" where
  "SYSCALLS =
    [(''accept'', 43), (''accept4'', 288), (''bind'', 49), (''connect'', 42), (''listen'', 50),
     (''recvfrom'', 45), (''recvmsg'', 47), (''sendmsg'', 46), (''sendto'', 44),
     (''socket'', 41), (''socketpair'', 53), (''capset'', 126), (''ioperm'', 173),
     (''iopl'', 172), (''setgid'', 106), (''setregid'', 114), (''setresgid'', 119),
     (''setresuid'', 117), (''setreuid'', 113), (''setuid'', 105), (''perf_event_open'', 298),
     (''process_vm_readv'', 310), (''process_vm_writev'', 311), (''ptrace'', 101),
     (''chroot'', 161), (''mount'', 165), (''pivot_root'', 155), (''setns'', 308),
     (''umount2'', 166), (''unshare'', 272), (''adjtimex'', 159), (''bpf'', 321),
     (''clock_settime'', 227), (''delete_module'', 176), (''finit_module'', 313),
     (''init_module'', 175), (''kexec_file_load'', 320), (''kexec_load'', 246),
     (''reboot'', 169), (''settimeofday'', 164), (''swapoff'', 168), (''swapon'', 167),
     (''userfaultfd'', 323), (''add_key'', 248), (''keyctl'', 250), (''request_key'', 249),
     (''clone'', 56), (''clone3'', 435), (''fork'', 57), (''vfork'', 58),
     (''io_uring_setup'', 425), (''io_uring_enter'', 426), (''io_uring_register'', 427)]"

definition DENY_GROUPS :: "(string, string list) dict" where
  "DENY_GROUPS =
    [(''network'',
      [''socket'', ''socketpair'', ''bind'', ''connect'', ''listen'', ''accept'', ''accept4'',
       ''sendto'', ''recvfrom'', ''sendmsg'', ''recvmsg'', ''io_uring_setup'',
       ''io_uring_enter'', ''io_uring_register'']),
     (''privilege'',
      [''setuid'', ''setgid'', ''setreuid'', ''setregid'', ''setresuid'', ''setresgid'',
       ''capset'', ''ioperm'', ''iopl'']),
     (''tracing'',
      [''ptrace'', ''process_vm_readv'', ''process_vm_writev'', ''perf_event_open'']),
     (''mount'',
      [''mount'', ''umount2'', ''pivot_root'', ''chroot'', ''unshare'', ''setns'']),
     (''kernel'',
      [''init_module'', ''delete_module'', ''finit_module'', ''kexec_load'', ''kexec_file_load'',
       ''reboot'', ''settimeofday'', ''clock_settime'', ''adjtimex'', ''swapon'', ''swapoff'',
       ''bpf'', ''userfaultfd'']),
     (''keyring'',
      [''add_key'', ''keyctl'', ''request_key'']),
     (''process_creation'',
      [''clone'', ''clone3'', ''fork'', ''vfork''])]"

definition GROUP_ACTIONS :: "(string, int) dict" where
  "GROUP_ACTIONS =
    [(''network'', DENY_EPERM), (''privilege'', SECCOMP_RET_KILL_PROCESS),
     (''tracing'', SECCOMP_RET_KILL_PROCESS), (''mount'', SECCOMP_RET_KILL_PROCESS),
     (''kernel'', SECCOMP_RET_KILL_PROCESS), (''keyring'', SECCOMP_RET_KILL_PROCESS),
     (''process_creation'', SECCOMP_RET_KILL_PROCESS)]"

definition DEFAULT_GROUPS :: "string list" where
  "DEFAULT_GROUPS =
    [''network'', ''privilege'', ''tracing'', ''mount'', ''kernel'', ''keyring'']"

section \<open>Deny groups to actions\<close>

datatype filter_error = Seccomp_Unavailable string | Missing_Key string

text \<open>The loop over the names of one group: the stronger action of two groups stays.\<close>

definition deny_call :: "int \<Rightarrow> string \<Rightarrow> (string, int) dict \<Rightarrow> (string, int) dict" where
  "deny_call act name actions =
     dict_set name (max (case dict_get actions name of Some a \<Rightarrow> a | None \<Rightarrow> 0) act) actions"

definition deny_group :: "string \<Rightarrow> (string, int) dict \<Rightarrow> (filter_error, (string, int) dict) result" where
  "deny_group grp actions =
     (case dict_get DENY_GROUPS grp of
        None \<Rightarrow> Inl (Missing_Key grp)
      | Some names \<Rightarrow>
         (case dict_get GROUP_ACTIONS grp of
            None \<Rightarrow> if names = [] then Inr actions else Inl (Missing_Key grp)
          | Some act \<Rightarrow> Inr (fold (deny_call act) names actions)))"

fun collect_group_actions :: "string list \<Rightarrow> (string, int) dict
    \<Rightarrow> (filter_error, (string, int) dict) result" where
  "collect_group_actions [] actions = Inr actions"
| "collect_group_actions (grp # groups) actions =
     result_bind (deny_group grp actions) (collect_group_actions groups)"

definition resolve :: "string list \<Rightarrow> (filter_error, (string, int) dict) result" where
  "resolve wanted =
     (let unknown = sorted_list_of_set (set wanted - set (dict_keys DENY_GROUPS)) in
      if unknown \<noteq> []
      then Inl (Seccomp_Unavailable (''unknown deny group(s) '' @ py_repr_list unknown
             @ ''; known: '' @ py_repr_list (sort (dict_keys DENY_GROUPS))))
      else result_bind (collect_group_actions wanted []) (\<lambda>actions.
        let missing = sort (filter (\<lambda>name. name \<notin> set (dict_keys SYSCALLS)) (dict_keys actions)) in
        if missing \<noteq> []
        then Inl (Seccomp_Unavailable (''no syscall number for '' @ py_repr_list missing
               @ '' on '' @ SUPPORTED_ARCH))
        else Inr (sort actions)))"

section \<open>The program\<close>

record sock_filter =
  code :: "16 word"
  jt :: "8 word"
  jf :: "8 word"
  k :: "32 word"

definition SockFilter :: "int \<Rightarrow> int \<Rightarrow> int \<Rightarrow> int \<Rightarrow> sock_filter" where
  "SockFilter c t f v = \<lparr>code = word_of_int c, jt = word_of_int t, jf = word_of_int f, k = word_of_int v\<rparr>"

definition denied_numbers :: "(string, int) dict \<Rightarrow> (filter_error, (int \<times> int) list) result" where
  "denied_numbers actions = map_result (\<lambda>(name, action).
     case dict_get SYSCALLS name of None \<Rightarrow> Inl (Missing_Key name) | Some nr \<Rightarrow> Inr (nr, action)) actions"

definition program_head :: "sock_filter list" where
  "program_head =
     [SockFilter (BPF_LD OR BPF_W OR BPF_ABS) 0 0 OFFSET_ARCH,
      SockFilter (BPF_JMP OR BPF_JEQ OR BPF_K) 1 0 AUDIT_ARCH_X86_64,
      SockFilter (BPF_RET OR BPF_K) 0 0 SECCOMP_RET_KILL_PROCESS,
      SockFilter (BPF_LD OR BPF_W OR BPF_ABS) 0 0 OFFSET_NR,
      SockFilter (BPF_JMP OR BPF_JGE OR BPF_K) 0 1 X32_SYSCALL_BIT,
      SockFilter (BPF_RET OR BPF_K) 0 0 SECCOMP_RET_KILL_PROCESS]"

definition denied_block :: "int \<times> int \<Rightarrow> sock_filter list" where
  "denied_block call =
     [SockFilter (BPF_JMP OR BPF_JEQ OR BPF_K) 0 1 (fst call),
      SockFilter (BPF_RET OR BPF_K) 0 0 (snd call)]"

definition build_program :: "(string, int) dict \<Rightarrow> (filter_error, sock_filter list) result" where
  "build_program actions = result_bind (denied_numbers actions) (\<lambda>denied.
     Inr (program_head @ concat (map denied_block denied)
       @ [SockFilter (BPF_RET OR BPF_K) 0 0 SECCOMP_RET_ALLOW]))"

section \<open>Installation\<close>

record sock_fprog =
  prog_len :: "16 word"
  prog_filter :: "sock_filter list"

definition make_fprog :: "sock_filter list \<Rightarrow> sock_fprog" where
  "make_fprog program = \<lparr>prog_len = word_of_nat (length program), prog_filter = program\<rparr>"

datatype prctl_call = Set_No_New_Privs | Set_Seccomp_Filter sock_fprog

text \<open>
  \<open>prctl\<close> is the kernel: a call in a state gives a return value and the next state. What
  \<open>installer\<close> prepares and what its \<open>apply\<close> does in the child.
\<close>

definition installer :: "string \<Rightarrow> string list \<Rightarrow> (filter_error, sock_fprog) result" where
  "installer platform_system groups =
     (if platform_system \<noteq> ''Linux'' then Inl (Seccomp_Unavailable ''not Linux'')
      else result_bind (resolve groups) (\<lambda>actions.
        result_bind (build_program actions) (\<lambda>program. Inr (make_fprog program))))"

definition apply_filter ::
  "(prctl_call \<Rightarrow> 'k \<Rightarrow> int \<times> 'k) \<Rightarrow> sock_fprog \<Rightarrow> 'k \<Rightarrow> (string, unit) result \<times> 'k" where
  "apply_filter prctl fprog s =
     (case prctl Set_No_New_Privs s of
        (r1, s1) \<Rightarrow>
          if r1 \<noteq> 0 then (Inl ''PR_SET_NO_NEW_PRIVS failed'', s1)
          else (case prctl (Set_Seccomp_Filter fprog) s1 of
            (r2, s2) \<Rightarrow> if r2 \<noteq> 0 then (Inl ''PR_SET_SECCOMP failed'', s2) else (Inr (), s2)))"

datatype install_error = Unavailable filter_error | Install_Os_Error string

definition install :: "string \<Rightarrow> (prctl_call \<Rightarrow> 'k \<Rightarrow> int \<times> 'k) \<Rightarrow> string list \<Rightarrow> 'k
    \<Rightarrow> (install_error, unit) result \<times> 'k" where
  "install platform_system prctl groups s =
     (case installer platform_system groups of
        Inl e \<Rightarrow> (Inl (Unavailable e), s)
      | Inr fprog \<Rightarrow>
         (case apply_filter prctl fprog s of
            (Inl e, s') \<Rightarrow> (Inl (Install_Os_Error e), s') | (Inr u, s') \<Rightarrow> (Inr u, s')))"

text \<open>The throwaway child: a \<open>KeyError\<close> would kill it before it answers.\<close>

definition probe_child :: "string \<Rightarrow> (prctl_call \<Rightarrow> 'k \<Rightarrow> int \<times> 'k) \<Rightarrow> 'k \<Rightarrow> string" where
  "probe_child platform_system prctl s =
     (case fst (install platform_system prctl [''network''] s) of
        Inr _ \<Rightarrow> ''1''
      | Inl (Unavailable (Missing_Key _)) \<Rightarrow> ''''
      | Inl _ \<Rightarrow> ''0'')"

definition probe :: "string \<Rightarrow> (prctl_call \<Rightarrow> 'k \<Rightarrow> int \<times> 'k) \<Rightarrow> 'k \<Rightarrow> bool \<times> string" where
  "probe platform_system prctl s =
     (if probe_child platform_system prctl s = ''1'' then (True, '''')
      else (False, ''the kernel refused a seccomp filter''))"

definition supported ::
  "string \<Rightarrow> string \<Rightarrow> (prctl_call \<Rightarrow> 'k \<Rightarrow> int \<times> 'k) \<Rightarrow> 'k \<Rightarrow> bool \<times> string" where
  "supported platform_system machine prctl s =
     (if platform_system \<noteq> ''Linux''
      then (False, ''seccomp is a Linux facility; this is '' @ platform_system)
      else if machine \<noteq> SUPPORTED_ARCH
      then (False, ''no syscall table for '' @ machine @ ''; only '' @ SUPPORTED_ARCH @ '' is tabulated'')
      else probe platform_system prctl s)"

datatype rlimit = RLIMIT_AS | RLIMIT_CPU | RLIMIT_NPROC | RLIMIT_CORE

definition limiter :: "int \<Rightarrow> int \<Rightarrow> int \<Rightarrow> (rlimit \<times> int \<times> int) list" where
  "limiter memory_mb cpu_seconds max_processes =
     [(RLIMIT_AS, memory_mb * 1024 * 1024, memory_mb * 1024 * 1024),
      (RLIMIT_CPU, cpu_seconds, cpu_seconds),
      (RLIMIT_NPROC, max_processes, max_processes),
      (RLIMIT_CORE, 0, 0)]"

end
