(* ===== verification/Syscall_Props.thy ===== *)
theory Syscall_Props
  imports Syscall_Filter
begin

text \<open>
  What the assembled filter does on the kernel's BPF machine. The locale states the documented
  meaning of the four instruction forms the program uses; the interpreter below is an instance.
  The program decides every call as the deny tables say, and a wider policy never weakens it.
\<close>

section \<open>The BPF machine\<close>

text \<open>
  \<open>exec p a nr arch\<close> runs what is left of a program with accumulator \<open>a\<close> on the call \<open>nr\<close> of the
  architecture \<open>arch\<close>. Jumps are relative to the next instruction; comparisons are unsigned.
\<close>

locale bpf_machine =
  fixes exec :: "sock_filter list \<Rightarrow> 32 word \<Rightarrow> 32 word \<Rightarrow> 32 word \<Rightarrow> 32 word option"
  assumes load_nr: "exec (SockFilter (BPF_LD OR BPF_W OR BPF_ABS) t f OFFSET_NR # p) a nr arch = exec p nr nr arch"
    and load_arch: "exec (SockFilter (BPF_LD OR BPF_W OR BPF_ABS) t f OFFSET_ARCH # p) a nr arch = exec p arch nr arch"
    and jump_eq: "exec (SockFilter (BPF_JMP OR BPF_JEQ OR BPF_K) t f v # p) a nr arch =
      exec (drop (unat (word_of_int (if a = word_of_int v then t else f) :: 8 word)) p) a nr arch"
    and jump_ge: "exec (SockFilter (BPF_JMP OR BPF_JGE OR BPF_K) t f v # p) a nr arch =
      exec (drop (unat (word_of_int (if word_of_int v \<le> a then t else f) :: 8 word)) p) a nr arch"
    and ret: "exec (SockFilter (BPF_RET OR BPF_K) t f v # p) a nr arch = Some (word_of_int v)"
begin

lemmas steps = load_nr load_arch jump_eq jump_ge ret

lemma exec_denied:
  assumes "list_all (\<lambda>(n, act). 0 \<le> n \<and> n < 2 ^ 32) denied"
  shows "exec (concat (map denied_block denied) @ [SockFilter (BPF_RET OR BPF_K) 0 0 SECCOMP_RET_ALLOW])
      nr nr arch =
    Some (word_of_int (case map_of denied (uint nr) of Some act \<Rightarrow> act | None \<Rightarrow> SECCOMP_RET_ALLOW))"
  using assms
proof (induction denied)
  case Nil
  then show ?case by (simp add: ret)
next
  case (Cons x xs)
  obtain n act where x: "x = (n, act)" by (cases x)
  have "0 \<le> n" "n < 2 ^ 32" using Cons.prems x by simp_all
  then have "uint (word_of_int n :: 32 word) = n"
    by (simp add: uint_word_of_int_eq take_bit_eq_mod)
  then have "nr = word_of_int n \<longleftrightarrow> uint nr = n" by (metis word_of_int_uint)
  then show ?case using Cons x by (simp add: denied_block_def steps)
qed

lemma exec_program:
  assumes "denied_numbers actions = Inr denied" "list_all (\<lambda>(n, act). 0 \<le> n \<and> n < 2 ^ 32) denied"
    and "build_program actions = Inr prog"
  shows "exec prog a nr arch = Some (word_of_int
    (if arch \<noteq> word_of_int AUDIT_ARCH_X86_64 then SECCOMP_RET_KILL_PROCESS
     else if word_of_int X32_SYSCALL_BIT \<le> nr then SECCOMP_RET_KILL_PROCESS
     else case map_of denied (uint nr) of Some act \<Rightarrow> act | None \<Rightarrow> SECCOMP_RET_ALLOW))"
  using assms(3) exec_denied [OF assms(2)]
  by (auto simp: build_program_def assms(1) program_head_def steps)

end

function bpf_exec :: "sock_filter list \<Rightarrow> 32 word \<Rightarrow> 32 word \<Rightarrow> 32 word \<Rightarrow> 32 word option" where
  "bpf_exec [] a nr arch = None"
| "bpf_exec (i # p) a nr arch =
     (if code i = 0x20
      then (if k i = 0 then bpf_exec p nr nr arch
            else if k i = 4 then bpf_exec p arch nr arch else None)
      else if code i = 0x15 then bpf_exec (drop (unat (if a = k i then jt i else jf i)) p) a nr arch
      else if code i = 0x35 then bpf_exec (drop (unat (if k i \<le> a then jt i else jf i)) p) a nr arch
      else if code i = 0x06 then Some (k i)
      else None)"
  by pat_completeness auto
termination by (relation "measure (\<lambda>(p, a, nr, arch). length p)") auto

interpretation bpf: bpf_machine bpf_exec
  by unfold_locales (simp_all add: SockFilter_def bpf_constants)

section \<open>The tables\<close>

lemma syscall_numbers_distinct: "distinct (map snd SYSCALLS)"
  by (simp add: SYSCALLS_def)

lemma syscall_numbers_small: "list_all (\<lambda>(name, n). 0 \<le> n \<and> n < 2 ^ 30) SYSCALLS"
  by (simp add: SYSCALLS_def)

lemma group_actions_range: "list_all (\<lambda>(g, act). act \<in> {SECCOMP_RET_KILL_PROCESS, DENY_EPERM}) GROUP_ACTIONS"
  by (simp add: GROUP_ACTIONS_def)

lemma groups_have_actions: "list_all (\<lambda>g. dict_get GROUP_ACTIONS g \<noteq> None) (dict_keys DENY_GROUPS)"
  by code_simp

lemma groups_have_numbers:
  "list_all (list_all (\<lambda>name. dict_get SYSCALLS name \<noteq> None)) (dict_values DENY_GROUPS)"
  by code_simp

section \<open>What the groups deny\<close>

definition known_groups :: "string list \<Rightarrow> bool" where
  "known_groups groups \<longleftrightarrow> list_all (\<lambda>g. g \<in> set (dict_keys DENY_GROUPS)) groups"

text \<open>The actions the named groups ask for, for the names of one call.\<close>

definition group_calls :: "string \<Rightarrow> (string \<times> int) list" where
  "group_calls g = (case (dict_get DENY_GROUPS g, dict_get GROUP_ACTIONS g) of
     (Some names, Some act) \<Rightarrow> map (\<lambda>name. (name, act)) names | _ \<Rightarrow> [])"

definition call_actions :: "string list \<Rightarrow> int \<Rightarrow> int list" where
  "call_actions groups n =
     map snd (filter (\<lambda>(name, act). dict_get SYSCALLS name = Some n) (concat (map group_calls groups)))"

text \<open>The policy as documented: other architectures and the x32 ABI are killed, a call denied by a
  group gets the strongest action asked for, every other call is allowed.\<close>

definition policy_action :: "string list \<Rightarrow> 32 word \<Rightarrow> 32 word \<Rightarrow> int" where
  "policy_action groups nr arch =
     (if uint arch \<noteq> AUDIT_ARCH_X86_64 \<or> X32_SYSCALL_BIT \<le> uint nr then SECCOMP_RET_KILL_PROCESS
      else if call_actions groups (uint nr) = [] then SECCOMP_RET_ALLOW
      else Max (set (call_actions groups (uint nr))))"

lemma group_lookup:
  assumes "g \<in> set (dict_keys DENY_GROUPS)"
  obtains names act where "dict_get DENY_GROUPS g = Some names" "dict_get GROUP_ACTIONS g = Some act"
    "act \<in> {SECCOMP_RET_KILL_PROCESS, DENY_EPERM}"
    "list_all (\<lambda>name. dict_get SYSCALLS name \<noteq> None) names"
proof -
  obtain names where n: "dict_get DENY_GROUPS g = Some names"
    using assms alist_dict.get_iff_key [of DENY_GROUPS g] by auto
  obtain act where a: "dict_get GROUP_ACTIONS g = Some act"
    using assms groups_have_actions by (auto simp: list_all_iff)
  show thesis
  proof (rule that [OF n a])
    show "act \<in> {SECCOMP_RET_KILL_PROCESS, DENY_EPERM}"
      using dict_get_in_set [OF a] group_actions_range by (auto simp: list_all_iff)
    show "list_all (\<lambda>name. dict_get SYSCALLS name \<noteq> None) names"
      using dict_get_in_set [OF n] groups_have_numbers
      by (force simp: list_all_iff dict_values_def)
  qed
qed

lemma group_calls_facts:
  assumes "(name, act) \<in> set (group_calls g)"
  shows "act \<in> {SECCOMP_RET_KILL_PROCESS, DENY_EPERM}" "dict_get SYSCALLS name \<noteq> None"
proof -
  obtain names where n: "dict_get DENY_GROUPS g = Some names" "name \<in> set names"
      "dict_get GROUP_ACTIONS g = Some act"
    using assms by (cases "dict_get DENY_GROUPS g"; cases "dict_get GROUP_ACTIONS g")
      (auto simp: group_calls_def)
  have "g \<in> set (dict_keys DENY_GROUPS)"
    using n alist_dict.get_iff_key [of DENY_GROUPS g] by auto
  then show "act \<in> {SECCOMP_RET_KILL_PROCESS, DENY_EPERM}" "dict_get SYSCALLS name \<noteq> None"
    using n by (auto elim!: group_lookup simp: list_all_iff)
qed

lemma deny_group_eq: "g \<in> set (dict_keys DENY_GROUPS) \<Longrightarrow>
    deny_group g d = Inr (fold (\<lambda>(name, act). deny_call act name) (group_calls g) d)"
  by (erule group_lookup) (simp add: deny_group_def group_calls_def fold_map comp_def)

lemma collect_eq: "known_groups groups \<Longrightarrow> collect_group_actions groups d =
    Inr (fold (\<lambda>(name, act). deny_call act name) (concat (map group_calls groups)) d)"
  by (induction groups arbitrary: d) (auto simp: known_groups_def deny_group_eq)

lemma get_fold_deny: "dict_get (fold (\<lambda>(name, act). deny_call act name) ps d) name =
    (let as = map snd (filter (\<lambda>p. fst p = name) ps) in
     if as = [] then dict_get d name
     else Some (fold max as (case dict_get d name of Some a \<Rightarrow> a | None \<Rightarrow> 0)))"
  by (induction ps arbitrary: d) (auto simp: Let_def deny_call_def max.commute split: option.split)

lemma wf_fold_deny: "wf_dict d \<Longrightarrow> wf_dict (fold (\<lambda>(name, act). deny_call act name) ps d)"
  by (induction ps arbitrary: d) (auto simp: deny_call_def alist_dict.inv_set)

lemma fold_max_Max:
  assumes "as \<noteq> []" "list_all (\<lambda>a. (0 :: int) \<le> a) as"
  shows "fold max as 0 = Max (set as)"
proof -
  have "fold max as 0 = Max (insert 0 (set as))"
    using Max.set_eq_fold [of 0 as] by simp
  also have "\<dots> = max 0 (Max (set as))" using assms(1) by simp
  also have "0 \<le> Max (set as)"
    using assms Max_in [of "set as"] by (auto simp: list_all_iff)
  then have "max 0 (Max (set as)) = Max (set as)" by simp
  finally show ?thesis .
qed

lemma action_nonneg: "act \<in> {SECCOMP_RET_KILL_PROCESS, DENY_EPERM} \<Longrightarrow> 0 \<le> act \<and> act < 2 ^ 32"
  by (auto simp: action_constants)

definition collected :: "string list \<Rightarrow> (string, int) dict" where
  "collected groups = fold (\<lambda>(name, act). deny_call act name) (concat (map group_calls groups)) []"

lemma collected_get: "dict_get (collected groups) name =
    (let as = map snd (filter (\<lambda>p. fst p = name) (concat (map group_calls groups))) in
     if as = [] then None else Some (Max (set as)))"
proof -
  let ?as = "map snd (filter (\<lambda>p. fst p = name) (concat (map group_calls groups)))"
  have "list_all (\<lambda>a. 0 \<le> a) ?as"
    using group_calls_facts(1) action_nonneg by (fastforce simp: list_all_iff)
  then show ?thesis
    unfolding collected_def get_fold_deny Let_def using fold_max_Max [of ?as] by simp
qed

lemma collected_wf [simp]: "wf_dict (collected groups)"
  by (simp add: collected_def wf_fold_deny)

lemma collected_facts:
  assumes "(name, act) \<in> set (collected groups)"
  shows "act \<in> {SECCOMP_RET_KILL_PROCESS, DENY_EPERM}" "dict_get SYSCALLS name \<noteq> None"
proof -
  let ?as = "map snd (filter (\<lambda>p. fst p = name) (concat (map group_calls groups)))"
  have "dict_get (collected groups) name = Some act" using assms by (simp add: dict_get_iff)
  then have "?as \<noteq> []" "act = Max (set ?as)" by (auto simp: collected_get Let_def split: if_splits)
  then have "act \<in> set ?as" using Max_in [of "set ?as"] by (metis List.finite_set set_empty)
  then obtain g where "(name, act) \<in> set (group_calls g)" by auto
  then show "act \<in> {SECCOMP_RET_KILL_PROCESS, DENY_EPERM}" "dict_get SYSCALLS name \<noteq> None"
    by (rule group_calls_facts)+
qed

lemma resolve_known:
  assumes "known_groups groups"
  shows "resolve groups = Inr (sort (collected groups))"
proof -
  have none: "set groups - set (dict_keys DENY_GROUPS) = {}"
    using assms by (auto simp: known_groups_def list_all_iff)
  have "filter (\<lambda>name. name \<notin> set (dict_keys SYSCALLS)) (dict_keys (collected groups)) = []"
    using collected_facts(2) [where groups = groups] alist_dict.get_iff_key [of SYSCALLS]
    by (fastforce simp: filter_empty_conv dict_keys_def)
  then show ?thesis
    unfolding resolve_def none using collect_eq [OF assms, of "[]"]
    by (simp add: collected_def [symmetric])
qed

lemma resolve_unknown: "\<not> known_groups groups \<Longrightarrow> \<exists>m. resolve groups = Inl (Seccomp_Unavailable m)"
proof -
  assume "\<not> known_groups groups"
  then have "sorted_list_of_set (set groups - set (dict_keys DENY_GROUPS)) \<noteq> []"
    by (auto simp: known_groups_def list_all_iff)
  then show ?thesis by (simp add: resolve_def Let_def)
qed

lemma sort_wf_map_of: "wf_dict (d :: ('a :: linorder \<times> 'b :: linorder) list) \<Longrightarrow> map_of (sort d) = map_of d"
  by (subst map_of_inject_set) (auto simp: wf_dict_def distinct_map)

lemma number_inj: "dict_get SYSCALLS a = Some n \<Longrightarrow> dict_get SYSCALLS b = Some n \<Longrightarrow> a = b"
  using syscall_numbers_distinct
  by (metis dict_get_in_set distinct_map inj_onD prod.inject snd_conv)

definition number :: "string \<Rightarrow> int" where
  "number name = the (dict_get SYSCALLS name)"

lemma denied_numbers_collected:
  "denied_numbers (sort (collected groups)) =
     Inr (map (\<lambda>(name, act). (number name, act)) (sort (collected groups)))"
proof -
  have "map_result (\<lambda>(name, action).
      case dict_get SYSCALLS name of None \<Rightarrow> Inl (Missing_Key name) | Some nr \<Rightarrow> Inr (nr, action))
      (map (\<lambda>x. x) (sort (collected groups))) =
    Inr (map (\<lambda>(name, act). (number name, act)) (sort (collected groups)))"
    using collected_facts(2) by (intro map_result_map) (fastforce simp: number_def)
  then show ?thesis by (simp add: denied_numbers_def)
qed

text \<open>The numbers identify the names, so the number table decides as the name table does.\<close>

lemma map_of_numbers:
  assumes "wf_dict d" "\<And>name act. (name, act) \<in> set d \<Longrightarrow> dict_get SYSCALLS name \<noteq> None"
  shows "map_of (map (\<lambda>(name, act). (number name, act)) d) n = Some act \<longleftrightarrow>
    (\<exists>name. dict_get SYSCALLS name = Some n \<and> dict_get d name = Some act)"
proof -
  have "inj_on number (set (map fst d))"
  proof (rule inj_onI)
    fix a b assume "a \<in> set (map fst d)" "b \<in> set (map fst d)" "number a = number b"
    moreover from this have "dict_get SYSCALLS a \<noteq> None" "dict_get SYSCALLS b \<noteq> None"
      using assms(2) by force+
    ultimately show "a = b" using number_inj by (fastforce simp: number_def)
  qed
  then have "distinct (map number (map fst d))"
    using assms(1) unfolding wf_dict_def distinct_map [of number] by blast
  then have "distinct (map fst (map (\<lambda>(name, act). (number name, act)) d))"
    by (simp add: comp_def case_prod_unfold)
  then have "map_of (map (\<lambda>(name, act). (number name, act)) d) n = Some act \<longleftrightarrow>
      (n, act) \<in> set (map (\<lambda>(name, act). (number name, act)) d)"
    by (rule map_of_eq_Some_iff)
  also have "\<dots> \<longleftrightarrow> (\<exists>name. (name, act) \<in> set d \<and> number name = n)" by auto
  also have "\<dots> \<longleftrightarrow> (\<exists>name. (name, act) \<in> set d \<and> dict_get SYSCALLS name = Some n)"
  proof -
    have "number name = n \<longleftrightarrow> dict_get SYSCALLS name = Some n" if "(name, act) \<in> set d" for name
      using assms(2) [OF that] by (auto simp: number_def)
    then show ?thesis by blast
  qed
  finally have "map_of (map (\<lambda>(name, act). (number name, act)) d) n = Some act \<longleftrightarrow>
    (\<exists>name. (name, act) \<in> set d \<and> dict_get SYSCALLS name = Some n)" .
  then show ?thesis by (auto simp: dict_get_iff [OF assms(1)])
qed

lemma number_range: "dict_get SYSCALLS name = Some n \<Longrightarrow> 0 \<le> n \<and> n < 2 ^ 30"
  using syscall_numbers_small by (auto simp: list_all_iff dest!: dict_get_in_set)

lemma denied_range: "list_all (\<lambda>(n, act). 0 \<le> n \<and> n < 2 ^ 32)
    (map (\<lambda>(name, act). (number name, act)) (sort (collected groups)))"
  using collected_facts(2) number_range by (fastforce simp: list_all_iff number_def)

lemma denied_decides:
  "(case map_of (map (\<lambda>(name, act). (number name, act)) (sort (collected groups))) n of
      Some act \<Rightarrow> act | None \<Rightarrow> SECCOMP_RET_ALLOW) =
   (if call_actions groups n = [] then SECCOMP_RET_ALLOW else Max (set (call_actions groups n)))"
proof -
  let ?ps = "concat (map group_calls groups)"
  let ?den = "map (\<lambda>(name, act). (number name, act)) (sort (collected groups))"
  have wf: "wf_dict (sort (collected groups))"
    using collected_wf by (simp add: wf_dict_def distinct_map)
  have den: "map_of ?den n = Some act \<longleftrightarrow>
      (\<exists>name. dict_get SYSCALLS name = Some n \<and> dict_get (collected groups) name = Some act)" for act
    using collected_facts(2)
    by (subst map_of_numbers [OF wf]) (auto simp: dict_get_def sort_wf_map_of)
  show ?thesis
  proof (cases "\<exists>name. dict_get SYSCALLS name = Some n")
    case True
    then obtain name where name: "dict_get SYSCALLS name = Some n" ..
    then have uniq: "dict_get SYSCALLS x = Some n \<longleftrightarrow> x = name" for x
      using number_inj by blast
    have "call_actions groups n = map snd (filter (\<lambda>p. fst p = name) ?ps)"
      by (simp add: call_actions_def uniq case_prod_unfold)
    moreover have "map_of ?den n = Some act \<longleftrightarrow> dict_get (collected groups) name = Some act" for act
      using den by (simp add: uniq)
    then have "map_of ?den n = dict_get (collected groups) name"
      by (metis option.exhaust)
    ultimately show ?thesis by (simp add: collected_get Let_def del: set_map)
  next
    case False
    then have "map_of ?den n = None" "call_actions groups n = []"
      using den by (auto simp: call_actions_def filter_empty_conv)
    then show ?thesis by simp
  qed
qed

section \<open>Properties\<close>

text \<open>C3: On every machine with the documented BPF semantics the program assembled from known groups
  returns, for every call number and architecture, the action the policy tables prescribe: other
  architectures and the x32 ABI are killed, a call named by a group gets the strongest action asked
  for, everything else is allowed.\<close>

theorem filter_enforces_policy:
  assumes "bpf_machine exec" "known_groups groups"
    and "result_bind (resolve groups) build_program = Inr prog"
  shows "exec prog a nr arch = Some (word_of_int (policy_action groups nr arch))"
proof -
  have "arch \<noteq> word_of_int AUDIT_ARCH_X86_64 \<longleftrightarrow> uint arch \<noteq> AUDIT_ARCH_X86_64"
    by (simp add: word_uint_eq_iff AUDIT_ARCH_X86_64_def)
  moreover have "word_of_int X32_SYSCALL_BIT \<le> nr \<longleftrightarrow> X32_SYSCALL_BIT \<le> uint nr"
    by (simp add: word_le_def X32_SYSCALL_BIT_def)
  ultimately show ?thesis
    using assms(3) bpf_machine.exec_program [OF assms(1) denied_numbers_collected denied_range]
    by (simp add: resolve_known [OF assms(2)] policy_action_def denied_decides)
qed

theorem filter_enforces_policy_witness:
  "\<exists>prog. result_bind (resolve [''tracing'']) build_program = Inr prog \<and>
    bpf_exec prog 0 101 0xC000003E = Some (word_of_int (policy_action [''tracing''] 101 0xC000003E))"
proof -
  have k: "known_groups [''tracing'']" by code_simp
  obtain prog where p: "result_bind (resolve [''tracing'']) build_program = Inr prog"
    by (simp add: resolve_known [OF k] build_program_def denied_numbers_collected)
  show ?thesis
    using p filter_enforces_policy [OF bpf.bpf_machine_axioms k p] by blast
qed

text \<open>Adding groups to a policy never weakens it: every call keeps its action, or was allowed
  before, or is killed now.\<close>

theorem widening_never_weakens:
  assumes "known_groups groups" "known_groups extra"
  shows "policy_action (groups @ extra) nr arch = policy_action groups nr arch
    \<or> policy_action groups nr arch = SECCOMP_RET_ALLOW
    \<or> policy_action (groups @ extra) nr arch = SECCOMP_RET_KILL_PROCESS"
proof -
  let ?as = "call_actions groups (uint nr)" and ?bs = "call_actions extra (uint nr)"
  have app: "call_actions (groups @ extra) (uint nr) = ?as @ ?bs" by (simp add: call_actions_def)
  have range: "set (call_actions g (uint nr)) \<subseteq> {SECCOMP_RET_KILL_PROCESS, DENY_EPERM}" for g
    using group_calls_facts(1) by (fastforce simp: call_actions_def)
  have two: "Max (set xs) = SECCOMP_RET_KILL_PROCESS \<or> Max (set xs) = DENY_EPERM \<and> set xs = {DENY_EPERM}"
    if "xs \<noteq> []" "set xs \<subseteq> {SECCOMP_RET_KILL_PROCESS, DENY_EPERM}" for xs
  proof (cases "SECCOMP_RET_KILL_PROCESS \<in> set xs")
    case True
    have "Max (set xs) = SECCOMP_RET_KILL_PROCESS"
    proof (rule Max_eqI [OF _ _ True])
      show "a \<le> SECCOMP_RET_KILL_PROCESS" if "a \<in> set xs" for a
        using that \<open>set xs \<subseteq> _\<close> by (auto simp: action_constants)
    qed simp
    then show ?thesis ..
  next
    case False
    then have "set xs \<subseteq> {DENY_EPERM}" using that(2) by blast
    then have "set xs = {DENY_EPERM}" using that(1) by (simp add: subset_singleton_iff)
    then show ?thesis by simp
  qed
  show ?thesis
  proof (cases "?as = []")
    case False
    have all: "set (?as @ ?bs) \<subseteq> {SECCOMP_RET_KILL_PROCESS, DENY_EPERM}"
      using range [of groups] range [of extra] by simp
    have "Max (set ?as) \<in> set (?as @ ?bs)" using False Max_in [of "set ?as"] by simp
    then show ?thesis
      using two [OF False range] two [OF _ all] False
      unfolding policy_action_def app by (auto simp del: set_append)
  qed (simp add: policy_action_def app)
qed

theorem widening_never_weakens_witness:
  "policy_action ([''network''] @ [''tracing'']) 41 0xC000003E = policy_action [''network''] 41 0xC000003E
    \<or> policy_action [''network''] 41 0xC000003E = SECCOMP_RET_ALLOW
    \<or> policy_action ([''network''] @ [''tracing'']) 41 0xC000003E = SECCOMP_RET_KILL_PROCESS"
  by (rule widening_never_weakens) code_simp+

text \<open>Every jump of a program lands on a later instruction of it and the last one returns.\<close>

fun jumps_inside :: "sock_filter list \<Rightarrow> bool" where
  "jumps_inside [] = True"
| "jumps_inside (i # p) =
     ((code i = 0x06 \<or> max (unat (jt i)) (unat (jf i)) < length p) \<and> jumps_inside p)"

lemma jumps_inside_denied:
  "jumps_inside (concat (map denied_block denied) @ [SockFilter (BPF_RET OR BPF_K) 0 0 v])"
  by (induction denied) (simp_all add: denied_block_def SockFilter_def bpf_constants)

lemma length_denied_blocks: "length (concat (map denied_block denied)) = 2 * length denied"
  by (induction denied) (simp_all add: denied_block_def)

lemma jumps_inside_program: "build_program actions = Inr prog \<Longrightarrow> jumps_inside prog"
  using jumps_inside_denied
  by (cases "denied_numbers actions")
    (auto simp: build_program_def program_head_def SockFilter_def bpf_constants)

lemma collected_length: "length (collected groups) \<le> 53"
proof -
  have "set (map fst (collected groups)) \<subseteq> set (map fst SYSCALLS)"
    using collected_facts(2) alist_dict.get_iff_key [of SYSCALLS]
    by (fastforce simp: dict_keys_def)
  then have "card (set (map fst (collected groups))) \<le> card (set (map fst SYSCALLS))"
    by (intro card_mono) simp_all
  moreover have "card (set (map fst (collected groups))) = length (collected groups)"
    using collected_wf distinct_card [of "map fst (collected groups)"] by (simp add: wf_dict_def)
  moreover have "card (set (map fst SYSCALLS)) \<le> length SYSCALLS"
    using card_length [of "map fst SYSCALLS"] by simp
  moreover have "length SYSCALLS = 53" by (simp add: SYSCALLS_def)
  ultimately show ?thesis by simp
qed

text \<open>C38: On Linux exactly the policies made of known groups are assembled; the program then has at
  most 113 instructions, well below the kernel's limit of 4096, its length field is not cut off and
  no jump leaves it. An unknown group is refused, never skipped.\<close>

theorem filter_program_is_loadable:
  "case installer ''Linux'' groups of
     Inr fprog \<Rightarrow> known_groups groups \<and> length (prog_filter fprog) \<le> 113
       \<and> unat (prog_len fprog) = length (prog_filter fprog) \<and> jumps_inside (prog_filter fprog)
   | Inl e \<Rightarrow> \<not> known_groups groups \<and> (\<exists>m. e = Seccomp_Unavailable m)"
proof (cases "known_groups groups")
  case True
  let ?den = "map (\<lambda>(name, act). (number name, act)) (sort (collected groups))"
  obtain prog where prog: "build_program (sort (collected groups)) = Inr prog"
    by (simp add: build_program_def denied_numbers_collected)
  then have "prog = program_head @ concat (map denied_block ?den)
      @ [SockFilter (BPF_RET OR BPF_K) 0 0 SECCOMP_RET_ALLOW]"
    unfolding build_program_def denied_numbers_collected by simp
  then have "length prog = 7 + 2 * length (collected groups)"
    by (simp only: length_append length_denied_blocks) (simp add: program_head_def)
  then have "length prog \<le> 113" using collected_length [of groups] by simp
  moreover from this have "unat (word_of_nat (length prog) :: 16 word) = length prog"
    by (simp add: unat_of_nat)
  ultimately show ?thesis
    using True prog jumps_inside_program [OF prog]
    by (simp add: installer_def resolve_known make_fprog_def)
next
  case False
  then obtain m where "resolve groups = Inl (Seccomp_Unavailable m)" using resolve_unknown by blast
  then show ?thesis using False by (simp add: installer_def)
qed

end
