(* ===== verification/Context_Packer.thy ===== *)
theory Context_Packer
  imports Py_Text
begin

text \<open>
  \<open>examples/binary-search-context-packer/context_packer.py\<close>: the token estimate, the symbols of a
  module with their three renderings, and the binary search for the largest prefix of symbols that
  fits a budget. \<open>ast.parse\<close> is a parameter; a top level node is what the packer reads of one: its
  class, name, line numbers (counted from 1), the line of its first body statement and its
  docstring. Characters are below 256, so each takes one or two bytes of UTF-8.
\<close>

section \<open>Tokens and lines\<close>

definition DEFAULT_TOKEN_CHAR_RATIO :: int where "DEFAULT_TOKEN_CHAR_RATIO = 4"

definition utf8_size :: "string \<Rightarrow> nat" where
  "utf8_size s = sum_list (map (\<lambda>c. if (of_char c :: nat) < 128 then 1 else 2) s)"

definition estimate_tokens :: "string \<Rightarrow> int" where
  "estimate_tokens s =
     (if s = '''' then 0
      else max 1 ((int (utf8_size s) + DEFAULT_TOKEN_CHAR_RATIO - 1) div DEFAULT_TOKEN_CHAR_RATIO))"

definition source_lines :: "string \<Rightarrow> string list" where
  "source_lines s =
     py_split newline (py_replace [CHR 0x0D] newline (py_replace [CHR 0x0D, CHR 0x0A] newline s))"

section \<open>Symbols\<close>

datatype context_detail_level = FULL | DOCSTRINGS | SIGNATURES

record ast_symbol =
  name :: string
  kind :: string
  signature :: string
  docstring :: string
  body_summary :: string
  full_source :: string
  line_number :: nat

datatype decl_class = FunctionDef | AsyncFunctionDef | ClassDef

record decl_node =
  decl_class :: decl_class
  decl_name :: string
  decl_lineno :: nat
  decl_end_lineno :: nat
  body_lineno :: "nat option"
  decl_docstring :: "string option"

datatype top_node =
    Declaration decl_node
  | Import nat nat
  | Other_Node nat nat

definition indent :: string where "indent = replicate 4 CHR '' ''"

definition render :: "context_detail_level \<Rightarrow> ast_symbol \<Rightarrow> string" where
  "render level s =
     (if kind s = ''import'' \<or> level = FULL then full_source s
      else if level = DOCSTRINGS \<and> docstring s \<noteq> ''''
      then signature s @ newline @ indent @ py_repr (docstring s) @ newline @ indent @ ''...''
      else signature s @ newline @ indent @ ''...'')"

definition extract_docstring :: "decl_node \<Rightarrow> string" where
  "extract_docstring d = (case decl_docstring d of Some t \<Rightarrow> t | None \<Rightarrow> '''')"

definition slice :: "nat \<Rightarrow> nat \<Rightarrow> 'a list \<Rightarrow> 'a list" where
  "slice i j xs = take (j - i) (drop i xs)"

definition extract_declaration_signature :: "decl_node \<Rightarrow> string list \<Rightarrow> string" where
  "extract_declaration_signature d ls =
     (let start_line = decl_lineno d - 1;
          body_start0 = (case body_lineno d of Some l \<Rightarrow> l - 1 | None \<Rightarrow> start_line + 1);
          body_start = max body_start0 (start_line + 1);
          sig_lines = slice start_line (min (length ls) body_start) ls;
          sig0 = py_rstrip (join_with newline sig_lines);
          sig = (if body_lineno d = Some (decl_lineno d) then hd (py_split '':'' sig0) @ '':'' else sig0)
      in if ends_with sig '':'' then sig else sig @ '':'')"

definition parse_top_level_node :: "string list \<Rightarrow> top_node \<Rightarrow> ast_symbol option" where
  "parse_top_level_node ls node = (case node of
     Declaration d \<Rightarrow>
       Some \<lparr>name = decl_name d,
         kind = (if decl_class d = ClassDef then ''class'' else ''function''),
         signature = extract_declaration_signature d ls,
         docstring = extract_docstring d,
         body_summary = ''...'',
         full_source = join_with newline (slice (decl_lineno d - 1) (decl_end_lineno d) ls),
         line_number = decl_lineno d\<rparr>
   | Import l e \<Rightarrow>
       (let src = join_with newline (slice (l - 1) e ls) in
        Some \<lparr>name = ''import'', kind = ''import'', signature = src, docstring = '''',
          body_summary = '''', full_source = src, line_number = l\<rparr>)
   | Other_Node l e \<Rightarrow> None)"

definition extract_ast_symbols :: "(string \<Rightarrow> top_node list option) \<Rightarrow> string \<Rightarrow> ast_symbol list" where
  "extract_ast_symbols parse source =
     (case parse source of
        None \<Rightarrow> []
      | Some body \<Rightarrow> List.map_filter (parse_top_level_node (source_lines source)) body)"

section \<open>Packing\<close>

definition render_symbol_slice :: "ast_symbol list \<Rightarrow> nat \<Rightarrow> context_detail_level \<Rightarrow> string" where
  "render_symbol_slice symbols count level =
     join_with (newline @ newline) (map (render level) (take count symbols))"

text \<open>The \<open>while low <= high\<close> loop with its four variables.\<close>

function search_loop :: "ast_symbol list \<Rightarrow> int \<Rightarrow> context_detail_level \<Rightarrow> int \<Rightarrow> int \<Rightarrow> string \<times> nat
    \<Rightarrow> string \<times> nat" where
  "search_loop symbols budget level low high best =
     (if low \<le> high then
        (let mid = (low + high) div 2 in
         if mid = 0 then search_loop symbols budget level (mid + 1) high best
         else
           (let candidate = render_symbol_slice symbols (nat mid) level in
            if estimate_tokens candidate \<le> budget
            then search_loop symbols budget level (mid + 1) high (candidate, nat mid)
            else search_loop symbols budget level low (mid - 1) best))
      else best)"
  by pat_completeness auto
termination
  by (relation "measure (\<lambda>(symbols, budget, level, low, high, best). nat (high - low + 1))") auto

declare search_loop.simps [simp del]

definition binary_search_pack_symbols ::
  "ast_symbol list \<Rightarrow> int \<Rightarrow> context_detail_level \<Rightarrow> string \<times> nat" where
  "binary_search_pack_symbols symbols budget level =
     (if symbols = [] \<or> budget \<le> 0 then ('''', 0)
      else search_loop symbols budget level 0 (int (length symbols)) ('''', 0))"

fun first_full_level :: "ast_symbol list \<Rightarrow> int \<Rightarrow> context_detail_level list
    \<Rightarrow> (string \<times> context_detail_level \<times> nat) option" where
  "first_full_level symbols budget [] = None"
| "first_full_level symbols budget (level # levels) =
     (case binary_search_pack_symbols symbols budget level of
        (rendered, count) \<Rightarrow>
          if count = length symbols then Some (rendered, level, count)
          else first_full_level symbols budget levels)"

definition pack_source_to_budget ::
  "(string \<Rightarrow> top_node list option) \<Rightarrow> string \<Rightarrow> int \<Rightarrow> string \<times> context_detail_level \<times> nat" where
  "pack_source_to_budget parse source budget =
     (let symbols = extract_ast_symbols parse source in
      if symbols = [] \<or> budget \<le> 0 then ('''', SIGNATURES, 0)
      else (case first_full_level symbols budget [FULL, DOCSTRINGS, SIGNATURES] of
          Some r \<Rightarrow> r
        | None \<Rightarrow>
            (case binary_search_pack_symbols symbols budget SIGNATURES of
               (rendered, count) \<Rightarrow> (rendered, SIGNATURES, count))))"

end
