(* ===== verification/Packer_Props.thy ===== *)
theory Packer_Props
  imports Context_Packer
begin

text \<open>
  The binary search finds what a scan over all prefixes finds, because the estimate grows with the
  prefix; the packed text stays within the budget; and the way an inline body is cut off its header.
\<close>

section \<open>The estimate grows with the prefix\<close>

lemma utf8_size_append [simp]: "utf8_size (s @ t) = utf8_size s + utf8_size t"
  by (simp add: utf8_size_def)

lemma utf8_size_Nil_iff [simp]: "utf8_size s = 0 \<longleftrightarrow> s = ''''"
  by (cases s) (auto simp: utf8_size_def)

lemma estimate_tokens_prefix: "prefix s t \<Longrightarrow> estimate_tokens s \<le> estimate_tokens t"
  by (auto simp: prefix_def estimate_tokens_def DEFAULT_TOKEN_CHAR_RATIO_def)

lemma estimate_tokens_bytes: "int (utf8_size s) \<le> 4 * estimate_tokens s"
  by (auto simp: estimate_tokens_def DEFAULT_TOKEN_CHAR_RATIO_def utf8_size_def)

lemma join_with_prefix: "prefix (join_with sep xs) (join_with sep (xs @ ys))"
proof (induction xs)
  case (Cons x xs)
  then show ?case by (cases "xs = []"; cases "ys = []") (auto simp: join_with_Cons)
qed simp

lemma render_symbol_slice_prefix:
  assumes "k \<le> l" shows "prefix (render_symbol_slice ss k level) (render_symbol_slice ss l level)"
proof -
  have "take l ss = take k ss @ drop k (take l ss)" using assms
    by (metis append_take_drop_id min.absorb1 take_take)
  then show ?thesis unfolding render_symbol_slice_def by (metis join_with_prefix map_append)
qed

lemma estimate_tokens_mono: "k \<le> l \<Longrightarrow>
    estimate_tokens (render_symbol_slice ss k level) \<le> estimate_tokens (render_symbol_slice ss l level)"
  by (intro estimate_tokens_prefix render_symbol_slice_prefix)

section \<open>The search\<close>

definition pick :: "ast_symbol list \<Rightarrow> context_detail_level \<Rightarrow> nat \<Rightarrow> string \<times> nat" where
  "pick ss level n = (if n = 0 then '''' else render_symbol_slice ss n level, n)"

definition fits :: "ast_symbol list \<Rightarrow> int \<Rightarrow> context_detail_level \<Rightarrow> nat \<Rightarrow> bool" where
  "fits ss budget level k \<longleftrightarrow> estimate_tokens (render_symbol_slice ss k level) \<le> budget"

text \<open>The reference: try every prefix and keep the last that fits.\<close>

definition scan_pack_symbols :: "ast_symbol list \<Rightarrow> int \<Rightarrow> context_detail_level \<Rightarrow> string \<times> nat" where
  "scan_pack_symbols ss budget level =
     (let ks = filter (fits ss budget level) [1..<Suc (length ss)] in
      if budget \<le> 0 \<or> ks = [] then ('''', 0) else (render_symbol_slice ss (last ks) level, last ks))"

lemma fits_down: "fits ss b level l \<Longrightarrow> k \<le> l \<Longrightarrow> fits ss b level k"
  unfolding fits_def using estimate_tokens_mono order_trans by blast

lemma filter_upto: "n \<le> m \<Longrightarrow> (\<And>k. 1 \<le> k \<Longrightarrow> k \<le> m \<Longrightarrow> P k \<longleftrightarrow> k \<le> n) \<Longrightarrow>
    filter P [1..<Suc m] = [1..<Suc n]"
proof (induction m)
  case (Suc m)
  show ?case
  proof (cases "n = Suc m")
    case True
    then have "filter P [1..<Suc (Suc m)] = filter (\<lambda>_. True) [1..<Suc (Suc m)]"
      using Suc.prems(2) by (intro filter_cong) auto
    then show ?thesis using True by simp
  next
    case False
    then show ?thesis using Suc by simp
  qed
qed simp

lemma search_loop_finds:
  assumes "0 \<le> low" "low \<le> high + 1" "high \<le> int (length ss)"
    and "\<And>k. int k < low \<Longrightarrow> 1 \<le> k \<Longrightarrow> fits ss b level k"
    and "\<And>k. high < int k \<Longrightarrow> k \<le> length ss \<Longrightarrow> \<not> fits ss b level k"
    and "best = pick ss level (nat (low - 1))"
  shows "\<exists>n \<le> length ss. search_loop ss b level low high best = pick ss level n \<and>
    (\<forall>k. 1 \<le> k \<longrightarrow> k \<le> length ss \<longrightarrow> fits ss b level k \<longleftrightarrow> k \<le> n)"
  using assms
proof (induction ss b level low high best rule: search_loop.induct)
  case (1 ss b level low high best)
  define mid where "mid = (low + high) div 2"
  show ?case
  proof (cases "low \<le> high")
    case False
    then have hi: "high = low - 1" using 1 by simp
    have "fits ss b level k \<longleftrightarrow> k \<le> nat (low - 1)" if "1 \<le> k" "k \<le> length ss" for k
      using 1(7) [of k] 1(8) [of k] that hi by (cases "int k < low") auto
    moreover have "search_loop ss b level low high best = best"
      using False by (subst search_loop.simps) simp
    ultimately show ?thesis using 1 hi by (intro exI [of _ "nat (low - 1)"]) auto
  next
    case le: True
    have m: "low \<le> mid" "mid \<le> high" unfolding mid_def using le by auto
    consider "mid = 0" | "mid \<noteq> 0" "fits ss b level (nat mid)" | "mid \<noteq> 0" "\<not> fits ss b level (nat mid)"
      by blast
    then show ?thesis
    proof cases
      case 1
      then have "low = 0" using m "1.prems"(1) by simp
      have "search_loop ss b level low high best = search_loop ss b level (mid + 1) high best"
        using le 1 by (subst search_loop.simps) (simp add: mid_def)
      then show ?thesis
        using "1.IH"(1) [OF le mid_def 1] "1.prems" \<open>low = 0\<close> 1 m by simp
    next
      case 2
      have "search_loop ss b level low high best =
          search_loop ss b level (mid + 1) high (render_symbol_slice ss (nat mid) level, nat mid)"
        using le 2 by (subst search_loop.simps) (simp add: mid_def fits_def Let_def)
      moreover have "fits ss b level k" if "int k < mid + 1" for k
        using fits_down [OF 2(2), of k] that by simp
      moreover have "(render_symbol_slice ss (nat mid) level, nat mid) = pick ss level (nat (mid + 1 - 1))"
        using 2(1) m "1.prems"(1) by (simp add: pick_def)
      ultimately show ?thesis
        using "1.IH"(2) [OF le mid_def 2(1) refl] "1.prems" 2 m by (simp add: fits_def)
    next
      case 3
      have "search_loop ss b level low high best = search_loop ss b level low (mid - 1) best"
        using le 3 by (subst search_loop.simps) (simp add: mid_def fits_def Let_def)
      moreover have "\<not> fits ss b level k" if "mid - 1 < int k" for k
      proof
        assume "fits ss b level k"
        moreover have "nat mid \<le> k" using that by (simp add: nat_le_iff)
        ultimately show False using fits_down 3(2) by blast
      qed
      ultimately show ?thesis
        using "1.IH"(3) [OF le mid_def 3(1) refl] "1.prems" 3 m by (simp add: fits_def)
    qed
  qed
qed

lemma binary_search_pick:
  obtains n where "binary_search_pack_symbols ss budget level = pick ss level n" "n \<le> length ss"
    "n = 0 \<or> 0 < budget \<and> fits ss budget level n"
    "\<And>k. 0 < budget \<Longrightarrow> 1 \<le> k \<Longrightarrow> k \<le> length ss \<Longrightarrow> fits ss budget level k \<longleftrightarrow> k \<le> n"
proof (cases "ss = [] \<or> budget \<le> 0")
  case True
  then show thesis
    by (intro that [of 0]) (auto simp: binary_search_pack_symbols_def pick_def)
next
  case False
  then obtain n where n: "n \<le> length ss" "binary_search_pack_symbols ss budget level = pick ss level n"
      "\<And>k. 1 \<le> k \<Longrightarrow> k \<le> length ss \<Longrightarrow> fits ss budget level k \<longleftrightarrow> k \<le> n"
    using search_loop_finds [of 0 "int (length ss)" ss budget level "('''', 0)"]
    by (auto simp: binary_search_pack_symbols_def pick_def)
  have "n = 0 \<or> 0 < budget \<and> fits ss budget level n"
    using False n(1) n(3) [of n] by (cases n) auto
  with n show thesis by (intro that [of n]) auto
qed

lemma binary_search_is_scan': "binary_search_pack_symbols ss budget level = scan_pack_symbols ss budget level"
proof -
  obtain n where n: "binary_search_pack_symbols ss budget level = pick ss level n" "n \<le> length ss"
      "n = 0 \<or> 0 < budget \<and> fits ss budget level n"
      "\<And>k. 0 < budget \<Longrightarrow> 1 \<le> k \<Longrightarrow> k \<le> length ss \<Longrightarrow> fits ss budget level k \<longleftrightarrow> k \<le> n"
    by (rule binary_search_pick [of ss budget level]) (rule that, assumption+)
  show ?thesis
  proof (cases "budget \<le> 0")
    case True
    then show ?thesis using n by (auto simp: scan_pack_symbols_def pick_def)
  next
    case False
    then have "filter (fits ss budget level) [1..<Suc (length ss)] = [1..<Suc n]"
      using n by (intro filter_upto) auto
    then show ?thesis
      using False n(1) by (auto simp: scan_pack_symbols_def pick_def Let_def simp del: upt_Suc)
  qed
qed

text \<open>C10: The binary search over the number of symbols returns what the scan over all prefixes
  returns: the longest prefix of the symbols whose rendering fits the budget.\<close>

theorem binary_search_is_scan: "binary_search_pack_symbols ss budget level = scan_pack_symbols ss budget level"
  by (fact binary_search_is_scan')

section \<open>Packing a source\<close>

lemma binary_search_within:
  "estimate_tokens (fst (binary_search_pack_symbols ss budget level)) \<le> max 0 budget"
  by (rule binary_search_pick [of ss budget level]) (auto simp: pick_def fits_def estimate_tokens_def)

lemma binary_search_count: "snd (binary_search_pack_symbols ss budget level) \<le> length ss"
  by (rule binary_search_pick [of ss budget level]) (simp add: pick_def)

text \<open>The first of the levels at which every symbol fits.\<close>

lemma first_full_level_is_find:
  "first_full_level ss budget levels =
     (case List.find (\<lambda>l. snd (binary_search_pack_symbols ss budget l) = length ss) levels of
        None \<Rightarrow> None
      | Some l \<Rightarrow> Some (fst (binary_search_pack_symbols ss budget l), l, length ss))"
  by (induction levels) (auto split: prod.splits)

lemma whole_fits_iff:
  assumes "ss \<noteq> []" "0 < budget"
  shows "snd (binary_search_pack_symbols ss budget level) = length ss \<longleftrightarrow>
    estimate_tokens (render_symbol_slice ss (length ss) level) \<le> budget"
  using assms
  by (rule_tac binary_search_pick [of ss budget level])
    (cases ss; force simp: pick_def fits_def)

lemma whole_rendered: "ss \<noteq> [] \<Longrightarrow> snd (binary_search_pack_symbols ss budget level) = length ss \<Longrightarrow>
    fst (binary_search_pack_symbols ss budget level) = render_symbol_slice ss (length ss) level"
  by (rule binary_search_pick [of ss budget level]) (auto simp: pick_def)

lemma pack_source_spec:
  fixes parse source
  defines "symbols \<equiv> extract_ast_symbols parse source"
  shows "case pack_source_to_budget parse source budget of (text_out, level, count) \<Rightarrow>
    int (utf8_size text_out) \<le> 4 * max 0 budget \<and>
    (case (if symbols = [] \<or> budget \<le> 0 then None
           else List.find (\<lambda>l. estimate_tokens (render_symbol_slice symbols (length symbols) l) \<le> budget)
             [FULL, DOCSTRINGS, SIGNATURES]) of
       Some l \<Rightarrow> level = l \<and> count = length symbols \<and> text_out = render_symbol_slice symbols count l
     | None \<Rightarrow> level = SIGNATURES \<and> (text_out, count) = scan_pack_symbols symbols budget SIGNATURES)"
proof (cases "symbols = [] \<or> budget \<le> 0")
  case True
  then show ?thesis
    by (auto simp: pack_source_to_budget_def symbols_def scan_pack_symbols_def utf8_size_def)
next
  case False
  have whole: "(\<lambda>l. snd (binary_search_pack_symbols symbols budget l) = length symbols) =
      (\<lambda>l. estimate_tokens (render_symbol_slice symbols (length symbols) l) \<le> budget)"
    using False whole_fits_iff [of symbols budget] by auto
  have size: "int (utf8_size (fst (binary_search_pack_symbols symbols budget l))) \<le> 4 * max 0 budget" for l
    using estimate_tokens_bytes [of "fst (binary_search_pack_symbols symbols budget l)"]
      binary_search_within [of symbols budget l] by linarith
  show ?thesis
  proof (cases "List.find (\<lambda>l. estimate_tokens (render_symbol_slice symbols (length symbols) l) \<le> budget)
      [FULL, DOCSTRINGS, SIGNATURES]")
    case None
    then have "first_full_level symbols budget [FULL, DOCSTRINGS, SIGNATURES] = None"
      by (simp add: first_full_level_is_find whole del: List.find.simps)
    then show ?thesis
      using False size [of SIGNATURES] None
      by (simp add: pack_source_to_budget_def symbols_def [symmetric] binary_search_is_scan'
          case_prod_beta del: List.find.simps first_full_level.simps)
  next
    case (Some l)
    then have "snd (binary_search_pack_symbols symbols budget l) = length symbols"
      using fun_cong [OF whole, of l] by (metis find_Some_iff)
    moreover from Some have "first_full_level symbols budget [FULL, DOCSTRINGS, SIGNATURES] =
        Some (fst (binary_search_pack_symbols symbols budget l), l, length symbols)"
      by (simp add: first_full_level_is_find whole del: List.find.simps)
    ultimately show ?thesis
      using False size [of l] Some whole_rendered [of symbols budget l]
      by (simp add: pack_source_to_budget_def symbols_def [symmetric]
          del: List.find.simps first_full_level.simps)
  qed
qed

text \<open>What is packed never exceeds the budget: its UTF-8 size is at most four bytes per token.
  If all symbols fit at some level of detail, the most detailed such level is used and everything is
  packed; otherwise the longest prefix of bare signatures is.\<close>

theorem pack_within_budget:
  "let symbols = extract_ast_symbols parse source in
   case pack_source_to_budget parse source budget of (text_out, level, count) \<Rightarrow>
    int (utf8_size text_out) \<le> 4 * max 0 budget \<and>
    (case (if symbols = [] \<or> budget \<le> 0 then None
           else List.find (\<lambda>l. estimate_tokens (render_symbol_slice symbols (length symbols) l) \<le> budget)
             [FULL, DOCSTRINGS, SIGNATURES]) of
       Some l \<Rightarrow> level = l \<and> count = length symbols \<and> text_out = render_symbol_slice symbols count l
     | None \<Rightarrow> level = SIGNATURES \<and> (text_out, count) = scan_pack_symbols symbols budget SIGNATURES)"
  unfolding Let_def by (rule pack_source_spec)

section \<open>Inline bodies\<close>

lemma split_colon: "CHR '':'' \<notin> set h \<Longrightarrow> hd (py_split '':'' (h @ '':'' @ r)) = h"
proof -
  assume h: "CHR '':'' \<notin> set h"
  have "find_sub '':'' (h @ '':'' @ r) = Some (length h)"
    using h by (induction h) auto
  then show ?thesis by (subst py_split.simps) simp
qed

text \<open>The header of a declaration with its body on the same line is cut at the first colon, the
  one of the first annotation if it has one: whatever follows, the rendered signature is the text
  before it, so the parenthesis stays open.\<close>

theorem inline_signature_cut_at_annotation:
  assumes "CHR '':'' \<notin> set h" "h \<noteq> ''''" "\<not> py_isspace (last r)" "r \<noteq> ''''"
    and "body_lineno d = Some (decl_lineno d)" "0 < decl_lineno d" "decl_lineno d \<le> length ls"
    and "ls ! (decl_lineno d - 1) = h @ '':'' @ r"
  shows "extract_declaration_signature d ls = h @ '':''"
proof -
  let ?n = "decl_lineno d - 1"
  have len: "?n < length ls" using assms by simp
  have "min (length ls) (max ?n (?n + 1)) - ?n = 1" using len by (auto simp: min_def max_def)
  then have "slice ?n (min (length ls) (max ?n (?n + 1))) ls = [ls ! ?n]"
    using len by (simp add: slice_def take_Suc hd_drop_conv_nth)
  moreover have "py_rstrip (h @ '':'' @ r) = h @ '':'' @ r"
    using assms(3,4) by (cases r rule: rev_cases) (auto simp: py_rstrip_def)
  ultimately show ?thesis
    using assms split_colon [OF assms(1), of r]
    by (simp add: extract_declaration_signature_def Let_def ends_with_def)
qed

theorem inline_signature_cut_at_annotation_witness:
  "extract_declaration_signature
     \<lparr>decl_class = FunctionDef, decl_name = ''f'', decl_lineno = 1, decl_end_lineno = 1,
       body_lineno = Some 1, decl_docstring = None\<rparr>
     [''def f(x: int): return x''] = ''def f(x'' @ '':''"
  by (rule inline_signature_cut_at_annotation [where r = "'' int): return x''"])
    (simp_all add: py_isspace_def)

end
