(* ===== verification/Token_Gateway.thy ===== *)
theory Token_Gateway
  imports Py_Text
begin

text \<open>
  \<open>examples/fastmcp-token-bucket-gateway/gateway.py\<close>: the token bucket, the tool registry, and the
  call of a tool under pacing and backoff. The world (\<open>'w\<close>) is a parameter with four operations:
  \<open>time.monotonic\<close>, \<open>asyncio.sleep\<close>, \<open>random.uniform\<close> and the tool handlers. One call is modelled
  from its start to its end; calls take the bucket's lock one after the other, so the bucket sees a
  sequence of whole \<open>acquire\<close> calls. \<open>None\<close> is a call that never returns.
\<close>

section \<open>Data\<close>

record rate_limit_config =
  tokens_per_second :: py_float
  burst_capacity :: py_float
  max_retries :: int
  base_backoff_seconds :: py_float
  max_backoff_seconds :: py_float

definition default_rate_limit_config :: rate_limit_config where
  "default_rate_limit_config = \<lparr>tokens_per_second = 5, burst_capacity = 10, max_retries = 4,
     base_backoff_seconds = 1 / 2, max_backoff_seconds = 5\<rparr>"

record gateway_telemetry =
  total_requests :: nat
  throttled_requests :: nat
  total_wait_seconds :: py_float
  successful_invocations :: nat
  failed_invocations :: nat

definition new_telemetry :: gateway_telemetry where
  "new_telemetry = \<lparr>total_requests = 0, throttled_requests = 0, total_wait_seconds = 0,
     successful_invocations = 0, failed_invocations = 0\<rparr>"

record token_bucket =
  tokens :: py_float
  last_refill :: py_float

text \<open>A handler returns, raises \<open>RateLimitExceededException\<close>, or raises anything else.\<close>

datatype ('a, 'e) outcome = Returned 'a | Rate_Limited "py_float option" | Raised 'e

datatype 'e gateway_error =
    Tool_Not_Registered string
  | Rate_Limit_Exceeded "py_float option"
  | Handler_Raised 'e
  | Retries_Exhausted
  | Float_Division_By_Zero

type_synonym ('k, 'a, 'e, 'w) handler = "'k \<Rightarrow> 'w \<Rightarrow> ('a, 'e) outcome \<times> 'w"

record ('k, 'a, 'e, 'w) gateway =
  config :: rate_limit_config
  limiter :: token_bucket
  telemetry :: gateway_telemetry
  tools :: "(string, ('k, 'a, 'e, 'w) handler) dict"

section \<open>The bucket\<close>

definition new_bucket :: "rate_limit_config \<Rightarrow> ('w \<Rightarrow> py_float \<times> 'w) \<Rightarrow> 'w \<Rightarrow> token_bucket \<times> 'w" where
  "new_bucket cfg monotonic w =
     (case monotonic w of (now, w') \<Rightarrow> (\<lparr>tokens = burst_capacity cfg, last_refill = now\<rparr>, w'))"

definition refill :: "rate_limit_config \<Rightarrow> ('w \<Rightarrow> py_float \<times> 'w) \<Rightarrow> token_bucket \<Rightarrow> 'w
    \<Rightarrow> token_bucket \<times> 'w" where
  "refill cfg monotonic b w =
     (case monotonic w of (now, w') \<Rightarrow>
        (let elapsed = now - last_refill b;
             refill_amount = elapsed * tokens_per_second cfg
         in (\<lparr>tokens = min (burst_capacity cfg) (tokens b + refill_amount), last_refill = now\<rparr>, w')))"

partial_function (option) acquire_loop ::
  "rate_limit_config \<Rightarrow> ('w \<Rightarrow> py_float \<times> 'w) \<Rightarrow> (py_float \<Rightarrow> 'w \<Rightarrow> 'w) \<Rightarrow> py_float
    \<Rightarrow> token_bucket \<Rightarrow> py_float \<Rightarrow> 'w \<Rightarrow> (('e gateway_error, py_float) result \<times> token_bucket \<times> 'w) option" where
  "acquire_loop cfg monotonic sleep tokens_needed b wait_duration w =
     (if tokens b < tokens_needed then
        (if tokens_per_second cfg = 0 then Some (Inl Float_Division_By_Zero, b, w)
         else
           (case refill cfg monotonic b
               (sleep ((tokens_needed - tokens b) / tokens_per_second cfg) w) of (b', w') \<Rightarrow>
              acquire_loop cfg monotonic sleep tokens_needed b'
                (wait_duration + (tokens_needed - tokens b) / tokens_per_second cfg) w'))
      else Some (Inr wait_duration, b\<lparr>tokens := tokens b - tokens_needed\<rparr>, w))"

definition acquire ::
  "rate_limit_config \<Rightarrow> ('w \<Rightarrow> py_float \<times> 'w) \<Rightarrow> (py_float \<Rightarrow> 'w \<Rightarrow> 'w) \<Rightarrow> py_float
    \<Rightarrow> token_bucket \<Rightarrow> 'w \<Rightarrow> (('e gateway_error, py_float) result \<times> token_bucket \<times> 'w) option" where
  "acquire cfg monotonic sleep tokens_needed b w =
     (case refill cfg monotonic b w of (b', w') \<Rightarrow> acquire_loop cfg monotonic sleep tokens_needed b' 0 w')"

section \<open>The gateway\<close>

definition new_gateway :: "rate_limit_config \<Rightarrow> ('w \<Rightarrow> py_float \<times> 'w) \<Rightarrow> 'w
    \<Rightarrow> ('k, 'a, 'e, 'w) gateway \<times> 'w" where
  "new_gateway cfg monotonic w = (case new_bucket cfg monotonic w of (b, w') \<Rightarrow>
     (\<lparr>config = cfg, limiter = b, telemetry = new_telemetry, tools = []\<rparr>, w'))"

definition register_tool :: "string \<Rightarrow> ('k, 'a, 'e, 'w) handler \<Rightarrow> ('k, 'a, 'e, 'w) gateway
    \<Rightarrow> ('k, 'a, 'e, 'w) gateway" where
  "register_tool name h g = g\<lparr>tools := dict_set name h (tools g)\<rparr>"

definition calculate_jittered_backoff ::
  "rate_limit_config \<Rightarrow> (py_float \<Rightarrow> py_float \<Rightarrow> 'w \<Rightarrow> py_float \<times> 'w) \<Rightarrow> nat \<Rightarrow> py_float option
    \<Rightarrow> 'w \<Rightarrow> py_float \<times> 'w" where
  "calculate_jittered_backoff cfg uniform attempt retry_after w =
     (case retry_after of
        Some r \<Rightarrow>
          if 0 < r then (r, w)
          else uniform (1 / 10) (min (max_backoff_seconds cfg) (base_backoff_seconds cfg * 2 ^ attempt)) w
      | None \<Rightarrow>
          uniform (1 / 10) (min (max_backoff_seconds cfg) (base_backoff_seconds cfg * 2 ^ attempt)) w)"

definition handle_rate_limit_retry ::
  "rate_limit_config \<Rightarrow> (py_float \<Rightarrow> py_float \<Rightarrow> 'w \<Rightarrow> py_float \<times> 'w) \<Rightarrow> (py_float \<Rightarrow> 'w \<Rightarrow> 'w)
    \<Rightarrow> nat \<Rightarrow> py_float option \<Rightarrow> gateway_telemetry \<Rightarrow> 'w
    \<Rightarrow> ('e gateway_error, unit) result \<times> gateway_telemetry \<times> 'w" where
  "handle_rate_limit_retry cfg uniform sleep attempt retry_after tel w =
     (if int attempt = max_retries cfg - 1
      then (Inl (Rate_Limit_Exceeded retry_after),
            tel\<lparr>failed_invocations := Suc (failed_invocations tel)\<rparr>, w)
      else (case calculate_jittered_backoff cfg uniform attempt retry_after w of (s, w') \<Rightarrow>
              (Inr (), tel, sleep s w')))"

text \<open>One attempt: \<open>Inr (Some r)\<close> is success, \<open>Inr None\<close> a retry.\<close>

definition attempt_invoke ::
  "rate_limit_config \<Rightarrow> (py_float \<Rightarrow> py_float \<Rightarrow> 'w \<Rightarrow> py_float \<times> 'w) \<Rightarrow> (py_float \<Rightarrow> 'w \<Rightarrow> 'w)
    \<Rightarrow> ('k, 'a, 'e, 'w) handler \<Rightarrow> 'k \<Rightarrow> nat \<Rightarrow> gateway_telemetry \<Rightarrow> 'w
    \<Rightarrow> ('e gateway_error, 'a option) result \<times> gateway_telemetry \<times> 'w" where
  "attempt_invoke cfg uniform sleep h kwargs attempt tel w =
     (case h kwargs w of
        (Returned r, w') \<Rightarrow>
          (Inr (Some r), tel\<lparr>successful_invocations := Suc (successful_invocations tel)\<rparr>, w')
      | (Rate_Limited ra, w') \<Rightarrow>
          (case handle_rate_limit_retry cfg uniform sleep attempt ra tel w' of
             (Inl e, tel', w'') \<Rightarrow> (Inl e, tel', w'')
           | (Inr _, tel', w'') \<Rightarrow> (Inr None, tel', w''))
      | (Raised e, w') \<Rightarrow> (Inl (Handler_Raised e), tel, w'))"

fun invoke_attempts ::
  "rate_limit_config \<Rightarrow> (py_float \<Rightarrow> py_float \<Rightarrow> 'w \<Rightarrow> py_float \<times> 'w) \<Rightarrow> (py_float \<Rightarrow> 'w \<Rightarrow> 'w)
    \<Rightarrow> ('k, 'a, 'e, 'w) handler \<Rightarrow> 'k \<Rightarrow> nat list \<Rightarrow> gateway_telemetry \<Rightarrow> 'w
    \<Rightarrow> ('e gateway_error, 'a) result \<times> gateway_telemetry \<times> 'w" where
  "invoke_attempts cfg uniform sleep h kwargs [] tel w = (Inl Retries_Exhausted, tel, w)"
| "invoke_attempts cfg uniform sleep h kwargs (attempt # attempts) tel w =
     (case attempt_invoke cfg uniform sleep h kwargs attempt tel w of
        (Inl e, tel', w') \<Rightarrow> (Inl e, tel', w')
      | (Inr (Some r), tel', w') \<Rightarrow> (Inr r, tel', w')
      | (Inr None, tel', w') \<Rightarrow> invoke_attempts cfg uniform sleep h kwargs attempts tel' w')"

definition invoke_with_backoff where
  "invoke_with_backoff cfg uniform sleep h kwargs tel w =
     invoke_attempts cfg uniform sleep h kwargs [0..<nat (max_retries cfg)] tel w"

definition execute_tool ::
  "('w \<Rightarrow> py_float \<times> 'w) \<Rightarrow> (py_float \<Rightarrow> py_float \<Rightarrow> 'w \<Rightarrow> py_float \<times> 'w) \<Rightarrow> (py_float \<Rightarrow> 'w \<Rightarrow> 'w)
    \<Rightarrow> string \<Rightarrow> 'k \<Rightarrow> ('k, 'a, 'e, 'w) gateway \<Rightarrow> 'w
    \<Rightarrow> (('e gateway_error, 'a) result \<times> ('k, 'a, 'e, 'w) gateway \<times> 'w) option" where
  "execute_tool monotonic uniform sleep tool_name kwargs g w =
     (case dict_get (tools g) tool_name of
        None \<Rightarrow> Some (Inl (Tool_Not_Registered tool_name), g, w)
      | Some h \<Rightarrow>
         (let tel1 = (telemetry g)\<lparr>total_requests := Suc (total_requests (telemetry g))\<rparr> in
          case acquire (config g) monotonic sleep 1 (limiter g) w of
            None \<Rightarrow> None
          | Some (Inl e, b, w1) \<Rightarrow> Some (Inl e, g\<lparr>limiter := b, telemetry := tel1\<rparr>, w1)
          | Some (Inr wait_time, b, w1) \<Rightarrow>
             (let tel2 = (if 0 < wait_time
                    then tel1\<lparr>throttled_requests := Suc (throttled_requests tel1),
                      total_wait_seconds := total_wait_seconds tel1 + wait_time\<rparr>
                    else tel1)
              in case invoke_with_backoff (config g) uniform sleep h kwargs tel2 w1 of
                (r, tel3, w2) \<Rightarrow> Some (r, g\<lparr>limiter := b, telemetry := tel3\<rparr>, w2))))"

text \<open>
  The rate the bucket lets through, when an \<open>acquire\<close> returns at all, and what a tool call does to
  the telemetry. That sleeping lasts at least as long as asked is the one law of the clock used.
\<close>

section \<open>One acquire\<close>

lemma refill_facts:
  assumes "refill cfg monotonic b w = (b', w')"
  shows "tokens b' \<le> tokens b + tokens_per_second cfg * (last_refill b' - last_refill b)"
    "tokens b' \<le> burst_capacity cfg"
    "tokens b' = min (burst_capacity cfg) (tokens b + tokens_per_second cfg * (last_refill b' - last_refill b))"
    "last_refill b' = fst (monotonic w)" "w' = snd (monotonic w)"
  using assms by (auto simp: refill_def Let_def mult.commute split: prod.splits)

text \<open>What an \<open>acquire\<close> that returned guarantees.\<close>

definition acquired :: "rate_limit_config \<Rightarrow> py_float \<Rightarrow> token_bucket
    \<Rightarrow> ('e gateway_error, py_float) result \<times> token_bucket \<times> 'w \<Rightarrow> bool" where
  "acquired cfg needed b y \<longleftrightarrow> (case y of
     (Inl e, b', w') \<Rightarrow> e = Float_Division_By_Zero \<and> tokens_per_second cfg = 0
   | (Inr wait, b', w') \<Rightarrow>
       0 \<le> tokens b'
       \<and> tokens b' + needed \<le> tokens b + tokens_per_second cfg * (last_refill b' - last_refill b)
       \<and> tokens b' + needed \<le> max (burst_capacity cfg) (tokens b))"

lemma acquire_loop_acquired:
  assumes "acquire_loop cfg monotonic sleep needed b wd w = Some y"
  shows "acquired cfg needed b y"
proof (rule acquire_loop.raw_induct [OF _ assms,
      where P = "\<lambda>cfg monotonic sleep needed b wd w y. acquired cfg needed b y"], goal_cases)
  case (1 loop cfg monotonic sleep needed b wd w y)
  show ?case
  proof (cases "tokens b < needed")
    case False
    then show ?thesis using 1(2) by (auto simp: acquired_def)
  next
    case short: True
    show ?thesis
    proof (cases "tokens_per_second cfg = 0")
      case True
      then show ?thesis using 1(2) short by (auto simp: acquired_def)
    next
      case False
      obtain b' w' where r: "refill cfg monotonic b
          (sleep ((needed - tokens b) / tokens_per_second cfg) w) = (b', w')" by fastforce
      then have "acquired cfg needed b' y" using 1 short False by auto
      then show ?thesis
        using refill_facts [OF r] short by (auto simp: acquired_def algebra_simps split: prod.splits sum.splits)
    qed
  qed
qed

lemma acquire_acquired:
  assumes "acquire cfg monotonic sleep needed b w = Some y"
  shows "acquired cfg needed b y"
proof -
  obtain b' w' where r: "refill cfg monotonic b w = (b', w')" by fastforce
  then have "acquired cfg needed b' y"
    using assms acquire_loop_acquired [of cfg monotonic sleep needed b' 0 w' y] by (simp add: acquire_def)
  then show ?thesis
    using refill_facts [OF r] by (auto simp: acquired_def algebra_simps split: prod.splits sum.splits)
qed

section \<open>Many acquires\<close>

text \<open>The calls in the order they get the lock; before each, the world moves on by itself.\<close>

fun serve :: "rate_limit_config \<Rightarrow> ('w \<Rightarrow> py_float \<times> 'w) \<Rightarrow> (py_float \<Rightarrow> 'w \<Rightarrow> 'w)
    \<Rightarrow> (py_float \<times> ('w \<Rightarrow> 'w)) list \<Rightarrow> token_bucket \<Rightarrow> 'w \<Rightarrow> (token_bucket \<times> 'w) option" where
  "serve cfg monotonic sleep [] b w = Some (b, w)"
| "serve cfg monotonic sleep ((needed, idle) # calls) b w =
     (case (acquire cfg monotonic sleep needed b (idle w)
         :: ((unit gateway_error, py_float) result \<times> token_bucket \<times> 'w) option) of
        Some (Inr wait, b', w') \<Rightarrow> serve cfg monotonic sleep calls b' w'
      | _ \<Rightarrow> None)"

text \<open>C13: Whatever the clock does, the tokens handed out by any run of calls are at most the burst
  capacity plus the refill rate times the time between the first and the last refill, and the bucket
  stays between empty and full.\<close>

theorem bucket_rate_bound:
  assumes "serve cfg monotonic sleep calls b w = Some (b', w')"
    and "list_all (\<lambda>(needed, idle). 0 \<le> needed) calls"
    and "0 \<le> tokens b" "tokens b \<le> burst_capacity cfg"
  shows "sum_list (map fst calls)
      \<le> burst_capacity cfg + tokens_per_second cfg * (last_refill b' - last_refill b)
    \<and> 0 \<le> tokens b' \<and> tokens b' \<le> burst_capacity cfg"
proof -
  have "0 \<le> tokens b' \<and> tokens b' \<le> burst_capacity cfg \<and> tokens b' + sum_list (map fst calls)
      \<le> tokens b + tokens_per_second cfg * (last_refill b' - last_refill b)"
    using assms
  proof (induction cfg monotonic sleep calls b w arbitrary: b' w' rule: serve.induct)
    case (2 cfg monotonic sleep needed idle calls b w)
    obtain wait b1 w1 where a: "(acquire cfg monotonic sleep needed b (idle w)
          :: ((unit gateway_error, py_float) result \<times> token_bucket \<times> 'a) option) = Some (Inr wait, b1, w1)"
        and s: "serve cfg monotonic sleep calls b1 w1 = Some (b', w')"
      using "2.prems"(1) by (auto split: option.splits sum.splits prod.splits)
    have "0 \<le> tokens b1" "tokens b1 \<le> burst_capacity cfg"
        "tokens b1 + needed \<le> tokens b + tokens_per_second cfg * (last_refill b1 - last_refill b)"
      using acquire_acquired [OF a] "2.prems" by (auto simp: acquired_def)
    then show ?case
      using "2.IH" [OF a refl refl refl s] "2.prems" by (auto simp: algebra_simps)
  qed simp
  then show ?thesis using assms(4) by linarith
qed

text \<open>A clock that can be asked and slept on: the world is the time.\<close>

definition rate_witness_config :: rate_limit_config where
  "rate_witness_config = default_rate_limit_config\<lparr>burst_capacity := 2\<rparr>"

lemma acquire_loop_enough: "needed \<le> tokens b \<Longrightarrow> acquire_loop cfg monotonic sleep needed b wd w =
    Some (Inr wd, b\<lparr>tokens := tokens b - needed\<rparr>, w)"
  by (subst acquire_loop.simps) simp

theorem bucket_rate_bound_witness:
  "sum_list (map fst [(1 :: py_float, (id :: rat \<Rightarrow> rat)), (1, id)]) \<le> burst_capacity rate_witness_config
      + tokens_per_second rate_witness_config
        * (last_refill \<lparr>tokens = 0, last_refill = 0\<rparr> - last_refill \<lparr>tokens = 2, last_refill = 0\<rparr>)
    \<and> 0 \<le> tokens \<lparr>tokens = 0, last_refill = 0\<rparr>
    \<and> tokens \<lparr>tokens = 0, last_refill = 0\<rparr> \<le> burst_capacity rate_witness_config"
  by (rule bucket_rate_bound [where monotonic = "\<lambda>w. (w, w)" and sleep = "(+)" and w = 0 and w' = 0])
    (simp_all add: acquire_def refill_def acquire_loop_enough rate_witness_config_def
      default_rate_limit_config_def)

section \<open>When an acquire returns\<close>

text \<open>\<open>asyncio.sleep\<close> suspends for at least the time asked for.\<close>

definition clock_advances :: "('w \<Rightarrow> py_float \<times> 'w) \<Rightarrow> (py_float \<Rightarrow> 'w \<Rightarrow> 'w) \<Rightarrow> bool" where
  "clock_advances monotonic sleep \<longleftrightarrow>
     (\<forall>w s. 0 < s \<longrightarrow> fst (monotonic w) + s \<le> fst (monotonic (sleep s (snd (monotonic w)))))"

text \<open>C31: With a positive rate, \<open>acquire\<close> returns exactly when no more tokens are asked for than the
  bucket holds, after one sleep for the missing tokens at most; asked for more it never returns and
  keeps the lock.\<close>

theorem acquire_returns_iff:
  assumes "0 < tokens_per_second cfg" "clock_advances monotonic sleep"
  shows "map_option fst (acquire cfg monotonic sleep needed b w) =
    (if needed \<le> burst_capacity cfg
     then Some (Inr (max 0 ((needed - tokens (fst (refill cfg monotonic b w))) / tokens_per_second cfg)))
     else None)" (is "map_option fst ?a = _")
proof -
  obtain b1 w1 where r1: "refill cfg monotonic b w = (b1, w1)" by fastforce
  show ?thesis
  proof (cases "needed \<le> burst_capacity cfg")
    case False
    have "?a \<noteq> Some y" for y
    proof
      assume "?a = Some y"
      then have "acquired cfg needed b1 y"
        using acquire_loop_acquired [of cfg monotonic sleep needed b1 0 w1 y] r1 by (simp add: acquire_def)
      then show False
        using refill_facts(2) [OF r1] False assms(1) by (auto simp: acquired_def split: prod.splits sum.splits)
    qed
    then show ?thesis using False by (cases ?a) auto
  next
    case fits: True
    show ?thesis
    proof (cases "needed \<le> tokens b1")
      case True
      then show ?thesis
        using fits assms(1) r1 by (simp add: acquire_def acquire_loop_enough max_def zero_le_divide_iff)
    next
      case False
      define s where "s = (needed - tokens b1) / tokens_per_second cfg"
      have s: "0 < s" "s * tokens_per_second cfg = needed - tokens b1"
        using False assms(1) by (simp_all add: s_def)
      obtain b2 w2 where r2: "refill cfg monotonic b1 (sleep s w1) = (b2, w2)" by fastforce
      have "s \<le> last_refill b2 - last_refill b1"
        using assms(2) s(1) refill_facts(4,5) [OF r1] refill_facts(4) [OF r2]
        by (auto simp: clock_advances_def algebra_simps)
      then have "s * tokens_per_second cfg \<le> tokens_per_second cfg * (last_refill b2 - last_refill b1)"
        using assms(1) by (simp add: mult.commute mult_left_mono)
      then have "needed \<le> tokens b2"
        using refill_facts(3) [OF r2] s(2) fits by simp
      then have "?a = Some (Inr (0 + s), b2\<lparr>tokens := tokens b2 - needed\<rparr>, w2)"
        using False assms(1) r1 r2
        by (simp add: acquire_def acquire_loop.simps [of cfg monotonic sleep needed b1] s_def
            acquire_loop_enough)
      then show ?thesis using fits r1 s(1) by (simp add: s_def)
    qed
  qed
qed

theorem acquire_returns_iff_witness:
  "map_option fst (acquire default_rate_limit_config (\<lambda>w. (w, w)) (+) 11
      \<lparr>tokens = 10, last_refill = 0\<rparr> 0 ::
        ((unit gateway_error, rat) result \<times> token_bucket \<times> rat) option) =
    (if 11 \<le> burst_capacity default_rate_limit_config
     then Some (Inr (max 0 ((11 - tokens (fst (refill default_rate_limit_config (\<lambda>w. (w, w))
         \<lparr>tokens = 10, last_refill = 0\<rparr> 0))) / tokens_per_second default_rate_limit_config)))
     else None)"
  by (rule acquire_returns_iff)
    (simp_all add: default_rate_limit_config_def clock_advances_def add.commute)

section \<open>Telemetry and retries\<close>

definition counted :: "gateway_telemetry \<Rightarrow> gateway_telemetry \<Rightarrow> ('e gateway_error, 'a) result \<Rightarrow> bool" where
  "counted t t' r \<longleftrightarrow>
     successful_invocations t' = successful_invocations t + (case r of Inr _ \<Rightarrow> 1 | _ \<Rightarrow> 0)
     \<and> failed_invocations t' = failed_invocations t + (case r of Inl (Rate_Limit_Exceeded _) \<Rightarrow> 1 | _ \<Rightarrow> 0)
     \<and> total_requests t' = total_requests t"

lemma attempt_invoke_cases:
  assumes "attempt_invoke cfg uniform sleep h kwargs attempt tel w = (r, tel', w')"
  obtains x where "r = Inr (Some x)" "counted tel tel' (Inr x :: ('e gateway_error, 'a) result)"
  | "r = Inr None" "tel' = tel" "int attempt \<noteq> max_retries cfg - 1"
  | e where "r = Inl e" "counted tel tel' (Inl e :: ('e gateway_error, 'a) result)"
      "e \<noteq> Retries_Exhausted" "\<And>n. e \<noteq> Tool_Not_Registered n"
  using assms
  by (auto simp: attempt_invoke_def handle_rate_limit_retry_def counted_def
      split: outcome.splits prod.splits if_splits)

lemma invoke_attempts_counted:
  assumes "invoke_attempts cfg uniform sleep h kwargs [n..<nat (max_retries cfg)] tel w = (r, tel', w')"
    and "int n \<le> max_retries cfg"
  shows "counted tel tel' r \<and> (r = Inl Retries_Exhausted \<longrightarrow> int n = max_retries cfg)
    \<and> (\<forall>m. r \<noteq> Inl (Tool_Not_Registered m))"
  using assms
proof (induction "nat (max_retries cfg) - n" arbitrary: n tel w)
  case 0
  then show ?case by (auto simp: counted_def)
next
  case (Suc k)
  then have lt: "n < nat (max_retries cfg)" by simp
  then have up: "[n..<nat (max_retries cfg)] = n # [Suc n..<nat (max_retries cfg)]"
    by (rule upt_conv_Cons)
  obtain r1 tel1 w1 where a: "attempt_invoke cfg uniform sleep h kwargs n tel w = (r1, tel1, w1)"
    by (metis prod_cases3)
  from a show ?case
  proof (cases rule: attempt_invoke_cases)
    case 2
    have "invoke_attempts cfg uniform sleep h kwargs [Suc n..<nat (max_retries cfg)] tel w1 = (r, tel', w')"
      using Suc.prems(1) a 2 unfolding up by simp
    moreover have "k = nat (max_retries cfg) - Suc n" "int (Suc n) \<le> max_retries cfg"
      using Suc.hyps(2) lt by auto
    ultimately have "counted tel tel' r \<and> (r = Inl Retries_Exhausted \<longrightarrow> int (Suc n) = max_retries cfg)
        \<and> (\<forall>m. r \<noteq> Inl (Tool_Not_Registered m))"
      using Suc.hyps(1) [of "Suc n" tel w1] by blast
    then show ?thesis using 2(3) by auto
  qed (use Suc.prems(1) a in \<open>auto simp: up\<close>)
qed

lemma invoke_counted:
  assumes "invoke_with_backoff cfg uniform sleep h kwargs tel w = (r, tel', w')"
  shows "counted tel tel' r \<and> (r = Inl Retries_Exhausted \<longrightarrow> max_retries cfg \<le> 0)
    \<and> (\<forall>m. r \<noteq> Inl (Tool_Not_Registered m))"
proof (cases "0 \<le> max_retries cfg")
  case True
  have "invoke_attempts cfg uniform sleep h kwargs [0..<nat (max_retries cfg)] tel w = (r, tel', w')"
    using assms by (simp only: invoke_with_backoff_def)
  then have "counted tel tel' r \<and> (r = Inl Retries_Exhausted \<longrightarrow> int 0 = max_retries cfg)
      \<and> (\<forall>m. r \<noteq> Inl (Tool_Not_Registered m))"
    by (rule invoke_attempts_counted) (use True in simp)
  then show ?thesis by (metis of_nat_0 order_refl)
next
  case False
  then show ?thesis using assms by (auto simp: invoke_with_backoff_def counted_def)
qed

text \<open>A tool call that returns has counted one request if the tool is registered, one success
  exactly when it returns a result, and one failure exactly when the last attempt was rate limited:
  an exception of the handler is neither. The retries run out only when none were configured.\<close>

theorem telemetry_of_a_call:
  fixes g :: "('k, 'a, 'e, 'w) gateway"
  shows "case execute_tool monotonic uniform sleep tool_name kwargs g w of
     None \<Rightarrow> True
   | Some (r, g', w') \<Rightarrow>
       successful_invocations (telemetry g') =
         successful_invocations (telemetry g) + (case r of Inr _ \<Rightarrow> 1 | _ \<Rightarrow> 0)
       \<and> failed_invocations (telemetry g') =
         failed_invocations (telemetry g) + (case r of Inl (Rate_Limit_Exceeded _) \<Rightarrow> 1 | _ \<Rightarrow> 0)
       \<and> total_requests (telemetry g') =
         total_requests (telemetry g) + (case r of Inl (Tool_Not_Registered _) \<Rightarrow> 0 | _ \<Rightarrow> 1)
       \<and> (case r of Inl Retries_Exhausted \<Rightarrow> max_retries (config g) \<le> 0 | _ \<Rightarrow> True)"
proof (cases "dict_get (tools g) tool_name")
  case None
  then show ?thesis by (simp add: execute_tool_def)
next
  case (Some h)
  define tel1 where "tel1 = (telemetry g)\<lparr>total_requests := Suc (total_requests (telemetry g))\<rparr>"
  show ?thesis
  proof (cases "acquire (config g) monotonic sleep 1 (limiter g) w
      :: (('e gateway_error, py_float) result \<times> token_bucket \<times> 'w) option")
    case None
    then show ?thesis using Some by (simp add: execute_tool_def Let_def)
  next
    case acq: (Some y)
    obtain a b w1 where y: "y = (a, b, w1)" by (cases y)
    show ?thesis
    proof (cases a)
      case (Inl e)
      then have "e = Float_Division_By_Zero" using acquire_acquired [OF acq] y by (simp add: acquired_def)
      then show ?thesis using Some acq y Inl by (simp add: execute_tool_def Let_def)
    next
      case (Inr wait_time)
      define tel2 where "tel2 = (if 0 < wait_time
          then tel1\<lparr>throttled_requests := Suc (throttled_requests tel1),
            total_wait_seconds := total_wait_seconds tel1 + wait_time\<rparr> else tel1)"
      obtain r tel3 w2 where inv: "invoke_with_backoff (config g) uniform sleep h kwargs tel2 w1 = (r, tel3, w2)"
        by (metis prod_cases3)
      have ex: "execute_tool monotonic uniform sleep tool_name kwargs g w =
          Some (r, g\<lparr>limiter := b, telemetry := tel3\<rparr>, w2)"
        using Some acq y Inr inv by (simp add: execute_tool_def Let_def tel1_def [symmetric] tel2_def [symmetric])
      have t2: "total_requests tel2 = Suc (total_requests (telemetry g))"
          "successful_invocations tel2 = successful_invocations (telemetry g)"
          "failed_invocations tel2 = failed_invocations (telemetry g)"
        by (simp_all add: tel2_def tel1_def)
      show ?thesis
        using invoke_counted [OF inv]
        by (auto simp: ex counted_def t2 split: sum.split gateway_error.split)
    qed
  qed
qed

end
