(* ===== verification/Ast_Reconciler.thy ===== *)
theory Ast_Reconciler
  imports Py_Text
begin

text \<open>
  \<open>examples/ast-semantic-reconciler/ast_reconciler.py\<close>: the three way merge of Python modules over
  their top level symbols. A statement is what the reconciler reads of one: its class, names, the
  targets of an assignment, the body of a class; the rest of it is an opaque payload \<open>'p\<close>.
  \<open>ast.parse\<close>, \<open>ast.dump\<close>, \<open>ast.unparse\<close>, SHA-256 and the measured time are parameters.
\<close>

section \<open>Statements and the \<open>ast\<close> library\<close>

datatype 'p target = Name string | Other_Target 'p

text \<open>The payload of a class is its bases, keywords and decorators.\<close>

datatype 'p stmt =
    FunctionDef bool string 'p
  | ClassDef string 'p "'p stmt list"
  | Assign "'p target list" 'p
  | AnnAssign "'p target" 'p
  | Import_Stmt 'p
  | If 'p 'p
  | Expr_Constant 'p
  | Pass
  | Other_Stmt 'p

record 'p ast_lib =
  parse :: "string \<Rightarrow> (string, 'p stmt list) result"
  dump :: "'p stmt \<Rightarrow> string"
  dump_target :: "'p target \<Rightarrow> string"
  unparse :: "'p stmt \<Rightarrow> string"
  unparse_test :: "'p \<Rightarrow> string"
  sha256 :: "string \<Rightarrow> string"

fun is_import :: "'p stmt \<Rightarrow> bool" where
  "is_import (Import_Stmt p) = True"
| "is_import _ = False"

fun is_function :: "'p stmt \<Rightarrow> bool" where
  "is_function (FunctionDef a n p) = True"
| "is_function _ = False"

section \<open>Data\<close>

datatype reconciliation_status = CLEAN_MERGE | COMMUTATIVE_MERGE | IMPORT_MERGE | SEMANTIC_COLLISION

definition status_value :: "reconciliation_status \<Rightarrow> string" where
  "status_value s = (case s of CLEAN_MERGE \<Rightarrow> ''CLEAN_MERGE'' | COMMUTATIVE_MERGE \<Rightarrow> ''COMMUTATIVE_MERGE''
     | IMPORT_MERGE \<Rightarrow> ''IMPORT_MERGE'' | SEMANTIC_COLLISION \<Rightarrow> ''SEMANTIC_COLLISION'')"

datatype reconciler_kind = DOCSTRING | IMPORT | CONSTANT | FUNCTION | CLASS | MAIN_GUARD | STATEMENT

definition kind_value :: "reconciler_kind \<Rightarrow> string" where
  "kind_value k = (case k of DOCSTRING \<Rightarrow> ''DOCSTRING'' | IMPORT \<Rightarrow> ''IMPORT'' | CONSTANT \<Rightarrow> ''CONSTANT''
     | FUNCTION \<Rightarrow> ''FUNCTION'' | CLASS \<Rightarrow> ''CLASS'' | MAIN_GUARD \<Rightarrow> ''MAIN_GUARD''
     | STATEMENT \<Rightarrow> ''STATEMENT'')"

record 'p merge_symbol =
  ms_name :: string
  ms_kind :: reconciler_kind
  ms_unparsed :: string
  ms_hash :: string
  ms_node :: "'p stmt"

record collision_report =
  symbol_name :: string
  col_kind :: reconciler_kind
  base_snippet :: string
  ours_snippet :: string
  theirs_snippet :: string
  reason :: string

record reconciliation_result =
  status :: reconciliation_status
  merged_code :: string
  collisions :: "collision_report list"
  resolved_false_conflicts :: nat
  symbols_merged :: nat
  duration_ms :: py_float

section \<open>Hashing and symbols\<close>

definition hash_ast_node :: "'p ast_lib \<Rightarrow> 'p stmt \<Rightarrow> string" where
  "hash_ast_node L node = take 16 (sha256 L (dump L node))"

definition safe_hash :: "'p ast_lib \<Rightarrow> 'p stmt option \<Rightarrow> string option" where
  "safe_hash L node = map_option (hash_ast_node L) node"

definition parse_ast_safely :: "'p ast_lib \<Rightarrow> string \<Rightarrow> (string, 'p stmt list) result" where
  "parse_ast_safely L source = (case parse L source of
     Inl msg \<Rightarrow> Inl (''Syntax error during AST parse: '' @ msg) | Inr body \<Rightarrow> Inr body)"

definition extract_docstring_node :: "'p stmt list \<Rightarrow> 'p stmt option \<times> 'p stmt list" where
  "extract_docstring_node body = (case body of
     Expr_Constant p # rest \<Rightarrow> (Some (Expr_Constant p), rest) | _ \<Rightarrow> (None, body))"

definition get_target_name :: "'p ast_lib \<Rightarrow> 'p target \<Rightarrow> string" where
  "get_target_name L t = (case t of
     Name i \<Rightarrow> i | Other_Target p \<Rightarrow> ''__expr_'' @ take 16 (sha256 L (dump_target L t)))"

definition classify_def :: "'p stmt \<Rightarrow> (string \<times> reconciler_kind) option" where
  "classify_def s = (case s of
     FunctionDef a n p \<Rightarrow> Some (n, FUNCTION) | ClassDef n h b \<Rightarrow> Some (n, CLASS) | _ \<Rightarrow> None)"

definition classify_assign :: "'p ast_lib \<Rightarrow> 'p stmt \<Rightarrow> (string \<times> reconciler_kind) option" where
  "classify_assign L s = (case s of
     Assign (t # ts) p \<Rightarrow> Some (get_target_name L t, CONSTANT)
   | AnnAssign t p \<Rightarrow> Some (get_target_name L t, CONSTANT)
   | _ \<Rightarrow> None)"

definition main_guard_test :: string where
  "main_guard_test = ''__name__ == '' @ [CHR 0x27] @ ''__main__'' @ [CHR 0x27]"

definition classify_other :: "'p ast_lib \<Rightarrow> 'p stmt \<Rightarrow> nat \<Rightarrow> string \<times> reconciler_kind" where
  "classify_other L s idx = (case s of
     Import_Stmt p \<Rightarrow> (''__import_'' @ show_nat idx @ ''__'', IMPORT)
   | If test p \<Rightarrow>
       if unparse_test L test = main_guard_test then (''__main__'', MAIN_GUARD)
       else (''__stmt_'' @ show_nat idx @ ''__'', STATEMENT)
   | _ \<Rightarrow> (''__stmt_'' @ show_nat idx @ ''__'', STATEMENT))"

definition classify_statement_symbol :: "'p ast_lib \<Rightarrow> 'p stmt \<Rightarrow> nat \<Rightarrow> string \<times> reconciler_kind" where
  "classify_statement_symbol L s idx =
     (case classify_def s of Some r \<Rightarrow> r | None \<Rightarrow>
       (case classify_assign L s of Some r \<Rightarrow> r | None \<Rightarrow> classify_other L s idx))"

definition add_symbol :: "'p ast_lib \<Rightarrow> nat \<times> 'p stmt \<Rightarrow> (string, 'p merge_symbol) dict
    \<Rightarrow> (string, 'p merge_symbol) dict" where
  "add_symbol L entry d = (case entry of (idx, s) \<Rightarrow>
     (case classify_statement_symbol L s idx of (n, k) \<Rightarrow>
       dict_set n \<lparr>ms_name = n, ms_kind = k, ms_unparsed = unparse L s,
         ms_hash = hash_ast_node L s, ms_node = s\<rparr> d))"

definition extract_symbol_map :: "'p ast_lib \<Rightarrow> 'p stmt list \<Rightarrow> (string, 'p merge_symbol) dict" where
  "extract_symbol_map L stmts = fold (add_symbol L) (zip [0..<length stmts] stmts) []"

section \<open>Imports\<close>

definition extract_import_statements :: "'p ast_lib \<Rightarrow> 'p stmt list \<Rightarrow> string set" where
  "extract_import_statements L body = set (map (unparse L) (filter is_import body))"

definition reconcile_import_sets :: "string set \<Rightarrow> string set \<Rightarrow> string set \<Rightarrow> string list \<times> nat" where
  "reconcile_import_sets base ours theirs =
     (let retained_base = base \<inter> ours \<inter> theirs;
          ours_added = ours - base;
          theirs_added = theirs - base;
          total_imports = retained_base \<union> ours_added \<union> theirs_added;
          false_conflicts = card (ours_added \<inter> theirs_added) + min (card ours_added) (card theirs_added)
      in (sorted_list_of_set total_imports, false_conflicts))"

section \<open>Arbitration\<close>

definition snippet :: "'p ast_lib \<Rightarrow> 'p stmt option \<Rightarrow> string" where
  "snippet L n = (case n of Some s \<Rightarrow> unparse L s | None \<Rightarrow> ''<absent>'')"

definition build_collision_report :: "'p ast_lib \<Rightarrow> string \<Rightarrow> reconciler_kind
    \<Rightarrow> 'p stmt option \<times> 'p stmt option \<times> 'p stmt option \<Rightarrow> collision_report" where
  "build_collision_report L n k nodes = (case nodes of (b, o', t) \<Rightarrow>
     \<lparr>symbol_name = n, col_kind = k, base_snippet = snippet L b, ours_snippet = snippet L o',
      theirs_snippet = snippet L t,
      reason = ''Concurrent conflicting modification to '' @ kind_value k @ [CHR '' '', CHR 0x27] @ n @ [CHR 0x27]\<rparr>)"

definition is_theirs_accepted :: "string option \<Rightarrow> string option \<Rightarrow> bool" where
  "is_theirs_accepted o_hash b_hash \<longleftrightarrow> o_hash = b_hash"

definition is_ours_accepted :: "string option \<Rightarrow> string option \<Rightarrow> string option \<Rightarrow> bool" where
  "is_ours_accepted t_hash b_hash o_hash \<longleftrightarrow> (if t_hash = b_hash then True else o_hash = t_hash)"

definition arbitrate_single_node :: "'p ast_lib \<Rightarrow> string \<Rightarrow> reconciler_kind
    \<Rightarrow> 'p stmt option \<times> 'p stmt option \<times> 'p stmt option \<Rightarrow> 'p stmt option \<times> collision_report option" where
  "arbitrate_single_node L n k nodes = (case nodes of (b, o', t) \<Rightarrow>
     (let b_hash = safe_hash L b; o_hash = safe_hash L o'; t_hash = safe_hash L t in
      if is_theirs_accepted o_hash b_hash then (t, None)
      else if is_ours_accepted t_hash b_hash o_hash then (o', None)
      else (None, Some (build_collision_report L n k nodes))))"

section \<open>Classes\<close>

definition add_method :: "'p stmt \<Rightarrow> (string, 'p stmt) dict \<Rightarrow> (string, 'p stmt) dict" where
  "add_method s d = (case s of FunctionDef a n p \<Rightarrow> dict_set n s d | _ \<Rightarrow> d)"

definition extract_methods_map :: "'p stmt list \<Rightarrow> (string, 'p stmt) dict" where
  "extract_methods_map body = fold add_method body []"

definition reconcile_single_class_method :: "'p ast_lib \<Rightarrow> string \<Rightarrow> (string, 'p stmt) dict
    \<Rightarrow> (string, 'p stmt) dict \<Rightarrow> (string, 'p stmt) dict \<Rightarrow> 'p stmt option \<times> collision_report option" where
  "reconcile_single_class_method L n base_m ours_m theirs_m =
     arbitrate_single_node L n FUNCTION (dict_get base_m n, dict_get ours_m n, dict_get theirs_m n)"

definition consume_class_method :: "'p stmt option \<times> collision_report option
    \<Rightarrow> 'p stmt list \<times> collision_report list \<Rightarrow> 'p stmt list \<times> collision_report list" where
  "consume_class_method r acc = (case (r, acc) of ((s, col), (body, cols)) \<Rightarrow>
     (case col of
        Some c \<Rightarrow> (body, cols @ [c])
      | None \<Rightarrow> (case s of Some st \<Rightarrow> (body @ [st], cols) | None \<Rightarrow> (body, cols))))"

definition build_reconciled_class :: "string \<Rightarrow> 'p \<Rightarrow> 'p stmt list \<Rightarrow> 'p stmt" where
  "build_reconciled_class ours_name ours_header body =
     ClassDef ours_name ours_header (if body = [] then [Pass] else body)"

definition reconcile_class_methods :: "'p ast_lib \<Rightarrow> 'p stmt list \<Rightarrow> string \<times> 'p \<times> 'p stmt list
    \<Rightarrow> 'p stmt list \<Rightarrow> 'p stmt option \<times> collision_report list" where
  "reconcile_class_methods L base_body ours_cls theirs_body =
     (case ours_cls of (ours_name, ours_header, ours_body) \<Rightarrow>
       (let base_m = extract_methods_map base_body;
            ours_m = extract_methods_map ours_body;
            theirs_m = extract_methods_map theirs_body;
            all_names = sorted_list_of_set
              (set (dict_keys base_m) \<union> set (dict_keys ours_m) \<union> set (dict_keys theirs_m));
            (merged_body, cols) = fold (\<lambda>n. consume_class_method
              (reconcile_single_class_method L n base_m ours_m theirs_m)) all_names ([], [])
        in if cols \<noteq> [] then (None, cols)
           else (Some (build_reconciled_class ours_name ours_header merged_body), [])))"

definition try_reconcile_class :: "'p ast_lib \<Rightarrow> 'p stmt option \<Rightarrow> 'p stmt option \<Rightarrow> 'p stmt option
    \<Rightarrow> 'p stmt option \<times> bool" where
  "try_reconcile_class L b o' t = (case (b, o', t) of
     (Some (ClassDef bn bh bb), Some (ClassDef on oh ob), Some (ClassDef tn th tb)) \<Rightarrow>
       (case reconcile_class_methods L bb (on, oh, ob) tb of
          (Some c, _) \<Rightarrow> (Some c, True) | (None, _) \<Rightarrow> (None, False))
   | _ \<Rightarrow> (None, False))"

section \<open>The merge\<close>

definition resolve_symbol_kind :: "'p merge_symbol option \<Rightarrow> 'p merge_symbol option \<Rightarrow> reconciler_kind" where
  "resolve_symbol_kind o_sym t_sym =
     (case o_sym of Some s \<Rightarrow> ms_kind s | None \<Rightarrow>
       (case t_sym of Some s \<Rightarrow> ms_kind s | None \<Rightarrow> STATEMENT))"

definition is_disjoint_symbol_addition :: "'p stmt option \<Rightarrow> bool \<Rightarrow> bool \<Rightarrow> bool \<Rightarrow> bool" where
  "is_disjoint_symbol_addition node has_base has_ours has_theirs \<longleftrightarrow>
     (if node = None \<or> has_base then False else has_ours \<noteq> has_theirs)"

definition wrap_collision :: "collision_report option \<Rightarrow> collision_report list" where
  "wrap_collision col = (case col of Some c \<Rightarrow> [c] | None \<Rightarrow> [])"

definition arbitrate_symbol :: "'p ast_lib \<Rightarrow> string \<Rightarrow> 'p merge_symbol option \<Rightarrow> 'p merge_symbol option
    \<Rightarrow> 'p merge_symbol option \<Rightarrow> 'p stmt option \<times> collision_report list \<times> bool" where
  "arbitrate_symbol L n b_sym o_sym t_sym =
     (let b_node = map_option ms_node b_sym; o_node = map_option ms_node o_sym;
          t_node = map_option ms_node t_sym;
          (cls_node, ok) = try_reconcile_class L b_node o_node t_node
      in if ok then (cls_node, [], True)
         else
           (let k = resolve_symbol_kind o_sym t_sym;
                (node, col) = arbitrate_single_node L n k (b_node, o_node, t_node);
                is_false = is_disjoint_symbol_addition node (b_sym \<noteq> None) (o_sym \<noteq> None) (t_sym \<noteq> None)
            in (node, wrap_collision col, is_false)))"

definition filter_non_import_stmts :: "'p stmt list \<Rightarrow> 'p stmt list" where
  "filter_non_import_stmts stmts = filter (\<lambda>s. \<not> is_import s) stmts"

definition assemble_merged_module :: "'p ast_lib \<Rightarrow> 'p stmt option \<Rightarrow> string list \<Rightarrow> 'p stmt list \<Rightarrow> string" where
  "assemble_merged_module L doc_node imports body_stmts =
     join_with (newline @ newline)
       ((case doc_node of Some d \<Rightarrow> [unparse L d] | None \<Rightarrow> [])
        @ (if imports = [] then [] else [join_with newline imports])
        @ (if body_stmts = [] then []
           else [join_with (newline @ newline @ newline) (map (unparse L) body_stmts)]))
     @ newline"

definition consume_arbitrated_symbol :: "'p stmt option \<times> collision_report list \<times> bool
    \<Rightarrow> 'p stmt list \<times> collision_report list \<times> nat \<Rightarrow> 'p stmt list \<times> collision_report list \<times> nat" where
  "consume_arbitrated_symbol result acc = (case (result, acc) of
     ((s, cols, was_false), (merged, collided, false_conflicts)) \<Rightarrow>
       (if cols \<noteq> [] then (merged, collided @ cols, false_conflicts)
        else (case s of
            Some st \<Rightarrow> (merged @ [st], collided, false_conflicts + (if was_false then 1 else 0))
          | None \<Rightarrow> (merged, collided, false_conflicts))))"

definition reconcile_all_symbols :: "'p ast_lib \<Rightarrow> string list \<Rightarrow> (string, 'p merge_symbol) dict
    \<Rightarrow> (string, 'p merge_symbol) dict \<Rightarrow> (string, 'p merge_symbol) dict
    \<Rightarrow> 'p stmt list \<times> collision_report list \<times> nat" where
  "reconcile_all_symbols L names b_syms o_syms t_syms =
     fold (\<lambda>n. consume_arbitrated_symbol
       (arbitrate_symbol L n (dict_get b_syms n) (dict_get o_syms n) (dict_get t_syms n))) names ([], [], 0)"

definition build_reconciliation_result :: "'p ast_lib \<Rightarrow> 'p stmt option \<times> string list \<times> 'p stmt list
    \<Rightarrow> collision_report list \<Rightarrow> nat \<Rightarrow> py_float \<Rightarrow> reconciliation_result" where
  "build_reconciliation_result L merged_data cols false_conflicts elapsed_ms =
     (case merged_data of (doc_node, imports, stmts) \<Rightarrow>
       (if cols \<noteq> []
        then \<lparr>status = SEMANTIC_COLLISION, merged_code = '''', collisions = cols,
           resolved_false_conflicts = false_conflicts, symbols_merged = length stmts,
           duration_ms = py_round 3 elapsed_ms\<rparr>
        else \<lparr>status = (if 0 < false_conflicts then COMMUTATIVE_MERGE else CLEAN_MERGE),
           merged_code = assemble_merged_module L doc_node imports stmts, collisions = [],
           resolved_false_conflicts = false_conflicts, symbols_merged = length stmts,
           duration_ms = py_round 3 elapsed_ms\<rparr>))"

text \<open>\<open>dict.fromkeys\<close> keeps the first of equal names.\<close>

definition from_keys :: "'a list \<Rightarrow> 'a list" where
  "from_keys xs = rev (remdups (rev xs))"

text \<open>
  The docstring is that of ours in every case: the pair on the left of the source's \<open>or\<close> is never
  false.
\<close>

definition reconcile_bodies :: "'p ast_lib \<Rightarrow> py_float \<Rightarrow> 'p stmt list \<Rightarrow> 'p stmt list \<Rightarrow> 'p stmt list
    \<Rightarrow> reconciliation_result" where
  "reconcile_bodies L elapsed_ms b_body o_body t_body =
     (let doc_node = fst (extract_docstring_node o_body);
          (merged_imports, import_conflicts) = reconcile_import_sets (extract_import_statements L b_body)
            (extract_import_statements L o_body) (extract_import_statements L t_body);
          b_syms = extract_symbol_map L (filter_non_import_stmts b_body);
          o_syms = extract_symbol_map L (filter_non_import_stmts o_body);
          t_syms = extract_symbol_map L (filter_non_import_stmts t_body);
          all_names = from_keys (dict_keys b_syms @ dict_keys o_syms @ dict_keys t_syms);
          (merged_stmts, cols, symbol_conflicts) = reconcile_all_symbols L all_names b_syms o_syms t_syms
      in build_reconciliation_result L (doc_node, merged_imports, merged_stmts) cols
           (import_conflicts + symbol_conflicts) elapsed_ms)"

definition reconcile_3way :: "'p ast_lib \<Rightarrow> py_float \<Rightarrow> string \<Rightarrow> string \<Rightarrow> string
    \<Rightarrow> (string, reconciliation_result) result" where
  "reconcile_3way L elapsed_ms base_code ours_code theirs_code =
     result_bind (parse_ast_safely L base_code) (\<lambda>b_body.
     result_bind (parse_ast_safely L ours_code) (\<lambda>o_body.
     result_bind (parse_ast_safely L theirs_code) (\<lambda>t_body.
       Inr (reconcile_bodies L elapsed_ms b_body o_body t_body))))"

section \<open>Reports and the command\<close>

definition rec_to_sarif :: "reconciliation_result \<Rightarrow> json" where
  "rec_to_sarif r = JObj
     [(''$schema'', JStr ''https://json.schemastore.org/sarif-2.1.0.json''),
      (''version'', JStr ''2.1.0''),
      (''runs'', JArr [JObj
        [(''tool'', JObj [(''driver'', JObj [(''name'', JStr ''ASTSemanticReconciler''),
            (''version'', JStr ''0.1.0''),
            (''rules'', JArr [JObj [(''id'', JStr ''AST001''),
              (''name'', JStr ''SemanticCollisionConflict''),
              (''shortDescription'', JObj [(''text'',
                JStr ''3-way AST merge detected unresolvable body collision'')])]])])]),
         (''results'', JArr (map (\<lambda>c. JObj
           [(''ruleId'', JStr ''AST001''), (''level'', JStr ''error''),
            (''message'', JObj [(''text'', JStr (''Conflict in '' @ kind_value (col_kind c)
              @ [CHR '' '', CHR 0x27] @ symbol_name c @ [CHR 0x27] @ '': '' @ reason c))]),
            (''locations'', JArr [JObj [(''physicalLocation'', JObj [(''artifactLocation'',
              JObj [(''uri'', JStr (''symbol://'' @ symbol_name c))])])]])]) (collisions r)))]])]"

text \<open>The lines of the Markdown report; \<open>badge\<close> is its text without the leading sign.\<close>

definition rec_to_markdown :: "reconciliation_result \<Rightarrow> string list" where
  "rec_to_markdown r =
     (let badge = (if collisions r = [] then ''CLEAN'' else ''COLLISION'') in
      [''# 3-Way AST Semantic Reconciler Report'', '''',
       ''**Status**: '' @ status_value (status r) @ '' ('' @ badge @ '')'',
       ''- **Symbols Merged**: '' @ show_nat (symbols_merged r),
       ''- **Resolved False Conflicts**: '' @ show_nat (resolved_false_conflicts r),
       ''- **Duration**: '' @ show_float (duration_ms r) @ '' ms'', '''']
      @ (if collisions r = [] then []
         else [''## Detected Semantic Collisions'', ''| Symbol | Kind | Reason |'', ''| :--- | :--- | :--- |'']
           @ map (\<lambda>c. ''| '' @ [CHR 0x60] @ symbol_name c @ [CHR 0x60] @ '' | ''
               @ kind_value (col_kind c) @ '' | '' @ reason c @ '' |'') (collisions r)))"

text \<open>What the code emitter writes to the output path or to stdout.\<close>

definition emit_code :: "reconciliation_result \<Rightarrow> string option" where
  "emit_code r = (if merged_code r = '''' then None else Some (merged_code r))"

definition rec_exit_status :: "reconciliation_result \<Rightarrow> int" where
  "rec_exit_status r = (if collisions r = [] then 0 else 1)"

end
