(* ===== verification/Reconciler_Props.thy ===== *)
theory Reconciler_Props
  imports Ast_Reconciler
begin

text \<open>
  What the three way merge decides: collisions sit exactly where both sides changed a symbol
  differently, the verdict does not depend on which side is ours; and what it loses or doubles.
\<close>

section \<open>Folds as lists\<close>

definition kept :: "'p stmt option \<times> collision_report list \<times> bool \<Rightarrow> 'p stmt list" where
  "kept r = (case r of (s, cols, f) \<Rightarrow> if cols \<noteq> [] then [] else (case s of Some st \<Rightarrow> [st] | None \<Rightarrow> []))"

definition false_count :: "'p stmt option \<times> collision_report list \<times> bool \<Rightarrow> nat" where
  "false_count r = (case r of (s, cols, f) \<Rightarrow> if cols \<noteq> [] \<or> s = None \<or> \<not> f then 0 else 1)"

lemma fold_consume_symbols:
  "fold (\<lambda>n. consume_arbitrated_symbol (g n)) names (ss, cs, k) =
     (ss @ concat (map (kept \<circ> g) names), cs @ concat (map (fst \<circ> snd \<circ> g) names),
      k + sum_list (map (false_count \<circ> g) names))"
proof (induction names arbitrary: ss cs k)
  case (Cons n names)
  obtain s cols f where "g n = (s, cols, f)" by (cases "g n")
  then show ?case
    using Cons by (auto simp: consume_arbitrated_symbol_def kept_def false_count_def split: option.split)
qed simp

lemma fold_consume_methods:
  "fold (\<lambda>n. consume_class_method (g n)) names (ss, cs) =
     (ss @ concat (map (\<lambda>n. case g n of (Some s, None) \<Rightarrow> [s] | _ \<Rightarrow> []) names),
      cs @ List.map_filter (snd \<circ> g) names)"
proof (induction names arbitrary: ss cs)
  case (Cons n names)
  obtain s col where "g n = (s, col)" by (cases "g n")
  then show ?case
    using Cons by (auto simp: consume_class_method_def map_filter_simps split: option.split)
qed (simp add: map_filter_simps)

section \<open>Arbitration on hashes\<close>

text \<open>Both sides changed the base, and not to the same.\<close>

definition both_changed :: "'p ast_lib \<Rightarrow> 'p stmt option \<Rightarrow> 'p stmt option \<Rightarrow> 'p stmt option \<Rightarrow> bool" where
  "both_changed L b o' t \<longleftrightarrow> safe_hash L o' \<noteq> safe_hash L b \<and> safe_hash L t \<noteq> safe_hash L b
     \<and> safe_hash L o' \<noteq> safe_hash L t"

lemma both_changed_swap: "both_changed L b t o' = both_changed L b o' t"
  by (auto simp: both_changed_def)

lemma safe_hash_None [simp]: "safe_hash L x = None \<longleftrightarrow> x = None" "None = safe_hash L x \<longleftrightarrow> x = None"
  by (cases x; simp add: safe_hash_def)+

lemma arbitrate_collision: "snd (arbitrate_single_node L n k (b, o', t)) =
    (if both_changed L b o' t then Some (build_collision_report L n k (b, o', t)) else None)"
  by (auto simp: arbitrate_single_node_def both_changed_def is_theirs_accepted_def is_ours_accepted_def Let_def)

lemma arbitrate_hash: "safe_hash L (fst (arbitrate_single_node L n k (b, o', t))) =
    (if both_changed L b o' t then None
     else if safe_hash L o' = safe_hash L b then safe_hash L t else safe_hash L o')"
  by (auto simp: arbitrate_single_node_def both_changed_def is_theirs_accepted_def is_ours_accepted_def Let_def)

lemma arbitrate_present_swap:
  "fst (arbitrate_single_node L n k (b, t, o')) = None \<longleftrightarrow> fst (arbitrate_single_node L n k' (b, o', t)) = None"
  by (cases b; cases o'; cases t)
    (auto simp: arbitrate_single_node_def is_theirs_accepted_def is_ours_accepted_def safe_hash_def Let_def)

section \<open>Classes\<close>

definition class_names :: "'p stmt list \<Rightarrow> 'p stmt list \<Rightarrow> 'p stmt list \<Rightarrow> string list" where
  "class_names bb ob tb = sorted_list_of_set (set (dict_keys (extract_methods_map bb))
     \<union> set (dict_keys (extract_methods_map ob)) \<union> set (dict_keys (extract_methods_map tb)))"

definition methods_collide :: "'p ast_lib \<Rightarrow> 'p stmt list \<Rightarrow> 'p stmt list \<Rightarrow> 'p stmt list \<Rightarrow> bool" where
  "methods_collide L bb ob tb \<longleftrightarrow> list_ex (\<lambda>n. both_changed L (dict_get (extract_methods_map bb) n)
     (dict_get (extract_methods_map ob) n) (dict_get (extract_methods_map tb) n)) (class_names bb ob tb)"

lemma methods_collide_swap: "methods_collide L bb tb ob = methods_collide L bb ob tb"
  unfolding methods_collide_def class_names_def by (simp add: both_changed_swap Un_ac)

lemma reconcile_class_methods_eq:
  "reconcile_class_methods L bb (n, h, ob) tb =
    (let g = (\<lambda>m. reconcile_single_class_method L m (extract_methods_map bb) (extract_methods_map ob)
           (extract_methods_map tb));
         body = concat (map (\<lambda>m. case g m of (Some s, None) \<Rightarrow> [s] | _ \<Rightarrow> []) (class_names bb ob tb));
         cols = List.map_filter (snd \<circ> g) (class_names bb ob tb)
     in if cols \<noteq> [] then (None, cols) else (Some (build_reconciled_class n h body), []))"
  by (simp add: reconcile_class_methods_def fold_consume_methods class_names_def [symmetric] Let_def)

lemma class_merged_iff:
  "fst (reconcile_class_methods L bb (n, h, ob) tb) \<noteq> None \<longleftrightarrow> \<not> methods_collide L bb ob tb"
  by (auto simp: reconcile_class_methods_eq Let_def methods_collide_def reconcile_single_class_method_def
      arbitrate_collision map_filter_def filter_empty_conv list_ex_iff)

text \<open>Name, header and body of a class statement.\<close>

definition class_parts :: "'p stmt option \<Rightarrow> (string \<times> 'p \<times> 'p stmt list) option" where
  "class_parts s = (case s of Some (ClassDef n h b) \<Rightarrow> Some (n, h, b) | _ \<Rightarrow> None)"

lemma class_parts_Some: "class_parts s = Some (n, h, b) \<longleftrightarrow> s = Some (ClassDef n h b)"
  by (auto simp: class_parts_def split: option.split stmt.split)

definition class_merge :: "'p ast_lib \<Rightarrow> 'p stmt option \<Rightarrow> 'p stmt option \<Rightarrow> 'p stmt option \<Rightarrow> bool" where
  "class_merge L b o' t = (case (class_parts b, class_parts o', class_parts t) of
     (Some (bn, bh, bb), Some (on, oh, ob), Some (tn, th, tb)) \<Rightarrow> \<not> methods_collide L bb ob tb
   | _ \<Rightarrow> False)"

lemma class_merge_swap: "class_merge L b t o' = class_merge L b o' t"
  by (cases "class_parts b"; cases "class_parts o'"; cases "class_parts t")
    (auto simp: class_merge_def methods_collide_swap)

lemma try_no_class:
  assumes "class_parts b = None \<or> class_parts o' = None \<or> class_parts t = None"
  shows "try_reconcile_class L b o' t = (None, False)"
proof -
  have no: "x = None \<or> (\<exists>s. x = Some s \<and> (\<forall>n h c. s \<noteq> ClassDef n h c))" if "class_parts x = None"
    for x :: "'p stmt option"
    using that class_parts_Some [of x] by (cases x) auto
  have skip: "(case s of ClassDef n h c \<Rightarrow> f n h c | _ \<Rightarrow> d) = d" if "\<forall>n h c. s \<noteq> ClassDef n h c"
    for s :: "'p stmt" and f and d :: "'p stmt option \<times> bool"
    using that by (cases s) auto
  consider "class_parts b = None" | bn bh bb where "b = Some (ClassDef bn bh bb)" "class_parts o' = None"
    | bn bh bb on oh ob where "b = Some (ClassDef bn bh bb)" "o' = Some (ClassDef on oh ob)"
      "class_parts t = None"
    using assms class_parts_Some by (metis option.exhaust prod_cases3)
  then show ?thesis
  proof cases
    case 1
    then show ?thesis using no [of b] by (auto simp: try_reconcile_class_def skip)
  next
    case 2
    then show ?thesis using no [of o'] by (auto simp: try_reconcile_class_def skip)
  next
    case 3
    then show ?thesis using no [of t] by (auto simp: try_reconcile_class_def skip)
  qed
qed

lemma try_class_iff: "snd (try_reconcile_class L b o' t) = class_merge L b o' t"
  "(fst (try_reconcile_class L b o' t) = None) = (\<not> class_merge L b o' t)"
proof -
  have "snd (try_reconcile_class L b o' t) = class_merge L b o' t
      \<and> (fst (try_reconcile_class L b o' t) = None) = (\<not> class_merge L b o' t)"
  proof (cases "class_parts b = None \<or> class_parts o' = None \<or> class_parts t = None")
    case True
    then show ?thesis
      by (auto simp: try_no_class class_merge_def split: option.split)
  next
    case False
    then obtain bn bh bb on oh ob tn th tb where e: "b = Some (ClassDef bn bh bb)"
        "o' = Some (ClassDef on oh ob)" "t = Some (ClassDef tn th tb)"
      using class_parts_Some by (metis option.exhaust prod_cases3)
    have p: "class_parts b = Some (bn, bh, bb)" "class_parts o' = Some (on, oh, ob)"
        "class_parts t = Some (tn, th, tb)" by (simp_all add: e class_parts_def)
    obtain c cols where rc: "reconcile_class_methods L bb (on, oh, ob) tb = (c, cols)" by fastforce
    then show ?thesis
      using class_merged_iff [of L bb on oh ob tb]
      by (cases c) (simp_all add: class_merge_def p, simp_all add: e try_reconcile_class_def)
  qed
  then show "snd (try_reconcile_class L b o' t) = class_merge L b o' t"
    "(fst (try_reconcile_class L b o' t) = None) = (\<not> class_merge L b o' t)" by auto
qed

section \<open>One symbol\<close>

abbreviation nodes3 :: "'p merge_symbol option \<Rightarrow> 'p stmt option" where
  "nodes3 s \<equiv> map_option ms_node s"

text \<open>Changed on both sides, and no merge of a class method by method applies.\<close>

definition symbol_collides :: "'p ast_lib \<Rightarrow> 'p merge_symbol option \<Rightarrow> 'p merge_symbol option
    \<Rightarrow> 'p merge_symbol option \<Rightarrow> bool" where
  "symbol_collides L b o' t \<longleftrightarrow>
     both_changed L (nodes3 b) (nodes3 o') (nodes3 t) \<and> \<not> class_merge L (nodes3 b) (nodes3 o') (nodes3 t)"

lemma arbitrate_symbol_eq:
  "arbitrate_symbol L n b o' t =
    (if class_merge L (nodes3 b) (nodes3 o') (nodes3 t)
     then (fst (try_reconcile_class L (nodes3 b) (nodes3 o') (nodes3 t)), [], True)
     else (let r = arbitrate_single_node L n (resolve_symbol_kind o' t) (nodes3 b, nodes3 o', nodes3 t)
       in (fst r, wrap_collision (snd r),
           is_disjoint_symbol_addition (fst r) (b \<noteq> None) (o' \<noteq> None) (t \<noteq> None))))"
  using try_class_iff(1) [of L "nodes3 b" "nodes3 o'" "nodes3 t"]
  by (simp add: arbitrate_symbol_def Let_def case_prod_beta)

lemma arbitrate_symbol_collisions:
  "map symbol_name (fst (snd (arbitrate_symbol L n b o' t))) = (if symbol_collides L b o' t then [n] else [])"
  by (auto simp: arbitrate_symbol_eq symbol_collides_def Let_def arbitrate_collision wrap_collision_def
      build_collision_report_def)

lemma arbitrate_symbol_clean:
  "fst (snd (arbitrate_symbol L n b o' t)) = [] \<longleftrightarrow> \<not> symbol_collides L b o' t"
  using arbitrate_symbol_collisions [of L n b o' t]
  by (cases "fst (snd (arbitrate_symbol L n b o' t))") (auto split: if_splits)

lemma symbol_collides_swap: "symbol_collides L b t o' = symbol_collides L b o' t"
  by (simp add: symbol_collides_def both_changed_swap class_merge_swap)

lemma arbitrate_symbol_present_swap:
  "fst (arbitrate_symbol L n b t o') = None \<longleftrightarrow> fst (arbitrate_symbol L n b o' t) = None"
  using arbitrate_present_swap [of L n _ "nodes3 b" "nodes3 t" "nodes3 o'"]
  by (simp add: arbitrate_symbol_eq class_merge_swap try_class_iff Let_def)

lemma arbitrate_symbol_flag_swap:
  "fst (arbitrate_symbol L n b o' t) = None \<or> snd (snd (arbitrate_symbol L n b t o')) = snd (snd (arbitrate_symbol L n b o' t))"
  using arbitrate_present_swap [where L = L and n = n and b = "nodes3 b" and t = "nodes3 t"
      and o' = "nodes3 o'" and k = "resolve_symbol_kind t o'" and k' = "resolve_symbol_kind o' t"]
  by (cases "fst (arbitrate_symbol L n b o' t)")
    (auto simp: arbitrate_symbol_eq class_merge_swap is_disjoint_symbol_addition_def Let_def)

lemma length_kept: "length (kept r) = (if fst (snd r) = [] \<and> fst r \<noteq> None then 1 else 0)"
  by (auto simp: kept_def split: prod.split option.split)

lemma symbol_counts_swap:
  "length (kept (arbitrate_symbol L n b t o')) = length (kept (arbitrate_symbol L n b o' t))"
  "false_count (arbitrate_symbol L n b t o') = false_count (arbitrate_symbol L n b o' t)"
proof -
  show "length (kept (arbitrate_symbol L n b t o')) = length (kept (arbitrate_symbol L n b o' t))"
    by (simp add: length_kept arbitrate_symbol_clean symbol_collides_swap arbitrate_symbol_present_swap)
  have fc: "false_count r = (if fst (snd r) = [] \<and> fst r \<noteq> None \<and> snd (snd r) then 1 else 0)"
    for r :: "'a stmt option \<times> collision_report list \<times> bool"
    by (auto simp: false_count_def split: prod.split)
  show "false_count (arbitrate_symbol L n b t o') = false_count (arbitrate_symbol L n b o' t)"
    using arbitrate_symbol_flag_swap [of L n b o' t]
    by (auto simp: fc arbitrate_symbol_clean symbol_collides_swap arbitrate_symbol_present_swap)
qed

section \<open>Whole modules\<close>

lemma from_keys_set [simp]: "set (from_keys xs) = set xs"
  by (simp add: from_keys_def)

lemma from_keys_distinct [simp]: "distinct (from_keys xs)"
  by (simp add: from_keys_def)

lemma reconcile_all_symbols_eq:
  "reconcile_all_symbols L names b_syms o_syms t_syms =
    (let g = (\<lambda>n. arbitrate_symbol L n (dict_get b_syms n) (dict_get o_syms n) (dict_get t_syms n)) in
     (concat (map (kept \<circ> g) names), concat (map (fst \<circ> snd \<circ> g) names), sum_list (map (false_count \<circ> g) names)))"
  by (simp add: reconcile_all_symbols_def fold_consume_symbols Let_def)

lemma sum_list_perm: "distinct xs \<Longrightarrow> distinct ys \<Longrightarrow> set xs = set ys \<Longrightarrow>
    sum_list (map (f :: 'a \<Rightarrow> nat) xs) = sum_list (map f ys)"
  by (simp add: sum_list_distinct_conv_sum_set)

lemma import_conflicts_swap:
  "snd (reconcile_import_sets b t o') = snd (reconcile_import_sets b o' t)"
  by (simp add: reconcile_import_sets_def Let_def Int_commute min.commute)

text \<open>What of a result does not depend on the order of the merged statements.\<close>

definition verdict :: "reconciliation_result \<Rightarrow> reconciliation_status \<times> nat \<times> nat \<times> int" where
  "verdict r = (status r, resolved_false_conflicts r, symbols_merged r, rec_exit_status r)"

lemma reconcile_bodies_verdict:
  "verdict (reconcile_bodies L ms b o' t) =
    (let bs = extract_symbol_map L (filter_non_import_stmts b);
         os = extract_symbol_map L (filter_non_import_stmts o');
         ts = extract_symbol_map L (filter_non_import_stmts t);
         names = from_keys (dict_keys bs @ dict_keys os @ dict_keys ts);
         g = (\<lambda>n. arbitrate_symbol L n (dict_get bs n) (dict_get os n) (dict_get ts n));
         k = snd (reconcile_import_sets (extract_import_statements L b) (extract_import_statements L o')
               (extract_import_statements L t)) + sum_list (map (false_count \<circ> g) names);
         m = sum_list (map (length \<circ> kept \<circ> g) names);
         clash = list_ex (\<lambda>n. symbol_collides L (dict_get bs n) (dict_get os n) (dict_get ts n)) names
     in (if clash then SEMANTIC_COLLISION else if 0 < k then COMMUTATIVE_MERGE else CLEAN_MERGE, k, m,
         if clash then 1 else 0))"
proof -
  define bs os ts where "bs = extract_symbol_map L (filter_non_import_stmts b)"
    and "os = extract_symbol_map L (filter_non_import_stmts o')"
    and "ts = extract_symbol_map L (filter_non_import_stmts t)"
  define g where "g = (\<lambda>n. arbitrate_symbol L n (dict_get bs n) (dict_get os n) (dict_get ts n))"
  define names where "names = from_keys (dict_keys bs @ dict_keys os @ dict_keys ts)"
  have clash: "concat (map (fst \<circ> snd \<circ> g) names) = [] \<longleftrightarrow>
      \<not> list_ex (\<lambda>n. symbol_collides L (dict_get bs n) (dict_get os n) (dict_get ts n)) names"
    by (auto simp: g_def arbitrate_symbol_clean list_ex_iff)
  have len: "length (concat (map (kept \<circ> g) names)) = sum_list (map (length \<circ> kept \<circ> g) names)"
    by (simp add: length_concat comp_assoc)
  show ?thesis
    by (simp add: verdict_def reconcile_bodies_def bs_def [symmetric] os_def [symmetric] ts_def [symmetric]
        names_def [symmetric] reconcile_all_symbols_eq g_def [symmetric] build_reconciliation_result_def
        rec_exit_status_def Let_def case_prod_beta clash len del: length_concat concat_eq_Nil_conv)
qed

text \<open>C30: Which side is called ours does not matter for the verdict: with ours and theirs exchanged
  the merge has the same status and exit code, resolves the same number of false conflicts and keeps
  as many symbols.\<close>

theorem verdict_independent_of_side:
  "map_sum (\<lambda>_. ()) verdict (reconcile_3way L ms base theirs ours) =
   map_sum (\<lambda>_. ()) verdict (reconcile_3way L ms base ours theirs)"
proof -
  have "verdict (reconcile_bodies L ms b t o') = verdict (reconcile_bodies L ms b o' t)" for b o' t
  proof -
    define bs os ts where "bs = extract_symbol_map L (filter_non_import_stmts b)"
      and "os = extract_symbol_map L (filter_non_import_stmts o')"
      and "ts = extract_symbol_map L (filter_non_import_stmts t)"
    have perm: "sum_list (map f (from_keys (dict_keys bs @ dict_keys ts @ dict_keys os))) =
        sum_list (map f (from_keys (dict_keys bs @ dict_keys os @ dict_keys ts)))" for f :: "string \<Rightarrow> nat"
      by (rule sum_list_perm) auto
    have ex: "list_ex P (from_keys (dict_keys bs @ dict_keys ts @ dict_keys os)) =
        list_ex P (from_keys (dict_keys bs @ dict_keys os @ dict_keys ts))" for P
      by (auto simp: list_ex_iff)
    show ?thesis
      unfolding reconcile_bodies_verdict bs_def [symmetric] os_def [symmetric] ts_def [symmetric]
      by (simp add: Let_def comp_def symbol_counts_swap [of L _ _ "dict_get ts _"]
          symbol_collides_swap [of L _ "dict_get ts _"] perm ex
          import_conflicts_swap [of _ "extract_import_statements L t"])
  qed
  then show ?thesis
    by (cases "parse_ast_safely L base"; cases "parse_ast_safely L ours"; cases "parse_ast_safely L theirs")
      (simp_all add: reconcile_3way_def)
qed

text \<open>C14: The merge reports a collision for exactly the symbols that both sides changed, and not to
  the same, unless all three versions are classes no method of which collides; in the order the
  symbols are first met.\<close>

theorem collisions_where_both_changed:
  "map symbol_name (collisions (reconcile_bodies L ms b o' t)) =
    (let bs = extract_symbol_map L (filter_non_import_stmts b);
         os = extract_symbol_map L (filter_non_import_stmts o');
         ts = extract_symbol_map L (filter_non_import_stmts t)
     in filter (\<lambda>n. symbol_collides L (dict_get bs n) (dict_get os n) (dict_get ts n))
          (from_keys (dict_keys bs @ dict_keys os @ dict_keys ts)))"
proof -
  define bs os ts where "bs = extract_symbol_map L (filter_non_import_stmts b)"
    and "os = extract_symbol_map L (filter_non_import_stmts o')"
    and "ts = extract_symbol_map L (filter_non_import_stmts t)"
  define g where "g = (\<lambda>n. arbitrate_symbol L n (dict_get bs n) (dict_get os n) (dict_get ts n))"
  have cols: "map symbol_name (concat (map (fst \<circ> snd \<circ> g) names)) =
      filter (\<lambda>n. symbol_collides L (dict_get bs n) (dict_get os n) (dict_get ts n)) names" for names
    by (induction names) (auto simp: g_def arbitrate_symbol_collisions)
  define names where "names = from_keys (dict_keys bs @ dict_keys os @ dict_keys ts)"
  have "collisions (reconcile_bodies L ms b o' t) = concat (map (fst \<circ> snd \<circ> g) names)"
    by (simp add: reconcile_bodies_def bs_def [symmetric] os_def [symmetric] ts_def [symmetric]
        names_def [symmetric] reconcile_all_symbols_eq g_def [symmetric] build_reconciliation_result_def
        Let_def case_prod_beta del: concat_eq_Nil_conv)
  then show ?thesis
    by (simp add: cols bs_def [symmetric] os_def [symmetric] ts_def [symmetric] names_def [symmetric] Let_def)
qed

section \<open>What is lost and what is doubled\<close>

text \<open>The members of a class that survive a merge: its methods, sorted by name.\<close>

definition methods_only :: "'p stmt list \<Rightarrow> 'p stmt list" where
  "methods_only body = (let m = extract_methods_map body in
     if m = [] then [Pass]
     else map (\<lambda>n. the (dict_get m n)) (sorted_list_of_set (set (dict_keys m))))"

lemma not_both_changed_same: "\<not> both_changed L b b b"
  by (simp add: both_changed_def)

lemma reconcile_method_same: "reconcile_single_class_method L n m m m = (dict_get m n, None)"
  by (simp add: reconcile_single_class_method_def arbitrate_single_node_def is_theirs_accepted_def)

lemma try_reconcile_same:
  "try_reconcile_class L (Some (ClassDef n h body)) (Some (ClassDef n h body)) (Some (ClassDef n h body)) =
     (Some (ClassDef n h (methods_only body)), True)"
proof -
  let ?m = "extract_methods_map body"
  have "concat (map (\<lambda>k. case (dict_get ?m k, None :: collision_report option) of
        (Some s, None) \<Rightarrow> [s] | _ \<Rightarrow> []) ks) = map (\<lambda>k. the (dict_get ?m k)) ks"
    if "set ks \<subseteq> set (dict_keys ?m)" for ks
    using that alist_dict.get_iff_key [of ?m] by (induction ks) (auto split: option.split)
  then have "concat (map (\<lambda>k. case (dict_get ?m k, None :: collision_report option) of
        (Some s, None) \<Rightarrow> [s] | _ \<Rightarrow> []) (class_names body body body)) =
      map (\<lambda>k. the (dict_get ?m k)) (class_names body body body)"
    by (simp add: class_names_def)
  moreover have "class_names body body body = [] \<longleftrightarrow> ?m = []"
    by (simp add: class_names_def dict_keys_def)
  ultimately show ?thesis
    by (auto simp: try_reconcile_class_def reconcile_class_methods_eq reconcile_method_same comp_def
        map_filter_def Let_def build_reconciled_class_def methods_only_def class_names_def
        split: prod.split option.split)
qed

lemma arbitrate_same_class:
  assumes "ms_node s = ClassDef n h body"
  shows "arbitrate_symbol L m (Some s) (Some s) (Some s) = (Some (ClassDef n h (methods_only body)), [], True)"
  using assms by (simp add: arbitrate_symbol_def try_reconcile_same Let_def)

lemma arbitrate_same_other:
  assumes "class_parts (Some (ms_node s)) = None"
  shows "arbitrate_symbol L m (Some s) (Some s) (Some s) = (Some (ms_node s), [], False)"
  using assms try_no_class [of "Some (ms_node s)" "Some (ms_node s)" "Some (ms_node s)" L]
  by (simp add: arbitrate_symbol_def arbitrate_single_node_def is_theirs_accepted_def
      is_disjoint_symbol_addition_def wrap_collision_def Let_def)

lemma extract_symbol_map_step:
  "extract_symbol_map L (ss @ [s]) = add_symbol L (length ss, s) (extract_symbol_map L ss)"
  by (simp add: extract_symbol_map_def)

lemma extract_symbol_map_Nil [simp]: "extract_symbol_map L [] = []"
  by (simp add: extract_symbol_map_def)

definition stmt_name :: "nat \<Rightarrow> string" where
  "stmt_name i = ''__stmt_'' @ show_nat i @ ''__''"

lemma stmt_name_inj [simp]: "stmt_name i = stmt_name j \<longleftrightarrow> i = j"
  by (simp add: stmt_name_def)

lemma classify_simps [simp]:
  "classify_statement_symbol L (FunctionDef a n p) i = (n, FUNCTION)"
  "classify_statement_symbol L (ClassDef n h b) i = (n, CLASS)"
  "classify_statement_symbol L (Expr_Constant p) i = (stmt_name i, STATEMENT)"
  "classify_statement_symbol L (Other_Stmt p) i = (stmt_name i, STATEMENT)"
  by (simp_all add: classify_statement_symbol_def classify_def_def classify_assign_def
      classify_other_def stmt_name_def)

text \<open>Merging a module of a docstring and a class with itself is reported as a commutative merge
  that resolved a false conflict; the docstring is written twice and of the class only the methods
  remain, sorted by name, or \<open>pass\<close>: attributes and the docstring of the class are gone.\<close>

theorem self_merge_is_not_identity:
  assumes "parse L src = Inr [Expr_Constant p, ClassDef n h body]" "n \<noteq> stmt_name 0"
  shows "reconcile_3way L ms src src src = Inr
    \<lparr>status = COMMUTATIVE_MERGE,
     merged_code = unparse L (Expr_Constant p) @ newline @ newline @ unparse L (Expr_Constant p)
       @ newline @ newline @ newline @ unparse L (ClassDef n h (methods_only body)) @ newline,
     collisions = [], resolved_false_conflicts = 1, symbols_merged = 2, duration_ms = py_round 3 ms\<rparr>"
proof -
  let ?e = "\<lparr>ms_name = stmt_name 0, ms_kind = STATEMENT, ms_unparsed = unparse L (Expr_Constant p),
      ms_hash = hash_ast_node L (Expr_Constant p), ms_node = Expr_Constant p\<rparr>"
  let ?c = "\<lparr>ms_name = n, ms_kind = CLASS, ms_unparsed = unparse L (ClassDef n h body),
      ms_hash = hash_ast_node L (ClassDef n h body), ms_node = ClassDef n h body\<rparr>"
  have map2: "extract_symbol_map L [Expr_Constant p, ClassDef n h body] = [(stmt_name 0, ?e), (n, ?c)]"
    using assms(2) extract_symbol_map_step [of L "[Expr_Constant p]" "ClassDef n h body"]
      extract_symbol_map_step [of L "[]" "Expr_Constant p"]
    by (simp add: add_symbol_def dict_set_def)
  have no_imports: "reconcile_import_sets {} {} {} = ([], 0)" by (simp add: reconcile_import_sets_def)
  have imps: "extract_import_statements L [Expr_Constant p, ClassDef n h body] = {}"
    by (simp add: extract_import_statements_def del: set_map set_filter)
  have names: "from_keys ([stmt_name 0, n] @ [stmt_name 0, n] @ [stmt_name 0, n]) = [stmt_name 0, n]"
    using assms(2) by (simp add: from_keys_def)
  have arb: "arbitrate_symbol L m (Some ?e) (Some ?e) (Some ?e) = (Some (Expr_Constant p), [], False)"
      "arbitrate_symbol L m (Some ?c) (Some ?c) (Some ?c) = (Some (ClassDef n h (methods_only body)), [], True)"
    for m using arbitrate_same_other [of ?e L m] arbitrate_same_class [of ?c n h body L m]
    by (simp_all add: class_parts_def)
  show ?thesis
    using assms(2)
    by (simp add: reconcile_3way_def parse_ast_safely_def assms(1) reconcile_bodies_def
        filter_non_import_stmts_def imps map2 no_imports dict_keys_def
        names [simplified] reconcile_all_symbols_eq dict_get_Cons arb kept_def false_count_def
        extract_docstring_node_def build_reconciliation_result_def assemble_merged_module_def Let_def)
qed

text \<open>A statement that is neither a definition nor an assignment is known by its position only.
  When the sides insert different numbers of functions before it, the merge is clean and contains the
  statement twice, so it runs twice.\<close>

theorem moved_statement_is_doubled:
  assumes "parse L base = Inr [Other_Stmt s]"
    and "parse L ours = Inr [FunctionDef False ''f'' p, Other_Stmt s]"
    and "parse L theirs = Inr [FunctionDef False ''g'' q, FunctionDef False ''h'' r, Other_Stmt s]"
  shows "map_sum id (\<lambda>res. (collisions res, merged_code res)) (reconcile_3way L ms base ours theirs) = Inr
    ([], join_with (newline @ newline @ newline) (map (unparse L)
      [FunctionDef False ''f'' p, Other_Stmt s, FunctionDef False ''g'' q, FunctionDef False ''h'' r,
       Other_Stmt s]) @ newline)"
proof -
  define sym where "sym = (\<lambda>i st. (case classify_statement_symbol L st i of (m, k) \<Rightarrow>
    \<lparr>ms_name = m, ms_kind = k, ms_unparsed = unparse L st, ms_hash = hash_ast_node L st, ms_node = st\<rparr>))"
  have add: "add_symbol L (i, st) d = dict_set (fst (classify_statement_symbol L st i)) (sym i st) d" for i st d
    by (simp add: add_symbol_def sym_def split: prod.split)
  have node: "ms_node (sym i st) = st" for i st by (simp add: sym_def split: prod.split)
  have ne: "stmt_name i \<noteq> ''f''" "stmt_name i \<noteq> ''g''" "stmt_name i \<noteq> ''h''" for i
    by (simp_all add: stmt_name_def)
  note step = extract_symbol_map_step [of L "[]", simplified] extract_symbol_map_step [of L "[a]" for a, simplified]
    extract_symbol_map_step [of L "[a, b]" for a b, simplified]
  have maps: "extract_symbol_map L [Other_Stmt s] = [(stmt_name 0, sym 0 (Other_Stmt s))]"
    "extract_symbol_map L [FunctionDef False ''f'' p, Other_Stmt s] =
      [(''f'', sym 0 (FunctionDef False ''f'' p)), (stmt_name 1, sym 1 (Other_Stmt s))]"
    "extract_symbol_map L [FunctionDef False ''g'' q, FunctionDef False ''h'' r, Other_Stmt s] =
      [(''g'', sym 0 (FunctionDef False ''g'' q)), (''h'', sym 1 (FunctionDef False ''h'' r)),
       (stmt_name 2, sym 2 (Other_Stmt s))]"
    using ne [symmetric] by (simp_all add: step add dict_set_def numeral_2_eq_2)
  have arb: "arbitrate_symbol L m (Some x) None None = (None, [], False)"
      "arbitrate_symbol L m None (Some x) None = (Some (ms_node x), [], True)"
      "arbitrate_symbol L m None None (Some x) = (Some (ms_node x), [], True)" for m x
    by (auto simp: arbitrate_symbol_def try_reconcile_class_def arbitrate_single_node_def is_theirs_accepted_def
        is_ours_accepted_def is_disjoint_symbol_addition_def wrap_collision_def safe_hash_def Let_def
        split: stmt.split)
  have no_imports: "reconcile_import_sets {} {} {} = ([], 0)" by (simp add: reconcile_import_sets_def)
  have imps: "extract_import_statements L [Other_Stmt s] = {}"
    "extract_import_statements L [FunctionDef False ''f'' p, Other_Stmt s] = {}"
    "extract_import_statements L [FunctionDef False ''g'' q, FunctionDef False ''h'' r, Other_Stmt s] = {}"
    by (simp_all add: extract_import_statements_def del: set_map set_filter)
  have names: "from_keys [stmt_name 0, ''f'', stmt_name (Suc 0), ''g'', ''h'', stmt_name 2] =
      [stmt_name 0, ''f'', stmt_name (Suc 0), ''g'', ''h'', stmt_name 2]"
    using ne ne [symmetric] by (simp add: from_keys_def)
  show ?thesis
    using ne ne [symmetric]
    by (simp add: reconcile_3way_def parse_ast_safely_def assms reconcile_bodies_def
        filter_non_import_stmts_def imps maps no_imports dict_keys_def
        names reconcile_all_symbols_eq dict_get_Cons arb node kept_def false_count_def
        extract_docstring_node_def build_reconciliation_result_def assemble_merged_module_def Let_def)
qed

section \<open>Witnesses\<close>

text \<open>A library over the payload \<open>unit\<close> that parses two sources.\<close>

definition tiny_lib :: "unit ast_lib" where
  "tiny_lib = \<lparr>parse = (\<lambda>src. if src = ''one'' then Inr [Expr_Constant (), ClassDef ''C'' () [Assign [Name ''x''] ()]]
       else if src = ''base'' then Inr [Other_Stmt ()]
       else if src = ''ours'' then Inr [FunctionDef False ''f'' (), Other_Stmt ()]
       else Inr [FunctionDef False ''g'' (), FunctionDef False ''h'' (), Other_Stmt ()]),
     dump = (\<lambda>_. ''''), dump_target = (\<lambda>_. ''''), unparse = (\<lambda>s. if is_function s then ''def'' else ''stmt''),
     unparse_test = (\<lambda>_. ''''), sha256 = id\<rparr>"

theorem self_merge_is_not_identity_witness:
  "reconcile_3way tiny_lib 0 ''one'' ''one'' ''one'' = Inr
    \<lparr>status = COMMUTATIVE_MERGE,
     merged_code = unparse tiny_lib (Expr_Constant ()) @ newline @ newline @ unparse tiny_lib (Expr_Constant ())
       @ newline @ newline @ newline
       @ unparse tiny_lib (ClassDef ''C'' () (methods_only [Assign [Name ''x''] ()])) @ newline,
     collisions = [], resolved_false_conflicts = 1, symbols_merged = 2, duration_ms = py_round 3 0\<rparr>"
  by (rule self_merge_is_not_identity) (simp_all add: tiny_lib_def stmt_name_def)

theorem moved_statement_is_doubled_witness:
  "map_sum id (\<lambda>res. (collisions res, merged_code res)) (reconcile_3way tiny_lib 0 ''base'' ''ours'' ''theirs'') = Inr
    ([], join_with (newline @ newline @ newline) (map (unparse tiny_lib)
      [FunctionDef False ''f'' (), Other_Stmt (), FunctionDef False ''g'' (), FunctionDef False ''h'' (),
       Other_Stmt ()]) @ newline)"
  by (rule moved_statement_is_doubled) (simp_all add: tiny_lib_def)

end
