(* ===== verification/Repomap_Cache.thy ===== *)
theory Repomap_Cache
  imports Py_Text
begin

text \<open>
  \<open>examples/valkey-l2-repomap-cache/repomap_cache.py\<close>: the RESP protocol, the Valkey client with its
  fallback store, and the two tier cache. A byte is a character below 256. Parameters are the server
  (what arrives on the connection a command opens), the decoder of UTF-8 with replacement, SHA-256,
  \<open>json.loads\<close> and \<open>json.dumps\<close>, the clock, and the record computed from a source: its embedding is
  made of logarithms and square roots.
\<close>

section \<open>Bytes and integers\<close>

type_synonym bytes = string

definition crlf :: bytes where "crlf = [CHR 0x0D, CHR 0x0A]"

definition utf8_encode :: "string \<Rightarrow> bytes" where
  "utf8_encode s = concat (map (\<lambda>c. let n = (of_char c :: nat) in
     if n < 128 then [c] else [char_of (192 + n div 64), char_of (128 + n mod 64)]) s)"

text \<open>\<open>xs[i:j]\<close> with Python's negative indices.\<close>

definition slice_index :: "nat \<Rightarrow> int \<Rightarrow> nat" where
  "slice_index len i = nat (min (int len) (if i < 0 then max 0 (i + int len) else i))"

definition py_slice :: "int \<Rightarrow> int \<Rightarrow> 'a list \<Rightarrow> 'a list" where
  "py_slice i j xs = (let a = slice_index (length xs) i; b = slice_index (length xs) j
     in take (b - a) (drop a xs))"

text \<open>\<open>int(s)\<close>: white space around (that of \<open>str\<close> or of \<open>bytes\<close>), a sign, digits with single underscores between them.\<close>

fun digits_value :: "nat \<Rightarrow> bool \<Rightarrow> string \<Rightarrow> nat option" where
  "digits_value acc seen [] = (if seen then Some acc else None)"
| "digits_value acc seen (c # cs) =
     (if is_digit c then digits_value (10 * acc + (of_char c - 48)) True cs
      else if c = CHR ''_'' \<and> seen then
        (case cs of d # ds \<Rightarrow> if is_digit d then digits_value acc False cs else None | [] \<Rightarrow> None)
      else None)"

definition strip_spaces :: "(char \<Rightarrow> bool) \<Rightarrow> string \<Rightarrow> string" where
  "strip_spaces sp s = rev (dropWhile sp (rev (dropWhile sp s)))"

definition ascii_space :: "char \<Rightarrow> bool" where
  "ascii_space c \<longleftrightarrow> (let n = (of_char c :: nat) in (9 \<le> n \<and> n \<le> 13) \<or> n = 32)"

definition int_literal :: "(char \<Rightarrow> bool) \<Rightarrow> string \<Rightarrow> int option" where
  "int_literal sp s = (let t = strip_spaces sp s in
     if starts_with t ''-'' then map_option (\<lambda>n. - int n) (digits_value 0 False (tl t))
     else if starts_with t ''+'' then map_option int (digits_value 0 False (tl t))
     else map_option int (digits_value 0 False t))"

section \<open>RESP\<close>

datatype resp_value = RNone | RStr string | RInt int

text \<open>Only \<open>int()\<close> of an integer reply raises; the error is a \<open>ValueError\<close>.\<close>

type_synonym resp_reply = "(string, resp_value \<times> int) result"

definition encode_resp_command :: "string list \<Rightarrow> bytes" where
  "encode_resp_command args =
     ''*'' @ show_nat (length args) @ crlf
     @ concat (map (\<lambda>a. ''$'' @ show_nat (length (utf8_encode a)) @ crlf @ utf8_encode a @ crlf) args)"

definition resp_simple :: "(bytes \<Rightarrow> string) \<Rightarrow> bytes \<Rightarrow> nat \<Rightarrow> resp_reply" where
  "resp_simple dec data nl = Inr (RStr (dec (py_slice 1 (int nl) data)), int nl + 2)"

definition resp_int :: "bytes \<Rightarrow> nat \<Rightarrow> resp_reply" where
  "resp_int data nl = (case int_literal ascii_space (py_slice 1 (int nl) data) of
     Some i \<Rightarrow> Inr (RInt i, int nl + 2) | None \<Rightarrow> Inl ''invalid literal for int()'')"

definition parse_bulk_string :: "(bytes \<Rightarrow> string) \<Rightarrow> bytes \<Rightarrow> nat \<Rightarrow> resp_reply" where
  "parse_bulk_string dec data newline_idx =
     (case int_literal py_isspace (dec (py_slice 1 (int newline_idx) data)) of
        None \<Rightarrow> Inr (RNone, int newline_idx + 2)
      | Some len \<Rightarrow>
          if len = - 1 then Inr (RNone, int newline_idx + 2)
          else
            (let start = int newline_idx + 2; stop = start + len in
             if int (length data) < stop + 2 then Inr (RNone, 0)
             else Inr (RStr (dec (py_slice start stop data)), stop + 2)))"

definition decode_resp_response :: "(bytes \<Rightarrow> string) \<Rightarrow> bytes \<Rightarrow> resp_reply" where
  "decode_resp_response dec data =
     (case data of
        [] \<Rightarrow> Inr (RNone, 0)
      | c # _ \<Rightarrow>
         (case find_sub crlf data of
            None \<Rightarrow> Inr (RNone, 0)
          | Some nl \<Rightarrow>
              if c = CHR ''+'' \<or> c = CHR ''-'' then resp_simple dec data nl
              else if c = CHR '':'' then resp_int data nl
              else if c = CHR ''$'' then parse_bulk_string dec data nl
              else Inr (RNone, int nl + 2)))"

text \<open>What \<open>recv\<close> does next: data, or an \<open>OSError\<close> such as a timeout; the end is the peer's close.\<close>

datatype recv = Received bytes | Recv_Os_Error

datatype read_error = Read_Value_Error string | Read_Os_Error

fun read_resp_reply :: "(bytes \<Rightarrow> string) \<Rightarrow> bytes \<Rightarrow> recv list \<Rightarrow> (read_error, resp_value) result" where
  "read_resp_reply dec buffer [] =
     (case decode_resp_response dec buffer of
        Inl e \<Rightarrow> Inl (Read_Value_Error e)
      | Inr (v, consumed) \<Rightarrow> if consumed \<noteq> 0 then Inr v else Inr RNone)"
| "read_resp_reply dec buffer (r # rs) =
     (case decode_resp_response dec buffer of
        Inl e \<Rightarrow> Inl (Read_Value_Error e)
      | Inr (v, consumed) \<Rightarrow>
          if consumed \<noteq> 0 then Inr v
          else (case r of
              Recv_Os_Error \<Rightarrow> Inl Read_Os_Error
            | Received d \<Rightarrow> if d = [] then Inr RNone else read_resp_reply dec (buffer @ d) rs))"

section \<open>The client\<close>

text \<open>
  The server \<open>'s\<close> takes the bytes of a command and answers with what arrives, or the connection
  fails (\<open>None\<close>).
\<close>

record 's world =
  wire :: "bytes \<Rightarrow> 's \<Rightarrow> recv list option \<times> 's"
  decode :: "bytes \<Rightarrow> string"

record valkey_client =
  is_connected :: bool
  fallback_store :: "(string, string) dict"

definition execute_command :: "'s world \<Rightarrow> string list \<Rightarrow> 's \<Rightarrow> (string, resp_value) result \<times> 's" where
  "execute_command W cmd s =
     (case wire W (encode_resp_command cmd) s of
        (None, s') \<Rightarrow> (Inr RNone, s')
      | (Some rs, s') \<Rightarrow>
         (case read_resp_reply (decode W) [] rs of
            Inr v \<Rightarrow> (Inr v, s')
          | Inl Read_Os_Error \<Rightarrow> (Inr RNone, s')
          | Inl (Read_Value_Error e) \<Rightarrow> (Inl e, s')))"

definition new_client :: "'s world \<Rightarrow> 's \<Rightarrow> (string, valkey_client) result \<times> 's" where
  "new_client W s = (case execute_command W [''PING''] s of
     (Inl e, s') \<Rightarrow> (Inl e, s')
   | (Inr v, s') \<Rightarrow> (Inr \<lparr>is_connected = (v = RStr ''PONG''), fallback_store = []\<rparr>, s'))"

definition client_get :: "'s world \<Rightarrow> string \<Rightarrow> valkey_client \<Rightarrow> 's \<Rightarrow> (string, string option) result \<times> 's" where
  "client_get W key c s =
     (if \<not> is_connected c then (Inr (dict_get (fallback_store c) key), s)
      else (case execute_command W [''GET'', key] s of
          (Inl e, s') \<Rightarrow> (Inl e, s')
        | (Inr RNone, s') \<Rightarrow> (Inr (dict_get (fallback_store c) key), s')
        | (Inr (RStr v), s') \<Rightarrow> (Inr (Some v), s')
        | (Inr (RInt i), s') \<Rightarrow> (Inr (Some (show_int i)), s')))"

definition client_set :: "'s world \<Rightarrow> string \<Rightarrow> string \<Rightarrow> nat option \<Rightarrow> valkey_client \<Rightarrow> 's
    \<Rightarrow> (string, bool) result \<times> valkey_client \<times> 's" where
  "client_set W key val ttl c s =
     (let store = c\<lparr>fallback_store := dict_set key val (fallback_store c)\<rparr> in
      if \<not> is_connected c then (Inr True, store, s)
      else
        (let cmd = [''SET'', key, val]
           @ (case ttl of Some t \<Rightarrow> if t = 0 then [] else [''EX'', show_nat t] | None \<Rightarrow> [])
         in case execute_command W cmd s of
           (Inl e, s') \<Rightarrow> (Inl e, c, s')
         | (Inr v, s') \<Rightarrow>
             if v = RNone then (Inr True, store, s') else (Inr (v = RStr ''OK''), c, s')))"

definition client_delete :: "'s world \<Rightarrow> string \<Rightarrow> valkey_client \<Rightarrow> 's
    \<Rightarrow> (string, bool) result \<times> valkey_client \<times> 's" where
  "client_delete W key c s =
     (let c' = c\<lparr>fallback_store := dict_pop key (fallback_store c)\<rparr> in
      if is_connected c
      then (case execute_command W [''DEL'', key] s of
          (Inl e, s') \<Rightarrow> (Inl e, c', s') | (Inr _, s') \<Rightarrow> (Inr True, c', s'))
      else (Inr True, c', s))"

section \<open>Records and drift\<close>

record cached_symbol =
  cs_name :: string
  cs_kind :: string
  cs_lineno :: int
  cs_complexity :: int
  cs_has_docstring :: bool
  cs_args :: "string list"

record repomap_record =
  file_path :: string
  content_sha256 :: string
  symbols :: "cached_symbol list"
  line_count :: int
  embedding :: "py_float list"
  timestamp :: py_float

definition symbol_to_dict :: "cached_symbol \<Rightarrow> json" where
  "symbol_to_dict s = JObj [(''name'', JStr (cs_name s)), (''kind'', JStr (cs_kind s)),
     (''lineno'', JInt (cs_lineno s)), (''complexity'', JInt (cs_complexity s)),
     (''has_docstring'', JBool (cs_has_docstring s)), (''args'', JArr (map JStr (cs_args s)))]"

definition record_to_dict :: "repomap_record \<Rightarrow> json" where
  "record_to_dict r = JObj [(''file_path'', JStr (file_path r)), (''content_sha256'', JStr (content_sha256 r)),
     (''symbols'', JArr (map symbol_to_dict (symbols r))), (''line_count'', JInt (line_count r)),
     (''embedding'', JArr (map JFloat (embedding r))), (''timestamp'', JFloat (timestamp r))]"

datatype drift_verdict = PRESERVED | SLIGHT_DRIFT | SIGNIFICANT_DRIFT

definition classify_drift :: "py_float \<Rightarrow> drift_verdict" where
  "classify_drift distance = (if distance \<le> 5 / 100 then PRESERVED
     else if distance \<le> 15 / 100 then SLIGHT_DRIFT else SIGNIFICANT_DRIFT)"

record drift_report =
  dr_file_path :: string
  cosine_similarity :: py_float
  cosine_distance :: py_float
  dr_verdict :: drift_verdict
  added_symbols :: "string list"
  removed_symbols :: "string list"
  retained_symbols :: "string list"

text \<open>The cosine itself is a parameter: it is a quotient by two square roots.\<close>

definition calculate_drift :: "(py_float list \<Rightarrow> py_float list \<Rightarrow> py_float) \<Rightarrow> repomap_record
    \<Rightarrow> repomap_record \<Rightarrow> drift_report" where
  "calculate_drift cosine before after =
     (let sim = cosine (embedding before) (embedding after);
          dist = max 0 (py_round 6 (1 - sim));
          symbols_before = set (map cs_name (symbols before));
          symbols_after = set (map cs_name (symbols after))
      in \<lparr>dr_file_path = file_path after, cosine_similarity = py_round 6 sim, cosine_distance = dist,
          dr_verdict = classify_drift dist,
          added_symbols = sorted_list_of_set (symbols_after - symbols_before),
          removed_symbols = sorted_list_of_set (symbols_before - symbols_after),
          retained_symbols = sorted_list_of_set (symbols_before \<inter> symbols_after)\<rparr>)"

section \<open>The two tier cache\<close>

datatype cache_tier = L1_MEMORY | L2_VALKEY | MISS_COMPUTED

record cache_stats =
  l1_hits :: nat
  l2_hits :: nat
  misses :: nat

record repomap_cache =
  valkey :: valkey_client
  l1_capacity :: int
  l1_cache :: "(string, repomap_record) dict"
  stats :: cache_stats

text \<open>
  \<open>hydrate\<close> is \<open>from_dict (json.loads text)\<close>: a record, \<open>JSONDecodeError\<close> or \<open>KeyError\<close> as \<open>Inl True\<close>,
  any other exception as \<open>Inl False\<close>; \<open>dumps\<close> is \<open>json.dumps\<close>; \<open>compute\<close> is \<open>_compute_record\<close>, which
  raises on a syntax error.
\<close>

record 's cache_world =
  net :: "'s world"
  sha256 :: "string \<Rightarrow> string"
  hydrate :: "string \<Rightarrow> (bool, repomap_record) result"
  dumps :: "json \<Rightarrow> string"
  compute :: "string \<Rightarrow> string \<Rightarrow> string \<Rightarrow> (string, repomap_record) result"

datatype cache_error =
    Wire_Value_Error string
  | Hydrate_Error
  | Compute_Error string
  | Stop_Iteration

definition try_get_l2 :: "'s cache_world \<Rightarrow> string \<Rightarrow> valkey_client \<Rightarrow> 's
    \<Rightarrow> (cache_error, repomap_record option) result \<times> 's" where
  "try_get_l2 C cache_key c s =
     (case client_get (net C) cache_key c s of
        (Inl e, s') \<Rightarrow> (Inl (Wire_Value_Error e), s')
      | (Inr None, s') \<Rightarrow> (Inr None, s')
      | (Inr (Some cached_json), s') \<Rightarrow>
          if cached_json = '''' then (Inr None, s')
          else (case hydrate C cached_json of
              Inr r \<Rightarrow> (Inr (Some r), s')
            | Inl known \<Rightarrow> if known then (Inr None, s') else (Inl Hydrate_Error, s')))"

text \<open>\<open>next(iter({}))\<close> raises \<open>StopIteration\<close>.\<close>

definition store_l1 :: "int \<Rightarrow> string \<Rightarrow> repomap_record \<Rightarrow> (string, repomap_record) dict
    \<Rightarrow> (cache_error, (string, repomap_record) dict) result" where
  "store_l1 capacity key r d =
     (if capacity \<le> int (length d)
      then (case d of
          [] \<Rightarrow> Inl Stop_Iteration
        | (oldest_key, _) # _ \<Rightarrow> Inr (dict_set key r (dict_pop oldest_key d)))
      else Inr (dict_set key r d))"

definition get_repomap :: "'s cache_world \<Rightarrow> string \<Rightarrow> string \<Rightarrow> repomap_cache \<Rightarrow> 's
    \<Rightarrow> (cache_error, repomap_record \<times> cache_tier) result \<times> repomap_cache \<times> 's" where
  "get_repomap C path content cache s =
     (let digest = sha256 C content; cache_key = ''repomap:'' @ digest in
      case dict_get (l1_cache cache) cache_key of
        Some r \<Rightarrow>
          (Inr (r, L1_MEMORY), cache\<lparr>stats := (stats cache)\<lparr>l1_hits := Suc (l1_hits (stats cache))\<rparr>\<rparr>, s)
      | None \<Rightarrow>
         (case try_get_l2 C cache_key (valkey cache) s of
            (Inl e, s1) \<Rightarrow> (Inl e, cache, s1)
          | (Inr (Some r), s1) \<Rightarrow>
             (case store_l1 (l1_capacity cache) cache_key r (l1_cache cache) of
                Inl e \<Rightarrow> (Inl e, cache, s1)
              | Inr d \<Rightarrow> (Inr (r, L2_VALKEY), cache\<lparr>l1_cache := d,
                  stats := (stats cache)\<lparr>l2_hits := Suc (l2_hits (stats cache))\<rparr>\<rparr>, s1))
          | (Inr None, s1) \<Rightarrow>
             (let cache1 = cache\<lparr>stats := (stats cache)\<lparr>misses := Suc (misses (stats cache))\<rparr>\<rparr> in
              case compute C path content digest of
                Inl e \<Rightarrow> (Inl (Compute_Error e), cache1, s1)
              | Inr r \<Rightarrow>
                 (case store_l1 (l1_capacity cache) cache_key r (l1_cache cache) of
                    Inl e \<Rightarrow> (Inl e, cache1, s1)
                  | Inr d \<Rightarrow>
                     (case client_set (net C) cache_key (dumps C (record_to_dict r)) (Some 86400)
                         (valkey cache) s1 of
                        (Inl e, c, s2) \<Rightarrow> (Inl (Wire_Value_Error e), cache1\<lparr>l1_cache := d, valkey := c\<rparr>, s2)
                      | (Inr _, c, s2) \<Rightarrow> (Inr (r, MISS_COMPUTED), cache1\<lparr>l1_cache := d, valkey := c\<rparr>, s2))))))"

definition new_cache :: "valkey_client \<Rightarrow> int \<Rightarrow> repomap_cache" where
  "new_cache c capacity = \<lparr>valkey = c, l1_capacity = capacity, l1_cache = [],
     stats = \<lparr>l1_hits = 0, l2_hits = 0, misses = 0\<rparr>\<rparr>"

end
