(* ===== verification/Cache_Props.thy ===== *)
theory Cache_Props
  imports Repomap_Cache
begin

text \<open>
  A bulk reply is read back whatever the fragments it arrives in; the first tier stays within its
  capacity; and with the fallback store every answer of the cache is the record of that very content.
\<close>

section \<open>Decimal literals\<close>

lemma digits_value_digits:
  "list_all is_digit ds \<Longrightarrow> digits_value acc seen ds =
     (if ds = [] then (if seen then Some acc else None)
      else Some (foldl (\<lambda>a c. 10 * a + (of_char c - 48)) acc ds))"
  by (induction ds arbitrary: acc seen) auto

lemma foldl_digits_rev: "foldl (\<lambda>a c. 10 * a + (of_char c - 48)) 0 (rev ds) = undigits ds"
  by (induction ds) (simp_all add: foldl_conv_foldr)

lemma show_nat_all_digits: "list_all is_digit (show_nat n)"
  by (auto simp: list_all_iff show_nat_digits)

lemma dropWhile_digits: "list_all is_digit ds \<Longrightarrow> dropWhile py_isspace ds = ds"
  by (cases ds) (auto simp: is_digit_def py_isspace_def Let_def)

lemma int_literal_show_nat [simp]: "int_literal py_isspace (show_nat n) = Some (int n)"
proof -
  have "strip_spaces py_isspace (show_nat n) = show_nat n"
    using show_nat_all_digits [of n] dropWhile_digits [of "show_nat n"] dropWhile_digits [of "rev (show_nat n)"]
    by (simp add: strip_spaces_def list_all_rev)
  moreover have "digits_value 0 False (show_nat n) = Some n"
    using show_nat_all_digits [of n] foldl_digits_rev [of "digits_rev n"]
    by (simp add: digits_value_digits) (simp add: show_nat_def)
  moreover obtain c cs where "show_nat n = c # cs" "is_digit c"
    using show_nat_all_digits [of n] by (cases "show_nat n") auto
  ultimately show ?thesis by (auto simp: int_literal_def is_digit_def starts_with_def Let_def)
qed

section \<open>Replies in fragments\<close>

definition decoder_ok :: "(bytes \<Rightarrow> string) \<Rightarrow> bool" where
  "decoder_ok dec \<longleftrightarrow> (\<forall>s. dec (utf8_encode s) = s)"

lemma utf8_encode_ascii: "list_all (\<lambda>c. (of_char c :: nat) < 128) s \<Longrightarrow> utf8_encode s = s"
  by (induction s) (auto simp: utf8_encode_def)

lemma decode_digits: "decoder_ok dec \<Longrightarrow> dec (show_nat n) = show_nat n"
proof -
  assume "decoder_ok dec"
  moreover have "utf8_encode (show_nat n) = show_nat n"
    by (rule utf8_encode_ascii) (use show_nat_digits [of _ n] in \<open>fastforce simp: list_all_iff is_digit_def\<close>)
  ultimately show ?thesis by (metis decoder_ok_def)
qed

text \<open>The reply a server sends for a string.\<close>

definition bulk_reply :: "string \<Rightarrow> bytes" where
  "bulk_reply v = ''$'' @ show_nat (length (utf8_encode v)) @ crlf @ utf8_encode v @ crlf"

lemma find_crlf: "CHR 0x0D \<notin> set h \<Longrightarrow> find_sub crlf (h @ crlf @ r) = Some (length h)"
  by (induction h) (auto simp: crlf_def)

lemma no_crlf_prefix: "CHR 0x0D \<notin> set h \<Longrightarrow> prefix p (h @ [CHR 0x0D]) \<Longrightarrow> find_sub crlf p = None"
  by (induction h arbitrary: p; case_tac p) (auto simp: crlf_def)

lemma show_nat_no_cr: "CHR 0x0D \<notin> set (show_nat n)"
  using show_nat_digits [of "CHR 0x0D"] by (auto simp: is_digit_def)

lemma parse_bulk_header:
  assumes "decoder_ok dec" "data = ''$'' @ show_nat n @ crlf @ r"
  shows "decode_resp_response dec data =
    (if length r < n + 2 then Inr (RNone, 0)
     else Inr (RStr (dec (take n r)), int (length (show_nat n)) + int n + 5))"
proof -
  let ?h = "''$'' @ show_nat n"
  have f: "find_sub crlf data = Some (length ?h)"
    using find_crlf [of ?h r] show_nat_no_cr assms(2) by simp
  have num: "py_slice 1 (int (length ?h)) data = show_nat n"
    by (simp add: py_slice_def slice_index_def assms(2) Let_def)
  have start: "drop (length ?h + 2) data = r" by (simp add: assms(2) crlf_def)
  have len: "length data = length ?h + 2 + length r" by (simp add: assms(2) crlf_def)
  have payload: "py_slice (int (length ?h) + 2) (int (length ?h) + 2 + int n) data = take n r"
    if "n + 2 \<le> length r"
  proof -
    have "slice_index (length data) (int (length ?h) + 2) = length ?h + 2"
      "slice_index (length data) (int (length ?h) + 2 + int n) = length ?h + 2 + n"
      using that by (simp_all add: slice_index_def len)
    then have "py_slice (int (length ?h) + 2) (int (length ?h) + 2 + int n) data =
        take (length ?h + 2 + n - (length ?h + 2)) (drop (length ?h + 2) data)"
      by (simp only: py_slice_def Let_def)
    then show ?thesis by (simp only: start diff_add_inverse)
  qed
  obtain cs where d: "data = CHR ''$'' # cs" using assms(2) by simp
  have "decode_resp_response dec data = parse_bulk_string dec data (length ?h)"
    using f by (simp add: decode_resp_response_def d)
  also have "\<dots> = (if length r < n + 2 then Inr (RNone, 0)
      else Inr (RStr (dec (take n r)), int (length (show_nat n)) + int n + 5))"
    unfolding parse_bulk_string_def num decode_digits [OF assms(1)] int_literal_show_nat
    using payload len by (auto simp: Let_def)
  finally show ?thesis .
qed

lemma partial_bulk_reply:
  assumes "decoder_ok dec" "strict_prefix p (bulk_reply v)"
  shows "decode_resp_response dec p = Inr (RNone, 0)"
proof -
  let ?n = "length (utf8_encode v)"
  let ?h = "''$'' @ show_nat ?n"
  have pre: "prefix p (?h @ crlf @ utf8_encode v @ crlf)" and short: "length p < length (bulk_reply v)"
    using assms(2) prefix_length_less [OF assms(2)] by (auto simp: bulk_reply_def strict_prefix_def)
  show ?thesis
  proof (cases "length p \<le> length ?h + 1")
    case True
    then have "prefix p (?h @ [CHR 0x0D])"
      using pre prefix_append_short [of p "?h @ [CHR 0x0D]" "[CHR 0x0A] @ utf8_encode v @ crlf"]
      by (simp add: crlf_def)
    then have "find_sub crlf p = None"
      using no_crlf_prefix [of ?h p] show_nat_no_cr by simp
    then show ?thesis by (cases p) (simp_all add: decode_resp_response_def)
  next
    case False
    then have "length (?h @ crlf) \<le> length p" by (simp add: crlf_def)
    moreover have "prefix (?h @ crlf) (?h @ crlf @ utf8_encode v @ crlf)" by simp
    ultimately have "prefix (?h @ crlf) p" using pre prefix_length_prefix by blast
    then obtain r where r: "p = ?h @ crlf @ r" by (auto simp: prefix_def)
    then have "length r < ?n + 2" using short by (simp add: bulk_reply_def crlf_def)
    then show ?thesis using parse_bulk_header [OF assms(1), of p ?n r] r by simp
  qed
qed

lemma complete_bulk_reply:
  assumes "decoder_ok dec"
  shows "decode_resp_response dec (bulk_reply v) = Inr (RStr v, int (length (bulk_reply v)))"
proof -
  have "decode_resp_response dec (bulk_reply v) = Inr (RStr (dec (utf8_encode v)),
      int (length (show_nat (length (utf8_encode v)))) + int (length (utf8_encode v)) + 5)"
    using parse_bulk_header [OF assms, of "bulk_reply v" "length (utf8_encode v)" "utf8_encode v @ crlf"]
    by (simp add: bulk_reply_def crlf_def)
  then show ?thesis using assms by (simp add: decoder_ok_def bulk_reply_def crlf_def)
qed

lemma read_fragments:
  assumes "decoder_ok dec" "list_all (\<lambda>c. c \<noteq> []) chunks" "prefix (buf @ concat chunks) (bulk_reply v)"
  shows "read_resp_reply dec buf (map Received chunks) =
    Inr (if buf @ concat chunks = bulk_reply v then RStr v else RNone)"
  using assms(2,3)
proof (induction chunks arbitrary: buf)
  case Nil
  then show ?case
    using complete_bulk_reply [OF assms(1), of v] partial_bulk_reply [OF assms(1), of buf v]
    by (cases "buf = bulk_reply v") (auto simp: bulk_reply_def strict_prefix_def)
next
  case (Cons c chunks)
  then have "strict_prefix buf (bulk_reply v)"
    by (auto simp: strict_prefix_def dest: append_prefixD) 
  then show ?case using Cons partial_bulk_reply [OF assms(1), of buf v] by simp
qed

section \<open>Properties of the protocol\<close>

text \<open>C27: A bulk string reply is read back exactly, in whatever non-empty fragments it arrives; if the
  peer closes before the end, the answer is nothing, never a shortened value.\<close>

theorem fragmented_reply_roundtrip:
  assumes "decoder_ok dec" "list_all (\<lambda>c. c \<noteq> []) chunks" "prefix (concat chunks) (bulk_reply v)"
  shows "read_resp_reply dec [] (map Received chunks) =
    Inr (if concat chunks = bulk_reply v then RStr v else RNone)"
  using read_fragments [OF assms(1,2), of "[]" v] assms(3) by simp

text \<open>A decoder that is right on the texts of the model.\<close>

fun latin_decode :: "bytes \<Rightarrow> string" where
  "latin_decode [] = ''''"
| "latin_decode [c] = [c]"
| "latin_decode (c # d # cs) =
     (if (of_char c :: nat) < 128 then c # latin_decode (d # cs)
      else char_of ((of_char c - 192) * 64 + (of_char d - 128 :: nat)) # latin_decode cs)"

lemma latin_decode_ascii: "(of_char c :: nat) < 128 \<Longrightarrow> latin_decode (c # cs) = c # latin_decode cs"
  by (cases cs) simp_all

lemma latin_decode_step: "latin_decode (utf8_encode (c # s)) = c # latin_decode (utf8_encode s)"
proof (cases "(of_char c :: nat) < 128")
  case True
  then show ?thesis by (simp add: utf8_encode_def latin_decode_ascii)
next
  case False
  have "(of_char c :: nat) div 64 \<le> 255 div 64"
  proof (rule div_le_mono)
    show "(of_char c :: nat) \<le> 255" using nat_of_char_less_256 [of c] by linarith
  qed
  then have "of_char (char_of (192 + of_char c div 64 :: nat) :: char) = (192 + of_char c div 64 :: nat)"
      "of_char (char_of (128 + of_char c mod 64 :: nat) :: char) = (128 + of_char c mod 64 :: nat)"
    by (simp_all add: of_char_of)
  then show ?thesis
    using False by (simp add: utf8_encode_def Let_def mult.commute [of _ 64])
qed

lemma latin_decoder_ok: "decoder_ok latin_decode"
  unfolding decoder_ok_def
proof
  show "latin_decode (utf8_encode s) = s" for s
    by (induction s) (simp_all only: latin_decode_step, simp add: utf8_encode_def)
qed

theorem fragmented_reply_roundtrip_witness:
  "read_resp_reply latin_decode [] (map Received [''$2'', crlf @ ''o'', ''k'' @ crlf]) =
    Inr (if concat [''$2'', crlf @ ''o'', ''k'' @ crlf] = bulk_reply ''ok'' then RStr ''ok'' else RNone)"
  by (rule fragmented_reply_roundtrip)
    (rule latin_decoder_ok, code_simp+)

section \<open>The first tier\<close>

fun run_requests :: "'s cache_world \<Rightarrow> (string \<times> string) list \<Rightarrow> repomap_cache \<Rightarrow> 's \<Rightarrow> repomap_cache \<times> 's" where
  "run_requests C [] cache s = (cache, s)"
| "run_requests C ((path, content) # reqs) cache s =
     (case get_repomap C path content cache s of (_, cache', s') \<Rightarrow> run_requests C reqs cache' s')"

text \<open>What a request does to the first tier.\<close>

lemma store_l1_cases:
  assumes "store_l1 cap key r d = Inr d'"
  shows "d' = dict_set key r d \<and> int (length d) < cap
    \<or> (\<exists>oldest v rest. d = (oldest, v) # rest \<and> d' = dict_set key r (dict_pop oldest d) \<and> cap \<le> int (length d))"
  using assms by (auto simp: store_l1_def split: if_splits list.splits)

lemma get_repomap_l1:
  assumes "get_repomap C path content cache s = (res, cache', s')"
  shows "l1_capacity cache' = l1_capacity cache \<and> (l1_cache cache' = l1_cache cache \<or>
      (\<exists>r. store_l1 (l1_capacity cache) (''repomap:'' @ sha256 C content) r (l1_cache cache) = Inr (l1_cache cache')))"
proof -
  let ?key = "''repomap:'' @ sha256 C content"
  obtain t s1 where t: "try_get_l2 C ?key (valkey cache) s = (t, s1)" by fastforce
  note defs = get_repomap_def Let_def t [simplified]
  consider (hit) r where "dict_get (l1_cache cache) ?key = Some r"
    | (fail) e where "dict_get (l1_cache cache) ?key = None" "t = Inl e"
    | (l2) r where "dict_get (l1_cache cache) ?key = None" "t = Inr (Some r)"
    | (miss) "dict_get (l1_cache cache) ?key = None" "t = Inr None"
    by (metis option.exhaust sum.exhaust)
  then show ?thesis
  proof cases
    case l2
    then show ?thesis
      using assms by (cases "store_l1 (l1_capacity cache) ?key r (l1_cache cache)") (auto simp: defs)
  next
    case miss
    show ?thesis
    proof (cases "compute C path content (sha256 C content)")
      case (Inr r)
      obtain w c s2 where "client_set (net C) ?key (dumps C (record_to_dict r)) (Some 86400)
          (valkey cache) s1 = (w, c, s2)" by (metis prod_cases3)
      then show ?thesis
        using assms miss Inr
        by (cases "store_l1 (l1_capacity cache) ?key r (l1_cache cache)"; cases w) (auto simp: defs)
    qed (use assms miss in \<open>auto simp: defs\<close>)
  qed (use assms in \<open>auto simp: defs\<close>)
qed

lemma length_dict_set_new: "length (dict_set k v d) \<le> Suc (length d)"
  using alist_dict.length_set_le [of k v d] by (simp add: dict_keys_def)

lemma store_l1_bounds:
  assumes "store_l1 cap key r d = Inr d'" "wf_dict d" "int (length d) \<le> max 0 cap"
  shows "wf_dict d' \<and> int (length d') \<le> max 0 cap \<and> 0 < cap"
proof -
  consider "d' = dict_set key r d" "int (length d) < cap"
    | oldest v rest where "d = (oldest, v) # rest" "d' = dict_set key r (dict_pop oldest d)" "cap \<le> int (length d)"
    using store_l1_cases [OF assms(1)] by blast
  then show ?thesis
  proof cases
    case 1
    then show ?thesis
      using length_dict_set_new [of key r d] assms(2) alist_dict.inv_set [of d key r] by simp
  next
    case 2
    have "length (dict_pop oldest d) \<le> length rest"
      using length_delete_le [of oldest rest] 2(1) by (simp add: dict_pop_def)
    moreover have "length d' \<le> Suc (length (dict_pop oldest d))"
      using length_dict_set_new [of key r "dict_pop oldest d"] 2(2) by simp
    moreover have "wf_dict d'"
      using 2(2) alist_dict.inv_set [OF alist_dict.inv_pop [OF assms(2), of oldest], of key r] by simp
    ultimately show ?thesis using 2 assms(3) by auto
  qed
qed

lemma run_requests_l1:
  assumes "run_requests C reqs cache s = (cache', s')"
    and "wf_dict (l1_cache cache)" "int (length (l1_cache cache)) \<le> max 0 (l1_capacity cache)"
  shows "l1_capacity cache' = l1_capacity cache \<and> wf_dict (l1_cache cache')
    \<and> int (length (l1_cache cache')) \<le> max 0 (l1_capacity cache)"
  using assms
proof (induction C reqs cache s arbitrary: cache' s' rule: run_requests.induct)
  case (2 C path content reqs cache s)
  obtain res c1 s1 where g: "get_repomap C path content cache s = (res, c1, s1)"
    by (metis prod_cases3)
  have cap: "l1_capacity c1 = l1_capacity cache" using get_repomap_l1 [OF g] by simp
  have "wf_dict (l1_cache c1) \<and> int (length (l1_cache c1)) \<le> max 0 (l1_capacity cache)"
    using get_repomap_l1 [OF g] store_l1_bounds "2.prems"(2,3) by metis
  then show ?case using "2.IH" [OF g [symmetric] refl] "2.prems"(1) g cap by simp
qed simp

text \<open>Whatever the server answers, the first tier never holds more records than its capacity and
  each key once; and no request is ever answered by a cache of capacity zero, whose first store
  raises.\<close>

theorem l1_within_capacity:
  "case run_requests C reqs (new_cache c cap) s of (cache, s') \<Rightarrow>
     wf_dict (l1_cache cache) \<and> int (length (l1_cache cache)) \<le> max 0 cap \<and>
     (case get_repomap C path content cache s' of (Inr _, _) \<Rightarrow> 0 < cap | (Inl _, _) \<Rightarrow> True)"
proof -
  obtain cache s' where run: "run_requests C reqs (new_cache c cap) s = (cache, s')" by fastforce
  have inv: "l1_capacity cache = cap" "wf_dict (l1_cache cache)" "int (length (l1_cache cache)) \<le> max 0 cap"
    using run_requests_l1 [OF run] by (simp_all add: new_cache_def)
  have "0 < cap" if g: "get_repomap C path content cache s' = (Inr x, y)" for x y
  proof (cases "l1_cache cache")
    case (Cons a d)
    then show ?thesis using inv(3) by auto
  next
    case Nil
    then have "store_l1 cap k r (l1_cache cache) = Inl Stop_Iteration" if "cap \<le> 0" for k r
      using that by (simp add: store_l1_def)
    then show ?thesis
      using g Nil inv(1)
      by (cases "0 < cap") (auto simp: get_repomap_def Let_def split: option.splits sum.splits prod.splits)
  qed
  then show ?thesis using run inv by (auto split: prod.split sum.split)
qed

section \<open>Offline, the cache is transparent\<close>

text \<open>What the code relies on in \<open>json\<close> and \<open>hashlib\<close>: documents survive the round trip, no document
  is empty, and the contents at hand have different digests.\<close>

definition cache_laws :: "'s cache_world \<Rightarrow> string set \<Rightarrow> bool" where
  "cache_laws C contents \<longleftrightarrow> (\<forall>p. \<forall>c\<in>contents. \<forall>r. compute C p c (sha256 C c) = Inr r
       \<longrightarrow> hydrate C (dumps C (record_to_dict r)) = Inr r)
     \<and> (\<forall>j. dumps C j \<noteq> '''') \<and> inj_on (sha256 C) contents"

definition computed :: "'s cache_world \<Rightarrow> string set \<Rightarrow> string \<Rightarrow> repomap_record \<Rightarrow> bool" where
  "computed C contents key r \<longleftrightarrow> (\<exists>p. \<exists>c\<in>contents. key = ''repomap:'' @ sha256 C c
     \<and> compute C p c (sha256 C c) = Inr r)"

definition offline_inv :: "'s cache_world \<Rightarrow> string set \<Rightarrow> repomap_cache \<Rightarrow> bool" where
  "offline_inv C contents cache \<longleftrightarrow> \<not> is_connected (valkey cache)
     \<and> (\<forall>k r. dict_get (l1_cache cache) k = Some r \<longrightarrow> computed C contents k r)
     \<and> (\<forall>k t. dict_get (fallback_store (valkey cache)) k = Some t \<longrightarrow>
         (\<exists>r. t = dumps C (record_to_dict r) \<and> computed C contents k r))"

lemma store_l1_get:
  assumes "store_l1 cap key r d = Inr d'"
  shows "dict_get d' k = Some x \<Longrightarrow> k = key \<and> x = r \<or> dict_get d k = Some x"
  using store_l1_cases [OF assms] by (auto split: if_splits)

lemma offline_try_get:
  assumes "cache_laws C contents" "offline_inv C contents cache"
  shows "\<exists>ro. try_get_l2 C key (valkey cache) s = (Inr ro, s)
    \<and> (case ro of Some r \<Rightarrow> computed C contents key r | None \<Rightarrow> True)"
proof (cases "dict_get (fallback_store (valkey cache)) key")
  case (Some t)
  then obtain r where "t = dumps C (record_to_dict r)" "computed C contents key r"
    using assms(2) unfolding offline_inv_def by blast
  moreover from this have "hydrate C t = Inr r" "t \<noteq> ''''"
    using assms(1) by (auto simp: cache_laws_def computed_def)
  ultimately show ?thesis
    using Some assms(2) by (simp add: try_get_l2_def client_get_def offline_inv_def)
qed (use assms(2) in \<open>simp add: try_get_l2_def client_get_def offline_inv_def\<close>)

lemma offline_step:
  assumes laws: "cache_laws C contents" and inv: "offline_inv C contents cache" and c: "content \<in> contents"
    and g: "get_repomap C path content cache s = (res, cache', s')"
  shows "offline_inv C contents cache' \<and>
    (case res of Inr (r, tier) \<Rightarrow> computed C contents (''repomap:'' @ sha256 C content) r | Inl _ \<Rightarrow> True)"
proof -
  let ?key = "''repomap:'' @ sha256 C content"
  obtain ro where t: "try_get_l2 C ?key (valkey cache) s = (Inr ro, s)"
      and ro: "case ro of Some r \<Rightarrow> computed C contents ?key r | None \<Rightarrow> True"
    using offline_try_get [OF laws inv, of ?key s] by blast
  note defs = get_repomap_def Let_def t [simplified]
  have stored: "offline_inv C contents (cache\<lparr>l1_cache := d, stats := st\<rparr>)"
    if "store_l1 (l1_capacity cache) ?key r (l1_cache cache) = Inr d" "computed C contents ?key r" for r d st
    using inv that(2) store_l1_get [OF that(1)] by (fastforce simp: offline_inv_def)
  consider (hit) r where "dict_get (l1_cache cache) ?key = Some r"
    | (l2) r where "dict_get (l1_cache cache) ?key = None" "ro = Some r"
    | (miss) "dict_get (l1_cache cache) ?key = None" "ro = None"
    by (metis option.exhaust)
  then show ?thesis
  proof cases
    case hit
    then show ?thesis using g inv by (auto simp: defs offline_inv_def)
  next
    case l2
    then show ?thesis
      using g ro inv stored [of r]
      by (cases "store_l1 (l1_capacity cache) ?key r (l1_cache cache)") (auto simp: defs)
  next
    case miss
    show ?thesis
    proof (cases "compute C path content (sha256 C content)")
      case (Inl e)
      then show ?thesis using g miss inv by (auto simp: defs offline_inv_def)
    next
      case (Inr r)
      then have comp: "computed C contents ?key r" using c by (auto simp: computed_def)
      show ?thesis
      proof (cases "store_l1 (l1_capacity cache) ?key r (l1_cache cache)")
        case (Inl e)
        then show ?thesis using g miss inv \<open>compute C path content _ = Inr r\<close> by (auto simp: defs offline_inv_def)
      next
        case d: (Inr d)
        have off: "\<not> is_connected (valkey cache)" using inv by (simp add: offline_inv_def)
        have "cache' = cache\<lparr>stats := (stats cache)\<lparr>misses := Suc (misses (stats cache))\<rparr>, l1_cache := d,
            valkey := (valkey cache)\<lparr>fallback_store :=
              dict_set ?key (dumps C (record_to_dict r)) (fallback_store (valkey cache))\<rparr>\<rparr>"
            and res: "res = Inr (r, MISS_COMPUTED)"
          using g miss Inr d off by (auto simp: defs client_set_def)
        moreover have "\<exists>r'. t = dumps C (record_to_dict r') \<and> computed C contents k r'"
          if "dict_get (dict_set ?key (dumps C (record_to_dict r)) (fallback_store (valkey cache))) k = Some t"
          for k t
          using that comp inv unfolding offline_inv_def by (cases "k = ?key") auto
        ultimately have "offline_inv C contents cache'"
          using off stored [OF d comp] by (simp add: offline_inv_def)
        then show ?thesis using res comp by simp
      qed
    qed
  qed
qed

lemma offline_run:
  assumes "cache_laws C contents" "offline_inv C contents cache" "snd ` set reqs \<subseteq> contents"
    and "run_requests C reqs cache s = (cache', s')"
  shows "offline_inv C contents cache'"
  using assms
proof (induction C reqs cache s arbitrary: cache' s' rule: run_requests.induct)
  case (2 C path content reqs cache s)
  obtain res c1 s1 where g: "get_repomap C path content cache s = (res, c1, s1)"
    by (metis prod_cases3)
  have "offline_inv C contents c1"
    using offline_step [OF "2.prems"(1,2) _ g] "2.prems"(3) by simp
  then show ?case using "2.IH" [OF g [symmetric] refl] "2.prems" g by simp
qed simp

text \<open>Without a server, after any requests, an answer for a source is the record \<open>_compute_record\<close>
  makes of that very source; of the path nothing is known, a hit keeps the path it was first computed
  for.\<close>

theorem offline_answers_are_computed:
  assumes "cache_laws C (insert content (snd ` set reqs))"
    and "\<not> is_connected c" "fallback_store c = []"
  shows "case run_requests C reqs (new_cache c cap) s of (cache, s') \<Rightarrow>
    (case get_repomap C path content cache s' of
       (Inr (r, tier), _) \<Rightarrow> \<exists>p. compute C p content (sha256 C content) = Inr r
     | (Inl _, _) \<Rightarrow> True)"
proof -
  let ?K = "insert content (snd ` set reqs)"
  obtain cache s' where run: "run_requests C reqs (new_cache c cap) s = (cache, s')" by fastforce
  have "offline_inv C ?K (new_cache c cap)"
    using assms(2,3) by (simp add: offline_inv_def new_cache_def)
  then have inv: "offline_inv C ?K cache"
    using offline_run [OF assms(1) _ _ run] by blast
  have "\<exists>p. compute C p content (sha256 C content) = Inr r"
    if "get_repomap C path content cache s' = (Inr (r, tier), y)" for r tier y
  proof -
    obtain cache' s'' where "y = (cache', s'')" by (cases y)
    with that have g: "get_repomap C path content cache s' = (Inr (r, tier), cache', s'')" by simp
    have "computed C ?K (''repomap:'' @ sha256 C content) r"
      using offline_step [OF assms(1) inv _ g] by simp
    then obtain p c where c: "c \<in> ?K" "sha256 C content = sha256 C c" "compute C p c (sha256 C c) = Inr r"
      by (auto simp: computed_def)
    then have "content = c"
      using assms(1) unfolding cache_laws_def by (meson inj_onD insertI1)
    then show ?thesis using c by auto
  qed
  then show ?thesis using run by (auto split: prod.split sum.split)
qed

definition dark_world :: "unit cache_world" where
  "dark_world = \<lparr>net = \<lparr>wire = (\<lambda>_ s. (None, s)), decode = latin_decode\<rparr>, sha256 = id,
     hydrate = (\<lambda>_. Inr \<lparr>file_path = ''a.py'', content_sha256 = '''', symbols = [], line_count = 1,
       embedding = [], timestamp = 0\<rparr>),
     dumps = (\<lambda>_. ''{}''),
     compute = (\<lambda>_ _ _. Inr \<lparr>file_path = ''a.py'', content_sha256 = '''', symbols = [], line_count = 1,
       embedding = [], timestamp = 0\<rparr>)\<rparr>"

theorem offline_answers_are_computed_witness:
  "case run_requests dark_world [(''a.py'', ''x'')]
      (new_cache \<lparr>is_connected = False, fallback_store = []\<rparr> 1) () of (cache, s') \<Rightarrow>
    (case get_repomap dark_world ''b.py'' ''x'' cache s' of
       (Inr (r, tier), _) \<Rightarrow> \<exists>p. compute dark_world p ''x'' (sha256 dark_world ''x'') = Inr r
     | (Inl _, _) \<Rightarrow> True)"
  by (rule offline_answers_are_computed) (simp_all add: cache_laws_def dark_world_def)

end
