(* ===== verification/Sdlc_Manager.thy ===== *)
theory Sdlc_Manager
  imports Py_Json
begin

text \<open>
  \<open>tools/sdlc_project_manager.py\<close>: resources read from decoded JSON, the dependency graph with its
  cycle search, the score, the next action, the columns of the board, and one reconciliation pass
  of the backlog against a scan. Floats are rationals. The set arguments of the cycle search are
  passed and returned; a search that did not return would be \<open>None\<close>.
\<close>

section \<open>Data\<close>

datatype resource_kind = ISSUE | PULL_REQUEST | MILESTONE

datatype priority_level = P0_CRITICAL | P1_HIGH | P2_MEDIUM | P3_LOW

datatype lifecycle_state = BACKLOG | READY | IN_PROGRESS | IN_REVIEW | DONE | BLOCKED

definition kind_value :: "resource_kind \<Rightarrow> string" where
  "kind_value k = (case k of ISSUE \<Rightarrow> ''issue'' | PULL_REQUEST \<Rightarrow> ''pull_request'' | MILESTONE \<Rightarrow> ''milestone'')"

definition priority_value :: "priority_level \<Rightarrow> string" where
  "priority_value p = (case p of P0_CRITICAL \<Rightarrow> ''P0_CRITICAL'' | P1_HIGH \<Rightarrow> ''P1_HIGH''
     | P2_MEDIUM \<Rightarrow> ''P2_MEDIUM'' | P3_LOW \<Rightarrow> ''P3_LOW'')"

definition state_value :: "lifecycle_state \<Rightarrow> string" where
  "state_value s = (case s of BACKLOG \<Rightarrow> ''Backlog'' | READY \<Rightarrow> ''Ready'' | IN_PROGRESS \<Rightarrow> ''In Progress''
     | IN_REVIEW \<Rightarrow> ''In Review'' | DONE \<Rightarrow> ''Done'' | BLOCKED \<Rightarrow> ''Blocked'')"

text \<open>\<open>Enum(value)\<close>: the member with that value, else a \<open>ValueError\<close>.\<close>

definition enum_member :: "('a \<Rightarrow> string) \<Rightarrow> 'a list \<Rightarrow> json \<Rightarrow> 'a py" where
  "enum_member value members j =
     (case List.find (\<lambda>m. JStr (value m) = j) members of
        Some m \<Rightarrow> Inr m | None \<Rightarrow> Inl (Value_Error (json_str j)))"

record sdlc_resource =
  resource_id :: string
  kind :: resource_kind
  number :: int
  title :: string
  labels :: "json list"
  milestone :: json
  lifecycle_state :: lifecycle_state
  priority :: priority_level
  age_days :: py_float
  is_draft :: bool
  checks_passing :: bool
  unresolved_review_threads :: int
  depends_on :: "int list"
  blocks :: "int list"
  blocked_reason :: string
  effort_points :: int
  business_value :: int
  calculated_score :: py_float

section \<open>Loading\<close>

type_synonym task = "(string, json) dict"

definition int_list :: "json \<Rightarrow> int list py" where
  "int_list j = result_bind (py_iter j) (map_result py_int)"

definition required_field :: "task \<Rightarrow> string \<Rightarrow> json py" where
  "required_field item k = (case dict_get item k of Some v \<Rightarrow> Inr v | None \<Rightarrow> Inl (Key_Error k))"

definition resource_from_dict :: "task \<Rightarrow> sdlc_resource py" where
  "resource_from_dict item =
     result_bind (enum_member kind_value [ISSUE, PULL_REQUEST, MILESTONE]
                    (field_or item ''kind'' (JStr ''issue''))) (\<lambda>k.
     result_bind (result_bind (required_field item ''number'') py_int) (\<lambda>n.
     result_bind (required_field item ''title'') (\<lambda>t.
     result_bind (py_iter (field_or item ''labels'' (JArr []))) (\<lambda>ls.
     result_bind (enum_member state_value [BACKLOG, READY, IN_PROGRESS, IN_REVIEW, DONE, BLOCKED]
                    (field_or item ''lifecycle_state'' (JStr ''Backlog''))) (\<lambda>st.
     result_bind (enum_member priority_value [P0_CRITICAL, P1_HIGH, P2_MEDIUM, P3_LOW]
                    (field_or item ''priority'' (JStr ''P2_MEDIUM''))) (\<lambda>p.
     result_bind (py_float_of (field_or item ''age_days'' (JFloat 0))) (\<lambda>age.
     result_bind (py_int (field_or item ''unresolved_review_threads'' (JInt 0))) (\<lambda>threads.
     result_bind (int_list (field_or item ''depends_on'' (JArr []))) (\<lambda>deps.
     result_bind (int_list (field_or item ''blocks'' (JArr []))) (\<lambda>bs.
     result_bind (py_int (field_or item ''effort_points'' (JInt 2))) (\<lambda>effort.
     result_bind (py_int (field_or item ''business_value'' (JInt 5))) (\<lambda>worth.
       Inr \<lparr>resource_id = json_str (field_or item ''resource_id'' (field_or item ''number'' (JStr ''''))),
            kind = k, number = n, title = json_str t, labels = ls,
            milestone = field_or item ''milestone'' JNull,
            lifecycle_state = st, priority = p, age_days = age,
            is_draft = py_truthy (field_or item ''is_draft'' (JBool False)),
            checks_passing = py_truthy (field_or item ''checks_passing'' (JBool True)),
            unresolved_review_threads = threads, depends_on = deps, blocks = bs,
            blocked_reason = json_str (field_or item ''blocked_reason'' (JStr '''')),
            effort_points = effort, business_value = worth, calculated_score = 0\<rparr>))))))))))))"

definition load_resources_from_dicts :: "task list \<Rightarrow> sdlc_resource list py" where
  "load_resources_from_dicts payload = map_result resource_from_dict payload"

section \<open>Dependency graph\<close>

record dependency_graph =
  resources_by_num :: "(int, sdlc_resource) dict"
  adj_list :: "(int, int list) dict"

definition dependency_graph_init :: "sdlc_resource list \<Rightarrow> dependency_graph" where
  "dependency_graph_init rs =
     \<lparr>resources_by_num = fold (\<lambda>r. dict_set (number r) r) rs [],
      adj_list = fold (\<lambda>r. dict_set (number r) (depends_on r)) rs []\<rparr>"

definition neighbours :: "dependency_graph \<Rightarrow> int \<Rightarrow> int list" where
  "neighbours g n = (case dict_get (adj_list g) n of Some ns \<Rightarrow> ns | None \<Rightarrow> [])"

text \<open>
  The loop of \<open>_dfs_cycle\<close> over the neighbours of a node; the inner call on a fresh neighbour enters
  it, runs its own loop and leaves it. The result is the answer with the two sets.
\<close>

partial_function (option) scan_neighbours ::
  "dependency_graph \<Rightarrow> int list \<Rightarrow> int set \<Rightarrow> int set \<Rightarrow> (bool \<times> int set \<times> int set) option" where
  "scan_neighbours g ns visited stack =
     (case ns of
        [] \<Rightarrow> Some (False, visited, stack)
      | n # rest \<Rightarrow>
          if n \<in> stack then Some (True, visited, stack)
          else if n \<notin> visited then
            Option.bind (scan_neighbours g (neighbours g n) (insert n visited) (insert n stack))
              (\<lambda>(found, visited', stack').
                 if found then Some (True, visited', stack')
                 else scan_neighbours g rest visited' (stack' - {n}))
          else scan_neighbours g rest visited stack)"

definition dfs_cycle :: "dependency_graph \<Rightarrow> int \<Rightarrow> int set \<Rightarrow> int set \<Rightarrow> (bool \<times> int set \<times> int set) option" where
  "dfs_cycle g node visited stack =
     map_option (\<lambda>(found, visited', stack'). (found, visited', if found then stack' else stack' - {node}))
       (scan_neighbours g (neighbours g node) (insert node visited) (insert node stack))"

text \<open>\<open>any(...)\<close> over the nodes not visited when the generator reaches them.\<close>

fun any_cycle :: "dependency_graph \<Rightarrow> int list \<Rightarrow> int set \<Rightarrow> int set \<Rightarrow> bool option" where
  "any_cycle g [] visited stack = Some False"
| "any_cycle g (n # ns) visited stack =
     (if n \<in> visited then any_cycle g ns visited stack
      else Option.bind (dfs_cycle g n visited stack) (\<lambda>(found, visited', stack').
        if found then Some True else any_cycle g ns visited' stack'))"

definition has_circular_dependency :: "dependency_graph \<Rightarrow> bool option" where
  "has_circular_dependency g = any_cycle g (dict_keys (adj_list g)) {} {}"

definition is_blocked :: "dependency_graph \<Rightarrow> int \<Rightarrow> bool" where
  "is_blocked g n \<longleftrightarrow> list_ex (\<lambda>d. case dict_get (resources_by_num g) d of
      Some r \<Rightarrow> lifecycle_state r \<noteq> DONE | None \<Rightarrow> False) (neighbours g n)"

section \<open>Scores\<close>

definition base_weight :: "priority_level \<Rightarrow> py_float" where
  "base_weight p = (case p of P0_CRITICAL \<Rightarrow> 1000 | P1_HIGH \<Rightarrow> 500 | P2_MEDIUM \<Rightarrow> 200 | P3_LOW \<Rightarrow> 50)"

definition LABEL_WEIGHT_MODIFIERS :: "(string, py_float) dict" where
  "LABEL_WEIGHT_MODIFIERS = [(''security'', 400), (''bug'', 250), (''regression'', 300),
     (''performance'', 150), (''feature'', 100), (''docs'', 50)]"

definition clean_label :: "string \<Rightarrow> string" where
  "clean_label l = py_replace ''priority/'' '''' (py_replace ''type/'' '''' (py_lower l))"

fun label_modifiers :: "json list \<Rightarrow> py_float py" where
  "label_modifiers [] = Inr 0"
| "label_modifiers (JStr l # ls) = result_bind (label_modifiers ls) (\<lambda>b.
     Inr ((case dict_get LABEL_WEIGHT_MODIFIERS (clean_label l) of Some w \<Rightarrow> w | None \<Rightarrow> 0) + b))"
| "label_modifiers (_ # ls) = Inl Attribute_Error"

definition pr_modifiers :: "sdlc_resource \<Rightarrow> py_float" where
  "pr_modifiers r = 300 + (if checks_passing r then 0 else 250)
     + (if unresolved_review_threads r > 0 then of_int (unresolved_review_threads r) * 50 else 0)"

definition score_resource :: "sdlc_resource \<Rightarrow> dependency_graph \<Rightarrow> sdlc_resource py" where
  "score_resource r g = result_bind (label_modifiers (labels r)) (\<lambda>bonus.
     let raw = base_weight (priority r) + bonus + of_nat (length (blocks r)) * 150
           + (if kind r = PULL_REQUEST then pr_modifiers r else 0)
           + of_int (business_value r) * 25 / of_int (max (effort_points r) 1)
           + min (age_days r * 12) 200;
         score = (if is_blocked g (number r) then raw * (2 / 10) else raw)
     in Inr (r\<lparr>calculated_score := py_round 2 score\<rparr>))"

section \<open>The manager\<close>

record project_manager =
  resources :: "sdlc_resource list"
  dep_graph :: dependency_graph

definition project_manager_init :: "sdlc_resource list \<Rightarrow> project_manager py" where
  "project_manager_init rs = (let g = dependency_graph_init rs in
     result_bind (map_result (\<lambda>r. score_resource r g) rs) (\<lambda>scored.
       Inr \<lparr>resources = scored, dep_graph = g\<rparr>))"

definition ranked :: "sdlc_resource list \<Rightarrow> sdlc_resource list" where
  "ranked rs = sort_key (\<lambda>r. - calculated_score r) rs"

definition get_ranked_resources :: "project_manager \<Rightarrow> sdlc_resource list" where
  "get_ranked_resources m = ranked (resources m)"

datatype action_type = REMEDIATE_PR_CHECKS | RESOLVE_REVIEW_THREADS | IMPLEMENT_ISSUE | PROGRESS_ITEM

record agent_action =
  action :: action_type
  target_resource :: sdlc_resource
  rationale :: string
  priority_score :: py_float

definition make_action :: "action_type \<Rightarrow> string \<Rightarrow> sdlc_resource \<Rightarrow> agent_action" where
  "make_action a why r =
     \<lparr>action = a, target_resource = r, rationale = why, priority_score = calculated_score r\<rparr>"

fun find_pr_remediation_action :: "sdlc_resource list \<Rightarrow> agent_action option" where
  "find_pr_remediation_action [] = None"
| "find_pr_remediation_action (r # rs) =
     (if kind r \<noteq> PULL_REQUEST \<or> lifecycle_state r = DONE then find_pr_remediation_action rs
      else if \<not> checks_passing r then
        Some (make_action REMEDIATE_PR_CHECKS (''PR #'' @ show_int (number r)
          @ '' has failing CI checks. Remediate to maintain release integrity.'') r)
      else if unresolved_review_threads r > 0 then
        Some (make_action RESOLVE_REVIEW_THREADS (''PR #'' @ show_int (number r) @ '' has ''
          @ show_int (unresolved_review_threads r) @ '' unresolved review threads.'') r)
      else find_pr_remediation_action rs)"

definition is_unblocked_candidate :: "dependency_graph \<Rightarrow> sdlc_resource \<Rightarrow> bool" where
  "is_unblocked_candidate g r \<longleftrightarrow>
     kind r = ISSUE \<and> lifecycle_state r \<in> {READY, BACKLOG} \<and> blocked_reason r = ''''
     \<and> \<not> is_blocked g (number r)"

definition deferred_candidates :: "project_manager \<Rightarrow> sdlc_resource list" where
  "deferred_candidates m = filter (\<lambda>r. blocked_reason r \<noteq> '''' \<and> kind r = ISSUE
     \<and> lifecycle_state r \<in> {READY, BACKLOG}) (get_ranked_resources m)"

definition find_unblocked_issue_action ::
  "dependency_graph \<Rightarrow> sdlc_resource list \<Rightarrow> agent_action option" where
  "find_unblocked_issue_action g rs =
     map_option (\<lambda>r. make_action IMPLEMENT_ISSUE (''Top unblocked issue #'' @ show_int (number r)
         @ '' ('' @ [CHR 0x27] @ title r @ [CHR 0x27] @ '') ready for TDD implementation.'') r)
       (List.find (is_unblocked_candidate g) rs)"

definition find_fallback_progress_action :: "sdlc_resource list \<Rightarrow> agent_action option" where
  "find_fallback_progress_action rs =
     map_option (\<lambda>r. make_action PROGRESS_ITEM (''Advance #'' @ show_int (number r)
         @ '' ('' @ [CHR 0x27] @ title r @ [CHR 0x27] @ '') through lifecycle.'') r)
       (List.find (\<lambda>r. blocked_reason r = '''') rs)"

definition recommend_next_agent_action :: "project_manager \<Rightarrow> agent_action option" where
  "recommend_next_agent_action m = (let rs = get_ranked_resources m in
     if rs = [] then None
     else (case find_pr_remediation_action rs of
       Some a \<Rightarrow> Some a
     | None \<Rightarrow> (case find_unblocked_issue_action (dep_graph m) rs of
         Some a \<Rightarrow> Some a
       | None \<Rightarrow> find_fallback_progress_action rs)))"

text \<open>The columns of the board: a state, and its cards by score with the blocked mark.\<close>

definition column_cards ::
  "dependency_graph \<Rightarrow> sdlc_resource list \<Rightarrow> lifecycle_state \<Rightarrow> (sdlc_resource \<times> bool) list" where
  "column_cards g rs st =
     map (\<lambda>r. (r, is_blocked g (number r))) (ranked (filter (\<lambda>r. lifecycle_state r = st) rs))"

definition kanban_columns :: "project_manager \<Rightarrow> (lifecycle_state \<times> (sdlc_resource \<times> bool) list) list" where
  "kanban_columns m = map (\<lambda>st. (st, column_cards (dep_graph m) (resources m) st))
     [IN_PROGRESS, IN_REVIEW, READY, BACKLOG, DONE]"

section \<open>Reconciliation\<close>

record reconciliation_result =
  opened :: "string list"
  closed :: "string list"
  advanced :: "string list"
  refreshed :: "string list"
  unchanged :: nat

definition empty_reconciliation :: reconciliation_result where
  "empty_reconciliation = \<lparr>opened = [], closed = [], advanced = [], refreshed = [], unchanged = 0\<rparr>"

definition changed :: "reconciliation_result \<Rightarrow> bool" where
  "changed r \<longleftrightarrow> opened r \<noteq> [] \<or> closed r \<noteq> [] \<or> advanced r \<noteq> [] \<or> refreshed r \<noteq> []"

definition summary :: "reconciliation_result \<Rightarrow> string" where
  "summary r = ''opened '' @ show_int (int (length (opened r))) @ '', closed '' @ show_int (int (length (closed r)))
     @ '', advanced '' @ show_int (int (length (advanced r))) @ '', refreshed ''
     @ show_int (int (length (refreshed r))) @ '', unchanged '' @ show_int (int (unchanged r))"

definition card_identity :: "task \<Rightarrow> string" where
  "card_identity t = py_strip (json_str (field_or t ''title'' (JStr '''')))"

definition is_roadmap_card :: "task \<Rightarrow> bool" where
  "is_roadmap_card t \<longleftrightarrow> starts_with (json_str (field_or t ''resource_id'' (JStr ''''))) ''roadmap-''"

definition ROADMAP_DECLARED_FIELDS :: "string list" where
  "ROADMAP_DECLARED_FIELDS = [''title'', ''labels'', ''milestone'', ''priority'', ''effort_points'',
     ''business_value'', ''blocked_reason'', ''prescriptive_guidance'', ''suggested_action'']"

definition close_card :: "task \<Rightarrow> task" where
  "close_card t = dict_set ''lifecycle_state'' (JStr (state_value DONE)) t"

text \<open>\<open>task.get("lifecycle_state") == "Done"\<close>.\<close>

definition card_done :: "task \<Rightarrow> bool" where
  "card_done t \<longleftrightarrow> field_or t ''lifecycle_state'' JNull = JStr (state_value DONE)"

definition refresh_roadmap_card :: "task \<Rightarrow> (string, task) dict \<Rightarrow> task" where
  "refresh_roadmap_card t current = (case dict_get current (card_identity t) of
     None \<Rightarrow> t
   | Some fresh \<Rightarrow> dict_merge t (List.map_filter (\<lambda>k. map_option (Pair k) (dict_get fresh k))
       ROADMAP_DECLARED_FIELDS))"

definition reconcile_defect_card ::
  "task \<Rightarrow> string \<Rightarrow> (string, task) dict \<Rightarrow> reconciliation_result \<Rightarrow> task list \<times> reconciliation_result" where
  "reconcile_defect_card t identity current r =
     (if identity \<in> set (dict_keys current) then ([t], r\<lparr>unchanged := unchanged r + 1\<rparr>)
      else if card_done t then ([], r)
      else ([close_card t], r\<lparr>closed := closed r @ [identity]\<rparr>))"

definition reconcile_roadmap_card ::
  "task \<Rightarrow> (string, task) dict \<Rightarrow> bool \<Rightarrow> reconciliation_result \<Rightarrow> task list \<times> reconciliation_result" where
  "reconcile_roadmap_card t current ingested r =
     (let identity = card_identity t in
      if identity \<in> set (dict_keys current) then
        (let fresh = refresh_roadmap_card t current in
         if \<not> json_same (JObj fresh) (JObj t) then ([fresh], r\<lparr>refreshed := refreshed r @ [identity]\<rparr>)
         else ([fresh], r\<lparr>unchanged := unchanged r + 1\<rparr>))
      else if ingested \<and> \<not> card_done t then ([close_card t], r\<lparr>closed := closed r @ [identity]\<rparr>)
      else ([t], r\<lparr>unchanged := unchanged r + 1\<rparr>))"

definition reconcile_card ::
  "(string, task) dict \<Rightarrow> bool \<Rightarrow> task \<Rightarrow> reconciliation_result \<Rightarrow> task list \<times> reconciliation_result" where
  "reconcile_card current ingested t r =
     (if is_roadmap_card t then reconcile_roadmap_card t current ingested r
      else reconcile_defect_card t (card_identity t) current r)"

fun reconcile_existing_tasks ::
  "(string, task) dict \<Rightarrow> bool \<Rightarrow> task list \<Rightarrow> reconciliation_result \<Rightarrow> task list \<times> reconciliation_result" where
  "reconcile_existing_tasks current ingested [] r = ([], r)"
| "reconcile_existing_tasks current ingested (t # ts) r =
     (let (cards, r1) = reconcile_card current ingested t r;
          (merged, r2) = reconcile_existing_tasks current ingested ts r1
      in (cards @ merged, r2))"

definition append_unseen_tasks ::
  "task list \<Rightarrow> (string, task) dict \<Rightarrow> reconciliation_result \<Rightarrow> task list \<times> reconciliation_result" where
  "append_unseen_tasks merged current r =
     (let unseen = filter (\<lambda>kv. fst kv \<notin> card_identity ` set merged) current
      in (merged @ map snd unseen, r\<lparr>opened := opened r @ map fst unseen\<rparr>))"

definition current_by_id :: "task list \<Rightarrow> (string, task) dict" where
  "current_by_id current = fold (\<lambda>t. dict_set (card_identity t) t) current []"

definition reconcile_backlog :: "task list \<Rightarrow> task list \<Rightarrow> task list \<times> reconciliation_result" where
  "reconcile_backlog existing current =
     (let by_id = current_by_id current;
          (merged, r) = reconcile_existing_tasks by_id (list_ex is_roadmap_card current) existing
            empty_reconciliation
      in append_unseen_tasks merged by_id r)"

section \<open>Promotion and one pass\<close>

definition find_promotion_candidate :: "project_manager \<Rightarrow> sdlc_resource option" where
  "find_promotion_candidate m = List.find
     (\<lambda>r. lifecycle_state r = BACKLOG \<and> is_unblocked_candidate (dep_graph m) r) (get_ranked_resources m)"

definition promote_card :: "string \<Rightarrow> task \<Rightarrow> task" where
  "promote_card target t =
     (if card_identity t = target then dict_set ''lifecycle_state'' (JStr (state_value READY)) t else t)"

definition advance_ready_item :: "task list \<Rightarrow> project_manager \<Rightarrow> task list \<times> string option" where
  "advance_ready_item tasks m = (case find_promotion_candidate m of
     None \<Rightarrow> (tasks, None)
   | Some target \<Rightarrow>
       (map (promote_card (py_strip (title target))) tasks, Some (py_strip (title target))))"

text \<open>
  \<open>_sync_once\<close>: a file is its decoded document, and the board is written only when no step raised.
  A document must be a list of dicts: anything else raises when a card is read.
\<close>

definition task_of :: "json \<Rightarrow> task py" where
  "task_of j = (case j of JObj kvs \<Rightarrow> Inr kvs | _ \<Rightarrow> Inl Attribute_Error)"

definition tasks_of :: "json option \<Rightarrow> task list py" where
  "tasks_of file = (case file of
     None \<Rightarrow> Inr []
   | Some j \<Rightarrow> result_bind (py_iter j) (map_result task_of))"

definition sync_once :: "json option \<Rightarrow> json option \<Rightarrow> (json \<times> reconciliation_result) py" where
  "sync_once backlog scan =
     result_bind (tasks_of scan) (\<lambda>current.
     result_bind (tasks_of backlog) (\<lambda>existing.
       let (merged, r) = reconcile_backlog existing current in
       result_bind (load_resources_from_dicts merged) (\<lambda>rs.
       result_bind (project_manager_init rs) (\<lambda>m.
         let (board, promoted) = advance_ready_item merged m in
         Inr (JArr (map JObj board),
              case promoted of
                None \<Rightarrow> r
              | Some t \<Rightarrow> if t = '''' then r else r\<lparr>advanced := advanced r @ [t]\<rparr>)))))"

end
