(* ===== verification/Sdlc_Props.thy ===== *)
theory Sdlc_Props
  imports Sdlc_Manager
begin

text \<open>
  The project manager: its cycle search is total and decides cycles, the next action is the best
  ranked one of the first rule that applies, the board follows the scan, and reconciling twice
  against one scan changes nothing more.
\<close>

section \<open>Cycle search\<close>

definition dependency_rel :: "dependency_graph \<Rightarrow> (int \<times> int) set" where
  "dependency_rel g = {(a, b). b \<in> set (neighbours g a)}"

definition cyclic :: "dependency_graph \<Rightarrow> bool" where
  "cyclic g \<longleftrightarrow> (\<exists>x. (x, x) \<in> (dependency_rel g)\<^sup>+)"

definition graph_nodes :: "dependency_graph \<Rightarrow> int set" where
  "graph_nodes g = set (dict_keys (adj_list g)) \<union> (\<Union>n \<in> set (dict_keys (adj_list g)). set (neighbours g n))"

lemma finite_graph_nodes [simp]: "finite (graph_nodes g)"
  by (simp add: graph_nodes_def)

lemma no_key_no_neighbours: "n \<notin> set (dict_keys (adj_list g)) \<Longrightarrow> neighbours g n = []"
  using alist_dict.get_iff_key [of "adj_list g" n] by (auto simp: neighbours_def)

lemma neighbours_in_graph: "m \<in> set (neighbours g n) \<Longrightarrow> m \<in> graph_nodes g"
  using no_key_no_neighbours [of n g]
  by (cases "n \<in> set (dict_keys (adj_list g))") (auto simp: graph_nodes_def)

text \<open>
  The state in which the loop over the neighbours of \<open>cur\<close> runs: the stack is part of the visited
  nodes, leads to \<open>cur\<close>, and the finished nodes are free of cycles.
\<close>

definition scan_state :: "dependency_graph \<Rightarrow> int \<Rightarrow> int set \<Rightarrow> int set \<Rightarrow> bool" where
  "scan_state g cur visited stack \<longleftrightarrow>
     stack \<subseteq> visited \<and> visited \<subseteq> graph_nodes g \<and> (\<forall>m \<in> stack. (m, cur) \<in> (dependency_rel g)\<^sup>*)
     \<and> cycle_free (dependency_rel g) (visited - stack)"

definition scan_post :: "dependency_graph \<Rightarrow> int set \<Rightarrow> int set \<Rightarrow> int set \<Rightarrow>
    (bool \<times> int set \<times> int set) option \<Rightarrow> bool" where
  "scan_post g ns visited stack r \<longleftrightarrow> (case r of
     None \<Rightarrow> False
   | Some (found, visited', stack') \<Rightarrow>
       if found then cyclic g
       else stack' = stack \<and> visited \<subseteq> visited' \<and> visited' \<subseteq> graph_nodes g
         \<and> cycle_free (dependency_rel g) (visited' - stack) \<and> ns \<subseteq> visited' - stack)"

lemma scan_post_insert:
  assumes "scan_post g ns v stack r" "visited \<subseteq> v" "n \<in> v - stack"
  shows "scan_post g (insert n ns) visited stack r"
proof (cases r)
  case (Some t)
  with assms show ?thesis by (cases t) (auto simp: scan_post_def split: if_splits)
qed (use assms in \<open>simp add: scan_post_def\<close>)

lemma scan_postE:
  assumes "scan_post g ns visited stack r"
  obtains (found) v s where "r = Some (True, v, s)" "cyclic g"
  | (not_found) v where "r = Some (False, v, stack)" "visited \<subseteq> v" "v \<subseteq> graph_nodes g"
      "cycle_free (dependency_rel g) (v - stack)" "ns \<subseteq> v - stack"
  using assms by (cases r) (auto simp: scan_post_def split: if_splits)

lemma scan_enter:
  assumes "scan_state g cur visited stack" "n \<notin> visited" "(cur, n) \<in> dependency_rel g"
  shows "scan_state g n (insert n visited) (insert n stack)"
proof -
  have "insert n visited - insert n stack = visited - stack" using assms(1,2) by (auto simp: scan_state_def)
  moreover have "(m, n) \<in> (dependency_rel g)\<^sup>*" if "m \<in> stack" for m
    using assms that by (meson rtrancl.rtrancl_into_rtrancl scan_state_def)
  moreover have "n \<in> graph_nodes g"
    using assms(3) neighbours_in_graph by (auto simp: dependency_rel_def)
  ultimately show ?thesis using assms unfolding scan_state_def
    by (metis (no_types, lifting) insert_iff insert_mono insert_subset rtrancl.rtrancl_refl)
qed

lemma finish_node:
  assumes "cycle_free (dependency_rel g) (visited - insert n stack)" "n \<in> visited" "n \<notin> stack"
    and "set (neighbours g n) \<subseteq> visited - insert n stack"
  shows "cycle_free (dependency_rel g) (visited - stack)"
proof -
  have "visited - stack = insert n (visited - insert n stack)" using assms(2,3) by auto
  moreover have "dependency_rel g `` {n} \<subseteq> visited - insert n stack"
    using assms(4) by (auto simp: dependency_rel_def)
  ultimately show ?thesis using cycle_free_insert [OF assms(1)] by auto
qed

lemma scan_neighbours_ok:
  assumes "scan_state g cur visited stack" "card (graph_nodes g - visited) \<le> k"
    and "\<forall>n \<in> set ns. (cur, n) \<in> dependency_rel g"
  shows "scan_post g (set ns) visited stack (scan_neighbours g ns visited stack)"
  using assms
proof (induction k arbitrary: ns cur visited stack rule: less_induct)
  case (less k)
  show ?case using less.prems
  proof (induction ns arbitrary: visited)
    case Nil
    then show ?case by (subst scan_neighbours.simps) (auto simp: scan_post_def scan_state_def)
  next
    case (Cons n rest)
    have edge: "(cur, n) \<in> dependency_rel g" using Cons.prems by simp
    consider (gray) "n \<in> stack" | (fresh) "n \<notin> stack" "n \<notin> visited" | (black) "n \<notin> stack" "n \<in> visited"
      by blast
    then show ?case
    proof cases
      case gray
      then have "(n, n) \<in> (dependency_rel g)\<^sup>+"
        using Cons.prems(1) edge rtrancl_into_trancl1 [of n cur] by (simp add: scan_state_def)
      then have "cyclic g" unfolding cyclic_def by blast
      moreover have "scan_neighbours g (n # rest) visited stack = Some (True, visited, stack)"
        using gray by (subst scan_neighbours.simps) simp
      ultimately show ?thesis by (simp add: scan_post_def)
    next
      case black
      then have "scan_neighbours g (n # rest) visited stack = scan_neighbours g rest visited stack"
        by (subst scan_neighbours.simps) simp
      moreover have "scan_post g (set rest) visited stack (scan_neighbours g rest visited stack)"
        using Cons by simp
      ultimately show ?thesis using black scan_post_insert by simp
    next
      case fresh
      note enter = scan_enter [OF Cons.prems(1) fresh(2) edge]
      have "n \<in> graph_nodes g - visited" using enter fresh by (auto simp: scan_state_def)
      then have smaller: "card (graph_nodes g - insert n visited) < card (graph_nodes g - visited)"
        by (intro psubset_card_mono) auto
      have inner: "scan_post g (set (neighbours g n)) (insert n visited) (insert n stack)
          (scan_neighbours g (neighbours g n) (insert n visited) (insert n stack))"
        using less.IH [OF _ enter order_refl] smaller Cons.prems(2) by (simp add: dependency_rel_def)
      then show ?thesis
      proof (cases rule: scan_postE)
        case (found v s)
        then have "scan_neighbours g (n # rest) visited stack = Some (True, v, s)"
          using fresh by (subst scan_neighbours.simps) simp
        with found show ?thesis by (simp add: scan_post_def)
      next
        case (not_found v)
        have "cycle_free (dependency_rel g) (v - stack)"
          using finish_node [OF not_found(4) _ fresh(1) not_found(5)] not_found(2) by simp
        then have st: "scan_state g cur v stack"
          using Cons.prems(1) not_found(2,3) by (auto simp: scan_state_def)
        have "card (graph_nodes g - v) \<le> card (graph_nodes g - visited)"
          using not_found(2) by (intro card_mono) auto
        then have "scan_post g (set rest) v stack (scan_neighbours g rest v stack)"
          using Cons.IH [OF st] Cons.prems(2,3) by simp
        moreover have "scan_neighbours g (n # rest) visited stack = scan_neighbours g rest v stack"
          using fresh not_found(1) by (subst scan_neighbours.simps) simp
        ultimately show ?thesis
          using not_found(2) fresh(1) scan_post_insert [of g "set rest" v stack _ visited n] by simp
      qed
    qed
  qed
qed

text \<open>A call on a fresh node, outside of any other call.\<close>

lemma blocker_search_ok:
  assumes "cycle_free (dependency_rel g) visited" "visited \<subseteq> graph_nodes g" "n \<in> graph_nodes g" "n \<notin> visited"
  obtains (found) v s where "dfs_cycle g n visited {} = Some (True, v, s)" "cyclic g"
  | (not_found) v where "dfs_cycle g n visited {} = Some (False, v, {})" "insert n visited \<subseteq> v"
      "v \<subseteq> graph_nodes g" "cycle_free (dependency_rel g) v"
proof -
  have "insert n visited - {n} = visited" using assms(4) by auto
  then have st: "scan_state g n (insert n visited) {n}"
    using assms by (auto simp: scan_state_def)
  have "scan_post g (set (neighbours g n)) (insert n visited) {n}
      (scan_neighbours g (neighbours g n) (insert n visited) {n})"
    by (rule scan_neighbours_ok [OF st order_refl]) (simp add: dependency_rel_def)
  then show thesis
  proof (cases rule: scan_postE)
    case f: found
    then show thesis using found by (simp add: dfs_cycle_def)
  next
    case nf: (not_found v)
    then have "cycle_free (dependency_rel g) v" using finish_node [of g v n "{}"] by auto
    then show thesis using nf not_found by (simp add: dfs_cycle_def)
  qed
qed

lemma any_cycle_ok:
  assumes "cycle_free (dependency_rel g) visited" "visited \<subseteq> graph_nodes g" "set ns \<subseteq> graph_nodes g"
  shows "any_cycle g ns visited {} = Some True \<and> cyclic g
    \<or> any_cycle g ns visited {} = Some False
      \<and> (\<exists>v. cycle_free (dependency_rel g) v \<and> visited \<union> set ns \<subseteq> v)"
  using assms
proof (induction ns arbitrary: visited)
  case (Cons n ns)
  show ?case
  proof (cases "n \<in> visited")
    case fresh: False
    have "n \<in> graph_nodes g" using Cons.prems(3) by simp
    from Cons.prems(1,2) this fresh show ?thesis
    proof (cases rule: blocker_search_ok)
      case (not_found v)
      then have unfold: "any_cycle g (n # ns) visited {} = any_cycle g ns v {}" using fresh by simp
      have grow: "visited \<union> set (n # ns) \<subseteq> v \<union> set ns" using not_found(2) by auto
      have "any_cycle g ns v {} = Some True \<and> cyclic g \<or> any_cycle g ns v {} = Some False
          \<and> (\<exists>w. cycle_free (dependency_rel g) w \<and> v \<union> set ns \<subseteq> w)"
        using Cons.IH [OF not_found(4,3)] Cons.prems(3) by simp
      then show ?thesis unfolding unfold using grow by (meson subset_trans)
    qed (use fresh in simp)
  next
    case True
    with Cons show ?thesis by (simp add: insert_absorb)
  qed
qed auto

text \<open>C16: The dependency check always returns, and reports a circular dependency exactly when some item depends, directly or through others, on itself.\<close>

theorem circular_dependency_decides:
  "has_circular_dependency g = Some (\<exists>n. (n, n) \<in> {(a, b). b \<in> set (neighbours g a)}\<^sup>+)"
proof -
  have key: "n \<in> set (dict_keys (adj_list g))" if "(n, n) \<in> (dependency_rel g)\<^sup>+" for n
  proof (rule ccontr)
    assume "n \<notin> set (dict_keys (adj_list g))"
    then show False using that no_key_no_neighbours [of n g]
      by (auto simp: dependency_rel_def dest: tranclD)
  qed
  have "\<not> cyclic g" if "cycle_free (dependency_rel g) v" "set (dict_keys (adj_list g)) \<subseteq> v" for v
    using that key unfolding cyclic_def cycle_free_def by blast
  moreover have "cycle_free (dependency_rel g) {}" by (simp add: cycle_free_def)
  ultimately have "has_circular_dependency g = Some (cyclic g)"
    using any_cycle_ok [of g "{}" "dict_keys (adj_list g)"]
    by (auto simp: has_circular_dependency_def graph_nodes_def)
  then show ?thesis by (simp add: dependency_rel_def cyclic_def)
qed

section \<open>The next action\<close>

definition pr_needs_work :: "sdlc_resource \<Rightarrow> bool" where
  "pr_needs_work r \<longleftrightarrow> kind r = PULL_REQUEST \<and> lifecycle_state r \<noteq> DONE
     \<and> (\<not> checks_passing r \<or> unresolved_review_threads r > 0)"

text \<open>A resource with a property that no other resource with it outscores.\<close>

definition top_scored :: "(sdlc_resource \<Rightarrow> bool) \<Rightarrow> sdlc_resource list \<Rightarrow> sdlc_resource \<Rightarrow> bool" where
  "top_scored P rs r \<longleftrightarrow> r \<in> set rs \<and> P r
     \<and> list_all (\<lambda>x. P x \<longrightarrow> calculated_score x \<le> calculated_score r) rs"

lemma find_ranked_Some: "List.find P (ranked rs) = Some r \<Longrightarrow> top_scored P rs r"
  using find_sorted_least [of P "\<lambda>r. - calculated_score r" rs r]
  by (auto simp: ranked_def top_scored_def list_all_iff)

lemma find_ranked_None: "List.find P (ranked rs) = None \<longleftrightarrow> \<not> list_ex P rs"
  by (auto simp: find_None_iff ranked_def list_ex_iff)

definition remediation_kind :: "sdlc_resource \<Rightarrow> action_type" where
  "remediation_kind r = (if checks_passing r then RESOLVE_REVIEW_THREADS else REMEDIATE_PR_CHECKS)"

definition targets :: "action_type \<Rightarrow> sdlc_resource \<Rightarrow> agent_action \<Rightarrow> bool" where
  "targets k r a \<longleftrightarrow> action a = k \<and> target_resource a = r \<and> priority_score a = calculated_score r"

lemma targets_make_action [simp]: "targets k r (make_action k' why r') \<longleftrightarrow> k' = k \<and> r' = r"
  by (auto simp: targets_def make_action_def)

lemma remediation_skips: "\<not> pr_needs_work r \<Longrightarrow>
    find_pr_remediation_action (r # rs) = find_pr_remediation_action rs"
  by (auto simp: pr_needs_work_def)

lemma remediation_stops: "pr_needs_work r \<Longrightarrow>
    \<exists>a. find_pr_remediation_action (r # rs) = Some a \<and> targets (remediation_kind r) r a"
  by (auto simp: pr_needs_work_def remediation_kind_def)

lemma remediation_action:
  "case find_pr_remediation_action rs of
     None \<Rightarrow> List.find pr_needs_work rs = None
   | Some a \<Rightarrow> (\<exists>r. List.find pr_needs_work rs = Some r \<and> targets (remediation_kind r) r a)"
proof (induction rs)
  case (Cons r rs)
  show ?case
  proof (cases "pr_needs_work r")
    case True
    with remediation_stops [OF this, of rs] show ?thesis by auto
  next
    case False
    with Cons remediation_skips [OF False, of rs] show ?thesis by (simp split: option.splits)
  qed
qed simp

text \<open>The next action is taken by the first rule that applies: a pull request with failing checks
  or open threads, then an unblocked issue, then any item without a recorded blocker; within the
  rule it is an item of the highest score. There is no action exactly when no rule applies.
\<close>

theorem next_action_is_best:
  "case recommend_next_agent_action m of
     None \<Rightarrow> list_all (\<lambda>r. \<not> pr_needs_work r \<and> blocked_reason r \<noteq> '''') (resources m)
   | Some a \<Rightarrow>
       let r = target_resource a; free = is_unblocked_candidate (dep_graph m) in
       if list_ex pr_needs_work (resources m)
       then top_scored pr_needs_work (resources m) r \<and> targets (remediation_kind r) r a
       else if list_ex free (resources m)
       then top_scored free (resources m) r \<and> targets IMPLEMENT_ISSUE r a
       else top_scored (\<lambda>r. blocked_reason r = '''') (resources m) r \<and> targets PROGRESS_ITEM r a"
proof -
  let ?rs = "get_ranked_resources m" and ?free = "is_unblocked_candidate (dep_graph m)"
  have rs: "?rs = ranked (resources m)" by (simp add: get_ranked_resources_def)
  show ?thesis
  proof (cases "find_pr_remediation_action ?rs")
    case (Some a)
    then obtain r where "List.find pr_needs_work (ranked (resources m)) = Some r" "targets (remediation_kind r) r a"
      using remediation_action [of ?rs] by (auto simp: rs)
    moreover from this have "list_ex pr_needs_work (resources m)" "?rs \<noteq> []"
      using find_ranked_None [of pr_needs_work "resources m"] by (auto simp: rs)
    ultimately show ?thesis
      using Some find_ranked_Some by (auto simp: recommend_next_agent_action_def Let_def targets_def)
  next
    case None
    then have no_pr: "\<not> list_ex pr_needs_work (resources m)"
      using remediation_action [of ?rs] find_ranked_None [of pr_needs_work] by (simp add: rs)
    show ?thesis
    proof (cases "List.find ?free ?rs")
      case (Some r)
      moreover from this have "list_ex ?free (resources m)" "?rs \<noteq> []"
        using find_ranked_None [of ?free "resources m"] by (auto simp: rs)
      ultimately show ?thesis
        using None no_pr find_ranked_Some [of ?free "resources m" r]
        by (auto simp: recommend_next_agent_action_def find_unblocked_issue_action_def rs Let_def
            make_action_def targets_def)
    next
      case none: None
      then have "\<not> list_ex ?free (resources m)"
        using find_ranked_None [of ?free "resources m"] by (simp add: rs)
      then show ?thesis
        using None none no_pr find_ranked_Some [of "\<lambda>r. blocked_reason r = ''''" "resources m"]
          find_ranked_None [of "\<lambda>r. blocked_reason r = ''''" "resources m"]
        by (cases "List.find (\<lambda>r. blocked_reason r = '''') (ranked (resources m))")
          (auto simp: recommend_next_agent_action_def find_unblocked_issue_action_def
            find_fallback_progress_action_def rs Let_def make_action_def targets_def list_all_iff
            list_ex_iff ranked_def)
    qed
  qed
qed

text \<open>A board of finished work still has a next action: progressing a finished card.\<close>

lemma finished_board_has_action:
  assumes "resources m = [r]" "lifecycle_state r = DONE" "blocked_reason r = ''''"
  shows "\<exists>a. recommend_next_agent_action m = Some a \<and> targets PROGRESS_ITEM r a"
  using assms
  by (simp add: recommend_next_agent_action_def get_ranked_resources_def ranked_def
      find_unblocked_issue_action_def find_fallback_progress_action_def is_unblocked_candidate_def)

text \<open>A card in the state \<open>Blocked\<close> is on no column of the board.\<close>

lemma blocked_state_on_no_column:
  assumes "(st, cards) \<in> set (kanban_columns m)" "(r, b) \<in> set cards"
  shows "lifecycle_state r \<noteq> BLOCKED"
  using assms by (auto simp: kanban_columns_def column_cards_def ranked_def)

section \<open>Reconciliation\<close>

lemma close_card_simps [simp]:
  "card_identity (close_card t) = card_identity t"
  "is_roadmap_card (close_card t) = is_roadmap_card t"
  "card_done (close_card t)"
  by (simp_all add: card_identity_def is_roadmap_card_def card_done_def close_card_def)

text \<open>The table of the scan: its keys are the identities of its cards.\<close>

definition keyed_by_identity :: "(string, task) dict \<Rightarrow> bool" where
  "keyed_by_identity cur \<longleftrightarrow> wf_dict cur \<and> (\<forall>i t. (i, t) \<in> set cur \<longrightarrow> card_identity t = i)"

lemma set_dict_set_subset: "set (dict_set k v d) \<subseteq> insert (k, v) (set d)"
  unfolding dict_set_def by (induction d) auto

lemma keyed_current: "keyed_by_identity (current_by_id cur)"
  unfolding current_by_id_def
proof (induction cur rule: rev_induct)
  case (snoc t cur)
  then show ?case
    using set_dict_set_subset [of "card_identity t" t] by (fastforce simp: keyed_by_identity_def)
qed (simp add: keyed_by_identity_def)

lemma keys_current [simp]: "set (dict_keys (current_by_id cur)) = card_identity ` set cur"
  unfolding current_by_id_def by (induction cur rule: rev_induct) (simp_all add: dict_keys_Nil)

lemma key_iff_get: "i \<in> set (dict_keys cur) \<longleftrightarrow> (\<exists>t. dict_get cur i = Some t)"
  using alist_dict.get_iff_key [of cur i] by auto

lemma dict_merge_present:
  "(\<forall>(k, v) \<in> set b. dict_get a k = Some v) \<Longrightarrow> dict_merge a b = a"
  by (induction b) (auto simp: dict_merge_def dict_set_same)

definition declared_fields :: "task \<Rightarrow> task" where
  "declared_fields t = List.map_filter (\<lambda>k. map_option (Pair k) (dict_get t k)) ROADMAP_DECLARED_FIELDS"

lemma distinct_declared: "distinct (map fst (declared_fields t))"
proof -
  have "map fst (List.map_filter (\<lambda>k. map_option (Pair k) (f k)) ks) = filter (\<lambda>k. f k \<noteq> None) ks" for f :: "string \<Rightarrow> json option" and ks
    by (induction ks) (auto simp: List.map_filter_def split: option.splits)
  then have "map fst (declared_fields t) = filter (\<lambda>k. dict_get t k \<noteq> None) ROADMAP_DECLARED_FIELDS"
    unfolding declared_fields_def by blast
  then show ?thesis by (simp add: ROADMAP_DECLARED_FIELDS_def)
qed

lemma get_declared: "dict_get (declared_fields t) k =
    (if k \<in> set ROADMAP_DECLARED_FIELDS then dict_get t k else None)"
  unfolding declared_fields_def dict_get_def by (rule find_map_filter)

lemma refresh_Some: "dict_get cur (card_identity t) = Some f \<Longrightarrow>
    refresh_roadmap_card t cur = dict_merge t (declared_fields f)"
  by (simp add: refresh_roadmap_card_def declared_fields_def)

lemma get_refresh:
  assumes "dict_get cur (card_identity t) = Some f"
  shows "dict_get (refresh_roadmap_card t cur) k =
    (if k \<in> set ROADMAP_DECLARED_FIELDS \<and> dict_get f k \<noteq> None then dict_get f k else dict_get t k)"
  using refresh_Some [OF assms] dict_get_merge [OF distinct_declared, of t f k]
  by (auto simp: get_declared split: option.splits)

lemma refresh_simps:
  assumes "keyed_by_identity cur" "dict_get cur (card_identity t) = Some f"
  shows "card_identity (refresh_roadmap_card t cur) = card_identity t"
    "is_roadmap_card (refresh_roadmap_card t cur) = is_roadmap_card t"
    "refresh_roadmap_card (refresh_roadmap_card t cur) cur = refresh_roadmap_card t cur"
proof -
  have f: "card_identity f = card_identity t"
    using assms by (meson dict_get_in_set keyed_by_identity_def)
  show id: "card_identity (refresh_roadmap_card t cur) = card_identity t"
    using f get_refresh [OF assms(2), of "''title''"]
    by (auto simp: card_identity_def field_or_get ROADMAP_DECLARED_FIELDS_def split: option.splits)
  show "is_roadmap_card (refresh_roadmap_card t cur) = is_roadmap_card t"
    using get_refresh [OF assms(2), of "''resource_id''"]
    by (simp add: is_roadmap_card_def field_or_get ROADMAP_DECLARED_FIELDS_def)
  have "dict_get (refresh_roadmap_card t cur) k = Some v" if "(k, v) \<in> set (declared_fields f)" for k v
  proof -
    have "dict_get (declared_fields f) k = Some v"
      using that distinct_declared dict_get_iff [of "declared_fields f"] by (simp add: wf_dict_def)
    then show ?thesis using get_refresh [OF assms(2), of k] by (auto simp: get_declared split: if_splits)
  qed
  then show "refresh_roadmap_card (refresh_roadmap_card t cur) cur = refresh_roadmap_card t cur"
    using id assms(2) by (subst refresh_Some [of _ _ f]) (auto intro!: dict_merge_present)
qed

lemma refresh_itself: "dict_get cur (card_identity t) = Some t \<Longrightarrow> refresh_roadmap_card t cur = t"
  unfolding refresh_Some
  by (rule dict_merge_present)
    (metis (mono_tags, lifting) case_prodI2 dict_get_iff distinct_declared get_declared option.distinct(1) wf_dict_def)

text \<open>A finished defect card that the scan does not report is dropped; any other quiet card stays.\<close>

definition stale_card :: "(string, task) dict \<Rightarrow> task \<Rightarrow> bool" where
  "stale_card cur t \<longleftrightarrow> \<not> is_roadmap_card t \<and> card_identity t \<notin> set (dict_keys cur) \<and> card_done t"

definition quiet_card :: "(string, task) dict \<Rightarrow> bool \<Rightarrow> task \<Rightarrow> bool" where
  "quiet_card cur ing t \<longleftrightarrow> (\<forall>r. reconcile_card cur ing t r =
     (if stale_card cur t then ([], r) else ([t], r\<lparr>unchanged := unchanged r + 1\<rparr>)))"

lemmas reconcile_defs = reconcile_card_def reconcile_roadmap_card_def reconcile_defect_card_def

lemma quiet_unreported:
  assumes "card_identity t \<notin> set (dict_keys cur)" "card_done t \<or> is_roadmap_card t \<and> \<not> ing"
  shows "quiet_card cur ing t"
  using assms by (auto simp: quiet_card_def reconcile_defs stale_card_def Let_def)

lemma quiet_reported:
  assumes "card_identity t \<in> set (dict_keys cur)" "is_roadmap_card t \<Longrightarrow> refresh_roadmap_card t cur = t"
  shows "quiet_card cur ing t"
  using assms by (auto simp: quiet_card_def reconcile_defs stale_card_def Let_def)

lemma reconcile_card_cases:
  assumes "keyed_by_identity cur"
  obtains (dropped) "fst (reconcile_card cur ing t r) = []" "stale_card cur t"
  | (kept) t' where "fst (reconcile_card cur ing t r) = [t']" "card_identity t' = card_identity t"
      "is_roadmap_card t' = is_roadmap_card t" "quiet_card cur ing t'"
      "is_roadmap_card t' \<or> card_identity t' \<in> set (dict_keys cur) \<or> card_done t'"
proof (cases "card_identity t \<in> set (dict_keys cur)")
  case True
  then obtain f where f: "dict_get cur (card_identity t) = Some f" by (auto simp: key_iff_get)
  show thesis
  proof (cases "is_roadmap_card t")
    case roadmap: True
    let ?t = "refresh_roadmap_card t cur"
    have "fst (reconcile_card cur ing t r) = [?t]"
      using True roadmap by (simp add: reconcile_defs Let_def)
    moreover have "quiet_card cur ing ?t"
      using True refresh_simps [OF assms f] by (intro quiet_reported) auto
    ultimately show thesis using kept refresh_simps [OF assms f] roadmap by blast
  next
    case False
    then show thesis using True quiet_reported [of t cur ing] by (intro kept [of t]) (auto simp: reconcile_defs)
  qed
next
  case False
  consider (d) "\<not> is_roadmap_card t" "card_done t" | (c) "\<not> card_done t" "is_roadmap_card t \<longrightarrow> ing"
    | (k) "is_roadmap_card t" "card_done t \<or> \<not> ing" by blast
  then show thesis
  proof cases
    case d
    with False show thesis by (intro dropped) (auto simp: reconcile_defs stale_card_def)
  next
    case c
    with False show thesis
      using quiet_unreported [of "close_card t" cur ing]
      by (intro kept [of "close_card t"]) (auto simp: reconcile_defs Let_def)
  next
    case k
    with False show thesis
      using quiet_unreported [of t cur ing] by (intro kept [of t]) (auto simp: reconcile_defs Let_def)
  qed
qed

definition card_outcome :: "(string, task) dict \<Rightarrow> bool \<Rightarrow> task \<Rightarrow> task list" where
  "card_outcome cur ing t = fst (reconcile_card cur ing t empty_reconciliation)"

lemma fst_reconcile_card: "fst (reconcile_card cur ing t r) = card_outcome cur ing t"
  by (simp add: card_outcome_def reconcile_defs Let_def)

lemma fst_reconcile_existing:
  "fst (reconcile_existing_tasks cur ing ts r) = concat (map (card_outcome cur ing) ts)"
  by (induction ts arbitrary: r) (auto simp: fst_reconcile_card [symmetric] split: prod.splits,
      (metis fst_conv fst_reconcile_card)+)

lemma opened_by_existing: "opened (snd (reconcile_existing_tasks cur ing ts r)) = opened r"
proof (induction ts arbitrary: r)
  case (Cons t ts)
  have "opened (snd (reconcile_card cur ing t r)) = opened r"
    by (simp add: reconcile_defs Let_def)
  with Cons [of "snd (reconcile_card cur ing t r)"] show ?case by (auto split: prod.splits)
qed simp

lemma card_outcome_elem:
  assumes "keyed_by_identity cur" "t' \<in> set (card_outcome cur ing t)"
  shows "quiet_card cur ing t' \<and>
    (is_roadmap_card t' \<or> card_identity t' \<in> set (dict_keys cur) \<or> card_done t')"
  using assms(1)
proof (cases rule: reconcile_card_cases [of cur ing t empty_reconciliation])
  case dropped
  then show ?thesis using assms(2) by (simp add: card_outcome_def)
next
  case (kept x)
  then have "t' = x" using assms(2) by (simp add: card_outcome_def)
  with kept show ?thesis by blast
qed

lemma card_outcome_keeps:
  assumes "keyed_by_identity cur" "is_roadmap_card t \<or> card_identity t \<in> set (dict_keys cur)"
  shows "\<exists>t' \<in> set (card_outcome cur ing t). card_identity t' = card_identity t"
  using assms(1)
proof (cases rule: reconcile_card_cases [of cur ing t empty_reconciliation])
  case dropped
  then show ?thesis using assms(2) by (auto simp: stale_card_def)
next
  case (kept x)
  then show ?thesis by (simp add: card_outcome_def)
qed

lemma quiet_existing:
  assumes "\<forall>t \<in> set ts. quiet_card cur ing t"
  shows "reconcile_existing_tasks cur ing ts r =
    (let kept = filter (\<lambda>t. \<not> stale_card cur t) ts in (kept, r\<lparr>unchanged := unchanged r + length kept\<rparr>))"
  using assms by (induction ts arbitrary: r) (auto simp: quiet_card_def Let_def)

text \<open>The cards a pass leaves on the board.\<close>

definition pass_board :: "task list \<Rightarrow> task list \<Rightarrow> task list" where
  "pass_board existing current = fst (reconcile_backlog existing current)"

lemma pass_board_eq:
  "\<exists>unseen. pass_board existing current =
      concat (map (card_outcome (current_by_id current) (list_ex is_roadmap_card current)) existing) @ map snd unseen
    \<and> unseen = filter (\<lambda>kv. fst kv \<notin> card_identity ` set (concat (map
        (card_outcome (current_by_id current) (list_ex is_roadmap_card current)) existing))) (current_by_id current)"
  using fst_reconcile_existing [of "current_by_id current" "list_ex is_roadmap_card current" existing empty_reconciliation]
  by (auto simp: pass_board_def reconcile_backlog_def append_unseen_tasks_def Let_def split: prod.splits)

lemma pass_board_elem:
  assumes "t \<in> set (pass_board existing current)"
  shows "quiet_card (current_by_id current) (list_ex is_roadmap_card current) t"
    and "is_roadmap_card t \<or> card_identity t \<in> card_identity ` set current \<or> card_done t"
proof -
  let ?cur = "current_by_id current" and ?ing = "list_ex is_roadmap_card current"
  consider (old) x where "x \<in> set existing" "t \<in> set (card_outcome ?cur ?ing x)"
    | (new) i where "(i, t) \<in> set ?cur"
    using assms pass_board_eq [of existing current] by auto
  then have "quiet_card ?cur ?ing t \<and>
      (is_roadmap_card t \<or> card_identity t \<in> set (dict_keys ?cur) \<or> card_done t)"
  proof cases
    case old
    then show ?thesis using card_outcome_elem [OF keyed_current] by blast
  next
    case new
    then have "card_identity t = i" using keyed_current [of current] by (auto simp: keyed_by_identity_def)
    then have "dict_get ?cur (card_identity t) = Some t"
      using new keyed_current [of current] dict_get_iff [of ?cur] by (auto simp: keyed_by_identity_def)
    then show ?thesis
      using quiet_reported [of t ?cur ?ing] refresh_itself key_iff_get [of "card_identity t" ?cur] by blast
  qed
  then show "quiet_card ?cur ?ing t"
    and "is_roadmap_card t \<or> card_identity t \<in> card_identity ` set current \<or> card_done t" by auto
qed

lemma pass_board_covers:
  assumes "i \<in> card_identity ` set current \<or> (\<exists>t \<in> set existing. is_roadmap_card t \<and> card_identity t = i)"
  shows "i \<in> card_identity ` set (pass_board existing current)"
proof -
  let ?cur = "current_by_id current" and ?ing = "list_ex is_roadmap_card current"
  let ?old = "concat (map (card_outcome ?cur ?ing) existing)"
  obtain unseen where board: "pass_board existing current = ?old @ map snd unseen"
    and unseen: "unseen = filter (\<lambda>kv. fst kv \<notin> card_identity ` set ?old) ?cur"
    using pass_board_eq by blast
  show ?thesis
  proof (cases "i \<in> card_identity ` set ?old")
    case False
    have "i \<in> set (dict_keys ?cur)"
    proof (rule ccontr)
      assume "i \<notin> set (dict_keys ?cur)"
      with assms obtain t where t: "t \<in> set existing" "is_roadmap_card t" "card_identity t = i" by auto
      then obtain t' where "t' \<in> set (card_outcome ?cur ?ing t)" "card_identity t' = i"
        using card_outcome_keeps [OF keyed_current, of t current ?ing] by auto
      with t(1) have "i \<in> card_identity ` set ?old" by force
      with False show False by blast
    qed
    then obtain t where t: "dict_get ?cur i = Some t" using key_iff_get [of i ?cur] by blast
    then have "(i, t) \<in> set unseen" using False unseen by (auto dest: dict_get_in_set)
    moreover have "card_identity t = i"
      using t keyed_current [of current] by (auto simp: keyed_by_identity_def dest: dict_get_in_set)
    ultimately show ?thesis unfolding board by force
  qed (use board in auto)
qed

text \<open>C17: After a pass every finding of the scan and every roadmap card has a card on the board, and a
  card that is neither of the roadmap nor reported by the scan is done.
\<close>

theorem board_follows_scan:
  "let board = fst (reconcile_backlog existing current); reported = card_identity ` set current in
     reported \<union> card_identity ` set (filter is_roadmap_card existing) \<subseteq> card_identity ` set board
     \<and> list_all (\<lambda>t. is_roadmap_card t \<or> card_identity t \<in> reported \<or> card_done t) board"
  using pass_board_covers [of _ current existing] pass_board_elem(2) [of _ existing current]
  by (auto simp: Let_def pass_board_def [symmetric] list_all_iff)

text \<open>C32: A second pass against the same scan reports no change: it opens, closes and refreshes
  nothing, and only drops the finished defect cards the scan does not report.
\<close>

theorem second_pass_is_quiet:
  "let board = fst (reconcile_backlog existing current); (board', r) = reconcile_backlog board current in
     \<not> changed r \<and> board' = filter (\<lambda>t. \<not> stale_card (current_by_id current) t) board"
proof -
  let ?cur = "current_by_id current" and ?ing = "list_ex is_roadmap_card current"
  let ?board = "pass_board existing current"
  let ?kept = "filter (\<lambda>t. \<not> stale_card ?cur t) ?board"
  have "reconcile_existing_tasks ?cur ?ing ?board empty_reconciliation =
      (?kept, empty_reconciliation\<lparr>unchanged := length ?kept\<rparr>)"
    using quiet_existing [of ?board ?cur ?ing empty_reconciliation] pass_board_elem(1) [of _ existing current]
    by (simp add: Let_def empty_reconciliation_def)
  moreover have "filter (\<lambda>kv. fst kv \<notin> card_identity ` set ?kept) ?cur = []"
  proof -
    have "i \<in> card_identity ` set ?kept" if "i \<in> set (dict_keys ?cur)" for i
    proof -
      from that have "i \<in> card_identity ` set ?board" using pass_board_covers [of i current existing] by simp
      then obtain t where "t \<in> set ?board" "card_identity t = i" by auto
      with that show ?thesis by (force simp: stale_card_def)
    qed
    then show ?thesis by (auto simp: filter_empty_conv dict_keys_def)
  qed
  ultimately have "reconcile_backlog ?board current = (?kept, empty_reconciliation\<lparr>unchanged := length ?kept\<rparr>)"
    by (simp add: reconcile_backlog_def append_unseen_tasks_def Let_def empty_reconciliation_def del: set_filter)
  then show ?thesis by (simp add: pass_board_def Let_def changed_def empty_reconciliation_def)
qed

text \<open>A finding whose card was closed and that the scan reports again is not reopened: its card
  stays done, and the pass lists it neither as opened nor as closed.
\<close>

theorem reported_again_stays_done:
  assumes "t \<in> set existing" "\<not> is_roadmap_card t" "card_done t" "card_identity t \<in> card_identity ` set current"
  shows "let (board, r) = reconcile_backlog existing current in
    t \<in> set board \<and> card_identity t \<notin> set (opened r)"
proof -
  let ?cur = "current_by_id current" and ?ing = "list_ex is_roadmap_card current"
  obtain merged r where existing: "reconcile_existing_tasks ?cur ?ing existing empty_reconciliation = (merged, r)"
    by fastforce
  have "card_outcome ?cur ?ing t = [t]"
    using assms(2,4) by (simp add: card_outcome_def reconcile_defs)
  then have kept: "t \<in> set merged"
    using assms(1) fst_reconcile_existing [of ?cur ?ing existing empty_reconciliation] existing by force
  have "opened r = []"
    using existing opened_by_existing [of ?cur ?ing existing empty_reconciliation]
    by (simp add: empty_reconciliation_def)
  with kept show ?thesis
    by (auto simp: reconcile_backlog_def existing append_unseen_tasks_def Let_def)
qed

lemma reported_again_stays_done_witness:
  "let (board, r) = reconcile_backlog [[(''title'', JStr ''smell''), (''lifecycle_state'', JStr ''Done'')]]
       [[(''title'', JStr ''smell'')]] in
    [(''title'', JStr ''smell''), (''lifecycle_state'', JStr ''Done'')] \<in> set board
    \<and> card_identity [(''title'', JStr ''smell''), (''lifecycle_state'', JStr ''Done'')] \<notin> set (opened r)"
  by (rule reported_again_stays_done)
    (simp_all add: is_roadmap_card_def card_done_def field_or_def state_value_def card_identity_def
      starts_with_def)

text \<open>Every card with the title of the promoted one becomes ready with it, a finished one too.\<close>

lemma namesakes_promoted_together:
  assumes "advance_ready_item tasks m = (board, Some i)" "t \<in> set tasks" "card_identity t = i"
  shows "dict_set ''lifecycle_state'' (JStr (state_value READY)) t \<in> set board"
  using assms by (auto simp: advance_ready_item_def promote_card_def split: option.splits)

end
