(* ===== verification/Tool_Contract.thy ===== *)
theory Tool_Contract
  imports Py_Json
begin

text \<open>
  \<open>examples/tool-contract-verifier/verifier.py\<close>: parameter and tool contracts, the generated JSON
  Schema, validation of a call with its violations and feedback, and guarded execution. Values are
  decoded JSON. A handler is a function of the arguments and of the world it acts on, so that a call
  that is not made is one that leaves the world alone. The two characters beyond 255 of the feedback
  are written as the bytes of their UTF-8 encoding.
\<close>

section \<open>Contracts\<close>

definition DEFAULT_STRING_LENGTH_CAP :: int where
  "DEFAULT_STRING_LENGTH_CAP = 256"

datatype violation_kind = HALLUCINATED_PARAM | MISSING_REQUIRED_PARAM | TYPE_MISMATCH
  | LENGTH_BOUND_EXCEEDED | VALUE_OUT_OF_RANGE | OUTPUT_CONTRACT_VIOLATION

definition violation_value :: "violation_kind \<Rightarrow> string" where
  "violation_value k = (case k of
     HALLUCINATED_PARAM \<Rightarrow> ''HALLUCINATED_PARAM''
   | MISSING_REQUIRED_PARAM \<Rightarrow> ''MISSING_REQUIRED_PARAM''
   | TYPE_MISMATCH \<Rightarrow> ''TYPE_MISMATCH''
   | LENGTH_BOUND_EXCEEDED \<Rightarrow> ''LENGTH_BOUND_EXCEEDED''
   | VALUE_OUT_OF_RANGE \<Rightarrow> ''VALUE_OUT_OF_RANGE''
   | OUTPUT_CONTRACT_VIOLATION \<Rightarrow> ''OUTPUT_CONTRACT_VIOLATION'')"

datatype parameter_type = STRING | INTEGER | FLOAT | BOOLEAN | ARRAY | OBJECT

definition type_value :: "parameter_type \<Rightarrow> string" where
  "type_value t = (case t of STRING \<Rightarrow> ''string'' | INTEGER \<Rightarrow> ''integer'' | FLOAT \<Rightarrow> ''number''
     | BOOLEAN \<Rightarrow> ''boolean'' | ARRAY \<Rightarrow> ''array'' | OBJECT \<Rightarrow> ''object'')"

text \<open>A bound is an int or a float; \<open>JNull\<close> is \<open>None\<close>.\<close>

record parameter_contract =
  param_name :: string
  param_type :: parameter_type
  required :: bool
  max_length :: int
  min_value :: json
  max_value :: json
  default_value :: json
  description :: string

text \<open>The types that \<open>return_type\<close> can name, for values of JSON.\<close>

datatype py_type = Bool_Type | Int_Type | Float_Type | Str_Type | List_Type | Dict_Type | None_Type

record tool_contract =
  tool_name :: string
  tool_description :: string
  parameters :: "(string, parameter_contract) dict"
  strict_forbid_extra :: bool
  return_type :: "py_type option"

record contract_violation =
  violating_param :: string
  violation :: violation_kind
  received_value :: json
  expected_spec :: string
  message :: string
  corrective_hint :: string

record validation_report =
  report_tool :: string
  is_valid :: bool
  violations :: "contract_violation list"
  feedback_message :: string

definition some_item :: "string \<Rightarrow> json \<Rightarrow> (string, json) dict" where
  "some_item k v = (if v = JNull then [] else [(k, v)])"

definition to_json_schema_property :: "parameter_contract \<Rightarrow> json" where
  "to_json_schema_property p = JObj
     ([(''type'', JStr (type_value (param_type p))), (''description'', JStr (description p))]
      @ (if param_type p = STRING then [(''maxLength'', JInt (max_length p))] else [])
      @ some_item ''minimum'' (min_value p) @ some_item ''maximum'' (max_value p)
      @ some_item ''default'' (default_value p))"

definition contract_schema :: "tool_contract \<Rightarrow> json" where
  "contract_schema c =
     (let ps = dict_values (parameters c) in
      JObj [(''name'', JStr (tool_name c)), (''description'', JStr (tool_description c)),
        (''parameters'', JObj
           [(''type'', JStr ''object''),
            (''properties'', JObj (fold (\<lambda>p. dict_set (param_name p) (to_json_schema_property p)) ps [])),
            (''required'', JArr (map (JStr \<circ> param_name) (filter required ps))),
            (''additionalProperties'', JBool (\<not> strict_forbid_extra c))])])"

definition violation_to_dict :: "contract_violation \<Rightarrow> json" where
  "violation_to_dict v = JObj
     [(''param_name'', JStr (violating_param v)), (''kind'', JStr (violation_value (violation v))),
      (''received_value'', JStr (take 128 (json_str (received_value v)))),
      (''expected_spec'', JStr (expected_spec v)), (''message'', JStr (message v)),
      (''corrective_hint'', JStr (corrective_hint v))]"

definition report_to_dict :: "validation_report \<Rightarrow> json" where
  "report_to_dict r = JObj
     [(''tool_name'', JStr (report_tool r)), (''is_valid'', JBool (is_valid r)),
      (''violations_count'', JInt (int (length (violations r)))),
      (''violations'', JArr (map violation_to_dict (violations r))),
      (''feedback_message'', JStr (feedback_message r))]"

section \<open>Checks of one value\<close>

fun check_type_match :: "parameter_type \<Rightarrow> json \<Rightarrow> bool" where
  "check_type_match BOOLEAN (JBool _) = True"
| "check_type_match INTEGER (JInt _) = True"
| "check_type_match FLOAT (JInt _) = True"
| "check_type_match FLOAT (JFloat _) = True"
| "check_type_match STRING (JStr _) = True"
| "check_type_match ARRAY (JArr _) = True"
| "check_type_match OBJECT (JObj _) = True"
| "check_type_match _ _ = False"

text \<open>The message of a breach, \<open>None\<close> when there is none.\<close>

definition check_string_length :: "parameter_contract \<Rightarrow> string \<Rightarrow> string option" where
  "check_string_length p s =
     (if int (length s) > max_length p
      then Some (''Parameter '' @ quoted (param_name p) @ '' length '' @ show_int (int (length s))
        @ '' exceeds maximum '' @ show_int (max_length p) @ '' characters.'')
      else None)"

text \<open>The value of an int or a float; other values have no number here.\<close>

fun number_of :: "json \<Rightarrow> py_float" where
  "number_of (JInt i) = of_int i"
| "number_of (JFloat q) = q"
| "number_of _ = 0"

definition check_numeric_bounds :: "parameter_contract \<Rightarrow> json \<Rightarrow> string option" where
  "check_numeric_bounds p v =
     (if min_value p \<noteq> JNull \<and> number_of v < number_of (min_value p)
      then Some (''Parameter '' @ quoted (param_name p) @ '' value '' @ json_str v
        @ '' is below minimum '' @ json_str (min_value p) @ ''.'')
      else if max_value p \<noteq> JNull \<and> number_of v > number_of (max_value p)
      then Some (''Parameter '' @ quoted (param_name p) @ '' value '' @ json_str v
        @ '' exceeds maximum '' @ json_str (max_value p) @ ''.'')
      else None)"

definition validate_string_bounds :: "parameter_contract \<Rightarrow> string \<Rightarrow> contract_violation list" where
  "validate_string_bounds p s = (case check_string_length p s of
     None \<Rightarrow> []
   | Some msg \<Rightarrow> [\<lparr>violating_param = param_name p, violation = LENGTH_BOUND_EXCEEDED,
       received_value = JStr s, expected_spec = ''max_length: '' @ show_int (max_length p),
       message = msg,
       corrective_hint = ''Truncate string to <= '' @ show_int (max_length p) @ '' characters.''\<rparr>])"

definition validate_numeric_bounds :: "parameter_contract \<Rightarrow> json \<Rightarrow> contract_violation list" where
  "validate_numeric_bounds p v = (case check_numeric_bounds p v of
     None \<Rightarrow> []
   | Some msg \<Rightarrow> [\<lparr>violating_param = param_name p, violation = VALUE_OUT_OF_RANGE,
       received_value = v,
       expected_spec = ''Range: ['' @ json_str (min_value p) @ '', '' @ json_str (max_value p) @ '']'',
       message = msg,
       corrective_hint = ''Constrain value between '' @ json_str (min_value p) @ '' and ''
         @ json_str (max_value p) @ ''.''\<rparr>])"

definition validate_bounds :: "parameter_contract \<Rightarrow> json \<Rightarrow> contract_violation list" where
  "validate_bounds p v = (case v of
     JStr s \<Rightarrow> validate_string_bounds p s
   | JInt _ \<Rightarrow> validate_numeric_bounds p v
   | JFloat _ \<Rightarrow> validate_numeric_bounds p v
   | _ \<Rightarrow> [])"

definition validate_single_param :: "parameter_contract \<Rightarrow> json \<Rightarrow> contract_violation list" where
  "validate_single_param p v =
     (if \<not> check_type_match (param_type p) v
      then [\<lparr>violating_param = param_name p, violation = TYPE_MISMATCH, received_value = v,
             expected_spec = type_value (param_type p),
             message = ''Parameter '' @ quoted (param_name p) @ '' expected '' @ type_value (param_type p)
               @ '', received '' @ type_name v @ ''.'',
             corrective_hint = ''Coerce value to '' @ type_value (param_type p) @ ''.''\<rparr>]
      else validate_bounds p v)"

section \<open>Checks of a call\<close>

text \<open>\<open>sorted(d.items())\<close>: the keys of a dict differ, so the values are never compared.\<close>

definition sorted_items :: "(string, 'v) dict \<Rightarrow> (string \<times> 'v) list" where
  "sorted_items d = sort_key fst d"

definition check_hallucinated_params ::
  "tool_contract \<Rightarrow> (string, json) dict \<Rightarrow> contract_violation list" where
  "check_hallucinated_params c args =
     map (\<lambda>(key, v). \<lparr>violating_param = key, violation = HALLUCINATED_PARAM, received_value = v,
            expected_spec = ''Allowed parameters: '' @ py_repr_list (sort (remdups (dict_keys (parameters c)))),
            message = ''Hallucinated parameter '' @ quoted key @ '' is not defined in contract.'',
            corrective_hint = ''Remove '' @ quoted key @ '' from tool arguments.''\<rparr>)
       (filter (\<lambda>(key, v). key \<notin> set (dict_keys (parameters c))) (sorted_items args))"

definition check_missing_params ::
  "tool_contract \<Rightarrow> (string, json) dict \<Rightarrow> contract_violation list" where
  "check_missing_params c args =
     map (\<lambda>(name, p). \<lparr>violating_param = name, violation = MISSING_REQUIRED_PARAM, received_value = JNull,
            expected_spec = type_value (param_type p) @ '' (required)'',
            message = ''Required parameter '' @ quoted name @ '' is missing.'',
            corrective_hint = ''Provide a valid '' @ type_value (param_type p) @ '' for '' @ quoted name @ ''.''\<rparr>)
       (filter (\<lambda>(name, p). required p \<and> name \<notin> set (dict_keys args)) (sorted_items (parameters c)))"

definition validate_argument_values ::
  "tool_contract \<Rightarrow> (string, json) dict \<Rightarrow> contract_violation list" where
  "validate_argument_values c args =
     concat (map (\<lambda>(key, v). case dict_get (parameters c) key of
        None \<Rightarrow> [] | Some p \<Rightarrow> validate_single_param p v) (sorted_items args))"

definition cross_mark :: string where
  "cross_mark = [CHR 0xE2, CHR 0x9D, CHR 0x8C]"

definition hand_mark :: string where
  "hand_mark = [CHR 0xF0, CHR 0x9F, CHR 0x91, CHR 0x89]"

definition feedback_item :: "nat \<Rightarrow> contract_violation \<Rightarrow> string list" where
  "feedback_item i v =
     [show_nat i @ ''. ['' @ violation_value (violation v) @ ''] '' @ message v,
      ''   '' @ hand_mark @ '' Prescriptive Action: '' @ corrective_hint v]"

definition synthesize_feedback :: "string \<Rightarrow> contract_violation list \<Rightarrow> string" where
  "synthesize_feedback name vs = join_with newline
     ([cross_mark @ '' TOOL CONTRACT VIOLATION DETECTED for '' @ quoted name @ '' ('' @ show_nat (length vs)
         @ '' errors):'', replicate 80 CHR ''-'']
      @ concat (map (\<lambda>(i, v). feedback_item i v) (zip [1..<Suc (length vs)] vs))
      @ [replicate 80 CHR ''-'',
         ''Please re-issue the tool invocation adhering strictly to the schema contract.''])"

definition call_violations :: "tool_contract \<Rightarrow> (string, json) dict \<Rightarrow> contract_violation list" where
  "call_violations c args =
     (if strict_forbid_extra c then check_hallucinated_params c args else [])
     @ check_missing_params c args @ validate_argument_values c args"

section \<open>The verifier\<close>

type_synonym 'w handler = "(string, json) dict \<Rightarrow> 'w \<Rightarrow> (string, json) result \<times> 'w"

record 'w verifier =
  contracts :: "(string, tool_contract) dict"
  handlers :: "(string, 'w handler) dict"

definition verifier_init :: "'w verifier" where
  "verifier_init = \<lparr>contracts = [], handlers = []\<rparr>"

definition register_tool :: "tool_contract \<Rightarrow> 'w handler option \<Rightarrow> 'w verifier \<Rightarrow> 'w verifier" where
  "register_tool c h ver =
     ver\<lparr>contracts := dict_set (tool_name c) c (contracts ver),
         handlers := (case h of Some f \<Rightarrow> dict_set (tool_name c) f (handlers ver) | None \<Rightarrow> handlers ver)\<rparr>"

definition get_tool :: "'w verifier \<Rightarrow> string \<Rightarrow> tool_contract option" where
  "get_tool ver name = dict_get (contracts ver) name"

definition to_json_schema :: "'w verifier \<Rightarrow> string \<Rightarrow> json py" where
  "to_json_schema ver name = (case dict_get (contracts ver) name of
     Some c \<Rightarrow> Inr (contract_schema c) | None \<Rightarrow> Inl (Key_Error name))"

definition validate_call :: "'w verifier \<Rightarrow> string \<Rightarrow> (string, json) dict \<Rightarrow> validation_report" where
  "validate_call ver name args = (case dict_get (contracts ver) name of
     None \<Rightarrow> \<lparr>report_tool = name, is_valid = False, violations = [],
        feedback_message = ''Unknown tool '' @ quoted name @ ''. Register contract before invoking.''\<rparr>
   | Some c \<Rightarrow>
       (let vs = call_violations c args in
        \<lparr>report_tool = name, is_valid = (vs = []), violations = vs,
         feedback_message = (if vs = [] then '''' else synthesize_feedback name vs)\<rparr>))"

fun is_instance :: "json \<Rightarrow> py_type \<Rightarrow> bool" where
  "is_instance (JBool _) Bool_Type = True"
| "is_instance (JBool _) Int_Type = True"
| "is_instance (JInt _) Int_Type = True"
| "is_instance (JFloat _) Float_Type = True"
| "is_instance (JStr _) Str_Type = True"
| "is_instance (JArr _) List_Type = True"
| "is_instance (JObj _) Dict_Type = True"
| "is_instance JNull None_Type = True"
| "is_instance _ _ = False"

definition py_type_name :: "py_type \<Rightarrow> string" where
  "py_type_name t = (case t of Bool_Type \<Rightarrow> ''bool'' | Int_Type \<Rightarrow> ''int'' | Float_Type \<Rightarrow> ''float''
     | Str_Type \<Rightarrow> ''str'' | List_Type \<Rightarrow> ''list'' | Dict_Type \<Rightarrow> ''dict'' | None_Type \<Rightarrow> ''NoneType'')"

definition output_violation :: "py_type \<Rightarrow> json \<Rightarrow> contract_violation" where
  "output_violation t result =
     \<lparr>violating_param = ''return_value'', violation = OUTPUT_CONTRACT_VIOLATION, received_value = result,
      expected_spec = py_type_name t,
      message = ''Return value expected '' @ py_type_name t @ '', received '' @ type_name result @ ''.'',
      corrective_hint = ''Align handler output with contract return type.''\<rparr>"

definition enforce_return :: "string \<Rightarrow> py_type option \<Rightarrow> json \<Rightarrow> validation_report
    \<Rightarrow> json option \<times> validation_report" where
  "enforce_return name t result report = (case t of
     None \<Rightarrow> (Some result, report)
   | Some rt \<Rightarrow>
       if is_instance result rt then (Some result, report)
       else (let vs = violations report @ [output_violation rt result] in
             (None, report\<lparr>violations := vs, is_valid := False,
                           feedback_message := synthesize_feedback name vs\<rparr>)))"

text \<open>\<open>Some r\<close> is a returned value \<open>r\<close>, JSON null included; \<open>None\<close> is that no value is returned.\<close>

definition execute_call :: "'w verifier \<Rightarrow> string \<Rightarrow> (string, json) dict \<Rightarrow> 'w
    \<Rightarrow> (json option \<times> validation_report) \<times> 'w" where
  "execute_call ver name args w =
     (let report = validate_call ver name args in
      if \<not> is_valid report then ((None, report), w)
      else (case dict_get (handlers ver) name of
        None \<Rightarrow> ((None, report), w)
      | Some h \<Rightarrow> (case h args w of
          (Inl err, w') \<Rightarrow>
            ((None, report\<lparr>is_valid := False, feedback_message :=
               ''Execution exception in '' @ quoted name @ '': '' @ take 256 err\<rparr>), w')
        | (Inr result, w') \<Rightarrow>
            (enforce_return name (Option.bind (get_tool ver name) return_type) result report, w'))))"

end
