(* ===== verification/Contract_Props.thy ===== *)
theory Contract_Props
  imports Tool_Contract
begin

text \<open>
  The tool contract verifier: the calls it accepts are those the generated JSON Schema describes,
  except for floats with a whole value, and a handler only acts on accepted calls.
\<close>

section \<open>What a generated schema means\<close>

text \<open>The part of JSON Schema draft 2020-12 that the generated documents use.\<close>

fun schema_type_ok :: "string \<Rightarrow> json \<Rightarrow> bool" where
  "schema_type_ok t JNull = (t = ''null'')"
| "schema_type_ok t (JBool _) = (t = ''boolean'')"
| "schema_type_ok t (JInt _) = (t = ''integer'' \<or> t = ''number'')"
| "schema_type_ok t (JFloat q) = (t = ''number'' \<or> t = ''integer'' \<and> of_int \<lfloor>q\<rfloor> = q)"
| "schema_type_ok t (JStr _) = (t = ''string'')"
| "schema_type_ok t (JArr _) = (t = ''array'')"
| "schema_type_ok t (JObj _) = (t = ''object'')"

definition is_number :: "json \<Rightarrow> bool" where
  "is_number v = (case v of JInt _ \<Rightarrow> True | JFloat _ \<Rightarrow> True | _ \<Rightarrow> False)"

definition schema_property_ok :: "json \<Rightarrow> json \<Rightarrow> bool" where
  "schema_property_ok s v \<longleftrightarrow>
     (case json_field s ''type'' of Some (JStr t) \<Rightarrow> schema_type_ok t v | _ \<Rightarrow> True)
     \<and> (case (json_field s ''maxLength'', v) of (Some (JInt n), JStr x) \<Rightarrow> int (length x) \<le> n | _ \<Rightarrow> True)
     \<and> (case json_field s ''minimum'' of Some b \<Rightarrow> is_number v \<longrightarrow> number_of b \<le> number_of v | None \<Rightarrow> True)
     \<and> (case json_field s ''maximum'' of Some b \<Rightarrow> is_number v \<longrightarrow> number_of v \<le> number_of b | None \<Rightarrow> True)"

definition schema_object_ok :: "json \<Rightarrow> (string, json) dict \<Rightarrow> bool" where
  "schema_object_ok s args \<longleftrightarrow>
     (case json_field s ''required'' of
        Some (JArr rs) \<Rightarrow> (\<forall>r \<in> set rs. \<exists>k \<in> set (dict_keys args). r = JStr k) | _ \<Rightarrow> True)
     \<and> (case json_field s ''properties'' of
        Some (JObj ps) \<Rightarrow> (\<forall>(k, v) \<in> set args. case dict_get ps k of
           Some p \<Rightarrow> schema_property_ok p v
         | None \<Rightarrow> json_field s ''additionalProperties'' \<noteq> Some (JBool False))
      | _ \<Rightarrow> True)"

definition schema_accepts :: "json \<Rightarrow> (string, json) dict \<Rightarrow> bool" where
  "schema_accepts schema args =
     (case json_field schema ''parameters'' of Some s \<Rightarrow> schema_object_ok s args | None \<Rightarrow> False)"

section \<open>Well formed contracts\<close>

definition bound_ok :: "json \<Rightarrow> bool" where
  "bound_ok b \<longleftrightarrow> b = JNull \<or> is_number b"

definition wf_contract :: "tool_contract \<Rightarrow> bool" where
  "wf_contract c \<longleftrightarrow> wf_dict (parameters c) \<and>
     list_all (\<lambda>(k, p). param_name p = k \<and> bound_ok (min_value p) \<and> bound_ok (max_value p)) (parameters c)"

definition whole_float :: "json \<Rightarrow> bool" where
  "whole_float v = (case v of JFloat q \<Rightarrow> of_int \<lfloor>q\<rfloor> = q | _ \<Rightarrow> False)"

text \<open>A float with a whole value where the contract asks for an integer.\<close>

definition whole_float_argument :: "tool_contract \<Rightarrow> (string, json) dict \<Rightarrow> bool" where
  "whole_float_argument c args \<longleftrightarrow> list_ex (\<lambda>(k, v). case dict_get (parameters c) k of
     Some p \<Rightarrow> param_type p = INTEGER \<and> whole_float v | None \<Rightarrow> False) args"

section \<open>One value\<close>

lemma schema_fields:
  "json_field (to_json_schema_property p) ''type'' = Some (JStr (type_value (param_type p)))"
  "json_field (to_json_schema_property p) ''maxLength'' =
     (if param_type p = STRING then Some (JInt (max_length p)) else None)"
  "json_field (to_json_schema_property p) ''minimum'' = (if min_value p = JNull then None else Some (min_value p))"
  "json_field (to_json_schema_property p) ''maximum'' = (if max_value p = JNull then None else Some (max_value p))"
  by (simp_all add: to_json_schema_property_def some_item_def)

lemma type_match_schema:
  "check_type_match t v \<longleftrightarrow> schema_type_ok (type_value t) v \<and> \<not> (t = INTEGER \<and> whole_float v)"
  by (cases t; cases v) (simp_all add: type_value_def whole_float_def, blast?)

lemma bounds_schema:
  "validate_bounds p v = [] \<longleftrightarrow>
     (case v of JStr s \<Rightarrow> int (length s) \<le> max_length p | _ \<Rightarrow> True)
     \<and> (is_number v \<longrightarrow> (min_value p = JNull \<or> number_of (min_value p) \<le> number_of v)
          \<and> (max_value p = JNull \<or> number_of v \<le> number_of (max_value p)))"
  by (cases v) (auto simp: validate_bounds_def validate_string_bounds_def check_string_length_def
      validate_numeric_bounds_def check_numeric_bounds_def is_number_def not_less)

lemma property_ok_iff:
  "schema_property_ok (to_json_schema_property p) v \<longleftrightarrow>
     schema_type_ok (type_value (param_type p)) v
     \<and> (case v of JStr s \<Rightarrow> param_type p = STRING \<longrightarrow> int (length s) \<le> max_length p | _ \<Rightarrow> True)
     \<and> (is_number v \<longrightarrow> (min_value p = JNull \<or> number_of (min_value p) \<le> number_of v)
          \<and> (max_value p = JNull \<or> number_of v \<le> number_of (max_value p)))"
  unfolding schema_property_ok_def schema_fields by (cases v) (auto simp: is_number_def)

lemma string_type: "check_type_match t (JStr s) \<longleftrightarrow> t = STRING"
  by (cases t) simp_all

lemma single_param_schema:
  "validate_single_param p v = [] \<longleftrightarrow>
     schema_property_ok (to_json_schema_property p) v \<and> \<not> (param_type p = INTEGER \<and> whole_float v)"
proof (cases "check_type_match (param_type p) v")
  case True
  then have "validate_single_param p v = [] \<longleftrightarrow> validate_bounds p v = []"
    by (simp add: validate_single_param_def)
  also have "\<dots> \<longleftrightarrow> schema_property_ok (to_json_schema_property p) v"
    using True type_match_schema [of "param_type p" v] string_type
    unfolding bounds_schema property_ok_iff by (cases v) simp_all
  finally show ?thesis using True type_match_schema [of "param_type p" v] by simp
next
  case False
  then show ?thesis
    using type_match_schema [of "param_type p" v]
    by (simp add: validate_single_param_def property_ok_iff)
qed

section \<open>A call\<close>

lemma set_sorted_items [simp]: "set (sorted_items d) = set d"
  by (simp add: sorted_items_def)

lemma no_violations_iff:
  "call_violations c args = [] \<longleftrightarrow>
     (strict_forbid_extra c \<longrightarrow> (\<forall>(k, v) \<in> set args. k \<in> set (dict_keys (parameters c))))
     \<and> (\<forall>(k, p) \<in> set (parameters c). required p \<longrightarrow> k \<in> set (dict_keys args))
     \<and> (\<forall>(k, v) \<in> set args. case dict_get (parameters c) k of
          None \<Rightarrow> True | Some p \<Rightarrow> validate_single_param p v = [])"
  by (auto simp: call_violations_def check_hallucinated_params_def check_missing_params_def
      validate_argument_values_def filter_empty_conv split: option.splits prod.splits)

definition schema_properties :: "tool_contract \<Rightarrow> (string, json) dict" where
  "schema_properties c = map (\<lambda>(k, p). (k, to_json_schema_property p)) (parameters c)"

lemma get_schema_properties: "dict_get (schema_properties c) k =
    map_option to_json_schema_property (dict_get (parameters c) k)"
  by (simp add: schema_properties_def dict_get_def map_of_map)

lemma named_parameters:
  assumes "wf_contract c"
  shows "map param_name (dict_values (parameters c)) = dict_keys (parameters c)"
  using assms by (auto simp: wf_contract_def list_all_iff dict_values_def dict_keys_def)

lemma schema_of_contract:
  assumes "wf_contract c"
  shows "fold (\<lambda>p. dict_set (param_name p) (to_json_schema_property p)) (dict_values (parameters c)) []
      = schema_properties c"
    and "map (JStr \<circ> param_name) (filter required (dict_values (parameters c)))
      = map (JStr \<circ> fst) (filter (required \<circ> snd) (parameters c))"
proof -
  have "distinct (map param_name (dict_values (parameters c)))"
    using assms named_parameters [OF assms] by (simp add: wf_contract_def wf_dict_def dict_keys_def)
  moreover have "map (\<lambda>p. (param_name p, to_json_schema_property p)) (dict_values (parameters c)) = schema_properties c"
    using assms by (auto simp: schema_properties_def dict_values_def wf_contract_def list_all_iff)
  ultimately show "fold (\<lambda>p. dict_set (param_name p) (to_json_schema_property p)) (dict_values (parameters c)) []
      = schema_properties c"
    by (simp add: fold_dict_set_distinct)
  show "map (JStr \<circ> param_name) (filter required (dict_values (parameters c)))
      = map (JStr \<circ> fst) (filter (required \<circ> snd) (parameters c))"
    using assms by (auto simp: dict_values_def filter_map wf_contract_def list_all_iff)
qed

lemma schema_accepts_iff:
  assumes "wf_contract c"
  shows "schema_accepts (contract_schema c) args \<longleftrightarrow>
     (strict_forbid_extra c \<longrightarrow> (\<forall>(k, v) \<in> set args. k \<in> set (dict_keys (parameters c))))
     \<and> (\<forall>(k, p) \<in> set (parameters c). required p \<longrightarrow> k \<in> set (dict_keys args))
     \<and> (\<forall>(k, v) \<in> set args. case dict_get (parameters c) k of
          None \<Rightarrow> True | Some p \<Rightarrow> schema_property_ok (to_json_schema_property p) v)"
proof -
  have get: "dict_get (parameters c) k = None \<longleftrightarrow> k \<notin> set (dict_keys (parameters c))" for k
    using alist_dict.get_iff_key [of "parameters c" k] by auto
  have props: "(case dict_get (schema_properties c) k of Some p \<Rightarrow> schema_property_ok p v
        | None \<Rightarrow> Some (JBool (\<not> strict_forbid_extra c)) \<noteq> Some (JBool False)) \<longleftrightarrow>
      (strict_forbid_extra c \<longrightarrow> k \<in> set (dict_keys (parameters c)))
      \<and> (case dict_get (parameters c) k of None \<Rightarrow> True
         | Some p \<Rightarrow> schema_property_ok (to_json_schema_property p) v)" for k v
    using get [of k] by (cases "dict_get (parameters c) k") (simp_all add: get_schema_properties)
  obtain s where s: "json_field (contract_schema c) ''parameters'' = Some s"
    "json_field s ''required'' = Some (JArr (map (JStr \<circ> fst) (filter (required \<circ> snd) (parameters c))))"
    "json_field s ''properties'' = Some (JObj (schema_properties c))"
    "json_field s ''additionalProperties'' = Some (JBool (\<not> strict_forbid_extra c))"
    by (simp add: contract_schema_def Let_def schema_of_contract [OF assms])
  have needs: "(\<forall>r \<in> set (map (JStr \<circ> fst) (filter (required \<circ> snd) (parameters c))).
        \<exists>k \<in> set (dict_keys args). r = JStr k) \<longleftrightarrow>
      (\<forall>(k, p) \<in> set (parameters c). required p \<longrightarrow> k \<in> set (dict_keys args))" by auto
  have "schema_accepts (contract_schema c) args \<longleftrightarrow>
      (\<forall>(k, p) \<in> set (parameters c). required p \<longrightarrow> k \<in> set (dict_keys args))
      \<and> (\<forall>(k, v) \<in> set args. case dict_get (schema_properties c) k of Some p \<Rightarrow> schema_property_ok p v
          | None \<Rightarrow> Some (JBool (\<not> strict_forbid_extra c)) \<noteq> Some (JBool False))"
    unfolding schema_accepts_def schema_object_ok_def by (simp only: s option.case json.case needs)
  also have "\<dots> \<longleftrightarrow> (\<forall>(k, p) \<in> set (parameters c). required p \<longrightarrow> k \<in> set (dict_keys args))
      \<and> (\<forall>(k, v) \<in> set args. (strict_forbid_extra c \<longrightarrow> k \<in> set (dict_keys (parameters c)))
        \<and> (case dict_get (parameters c) k of None \<Rightarrow> True
           | Some p \<Rightarrow> schema_property_ok (to_json_schema_property p) v))"
    unfolding props ..
  finally show ?thesis by auto
qed

text \<open>C12: For a contract whose parameters are filed under their own names, the verifier accepts exactly
  the calls that the JSON Schema it generates for the tool describes, less those with a float such
  as 1.0 for an integer, which the schema admits.
\<close>

theorem accepted_calls_match_schema:
  assumes "dict_get (contracts ver) name = Some c" "wf_contract c"
  shows "case to_json_schema ver name of
      Inl e \<Rightarrow> False
    | Inr schema \<Rightarrow> is_valid (validate_call ver name args) \<longleftrightarrow>
        schema_accepts schema args \<and> \<not> whole_float_argument c args"
proof -
  have "call_violations c args = [] \<longleftrightarrow>
      schema_accepts (contract_schema c) args \<and> \<not> whole_float_argument c args"
    unfolding no_violations_iff schema_accepts_iff [OF assms(2)] whole_float_argument_def list_ex_iff
    by (auto simp: single_param_schema split: option.splits prod.splits)
  then show ?thesis
    using assms(1) by (simp add: to_json_schema_def validate_call_def Let_def)
qed

definition demo_contract :: tool_contract where
  "demo_contract =
     \<lparr>tool_name = ''deploy_service'', tool_description = ''Deploy a service.'',
      parameters =
        [(''service_name'', \<lparr>param_name = ''service_name'', param_type = STRING, required = True,
            max_length = 32, min_value = JNull, max_value = JNull, default_value = JNull,
            description = ''Unique service identifier.''\<rparr>),
         (''replicas'', \<lparr>param_name = ''replicas'', param_type = INTEGER, required = False,
            max_length = 256, min_value = JInt 1, max_value = JInt 5, default_value = JInt 1,
            description = ''Replica count (1-5).''\<rparr>)],
      strict_forbid_extra = True, return_type = Some Dict_Type\<rparr>"

definition demo_verifier :: "unit verifier" where
  "demo_verifier = register_tool demo_contract None verifier_init"

lemma accepted_calls_match_schema_witness:
  "case to_json_schema demo_verifier ''deploy_service'' of
      Inl e \<Rightarrow> False
    | Inr schema \<Rightarrow> is_valid (validate_call demo_verifier ''deploy_service'' [(''replicas'', JFloat 1)]) \<longleftrightarrow>
        schema_accepts schema [(''replicas'', JFloat 1)]
          \<and> \<not> whole_float_argument demo_contract [(''replicas'', JFloat 1)]"
  by (rule accepted_calls_match_schema)
    (simp_all add: demo_verifier_def register_tool_def verifier_init_def demo_contract_def wf_contract_def wf_dict_def
      bound_ok_def is_number_def)

lemma whole_float_rejected:
  "\<not> is_valid (validate_call demo_verifier ''deploy_service''
     [(''service_name'', JStr ''a''), (''replicas'', JFloat 1)])"
  by (simp add: demo_verifier_def register_tool_def verifier_init_def demo_contract_def validate_call_def Let_def
      call_violations_def validate_argument_values_def validate_single_param_def sorted_items_def
      check_hallucinated_params_def check_missing_params_def dict_keys_def dict_get_Cons)

text \<open>A value comes back from \<open>execute_call\<close> only for an accepted call whose handler returned a
  value of the declared type, and then the report is valid. A rejected call, and one without a
  handler, leaves the world as it was.
\<close>

theorem value_only_under_contract:
  "case execute_call ver name args w of ((result, report), w') \<Rightarrow>
     (if is_valid (validate_call ver name args) \<and> dict_get (handlers ver) name \<noteq> None
      then is_valid report = (result \<noteq> None)
      else result = None \<and> w' = w \<and> report = validate_call ver name args)
     \<and> (case result of
          None \<Rightarrow> True
        | Some r \<Rightarrow> is_valid report \<and> map_option (\<lambda>h. h args w) (dict_get (handlers ver) name) = Some (Inr r, w')
            \<and> (case Option.bind (get_tool ver name) return_type of
                 None \<Rightarrow> True | Some t \<Rightarrow> is_instance r t))"
proof (cases "is_valid (validate_call ver name args)")
  case valid: True
  show ?thesis
  proof (cases "dict_get (handlers ver) name")
    case None
    with valid show ?thesis by (simp add: execute_call_def Let_def)
  next
    case (Some h)
    obtain out w' where call: "h args w = (out, w')" by fastforce
    show ?thesis
    proof (cases out)
      case (Inl err)
      with valid Some call show ?thesis by (simp add: execute_call_def Let_def)
    next
      case (Inr r)
      with valid Some call show ?thesis
        by (cases "Option.bind (get_tool ver name) return_type")
          (auto simp: execute_call_def Let_def enforce_return_def)
    qed
  qed
next
  case False
  then show ?thesis by (simp add: execute_call_def Let_def)
qed

end
