(* ===== verification/Contract_Variables.thy ===== *)
theory Contract_Variables
  imports Py_Json
begin

text \<open>
  \<open>tools/contract_variables.py\<close>: the variables a contract declares, the conversion of answers, the
  resolution of every variable from a supplied answer, a terminal or its default, and substitution
  into the parsed document. A document is decoded JSON; the terminal is the list of lines still to
  be entered, and its end raises \<open>EOFError\<close>.
\<close>

section \<open>Declarations\<close>

definition MAX_ATTEMPTS :: nat where
  "MAX_ATTEMPTS = 3"

definition VARIABLE_TYPES :: "string list" where
  "VARIABLE_TYPES = [''string'', ''integer'', ''number'', ''boolean'', ''choice'']"

text \<open>\<open>ContractError\<close> with its message; any other exception keeps its class.\<close>

datatype contract_error = Contract_Error string | Raised py_error

type_synonym 'a contract = "(contract_error, 'a) result"

text \<open>An absent default, the sentinel \<open>_MISSING\<close>, is \<open>None\<close>.\<close>

record contract_variable =
  name :: string
  prompt :: string
  var_type :: string
  default_answer :: "json option"
  choices :: "string list"

definition answer_text :: "json option \<Rightarrow> string" where
  "answer_text d = (case d of Some v \<Rightarrow> json_str v | None \<Rightarrow> ''<no default>'')"

definition describe :: "contract_variable \<Rightarrow> string" where
  "describe v = prompt v @ (if choices v = [] then '''' else '' ['' @ join_with ''/'' (choices v) @ '']'')
     @ '' ('' @ answer_text (default_answer v) @ ''): ''"

text \<open>\<open>x or []\<close> and the check that it is a list.\<close>

definition list_or_error :: "string \<Rightarrow> json \<Rightarrow> json list contract" where
  "list_or_error msg v = (if \<not> py_truthy v then Inr []
     else (case v of JArr xs \<Rightarrow> Inr xs | _ \<Rightarrow> Inl (Contract_Error msg)))"

definition variable_of :: "json \<Rightarrow> contract_variable contract" where
  "variable_of entry = (case entry of
     JObj kvs \<Rightarrow> result_bind (list_or_error ''choices must be a list'' (field_or kvs ''choices'' JNull)) (\<lambda>cs.
       Inr \<lparr>name = py_strip (json_str (field_or kvs ''name'' (JStr ''''))),
            prompt = py_strip (json_str (field_or kvs ''prompt'' (JStr ''''))),
            var_type = py_strip (json_str (field_or kvs ''type'' (JStr ''string''))),
            default_answer = dict_get kvs ''default'', choices = map json_str cs\<rparr>)
   | _ \<Rightarrow> Inl (Contract_Error (''expected a mapping per variable, got '' @ type_name entry)))"

section \<open>Conversion of answers\<close>

definition coerce_choice :: "contract_variable \<Rightarrow> json \<Rightarrow> json contract" where
  "coerce_choice v raw = (let s = json_str raw in
     if s \<in> set (choices v) then Inr (JStr s)
     else Inl (Contract_Error (py_repr s @ '' is not one of '' @ py_repr_list (choices v))))"

definition coerce_string :: "json \<Rightarrow> json contract" where
  "coerce_string raw = (case raw of
     JStr s \<Rightarrow> Inr raw
   | _ \<Rightarrow> Inl (Contract_Error (''expected a string, got '' @ type_name raw)))"

definition coerce_boolean :: "json \<Rightarrow> json contract" where
  "coerce_boolean raw = (case raw of
     JBool b \<Rightarrow> Inr raw
   | _ \<Rightarrow>
       (let s = py_lower (py_strip (json_str raw)) in
        if s \<in> {''true'', ''yes'', ''y'', ''1'', ''on''} then Inr (JBool True)
        else if s \<in> {''false'', ''no'', ''n'', ''0'', ''off''} then Inr (JBool False)
        else Inl (Contract_Error (''expected a boolean, got '' @ json_repr raw))))"

definition coerce_integer :: "json \<Rightarrow> json contract" where
  "coerce_integer raw = (case raw of
     JBool b \<Rightarrow> Inl (Contract_Error (''expected an integer, got a boolean ('' @ json_repr raw @ '')''))
   | JInt i \<Rightarrow> Inr raw
   | _ \<Rightarrow> (case int_of_text (py_strip (json_str raw)) of
        Inr i \<Rightarrow> Inr (JInt i)
      | Inl e \<Rightarrow> Inl (Contract_Error (''expected an integer, got '' @ json_repr raw))))"

definition coerce_number :: "json \<Rightarrow> json contract" where
  "coerce_number raw = (case raw of
     JBool b \<Rightarrow> Inl (Contract_Error (''expected a number, got a boolean ('' @ json_repr raw @ '')''))
   | JInt i \<Rightarrow> Inr (JFloat (of_int i))
   | JFloat q \<Rightarrow> Inr raw
   | _ \<Rightarrow> (case float_of_text (py_strip (json_str raw)) of
        Inr q \<Rightarrow> Inr (JFloat q)
      | Inl Not_Finite \<Rightarrow> Inl (Raised Not_Finite)
      | Inl e \<Rightarrow> Inl (Contract_Error (''expected a number, got '' @ json_repr raw))))"

definition coerce :: "contract_variable \<Rightarrow> json \<Rightarrow> json contract" where
  "coerce v raw =
     (if var_type v = ''string'' then coerce_string raw
      else if var_type v = ''integer'' then coerce_integer raw
      else if var_type v = ''number'' then coerce_number raw
      else if var_type v = ''boolean'' then coerce_boolean raw
      else if var_type v = ''choice'' then coerce_choice v raw
      else Inl (Raised (Key_Error (var_type v))))"

section \<open>Checks of the declarations\<close>

text \<open>The pattern of \<open>_IDENTIFIER\<close> on a stripped name, which has no final newline.\<close>

definition lower_letter :: "char \<Rightarrow> bool" where
  "lower_letter c \<longleftrightarrow> CHR ''a'' \<le> c \<and> c \<le> CHR ''z''"

definition name_char :: "char \<Rightarrow> bool" where
  "name_char c \<longleftrightarrow> lower_letter c \<or> is_digit c \<or> c = CHR ''_''"

definition is_identifier :: "string \<Rightarrow> bool" where
  "is_identifier s = (case s of [] \<Rightarrow> False | c # cs \<Rightarrow> lower_letter c \<and> list_all name_char cs)"

definition name_syntax_problems :: "string list \<Rightarrow> string list" where
  "name_syntax_problems names =
     map (\<lambda>n. ''variable name '' @ py_repr n @ '' must be a lowercase identifier'')
       (filter (\<lambda>n. \<not> is_identifier n) names)
     @ map (\<lambda>n. ''duplicate variable '' @ py_repr n)
       (sort (remdups (filter (\<lambda>n. 1 < count_list names n) names)))"

definition choice_problems :: "contract_variable \<Rightarrow> string list" where
  "choice_problems v =
     (if var_type v = ''choice'' \<and> choices v = []
      then [name v @ '': type '' @ quoted ''choice'' @ '' requires a non-empty choices list'']
      else if var_type v \<noteq> ''choice'' \<and> choices v \<noteq> []
      then [name v @ '': choices are only meaningful with type '' @ quoted ''choice'']
      else [])"

definition default_problems :: "contract_variable \<Rightarrow> string list contract" where
  "default_problems v = (case default_answer v of
     None \<Rightarrow> Inr [name v @ '': a default is required, so the contract resolves with no input'']
   | Some d \<Rightarrow> (case coerce v d of
        Inr _ \<Rightarrow> Inr []
      | Inl (Contract_Error err) \<Rightarrow> Inr [name v @ '': default is invalid: '' @ err]
      | Inl (Raised e) \<Rightarrow> Inl (Raised e)))"

definition one_declaration_problems :: "contract_variable \<Rightarrow> string list contract" where
  "one_declaration_problems v =
     (let p = (if prompt v = '''' then [name v @ '': prompt is required; it is what the author is asked'']
               else [])
      in if var_type v \<notin> set VARIABLE_TYPES
      then Inr (p @ [name v @ '': unknown type '' @ py_repr (var_type v) @ ''; allowed: ''
        @ py_repr_list VARIABLE_TYPES])
      else result_bind (default_problems v) (\<lambda>d. Inr (p @ choice_problems v @ d)))"

definition declaration_problems :: "contract_variable list \<Rightarrow> string list contract" where
  "declaration_problems vs = result_bind (map_result one_declaration_problems vs) (\<lambda>ps.
     Inr (name_syntax_problems (map name vs) @ concat ps))"

definition load_variables :: "(string, json) dict \<Rightarrow> contract_variable list contract" where
  "load_variables doc =
     result_bind (list_or_error ''variables must be a list of mappings'' (field_or doc ''variables'' (JArr [])))
       (\<lambda>entries.
     result_bind (map_result variable_of entries) (\<lambda>vs.
     result_bind (declaration_problems vs) (\<lambda>problems.
       if problems = [] then Inr vs else Inl (Contract_Error (join_with ''; '' problems)))))"

section \<open>Resolution\<close>

text \<open>\<open>coerce(variable, variable.default)\<close>; the sentinel is of the class \<open>_Missing\<close> and prints as a word.\<close>

definition coerce_missing :: "contract_variable \<Rightarrow> json contract" where
  "coerce_missing v =
     (if var_type v = ''string'' then Inl (Contract_Error ''expected a string, got _Missing'')
      else if var_type v = ''integer'' then Inl (Contract_Error (''expected an integer, got '' @ answer_text None))
      else if var_type v = ''number'' then Inl (Contract_Error (''expected a number, got '' @ answer_text None))
      else if var_type v = ''boolean'' then Inl (Contract_Error (''expected a boolean, got '' @ answer_text None))
      else if var_type v = ''choice'' then coerce_choice v (JStr (answer_text None))
      else Inl (Raised (Key_Error (var_type v))))"

definition default_value_of :: "contract_variable \<Rightarrow> json contract" where
  "default_value_of v = (case default_answer v of Some d \<Rightarrow> coerce v d | None \<Rightarrow> coerce_missing v)"

text \<open>One attempt: an answer, or \<open>None\<close> when the entered text does not convert, with the rest of the lines.\<close>

definition prompt_one_attempt ::
  "contract_variable \<Rightarrow> string list \<Rightarrow> json option contract \<times> string list" where
  "prompt_one_attempt v inputs = (case inputs of
     [] \<Rightarrow> (result_bind (default_value_of v) (Inr \<circ> Some), [])
   | line # rest \<Rightarrow>
       (let entered = py_strip line in
        if entered = '''' then (result_bind (default_value_of v) (Inr \<circ> Some), rest)
        else (case coerce v (JStr entered) of
          Inr a \<Rightarrow> (Inr (Some a), rest)
        | Inl (Contract_Error err) \<Rightarrow> (Inr None, rest)
        | Inl (Raised e) \<Rightarrow> (Inl (Raised e), rest))))"

fun ask_loop :: "nat \<Rightarrow> contract_variable \<Rightarrow> string list \<Rightarrow> json contract \<times> string list" where
  "ask_loop 0 v inputs =
     (Inl (Contract_Error (name v @ '': no valid answer after '' @ show_nat MAX_ATTEMPTS @ '' attempts'')), inputs)"
| "ask_loop (Suc n) v inputs = (case prompt_one_attempt v inputs of
     (Inl e, rest) \<Rightarrow> (Inl e, rest)
   | (Inr (Some a), rest) \<Rightarrow> (Inr a, rest)
   | (Inr None, rest) \<Rightarrow> ask_loop n v rest)"

definition ask_variable :: "contract_variable \<Rightarrow> string list \<Rightarrow> json contract \<times> string list" where
  "ask_variable v inputs = ask_loop MAX_ATTEMPTS v inputs"

definition coerce_supplied :: "contract_variable \<Rightarrow> json \<Rightarrow> json contract" where
  "coerce_supplied v raw = (case coerce v raw of
     Inl (Contract_Error err) \<Rightarrow> Inl (Contract_Error (name v @ '': '' @ err)) | r \<Rightarrow> r)"

definition resolve_one ::
  "contract_variable \<Rightarrow> (string, json) dict \<Rightarrow> bool \<Rightarrow> string list \<Rightarrow> json contract \<times> string list" where
  "resolve_one v provided interactive inputs = (case dict_get provided (name v) of
     Some raw \<Rightarrow> (coerce_supplied v raw, inputs)
   | None \<Rightarrow> if interactive then ask_variable v inputs else (default_value_of v, inputs))"

fun resolve_all ::
  "contract_variable list \<Rightarrow> (string, json) dict \<Rightarrow> bool \<Rightarrow> string list \<Rightarrow> (string, json) dict
    \<Rightarrow> (string, json) dict contract" where
  "resolve_all [] provided interactive inputs answers = Inr answers"
| "resolve_all (v # vs) provided interactive inputs answers =
     (case resolve_one v provided interactive inputs of
        (Inl e, rest) \<Rightarrow> Inl e
      | (Inr a, rest) \<Rightarrow> resolve_all vs provided interactive rest (dict_set (name v) a answers))"

definition resolve_answers ::
  "contract_variable list \<Rightarrow> (string, json) dict \<Rightarrow> bool \<Rightarrow> string list \<Rightarrow> (string, json) dict contract" where
  "resolve_answers vs provided interactive inputs =
     (let unknown = sort (remdups (filter (\<lambda>n. n \<notin> name ` set vs) (dict_keys provided))) in
      if unknown \<noteq> []
      then Inl (Contract_Error (''undeclared variable(s) '' @ py_repr_list unknown @ ''; declared: ''
        @ py_repr_list (sort (map name vs))))
      else resolve_all vs provided interactive inputs [])"

section \<open>Placeholders\<close>

text \<open>A match of \<open>_PLACEHOLDER\<close> at the start of the text: the name and what follows.\<close>

definition match_placeholder :: "string \<Rightarrow> (string \<times> string) option" where
  "match_placeholder s =
     (if \<not> starts_with s ''{{'' then None
      else (let s1 = dropWhile py_isspace (drop 2 s);
                n = takeWhile name_char s1;
                s2 = dropWhile py_isspace (drop (length n) s1)
            in if is_identifier n \<and> starts_with s2 ''}}'' then Some (n, drop 2 s2) else None))"

lemma length_dropWhile_drop: "length (dropWhile P (drop n xs)) \<le> length xs - n"
  using length_dropWhile_le [of P "drop n xs"] by simp

lemma match_placeholder_shorter:
  assumes "match_placeholder s = Some (n, rest)"
  shows "length rest < length s"
proof -
  define s1 where "s1 = dropWhile py_isspace (drop 2 s)"
  define s2 where "s2 = dropWhile py_isspace (drop (length n) s1)"
  have "starts_with s ''{{''" "rest = drop 2 s2"
    using assms by (auto simp: match_placeholder_def Let_def s1_def s2_def split: if_splits)
  moreover have "length s2 \<le> length s1" "length s1 \<le> length s - 2"
    using length_dropWhile_drop [of py_isspace "length n" s1] length_dropWhile_drop [of py_isspace 2 s]
    by (auto simp: s1_def s2_def)
  moreover have "s \<noteq> []" using calculation(1) by (auto simp: starts_with_def)
  ultimately show ?thesis by (cases s) auto
qed

text \<open>The text cut into single characters and placeholders, leftmost match first.\<close>

function placeholder_tokens :: "string \<Rightarrow> (char + string) list" where
  "placeholder_tokens s = (case s of
     [] \<Rightarrow> []
   | c # cs \<Rightarrow> (case match_placeholder s of
        Some (n, rest) \<Rightarrow> Inr n # placeholder_tokens rest
      | None \<Rightarrow> Inl c # placeholder_tokens cs))"
  by pat_completeness auto
termination
  by (relation "measure length") (auto dest: match_placeholder_shorter)

declare placeholder_tokens.simps [simp del]

definition text_placeholders :: "string \<Rightarrow> string list" where
  "text_placeholders s = List.map_filter (\<lambda>t. case t of Inr n \<Rightarrow> Some n | Inl c \<Rightarrow> None) (placeholder_tokens s)"

fun placeholders :: "json \<Rightarrow> string set" where
  "placeholders (JStr s) = set (text_placeholders s)"
| "placeholders (JObj kvs) = \<Union> (set (map (\<lambda>(k, v). placeholders v) kvs))"
| "placeholders (JArr xs) = \<Union> (set (map placeholders xs))"
| "placeholders _ = {}"

definition substitute_text :: "(string, json) dict \<Rightarrow> string \<Rightarrow> string py" where
  "substitute_text answers s = result_bind
     (map_result (\<lambda>t. case t of
        Inl c \<Rightarrow> Inr [c]
      | Inr n \<Rightarrow> (case dict_get answers n of Some a \<Rightarrow> Inr (json_str a) | None \<Rightarrow> Inl (Key_Error n)))
       (placeholder_tokens s)) (\<lambda>parts. Inr (concat parts))"

fun substitute_value :: "(string, json) dict \<Rightarrow> json \<Rightarrow> json py" where
  "substitute_value answers (JStr s) = result_bind (substitute_text answers s) (\<lambda>t. Inr (JStr t))"
| "substitute_value answers (JObj kvs) =
     result_bind (map_result (\<lambda>(k, v). result_bind (substitute_value answers v) (\<lambda>v'. Inr (k, v'))) kvs)
       (\<lambda>kvs'. Inr (JObj kvs'))"
| "substitute_value answers (JArr xs) = result_bind (map_result (substitute_value answers) xs) (\<lambda>ys. Inr (JArr ys))"
| "substitute_value answers v = Inr v"

definition render_document :: "json \<Rightarrow> (string, json) dict \<Rightarrow> json contract" where
  "render_document doc answers =
     (let missing = sorted_list_of_set (placeholders doc - set (dict_keys answers)) in
      if missing \<noteq> []
      then Inl (Contract_Error (''contract references undeclared variable(s) '' @ py_repr_list missing))
      else (case substitute_value answers doc of Inl e \<Rightarrow> Inl (Raised e) | Inr d \<Rightarrow> Inr d))"

section \<open>Assignments\<close>

text \<open>\<open>text.split("=", 1)\<close>, for a text with the sign.\<close>

definition assignment_name :: "string \<Rightarrow> string" where
  "assignment_name s = py_strip (takeWhile (\<lambda>c. c \<noteq> CHR ''='') s)"

definition assignment_value :: "string \<Rightarrow> string" where
  "assignment_value s = drop 1 (dropWhile (\<lambda>c. c \<noteq> CHR ''='') s)"

definition parse_assignments :: "string list \<Rightarrow> (string, string) dict contract" where
  "parse_assignments texts =
     (let bad = filter (\<lambda>s. CHR ''='' \<notin> set s \<or> assignment_name s = '''') texts in
      if bad \<noteq> [] then Inl (Contract_Error (''expected NAME=VALUE, got '' @ py_repr_list bad))
      else Inr (fold (\<lambda>s. dict_set (assignment_name s) (assignment_value s)) texts []))"

end
