(* ===== verification/Variables_Props.thy ===== *)
theory Variables_Props
  imports Contract_Variables
begin

text \<open>
  Contract variables: a contract that loads resolves with no input, whatever was supplied or typed
  the answers have the declared types, and rendering keeps the structure of the document.
\<close>

section \<open>Conversion\<close>

definition answer_ok :: "contract_variable \<Rightarrow> json \<Rightarrow> bool" where
  "answer_ok v a = (case a of
     JStr s \<Rightarrow> var_type v = ''string'' \<or> var_type v = ''choice'' \<and> s \<in> set (choices v)
   | JInt i \<Rightarrow> var_type v = ''integer''
   | JFloat q \<Rightarrow> var_type v = ''number''
   | JBool b \<Rightarrow> var_type v = ''boolean''
   | _ \<Rightarrow> False)"

lemma coerce_kinds:
  "coerce_string raw = Inr a \<Longrightarrow> \<exists>s. a = JStr s"
  "coerce_integer raw = Inr a \<Longrightarrow> \<exists>i. a = JInt i"
  "coerce_number raw = Inr a \<Longrightarrow> \<exists>q. a = JFloat q"
  "coerce_boolean raw = Inr a \<Longrightarrow> \<exists>b. a = JBool b"
  "coerce_choice v raw = Inr a \<Longrightarrow> \<exists>s. a = JStr s \<and> s \<in> set (choices v)"
proof -
  show "coerce_string raw = Inr a \<Longrightarrow> \<exists>s. a = JStr s"
    by (cases raw) (auto simp: coerce_string_def)
  show "coerce_integer raw = Inr a \<Longrightarrow> \<exists>i. a = JInt i"
    by (cases raw) (auto simp: coerce_integer_def split: sum.splits)
  show "coerce_number raw = Inr a \<Longrightarrow> \<exists>q. a = JFloat q"
    by (cases raw) (auto simp: coerce_number_def split: sum.splits py_error.splits)
  show "coerce_boolean raw = Inr a \<Longrightarrow> \<exists>b. a = JBool b"
    by (cases raw) (auto simp: coerce_boolean_def Let_def split: if_splits)
  show "coerce_choice v raw = Inr a \<Longrightarrow> \<exists>s. a = JStr s \<and> s \<in> set (choices v)"
    by (auto simp: coerce_choice_def Let_def split: if_splits)
qed

lemma coerce_ok: "coerce v raw = Inr a \<Longrightarrow> answer_ok v a"
  using coerce_kinds(1-4) [of raw a] coerce_kinds(5) [of v raw a]
  by (auto simp: coerce_def answer_ok_def split: if_splits)

lemma coerce_missing_ok: "coerce_missing v = Inr a \<Longrightarrow> answer_ok v a"
  using coerce_kinds(5) [of v "JStr (answer_text None)" a]
  by (auto simp: coerce_missing_def answer_ok_def split: if_splits)

lemma default_ok: "default_value_of v = Inr a \<Longrightarrow> answer_ok v a"
  using coerce_ok coerce_missing_ok by (auto simp: default_value_of_def split: option.splits)

text \<open>A converted answer converts to itself.\<close>

lemma coerce_answer: "answer_ok v a \<Longrightarrow> coerce v a = Inr a"
  by (cases a) (auto simp: answer_ok_def coerce_def coerce_string_def coerce_integer_def
      coerce_number_def coerce_boolean_def coerce_choice_def)

section \<open>Loading\<close>

lemma no_duplicates:
  assumes "filter (\<lambda>n. 1 < count_list names n) names = []"
  shows "distinct names"
proof (rule ccontr)
  assume "\<not> distinct names"
  then obtain xs ys zs y where "names = xs @ [y] @ ys @ [y] @ zs"
    using not_distinct_decomp by blast
  with assms show False by simp
qed

lemma map_result_Inr_elem: "map_result f xs = Inr ys \<Longrightarrow> x \<in> set xs \<Longrightarrow> \<exists>y \<in> set ys. f x = Inr y"
  by (induction xs arbitrary: ys) (auto simp: result_bind_def split: sum.splits)

lemma declaration_has_default:
  assumes "one_declaration_problems v = Inr []"
  shows "\<exists>a. default_value_of v = Inr a"
proof -
  have "var_type v \<in> set VARIABLE_TYPES" "default_problems v = Inr []"
    using assms by (auto simp: one_declaration_problems_def result_bind_def Let_def split: if_splits sum.splits)
  then show ?thesis
    by (auto simp: default_problems_def default_value_of_def split: option.splits sum.splits contract_error.splits)
qed

lemma loaded_variables:
  assumes "load_variables doc = Inr vs"
  shows "distinct (map name vs)" and "v \<in> set vs \<Longrightarrow> \<exists>a. default_value_of v = Inr a"
proof -
  have none: "declaration_problems vs = Inr []"
    using assms by (auto simp: load_variables_def result_bind_def split: sum.splits if_splits)
  then obtain ps where ps: "map_result one_declaration_problems vs = Inr ps"
    "name_syntax_problems (map name vs) = []" "concat ps = []"
    by (auto simp: declaration_problems_def result_bind_def split: sum.splits)
  then have "sort (remdups (filter (\<lambda>n. 1 < count_list (map name vs) n) (map name vs))) = []"
    by (simp add: name_syntax_problems_def)
  then have "filter (\<lambda>n. 1 < count_list (map name vs) n) (map name vs) = []"
    by (metis set_empty set_remdups set_sort)
  then show "distinct (map name vs)" by (rule no_duplicates)
  show "\<exists>a. default_value_of v = Inr a" if "v \<in> set vs"
    using map_result_Inr_elem [OF ps(1) that] ps(3) declaration_has_default by fastforce
qed

section \<open>Resolution\<close>

lemma prompt_ok:
  "prompt_one_attempt v inputs = (Inr (Some a), rest) \<Longrightarrow> answer_ok v a"
  using default_ok coerce_ok
  by (auto simp: prompt_one_attempt_def Let_def result_bind_def
      split: list.splits sum.splits if_splits contract_error.splits)

lemma ask_ok: "ask_loop n v inputs = (Inr a, rest) \<Longrightarrow> answer_ok v a"
  by (induction n arbitrary: inputs) (auto dest: prompt_ok split: prod.splits sum.splits option.splits)

lemma supplied_ok: "coerce_supplied v raw = Inr a \<Longrightarrow> answer_ok v a"
  using coerce_ok by (auto simp: coerce_supplied_def split: sum.splits contract_error.splits)

lemma resolve_one_ok: "resolve_one v provided interactive inputs = (Inr a, rest) \<Longrightarrow> answer_ok v a"
  using supplied_ok default_ok ask_ok
  by (auto simp: resolve_one_def ask_variable_def split: option.splits if_splits)

text \<open>The answers of the variables, in their order.\<close>

definition answers_fit :: "contract_variable list \<Rightarrow> (string, json) dict \<Rightarrow> bool" where
  "answers_fit vs answers \<longleftrightarrow>
     dict_keys answers = map name vs \<and> list_all2 answer_ok vs (dict_values answers)"

lemma resolve_all_fit:
  assumes "resolve_all vs provided interactive inputs answers = Inr result"
    and "answers_fit us answers" "distinct (map name (us @ vs))"
  shows "answers_fit (us @ vs) result"
  using assms
proof (induction vs arbitrary: us inputs answers)
  case (Cons v vs)
  obtain a rest where a: "resolve_one v provided interactive inputs = (Inr a, rest)"
    "resolve_all vs provided interactive rest (dict_set (name v) a answers) = Inr result"
    using Cons.prems(1) by (auto split: prod.splits sum.splits)
  have "map fst answers = map name us" using Cons.prems(2) by (simp add: answers_fit_def dict_keys_def)
  moreover have "name v \<notin> set (map name us)" using Cons.prems(3) by auto
  ultimately have "name v \<notin> fst ` set answers" by (metis set_map)
  then have "dict_set (name v) a answers = answers @ [(name v, a)]"
    unfolding dict_set_def by (induction answers) auto
  then have "answers_fit (us @ [v]) (dict_set (name v) a answers)"
    using Cons.prems(2) resolve_one_ok [OF a(1)]
    by (simp add: answers_fit_def dict_keys_def dict_values_def list_all2_appendI)
  with Cons.IH [OF a(2), of "us @ [v]"] Cons.prems(3) show ?case by simp
qed simp

lemma resolve_defaults:
  assumes "\<forall>v \<in> set vs. \<exists>a. default_value_of v = Inr a"
  shows "\<exists>result. resolve_all vs [] False inputs answers = Inr result"
  using assms
proof (induction vs arbitrary: answers)
  case (Cons v vs)
  then obtain a where "default_value_of v = Inr a" by auto
  then have "resolve_one v [] False inputs = (Inr a, inputs)" by (simp add: resolve_one_def)
  with Cons show ?case by simp
qed simp

text \<open>C11: A contract whose declarations load resolves with nothing supplied and nobody asked; and from
  any supplied answers and any dialogue, what is resolved has one answer per variable, in order,
  each of the declared type.
\<close>

theorem loaded_contract_resolves:
  "case load_variables doc of Inl e \<Rightarrow> True | Inr vs \<Rightarrow>
     (case resolve_answers vs [] False inputs of
        Inl e \<Rightarrow> False | Inr answers \<Rightarrow> answers_fit vs answers)
     \<and> (case resolve_answers vs provided interactive lines of
        Inl e \<Rightarrow> True | Inr answers \<Rightarrow> answers_fit vs answers)"
proof (cases "load_variables doc")
  case (Inr vs)
  note vs = loaded_variables [OF Inr]
  have fit: "answers_fit vs answers" if "resolve_all vs p i l [] = Inr answers" for p i l answers
    using resolve_all_fit [OF that, of "[]"] vs(1)
    by (simp add: answers_fit_def dict_values_def)
  obtain answers where "resolve_all vs [] False inputs [] = Inr answers"
    using resolve_defaults vs(2) by blast
  with Inr fit show ?thesis
    by (simp add: resolve_answers_def Let_def split: sum.split)
qed simp

section \<open>Rendering\<close>

fun json_shape :: "json \<Rightarrow> json" where
  "json_shape (JStr s) = JStr ''''"
| "json_shape (JObj kvs) = JObj (map (\<lambda>(k, v). (k, json_shape v)) kvs)"
| "json_shape (JArr xs) = JArr (map json_shape xs)"
| "json_shape v = v"

lemma finite_placeholders [simp]: "finite (placeholders doc)"
  by (induction doc) auto

lemma tokens_Cons: "placeholder_tokens (c # cs) = (case match_placeholder (c # cs) of
    Some (n, rest) \<Rightarrow> Inr n # placeholder_tokens rest | None \<Rightarrow> Inl c # placeholder_tokens cs)"
  by (subst placeholder_tokens.simps) simp

lemma tokens_Nil [simp]: "placeholder_tokens [] = []"
  by (subst placeholder_tokens.simps) simp

lemma plain_text: "text_placeholders s = [] \<Longrightarrow> placeholder_tokens s = map Inl s"
  by (induction s) (auto simp: text_placeholders_def tokens_Cons List.map_filter_def split: option.splits)

lemma map_result_total:
  assumes "\<forall>x \<in> set xs. \<exists>y. f x = Inr y \<and> P x y"
  shows "\<exists>ys. map_result f xs = Inr ys \<and> list_all2 P xs ys"
  using assms by (induction xs) auto

lemma substitute_text_total:
  assumes "set (text_placeholders s) \<subseteq> set (dict_keys answers)"
  shows "\<exists>t. substitute_text answers s = Inr t"
proof -
  have "\<exists>y. (case t of Inl c \<Rightarrow> Inr [c] | Inr n \<Rightarrow>
      (case dict_get answers n of Some a \<Rightarrow> Inr (json_str a) | None \<Rightarrow> Inl (Key_Error n))) = Inr y \<and> True"
    if "t \<in> set (placeholder_tokens s)" for t
  proof (cases t)
    case (Inr n)
    with that have "n \<in> set (text_placeholders s)"
      by (force simp: text_placeholders_def map_filter_def)
    then obtain a where "dict_get answers n = Some a"
      using assms alist_dict.get_iff_key [of answers n] by auto
    with Inr show ?thesis by simp
  qed simp
  then have "\<forall>t \<in> set (placeholder_tokens s). \<exists>y. (case t of Inl c \<Rightarrow> Inr [c] | Inr n \<Rightarrow>
      (case dict_get answers n of Some a \<Rightarrow> Inr (json_str a) | None \<Rightarrow> Inl (Key_Error n))) = Inr y \<and> True"
    by blast
  from map_result_total [OF this] show ?thesis
    by (auto simp: substitute_text_def)
qed

lemma substitute_shape:
  "placeholders doc \<subseteq> set (dict_keys answers) \<Longrightarrow>
    \<exists>d. substitute_value answers doc = Inr d \<and> json_shape d = json_shape doc"
proof (induction doc)
  case (JStr s)
  then show ?case using substitute_text_total [of s answers] by auto
next
  case (JArr xs)
  have "\<forall>x \<in> set xs. \<exists>y. substitute_value answers x = Inr y \<and> json_shape y = json_shape x"
    using JArr by (auto simp: UN_subset_iff)
  from map_result_total [OF this] show ?case
    by (auto simp: list_all2_conv_all_nth intro!: nth_equalityI)
next
  case (JObj kvs)
  have "\<forall>kv \<in> set kvs. \<exists>kv'. (\<lambda>(k, v). result_bind (substitute_value answers v) (\<lambda>v'. Inr (k, v'))) kv = Inr kv'
      \<and> (\<lambda>(k, v). (k, json_shape v)) kv' = (\<lambda>(k, v). (k, json_shape v)) kv"
  proof
    fix kv assume kv: "kv \<in> set kvs"
    obtain k v where [simp]: "kv = (k, v)" by fastforce
    have "placeholders v \<subseteq> set (dict_keys answers)" using JObj.prems kv by fastforce
    then obtain d where "substitute_value answers v = Inr d \<and> json_shape d = json_shape v"
      using JObj.IH [of kv v] kv by (auto simp: snds.simps)
    then show "\<exists>kv'. (\<lambda>(k, v). result_bind (substitute_value answers v) (\<lambda>v'. Inr (k, v'))) kv = Inr kv'
      \<and> (\<lambda>(k, v). (k, json_shape v)) kv' = (\<lambda>(k, v). (k, json_shape v)) kv" by simp
  qed
  from map_result_total [OF this] show ?case
    by (auto simp: list_all2_conv_all_nth intro!: nth_equalityI)
qed auto

lemma map_result_id: "(\<And>x. x \<in> set xs \<Longrightarrow> f x = Inr x) \<Longrightarrow> map_result f xs = Inr xs"
  using map_result_map [of xs f id id] by simp

lemma substitute_plain: "placeholders doc = {} \<Longrightarrow> substitute_value answers doc = Inr doc"
proof (induction doc)
  case (JStr s)
  then have "placeholder_tokens s = map Inl s" using plain_text by simp
  moreover have "map_result (case_sum (\<lambda>c. Inr [c]) h) (map Inl s) = Inr (map (\<lambda>c. [c]) s)" for h :: "string \<Rightarrow> string py"
    by (induction s) auto
  moreover have "concat (map (\<lambda>c. [c]) s) = s" by (induction s) auto
  ultimately show ?case by (simp add: substitute_text_def)
next
  case (JArr xs)
  then have "map_result (substitute_value answers) xs = Inr xs"
    by (intro map_result_id) auto
  then show ?case by simp
next
  case (JObj kvs)
  have "(\<lambda>(k, v). result_bind (substitute_value answers v) (\<lambda>v'. Inr (k, v'))) kv = Inr kv" if "kv \<in> set kvs" for kv
  proof -
    obtain k v where kv: "kv = (k, v)" by fastforce
    then have "placeholders v = {}" using JObj.prems that by fastforce
    then have "substitute_value answers v = Inr v" using JObj.IH [of kv v] that kv by (auto simp: snds.simps)
    then show ?thesis by (simp add: kv)
  qed
  then have "map_result (\<lambda>(k, v). result_bind (substitute_value answers v) (\<lambda>v'. Inr (k, v'))) kvs = Inr kvs"
    by (intro map_result_id) blast
  then show ?case by simp
qed auto

text \<open>Rendering fails exactly when some placeholder has no answer. Otherwise the document keeps its
  structure, its keys and all its values other than texts, whatever the answers are, and a document
  without placeholders is unchanged.
\<close>

theorem rendering_keeps_structure:
  "case render_document doc answers of
     Inl e \<Rightarrow> \<not> placeholders doc \<subseteq> set (dict_keys answers)
   | Inr d \<Rightarrow> placeholders doc \<subseteq> set (dict_keys answers) \<and> json_shape d = json_shape doc
       \<and> (if placeholders doc = {} then d = doc else True)"
proof (cases "placeholders doc \<subseteq> set (dict_keys answers)")
  case True
  then have "sorted_list_of_set (placeholders doc - set (dict_keys answers)) = []" by (simp add: Diff_eq_empty_iff [THEN iffD2])
  then show ?thesis
    using substitute_shape [OF True] substitute_plain [of doc answers] True
    by (auto simp: render_document_def Let_def)
next
  case False
  then have "sorted_list_of_set (placeholders doc - set (dict_keys answers)) \<noteq> []"
    by (simp add: sorted_list_of_set_eq_Nil_iff)
  with False show ?thesis by (simp add: render_document_def Let_def)
qed

section \<open>Assignments\<close>

lemma split_assignment:
  assumes "CHR ''='' \<notin> set k"
  shows "takeWhile (\<lambda>c. c \<noteq> CHR ''='') (k @ CHR ''='' # v) = k"
    "drop 1 (dropWhile (\<lambda>c. c \<noteq> CHR ''='') (k @ CHR ''='' # v)) = v"
  using assms by (induction k) auto

text \<open>Written assignments parse back, each value with whatever equals signs it holds.\<close>

lemma assignments_roundtrip:
  assumes "wf_dict d" "\<forall>(k, v) \<in> set d. k \<noteq> '''' \<and> CHR ''='' \<notin> set k \<and> py_strip k = k"
  shows "parse_assignments (map (\<lambda>(k, v). k @ ''='' @ v) d) = Inr d"
proof -
  have one: "assignment_name (k @ ''='' @ v) = k" "assignment_value (k @ ''='' @ v) = v" if "(k, v) \<in> set d" for k v
    using that assms(2) by (auto simp: assignment_name_def assignment_value_def split_assignment simp del: drop_Suc_Cons One_nat_def)
  have "map (\<lambda>x. (assignment_name x, assignment_value x)) (map (\<lambda>(k, v). k @ ''='' @ v) d) = d"
    using one by (auto intro!: map_idI)
  moreover have "map assignment_name (map (\<lambda>(k, v). k @ ''='' @ v) d) = map fst d"
    using one by auto
  ultimately have "fold (\<lambda>s. dict_set (assignment_name s) (assignment_value s)) (map (\<lambda>(k, v). k @ ''='' @ v) d) [] = d"
    using fold_dict_set_distinct [of assignment_name "map (\<lambda>(k, v). k @ ''='' @ v) d" assignment_value] assms(1)
    by (simp add: wf_dict_def del: map_map)
  moreover have "filter (\<lambda>s. CHR ''='' \<notin> set s \<or> assignment_name s = '''') (map (\<lambda>(k, v). k @ ''='' @ v) d) = []"
    using one(1) assms(2) by (fastforce simp: filter_empty_conv)
  ultimately show ?thesis by (simp add: parse_assignments_def Let_def)
qed

end
