(* ===== verification/Deprecation_Protocol.thy ===== *)
theory Deprecation_Protocol
  imports Py_Json
begin

text \<open>
  \<open>tools/deprecation_protocol.py\<close>: semantic versions, the registry of feature flags with its audit,
  the migration of tool arguments and the comparison of two tool schemas, the search for branches on
  retired flags, and the reports. The syntax tree is what \<open>ast.parse\<close>, a parameter, gives, reduced
  to the \<open>if\<close> statements with what is read of their tests. The clock is an argument.
\<close>

section \<open>Versions\<close>

type_synonym semver = "nat \<times> nat \<times> nat"

text \<open>A non-empty run of digits at the start of the text, and the rest.\<close>

definition take_number :: "string \<Rightarrow> (nat \<times> string) option" where
  "take_number s = (let d = takeWhile is_digit s in
     if d = [] then None else Some (undigits (rev d), drop (length d) s))"

definition skip_dot :: "string \<Rightarrow> string option" where
  "skip_dot s = (if starts_with s ''.'' then Some (tl s) else None)"

definition match_semver :: "string \<Rightarrow> semver option" where
  "match_semver s =
     Option.bind (take_number s) (\<lambda>(a, s1).
     Option.bind (skip_dot s1) (\<lambda>s2.
     Option.bind (take_number s2) (\<lambda>(b, s3).
     Option.bind (skip_dot s3) (\<lambda>s4.
     Option.bind (take_number s4) (\<lambda>(c, _). Some (a, b, c))))))"

definition parse_semver :: "string \<Rightarrow> semver py" where
  "parse_semver s = (case match_semver (py_strip s) of
     Some v \<Rightarrow> Inr v
   | None \<Rightarrow> Inl (Value_Error (''Invalid semantic version: '' @ quoted s)))"

section \<open>Data\<close>

datatype flag_state = EXPERIMENTAL | STABLE | DEPRECATED | REMOVED

datatype defect_kind = FLAG_EXPIRED | FLAG_MISSING_CONTRACT | SCHEMA_BREAKING_CHANGE
  | SCHEMA_UNALIASED_DEPRECATION | DEAD_FLAG_BRANCH | UNMIGRATED_CLIENT_CALL

definition defect_value :: "defect_kind \<Rightarrow> string" where
  "defect_value k = (case k of
     FLAG_EXPIRED \<Rightarrow> ''FLAG_EXPIRED''
   | FLAG_MISSING_CONTRACT \<Rightarrow> ''FLAG_MISSING_CONTRACT''
   | SCHEMA_BREAKING_CHANGE \<Rightarrow> ''SCHEMA_BREAKING_CHANGE''
   | SCHEMA_UNALIASED_DEPRECATION \<Rightarrow> ''SCHEMA_UNALIASED_DEPRECATION''
   | DEAD_FLAG_BRANCH \<Rightarrow> ''DEAD_FLAG_BRANCH''
   | UNMIGRATED_CLIENT_CALL \<Rightarrow> ''UNMIGRATED_CLIENT_CALL'')"

datatype defect_severity = CRITICAL | HIGH | MEDIUM | LOW

definition severity_value :: "defect_severity \<Rightarrow> string" where
  "severity_value s = (case s of CRITICAL \<Rightarrow> ''critical'' | HIGH \<Rightarrow> ''high'' | MEDIUM \<Rightarrow> ''medium'' | LOW \<Rightarrow> ''low'')"

record feature_flag =
  flag_name :: string
  flag_state :: flag_state
  introduced_in :: string
  expires_in :: string
  owner :: string
  default_value :: bool
  flag_description :: string

record migration_rule =
  rule_tool :: string
  old_param :: string
  new_param :: string
  since_version :: string
  remove_in_version :: string
  transform_type :: string

record tool_schema =
  schema_name :: string
  schema_version :: string
  parameters :: "(string, json) dict"
  required :: "string list"
  migrations :: "migration_rule list"

record protocol_finding =
  defect :: defect_kind
  finding_title :: string
  severity :: defect_severity
  finding_message :: string
  target :: string
  line_number :: nat
  recommendation :: string
  metadata :: "(string, json) dict"

record protocol_summary =
  current_version :: string
  findings :: "protocol_finding list"
  timestamp :: string

section \<open>Feature flags\<close>

definition has_missing_contract :: "feature_flag \<Rightarrow> bool" where
  "has_missing_contract f \<longleftrightarrow> \<not> (owner f \<noteq> '''' \<and> introduced_in f \<noteq> '''' \<and> expires_in f \<noteq> '''')"

definition is_flag_expired :: "feature_flag \<Rightarrow> semver \<Rightarrow> bool py" where
  "is_flag_expired f cur =
     (if flag_state f = REMOVED then Inr False
      else result_bind (parse_semver (expires_in f)) (\<lambda>e. Inr (e \<le> cur)))"

definition missing_contract_finding :: "string \<Rightarrow> protocol_finding" where
  "missing_contract_finding nm =
     \<lparr>defect = FLAG_MISSING_CONTRACT, finding_title = ''Missing Feature Flag Contract'', severity = HIGH,
      finding_message = ''Flag '' @ quoted nm @ '' lacks required owner, introduced_in, or expires_in contract'',
      target = nm, line_number = 1,
      recommendation = ''Define owner, introduced_in, and expires_in versions for every flag'',
      metadata = [(''flag'', JStr nm)]\<rparr>"

definition expired_finding :: "string \<Rightarrow> feature_flag \<Rightarrow> string \<Rightarrow> protocol_finding" where
  "expired_finding nm f version =
     \<lparr>defect = FLAG_EXPIRED, finding_title = ''Expired Feature Flag'', severity = CRITICAL,
      finding_message = ''Flag '' @ quoted nm @ '' expired at version '' @ expires_in f @ '' (current: '' @ version @ '')'',
      target = nm, line_number = 1,
      recommendation = ''Retire feature flag, remove conditional branches, and prune dead code'',
      metadata = [(''flag'', JStr nm), (''expires_in'', JStr (expires_in f))]\<rparr>"

definition audit_single_flag ::
  "string \<Rightarrow> feature_flag \<Rightarrow> semver \<Rightarrow> string \<Rightarrow> protocol_finding option py" where
  "audit_single_flag nm f cur version =
     (if has_missing_contract f then Inr (Some (missing_contract_finding nm))
      else result_bind (is_flag_expired f cur) (\<lambda>expired.
        Inr (if expired then Some (expired_finding nm f version) else None)))"

type_synonym flag_registry = "(string, feature_flag) dict"

definition register_flag :: "feature_flag \<Rightarrow> flag_registry \<Rightarrow> flag_registry" where
  "register_flag f reg = dict_set (flag_name f) f reg"

definition is_enabled :: "flag_registry \<Rightarrow> string \<Rightarrow> (string, bool) dict \<Rightarrow> bool" where
  "is_enabled reg nm overrides = (case dict_get overrides nm of
     Some b \<Rightarrow> b
   | None \<Rightarrow> (case dict_get reg nm of Some f \<Rightarrow> default_value f | None \<Rightarrow> False))"

definition audit_flags :: "flag_registry \<Rightarrow> string \<Rightarrow> protocol_finding list py" where
  "audit_flags reg version =
     result_bind (parse_semver version) (\<lambda>cur.
     result_bind (map_result (\<lambda>(nm, f). audit_single_flag nm f cur version) reg) (\<lambda>fs.
       Inr (List.map_filter id fs)))"

section \<open>Tool schemas\<close>

type_synonym migrator = "(string, tool_schema) dict"

definition migrator_init :: "tool_schema list \<Rightarrow> migrator" where
  "migrator_init schemas = fold (\<lambda>s. dict_set (schema_name s) s) schemas []"

definition register_schema :: "tool_schema \<Rightarrow> migrator \<Rightarrow> migrator" where
  "register_schema s m = dict_set (schema_name s) s m"

definition apply_single_transform :: "json \<Rightarrow> string \<Rightarrow> json" where
  "apply_single_transform v kind =
     (if kind = ''to_list'' \<and> \<not> (case v of JArr _ \<Rightarrow> True | _ \<Rightarrow> False) then JArr [v]
      else if kind = ''to_str'' then JStr (json_str v) else v)"

definition deprecation_warning :: "string \<Rightarrow> migration_rule \<Rightarrow> string" where
  "deprecation_warning tool r =
     ''Parameter '' @ quoted (old_param r) @ '' in tool '' @ quoted tool @ '' is deprecated since v''
     @ since_version r @ '' and will be removed in v'' @ remove_in_version r @ ''. Use ''
     @ quoted (new_param r) @ '' instead.''"

definition migrate_step ::
  "string \<Rightarrow> migration_rule \<Rightarrow> (string, json) dict \<times> string list \<Rightarrow> (string, json) dict \<times> string list" where
  "migrate_step tool r acc = (case dict_get (fst acc) (old_param r) of
     None \<Rightarrow> acc
   | Some v \<Rightarrow>
       (dict_set (new_param r) (apply_single_transform v (transform_type r)) (dict_pop (old_param r) (fst acc)),
        snd acc @ [deprecation_warning tool r]))"

definition adapt_arguments ::
  "migrator \<Rightarrow> string \<Rightarrow> (string, json) dict \<Rightarrow> (string, json) dict \<times> string list" where
  "adapt_arguments m tool args = (case dict_get m tool of
     None \<Rightarrow> (args, [])
   | Some s \<Rightarrow> fold (migrate_step tool) (migrations s) (args, []))"

definition drop_finding :: "tool_schema \<Rightarrow> string \<Rightarrow> protocol_finding" where
  "drop_finding new p =
     \<lparr>defect = SCHEMA_BREAKING_CHANGE, finding_title = ''Breaking Parameter Drop'', severity = CRITICAL,
      finding_message = ''Parameter '' @ quoted p @ '' removed from tool '' @ quoted (schema_name new)
        @ '' without migration rule'',
      target = schema_name new @ ''.'' @ p, line_number = 1,
      recommendation = ''Add a ParameterMigrationRule or maintain parameter alias until major boundary'',
      metadata = [(''tool'', JStr (schema_name new)), (''parameter'', JStr p)]\<rparr>"

definition required_finding :: "tool_schema \<Rightarrow> string \<Rightarrow> protocol_finding" where
  "required_finding new p =
     \<lparr>defect = SCHEMA_BREAKING_CHANGE, finding_title = ''New Required Parameter Added'', severity = HIGH,
      finding_message = ''Required parameter '' @ quoted p @ '' added to tool '' @ quoted (schema_name new)
        @ '' breaking older callers'',
      target = schema_name new @ ''.'' @ p, line_number = 1,
      recommendation = ''Make newly introduced parameters optional or provide backward-compatible default'',
      metadata = [(''tool'', JStr (schema_name new)), (''parameter'', JStr p)]\<rparr>"

definition dropped_params :: "tool_schema \<Rightarrow> tool_schema \<Rightarrow> string list" where
  "dropped_params old new = sort (remdups (filter (\<lambda>p. p \<notin> set (dict_keys (parameters new))
     \<and> p \<notin> old_param ` set (migrations new)) (dict_keys (parameters old))))"

definition added_required :: "tool_schema \<Rightarrow> tool_schema \<Rightarrow> string list" where
  "added_required old new = sort (remdups (filter (\<lambda>p. p \<notin> set (required old)) (required new)))"

definition diff_schemas :: "tool_schema \<Rightarrow> tool_schema \<Rightarrow> protocol_finding list" where
  "diff_schemas old new =
     map (drop_finding new) (dropped_params old new)
     @ map (required_finding new)
         (filter (\<lambda>p. p \<notin> set (dict_keys (parameters old))) (added_required old new))"

section \<open>Branches on retired flags\<close>

text \<open>
  A test: \<open>Call_Test\<close> with the \<open>id\<close> or \<open>attr\<close> of the called expression and the first argument when it
  is a string constant, or anything else. The children of a node are all its child nodes in the
  order of \<open>generic_visit\<close>.
\<close>

datatype test_expr = Call_Test "string option" "string option" | Other_Test

datatype py_node = If_Node test_expr nat "py_node list" | Other_Node "py_node list"

definition extract_flag_name :: "test_expr \<Rightarrow> string option" where
  "extract_flag_name t = (case t of
     Call_Test (Some f) (Some a) \<Rightarrow>
       if f \<in> {''is_enabled'', ''feature_flag'', ''flag_enabled''} then Some a else None
   | _ \<Rightarrow> None)"

definition dead_branch_finding :: "string \<Rightarrow> nat \<Rightarrow> string \<Rightarrow> bool \<Rightarrow> protocol_finding" where
  "dead_branch_finding file line flag value =
     (let dead = (if value then ''else'' else ''then'') in
      \<lparr>defect = DEAD_FLAG_BRANCH, finding_title = ''Dead Code Branch from Retired Flag'', severity = HIGH,
       finding_message = ''Conditional on retired flag '' @ quoted flag @ '' (permanent ''
         @ (if value then ''True'' else ''False'') @ '') creates dead '' @ dead @ ''-branch'',
       target = file, line_number = line,
       recommendation = ''Prune dead '' @ dead @ ''-branch and inline feature conditional'',
       metadata = [(''flag'', JStr flag), (''dead_branch'', JStr dead)]\<rparr>)"

definition visit_if :: "(string, bool) dict \<Rightarrow> string \<Rightarrow> test_expr \<Rightarrow> nat \<Rightarrow> protocol_finding list" where
  "visit_if retired file t line = (case extract_flag_name t of
     None \<Rightarrow> []
   | Some flag \<Rightarrow>
       if flag = '''' then []
       else (case dict_get retired flag of
         None \<Rightarrow> [] | Some b \<Rightarrow> [dead_branch_finding file line flag b]))"

fun visit_node :: "(string, bool) dict \<Rightarrow> string \<Rightarrow> py_node \<Rightarrow> protocol_finding list" where
  "visit_node retired file (If_Node t line children) =
     visit_if retired file t line @ concat (map (visit_node retired file) children)"
| "visit_node retired file (Other_Node children) = concat (map (visit_node retired file) children)"

definition find_dead_flag_branches ::
  "(string \<Rightarrow> py_node option) \<Rightarrow> string \<Rightarrow> (string, bool) dict \<Rightarrow> string \<Rightarrow> protocol_finding list" where
  "find_dead_flag_branches parse code retired file = (case parse code of
     None \<Rightarrow> [] | Some tree \<Rightarrow> visit_node retired file tree)"

section \<open>Reports\<close>

definition sarif_rule :: "protocol_finding \<Rightarrow> json" where
  "sarif_rule f = JObj
     [(''id'', JStr (defect_value (defect f))), (''name'', JStr (finding_title f)),
      (''shortDescription'', JObj [(''text'', JStr (finding_title f))]),
      (''defaultConfiguration'', JObj [(''level'', JStr (severity_value (severity f)))])]"

definition sarif_result :: "protocol_finding \<Rightarrow> json" where
  "sarif_result f = JObj
     [(''ruleId'', JStr (defect_value (defect f))), (''level'', JStr (severity_value (severity f))),
      (''message'', JObj [(''text'', JStr (finding_message f @ '' ('' @ recommendation f @ '')''))]),
      (''locations'', JArr [JObj [(''physicalLocation'', JObj
         [(''artifactLocation'', JObj [(''uri'', JStr (target f))]),
          (''region'', JObj [(''startLine'', JInt (int (line_number f)))])])]])]"

text \<open>\<open>setdefault\<close> keeps the entry of the first finding of a kind.\<close>

definition sarif_rules :: "protocol_finding list \<Rightarrow> (string, json) dict" where
  "sarif_rules fs = fold (\<lambda>f d. case dict_get d (defect_value (defect f)) of
     Some _ \<Rightarrow> d | None \<Rightarrow> dict_set (defect_value (defect f)) (sarif_rule f) d) fs []"

definition export_sarif_json :: "protocol_summary \<Rightarrow> json" where
  "export_sarif_json s = JObj
     [(''$schema'', JStr ''https://json.schemastore.org/sarif-2.1.0.json''), (''version'', JStr ''2.1.0''),
      (''runs'', JArr [JObj
         [(''tool'', JObj [(''driver'', JObj
             [(''name'', JStr ''vibes-deprecation-protocol''),
              (''informationUri'', JStr ''https://github.com/dan-petty/vibes''), (''version'', JStr ''1.0.0''),
              (''rules'', JArr (dict_values (sarif_rules (findings s))))])]),
          (''results'', JArr (map sarif_result (findings s)))]])]"

definition finding_to_json :: "protocol_finding \<Rightarrow> json" where
  "finding_to_json f = JObj
     [(''defect'', JStr (defect_value (defect f))), (''title'', JStr (finding_title f)),
      (''severity'', JStr (severity_value (severity f))), (''message'', JStr (finding_message f)),
      (''target'', JStr (target f)), (''line_number'', JInt (int (line_number f))),
      (''recommendation'', JStr (recommendation f)), (''metadata'', JObj (metadata f))]"

text \<open>The value that \<open>json.dumps\<close> writes.\<close>

definition export_json :: "protocol_summary \<Rightarrow> json" where
  "export_json s = JObj
     [(''timestamp'', JStr (timestamp s)), (''current_version'', JStr (current_version s)),
      (''total_findings'', JInt (int (length (findings s)))),
      (''findings'', JArr (map finding_to_json (findings s)))]"

text \<open>The command: it audits a registry that was just created. The status is 1 when there are findings.\<close>

definition main_summary :: "string \<Rightarrow> string \<Rightarrow> (protocol_summary \<times> nat) py" where
  "main_summary version now = result_bind (audit_flags [] version) (\<lambda>fs.
     Inr (\<lparr>current_version = version, findings = fs, timestamp = now\<rparr>, if fs = [] then 0 else 1))"

end
