(* ===== verification/Deprecation_Props.thy ===== *)
theory Deprecation_Props
  imports Deprecation_Protocol
begin

text \<open>
  The deprecation protocol: which parameter drops the schema comparison reports, which flags the
  audit reports, and that versions parse back.
\<close>

section \<open>Schemas\<close>

lemma migrate_step_keys:
  "set (dict_keys (fst (migrate_step tool r acc))) =
     (if old_param r \<in> set (dict_keys (fst acc))
      then insert (new_param r) (set (dict_keys (fst acc)) - {old_param r})
      else set (dict_keys (fst acc)))"
  using alist_dict.get_iff_key [of "fst acc" "old_param r"]
  by (auto simp: migrate_step_def split: option.splits)

lemma migrated_keys:
  "k \<in> set (dict_keys (fst (fold (migrate_step tool) rs acc))) \<Longrightarrow>
     k \<in> new_param ` set rs \<or> k \<in> set (dict_keys (fst acc)) \<and> k \<notin> old_param ` set rs"
proof (induction rs arbitrary: acc)
  case (Cons r rs)
  from Cons.IH [of "migrate_step tool r acc"] Cons.prems show ?case
    by (auto simp: migrate_step_keys split: if_splits)
qed simp

lemma unmigrated_key_stays:
  "k \<in> set (dict_keys (fst acc)) \<Longrightarrow> k \<notin> old_param ` set rs \<Longrightarrow>
     k \<in> set (dict_keys (fst (fold (migrate_step tool) rs acc)))"
  by (induction rs arbitrary: acc) (auto simp: migrate_step_keys)

definition reports_drop :: "protocol_finding list \<Rightarrow> bool" where
  "reports_drop fs \<longleftrightarrow> list_ex (\<lambda>f. finding_title f = ''Breaking Parameter Drop'') fs"

lemma reports_drop_iff: "reports_drop (diff_schemas old new) \<longleftrightarrow> dropped_params old new \<noteq> []"
  by (cases "dropped_params old new")
    (auto simp: reports_drop_def diff_schemas_def drop_finding_def required_finding_def list_ex_iff)

lemma dropped_params_iff: "dropped_params old new = [] \<longleftrightarrow>
    set (dict_keys (parameters old)) \<subseteq> set (dict_keys (parameters new)) \<union> old_param ` set (migrations new)"
proof -
  have "dropped_params old new = [] \<longleftrightarrow> set (dropped_params old new) = {}" by simp
  also have "set (dropped_params old new) = {p \<in> set (dict_keys (parameters old)).
      p \<notin> set (dict_keys (parameters new)) \<and> p \<notin> old_param ` set (migrations new)}"
    by (auto simp: dropped_params_def)
  finally show ?thesis by auto
qed

text \<open>C26: When the migrations of a schema lead to parameters it has, the comparison reports no dropped
  parameter exactly when every call with parameters of the old schema is adapted to a call that only
  uses parameters of the new one.
\<close>

theorem drop_report_exact:
  assumes "dict_get m tool = Some new"
    and "list_all (\<lambda>r. new_param r \<in> set (dict_keys (parameters new))) (migrations new)"
  shows "\<not> reports_drop (diff_schemas old new) \<longleftrightarrow>
    (\<forall>args. set (dict_keys args) \<subseteq> set (dict_keys (parameters old)) \<longrightarrow>
       set (dict_keys (fst (adapt_arguments m tool args))) \<subseteq> set (dict_keys (parameters new)))"
proof
  assume "\<not> reports_drop (diff_schemas old new)"
  then have kept: "set (dict_keys (parameters old)) \<subseteq>
      set (dict_keys (parameters new)) \<union> old_param ` set (migrations new)"
    by (simp add: reports_drop_iff dropped_params_iff)
  show "\<forall>args. set (dict_keys args) \<subseteq> set (dict_keys (parameters old)) \<longrightarrow>
       set (dict_keys (fst (adapt_arguments m tool args))) \<subseteq> set (dict_keys (parameters new))"
  proof (intro allI impI subsetI)
    fix args :: "(string, json) dict" and k
    assume args: "set (dict_keys args) \<subseteq> set (dict_keys (parameters old))"
      and "k \<in> set (dict_keys (fst (adapt_arguments m tool args)))"
    then have "k \<in> new_param ` set (migrations new)
        \<or> k \<in> set (dict_keys args) \<and> k \<notin> old_param ` set (migrations new)"
      using assms(1) migrated_keys [of k tool "migrations new" "(args, [])"] by (simp add: adapt_arguments_def)
    then show "k \<in> set (dict_keys (parameters new))"
      using assms(2) args kept by (auto simp: list_all_iff)
  qed
next
  assume adapted: "\<forall>args. set (dict_keys args) \<subseteq> set (dict_keys (parameters old)) \<longrightarrow>
       set (dict_keys (fst (adapt_arguments m tool args))) \<subseteq> set (dict_keys (parameters new))"
  have "k \<in> set (dict_keys (parameters new)) \<union> old_param ` set (migrations new)"
    if "k \<in> set (dict_keys (parameters old))" for k
  proof (cases "k \<in> old_param ` set (migrations new)")
    case False
    have "k \<in> set (dict_keys (fst (adapt_arguments m tool [(k, JNull)])))"
      using unmigrated_key_stays [of k "([(k, JNull)], [])" "migrations new" tool] False assms(1)
      by (simp add: adapt_arguments_def dict_keys_def)
    moreover have "set (dict_keys [(k, JNull)]) \<subseteq> set (dict_keys (parameters old))"
      using that by (simp add: dict_keys_def)
    ultimately show ?thesis using adapted by blast
  qed simp
  then show "\<not> reports_drop (diff_schemas old new)"
    by (auto simp: reports_drop_iff dropped_params_iff)
qed

definition demo_schema :: "(string, json) dict \<Rightarrow> string list \<Rightarrow> migration_rule list \<Rightarrow> tool_schema" where
  "demo_schema ps req ms =
     \<lparr>schema_name = ''search'', schema_version = ''1.0.0'', parameters = ps, required = req, migrations = ms\<rparr>"

definition demo_rule :: "string \<Rightarrow> string \<Rightarrow> migration_rule" where
  "demo_rule old new = \<lparr>rule_tool = ''search'', old_param = old, new_param = new,
     since_version = ''1.0.0'', remove_in_version = ''2.0.0'', transform_type = ''identity''\<rparr>"

lemma drop_report_exact_witness:
  "\<not> reports_drop (diff_schemas (demo_schema [(''q'', JNull)] [] [])
       (demo_schema [(''query'', JNull)] [] [demo_rule ''q'' ''query''])) \<longleftrightarrow>
    (\<forall>args. set (dict_keys args) \<subseteq> set (dict_keys (parameters (demo_schema [(''q'', JNull)] [] []))) \<longrightarrow>
       set (dict_keys (fst (adapt_arguments
           [(''search'', demo_schema [(''query'', JNull)] [] [demo_rule ''q'' ''query''])] ''search'' args)))
         \<subseteq> set (dict_keys (parameters (demo_schema [(''query'', JNull)] [] [demo_rule ''q'' ''query'']))))"
  by (rule drop_report_exact) (simp_all add: demo_schema_def demo_rule_def dict_get_Cons dict_keys_def)

text \<open>Two breaking changes that the comparison does not report.\<close>

lemma migration_into_nowhere_unreported:
  "diff_schemas (demo_schema [(''q'', JNull)] [] []) (demo_schema [] [] [demo_rule ''q'' ''query'']) = []"
  by (simp add: diff_schemas_def dropped_params_def added_required_def demo_schema_def demo_rule_def
      dict_keys_def)

lemma optional_made_required_unreported:
  "diff_schemas (demo_schema [(''q'', JNull)] [] []) (demo_schema [(''q'', JNull)] [''q''] []) = []"
  by (simp add: diff_schemas_def dropped_params_def added_required_def demo_schema_def dict_keys_def)

text \<open>A call that gives both names loses the value given under the new one.\<close>

lemma legacy_value_wins:
  "fst (adapt_arguments [(''search'', demo_schema [(''query'', JNull)] [] [demo_rule ''q'' ''query''])] ''search''
     [(''query'', JInt 1), (''q'', JInt 2)]) = [(''query'', JInt 2)]"
  by (simp add: adapt_arguments_def demo_schema_def demo_rule_def dict_get_Cons migrate_step_def
      dict_pop_def dict_set_def apply_single_transform_def)

section \<open>Flags\<close>

text \<open>A flag that can be judged, and one that is due at a version.\<close>

definition flag_readable :: "feature_flag \<Rightarrow> bool" where
  "flag_readable f \<longleftrightarrow> has_missing_contract f \<or> flag_state f = REMOVED \<or> \<not> isl (parse_semver (expires_in f))"

definition flag_due :: "semver \<Rightarrow> feature_flag \<Rightarrow> bool" where
  "flag_due cur f \<longleftrightarrow> has_missing_contract f
     \<or> flag_state f \<noteq> REMOVED \<and> (case parse_semver (expires_in f) of Inr e \<Rightarrow> e \<le> cur | Inl _ \<Rightarrow> False)"

lemma audit_single_cases:
  "audit_single_flag nm f cur version =
     (if \<not> flag_readable f then Inl (projl (parse_semver (expires_in f)))
      else Inr (if has_missing_contract f then Some (missing_contract_finding nm)
                else if flag_due cur f then Some (expired_finding nm f version) else None))"
  by (cases "parse_semver (expires_in f)")
    (auto simp: audit_single_flag_def is_flag_expired_def flag_readable_def flag_due_def)

lemma audit_all_cases:
  "case map_result (\<lambda>(nm, f). audit_single_flag nm f cur version) reg of
     Inl e \<Rightarrow> list_ex (\<lambda>(nm, f). \<not> flag_readable f) reg
   | Inr fs \<Rightarrow> list_all (\<lambda>(nm, f). flag_readable f) reg
       \<and> map target (List.map_filter id fs) = map fst (filter (\<lambda>(nm, f). flag_due cur f) reg)"
proof (induction reg)
  case (Cons nf reg)
  obtain nm f where nf: "nf = (nm, f)" by fastforce
  show ?case
  proof (cases "flag_readable f")
    case True
    with Cons show ?thesis
      by (cases "map_result (\<lambda>(nm, f). audit_single_flag nm f cur version) reg")
        (auto simp: nf audit_single_cases List.map_filter_def missing_contract_finding_def expired_finding_def
          flag_due_def)
  next
    case False
    then show ?thesis by (simp add: nf audit_single_cases)
  qed
qed (simp add: List.map_filter_def)

text \<open>The audit of the flags fails exactly when the current version or the expiry of a flag with a
  contract that is not removed is no version; otherwise it reports, in order, exactly the flags that
  lack a contract or whose expiry the current version has reached.
\<close>

theorem flag_audit_exact:
  "case parse_semver version of
     Inl e \<Rightarrow> audit_flags reg version = Inl e
   | Inr cur \<Rightarrow> (case audit_flags reg version of
       Inl e \<Rightarrow> list_ex (\<lambda>(nm, f). \<not> flag_readable f) reg
     | Inr fs \<Rightarrow> list_all (\<lambda>(nm, f). flag_readable f) reg
         \<and> map target fs = map fst (filter (\<lambda>(nm, f). flag_due cur f) reg))"
proof (cases "parse_semver version")
  case (Inr cur)
  then show ?thesis
    using audit_all_cases [where cur = cur and version = version and reg = reg]
    by (cases "map_result (\<lambda>(nm, f). audit_single_flag nm f cur version) reg") (auto simp: audit_flags_def)
qed (simp add: audit_flags_def)

section \<open>Versions\<close>

lemma take_number_show:
  assumes "rest = [] \<or> \<not> is_digit (hd rest)"
  shows "take_number (show_nat n @ rest) = Some (n, rest)"
proof -
  have "takeWhile is_digit (show_nat n @ rest) = show_nat n"
    using assms show_nat_digits [of _ n] by (cases rest) (auto simp: takeWhile_append)
  moreover have "undigits (rev (show_nat n)) = n" by (simp add: show_nat_def)
  ultimately show ?thesis by (simp add: take_number_def)
qed

lemma strip_digits:
  assumes "is_digit (hd s)" "is_digit (last s)" "s \<noteq> []"
  shows "py_strip s = s"
proof -
  have nospace: "\<not> py_isspace c" if "is_digit c" for c
    using that by (auto simp: is_digit_def py_isspace_def Let_def)
  have "dropWhile py_isspace s = s" using assms nospace by (cases s) auto
  moreover have "dropWhile py_isspace (rev s) = rev s"
    using assms nospace by (cases "rev s") (auto simp: hd_rev [symmetric])
  ultimately show ?thesis by (simp add: py_strip_def py_lstrip_def py_rstrip_def)
qed

text \<open>A version written with its three numbers parses back to them.\<close>

theorem semver_roundtrip:
  "parse_semver (show_nat a @ ''.'' @ show_nat b @ ''.'' @ show_nat c) = Inr (a, b, c)"
proof -
  let ?v = "show_nat a @ ''.'' @ show_nat b @ ''.'' @ show_nat c"
  have "is_digit (hd ?v)" "is_digit (last ?v)"
    using show_nat_digits [of _ a] show_nat_digits [of _ c] show_nat_nonempty
    by (simp_all add: hd_append)
  then have strip: "py_strip ?v = ?v" by (intro strip_digits) simp_all
  have dot: "\<not> is_digit CHR ''.''" by (simp add: is_digit_def)
  have "match_semver ?v = Some (a, b, c)"
    using take_number_show [of "''.'' @ show_nat b @ ''.'' @ show_nat c" a]
      take_number_show [of "''.'' @ show_nat c" b] take_number_show [of "[]" c] dot
    by (simp add: match_semver_def skip_dot_def)
  with strip show ?thesis by (simp add: parse_semver_def)
qed

section \<open>Reports\<close>

text \<open>No level that the export writes is one of SARIF.\<close>

lemma severity_is_no_sarif_level:
  "severity_value s \<notin> {''none'', ''note'', ''warning'', ''error''}"
  by (cases s) (simp_all add: severity_value_def)

text \<open>The command never finds anything: its registry is empty.\<close>

lemma command_audits_nothing:
  "main_summary version now = Inr (s, status) \<Longrightarrow> findings s = [] \<and> status = 0"
  by (auto simp: main_summary_def audit_flags_def result_bind_def List.map_filter_def split: sum.splits)

end
