(* ===== verification/Py_Ipaddress.thy ===== *)
theory Py_Ipaddress
  imports Py_Json "HOL-Library.Word"
begin

text \<open>
  Python's \<open>ipaddress\<close> on texts: the strict parsers of IPv4 and IPv6 addresses, networks and
  membership, with addresses as words of 32 and 128 bits.
\<close>

unbundle bit_operations_syntax

section \<open>Addresses and networks\<close>

text \<open>The scope of an IPv6 address plays no part in comparisons with networks and is dropped.\<close>

datatype ip_address = IPv4 "32 word" | IPv6 "128 word"

datatype ip_network = Net4 "32 word" nat | Net6 "128 word" nat

definition ip_version :: "ip_address \<Rightarrow> nat" where
  "ip_version a = (case a of IPv4 _ \<Rightarrow> 4 | IPv6 _ \<Rightarrow> 6)"

definition net_version :: "ip_network \<Rightarrow> nat" where
  "net_version n = (case n of Net4 _ _ \<Rightarrow> 4 | Net6 _ _ \<Rightarrow> 6)"

text \<open>\<open>address in network\<close>: the address under the mask is the address of the network.\<close>

definition in_net :: "ip_address \<Rightarrow> ip_network \<Rightarrow> bool" where
  "in_net a n = (case (a, n) of
     (IPv4 w, Net4 base p) \<Rightarrow> drop_bit (32 - p) w = drop_bit (32 - p) base
   | (IPv6 w, Net6 base p) \<Rightarrow> drop_bit (128 - p) w = drop_bit (128 - p) base
   | _ \<Rightarrow> False)"

definition is_loopback :: "ip_address \<Rightarrow> bool" where
  "is_loopback a = (case a of IPv4 w \<Rightarrow> drop_bit 24 w = 127 | IPv6 w \<Rightarrow> w = 1)"

definition is_unspecified :: "ip_address \<Rightarrow> bool" where
  "is_unspecified a = (case a of IPv4 w \<Rightarrow> w = 0 | IPv6 w \<Rightarrow> w = 0)"

definition is_link_local :: "ip_address \<Rightarrow> bool" where
  "is_link_local a = (case a of
     IPv4 w \<Rightarrow> drop_bit 16 w = 0xA9FE | IPv6 w \<Rightarrow> drop_bit 118 w = 0x3FA)"

section \<open>Parsing\<close>

definition digit_of :: "char \<Rightarrow> int" where
  "digit_of c = (let n = (of_char c :: int) in
     if 48 \<le> n \<and> n \<le> 57 then n - 48
     else if 97 \<le> n \<and> n \<le> 102 then n - 87
     else if 65 \<le> n \<and> n \<le> 70 then n - 55 else 16)"

text \<open>The value of digits in a base, most significant first.\<close>

definition base_value :: "int \<Rightarrow> string \<Rightarrow> int" where
  "base_value b s = foldl (\<lambda>n c. n * b + digit_of c) 0 s"

definition base_digits :: "int \<Rightarrow> string \<Rightarrow> bool" where
  "base_digits b s \<longleftrightarrow> s \<noteq> [] \<and> list_all (\<lambda>c. digit_of c < b) s"

definition quad_value :: "int list \<Rightarrow> int" where
  "quad_value os = foldl (\<lambda>n d. n * 256 + d) 0 os"

definition strict_octet :: "string \<Rightarrow> int option" where
  "strict_octet s =
     (if base_digits 10 s \<and> length s \<le> 3 \<and> (length s = 1 \<or> hd s \<noteq> CHR ''0'') \<and> base_value 10 s \<le> 255
      then Some (base_value 10 s) else None)"

definition those_list :: "'a option list \<Rightarrow> 'a list option" where
  "those_list xs = (if None \<in> set xs then None else Some (map the xs))"

definition ipv4_value :: "string \<Rightarrow> int option" where
  "ipv4_value s = (let parts = py_split ''.'' s in
     if length parts \<noteq> 4 then None else map_option quad_value (those_list (map strict_octet parts)))"

definition hextet :: "string \<Rightarrow> int option" where
  "hextet s = (if base_digits 16 s \<and> length s \<le> 4 then Some (base_value 16 s) else None)"

definition hextets_value :: "int list \<Rightarrow> int" where
  "hextets_value hs = foldl (\<lambda>n d. n * 65536 + d) 0 hs"

definition hextet_list :: "string list \<Rightarrow> int list option" where
  "hextet_list parts = those_list (map hextet parts)"

text \<open>The parts between colons, with the two hextets of a dotted quad at the end taken off.\<close>

definition quad_tail :: "string list \<Rightarrow> (string list \<times> int list) option" where
  "quad_tail parts =
     (if CHR ''.'' \<in> set (last parts)
      then map_option (\<lambda>v. (butlast parts, [v div 65536, v mod 65536])) (ipv4_value (last parts))
      else Some (parts, []))"

text \<open>
  The hextets before and after the double colon. \<open>parts\<close> are the textual parts, \<open>quad\<close> the hextets of
  a dotted quad that follows them.
\<close>

definition ipv6_hextets :: "string list \<Rightarrow> int list \<Rightarrow> (int list \<times> int list) option" where
  "ipv6_hextets parts quad =
     (let n = length parts + length quad;
          inner = filter (\<lambda>i. i < length parts \<and> parts ! i = '''') [1..<n - 1] in
      if n > 9 then None
      else (case inner of
        [] \<Rightarrow> if n \<noteq> 8 then None
              else map_option (\<lambda>hs. (hs @ quad, [])) (hextet_list parts)
      | [i] \<Rightarrow>
          (let hi = take i parts; lo = drop (Suc i) parts;
               hi' = (if hd parts = '''' then tl hi else hi);
               lo' = (if quad = [] \<and> last parts = '''' then butlast lo else lo) in
           if hd parts = '''' \<and> hi' \<noteq> [] then None
           else if quad = [] \<and> last parts = '''' \<and> lo' \<noteq> [] then None
           else if length hi' + length lo' + length quad > 7 then None
           else (case (hextet_list hi', hextet_list lo') of
             (Some a, Some b) \<Rightarrow> Some (a, b @ quad) | _ \<Rightarrow> None))
      | _ \<Rightarrow> None))"

definition ipv6_value :: "string \<Rightarrow> int option" where
  "ipv6_value s = (let parts = py_split '':'' s in
     if length parts < 3 then None
     else Option.bind (quad_tail parts) (\<lambda>(ps, quad).
       map_option (\<lambda>(hi, lo). hextets_value (hi @ replicate (8 - length hi - length lo) 0 @ lo))
         (ipv6_hextets ps quad)))"

text \<open>The address without its scope; a scope must not be empty or hold a second percent sign.\<close>

definition strip_scope :: "string \<Rightarrow> string option" where
  "strip_scope s = (case py_split ''%'' s of
     [a] \<Rightarrow> Some a
   | [a, z] \<Rightarrow> if z = '''' then None else Some a
   | _ \<Rightarrow> None)"

text \<open>\<open>ipaddress.ip_address(text)\<close>; \<open>None\<close> is its \<open>ValueError\<close>.\<close>

definition ip_address_of :: "string \<Rightarrow> ip_address option" where
  "ip_address_of s =
     (if CHR ''/'' \<in> set s then None
      else (case ipv4_value s of
        Some v \<Rightarrow> Some (IPv4 (word_of_int v))
      | None \<Rightarrow> map_option (\<lambda>v. IPv6 (word_of_int v)) (Option.bind (strip_scope s) ipv6_value)))"

end
