(* ===== verification/Address_Policy.thy ===== *)
theory Address_Policy
  imports Py_Ipaddress
begin

text \<open>
  The policy on private host addresses: \<open>tools/sanitization_policy.py\<close>, the single definition, and
  the copies of it in \<open>examples/ast-invariant-sentinel/sentinel.py\<close>,
  \<open>examples/prompt-mutation-fuzzer/fuzzer.py\<close>, \<open>examples/agentic-ide-hook-sentinel/hook_sentinel.py\<close>,
  \<open>tools/resource_iteration_workbench.py\<close> and \<open>tools/cegis_engine.py\<close>: the networks, the parsing of
  an address the way a resolver does, and the search for addresses in a text.
\<close>

section \<open>Networks\<close>

definition DOCUMENTABLE_NETWORKS :: "ip_network list" where
  "DOCUMENTABLE_NETWORKS =
     [Net4 0x7F000000 8, Net4 0xC0000200 24, Net4 0xC6336400 24, Net4 0xCB007100 24, Net4 0xA9FEA9FE 32,
      Net6 0x20010DB8000000000000000000000000 32, Net6 1 128]"

definition PRIVATE_HOST_NETWORKS :: "ip_network list" where
  "PRIVATE_HOST_NETWORKS =
     [Net4 0x0A000000 8, Net4 0xAC100000 12, Net4 0xC0A80000 16, Net4 0xA9FE0000 16, Net4 0x64400000 10,
      Net6 0xFC000000000000000000000000000000 7, Net6 0xFE800000000000000000000000000000 10]"

text \<open>\<open>any(address in net for net in networks if net.version == address.version)\<close>.\<close>

definition in_networks :: "ip_address \<Rightarrow> ip_network list \<Rightarrow> bool" where
  "in_networks a ns = list_ex (in_net a) (filter (\<lambda>n. net_version n = ip_version a) ns)"

definition is_documentable :: "ip_address \<Rightarrow> bool" where
  "is_documentable a = in_networks a DOCUMENTABLE_NETWORKS"

definition is_private_host :: "ip_address \<Rightarrow> bool" where
  "is_private_host a =
     (if is_documentable a \<or> is_loopback a \<or> is_unspecified a then False
      else in_networks a PRIVATE_HOST_NETWORKS)"

section \<open>Parsing the way a resolver does\<close>

text \<open>
  \<open>int(s, base)\<close>: blanks around, a sign, the prefix of the base with an underscore after it, and
  digits with single underscores between them.
\<close>

definition base_groups :: "int \<Rightarrow> string \<Rightarrow> int option" where
  "base_groups b s = (let gs = py_split ''_'' s in
     if list_all (base_digits b) gs then Some (base_value b (concat gs)) else None)"

definition drop_prefix :: "string \<Rightarrow> string \<Rightarrow> string" where
  "drop_prefix p s =
     (if starts_with s p
      then (if starts_with (drop (length p) s) ''_'' then drop (Suc (length p)) s else drop (length p) s)
      else s)"

definition int_in_base :: "int \<Rightarrow> string \<Rightarrow> string \<Rightarrow> int option" where
  "int_in_base b p s = (case split_sign (number_strip s) of (neg, body) \<Rightarrow>
     map_option (\<lambda>n. if neg then - n else n) (base_groups b (drop_prefix p body)))"

definition octet :: "string \<Rightarrow> int option" where
  "octet part = (let lowered = py_lower part in
     if starts_with lowered ''0x'' then int_in_base 16 ''0x'' lowered
     else if starts_with lowered ''0'' \<and> length lowered > 1 then int_in_base 8 ''0o'' lowered
     else (case int_of_text lowered of Inr n \<Rightarrow> Some n | Inl _ \<Rightarrow> None))"

definition quad_text :: "int list \<Rightarrow> string" where
  "quad_text octets = join_with ''.'' (map show_int octets)"

definition parse_loose_ipv4 :: "string list \<Rightarrow> ip_address option" where
  "parse_loose_ipv4 parts = (case those_list (map octet parts) of
     None \<Rightarrow> None
   | Some octets \<Rightarrow>
       if \<not> list_all (\<lambda>v. 0 \<le> v \<and> v \<le> 255) octets then None
       else map_option (\<lambda>v. IPv4 (word_of_int v)) (ipv4_value (quad_text octets)))"

definition parse_address :: "string \<Rightarrow> ip_address option" where
  "parse_address token = (let parts = py_split ''.'' token in
     if length parts = 4
     then (case parse_loose_ipv4 parts of Some a \<Rightarrow> Some a | None \<Rightarrow> ip_address_of token)
     else ip_address_of token)"

section \<open>Addresses in a text\<close>

text \<open>\<open>\w\<close> on characters below 256: ASCII letters and digits, the underscore, and the letters and numbers above 127.\<close>

definition word_char :: "char \<Rightarrow> bool" where
  "word_char c = (let n = (of_char c :: nat) in
     (48 \<le> n \<and> n \<le> 57) \<or> (65 \<le> n \<and> n \<le> 90) \<or> n = 95 \<or> (97 \<le> n \<and> n \<le> 122)
     \<or> n \<in> {170, 178, 179, 181, 185, 186, 188, 189, 190} \<or> (192 \<le> n \<and> n \<noteq> 215 \<and> n \<noteq> 247))"

text \<open>A match of \<open>IPV4_PATTERN\<close> at the start of the text: \<open>n\<close> more groups with a point after them.\<close>

fun match_groups :: "nat \<Rightarrow> string \<Rightarrow> string option" where
  "match_groups 0 s = (let d = takeWhile is_digit s; rest = drop (length d) s in
     if 1 \<le> length d \<and> length d \<le> 3 \<and> (rest = [] \<or> \<not> word_char (hd rest)) then Some d else None)"
| "match_groups (Suc n) s = (let d = takeWhile is_digit s; rest = drop (length d) s in
     if 1 \<le> length d \<and> length d \<le> 3 \<and> starts_with rest ''.''
     then map_option (\<lambda>m. d @ ''.'' @ m) (match_groups n (tl rest)) else None)"

lemma match_groups_nonempty: "match_groups n s = Some m \<Longrightarrow> m \<noteq> []"
  by (cases n) (auto simp: Let_def split: if_splits)

text \<open>\<open>IPV4_PATTERN.findall\<close>; \<open>prev\<close> is whether the character before is one of a word.\<close>

function find_quads :: "bool \<Rightarrow> string \<Rightarrow> string list" where
  "find_quads prev s = (case s of
     [] \<Rightarrow> []
   | c # cs \<Rightarrow> (case (if prev then None else match_groups 3 s) of
        Some m \<Rightarrow> m # find_quads True (drop (length m) s)
      | None \<Rightarrow> find_quads (word_char c) cs))"
  by pat_completeness auto
termination
  by (relation "measure (length \<circ> snd)") (auto dest: match_groups_nonempty split: if_splits)

declare find_quads.simps [simp del]

definition hex_char :: "char \<Rightarrow> bool" where
  "hex_char c \<longleftrightarrow> digit_of c < 16"

text \<open>The groups of at most four hexadecimal digits with a colon after them, their number and the rest.\<close>

function colon_groups :: "string \<Rightarrow> nat \<times> string \<times> string" where
  "colon_groups s = (let h = takeWhile hex_char s; rest = drop (length h) s in
     if length h \<le> 4 \<and> starts_with rest '':''
     then (case colon_groups (tl rest) of (n, m, r) \<Rightarrow> (Suc n, h @ '':'' @ m, r))
     else (0, '''', s))"
  by pat_completeness auto
termination
proof (relation "measure length", simp)
  fix s h rest :: string
  assume "h = takeWhile hex_char s" "rest = drop (length h) s" "length h \<le> 4 \<and> starts_with rest '':''"
  then have "rest \<noteq> []" "length rest \<le> length s" by (auto simp: starts_with_def)
  then show "(tl rest, s) \<in> measure length" by (cases rest) auto
qed

declare colon_groups.simps [simp del]

text \<open>A match of \<open>IPV6_PATTERN\<close>: the group that took part, and the length of the match.\<close>

definition match_ipv6 :: "string \<Rightarrow> (string \<times> nat) option" where
  "match_ipv6 s =
     (let inside = takeWhile (\<lambda>c. hex_char c \<or> c = CHR '':'') (tl s) in
      if starts_with s ''['' \<and> inside \<noteq> [] \<and> starts_with (drop (length inside) (tl s)) '']''
      then Some (inside, length inside + 2)
      else (case colon_groups s of (n, m, rest) \<Rightarrow>
        if n < 2 then None
        else (let m' = m @ take 4 (takeWhile hex_char rest) in Some (m', length m'))))"

function find_ipv6 :: "string \<Rightarrow> string list" where
  "find_ipv6 s = (case s of
     [] \<Rightarrow> []
   | c # cs \<Rightarrow> (case match_ipv6 s of
        Some (m, n) \<Rightarrow> m # find_ipv6 (drop (max 1 n) s)
      | None \<Rightarrow> find_ipv6 cs))"
  by pat_completeness auto
termination
  by (relation "measure length") auto

declare find_ipv6.simps [simp del]

definition kept :: "string \<Rightarrow> string list" where
  "kept token = (case parse_address token of
     Some a \<Rightarrow> if is_private_host a then [token] else [] | None \<Rightarrow> [])"

definition private_hosts_in :: "string \<Rightarrow> string list" where
  "private_hosts_in s = concat (map kept (find_quads False s)) @ concat (map kept (find_ipv6 s))"

section \<open>The copies\<close>

text \<open>\<open>sentinel.py\<close>.\<close>

definition ALLOWED_DOCUMENTATION_NETWORKS :: "ip_network list" where
  "ALLOWED_DOCUMENTATION_NETWORKS =
     [Net4 0x7F000000 8, Net4 0xC0000200 24, Net4 0xC6336400 24, Net4 0xCB007100 24, Net4 0xA9FEA9FE 32,
      Net6 0x20010DB8000000000000000000000000 32, Net6 1 128]"

definition in_network_list :: "ip_address \<Rightarrow> ip_network list \<Rightarrow> bool" where
  "in_network_list a ns = list_ex (\<lambda>n. net_version n = ip_version a \<and> in_net a n) ns"

definition valid_octets :: "int list \<Rightarrow> bool" where
  "valid_octets os = list_all (\<lambda>v. 0 \<le> v \<and> v \<le> 255) os"

definition parse_dotted_quad :: "string \<Rightarrow> ip_address option" where
  "parse_dotted_quad token = (let parts = py_split ''.'' token in
     if length parts \<noteq> 4 then None
     else (case those_list (map octet parts) of
       None \<Rightarrow> None
     | Some os \<Rightarrow> if \<not> valid_octets os then None
         else map_option (\<lambda>v. IPv4 (word_of_int v)) (ipv4_value (quad_text os))))"

definition sentinel_parse_address :: "string \<Rightarrow> ip_address option" where
  "sentinel_parse_address token = (case parse_dotted_quad token of
     Some a \<Rightarrow> Some a | None \<Rightarrow> ip_address_of token)"

definition is_prohibited_ip :: "string \<Rightarrow> bool" where
  "is_prohibited_ip token = (case sentinel_parse_address token of
     None \<Rightarrow> False
   | Some a \<Rightarrow>
       if is_loopback a \<or> is_unspecified a then False
       else if in_network_list a ALLOWED_DOCUMENTATION_NETWORKS then False
       else in_network_list a PRIVATE_HOST_NETWORKS)"

definition sentinel_leaks_in :: "string \<Rightarrow> string list" where
  "sentinel_leaks_in s = filter is_prohibited_ip (find_quads False s)"

text \<open>\<open>fuzzer.py\<close>: the list of its allowed networks has another order, and octets are counted again.\<close>

definition ALLOWED_TEST_NETWORKS :: "ip_network list" where
  "ALLOWED_TEST_NETWORKS =
     [Net4 0xC0000200 24, Net4 0xC6336400 24, Net4 0xCB007100 24, Net4 0x7F000000 8, Net4 0xA9FEA9FE 32,
      Net6 0x20010DB8000000000000000000000000 32, Net6 1 128]"

definition fuzzer_valid_octets :: "int list \<Rightarrow> bool" where
  "fuzzer_valid_octets os \<longleftrightarrow> length os = 4 \<and> list_all (\<lambda>v. 0 \<le> v \<and> v \<le> 255) os"

definition fuzzer_parse_dotted_quad :: "string \<Rightarrow> ip_address option" where
  "fuzzer_parse_dotted_quad token = (let parts = py_split ''.'' token in
     if length parts \<noteq> 4 then None
     else (case those_list (map octet parts) of
       None \<Rightarrow> None
     | Some os \<Rightarrow> if fuzzer_valid_octets os
         then map_option (\<lambda>v. IPv4 (word_of_int v)) (ipv4_value (quad_text os)) else None))"

definition fuzzer_parse_address :: "string \<Rightarrow> ip_address option" where
  "fuzzer_parse_address token = (case fuzzer_parse_dotted_quad token of
     Some a \<Rightarrow> Some a | None \<Rightarrow> ip_address_of token)"

definition fuzzer_is_private_leak :: "string \<Rightarrow> bool" where
  "fuzzer_is_private_leak s = (case fuzzer_parse_address s of
     None \<Rightarrow> False
   | Some a \<Rightarrow>
       if is_loopback a \<or> is_unspecified a then False
       else if in_network_list a ALLOWED_TEST_NETWORKS then False
       else in_network_list a PRIVATE_HOST_NETWORKS)"

definition fuzzer_leaks_in :: "string \<Rightarrow> string list" where
  "fuzzer_leaks_in s = filter fuzzer_is_private_leak (find_quads False s @ find_ipv6 s)"

text \<open>\<open>hook_sentinel.py\<close>.\<close>

definition parse_quad_octets :: "string list \<Rightarrow> int list option" where
  "parse_quad_octets parts =
     (if length parts \<noteq> 4 then None
      else (case those_list (map octet parts) of
        None \<Rightarrow> None | Some os \<Rightarrow> if valid_octets os then Some os else None))"

definition normalize_ipv4 :: "string \<Rightarrow> ip_address option" where
  "normalize_ipv4 s = (case parse_quad_octets (py_split ''.'' s) of
     None \<Rightarrow> ip_address_of s | Some os \<Rightarrow> ip_address_of (quad_text os))"

definition check_private_ip :: "string \<Rightarrow> bool" where
  "check_private_ip s = (case normalize_ipv4 s of
     None \<Rightarrow> False
   | Some a \<Rightarrow>
       if is_loopback a \<or> is_unspecified a then False
       else if in_networks a ALLOWED_TEST_NETWORKS then False
       else in_networks a PRIVATE_HOST_NETWORKS)"

definition scan_for_forbidden_ips :: "string \<Rightarrow> string list" where
  "scan_for_forbidden_ips s = filter check_private_ip (find_quads False s @ find_ipv6 s)"

text \<open>\<open>resource_iteration_workbench.py\<close> and \<open>cegis_engine.py\<close>.\<close>

definition workbench_is_private_leak :: "string \<Rightarrow> bool" where
  "workbench_is_private_leak s = (case parse_address s of Some a \<Rightarrow> is_private_host a | None \<Rightarrow> False)"

definition cegis_is_private_ip :: "string \<Rightarrow> bool" where
  "cegis_is_private_ip s = (case ip_address_of s of Some a \<Rightarrow> is_private_host a | None \<Rightarrow> False)"

end
