(* ===== verification/Address_Props.thy ===== *)
theory Address_Props
  imports Address_Policy
begin

text \<open>
  The copies of the address policy agree; the private ranges; spellings of octets; what the
  scanners miss.
\<close>

section \<open>Dotted quads\<close>

lemma digit_of_digit: "is_digit c \<Longrightarrow> digit_of c = int (of_char c - 48)"
proof -
  have "(of_char c :: int) = int (of_char c)" by (rule of_nat_of_char [symmetric])
  then show "is_digit c \<Longrightarrow> ?thesis" by (simp add: digit_of_def is_digit_def Let_def of_nat_diff)
qed

lemma digit_below_ten: "is_digit c \<Longrightarrow> digit_of c < 10"
  by (simp add: digit_of_digit is_digit_def)

lemma base_value_undigits: "list_all is_digit (rev s) \<Longrightarrow> base_value 10 (rev s) = int (undigits s)"
  unfolding base_value_def by (induction s) (auto simp: digit_of_digit)

lemma base_value_show_nat: "base_value 10 (show_nat n) = int n"
  unfolding show_nat_def
  by (subst base_value_undigits) (auto simp: list_all_iff digits_rev_digits)

lemma digits_rev_length: "n < 10 ^ Suc k \<Longrightarrow> length (digits_rev n) \<le> Suc k"
proof (induction k arbitrary: n)
  case (Suc k)
  then show ?case by (subst digits_rev.simps) (auto simp: less_mult_imp_div_less mult.commute)
qed (subst digits_rev.simps, simp)

lemma digits_rev_lead: "length (digits_rev n) = 1 \<or> last (digits_rev n) \<noteq> CHR ''0''"
proof (induction n rule: digits_rev.induct)
  case (1 n)
  show ?case
  proof (cases "n < 10")
    case False
    then have "last (digits_rev (n div 10)) \<noteq> CHR ''0''"
      using 1 undigits_digits_rev [of "n div 10"]
      by (cases "digits_rev (n div 10)") auto
    with False show ?thesis by (subst (2) digits_rev.simps) simp
  qed (subst digits_rev.simps, simp)
qed

lemma strict_octet_show:
  assumes "0 \<le> d" "d \<le> 255"
  shows "strict_octet (show_int d) = Some d"
proof -
  have "base_digits 10 (show_nat (nat d))"
    using show_nat_digits [of _ "nat d"]
    by (auto simp: base_digits_def list_all_iff intro: digit_below_ten)
  moreover have "length (show_nat (nat d)) \<le> 3"
    using digits_rev_length [of "nat d" 2] assms by (simp add: show_nat_def)
  moreover have "length (show_nat (nat d)) = 1 \<or> hd (show_nat (nat d)) \<noteq> CHR ''0''"
    using digits_rev_lead [of "nat d"] by (simp add: show_nat_def hd_rev)
  ultimately show ?thesis using assms
    by (simp add: strict_octet_def show_int_def base_value_show_nat)
qed

lemma show_octet_chars: "0 \<le> d \<Longrightarrow> c \<in> set (show_int d) \<Longrightarrow> is_digit c"
  by (auto simp: show_int_def dest: show_nat_digits split: if_splits)

lemma show_octet_no_point: "0 \<le> d \<Longrightarrow> CHR ''.'' \<notin> set (show_int d)"
  using show_octet_chars [of d "CHR ''.''"] by (auto simp: is_digit_def)

lemma show_octet_no_slash: "0 \<le> d \<Longrightarrow> CHR ''/'' \<notin> set (show_int d)"
  using show_octet_chars [of d "CHR ''/''"] by (auto simp: is_digit_def)

lemma those_list_Some_map: "list_all (\<lambda>x. f x = Some (g x)) xs \<Longrightarrow> those_list (map f xs) = Some (map g xs)"
  by (induction xs) (auto simp: those_list_def split: if_splits)

lemma those_list_length: "those_list xs = Some ys \<Longrightarrow> length ys = length xs"
  by (auto simp: those_list_def split: if_splits)

lemma split_quad_text:
  "os \<noteq> [] \<Longrightarrow> list_all (\<lambda>v. 0 \<le> v \<and> v \<le> 255) os \<Longrightarrow> py_split ''.'' (quad_text os) = map show_int os"
  unfolding quad_text_def
  by (rule py_split_join_with) (auto simp: list_all_iff show_octet_no_point)

lemma ipv4_value_quad_text:
  assumes "length os = 4" "list_all (\<lambda>v. 0 \<le> v \<and> v \<le> 255) os"
  shows "ipv4_value (quad_text os) = Some (quad_value os)"
proof -
  have "those_list (map strict_octet (map show_int os)) = Some os"
    using those_list_Some_map [of "strict_octet \<circ> show_int" id os] assms
    by (auto simp: list_all_iff strict_octet_show)
  moreover have "py_split ''.'' (quad_text os) = map show_int os"
    using assms by (intro split_quad_text) auto
  ultimately show ?thesis using assms(1) by (simp add: ipv4_value_def Let_def)
qed

lemma join_with_chars: "c \<in> set (join_with sep ps) \<Longrightarrow> c \<in> set sep \<or> (\<exists>p\<in>set ps. c \<in> set p)"
  by (induction sep ps rule: join_with.induct) auto

lemma ip_address_of_quad_text:
  assumes "length os = 4" "list_all (\<lambda>v. 0 \<le> v \<and> v \<le> 255) os"
  shows "ip_address_of (quad_text os) = Some (IPv4 (word_of_int (quad_value os)))"
proof -
  have "CHR ''/'' \<notin> set (quad_text os)"
    using assms(2) by (auto simp: quad_text_def list_all_iff show_octet_no_slash dest!: join_with_chars)
  then show ?thesis by (simp add: ip_address_of_def ipv4_value_quad_text [OF assms])
qed

section \<open>The policy and its copies\<close>

definition policy_flags :: "string \<Rightarrow> bool" where
  "policy_flags s = (case parse_address s of Some a \<Rightarrow> is_private_host a | None \<Rightarrow> False)"

lemma kept_iff: "kept s = (if policy_flags s then [s] else [])"
  by (simp add: kept_def policy_flags_def split: option.splits)

lemma in_network_list_eq: "in_network_list a ns = in_networks a ns"
  by (induction ns) (auto simp: in_network_list_def in_networks_def)

lemma allowed_lists_agree:
  "in_networks a ALLOWED_DOCUMENTATION_NETWORKS = is_documentable a"
  "in_networks a ALLOWED_TEST_NETWORKS = is_documentable a"
  by (simp_all only: is_documentable_def in_networks_def list_ex_iff set_filter
      ALLOWED_DOCUMENTATION_NETWORKS_def ALLOWED_TEST_NETWORKS_def DOCUMENTABLE_NETWORKS_def
      list.set insert_commute)

lemma sentinel_parse_eq: "sentinel_parse_address s = parse_address s"
  by (auto simp: sentinel_parse_address_def parse_dotted_quad_def parse_address_def
        parse_loose_ipv4_def valid_octets_def Let_def split: option.splits)

lemma fuzzer_parse_eq: "fuzzer_parse_address s = parse_address s"
  by (auto simp: fuzzer_parse_address_def fuzzer_parse_dotted_quad_def parse_address_def
        parse_loose_ipv4_def fuzzer_valid_octets_def Let_def
        dest: those_list_length split: option.splits)

lemma normalize_eq: "normalize_ipv4 s = parse_address s"
proof (cases "parse_quad_octets (py_split ''.'' s)")
  case None
  then show ?thesis
    by (auto simp: normalize_ipv4_def parse_quad_octets_def parse_address_def parse_loose_ipv4_def
          valid_octets_def Let_def split: option.splits if_splits)
next
  case (Some os)
  then have os: "length os = 4" "list_all (\<lambda>v. 0 \<le> v \<and> v \<le> 255) os"
      "length (py_split ''.'' s) = 4" "those_list (map octet (py_split ''.'' s)) = Some os"
    by (auto simp: parse_quad_octets_def valid_octets_def dest: those_list_length
        split: option.splits if_splits)
  then show ?thesis
    by (simp add: normalize_ipv4_def Some parse_address_def parse_loose_ipv4_def
        ip_address_of_quad_text ipv4_value_quad_text)
qed

lemma sentinel_flags: "is_prohibited_ip s = policy_flags s"
  by (auto simp: is_prohibited_ip_def policy_flags_def sentinel_parse_eq is_private_host_def
        in_network_list_eq allowed_lists_agree split: option.splits)

lemma fuzzer_flags: "fuzzer_is_private_leak s = policy_flags s"
  by (auto simp: fuzzer_is_private_leak_def policy_flags_def fuzzer_parse_eq is_private_host_def
        in_network_list_eq allowed_lists_agree split: option.splits)

lemma hook_flags: "check_private_ip s = policy_flags s"
  by (auto simp: check_private_ip_def policy_flags_def normalize_eq is_private_host_def
        allowed_lists_agree split: option.splits)

lemma concat_kept: "concat (map kept xs) = filter policy_flags xs"
  by (induction xs) (auto simp: kept_iff)

section \<open>The private ranges\<close>

definition private_ipv4 :: "int \<Rightarrow> bool" where
  "private_ipv4 n \<longleftrightarrow>
     (10 * 2 ^ 24 \<le> n \<and> n < 11 * 2 ^ 24)
   \<or> ((172 * 256 + 16) * 2 ^ 16 \<le> n \<and> n < (172 * 256 + 32) * 2 ^ 16)
   \<or> ((192 * 256 + 168) * 2 ^ 16 \<le> n \<and> n < (192 * 256 + 169) * 2 ^ 16)
   \<or> ((169 * 256 + 254) * 2 ^ 16 \<le> n \<and> n < (169 * 256 + 255) * 2 ^ 16
       \<and> n \<noteq> ((169 * 256 + 254) * 256 + 169) * 256 + 254)
   \<or> ((100 * 256 + 64) * 2 ^ 16 \<le> n \<and> n < (100 * 256 + 128) * 2 ^ 16)"

definition private_ipv6 :: "int \<Rightarrow> bool" where
  "private_ipv6 n \<longleftrightarrow>
     (0xFC * 2 ^ 120 \<le> n \<and> n < 0xFE * 2 ^ 120) \<or> (0xFE80 * 2 ^ 112 \<le> n \<and> n < 0xFEC0 * 2 ^ 112)"

lemma uint_drop_bit: "uint (drop_bit k w) = uint w div 2 ^ k"
proof -
  have "uint (drop_bit k w) = drop_bit k (uint w)"
    by (simp add: unsigned_drop_bit_eq take_bit_int_eq_self del: drop_bit_eq_div)
  then show ?thesis by (simp only: drop_bit_eq_div)
qed

lemma div_eq_range:
  fixes n m c :: int
  assumes "0 < m"
  shows "n div m = c \<longleftrightarrow> c * m \<le> n \<and> n < c * m + m"
proof
  assume "n div m = c"
  moreover have "n div m * m \<le> n" "n < n div m * m + m"
    using assms pos_mod_sign [of m n] pos_mod_bound [of m n] div_mult_mod_eq [of n m] by linarith+
  ultimately show "c * m \<le> n \<and> n < c * m + m" by simp
next
  assume "c * m \<le> n \<and> n < c * m + m"
  then show "n div m = c"
    by (intro int_div_pos_eq [where r = "n - c * m"]) (auto simp: mult.commute)
qed

lemma drop_bit_range:
  "drop_bit k w = v \<longleftrightarrow> uint v * 2 ^ k \<le> uint w \<and> uint w < uint v * 2 ^ k + 2 ^ k"
  by (simp only: word_uint_eq_iff uint_drop_bit div_eq_range zero_less_power zero_less_numeral)

lemma uint_word_ge_0: "0 \<le> uint w"
  by simp

lemma uint32_less: "uint (w :: 32 word) < 2 ^ 32"
  using uint_bounded [of w] by simp

lemma uint128_less: "uint (w :: 128 word) < 2 ^ 128"
  using uint_bounded [of w] by simp

lemmas network_defs = is_private_host_def is_documentable_def in_networks_def DOCUMENTABLE_NETWORKS_def
  PRIVATE_HOST_NETWORKS_def net_version_def ip_version_def in_net_def is_loopback_def is_unspecified_def

lemma private_host_ipv4: "is_private_host (IPv4 w) = private_ipv4 (uint w)"
  using uint_word_ge_0 [of w]
  by (simp add: network_defs private_ipv4_def drop_bit_range word_uint_eq_iff uint_drop_bit,
      simp only: div_eq_range zero_less_numeral, presburger)

lemma private_host_ipv6: "is_private_host (IPv6 w) = private_ipv6 (uint w)"
  using uint_word_ge_0 [of w]
  by (simp add: network_defs private_ipv6_def drop_bit_range word_uint_eq_iff uint_drop_bit,
      simp only: div_eq_range zero_less_numeral, presburger)

text \<open>The addresses of private hosts are exactly 10.0.0.0/8, 172.16.0.0/12, 192.168.0.0/16,
  169.254.0.0/16 without 169.254.169.254, and 100.64.0.0/10, and over IPv6 fc00::/7 and fe80::/10:
  the documentation networks and the loopback addresses take nothing else away.\<close>

theorem private_host_ranges:
  "is_private_host (IPv4 w) = private_ipv4 (uint w) \<and> is_private_host (IPv6 v) = private_ipv6 (uint v)"
  by (simp add: private_host_ipv4 private_host_ipv6)

section \<open>Spellings of an octet\<close>

fun base_rev :: "nat \<Rightarrow> nat \<Rightarrow> string" where
  "base_rev b n =
     (if n < b \<or> b < 2 then [hex_digit (n mod 16)] else hex_digit (n mod b) # base_rev b (n div b))"

declare base_rev.simps [simp del]

datatype spelling = Decimal | Hexadecimal | Octal

definition spell_octet :: "spelling \<Rightarrow> nat \<Rightarrow> string" where
  "spell_octet sp n = (case sp of
     Decimal \<Rightarrow> show_nat n | Hexadecimal \<Rightarrow> ''0x'' @ rev (base_rev 16 n) | Octal \<Rightarrow> ''0'' @ rev (base_rev 8 n))"

definition plain_char :: "char \<Rightarrow> bool" where
  "plain_char c = (let n = (of_char c :: nat) in (48 \<le> n \<and> n \<le> 57) \<or> (97 \<le> n \<and> n \<le> 102) \<or> n = 120)"

lemma is_digit_plain: "is_digit c \<Longrightarrow> plain_char c"
  by (simp add: is_digit_def plain_char_def)

lemma hex_digit_plain: "d < 16 \<Longrightarrow> plain_char (hex_digit d) \<and> digit_of (hex_digit d) = int d"
proof -
  assume d: "d < 16"
  then have "(of_char (hex_digit d) :: nat) = (if d < 10 then 48 + d else 87 + d)"
    by (simp add: hex_digit_def)
  moreover from this have "(of_char (hex_digit d) :: int) = (if d < 10 then 48 + int d else 87 + int d)"
    by (subst of_nat_of_char [symmetric]) (simp del: of_nat_of_char)
  ultimately show ?thesis
    using d by (simp add: plain_char_def digit_of_def Let_def)
qed

lemma base_value_snoc: "base_value b (s @ [c]) = base_value b s * b + digit_of c"
  by (simp add: base_value_def)

lemma py_lower_plain: "list_all plain_char s \<Longrightarrow> py_lower s = s"
  unfolding py_lower_def
  by (rule map_idI) (auto simp: list_all_iff plain_char_def py_lower_char_def Let_def)

lemma number_blank_plain: "plain_char c \<Longrightarrow> \<not> number_blank s c"
  by (auto simp: plain_char_def number_blank_def py_isspace_def Let_def)

lemma number_strip_plain: "list_all plain_char s \<Longrightarrow> number_strip s = s"
proof -
  assume s: "list_all plain_char s"
  have "dropWhile (number_blank s) s = s"
    using s by (cases s) (auto simp: number_blank_plain)
  moreover have "dropWhile (number_blank s) (rev s) = rev s"
    using s by (cases s rule: rev_cases) (auto simp: number_blank_plain)
  ultimately show ?thesis by (simp add: number_strip_def)
qed

lemma split_sign_plain: "list_all plain_char s \<Longrightarrow> split_sign s = (False, s)"
  by (cases s) (auto simp: split_sign_def plain_char_def starts_with_def)

lemma plain_no_underscore: "list_all plain_char s \<Longrightarrow> CHR ''_'' \<notin> set s"
  by (auto simp: list_all_iff plain_char_def)

lemma plain_no_point: "list_all plain_char s \<Longrightarrow> CHR ''.'' \<notin> set s"
  by (auto simp: list_all_iff plain_char_def)

lemma base_groups_plain:
  "list_all plain_char s \<Longrightarrow> base_groups b s = (if base_digits b s then Some (base_value b s) else None)"
  by (simp add: base_groups_def py_split_char_absent plain_no_underscore)

lemma base_rev_digits:
  assumes "2 \<le> b" "b \<le> 16"
  shows "list_all (\<lambda>c. plain_char c \<and> digit_of c < int b) (base_rev b n) \<and> base_rev b n \<noteq> []
    \<and> base_value (int b) (rev (base_rev b n)) = int n"
  using assms
proof (induction b n rule: base_rev.induct)
  case (1 b n)
  show ?case
  proof (cases "n < b")
    case True
    then show ?thesis using 1(3) hex_digit_plain [of n]
      by (subst (1 2 3) base_rev.simps) (simp add: base_value_def)
  next
    case False
    have m: "n mod b < b" "n mod b < 16"
      using 1(2,3) order_less_le_trans [of "n mod b" b 16] by auto
    have ih: "list_all (\<lambda>c. plain_char c \<and> digit_of c < int b) (base_rev b (n div b))"
        "base_value (int b) (rev (base_rev b (n div b))) = int (n div b)"
      using 1(1) False 1(2,3) by auto
    have "base_rev b n = hex_digit (n mod b) # base_rev b (n div b)"
      using False 1(2) by (subst base_rev.simps) simp
    moreover have "int (n div b) * int b + int (n mod b) = int n"
      by (metis div_mult_mod_eq of_nat_add of_nat_mult)
    ultimately show ?thesis
      using ih m hex_digit_plain [of "n mod b"] by (simp add: base_value_snoc)
  qed
qed

lemma spelled_in_base:
  assumes "2 \<le> b" "b \<le> 16"
  shows "list_all plain_char (rev (base_rev b n))"
    and "base_digits (int b) (rev (base_rev b n))"
    and "base_value (int b) (rev (base_rev b n)) = int n"
  using base_rev_digits [OF assms, of n] by (auto simp: list_all_iff base_digits_def)

lemma show_nat_plain: "list_all plain_char (show_nat n)"
  by (auto simp: list_all_iff intro: is_digit_plain show_nat_digits)

lemma int_of_text_show_nat: "int_of_text (show_nat n) = Inr (int n)"
proof -
  have "py_split ''_'' (show_nat n) = [show_nat n]"
    by (intro py_split_char_absent plain_no_underscore show_nat_plain)
  moreover have "list_all is_digit (show_nat n)"
    by (simp add: list_all_iff show_nat_digits)
  moreover have "undigits (rev (show_nat n)) = n" by (simp add: show_nat_def)
  ultimately show ?thesis
    by (simp add: int_of_text_def number_strip_plain split_sign_plain show_nat_plain digit_groups_def
        digits_value_def plain_digits_def)
qed

lemma octet_decimal: "octet (show_nat n) = Some (int n)"
proof -
  have "\<not> starts_with (show_nat n) ''0x''"
    using show_nat_digits [of "CHR ''x''" n]
    by (cases "show_nat n" rule: remdups_adj.cases) (auto simp: starts_with_def is_digit_def)
  moreover have "length (show_nat n) = 1 \<or> \<not> starts_with (show_nat n) ''0''"
    using digits_rev_lead [of n] by (cases "show_nat n") (auto simp: starts_with_def show_nat_def simp flip: hd_rev)
  ultimately show ?thesis
    by (auto simp: octet_def py_lower_plain show_nat_plain int_of_text_show_nat Let_def)
qed

lemma int_in_base_plain:
  assumes "list_all plain_char s" "list_all plain_char (drop_prefix p s)"
  shows "int_in_base b p s = (let d = drop_prefix p s in if base_digits b d then Some (base_value b d) else None)"
  using assms
  by (simp add: int_in_base_def number_strip_plain split_sign_plain base_groups_plain Let_def)

lemma plain_not_underscore: "list_all plain_char s \<Longrightarrow> \<not> starts_with s ''_''"
  by (cases s) (auto simp: starts_with_def plain_char_def)

lemma octet_hexadecimal: "octet (''0x'' @ rev (base_rev 16 n)) = Some (int n)"
proof -
  let ?d = "rev (base_rev 16 n)"
  have d: "list_all plain_char ?d" "base_digits 16 ?d" "base_value 16 ?d = int n"
    using spelled_in_base [of 16 n] by simp_all
  have pre: "drop_prefix ''0x'' (''0x'' @ ?d) = ?d"
    using plain_not_underscore [OF d(1)] by (simp add: drop_prefix_def starts_with_def)
  have "list_all plain_char (''0x'' @ ?d)" using d(1) by (simp add: plain_char_def)
  then have "int_in_base 16 ''0x'' (''0x'' @ ?d) = Some (int n)"
    "py_lower (''0x'' @ ?d) = ''0x'' @ ?d"
    using d pre by (simp_all only: int_in_base_plain py_lower_plain Let_def if_True)
  moreover have "starts_with (''0x'' @ ?d) ''0x''" by (simp add: starts_with_def)
  ultimately show ?thesis by (simp only: octet_def Let_def if_True)
qed

lemma octet_octal: "octet (''0'' @ rev (base_rev 8 n)) = Some (int n)"
proof -
  let ?d = "rev (base_rev 8 n)"
  have d: "list_all plain_char ?d" "base_digits 8 ?d" "base_value 8 ?d = int n" "?d \<noteq> []"
    using spelled_in_base [of 8 n] by (simp_all add: base_digits_def)
  have hd: "hd ?d \<noteq> CHR ''x''" "hd ?d \<noteq> CHR ''o''"
    using d(2,4) by (cases ?d; auto simp: base_digits_def digit_of_def)+
  have zero: "digit_of CHR ''0'' = 0" by (simp add: digit_of_def)
  have "base_digits 8 (''0'' @ ?d)" using d(2) by (simp add: base_digits_def zero)
  moreover have "base_value 8 (''0'' @ ?d) = int n" using d(3) by (simp add: base_value_def zero)
  moreover have pre: "drop_prefix ''0o'' (''0'' @ ?d) = ''0'' @ ?d"
    using hd d(4) by (cases ?d) (auto simp: drop_prefix_def starts_with_def)
  moreover have plain: "list_all plain_char (''0'' @ ?d)" using d(1) by (simp add: plain_char_def)
  ultimately have "int_in_base 8 ''0o'' (''0'' @ ?d) = Some (int n)"
    by (simp only: int_in_base_plain Let_def if_True)
  moreover have "py_lower (''0'' @ ?d) = ''0'' @ ?d" by (rule py_lower_plain [OF plain])
  moreover have "\<not> starts_with (''0'' @ ?d) ''0x''"
    using hd d(4) by (cases ?d) (auto simp: starts_with_def)
  moreover have "starts_with (''0'' @ ?d) ''0''" "1 < length (''0'' @ ?d)"
    using d(4) by (auto simp: starts_with_def)
  ultimately show ?thesis by (simp only: octet_def Let_def if_True if_False simp_thms)
qed

lemma octet_spelled: "octet (spell_octet sp n) = Some (int n)"
  by (cases sp) (simp_all only: spell_octet_def spelling.case octet_decimal octet_hexadecimal octet_octal)

lemma spelled_no_point: "CHR ''.'' \<notin> set (spell_octet sp n)"
  using plain_no_point [of "show_nat n"] plain_no_point [of "rev (base_rev 16 n)"]
    plain_no_point [of "rev (base_rev 8 n)"] spelled_in_base(1) [of 16 n] spelled_in_base(1) [of 8 n]
  by (cases sp) (auto simp: spell_octet_def show_nat_plain)

text \<open>A dotted quad whose octets are each written in decimal, hexadecimal or octal, in any mixture,
  parses to the address with those octets, the most significant first.\<close>

theorem resolver_spellings_agree:
  "parse_address (join_with ''.'' [spell_octet p (unat (a :: 8 word)), spell_octet q (unat (b :: 8 word)),
      spell_octet r (unat (c :: 8 word)), spell_octet s (unat (d :: 8 word))])
   = Some (IPv4 (word_of_int (quad_value (map uint [a, b, c, d]))))"
proof -
  have octets: "int (unat w) = uint w" "0 \<le> uint w \<and> uint w \<le> 255" for w :: "8 word"
    using uint_bounded [of w] by simp_all
  let ?ps = "[spell_octet p (unat a), spell_octet q (unat b), spell_octet r (unat c), spell_octet s (unat d)]"
  have "py_split ''.'' (join_with ''.'' ?ps) = ?ps"
    by (intro py_split_join_with) (simp_all add: spelled_no_point)
  moreover have "those_list (map octet ?ps) = Some (map uint [a, b, c, d])"
    by (simp add: octet_spelled those_list_def octets)
  moreover have "ipv4_value (quad_text (map uint [a, b, c, d])) = Some (quad_value (map uint [a, b, c, d]))"
    by (rule ipv4_value_quad_text) (simp_all add: octets)
  ultimately show ?thesis
    by (simp add: parse_address_def parse_loose_ipv4_def octets)
qed

section \<open>The strict parser of the library\<close>

lemma char_of_digit: "is_digit c \<Longrightarrow> char_of (48 + (of_char c - 48 :: nat)) = c"
  by (simp add: is_digit_def)

lemma digit_of_ten: "digit_of c < 10 \<longleftrightarrow> is_digit c"
proof
  assume small: "digit_of c < 10"
  have code: "(of_char c :: int) = int (of_char c)" by (rule of_nat_of_char [symmetric])
  show "is_digit c"
    using small by (auto simp: digit_of_def is_digit_def Let_def code split: if_splits)
qed (rule digit_below_ten)

lemma digits_rev_zero: "digits_rev 0 = ''0''"
  by code_simp

lemma digits_rev_undigits:
  "list_all is_digit s \<Longrightarrow> s \<noteq> [] \<Longrightarrow> length s = 1 \<or> last s \<noteq> CHR ''0'' \<Longrightarrow> digits_rev (undigits s) = s"
proof (induction s)
  case (Cons c s)
  have c: "is_digit c" "of_char c - 48 < (10 :: nat)" using Cons.prems(1) by (auto simp: is_digit_def)
  show ?case
  proof (cases "s = []")
    case True
    then show ?thesis using c char_of_digit [OF c(1)] by (subst digits_rev.simps) simp
  next
    case False
    then have s: "digits_rev (undigits s) = s" and lead: "last s \<noteq> CHR ''0''" using Cons by auto
    have "undigits s \<noteq> 0"
    proof
      assume "undigits s = 0"
      then have "s = [CHR ''0'']" using s using digits_rev_zero by simp
      then show False using lead by simp
    qed
    then show ?thesis using c s char_of_digit [OF c(1)] by (subst digits_rev.simps) simp
  qed
qed simp

text \<open>It reads an octet in one spelling only.\<close>

lemma strict_octet_plain:
  assumes "strict_octet p = Some d"
  shows "p = show_int d" "0 \<le> d" "d \<le> 255"
proof -
  have p: "p \<noteq> []" "list_all is_digit p" "length p = 1 \<or> hd p \<noteq> CHR ''0''" "d = base_value 10 p" "d \<le> 255"
    using assms by (auto simp: strict_octet_def base_digits_def digit_of_ten split: if_splits)
  then have d: "d = int (undigits (rev p))"
    using base_value_undigits [of "rev p"] by simp
  have "digits_rev (undigits (rev p)) = rev p"
    using p(1-3) by (intro digits_rev_undigits) (simp_all add: last_rev list_all_rev)
  then show "p = show_int d" by (simp add: d show_int_def show_nat_def)
  show "0 \<le> d" "d \<le> 255" using d p(5) by simp_all
qed

lemma strict_octet_iff: "strict_octet p = Some d \<longleftrightarrow> p = show_int d \<and> 0 \<le> d \<and> d \<le> 255"
  using strict_octet_plain strict_octet_show by blast

lemma octet_show_int: "0 \<le> d \<Longrightarrow> octet (show_int d) = Some d"
  using octet_decimal [of "nat d"] by (simp add: show_int_def)

lemma those_list_Some: "those_list xs = Some ys \<longleftrightarrow> xs = map Some ys"
proof
  assume "those_list xs = Some ys"
  then have "None \<notin> set xs" "ys = map the xs" by (auto simp: those_list_def split: if_splits)
  then show "xs = map Some ys" by (induction xs arbitrary: ys) auto
qed (simp add: those_list_def comp_def image_iff)

lemma ipv4_value_Some: "ipv4_value s = Some v \<longleftrightarrow> (\<exists>os. s = quad_text os \<and> length os = 4
    \<and> list_all (\<lambda>d. 0 \<le> d \<and> d \<le> 255) os \<and> v = quad_value os)"
proof
  assume v: "ipv4_value s = Some v"
  then obtain os where os: "length (py_split ''.'' s) = 4" "map strict_octet (py_split ''.'' s) = map Some os" "v = quad_value os"
    by (auto simp: ipv4_value_def Let_def those_list_Some split: if_splits)
  have len: "length os = 4" using os(1,2) by (metis length_map)
  have "py_split ''.'' s ! i = show_int (os ! i) \<and> 0 \<le> os ! i \<and> os ! i \<le> 255" if "i < length os" for i
  proof -
    have "strict_octet (py_split ''.'' s ! i) = Some (os ! i)"
      using arg_cong [OF os(2), of "\<lambda>l. l ! i"] that len os(1) by simp
    then show ?thesis by (simp add: strict_octet_iff)
  qed
  then have "py_split ''.'' s = map show_int os" "list_all (\<lambda>d. 0 \<le> d \<and> d \<le> 255) os"
    using len os(1) by (auto intro!: nth_equalityI simp: list_all_length)
  moreover from this have "s = quad_text os" by (metis join_py_split quad_text_def)
  ultimately show "\<exists>os. s = quad_text os \<and> length os = 4 \<and> list_all (\<lambda>d. 0 \<le> d \<and> d \<le> 255) os \<and> v = quad_value os"
    using len os(3) by blast
qed (auto simp: ipv4_value_quad_text)

text \<open>A text with a colon is no octet, so a text of IPv6 is read by the strict parser alone.\<close>

lemma py_split_keeps: "c \<in> set s \<Longrightarrow> c \<notin> set sep \<Longrightarrow> \<exists>p\<in>set (py_split sep s). c \<in> set p"
  using join_with_chars [of c sep "py_split sep s"] by simp

lemma join_chars: "p \<in> set ps \<Longrightarrow> c \<in> set p \<Longrightarrow> c \<in> set (join_with sep ps)"
  by (induction sep ps rule: join_with.induct) auto

lemma drop_keeps: "starts_with s p \<Longrightarrow> c \<in> set s \<Longrightarrow> c \<notin> set p \<Longrightarrow> c \<in> set (drop (length p) s)"
  by (auto simp: starts_with_def prefix_def)

lemma drop_prefix_keeps: "c \<in> set s \<Longrightarrow> c \<notin> set p \<Longrightarrow> c \<noteq> CHR ''_'' \<Longrightarrow> c \<in> set (drop_prefix p s)"
  using drop_keeps [of s p c] drop_keeps [of "drop (length p) s" "''_''" c] by (auto simp: drop_prefix_def)

lemma colon_kept_by_strip: "CHR '':'' \<in> set s \<Longrightarrow> CHR '':'' \<in> set (number_strip s)"
proof -
  assume s: "CHR '':'' \<in> set s"
  have blank: "\<not> number_blank t CHR '':''" for t by (simp add: number_blank_def py_isspace_def)
  have "CHR '':'' \<in> set (dropWhile (number_blank t) u)" if "CHR '':'' \<in> set u" for t u
    using that blank [of t] by (induction u) auto
  then show ?thesis using s by (simp add: number_strip_def)
qed

lemma colon_kept_by_sign: "CHR '':'' \<in> set s \<Longrightarrow> CHR '':'' \<in> set (snd (split_sign s))"
  by (cases s) (auto simp: split_sign_def starts_with_def)

lemma octet_colon: "CHR '':'' \<in> set p \<Longrightarrow> octet p = None"
proof -
  assume "CHR '':'' \<in> set p"
  then have low: "CHR '':'' \<in> set (py_lower p)"
    by (auto simp: py_lower_def py_lower_char_def image_iff intro!: bexI [of _ "CHR '':''"])
  define body where "body = snd (split_sign (number_strip (py_lower p)))"
  have body: "CHR '':'' \<in> set body"
    unfolding body_def by (intro colon_kept_by_sign colon_kept_by_strip low)
  have group: "\<not> list_all Q (py_split ''_'' t)" if "CHR '':'' \<in> set t" "\<And>g. CHR '':'' \<in> set g \<Longrightarrow> \<not> Q g" for Q t
    using py_split_keeps [of "CHR '':''" t "''_''"] that by (auto simp: list_all_iff)
  have digits: "\<not> base_digits b g" if "CHR '':'' \<in> set g" "b \<le> 16" for b g
    using that by (auto simp: base_digits_def list_all_iff digit_of_def intro!: bexI [of _ "CHR '':''"])
  have cut: "CHR '':'' \<in> set (drop_prefix q body)" if "q = ''0x'' \<or> q = ''0o''" for q
    using that by (intro drop_prefix_keeps body) auto
  have "int_in_base b q (py_lower p) = None" if "b \<le> 16" "q = ''0x'' \<or> q = ''0o''" for b q
    using group [OF cut [OF that(2)], of "base_digits b"] digits that(1)
    by (simp add: int_in_base_def base_groups_def body_def split_beta)
  moreover have point: "\<not> list_all is_digit g" if "CHR '':'' \<in> set g" for g
    using that by (auto simp: list_all_iff is_digit_def intro!: bexI [of _ "CHR '':''"])
  have "\<not> digit_groups body"
    unfolding digit_groups_def by (rule group [OF body]) (use point in blast)
  then have "\<exists>e. int_of_text (py_lower p) = Inl e" by (simp add: int_of_text_def split_beta body_def)
  ultimately show ?thesis by (auto simp: octet_def Let_def)
qed

lemma ipv6_colon: "Option.bind (strip_scope s) ipv6_value = Some v \<Longrightarrow> CHR '':'' \<in> set s"
proof -
  assume v: "Option.bind (strip_scope s) ipv6_value = Some v"
  then obtain a where a: "strip_scope s = Some a" "ipv6_value a = Some v" by (cases "strip_scope s") auto
  have "CHR '':'' \<in> set a"
  proof (rule ccontr)
    assume "CHR '':'' \<notin> set a"
    then show False using a(2) by (simp add: ipv6_value_def py_split_char_absent)
  qed
  moreover have "a \<in> set (py_split ''%'' s)"
    using a(1) by (auto simp: strip_scope_def split: list.splits if_splits)
  ultimately show ?thesis using join_chars [of a "py_split ''%'' s" "CHR '':''" "''%''"] by simp
qed

lemma strict_address_parses:
  assumes "ip_address_of s = Some a"
  shows "parse_address s = Some a"
proof (cases "ipv4_value s")
  case (Some v)
  then obtain os where os: "s = quad_text os" "length os = 4" "list_all (\<lambda>d. 0 \<le> d \<and> d \<le> 255) os" "v = quad_value os"
    unfolding ipv4_value_Some by blast
  have "py_split ''.'' s = map show_int os" using os by (metis list.size(3) split_quad_text zero_neq_numeral)
  moreover have "those_list (map octet (map show_int os)) = Some os"
    using os(3) by (auto simp: those_list_Some list_all_iff octet_show_int)
  ultimately have "parse_address s = Some (IPv4 (word_of_int v))"
    using os by (simp add: parse_address_def parse_loose_ipv4_def ipv4_value_quad_text)
  then show ?thesis using assms Some by (auto simp: ip_address_of_def split: if_splits)
next
  case None
  then have "Option.bind (strip_scope s) ipv6_value \<noteq> None" using assms by (auto simp: ip_address_of_def split: if_splits)
  then have "CHR '':'' \<in> set s" using ipv6_colon [of s] by blast
  then obtain p where "p \<in> set (py_split ''.'' s)" "octet p = None"
    using py_split_keeps [of "CHR '':''" s "''.''"] octet_colon by auto
  then have "those_list (map octet (py_split ''.'' s)) = None" by (force simp: those_list_def)
  then show ?thesis using assms by (simp add: parse_address_def parse_loose_ipv4_def Let_def)
qed

lemma cegis_flags: "cegis_is_private_ip s \<longleftrightarrow> policy_flags s \<and> ip_address_of s \<noteq> None"
  using strict_address_parses [of s]
  by (cases "ip_address_of s") (auto simp: cegis_is_private_ip_def policy_flags_def)

section \<open>One policy in five places\<close>

text \<open>C15: The copies of the policy in the sentinel, the fuzzer and the hook sentinel decide every text as the
  policy itself, the one in the CEGIS engine decides only the texts that the strict parser of the library reads,
  and every scanner that looks for both families reports the same hosts in the same order.\<close>

theorem policies_agree:
  "is_prohibited_ip s = policy_flags s \<and> fuzzer_is_private_leak s = policy_flags s
   \<and> check_private_ip s = policy_flags s
   \<and> cegis_is_private_ip s = (policy_flags s \<and> ip_address_of s \<noteq> None)
   \<and> fuzzer_leaks_in text = private_hosts_in text
   \<and> scan_for_forbidden_ips text = private_hosts_in text
   \<and> sentinel_leaks_in text = filter policy_flags (find_quads False text)"
  using sentinel_flags fuzzer_flags hook_flags cegis_flags
  by (simp add: policy_flags_def [symmetric] fuzzer_leaks_in_def
      private_hosts_in_def concat_kept scan_for_forbidden_ips_def sentinel_leaks_in_def
      fuzzer_flags [abs_def] hook_flags [abs_def] sentinel_flags [abs_def])

section \<open>What the scanners miss\<close>

lemma short_forms_pass: "parse_address ''10.1'' = None"
  by code_simp

lemma cegis_fails_open: "policy_flags ''012.0.0.1'' \<and> \<not> cegis_is_private_ip ''012.0.0.1''"
  by code_simp

lemma mapped_address_passes: "\<not> policy_flags ''::ffff:a00:1'' \<and> policy_flags ''10.0.0.1''"
  by code_simp

lemma hexadecimal_quad_not_found:
  "private_hosts_in ''http://0x0a.0.0.1/'' = [] \<and> policy_flags ''0x0a.0.0.1''"
  by code_simp

lemma sentinel_blind_to_ipv6: "sentinel_leaks_in ''[fd00::1]'' = [] \<and> private_hosts_in ''[fd00::1]'' = [''fd00::1'']"
  by code_simp

end
