(* ===== verification/Cegis_Engine.thy ===== *)
theory Cegis_Engine
  imports Address_Policy
begin

text \<open>
  \<open>tools/cegis_engine.py\<close>: the invariants checked on a syntax tree, the accumulated negative
  constraints, the verdict on a trajectory of candidates, and the synthesis loop. \<open>ast.parse\<close>,
  \<open>ast.dump\<close>, radon's complexity visitor and SHA-256 are fields of an environment.
\<close>

section \<open>Syntax trees\<close>

record fn_params =
  posonlyargs :: "string list"
  plain_args :: "string list"
  kwonlyargs :: "string list"
  vararg :: "string option"
  kwarg :: "string option"

text \<open>\<open>Compound\<close> stands for the classes of \<open>NESTING_TYPES\<close>.\<close>

datatype node_kind =
    Function_Def string fn_params
  | Assert_Stmt
  | Str_Constant string
  | Compound
  | Other_Node

text \<open>
  A node with the object it comes from, its line, and its children in the order of
  \<open>ast.iter_child_nodes\<close>: those before its \<open>body\<close>, the body, those after it.
\<close>

datatype 'n py_node = Py_Node (origin: 'n) (kind: node_kind) (lineno: int)
  (before: "'n py_node list") (body: "'n py_node list") (after: "'n py_node list")

definition iter_child_nodes :: "'n py_node \<Rightarrow> 'n py_node list" where
  "iter_child_nodes t = before t @ body t @ after t"

record syntax_error =
  err_lineno :: "int option"
  err_msg :: string

text \<open>What radon's visitor reports: the complexities of the functions, of the classes, and the total.\<close>

record 'n environment =
  ast_parse :: "string \<Rightarrow> (syntax_error, 'n py_node) result"
  ast_dump :: "'n \<Rightarrow> string"
  radon :: "'n \<Rightarrow> int list \<times> int list \<times> int"
  sha256 :: "string \<Rightarrow> string"

text \<open>\<open>ast.walk\<close>: breadth first.\<close>

lemma child_size: "c \<in> set (iter_child_nodes t) \<Longrightarrow> size c < size t"
  by (cases t) (auto simp: iter_child_nodes_def dest!: size_list_estimation' [OF _ order_refl, where f = size])

function walk_queue :: "'n py_node list \<Rightarrow> 'n py_node list" where
  "walk_queue [] = []"
| "walk_queue (t # ts) = t # walk_queue (ts @ iter_child_nodes t)"
  by pat_completeness auto
termination
proof (relation "measure (\<lambda>ts. sum_list (map size ts) + length ts)", simp, goal_cases)
  case (1 t ts)
  show ?case
    by (cases t) (simp add: iter_child_nodes_def size_list_conv_sum_list)
qed

definition walk :: "'n py_node \<Rightarrow> 'n py_node list" where
  "walk t = walk_queue [t]"

section \<open>Thresholds and counterexamples\<close>

datatype cegis_preset = STANDARD | STRICT | PEDANTIC

datatype convergence = CONVERGED | CONVERGING | OSCILLATING | DIVERGING | BUDGET_EXHAUSTED | DEGRADED

definition convergence_value :: "convergence \<Rightarrow> string" where
  "convergence_value c = (case c of CONVERGED \<Rightarrow> ''converged'' | CONVERGING \<Rightarrow> ''converging''
     | OSCILLATING \<Rightarrow> ''oscillating'' | DIVERGING \<Rightarrow> ''diverging''
     | BUDGET_EXHAUSTED \<Rightarrow> ''budget_exhausted'' | DEGRADED \<Rightarrow> ''degraded'')"

record thresholds =
  max_complexity :: int
  max_depth :: int
  max_params :: int
  forbid_assertion_sprawl :: bool
  enforce_zero_trust_ips :: bool

definition preset_thresholds :: "cegis_preset \<Rightarrow> thresholds" where
  "preset_thresholds p = (let t = \<lambda>c d n. \<lparr>max_complexity = c, max_depth = d, max_params = n,
       forbid_assertion_sprawl = True, enforce_zero_trust_ips = True\<rparr> in
     case p of STANDARD \<Rightarrow> t 10 5 4 | STRICT \<Rightarrow> t 6 3 4 | PEDANTIC \<Rightarrow> t 4 2 3)"

record counterexample =
  rule_id :: string
  location :: string
  message :: string
  violating_pattern :: string
  counterexample_hash :: string
  line_number :: int

section \<open>Invariants of one function\<close>

definition ast_normalized_hash :: "'n environment \<Rightarrow> string \<Rightarrow> string" where
  "ast_normalized_hash env src = (case ast_parse env src of
     Inr t \<Rightarrow> sha256 env (ast_dump env (origin t)) | Inl _ \<Rightarrow> sha256 env src)"

definition max_default :: "'a::linorder list \<Rightarrow> 'a \<Rightarrow> 'a" where
  "max_default xs d = (if xs = [] then d else Max (set xs))"

definition cyclomatic_complexity :: "'n environment \<Rightarrow> 'n py_node \<Rightarrow> int" where
  "cyclomatic_complexity env t = (case radon env (origin t) of
     (fs, cs, whole) \<Rightarrow> max_default (fs @ cs) whole)"

function nesting_walk :: "'n py_node \<Rightarrow> int \<Rightarrow> int" where
  "nesting_walk t depth = (let deeper = (if kind t = Compound then depth + 1 else depth) in
     max_default (map (\<lambda>c. nesting_walk c deeper) (iter_child_nodes t)) deeper)"
  by pat_completeness auto
termination
  by (relation "measure (size \<circ> fst)") (auto dest: child_size)

declare nesting_walk.simps [simp del]

definition nesting_depth :: "'n py_node \<Rightarrow> int" where
  "nesting_depth t = max_default (map (\<lambda>s. nesting_walk s 1) (body t)) 0"

definition count_parameters :: "fn_params \<Rightarrow> int" where
  "count_parameters p =
     (let pos = int (length (posonlyargs p) + length (plain_args p));
          pos' = (if plain_args p \<noteq> [] \<and> hd (plain_args p) \<in> {''self'', ''cls''} then pos - 1 else pos)
      in pos' + int (length (kwonlyargs p)) + (if vararg p \<noteq> None then 1 else 0)
         + (if kwarg p \<noteq> None then 1 else 0))"

text \<open>The loop over the statements: how many asserts in a row, and the line of the second.\<close>

fun sprawl_from :: "nat \<Rightarrow> int \<Rightarrow> 'n py_node list \<Rightarrow> int option" where
  "sprawl_from n first [] = None"
| "sprawl_from n first (s # ss) =
     (if kind s \<noteq> Assert_Stmt then sprawl_from 0 first ss
      else (let n' = n + 1; first' = (if n' = 2 then lineno s else first) in
        if n' \<ge> 3 then Some first' else sprawl_from n' first' ss))"

definition find_sprawl_line :: "'n py_node \<Rightarrow> int option" where
  "find_sprawl_line f = sprawl_from 0 (lineno f) (body f)"

definition located :: "string \<Rightarrow> int \<Rightarrow> string" where
  "located filename line = filename @ '':'' @ show_int line"

definition assertion_sprawl :: "'n environment \<Rightarrow> string \<Rightarrow> 'n py_node \<Rightarrow> string \<Rightarrow> counterexample list" where
  "assertion_sprawl env name f filename =
     (if \<not> starts_with name ''test_'' then []
      else (case find_sprawl_line f of
        None \<Rightarrow> []
      | Some line \<Rightarrow> (let loc = located filename line in
          [\<lparr>rule_id = ''CEGIS005'', location = loc,
            message = ''Assertion sprawl in '' @ quoted name @ '': 3+ consecutive asserts without tuple consolidation'',
            violating_pattern = ''consecutive_asserts'',
            counterexample_hash = sha256 env (''CEGIS005:'' @ loc @ '':'' @ name),
            line_number = line\<rparr>])))"

text \<open>The three numeric bounds share one shape: a rule, a wording, and a pattern with the number.\<close>

definition bound_violation ::
    "'n environment \<Rightarrow> string \<Rightarrow> (int \<Rightarrow> int \<Rightarrow> string) \<Rightarrow> string \<Rightarrow> string \<Rightarrow> int \<Rightarrow> string \<Rightarrow> int \<Rightarrow> int
     \<Rightarrow> counterexample list" where
  "bound_violation env rule wording pat name line filename n bound =
     (if n > bound
      then (let loc = located filename line in
        [\<lparr>rule_id = rule, location = loc, message = wording n bound @ quoted name,
          violating_pattern = pat @ show_int n,
          counterexample_hash = sha256 env (rule @ '':'' @ loc @ '':'' @ name @ '':'' @ show_int n),
          line_number = line\<rparr>])
      else [])"

definition function_invariants ::
    "'n environment \<Rightarrow> thresholds \<Rightarrow> string \<Rightarrow> 'n py_node \<Rightarrow> string \<Rightarrow> fn_params \<Rightarrow> counterexample list" where
  "function_invariants env th filename f name ps =
     bound_violation env ''CEGIS001''
       (\<lambda>n c. ''Cyclomatic complexity M='' @ show_int n @ '' exceeds ceiling M<='' @ show_int c @ '' in '')
       ''complexity_'' name (lineno f) filename (cyclomatic_complexity env f) (max_complexity th)
     @ bound_violation env ''CEGIS002''
       (\<lambda>n c. ''Nesting depth D='' @ show_int n @ '' exceeds ceiling D<='' @ show_int c @ '' in '')
       ''depth_'' name (lineno f) filename (nesting_depth f) (max_depth th)
     @ bound_violation env ''CEGIS003''
       (\<lambda>n c. ''Parameter count P='' @ show_int n @ '' exceeds ceiling P<='' @ show_int c @ '' in '')
       ''params_'' name (lineno f) filename (count_parameters ps) (max_params th)
     @ (if forbid_assertion_sprawl th then assertion_sprawl env name f filename else [])"

definition inspect_functions ::
    "'n environment \<Rightarrow> 'n py_node \<Rightarrow> thresholds \<Rightarrow> string \<Rightarrow> counterexample list \<times> int \<times> int" where
  "inspect_functions env t th filename =
     fold (\<lambda>node (vs, cc, d). case kind node of
         Function_Def name ps \<Rightarrow>
           (vs @ function_invariants env th filename node name ps,
            max cc (cyclomatic_complexity env node), max d (nesting_depth node))
       | _ \<Rightarrow> (vs, cc, d)) (walk t) ([], 0, 0)"

definition ip_counterexample :: "'n environment \<Rightarrow> string \<Rightarrow> string \<Rightarrow> int \<Rightarrow> counterexample" where
  "ip_counterexample env m filename line = (let loc = located filename line in
     \<lparr>rule_id = ''CEGIS004'', location = loc,
      message = ''Zero-trust violation: private IP address '' @ quoted m @ '' in string literal'',
      violating_pattern = m, counterexample_hash = sha256 env (''CEGIS004:'' @ loc @ '':'' @ m),
      line_number = line\<rparr>)"

definition scan_constant :: "'n environment \<Rightarrow> string \<Rightarrow> 'n py_node \<Rightarrow> counterexample list" where
  "scan_constant env filename node = (case kind node of
     Str_Constant s \<Rightarrow>
       map (\<lambda>m. ip_counterexample env m filename (lineno node)) (filter cegis_is_private_ip (find_quads False s))
   | _ \<Rightarrow> [])"

definition string_constants_ips :: "'n environment \<Rightarrow> 'n py_node \<Rightarrow> string \<Rightarrow> counterexample list" where
  "string_constants_ips env t filename = concat (map (scan_constant env filename) (walk t))"

section \<open>The waiver\<close>

text \<open>
  \<open>WAIVER_PRAGMA_RE\<close> on a stripped line: the rule in the brackets, and the justification after an
  optional dash or colon. The mark before the justification is skipped only if text follows it.
\<close>

definition rule_char :: "char \<Rightarrow> bool" where
  "rule_char c = (let n = (of_char c :: nat) in
     (48 \<le> n \<and> n \<le> 57) \<or> (65 \<le> n \<and> n \<le> 90) \<or> n = 95 \<or> (97 \<le> n \<and> n \<le> 122))"

definition skip_literal :: "string \<Rightarrow> string \<Rightarrow> string option" where
  "skip_literal p s = (if starts_with s p then Some (drop (length p) s) else None)"

definition skip_mark :: "string \<Rightarrow> string" where
  "skip_mark s = (let rest = py_lstrip (tl s) in
     if (starts_with s ''-'' \<or> starts_with s '':'') \<and> rest \<noteq> '''' then rest else s)"

definition waiver_match :: "string \<Rightarrow> (string \<times> string) option" where
  "waiver_match line =
     Option.bind (skip_literal ''#'' line) (\<lambda>a.
     Option.bind (skip_literal ''sentinel:'' (py_lstrip a)) (\<lambda>b.
     Option.bind (skip_literal ''allow['' (py_lstrip b)) (\<lambda>c.
       let rule = takeWhile rule_char c in
       if rule = '''' then None
       else Option.bind (skip_literal '']'' (drop (length rule) c)) (\<lambda>d.
         let reason = skip_mark (py_lstrip d) in
         if reason = '''' then None else Some (rule, reason)))))"

definition MIN_WAIVER_JUSTIFICATION_CHARS :: nat where
  "MIN_WAIVER_JUSTIFICATION_CHARS = 12"

definition line_waives :: "string \<Rightarrow> bool" where
  "line_waives line = (case waiver_match (py_strip line) of
     None \<Rightarrow> False
   | Some (rule, reason) \<Rightarrow>
       rule \<in> {''ZeroTrustSanitization'', ''ZeroTrustEgressViolation'', ''CEGIS004''}
       \<and> length (py_strip reason) \<ge> MIN_WAIVER_JUSTIFICATION_CHARS)"

definition has_sanitization_waiver :: "string \<Rightarrow> bool" where
  "has_sanitization_waiver src = list_ex line_waives (take 15 (py_splitlines src))"

section \<open>The verifier\<close>

definition syntax_error_counterexample :: "'n environment \<Rightarrow> syntax_error \<Rightarrow> string \<Rightarrow> counterexample" where
  "syntax_error_counterexample env e filename =
     (let line = (case err_lineno e of Some n \<Rightarrow> if n = 0 then 1 else n | None \<Rightarrow> 1) in
      \<lparr>rule_id = ''CEGIS001'', location = located filename line,
       message = ''SyntaxError parsing candidate: '' @ err_msg e, violating_pattern = ''syntax_error'',
       counterexample_hash = sha256 env (''SYNTAX_ERR:'' @ show_int line @ '':'' @ err_msg e),
       line_number = line\<rparr>)"

definition verify_source ::
    "'n environment \<Rightarrow> thresholds \<Rightarrow> string \<Rightarrow> string \<Rightarrow> counterexample list \<times> int \<times> int" where
  "verify_source env th src filename = (case ast_parse env src of
     Inl e \<Rightarrow> ([syntax_error_counterexample env e filename], 99, 99)
   | Inr t \<Rightarrow> (case inspect_functions env t th filename of (vs, cc, d) \<Rightarrow>
       (if enforce_zero_trust_ips th \<and> \<not> has_sanitization_waiver src
        then vs @ string_constants_ips env t filename else vs, cc, d)))"

section \<open>Negative constraints\<close>

record negative_constraint =
  constraint_id :: string
  nc_rule_id :: string
  nc_hash :: string
  predicate_description :: string
  introduced_at_step :: nat

type_synonym accumulator = "(string, negative_constraint) dict"

definition new_accumulator :: accumulator where
  "new_accumulator = []"

definition constraints :: "accumulator \<Rightarrow> negative_constraint list" where
  "constraints acc = dict_values acc"

definition constraint_of :: "counterexample \<Rightarrow> nat \<Rightarrow> nat \<Rightarrow> negative_constraint" where
  "constraint_of ce step n =
     \<lparr>constraint_id = ''NC-'' @ pad_left CHR ''0'' 3 (show_nat n), nc_rule_id = rule_id ce,
      nc_hash = counterexample_hash ce,
      predicate_description = ''Forbid '' @ rule_id ce @ '' at '' @ location ce @ '': '' @ message ce,
      introduced_at_step = step\<rparr>"

definition register_counterexample ::
    "counterexample \<Rightarrow> nat \<Rightarrow> accumulator \<Rightarrow> accumulator \<times> negative_constraint" where
  "register_counterexample ce step acc = (case dict_get acc (counterexample_hash ce) of
     Some nc \<Rightarrow> (acc, nc)
   | None \<Rightarrow> (let nc = constraint_of ce step (length acc + 1) in
       (dict_set (counterexample_hash ce) nc acc, nc)))"

definition register_all :: "counterexample list \<Rightarrow> nat \<Rightarrow> accumulator \<Rightarrow> accumulator" where
  "register_all ces step acc = fold (\<lambda>ce a. fst (register_counterexample ce step a)) ces acc"

definition repeat_counterexample ::
    "'n environment \<Rightarrow> counterexample \<Rightarrow> negative_constraint \<Rightarrow> counterexample" where
  "repeat_counterexample env v c =
     \<lparr>rule_id = ''CEGIS008'', location = location v,
      message = ''Negative constraint violation '' @ constraint_id c @ '': repeated '' @ rule_id v
        @ '' at '' @ location v,
      violating_pattern = constraint_id c,
      counterexample_hash = sha256 env (''CEGIS008:'' @ constraint_id c @ '':'' @ counterexample_hash v),
      line_number = line_number v\<rparr>"

definition check_for_repeat_violation ::
    "'n environment \<Rightarrow> accumulator \<Rightarrow> counterexample list \<Rightarrow> counterexample list" where
  "check_for_repeat_violation env acc vs = List.map_filter (\<lambda>v.
     map_option (repeat_counterexample env v) (dict_get acc (counterexample_hash v))) vs"

section \<open>The oracle\<close>

record candidate =
  candidate_id :: string
  source_code :: string
  cand_step :: nat
  cand_hash :: string

record trajectory_step =
  step_index :: nat
  step_candidate :: string
  ast_hash :: string
  passed :: bool
  violations :: "counterexample list"
  active_constraints_count :: nat
  step_complexity :: int
  step_depth :: int

definition cycle_step ::
    "trajectory_step \<Rightarrow> (string, nat) dict \<times> (nat \<times> nat) list \<Rightarrow> (string, nat) dict \<times> (nat \<times> nat) list" where
  "cycle_step s st = (case st of (seen, cycles) \<Rightarrow>
     (case dict_get seen (ast_hash s) of
        Some i \<Rightarrow> (seen, cycles @ [(i, step_index s)])
      | None \<Rightarrow> (dict_set (ast_hash s) (step_index s) seen, cycles)))"

definition detect_cycles :: "trajectory_step list \<Rightarrow> (nat \<times> nat) list" where
  "detect_cycles steps = snd (fold cycle_step steps ([], []))"

definition rules_of :: "trajectory_step \<Rightarrow> string list" where
  "rules_of s = map rule_id (violations s)"

definition step_regressions :: "trajectory_step \<Rightarrow> trajectory_step \<Rightarrow> string list" where
  "step_regressions prev cur =
     (if violations prev = [] then []
      else sorted_list_of_set (set (rules_of cur) - set (rules_of prev)))"

fun detect_latent_regressions :: "trajectory_step list \<Rightarrow> string list" where
  "detect_latent_regressions (a # b # ss) = step_regressions a b @ detect_latent_regressions (b # ss)"
| "detect_latent_regressions _ = []"

definition is_diverging :: "trajectory_step list \<Rightarrow> bool" where
  "is_diverging steps =
     (if length steps < 3 then False
      else (let n = \<lambda>k. length (violations (steps ! (length steps - k))) in n 3 < n 2 \<and> n 2 < n 1))"

definition classify_non_converged ::
    "trajectory_step list \<Rightarrow> int \<Rightarrow> (nat \<times> nat) list \<Rightarrow> string list \<Rightarrow> convergence" where
  "classify_non_converged steps max_iterations cycles regressions =
     (if cycles \<noteq> [] then OSCILLATING
      else if regressions \<noteq> [] \<and> length (violations (last steps)) \<ge> length (violations (hd steps)) then DEGRADED
      else if int (length steps) \<ge> max_iterations then BUDGET_EXHAUSTED
      else if is_diverging steps then DIVERGING
      else CONVERGING)"

definition evaluate ::
    "trajectory_step list \<Rightarrow> int \<Rightarrow> convergence \<times> (nat \<times> nat) list \<times> string list" where
  "evaluate steps max_iterations =
     (if steps = [] then (BUDGET_EXHAUSTED, [], [])
      else (let cycles = detect_cycles steps; regressions = detect_latent_regressions steps in
        (if passed (last steps) then CONVERGED
         else classify_non_converged steps max_iterations cycles regressions, cycles, regressions)))"

section \<open>The engine\<close>

record cegis_result =
  status :: convergence
  total_iterations :: nat
  final_candidate :: "candidate option"
  trajectory :: "trajectory_step list"
  accumulated_constraints :: "negative_constraint list"
  detected_cycles :: "(nat \<times> nat) list"
  latent_regressions :: "string list"
  findings :: "counterexample list"

definition candidate_name :: "nat \<Rightarrow> string" where
  "candidate_name n = ''cand_'' @ show_nat n"

definition audit_single :: "'n environment \<Rightarrow> thresholds \<Rightarrow> string \<Rightarrow> string \<Rightarrow> cegis_result" where
  "audit_single env th src filename =
     (let h = ast_normalized_hash env src in
      case verify_source env th src filename of (vs, cc, d) \<Rightarrow>
      \<lparr>status = (if vs = [] then CONVERGED else CONVERGING), total_iterations = 1,
       final_candidate = Some \<lparr>candidate_id = candidate_name 0, source_code = src, cand_step = 0, cand_hash = h\<rparr>,
       trajectory = [\<lparr>step_index = 0, step_candidate = candidate_name 0, ast_hash = h, passed = (vs = []),
         violations = vs, active_constraints_count = 0, step_complexity = cc, step_depth = d\<rparr>],
       accumulated_constraints = constraints (register_all vs 0 new_accumulator),
       detected_cycles = [], latent_regressions = [], findings = vs\<rparr>)"

text \<open>One round of the loop of \<open>audit_trajectory\<close>: the step recorded, and the accumulator after it.\<close>

definition audit_step ::
    "'n environment \<Rightarrow> thresholds \<Rightarrow> string \<Rightarrow> nat \<Rightarrow> string \<Rightarrow> accumulator \<Rightarrow> trajectory_step \<times> accumulator" where
  "audit_step env th filename idx src acc =
     (case verify_source env th src filename of (vs, cc, d) \<Rightarrow>
        (let effective = vs @ check_for_repeat_violation env acc vs;
             acc' = register_all effective idx acc in
         (\<lparr>step_index = idx, step_candidate = candidate_name idx, ast_hash = ast_normalized_hash env src,
           passed = (effective = []), violations = effective,
           active_constraints_count = length (constraints acc'), step_complexity = cc, step_depth = d\<rparr>, acc')))"

fun audit_steps ::
    "'n environment \<Rightarrow> thresholds \<Rightarrow> string \<Rightarrow> nat \<Rightarrow> string list \<Rightarrow> accumulator \<Rightarrow> trajectory_step list \<times> accumulator" where
  "audit_steps env th filename idx [] acc = ([], acc)"
| "audit_steps env th filename idx (src # srcs) acc =
     (case audit_step env th filename idx src acc of (s, acc') \<Rightarrow>
        (case audit_steps env th filename (Suc idx) srcs acc' of (ss, acc'') \<Rightarrow> (s # ss, acc'')))"

definition last_candidate :: "'n environment \<Rightarrow> string list \<Rightarrow> candidate option" where
  "last_candidate env srcs =
     (if srcs = [] then None
      else Some \<lparr>candidate_id = candidate_name (length srcs - 1), source_code = last srcs,
        cand_step = length srcs - 1, cand_hash = ast_normalized_hash env (last srcs)\<rparr>)"

definition audit_trajectory ::
    "'n environment \<Rightarrow> thresholds \<Rightarrow> string list \<Rightarrow> string \<Rightarrow> int \<Rightarrow> cegis_result" where
  "audit_trajectory env th srcs filename max_iterations =
     (case audit_steps env th filename 0 srcs new_accumulator of (steps, acc) \<Rightarrow>
      case evaluate steps max_iterations of (st, cycles, regressions) \<Rightarrow>
      \<lparr>status = st, total_iterations = length steps, final_candidate = last_candidate env srcs,
       trajectory = steps, accumulated_constraints = constraints acc, detected_cycles = cycles,
       latent_regressions = regressions, findings = concat (map violations steps)\<rparr>)"

type_synonym synthesizer = "string \<Rightarrow> negative_constraint list \<Rightarrow> string"

text \<open>\<open>for _ in range(max_iterations)\<close> of \<open>run_synthesis_loop\<close>; \<open>sources\<close> ends with the current one.\<close>

fun synthesis_rounds ::
    "'n environment \<Rightarrow> thresholds \<Rightarrow> synthesizer \<Rightarrow> string \<Rightarrow> nat \<Rightarrow> string list \<Rightarrow> accumulator \<Rightarrow> string list" where
  "synthesis_rounds env th synth filename 0 sources acc = sources"
| "synthesis_rounds env th synth filename (Suc n) sources acc =
     (case verify_source env th (last sources) filename of (vs, _, _) \<Rightarrow>
        if vs = [] then sources
        else (let acc' = register_all vs (length sources - 1) acc in
          synthesis_rounds env th synth filename n (sources @ [synth (last sources) (constraints acc')]) acc'))"

definition run_synthesis_loop ::
    "'n environment \<Rightarrow> thresholds \<Rightarrow> string \<Rightarrow> synthesizer \<Rightarrow> int \<Rightarrow> string \<Rightarrow> cegis_result" where
  "run_synthesis_loop env th initial synth max_iterations filename =
     audit_trajectory env th
       (synthesis_rounds env th synth filename (nat max_iterations) [initial] new_accumulator)
       filename max_iterations"

section \<open>Reports\<close>

definition sarif_rule_def :: "string \<Rightarrow> string \<Rightarrow> string \<Rightarrow> string \<Rightarrow> json" where
  "sarif_rule_def rid nm txt lvl = JObj
     [(''id'', JStr rid), (''name'', JStr nm), (''shortDescription'', JObj [(''text'', JStr txt)]),
      (''defaultConfiguration'', JObj [(''level'', JStr lvl)]),
      (''helpUri'', JStr ''https://github.com/dan-petty/vibes'')]"

definition sarif_levels :: "(string \<times> string \<times> string \<times> string) list" where
  "sarif_levels =
     [(''CEGIS001'', ''InvariantComplexityExceeded'',
         ''Function McCabe cyclomatic complexity exceeds configured ceiling.'', ''error''),
      (''CEGIS002'', ''ExcessiveNestingDepth'',
         ''Function statement nesting depth exceeds allowable threshold.'', ''error''),
      (''CEGIS003'', ''ParameterCardinalityExceeded'',
         ''Function parameter count exceeds maximum allowable arguments.'', ''warning''),
      (''CEGIS004'', ''ZeroTrustEgressViolation'',
         ''Private RFC 1918 or RFC 4193 IP address detected in source code.'', ''error''),
      (''CEGIS005'', ''AssertionSprawlDetected'',
         ''Linear consecutive assert statements detected without structural tuple consolidation.'', ''warning''),
      (''CEGIS006'', ''RepairCycleOscillationDetected'',
         ''Iterative synthesis entered a non-convergent oscillatory cycle between candidate states.'', ''error''),
      (''CEGIS007'', ''LatentInvariantRegression'',
         ''Synthesis repair introduced a regression on a previously satisfied invariant property.'', ''error''),
      (''CEGIS008'', ''NegativeConstraintViolation'',
         ''Candidate program reproduced a previously registered negative counterexample pattern.'', ''error'')]"

definition sarif_level :: "string \<Rightarrow> string" where
  "sarif_level rid = (case map_of sarif_levels rid of Some (_, _, lvl) \<Rightarrow> lvl | None \<Rightarrow> ''error'')"

text \<open>\<open>str.isdigit\<close> below 256 also holds of three superscripts, which \<open>int\<close> refuses.\<close>

definition py_isdigit :: "string \<Rightarrow> bool" where
  "py_isdigit s \<longleftrightarrow> s \<noteq> '''' \<and> list_all (\<lambda>c. is_digit c \<or> (of_char c :: nat) \<in> {178, 179, 185}) s"

definition sarif_line :: "counterexample \<Rightarrow> int py" where
  "sarif_line f = (let parts = py_split '':'' (location f) in
     if length parts > 1 \<and> py_isdigit (parts ! 1) then int_of_text (parts ! 1) else Inr (line_number f))"

definition cegis_sarif_result :: "counterexample \<Rightarrow> json py" where
  "cegis_sarif_result f = result_bind (sarif_line f) (\<lambda>line. Inr (JObj
     [(''ruleId'', JStr (rule_id f)), (''level'', JStr (sarif_level (rule_id f))),
      (''message'', JObj [(''text'', JStr (message f))]),
      (''locations'', JArr [JObj [(''physicalLocation'', JObj
        [(''artifactLocation'', JObj [(''uri'', JStr (hd (py_split '':'' (location f))))]),
         (''region'', JObj [(''startLine'', JInt (max 1 line))])])]]),
      (''properties'', JObj
        [(''violatingPattern'', JStr (violating_pattern f)),
         (''counterexampleHash'', JStr (counterexample_hash f))])]))"

definition export_sarif :: "cegis_result \<Rightarrow> json py" where
  "export_sarif r = result_bind (map_result cegis_sarif_result (findings r)) (\<lambda>rs. Inr (JObj
     [(''$schema'', JStr ''https://json.schemastore.org/sarif-2.1.0.json''), (''version'', JStr ''2.1.0''),
      (''runs'', JArr [JObj
        [(''tool'', JObj [(''driver'', JObj
           [(''name'', JStr ''vibes-cegis-engine''),
            (''informationUri'', JStr ''https://github.com/dan-petty/vibes''),
            (''version'', JStr ''v1.0.0''),
            (''rules'', JArr (map (\<lambda>(rid, nm, txt, lvl). sarif_rule_def rid nm txt lvl) sarif_levels))])]),
         (''results'', JArr rs)]])]))"

definition step_json :: "trajectory_step \<Rightarrow> json" where
  "step_json s = JObj
     [(''step_index'', JInt (int (step_index s))), (''candidate_id'', JStr (step_candidate s)),
      (''passed'', JBool (passed s)), (''violations_count'', JInt (int (length (violations s)))),
      (''max_complexity'', JInt (step_complexity s)), (''max_depth'', JInt (step_depth s))]"

definition finding_json :: "counterexample \<Rightarrow> json" where
  "finding_json f = JObj
     [(''rule_id'', JStr (rule_id f)), (''location'', JStr (location f)), (''message'', JStr (message f)),
      (''line_number'', JInt (line_number f)), (''pattern'', JStr (violating_pattern f))]"

definition export_json :: "cegis_result \<Rightarrow> json" where
  "export_json r = JObj
     [(''engine_version'', JStr ''v1.0.0''), (''status'', JStr (convergence_value (status r))),
      (''total_iterations'', JInt (int (total_iterations r))),
      (''detected_cycles'', JArr (map (\<lambda>(i, j). JArr [JInt (int i), JInt (int j)]) (detected_cycles r))),
      (''latent_regressions'', JArr (map JStr (latent_regressions r))),
      (''accumulated_constraints_count'', JInt (int (length (accumulated_constraints r)))),
      (''trajectory'', JArr (map step_json (trajectory r))),
      (''findings'', JArr (map finding_json (findings r)))]"

text \<open>The exit code of the command on a file that exists.\<close>

definition main_exit :: "'n environment \<Rightarrow> cegis_preset \<Rightarrow> string \<Rightarrow> string \<Rightarrow> int" where
  "main_exit env preset src target =
     (if status (audit_single env (preset_thresholds preset) src target) = CONVERGED then 0 else 1)"

end
