(* ===== verification/Address_Scan.thy ===== *)
theory Address_Scan
  imports Address_Props
begin

text \<open>
  What the search for dotted quads finds: the quads between characters that are no part of a word, from left to
  right, less those that overlap an earlier one. Which private addresses a scan of a text reports follows.
\<close>

section \<open>Dotted quads of a text\<close>

definition digit_group :: "string \<Rightarrow> bool" where
  "digit_group p \<longleftrightarrow> p \<noteq> '''' \<and> length p \<le> 3 \<and> list_all is_digit p"

definition quad_shape :: "string \<Rightarrow> bool" where
  "quad_shape m \<longleftrightarrow> (\<exists>ps. length ps = 4 \<and> list_all digit_group ps \<and> m = join_with ''.'' ps)"

definition part :: "string \<Rightarrow> nat \<Rightarrow> nat \<Rightarrow> string" where
  "part t i j = take (j - i) (drop i t)"

text \<open>A quad from \<open>i\<close> to \<open>j\<close> that no character of a word touches.\<close>

definition quad_at :: "string \<Rightarrow> nat \<Rightarrow> nat \<Rightarrow> bool" where
  "quad_at t i j \<longleftrightarrow> i < j \<and> j \<le> length t \<and> quad_shape (part t i j)
     \<and> (i = 0 \<or> \<not> word_char (t ! (i - 1))) \<and> (j = length t \<or> \<not> word_char (t ! j))"

text \<open>The quads from left to right, each of which hides those that it overlaps.\<close>

fun found :: "string \<Rightarrow> nat \<Rightarrow> nat \<Rightarrow> bool" where
  "found t i j \<longleftrightarrow> quad_at t i j \<and> \<not> (\<exists>i'\<in>{..<i}. \<exists>j'\<in>{i<..length t}. found t i' j')"

declare found.simps [simp del]

lemma found_quad: "found t i j \<Longrightarrow> quad_at t i j"
  by (subst (asm) found.simps) simp

lemma found_iff: "found t i j \<longleftrightarrow> quad_at t i j \<and> \<not> (\<exists>i' j'. i' < i \<and> i < j' \<and> found t i' j')"
proof -
  have inside: "j' \<le> length t" if "found t i' j'" for i' j' using found_quad [OF that] by (simp add: quad_at_def)
  have "(\<exists>i'\<in>{..<i}. \<exists>j'\<in>{i<..length t}. found t i' j') \<longleftrightarrow> (\<exists>i' j'. i' < i \<and> i < j' \<and> found t i' j')"
    by (metis greaterThanAtMost_iff lessThan_iff inside)
  then show ?thesis by (subst found.simps) simp
qed

section \<open>The search\<close>

lemma digit_word: "is_digit c \<Longrightarrow> word_char c"
  by (simp add: is_digit_def word_char_def Let_def)

lemma point_no_word [simp]: "\<not> word_char CHR ''.''"
  by (simp add: word_char_def)

lemma take_digits: "list_all is_digit d \<Longrightarrow> r = [] \<or> \<not> is_digit (hd r) \<Longrightarrow> takeWhile is_digit (d @ r) = d"
  by (cases r) (auto simp: list_all_iff takeWhile_eq_all_conv)

lemma match_groups_iff:
  "match_groups n s = Some m \<longleftrightarrow> (\<exists>ps r. length ps = Suc n \<and> list_all digit_group ps \<and> m = join_with ''.'' ps
     \<and> s = m @ r \<and> (r = [] \<or> \<not> word_char (hd r)))"
proof (induction n arbitrary: s m)
  case 0
  let ?d = "takeWhile is_digit s"
  have rest: "s = ?d @ drop (length ?d) s"
    by (metis append_take_drop_id takeWhile_eq_take)
  show ?case
  proof
    assume "match_groups 0 s = Some m"
    then have "m = ?d" "digit_group ?d" "drop (length ?d) s = [] \<or> \<not> word_char (hd (drop (length ?d) s))"
      by (auto simp: Let_def digit_group_def list_all_iff dest: set_takeWhileD split: if_splits)
    then show "\<exists>ps r. length ps = Suc 0 \<and> list_all digit_group ps \<and> m = join_with ''.'' ps
        \<and> s = m @ r \<and> (r = [] \<or> \<not> word_char (hd r))"
      using rest by (intro exI [of _ "[?d]"] exI [of _ "drop (length ?d) s"]) simp
  next
    assume "\<exists>ps r. length ps = Suc 0 \<and> list_all digit_group ps \<and> m = join_with ''.'' ps
        \<and> s = m @ r \<and> (r = [] \<or> \<not> word_char (hd r))"
    then obtain r where r: "digit_group m" "s = m @ r" "r = [] \<or> \<not> word_char (hd r)"
      by (auto simp: length_Suc_conv)
    then have "takeWhile is_digit s = m" unfolding r(2) by (intro take_digits) (auto simp: digit_group_def dest: digit_word)
    then show "match_groups 0 s = Some m" using r by (cases m) (auto simp: digit_group_def Let_def)
  qed
next
  case (Suc n)
  let ?d = "takeWhile is_digit s"
  have rest: "s = ?d @ drop (length ?d) s"
    by (metis append_take_drop_id takeWhile_eq_take)
  show ?case
  proof
    assume "match_groups (Suc n) s = Some m"
    then obtain g where g: "match_groups n (tl (drop (length ?d) s)) = Some g" "m = ?d @ ''.'' @ g"
      "starts_with (drop (length ?d) s) ''.''" "1 \<le> length ?d" "length ?d \<le> 3"
      by (auto simp: Let_def split: if_splits)
    then obtain ps r where ps: "length ps = Suc n" "list_all digit_group ps" "g = join_with ''.'' ps"
      "tl (drop (length ?d) s) = g @ r" "r = [] \<or> \<not> word_char (hd r)"
      using Suc.IH by blast
    have group: "digit_group ?d" using g(4,5) by (auto simp: digit_group_def list_all_iff dest: set_takeWhileD)
    have after: "drop (length ?d) s = CHR ''.'' # g @ r"
      using g(3) ps(4) by (cases "drop (length ?d) s") (auto simp: starts_with_def)
    have s: "s = m @ r" unfolding g(2) using rest after by (metis append_Cons append_Nil append_assoc)
    have ne: "ps \<noteq> []" using ps(1) by auto
    show "\<exists>ps r. length ps = Suc (Suc n) \<and> list_all digit_group ps \<and> m = join_with ''.'' ps
        \<and> s = m @ r \<and> (r = [] \<or> \<not> word_char (hd r))"
    proof (intro exI conjI)
      show "length (?d # ps) = Suc (Suc n)" using ps(1) by simp
      show "list_all digit_group (?d # ps)" using group ps(2) by simp
      show "m = join_with ''.'' (?d # ps)" unfolding join_with_Cons [OF ne] ps(3) [symmetric] by (rule g(2))
    qed (fact s ps(5))+
  next
    assume "\<exists>ps r. length ps = Suc (Suc n) \<and> list_all digit_group ps \<and> m = join_with ''.'' ps
        \<and> s = m @ r \<and> (r = [] \<or> \<not> word_char (hd r))"
    then obtain qs r where q: "length qs = Suc (Suc n)" "list_all digit_group qs" "m = join_with ''.'' qs"
      "s = m @ r" "r = [] \<or> \<not> word_char (hd r)"
      by blast
    then obtain p ps where "qs = p # ps" by (cases qs) auto
    with q have p: "length ps = Suc n" "digit_group p" "list_all digit_group ps" "m = join_with ''.'' (p # ps)"
      "s = m @ r" "r = [] \<or> \<not> word_char (hd r)"
      by simp_all
    have ne: "ps \<noteq> []" using p(1) by auto
    let ?g = "join_with ''.'' ps"
    have m: "m = p @ ''.'' @ ?g" using p(4) ne by (simp add: join_with_Cons)
    have "takeWhile is_digit (p @ ''.'' @ ?g @ r) = p"
      using p(2) by (intro take_digits) (auto simp: digit_group_def is_digit_def)
    then have "takeWhile is_digit s = p" using m p(5) by simp
    moreover have "match_groups n (?g @ r) = Some ?g"
      unfolding Suc.IH by (intro exI [of _ ps] exI [of _ r]) (use p in simp)
    moreover have "drop (length p) s = ''.'' @ ?g @ r" using m p(5) by simp
    ultimately show "match_groups (Suc n) s = Some m"
      using p(2) m by (cases p) (auto simp: digit_group_def Let_def starts_with_def)
  qed
qed

lemma match_groups_shape: "match_groups 3 s = Some m \<longleftrightarrow>
    quad_shape m \<and> (\<exists>r. s = m @ r \<and> (r = [] \<or> \<not> word_char (hd r)))"
  unfolding match_groups_iff quad_shape_def by auto

lemma quad_shape_ends:
  assumes "quad_shape m"
  shows "m \<noteq> []" "word_char (last m)"
proof -
  obtain a b c d where m: "m = a @ ''.'' @ b @ ''.'' @ c @ ''.'' @ d" "digit_group d"
    using assms by (auto simp: quad_shape_def length_Suc_conv eval_nat_numeral)
  then show "m \<noteq> []" by simp
  show "word_char (last m)" using m
    by (cases d rule: rev_cases) (auto simp: digit_group_def intro: digit_word)
qed

lemma word_before: "u = [] \<or> \<not> word_char (last u) \<longleftrightarrow> length u = 0 \<or> \<not> word_char ((u @ s) ! (length u - 1))"
  by (cases u rule: rev_cases) (simp_all add: nth_append)

lemma quad_at_match: "quad_at (u @ s) (length u) j \<longleftrightarrow>
    (u = [] \<or> \<not> word_char (last u)) \<and> (\<exists>m. match_groups 3 s = Some m \<and> j = length u + length m)"
proof
  assume q: "quad_at (u @ s) (length u) j"
  define m where "m = take (j - length u) s"
  have j: "length u < j" "j - length u \<le> length s" using q by (auto simp: quad_at_def)
  have len: "length m = j - length u" using j by (simp add: m_def)
  have "quad_shape m" using q by (simp add: quad_at_def part_def m_def)
  moreover have "s = m @ drop (length m) s" by (metis append_take_drop_id len m_def)
  moreover have "drop (length m) s = [] \<or> \<not> word_char (hd (drop (length m) s))"
  proof (cases "j = length (u @ s)")
    case False
    then have "length m < length s" "\<not> word_char (s ! length m)"
      using q j len by (auto simp: quad_at_def nth_append)
    then show ?thesis by (simp add: hd_drop_conv_nth)
  qed (use len in simp)
  ultimately have "match_groups 3 s = Some m" unfolding match_groups_shape by blast
  then show "(u = [] \<or> \<not> word_char (last u)) \<and> (\<exists>m. match_groups 3 s = Some m \<and> j = length u + length m)"
    using q j len word_before [of u s] by (auto simp: quad_at_def)
next
  assume a: "(u = [] \<or> \<not> word_char (last u)) \<and> (\<exists>m. match_groups 3 s = Some m \<and> j = length u + length m)"
  then obtain m r where m: "quad_shape m" "s = m @ r" "r = [] \<or> \<not> word_char (hd r)" "j = length u + length m"
    unfolding match_groups_shape by blast
  have "(u @ s) ! j = hd r" if "r \<noteq> []" using that m by (cases r) (simp_all add: nth_append)
  then show "quad_at (u @ s) (length u) j"
    using a m quad_shape_ends(1) [OF m(1)] word_before [of u s]
    by (auto simp: quad_at_def part_def)
qed

lemma quad_at_unique: "quad_at t i j \<Longrightarrow> quad_at t i k \<Longrightarrow> j = k"
proof -
  assume q: "quad_at t i j" "quad_at t i k"
  then have "length (take i t) = i" by (auto simp: quad_at_def)
  then show ?thesis
    using q quad_at_match [of "take i t" "drop i t" j] quad_at_match [of "take i t" "drop i t" k] by auto
qed

text \<open>From a place on that no quad found before reaches over, the search gives the rest of them.\<close>

lemma find_quads_from:
  assumes "prev \<longleftrightarrow> u \<noteq> [] \<and> word_char (last u)"
    and "\<not> (\<exists>i j. i < length u \<and> length u < j \<and> found (u @ s) i j)"
  shows "set (find_quads prev s) = {part (u @ s) i j |i j. length u \<le> i \<and> found (u @ s) i j}"
  using assms
proof (induction prev s arbitrary: u rule: find_quads.induct)
  case (1 prev s)
  let ?t = "u @ s" and ?p = "length u"
  show ?case
  proof (cases s)
    case Nil
    then have "\<not> (?p \<le> i \<and> found ?t i j)" for i j using found_quad [of ?t i j] by (auto simp: quad_at_def)
    then show ?thesis unfolding Nil by (auto simp: find_quads.simps)
  next
    case (Cons c cs)
    show ?thesis
    proof (cases "if prev then None else match_groups 3 s")
      case None
      then have step: "find_quads prev s = find_quads (word_char c) cs"
        unfolding Cons by (subst find_quads.simps) (simp only: list.case option.case)
      have here: "\<not> quad_at ?t ?p j" for j
        using None 1(3) by (auto simp: quad_at_match split: if_splits)
      have whole: "?t = (u @ [c]) @ cs" by (simp add: Cons)
      have free: "\<not> (\<exists>i j. i < Suc ?p \<and> Suc ?p < j \<and> found ?t i j)"
      proof
        assume "\<exists>i j. i < Suc ?p \<and> Suc ?p < j \<and> found ?t i j"
        then obtain i j where f: "i < Suc ?p" "Suc ?p < j" "found ?t i j" by blast
        then show False using 1(4) here [of j] found_quad [OF f(3)] by (cases "i = ?p") auto
      qed
      have "set (find_quads (word_char c) cs) = {part ?t i j |i j. Suc ?p \<le> i \<and> found ?t i j}"
        using 1(1) [OF Cons None, of "u @ [c]"] free unfolding whole by simp
      moreover have "Suc ?p \<le> i \<longleftrightarrow> ?p \<le> i" if "found ?t i j" for i j
        using here [of j] found_quad [OF that] by (cases "i = ?p") auto
      ultimately show ?thesis unfolding step by (simp only: cong: conj_cong) metis
    next
      case (Some m)
      then have m: "\<not> prev" "match_groups 3 s = Some m" by (auto split: if_splits)
      have step: "find_quads prev s = m # find_quads True (drop (length m) s)"
        using Some unfolding Cons by (subst find_quads.simps) (simp only: list.case option.case)
      let ?q = "?p + length m"
      have sm: "s = m @ drop (length m) s" using m(2) unfolding match_groups_shape by auto
      have quad: "quad_at ?t ?p ?q" using m 1(3) by (auto simp: quad_at_match)
      then have here: "found ?t ?p ?q" using 1(4) by (subst found_iff) auto
      have ends: "m \<noteq> []" "word_char (last m)"
        using m(2) quad_shape_ends [of m] unfolding match_groups_shape by auto
      have free: "\<not> (\<exists>i j. i < ?q \<and> ?q < j \<and> found ?t i j)"
      proof
        assume "\<exists>i j. i < ?q \<and> ?q < j \<and> found ?t i j"
        then obtain i j where f: "i < ?q" "?q < j" "found ?t i j" by blast
        consider "i < ?p" | "i = ?p" | "?p < i" by linarith
        then show False
        proof cases
          case 1
          then show False using f \<open>\<not> (\<exists>i j. i < length u \<and> length u < j \<and> found (u @ s) i j)\<close> by auto
        next
          case 2
          then show False using f quad_at_unique [OF quad] found_quad [OF f(3)] by auto
        next
          case 3
          then show False using here f(1,3) found_iff [of ?t i j] by blast
        qed
      qed
      have whole: "?t = (u @ m) @ drop (length m) s" using sm by simp
      have "set (find_quads True (drop (length m) s)) = {part ?t i j |i j. ?q \<le> i \<and> found ?t i j}"
        using 1(2) [OF Cons Some, of "u @ m"] free ends unfolding whole [symmetric] by simp
      moreover have "part ?t ?p ?q = m" by (subst sm) (simp add: part_def)
      moreover have split: "?p \<le> i \<and> found ?t i j \<longleftrightarrow> (i = ?p \<and> j = ?q) \<or> (?q \<le> i \<and> found ?t i j)" for i j
      proof
        assume f: "?p \<le> i \<and> found ?t i j"
        then have "i = ?p \<or> ?q \<le> i" using here found_iff [of ?t i j] by (metis leI le_neq_implies_less)
        then show "(i = ?p \<and> j = ?q) \<or> (?q \<le> i \<and> found ?t i j)"
          using f quad_at_unique [OF quad] found_quad by blast
      qed (use here in auto)
      have "{part ?t i j |i j. ?p \<le> i \<and> found ?t i j} = insert (part ?t ?p ?q) {part ?t i j |i j. ?q \<le> i \<and> found ?t i j}"
        unfolding split by blast
      ultimately show ?thesis unfolding step by simp
    qed
  qed
qed

theorem find_quads_found: "set (find_quads False s) = {part s i j |i j. found s i j}"
  using find_quads_from [of False "[]" s] by simp

section \<open>What a scan reports\<close>

lemma digit_group_no_point: "digit_group p \<Longrightarrow> CHR ''.'' \<notin> set p"
  by (auto simp: digit_group_def list_all_iff is_digit_def)

lemma quad_shape_split: "quad_shape m \<longleftrightarrow> length (py_split ''.'' m) = 4 \<and> list_all digit_group (py_split ''.'' m)"
proof
  assume "quad_shape m"
  then obtain ps where ps: "length ps = 4" "list_all digit_group ps" "m = join_with ''.'' ps"
    by (auto simp: quad_shape_def)
  then have "py_split ''.'' m = ps"
    by (auto simp: list_all_iff digit_group_no_point intro!: py_split_join_with)
  then show "length (py_split ''.'' m) = 4 \<and> list_all digit_group (py_split ''.'' m)" using ps by simp
next
  assume "length (py_split ''.'' m) = 4 \<and> list_all digit_group (py_split ''.'' m)"
  then show "quad_shape m" unfolding quad_shape_def by (intro exI [of _ "py_split ''.'' m"]) simp
qed

lemma quad_shape_chars: "quad_shape m \<Longrightarrow> c \<in> set m \<Longrightarrow> is_digit c \<or> c = CHR ''.''"
  by (auto simp: quad_shape_def list_all_iff digit_group_def dest!: join_with_chars)

lemma part_nth: "k < length (part t i j) \<Longrightarrow> part t i j ! k = t ! (i + k)"
  by (cases "i \<le> length t") (simp_all add: part_def)

text \<open>A quad is found where neither a character of a word nor a point stands before it, and no character of a
  word after it.\<close>

lemma found_between:
  assumes m: "quad_shape m" and u: "u = [] \<or> \<not> word_char (last u) \<and> last u \<noteq> CHR ''.''"
    and v: "v = [] \<or> \<not> word_char (hd v)"
  shows "found (u @ m @ v) (length u) (length u + length m)"
proof -
  let ?t = "u @ m @ v"
  have "match_groups 3 (m @ v) = Some m" unfolding match_groups_shape using m v by blast
  then have quad: "quad_at ?t (length u) (length u + length m)" using u by (auto simp: quad_at_match)
  have False if f: "i < length u" "length u < j" "found ?t i j" for i j
  proof -
    have q: "quad_shape (part ?t i j)" "j \<le> length ?t" using found_quad [OF f(3)] by (simp_all add: quad_at_def)
    define k where "k = length u - 1 - i"
    have "k < length (part ?t i j)" using f(1,2) q(2) by (auto simp: part_def k_def)
    moreover from this have "part ?t i j ! k = ?t ! (i + k)" by (rule part_nth)
    moreover have "?t ! (i + k) = last u" using f(1) by (cases u rule: rev_cases) (auto simp: k_def nth_append)
    ultimately have "last u \<in> set (part ?t i j)" by (metis nth_mem)
    then show False using quad_shape_chars [OF q(1)] u f(1) digit_word by auto
  qed
  then show ?thesis using quad by (subst found_iff) blast
qed

lemma quads_are_quads: "m \<in> set (find_quads False s) \<Longrightarrow> quad_shape m"
  by (auto simp: find_quads_found quad_at_def dest!: found_quad)

definition colon_char :: "char \<Rightarrow> bool" where
  "colon_char c \<longleftrightarrow> hex_char c \<or> c = CHR '':''"

lemma colon_groups_chars: "list_all colon_char (fst (snd (colon_groups s)))"
proof (induction s rule: colon_groups.induct)
  case (1 s)
  have "list_all colon_char (takeWhile hex_char s)"
    by (auto simp: list_all_iff colon_char_def dest: set_takeWhileD)
  moreover have "colon_char CHR '':''" by (simp add: colon_char_def)
  ultimately show ?case using 1
    by (subst colon_groups.simps) (auto simp: Let_def split_beta)
qed

lemma match_ipv6_chars: "match_ipv6 s = Some (m, n) \<Longrightarrow> list_all colon_char m"
  using colon_groups_chars [of s]
  by (auto simp: match_ipv6_def Let_def split_beta list_all_iff colon_char_def
      dest!: set_takeWhileD in_set_takeD split: if_splits)

lemma find_ipv6_chars: "m \<in> set (find_ipv6 s) \<Longrightarrow> list_all colon_char m"
proof (induction s rule: find_ipv6.induct)
  case (1 s)
  show ?case
  proof (cases s)
    case Nil
    then show ?thesis using 1(3) by (simp add: find_ipv6.simps)
  next
    case (Cons c cs)
    show ?thesis
    proof (cases "match_ipv6 s")
      case None
      then have "find_ipv6 s = find_ipv6 cs" using Cons by (subst find_ipv6.simps) simp
      then show ?thesis using 1(1) [OF Cons None] 1(3) by simp
    next
      case (Some g)
      then obtain w n where g: "g = (w, n)" "match_ipv6 s = Some (w, n)" by (cases g) auto
      then have "find_ipv6 s = w # find_ipv6 (drop (max 1 n) s)" using Cons by (subst find_ipv6.simps) simp
      then show ?thesis using 1(2) [OF Cons Some g(1) [symmetric]] 1(3) match_ipv6_chars [OF g(2)] by auto
    qed
  qed
qed

definition spelled_quad :: "spelling list \<Rightarrow> 8 word list \<Rightarrow> string" where
  "spelled_quad ss ws = join_with ''.'' (map2 (\<lambda>s w. spell_octet s (unat w)) ss ws)"

text \<open>The spellings of an octet that the pattern of the scan takes for a group.\<close>

definition scanned :: "spelling \<Rightarrow> 8 word \<Rightarrow> bool" where
  "scanned s w \<longleftrightarrow> s = Decimal \<or> s = Octal \<and> unat w < 64"

lemma byte_below: "unat (w :: 8 word) < 256"
proof -
  have "unat w < 2 ^ LENGTH(8)" by (rule unsigned_less)
  then show ?thesis by simp
qed

lemma octal_digits: "list_all is_digit (base_rev 8 n) \<and> (length (base_rev 8 n) \<le> 2 \<longleftrightarrow> n < 64)"
proof -
  have "c \<in> set (base_rev 8 n) \<Longrightarrow> is_digit c" for c
    using base_rev_digits [of 8 n] by (auto simp: list_all_iff digit_of_ten [symmetric] dest!: bspec)
  moreover have "length (base_rev 8 n) \<le> 2 \<longleftrightarrow> n < 64"
  proof (cases "n < 8")
    case True
    then show ?thesis by (subst base_rev.simps) simp
  next
    case False
    have len: "length (base_rev 8 k) \<le> 1 \<longleftrightarrow> k < 8" for k
      using base_rev_digits [of 8 "k div 8"] by (subst base_rev.simps) auto
    have "length (base_rev 8 n) = Suc (length (base_rev 8 (n div 8)))" using False by (subst base_rev.simps) simp
    moreover have "n div 8 < 8 \<longleftrightarrow> n < 64" by auto
    ultimately show ?thesis using len [of "n div 8"] by linarith
  qed
  ultimately show ?thesis by (simp add: list_all_iff)
qed

lemma spelled_group: "digit_group (spell_octet s (unat w)) \<longleftrightarrow> scanned s w"
proof (cases s)
  case Decimal
  have "length (show_nat (unat w)) \<le> 3"
    using digits_rev_length [of "unat w" 2] byte_below [of w] by (simp add: show_nat_def)
  then show ?thesis using Decimal
    by (auto simp: spell_octet_def scanned_def digit_group_def list_all_iff show_nat_digits)
next
  case Octal
  then show ?thesis using octal_digits [of "unat w"]
    by (auto simp: spell_octet_def scanned_def digit_group_def list_all_iff is_digit_def)
qed (simp add: spell_octet_def scanned_def digit_group_def is_digit_def)



lemma overlapping_quad_unseen: "find_quads False ''1.10.0.0.1'' = [''1.10.0.0'']"
  by code_simp

lemma long_octal_unseen: "private_hosts_in ''http://0254.16.0.1/'' = [] \<and> policy_flags ''0254.16.0.1''"
  by code_simp

end
