(* ===== verification/Cegis_Props.thy ===== *)
theory Cegis_Props
  imports Cegis_Engine Address_Scan
begin

text \<open>
  What a clean verdict of the verifier means for the whole tree, when the synthesis loop converges
  and how often it calls the synthesizer, which constraints accumulate, and what the oracle makes of
  cycles and of violations that stay.
\<close>

section \<open>The tree\<close>

definition child_rel :: "('n py_node \<times> 'n py_node) set" where
  "child_rel = {(t, c). c \<in> set (iter_child_nodes t)}"

abbreviation nodes_under :: "'n py_node \<Rightarrow> 'n py_node set" where
  "nodes_under t \<equiv> {n. (t, n) \<in> child_rel\<^sup>*}"

lemma child_rel_iff [simp]: "(t, c) \<in> child_rel \<longleftrightarrow> c \<in> set (iter_child_nodes t)"
  by (simp add: child_rel_def)

lemma nodes_under_unfold: "nodes_under t = insert t (\<Union>c\<in>set (iter_child_nodes t). nodes_under c)"
proof (intro set_eqI iffI)
  fix n assume "n \<in> nodes_under t"
  then have "(t, n) \<in> child_rel\<^sup>*" by simp
  then show "n \<in> insert t (\<Union>c\<in>set (iter_child_nodes t). nodes_under c)"
    by (cases rule: converse_rtranclE) auto
qed (auto intro: converse_rtrancl_into_rtrancl)

lemma set_walk_queue: "set (walk_queue ts) = (\<Union>t\<in>set ts. nodes_under t)"
proof (induction ts rule: walk_queue.induct)
  case (2 t ts)
  have "set (walk_queue (t # ts)) = insert t ((\<Union>s\<in>set ts. nodes_under s) \<union> (\<Union>c\<in>set (iter_child_nodes t). nodes_under c))"
    by (simp add: 2 Un_commute)
  also have "\<dots> = (\<Union>s\<in>set (t # ts). nodes_under s)"
    using nodes_under_unfold [of t] by (simp only: list.set UN_insert) blast
  finally show ?case .
qed simp

lemma set_walk: "set (walk t) = nodes_under t"
  by (simp add: walk_def set_walk_queue del: walk_queue.simps)

section \<open>Nesting\<close>

text \<open>A chain of nodes, each a child of the one before; its nesting is the number of compounds on it.\<close>

fun chain :: "'n py_node list \<Rightarrow> bool" where
  "chain (a # b # ns) = (b \<in> set (iter_child_nodes a) \<and> chain (b # ns))"
| "chain _ = True"

definition compounds :: "'n py_node list \<Rightarrow> int" where
  "compounds ns = int (length (filter (\<lambda>n. kind n = Compound) ns))"

lemma max_default_le_iff: "max_default xs d \<le> b \<longleftrightarrow> (if xs = [] then d \<le> b else list_all (\<lambda>x. x \<le> b) xs)"
  by (auto simp: max_default_def list_all_iff)

lemma compounds_Cons: "compounds (n # ns) = (if kind n = Compound then 1 else 0) + compounds ns"
  by (simp add: compounds_def)

lemma compounds_Nil [simp]: "compounds [] = 0"
  by (simp add: compounds_def)

lemma compounds_nonneg [simp]: "0 \<le> compounds ns"
  by (simp add: compounds_def)

lemma nesting_walk_le_iff:
  "nesting_walk t d \<le> b \<longleftrightarrow> (\<forall>ns. chain (t # ns) \<longrightarrow> d + compounds (t # ns) \<le> b)"
proof (induction t d rule: nesting_walk.induct)
  case (1 t d)
  let ?d = "if kind t = Compound then d + 1 else d"
  have ih: "nesting_walk c ?d \<le> b \<longleftrightarrow> (\<forall>ns. chain (c # ns) \<longrightarrow> ?d + compounds (c # ns) \<le> b)"
    if "c \<in> set (iter_child_nodes t)" for c
    using 1 [OF refl that] by simp
  have step: "nesting_walk t d \<le> b \<longleftrightarrow>
      (if iter_child_nodes t = [] then ?d \<le> b
       else \<forall>c\<in>set (iter_child_nodes t). nesting_walk c ?d \<le> b)"
    by (subst nesting_walk.simps) (simp add: max_default_le_iff list_all_iff Let_def)
  have chains: "(\<forall>ns. chain (t # ns) \<longrightarrow> d + compounds (t # ns) \<le> b) \<longleftrightarrow>
      ?d \<le> b \<and> (\<forall>c\<in>set (iter_child_nodes t). \<forall>ns. chain (c # ns) \<longrightarrow> ?d + compounds (c # ns) \<le> b)"
    (is "?l \<longleftrightarrow> ?r")
  proof
    assume l: ?l
    have "?d \<le> b" using l [rule_format, of "[]"] by (simp add: compounds_Cons split: if_splits)
    moreover have "?d + compounds (c # ns) \<le> b"
      if "c \<in> set (iter_child_nodes t)" "chain (c # ns)" for c ns
      using l [rule_format, of "c # ns"] that by (simp add: compounds_Cons [of t] split: if_splits)
    ultimately show ?r by blast
  next
    assume r: ?r
    show ?l
    proof (intro allI impI)
      fix ns assume "chain (t # ns)"
      then show "d + compounds (t # ns) \<le> b"
        using r by (cases ns) (auto simp: compounds_Cons [of t] add.assoc [symmetric] split: if_splits)
    qed
  qed
  have down: "?d \<le> b" if "c \<in> set (iter_child_nodes t)" "\<forall>ns. chain (c # ns) \<longrightarrow> ?d + compounds (c # ns) \<le> b" for c
    using that(2) [rule_format, of "[]"] compounds_nonneg [of "[c]"] by (simp del: compounds_nonneg)
  show ?case
  proof (cases "iter_child_nodes t = []")
    case False
    then obtain c where "c \<in> set (iter_child_nodes t)" by (cases "iter_child_nodes t") auto
    with False show ?thesis unfolding step chains using ih down by auto
  qed (simp add: step chains)
qed

definition nested_within :: "int \<Rightarrow> 'n py_node \<Rightarrow> bool" where
  "nested_within b f \<longleftrightarrow> (body f = [] \<longrightarrow> 0 \<le> b)
     \<and> (\<forall>s\<in>set (body f). \<forall>ns. chain (s # ns) \<longrightarrow> 1 + compounds (s # ns) \<le> b)"

lemma nesting_depth_le_iff: "nesting_depth f \<le> b \<longleftrightarrow> nested_within b f"
  by (auto simp: nesting_depth_def nested_within_def max_default_le_iff list_all_iff nesting_walk_le_iff)

section \<open>Sprawl\<close>

fun three_asserts :: "'n py_node list \<Rightarrow> bool" where
  "three_asserts (a # b # c # ss) =
     ((kind a = Assert_Stmt \<and> kind b = Assert_Stmt \<and> kind c = Assert_Stmt) \<or> three_asserts (b # c # ss))"
| "three_asserts _ = False"

definition asserts_first :: "nat \<Rightarrow> 'n py_node list \<Rightarrow> bool" where
  "asserts_first k ss \<longleftrightarrow> k \<le> length ss \<and> list_all (\<lambda>s. kind s = Assert_Stmt) (take k ss)"

lemma asserts_first_simps [simp]:
  "asserts_first 0 ss" "\<not> asserts_first (Suc k) []"
  "asserts_first (Suc k) (s # ss) \<longleftrightarrow> kind s = Assert_Stmt \<and> asserts_first k ss"
  by (auto simp: asserts_first_def)

lemma three_asserts_Cons:
  "three_asserts (s # ss) \<longleftrightarrow> kind s = Assert_Stmt \<and> asserts_first (Suc (Suc 0)) ss \<or> three_asserts ss"
  by (cases ss rule: three_asserts.cases) auto

lemma asserts_first_less: "asserts_first (Suc k) ss \<Longrightarrow> asserts_first k ss"
  by (auto simp: asserts_first_def take_Suc_conv_app_nth)

lemma sprawl_from_iff:
  "sprawl_from 0 f ss \<noteq> None \<longleftrightarrow> three_asserts ss"
  "sprawl_from 1 f ss \<noteq> None \<longleftrightarrow> asserts_first (Suc (Suc 0)) ss \<or> three_asserts ss"
  "sprawl_from 2 f ss \<noteq> None \<longleftrightarrow> asserts_first (Suc 0) ss \<or> three_asserts ss"
proof (induction ss arbitrary: f)
  case (Cons s ss)
  {
    case 1
    then show ?case using Cons(1,2) by (auto simp: three_asserts_Cons)
  next
    case 2
    then show ?case using Cons(1,3) asserts_first_less [of "Suc 0" ss] by (auto simp: three_asserts_Cons numeral_2_eq_2)
  next
    case 3
    then show ?case using Cons(1) by (auto simp: three_asserts_Cons)
  }
qed simp_all

lemma find_sprawl_line_iff: "find_sprawl_line f = None \<longleftrightarrow> \<not> three_asserts (body f)"
  using sprawl_from_iff(1) [of "lineno f" "body f"] by (auto simp: find_sprawl_line_def)

section \<open>Private addresses\<close>

text \<open>A text that is a dotted quad of plain decimal octets with the number of a private IPv4 host.\<close>

definition private_quad :: "string \<Rightarrow> bool" where
  "private_quad m \<longleftrightarrow> (\<exists>os. m = quad_text os \<and> length os = 4 \<and> list_all (\<lambda>d. 0 \<le> d \<and> d \<le> 255) os
     \<and> private_ipv4 (quad_value os))"

lemma quad_value_bounds:
  assumes "length os = 4" "list_all (\<lambda>d. 0 \<le> d \<and> d \<le> 255) os"
  shows "0 \<le> quad_value os" "quad_value os < 2 ^ 32"
proof -
  from assms obtain a b c d where "os = [a, b, c, d]" by (auto simp: length_Suc_conv eval_nat_numeral)
  with assms(2) show "0 \<le> quad_value os" "quad_value os < 2 ^ 32" by (simp_all add: quad_value_def)
qed

lemma quad_value_word:
  assumes "length os = 4" "list_all (\<lambda>d. 0 \<le> d \<and> d \<le> 255) os"
  shows "uint (word_of_int (quad_value os) :: 32 word) = quad_value os"
  using quad_value_bounds [OF assms] by (simp add: unsigned_of_int take_bit_int_eq_self)

lemma quad_shape_no: "quad_shape m \<Longrightarrow> CHR ''/'' \<notin> set m" "quad_shape m \<Longrightarrow> CHR '':'' \<notin> set m"
  using quad_shape_chars [of m "CHR ''/''"] quad_shape_chars [of m "CHR '':''"] by (auto simp: is_digit_def)

lemma quad_private_iff:
  assumes "quad_shape m"
  shows "cegis_is_private_ip m \<longleftrightarrow> private_quad m"
proof (cases "ipv4_value m")
  case (Some v)
  then obtain os where os: "m = quad_text os" "length os = 4" "list_all (\<lambda>d. 0 \<le> d \<and> d \<le> 255) os" "v = quad_value os"
    unfolding ipv4_value_Some by blast
  have "cegis_is_private_ip m \<longleftrightarrow> private_ipv4 v"
    using Some quad_shape_no(1) [OF assms] quad_value_word [OF os(2,3)] os(4)
    by (simp add: cegis_is_private_ip_def ip_address_of_def private_host_ipv4)
  moreover have "private_quad m \<longleftrightarrow> private_ipv4 v"
    unfolding private_quad_def using os ipv4_value_quad_text by (metis option.inject)
  ultimately show ?thesis by blast
next
  case None
  have "Option.bind (strip_scope m) ipv6_value = None"
    using ipv6_colon [of m] quad_shape_no(2) [OF assms] by (cases "Option.bind (strip_scope m) ipv6_value") blast+
  then have "\<not> cegis_is_private_ip m"
    using None by (simp add: cegis_is_private_ip_def ip_address_of_def)
  moreover have "\<not> private_quad m" using None ipv4_value_quad_text by (auto simp: private_quad_def)
  ultimately show ?thesis by blast
qed

text \<open>No quad that stands alone in the text, from left to right and without overlaps, is private.\<close>

definition names_no_private_quad :: "string \<Rightarrow> bool" where
  "names_no_private_quad s \<longleftrightarrow> (\<forall>i j. found s i j \<longrightarrow> \<not> private_quad (part s i j))"

lemma no_private_quad_iff: "(\<forall>m\<in>set (find_quads False s). \<not> cegis_is_private_ip m) \<longleftrightarrow> names_no_private_quad s"
proof -
  have "\<not> cegis_is_private_ip (part s i j) \<longleftrightarrow> \<not> private_quad (part s i j)" if "found s i j" for i j
    using found_quad [OF that] by (simp add: quad_private_iff quad_at_def)
  then show ?thesis unfolding names_no_private_quad_def find_quads_found by blast
qed

section \<open>A clean verdict\<close>

text \<open>The invariants as the module describes them, for one function and for a module.\<close>

definition function_sound :: "'n environment \<Rightarrow> thresholds \<Rightarrow> 'n py_node \<Rightarrow> string \<Rightarrow> fn_params \<Rightarrow> bool" where
  "function_sound env th f name ps \<longleftrightarrow>
     cyclomatic_complexity env f \<le> max_complexity th \<and> nested_within (max_depth th) f
     \<and> count_parameters ps \<le> max_params th
     \<and> (forbid_assertion_sprawl th \<and> starts_with name ''test_'' \<longrightarrow> \<not> three_asserts (body f))"

definition meets_invariants :: "'n environment \<Rightarrow> thresholds \<Rightarrow> string \<Rightarrow> bool" where
  "meets_invariants env th src \<longleftrightarrow> (\<exists>t. ast_parse env src = Inr t
     \<and> (\<forall>n\<in>nodes_under t. \<forall>name ps. kind n = Function_Def name ps \<longrightarrow> function_sound env th n name ps)
     \<and> (enforce_zero_trust_ips th \<and> \<not> has_sanitization_waiver src \<longrightarrow>
        (\<forall>n\<in>nodes_under t. \<forall>s. kind n = Str_Constant s \<longrightarrow>
           names_no_private_quad s)))"

lemma ipv6_constant_passes: "names_no_private_quad ''fd00::1'' \<and> policy_flags ''fd00::1''"
proof -
  have "find_quads False ''fd00::1'' = []" "policy_flags ''fd00::1''" by code_simp+
  then show ?thesis using no_private_quad_iff [of "''fd00::1''"] by simp
qed

lemma overlapping_constant_passes: "names_no_private_quad ''1.10.0.0.1''"
proof -
  have "find_quads False ''1.10.0.0.1'' = [''1.10.0.0'']" "\<not> cegis_is_private_ip ''1.10.0.0''" by code_simp+
  then show ?thesis using no_private_quad_iff [of "''1.10.0.0.1''"] by simp
qed

lemma bound_violation_Nil: "bound_violation env r w p name l path n b = [] \<longleftrightarrow> n \<le> b"
  by (simp add: bound_violation_def Let_def not_less)

lemma assertion_sprawl_Nil:
  "assertion_sprawl env name f path = [] \<longleftrightarrow> (starts_with name ''test_'' \<longrightarrow> \<not> three_asserts (body f))"
  unfolding find_sprawl_line_iff [symmetric]
  by (auto simp: assertion_sprawl_def Let_def split: option.splits)

lemma function_invariants_Nil:
  "function_invariants env th path f name ps = [] \<longleftrightarrow> function_sound env th f name ps"
  by (auto simp: function_invariants_def function_sound_def bound_violation_Nil nesting_depth_le_iff
      assertion_sprawl_Nil)

definition node_violations :: "'n environment \<Rightarrow> thresholds \<Rightarrow> string \<Rightarrow> 'n py_node \<Rightarrow> counterexample list" where
  "node_violations env th path n =
     (case kind n of Function_Def name ps \<Rightarrow> function_invariants env th path n name ps | _ \<Rightarrow> [])"

lemma inspect_functions_violations:
  "fst (inspect_functions env t th path) = concat (map (node_violations env th path) (walk t))"
proof -
  have "fst (fold (\<lambda>node (vs, cc, d). case kind node of
         Function_Def name ps \<Rightarrow>
           (vs @ function_invariants env th path node name ps,
            max cc (cyclomatic_complexity env node), max d (nesting_depth node))
       | _ \<Rightarrow> (vs, cc, d)) ns (vs, cc, d)) = vs @ concat (map (node_violations env th path) ns)" for ns vs cc d
    by (induction ns arbitrary: vs cc d) (auto simp: node_violations_def split: node_kind.splits)
  then show ?thesis by (simp add: inspect_functions_def)
qed

lemma scan_constant_Nil:
  "scan_constant env path n = [] \<longleftrightarrow>
     (\<forall>s. kind n = Str_Constant s \<longrightarrow> names_no_private_quad s)"
  unfolding no_private_quad_iff [symmetric]
  by (auto simp: scan_constant_def filter_empty_conv split: node_kind.splits)

lemma node_violations_Nil:
  "node_violations env th path n = [] \<longleftrightarrow>
     (\<forall>name ps. kind n = Function_Def name ps \<longrightarrow> function_sound env th n name ps)"
  by (auto simp: node_violations_def function_invariants_Nil split: node_kind.splits)

text \<open>C4: The verifier reports nothing exactly when the source parses, every function anywhere in its
  tree stays within the bounds on complexity, nesting and parameters, no test function runs three
  asserts in a row, and, unless the header waives the rule, no dotted quad that stands alone in a string
  constant is a private IPv4 address in plain decimal: an IPv6 address such as fd00::1 passes, whatever
  the documentation of the rule says of RFC 4193.\<close>

theorem clean_iff_invariants:
  "fst (verify_source env th src path) = [] \<longleftrightarrow> meets_invariants env th src"
proof (cases "ast_parse env src")
  case (Inr t)
  have "fst (verify_source env th src path) =
      fst (inspect_functions env t th path)
        @ (if enforce_zero_trust_ips th \<and> \<not> has_sanitization_waiver src
           then string_constants_ips env t path else [])"
    using Inr by (simp add: verify_source_def split: prod.splits)
  then show ?thesis
    using Inr by (auto simp: inspect_functions_violations meets_invariants_def string_constants_ips_def
        set_walk node_violations_Nil scan_constant_Nil)
qed (simp add: verify_source_def meets_invariants_def)

section \<open>Accumulated constraints\<close>

text \<open>The elements of a list in the order of their first occurrence.\<close>

definition firsts :: "'a list \<Rightarrow> 'a list" where
  "firsts xs = rev (remdups (rev xs))"

lemma firsts_snoc: "firsts (xs @ [x]) = (if x \<in> set xs then firsts xs else firsts xs @ [x])"
  by (simp add: firsts_def)

lemma set_firsts [simp]: "set (firsts xs) = set xs"
  by (simp add: firsts_def)

lemma firsts_Nil [simp]: "firsts [] = []"
  by (simp add: firsts_def)

lemma distinct_firsts [simp]: "distinct (firsts xs)"
  by (simp add: firsts_def)

definition constraint_name :: "nat \<Rightarrow> string" where
  "constraint_name n = ''NC-'' @ pad_left CHR ''0'' 3 (show_nat n)"

text \<open>An accumulator that has seen counterexamples with the given hashes.\<close>

definition accumulated :: "string list \<Rightarrow> accumulator \<Rightarrow> bool" where
  "accumulated hs acc \<longleftrightarrow> dict_keys acc = firsts hs \<and> map nc_hash (constraints acc) = firsts hs
     \<and> map constraint_id (constraints acc) = map constraint_name [1..<Suc (length acc)]"

lemma dict_set_new: "k \<notin> set (dict_keys d) \<Longrightarrow> dict_set k v d = d @ [(k, v)]"
  unfolding dict_set_def dict_keys_def by (induction d) auto

lemma accumulated_new: "accumulated [] new_accumulator"
  by (simp add: accumulated_def new_accumulator_def constraints_def dict_values_def)

lemma accumulated_register:
  assumes "accumulated hs acc"
  shows "accumulated (hs @ [counterexample_hash ce]) (fst (register_counterexample ce step acc))"
proof (cases "dict_get acc (counterexample_hash ce)")
  case None
  then have "counterexample_hash ce \<notin> set (dict_keys acc)"
    using alist_dict.get_iff_key [of acc "counterexample_hash ce"] by simp
  with None assms show ?thesis
    by (simp add: accumulated_def register_counterexample_def Let_def dict_set_new constraints_def
        dict_values_def constraint_of_def constraint_name_def firsts_snoc) (simp add: dict_keys_def)
next
  case (Some nc)
  then have "counterexample_hash ce \<in> set (dict_keys acc)"
    using alist_dict.get_iff_key [of acc "counterexample_hash ce"] by simp
  with Some assms show ?thesis
    by (simp add: accumulated_def register_counterexample_def firsts_snoc)
qed

lemma accumulated_register_all:
  "accumulated hs acc \<Longrightarrow> accumulated (hs @ map counterexample_hash ces) (register_all ces step acc)"
proof (induction ces arbitrary: hs acc)
  case (Cons ce ces)
  then show ?case
    using Cons.IH [OF accumulated_register [OF Cons.prems, of ce step]] by (simp add: register_all_def)
qed (simp add: register_all_def)

lemma audit_step_simps:
  assumes "audit_step env th path idx src acc = (s, acc')"
  shows "acc' = register_all (violations s) idx acc"
    and "violations s = fst (verify_source env th src path)
           @ check_for_repeat_violation env acc (fst (verify_source env th src path))"
    and "passed s \<longleftrightarrow> meets_invariants env th src"
    and "step_index s = idx" "ast_hash s = ast_normalized_hash env src"
    and "active_constraints_count s = length (constraints acc')"
proof -
  have "check_for_repeat_violation env acc [] = []"
    by (simp add: check_for_repeat_violation_def map_filter_def)
  then show "acc' = register_all (violations s) idx acc"
    "violations s = fst (verify_source env th src path)
       @ check_for_repeat_violation env acc (fst (verify_source env th src path))"
    "passed s \<longleftrightarrow> meets_invariants env th src"
    "step_index s = idx" "ast_hash s = ast_normalized_hash env src"
    "active_constraints_count s = length (constraints acc')"
    using assms clean_iff_invariants [where env = env and th = th and src = src and path = path]
    by (auto simp: audit_step_def Let_def split: prod.splits)
qed

definition finding_hashes :: "trajectory_step list \<Rightarrow> string list" where
  "finding_hashes ss = map counterexample_hash (concat (map violations ss))"

lemma audit_steps_accumulated:
  assumes "accumulated hs acc" "audit_steps env th path idx srcs acc = (ss, acc')"
  shows "accumulated (hs @ finding_hashes ss) acc'"
    and "map active_constraints_count ss = map (\<lambda>k. length (firsts (hs @ finding_hashes (take (Suc k) ss)))) [0..<length srcs]"
    and "map step_index ss = [idx..<idx + length srcs]"
    and "map ast_hash ss = map (ast_normalized_hash env) srcs"
    and "map passed ss = map (meets_invariants env th) srcs"
  using assms
proof (atomize(full), induction srcs arbitrary: idx acc hs ss)
  case (Cons src srcs)
  obtain s acc1 where s: "audit_step env th path idx src acc = (s, acc1)"
    by (cases "audit_step env th path idx src acc")
  obtain ss' where ss': "audit_steps env th path (Suc idx) srcs acc1 = (ss', acc')" "ss = s # ss'"
    using Cons(3) s by (auto split: prod.splits)
  have acc1: "accumulated (hs @ finding_hashes [s]) acc1"
    using accumulated_register_all [OF Cons(2), of "violations s" idx] audit_step_simps(1) [OF s]
    by (simp add: finding_hashes_def)
  have count: "active_constraints_count s = length (firsts (hs @ finding_hashes [s]))"
    using acc1 audit_step_simps(6) [OF s] unfolding accumulated_def by (metis length_map)
  have shift: "[0..<length (src # srcs)] = 0 # map Suc [0..<length srcs]"
    by (simp add: map_Suc_upt upt_conv_Cons del: upt_Suc)
  show ?case
    using Cons.IH [OF acc1 ss'(1)] count audit_step_simps [OF s]
    unfolding shift ss'(2) by (simp add: finding_hashes_def upt_conv_Cons del: upt_Suc)
qed (simp add: finding_hashes_def)

text \<open>C18: After the audit of any trajectory there is one constraint per distinct counterexample, in the
  order of first occurrence, numbered from one without gaps; the count recorded at each step is the
  number of distinct counterexamples up to it, and a step passes exactly when its source is sound.\<close>

theorem constraints_are_first_findings:
  "let r = audit_trajectory env th srcs path m; seen = (\<lambda>k. finding_hashes (take k (trajectory r))) in
     map nc_hash (accumulated_constraints r) = firsts (map counterexample_hash (findings r))
   \<and> map constraint_id (accumulated_constraints r)
       = map constraint_name [1..<Suc (card (set (map counterexample_hash (findings r))))]
   \<and> map active_constraints_count (trajectory r) = map (\<lambda>k. card (set (seen (Suc k)))) [0..<length srcs]
   \<and> map passed (trajectory r) = map (meets_invariants env th) srcs"
proof -
  obtain ss acc where run: "audit_steps env th path 0 srcs new_accumulator = (ss, acc)"
    by (cases "audit_steps env th path 0 srcs new_accumulator")
  have len: "length (firsts xs) = card (set xs)" for xs :: "string list"
    using distinct_card [OF distinct_firsts, of xs] by simp
  have acc: "accumulated (finding_hashes ss) acc"
    using audit_steps_accumulated(1) [OF accumulated_new run] by simp
  then have "length acc = card (set (finding_hashes ss))"
    unfolding accumulated_def by (metis dict_keys_def len length_map)
  then show ?thesis
    using acc audit_steps_accumulated(2,5) [OF accumulated_new run]
    by (simp add: audit_trajectory_def run Let_def accumulated_def len finding_hashes_def
        split: prod.splits del: upt_Suc)
qed

section \<open>Cycles\<close>

definition first_index :: "trajectory_step list \<Rightarrow> string \<Rightarrow> nat option" where
  "first_index ss h = map_option step_index (List.find (\<lambda>s. ast_hash s = h) ss)"

lemma first_index_snoc:
  "first_index (ss @ [s]) h =
     (case first_index ss h of Some i \<Rightarrow> Some i | None \<Rightarrow> if ast_hash s = h then Some (step_index s) else None)"
  by (induction ss) (auto simp: first_index_def)

lemma first_index_None: "first_index ss h = None \<longleftrightarrow> h \<notin> ast_hash ` set ss"
  by (auto simp: first_index_def find_None_iff)

text \<open>Every step that repeats a program, with the step where the program was first.\<close>

definition repeated_programs :: "trajectory_step list \<Rightarrow> (nat \<times> nat) list" where
  "repeated_programs ss = concat (map (\<lambda>k. case first_index (take k ss) (ast_hash (ss ! k)) of
       None \<Rightarrow> [] | Some i \<Rightarrow> [(i, step_index (ss ! k))]) [0..<length ss])"

lemma repeated_programs_snoc:
  "repeated_programs (ss @ [s]) = repeated_programs ss
     @ (case first_index ss (ast_hash s) of None \<Rightarrow> [] | Some i \<Rightarrow> [(i, step_index s)])"
proof -
  have "map (\<lambda>k. case first_index (take k (ss @ [s])) (ast_hash ((ss @ [s]) ! k)) of
        None \<Rightarrow> [] | Some i \<Rightarrow> [(i, step_index ((ss @ [s]) ! k))]) [0..<length ss]
      = map (\<lambda>k. case first_index (take k ss) (ast_hash (ss ! k)) of
        None \<Rightarrow> [] | Some i \<Rightarrow> [(i, step_index (ss ! k))]) [0..<length ss]"
    by (rule map_cong) (auto simp: nth_append split: option.splits)
  then have "concat (map (\<lambda>k. case first_index (take k (ss @ [s])) (ast_hash ((ss @ [s]) ! k)) of
        None \<Rightarrow> [] | Some i \<Rightarrow> [(i, step_index ((ss @ [s]) ! k))]) [0..<length ss]) = repeated_programs ss"
    unfolding repeated_programs_def by (rule arg_cong)
  moreover have "[0..<length (ss @ [s])] = [0..<length ss] @ [length ss]" by simp
  ultimately show ?thesis
    unfolding repeated_programs_def [of "ss @ [s]"] by (simp only: map_append concat_append) (simp split: option.splits)
qed

lemma repeated_programs_empty [simp]: "repeated_programs [] = []"
  by (simp add: repeated_programs_def)

lemma cycle_step_pair:
  "cycle_step s (seen, cycles) = (case dict_get seen (ast_hash s) of
     Some i \<Rightarrow> (seen, cycles @ [(i, step_index s)])
   | None \<Rightarrow> (dict_set (ast_hash s) (step_index s) seen, cycles))"
  by (simp add: cycle_step_def)

lemma cycle_fold:
  "snd (fold cycle_step ss ([], [])) = repeated_programs ss
   \<and> dict_get (fst (fold cycle_step ss ([], []))) = first_index ss"
proof (induction ss rule: rev_induct)
  case (snoc s ss)
  obtain seen cycles where "fold cycle_step ss ([], []) = (seen, cycles)"
    by (cases "fold cycle_step ss ([], [])")
  with snoc show ?case
    by (auto simp: cycle_step_pair repeated_programs_snoc first_index_snoc fun_eq_iff split: option.splits)
qed (simp add: repeated_programs_def first_index_def fun_eq_iff)

lemma detect_cycles_eq: "detect_cycles ss = repeated_programs ss"
  by (simp add: detect_cycles_def cycle_fold)

lemma repeated_programs_Nil: "repeated_programs ss = [] \<longleftrightarrow> distinct (map ast_hash ss)"
  by (induction ss rule: rev_induct)
    (auto simp: repeated_programs_snoc first_index_None [symmetric] split: option.splits)

lemma repeated_programs_length:
  "length (repeated_programs ss) + card (ast_hash ` set ss) = length ss"
proof (induction ss rule: rev_induct)
  case (snoc s ss)
  then show ?case
    using first_index_None [of ss "ast_hash s"]
    by (cases "ast_hash s \<in> ast_hash ` set ss")
      (auto simp: repeated_programs_snoc card_insert_if split: option.splits)
qed (simp add: repeated_programs_def)

section \<open>The synthesis loop\<close>

text \<open>The programs the loop would try without a limit, each with the constraints before it.\<close>

primrec attempt ::
    "'n environment \<Rightarrow> thresholds \<Rightarrow> synthesizer \<Rightarrow> string \<Rightarrow> string \<Rightarrow> nat \<Rightarrow> string \<times> accumulator" where
  "attempt env th synth path init 0 = (init, new_accumulator)"
| "attempt env th synth path init (Suc k) = (case attempt env th synth path init k of (src, acc) \<Rightarrow>
     (let acc' = register_all (fst (verify_source env th src path)) k acc in
       (synth src (constraints acc'), acc')))"

fun stop_from :: "(nat \<Rightarrow> bool) \<Rightarrow> nat \<Rightarrow> nat \<Rightarrow> nat" where
  "stop_from P k 0 = k"
| "stop_from P k (Suc n) = (if P k then k else stop_from P (Suc k) n)"

lemma stop_from_least: "stop_from P k n = (LEAST j. k \<le> j \<and> (P j \<or> k + n \<le> j))"
proof (induction P k n rule: stop_from.induct)
  case (1 P k)
  show ?case by (rule Least_equality [symmetric]) auto
next
  case (2 P k n)
  show ?case
  proof (cases "P k")
    case True
    then show ?thesis by (auto intro!: Least_equality [symmetric])
  next
    case False
    then have "(k \<le> j \<and> (P j \<or> k + Suc n \<le> j)) = (Suc k \<le> j \<and> (P j \<or> Suc k + n \<le> j))" for j
      by (cases "j = k") auto
    with False 2 show ?thesis by simp
  qed
qed

lemma stop_from_bounds: "k \<le> stop_from P k n \<and> stop_from P k n \<le> k + n"
  by (induction P k n rule: stop_from.induct) auto

lemma stop_from_not: "\<not> P (stop_from P k n) \<Longrightarrow> stop_from P k n = k + n"
  by (induction P k n rule: stop_from.induct) (auto split: if_splits)

lemma stop_from_holds: "P (stop_from P k n) \<longleftrightarrow> (\<exists>j. k \<le> j \<and> j \<le> k + n \<and> P j)"
proof (induction P k n rule: stop_from.induct)
  case (2 P k n)
  have "(\<exists>j. k \<le> j \<and> j \<le> k + Suc n \<and> P j) \<longleftrightarrow> P k \<or> (\<exists>j. Suc k \<le> j \<and> j \<le> Suc k + n \<and> P j)"
    by (metis Suc_leD Suc_le_eq add_Suc_right add_Suc le_add1 le_neq_implies_less order_refl)
  with 2 show ?case by auto
qed auto

lemma synthesis_rounds_eq:
  "synthesis_rounds env th synth path n (map (\<lambda>j. fst (attempt env th synth path init j)) [0..<Suc k])
      (snd (attempt env th synth path init k))
    = map (\<lambda>j. fst (attempt env th synth path init j))
        [0..<Suc (stop_from (\<lambda>j. meets_invariants env th (fst (attempt env th synth path init j))) k n)]"
proof (induction n arbitrary: k)
  case (Suc n)
  let ?f = "\<lambda>j. fst (attempt env th synth path init j)"
  obtain src acc where a: "attempt env th synth path init k = (src, acc)"
    by (cases "attempt env th synth path init k")
  obtain vs cc d where v: "verify_source env th src path = (vs, cc, d)"
    by (cases "verify_source env th src path")
  then have clean: "vs = [] \<longleftrightarrow> meets_invariants env th src"
    using clean_iff_invariants [where env = env and th = th and src = src and path = path] by simp
  have lst: "last (map ?f [0..<Suc k]) = src" using a by simp
  show ?case
  proof (cases "meets_invariants env th src")
    case True
    then show ?thesis using a clean v lst by (simp del: upt_Suc)
  next
    case False
    let ?acc = "register_all (fst (verify_source env th src path)) k acc"
    have "map ?f [0..<Suc k] @ [synth src (constraints ?acc)] = map ?f [0..<Suc (Suc k)]"
      using a by (simp add: Let_def)
    moreover have "snd (attempt env th synth path init (Suc k)) = ?acc" using a by (simp add: Let_def)
    ultimately show ?thesis
      using Suc.IH [of "Suc k"] a False clean v lst by (simp add: Let_def del: upt_Suc)
  qed
qed simp

lemma audit_trajectory_converged:
  assumes "srcs \<noteq> []"
  shows "status (audit_trajectory env th srcs path m) = CONVERGED \<longleftrightarrow> meets_invariants env th (last srcs)"
    and "m \<le> int (length srcs) \<Longrightarrow> status (audit_trajectory env th srcs path m) \<notin> {CONVERGING, DIVERGING}"
    and "total_iterations (audit_trajectory env th srcs path m) = length srcs"
    and "detected_cycles (audit_trajectory env th srcs path m)
           = repeated_programs (trajectory (audit_trajectory env th srcs path m))"
    and "final_candidate (audit_trajectory env th srcs path m) = last_candidate env srcs"
proof -
  obtain ss acc where run: "audit_steps env th path 0 srcs new_accumulator = (ss, acc)"
    by (cases "audit_steps env th path 0 srcs new_accumulator")
  have passed: "map passed ss = map (meets_invariants env th) srcs"
    by (rule audit_steps_accumulated(5) [OF accumulated_new run])
  then have len: "length ss = length srcs" by (metis length_map)
  then have ne: "ss \<noteq> []" using assms by auto
  have lst: "passed (last ss) = meets_invariants env th (last srcs)"
    using passed ne assms by (metis last_map)
  show "status (audit_trajectory env th srcs path m) = CONVERGED \<longleftrightarrow> meets_invariants env th (last srcs)"
    using ne lst by (auto simp: audit_trajectory_def run evaluate_def Let_def classify_non_converged_def)
  show "m \<le> int (length srcs) \<Longrightarrow> status (audit_trajectory env th srcs path m) \<notin> {CONVERGING, DIVERGING}"
    using ne len by (auto simp: audit_trajectory_def run evaluate_def Let_def classify_non_converged_def)
  show "total_iterations (audit_trajectory env th srcs path m) = length srcs"
    "detected_cycles (audit_trajectory env th srcs path m)
       = repeated_programs (trajectory (audit_trajectory env th srcs path m))"
    "final_candidate (audit_trajectory env th srcs path m) = last_candidate env srcs"
    using ne len by (auto simp: audit_trajectory_def run evaluate_def Let_def detect_cycles_eq)
qed

text \<open>C7: The synthesis loop returns after the first program that meets the invariants, or after the
  allowed number of repairs: it converges exactly when one of the programs it may try is sound, tries
  none after that, hands back that program, and ends neither converging nor diverging.\<close>

theorem synthesis_stops_at_first_sound:
  "let r = run_synthesis_loop env th init synth m path;
       sound = (\<lambda>k. meets_invariants env th (fst (attempt env th synth path init k)));
       k = (LEAST k. sound k \<or> nat m \<le> k) in
     (status r = CONVERGED) = list_ex sound [0..<Suc (nat m)]
   \<and> total_iterations r = Suc k
   \<and> map_option source_code (final_candidate r) = Some (fst (attempt env th synth path init k))
   \<and> status r \<notin> {CONVERGING, DIVERGING}"
proof -
  let ?sound = "\<lambda>k. meets_invariants env th (fst (attempt env th synth path init k))"
  let ?k = "stop_from ?sound 0 (nat m)"
  let ?srcs = "map (\<lambda>j. fst (attempt env th synth path init j)) [0..<Suc ?k]"
  have least: "(LEAST k. ?sound k \<or> nat m \<le> k) = ?k" by (simp add: stop_from_least)
  have run: "run_synthesis_loop env th init synth m path = audit_trajectory env th ?srcs path m"
    using synthesis_rounds_eq [of env th synth path "nat m" init 0]
    by (simp add: run_synthesis_loop_def del: upt_Suc) (simp add: upt_rec)
  have srcs: "?srcs \<noteq> []" "last ?srcs = fst (attempt env th synth path init ?k)" "length ?srcs = Suc ?k"
    by simp_all
  have exhausted: "m \<le> int (length ?srcs)" if "\<not> ?sound ?k"
    using stop_from_not [of ?sound 0 "nat m"] that by simp
  have holds: "?sound ?k = list_ex ?sound [0..<Suc (nat m)]"
    using stop_from_holds [of ?sound 0 "nat m"]
    by (auto simp: list_ex_iff less_Suc_eq_le simp del: upt_Suc)
  show ?thesis
    using audit_trajectory_converged [OF srcs(1), where env = env and th = th and path = path and m = m] srcs exhausted holds
    unfolding Let_def least run by (auto simp: last_candidate_def simp del: upt_Suc)
qed

section \<open>What the oracle makes of violations that stay\<close>

lemma hash_of_registered:
  assumes "accumulated hs acc"
  shows "(dict_get acc h \<noteq> None) \<longleftrightarrow> h \<in> set hs"
  using assms alist_dict.get_iff_key [of acc h] by (simp add: accumulated_def)

lemma repeats_all:
  assumes "accumulated hs acc" "counterexample_hash ` set vs \<subseteq> set hs"
  shows "length (check_for_repeat_violation env acc vs) = length vs
    \<and> (\<forall>v\<in>set (check_for_repeat_violation env acc vs). rule_id v = ''CEGIS008'')"
  using assms(2)
proof (induction vs)
  case (Cons v vs)
  then obtain nc where "dict_get acc (counterexample_hash v) = Some nc"
    using hash_of_registered [OF assms(1), of "counterexample_hash v"] by auto
  with Cons show ?case
    by (auto simp: check_for_repeat_violation_def map_filter_simps repeat_counterexample_def)
qed (simp add: check_for_repeat_violation_def map_filter_simps)

lemma no_repeats_at_first: "check_for_repeat_violation env new_accumulator us = []"
  by (induction us) (auto simp: check_for_repeat_violation_def new_accumulator_def map_filter_simps)

lemma regressions_of_repeats:
  assumes "violations s = vs" "violations s' = ws @ rs" "set ws \<subseteq> set vs"
    and "\<forall>v\<in>set vs. rule_id v \<noteq> ''CEGIS008''" "\<forall>v\<in>set rs. rule_id v = ''CEGIS008''" "rs \<noteq> []" "vs \<noteq> []"
  shows "step_regressions s s' = [''CEGIS008'']"
proof -
  have "rule_id ` set rs = {''CEGIS008''}" 
    using assms(5) set_empty [of rs] assms(6) by (metis (no_types, lifting) image_constant_conv image_cong)
  then have "set (rules_of s') = rule_id ` set ws \<union> {''CEGIS008''}" "set (rules_of s) = rule_id ` set vs"
    by (simp_all only: rules_of_def assms(1,2) set_map set_append image_Un)
  moreover have "rule_id ` set ws \<subseteq> rule_id ` set vs" using assms(3) by (rule image_mono)
  moreover have "''CEGIS008'' \<notin> rule_id ` set vs" using assms(4) by force
  moreover have "A \<subseteq> B \<Longrightarrow> c \<notin> B \<Longrightarrow> (A \<union> {c}) - B = {c}" for A B and c :: string by blast
  ultimately have "set (rules_of s') - set (rules_of s) = {''CEGIS008''}" by simp
  then show ?thesis using assms(1,7) by (simp add: step_regressions_def)
qed

lemma bound_rule: "v \<in> set (bound_violation env r w p name l path n b) \<Longrightarrow> rule_id v = r"
  by (simp add: bound_violation_def Let_def split: if_splits)

lemma sprawl_rule: "v \<in> set (assertion_sprawl env name f path) \<Longrightarrow> rule_id v = ''CEGIS005''"
  by (auto simp: assertion_sprawl_def Let_def split: if_splits option.splits)

lemma node_rules:
  assumes "v \<in> set (node_violations env th path n)"
  shows "rule_id v \<noteq> ''CEGIS008''"
proof (cases "kind n")
  case (Function_Def name ps)
  then have "rule_id v \<in> {''CEGIS001'', ''CEGIS002'', ''CEGIS003'', ''CEGIS005''}"
    using assms by (auto simp: node_violations_def function_invariants_def simp del: insert_iff
        dest!: bound_rule sprawl_rule split: if_splits)
  then show ?thesis by auto
qed (use assms in \<open>simp_all add: node_violations_def\<close>)

lemma verifier_rules:
  "v \<in> set (fst (verify_source env th src path)) \<Longrightarrow> rule_id v \<noteq> ''CEGIS008''"
proof (cases "ast_parse env src")
  case (Inr t)
  assume "v \<in> set (fst (verify_source env th src path))"
  then have "v \<in> set (fst (inspect_functions env t th path)) \<or> v \<in> set (string_constants_ips env t path)"
    using Inr by (auto simp: verify_source_def split: prod.splits if_splits)
  then show ?thesis
    by (auto simp: inspect_functions_violations string_constants_ips_def scan_constant_def
        ip_counterexample_def Let_def dest: node_rules split: node_kind.splits)
qed (auto simp: verify_source_def syntax_error_counterexample_def Let_def)

text \<open>A repair that keeps at least half of the violations and adds none is judged a degradation:
  each violation that stays counts twice, and its repetition reads as a rule that passed before.\<close>

theorem partial_repair_degrades:
  assumes "fst (verify_source env th a path) = vs" "fst (verify_source env th b path) = ws"
    and "ws \<noteq> []" "set ws \<subseteq> set vs" "length vs \<le> 2 * length ws"
    and "ast_normalized_hash env a \<noteq> ast_normalized_hash env b"
  shows "status (audit_trajectory env th [a, b] path m) = DEGRADED
    \<and> latent_regressions (audit_trajectory env th [a, b] path m) = [''CEGIS008'']"
proof -
  obtain s acc where s: "audit_step env th path 0 a new_accumulator = (s, acc)"
    by (cases "audit_step env th path 0 a new_accumulator")
  have sv: "violations s = vs" using audit_step_simps(2) [OF s] assms(1) by (simp add: no_repeats_at_first)
  have acc: "accumulated (map counterexample_hash vs) acc"
    using accumulated_register_all [OF accumulated_new, of vs 0] audit_step_simps(1) [OF s] sv by simp
  obtain s' acc' where s': "audit_step env th path (Suc 0) b acc = (s', acc')"
    by (cases "audit_step env th path (Suc 0) b acc")
  let ?r = "check_for_repeat_violation env acc ws"
  have sv': "violations s' = ws @ ?r" using audit_step_simps(2) [OF s'] assms(2) by simp
  have "counterexample_hash ` set ws \<subseteq> set (map counterexample_hash vs)" using assms(4) by auto
  then have r: "length ?r = length ws" "\<forall>v\<in>set ?r. rule_id v = ''CEGIS008''"
    using repeats_all [OF acc, of ws env] by auto
  have verifier_rules_all: "\<forall>v\<in>set vs. rule_id v \<noteq> ''CEGIS008''"
    using assms(1) verifier_rules by blast
  have "vs \<noteq> []" using assms(3,4) by auto
  then have regress: "step_regressions s s' = [''CEGIS008'']"
    using regressions_of_repeats [OF sv sv' assms(4) verifier_rules_all r(2)] r(1) assms(3)
    by (metis length_0_conv)
  have failed: "\<not> passed s'"
    using assms(2,3) audit_step_simps(3) [OF s'] by (auto simp: clean_iff_invariants [symmetric, of _ _ _ path])
  have "detect_cycles [s, s'] = []"
    using assms(6) audit_step_simps(5) [OF s] audit_step_simps(5) [OF s']
    by (simp add: detect_cycles_eq repeated_programs_Nil)
  then show ?thesis
    using failed regress sv sv' r(1) assms(5)
    by (simp add: audit_trajectory_def s s' evaluate_def Let_def classify_non_converged_def)
qed

definition demo_environment :: "string environment" where
  "demo_environment = \<lparr>ast_parse = (\<lambda>s. Inr (Py_Node s Other_Node 0 []
       [Py_Node s (Function_Def ''f'' \<lparr>posonlyargs = [], plain_args = [''a'', ''b'', ''c''], kwonlyargs = [''d'', ''e''],
          vararg = None, kwarg = None\<rparr>) 1 [] [] []] [])),
     ast_dump = (\<lambda>s. s), radon = (\<lambda>s. ([1], [], 1)), sha256 = (\<lambda>s. s)\<rparr>"

lemma demo_violations:
  "fst (verify_source demo_environment (preset_thresholds STRICT) s ''m.py'') =
     bound_violation demo_environment ''CEGIS003''
       (\<lambda>n c. ''Parameter count P='' @ show_int n @ '' exceeds ceiling P<='' @ show_int c @ '' in '')
       ''params_'' ''f'' 1 ''m.py'' 5 4"
  by (simp add: verify_source_def demo_environment_def inspect_functions_def walk_def iter_child_nodes_def
      string_constants_ips_def scan_constant_def function_invariants_def cyclomatic_complexity_def
      max_default_def nesting_depth_def count_parameters_def preset_thresholds_def assertion_sprawl_def
      starts_with_def bound_violation_def)

lemma demo_hash: "ast_normalized_hash demo_environment s = s"
  by (simp add: ast_normalized_hash_def demo_environment_def)

theorem partial_repair_degrades_witness:
  "status (audit_trajectory demo_environment (preset_thresholds STRICT) [''x = 1'', ''y = 1''] ''m.py'' 10) = DEGRADED
   \<and> latent_regressions (audit_trajectory demo_environment (preset_thresholds STRICT) [''x = 1'', ''y = 1''] ''m.py'' 10)
     = [''CEGIS008'']"
  by (rule partial_repair_degrades [OF refl refl])
    (simp_all add: demo_violations bound_violation_Nil demo_hash)

lemma regression_after_clean_step_unseen:
  "violations a = [] \<Longrightarrow> detect_latent_regressions [a, b] = []"
  by (simp add: step_regressions_def)

lemma positional_only_receiver_counted:
  "count_parameters \<lparr>posonlyargs = [''self''], plain_args = [''a''], kwonlyargs = [], vararg = None, kwarg = None\<rparr> = 2
   \<and> count_parameters \<lparr>posonlyargs = [], plain_args = [''self'', ''a''], kwonlyargs = [], vararg = None, kwarg = None\<rparr> = 1"
  by (simp add: count_parameters_def)

end
