(* ===== verification/Lsm_Gate.thy ===== *)
theory Lsm_Gate
  imports Py_Ipaddress
begin

text \<open>
  \<open>examples/ebpf-lsm-kernel-gate/lsm_gate.py\<close>: the hooks, the policy, the decision on an event, the
  fuzzing campaign and the SARIF report. \<open>is_private\<close> of the module \<open>ipaddress\<close> is a parameter: the
  networks it knows differ between Python releases.
\<close>

section \<open>Events and policies\<close>

definition DISALLOWED_BINARIES :: "string list" where
  "DISALLOWED_BINARIES = [''nc'', ''ncat'', ''netcat'', ''socat'', ''telnet'', ''chattr'', ''tcpdump'']"

definition DEFAULT_ALLOWED_BINARIES :: "string list" where
  "DEFAULT_ALLOWED_BINARIES = [''python'', ''pytest'', ''git'', ''bash'', ''sh'', ''ruff'', ''cargo'', ''go'']"

definition BLOCKED_PATH_PREFIXES :: "string list" where
  "BLOCKED_PATH_PREFIXES =
     [''/etc/shadow'', ''/etc/sudoers'', ''/root'', ''~/.ssh'', ''~/.aws'', ''.git/hooks'', ''/proc/kcore'']"

definition METADATA_ENDPOINT :: string where
  "METADATA_ENDPOINT = ''169.254.169.254''"

datatype lsm_hook = BPRM_CHECK | FILE_OPEN | SOCKET_CONNECT | TASK_SETUID | CAPSET

datatype lsm_verdict = ALLOW | BLOCK | AUDIT

record lsm_event =
  hook :: lsm_hook
  comm :: string
  target :: string
  flags :: int
  uid :: int
  pid :: int

definition new_event :: "lsm_hook \<Rightarrow> string \<Rightarrow> string \<Rightarrow> lsm_event" where
  "new_event h c t = \<lparr>hook = h, comm = c, target = t, flags = 0, uid = 1000, pid = 1001\<rparr>"

text \<open>\<open>enforce_syz_bounds\<close> is a field that no decision reads.\<close>

record lsm_policy =
  allowed_binaries :: "string set"
  blocked_binaries :: "string set"
  blocked_paths :: "string list"
  allow_loopback_only :: bool
  enforce_syz_bounds :: bool

definition default_policy :: lsm_policy where
  "default_policy = \<lparr>allowed_binaries = set DEFAULT_ALLOWED_BINARIES, blocked_binaries = set DISALLOWED_BINARIES,
     blocked_paths = BLOCKED_PATH_PREFIXES, allow_loopback_only = True, enforce_syz_bounds = True\<rparr>"

record lsm_finding =
  rule_id :: string
  verdict :: lsm_verdict
  event :: lsm_event
  reason :: string

definition block :: "string \<Rightarrow> lsm_event \<Rightarrow> string \<Rightarrow> lsm_finding" where
  "block rule e why = \<lparr>rule_id = rule, verdict = BLOCK, event = e, reason = why\<rparr>"

section \<open>Decisions\<close>

definition is_suspicious_evasion :: "string \<Rightarrow> bool" where
  "is_suspicious_evasion t \<longleftrightarrow>
     CHR 0x00 \<in> set t \<or> contains_sub [CHR 0x5C, CHR ''0''] t
     \<or> list_ex (\<lambda>p. contains_sub p t) [''..//'', ''.../'', ''/..'', [CHR 0x5C, CHR ''.'', CHR ''.'']]"

definition evaluate_evasion :: "lsm_event \<Rightarrow> lsm_finding option" where
  "evaluate_evasion e =
     (if flags e < 0 \<or> is_suspicious_evasion (target e)
      then Some (block ''LSM005'' e (''Adversarial syscall evasion attempt: '' @ target e)) else None)"

definition evaluate_bprm :: "lsm_event \<Rightarrow> lsm_policy \<Rightarrow> lsm_finding option" where
  "evaluate_bprm e pol = (let c = py_lower (py_strip (comm e)) in
     if c \<in> blocked_binaries pol
     then Some (block ''LSM001'' e (''Explicitly blocked binary execution: '' @ c))
     else if c \<noteq> '''' \<and> c \<notin> allowed_binaries pol
     then Some (block ''LSM001'' e (''Unauthorized binary outside sandbox allowlist: '' @ c))
     else None)"

definition clean_ip_target :: "string \<Rightarrow> string" where
  "clean_ip_target t = (let clean = py_strip t in
     if starts_with clean ''['' \<and> CHR '']'' \<in> set clean
     then takeWhile (\<lambda>c. c \<noteq> CHR '']'') (tl clean)
     else if count_list clean CHR '':'' = 1 then hd (py_split '':'' clean)
     else clean)"

definition is_ip_blocked :: "(ip_address \<Rightarrow> bool) \<Rightarrow> string \<Rightarrow> bool \<Rightarrow> bool" where
  "is_ip_blocked is_private t loopback_only = (case ip_address_of (clean_ip_target t) of
     None \<Rightarrow> False
   | Some ip \<Rightarrow>
       if is_loopback ip then False
       else if is_private ip \<or> is_link_local ip \<or> Some ip = ip_address_of METADATA_ENDPOINT then True
       else loopback_only)"

definition evaluate_socket :: "(ip_address \<Rightarrow> bool) \<Rightarrow> lsm_event \<Rightarrow> lsm_policy \<Rightarrow> lsm_finding option" where
  "evaluate_socket is_private e pol = (let t = py_strip (target e) in
     if t = METADATA_ENDPOINT \<or> is_ip_blocked is_private t (allow_loopback_only pol)
     then Some (block ''LSM002'' e (''Network egress violation to unauthorized address: '' @ t))
     else None)"

definition evaluate_file :: "lsm_event \<Rightarrow> lsm_policy \<Rightarrow> lsm_finding option" where
  "evaluate_file e pol = (let norm = py_strip (target e) in
     if list_ex (\<lambda>p. starts_with norm p \<or> contains_sub p norm) (blocked_paths pol)
     then Some (block ''LSM003'' e (''Sensitive filesystem path access blocked: '' @ norm))
     else None)"

definition evaluate_privilege :: "lsm_event \<Rightarrow> lsm_policy \<Rightarrow> lsm_finding option" where
  "evaluate_privilege e pol =
     (if uid e = 0 \<or> py_lower (target e) \<in> {''root'', ''cap_sys_admin'', ''cap_net_admin''}
      then Some (block ''LSM004'' e (''Privilege escalation attempt: '' @ target e)) else None)"

definition hook_evaluator :: "(ip_address \<Rightarrow> bool) \<Rightarrow> lsm_event \<Rightarrow> lsm_policy \<Rightarrow> lsm_finding option" where
  "hook_evaluator is_private e pol = (case hook e of
     BPRM_CHECK \<Rightarrow> evaluate_bprm e pol
   | SOCKET_CONNECT \<Rightarrow> evaluate_socket is_private e pol
   | FILE_OPEN \<Rightarrow> evaluate_file e pol
   | TASK_SETUID \<Rightarrow> evaluate_privilege e pol
   | CAPSET \<Rightarrow> evaluate_privilege e pol)"

definition evaluate_event :: "(ip_address \<Rightarrow> bool) \<Rightarrow> lsm_event \<Rightarrow> lsm_policy \<Rightarrow> lsm_finding" where
  "evaluate_event is_private e pol = (case evaluate_evasion e of
     Some f \<Rightarrow> f
   | None \<Rightarrow> (case hook_evaluator is_private e pol of
       Some f \<Rightarrow> f
     | None \<Rightarrow> \<lparr>rule_id = ''LSM000'', verdict = ALLOW, event = e, reason = ''Permitted by in-kernel LSM policy''\<rparr>))"

section \<open>The fuzzing campaign\<close>

definition generate_syz_path_mutations :: "string \<Rightarrow> string list" where
  "generate_syz_path_mutations base =
     [base @ ''/../../etc/shadow'', base @ ''//..//root'', base @ ''/.../etc/sudoers'',
      base @ ''/'' @ [CHR 0x5C, CHR ''0''] @ ''.git/hooks'', base @ ''/.git/hooks/pre-commit'']"

text \<open>Three of the addresses are written as bytes in the source, which keeps them out of its text.\<close>

definition generate_syz_socket_mutations :: "string list" where
  "generate_syz_socket_mutations =
     [METADATA_ENDPOINT, ''10.0.0.1'', ''172.16.0.1'', ''192.168.1.1'', ''fd00::1'', ''127.0.0.1'']"

definition collect_fuzz_events :: "string \<Rightarrow> lsm_event list" where
  "collect_fuzz_events base =
     map (new_event FILE_OPEN ''runner'') (generate_syz_path_mutations base)
     @ map (new_event SOCKET_CONNECT ''runner'') generate_syz_socket_mutations
     @ map (\<lambda>b. new_event BPRM_CHECK b (''/bin/'' @ b)) [''nc'', ''socat'', ''unknown_compiler'']
     @ [(new_event TASK_SETUID ''runner'' ''root'')\<lparr>uid := 0\<rparr>]"

record fuzz_report =
  total_probes :: int
  blocked_probes :: int
  allowed_probes :: int
  containment_rate :: py_float
  monotonically_contained :: bool

definition run_fuzz_campaign :: "(ip_address \<Rightarrow> bool) \<Rightarrow> lsm_policy \<Rightarrow> fuzz_report" where
  "run_fuzz_campaign is_private pol =
     (let events = collect_fuzz_events ''/workspace'';
          blocked = int (length (filter (\<lambda>e. verdict (evaluate_event is_private e pol) = BLOCK) events));
          whole = int (length events);
          allowed = whole - blocked in
      \<lparr>total_probes = whole, blocked_probes = blocked, allowed_probes = allowed,
       containment_rate = (if whole > 0 then py_round 3 (of_int blocked / of_int whole) else 1),
       monotonically_contained = (allowed \<le> 1)\<rparr>)"

section \<open>Reports\<close>

definition lsm_rules :: json where
  "lsm_rules = JArr (map (\<lambda>(i, n, t). JObj
       [(''id'', JStr i), (''name'', JStr n), (''shortDescription'', JObj [(''text'', JStr t)])])
     [(''LSM001'', ''UnauthorizedBinaryExecution'', ''Binary execution outside allowlist''),
      (''LSM002'', ''NetworkEgressViolation'', ''Socket connect to unauthorized address''),
      (''LSM003'', ''SensitivePathAccess'', ''Filesystem path access blocked''),
      (''LSM004'', ''PrivilegeEscalation'', ''Unauthorized setuid or privilege claim''),
      (''LSM005'', ''AdversarialEvasion'', ''Syscall parameter evasion detected'')])"

definition lsm_sarif_result :: "lsm_finding \<Rightarrow> json" where
  "lsm_sarif_result f = JObj
     [(''ruleId'', JStr (rule_id f)), (''level'', JStr ''error''), (''message'', JObj [(''text'', JStr (reason f))]),
      (''locations'', JArr [JObj [(''physicalLocation'', JObj
        [(''artifactLocation'', JObj [(''uri'', JStr (comm (event f)))])])]])]"

definition format_sarif :: "lsm_finding list \<Rightarrow> json" where
  "format_sarif fs = JObj
     [(''$schema'', JStr ''https://json.schemastore.org/sarif-2.1.0.json''), (''version'', JStr ''2.1.0''),
      (''runs'', JArr [JObj
        [(''tool'', JObj [(''driver'', JObj
           [(''name'', JStr ''lsm_kernel_gate''), (''version'', JStr ''1.0.0''), (''rules'', lsm_rules)])]),
         (''results'', JArr (map lsm_sarif_result (filter (\<lambda>f. verdict f = BLOCK) fs)))]])]"

text \<open>Exit codes of the subcommands \<open>eval\<close> and \<open>fuzz\<close>.\<close>

definition handle_eval :: "(ip_address \<Rightarrow> bool) \<Rightarrow> lsm_event \<Rightarrow> lsm_policy \<Rightarrow> int" where
  "handle_eval is_private e pol = (if verdict (evaluate_event is_private e pol) = BLOCK then 1 else 0)"

definition handle_fuzz :: "(ip_address \<Rightarrow> bool) \<Rightarrow> lsm_policy \<Rightarrow> int" where
  "handle_fuzz is_private pol = (if monotonically_contained (run_fuzz_campaign is_private pol) then 0 else 1)"

text \<open>
  The gate is monotone in its policy; which connections a loopback-only policy lets through; the
  fuzzing campaign; paths that the substring test misses.
\<close>

section \<open>Monotone containment\<close>

text \<open>A policy is stricter when it allows fewer binaries, blocks more, and confines connections.\<close>

definition stricter :: "lsm_policy \<Rightarrow> lsm_policy \<Rightarrow> bool" where
  "stricter pol pol' \<longleftrightarrow> allowed_binaries pol' \<subseteq> allowed_binaries pol
     \<and> blocked_binaries pol \<subseteq> blocked_binaries pol'
     \<and> set (blocked_paths pol) \<subseteq> set (blocked_paths pol')
     \<and> (allow_loopback_only pol \<longrightarrow> allow_loopback_only pol')"

lemma block_verdict [simp]: "verdict (block r e w) = BLOCK"
  by (simp add: block_def)

lemma evaluators_block:
  "evaluate_evasion e = Some f \<Longrightarrow> verdict f = BLOCK"
  "hook_evaluator is_private e pol = Some f \<Longrightarrow> verdict f = BLOCK"
  by (auto simp: evaluate_evasion_def hook_evaluator_def evaluate_bprm_def evaluate_socket_def
      evaluate_file_def evaluate_privilege_def Let_def split: lsm_hook.splits if_splits)

lemma evaluate_event_BLOCK:
  "verdict (evaluate_event is_private e pol) = BLOCK \<longleftrightarrow>
     evaluate_evasion e \<noteq> None \<or> hook_evaluator is_private e pol \<noteq> None"
  by (auto simp: evaluate_event_def evaluators_block split: option.splits)

lemma evaluate_event_ALLOW:
  "verdict (evaluate_event is_private e pol) = ALLOW \<longleftrightarrow>
     verdict (evaluate_event is_private e pol) \<noteq> BLOCK"
  by (auto simp: evaluate_event_def dest: evaluators_block split: option.splits)

lemma is_ip_blocked_mono:
  "is_ip_blocked is_private t l \<Longrightarrow> (l \<Longrightarrow> l') \<Longrightarrow> is_ip_blocked is_private t l'"
  by (auto simp: is_ip_blocked_def split: option.splits if_splits)

lemma hook_evaluator_mono:
  assumes "stricter pol pol'" "hook_evaluator is_private e pol \<noteq> None"
  shows "hook_evaluator is_private e pol' \<noteq> None"
proof (cases "hook e")
  case BPRM_CHECK
  then show ?thesis using assms
    by (auto simp: hook_evaluator_def evaluate_bprm_def stricter_def Let_def split: if_splits)
next
  case FILE_OPEN
  then show ?thesis using assms
    by (auto simp: hook_evaluator_def evaluate_file_def stricter_def Let_def list_ex_iff split: if_splits)
next
  case SOCKET_CONNECT
  then show ?thesis using assms is_ip_blocked_mono
    by (auto simp: hook_evaluator_def evaluate_socket_def stricter_def Let_def split: if_splits)
qed (use assms in \<open>auto simp: hook_evaluator_def evaluate_privilege_def split: if_splits\<close>)

text \<open>Whatever a policy blocks, every stricter policy blocks: no restriction opens a hole.\<close>

theorem stricter_policy_contains:
  assumes "stricter pol pol'" "verdict (evaluate_event is_private e pol) = BLOCK"
  shows "verdict (evaluate_event is_private e pol') = BLOCK"
  using assms hook_evaluator_mono by (auto simp: evaluate_event_BLOCK)

theorem stricter_policy_contains_witness:
  "verdict (evaluate_event (\<lambda>_. False) (new_event FILE_OPEN ''sh'' ''/srv/keys'')
     (default_policy\<lparr>blocked_paths := [''/srv/keys'', ''/opt'']\<rparr>)) = BLOCK"
proof (rule stricter_policy_contains)
  show "stricter (default_policy\<lparr>blocked_paths := [''/srv/keys'']\<rparr>)
      (default_policy\<lparr>blocked_paths := [''/srv/keys'', ''/opt'']\<rparr>)"
    by (simp add: stricter_def default_policy_def)
  show "verdict (evaluate_event (\<lambda>_. False) (new_event FILE_OPEN ''sh'' ''/srv/keys'')
      (default_policy\<lparr>blocked_paths := [''/srv/keys'']\<rparr>)) = BLOCK"
    by code_simp
qed

section \<open>Connections\<close>

lemma metadata_parses: "ip_address_of (clean_ip_target METADATA_ENDPOINT) = Some (IPv4 0xA9FEA9FE)"
  by code_simp

lemma is_ip_blocked_loopback:
  "is_ip_blocked is_private t True \<longleftrightarrow> (case ip_address_of (clean_ip_target t) of
     None \<Rightarrow> False | Some ip \<Rightarrow> \<not> is_loopback ip)"
  by (auto simp: is_ip_blocked_def split: option.splits)

lemma metadata_blocked: "is_ip_blocked is_private METADATA_ENDPOINT True"
  by (simp add: is_ip_blocked_loopback metadata_parses is_loopback_def)

text \<open>Under a policy that confines connections to the loopback, a connection passes exactly when
  it shows no evasion and its host is a loopback address or no address at all: a host name that
  resolves to any machine is let through, whatever the private networks are.\<close>

theorem loopback_only_admits_names:
  assumes "allow_loopback_only pol" "hook e = SOCKET_CONNECT"
  shows "verdict (evaluate_event is_private e pol) = ALLOW \<longleftrightarrow>
     0 \<le> flags e \<and> \<not> is_suspicious_evasion (target e)
     \<and> (case ip_address_of (clean_ip_target (py_strip (target e))) of None \<Rightarrow> True | Some ip \<Rightarrow> is_loopback ip)"
  using assms metadata_blocked [of is_private]
  by (auto simp: evaluate_event_ALLOW evaluate_event_BLOCK hook_evaluator_def evaluate_socket_def
      evaluate_evasion_def Let_def is_ip_blocked_loopback split: option.splits)

theorem loopback_only_admits_names_witness:
  "verdict (evaluate_event (\<lambda>_. True) (new_event SOCKET_CONNECT ''sh'' ''intranet:80'') default_policy) = ALLOW"
  by (subst loopback_only_admits_names)
    (simp add: default_policy_def, simp add: new_event_def, code_simp)

section \<open>The campaign\<close>

lemma path_probes:
  "list_all (\<lambda>e. verdict (evaluate_event is_private e default_policy) = BLOCK)
     (map (new_event FILE_OPEN ''runner'') (generate_syz_path_mutations ''/workspace''))"
  by code_simp

lemma egress_blocked:
  assumes "case ip_address_of (clean_ip_target (py_strip t)) of None \<Rightarrow> False | Some ip \<Rightarrow> \<not> is_loopback ip"
  shows "verdict (evaluate_event is_private (new_event SOCKET_CONNECT c t) default_policy) = BLOCK"
  using assms by (simp add: evaluate_event_BLOCK hook_evaluator_def evaluate_socket_def new_event_def
      default_policy_def is_ip_blocked_loopback)

lemma socket_probes:
  "list_all (\<lambda>t. case ip_address_of (clean_ip_target (py_strip t)) of None \<Rightarrow> False | Some ip \<Rightarrow> \<not> is_loopback ip)
     [METADATA_ENDPOINT, ''10.0.0.1'', ''172.16.0.1'', ''192.168.1.1'', ''fd00::1'']"
  by code_simp

lemma loopback_probe:
  "verdict (evaluate_event is_private (new_event SOCKET_CONNECT ''runner'' ''127.0.0.1'') default_policy) = ALLOW"
  by code_simp

lemma other_probes:
  "list_all (\<lambda>e. verdict (evaluate_event is_private e default_policy) = BLOCK)
     (map (\<lambda>b. new_event BPRM_CHECK b (''/bin/'' @ b)) [''nc'', ''socat'', ''unknown_compiler'']
      @ [(new_event TASK_SETUID ''runner'' ''root'')\<lparr>uid := 0\<rparr>])"
  by code_simp

lemma filter_all: "list_all P xs \<Longrightarrow> filter P xs = xs"
  by (simp add: list_all_iff filter_id_conv)

text \<open>The fuzzing campaign against the default policy blocks all of its probes but the loopback
  one, whichever networks count as private, and reports the containment.\<close>

theorem campaign_contained:
  "run_fuzz_campaign is_private default_policy =
     \<lparr>total_probes = 15, blocked_probes = 14, allowed_probes = 1, containment_rate = 933 / 1000,
      monotonically_contained = True\<rparr>"
proof -
  let ?b = "\<lambda>e. verdict (evaluate_event is_private e default_policy) = BLOCK"
  have "list_all ?b (map (new_event SOCKET_CONNECT ''runner'')
      [METADATA_ENDPOINT, ''10.0.0.1'', ''172.16.0.1'', ''192.168.1.1'', ''fd00::1''])"
    using socket_probes egress_blocked [where is_private = is_private and c = "''runner''"]
    by (simp only: list.pred_inject list.map simp_thms)
  then have "filter ?b (map (new_event SOCKET_CONNECT ''runner'') generate_syz_socket_mutations) =
      map (new_event SOCKET_CONNECT ''runner'')
        [METADATA_ENDPOINT, ''10.0.0.1'', ''172.16.0.1'', ''192.168.1.1'', ''fd00::1'']"
    using loopback_probe [of is_private] by (simp add: generate_syz_socket_mutations_def)
  then have "length (filter ?b (collect_fuzz_events ''/workspace'')) = 14"
    using filter_all [OF path_probes, of is_private] filter_all [OF other_probes, of is_private]
    by (simp only: collect_fuzz_events_def filter_append length_append length_map list.size
        generate_syz_path_mutations_def)
  moreover have "length (collect_fuzz_events ''/workspace'') = 15"
    by (simp add: collect_fuzz_events_def generate_syz_path_mutations_def generate_syz_socket_mutations_def)
  moreover have "\<lfloor>2800 / 3 :: rat\<rfloor> = 933" by (simp add: floor_eq_iff)
  then have "py_round 3 (14 / 15) = 933 / 1000" by (simp add: py_round_def round_half_even_def)
  ultimately show ?thesis by (simp only: run_fuzz_campaign_def Let_def) simp
qed

section \<open>Files\<close>

lemma starts_contains: "starts_with s p \<Longrightarrow> contains_sub p s"
  by (auto simp: contains_sub_iff starts_with_def dest: prefix_imp_sublist)

lemma file_gate:
  "evaluate_file e pol \<noteq> None \<longleftrightarrow> list_ex (\<lambda>p. contains_sub p (py_strip (target e))) (blocked_paths pol)"
  using starts_contains by (auto simp: evaluate_file_def Let_def list_ex_iff)

lemma doubled_slash_passes:
  "verdict (evaluate_event is_private (new_event FILE_OPEN ''sh'' ''/etc//shadow'') default_policy) = ALLOW"
  by code_simp

lemma unrelated_path_blocked:
  "verdict (evaluate_event is_private (new_event FILE_OPEN ''sh'' ''/workspace/rootfs/a'') default_policy) = BLOCK"
  by code_simp

lemma blank_command_passes:
  "verdict (evaluate_event is_private (new_event BPRM_CHECK '' '' ''/bin/nc'') default_policy) = ALLOW"
  by code_simp
end
