(* ===== verification/Worktree_Arbiter.thy ===== *)
theory Worktree_Arbiter
  imports Py_Json
begin

text \<open>
  \<open>examples/worktree-swarm-arbiter/worktree_arbiter.py\<close>: leases on git worktrees, their allocation,
  heartbeat, release and expiry, and the reports on the fleet. The clock, the lock file, \<open>sleep\<close>, git,
  \<open>mkdir\<close> and \<open>killpg\<close> act on a world that every operation threads through.
\<close>

section \<open>Leases\<close>

definition DEFAULT_LEASE_TTL_SECONDS :: py_float where
  "DEFAULT_LEASE_TTL_SECONDS = 3600"

definition RULE_CODES :: "(string \<times> string) list" where
  "RULE_CODES = [(''LOCK_CONTENTION'', ''WT001''), (''LEASE_EXPIRED'', ''WT002''),
     (''ORPHANED_WORKTREE'', ''WT003''), (''PROCESS_LEAK'', ''WT004'')]"

record worktree_lease =
  lease_id :: string
  agent_id :: string
  branch_name :: string
  worktree_path :: string
  allocated_at :: py_float
  expires_at :: py_float
  last_heartbeat :: py_float
  process_group_id :: int

record fleet_status =
  active_leases :: "worktree_lease list"
  stale_leases :: "worktree_lease list"
  lock_contention_events :: int
  total_allocated :: int
  pruned_count :: int

text \<open>What a run of git ends with: the exception of a timeout or a missing program, or its exit code
  and outputs. \<open>killpg\<close> says whether the signal was delivered, \<open>make_parent\<close> whether the directory exists
  after \<open>mkdir\<close>.\<close>

record 'w world_ops =
  clock :: "'w \<Rightarrow> py_float \<times> 'w"
  index_locked :: "'w \<Rightarrow> bool \<times> 'w"
  sleep :: "py_float \<Rightarrow> 'w \<Rightarrow> 'w"
  run_git :: "string list \<Rightarrow> 'w \<Rightarrow> (string + int \<times> string \<times> string) \<times> 'w"
  killpg :: "int \<Rightarrow> 'w \<Rightarrow> bool \<times> 'w"
  make_parent :: "string \<Rightarrow> 'w \<Rightarrow> bool \<times> 'w"
  resolve_path :: "string \<Rightarrow> string \<Rightarrow> string"

text \<open>\<open>now or time.time()\<close>: an argument of zero reads the clock too.\<close>

definition or_clock :: "'w world_ops \<Rightarrow> py_float option \<Rightarrow> 'w \<Rightarrow> py_float \<times> 'w" where
  "or_clock ops t w = (case t of Some x \<Rightarrow> if x \<noteq> 0 then (x, w) else clock ops w | None \<Rightarrow> clock ops w)"

definition py_isalnum_char :: "char \<Rightarrow> bool" where
  "py_isalnum_char c = (let n = (of_char c :: nat) in
     (48 \<le> n \<and> n \<le> 57) \<or> (65 \<le> n \<and> n \<le> 90) \<or> (97 \<le> n \<and> n \<le> 122)
     \<or> n \<in> {170, 178, 179, 181, 185, 186, 188, 189, 190} \<or> (192 \<le> n \<and> n \<noteq> 215 \<and> n \<noteq> 247))"

definition truncate_float :: "py_float \<Rightarrow> int" where
  "truncate_float q = (if q < 0 then - \<lfloor>- q\<rfloor> else \<lfloor>q\<rfloor>)"

definition lease_name :: "string \<Rightarrow> int \<Rightarrow> string" where
  "lease_name agent ts =
     ''wt-'' @ map (\<lambda>c. if py_isalnum_char c then c else CHR ''-'') (py_lower agent) @ ''-'' @ show_int ts"

definition generate_lease_id :: "'w world_ops \<Rightarrow> string \<Rightarrow> py_float option \<Rightarrow> 'w \<Rightarrow> string \<times> 'w" where
  "generate_lease_id ops agent t w = (case or_clock ops t w of (x, w') \<Rightarrow> (lease_name agent (truncate_float x), w'))"

section \<open>Operations\<close>

text \<open>\<open>wait_for_index_lock\<close>, with five attempts a twentieth of a second apart.\<close>

fun wait_for_index_lock :: "'w world_ops \<Rightarrow> nat \<Rightarrow> py_float \<Rightarrow> 'w \<Rightarrow> bool \<times> 'w" where
  "wait_for_index_lock ops 0 delay w = (False, w)"
| "wait_for_index_lock ops (Suc n) delay w =
     (case index_locked ops w of (locked, w') \<Rightarrow>
        if \<not> locked then (True, w') else wait_for_index_lock ops n delay (sleep ops delay w'))"

definition run_git_command :: "'w world_ops \<Rightarrow> string list \<Rightarrow> 'w \<Rightarrow> (int \<times> string) \<times> 'w" where
  "run_git_command ops cmd w = (case run_git ops cmd w of
     (Inl exc, w') \<Rightarrow> ((1, ''GIT_EXEC_ERROR: '' @ exc), w')
   | (Inr (code, out, err), w') \<Rightarrow>
       ((code, if py_strip out \<noteq> '''' then py_strip out else py_strip err), w'))"

definition build_worktree_lease :: "'w world_ops \<Rightarrow> string \<Rightarrow> string \<Rightarrow> py_float \<Rightarrow> 'w \<Rightarrow> worktree_lease \<times> 'w" where
  "build_worktree_lease ops agent base ttl w =
     (case clock ops w of (now, w1) \<Rightarrow>
      case generate_lease_id ops agent (Some now) w1 of (lid, w2) \<Rightarrow>
      (\<lparr>lease_id = lid, agent_id = agent, branch_name = ''agent/'' @ lid,
        worktree_path = resolve_path ops base lid, allocated_at = now, expires_at = now + ttl,
        last_heartbeat = now, process_group_id = 0\<rparr>, w2))"

definition allocate_worktree :: "'w world_ops \<Rightarrow> worktree_lease \<Rightarrow> 'w \<Rightarrow> (bool \<times> string) py \<times> 'w" where
  "allocate_worktree ops lease w =
     (case wait_for_index_lock ops 5 (1 / 20) w of (free, w1) \<Rightarrow>
        if \<not> free then (Inr (False, ''INDEX_LOCK_TIMEOUT''), w1)
        else (case make_parent ops (worktree_path lease) w1 of (made, w2) \<Rightarrow>
          if \<not> made then (Inl Os_Error, w2)
          else (case run_git_command ops
              [''worktree'', ''add'', ''-b'', branch_name lease, worktree_path lease, ''HEAD''] w2 of ((code, out), w3) \<Rightarrow>
            (if code \<noteq> 0 then Inr (False, ''WORKTREE_ADD_FAILED: '' @ out) else Inr (True, lease_id lease), w3))))"

definition terminate_lease_process_group :: "'w world_ops \<Rightarrow> worktree_lease \<Rightarrow> 'w \<Rightarrow> bool \<times> 'w" where
  "terminate_lease_process_group ops lease w =
     (if process_group_id lease \<le> 0 then (True, w) else killpg ops (process_group_id lease) w)"

definition release_worktree :: "'w world_ops \<Rightarrow> worktree_lease \<Rightarrow> 'w \<Rightarrow> (bool \<times> string) \<times> 'w" where
  "release_worktree ops lease w =
     (case terminate_lease_process_group ops lease w of (_, w1) \<Rightarrow>
      case run_git_command ops [''worktree'', ''remove'', ''--force'', worktree_path lease] w1 of ((code, out), w2) \<Rightarrow>
      case run_git_command ops [''worktree'', ''prune''] w2 of (_, w3) \<Rightarrow>
      case run_git_command ops [''branch'', ''-D'', branch_name lease] w3 of (_, w4) \<Rightarrow>
      ((code = 0, out), w4))"

definition is_lease_expired :: "'w world_ops \<Rightarrow> worktree_lease \<Rightarrow> py_float option \<Rightarrow> 'w \<Rightarrow> bool \<times> 'w" where
  "is_lease_expired ops lease now w = (case or_clock ops now w of (t, w') \<Rightarrow> (t \<ge> expires_at lease, w'))"

definition refresh_lease_heartbeat :: "'w world_ops \<Rightarrow> worktree_lease \<Rightarrow> py_float \<Rightarrow> 'w \<Rightarrow> worktree_lease \<times> 'w" where
  "refresh_lease_heartbeat ops lease extension w =
     (case clock ops w of (now, w') \<Rightarrow>
        (lease\<lparr>expires_at := now + extension, last_heartbeat := now\<rparr>, w'))"

fun audit_leases :: "'w world_ops \<Rightarrow> py_float \<Rightarrow> worktree_lease list \<Rightarrow> fleet_status \<Rightarrow> 'w \<Rightarrow> fleet_status \<times> 'w" where
  "audit_leases ops t [] st w = (st, w)"
| "audit_leases ops t (l # ls) st w =
     (case is_lease_expired ops l (Some t) w of (expired, w') \<Rightarrow>
        audit_leases ops t ls
          (if expired then st\<lparr>stale_leases := stale_leases st @ [l]\<rparr>
           else st\<lparr>active_leases := active_leases st @ [l]\<rparr>) w')"

definition new_status :: "int \<Rightarrow> fleet_status" where
  "new_status n = \<lparr>active_leases = [], stale_leases = [], lock_contention_events = 0, total_allocated = n,
     pruned_count = 0\<rparr>"

definition audit_fleet_health ::
    "'w world_ops \<Rightarrow> worktree_lease list \<Rightarrow> py_float option \<Rightarrow> 'w \<Rightarrow> fleet_status \<times> 'w" where
  "audit_fleet_health ops leases now w = (case or_clock ops now w of (t, w') \<Rightarrow>
     audit_leases ops t leases (new_status (int (length leases))) w')"

definition prune_expired_lease :: "'w world_ops \<Rightarrow> worktree_lease \<Rightarrow> 'w \<Rightarrow> int \<times> 'w" where
  "prune_expired_lease ops lease w = (case release_worktree ops lease w of ((ok, _), w') \<Rightarrow> (if ok then 1 else 0, w'))"

fun prune_leases ::
    "'w world_ops \<Rightarrow> py_float \<Rightarrow> worktree_lease list \<Rightarrow> worktree_lease list \<times> int \<Rightarrow> 'w \<Rightarrow> (worktree_lease list \<times> int) \<times> 'w" where
  "prune_leases ops t [] acc w = (acc, w)"
| "prune_leases ops t (l # ls) (retained, n) w =
     (case is_lease_expired ops l (Some t) w of (expired, w1) \<Rightarrow>
        if expired
        then (case prune_expired_lease ops l w1 of (k, w2) \<Rightarrow> prune_leases ops t ls (retained, n + k) w2)
        else prune_leases ops t ls (retained @ [l], n) w1)"

definition prune_stale_leases ::
    "'w world_ops \<Rightarrow> worktree_lease list \<Rightarrow> py_float option \<Rightarrow> 'w \<Rightarrow> (worktree_lease list \<times> int) \<times> 'w" where
  "prune_stale_leases ops leases now w = (case or_clock ops now w of (t, w') \<Rightarrow> prune_leases ops t leases ([], 0) w')"

section \<open>Reports\<close>

definition lease_json :: "worktree_lease \<Rightarrow> json" where
  "lease_json l = JObj
     [(''lease_id'', JStr (lease_id l)), (''agent_id'', JStr (agent_id l)), (''branch_name'', JStr (branch_name l)),
      (''worktree_path'', JStr (worktree_path l)), (''allocated_at'', JFloat (allocated_at l)),
      (''expires_at'', JFloat (expires_at l)), (''last_heartbeat'', JFloat (last_heartbeat l)),
      (''process_group_id'', JInt (process_group_id l))]"

definition status_json :: "fleet_status \<Rightarrow> json" where
  "status_json st = JObj
     [(''active_leases'', JArr (map lease_json (active_leases st))),
      (''stale_leases'', JArr (map lease_json (stale_leases st))),
      (''lock_contention_events'', JInt (lock_contention_events st)),
      (''total_allocated'', JInt (total_allocated st)), (''pruned_count'', JInt (pruned_count st))]"

definition stale_result :: "worktree_lease \<Rightarrow> json" where
  "stale_result l = JObj
     [(''ruleId'', JStr ''WT002''), (''level'', JStr ''warning''),
      (''message'', JObj [(''text'', JStr (''Stale worktree lease '' @ quoted (lease_id l) @ '' for agent ''
         @ quoted (agent_id l) @ '' expired at '' @ show_float (expires_at l) @ ''.''))]),
      (''locations'', JArr [JObj [(''physicalLocation'', JObj
        [(''artifactLocation'', JObj [(''uri'', JStr (worktree_path l))]),
         (''region'', JObj [(''startLine'', JInt 1), (''startColumn'', JInt 1)])])]])]"

definition fleet_sarif :: "fleet_status \<Rightarrow> json" where
  "fleet_sarif st = JObj
     [(''$schema'', JStr ''https://raw.githubusercontent.com/oasis-tcs/sarif-spec/master/Schemata/sarif-schema-2.1.0.json''),
      (''version'', JStr ''2.1.0''),
      (''runs'', JArr [JObj
        [(''tool'', JObj [(''driver'', JObj
           [(''name'', JStr ''worktree-swarm-arbiter''), (''version'', JStr ''1.0.0''),
            (''rules'', JArr (map (\<lambda>(nm, code). JObj
              [(''id'', JStr code), (''name'', JStr nm),
               (''shortDescription'', JObj [(''text'', JStr (''Worktree fleet invariant: '' @ nm))])]) RULE_CODES))])]),
         (''results'', JArr (map stale_result (stale_leases st)))]])]"

definition lease_row :: "py_float \<Rightarrow> worktree_lease \<Rightarrow> string" where
  "lease_row now l = ''| '' @ lease_id l @ '' | '' @ agent_id l @ '' | '' @ branch_name l @ '' | ''
     @ worktree_path l @ '' | '' @ show_float (max 0 (py_round 1 (expires_at l - now))) @ '' |''"

definition fleet_markdown :: "fleet_status \<Rightarrow> py_float \<Rightarrow> string" where
  "fleet_markdown st now = join_with newline
     ([''# Worktree Swarm Arbiter Status Report'', '''',
       ''- **Total Allocated**: '' @ show_int (total_allocated st),
       ''- **Active Leases**: '' @ show_nat (length (active_leases st)),
       ''- **Stale Leases**: '' @ show_nat (length (stale_leases st)),
       ''- **Lock Contention Events**: '' @ show_int (lock_contention_events st), '''',
       ''## Active Leases'', '''', ''| Lease ID | Agent ID | Branch | Path | Expires In (s) |'', ''|---|---|---|---|---|'']
      @ map (lease_row now) (active_leases st)) @ newline"

definition status_line :: "fleet_status \<Rightarrow> string" where
  "status_line st = ''Fleet Status: '' @ show_nat (length (active_leases st)) @ '' active, ''
     @ show_nat (length (stale_leases st)) @ '' stale''"

text \<open>The subcommand \<open>allocate\<close>: its output and exit code.\<close>

definition run_allocate_command ::
    "'w world_ops \<Rightarrow> string \<Rightarrow> string \<Rightarrow> py_float \<Rightarrow> 'w \<Rightarrow> (string \<times> int) py \<times> 'w" where
  "run_allocate_command ops agent base ttl w =
     (case build_worktree_lease ops agent base ttl w of (lease, w1) \<Rightarrow>
      case allocate_worktree ops lease w1 of (r, w2) \<Rightarrow>
      (result_bind r (\<lambda>(ok, msg). Inr (if ok then (''Allocated: '' @ lease_id lease, 0) else (''Failed: '' @ msg, 1))), w2))"

text \<open>
  What a pruning of the fleet releases and keeps, the wait for git's index lock, heartbeats, and
  leases of different agents that share a worktree.
\<close>

section \<open>Expiry\<close>

lemma or_clock_given [simp]: "t \<noteq> 0 \<Longrightarrow> or_clock ops (Some t) w = (t, w)"
  by (simp add: or_clock_def)

lemma is_lease_expired_given [simp]: "t \<noteq> 0 \<Longrightarrow> is_lease_expired ops l (Some t) w = (expires_at l \<le> t, w)"
  by (simp add: is_lease_expired_def)

lemma audit_leases_eq:
  "t \<noteq> 0 \<Longrightarrow> audit_leases ops t ls st w =
     (st\<lparr>active_leases := active_leases st @ filter (\<lambda>l. t < expires_at l) ls,
        stale_leases := stale_leases st @ filter (\<lambda>l. expires_at l \<le> t) ls\<rparr>, w)"
  by (induction ls arbitrary: st) auto

text \<open>Releasing leases one after the other, and how many of the removals succeeded.\<close>

fun release_all :: "'w world_ops \<Rightarrow> worktree_lease list \<Rightarrow> 'w \<Rightarrow> int \<times> 'w" where
  "release_all ops [] w = (0, w)"
| "release_all ops (l # ls) w = (case release_worktree ops l w of ((ok, _), w1) \<Rightarrow>
     case release_all ops ls w1 of (n, w2) \<Rightarrow> ((if ok then 1 else 0) + n, w2))"

lemma release_all_bounds: "0 \<le> fst (release_all ops ls w) \<and> fst (release_all ops ls w) \<le> int (length ls)"
proof (induction ls arbitrary: w)
  case (Cons l ls)
  obtain ok out w1 where "release_worktree ops l w = ((ok, out), w1)"
    by (metis prod.collapse)
  then show ?case using Cons [of w1] by (cases "release_all ops ls w1") auto
qed simp

lemma prune_leases_eq:
  "t \<noteq> 0 \<Longrightarrow> prune_leases ops t ls (retained, k) w =
     (case release_all ops (filter (\<lambda>l. expires_at l \<le> t) ls) w of (n, w') \<Rightarrow>
        ((retained @ filter (\<lambda>l. t < expires_at l) ls, k + n), w'))"
  by (induction ls arbitrary: retained k w)
    (auto simp: prune_expired_lease_def not_le add.assoc split: prod.splits)

text \<open>C33: At any time but zero, pruning keeps exactly the leases that an audit calls active, in their
  order, and releases exactly those it calls stale, once each; a lease whose removal fails is not kept.\<close>

theorem pruning_follows_audit:
  assumes "t \<noteq> 0"
  shows "case audit_fleet_health ops ls (Some t) w of (st, w0) \<Rightarrow>
      w0 = w
    \<and> active_leases st = filter (\<lambda>l. t < expires_at l) ls
    \<and> stale_leases st = filter (\<lambda>l. expires_at l \<le> t) ls
    \<and> total_allocated st = int (length (active_leases st)) + int (length (stale_leases st))
    \<and> prune_stale_leases ops ls (Some t) w =
        (case release_all ops (stale_leases st) w of (n, w') \<Rightarrow> ((active_leases st, n), w'))"
proof -
  have "length ls = length (filter (\<lambda>l. t < expires_at l) ls) + length (filter (\<lambda>l. expires_at l \<le> t) ls)"
    by (induction ls) auto
  then show ?thesis
    using assms
    by (simp add: audit_fleet_health_def audit_leases_eq new_status_def prune_stale_leases_def prune_leases_eq
        split: prod.splits)
qed

text \<open>A world that records the commands of git, which all succeed; its clock ticks.\<close>

definition demo_ops :: "(py_float \<times> string list list) world_ops" where
  "demo_ops = \<lparr>clock = (\<lambda>(t, log). (t, (t + 1, log))), index_locked = (\<lambda>w. (False, w)), sleep = (\<lambda>d (t, log). (t + d, log)),
     run_git = (\<lambda>cmd (t, log). (Inr (0, '''', ''''), (t, log @ [cmd]))), killpg = (\<lambda>_ w. (True, w)),
     make_parent = (\<lambda>_ w. (True, w)), resolve_path = (\<lambda>b l. b @ ''/'' @ l)\<rparr>"

definition demo_lease :: "string \<Rightarrow> py_float \<Rightarrow> worktree_lease" where
  "demo_lease i t = \<lparr>lease_id = i, agent_id = i, branch_name = ''agent/'' @ i, worktree_path = ''/w/'' @ i,
     allocated_at = 0, expires_at = t, last_heartbeat = 0, process_group_id = 0\<rparr>"

theorem pruning_follows_audit_witness:
  "prune_stale_leases demo_ops [demo_lease ''a'' 5, demo_lease ''b'' 20] (Some 10) (0, []) =
     (([demo_lease ''b'' 20], 1),
      (0, [[''worktree'', ''remove'', ''--force'', ''/w/a''], [''worktree'', ''prune''], [''branch'', ''-D'', ''agent/a'']]))"
  using pruning_follows_audit [where t = 10 and ops = demo_ops and ls = "[demo_lease ''a'' 5, demo_lease ''b'' 20]" and w = "(0, [])"]
  by (simp add: demo_lease_def demo_ops_def release_worktree_def terminate_lease_process_group_def
      run_git_command_def split: prod.splits)

section \<open>The index lock\<close>

text \<open>The world after some attempts that found the lock.\<close>

primrec after_attempts :: "'w world_ops \<Rightarrow> py_float \<Rightarrow> 'w \<Rightarrow> nat \<Rightarrow> 'w" where
  "after_attempts ops delay w 0 = w"
| "after_attempts ops delay w (Suc k) = sleep ops delay (snd (index_locked ops (after_attempts ops delay w k)))"

lemma after_attempts_shift:
  "after_attempts ops delay (sleep ops delay (snd (index_locked ops w))) k = after_attempts ops delay w (Suc k)"
  by (induction k) auto

lemma wait_for_index_lock_iff:
  "fst (wait_for_index_lock ops n delay w) \<longleftrightarrow>
     list_ex (\<lambda>k. \<not> fst (index_locked ops (after_attempts ops delay w k))) [0..<n]"
proof (induction n arbitrary: w)
  case (Suc n)
  have head: "list_ex P [0..<Suc n] \<longleftrightarrow> P 0 \<or> list_ex (\<lambda>k. P (Suc k)) [0..<n]" for P
    by (auto simp: list_ex_iff less_Suc_eq_0_disj simp del: upt_Suc)
  obtain locked w' where "index_locked ops w = (locked, w')" by (cases "index_locked ops w")
  then show ?case
    using Suc [of "sleep ops delay w'"]
    unfolding head after_attempts_shift [symmetric] by simp
qed simp

lemma wait_for_index_lock_timeout:
  "\<not> fst (wait_for_index_lock ops n d w) \<Longrightarrow> snd (wait_for_index_lock ops n d w) = after_attempts ops d w n"
proof (induction n arbitrary: w)
  case (Suc n)
  obtain locked w' where "index_locked ops w = (locked, w')" by (cases "index_locked ops w")
  then show ?case
    using Suc.IH [of "sleep ops d w'"] Suc.prems
    unfolding after_attempts_shift [symmetric] by (simp split: if_splits)
qed simp

text \<open>A worktree is only added when one of the five looks at git's index finds it unlocked;
  otherwise nothing but the looks and the pauses happens and the allocation reports the time-out.\<close>

theorem no_allocation_under_lock:
  "allocate_worktree ops lease w =
     (if list_ex (\<lambda>k. \<not> fst (index_locked ops (after_attempts ops (1 / 20) w k))) [0..<5]
      then (case make_parent ops (worktree_path lease) (snd (wait_for_index_lock ops 5 (1 / 20) w)) of
        (False, w') \<Rightarrow> (Inl Os_Error, w')
      | (True, w') \<Rightarrow> (case run_git_command ops
            [''worktree'', ''add'', ''-b'', branch_name lease, worktree_path lease, ''HEAD''] w' of
          ((code, out), w'') \<Rightarrow> (Inr (if code = 0 then (True, lease_id lease)
             else (False, ''WORKTREE_ADD_FAILED: '' @ out)), w'')))
      else (Inr (False, ''INDEX_LOCK_TIMEOUT''), after_attempts ops (1 / 20) w 5))"
  using wait_for_index_lock_timeout [of ops 5 "1 / 20" w] wait_for_index_lock_iff [of ops 5 "1 / 20" w]
  by (cases "wait_for_index_lock ops 5 (1 / 20) w") (auto simp: allocate_worktree_def split: prod.splits bool.splits)

section \<open>Heartbeats\<close>

text \<open>A lease that is refreshed at the given times, each with the given extension.\<close>

definition refreshed_at :: "py_float \<Rightarrow> py_float \<Rightarrow> worktree_lease \<Rightarrow> worktree_lease" where
  "refreshed_at ext t l = l\<lparr>expires_at := t + ext, last_heartbeat := t\<rparr>"

lemma refresh_is_refreshed_at:
  "fst (refresh_lease_heartbeat ops l ext w) = refreshed_at ext (fst (clock ops w)) l"
  by (simp add: refresh_lease_heartbeat_def refreshed_at_def split: prod.splits)

lemma heartbeat_keeps_alive:
  "t \<noteq> 0 \<Longrightarrow> fst (is_lease_expired ops (refreshed_at ext h l) (Some t) w) \<longleftrightarrow> h + ext \<le> t"
  by (simp add: refreshed_at_def)

lemma heartbeat_can_shorten:
  "ext < expires_at l - h \<Longrightarrow> expires_at (refreshed_at ext h l) < expires_at l"
  by (simp add: refreshed_at_def)

section \<open>Leases that collide\<close>

lemma sanitised_names_collide: "lease_name ''ci.bot'' ts = lease_name ''ci-bot'' ts"
  by code_simp

lemma colliding_leases:
  assumes "clock ops w1 = (now, w1')" "clock ops w2 = (now', w2')" "now \<noteq> 0" "now' \<noteq> 0"
    and "truncate_float now = truncate_float now'"
  shows "worktree_path (fst (build_worktree_lease ops ''ci.bot'' base ttl w1)) =
      worktree_path (fst (build_worktree_lease ops ''ci-bot'' base ttl w2))"
  using assms by (simp add: build_worktree_lease_def generate_lease_id_def sanitised_names_collide)

lemma zero_time_reads_clock: "or_clock ops (Some 0) w = clock ops w"
  by (simp add: or_clock_def)

end
