(* ===== verification/Context_Handshake.thy ===== *)
theory Context_Handshake
  imports Py_Json "HOL-Library.Multiset"
begin

text \<open>
  \<open>examples/epistemic-context-handshake/context_handshake.py\<close>: envelopes with the fingerprint of their
  contents, and the audit of a response against its envelope. SHA-256 of a document that \<open>json.dumps\<close>
  wrote is the parameter \<open>digest\<close>, the clock a parameter \<open>now\<close>.
\<close>

section \<open>Envelopes\<close>

definition HANDSHAKE_RULE_CODES :: "(string \<times> string) list" where
  "HANDSHAKE_RULE_CODES = [(''SCHEMA_VIOLATION'', ''EPI001''), (''CONTEXT_TAMPERING'', ''EPI002''),
     (''DROPPED_PRECONDITION'', ''EPI003''), (''EPISTEMIC_LOSS_HIGH'', ''EPI004'')]"

record context_envelope =
  envelope_id :: string
  parent_agent :: string
  target_subagent :: string
  required_symbols :: "string list"
  preconditions :: "string list"
  allowed_parameters :: "string list"
  context_hash :: string
  created_at :: py_float

record subagent_response =
  resp_envelope_id :: string
  subagent_id :: string
  returned_symbols :: "string list"
  provided_arguments :: "(string, json) dict"
  satisfied_preconditions :: "string list"
  execution_status :: string

record handshake_report =
  rep_envelope_id :: string
  is_valid :: bool
  epistemic_loss :: py_float
  violations :: "string list"
  certificate :: "(string \<times> json) list"

text \<open>The document is written with its keys sorted.\<close>

definition context_document :: "string list \<Rightarrow> string list \<Rightarrow> string list \<Rightarrow> json" where
  "context_document symbols pre params = JObj
     [(''parameters'', JArr (map JStr (sort params))), (''preconditions'', JArr (map JStr (sort pre))),
      (''symbols'', JArr (map JStr (sort symbols)))]"

definition compute_context_hash :: "(json \<Rightarrow> string) \<Rightarrow> string list \<Rightarrow> string list \<Rightarrow> string list \<Rightarrow> string" where
  "compute_context_hash digest symbols pre params = digest (context_document symbols pre params)"

definition create_context_envelope ::
    "(json \<Rightarrow> string) \<Rightarrow> py_float \<Rightarrow> string \<times> string \<Rightarrow> string list \<Rightarrow> string list \<Rightarrow> string list \<Rightarrow> context_envelope" where
  "create_context_envelope digest now agents symbols pre params =
     (let h = compute_context_hash digest symbols pre params in
      \<lparr>envelope_id = ''env-'' @ take 12 h, parent_agent = fst agents, target_subagent = snd agents,
       required_symbols = symbols, preconditions = pre, allowed_parameters = params, context_hash = h,
       created_at = now\<rparr>)"

definition verify_envelope_integrity :: "(json \<Rightarrow> string) \<Rightarrow> context_envelope \<Rightarrow> bool" where
  "verify_envelope_integrity digest e \<longleftrightarrow>
     compute_context_hash digest (required_symbols e) (preconditions e) (allowed_parameters e) = context_hash e"

section \<open>The audit\<close>

definition check_negative_schema_bounds :: "context_envelope \<Rightarrow> (string, json) dict \<Rightarrow> string list" where
  "check_negative_schema_bounds e args =
     map (\<lambda>p. ''UNRECOGNIZED_PARAMETER: '' @ quoted p @ '' not declared in envelope schema'')
       (filter (\<lambda>p. p \<notin> set (allowed_parameters e)) (dict_keys args))"

definition integrity_violations :: "(json \<Rightarrow> string) \<Rightarrow> context_envelope \<Rightarrow> subagent_response \<Rightarrow> string list" where
  "integrity_violations digest e r =
     (if envelope_id e \<noteq> resp_envelope_id r then [''ENVELOPE_ID_MISMATCH''] else [])
     @ (if \<not> verify_envelope_integrity digest e then [''CONTEXT_TAMPERING_DETECTED''] else [])"

definition precondition_violations :: "context_envelope \<Rightarrow> string list \<Rightarrow> string list" where
  "precondition_violations e satisfied = filter (\<lambda>p. p \<notin> set satisfied) (preconditions e)"

definition calculate_epistemic_loss :: "context_envelope \<Rightarrow> nat \<Rightarrow> nat \<Rightarrow> py_float" where
  "calculate_epistemic_loss e dropped schema_count =
     (let checks = max 1 (length (preconditions e) + length (allowed_parameters e)) in
      min 1 (py_round 4 (of_nat (dropped + schema_count) / of_nat checks)))"

text \<open>The signature is the hash of a text with the time of its making; \<open>now'\<close> is the time after.\<close>

definition handshake_certificate ::
    "(string \<Rightarrow> string) \<Rightarrow> py_float \<Rightarrow> py_float \<Rightarrow> context_envelope \<Rightarrow> subagent_response \<Rightarrow> py_float \<Rightarrow> (string \<times> json) list" where
  "handshake_certificate sha now now' e r loss =
     [(''status'', JStr ''ATTESTED''), (''envelope_id'', JStr (envelope_id e)), (''subagent_id'', JStr (subagent_id r)),
      (''epistemic_loss'', JFloat loss),
      (''signature'', JStr (sha (envelope_id e @ '':'' @ subagent_id r @ '':'' @ show_float loss @ '':'' @ show_float now))),
      (''attested_at'', JFloat now')]"

definition audit_epistemic_loss ::
    "(json \<Rightarrow> string) \<Rightarrow> (string \<Rightarrow> string) \<Rightarrow> py_float \<times> py_float \<Rightarrow> context_envelope \<Rightarrow> subagent_response \<Rightarrow> handshake_report" where
  "audit_epistemic_loss digest sha stamps e r =
     (let schema = check_negative_schema_bounds e (provided_arguments r);
          dropped = precondition_violations e (satisfied_preconditions r);
          vs = integrity_violations digest e r @ schema @ map (\<lambda>p. ''DROPPED_PRECONDITION: '' @ quoted p) dropped;
          loss = calculate_epistemic_loss e (length dropped) (length schema) in
      \<lparr>rep_envelope_id = envelope_id e, is_valid = (vs = []), epistemic_loss = loss, violations = vs,
       certificate = (if vs = [] then handshake_certificate sha (fst stamps) (snd stamps) e r loss else [])\<rparr>)"

section \<open>Reports\<close>

definition handshake_result :: "handshake_report \<Rightarrow> string \<Rightarrow> json" where
  "handshake_result rep v = JObj
     [(''ruleId'', JStr ''EPI001''), (''level'', JStr ''error''),
      (''message'', JObj [(''text'', JStr (''Epistemic seam violation in envelope '' @ quoted (rep_envelope_id rep) @ '': '' @ v))]),
      (''locations'', JArr [JObj [(''physicalLocation'', JObj
        [(''artifactLocation'', JObj [(''uri'', JStr (''agent/handshake/'' @ rep_envelope_id rep))]),
         (''region'', JObj [(''startLine'', JInt 1), (''startColumn'', JInt 1)])])]])]"

definition handshake_sarif :: "handshake_report \<Rightarrow> json" where
  "handshake_sarif rep = JObj
     [(''$schema'', JStr ''https://raw.githubusercontent.com/oasis-tcs/sarif-spec/master/Schemata/sarif-schema-2.1.0.json''),
      (''version'', JStr ''2.1.0''),
      (''runs'', JArr [JObj
        [(''tool'', JObj [(''driver'', JObj
           [(''name'', JStr ''epistemic-context-handshake''), (''version'', JStr ''1.0.0''),
            (''rules'', JArr (map (\<lambda>(nm, code). JObj
              [(''id'', JStr code), (''name'', JStr nm),
               (''shortDescription'', JObj [(''text'', JStr (''Epistemic seam invariant: '' @ nm))])]) HANDSHAKE_RULE_CODES))])]),
         (''results'', JArr (map (handshake_result rep) (violations rep)))]])]"

definition report_line :: "handshake_report \<Rightarrow> string" where
  "report_line rep = ''Handshake: '' @ (if is_valid rep then ''VALID'' else ''INVALID'')
     @ '' (Loss: '' @ show_float (epistemic_loss rep) @ '')''"

text \<open>
  What a valid response guarantees and what it does not, the detection of tampering, and the bounds
  of the loss.
\<close>

lemma schema_violations_Nil:
  "check_negative_schema_bounds e args = [] \<longleftrightarrow> set (dict_keys args) \<subseteq> set (allowed_parameters e)"
  by (auto simp: check_negative_schema_bounds_def filter_empty_conv)

lemma precondition_violations_Nil:
  "precondition_violations e sat = [] \<longleftrightarrow> set (preconditions e) \<subseteq> set sat"
  by (auto simp: precondition_violations_def filter_empty_conv)

lemma integrity_violations_Nil:
  "integrity_violations digest e r = [] \<longleftrightarrow> envelope_id e = resp_envelope_id r \<and> verify_envelope_integrity digest e"
  by (simp add: integrity_violations_def)

lemma no_loss: "calculate_epistemic_loss e 0 0 = 0"
  by (simp add: calculate_epistemic_loss_def py_round_def round_half_even_def)

lemma audit_parts:
  "let rep = audit_epistemic_loss digest sha stamps e r; schema = check_negative_schema_bounds e (provided_arguments r);
       dropped = precondition_violations e (satisfied_preconditions r) in
     is_valid rep = (integrity_violations digest e r = [] \<and> schema = [] \<and> dropped = [])
   \<and> (certificate rep \<noteq> []) = is_valid rep
   \<and> epistemic_loss rep = calculate_epistemic_loss e (length dropped) (length schema)"
  by (simp add: audit_epistemic_loss_def Let_def handshake_certificate_def)

lemma response_symbols_ignored:
  "integrity_violations digest e (r\<lparr>returned_symbols := symbols\<rparr>) = integrity_violations digest e r"
  "handshake_certificate sha now now' e (r\<lparr>returned_symbols := symbols\<rparr>) = handshake_certificate sha now now' e r"
  by (simp_all add: integrity_violations_def handshake_certificate_def fun_eq_iff)

text \<open>A response is attested exactly when it answers the envelope, the envelope is intact, no
  argument is undeclared and every precondition is satisfied; then the loss is zero and a certificate
  is issued. What the response returns plays no part: the required symbols may all be missing.\<close>

theorem attested_iff:
  "let rep = audit_epistemic_loss digest sha stamps e r in
     is_valid rep = (envelope_id e = resp_envelope_id r \<and> verify_envelope_integrity digest e
       \<and> set (dict_keys (provided_arguments r)) \<subseteq> set (allowed_parameters e)
       \<and> set (preconditions e) \<subseteq> set (satisfied_preconditions r))
   \<and> (certificate rep \<noteq> []) = is_valid rep
   \<and> (if is_valid rep then epistemic_loss rep else 0) = 0
   \<and> audit_epistemic_loss digest sha stamps e (r\<lparr>returned_symbols := symbols\<rparr>) = rep"
proof -
  have "audit_epistemic_loss digest sha stamps e (r\<lparr>returned_symbols := symbols\<rparr>)
      = audit_epistemic_loss digest sha stamps e r"
    by (simp add: audit_epistemic_loss_def Let_def response_symbols_ignored)
  then show ?thesis
    using audit_parts [of digest sha stamps e r]
    by (simp add: Let_def integrity_violations_Nil schema_violations_Nil [symmetric]
        precondition_violations_Nil [symmetric] no_loss conj_ac)
qed

section \<open>Tampering\<close>

lemma sort_eq_iff_mset: "sort xs = sort ys \<longleftrightarrow> mset xs = mset ys" for xs ys :: "'a::linorder list"
  by (metis mset_sort properties_for_sort sorted_sort)

lemma map_JStr_eq: "map JStr xs = map JStr ys \<longleftrightarrow> xs = ys"
  by (rule inj_map_eq_map) (simp add: inj_def)

lemma context_document_eq:
  "context_document s p q = context_document s' p' q' \<longleftrightarrow> mset s = mset s' \<and> mset p = mset p' \<and> mset q = mset q'"
  by (auto simp: context_document_def map_JStr_eq sort_eq_iff_mset)

text \<open>Unless the digest collides on the two contents, an envelope whose contents were replaced after
  its creation still verifies exactly when the symbols, the preconditions and the parameters are the
  original ones up to their order.\<close>

theorem tampering_detected_iff:
  assumes "digest (context_document s' p' q') = digest (context_document s p q) \<Longrightarrow>
      context_document s' p' q' = context_document s p q"
  shows "verify_envelope_integrity digest
      ((create_context_envelope digest now agents s p q)
        \<lparr>required_symbols := s', preconditions := p', allowed_parameters := q'\<rparr>)
    \<longleftrightarrow> mset s' = mset s \<and> mset p' = mset p \<and> mset q' = mset q"
  using assms
  by (auto simp: verify_envelope_integrity_def create_context_envelope_def compute_context_hash_def Let_def
      simp flip: context_document_eq)

theorem tampering_detected_iff_witness:
  "let digest = json_repr;
       e = create_context_envelope digest 0 (''lead'', ''sub'') [''parse''] [''clean''] [''path'', ''limit''] in
     verify_envelope_integrity digest (e\<lparr>required_symbols := [''parse''], preconditions := [''clean''],
       allowed_parameters := [''limit'', ''path'']\<rparr>)
   \<and> \<not> verify_envelope_integrity digest (e\<lparr>required_symbols := [''parse''], preconditions := [],
       allowed_parameters := [''path'', ''limit'']\<rparr>)"
proof -
  have "json_repr (context_document [''parse''] [] [''path'', ''limit''])
      \<noteq> json_repr (context_document [''parse''] [''clean''] [''path'', ''limit''])"
    by code_simp
  then show ?thesis
    using tampering_detected_iff [where digest = json_repr and s = "[''parse'']" and s' = "[''parse'']"
        and p = "[''clean'']" and p' = "[''clean'']" and q = "[''path'', ''limit'']" and q' = "[''limit'', ''path'']"
        and now = 0 and agents = "(''lead'', ''sub'')"]
      tampering_detected_iff [where digest = json_repr and s = "[''parse'']" and s' = "[''parse'']"
        and p = "[''clean'']" and p' = "[]" and q = "[''path'', ''limit'']" and q' = "[''path'', ''limit'']"
        and now = 0 and agents = "(''lead'', ''sub'')"]
    by (simp add: Let_def context_document_eq add_mset_commute)
qed

section \<open>The loss\<close>

lemma loss_bounds: "0 \<le> calculate_epistemic_loss e d n \<and> calculate_epistemic_loss e d n \<le> 1"
  by (simp add: calculate_epistemic_loss_def Let_def py_round_nonneg)

lemma loss_of_everything:
  assumes "length (preconditions e) + length (allowed_parameters e) \<le> d + n" "0 < d + n"
  shows "calculate_epistemic_loss e d n = 1"
proof -
  let ?m = "max 1 (length (preconditions e) + length (allowed_parameters e))"
  have m: "0 < ?m" "?m \<le> d + n" using assms by auto
  have "of_int 10000 \<le> of_nat (d + n) / (of_nat ?m :: rat) * 10 ^ 4"
    using m by (simp add: field_simps del: of_nat_add of_nat_max)
  then have "10000 \<le> \<lfloor>of_nat (d + n) / (of_nat ?m :: rat) * 10 ^ 4\<rfloor>" by (simp only: le_floor_iff)
  then have "10000 \<le> round_half_even (of_nat (d + n) / (of_nat ?m :: rat) * 10 ^ 4)"
    by (auto simp: round_half_even_def Let_def)
  then have "1 \<le> py_round 4 (of_nat (d + n) / (of_nat ?m :: rat))"
    by (simp add: py_round_def)
  then show ?thesis by (simp add: calculate_epistemic_loss_def Let_def)
qed

text \<open>Ignored contents: a forged envelope with a hash of its own verifies.\<close>

lemma forged_envelope_verifies:
  "verify_envelope_integrity digest (e\<lparr>preconditions := [],
     context_hash := compute_context_hash digest (required_symbols e) [] (allowed_parameters e)\<rparr>)"
  by (simp add: verify_envelope_integrity_def)

lemma agents_not_protected:
  "verify_envelope_integrity digest (e\<lparr>target_subagent := other\<rparr>) = verify_envelope_integrity digest e"
  by (simp add: verify_envelope_integrity_def)

end
