(* ===== verification/Model_Router.thy ===== *)
theory Model_Router
  imports Address_Policy
begin

text \<open>
  \<open>tools/model_router.py\<close>: the complexity score and the entropy of a task, the choice of a model
  tier, the checks on drafted code, the speculative cascade, the audit of decisions and its reports.
  \<open>math.log2\<close> and \<open>ast.parse\<close> are parameters.
\<close>

section \<open>Tiers and costs\<close>

datatype model_tier = LOCAL | FAST | FRONTIER

definition tier_value :: "model_tier \<Rightarrow> string" where
  "tier_value t = (case t of LOCAL \<Rightarrow> ''local'' | FAST \<Rightarrow> ''fast'' | FRONTIER \<Rightarrow> ''frontier'')"

definition model_for_tier :: "model_tier \<Rightarrow> string" where
  "model_for_tier t = (case t of LOCAL \<Rightarrow> ''qwen-2.5-coder-7b'' | FAST \<Rightarrow> ''claude-3-5-haiku''
     | FRONTIER \<Rightarrow> ''claude-3-5-sonnet-20241022'')"

definition MODEL_COST_RATES :: "(string \<times> py_float \<times> py_float) list" where
  "MODEL_COST_RATES = [(''qwen-2.5-coder-7b'', 15 / 100, 20 / 100), (''claude-3-5-haiku'', 80 / 100, 4),
     (''claude-3-5-sonnet-20241022'', 3, 15)]"

definition estimate_token_cost :: "model_tier \<Rightarrow> int \<Rightarrow> int \<Rightarrow> py_float" where
  "estimate_token_cost t input_tokens output_tokens =
     (case (case map_of MODEL_COST_RATES (model_for_tier t) of Some r \<Rightarrow> r | None \<Rightarrow> (1, 5)) of (in_rate, out_rate) \<Rightarrow>
        py_round 6 (of_int input_tokens / 1000000 * in_rate + of_int output_tokens / 1000000 * out_rate))"

definition default_cost :: "model_tier \<Rightarrow> py_float" where
  "default_cost t = estimate_token_cost t 1500 500"

section \<open>Complexity and entropy\<close>

record complexity_vector =
  file_count :: int
  estimated_ast_nodes :: int
  estimated_mccabe :: int
  cross_symbol_refs :: int
  security_critical :: bool
  has_concurrency :: bool

definition complexity_score :: "complexity_vector \<Rightarrow> py_float" where
  "complexity_score v = py_round 3 (min
     (min (of_int (estimated_ast_nodes v) / 200) 1 * (25 / 100)
      + min (of_int (estimated_mccabe v) / 12) 1 * (25 / 100)
      + min (of_int (file_count v) / 5) 1 * (20 / 100)
      + min (of_int (cross_symbol_refs v) / 10) 1 * (15 / 100)
      + (if security_critical v \<or> has_concurrency v then 15 / 100 else 0)) 1)"

record entropy_result =
  raw_entropy :: py_float
  normalized_entropy :: py_float
  cluster_count :: nat
  uncertain :: bool

definition compute_semantic_entropy :: "(py_float \<Rightarrow> py_float) \<Rightarrow> py_float list \<Rightarrow> py_float \<Rightarrow> entropy_result" where
  "compute_semantic_entropy log2 probs tau =
     (let valid = filter (\<lambda>p. p > 0) probs in
      if valid = [] then \<lparr>raw_entropy = 0, normalized_entropy = 0, cluster_count = 0, uncertain = False\<rparr>
      else (let raw = \<bar>- sum_list (map (\<lambda>p. p * log2 p) valid)\<bar>;
                top = log2 (of_nat (max (length valid) 2));
                norm = (if top > 0 then \<bar>py_round 3 (raw / top)\<bar> else 0) in
        \<lparr>raw_entropy = \<bar>py_round 3 raw\<bar>, normalized_entropy = norm, cluster_count = length valid,
         uncertain = (norm \<ge> tau)\<rparr>))"

definition select_tier :: "py_float \<Rightarrow> py_float \<Rightarrow> bool \<Rightarrow> model_tier \<times> string" where
  "select_tier complexity entropy critical =
     (if critical then (FRONTIER, ''Security-critical task requires frontier reasoning'')
      else if complexity \<ge> 70 / 100 \<or> entropy \<ge> 45 / 100
      then (FRONTIER, ''High task complexity or semantic entropy requires frontier tier'')
      else if complexity \<ge> 35 / 100 \<or> entropy \<ge> 25 / 100
      then (FAST, ''Moderate complexity safely handled by fast mid-tier'')
      else (LOCAL, ''Low complexity and low entropy eligible for local tier''))"

section \<open>Drafted code\<close>

text \<open>A match of the pattern of RFC 1918 addresses at the start of a text.\<close>

definition rfc1918_here :: "string \<Rightarrow> bool" where
  "rfc1918_here s \<longleftrightarrow>
     (starts_with s ''10.'' \<and> match_groups 2 (drop 3 s) \<noteq> None)
     \<or> (starts_with s ''192.168.'' \<and> match_groups 1 (drop 8 s) \<noteq> None)
     \<or> (list_ex (\<lambda>b. starts_with s (''172.'' @ b @ ''.''))
          [''16'', ''17'', ''18'', ''19'', ''20'', ''21'', ''22'', ''23'', ''24'', ''25'', ''26'', ''27'', ''28'', ''29'', ''30'', ''31'']
        \<and> match_groups 1 (drop 7 s) \<noteq> None)"

text \<open>\<open>re.search\<close>; \<open>prev\<close> is whether the character before is one of a word.\<close>

fun search_rfc1918 :: "bool \<Rightarrow> string \<Rightarrow> bool" where
  "search_rfc1918 prev [] = False"
| "search_rfc1918 prev (c # cs) = ((\<not> prev \<and> rfc1918_here (c # cs)) \<or> search_rfc1918 (word_char c) cs)"

definition check_egress_invariants :: "string \<Rightarrow> bool \<times> string" where
  "check_egress_invariants code =
     (if search_rfc1918 False code then (False, ''Zero-Trust Egress: Private RFC 1918 address detected'')
      else (True, ''Egress clean''))"

text \<open>Branches are \<open>If\<close>, \<open>While\<close>, \<open>For\<close> and \<open>ExceptHandler\<close>. Only counts over \<open>ast.walk\<close> are taken, so its
  order does not matter.\<close>

datatype route_class = Func | Branch | Plain

datatype route_node = Route_Node (class_of: route_class) (children: "route_node list")

fun route_walk :: "route_node \<Rightarrow> route_node list" where
  "route_walk (Route_Node c ts) = Route_Node c ts # concat (map route_walk ts)"

definition count_function_branches :: "route_node \<Rightarrow> nat" where
  "count_function_branches t = 1 + length (filter (\<lambda>n. class_of n = Branch) (route_walk t))"

definition measure_ast_complexity :: "route_node \<Rightarrow> nat \<times> nat" where
  "measure_ast_complexity t = (let funcs = filter (\<lambda>n. class_of n = Func) (route_walk t) in
     if funcs = [] then (1, 1) else (Max (set (map count_function_branches funcs)), 1))"

definition verify_code_invariants :: "(string \<Rightarrow> (string, route_node) result) \<Rightarrow> string \<Rightarrow> bool \<times> string" where
  "verify_code_invariants parse code = (case parse code of
     Inl msg \<Rightarrow> (False, ''SyntaxError: '' @ msg)
   | Inr t \<Rightarrow> (case check_egress_invariants code of (ok, why) \<Rightarrow>
       if \<not> ok then (False, why)
       else (case measure_ast_complexity t of (m, _) \<Rightarrow>
         if m > 10 then (False, ''McCabe complexity ('' @ show_nat m @ '') exceeds maximum ceiling (10)'')
         else (True, ''All invariants satisfied''))))"

section \<open>The router\<close>

record routing_decision =
  task_id :: string
  selected_tier :: model_tier
  selected_model :: string
  rd_complexity :: py_float
  rd_entropy :: py_float
  route_reason :: string
  estimated_cost_usd :: py_float
  speculative_enabled :: bool

record cascade_result =
  cr_task_id :: string
  initial_tier :: model_tier
  final_tier :: model_tier
  escalated :: bool
  escalation_reason :: "string option"
  draft_code :: string
  final_code :: string
  invariant_passed :: bool
  cost_spent_usd :: py_float
  cost_saved_usd :: py_float

record router_finding =
  rule_id :: string
  severity :: string
  message :: string
  rf_task_id :: string

record model_router =
  tau_entropy :: py_float
  frontier_cost_baseline :: py_float

definition new_router :: model_router where
  "new_router = \<lparr>tau_entropy = 45 / 100, frontier_cost_baseline = default_cost FRONTIER\<rparr>"

definition route_task ::
    "(py_float \<Rightarrow> py_float) \<Rightarrow> model_router \<Rightarrow> string \<Rightarrow> complexity_vector \<Rightarrow> py_float list option \<Rightarrow> bool \<Rightarrow> routing_decision" where
  "route_task log2 r tid v probs allow =
     (let complexity = complexity_score v;
          entropy = compute_semantic_entropy log2
            (case probs of Some (p # ps) \<Rightarrow> p # ps | _ \<Rightarrow> [1]) (tau_entropy r) in
      case select_tier complexity (normalized_entropy entropy) (security_critical v) of (tier, why) \<Rightarrow>
      \<lparr>task_id = tid, selected_tier = tier, selected_model = model_for_tier tier, rd_complexity = complexity,
       rd_entropy = normalized_entropy entropy, route_reason = why, estimated_cost_usd = default_cost tier,
       speculative_enabled = (allow \<and> tier \<noteq> FRONTIER)\<rparr>)"

definition execute_speculative_cascade ::
    "(string \<Rightarrow> (string, route_node) result) \<Rightarrow> model_router \<Rightarrow> string \<Rightarrow> model_tier \<Rightarrow> string \<Rightarrow> string option \<Rightarrow> cascade_result" where
  "execute_speculative_cascade parse r tid tier draft fallback =
     (let cost = default_cost tier in
      case verify_code_invariants parse draft of (ok, why) \<Rightarrow>
      if ok
      then \<lparr>cr_task_id = tid, initial_tier = tier, final_tier = tier, escalated = False, escalation_reason = None,
        draft_code = draft, final_code = draft, invariant_passed = True, cost_spent_usd = cost,
        cost_saved_usd = py_round 6 (max (frontier_cost_baseline r - cost) 0)\<rparr>
      else \<lparr>cr_task_id = tid, initial_tier = tier, final_tier = FRONTIER, escalated = True,
        escalation_reason = Some why, draft_code = draft,
        final_code = (case fallback of Some (c # cs) \<Rightarrow> c # cs | _ \<Rightarrow> ''# Escalated repair'' @ newline @ draft),
        invariant_passed = False, cost_spent_usd = py_round 6 (cost + frontier_cost_baseline r),
        cost_saved_usd = 0\<rparr>)"

definition is_wasteful_frontier :: "routing_decision \<Rightarrow> bool" where
  "is_wasteful_frontier d \<longleftrightarrow> selected_tier d = FRONTIER \<and> rd_complexity d < 25 / 100 \<and> rd_entropy d < 15 / 100"

definition is_fragile_local :: "routing_decision \<Rightarrow> bool" where
  "is_fragile_local d \<longleftrightarrow> selected_tier d = LOCAL \<and> (rd_complexity d > 70 / 100 \<or> rd_entropy d > 45 / 100)"

definition audit_single_decision :: "routing_decision \<Rightarrow> router_finding list" where
  "audit_single_decision d =
     (if is_wasteful_frontier d
      then [\<lparr>rule_id = ''ROUT001'', severity = ''warning'', message = ''Task '' @ task_id d @ '' has low complexity (''
        @ show_float (rd_complexity d) @ ''); frontier is wasteful.'', rf_task_id = task_id d\<rparr>]
      else if is_fragile_local d
      then [\<lparr>rule_id = ''ROUT002'', severity = ''error'', message = ''Task '' @ task_id d @ '' has high complexity (''
        @ show_float (rd_complexity d) @ ''); fragile on local tier.'', rf_task_id = task_id d\<rparr>]
      else [])"

definition audit_decisions :: "routing_decision list \<Rightarrow> router_finding list" where
  "audit_decisions ds = concat (map audit_single_decision ds)"

section \<open>Reports\<close>

definition router_result :: "router_finding \<Rightarrow> json" where
  "router_result f = JObj
     [(''ruleId'', JStr (rule_id f)), (''level'', JStr (if severity f = ''error'' then ''error'' else ''warning'')),
      (''message'', JObj [(''text'', JStr (message f))]),
      (''locations'', JArr [JObj [(''physicalLocation'', JObj
        [(''artifactLocation'', JObj [(''uri'', JStr (''task://'' @ rf_task_id f))])])]])]"

definition router_sarif :: "router_finding list \<Rightarrow> json" where
  "router_sarif fs = JObj
     [(''$schema'', JStr ''https://raw.githubusercontent.com/oasis-tcs/sarif-spec/master/Schemata/sarif-schema-2.1.0.json''),
      (''version'', JStr ''2.1.0''),
      (''runs'', JArr [JObj
        [(''tool'', JObj [(''driver'', JObj
           [(''name'', JStr ''vibes-model-router''), (''informationUri'', JStr ''https://github.com/dan-petty/vibes''),
            (''rules'', JArr (map (\<lambda>(i, t). JObj [(''id'', JStr i), (''shortDescription'', JObj [(''text'', JStr t)])])
              [(''ROUT001'', ''Unnecessary Frontier Expenditure''), (''ROUT002'', ''Fragile Low-Tier Assignment'')]))])]),
         (''results'', JArr (map router_result fs))]])]"

definition decision_row :: "routing_decision \<Rightarrow> string" where
  "decision_row d = ''| `'' @ task_id d @ ''` | `'' @ tier_value (selected_tier d) @ ''` | `'' @ selected_model d @ ''` | ''
     @ fmt_fixed 2 (rd_complexity d) @ '' | '' @ fmt_fixed 2 (rd_entropy d) @ '' | '' @ route_reason d @ '' |''"

definition router_markdown :: "routing_decision list \<Rightarrow> cascade_result list \<Rightarrow> string" where
  "router_markdown ds rs = join_with newline
     ([''# Multi-Model Dynamic Routing & Speculative Cascade Report'', '''', ''## Summary Telemetry'',
       ''- **Evaluated Tasks**: '' @ show_nat (length ds),
       ''- **Total Spent**: $'' @ fmt_fixed 4 (sum_list (map cost_spent_usd rs)) @ '' USD'',
       ''- **Total Savings**: $'' @ fmt_fixed 4 (sum_list (map cost_saved_usd rs)) @ '' USD'',
       ''- **Escalation Count**: '' @ show_nat (length (filter escalated rs)) @ '' / '' @ show_nat (length rs), '''',
       ''## Routing Decisions'', ''| Task ID | Tier | Model | Complexity | Entropy | Reason |'', ''|---|---|---|---|---|---|'']
      @ map decision_row ds)"

text \<open>
  The bounds and the monotonicity of the score, the tier of a growing task, what the audit says of
  the decisions of the router itself, and the accounts of a cascade.
\<close>

section \<open>The score\<close>

definition no_simpler :: "complexity_vector \<Rightarrow> complexity_vector \<Rightarrow> bool" where
  "no_simpler v v' \<longleftrightarrow> file_count v \<le> file_count v' \<and> estimated_ast_nodes v \<le> estimated_ast_nodes v'
     \<and> estimated_mccabe v \<le> estimated_mccabe v' \<and> cross_symbol_refs v \<le> cross_symbol_refs v'
     \<and> (security_critical v \<longrightarrow> security_critical v') \<and> (has_concurrency v \<longrightarrow> has_concurrency v')"

lemma capped_mono: "a \<le> b \<Longrightarrow> 0 \<le> w \<Longrightarrow> 0 < k \<Longrightarrow> min (of_int a / k) 1 * w \<le> min (of_int b / k) (1 :: py_float) * w"
  by (intro mult_right_mono min.mono divide_right_mono) auto

lemma complexity_score_mono: "no_simpler v v' \<Longrightarrow> complexity_score v \<le> complexity_score v'"
  unfolding complexity_score_def no_simpler_def
  by (intro py_round_mono min.mono add_mono capped_mono) auto

lemma complexity_score_le_1: "complexity_score v \<le> 1"
proof -
  have "complexity_score v \<le> py_round 3 1"
    unfolding complexity_score_def by (intro py_round_mono) simp
  then show ?thesis using py_round_int [of 3 1] by simp
qed

section \<open>Tiers\<close>

definition tier_rank :: "model_tier \<Rightarrow> nat" where
  "tier_rank t = (case t of LOCAL \<Rightarrow> 0 | FAST \<Rightarrow> 1 | FRONTIER \<Rightarrow> 2)"

lemma select_tier_mono:
  "c \<le> c' \<Longrightarrow> e \<le> e' \<Longrightarrow> (s \<longrightarrow> s') \<Longrightarrow> tier_rank (fst (select_tier c e s)) \<le> tier_rank (fst (select_tier c' e' s'))"
  by (auto simp: select_tier_def tier_rank_def)

lemma route_task_parts:
  "selected_tier (route_task log2 r tid v probs allow) =
     fst (select_tier (complexity_score v) (rd_entropy (route_task log2 r tid v probs allow)) (security_critical v))"
  "rd_complexity (route_task log2 r tid v probs allow) = complexity_score v"
  "rd_entropy (route_task log2 r tid v probs allow) = rd_entropy (route_task log2 r' tid' v' probs allow')"
  by (auto simp: route_task_def Let_def compute_semantic_entropy_def split: prod.splits)

lemma critical_tier: "fst (select_tier c e True) = FRONTIER"
  by (simp add: select_tier_def)

text \<open>A task that is larger, more complex, more entangled or more sensitive in any respect, with the
  same uncertainty, never goes to a weaker model, and a security-critical task always to the strongest.\<close>

theorem harder_tasks_never_routed_lower:
  assumes "no_simpler v v'"
  shows "tier_rank (selected_tier (route_task log2 r tid v probs allow))
       \<le> tier_rank (selected_tier (route_task log2 r' tid' v' probs allow'))
    \<and> (if security_critical v' then selected_tier (route_task log2 r' tid' v' probs allow') else FRONTIER) = FRONTIER
    \<and> complexity_score v \<le> complexity_score v' \<and> complexity_score v' \<le> 1"
proof -
  have e: "rd_entropy (route_task log2 r tid v probs allow) = rd_entropy (route_task log2 r' tid' v' probs allow')"
    by (rule route_task_parts(3))
  have "security_critical v \<longrightarrow> security_critical v'" using assms by (simp add: no_simpler_def)
  then have "tier_rank (selected_tier (route_task log2 r tid v probs allow))
       \<le> tier_rank (selected_tier (route_task log2 r' tid' v' probs allow'))"
    unfolding route_task_parts(1) e by (intro select_tier_mono complexity_score_mono assms order_refl) simp
  then show ?thesis
    using complexity_score_mono [OF assms] complexity_score_le_1 [of v']
    by (simp add: route_task_parts(1) [of log2 r'] critical_tier)
qed

theorem harder_tasks_never_routed_lower_witness:
  "tier_rank (selected_tier (route_task (\<lambda>x. 1) new_router ''a''
      \<lparr>file_count = 1, estimated_ast_nodes = 15, estimated_mccabe = 2, cross_symbol_refs = 0,
       security_critical = False, has_concurrency = False\<rparr> None True))
   \<le> tier_rank (selected_tier (route_task (\<lambda>x. 1) new_router ''b''
      \<lparr>file_count = 4, estimated_ast_nodes = 15, estimated_mccabe = 9, cross_symbol_refs = 0,
       security_critical = False, has_concurrency = True\<rparr> None True))"
  by (rule conjunct1 [OF harder_tasks_never_routed_lower]) (simp add: no_simpler_def)

section \<open>The audit of decisions\<close>

lemma routed_never_fragile: "\<not> is_fragile_local (route_task log2 r tid v probs allow)"
  using route_task_parts(1) [of log2 r tid v probs allow]
  by (auto simp: is_fragile_local_def route_task_parts(2) select_tier_def split: if_splits)

lemma routed_wasteful_iff:
  "is_wasteful_frontier (route_task log2 r tid v probs allow) \<longleftrightarrow>
     security_critical v \<and> complexity_score v < 25 / 100 \<and> rd_entropy (route_task log2 r tid v probs allow) < 15 / 100"
  by (auto simp: is_wasteful_frontier_def route_task_parts(1,2) select_tier_def)

text \<open>The audit has only one thing to say of the decisions of the router itself: it calls a frontier
  model wasteful for exactly the security-critical tasks of low complexity and entropy, which the router
  sends there on purpose; no decision is ever found fragile.\<close>

theorem audit_of_routed_tasks:
  "map (\<lambda>f. (rf_task_id f, rule_id f))
     (audit_decisions (map (\<lambda>(tid, v, probs). route_task log2 r tid v probs allow) tasks)) =
   map (\<lambda>(tid, v, probs). (tid, ''ROUT001''))
     (filter (\<lambda>(tid, v, probs). security_critical v \<and> complexity_score v < 25 / 100
        \<and> rd_entropy (route_task log2 r tid v probs allow) < 15 / 100) tasks)"
proof -
  have tid: "task_id (route_task log2 r tid v probs allow) = tid" for tid v probs
    by (simp add: route_task_def Let_def split: prod.splits)
  show ?thesis
    by (induction tasks)
      (auto simp: audit_decisions_def audit_single_decision_def routed_never_fragile routed_wasteful_iff tid)
qed

section \<open>Cascades\<close>

text \<open>A draft that passes is final and nothing is escalated; a draft that fails costs a frontier call
  on top, even when it was drafted there, and the repair is not checked again.\<close>

lemma cascade_cases:
  "let r = execute_speculative_cascade parse rt tid tier draft fallback; ok = fst (verify_code_invariants parse draft) in
     escalated r = (\<not> ok) \<and> invariant_passed r = ok \<and> (if ok then final_code r else draft) = draft
   \<and> final_tier r = (if ok then tier else FRONTIER)
   \<and> cost_spent_usd r = (if ok then default_cost tier else py_round 6 (default_cost tier + frontier_cost_baseline rt))"
  by (simp add: execute_speculative_cascade_def Let_def split: prod.splits)

lemma repair_not_checked:
  "verify_code_invariants parse draft = (False, why) \<Longrightarrow>
     final_code (execute_speculative_cascade parse rt tid tier draft (Some (c # cs))) = c # cs"
  by (simp add: execute_speculative_cascade_def)

lemma depth_never_measured: "snd (measure_ast_complexity t) = 1"
  by (simp add: measure_ast_complexity_def Let_def)

lemma private_addresses_missed:
  "fst (check_egress_invariants ''http://[fd00::1]/'') \<and> fst (check_egress_invariants ''012.0.0.1'')
   \<and> fst (check_egress_invariants ''169.254.0.1'') \<and> \<not> fst (check_egress_invariants ''x=10.0.0.1;'')"
  by code_simp

end
