(* ===== verification/Context_Rot.thy ===== *)
theory Context_Rot
  imports Py_Json Text_Search
begin

text \<open>
  \<open>tools/context_rot_auditor.py\<close>: the parser of transcripts, the five rules of context rot, the
  compactor of observations and tracebacks, and the documents they are written to. \<open>json.loads\<close> and
  SHA-256 are the parameters \<open>loads\<close> and \<open>sha\<close>; the shield in the title of the pinned envelope and the
  tick of the report, characters outside the code points of the model, are the parameters \<open>shield\<close> and
  \<open>tick\<close>.
\<close>

section \<open>Data\<close>

definition INVARIANT_KEYWORDS :: "string list" where
  "INVARIANT_KEYWORDS = [''invariant'', ''constraint'', ''mccabe'', ''cyclomatic'', ''complexity'', ''depth'',
     ''zero-trust'', ''rfc 1918'', ''assertion'', ''tuple equality'', ''no private ip'']"

definition AUDITOR_VERSION :: string where
  "AUDITOR_VERSION = ''v1.0.0''"

datatype message_role = SYSTEM | USER | ASSISTANT | TOOL | OBSERVATION

datatype rot_severity = CRITICAL | HIGH | MEDIUM | LOW | INFO

fun severity_value :: "rot_severity \<Rightarrow> string" where
  "severity_value CRITICAL = ''critical''"
| "severity_value HIGH = ''high''"
| "severity_value MEDIUM = ''medium''"
| "severity_value LOW = ''low''"
| "severity_value INFO = ''info''"

datatype auditor_preset = STANDARD | STRICT | PEDANTIC

record rot_thresholds =
  max_effective_tokens :: nat
  valley_start_ratio :: py_float
  valley_end_ratio :: py_float
  max_observation_tokens :: nat
  min_signal_to_noise_ratio :: py_float
  max_observation_share :: py_float

fun PRESET_THRESHOLDS :: "auditor_preset \<Rightarrow> rot_thresholds" where
  "PRESET_THRESHOLDS STANDARD =
     \<lparr>max_effective_tokens = 64000, valley_start_ratio = 25 / 100, valley_end_ratio = 75 / 100,
      max_observation_tokens = 4000, min_signal_to_noise_ratio = 10 / 100, max_observation_share = 20 / 100\<rparr>"
| "PRESET_THRESHOLDS STRICT =
     \<lparr>max_effective_tokens = 32000, valley_start_ratio = 20 / 100, valley_end_ratio = 80 / 100,
      max_observation_tokens = 2500, min_signal_to_noise_ratio = 15 / 100, max_observation_share = 15 / 100\<rparr>"
| "PRESET_THRESHOLDS PEDANTIC =
     \<lparr>max_effective_tokens = 16000, valley_start_ratio = 15 / 100, valley_end_ratio = 85 / 100,
      max_observation_tokens = 1200, min_signal_to_noise_ratio = 25 / 100, max_observation_share = 10 / 100\<rparr>"

record context_message =
  role :: message_role
  content :: string
  token_count :: nat
  turn_index :: nat
  position_ratio :: py_float
  is_invariant_bearing :: bool
  is_tool_observation :: bool

record rot_finding =
  rule_id :: string
  severity :: rot_severity
  rot_message :: string
  location :: string
  line_number :: nat
  token_depth :: nat
  recommendation :: string
  finding_hash :: string

record compacted_context =
  original_token_count :: nat
  compacted_token_count :: nat
  compression_ratio :: py_float
  masked_observations_count :: nat
  deduplicated_errors_count :: nat
  pinned_invariants_count :: nat
  compacted_messages :: "context_message list"

record audit_summary =
  total_messages :: nat
  total_tokens :: nat
  attention_dilution_index :: py_float
  effective_context_ratio :: py_float
  findings :: "rot_finding list"
  compacted :: "compacted_context option"

section \<open>Reading a transcript\<close>

text \<open>\<open>int(len(text) / 3.8)\<close>, a quotient that is cut off.\<close>

definition estimate_tokens :: "string \<Rightarrow> nat" where
  "estimate_tokens text = (if text = '''' then 0 else max 1 (length text * 10 div 38))"

definition has_invariant_content :: "string \<Rightarrow> bool" where
  "has_invariant_content text \<longleftrightarrow> list_ex (\<lambda>kw. contains_sub kw (py_lower text)) INVARIANT_KEYWORDS"

definition observation_text :: "message_role \<Rightarrow> string \<Rightarrow> bool" where
  "observation_text r text \<longleftrightarrow> r = TOOL \<or> r = OBSERVATION \<or> contains_sub ''stdout:'' (py_lower text)
     \<or> contains_sub ''command exited'' (py_lower text) \<or> contains_sub ''tool output'' (py_lower text)"

definition extract_content :: "(string, json) dict \<Rightarrow> string" where
  "extract_content data =
     (case List.find py_truthy (map (\<lambda>k. field_or data k JNull) [''content'', ''text'', ''message'']) of
        Some v \<Rightarrow> json_str v | None \<Rightarrow> '''')"

definition resolve_role_from_string :: "string \<Rightarrow> message_role" where
  "resolve_role_from_string raw = (let l = py_lower raw in
     if contains_sub ''system'' l then SYSTEM
     else if contains_sub ''assistant'' l \<or> contains_sub ''model'' l then ASSISTANT
     else if contains_sub ''tool'' l \<or> contains_sub ''observation'' l then TOOL
     else USER)"

definition new_message :: "message_role \<Rightarrow> string \<Rightarrow> nat \<Rightarrow> context_message" where
  "new_message r text i = \<lparr>role = r, content = text, token_count = estimate_tokens text, turn_index = i,
     position_ratio = 0, is_invariant_bearing = has_invariant_content text,
     is_tool_observation = observation_text r text\<rparr>"

definition parse_dict_to_message :: "(string, json) dict \<Rightarrow> nat \<Rightarrow> context_message option" where
  "parse_dict_to_message data i = (let text = extract_content data in
     if text = '''' then None
     else let r = field_or data ''role'' JNull; s = field_or data ''source'' JNull;
              raw = json_str (if py_truthy r then r else if py_truthy s then s else JStr ''user'')
          in Some (new_message (resolve_role_from_string raw) text i))"

fun assign_from :: "nat \<Rightarrow> nat \<Rightarrow> context_message list \<Rightarrow> context_message list" where
  "assign_from tot cur [] = []"
| "assign_from tot cur (m # ms) =
     m\<lparr>position_ratio := py_round 4 (of_nat cur / of_nat tot)\<rparr> # assign_from tot (cur + token_count m) ms"

definition assign_position_ratios :: "context_message list \<Rightarrow> context_message list" where
  "assign_position_ratios ms = (let tot = sum_list (map token_count ms) in
     if tot = 0 then ms else assign_from tot 0 ms)"

definition json_dicts :: "json list \<Rightarrow> (string, json) dict list" where
  "json_dicts items = List.map_filter (\<lambda>j. case j of JObj kvs \<Rightarrow> Some kvs | _ \<Rightarrow> None) items"

definition parse_json_items :: "json list \<Rightarrow> context_message list" where
  "parse_json_items items = assign_position_ratios
     (List.map_filter (\<lambda>(i, d). parse_dict_to_message d i) (enumerate 0 (json_dicts items)))"

text \<open>
  \<open>loads\<close> gives \<open>None\<close> where \<open>json.loads\<close> raises \<open>JSONDecodeError\<close>. A document that opens with a
  bracket is an array and one that opens with a brace an object.
\<close>

definition try_parse_json_array :: "(string \<Rightarrow> json option) \<Rightarrow> string \<Rightarrow> context_message list option" where
  "try_parse_json_array loads s =
     (if \<not> (starts_with s ''['' \<and> ends_with s '']'') then None
      else case loads s of Some (JArr items) \<Rightarrow> Some (parse_json_items items) | _ \<Rightarrow> None)"

definition try_parse_jsonl_line :: "(string \<Rightarrow> json option) \<Rightarrow> string \<Rightarrow> nat \<Rightarrow> context_message option" where
  "try_parse_jsonl_line loads line i =
     (if \<not> (starts_with line ''{'' \<and> ends_with line ''}'') then None
      else case loads line of Some (JObj kvs) \<Rightarrow> parse_dict_to_message kvs i | _ \<Rightarrow> None)"

definition try_parse_jsonl :: "(string \<Rightarrow> json option) \<Rightarrow> string list \<Rightarrow> context_message list" where
  "try_parse_jsonl loads lines = List.map_filter (\<lambda>(i, l). try_parse_jsonl_line loads l i) (enumerate 0 lines)"

definition resolve_plaintext_role :: "string \<Rightarrow> message_role" where
  "resolve_plaintext_role line = (let l = py_lower line in
     if starts_with l ''system:'' then SYSTEM
     else if starts_with l ''assistant:'' then ASSISTANT
     else if starts_with l ''tool:'' \<or> starts_with l ''observation:'' then TOOL
     else USER)"

definition parse_single_turn_block :: "string \<Rightarrow> nat \<Rightarrow> context_message option" where
  "parse_single_turn_block block i = (let b = py_strip block in
     if b = '''' then None else Some (new_message (resolve_plaintext_role b) b i))"

text \<open>The look ahead \<open>[A-Za-z]+:\s\<close> of the separator, and \<open>re.split\<close> with it.\<close>

definition ascii_letter :: "char \<Rightarrow> bool" where
  "ascii_letter c \<longleftrightarrow> (let n = (of_char c :: nat) in (65 \<le> n \<and> n \<le> 90) \<or> (97 \<le> n \<and> n \<le> 122))"

definition turn_head :: "string \<Rightarrow> bool" where
  "turn_head s \<longleftrightarrow> takeWhile ascii_letter s \<noteq> '''' \<and>
     (case dropWhile ascii_letter s of c # d # r \<Rightarrow> c = CHR '':'' \<and> py_isspace d | _ \<Rightarrow> False)"

fun split_turns :: "string \<Rightarrow> string list" where
  "split_turns [] = [[]]"
| "split_turns (c # s) =
     (if c = CHR 0x0A \<and> turn_head s then [] # split_turns s
      else case split_turns s of [] \<Rightarrow> [[c]] | b # bs \<Rightarrow> (c # b) # bs)"

definition parse_plaintext_turns :: "string \<Rightarrow> context_message list" where
  "parse_plaintext_turns raw = assign_position_ratios
     (List.map_filter (\<lambda>(i, b). parse_single_turn_block b i) (enumerate 0 (split_turns (py_strip raw))))"

definition transcript_lines :: "string \<Rightarrow> string list" where
  "transcript_lines s = filter (\<lambda>l. l \<noteq> '''') (map py_strip (py_splitlines s))"

definition parse_transcript_text :: "(string \<Rightarrow> json option) \<Rightarrow> string \<Rightarrow> context_message list" where
  "parse_transcript_text loads raw = (let s = py_strip raw in
     if s = '''' then []
     else case try_parse_json_array loads s of
            Some ms \<Rightarrow> ms
          | None \<Rightarrow> let ms = try_parse_jsonl loads (transcript_lines s) in
              if ms \<noteq> [] then assign_position_ratios ms else parse_plaintext_turns raw)"

section \<open>The five rules\<close>

record audit_params =
  par_total_tokens :: nat
  par_thresholds :: rot_thresholds
  par_filename :: string

definition check_rot001_depth :: "(string \<Rightarrow> string) \<Rightarrow> nat \<Rightarrow> nat \<Rightarrow> string \<Rightarrow> rot_finding option" where
  "check_rot001_depth sha tot limit fname =
     (if tot \<le> limit then None
      else Some \<lparr>rule_id = ''ROT001'', severity = HIGH,
        rot_message = ''Context token depth '' @ show_nat tot @ '' exceeds effective horizon '' @ show_nat limit,
        location = fname @ '':total'', line_number = 1, token_depth = tot,
        recommendation = ''Compact context by observation masking or extractive summarization'',
        finding_hash = sha (''ROT001:'' @ fname @ '':'' @ show_nat tot)\<rparr>)"

definition turn_location :: "audit_params \<Rightarrow> context_message \<Rightarrow> string" where
  "turn_location p m = par_filename p @ '':turn_'' @ show_nat (turn_index m)"

definition check_rot002_valley :: "(string \<Rightarrow> string) \<Rightarrow> context_message \<Rightarrow> audit_params \<Rightarrow> rot_finding option" where
  "check_rot002_valley sha m p =
     (if \<not> is_invariant_bearing m then None
      else if \<not> (valley_start_ratio (par_thresholds p) \<le> position_ratio m
                \<and> position_ratio m \<le> valley_end_ratio (par_thresholds p)) then None
      else Some \<lparr>rule_id = ''ROT002'', severity = CRITICAL,
        rot_message = ''Invariant constraint trapped in lost-in-the-middle valley at ''
          @ show_int \<lfloor>position_ratio m * 100\<rfloor> @ ''% depth'',
        location = turn_location p m, line_number = turn_index m + 1, token_depth = token_count m,
        recommendation = ''Pin invariant envelope to prompt suffix or immediate active frame'',
        finding_hash = sha (''ROT002:'' @ turn_location p m @ '':'' @ show_float (position_ratio m))\<rparr>)"

definition token_share :: "nat \<Rightarrow> nat \<Rightarrow> py_float" where
  "token_share n tot = (if tot > 0 then of_nat n / of_nat tot else 0)"

definition check_rot003_bloat :: "(string \<Rightarrow> string) \<Rightarrow> context_message \<Rightarrow> audit_params \<Rightarrow> rot_finding option" where
  "check_rot003_bloat sha m p =
     (if \<not> is_tool_observation m then None
      else let share = token_share (token_count m) (par_total_tokens p) in
        if token_count m \<le> max_observation_tokens (par_thresholds p)
           \<and> share \<le> max_observation_share (par_thresholds p) then None
        else Some \<lparr>rule_id = ''ROT003'', severity = MEDIUM,
          rot_message = ''Observation bloat: tool output contains '' @ show_nat (token_count m) @ '' tokens (''
            @ show_int \<lfloor>share * 100\<rfloor> @ ''% of context)'',
          location = turn_location p m, line_number = turn_index m + 1, token_depth = token_count m,
          recommendation = ''Apply observation masking to collapse verbose stdout/stderr'',
          finding_hash = sha (''ROT003:'' @ turn_location p m @ '':'' @ show_nat (token_count m))\<rparr>)"

text \<open>The set of error hashes that the code updates in place is returned with the finding.\<close>

definition error_text :: "string \<Rightarrow> bool" where
  "error_text text \<longleftrightarrow> contains_sub ''traceback'' (py_lower text) \<or> contains_sub ''error:'' (py_lower text)"

definition check_rot004_repetition ::
    "(string \<Rightarrow> string) \<Rightarrow> context_message \<Rightarrow> string set \<Rightarrow> audit_params \<Rightarrow> rot_finding option \<times> string set" where
  "check_rot004_repetition sha m seen p =
     (if \<not> error_text (content m) then (None, seen)
      else let h = sha (take 300 (content m)) in
        if h \<notin> seen then (None, insert h seen)
        else (Some \<lparr>rule_id = ''ROT004'', severity = LOW,
          rot_message = ''Repetitive traceback chatter detected at turn '' @ show_nat (turn_index m),
          location = turn_location p m, line_number = turn_index m + 1, token_depth = token_count m,
          recommendation = ''Deduplicate failure tracebacks into a single structured signature'',
          finding_hash = sha (''ROT004:'' @ turn_location p m @ '':'' @ h)\<rparr>, seen))"

definition signal_ratio :: "nat \<Rightarrow> nat \<Rightarrow> py_float" where
  "signal_ratio signal tot = (if tot > 0 then of_nat signal / of_nat tot else 1)"

definition check_rot005_deficit ::
    "(string \<Rightarrow> string) \<Rightarrow> nat \<Rightarrow> nat \<Rightarrow> py_float \<Rightarrow> string \<Rightarrow> rot_finding option" where
  "check_rot005_deficit sha signal tot least fname = (let r = signal_ratio signal tot in
     if r \<ge> least \<or> tot \<le> 2000 then None
     else Some \<lparr>rule_id = ''ROT005'', severity = HIGH,
       rot_message = ''Signal-to-noise deficit: invariant density '' @ fmt_fixed 1 (r * 100)
         @ ''% below minimum '' @ fmt_fixed 1 (least * 100) @ ''%'',
       location = fname @ '':ratio'', line_number = 1, token_depth = tot,
       recommendation = ''Filter conversational chatter and prune repetitive tool execution blocks'',
       finding_hash = sha (''ROT005:'' @ fname @ '':'' @ fmt_fixed 4 r)\<rparr>)"

definition option_list :: "'a option \<Rightarrow> 'a list" where
  "option_list f = (case f of Some x \<Rightarrow> [x] | None \<Rightarrow> [])"

definition evaluate_message_rot ::
    "(string \<Rightarrow> string) \<Rightarrow> context_message \<Rightarrow> audit_params \<Rightarrow> string set \<Rightarrow> rot_finding list \<times> string set" where
  "evaluate_message_rot sha m p seen = (let (f4, seen') = check_rot004_repetition sha m seen p in
     (option_list (check_rot002_valley sha m p) @ option_list (check_rot003_bloat sha m p) @ option_list f4, seen'))"

section \<open>The audit\<close>

text \<open>The loop of \<open>_scan_message_findings\<close>, with its three accumulators and the set of hashes.\<close>

fun scan_messages :: "(string \<Rightarrow> string) \<Rightarrow> audit_params \<Rightarrow> context_message list \<Rightarrow> string set
    \<Rightarrow> rot_finding list \<times> nat \<times> nat \<Rightarrow> rot_finding list \<times> nat \<times> nat" where
  "scan_messages sha p [] seen acc = acc"
| "scan_messages sha p (m # ms) seen (fs, signal, noise) =
     (let (new, seen') = evaluate_message_rot sha m p seen in
      scan_messages sha p ms seen'
        (fs @ new, signal + (if is_invariant_bearing m then token_count m else 0),
         noise + (if is_tool_observation m then token_count m else 0)))"

definition rot_audit :: "(string \<Rightarrow> string) \<Rightarrow> rot_thresholds \<Rightarrow> context_message list \<Rightarrow> string \<Rightarrow> audit_summary" where
  "rot_audit sha t ms fname = (let tot = sum_list (map token_count ms) in
     if ms = [] then \<lparr>total_messages = 0, total_tokens = 0, attention_dilution_index = 0,
       effective_context_ratio = 1, findings = [], compacted = None\<rparr>
     else let p = \<lparr>par_total_tokens = tot, par_thresholds = t, par_filename = fname\<rparr>;
              (fs, signal, noise) = scan_messages sha p ms {} ([], 0, 0)
          in \<lparr>total_messages = length ms, total_tokens = tot,
              attention_dilution_index =
                py_round 2 (of_nat noise / of_nat (max 1 signal) * (of_nat tot / 10000)),
              effective_context_ratio = py_round 4 (signal_ratio signal tot),
              findings = option_list (check_rot001_depth sha tot (max_effective_tokens t) fname) @ fs
                @ option_list (check_rot005_deficit sha signal tot (min_signal_to_noise_ratio t) fname),
              compacted = None\<rparr>)"

section \<open>The compactor\<close>

text \<open>\<open>lines[-3:]\<close> is the whole list when it has fewer than four lines, and \<open>omitted\<close> may be negative.\<close>

definition mask_observation :: "nat \<Rightarrow> string \<Rightarrow> string" where
  "mask_observation limit text = (let ls = py_splitlines text in
     if length ls \<le> limit then text
     else join_with newline (take 3 ls)
       @ newline @ ''... ['' @ show_int (int (length ls) - 6) @ '' lines omitted by ActiveContextCompactor] ...'' @ newline
       @ join_with newline (drop (length ls - 3) ls))"

definition compact_observation :: "nat \<Rightarrow> context_message \<Rightarrow> context_message" where
  "compact_observation limit m = (let masked = mask_observation limit (content m) in
     \<lparr>role = role m, content = masked, token_count = estimate_tokens masked, turn_index = turn_index m,
      position_ratio = 0, is_invariant_bearing = is_invariant_bearing m, is_tool_observation = True\<rparr>)"

definition suppress_traceback :: "context_message \<Rightarrow> string \<Rightarrow> context_message" where
  "suppress_traceback m h =
     \<lparr>role = role m, content = ''[Repeated traceback suppressed: '' @ take 8 h @ '']'', token_count = 10,
      turn_index = turn_index m, position_ratio = 0, is_invariant_bearing = False,
      is_tool_observation = is_tool_observation m\<rparr>"

definition compact_message_item :: "(string \<Rightarrow> string) \<Rightarrow> nat \<Rightarrow> context_message \<Rightarrow> string set
    \<Rightarrow> (context_message \<times> bool \<times> bool) \<times> string set" where
  "compact_message_item sha limit m seen =
     (if is_tool_observation m \<and> token_count m > 300 then ((compact_observation limit m, True, False), seen)
      else if contains_sub ''traceback'' (py_lower (content m)) then
        (let h = sha (take 300 (content m)) in
         if h \<in> seen then ((suppress_traceback m h, False, True), seen)
         else ((m, False, False), insert h seen))
      else ((m, False, False), seen))"

definition build_pinned_envelope :: "string \<Rightarrow> string list \<Rightarrow> nat \<Rightarrow> context_message" where
  "build_pinned_envelope shield pinned next_turn =
     (let text = ''### '' @ shield @ '' ANCHORED INVARIANT ENVELOPE (PINNED)'' @ newline
        @ join_with newline (map (\<lambda>inv. ''- '' @ py_strip inv) (drop (length pinned - 3) pinned)) in
      \<lparr>role = SYSTEM, content = text, token_count = estimate_tokens text, turn_index = next_turn,
       position_ratio = 0, is_invariant_bearing = True, is_tool_observation = False\<rparr>)"

fun process_compaction_stream :: "(string \<Rightarrow> string) \<Rightarrow> nat \<Rightarrow> context_message list \<Rightarrow> string set
    \<Rightarrow> context_message list \<times> string list \<times> nat \<times> nat \<Rightarrow> context_message list \<times> string list \<times> nat \<times> nat" where
  "process_compaction_stream sha limit [] seen acc = acc"
| "process_compaction_stream sha limit (m # ms) seen (out, pinned, masked, deduped) =
     (let pinned' = (if is_invariant_bearing m \<and> role m \<noteq> SYSTEM then pinned @ [content m] else pinned);
          ((item, was_masked, was_deduped), seen') = compact_message_item sha limit m seen
      in process_compaction_stream sha limit ms seen'
           (out @ [item], pinned', masked + of_bool was_masked, deduped + of_bool was_deduped))"

definition compact_context :: "(string \<Rightarrow> string) \<Rightarrow> string \<Rightarrow> nat \<Rightarrow> context_message list \<Rightarrow> compacted_context" where
  "compact_context sha shield limit ms =
     (let original = sum_list (map token_count ms);
          (out, pinned, masked, deduped) = process_compaction_stream sha limit ms {} ([], [], 0, 0);
          out' = (if pinned \<noteq> [] then out @ [build_pinned_envelope shield pinned (length out)] else out);
          final = assign_position_ratios out';
          after = sum_list (map token_count final)
      in \<lparr>original_token_count = original, compacted_token_count = after,
          compression_ratio = py_round 4 (if original > 0 then of_nat after / of_nat original else 1),
          masked_observations_count = masked, deduplicated_errors_count = deduped,
          pinned_invariants_count = length pinned, compacted_messages = final\<rparr>)"

text \<open>The line ceiling of the compactor when the command line builds it.\<close>

definition default_observation_lines :: nat where
  "default_observation_lines = 10"

definition run_cli_audit :: "(string \<Rightarrow> string) \<Rightarrow> string \<Rightarrow> auditor_preset \<Rightarrow> bool \<Rightarrow> context_message list
    \<Rightarrow> string \<Rightarrow> audit_summary" where
  "run_cli_audit sha shield preset with_compact ms fname =
     (let s = rot_audit sha (PRESET_THRESHOLDS preset) ms fname in
      if \<not> with_compact then s else s\<lparr>compacted := Some (compact_context sha shield default_observation_lines ms)\<rparr>)"

definition rot_exit_code :: "audit_summary \<Rightarrow> nat" where
  "rot_exit_code s = (if list_ex (\<lambda>f. severity f = CRITICAL \<or> severity f = HIGH) (findings s) then 1 else 0)"

section \<open>Documents\<close>

definition rot_rule :: "string \<Rightarrow> string \<Rightarrow> string \<Rightarrow> string \<Rightarrow> string \<times> json" where
  "rot_rule i nm text level = (i, JObj
     [(''id'', JStr i), (''name'', JStr nm), (''shortDescription'', JObj [(''text'', JStr text)]),
      (''defaultConfiguration'', JObj [(''level'', JStr level)]),
      (''helpUri'', JStr ''https://github.com/dan-petty/vibes'')])"

definition SARIF_RULES :: "(string \<times> json) list" where
  "SARIF_RULES =
     [rot_rule ''ROT001'' ''ContextDepthExceeded''
        ''Total context token depth exceeds effective retention horizon.'' ''warning'',
      rot_rule ''ROT002'' ''LostInTheMiddleInvariant''
        ''Critical invariant constraint trapped in the lost-in-the-middle valley.'' ''error'',
      rot_rule ''ROT003'' ''ObservationBloat''
        ''Single tool observation or command output consumes excessive token budget.'' ''warning'',
      rot_rule ''ROT004'' ''RepetitiveErrorChatter''
        ''Redundant failure tracebacks repeating without active pruning.'' ''warning'',
      rot_rule ''ROT005'' ''SignalToNoiseDeficit''
        ''Ratio of actionable instruction tokens to raw chatter is critically low.'' ''error'']"

text \<open>\<open>rule_def["defaultConfiguration"]["level"]\<close>; an id without a rule has the level \<open>warning\<close>.\<close>

definition rule_level :: "string \<Rightarrow> json" where
  "rule_level i = (case map_of SARIF_RULES i of
     None \<Rightarrow> JStr ''warning''
   | Some r \<Rightarrow> (case json_field r ''defaultConfiguration'' of
        None \<Rightarrow> JNull
      | Some c \<Rightarrow> (case json_field c ''level'' of None \<Rightarrow> JNull | Some l \<Rightarrow> l)))"

definition rot_result :: "string \<Rightarrow> rot_finding \<Rightarrow> json" where
  "rot_result uri f = JObj
     [(''ruleId'', JStr (rule_id f)), (''level'', rule_level (rule_id f)),
      (''message'', JObj [(''text'', JStr (rot_message f))]),
      (''locations'', JArr [JObj [(''physicalLocation'', JObj
         [(''artifactLocation'', JObj [(''uri'', JStr uri)]),
          (''region'', JObj [(''startLine'', JInt (int (max 1 (line_number f))))])])]]),
      (''properties'', JObj
         [(''severity'', JStr (severity_value (severity f))), (''tokenDepth'', JInt (int (token_depth f))),
          (''recommendation'', JStr (recommendation f)), (''findingHash'', JStr (finding_hash f))])]"

definition rot_sarif :: "audit_summary \<Rightarrow> string \<Rightarrow> json" where
  "rot_sarif s uri = JObj
     [(''$schema'', JStr ''https://json.schemastore.org/sarif-2.1.0.json''), (''version'', JStr ''2.1.0''),
      (''runs'', JArr [JObj
         [(''tool'', JObj [(''driver'', JObj
            [(''name'', JStr ''vibes-context-rot-auditor''),
             (''informationUri'', JStr ''https://github.com/dan-petty/vibes''),
             (''version'', JStr AUDITOR_VERSION), (''rules'', JArr (map snd SARIF_RULES))])]),
          (''results'', JArr (map (rot_result uri) (findings s)))]])]"

text \<open>The value that \<open>export_json\<close> hands to \<open>json.dumps\<close>.\<close>

definition finding_json :: "rot_finding \<Rightarrow> json" where
  "finding_json f = JObj
     [(''rule_id'', JStr (rule_id f)), (''severity'', JStr (severity_value (severity f))),
      (''message'', JStr (rot_message f)), (''location'', JStr (location f)),
      (''line_number'', JInt (int (line_number f))), (''token_depth'', JInt (int (token_depth f))),
      (''recommendation'', JStr (recommendation f))]"

definition rot_json :: "audit_summary \<Rightarrow> json" where
  "rot_json s = JObj
     ([(''auditor_version'', JStr AUDITOR_VERSION), (''total_messages'', JInt (int (total_messages s))),
       (''total_tokens'', JInt (int (total_tokens s))),
       (''attention_dilution_index'', JFloat (attention_dilution_index s)),
       (''effective_context_ratio'', JFloat (effective_context_ratio s)),
       (''findings_count'', JInt (int (length (findings s)))), (''findings'', JArr (map finding_json (findings s)))]
      @ (case compacted s of None \<Rightarrow> []
         | Some c \<Rightarrow> [(''compacted'', JObj
             [(''original_tokens'', JInt (int (original_token_count c))),
              (''compacted_tokens'', JInt (int (compacted_token_count c))),
              (''compression_ratio'', JFloat (compression_ratio c)),
              (''masked_observations'', JInt (int (masked_observations_count c))),
              (''deduplicated_errors'', JInt (int (deduplicated_errors_count c))),
              (''pinned_invariants'', JInt (int (pinned_invariants_count c)))])]))"

definition compaction_lines :: "compacted_context \<Rightarrow> string list" where
  "compaction_lines c =
     [''## Active Context Compaction Summary'', '''',
      ''- **Compacted Tokens**: '' @ show_nat (compacted_token_count c) @ '' (Saved ''
        @ show_int (int (original_token_count c) - int (compacted_token_count c)) @ '' tokens)'',
      ''- **Compression Ratio**: `'' @ fmt_fixed 1 (compression_ratio c * 100) @ ''%`'',
      ''- **Masked Observations**: '' @ show_nat (masked_observations_count c),
      ''- **Deduplicated Errors**: '' @ show_nat (deduplicated_errors_count c),
      ''- **Re-Pinned Invariant Anchors**: '' @ show_nat (pinned_invariants_count c), '''']"

text \<open>\<open>str.upper\<close>, for the lower case ASCII of the severities.\<close>

definition upper_char :: "char \<Rightarrow> char" where
  "upper_char c = (let n = (of_char c :: nat) in if 97 \<le> n \<and> n \<le> 122 then char_of (n - 32) else c)"

definition finding_row :: "rot_finding \<Rightarrow> string" where
  "finding_row f = ''| `'' @ rule_id f @ ''` | **'' @ map upper_char (severity_value (severity f)) @ ''** | `''
     @ location f @ ''` | '' @ rot_message f @ '' | '' @ recommendation f @ '' |''"

definition rot_markdown :: "string \<Rightarrow> audit_summary \<Rightarrow> string" where
  "rot_markdown tick s = join_with newline
     ([''# Attention Dilution & Context Rot Audit Report'', '''',
       ''- **Total Messages**: '' @ show_nat (total_messages s),
       ''- **Total Token Depth**: '' @ show_nat (total_tokens s),
       ''- **Attention Dilution Index (ADI)**: `'' @ show_float (attention_dilution_index s) @ ''`'',
       ''- **Effective Invariant Ratio**: `'' @ fmt_fixed 1 (effective_context_ratio s * 100) @ ''%`'',
       ''- **Total Findings**: '' @ show_nat (length (findings s)), '''']
      @ (case compacted s of Some c \<Rightarrow> compaction_lines c | None \<Rightarrow> [])
      @ (if findings s = []
         then [tick @ '' **Zero context rot hazards detected.** Signal-to-noise density optimal.'' @ newline]
         else [''## Rot & Attention Dilution Findings'', '''',
               ''| Rule | Severity | Location | Finding | Recommendation |'', ''| :--- | :--- | :--- | :--- | :--- |'']
           @ map finding_row (findings s) @ ['''']))"

end
