(* ===== verification/Rot_Props.thy ===== *)
theory Rot_Props
  imports Context_Rot
begin

text \<open>
  Properties of \<open>Context_Rot\<close>. The set of hashes that the audit and the compactor thread through a
  transcript is replaced by the list of the messages before each one; from that follow the findings,
  the exit status and the shape of a compacted transcript.
\<close>

section \<open>Each message with those before it\<close>

fun with_history :: "('a list \<Rightarrow> 'a \<Rightarrow> 'b) \<Rightarrow> 'a list \<Rightarrow> 'a list \<Rightarrow> 'b list" where
  "with_history f before [] = []"
| "with_history f before (x # xs) = f before x # with_history f (before @ [x]) xs"

lemma length_with_history [simp]: "length (with_history f before xs) = length xs"
  by (induction xs arbitrary: before) auto

lemma with_history_nth: "i < length xs \<Longrightarrow>
    with_history f before xs ! i = f (before @ take i xs) (xs ! i)"
  by (induction xs arbitrary: before i) (auto simp: nth_Cons' take_Cons')

lemma map_with_history [simp]: "map g (with_history f before xs) = with_history (\<lambda>b x. g (f b x)) before xs"
  by (induction xs arbitrary: before) auto

lemma with_history_const: "with_history (\<lambda>b x. g x) before xs = map g xs"
  by (induction xs arbitrary: before) auto

section \<open>Rounding and lines\<close>

lemma py_round_one [simp]: "py_round n 1 = 1"
  using round_half_even_int[of "10 ^ n"] by (simp add: py_round_def)

lemma lines_from_no_break:
  "l \<in> set (lines_from cur s) \<Longrightarrow> list_all (\<lambda>c. \<not> line_break c) cur \<Longrightarrow> list_all (\<lambda>c. \<not> line_break c) l"
  by (induction cur s rule: lines_from.induct) (auto split: if_splits)

lemma splitlines_no_break: "l \<in> set (py_splitlines s) \<Longrightarrow> filter line_break l = []"
  using lines_from_no_break[of l "[]" s] by (auto simp: py_splitlines_def list_all_iff)

lemma lines_from_length: "length (lines_from cur s) \<le> Suc (length (filter line_break s))"
  by (induction cur s rule: lines_from.induct) auto

lemma splitlines_length: "length (py_splitlines s) \<le> Suc (length (filter line_break s))"
  by (simp add: py_splitlines_def lines_from_length)

lemma breaks_of_join: "(\<And>l. l \<in> set ls \<Longrightarrow> filter line_break l = []) \<Longrightarrow>
    length (filter line_break (join_with newline ls)) \<le> length ls - 1"
  by (induction "newline" ls rule: join_with.induct) (auto simp: newline_def)

lemma digit_no_break: "is_digit c \<Longrightarrow> \<not> line_break c"
  by (auto simp: is_digit_def line_break_def Let_def)

lemma show_int_no_break [simp]: "filter line_break (show_int i) = []"
  by (auto simp: show_int_def filter_empty_conv digit_no_break dest: show_nat_digits)
     (auto simp: line_break_def)

section \<open>Positions\<close>

definition positions_in_order :: "context_message list \<Rightarrow> bool" where
  "positions_in_order ms \<longleftrightarrow> sorted (map position_ratio ms)
     \<and> list_all (\<lambda>m. 0 \<le> position_ratio m \<and> position_ratio m \<le> 1) ms"

lemma assign_from_ge: "m \<in> set (assign_from tot cur ms) \<Longrightarrow> py_round 4 (of_nat cur / of_nat tot) \<le> position_ratio m"
proof (induction tot cur ms rule: assign_from.induct)
  case (2 tot cur m' ms)
  have "py_round 4 (of_nat cur / of_nat tot) \<le> py_round 4 (of_nat (cur + token_count m') / of_nat tot)"
    by (intro py_round_mono divide_right_mono) auto
  then show ?case using 2 by fastforce
qed simp

lemma assign_from_le: "m \<in> set (assign_from tot cur ms) \<Longrightarrow> 0 < tot \<Longrightarrow>
    cur + sum_list (map token_count ms) \<le> tot \<Longrightarrow> position_ratio m \<le> 1"
proof (induction tot cur ms rule: assign_from.induct)
  case (2 tot cur m' ms)
  have "(of_nat cur :: py_float) \<le> of_nat tot" using 2(4) by (simp add: of_nat_le_iff)
  then have "(of_nat cur / of_nat tot :: py_float) \<le> 1" by (cases "tot = 0") (simp_all add: divide_le_eq_1)
  then have "py_round 4 (of_nat cur / of_nat tot) \<le> 1" using py_round_mono[of _ 1 4] by simp
  then show ?case using 2 by auto
qed simp

lemma assign_from_sorted: "sorted (map position_ratio (assign_from tot cur ms))"
proof (induction tot cur ms rule: assign_from.induct)
  case (2 tot cur m ms)
  have "py_round 4 (of_nat cur / of_nat tot) \<le> py_round 4 (of_nat (cur + token_count m) / of_nat tot)"
    by (intro py_round_mono divide_right_mono) auto
  then show ?case using 2 by (fastforce dest: assign_from_ge)
qed simp

lemma assigned_in_order:
  assumes "0 < sum_list (map token_count ms)"
  shows "positions_in_order (assign_position_ratios ms)"
proof -
  define tot where "tot = sum_list (map token_count ms)"
  have "assign_position_ratios ms = assign_from tot 0 ms"
    unfolding assign_position_ratios_def Let_def tot_def by (rule if_not_P) (use assms in linarith)
  moreover have "0 \<le> py_round 4 (of_nat 0 / of_nat tot)" by (simp add: py_round_nonneg)
  moreover have "position_ratio m \<le> 1" if "m \<in> set (assign_from tot 0 ms)" for m
    using assign_from_le[OF that] assms by (simp add: tot_def)
  ultimately show ?thesis using assign_from_sorted[of tot 0 ms]
    by (auto simp: positions_in_order_def list_all_iff dest: assign_from_ge intro: order_trans)
qed

lemma assign_from_map: "map (position_ratio_update (\<lambda>_. 0)) (assign_from tot cur ms) = map (position_ratio_update (\<lambda>_. 0)) ms"
  by (induction tot cur ms rule: assign_from.induct) auto

lemma assign_from_field: "(\<And>m q. g (m\<lparr>position_ratio := q\<rparr>) = g m) \<Longrightarrow> map g (assign_from tot cur ms) = map g ms"
  by (induction tot cur ms rule: assign_from.induct) auto

text \<open>Everything but the position passes through; the fields follow by their congruence.\<close>

lemma assign_field: "(\<And>m q. g (m\<lparr>position_ratio := q\<rparr>) = g m) \<Longrightarrow> map g (assign_position_ratios ms) = map g ms"
  by (simp add: assign_position_ratios_def Let_def assign_from_field)

lemma assign_length [simp]: "length (assign_position_ratios ms) = length ms"
  using assign_field[of "\<lambda>m. ()" ms] by (metis length_map)

definition carries_text :: "context_message \<Rightarrow> bool" where
  "carries_text m \<longleftrightarrow> content m \<noteq> '''' \<and> token_count m = estimate_tokens (content m)
     \<and> is_invariant_bearing m = has_invariant_content (content m)
     \<and> is_tool_observation m = observation_text (role m) (content m)"

lemma assign_carries: "list_all carries_text (assign_position_ratios ms) = list_all carries_text ms"
proof -
  have "map carries_text (assign_position_ratios ms) = map carries_text ms"
    by (rule assign_field) (simp add: carries_text_def)
  then have "list_all id (map carries_text (assign_position_ratios ms)) = list_all id (map carries_text ms)" by (rule arg_cong)
  then show ?thesis by (simp add: list.pred_map)
qed

lemma carries_tokens: "list_all carries_text ms \<Longrightarrow> ms \<noteq> [] \<Longrightarrow> 0 < sum_list (map token_count ms)"
  by (cases ms) (auto simp: carries_text_def estimate_tokens_def)

lemma positions_of_carriers: "list_all carries_text ms \<Longrightarrow>
    positions_in_order (assign_position_ratios ms) \<and> list_all carries_text (assign_position_ratios ms)"
  by (cases "ms = []") (auto simp: assign_carries carries_tokens assigned_in_order,
    simp add: positions_in_order_def assign_position_ratios_def)

lemma new_message_carries: "text \<noteq> '''' \<Longrightarrow> carries_text (new_message r text i)"
  by (simp add: carries_text_def new_message_def)

lemma map_filter_all: "(\<And>x y. x \<in> set xs \<Longrightarrow> f x = Some y \<Longrightarrow> P y) \<Longrightarrow> list_all P (List.map_filter f xs)"
  by (auto simp: list_all_iff List.map_filter_def split: option.splits)

lemma dict_carries: "parse_dict_to_message d i = Some m \<Longrightarrow> carries_text m"
  by (auto simp: parse_dict_to_message_def Let_def new_message_carries split: if_splits)

lemma line_carries: "try_parse_jsonl_line loads l i = Some m \<Longrightarrow> carries_text m"
  by (auto simp: try_parse_jsonl_line_def dict_carries split: if_splits option.splits json.splits)

lemma block_carries: "parse_single_turn_block b i = Some m \<Longrightarrow> carries_text m"
  by (auto simp: parse_single_turn_block_def Let_def new_message_carries split: if_splits)

text \<open>Whatever the format of a transcript, every message that is read has a text, with its tokens and
  flags computed from it, and the positions go up from the start of the window to its end.\<close>

theorem transcript_positions:
  "positions_in_order (parse_transcript_text loads raw) \<and> list_all carries_text (parse_transcript_text loads raw)"
proof -
  have items: "list_all carries_text (List.map_filter (\<lambda>(i, d). parse_dict_to_message d i) xs)" for xs
    by (rule map_filter_all) (auto simp: dict_carries)
  have lines: "list_all carries_text (try_parse_jsonl loads ls)" for ls
    unfolding try_parse_jsonl_def by (rule map_filter_all) (auto simp: line_carries)
  have blocks: "list_all carries_text (List.map_filter (\<lambda>(i, b). parse_single_turn_block b i) xs)" for xs
    by (rule map_filter_all) (auto simp: block_carries)
  show ?thesis
    by (auto simp: parse_transcript_text_def Let_def try_parse_json_array_def parse_json_items_def
      parse_plaintext_turns_def positions_in_order_def[of "[]"] positions_of_carriers items lines blocks
      split: option.splits json.splits if_splits)
qed

section \<open>Compaction without the set of hashes\<close>

definition maskable :: "context_message \<Rightarrow> bool" where
  "maskable m \<longleftrightarrow> is_tool_observation m \<and> token_count m > 300"

definition kept_traceback :: "context_message \<Rightarrow> bool" where
  "kept_traceback m \<longleftrightarrow> \<not> maskable m \<and> contains_sub ''traceback'' (py_lower (content m))"

definition opening_hash :: "(string \<Rightarrow> string) \<Rightarrow> context_message \<Rightarrow> string" where
  "opening_hash sha m = sha (take 300 (content m))"

definition suppressed :: "(string \<Rightarrow> string) \<Rightarrow> context_message list \<Rightarrow> context_message \<Rightarrow> bool" where
  "suppressed sha before m \<longleftrightarrow> kept_traceback m
     \<and> list_ex (\<lambda>e. kept_traceback e \<and> opening_hash sha e = opening_hash sha m) before"

definition compacted_item :: "(string \<Rightarrow> string) \<Rightarrow> nat \<Rightarrow> context_message list \<Rightarrow> context_message \<Rightarrow> context_message" where
  "compacted_item sha limit before m =
     (if maskable m then compact_observation limit m
      else if suppressed sha before m then suppress_traceback m (opening_hash sha m) else m)"

definition pinned_contents :: "context_message list \<Rightarrow> string list" where
  "pinned_contents ms = map content (filter (\<lambda>m. is_invariant_bearing m \<and> role m \<noteq> SYSTEM) ms)"

definition trace_hashes :: "(string \<Rightarrow> string) \<Rightarrow> context_message list \<Rightarrow> string set" where
  "trace_hashes sha before = opening_hash sha ` {e \<in> set before. kept_traceback e}"

lemma trace_hashes_Nil [simp]: "trace_hashes sha [] = {}"
  by (simp add: trace_hashes_def)

lemma trace_hashes_snoc: "trace_hashes sha (before @ [m]) =
    (if kept_traceback m then insert (opening_hash sha m) (trace_hashes sha before) else trace_hashes sha before)"
  by (auto simp: trace_hashes_def)

lemma suppressed_iff: "suppressed sha before m \<longleftrightarrow> kept_traceback m \<and> opening_hash sha m \<in> trace_hashes sha before"
  by (auto simp: suppressed_def trace_hashes_def list_ex_iff image_iff eq_commute)

lemma compact_item_eq: "compact_message_item sha limit m (trace_hashes sha before) =
    ((compacted_item sha limit before m, maskable m, suppressed sha before m), trace_hashes sha (before @ [m]))"
  unfolding compact_message_item_def compacted_item_def suppressed_iff trace_hashes_snoc
  by (auto simp: maskable_def kept_traceback_def opening_hash_def Let_def)

lemma stream_eq: "process_compaction_stream sha limit ms (trace_hashes sha before) (out, pinned, masked, deduped) =
    (out @ with_history (compacted_item sha limit) before ms, pinned @ pinned_contents ms,
     masked + length (filter maskable ms),
     deduped + length (filter id (with_history (suppressed sha) before ms)))"
  by (induction ms arbitrary: before out pinned masked deduped)
    (auto simp: compact_item_eq pinned_contents_def Let_def)

definition compacted_stream :: "(string \<Rightarrow> string) \<Rightarrow> string \<Rightarrow> nat \<Rightarrow> context_message list \<Rightarrow> context_message list" where
  "compacted_stream sha shield limit ms = with_history (compacted_item sha limit) [] ms
     @ (if pinned_contents ms = [] then [] else [build_pinned_envelope shield (pinned_contents ms) (length ms)])"

lemma compact_eq: "compact_context sha shield limit ms =
    (let out = assign_position_ratios (compacted_stream sha shield limit ms);
         after = sum_list (map token_count out); original = sum_list (map token_count ms)
     in \<lparr>original_token_count = original, compacted_token_count = after,
         compression_ratio = py_round 4 (if original > 0 then of_nat after / of_nat original else 1),
         masked_observations_count = length (filter maskable ms),
         deduplicated_errors_count = length (filter id (with_history (suppressed sha) [] ms)),
         pinned_invariants_count = length (pinned_contents ms), compacted_messages = out\<rparr>)"
  using stream_eq[of sha limit ms "[]" "[]" "[]" 0 0]
  by (simp add: compact_context_def compacted_stream_def Let_def del: sum_list_eq_0_iff not_gr_zero)

lemma compacted_messages_eq: "compacted_messages (compact_context sha shield limit ms) =
    assign_position_ratios (compacted_stream sha shield limit ms)"
  by (simp add: compact_eq Let_def)

lemma compacted_item_fields [simp]:
  "role (compacted_item sha limit before m) = role m"
  "turn_index (compacted_item sha limit before m) = turn_index m"
  by (auto simp: compacted_item_def compact_observation_def suppress_traceback_def Let_def)

definition turns_of :: "context_message list \<Rightarrow> (message_role \<times> nat) list" where
  "turns_of ms = map (\<lambda>m. (role m, turn_index m)) ms"

text \<open>The speakers and turns of a transcript survive compaction, in their order.\<close>

theorem compaction_keeps_turns:
  "turns_of (compacted_messages (compact_context sha shield limit ms)) =
     turns_of ms @ (if pinned_contents ms = [] then [] else [(SYSTEM, length ms)])"
  unfolding turns_of_def compacted_messages_eq
  by (subst assign_field) (auto simp: compacted_stream_def with_history_const build_pinned_envelope_def Let_def)

definition place :: "context_message \<Rightarrow> context_message" where
  "place m = m\<lparr>position_ratio := 0\<rparr>"

text \<open>C19: A compacted transcript is, message by message, what the specification without a set of hashes
  says: a long observation is masked, a traceback whose opening an earlier one had is replaced by a
  placeholder, everything else is kept, and an envelope follows when a speaker other than the system
  stated an invariant. The counts are those of the messages so treated.\<close>

theorem compaction_by_first_occurrence:
  "(let c = compact_context sha shield limit ms in
     map place (compacted_messages c) = map place (compacted_stream sha shield limit ms)
     \<and> masked_observations_count c = length (filter maskable ms)
     \<and> deduplicated_errors_count c = length (filter id (with_history (suppressed sha) [] ms))
     \<and> pinned_invariants_count c = length (pinned_contents ms)
     \<and> compacted_token_count c = sum_list (map token_count (compacted_messages c)))"
proof -
  have "map place (assign_position_ratios xs) = map place xs" for xs
    by (rule assign_field) (simp add: place_def)
  then show ?thesis by (simp add: compact_eq Let_def)
qed

lemma pinned_not_suppressed: "list_all Not (with_history (suppressed sha) before ms) \<Longrightarrow>
    length (pinned_contents (with_history (compacted_item sha limit) before ms)) = length (pinned_contents ms)"
  by (induction ms arbitrary: before)
    (auto simp: pinned_contents_def compacted_item_def compact_observation_def Let_def)

lemma pinned_place: "length (pinned_contents (assign_position_ratios ms)) = length (pinned_contents ms)"
proof -
  have "map (\<lambda>m. is_invariant_bearing m \<and> role m \<noteq> SYSTEM) (assign_position_ratios ms)
      = map (\<lambda>m. is_invariant_bearing m \<and> role m \<noteq> SYSTEM) ms" by (rule assign_field) simp
  then have "length (filter id (map (\<lambda>m. is_invariant_bearing m \<and> role m \<noteq> SYSTEM) (assign_position_ratios ms)))
      = length (filter id (map (\<lambda>m. is_invariant_bearing m \<and> role m \<noteq> SYSTEM) ms))" by (rule arg_cong)
  then show ?thesis by (simp add: pinned_contents_def filter_map comp_def)
qed

text \<open>Each further pass over a transcript with a pinned invariant appends one more envelope.\<close>

theorem compaction_not_idempotent:
  assumes "pinned_contents ms \<noteq> []"
    and "deduplicated_errors_count (compact_context sha shield limit ms) = 0"
  shows "length (compacted_messages (compact_context sha shield limit
           (compacted_messages (compact_context sha shield limit ms)))) = length ms + 2"
proof -
  let ?out = "assign_position_ratios (compacted_stream sha shield limit ms)"
  have "list_all Not (with_history (suppressed sha) [] ms)"
    using assms(2) by (simp add: compact_eq Let_def filter_empty_conv list_all_iff)
  then have "length (pinned_contents ?out) = length (pinned_contents ms)"
    unfolding pinned_place compacted_stream_def using pinned_not_suppressed[of sha "[]" ms limit]
    by (simp add: pinned_contents_def build_pinned_envelope_def Let_def)
  then have "pinned_contents ?out \<noteq> []" using assms(1) by (metis length_0_conv)
  then show ?thesis using assms(1)
    by (simp add: compacted_messages_eq compacted_stream_def)
qed

section \<open>The audit without the set of hashes\<close>

definition repeated_error :: "(string \<Rightarrow> string) \<Rightarrow> context_message list \<Rightarrow> context_message \<Rightarrow> bool" where
  "repeated_error sha before m \<longleftrightarrow> error_text (content m)
     \<and> list_ex (\<lambda>e. error_text (content e) \<and> opening_hash sha e = opening_hash sha m) before"

definition repetition_finding :: "(string \<Rightarrow> string) \<Rightarrow> audit_params \<Rightarrow> context_message \<Rightarrow> rot_finding list" where
  "repetition_finding sha p m = option_list (fst (check_rot004_repetition sha m {opening_hash sha m} p))"

definition message_findings ::
    "(string \<Rightarrow> string) \<Rightarrow> audit_params \<Rightarrow> context_message list \<Rightarrow> context_message \<Rightarrow> rot_finding list" where
  "message_findings sha p before m = option_list (check_rot002_valley sha m p) @ option_list (check_rot003_bloat sha m p)
     @ (if repeated_error sha before m then repetition_finding sha p m else [])"

definition signal_tokens :: "context_message list \<Rightarrow> nat" where
  "signal_tokens ms = sum_list (map token_count (filter is_invariant_bearing ms))"

definition noise_tokens :: "context_message list \<Rightarrow> nat" where
  "noise_tokens ms = sum_list (map token_count (filter is_tool_observation ms))"

definition error_hashes :: "(string \<Rightarrow> string) \<Rightarrow> context_message list \<Rightarrow> string set" where
  "error_hashes sha before = opening_hash sha ` {e \<in> set before. error_text (content e)}"

lemma error_hashes_Nil [simp]: "error_hashes sha [] = {}"
  by (simp add: error_hashes_def)

lemma error_hashes_snoc: "error_hashes sha (before @ [m]) =
    (if error_text (content m) then insert (opening_hash sha m) (error_hashes sha before) else error_hashes sha before)"
  by (auto simp: error_hashes_def)

lemma repeated_iff: "repeated_error sha before m \<longleftrightarrow>
    error_text (content m) \<and> opening_hash sha m \<in> error_hashes sha before"
  by (auto simp: repeated_error_def error_hashes_def list_ex_iff image_iff eq_commute)

lemma evaluate_eq: "evaluate_message_rot sha m p (error_hashes sha before) =
    (message_findings sha p before m, error_hashes sha (before @ [m]))"
  unfolding evaluate_message_rot_def message_findings_def repeated_iff error_hashes_snoc repetition_finding_def
  by (auto simp: check_rot004_repetition_def opening_hash_def option_list_def Let_def)

lemma scan_eq: "scan_messages sha p ms (error_hashes sha before) (fs, s, n) =
    (fs @ concat (with_history (message_findings sha p) before ms), s + signal_tokens ms, n + noise_tokens ms)"
  by (induction ms arbitrary: before fs s n) (auto simp: evaluate_eq signal_tokens_def noise_tokens_def)

text \<open>The findings of an audit, in their order: the depth of the window, then for each message its
  place, its size and whether an earlier error opened with the same text, then the share of signal.\<close>

theorem audit_by_first_occurrence:
  "findings (rot_audit sha t ms fname) = (let tot = sum_list (map token_count ms);
       p = \<lparr>par_total_tokens = tot, par_thresholds = t, par_filename = fname\<rparr> in
     option_list (check_rot001_depth sha tot (max_effective_tokens t) fname)
     @ concat (with_history (message_findings sha p) [] ms)
     @ option_list (check_rot005_deficit sha (signal_tokens ms) tot (min_signal_to_noise_ratio t) fname))"
proof (cases "ms = []")
  case True
  then show ?thesis
    by (simp add: rot_audit_def check_rot001_depth_def check_rot005_deficit_def option_list_def Let_def)
next
  case False
  then show ?thesis using scan_eq[of sha _ ms "[]" "[]" 0 0]
    by (simp add: rot_audit_def Let_def)
qed

lemma list_ex_concat: "list_ex P (concat xss) \<longleftrightarrow> list_ex (list_ex P) xss"
  by (induction xss) auto

lemma list_ex_history: "(\<And>b x. P (f b x) = Q x) \<Longrightarrow> list_ex P (with_history f before xs) = list_ex Q xs"
  by (induction xs arbitrary: before) auto

definition trapped :: "rot_thresholds \<Rightarrow> context_message \<Rightarrow> bool" where
  "trapped t m \<longleftrightarrow> is_invariant_bearing m
     \<and> valley_start_ratio t \<le> position_ratio m \<and> position_ratio m \<le> valley_end_ratio t"

definition grave :: "rot_finding \<Rightarrow> bool" where
  "grave f \<longleftrightarrow> severity f = CRITICAL \<or> severity f = HIGH"

lemma grave_message: "list_ex grave (message_findings sha p before m) \<longleftrightarrow> trapped (par_thresholds p) m"
  by (auto simp: message_findings_def grave_def trapped_def option_list_def check_rot002_valley_def Let_def
    check_rot003_bloat_def repetition_finding_def check_rot004_repetition_def)

lemma grave_depth: "list_ex grave (option_list (check_rot001_depth sha tot limit fname)) \<longleftrightarrow> limit < tot"
  by (auto simp: check_rot001_depth_def option_list_def grave_def)

lemma grave_deficit: "list_ex grave (option_list (check_rot005_deficit sha s tot least fname)) \<longleftrightarrow>
    2000 < tot \<and> signal_ratio s tot < least"
  by (auto simp: check_rot005_deficit_def option_list_def grave_def Let_def)

text \<open>The command fails exactly when the window is too deep, a message with an invariant lies in the
  valley, or a window above 2000 tokens carries too little signal; masses of observations and repeated
  tracebacks never make it fail.\<close>

theorem exit_code_decides:
  "rot_exit_code (rot_audit sha t ms fname) = (let tot = sum_list (map token_count ms) in
     of_bool (max_effective_tokens t < tot \<or> list_ex (trapped t) ms
       \<or> 2000 < tot \<and> signal_ratio (signal_tokens ms) tot < min_signal_to_noise_ratio t))"
proof -
  have "list_ex grave (findings (rot_audit sha t ms fname)) \<longleftrightarrow> (let tot = sum_list (map token_count ms) in
      max_effective_tokens t < tot \<or> list_ex (trapped t) ms
       \<or> 2000 < tot \<and> signal_ratio (signal_tokens ms) tot < min_signal_to_noise_ratio t)"
    unfolding audit_by_first_occurrence Let_def list_ex_append list_ex_concat grave_depth grave_deficit
    by (subst list_ex_history[where Q = "trapped t"]) (simp_all add: grave_message)
  then show ?thesis unfolding rot_exit_code_def by (simp add: grave_def[abs_def] Let_def)
qed

section \<open>Masked observations\<close>

lemma masked_breaks: "length (filter line_break (mask_observation limit text)) \<le> 6
    \<or> mask_observation limit text = text \<and> length (py_splitlines text) \<le> limit"
proof (cases "length (py_splitlines text) \<le> limit")
  case False
  let ?ls = "py_splitlines text"
  have few: "length (filter line_break (join_with newline (take 3 ?ls))) \<le> 2"
    "length (filter line_break (join_with newline (drop (length ?ls - 3) ?ls))) \<le> 2"
    by (rule order_trans[OF breaks_of_join], auto dest: in_set_takeD in_set_dropD splitlines_no_break)+
  have "filter line_break ''... ['' = []" "filter line_break '' lines omitted by ActiveContextCompactor] ...'' = []"
    "length (filter line_break newline) = 1"
    by (simp_all add: line_break_def newline_def)
  then have "length (filter line_break (mask_observation limit text)) \<le> 6"
    using few unfolding mask_observation_def Let_def if_not_P[OF False] filter_append length_append show_int_no_break
    by (simp only: list.size)
  then show ?thesis ..
qed (simp add: mask_observation_def Let_def)

text \<open>A masked observation has at most seven lines, or as many as the ceiling allows.\<close>

theorem masked_lines_bounded:
  "length (py_splitlines (mask_observation limit text)) \<le> max limit 7"
  using masked_breaks[of limit "text"] splitlines_length[of "mask_observation limit text"] by auto

lemma mask_short: "length (py_splitlines s) \<le> limit \<Longrightarrow> mask_observation limit s = s"
  by (simp add: mask_observation_def Let_def)

theorem masking_idempotent:
  "mask_observation default_observation_lines (mask_observation default_observation_lines text) =
     mask_observation default_observation_lines text"
  by (rule mask_short, rule order_trans[OF masked_lines_bounded]) (simp add: default_observation_lines_def)

section \<open>Short transcripts\<close>

text \<open>Concrete runs, with a constant in place of SHA-256 where no message repeats.\<close>

definition sample_turns :: "context_message list" where
  "sample_turns = assign_position_ratios [new_message USER ''read the file twice'' 0,
     new_message USER ''invariant'' 1, new_message USER ''good bye'' 2]"

lemma one_invariant_pinned: "pinned_contents [new_message USER ''invariant'' 0] = [''invariant'']"
  by code_simp

lemma one_invariant_once: "deduplicated_errors_count
    (compact_context (\<lambda>s. ''h'') ''S'' 10 [new_message USER ''invariant'' 0]) = 0"
  by (simp add: compact_eq Let_def suppressed_def)

theorem compaction_not_idempotent_witness:
  "length (compacted_messages (compact_context (\<lambda>s. ''h'') ''S'' 10
     (compacted_messages (compact_context (\<lambda>s. ''h'') ''S'' 10 [new_message USER ''invariant'' 0])))) = 3"
  using compaction_not_idempotent[where ms = "[new_message USER ''invariant'' 0]" and sha = "\<lambda>s. ''h''"
      and shield = "''S''" and limit = 10] one_invariant_once
  by (simp add: one_invariant_pinned)

lemma sample_stream_counts: "map (\<lambda>m. (token_count m, is_invariant_bearing m))
    (compacted_stream (\<lambda>s. ''h'') ''S'' 10 sample_turns) = [(5, False), (2, True), (2, False), (14, True)]"
  by code_simp

text \<open>The pinned copy does not move the original out of the valley: the same message is reported again.\<close>

lemma compaction_leaves_trap:
  "trapped (PRESET_THRESHOLDS STRICT)
     (compacted_messages (compact_context (\<lambda>s. ''h'') ''S'' 10 sample_turns) ! 1)"
proof -
  obtain a b c d where "compacted_stream (\<lambda>s. ''h'') ''S'' 10 sample_turns = [a, b, c, d]"
    and "token_count a = 5" "token_count b = 2" "token_count c = 2" "token_count d = 14" "is_invariant_bearing b"
    using sample_stream_counts by (auto simp: map_eq_Cons_conv)
  moreover have "\<lfloor>50000 / 23 :: rat\<rfloor> = 2173" by (rule floor_unique) simp_all
  ultimately show ?thesis unfolding compacted_messages_eq
    by (simp add: assign_position_ratios_def trapped_def py_round_def round_half_even_def)
qed

lemma growing_counts: "map token_count (compacted_stream (\<lambda>s. ''0123456789'') ''S'' 10
    [new_message USER ''Traceback'' 0, new_message USER ''Traceback'' 1]) = [2, 10]"
  by code_simp

lemma suppression_can_grow:
  "(let c = compact_context (\<lambda>s. ''0123456789'') ''S'' 10 [new_message USER ''Traceback'' 0, new_message USER ''Traceback'' 1]
    in original_token_count c = 4 \<and> compacted_token_count c = 12)"
proof -
  have "map token_count (assign_position_ratios (compacted_stream (\<lambda>s. ''0123456789'') ''S'' 10
      [new_message USER ''Traceback'' 0, new_message USER ''Traceback'' 1])) = [2, 10]"
    by (rule trans[OF assign_field growing_counts]) simp
  then show ?thesis by (simp add: compact_eq Let_def) (simp add: new_message_def estimate_tokens_def)
qed

text \<open>With a ceiling below six lines, lines are shown twice and the count of those left out is negative.\<close>

lemma few_lines_masked_twice:
  "mask_observation 3 (join_with newline [''a'', ''b'', ''c'', ''d'']) =
     join_with newline [''a'', ''b'', ''c'', ''... [-2 lines omitted by ActiveContextCompactor] ...'', ''b'', ''c'', ''d'']"
  by code_simp

end
