(* ===== verification/Ast_Tree.thy ===== *)
theory Ast_Tree
  imports Prelude "HOL-Library.Multiset"
begin

text \<open>
  Labelled trees, the shape of a parsed module for the tools that only look at the classes and names of
  nodes: \<open>ast.walk\<close> breadth first, and what a count over it does not depend on.
\<close>

datatype 'k tree = Tree (label: 'k) (subtrees: "'k tree list")

lemma tree_size_pos: "0 < size (t :: 'k tree)"
  by (cases t) simp

function queue_walk :: "'k tree list \<Rightarrow> 'k tree list" where
  "queue_walk [] = []"
| "queue_walk (t # ts) = t # queue_walk (ts @ subtrees t)"
  by pat_completeness auto
termination
proof (relation "measure (\<lambda>ts. sum_list (map size ts))")
  fix t :: "'k tree" and ts
  have "sum_list (map size (subtrees t)) < size t"
  proof (cases t)
    case (Tree k cs)
    have "sum_list (map size cs) \<le> size_list size cs" by (induction cs) auto
    then show ?thesis using Tree by simp
  qed
  then show "(ts @ subtrees t, t # ts) \<in> measure (\<lambda>ts. sum_list (map size ts))" by simp
qed simp

definition tree_walk :: "'k tree \<Rightarrow> 'k tree list" where
  "tree_walk t = queue_walk [t]"

fun preorder :: "'k tree \<Rightarrow> 'k tree list" where
  "preorder (Tree k ts) = Tree k ts # concat (map preorder ts)"

lemma preorder_unfold: "preorder t = t # concat (map preorder (subtrees t))"
  by (cases t) simp

lemma mset_queue_walk: "mset (queue_walk ts) = mset (concat (map preorder ts))"
proof (induction ts rule: queue_walk.induct)
  case (2 t ts)
  then show ?case by (simp add: preorder_unfold[of t] ac_simps)
qed simp

lemma mset_tree_walk: "mset (tree_walk t) = mset (preorder t)"
  by (simp only: tree_walk_def mset_queue_walk list.map concat.simps append_Nil2)

lemma set_tree_walk [simp]: "set (tree_walk t) = set (preorder t)"
  using mset_tree_walk[of t] by (metis set_mset_mset)

lemma count_tree_walk: "length (filter P (tree_walk t)) = length (filter P (preorder t))"
  by (metis mset_tree_walk mset_filter size_mset)

lemma self_in_preorder [simp]: "t \<in> set (preorder t)"
  by (cases t) simp

lemma child_in_preorder: "c \<in> set (subtrees t) \<Longrightarrow> d \<in> set (preorder c) \<Longrightarrow> d \<in> set (preorder t)"
  by (cases t) auto

text \<open>The labels on the way from the root to each node of a tree.\<close>

fun root_paths :: "'k tree \<Rightarrow> 'k list list" where
  "root_paths (Tree k ts) = [k] # map ((#) k) (concat (map root_paths ts))"

lemma root_paths_nonempty [simp]: "root_paths t \<noteq> []" "[] \<notin> set (root_paths t)"
  by (cases t, auto)+

lemma label_chain: "[label t] \<in> set (root_paths t)"
  by (cases t) simp

lemma root_paths_child: "p \<in> set (root_paths c) \<Longrightarrow> c \<in> set (subtrees t) \<Longrightarrow> label t # p \<in> set (root_paths t)"
  by (cases t) auto

section \<open>The deepest path\<close>

text \<open>The recursion of the tools that measure nesting: a node that opens a block is one deeper than its
  parent.\<close>

fun deepest :: "('k \<Rightarrow> bool) \<Rightarrow> 'k tree \<Rightarrow> nat \<Rightarrow> nat" where
  "deepest P (Tree l ts) d =
     (let next = (if P l then d + 1 else d) in foldl (\<lambda>m c. max m (deepest P c next)) next ts)"

definition opened_on :: "('k \<Rightarrow> bool) \<Rightarrow> 'k list \<Rightarrow> nat" where
  "opened_on P p = length (filter P p)"

lemma foldl_max_Max: "foldl (\<lambda>m c. max m (g c)) a cs = Max (insert a (g ` set cs))" for a :: nat
proof (induction cs arbitrary: a)
  case (Cons c cs)
  have "Max (insert (max a (g c)) (g ` set cs)) = Max (insert a (insert (g c) (g ` set cs)))"
    by (cases "set cs = {}") (simp_all add: ac_simps)
  then show ?case using Cons by simp
qed simp

lemma deepest_eq: "deepest P t d = (let next = (if P (label t) then d + 1 else d) in
    Max (insert next ((\<lambda>c. deepest P c next) ` set (subtrees t))))"
  by (cases t) (simp add: Let_def foldl_max_Max)

lemma deepest_bound: "p \<in> set (root_paths t) \<Longrightarrow> d + opened_on P p \<le> deepest P t d"
proof (induction t arbitrary: p d)
  case (Tree l ts)
  let ?next = "if P l then d + 1 else d"
  have fin: "finite (insert ?next ((\<lambda>c. deepest P c ?next) ` set ts))" by simp
  from Tree.prems consider "p = [l]" | c q where "c \<in> set ts" "q \<in> set (root_paths c)" "p = l # q" by auto
  then show ?case
  proof cases
    case 1
    have "?next \<le> deepest P (Tree l ts) d" unfolding deepest_eq[of P "Tree l ts"] Let_def tree.sel by (rule Max_ge[OF fin]) simp
    then show ?thesis using 1 by (simp add: opened_on_def split: if_splits)
  next
    case 2
    have "deepest P c ?next \<le> deepest P (Tree l ts) d"
      unfolding deepest_eq[of P "Tree l ts"] Let_def tree.sel using 2(1) by (intro Max_ge[OF fin]) auto
    moreover have "?next + opened_on P q \<le> deepest P c ?next" using Tree.IH[OF 2(1,2)] .
    ultimately show ?thesis using 2(3) by (simp add: opened_on_def split: if_splits)
  qed
qed

lemma deepest_reached: "\<exists>p\<in>set (root_paths t). deepest P t d = d + opened_on P p"
proof (induction t arbitrary: d)
  case (Tree l ts)
  let ?next = "if P l then d + 1 else d"
  have "deepest P (Tree l ts) d \<in> insert ?next ((\<lambda>c. deepest P c ?next) ` set ts)"
    unfolding deepest_eq[of P "Tree l ts"] Let_def tree.sel by (rule Max_in) auto
  then consider "deepest P (Tree l ts) d = ?next" | c where "c \<in> set ts" "deepest P (Tree l ts) d = deepest P c ?next"
    by auto
  then show ?case
  proof cases
    case 1
    then show ?thesis by (intro bexI[of _ "[l]"]) (auto simp: opened_on_def)
  next
    case 2
    then obtain q where "q \<in> set (root_paths c)" "deepest P c ?next = ?next + opened_on P q" using Tree.IH by blast
    then show ?thesis using 2 by (intro bexI[of _ "l # q"]) (auto simp: opened_on_def)
  qed
qed

lemma deepest_Max: "deepest P t d = d + Max (opened_on P ` set (root_paths t))"
proof -
  have "Max (opened_on P ` set (root_paths t)) = deepest P t d - d"
  proof (rule Max_eqI)
    show "deepest P t d - d \<in> opened_on P ` set (root_paths t)" using deepest_reached[of t P d] by auto
    show "y \<le> deepest P t d - d" if "y \<in> opened_on P ` set (root_paths t)" for y
      using that deepest_bound[of _ t d P] by fastforce
  qed simp
  moreover have "d \<le> deepest P t d" using deepest_reached[of t P d] by auto
  ultimately show ?thesis by simp
qed

end
