(* ===== verification/Subagent_Orchestrator.thy ===== *)
theory Subagent_Orchestrator
  imports Py_Text Ast_Tree
begin

text \<open>
  \<open>tools/subagent_orchestrator.py\<close>: the invariants that generated code has to satisfy, the verdict on the
  output of a subagent, the accounts of a run and its reports. A node of a syntax tree is the name of its
  class and, for definitions, its own name; \<open>ast.parse\<close> is the parameter \<open>parse\<close>, which gives the text of
  a \<open>SyntaxError\<close> or a tree. The emoji of the reports, outside the code points of the model, and the time
  are parameters.
\<close>

section \<open>Data\<close>

definition DEFAULT_PRICING :: "(string \<times> py_float \<times> py_float \<times> bool) list" where
  "DEFAULT_PRICING =
     [(''claude-3-5-sonnet'', 3, 15, False), (''gpt-4o'', 250 / 100, 10, False),
      (''deepseek-v3'', 27 / 100, 110 / 100, False), (''qwen-2.5-coder-32b'', 20 / 100, 60 / 100, False),
      (''qwen-2.5-coder-7b-local'', 0, 0, True)]"

record py_label =
  node_class :: string
  node_name :: string

type_synonym py_tree = "py_label tree"

definition NESTING_NODE_TYPES :: "string list" where
  "NESTING_NODE_TYPES = [''If'', ''For'', ''While'', ''Try'', ''With'', ''AsyncWith'', ''AsyncFor'', ''FunctionDef'',
     ''AsyncFunctionDef'', ''ClassDef'']"

definition DECISION_NODE_TYPES :: "string list" where
  "DECISION_NODE_TYPES = [''If'', ''For'', ''While'', ''ExceptHandler'', ''With'', ''Assert'', ''BoolOp'']"

text \<open>The subclasses of \<open>ast.stmt\<close>.\<close>

definition statement_classes :: "string list" where
  "statement_classes = [''FunctionDef'', ''AsyncFunctionDef'', ''ClassDef'', ''Return'', ''Delete'', ''Assign'',
     ''TypeAlias'', ''AugAssign'', ''AnnAssign'', ''For'', ''AsyncFor'', ''While'', ''If'', ''With'', ''AsyncWith'', ''Match'',
     ''Raise'', ''Try'', ''TryStar'', ''Assert'', ''Import'', ''ImportFrom'', ''Global'', ''Nonlocal'', ''Expr'', ''Pass'',
     ''Break'', ''Continue'']"

datatype slot_role = PLANNER | FILE_SCOUT | AST_ANALYZER | CODE_TYPER | VERIFIER

datatype task_status = PENDING | RUNNING | COMPLETED | FAILED | REJECTED

fun role_value :: "slot_role \<Rightarrow> string" where
  "role_value PLANNER = ''planner''"
| "role_value FILE_SCOUT = ''file_scout''"
| "role_value AST_ANALYZER = ''ast_analyzer''"
| "role_value CODE_TYPER = ''code_typer''"
| "role_value VERIFIER = ''verifier''"

fun status_value :: "task_status \<Rightarrow> string" where
  "status_value PENDING = ''pending''"
| "status_value RUNNING = ''running''"
| "status_value COMPLETED = ''completed''"
| "status_value FAILED = ''failed''"
| "status_value REJECTED = ''rejected''"

record invariant_constraint =
  constraint_id :: string
  description :: string
  max_complexity :: int
  max_depth :: int
  needed_symbols :: "string list"

record subagent_task =
  task_id :: string
  task_title :: string
  task_role :: slot_role
  assigned_model :: string
  task_prompt :: string
  task_constraints :: "invariant_constraint list"

record subagent_result =
  res_task_id :: string
  res_role :: slot_role
  model_id :: string
  res_status :: task_status
  output_content :: string
  prompt_tokens :: int
  completion_tokens :: int
  duration_seconds :: py_float
  res_error :: string
  extracted_symbols :: "string list"

record orchestration_metrics =
  frontier_tokens :: int
  offloaded_tokens :: int
  all_tokens :: int
  frontier_cost_usd :: py_float
  actual_cost_usd :: py_float
  dollar_savings :: py_float
  offload_efficiency_ratio :: py_float
  invariants_verified :: nat
  invariants_violated :: nat

record execution_record =
  plan_id :: string
  goal :: string
  timestamp :: string
  exec_status :: task_status
  exec_results :: "subagent_result list"
  exec_metrics :: orchestration_metrics
  final_synthesis :: string

section \<open>Cost and structure\<close>

definition calculate_cost :: "int \<Rightarrow> int \<Rightarrow> string \<Rightarrow> py_float" where
  "calculate_cost p c model =
     (let (in_rate, out_rate, is_local) =
        (case map_of DEFAULT_PRICING model of Some r \<Rightarrow> r | None \<Rightarrow> (1, 3, False)) in
      if is_local then 0
      else of_int (max 0 p) * in_rate / 1000000 + of_int (max 0 c) * out_rate / 1000000)"

definition is_a :: "py_tree \<Rightarrow> string list \<Rightarrow> bool" where
  "is_a t classes \<longleftrightarrow> node_class (label t) \<in> set classes"

definition calculate_mccabe :: "py_tree \<Rightarrow> nat" where
  "calculate_mccabe t = fold (\<lambda>n k. if is_a n DECISION_NODE_TYPES then k + 1 else k) (tree_walk t) 1"

fun walk_depth :: "py_tree \<Rightarrow> nat \<Rightarrow> nat" where
  "walk_depth (Tree l ts) depth =
     (let next = (if node_class l \<in> set NESTING_NODE_TYPES then depth + 1 else depth) in
      foldl (\<lambda>d c. max d (walk_depth c next)) next ts)"

definition calculate_max_depth :: "py_tree \<Rightarrow> nat" where
  "calculate_max_depth t = (let statements = filter (\<lambda>n. is_a n statement_classes) (subtrees t) in
     if statements = [] then 1 else Max (set (map (\<lambda>s. walk_depth s 1) statements)))"

definition extract_symbol_name :: "py_tree \<Rightarrow> string option" where
  "extract_symbol_name t =
     (if is_a t [''FunctionDef'', ''AsyncFunctionDef'', ''ClassDef''] \<and> take 1 (node_name (label t)) \<noteq> ''_''
      then Some (node_name (label t)) else None)"

definition extract_public_symbols :: "(string \<Rightarrow> (string, py_tree) result) \<Rightarrow> string \<Rightarrow> string list" where
  "extract_public_symbols parse code =
     (case parse code of Inl e \<Rightarrow> [] | Inr t \<Rightarrow> List.map_filter extract_symbol_name (subtrees t))"

definition check_structural_bounds :: "py_tree \<Rightarrow> invariant_constraint \<Rightarrow> string option" where
  "check_structural_bounds t c =
     (if int (calculate_mccabe t) > max_complexity c
      then Some (''Cyclomatic complexity '' @ show_nat (calculate_mccabe t) @ '' exceeds ceiling '' @ show_int (max_complexity c))
      else if int (calculate_max_depth t) > max_depth c
      then Some (''Nesting depth '' @ show_nat (calculate_max_depth t) @ '' exceeds ceiling '' @ show_int (max_depth c))
      else None)"

definition check_symbol_preservation ::
    "(string \<Rightarrow> (string, py_tree) result) \<Rightarrow> string \<Rightarrow> string list \<Rightarrow> string option" where
  "check_symbol_preservation parse code needed =
     (if needed = [] then None
      else let missing = filter (\<lambda>s. s \<notin> set (extract_public_symbols parse code)) needed in
        if missing \<noteq> [] then Some (''Preservation violation: missing required symbol(s) '' @ py_repr_list missing)
        else None)"

definition verify_code_invariants ::
    "(string \<Rightarrow> (string, py_tree) result) \<Rightarrow> string \<Rightarrow> invariant_constraint \<Rightarrow> bool \<times> string" where
  "verify_code_invariants parse code c =
     (if py_strip code = '''' then (True, ''Empty code passes trivially.'')
      else case parse code of
        Inl e \<Rightarrow> (False, ''SyntaxError in generated code: '' @ e)
      | Inr t \<Rightarrow> (case check_structural_bounds t c of
          Some e \<Rightarrow> (False, e)
        | None \<Rightarrow> (case check_symbol_preservation parse code (needed_symbols c) of
            Some e \<Rightarrow> (False, e)
          | None \<Rightarrow> (True, ''All invariants verified.''))))"

definition format_constraint_envelope :: "string \<Rightarrow> string \<Rightarrow> invariant_constraint list \<Rightarrow> string" where
  "format_constraint_envelope shield prompt cs =
     (if cs = [] then prompt
      else join_with newline
        ([prompt, '''', ''### '' @ shield @ '' MANDATORY INVARIANT CONSTRAINTS (DO NOT STRIP)'']
         @ concat (map (\<lambda>c.
             [''- **'' @ constraint_id c @ ''**: '' @ description c,
              ''  Ceilings: Max Complexity M <= '' @ show_int (max_complexity c)
                @ '', Max Nesting Depth <= '' @ show_int (max_depth c)]
             @ (if needed_symbols c \<noteq> [] then [''  Required Public Symbols: '' @ join_with '', '' (needed_symbols c)] else []))
           cs)))"

section \<open>The orchestrator\<close>

fun first_violation ::
    "(string \<Rightarrow> (string, py_tree) result) \<Rightarrow> string \<Rightarrow> invariant_constraint list \<Rightarrow> task_status \<times> string" where
  "first_violation parse output [] = (COMPLETED, '''')"
| "first_violation parse output (c # cs) =
     (let (passed, reason) = verify_code_invariants parse output c in
      if \<not> passed then (REJECTED, ''Constraint '' @ constraint_id c @ '' violated: '' @ reason)
      else first_violation parse output cs)"

definition evaluate_task_result ::
    "(string \<Rightarrow> (string, py_tree) result) \<Rightarrow> subagent_task \<Rightarrow> string \<Rightarrow> task_status \<times> string" where
  "evaluate_task_result parse task output =
     (if py_strip output = '''' then (FAILED, ''Subagent returned empty response payload.'')
      else first_violation parse output (task_constraints task))"

definition result_tokens :: "subagent_result \<Rightarrow> int" where
  "result_tokens r = prompt_tokens r + completion_tokens r"

definition tally_tokens :: "subagent_result list \<Rightarrow> int \<times> int \<times> int" where
  "tally_tokens rs = (let (f, off) = fold (\<lambda>r (f, off).
       if res_role r = PLANNER \<or> res_role r = VERIFIER then (f + result_tokens r, off)
       else (f, off + result_tokens r)) rs (0, 0) in (f, off, f + off))"

definition tally_costs :: "string \<Rightarrow> subagent_result list \<Rightarrow> py_float \<times> py_float \<times> py_float" where
  "tally_costs frontier_model rs =
     (let (hyp, actual) = fold (\<lambda>r (h, a).
        (h + calculate_cost (prompt_tokens r) (completion_tokens r) frontier_model,
         a + calculate_cost (prompt_tokens r) (completion_tokens r) (model_id r))) rs (0, 0) in
      (py_round 6 hyp, py_round 6 actual, py_round 6 (max 0 (hyp - actual))))"

definition tally_invariants :: "subagent_result list \<Rightarrow> nat \<times> nat" where
  "tally_invariants rs = (length (filter (\<lambda>r. res_status r = COMPLETED) rs),
     length (filter (\<lambda>r. res_status r = REJECTED) rs))"

definition calculate_metrics :: "string \<Rightarrow> subagent_result list \<Rightarrow> orchestration_metrics" where
  "calculate_metrics frontier_model rs =
     (let (f, off, tot) = tally_tokens rs; (fc, ac, savings) = tally_costs frontier_model rs;
          (verified, violated) = tally_invariants rs in
      \<lparr>frontier_tokens = f, offloaded_tokens = off, all_tokens = tot, frontier_cost_usd = fc,
       actual_cost_usd = ac, dollar_savings = savings,
       offload_efficiency_ratio = py_round 1 (of_int off / of_int (max 1 tot) * 100),
       invariants_verified = verified, invariants_violated = violated\<rparr>)"

text \<open>What \<open>_execute_verify\<close> returns for a file with the given text, or for none.\<close>

definition execute_verify ::
    "(string \<Rightarrow> (string, py_tree) result) \<Rightarrow> string option \<Rightarrow> int \<Rightarrow> int \<Rightarrow> nat" where
  "execute_verify parse source max_c max_d =
     (case source of
        None \<Rightarrow> 1
      | Some code \<Rightarrow> (let (passed, reason) = verify_code_invariants parse code
           \<lparr>constraint_id = ''CLI-VERIFY'', description = ''CLI file audit'', max_complexity = max_c,
            max_depth = max_d, needed_symbols = []\<rparr> in if passed then 0 else 1))"

section \<open>The demonstration\<close>

definition demo_constraint :: invariant_constraint where
  "demo_constraint = \<lparr>constraint_id = ''INV-SLOT-001'',
     description = ''Preserve public dispatch function with M<=6 and depth<=2'', max_complexity = 6, max_depth = 2,
     needed_symbols = [''dispatch_request'']\<rparr>"

definition demo_tasks :: "subagent_task list" where
  "demo_tasks =
     [\<lparr>task_id = ''task-01-plan'', task_title = ''Architectural Planning & Invariant Envelope'', task_role = PLANNER,
       assigned_model = ''claude-3-5-sonnet'', task_prompt = ''Plan refactoring of dispatcher into table dispatch.'',
       task_constraints = [demo_constraint]\<rparr>,
      \<lparr>task_id = ''task-02-scout'', task_title = ''Filesystem & Symbol Scouting'', task_role = FILE_SCOUT,
       assigned_model = ''qwen-2.5-coder-7b-local'', task_prompt = ''Find dispatcher files and callers.'',
       task_constraints = []\<rparr>,
      \<lparr>task_id = ''task-03-type'', task_title = ''Atomic Typing & Function Extraction'', task_role = CODE_TYPER,
       assigned_model = ''qwen-2.5-coder-32b'', task_prompt = ''Draft typed table-driven dispatch function.'',
       task_constraints = [demo_constraint]\<rparr>,
      \<lparr>task_id = ''task-04-verify'', task_title = ''Deterministic Invariant Gate & CI Check'', task_role = VERIFIER,
       assigned_model = ''claude-3-5-sonnet'', task_prompt = ''Audit generated Python code against AST invariants.'',
       task_constraints = [demo_constraint]\<rparr>]"

definition demo_code :: string where
  "demo_code = join_with newline
     [''def dispatch_request(route: str, payload: dict[str, str]) -> str:'',
      ''    '' @ replicate 3 CHR 0x22 @ ''Dispatch incoming request based on matching table key.'' @ replicate 3 CHR 0x22,
      ''    handlers = {'' @ [CHR 0x22] @ ''login'' @ [CHR 0x22] @ '': '' @ [CHR 0x22] @ ''auth_ok'' @ [CHR 0x22]
        @ '', '' @ [CHR 0x22] @ ''logout'' @ [CHR 0x22] @ '': '' @ [CHR 0x22] @ ''bye'' @ [CHR 0x22] @ ''}'',
      ''    return handlers.get(route, '' @ [CHR 0x22] @ ''not_found'' @ [CHR 0x22] @ '')'', '''']"

definition demo_result :: "subagent_task \<Rightarrow> string \<Rightarrow> int \<Rightarrow> int \<Rightarrow> py_float \<Rightarrow> string list \<Rightarrow> subagent_result" where
  "demo_result t output p c d symbols =
     \<lparr>res_task_id = task_id t, res_role = task_role t, model_id = assigned_model t, res_status = COMPLETED,
      output_content = output, prompt_tokens = p, completion_tokens = c, duration_seconds = d, res_error = '''',
      extracted_symbols = symbols\<rparr>"

definition demo_results :: "subagent_result list" where
  "demo_results =
     [demo_result (demo_tasks ! 0) ''Plan approved.'' 1200 300 (12 / 10) [],
      demo_result (demo_tasks ! 1) ''Found 2 files: dispatcher.py, test_dispatcher.py'' 800 150 (4 / 10) [],
      demo_result (demo_tasks ! 2) demo_code 2400 450 (9 / 10) [''dispatch_request''],
      demo_result (demo_tasks ! 3) ''All invariants verified (M=1, depth=1).'' 900 180 (6 / 10) []]"

definition execute_mock_demo :: "string \<Rightarrow> string \<Rightarrow> string \<Rightarrow> execution_record" where
  "execute_mock_demo frontier_model now plan =
     \<lparr>plan_id = plan, goal = ''Refactor monolithic dispatcher into table-driven handlers with type hints'',
      timestamp = now, exec_status = COMPLETED, exec_results = demo_results,
      exec_metrics = calculate_metrics frontier_model demo_results,
      final_synthesis = ''Refactoring complete. 60% of tokens offloaded to local/open-weights slots with zero epistemic loss.''\<rparr>"

section \<open>Reports\<close>

text \<open>The format code \<open>:,\<close> of integers.\<close>

fun group_thousands :: "string \<Rightarrow> string" where
  "group_thousands (a # b # c # d # ds) = a # b # c # CHR '','' # group_thousands (d # ds)"
| "group_thousands ds = ds"

definition fmt_thousands :: "int \<Rightarrow> string" where
  "fmt_thousands i = (if i < 0 then ''-'' else '''') @ rev (group_thousands (rev (show_nat (nat \<bar>i\<bar>))))"

definition markdown_sequence :: string where
  "markdown_sequence = join_with newline
     [''```mermaid'', ''sequenceDiagram'', ''    autonumber'', ''    participant P as Frontier Planner (Big Decides)'',
      ''    participant S as Local Scout (Small Types)'', ''    participant T as Open-Weights Typer (Small Types)'',
      ''    participant V as AST Verifier (Big Checks)'', '''', ''    P->>S: Delegate file & symbol scouting'',
      ''    S-->>P: Return candidate file paths & symbol map'',
      ''    P->>T: Delegate typed refactoring (with Invariant Envelope)'',
      ''    T-->>V: Forward generated source for verification'',
      ''    V-->>P: Invariant gate passed (M<=6, depth<=2)'', ''```'']"

definition result_row :: "subagent_result \<Rightarrow> string" where
  "result_row r = ''| `'' @ res_task_id r @ ''` | '' @ role_value (res_role r) @ '' | `'' @ model_id r @ ''` | `''
     @ status_value (res_status r) @ ''` | '' @ fmt_thousands (result_tokens r) @ '' | ''
     @ fmt_fixed 2 (duration_seconds r) @ ''s |''"

definition orchestrator_markdown :: "string \<Rightarrow> execution_record \<Rightarrow> string" where
  "orchestrator_markdown robot x = (let m = exec_metrics x in join_with newline
     ([''# '' @ robot @ '' Hierarchical Subagent Slot Offloading Report'', '''',
       ''> **Plan**: `'' @ plan_id x @ ''` | **Status**: `'' @ status_value (exec_status x) @ ''` | **Timestamp**: `''
         @ timestamp x @ ''`'',
       ''> **Goal**: *'' @ goal x @ ''*'', '''', ''## 1. Executive Summary & Token Economics'', '''',
       ''| Metric | Value |'', ''|---|---|'',
       ''| **Frontier Tokens** | '' @ fmt_thousands (frontier_tokens m) @ '' |'',
       ''| **Offloaded Tokens** | '' @ fmt_thousands (offloaded_tokens m) @ '' |'',
       ''| **Total Tokens** | '' @ fmt_thousands (all_tokens m) @ '' |'',
       ''| **Offload Efficiency** | **'' @ show_float (offload_efficiency_ratio m) @ ''%** |'',
       ''| **Hypothetical Frontier Cost** | $'' @ fmt_fixed 4 (frontier_cost_usd m) @ '' |'',
       ''| **Actual Orchestrated Cost** | $'' @ fmt_fixed 4 (actual_cost_usd m) @ '' |'',
       ''| **Net Dollar Savings** | **$'' @ fmt_fixed 4 (dollar_savings m) @ ''** |'',
       ''| **Invariants Verified** | '' @ show_nat (invariants_verified m) @ '' |'',
       ''| **Invariants Violated** | '' @ show_nat (invariants_violated m) @ '' |'', '''',
       ''## 2. Multi-Tier Delegation Flow'', '''', markdown_sequence, '''', ''## 3. Subtask Execution Breakdown'', '''',
       ''| Task ID | Role | Model | Status | Tokens | Latency |'', ''|---|---|---|:---:|:---:|:---:|'']
      @ map result_row (exec_results x)
      @ ['''', ''## 4. Synthesis & Architectural Guidance'', '''', final_synthesis x, '''',
         ''- **Preserve Invariant Envelopes**: Always pass structured invariants (`InvariantConstraint`) to prevent prompt compression loss.'',
         ''- **Explicit Failure Signals**: Reject invalid outputs immediately with `TaskStatus.REJECTED` rather than silently hallucinating success.'',
         ''- **Leverage Local Slots for Chores**: Scout files and generate type annotations on local models to reduce frontier expenditure.'']))"

text \<open>The value that \<open>format_json_report\<close> hands to \<open>json.dumps\<close>.\<close>

definition result_json :: "subagent_result \<Rightarrow> json" where
  "result_json r = JObj
     [(''task_id'', JStr (res_task_id r)), (''role'', JStr (role_value (res_role r))), (''model_id'', JStr (model_id r)),
      (''status'', JStr (status_value (res_status r))), (''output_content'', JStr (output_content r)),
      (''prompt_tokens'', JInt (prompt_tokens r)), (''completion_tokens'', JInt (completion_tokens r)),
      (''duration_seconds'', JFloat (duration_seconds r)), (''error'', JStr (res_error r)),
      (''extracted_symbols'', JArr (map JStr (extracted_symbols r)))]"

definition orchestrator_json :: "execution_record \<Rightarrow> json" where
  "orchestrator_json x = (let m = exec_metrics x in JObj
     [(''plan_id'', JStr (plan_id x)), (''goal'', JStr (goal x)), (''timestamp'', JStr (timestamp x)),
      (''status'', JStr (status_value (exec_status x))), (''results'', JArr (map result_json (exec_results x))),
      (''metrics'', JObj
        [(''frontier_tokens'', JInt (frontier_tokens m)), (''offloaded_tokens'', JInt (offloaded_tokens m)),
         (''total_tokens'', JInt (all_tokens m)), (''frontier_cost_usd'', JFloat (frontier_cost_usd m)),
         (''actual_cost_usd'', JFloat (actual_cost_usd m)), (''dollar_savings'', JFloat (dollar_savings m)),
         (''offload_efficiency_ratio'', JFloat (offload_efficiency_ratio m)),
         (''invariants_verified'', JInt (int (invariants_verified m))),
         (''invariants_violated'', JInt (int (invariants_violated m)))]),
      (''final_synthesis'', JStr (final_synthesis x))])"

end
