(* ===== verification/Orchestrator_Props.thy ===== *)
theory Orchestrator_Props
  imports Subagent_Orchestrator
begin

text \<open>
  The verdict on the output of a subagent as a predicate on its syntax tree, the depth measure as the
  number of blocks on a path, and the accounts of a run.
\<close>

section \<open>Depth\<close>

definition nests :: "py_label \<Rightarrow> bool" where
  "nests l \<longleftrightarrow> node_class l \<in> set NESTING_NODE_TYPES"

definition blocks_on :: "py_label list \<Rightarrow> nat" where
  "blocks_on p = opened_on nests p"

lemma walk_depth_deepest: "walk_depth t d = deepest nests t d"
proof (induction t arbitrary: d)
  case (Tree l ts)
  have "foldl (\<lambda>d c. max d (walk_depth c n)) n ts = foldl (\<lambda>m c. max m (deepest nests c n)) n ts" for n
    using Tree by (intro foldl_cong) auto
  then show ?case by (simp add: Let_def nests_def[symmetric])
qed

lemma walk_depth_bound: "p \<in> set (root_paths t) \<Longrightarrow> d + blocks_on p \<le> walk_depth t d"
  by (simp add: walk_depth_deepest blocks_on_def deepest_bound)

lemma walk_depth_reached: "\<exists>p\<in>set (root_paths t). walk_depth t d = d + blocks_on p"
  using deepest_reached[of t nests d] by (simp add: walk_depth_deepest blocks_on_def)

definition block_counts :: "py_tree \<Rightarrow> nat set" where
  "block_counts t = blocks_on ` (\<Union>s\<in>set (filter (\<lambda>n. is_a n statement_classes) (subtrees t)). set (root_paths s))"

lemma finite_block_counts [simp]: "finite (block_counts t)"
  by (simp add: block_counts_def)

text \<open>C22: The depth of a module is one more than the number of nested blocks on the deepest path from one
  of its statements.\<close>

theorem max_depth_is_deepest_path:
  "calculate_max_depth t = 1 + Max (insert 0 (block_counts t))"
proof (cases "filter (\<lambda>n. is_a n statement_classes) (subtrees t) = []")
  case True
  then show ?thesis by (simp add: calculate_max_depth_def block_counts_def)
next
  case False
  let ?ss = "filter (\<lambda>n. is_a n statement_classes) (subtrees t)"
  have "Max (set (map (\<lambda>s. walk_depth s 1) ?ss)) = 1 + Max (insert 0 (block_counts t))"
  proof (rule Max_eqI)
    fix y assume "y \<in> set (map (\<lambda>s. walk_depth s 1) ?ss)"
    then obtain s where s: "s \<in> set ?ss" "y = walk_depth s 1" by auto
    then obtain p where p: "p \<in> set (root_paths s)" "y = 1 + blocks_on p" using walk_depth_reached by blast
    then have "blocks_on p \<in> block_counts t" using s(1) by (auto simp: block_counts_def)
    then show "y \<le> 1 + Max (insert 0 (block_counts t))" using p(2) by simp
  next
    have ne: "block_counts t \<noteq> {}"
      using False by (auto simp: block_counts_def filter_empty_conv)
    then have "Max (insert 0 (block_counts t)) = Max (block_counts t)" by simp
    moreover have "Max (block_counts t) \<in> block_counts t" using ne by (simp add: Max_in)
    ultimately obtain s p where s: "s \<in> set ?ss" "p \<in> set (root_paths s)" "Max (insert 0 (block_counts t)) = blocks_on p"
      by (auto simp: block_counts_def)
    then have low: "1 + Max (insert 0 (block_counts t)) \<le> walk_depth s 1" using walk_depth_bound[of p s 1] by simp
    obtain q where q: "q \<in> set (root_paths s)" "walk_depth s 1 = 1 + blocks_on q" using walk_depth_reached by blast
    then have "blocks_on q \<in> insert 0 (block_counts t)" using s(1) by (auto simp: block_counts_def)
    then have "walk_depth s 1 \<le> 1 + Max (insert 0 (block_counts t))" using q(2) by simp
    then have "walk_depth s 1 = 1 + Max (insert 0 (block_counts t))" using low by simp
    then show "1 + Max (insert 0 (block_counts t)) \<in> set (map (\<lambda>s. walk_depth s 1) ?ss)"
      using s(1) by (metis image_eqI set_map)
  qed simp
  then show ?thesis using False by (simp add: calculate_max_depth_def Let_def)
qed

section \<open>The verdict\<close>

definition decisions_in :: "py_tree \<Rightarrow> nat" where
  "decisions_in t = length (filter (\<lambda>n. is_a n DECISION_NODE_TYPES) (preorder t))"

lemma fold_count: "fold (\<lambda>n k. if P n then k + 1 else k) xs a = a + length (filter P xs)" for a :: nat
  by (induction xs arbitrary: a) auto

lemma mccabe_eq: "calculate_mccabe t = 1 + decisions_in t"
  by (simp add: calculate_mccabe_def fold_count decisions_in_def count_tree_walk)

definition satisfies :: "py_tree \<Rightarrow> invariant_constraint \<Rightarrow> bool" where
  "satisfies t c \<longleftrightarrow> 1 + int (decisions_in t) \<le> max_complexity c
     \<and> 1 + int (Max (insert 0 (block_counts t))) \<le> max_depth c
     \<and> set (needed_symbols c) \<subseteq> set (List.map_filter extract_symbol_name (subtrees t))"

lemma verify_iff: "py_strip code \<noteq> '''' \<Longrightarrow>
    fst (verify_code_invariants parse code c) = (case parse code of Inl e \<Rightarrow> False | Inr t \<Rightarrow> satisfies t c)"
  by (auto simp: verify_code_invariants_def check_structural_bounds_def check_symbol_preservation_def mccabe_eq
    max_depth_is_deepest_path satisfies_def extract_public_symbols_def Let_def filter_empty_conv
    split: sum.splits)

lemma first_violation_iff: "fst (first_violation parse output cs) =
    (if list_all (\<lambda>c. fst (verify_code_invariants parse output c)) cs then COMPLETED else REJECTED)"
  by (induction cs) (auto simp: split_beta Let_def)

text \<open>The verdict: an empty answer fails, one that parses to a tree within every constraint of the task
  is completed, any other is rejected; a task without constraints takes any text.\<close>

theorem verdict_decides:
  "fst (evaluate_task_result parse task output) =
     (if py_strip output = '''' then FAILED
      else if list_all (\<lambda>c. case parse output of Inl e \<Rightarrow> False | Inr t \<Rightarrow> satisfies t c) (task_constraints task)
      then COMPLETED else REJECTED)"
  by (simp add: evaluate_task_result_def first_violation_iff verify_iff)

lemma function_is_block: "extract_symbol_name n = Some s \<Longrightarrow> nests (label n) \<and> is_a n statement_classes"
  by (auto simp: extract_symbol_name_def is_a_def nests_def NESTING_NODE_TYPES_def statement_classes_def split: if_splits)

lemma block_counts_function: "n \<in> set (subtrees t) \<Longrightarrow> extract_symbol_name n = Some s \<Longrightarrow> 1 \<in> block_counts t"
  using label_chain[of n] function_is_block[of n s]
  by (auto simp: block_counts_def blocks_on_def opened_on_def intro!: image_eqI[of _ _ "[label n]"])

text \<open>Whatever defines a required symbol has depth two already, since a definition counts as a block
  that is entered at depth one: a constraint with a required symbol and a ceiling of one accepts nothing.\<close>

theorem symbols_need_depth_two:
  assumes "satisfies t c" "needed_symbols c \<noteq> []"
  shows "2 \<le> max_depth c"
proof -
  obtain s where "s \<in> set (needed_symbols c)" using assms(2) by (meson last_in_set)
  then obtain n where "n \<in> set (subtrees t)" "extract_symbol_name n = Some s"
    using assms(1) by (auto simp: satisfies_def List.map_filter_def)
  then have "1 \<in> block_counts t" by (rule block_counts_function)
  then have "1 \<le> Max (insert 0 (block_counts t))" by simp
  then show ?thesis using assms(1) by (simp add: satisfies_def)
qed

text \<open>A private symbol is never found again, so a constraint that requires one rejects every answer.\<close>

theorem private_symbols_never_preserved:
  assumes "s \<in> set (needed_symbols c)" "take 1 s = ''_''"
  shows "\<not> satisfies t c"
  using assms by (auto simp: satisfies_def List.map_filter_def extract_symbol_name_def subset_iff split: if_splits)

section \<open>The accounts\<close>

definition frontier_role :: "subagent_result \<Rightarrow> bool" where
  "frontier_role r \<longleftrightarrow> res_role r = PLANNER \<or> res_role r = VERIFIER"

lemma tally_fold: "fold (\<lambda>r (f, off).
       if res_role r = PLANNER \<or> res_role r = VERIFIER then (f + result_tokens r, off)
       else (f, off + result_tokens r)) rs (a, b) =
    (a + sum_list (map result_tokens (filter frontier_role rs)),
     b + sum_list (map result_tokens (filter (\<lambda>r. \<not> frontier_role r) rs)))"
  by (induction rs arbitrary: a b) (auto simp: frontier_role_def)

lemma token_split: "sum_list (map result_tokens (filter P rs)) + sum_list (map result_tokens (filter (\<lambda>r. \<not> P r) rs))
    = sum_list (map result_tokens rs)"
  by (induction rs) auto

lemma metrics_tokens:
  "frontier_tokens (calculate_metrics fm rs) = sum_list (map result_tokens (filter frontier_role rs))"
  "offloaded_tokens (calculate_metrics fm rs) = sum_list (map result_tokens (filter (\<lambda>r. \<not> frontier_role r) rs))"
  "all_tokens (calculate_metrics fm rs) = sum_list (map result_tokens rs)"
  by (auto simp: calculate_metrics_def tally_tokens_def tally_fold token_split split_beta Let_def)

lemma metrics_savings: "0 \<le> dollar_savings (calculate_metrics fm rs)"
  by (auto simp: calculate_metrics_def tally_costs_def split_beta Let_def py_round_nonneg)

lemma verdict_counts: "invariants_verified (calculate_metrics fm rs) + invariants_violated (calculate_metrics fm rs) \<le> length rs"
proof -
  have "length (filter (\<lambda>r. res_status r = COMPLETED) rs) + length (filter (\<lambda>r. res_status r = REJECTED) rs) \<le> length rs"
    by (induction rs) auto
  then show ?thesis by (simp add: calculate_metrics_def tally_invariants_def split_beta Let_def)
qed

definition counted :: "subagent_result \<Rightarrow> bool" where
  "counted r \<longleftrightarrow> 0 \<le> prompt_tokens r \<and> 0 \<le> completion_tokens r"

lemma sum_counted: "list_all counted rs \<Longrightarrow> 0 \<le> sum_list (map result_tokens (filter P rs))"
  by (induction rs) (auto simp: counted_def result_tokens_def)

lemma at_most_hundred: "x \<le> 1 \<Longrightarrow> x * 100 \<le> (of_int 100 :: py_float)"
  by simp

text \<open>The accounts balance: every token is a frontier token or an offloaded one, savings are never
  negative, and with counts that are not negative the share of offloaded tokens lies between 0 and 100.\<close>

theorem metrics_balance:
  assumes "list_all counted rs"
  shows "let m = calculate_metrics fm rs in
    frontier_tokens m + offloaded_tokens m = all_tokens m \<and> all_tokens m = sum_list (map result_tokens rs)
    \<and> 0 \<le> dollar_savings m \<and> 0 \<le> offload_efficiency_ratio m \<and> offload_efficiency_ratio m \<le> 100"
proof -
  let ?m = "calculate_metrics fm rs"
  have parts: "0 \<le> frontier_tokens ?m" "0 \<le> offloaded_tokens ?m"
    unfolding metrics_tokens using sum_counted[OF assms] by auto
  have split: "frontier_tokens ?m + offloaded_tokens ?m = all_tokens ?m"
    unfolding metrics_tokens by (rule token_split)
  have ratio: "offload_efficiency_ratio ?m = py_round 1 (of_int (offloaded_tokens ?m) / of_int (max 1 (all_tokens ?m)) * 100)"
    by (simp add: calculate_metrics_def split_beta Let_def)
  have "of_int (offloaded_tokens ?m) / of_int (max 1 (all_tokens ?m)) \<le> (1 :: py_float)"
    using parts split by (simp only: divide_le_eq_1 of_int_0_less_iff of_int_le_iff of_int_0_eq_iff) linarith
  then have "of_int (offloaded_tokens ?m) / of_int (max 1 (all_tokens ?m)) * 100 \<le> (of_int 100 :: py_float)"
    by (rule at_most_hundred)
  then have "py_round 1 (of_int (offloaded_tokens ?m) / of_int (max 1 (all_tokens ?m)) * 100) \<le> py_round 1 (of_int 100)"
    by (rule py_round_mono)
  then have "offload_efficiency_ratio ?m \<le> 100" unfolding ratio py_round_int by simp
  moreover have "0 \<le> offload_efficiency_ratio ?m"
    unfolding ratio using parts(2) by (intro py_round_nonneg) simp
  ultimately show ?thesis using split metrics_savings[of fm rs] metrics_tokens(3)[of fm rs] by (simp add: Let_def)
qed

text \<open>The bundled demonstration: the accounts of its four results.\<close>

theorem metrics_balance_witness:
  "let m = calculate_metrics ''claude-3-5-sonnet'' demo_results in
    frontier_tokens m + offloaded_tokens m = all_tokens m \<and> all_tokens m = sum_list (map result_tokens demo_results)
    \<and> 0 \<le> dollar_savings m \<and> 0 \<le> offload_efficiency_ratio m \<and> offload_efficiency_ratio m \<le> 100"
  by (rule metrics_balance) (simp add: demo_results_def counted_def demo_result_def)

end
