(* ===== verification/Portfolio_Balance.thy ===== *)
theory Portfolio_Balance
  imports Py_Text Text_Search
begin

text \<open>
  \<open>tools/portfolio_balance.py\<close>: what the manifest declares and where the added lines of recent commits
  went. The manifest is what \<open>yaml.safe_load\<close> makes of it, with texts for its scalars; the lines that
  \<open>git log --numstat\<close> prints are an argument. The bar and the two signs of the report, outside the code
  points of the model, are parameters.
\<close>

record capability_entry =
  entry_kind :: "string option"
  entry_path :: "string option"
  entry_paths :: "string list"

record balance =
  bal_label :: string
  counts :: "(string, nat) dict"
  by_source :: "(string, nat) dict"

section \<open>A balance\<close>

definition sum_values :: "(string, nat) dict \<Rightarrow> nat" where
  "sum_values d = sum_list (dict_values d)"

definition count_of :: "(string, nat) dict \<Rightarrow> string \<Rightarrow> nat" where
  "count_of d k = (case dict_get d k of Some n \<Rightarrow> n | None \<Rightarrow> 0)"

definition declared_share :: "balance \<Rightarrow> py_float" where
  "declared_share b = (let tot = sum_values (by_source b) in
     if tot \<noteq> 0 then py_round 3 (of_nat (count_of (by_source b) ''declaration'') / of_nat tot) else 0)"

definition balance_total :: "balance \<Rightarrow> nat" where
  "balance_total b = sum_values (counts b)"

definition share :: "balance \<Rightarrow> string \<Rightarrow> py_float" where
  "share b kind = (if balance_total b \<noteq> 0
     then py_round 3 (of_nat (count_of (counts b) kind) / of_nat (balance_total b)) else 0)"

definition by_key :: "(string, nat) dict \<Rightarrow> (string, nat) dict" where
  "by_key d = sort_key fst d"

definition balance_json :: "balance \<Rightarrow> json" where
  "balance_json b = JObj
     [(''label'', JStr (bal_label b)),
      (''counts'', JObj (map (\<lambda>(k, n). (k, JInt (int n))) (by_key (counts b)))),
      (''total'', JInt (int (balance_total b))), (''capability_share'', JFloat (share b ''capability'')),
      (''declared_share'', JFloat (declared_share b))]"

section \<open>What is declared\<close>

definition bump :: "(string, nat) dict \<Rightarrow> string \<Rightarrow> nat \<Rightarrow> (string, nat) dict" where
  "bump d k n = dict_set k (count_of d k + n) d"

definition kind_of_entry :: "capability_entry \<Rightarrow> string" where
  "kind_of_entry e = (case entry_kind e of Some k \<Rightarrow> k | None \<Rightarrow> ''undeclared'')"

definition portfolio :: "capability_entry list \<Rightarrow> balance" where
  "portfolio manifest = \<lparr>bal_label = ''portfolio'',
     counts = fold (\<lambda>k d. bump d k 1) (map kind_of_entry manifest) [], by_source = []\<rparr>"

definition rstrip_slashes :: "string \<Rightarrow> string" where
  "rstrip_slashes s = rev (dropWhile (\<lambda>c. c = CHR ''/'') (rev s))"

definition entry_paths_of :: "capability_entry \<Rightarrow> string list" where
  "entry_paths_of e = map rstrip_slashes (filter (\<lambda>p. p \<noteq> '''')
     ((case entry_path e of Some p \<Rightarrow> [p] | None \<Rightarrow> []) @ entry_paths e))"

definition declare_entry :: "capability_entry \<Rightarrow> (string, string) dict \<Rightarrow> (string, string) dict" where
  "declare_entry e d = fold (\<lambda>p. dict_set p (kind_of_entry e)) (entry_paths_of e) d"

definition declared_kinds :: "capability_entry list \<Rightarrow> (string, string) dict" where
  "declared_kinds manifest = sort_key (\<lambda>item. - int (length (fst item))) (fold declare_entry manifest [])"

section \<open>Where a line counts\<close>

definition covers :: "string \<Rightarrow> string \<Rightarrow> bool" where
  "covers p path \<longleftrightarrow> path = p \<or> starts_with path (p @ ''/'')"

definition match_declared_kind :: "string \<Rightarrow> (string, string) dict \<Rightarrow> string option" where
  "match_declared_kind path declared = map_option snd (List.find (\<lambda>item. covers (fst item) path) declared)"

definition classify_by_location :: "string \<Rightarrow> string" where
  "classify_by_location path =
     (if starts_with path ''examples/'' then ''capability''
      else if starts_with path ''tools/'' then ''quality'' else ''other'')"

definition classify :: "string \<Rightarrow> (string, string) dict \<Rightarrow> string \<times> string" where
  "classify path declared =
     (case match_declared_kind path declared of
        Some k \<Rightarrow> (k, ''declaration'') | None \<Rightarrow> (classify_by_location path, ''location''))"

definition tab_text :: string where
  "tab_text = [CHR 0x09]"

definition numstat_row :: "string \<Rightarrow> (nat \<times> string) option" where
  "numstat_row line =
     (case py_split tab_text line of
        [added, removed, path] \<Rightarrow>
          if added \<noteq> '''' \<and> list_all is_digit added then Some (undigits (rev added), path) else None
      | _ \<Rightarrow> None)"

definition added_lines :: "string \<Rightarrow> (nat \<times> string) list" where
  "added_lines out = List.map_filter numstat_row (py_splitlines out)"

definition tally_row :: "(string, string) dict \<Rightarrow> nat \<times> string
    \<Rightarrow> (string, nat) dict \<times> (string, nat) dict \<Rightarrow> (string, nat) dict \<times> (string, nat) dict" where
  "tally_row declared row acc = (let (added, path) = row; (tally, sources) = acc; (kind, source) = classify path declared in
     (bump tally kind added, if kind \<noteq> ''other'' then bump sources source added else sources))"

definition investment :: "nat \<Rightarrow> string \<Rightarrow> capability_entry list \<Rightarrow> balance" where
  "investment window out manifest =
     (let declared = declared_kinds manifest;
          (tally, sources) = fold (tally_row declared) (added_lines out) ([], []) in
      \<lparr>bal_label = ''investment/'' @ show_nat window @ '' (lines added)'',
       counts = filter (\<lambda>(k, n). k \<noteq> ''other'') tally, by_source = sources\<rparr>)"

section \<open>The report\<close>

definition render_kind :: "string \<Rightarrow> balance \<Rightarrow> string \<times> nat \<Rightarrow> string" where
  "render_kind block b row = (let (kind, n) = row;
       bar = (if balance_total b \<noteq> 0
         then concat (replicate (nat (round_half_even (20 * of_nat n / of_nat (balance_total b)))) block) else '''') in
     ''  '' @ pad_right CHR '' '' 12 kind @ '' '' @ pad_left CHR '' '' 4 (show_nat n) @ ''  ''
       @ pad_left CHR '' '' 5 (fmt_percent 0 (share b kind)) @ '' '' @ bar)"

definition render_balance :: "string \<Rightarrow> string \<Rightarrow> balance list \<Rightarrow> string list" where
  "render_balance block arrow ms = concat (map (\<lambda>b.
     [bal_label b @ '': '' @ show_nat (balance_total b) @ '' unit(s)'']
     @ map (render_kind block b) (by_key (counts b))
     @ (if by_source b \<noteq> []
        then [''  '' @ arrow @ '' '' @ fmt_percent 0 (declared_share b)
          @ '' of these lines were classified by declaration, the rest by location''] else [])) ms)"

text \<open>What \<open>_handle_report\<close> prints in its two formats.\<close>

definition report_json :: "nat \<Rightarrow> string \<Rightarrow> capability_entry list \<Rightarrow> json" where
  "report_json window out manifest = JArr (map balance_json [portfolio manifest, investment window out manifest])"

definition no_capability_work :: "balance \<Rightarrow> bool" where
  "no_capability_work spent \<longleftrightarrow> balance_total spent \<noteq> 0 \<and> count_of (counts spent) ''capability'' = 0"

definition report_text :: "string \<Rightarrow> string \<Rightarrow> string \<Rightarrow> nat \<Rightarrow> string \<Rightarrow> capability_entry list \<Rightarrow> string list" where
  "report_text block arrow warning window out manifest =
     render_balance block arrow [portfolio manifest, investment window out manifest]
     @ (if no_capability_work (investment window out manifest)
        then [newline @ warning @ ''  No capability work in the last '' @ show_nat window
          @ '' commit(s). A release spent entirely on tooling is a choice; spending one without noticing is the drift this measurement exists to surface.'']
        else [])"

text \<open>
  Which declaration classifies a path, and the conservation of added lines by the investment.
\<close>

section \<open>The most specific declaration\<close>

definition declarations :: "capability_entry list \<Rightarrow> (string \<times> string) list" where
  "declarations manifest = concat (map (\<lambda>e. map (\<lambda>p. (p, kind_of_entry e)) (entry_paths_of e)) manifest)"

lemma fold_declare: "fold declare_entry manifest d = fold (\<lambda>(p, k). dict_set p k) (declarations manifest) d"
proof (induction manifest arbitrary: d)
  case (Cons e m)
  have "fold (\<lambda>p. dict_set p (kind_of_entry e)) ps d' = fold (\<lambda>(p, k). dict_set p k) (map (\<lambda>p. (p, kind_of_entry e)) ps) d'"
    for ps and d' :: "(string, string) dict" by (induction ps arbitrary: d') auto
  then show ?case using Cons by (simp add: declarations_def declare_entry_def)
qed (simp add: declarations_def)

lemma fold_pairs_get: "dict_get (fold (\<lambda>(p, k). dict_set p k) xs d) q =
    (case map_of (rev xs) q of Some k \<Rightarrow> Some k | None \<Rightarrow> dict_get d q)"
  by (induction xs arbitrary: d) (auto simp: map_add_def split: option.splits)

lemma wf_set: "wf_dict d \<Longrightarrow> wf_dict (dict_set k v d)"
  by (simp add: wf_dict_def dict_set_def distinct_update)

lemma fold_pairs_wf: "wf_dict d \<Longrightarrow> wf_dict (fold (\<lambda>(p, k). dict_set p k) xs d)"
  by (induction xs arbitrary: d) (auto simp: wf_set)

lemma covers_prefix: "covers p path \<Longrightarrow> prefix p path"
  by (auto simp: covers_def starts_with_def prefix_def)

lemma covers_same_length: "covers p path \<Longrightarrow> covers q path \<Longrightarrow> length p = length q \<Longrightarrow> p = q"
  by (metis covers_prefix prefix_length_prefix prefix_order.antisym order_refl)

lemma find_longest:
  assumes "sorted_wrt (\<lambda>a b. length (fst a) \<ge> length (fst b)) d" "List.find (\<lambda>i. covers (fst i) path) d = Some (p, k)"
  shows "(p, k) \<in> set d \<and> covers p path \<and> (\<forall>(q, k')\<in>set d. covers q path \<longrightarrow> length q \<le> length p)"
  using assms by (induction d) (auto split: if_splits)

definition most_specific :: "capability_entry list \<Rightarrow> string \<Rightarrow> string \<Rightarrow> bool" where
  "most_specific manifest path p \<longleftrightarrow> p \<in> fst ` set (declarations manifest) \<and> covers p path
     \<and> (\<forall>q \<in> fst ` set (declarations manifest). covers q path \<longrightarrow> length q \<le> length p)"

text \<open>C20: A path has the kind of the longest declared path that covers it, as the last entry of the manifest
  that declares this path has it, and is left to its location exactly when no declaration covers it.\<close>

theorem most_specific_declaration_wins:
  "match_declared_kind path (declared_kinds manifest) = Some k \<longleftrightarrow>
     (\<exists>p. most_specific manifest path p \<and> map_of (rev (declarations manifest)) p = Some k)"
proof -
  let ?d = "fold declare_entry manifest []" and ?s = "declared_kinds manifest"
  have wf: "wf_dict ?d" unfolding fold_declare by (rule fold_pairs_wf) (simp add: wf_dict_def)
  have mem: "(p, k) \<in> set ?s \<longleftrightarrow> map_of (rev (declarations manifest)) p = Some k" for p k
    using dict_get_iff[OF wf, of p k] fold_pairs_get[of "declarations manifest" "[]" p]
    by (simp add: declared_kinds_def fold_declare split: option.splits)
  have keys: "fst ` set ?s = fst ` set (declarations manifest)"
  proof (intro equalityI subsetI)
    fix p assume "p \<in> fst ` set ?s"
    then obtain k where "map_of (rev (declarations manifest)) p = Some k" using mem by auto
    then show "p \<in> fst ` set (declarations manifest)" using map_of_SomeD by force
  next
    fix p assume "p \<in> fst ` set (declarations manifest)"
    then have "map_of (rev (declarations manifest)) p \<noteq> None" by (simp add: map_of_eq_None_iff)
    then show "p \<in> fst ` set ?s" using mem by force
  qed
  have sorted: "sorted_wrt (\<lambda>a b. length (fst a) \<ge> length (fst b)) ?s"
    using sorted_sort_key[of "\<lambda>item. - int (length (fst item))" ?d]
    by (simp add: declared_kinds_def sorted_map)
  show ?thesis
  proof
    assume "match_declared_kind path ?s = Some k"
    then obtain p where "List.find (\<lambda>i. covers (fst i) path) ?s = Some (p, k)"
      by (auto simp: match_declared_kind_def)
    from find_longest[OF sorted this] show "\<exists>p. most_specific manifest path p \<and> map_of (rev (declarations manifest)) p = Some k"
      unfolding most_specific_def keys[symmetric] mem[symmetric] by force
  next
    assume "\<exists>p. most_specific manifest path p \<and> map_of (rev (declarations manifest)) p = Some k"
    then obtain p where p: "most_specific manifest path p" "(p, k) \<in> set ?s" by (auto simp: mem)
    then have "List.find (\<lambda>i. covers (fst i) path) ?s \<noteq> None"
      unfolding find_None_iff most_specific_def by force
    then obtain q k' where q: "List.find (\<lambda>i. covers (fst i) path) ?s = Some (q, k')" by auto
    note longest = find_longest[OF sorted q]
    have cp: "covers p path" and cq: "covers q path" and mq: "(q, k') \<in> set ?s"
      using p(1) longest unfolding most_specific_def by simp_all
    have "length p \<le> length q" using bspec[OF conjunct2[OF conjunct2[OF longest]] p(2)] cp by simp
    moreover have "q \<in> fst ` set (declarations manifest)" unfolding keys[symmetric] using mq by (rule rev_image_eqI) simp
    then have "length q \<le> length p" using p(1) cq unfolding most_specific_def by blast
    ultimately have "q = p" using covers_same_length[OF cq cp] by simp
    then have "k' = k" using mq p(2) by (simp add: mem)
    then show "match_declared_kind path ?s = Some k" using q by (simp add: match_declared_kind_def)
  qed
qed

section \<open>No line is lost\<close>

lemma count_of_bump: "count_of (bump d k n) j = count_of d j + (if j = k then n else 0)"
  by (simp add: count_of_def bump_def)

lemma dict_set_Cons: "dict_set k v (i # d) = (if fst i = k then (k, v) # d else i # dict_set k v d)"
  by (cases i) (simp add: dict_set_def)

lemma count_of_Cons: "count_of ((j, m) # d) k = (if j = k then m else count_of d k)"
  by (simp add: count_of_def dict_get_def)

lemma sum_bump: "wf_dict d \<Longrightarrow> sum_values (filter (P \<circ> fst) (bump d k n))
    = sum_values (filter (P \<circ> fst) d) + (if P k then n else 0)"
proof (induction d)
  case Nil
  then show ?case by (simp add: bump_def count_of_def dict_set_def sum_values_def dict_values_def)
next
  case (Cons i d)
  obtain j m where i: "i = (j, m)" by (cases i)
  have wf: "wf_dict d" using Cons.prems by (simp add: wf_dict_def)
  show ?case
  proof (cases "j = k")
    case True
    then show ?thesis by (simp add: i bump_def count_of_Cons dict_set_Cons sum_values_def dict_values_def)
  next
    case False
    have "bump (i # d) k n = i # bump d k n" using False by (simp add: i bump_def count_of_Cons dict_set_Cons)
    then show ?thesis using Cons.IH[OF wf] by (simp add: i sum_values_def dict_values_def)
  qed
qed

lemma wf_bump: "wf_dict d \<Longrightarrow> wf_dict (bump d k n)"
  by (simp add: bump_def wf_set)

definition side_of :: "(string, string) dict \<Rightarrow> nat \<times> string \<Rightarrow> string" where
  "side_of declared row = fst (classify (snd row) declared)"

definition lines_where :: "(nat \<times> string \<Rightarrow> bool) \<Rightarrow> (nat \<times> string) list \<Rightarrow> nat" where
  "lines_where P rows = sum_list (map fst (filter P rows))"

lemma tally_fold_rows: "wf_dict t \<Longrightarrow> wf_dict s \<Longrightarrow> fold (tally_row declared) rows (t, s) = (t', s') \<Longrightarrow>
    wf_dict t' \<and> wf_dict s'
    \<and> sum_values (filter (P \<circ> fst) t') = sum_values (filter (P \<circ> fst) t) + lines_where (\<lambda>r. P (side_of declared r)) rows
    \<and> sum_values s' = sum_values s + lines_where (\<lambda>r. side_of declared r \<noteq> ''other'') rows
    \<and> count_of t' k = count_of t k + lines_where (\<lambda>r. side_of declared r = k) rows"
proof (induction rows arbitrary: t s)
  case (Cons r rows)
  obtain n path where r: "r = (n, path)" by (cases r)
  obtain kind src where c: "classify path declared = (kind, src)" by fastforce
  let ?s = "if kind \<noteq> ''other'' then bump s src n else s"
  have "fold (tally_row declared) rows (bump t kind n, ?s) = (t', s')"
  proof -
    have "tally_row declared r (t, s) = (bump t kind n, ?s)" by (simp add: r tally_row_def c Let_def)
    then show ?thesis using Cons.prems(3) by simp
  qed
  note IH = Cons.IH[OF wf_bump[OF Cons.prems(1)] _ this]
  have "wf_dict ?s" using Cons.prems(2) by (simp add: wf_bump)
  moreover have "sum_values ?s = sum_values s + (if kind \<noteq> ''other'' then n else 0)"
    using sum_bump[OF Cons.prems(2), of "\<lambda>_. True" src n] by (simp add: comp_def)
  moreover note sum_bump[OF Cons.prems(1), of P kind n, unfolded comp_def]
  ultimately show ?case using IH by (auto simp: count_of_bump lines_where_def side_of_def r c)
qed (simp add: lines_where_def)

lemma count_filter: "count_of (filter (\<lambda>i. fst i \<noteq> x) d) k = (if k = x then 0 else count_of d k)"
  by (induction d) (auto simp: count_of_def dict_get_def)

text \<open>Every added line whose file is not other counts once for its side and once for the source of the
  verdict, so the two tables of an investment have the same sum; together with the lines of other files
  they are all the added lines.\<close>

theorem investment_conserves_lines:
  "(let b = investment window out manifest; rows = added_lines out; side = side_of (declared_kinds manifest) in
     balance_total b = lines_where (\<lambda>r. side r \<noteq> ''other'') rows
     \<and> sum_values (by_source b) = balance_total b
     \<and> balance_total b + lines_where (\<lambda>r. side r = ''other'') rows = sum_list (map fst rows)
     \<and> count_of (counts b) ''capability'' = lines_where (\<lambda>r. side r = ''capability'') rows)"
proof -
  let ?rows = "added_lines out" and ?d = "declared_kinds manifest"
  obtain t s where f: "fold (tally_row ?d) ?rows ([], []) = (t, s)" by fastforce
  note sums = tally_fold_rows[OF wf_dict_Nil wf_dict_Nil f, where P = "\<lambda>k. k \<noteq> ''other''" and k = "''capability''"]
  have "lines_where P rows + lines_where (\<lambda>r. \<not> P r) rows = sum_list (map fst rows)" for P rows
    by (induction rows) (auto simp: lines_where_def)
  from this[of "\<lambda>r. side_of ?d r \<noteq> ''other''" ?rows]
  show ?thesis using sums
    by (simp add: investment_def f Let_def balance_total_def count_filter comp_def case_prod_beta' sum_values_def dict_values_def)
       (simp add: count_of_def)
qed

text \<open>A file that moved between the two sides: \<open>git\<close> writes its path with braces, and no prefix matches it.\<close>

lemma moved_file_counts_as_other:
  "classify ''{tools => examples}/app.py'' [(''examples/app.py'', ''capability'')] = (''other'', ''location'')"
  by (simp add: classify_def match_declared_kind_def covers_def classify_by_location_def)

end
