(* ===== verification/Py_Regex.thy ===== *)
theory Py_Regex
  imports Py_Text
begin

text \<open>
  The module \<open>re\<close>, for the patterns of the tools: a backtracking matcher whose results are in the order
  in which Python tries them, with capturing groups, greedy and lazy repetition, look ahead and tests of
  the position. Characters are of any type. The matcher is proved to find exactly the spans that the
  pattern denotes.
\<close>

section \<open>Patterns\<close>

datatype 'c rx =
    Eps
  | Cls "'c \<Rightarrow> bool"
  | Cat "'c rx" "'c rx"
  | Alt "'c rx" "'c rx"
  | Star "'c rx"
  | Lazy "'c rx"
  | Ahead bool "'c rx"
  | Test "'c list \<Rightarrow> nat \<Rightarrow> bool"
  | Group nat "'c rx"

definition lit :: "'c list \<Rightarrow> 'c rx" where
  "lit s = foldr (\<lambda>c. Cat (Cls ((=) c))) s Eps"

definition cats :: "'c rx list \<Rightarrow> 'c rx" where
  "cats rs = foldr Cat rs Eps"

fun alts :: "'c rx list \<Rightarrow> 'c rx" where
  "alts [] = Ahead False Eps"
| "alts [r] = r"
| "alts (r # rs) = Alt r (alts rs)"

definition opt :: "'c rx \<Rightarrow> 'c rx" where
  "opt r = Alt r Eps"

definition some :: "'c rx \<Rightarrow> 'c rx" where
  "some r = Cat r (Star r)"

fun times_rx :: "nat \<Rightarrow> 'c rx \<Rightarrow> 'c rx" where
  "times_rx 0 r = Eps"
| "times_rx (Suc n) r = Cat r (times_rx n r)"

definition at_least :: "nat \<Rightarrow> 'c rx \<Rightarrow> 'c rx" where
  "at_least n r = Cat (times_rx n r) (Star r)"

fun at_most :: "nat \<Rightarrow> 'c rx \<Rightarrow> 'c rx" where
  "at_most 0 r = Eps"
| "at_most (Suc n) r = opt (Cat r (at_most n r))"

definition between :: "nat \<Rightarrow> nat \<Rightarrow> 'c rx \<Rightarrow> 'c rx" where
  "between m n r = Cat (times_rx m r) (at_most (n - m) r)"

section \<open>Positions\<close>

text \<open>\<open>\b\<close> for the given word characters, \<open>^\<close> and \<open>$\<close> without and with \<open>MULTILINE\<close>, and the one
  character look behinds.\<close>

definition word_at :: "('c \<Rightarrow> bool) \<Rightarrow> 'c list \<Rightarrow> nat \<Rightarrow> bool" where
  "word_at w t i \<longleftrightarrow> i < length t \<and> w (t ! i)"

definition boundary :: "('c \<Rightarrow> bool) \<Rightarrow> 'c list \<Rightarrow> nat \<Rightarrow> bool" where
  "boundary w t i \<longleftrightarrow> (0 < i \<and> word_at w t (i - 1)) \<noteq> word_at w t i"

definition at_start :: "'c list \<Rightarrow> nat \<Rightarrow> bool" where
  "at_start t i \<longleftrightarrow> i = 0"

definition at_end :: "'c \<Rightarrow> 'c list \<Rightarrow> nat \<Rightarrow> bool" where
  "at_end nl t i \<longleftrightarrow> i = length t \<or> Suc i = length t \<and> t ! i = nl"

definition line_start :: "'c \<Rightarrow> 'c list \<Rightarrow> nat \<Rightarrow> bool" where
  "line_start nl t i \<longleftrightarrow> i = 0 \<or> t ! (i - 1) = nl"

definition line_end :: "'c \<Rightarrow> 'c list \<Rightarrow> nat \<Rightarrow> bool" where
  "line_end nl t i \<longleftrightarrow> i = length t \<or> t ! i = nl"

definition preceded_by :: "('c \<Rightarrow> bool) \<Rightarrow> 'c list \<Rightarrow> nat \<Rightarrow> bool" where
  "preceded_by P t i \<longleftrightarrow> 0 < i \<and> P (t ! (i - 1))"

definition not_preceded_by :: "('c \<Rightarrow> bool) \<Rightarrow> 'c list \<Rightarrow> nat \<Rightarrow> bool" where
  "not_preceded_by P t i \<longleftrightarrow> \<not> preceded_by P t i"

section \<open>The matcher\<close>

type_synonym groups = "(nat \<times> nat \<times> nat) list"

text \<open>All ways to match at a position, the first one first. A repetition stops at a round without progress.\<close>

function runs :: "'c list \<Rightarrow> 'c rx \<Rightarrow> nat \<times> groups \<Rightarrow> (nat \<times> groups) list" where
  "runs t Eps s = [s]"
| "runs t (Cls P) s = (if fst s < length t \<and> P (t ! fst s) then [(Suc (fst s), snd s)] else [])"
| "runs t (Cat r q) s = concat (map (runs t q) (runs t r s))"
| "runs t (Alt r q) s = runs t r s @ runs t q s"
| "runs t (Star r) s =
     concat (map (\<lambda>s'. if fst s < fst s' \<and> fst s' \<le> length t then runs t (Star r) s' else []) (runs t r s)) @ [s]"
| "runs t (Lazy r) s =
     s # concat (map (\<lambda>s'. if fst s < fst s' \<and> fst s' \<le> length t then runs t (Lazy r) s' else []) (runs t r s))"
| "runs t (Ahead b r) s = (case runs t r s of
       [] \<Rightarrow> if b then [] else [s] | s' # _ \<Rightarrow> if b then [(fst s, snd s')] else [])"
| "runs t (Test p) s = (if p t (fst s) then [s] else [])"
| "runs t (Group k r) s = map (\<lambda>s'. (fst s', (k, fst s, fst s') # snd s')) (runs t r s)"
  by pat_completeness auto
termination
  by (relation "inv_image (less_than <*lex*> less_than) (\<lambda>(t, r, s). (size r, length t - fst s))") auto

declare runs.simps(5,6) [simp del]

definition match_at :: "'c rx \<Rightarrow> 'c list \<Rightarrow> nat \<Rightarrow> (nat \<times> groups) option" where
  "match_at r t i = (case runs t r (i, []) of [] \<Rightarrow> None | s # _ \<Rightarrow> Some s)"

text \<open>A match: where it starts, where it ends, and its groups.\<close>

type_synonym match = "nat \<times> nat \<times> groups"

definition search_from :: "'c rx \<Rightarrow> 'c list \<Rightarrow> nat \<Rightarrow> match option" where
  "search_from r t k =
     (case List.find (\<lambda>i. runs t r (i, []) \<noteq> []) [k..<Suc (length t)] of
        None \<Rightarrow> None | Some i \<Rightarrow> map_option (\<lambda>(j, g). (i, j, g)) (match_at r t i))"

definition search :: "'c rx \<Rightarrow> 'c list \<Rightarrow> match option" where
  "search r t = search_from r t 0"

definition matches :: "'c rx \<Rightarrow> 'c list \<Rightarrow> bool" where
  "matches r t \<longleftrightarrow> search r t \<noteq> None"

definition match_prefix :: "'c rx \<Rightarrow> 'c list \<Rightarrow> match option" where
  "match_prefix r t = map_option (\<lambda>(j, g). (0, j, g)) (match_at r t 0)"

definition fullmatch :: "'c rx \<Rightarrow> 'c list \<Rightarrow> match option" where
  "fullmatch r t = match_prefix (Cat r (Test (\<lambda>t i. i = length t))) t"

definition slice :: "'c list \<Rightarrow> nat \<Rightarrow> nat \<Rightarrow> 'c list" where
  "slice t i j = take (j - i) (drop i t)"

definition matched :: "'c list \<Rightarrow> match \<Rightarrow> 'c list" where
  "matched t m = slice t (fst m) (fst (snd m))"

definition group_span :: "match \<Rightarrow> nat \<Rightarrow> (nat \<times> nat) option" where
  "group_span m k = map_of (snd (snd m)) k"

definition group_text :: "'c list \<Rightarrow> match \<Rightarrow> nat \<Rightarrow> 'c list option" where
  "group_text t m k = map_option (\<lambda>(i, j). slice t i j) (group_span m k)"

text \<open>\<open>finditer\<close> for patterns that match no empty text; after an empty match it goes on one character later.\<close>

function find_all_from :: "'c rx \<Rightarrow> 'c list \<Rightarrow> nat \<Rightarrow> match list" where
  "find_all_from r t k = (if length t < k then [] else
     case search_from r t k of
       None \<Rightarrow> []
     | Some (i, j, g) \<Rightarrow> (i, j, g) # find_all_from r t (if k < j then j else Suc k))"
  by pat_completeness auto
termination
  by (relation "measure (\<lambda>(r, t, k). Suc (length t) - k)") auto

declare find_all_from.simps [simp del]

definition find_all :: "'c rx \<Rightarrow> 'c list \<Rightarrow> match list" where
  "find_all r t = find_all_from r t 0"

text \<open>\<open>re.sub\<close> with a function from matches to texts.\<close>

fun sub_from :: "(match \<Rightarrow> 'c list) \<Rightarrow> 'c list \<Rightarrow> nat \<Rightarrow> match list \<Rightarrow> 'c list" where
  "sub_from f t k [] = drop k t"
| "sub_from f t k (m # ms) = slice t k (fst m) @ f m @ sub_from f t (fst (snd m)) ms"

definition sub :: "'c rx \<Rightarrow> (match \<Rightarrow> 'c list) \<Rightarrow> 'c list \<Rightarrow> 'c list" where
  "sub r f t = sub_from f t 0 (find_all r t)"

section \<open>What a pattern denotes\<close>

primrec spans :: "'c list \<Rightarrow> 'c rx \<Rightarrow> (nat \<times> nat) set" where
  "spans t Eps = Id"
| "spans t (Cls P) = {(i, Suc i) | i. i < length t \<and> P (t ! i)}"
| "spans t (Cat r q) = spans t r O spans t q"
| "spans t (Alt r q) = spans t r \<union> spans t q"
| "spans t (Star r) = (spans t r)\<^sup>*"
| "spans t (Lazy r) = (spans t r)\<^sup>*"
| "spans t (Ahead b r) = {(i, i) | i. ((\<exists>j. (i, j) \<in> spans t r) = b)}"
| "spans t (Test p) = {(i, i) | i. p t i}"
| "spans t (Group k r) = spans t r"

lemma spans_bounds: "(i, j) \<in> spans t r \<Longrightarrow> i \<le> j \<and> (i \<le> length t \<longrightarrow> j \<le> length t)"
proof (induction r arbitrary: i j)
  case (Cat r q)
  then obtain k where "(i, k) \<in> spans t r" "(k, j) \<in> spans t q" by auto
  with Cat.IH show ?case by (meson order_trans)
next
  case (Star r)
  then have "(i, j) \<in> (spans t r)\<^sup>*" by simp
  then show ?case by (induction rule: rtrancl_induct) (auto dest: Star.IH)
next
  case (Lazy r)
  then have "(i, j) \<in> (spans t r)\<^sup>*" by simp
  then show ?case by (induction rule: rtrancl_induct) (auto dest: Lazy.IH)
qed auto

definition ends :: "(nat \<times> groups) list \<Rightarrow> nat set" where
  "ends ss = fst ` set ss"

lemma ends_simps [simp]: "ends [] = {}" "ends (s # ss) = insert (fst s) (ends ss)" "ends (xs @ ys) = ends xs \<union> ends ys"
  by (auto simp: ends_def)

lemma ends_concat: "ends (concat (map f ss)) = (\<Union>s\<in>set ss. ends (f s))"
  by (auto simp: ends_def)

lemma ends_in: "j \<in> ends ss \<longleftrightarrow> (\<exists>g. (j, g) \<in> set ss)"
  by (force simp: ends_def)

text \<open>The rounds of a repetition that make progress reach all that its closure reaches.\<close>

lemma star_ends:
  assumes step: "\<And>s. fst s \<le> length t \<Longrightarrow> ends (runs t r s) = {j. (fst s, j) \<in> spans t r}"
    and loop: "\<And>s. ends (f s) = insert (fst s) (\<Union>s'\<in>set (runs t r s).
        if fst s < fst s' \<and> fst s' \<le> length t then ends (f s') else {})"
    and i: "fst s \<le> length t"
  shows "ends (f s) = {j. (fst s, j) \<in> (spans t r)\<^sup>*}"
proof (intro equalityI subsetI)
  fix j assume "j \<in> ends (f s)"
  then have "(fst s, j) \<in> (spans t r)\<^sup>*" using i
  proof (induction "length t - fst s" arbitrary: s rule: less_induct)
    case less
    from less.prems(1) loop[of s] consider "j = fst s"
      | s' where "s' \<in> set (runs t r s)" "fst s < fst s'" "fst s' \<le> length t" "j \<in> ends (f s')" by (auto split: if_splits)
    then show ?case
    proof cases
      case 2
      have "fst s' \<in> ends (runs t r s)" using 2(1) by (simp add: ends_def)
      then have "(fst s, fst s') \<in> spans t r" using step[OF less.prems(2)] by simp
      moreover have "(fst s', j) \<in> (spans t r)\<^sup>*" using less.hyps[OF _ 2(4,3)] 2(2,3) by simp
      ultimately show ?thesis by (rule converse_rtrancl_into_rtrancl)
    qed simp
  qed
  then show "j \<in> {j. (fst s, j) \<in> (spans t r)\<^sup>*}" by simp
next
  fix j assume "j \<in> {j. (fst s, j) \<in> (spans t r)\<^sup>*}"
  then have "(fst s, j) \<in> (spans t r)\<^sup>*" by simp
  then show "j \<in> ends (f s)" using i
  proof (induction "fst s" arbitrary: s rule: converse_rtrancl_induct)
    case base
    then show ?case using loop[of s] by simp
  next
    case (step k)
    from spans_bounds[OF step.hyps(1)] step.prems have b: "fst s \<le> k" "k \<le> length t" by auto
    show ?case
    proof (cases "k = fst s")
      case True
      then show ?thesis using step.hyps(3) step.prems by simp
    next
      case False
      have "k \<in> ends (runs t r s)" using assms(1)[OF step.prems] step.hyps(1) by simp
      then obtain g where g: "(k, g) \<in> set (runs t r s)" by (auto simp: ends_in)
      have "j \<in> ends (f (k, g))" using step.hyps(3)[of "(k, g)"] b by simp
      then show ?thesis using loop[of s] g b False by force
    qed
  qed
qed

text \<open>From each position the matcher ends exactly where the pattern allows.\<close>

theorem runs_spans: "fst s \<le> length t \<Longrightarrow> ends (runs t r s) = {j. (fst s, j) \<in> spans t r}"
proof (induction r arbitrary: s)
  case (Cat r q)
  have "ends (runs t (Cat r q) s) = (\<Union>s'\<in>set (runs t r s). ends (runs t q s'))" by (simp add: ends_concat)
  also have "\<dots> = (\<Union>s'\<in>set (runs t r s). {j. (fst s', j) \<in> spans t q})"
  proof (rule SUP_cong[OF refl])
    fix s' assume "s' \<in> set (runs t r s)"
    then have "fst s' \<in> ends (runs t r s)" by (simp add: ends_def)
    then have "fst s' \<le> length t" using Cat.IH(1)[OF Cat.prems] Cat.prems spans_bounds by blast
    then show "ends (runs t q s') = {j. (fst s', j) \<in> spans t q}" by (rule Cat.IH(2))
  qed
  also have "\<dots> = (\<Union>k\<in>ends (runs t r s). {j. (k, j) \<in> spans t q})" by (simp add: ends_def)
  finally show ?case using Cat.IH(1)[OF Cat.prems] by auto
next
  case (Star r)
  have "ends (runs t (Star r) s') = insert (fst s') (\<Union>s''\<in>set (runs t r s').
      if fst s' < fst s'' \<and> fst s'' \<le> length t then ends (runs t (Star r) s'') else {})" for s'
    by (subst runs.simps(5)) (auto simp: ends_concat split: if_splits)
  from star_ends[OF Star.IH this Star.prems] show ?case by simp
next
  case (Lazy r)
  have "ends (runs t (Lazy r) s') = insert (fst s') (\<Union>s''\<in>set (runs t r s').
      if fst s' < fst s'' \<and> fst s'' \<le> length t then ends (runs t (Lazy r) s'') else {})" for s'
    by (subst runs.simps(6)) (auto simp: ends_concat split: if_splits)
  from star_ends[OF Lazy.IH this Lazy.prems] show ?case by simp
next
  case (Ahead b r)
  have "ends (runs t r s) = {} \<longleftrightarrow> runs t r s = []" by (cases "runs t r s") auto
  then show ?case using Ahead.IH[OF Ahead.prems] by (auto split: list.splits)
next
  case (Group k r)
  have "ends (runs t (Group k r) s) = ends (runs t r s)" by (simp add: ends_def image_image)
  then show ?case using Group by simp
qed auto

lemma runs_empty_iff: "i \<le> length t \<Longrightarrow> runs t r (i, g) = [] \<longleftrightarrow> (\<forall>j. (i, j) \<notin> spans t r)"
  using runs_spans[of "(i, g)" t r] by (cases "runs t r (i, g)") auto

lemma match_at_span:
  assumes "match_at r t i = Some (j, g)" "i \<le> length t"
  shows "(i, j) \<in> spans t r"
proof -
  have "(j, g) \<in> set (runs t r (i, []))"
    using assms(1) by (cases "runs t r (i, [])") (simp_all add: match_at_def)
  then have "j \<in> ends (runs t r (i, []))" by (auto simp: ends_in)
  then show ?thesis using runs_spans[of "(i, [])" t r] assms(2) by simp
qed

lemma find_upt: "List.find P [a..<b] = Some i \<longleftrightarrow> a \<le> i \<and> i < b \<and> P i \<and> (\<forall>k. a \<le> k \<and> k < i \<longrightarrow> \<not> P k)"
proof
  assume "List.find P [a..<b] = Some i"
  then obtain n where n: "n < b - a" "P (a + n)" "i = a + n" "\<forall>m<n. \<not> P (a + m)"
    by (auto simp: find_Some_iff)
  have "\<not> P k" if "a \<le> k" "k < i" for k
    using n(4)[rule_format, of "k - a"] n(3) that by simp
  then show "a \<le> i \<and> i < b \<and> P i \<and> (\<forall>k. a \<le> k \<and> k < i \<longrightarrow> \<not> P k)" using n by auto
next
  assume "a \<le> i \<and> i < b \<and> P i \<and> (\<forall>k. a \<le> k \<and> k < i \<longrightarrow> \<not> P k)"
  then show "List.find P [a..<b] = Some i"
    unfolding find_Some_iff by (intro exI[of _ "i - a"]) auto
qed

text \<open>\<open>search\<close> finds the leftmost start of a span, and finds something exactly when the text has a span.\<close>

lemma search_from_Some:
  assumes "search_from r t k = Some (i, j, g)"
  shows "k \<le> i" "i \<le> length t" "(i, j) \<in> spans t r" "match_at r t i = Some (j, g)"
    "\<And>i' j'. k \<le> i' \<Longrightarrow> i' < i \<Longrightarrow> (i', j') \<notin> spans t r"
proof -
  from assms have f: "List.find (\<lambda>i. runs t r (i, []) \<noteq> []) [k..<Suc (length t)] = Some i" and m: "match_at r t i = Some (j, g)"
    by (auto simp: search_from_def simp del: upt_Suc split: option.splits)
  show "k \<le> i" "i \<le> length t" "match_at r t i = Some (j, g)" using f m by (auto simp: find_upt simp del: upt_Suc)
  then show "(i, j) \<in> spans t r" using match_at_span by blast
  show "(i', j') \<notin> spans t r" if "k \<le> i'" "i' < i" for i' j'
  proof -
    have "runs t r (i', []) = []" "i' \<le> length t" using f that by (auto simp: find_upt simp del: upt_Suc)
    then show ?thesis by (simp add: runs_empty_iff)
  qed
qed

lemma search_from_None: "search_from r t k = None \<longleftrightarrow> (\<forall>i j. k \<le> i \<longrightarrow> i \<le> length t \<longrightarrow> (i, j) \<notin> spans t r)"
proof -
  have hit: "match_at r t i \<noteq> None" if "runs t r (i, []) \<noteq> []" for i
    using that by (cases "runs t r (i, [])") (simp_all add: match_at_def)
  have "search_from r t k = None \<longleftrightarrow> List.find (\<lambda>i. runs t r (i, []) \<noteq> []) [k..<Suc (length t)] = None"
  proof (cases "List.find (\<lambda>i. runs t r (i, []) \<noteq> []) [k..<Suc (length t)]")
    case (Some i)
    then have "match_at r t i \<noteq> None" by (intro hit) (simp add: find_upt del: upt_Suc)
    then show ?thesis using Some by (simp add: search_from_def del: upt_Suc)
  qed (simp add: search_from_def del: upt_Suc)
  also have "\<dots> \<longleftrightarrow> (\<forall>i. k \<le> i \<longrightarrow> i \<le> length t \<longrightarrow> runs t r (i, []) = [])"
    by (auto simp: find_None_iff simp del: upt_Suc)
  also have "\<dots> \<longleftrightarrow> (\<forall>i j. k \<le> i \<longrightarrow> i \<le> length t \<longrightarrow> (i, j) \<notin> spans t r)" by (auto simp: runs_empty_iff)
  finally show ?thesis .
qed

lemma matches_iff: "matches r t \<longleftrightarrow> (\<exists>i j. i \<le> length t \<and> (i, j) \<in> spans t r)"
  using search_from_None[of r t 0] by (simp add: matches_def search_def)

section \<open>Literals and classes\<close>

lemma lit_Nil [simp]: "lit [] = Eps" and lit_Cons [simp]: "lit (c # s) = Cat (Cls ((=) c)) (lit s)"
  by (simp_all add: lit_def)

lemma spans_lit: "(i, j) \<in> spans t (lit s) \<longleftrightarrow> j = i + length s \<and> (s = [] \<or> j \<le> length t \<and> slice t i j = s)"
proof (induction s arbitrary: i)
  case (Cons c s)
  have "(i, j) \<in> spans t (lit (c # s)) \<longleftrightarrow> i < length t \<and> t ! i = c \<and> (Suc i, j) \<in> spans t (lit s)" by auto
  also have "\<dots> \<longleftrightarrow> j = i + length (c # s) \<and> j \<le> length t \<and> slice t i j = c # s"
    by (auto simp: Cons slice_def take_Suc_conv_app_nth Cons_nth_drop_Suc[symmetric] dest: sym)
  finally show ?case by simp
qed auto

lemma spans_cats_Cons [simp]: "spans t (cats (r # rs)) = spans t r O spans t (cats rs)"
  and spans_cats_Nil [simp]: "spans t (cats []) = Id"
  by (simp_all add: cats_def)

lemma spans_opt [simp]: "spans t (opt r) = spans t r \<union> Id"
  by (simp add: opt_def)

lemma spans_some [simp]: "spans t (some r) = (spans t r)\<^sup>+"
  by (simp add: some_def trancl_unfold_left)

lemma spans_alts: "spans t (alts rs) = (\<Union>r\<in>set rs. spans t r)"
  by (induction rs rule: alts.induct) auto

lemma slice_Cons:
  assumes "i < j" "j \<le> length t"
  shows "slice t i j = t ! i # slice t (Suc i) j"
proof -
  have "drop i t = t ! i # drop (Suc i) t" using assms by (intro Cons_nth_drop_Suc[symmetric]) simp
  moreover have "j - i = Suc (j - Suc i)" using assms by simp
  ultimately show ?thesis by (simp only: slice_def take_Suc_Cons)
qed

text \<open>A run of characters of one class.\<close>

lemma star_class: "(i, j) \<in> (spans t (Cls P))\<^sup>* \<longleftrightarrow> i = j \<or> (i \<le> j \<and> j \<le> length t \<and> list_all P (slice t i j))"
proof
  assume "(i, j) \<in> (spans t (Cls P))\<^sup>*"
  then show "i = j \<or> (i \<le> j \<and> j \<le> length t \<and> list_all P (slice t i j))"
  proof (induction rule: rtrancl_induct)
    case (step k j)
    then have k: "k < length t" "P (t ! k)" "j = Suc k" by auto
    have "i \<le> k" using step.IH by auto
    then have "slice t i j = slice t i k @ [t ! k]" using k(1) by (simp add: k(3) slice_def Suc_diff_le take_Suc_conv_app_nth)
    moreover have "list_all P (slice t i k)" using step.IH by (auto simp: slice_def)
    ultimately show ?case using k \<open>i \<le> k\<close> by simp
  qed simp
next
  assume "i = j \<or> (i \<le> j \<and> j \<le> length t \<and> list_all P (slice t i j))"
  then show "(i, j) \<in> (spans t (Cls P))\<^sup>*"
  proof (elim disjE)
    assume "i \<le> j \<and> j \<le> length t \<and> list_all P (slice t i j)"
    then show ?thesis
    proof (induction "j - i" arbitrary: i)
      case (Suc n)
      then have "slice t i j = t ! i # slice t (Suc i) j" by (intro slice_Cons) auto
      then have one: "(i, Suc i) \<in> spans t (Cls P)" and all: "list_all P (slice t (Suc i) j)"
        using Suc.prems Suc.hyps(2) by auto
      have "(Suc i, j) \<in> (spans t (Cls P))\<^sup>*" using Suc.hyps(2) Suc.prems all by (intro Suc.hyps(1)) auto
      with one show ?case by (rule converse_rtrancl_into_rtrancl)
    qed simp
  qed simp
qed

lemma spans_times_class: "(i, j) \<in> spans t (times_rx n (Cls P)) \<longleftrightarrow>
    j = i + n \<and> (n = 0 \<or> j \<le> length t \<and> list_all P (slice t i j))"
proof (induction n arbitrary: i)
  case (Suc n)
  have "(i, j) \<in> spans t (times_rx (Suc n) (Cls P)) \<longleftrightarrow> i < length t \<and> P (t ! i) \<and> (Suc i, j) \<in> spans t (times_rx n (Cls P))"
    by auto
  also have "\<dots> \<longleftrightarrow> j = i + Suc n \<and> j \<le> length t \<and> list_all P (slice t i j)"
  proof (cases "j = i + Suc n \<and> j \<le> length t")
    case True
    then have "slice t i j = t ! i # slice t (Suc i) j" by (intro slice_Cons) auto
    then show ?thesis using True unfolding Suc.IH by (auto simp: slice_def)
  qed (auto simp: Suc.IH)
  finally show ?case by simp
qed auto


section \<open>Substitution\<close>

text \<open>The matches of \<open>find_all\<close> follow each other within the text.\<close>

fun in_order :: "nat \<Rightarrow> match list \<Rightarrow> nat \<Rightarrow> bool" where
  "in_order k [] n \<longleftrightarrow> k \<le> n"
| "in_order k (m # ms) n \<longleftrightarrow> k \<le> fst m \<and> fst m \<le> fst (snd m) \<and> in_order (fst (snd m)) ms n"

lemma in_order_le: "in_order k ms n \<Longrightarrow> k \<le> n"
  by (induction ms arbitrary: k) (auto intro: order_trans)

lemma in_order_find_all_from: "k' \<le> k \<Longrightarrow> k' \<le> length t \<Longrightarrow> in_order k' (find_all_from r t k) (length t)"
proof (induction r t k arbitrary: k' rule: find_all_from.induct)
  case (1 r t k)
  show ?case
  proof (cases "length t < k")
    case True
    then show ?thesis using "1.prems" by (simp add: find_all_from.simps[of r t k])
  next
    case False
    show ?thesis
    proof (cases "search_from r t k")
      case None
      then show ?thesis using False "1.prems" by (simp add: find_all_from.simps[of r t k])
    next
      case (Some m)
      obtain i j g where m: "m = (i, j, g)" by (cases m) auto
      note s = search_from_Some[OF Some[unfolded m]]
      from spans_bounds[OF s(3)] s(2) have b: "i \<le> j" "j \<le> length t" by auto
      have "in_order j (find_all_from r t (if k < j then j else Suc k)) (length t)"
        by (rule "1.IH"[OF False Some m[symmetric] refl]) (use b s(1) in auto)
      then show ?thesis using False Some m s(1) b "1.prems" by (simp add: find_all_from.simps[of r t k])
    qed
  qed
qed

lemma in_order_find_all: "in_order 0 (find_all r t) (length t)"
  by (simp add: find_all_def in_order_find_all_from)

lemma drop_slice: "i \<le> j \<Longrightarrow> drop i s = slice s i j @ drop j s"
  by (metis append_take_drop_id drop_drop le_add_diff_inverse2 slice_def)

text \<open>A measure that adds up over parts of a text, and that no replacement changes, is kept by \<open>sub\<close>.\<close>

lemma sub_from_measure:
  assumes add: "\<And>a b. \<mu> (a @ b) = \<mu> a + (\<mu> b :: nat)"
    and keep: "\<And>m. m \<in> set ms \<Longrightarrow> \<mu> (f m) = \<mu> (slice s (fst m) (fst (snd m)))"
    and ord: "in_order k ms (length s)"
  shows "\<mu> (sub_from f s k ms) = \<mu> (drop k s)"
  using keep ord
proof (induction ms arbitrary: k)
  case (Cons m ms)
  let ?i = "fst m" and ?j = "fst (snd m)"
  have ij: "k \<le> ?i" "?i \<le> ?j" "in_order ?j ms (length s)" using Cons.prems(2) by auto
  have "\<mu> (drop k s) = \<mu> (slice s k ?i) + (\<mu> (slice s ?i ?j) + \<mu> (drop ?j s))"
    using drop_slice[OF ij(1), of s] drop_slice[OF ij(2), of s] by (simp add: add)
  moreover have "\<mu> (sub_from f s ?j ms) = \<mu> (drop ?j s)" by (rule Cons.IH) (use Cons.prems ij in auto)
  moreover have "\<mu> (f m) = \<mu> (slice s ?i ?j)" by (rule Cons.prems(1)) simp
  ultimately show ?case by (simp add: add)
qed simp


section \<open>Patterns that consume\<close>

fun consuming :: "'c rx \<Rightarrow> bool" where
  "consuming (Cls P) = True"
| "consuming (Cat r q) = (consuming r \<or> consuming q)"
| "consuming (Alt r q) = (consuming r \<and> consuming q)"
| "consuming (Group k r) = consuming r"
| "consuming _ = False"

lemma consuming_spans: "consuming r \<Longrightarrow> (i, j) \<in> spans t r \<Longrightarrow> i < j"
proof (induction r arbitrary: i j)
  case (Cat r q)
  then obtain k where k: "(i, k) \<in> spans t r" "(k, j) \<in> spans t q" by auto
  have "i \<le> k" "k \<le> j" using k spans_bounds by blast+
  then show ?case using Cat.IH(1)[OF _ k(1)] Cat.IH(2)[OF _ k(2)] Cat.prems(1) by fastforce
qed auto

section \<open>Languages\<close>

text \<open>
  A pattern without tests of the position denotes a set of texts: what it spans from a place on are the
  first parts of the rest of the text that are in the set.
\<close>

definition spells :: "'c rx \<Rightarrow> 'c list set \<Rightarrow> bool" where
  "spells r L \<longleftrightarrow> (\<forall>u v k. (length u, k) \<in> spans (u @ v) r \<longleftrightarrow> (\<exists>x v'. v = x @ v' \<and> x \<in> L \<and> k = length (u @ x)))"

lemma slice_append: "slice (u @ v) (length u) (length u + n) = take n v"
  by (simp add: slice_def)

lemma first_part: "n \<le> length v \<and> P (take n v) \<longleftrightarrow> (\<exists>x v'. v = x @ v' \<and> P x \<and> n = length x)"
  by (metis append_eq_conv_conj append_take_drop_id le_add1 length_append length_take min.absorb2)

lemma spells_lit: "spells (lit s) {s}"
  unfolding spells_def by (auto simp: spans_lit slice_append) (metis append_take_drop_id)

lemma spells_star: "spells (Star (Cls P)) {x. list_all P x}"
proof -
  have "(length u, k) \<in> spans (u @ v) (Star (Cls P)) \<longleftrightarrow> (\<exists>x v'. v = x @ v' \<and> list_all P x \<and> k = length (u @ x))" for u v k
  proof (cases "length u \<le> k")
    case True
    then obtain n where k: "k = length u + n" by (metis le_iff_add)
    have "(length u, k) \<in> spans (u @ v) (Star (Cls P)) \<longleftrightarrow> n \<le> length v \<and> list_all P (take n v)"
      unfolding spans.simps(5) star_class by (auto simp: k slice_append)
    then show ?thesis unfolding first_part by (auto simp: k)
  next
    case False
    then show ?thesis using spans_bounds[of "length u" k "u @ v" "Star (Cls P)"] by auto
  qed
  then show ?thesis by (simp add: spells_def)
qed

lemma spells_class: "spells (Cls P) {[c] |c. P c}"
  unfolding spells_def
proof (intro allI)
  fix u v k
  show "(length u, k) \<in> spans (u @ v) (Cls P) \<longleftrightarrow> (\<exists>x v'. v = x @ v' \<and> x \<in> {[c] |c. P c} \<and> k = length (u @ x))"
    by (cases v) (auto intro: exI[of _ "[hd v]"])
qed

lemma spells_comp:
  assumes "spells r L"
  shows "(length u, j) \<in> spans (u @ v) r O B \<longleftrightarrow> (\<exists>x v'. v = x @ v' \<and> x \<in> L \<and> (length (u @ x), j) \<in> B)"
proof
  assume "(length u, j) \<in> spans (u @ v) r O B"
  then obtain k where k: "(length u, k) \<in> spans (u @ v) r" "(k, j) \<in> B" by blast
  from k(1) obtain x v' where "v = x @ v'" "x \<in> L" "k = length (u @ x)" using assms unfolding spells_def by blast
  then show "\<exists>x v'. v = x @ v' \<and> x \<in> L \<and> (length (u @ x), j) \<in> B" using k(2) by blast
next
  assume "\<exists>x v'. v = x @ v' \<and> x \<in> L \<and> (length (u @ x), j) \<in> B"
  then obtain x v' where x: "v = x @ v'" "x \<in> L" "(length (u @ x), j) \<in> B" by blast
  then have "(length u, length (u @ x)) \<in> spans (u @ v) r" using assms unfolding spells_def by blast
  then show "(length u, j) \<in> spans (u @ v) r O B" using x(3) by blast
qed

lemma spells_cat:
  assumes r: "spells r L" and q: "spells q M"
  shows "spells (Cat r q) {x @ y |x y. x \<in> L \<and> y \<in> M}"
  unfolding spells_def
proof (intro allI)
  fix u v k
  have "(length u, k) \<in> spans (u @ v) (Cat r q) \<longleftrightarrow> (\<exists>x v'. v = x @ v' \<and> x \<in> L \<and> (length (u @ x), k) \<in> spans ((u @ x) @ v') q)"
    unfolding spans.simps spells_comp[OF r] by (simp cong: conj_cong)
  also have "\<dots> \<longleftrightarrow> (\<exists>x v'. v = x @ v' \<and> x \<in> L \<and> (\<exists>y w. v' = y @ w \<and> y \<in> M \<and> k = length ((u @ x) @ y)))"
    by (simp only: q[unfolded spells_def, rule_format])
  also have "\<dots> \<longleftrightarrow> (\<exists>z v'. v = z @ v' \<and> z \<in> {x @ y |x y. x \<in> L \<and> y \<in> M} \<and> k = length (u @ z))"
    by (simp add: ex_simps[symmetric] del: ex_simps) (metis add.assoc append_assoc)
  finally show "(length u, k) \<in> spans (u @ v) (Cat r q)
      \<longleftrightarrow> (\<exists>z v'. v = z @ v' \<and> z \<in> {x @ y |x y. x \<in> L \<and> y \<in> M} \<and> k = length (u @ z))" .
qed

lemma spells_alt: "spells r L \<Longrightarrow> spells q M \<Longrightarrow> spells (Alt r q) (L \<union> M)"
  unfolding spells_def by auto

lemma spells_eps: "spells Eps {[]}"
  by (auto simp: spells_def)

lemma spells_group: "spells r L \<Longrightarrow> spells (Group k r) L"
  by (simp add: spells_def)

lemma spells_opt: "spells r L \<Longrightarrow> spells (opt r) (insert [] L)"
  unfolding opt_def using spells_alt[OF _ spells_eps, of r L] by simp

lemma spells_some: "spells (some (Cls P)) {x. x \<noteq> [] \<and> list_all P x}"
proof -
  have "{x @ y |x y. x \<in> {[c] |c. P c} \<and> y \<in> {x. list_all P x}} = {x. x \<noteq> [] \<and> list_all P x}"
    by (auto simp: neq_Nil_conv) (metis append_Cons append_Nil)
  then show ?thesis unfolding some_def using spells_cat[OF spells_class spells_star, of P P] by simp
qed

lemma spells_times: "spells (times_rx n (Cls P)) {x. length x = n \<and> list_all P x}"
proof (induction n)
  case (Suc n)
  have "{x @ y |x y. x \<in> {[c] |c. P c} \<and> y \<in> {x. length x = n \<and> list_all P x}} = {x. length x = Suc n \<and> list_all P x}"
    by (auto simp: length_Suc_conv) (metis append_Cons append_Nil)
  then show ?case using spells_cat[OF spells_class[of P] Suc] by simp
next
  case 0
  have "{x. length x = 0 \<and> list_all P x} = {[]}" by auto
  then show ?case by (simp only: times_rx.simps spells_eps)
qed

text \<open>A pattern that follows one with a language; a whole pattern that is searched for.\<close>

lemma spells_then: "spells r L \<Longrightarrow> (length u, j) \<in> spans (u @ v) (cats (r # rs)) \<longleftrightarrow>
    (\<exists>x v'. v = x @ v' \<and> x \<in> L \<and> (length (u @ x), j) \<in> spans ((u @ x) @ v') (cats rs))"
  unfolding spans_cats_Cons by (simp only: spells_comp) auto

lemma spells_ahead:
  assumes "spells r L"
  shows "(length u, j) \<in> spans (u @ v) (cats (Ahead False r # rs)) \<longleftrightarrow>
    \<not> (\<exists>x v'. v = x @ v' \<and> x \<in> L) \<and> (length u, j) \<in> spans (u @ v) (cats rs)"
proof -
  have "(\<exists>k. (length u, k) \<in> spans (u @ v) r) \<longleftrightarrow> (\<exists>x v'. v = x @ v' \<and> x \<in> L)"
    using assms unfolding spells_def by blast
  then show ?thesis by (auto simp: relcomp_unfold)
qed

lemma spells_step: "spells r L \<Longrightarrow> x \<in> L \<Longrightarrow> (length (u @ x), j) \<in> spans ((u @ x) @ v) (cats rs) \<Longrightarrow>
    (length u, j) \<in> spans (u @ x @ v) (cats (r # rs))"
  using spells_then[of r L u j "x @ v" rs] by blast

lemma ahead_step: "spells r L \<Longrightarrow> \<not> (\<exists>x v'. v = x @ v' \<and> x \<in> L) \<Longrightarrow> (length u, j) \<in> spans (u @ v) (cats rs) \<Longrightarrow>
    (length u, j) \<in> spans (u @ v) (cats (Ahead False r # rs))"
  using spells_ahead[of r L u j v rs] by blast

lemma matches_split: "matches r t \<longleftrightarrow> (\<exists>u v j. t = u @ v \<and> (length u, j) \<in> spans (u @ v) r)"
  unfolding matches_iff by (metis append_take_drop_id length_append length_take le_add1 min.absorb2)

end
