(* ===== verification/Py_Unicode.thy ===== *)
theory Py_Unicode
  imports Py_Regex Text_Search
begin

text \<open>
  Python's texts as lists of code points, for the tools that look for characters outside Latin-1. The
  classes of the code points from 256 on are the fields of a record, as the Unicode tables are not
  part of the repository; below 256, and in the matching without case, they are written out.
\<close>

type_synonym utext = "nat list"

record unicode_tables =
  uni_word :: "nat \<Rightarrow> bool"
  uni_space :: "nat \<Rightarrow> bool"

definition codes :: "string \<Rightarrow> utext" where
  "codes s = map of_char s"

definition u_join :: "utext \<Rightarrow> utext list \<Rightarrow> utext" where
  "u_join = join_with"

section \<open>Classes\<close>

definition in_range :: "nat \<Rightarrow> nat \<Rightarrow> nat \<Rightarrow> bool" where
  "in_range a b n \<longleftrightarrow> a \<le> n \<and> n \<le> b"

definition ascii_lower :: "nat \<Rightarrow> bool" where
  "ascii_lower = in_range 97 122"

definition ascii_upper :: "nat \<Rightarrow> bool" where
  "ascii_upper = in_range 65 90"

definition ascii_digit :: "nat \<Rightarrow> bool" where
  "ascii_digit = in_range 48 57"

definition ascii_alnum :: "nat \<Rightarrow> bool" where
  "ascii_alnum n \<longleftrightarrow> ascii_lower n \<or> ascii_upper n \<or> ascii_digit n"

text \<open>\<open>\w\<close>: the letters, digits and numeric characters of Latin-1, and the underscore.\<close>

definition latin_word :: "nat \<Rightarrow> bool" where
  "latin_word n \<longleftrightarrow> ascii_alnum n \<or> n = 95 \<or> n \<in> {170, 178, 179, 181, 185, 186, 188, 189, 190}
     \<or> (in_range 192 255 n \<and> n \<noteq> 215 \<and> n \<noteq> 247)"

definition latin_space :: "nat \<Rightarrow> bool" where
  "latin_space n \<longleftrightarrow> in_range 9 13 n \<or> in_range 28 32 n \<or> n = 133 \<or> n = 160"

definition word_code :: "unicode_tables \<Rightarrow> nat \<Rightarrow> bool" where
  "word_code U n = (if n < 256 then latin_word n else uni_word U n)"

definition space_code :: "unicode_tables \<Rightarrow> nat \<Rightarrow> bool" where
  "space_code U n = (if n < 256 then latin_space n else uni_space U n)"

definition one_of :: "string \<Rightarrow> nat \<Rightarrow> bool" where
  "one_of s n \<longleftrightarrow> n \<in> set (codes s)"

text \<open>
  A class under \<open>IGNORECASE\<close>: ASCII letters in both cases, and the characters outside ASCII that
  Python takes for one: dotted and dotless i, long s and the Kelvin sign.
\<close>

definition ignoring_case :: "(nat \<Rightarrow> bool) \<Rightarrow> nat \<Rightarrow> bool" where
  "ignoring_case P n \<longleftrightarrow> P n \<or> ascii_lower n \<and> P (n - 32) \<or> ascii_upper n \<and> P (n + 32)
     \<or> n \<in> {0x130, 0x131} \<and> (P 105 \<or> P 73) \<or> n = 0x17F \<and> (P 115 \<or> P 83) \<or> n = 0x212A \<and> (P 107 \<or> P 75)"

definition ulit :: "string \<Rightarrow> nat rx" where
  "ulit s = lit (codes s)"

definition ulit_ci :: "string \<Rightarrow> nat rx" where
  "ulit_ci s = cats (map (\<lambda>c. Cls (ignoring_case ((=) c))) (codes s))"

definition word_boundary :: "unicode_tables \<Rightarrow> nat rx" where
  "word_boundary U = Test (boundary (word_code U))"

definition spaces :: "unicode_tables \<Rightarrow> nat rx" where
  "spaces U = some (Cls (space_code U))"

section \<open>Lines\<close>

definition u_line_break :: "nat \<Rightarrow> bool" where
  "u_line_break n \<longleftrightarrow> in_range 10 13 n \<or> in_range 28 30 n \<or> n = 133 \<or> n = 0x2028 \<or> n = 0x2029"

fun u_lines_from :: "utext \<Rightarrow> utext \<Rightarrow> utext list" where
  "u_lines_from cur [] = (if cur = [] then [] else [rev cur])"
| "u_lines_from cur [c] = (if u_line_break c then [rev cur] else [rev (c # cur)])"
| "u_lines_from cur (c # d # cs) =
     (if u_line_break c
      then rev cur # (if c = 13 \<and> d = 10 then u_lines_from [] cs else u_lines_from [] (d # cs))
      else u_lines_from (c # cur) (d # cs))"

definition u_splitlines :: "utext \<Rightarrow> utext list" where
  "u_splitlines t = u_lines_from [] t"

definition u_blank :: "unicode_tables \<Rightarrow> utext \<Rightarrow> bool" where
  "u_blank U t \<longleftrightarrow> list_all (space_code U) t"

section \<open>Patterns over Latin-1\<close>

text \<open>For texts of characters below 256: the classes without tables, and the text of a match.\<close>

definition latin_boundary :: "nat rx" where
  "latin_boundary = Test (boundary latin_word)"

definition latin_spaces :: "nat rx" where
  "latin_spaces = some (Cls latin_space)"

definition maybe_spaces :: "nat rx" where
  "maybe_spaces = Star (Cls latin_space)"

definition digits :: "nat rx" where
  "digits = Cls ascii_digit"

definition text_search :: "nat rx \<Rightarrow> string \<Rightarrow> match option" where
  "text_search r s = search r (codes s)"

definition text_matches :: "nat rx \<Rightarrow> string \<Rightarrow> bool" where
  "text_matches r s = matches r (codes s)"

definition text_matched :: "string \<Rightarrow> match \<Rightarrow> string" where
  "text_matched s m = slice s (fst m) (fst (snd m))"

definition text_group :: "string \<Rightarrow> match \<Rightarrow> nat \<Rightarrow> string" where
  "text_group s m k = (case group_span m k of Some (i, j) \<Rightarrow> slice s i j | None \<Rightarrow> '''')"

lemma length_codes [simp]: "length (codes s) = length s"
  by (simp add: codes_def)

lemma codes_append [simp]: "codes (a @ b) = codes a @ codes b"
  by (simp add: codes_def)

end
