(* ===== verification/Scanner_Props.thy ===== *)
theory Scanner_Props
  imports Prompt_Scanner
begin

text \<open>
  When the scanner reports nothing, what its presets divide, smuggled text, pruned files, and the rules
  of the SARIF document.
\<close>

section \<open>What each detector looks for\<close>

definition occurs_in :: "nat rx \<Rightarrow> utext \<Rightarrow> bool" where
  "occurs_in r t \<longleftrightarrow> (\<exists>i j. i \<le> length t \<and> (i, j) \<in> spans t r)"

lemma search_None_iff: "search r t = None \<longleftrightarrow> \<not> occurs_in r t"
  unfolding occurs_in_def matches_iff[symmetric] matches_def by blast

definition injection_in :: "unicode_tables \<Rightarrow> utext \<Rightarrow> bool" where
  "injection_in U t \<longleftrightarrow> (\<exists>c\<in>set t. in_range 0xE0000 0xE007F c) \<or> (\<exists>c\<in>set t. c \<in> fst ` set ZERO_WIDTH_CHARS)
     \<or> (\<exists>d\<in>set CHAT_TEMPLATE_DELIMITERS. sublist (codes d) t) \<or> (\<exists>p\<in>set (OVERRIDE_PATTERNS U). occurs_in p t)
     \<or> occurs_in (MARKDOWN_EXFIL_PATTERN U) t"

definition egress_in :: "unicode_tables \<Rightarrow> utext \<Rightarrow> bool" where
  "egress_in U t \<longleftrightarrow> (\<exists>p\<in>set (SECRET_PATTERNS U). occurs_in (snd p) t)
     \<or> (\<exists>v\<in>set SENSITIVE_ENV_VARS. occurs_in (env_var_pattern U v) t) \<or> hosts_in_text U t \<noteq> []
     \<or> (\<exists>p\<in>set (INTERNAL_HOSTNAME_PATTERNS U). occurs_in p t)"

lemma map_filter_Nil_iff: "List.map_filter f xs = [] \<longleftrightarrow> (\<forall>x\<in>set xs. f x = None)"
  by (auto simp: List.map_filter_def filter_empty_conv)

lemma tags_Nil: "scan_unicode_tags t n loc = [] \<longleftrightarrow> (\<forall>c\<in>set t. \<not> in_range 0xE0000 0xE007F c)"
  by (auto simp: scan_unicode_tags_def decode_unicode_tags_def Let_def filter_empty_conv)

lemma zero_width_Nil: "scan_zero_width t n loc = [] \<longleftrightarrow> (\<forall>c\<in>set t. c \<notin> fst ` set ZERO_WIDTH_CHARS)"
  by (simp add: scan_zero_width_def Let_def map_filter_Nil_iff map_of_eq_None_iff)

lemma delimiters_Nil: "scan_delimiters t n loc = [] \<longleftrightarrow> (\<forall>d\<in>set CHAT_TEMPLATE_DELIMITERS. \<not> sublist (codes d) t)"
  by (simp add: scan_delimiters_def filter_empty_conv contains_sub_iff)

lemma overrides_Nil: "scan_overrides U t n loc = [] \<longleftrightarrow> (\<forall>p\<in>set (OVERRIDE_PATTERNS U). \<not> occurs_in p t)"
  by (simp add: scan_overrides_def map_filter_Nil_iff search_None_iff)

lemma exfil_Nil: "scan_markdown_exfil U t n loc = [] \<longleftrightarrow> \<not> occurs_in (MARKDOWN_EXFIL_PATTERN U) t"
  by (auto simp: scan_markdown_exfil_def search_None_iff[symmetric] split: option.splits)

lemma secrets_Nil: "scan_secrets U t n loc = [] \<longleftrightarrow> (\<forall>p\<in>set (SECRET_PATTERNS U). \<not> occurs_in (snd p) t)"
  by (simp add: scan_secrets_def map_filter_Nil_iff search_None_iff case_prod_beta')

lemma env_vars_Nil: "scan_env_vars U t n loc = [] \<longleftrightarrow> (\<forall>v\<in>set SENSITIVE_ENV_VARS. \<not> occurs_in (env_var_pattern U v) t)"
  by (simp add: scan_env_vars_def filter_empty_conv matches_iff occurs_in_def)

lemma ips_Nil: "scan_private_ips U t n loc = [] \<longleftrightarrow> hosts_in_text U t = []"
  by (simp add: scan_private_ips_def Let_def)

lemma hostnames_Nil: "scan_hostnames U t n loc = [] \<longleftrightarrow> (\<forall>p\<in>set (INTERNAL_HOSTNAME_PATTERNS U). \<not> occurs_in p t)"
  by (simp add: scan_hostnames_def map_filter_Nil_iff search_None_iff)

lemmas detectors_Nil = tags_Nil zero_width_Nil delimiters_Nil overrides_Nil exfil_Nil secrets_Nil env_vars_Nil ips_Nil hostnames_Nil

section \<open>The two families of rules\<close>

definition injection_findings :: "unicode_tables \<Rightarrow> utext \<Rightarrow> int \<Rightarrow> utext \<Rightarrow> security_finding list" where
  "injection_findings U t n loc = scan_unicode_tags t n loc @ scan_zero_width t n loc @ scan_delimiters t n loc
     @ scan_overrides U t n loc @ scan_markdown_exfil U t n loc"

definition egress_findings :: "unicode_tables \<Rightarrow> utext \<Rightarrow> int \<Rightarrow> utext \<Rightarrow> security_finding list" where
  "egress_findings U t n loc = scan_secrets U t n loc @ scan_env_vars U t n loc @ scan_private_ips U t n loc
     @ scan_hostnames U t n loc"

lemma injection_Nil: "injection_findings U t n loc = [] \<longleftrightarrow> \<not> injection_in U t"
  unfolding injection_findings_def injection_in_def append_is_Nil_conv detectors_Nil by blast

lemma egress_Nil: "egress_findings U t n loc = [] \<longleftrightarrow> \<not> egress_in U t"
  unfolding egress_findings_def egress_in_def append_is_Nil_conv detectors_Nil by blast

lemma map_filter_rule: "(\<And>x y. f x = Some y \<Longrightarrow> P y) \<Longrightarrow> list_all P (List.map_filter f xs)"
  by (auto simp: list_all_iff List.map_filter_def split: option.splits)

lemma injection_rules: "list_all (\<lambda>f. starts_with (rule_id f) ''INJ'') (injection_findings U t n loc)"
proof -
  have "list_all (\<lambda>f. starts_with (rule_id f) ''INJ'') (scan_overrides U t n loc)"
    unfolding scan_overrides_def by (rule map_filter_rule) (auto simp: override_finding_def)
  then show ?thesis
    by (auto simp: injection_findings_def scan_unicode_tags_def scan_zero_width_def scan_delimiters_def
      scan_markdown_exfil_def Let_def split_beta list_all_iff split: option.splits)
qed

lemma egress_rules: "list_all (\<lambda>f. starts_with (rule_id f) ''EGR'') (egress_findings U t n loc)"
proof -
  have "list_all (\<lambda>f. starts_with (rule_id f) ''EGR'') (scan_secrets U t n loc)"
    unfolding scan_secrets_def by (rule map_filter_rule) auto
  moreover have "list_all (\<lambda>f. starts_with (rule_id f) ''EGR'') (scan_hostnames U t n loc)"
    unfolding scan_hostnames_def by (rule map_filter_rule) auto
  ultimately show ?thesis
    by (auto simp: egress_findings_def scan_env_vars_def scan_private_ips_def Let_def list_all_iff)
qed

lemma families_disjoint: "starts_with r ''INJ'' \<Longrightarrow> \<not> starts_with r ''EGR''"
  by (cases r) auto

lemma scan_line_eq: "scan_line U t n loc preset =
    (if preset = EGRESS_ONLY then [] else injection_findings U t n loc)
    @ (if preset = INJECTION_ONLY then [] else egress_findings U t n loc)"
proof -
  have all: "scan_line U t n loc preset = filter (\<lambda>f. is_rule_active (rule_id f) preset)
      (injection_findings U t n loc @ egress_findings U t n loc)"
    by (simp add: scan_line_def injection_findings_def egress_findings_def)
  note rules = injection_rules[of U t n loc] egress_rules[of U t n loc]
  show ?thesis
  proof (cases preset)
    case INJECTION_ONLY
    have "filter (\<lambda>f. starts_with (rule_id f) ''INJ'') (injection_findings U t n loc) = injection_findings U t n loc"
      "filter (\<lambda>f. starts_with (rule_id f) ''INJ'') (egress_findings U t n loc) = []"
      using rules families_disjoint by (auto simp: list_all_iff filter_id_conv filter_empty_conv)
    then show ?thesis using all unfolding INJECTION_ONLY by (simp add: is_rule_active_def)
  next
    case EGRESS_ONLY
    have "filter (\<lambda>f. starts_with (rule_id f) ''EGR'') (egress_findings U t n loc) = egress_findings U t n loc"
      "filter (\<lambda>f. starts_with (rule_id f) ''EGR'') (injection_findings U t n loc) = []"
      using rules families_disjoint by (auto simp: list_all_iff filter_id_conv filter_empty_conv)
    then show ?thesis using all unfolding EGRESS_ONLY by (simp add: is_rule_active_def)
  qed (use all in \<open>simp_all add: is_rule_active_def\<close>)
qed

lemma mset_concat_append: "mset (concat (map (\<lambda>x. f x @ g x) xs)) = mset (concat (map f xs)) + mset (concat (map g xs))"
  by (induction xs) auto

text \<open>The two narrow presets share out the findings of the standard one, line by line and without
  overlap: what one of them reports of a text the other does not, and nothing is lost.\<close>

theorem presets_share_findings:
  "mset (scan_text_content U t loc INJECTION_ONLY []) + mset (scan_text_content U t loc EGRESS_ONLY [])
     = mset (scan_text_content U t loc STANDARD [])
   \<and> set (map rule_id (scan_text_content U t loc INJECTION_ONLY []))
     \<inter> set (map rule_id (scan_text_content U t loc EGRESS_ONLY [])) = {}"
proof -
  let ?ls = "enumerate 0 (u_splitlines t)"
  have "list_all (\<lambda>f. starts_with (rule_id f) ''INJ'') (scan_text_content U t loc INJECTION_ONLY [])"
    "list_all (\<lambda>f. starts_with (rule_id f) ''EGR'') (scan_text_content U t loc EGRESS_ONLY [])"
    using injection_rules egress_rules
    by (auto simp: scan_text_content_def scan_lines_from_def scan_line_eq list_all_iff)
  then have "set (map rule_id (scan_text_content U t loc INJECTION_ONLY []))
     \<inter> set (map rule_id (scan_text_content U t loc EGRESS_ONLY [])) = {}"
    using families_disjoint by (fastforce simp: list_all_iff)
  moreover have "(\<lambda>(i, line). scan_line U line (1 + int i) loc STANDARD) =
      (\<lambda>x. (\<lambda>(i, line). scan_line U line (1 + int i) loc INJECTION_ONLY) x
         @ (\<lambda>(i, line). scan_line U line (1 + int i) loc EGRESS_ONLY) x)"
    by (auto simp: scan_line_eq)
  then have "mset (scan_text_content U t loc INJECTION_ONLY []) + mset (scan_text_content U t loc EGRESS_ONLY [])
     = mset (scan_text_content U t loc STANDARD [])"
    by (simp add: scan_text_content_def scan_lines_from_def mset_concat_append[symmetric])
  ultimately show ?thesis by blast
qed

section \<open>A clean text\<close>

definition offends :: "unicode_tables \<Rightarrow> scanner_preset \<Rightarrow> utext \<Rightarrow> bool" where
  "offends U preset t \<longleftrightarrow> preset \<noteq> EGRESS_ONLY \<and> injection_in U t \<or> preset \<noteq> INJECTION_ONLY \<and> egress_in U t"

definition leaks_canary :: "utext list \<Rightarrow> utext \<Rightarrow> bool" where
  "leaks_canary canaries t \<longleftrightarrow> (\<exists>c\<in>set canaries. c \<noteq> [] \<and> sublist c t)"

lemma scan_line_Nil: "scan_line U t n loc preset = [] \<longleftrightarrow> \<not> offends U preset t"
  by (auto simp: scan_line_eq offends_def injection_Nil egress_Nil)

lemma scan_lines_Nil: "scan_lines_from U k ls loc preset = [] \<longleftrightarrow> \<not> list_ex (offends U preset) ls"
proof -
  have "scan_lines_from U k ls loc preset = [] \<longleftrightarrow> (\<forall>x\<in>set (enumerate 0 ls). \<not> offends U preset (snd x))"
    by (auto simp: scan_lines_from_def concat_eq_Nil_conv scan_line_Nil)
  also have "\<dots> \<longleftrightarrow> (\<forall>l\<in>snd ` set (enumerate 0 ls). \<not> offends U preset l)" by auto
  also have "snd ` set (enumerate 0 ls) = set ls" by (metis map_snd_enumerate set_map)
  finally show ?thesis by (auto simp: list_ex_iff)
qed

lemma audit_Nil: "audit_response t cs loc = [] \<longleftrightarrow> \<not> leaks_canary cs t"
  by (auto simp: audit_response_def filter_empty_conv contains_sub_iff leaks_canary_def)

text \<open>A text given on the command line passes exactly when no line of it holds what the active rules
  look for and no canary occurs anywhere in it: the patterns as the sets of spans they denote.\<close>

theorem text_passes_iff_clean:
  "scan_exit_code (scan_cli_text U now t preset cs) =
     of_bool (list_ex (offends U preset) (u_splitlines t) \<or> leaks_canary cs t)"
proof -
  have "scan_text_content U t loc preset cs = [] \<longleftrightarrow>
      \<not> list_ex (offends U preset) (u_splitlines t) \<and> \<not> leaks_canary cs t" for loc
    by (cases "cs = []") (auto simp: scan_text_content_def scan_lines_Nil audit_Nil, simp add: leaks_canary_def)
  then show ?thesis by (simp add: scan_exit_code_def scan_cli_text_def)
qed

section \<open>Smuggled text\<close>

definition smuggle :: "utext \<Rightarrow> utext" where
  "smuggle p = map (\<lambda>n. n + 0xE0000) p"

lemma decode_smuggled: "list_all (in_range 32 126) p \<Longrightarrow> List.map_filter tag_char_to_ascii (smuggle p) = p"
  by (induction p) (auto simp: smuggle_def tag_char_to_ascii_def in_range_def List.map_filter_simps)

text \<open>C21: Printable text hidden as tag characters is read back whole, whatever visible text is around and
  between the tags.\<close>

theorem smuggled_text_decoded:
  assumes "filter (in_range 0xE0000 0xE007F) t = smuggle p" "list_all (in_range 32 126) p"
  shows "decode_unicode_tags t = (p, length p)"
  using decode_smuggled[OF assms(2)] by (simp add: decode_unicode_tags_def assms(1) Let_def) (simp add: smuggle_def)

theorem smuggled_text_decoded_witness:
  "decode_unicode_tags [72, 0xE0068, 105, 0xE0069] = (codes ''hi'', length (codes ''hi''))"
  by (rule smuggled_text_decoded) (simp_all add: codes_def smuggle_def in_range_def)

section \<open>Files\<close>

text \<open>A part of a path that starts with a point prunes the file, and \<open>..\<close> is such a part.\<close>

theorem hidden_part_never_scanned:
  assumes "codes ''..'' \<in> set (file_parts f) \<or> codes ''.env'' \<in> set (file_parts f)"
  shows "scanned_targets (scan_paths U parse now [A_File f] preset cs) = 0
    \<and> scan_exit_code (scan_paths U parse now [A_File f] preset cs) = 0"
proof -
  have "take 1 (codes ''..'') = codes ''.''" "take 1 (codes ''.env'') = codes ''.''" by (simp_all add: codes_def)
  then have "\<not> is_unpruned_file f" using assms unfolding is_unpruned_file_def list_ex_iff by blast
  then show ?thesis by (simp add: scan_paths_def resolve_paths_def resolve_single_path_def scan_exit_code_def)
qed

theorem hidden_part_never_scanned_witness:
  "scanned_targets (scan_paths U parse now [A_File \<lparr>file_parts = [codes ''..'', codes ''prompt.md''], file_text = Some t\<rparr>] preset cs) = 0
   \<and> scan_exit_code (scan_paths U parse now [A_File \<lparr>file_parts = [codes ''..'', codes ''prompt.md''], file_text = Some t\<rparr>] preset cs) = 0"
  by (rule hidden_part_never_scanned) simp

section \<open>SARIF\<close>

lemma rules_fold: "wf_dict d \<Longrightarrow> wf_dict (fold (\<lambda>f rules. if dict_get rules (rule_id f) = None
     then dict_set (rule_id f) (title f, scan_severity_value (severity f)) rules else rules) fs d)
   \<and> set (dict_keys (fold (\<lambda>f rules. if dict_get rules (rule_id f) = None
     then dict_set (rule_id f) (title f, scan_severity_value (severity f)) rules else rules) fs d))
     = set (dict_keys d) \<union> rule_id ` set fs"
proof (induction fs arbitrary: d)
  case (Cons f fs)
  have "rule_id f \<in> set (dict_keys d)" if "dict_get d (rule_id f) \<noteq> None"
    using that by (auto simp: dict_get_def dict_keys_def dest: map_of_SomeD intro: rev_image_eqI)
  moreover have "wf_dict (dict_set k v d)" if "wf_dict d" for k v and d :: "(string, string \<times> string) dict"
    using that by (simp add: wf_dict_def dict_set_def distinct_update)
  ultimately show ?case using Cons by auto
qed simp

text \<open>The document declares each rule of a result, once.\<close>

theorem sarif_declares_rules:
  "distinct (dict_keys (sarif_rules s)) \<and> set (dict_keys (sarif_rules s)) = fst ` set (sarif_results s)"
  using rules_fold[OF wf_dict_Nil, of "findings s"]
  by (auto simp: sarif_rules_def sarif_results_def wf_dict_def dict_keys_def image_image)

text \<open>None of its levels is one that SARIF knows (error, warning, note, none).\<close>

lemma sarif_levels_unknown: "scan_severity_value v \<notin> {''error'', ''warning'', ''note'', ''none''}"
  by (cases v) simp_all

end
