(* ===== verification/Pr_Triage.thy ===== *)
theory Pr_Triage
  imports Py_Unicode Ast_Tree
begin

text \<open>
  \<open>tools/pr_triage_bot.py\<close>: the four reviewers, the verdict of each and of the whole, and the reports.
  \<open>ast.parse\<close> is the parameter \<open>parse\<close>: a tree of the facts that the reviewers read off a node, or the
  message and line of a syntax error. The six signs of the Markdown report outside Latin-1 are parameters.
\<close>

section \<open>Patterns\<close>

definition octet_digits :: "nat rx" where
  "octet_digits = between 1 3 digits"

definition RFC1918_PATTERN :: "nat rx" where
  "RFC1918_PATTERN = cats [latin_boundary,
     alts [cats [ulit ''10.'', octet_digits, ulit ''.'', octet_digits, ulit ''.'', octet_digits],
       cats [ulit ''172.'', alts [cats [ulit ''1'', Cls (in_range 54 57)], cats [ulit ''2'', digits], cats [ulit ''3'', Cls (in_range 48 49)]],
         ulit ''.'', octet_digits, ulit ''.'', octet_digits],
       cats [ulit ''192.168.'', octet_digits, ulit ''.'', octet_digits]], latin_boundary]"

definition SECRET_PATTERNS :: "(string \<times> nat rx) list" where
  "SECRET_PATTERNS =
     [(''AWS_KEY'', cats [latin_boundary, ulit ''AKIA'', times_rx 16 (Cls (\<lambda>n. ascii_digit n \<or> ascii_upper n)), latin_boundary]),
      (''PRIVATE_KEY'', cats [ulit ''-----BEGIN '', opt (alts [ulit ''RSA '', ulit ''EC '']), ulit ''PRIVATE KEY-----'']),
      (''GENERIC_TOKEN'', cats [latin_boundary, alts [ulit_ci ''api_key'', ulit_ci ''auth_token'', ulit_ci ''secret_key''],
         maybe_spaces, ulit ''='', maybe_spaces, Cls (\<lambda>n. n = 39 \<or> n = 34),
         at_least 20 (Cls (ignoring_case (\<lambda>n. ascii_alnum n \<or> one_of ''_-'' n))), Cls (\<lambda>n. n = 39 \<or> n = 34)])]"

definition quote_code :: "nat \<Rightarrow> bool" where
  "quote_code n \<longleftrightarrow> n = 39 \<or> n = 34"

definition action_code :: "nat \<Rightarrow> bool" where
  "action_code n \<longleftrightarrow> n \<noteq> 64 \<and> \<not> latin_space n \<and> \<not> quote_code n"

definition sha_code :: "nat \<Rightarrow> bool" where
  "sha_code n \<longleftrightarrow> in_range 97 102 n \<or> ascii_digit n"

definition ref_code :: "nat \<Rightarrow> bool" where
  "ref_code n \<longleftrightarrow> latin_word n \<or> one_of ''.-'' n"

definition UNPINNED_ACTION_PATTERN :: "nat rx" where
  "UNPINNED_ACTION_PATTERN = cats [ulit ''uses:'', maybe_spaces, opt (Cls quote_code), Group 1 (some (Cls action_code)), ulit ''@'',
     Ahead False (Group 2 (times_rx 40 (Cls sha_code))), Group 3 (some (Cls ref_code)), opt (Cls quote_code)]"

section \<open>Data\<close>

datatype persona_kind = SECURITY | ARCHITECTURE | DEVOPS | QA

datatype review_severity = INFO | WARNING | ERROR

datatype review_verdict = APPROVE | COMMENT | REQUEST_CHANGES

fun persona_value :: "persona_kind \<Rightarrow> string" where
  "persona_value SECURITY = ''security''"
| "persona_value ARCHITECTURE = ''architecture''"
| "persona_value DEVOPS = ''devops''"
| "persona_value QA = ''qa''"

fun review_severity_value :: "review_severity \<Rightarrow> string" where
  "review_severity_value INFO = ''info''"
| "review_severity_value WARNING = ''warning''"
| "review_severity_value ERROR = ''error''"

fun verdict_value :: "review_verdict \<Rightarrow> string" where
  "verdict_value APPROVE = ''APPROVE''"
| "verdict_value COMMENT = ''COMMENT''"
| "verdict_value REQUEST_CHANGES = ''REQUEST_CHANGES''"

record review_finding =
  persona :: persona_kind
  severity :: review_severity
  rule_id :: string
  message :: string
  path :: string
  line :: nat
  suggestion :: string

record persona_review =
  rev_persona :: persona_kind
  rev_verdict :: review_verdict
  summary :: string
  rev_findings :: "review_finding list"

record pr_review_report =
  overall_verdict :: review_verdict
  reviews :: "persona_review list"
  total_findings :: nat

text \<open>A node: the name of its class, its line, and what is read off calls, definitions and operators.\<close>

datatype callee = Callee_Name string | Callee_Attribute string | Callee_Other

record pr_node =
  cls :: string
  lineno :: nat
  def_name :: string
  arg_count :: nat
  documented :: bool
  body_classes :: "string list"
  bool_values :: nat
  func :: callee
  shell_true :: "bool list"

type_synonym pr_tree = "pr_node tree"

section \<open>Measures of a function\<close>

definition node_decision_points :: "pr_tree \<Rightarrow> nat" where
  "node_decision_points t =
     (if cls (label t) \<in> set [''If'', ''While'', ''For'', ''AsyncFor'', ''ExceptHandler'', ''With'', ''AsyncWith'', ''Assert''] then 1
      else if cls (label t) = ''BoolOp'' then bool_values (label t) - 1 else 0)"

definition compute_mccabe :: "pr_tree \<Rightarrow> nat" where
  "compute_mccabe t = 1 + sum_list (map node_decision_points (tree_walk t))"

definition nesting_class :: "pr_node \<Rightarrow> bool" where
  "nesting_class n \<longleftrightarrow> cls n \<in> set [''If'', ''While'', ''For'', ''AsyncFor'', ''With'', ''AsyncWith'', ''Try'']"

fun compute_depth :: "pr_tree \<Rightarrow> nat \<Rightarrow> nat" where
  "compute_depth (Tree l ts) current =
     foldl (\<lambda>m c. if nesting_class (label c) then max m (compute_depth c (current + 1)) else max m (compute_depth c current))
       current ts"

definition is_function :: "pr_tree \<Rightarrow> bool" where
  "is_function t \<longleftrightarrow> cls (label t) = ''FunctionDef'' \<or> cls (label t) = ''AsyncFunctionDef''"

definition count_linear_asserts :: "pr_tree \<Rightarrow> nat" where
  "count_linear_asserts t = length (filter (\<lambda>c. c = ''Assert'') (body_classes (label t)))"

section \<open>Security\<close>

definition numbered :: "string list \<Rightarrow> (nat \<times> string) list" where
  "numbered ls = enumerate 1 ls"

definition check_rfc1918_ips :: "string \<Rightarrow> string \<Rightarrow> review_finding list" where
  "check_rfc1918_ips p text = List.map_filter (\<lambda>(n, l). map_option (\<lambda>m.
     \<lparr>persona = SECURITY, severity = ERROR, rule_id = ''SEC-RFC1918-LEAK'',
      message = ''Prohibited RFC 1918 IP address detected: '' @ py_repr (text_matched l m), path = p, line = n,
      suggestion = ''Replace concrete private IPs with documentation abstractions (192.0.2.0/24) or loopback.''\<rparr>)
     (text_search RFC1918_PATTERN l)) (numbered (py_splitlines text))"

definition scan_line_for_secrets :: "string \<Rightarrow> nat \<Rightarrow> string \<Rightarrow> review_finding list" where
  "scan_line_for_secrets p n l = map (\<lambda>(i, r).
     \<lparr>persona = SECURITY, severity = ERROR, rule_id = ''SEC-'' @ i,
      message = ''Potential hardcoded credential or secret key token detected.'', path = p, line = n,
      suggestion = ''Use environment variables or secure keyrings; never store credentials in source.''\<rparr>)
     (filter (\<lambda>(i, r). text_matches r l) SECRET_PATTERNS)"

definition check_secrets :: "string \<Rightarrow> string \<Rightarrow> review_finding list" where
  "check_secrets p text = concat (map (\<lambda>(n, l). scan_line_for_secrets p n l) (numbered (py_splitlines text)))"

definition extract_call_name :: "callee \<Rightarrow> string" where
  "extract_call_name c = (case c of Callee_Name s \<Rightarrow> s | Callee_Attribute s \<Rightarrow> s | Callee_Other \<Rightarrow> '''')"

text \<open>\<open>shell_true\<close> has an element for each keyword: whether it is \<open>shell\<close> with the constant \<open>True\<close>.\<close>

definition inspect_security_call :: "string \<Rightarrow> pr_node \<Rightarrow> review_finding list" where
  "inspect_security_call p c = (let f = extract_call_name (func c) in
     (if f = ''eval'' \<or> f = ''exec''
      then [\<lparr>persona = SECURITY, severity = ERROR, rule_id = ''SEC-DANGEROUS-EVAL'',
        message = ''Dangerous dynamic code evaluation via '' @ f @ ''()'', path = p, line = lineno c,
        suggestion = ''Replace dynamic eval/exec with deterministic AST dispatch or literal evaluation.''\<rparr>] else [])
     @ map (\<lambda>_. \<lparr>persona = SECURITY, severity = ERROR, rule_id = ''SEC-SUBPROCESS-SHELL'',
        message = ''Subprocess invoked with shell=True exposing injection vulnerabilities.'', path = p, line = lineno c,
        suggestion = ''Pass explicit argument lists and set shell=False (default).''\<rparr>) (filter id (shell_true c)))"

type_synonym py_parse = "string \<Rightarrow> (string \<times> nat option, pr_tree) result"

definition check_python_security :: "py_parse \<Rightarrow> string \<Rightarrow> string \<Rightarrow> review_finding list" where
  "check_python_security parse p text = (case parse text of
     Inl e \<Rightarrow> []
   | Inr t \<Rightarrow> concat (map (\<lambda>n. if cls (label n) = ''Call'' then inspect_security_call p (label n) else []) (tree_walk t)))"

text \<open>A file: its path, the name and suffix that \<open>Path\<close> gives it, and its text.\<close>

record pr_file =
  file_path :: string
  name :: string
  suffix :: string
  content :: string

definition security_review :: "py_parse \<Rightarrow> pr_file \<Rightarrow> review_finding list" where
  "security_review parse f = check_rfc1918_ips (file_path f) (content f) @ check_secrets (file_path f) (content f)
     @ (if suffix f = ''.py'' then check_python_security parse (file_path f) (content f) else [])"

section \<open>Architecture\<close>

definition record_function_metrics :: "string \<Rightarrow> pr_tree \<Rightarrow> nat \<times> nat \<times> nat \<Rightarrow> review_finding list" where
  "record_function_metrics p t metrics = (let (m, d, k) = metrics; nm = def_name (label t); n = lineno (label t) in
     (if m > 10 then [\<lparr>persona = ARCHITECTURE, severity = ERROR, rule_id = ''ARCH-CYCLOMATIC-EXCEEDED'',
        message = ''Function '' @ py_repr nm @ '' complexity M='' @ show_nat m @ '' exceeds maximum ceiling M<=10.'',
        path = p, line = n,
        suggestion = ''Decompose function into single-responsibility helpers or table-driven dispatch.''\<rparr>] else [])
     @ (if d > 5 then [\<lparr>persona = ARCHITECTURE, severity = ERROR, rule_id = ''ARCH-NESTING-EXCEEDED'',
        message = ''Function '' @ py_repr nm @ '' nesting depth='' @ show_nat d @ '' exceeds maximum ceiling depth<=5.'',
        path = p, line = n, suggestion = ''Refactor nested blocks with early returns or guard clauses.''\<rparr>] else [])
     @ (if k > 4 then [\<lparr>persona = ARCHITECTURE, severity = WARNING, rule_id = ''ARCH-PARAM-COUNT'',
        message = ''Function '' @ py_repr nm @ '' declares '' @ show_nat k @ '' parameters exceeding target <=4.'',
        path = p, line = n, suggestion = ''Bundle related arguments into a dataclass or typed value object.''\<rparr>] else []))"

definition check_functions :: "string \<Rightarrow> pr_tree \<Rightarrow> review_finding list" where
  "check_functions p t = concat (map (\<lambda>n.
     record_function_metrics p n (compute_mccabe n, compute_depth n 0, arg_count (label n))) (filter is_function (tree_walk t)))"

definition check_test_assertions :: "string \<Rightarrow> pr_tree \<Rightarrow> review_finding list" where
  "check_test_assertions p t = map (\<lambda>n.
     \<lparr>persona = ARCHITECTURE, severity = WARNING, rule_id = ''ARCH-ASSERTION-SPRAWL'',
      message = ''Test function '' @ py_repr (def_name (label n)) @ '' contains multiple linear asserts.'', path = p,
      line = lineno (label n),
      suggestion = ''Consolidate linear asserts into structural tuple checks: assert (a, b) == (exp_a, exp_b).''\<rparr>)
     (filter (\<lambda>n. is_function n \<and> count_linear_asserts n > 5) (tree_walk t))"

definition is_test_file :: "pr_file \<Rightarrow> bool" where
  "is_test_file f \<longleftrightarrow> contains_sub ''test_'' (name f) \<or> ends_with (name f) ''_test.py''"

definition architecture_review :: "py_parse \<Rightarrow> pr_file \<Rightarrow> review_finding list" where
  "architecture_review parse f = (if suffix f \<noteq> ''.py'' then []
     else case parse (content f) of
       Inl (msg, n) \<Rightarrow> [\<lparr>persona = ARCHITECTURE, severity = ERROR, rule_id = ''ARCH-SYNTAX-ERROR'',
         message = ''Syntax error: '' @ msg, path = file_path f,
         line = (case n of Some k \<Rightarrow> if k = 0 then 1 else k | None \<Rightarrow> 1),
         suggestion = ''Ensure Python code is valid and well-formed.''\<rparr>]
     | Inr t \<Rightarrow> check_functions (file_path f) t
         @ (if is_test_file f then check_test_assertions (file_path f) t else []))"

section \<open>Continuous integration\<close>

definition check_action_pins :: "string \<Rightarrow> string list \<Rightarrow> review_finding list" where
  "check_action_pins p ls = map (\<lambda>(n, l).
     \<lparr>persona = DEVOPS, severity = ERROR, rule_id = ''DEVOPS-UNPINNED-ACTION'',
      message = ''Action step is not pinned to a full 40-character commit SHA: '' @ py_strip l, path = p, line = n,
      suggestion = ''Pin action to full 40-character commit SHA with version tag comment (e.g. @<sha> # v4).''\<rparr>)
     (filter (\<lambda>(n, l). text_matches UNPINNED_ACTION_PATTERN l) (numbered ls))"

definition check_permissions :: "string \<Rightarrow> string list \<Rightarrow> review_finding list" where
  "check_permissions p ls = (if list_ex (contains_sub ''permissions:'') ls then []
     else [\<lparr>persona = DEVOPS, severity = WARNING, rule_id = ''DEVOPS-MISSING-PERMISSIONS'',
       message = ''Workflow does not declare explicit top-level permissions block.'', path = p, line = 1,
       suggestion = ''Add explicit least-privilege permissions block (e.g. permissions: contents: read).''\<rparr>])"

definition check_script_injections :: "string \<Rightarrow> string list \<Rightarrow> review_finding list" where
  "check_script_injections p ls = map (\<lambda>(n, l).
     \<lparr>persona = DEVOPS, severity = WARNING, rule_id = ''DEVOPS-EXPRESSION-INJECTION'',
      message = ''Potential script injection risk: github.event expression directly referenced.'', path = p, line = n,
      suggestion = ''Assign context expression to an intermediate environment variable before use.''\<rparr>)
     (filter (\<lambda>(n, l). contains_sub ''${{ github.event.'' l \<and> \<not> starts_with (py_strip l) ''#'') (numbered ls))"

definition devops_review :: "pr_file \<Rightarrow> review_finding list" where
  "devops_review f = (if \<not> ((suffix f = ''.yml'' \<or> suffix f = ''.yaml'') \<and> contains_sub ''.github/workflows'' (file_path f)) then []
     else let ls = py_splitlines (content f); p = file_path f in
       check_action_pins p ls @ check_permissions p ls @ check_script_injections p ls)"

section \<open>Quality\<close>

definition is_undocumented_public_node :: "pr_tree \<Rightarrow> bool" where
  "is_undocumented_public_node t \<longleftrightarrow> (is_function t \<or> cls (label t) = ''ClassDef'')
     \<and> \<not> starts_with (def_name (label t)) ''_'' \<and> \<not> documented (label t)"

definition build_docstring_finding :: "string \<Rightarrow> pr_tree \<Rightarrow> review_finding" where
  "build_docstring_finding p t = \<lparr>persona = QA, severity = INFO, rule_id = ''QA-MISSING-DOCSTRING'',
     message = ''Public '' @ (if cls (label t) = ''ClassDef'' then ''Class'' else ''Function'') @ '' ''
       @ py_repr (def_name (label t)) @ '' lacks a docstring.'', path = p, line = lineno (label t),
     suggestion = ''Add a concise, descriptive docstring documenting purpose and arguments.''\<rparr>"

definition check_public_docstrings :: "py_parse \<Rightarrow> string \<Rightarrow> string \<Rightarrow> review_finding list" where
  "check_public_docstrings parse p text = (case parse text of
     Inl e \<Rightarrow> [] | Inr t \<Rightarrow> map (build_docstring_finding p) (filter is_undocumented_public_node (tree_walk t)))"

definition check_markdown_integrity :: "string \<Rightarrow> string \<Rightarrow> review_finding list" where
  "check_markdown_integrity p text = (let ls = py_splitlines text;
       fences = filter (\<lambda>l. starts_with (py_strip l) ''```'') ls in
     if length fences mod 2 \<noteq> 0
     then [\<lparr>persona = QA, severity = ERROR, rule_id = ''QA-UNCLOSED-FENCE'',
       message = ''Markdown contains an odd number of code fence delimiters (unclosed block).'', path = p,
       line = length ls,
       suggestion = ''Ensure every opening ``` code fence has a corresponding closing fence.''\<rparr>] else [])"

definition qa_review :: "py_parse \<Rightarrow> pr_file \<Rightarrow> review_finding list" where
  "qa_review parse f = (if suffix f = ''.py'' then check_public_docstrings parse (file_path f) (content f)
     else if suffix f = ''.md'' then check_markdown_integrity (file_path f) (content f) else [])"

section \<open>Verdicts\<close>

definition evaluate_persona_verdict :: "nat \<Rightarrow> nat \<Rightarrow> review_verdict \<times> string" where
  "evaluate_persona_verdict errors warnings =
     (if errors > 0 then (REQUEST_CHANGES, ''Identified '' @ show_nat errors @ '' error(s) requiring resolution before merge.'')
      else if warnings > 0 then (COMMENT, ''Clean of blocking errors; noted '' @ show_nat warnings @ '' advisory warning(s).'')
      else (APPROVE, ''All persona quality and architectural invariants passed cleanly.''))"

definition build_persona_review :: "persona_kind \<Rightarrow> review_finding list \<Rightarrow> persona_review" where
  "build_persona_review k fs = (let errors = filter (\<lambda>f. severity f = ERROR) fs;
       warnings = filter (\<lambda>f. severity f = WARNING) fs;
       (v, s) = evaluate_persona_verdict (length errors) (length warnings) in
     \<lparr>rev_persona = k, rev_verdict = v, summary = s, rev_findings = fs\<rparr>)"

definition compute_overall_verdict :: "persona_review list \<Rightarrow> review_verdict" where
  "compute_overall_verdict rs = (let vs = map rev_verdict rs in
     if REQUEST_CHANGES \<in> set vs then REQUEST_CHANGES else if COMMENT \<in> set vs then COMMENT else APPROVE)"

text \<open>The files that are there, in their order.\<close>

definition evaluate_files :: "py_parse \<Rightarrow> pr_file list \<Rightarrow> pr_review_report" where
  "evaluate_files parse fs = (let rs =
       [build_persona_review SECURITY (concat (map (security_review parse) fs)),
        build_persona_review ARCHITECTURE (concat (map (architecture_review parse) fs)),
        build_persona_review DEVOPS (concat (map devops_review fs)),
        build_persona_review QA (concat (map (qa_review parse) fs))] in
     \<lparr>overall_verdict = compute_overall_verdict rs, reviews = rs,
      total_findings = sum_list (map (\<lambda>r. length (rev_findings r)) rs)\<rparr>)"

definition triage_exit_code :: "bool \<Rightarrow> pr_review_report \<Rightarrow> nat" where
  "triage_exit_code strict r = (if strict \<and> overall_verdict r = REQUEST_CHANGES then 1 else 0)"

section \<open>Reports\<close>

definition finding_dict :: "review_finding \<Rightarrow> json" where
  "finding_dict f = JObj
     [(''persona'', JStr (persona_value (persona f))), (''severity'', JStr (review_severity_value (severity f))),
      (''rule_id'', JStr (rule_id f)), (''message'', JStr (message f)), (''path'', JStr (path f)),
      (''line'', JInt (int (line f))), (''suggestion'', JStr (suggestion f))]"

definition review_dict :: "persona_review \<Rightarrow> json" where
  "review_dict r = JObj
     [(''persona'', JStr (persona_value (rev_persona r))), (''verdict'', JStr (verdict_value (rev_verdict r))),
      (''summary'', JStr (summary r)), (''findings'', JArr (map finding_dict (rev_findings r)))]"

definition report_dict :: "pr_review_report \<Rightarrow> json" where
  "report_dict r = JObj
     [(''overall_verdict'', JStr (verdict_value (overall_verdict r))), (''total_findings'', JInt (int (total_findings r))),
      (''reviews'', JArr (map review_dict (reviews r)))]"

record report_signs =
  robot :: string
  check_mark :: string
  warning_sign :: string
  icon_of :: "review_severity \<Rightarrow> string"

fun capitalized :: "persona_kind \<Rightarrow> string" where
  "capitalized SECURITY = ''Security''"
| "capitalized ARCHITECTURE = ''Architecture''"
| "capitalized DEVOPS = ''Devops''"
| "capitalized QA = ''Qa''"

definition severity_count :: "persona_review \<Rightarrow> review_severity \<Rightarrow> nat" where
  "severity_count r s = length (filter (\<lambda>f. severity f = s) (rev_findings r))"

definition format_table_row :: "persona_review \<Rightarrow> string" where
  "format_table_row r = ''| **'' @ capitalized (rev_persona r) @ ''** | `'' @ verdict_value (rev_verdict r) @ ''` | ''
     @ show_nat (severity_count r ERROR) @ '' | '' @ show_nat (severity_count r WARNING) @ '' | ''
     @ show_nat (severity_count r INFO) @ '' |''"

definition format_finding_item :: "report_signs \<Rightarrow> review_finding \<Rightarrow> string list" where
  "format_finding_item g f =
     [''- '' @ icon_of g (severity f) @ '' **['' @ rule_id f @ '']** `'' @ path f @ '':'' @ show_nat (line f) @ ''`: '' @ message f]
     @ (if suggestion f \<noteq> '''' then [''  - *Suggestion*: '' @ suggestion f] else [])"

definition format_persona_section :: "report_signs \<Rightarrow> persona_review \<Rightarrow> string list" where
  "format_persona_section g r =
     (if rev_findings r = []
      then [''### '' @ check_mark g @ '' '' @ capitalized (rev_persona r) @ '' Persona: Clean'', summary r @ newline]
      else [''### '' @ warning_sign g @ '' '' @ capitalized (rev_persona r) @ '' Persona: '' @ verdict_value (rev_verdict r),
            summary r @ newline]
        @ concat (map (format_finding_item g) (rev_findings r)) @ [''''])"

definition render_markdown :: "report_signs \<Rightarrow> pr_review_report \<Rightarrow> string" where
  "render_markdown g r = py_strip (join_with newline
     ([''## '' @ robot g @ '' Automated PR Triage & Invariant Review: '' @ verdict_value (overall_verdict r) @ newline,
       ''**Total Findings**: '' @ show_nat (total_findings r) @ newline,
       ''| Persona | Verdict | Errors | Warnings | Advisories |'', ''|---|---|---|---|---|'']
      @ map format_table_row (reviews r) @ [''''] @ concat (map (format_persona_section g) (reviews r)))) @ newline"

end
