(* ===== verification/Triage_Props.thy ===== *)
theory Triage_Props
  imports Pr_Triage
begin

text \<open>
  The verdict of the triage over all findings, the persona of a finding, the depth of a function, and
  which references count as pinned.
\<close>

section \<open>Personas and verdicts\<close>

definition all_findings :: "py_parse \<Rightarrow> pr_file list \<Rightarrow> review_finding list" where
  "all_findings parse fs = concat (map (security_review parse) fs) @ concat (map (architecture_review parse) fs)
     @ concat (map devops_review fs) @ concat (map (qa_review parse) fs)"

lemma review_verdict: "rev_verdict (build_persona_review k fs) =
    (if list_ex (\<lambda>f. severity f = ERROR) fs then REQUEST_CHANGES
     else if list_ex (\<lambda>f. severity f = WARNING) fs then COMMENT else APPROVE)"
  by (auto simp: build_persona_review_def evaluate_persona_verdict_def Let_def split_beta list_ex_iff filter_empty_conv)

lemma review_parts [simp]: "rev_findings (build_persona_review k fs) = fs" "rev_persona (build_persona_review k fs) = k"
  by (simp_all add: build_persona_review_def split_beta Let_def)

text \<open>The verdict over a change is decided by the gravest finding of any reviewer in any file, every finding
  is in the report once, and the strict command fails exactly on an error.\<close>

theorem overall_verdict_decides:
  "(let r = evaluate_files parse fs; all = all_findings parse fs in
     overall_verdict r = (if list_ex (\<lambda>f. severity f = ERROR) all then REQUEST_CHANGES
       else if list_ex (\<lambda>f. severity f = WARNING) all then COMMENT else APPROVE)
     \<and> total_findings r = length all \<and> concat (map rev_findings (reviews r)) = all
     \<and> triage_exit_code strict r = of_bool (strict \<and> list_ex (\<lambda>f. severity f = ERROR) all))"
proof -
  let ?S = "concat (map (security_review parse) fs)" and ?A = "concat (map (architecture_review parse) fs)"
    and ?D = "concat (map devops_review fs)" and ?Q = "concat (map (qa_review parse) fs)"
  have "compute_overall_verdict [build_persona_review SECURITY S, build_persona_review ARCHITECTURE A,
      build_persona_review DEVOPS D, build_persona_review QA Q] =
    (if list_ex (\<lambda>f. severity f = ERROR) (S @ A @ D @ Q) then REQUEST_CHANGES
       else if list_ex (\<lambda>f. severity f = WARNING) (S @ A @ D @ Q) then COMMENT else APPROVE)" for S A D Q
    by (simp add: compute_overall_verdict_def review_verdict)
  then have v: "overall_verdict (evaluate_files parse fs) = (if list_ex (\<lambda>f. severity f = ERROR) (all_findings parse fs) then REQUEST_CHANGES
       else if list_ex (\<lambda>f. severity f = WARNING) (all_findings parse fs) then COMMENT else APPROVE)"
    unfolding evaluate_files_def all_findings_def Let_def by simp
  then show ?thesis
    by (simp add: triage_exit_code_def Let_def) (simp add: evaluate_files_def all_findings_def Let_def)
qed

section \<open>Depth\<close>

lemma compute_depth_deepest: "compute_depth t d =
    Max (insert d ((\<lambda>c. deepest nesting_class c d) ` set (subtrees t)))"
proof (induction t arbitrary: d)
  case (Tree l ts)
  have child: "(if nesting_class (label c) then max m (compute_depth c (d + 1)) else max m (compute_depth c d))
      = max m (deepest nesting_class c d)" if "c \<in> set ts" for m c
    unfolding deepest_eq[of nesting_class c d] Tree.IH[OF that] Let_def by simp
  have "compute_depth (Tree l ts) d = foldl (\<lambda>m c. max m (deepest nesting_class c d)) d ts"
    unfolding compute_depth.simps using child by (intro foldl_cong) auto
  then show ?case by (simp add: foldl_max_Max)
qed

definition block_paths :: "pr_tree \<Rightarrow> nat set" where
  "block_paths t = opened_on nesting_class ` (\<Union>c\<in>set (subtrees t). set (root_paths c))"

text \<open>The nesting depth of a function is the largest number of blocks on a path below it.\<close>

theorem function_depth_is_deepest_path: "compute_depth t 0 = Max (insert 0 (block_paths t))"
proof (rule antisym)
  have fin: "finite (insert 0 (block_paths t))" by (simp add: block_paths_def)
  show "compute_depth t 0 \<le> Max (insert 0 (block_paths t))"
  proof -
    have "deepest nesting_class c 0 \<le> Max (insert 0 (block_paths t))" if c: "c \<in> set (subtrees t)" for c
    proof -
      obtain p where "p \<in> set (root_paths c)" "deepest nesting_class c 0 = opened_on nesting_class p"
        using deepest_reached[of c nesting_class 0] by auto
      then have "deepest nesting_class c 0 \<in> insert 0 (block_paths t)" using c by (auto simp: block_paths_def)
      then show ?thesis by (rule Max_ge[OF fin])
    qed
    then show ?thesis by (simp add: compute_depth_deepest)
  qed
  show "Max (insert 0 (block_paths t)) \<le> compute_depth t 0"
  proof -
    have "n \<le> compute_depth t 0" if "n \<in> block_paths t" for n
    proof -
      obtain c p where c: "c \<in> set (subtrees t)" "p \<in> set (root_paths c)" "n = opened_on nesting_class p"
        using \<open>n \<in> block_paths t\<close> by (auto simp: block_paths_def)
      have "n \<le> deepest nesting_class c 0" using deepest_bound[OF c(2), of 0 nesting_class] c(3) by simp
      also have "\<dots> \<le> compute_depth t 0" unfolding compute_depth_deepest using c(1) by (intro Max_ge) auto
      finally show ?thesis .
    qed
    then show ?thesis using fin by simp
  qed
qed

section \<open>Pinned actions\<close>

text \<open>
  A use of an action anywhere in a line: the word, blanks, perhaps a quote, the name of the action, and
  after the at sign a reference that does not start with the forty characters of a commit.
\<close>

definition action_char :: "char \<Rightarrow> bool" where
  "action_char c \<longleftrightarrow> c \<notin> {CHR ''@'', CHR 0x27, CHR 0x22} \<and> \<not> py_isspace c"

definition commit_char :: "char \<Rightarrow> bool" where
  "commit_char c \<longleftrightarrow> c \<in> set ''0123456789abcdef''"

definition reference_char :: "char \<Rightarrow> bool" where
  "reference_char c \<longleftrightarrow> latin_word (of_char c) \<or> c = CHR ''.'' \<or> c = CHR ''-''"

definition starts_with_commit :: "string \<Rightarrow> bool" where
  "starts_with_commit s \<longleftrightarrow> 40 \<le> length (takeWhile commit_char s)"

definition unpinned_use :: "string \<Rightarrow> bool" where
  "unpinned_use l \<longleftrightarrow> (\<exists>before blanks quote action ref.
     l = before @ ''uses:'' @ blanks @ quote @ action @ ''@'' @ ref
     \<and> list_all py_isspace blanks \<and> quote \<in> {'''', [CHR 0x27], [CHR 0x22]}
     \<and> action \<noteq> '''' \<and> list_all action_char action
     \<and> ref \<noteq> '''' \<and> reference_char (hd ref) \<and> \<not> starts_with_commit ref)"

lemma code_of: "of_char c = (of_char d :: nat) \<longleftrightarrow> c = d"
  by (simp add: of_char_eq_iff)

lemma latin_space_code: "latin_space (of_char c) \<longleftrightarrow> py_isspace c"
  by (auto simp: latin_space_def py_isspace_def in_range_def Let_def)

lemma action_code_char: "action_code (of_char c) \<longleftrightarrow> action_char c"
  using code_of[of c "CHR ''@''"] code_of[of c "CHR 0x27"] code_of[of c "CHR 0x22"]
  by (auto simp: action_code_def action_char_def quote_code_def latin_space_code)

lemma ref_code_char: "ref_code (of_char c) \<longleftrightarrow> reference_char c"
  using code_of[of c "CHR ''.''"] code_of[of c "CHR ''-''"]
  by (simp add: ref_code_def reference_char_def one_of_def codes_def)

lemma sha_code_char: "sha_code (of_char c) \<longleftrightarrow> commit_char c"
proof -
  have digits: "(97 \<le> n \<and> n \<le> 102) \<or> (48 \<le> n \<and> n \<le> 57)
      \<longleftrightarrow> n \<in> {48, 49, 50, 51, 52, 53, 54, 55, 56, 57, 97, 98, 99, 100, 101, 102}" for n :: nat
    by (simp, presburger)
  have "sha_code (of_char c) \<longleftrightarrow> (of_char c :: nat) \<in> of_char ` set ''0123456789abcdef''"
    unfolding sha_code_def in_range_def ascii_digit_def digits by simp
  also have "\<dots> \<longleftrightarrow> c \<in> set ''0123456789abcdef''"
    by (rule inj_image_mem_iff[OF inj_of_char])
  finally show ?thesis unfolding commit_char_def .
qed

lemma spells_pattern:
  "spells (ulit s) {codes s}" "spells maybe_spaces {x. list_all latin_space x}"
  "spells (opt (Cls quote_code)) (insert [] {[c] |c. quote_code c})"
  "spells (Group 1 (some (Cls action_code))) {x. x \<noteq> [] \<and> list_all action_code x}"
  "spells (Group 2 (times_rx 40 (Cls sha_code))) {x. length x = 40 \<and> list_all sha_code x}"
  "spells (Group 3 (some (Cls ref_code))) {x. x \<noteq> [] \<and> list_all ref_code x}"
  unfolding ulit_def maybe_spaces_def
  by (intro spells_lit spells_star spells_opt spells_class spells_group spells_some spells_times)+

definition commit_ahead :: "nat list \<Rightarrow> bool" where
  "commit_ahead t \<longleftrightarrow> (\<exists>x v. t = x @ v \<and> x \<in> {x. length x = 40 \<and> list_all sha_code x})"

lemma pattern_split: "(\<exists>j. (length u, j) \<in> spans (u @ v) UNPINNED_ACTION_PATTERN) \<longleftrightarrow>
    (\<exists>w q a c e. v = codes ''uses:'' @ w @ q @ a @ codes ''@'' @ c # e
       \<and> list_all latin_space w \<and> q \<in> insert [] {[c] |c. quote_code c} \<and> a \<noteq> [] \<and> list_all action_code a
       \<and> \<not> commit_ahead (c # e) \<and> ref_code c)" (is "?L \<longleftrightarrow> ?R")
proof
  assume ?L
  then obtain j where "(length u, j) \<in> spans (u @ v) UNPINNED_ACTION_PATTERN" by blast
  then obtain w q a r e where v: "v = codes ''uses:'' @ w @ q @ a @ codes ''@'' @ r @ e" "list_all latin_space w"
    "q \<in> insert [] {[c] |c. quote_code c}" "a \<noteq> []" "list_all action_code a" "\<not> commit_ahead (r @ e)" "r \<noteq> []" "list_all ref_code r"
    unfolding UNPINNED_ACTION_PATTERN_def commit_ahead_def
    by (simp only: spells_then[OF spells_pattern(1)] spells_then[OF spells_pattern(2)] spells_then[OF spells_pattern(3)]
        spells_then[OF spells_pattern(4)] spells_ahead[OF spells_pattern(5)] spells_then[OF spells_pattern(6)]) blast
  then obtain c r' where "r = c # r'" by (cases r) auto
  with v show ?R by (intro exI[of _ w] exI[of _ q] exI[of _ a] exI[of _ c] exI[of _ "r' @ e"]) simp
next
  assume ?R
  then obtain w q a c e where "v = codes ''uses:'' @ w @ q @ a @ codes ''@'' @ c # e" and p: "list_all latin_space w"
    "q \<in> insert [] {[c] |c. quote_code c}" "a \<noteq> []" "list_all action_code a" "\<not> commit_ahead (c # e)" "ref_code c"
    by blast
  then have v: "v = codes ''uses:'' @ w @ q @ a @ codes ''@'' @ [c] @ e" by (simp only: append_Cons append_Nil)
  have "\<exists>j. (length u, j) \<in> spans (u @ v) UNPINNED_ACTION_PATTERN"
    unfolding UNPINNED_ACTION_PATTERN_def v
    by (rule exI[of _ "length (u @ codes ''uses:'' @ w @ q @ a @ codes ''@'' @ [c])"], rule spells_step[OF spells_pattern(1)], simp, rule spells_step[OF spells_pattern(2)], simp add: p,
        rule spells_step[OF spells_pattern(3)], rule p, rule spells_step[OF spells_pattern(4)], simp add: p,
        rule spells_step[OF spells_pattern(1)], simp, rule ahead_step[OF spells_pattern(5)],
        use p(5) in \<open>simp add: commit_ahead_def\<close>, rule spells_step[OF spells_pattern(6)], simp add: p, simp)
  then show ?L .
qed

text \<open>The same on texts instead of their code points.\<close>

lemma codes_split: "codes s = x @ y \<longleftrightarrow> (\<exists>a b. s = a @ b \<and> codes a = x \<and> codes b = y)"
  by (simp add: codes_def map_eq_append_conv) blast

lemma codes_eq: "codes s = codes t \<longleftrightarrow> s = t"
  unfolding codes_def by (rule inj_map_eq_map[OF inj_of_char])

lemma codes_all: "list_all P (codes s) \<longleftrightarrow> list_all (\<lambda>c. P (of_char c)) s"
  by (simp add: codes_def list_all_iff)

lemma long_prefix: "n \<le> length (takeWhile P s) \<longleftrightarrow> (\<exists>x v. s = x @ v \<and> length x = n \<and> list_all P x)"
proof
  assume n: "n \<le> length (takeWhile P s)"
  have "list_all P (take n (takeWhile P s))" by (auto simp: list_all_iff dest: in_set_takeD set_takeWhileD)
  moreover have "take n (takeWhile P s) = take n s" using n by (metis min.absorb1 takeWhile_eq_take take_take)
  moreover have "n \<le> length s" using n length_takeWhile_le[of P s] by simp
  ultimately show "\<exists>x v. s = x @ v \<and> length x = n \<and> list_all P x"
    by (intro exI[of _ "take n s"] exI[of _ "drop n s"]) simp
next
  assume "\<exists>x v. s = x @ v \<and> length x = n \<and> list_all P x"
  then show "n \<le> length (takeWhile P s)" by (auto simp: list_all_iff)
qed

lemma commit_ahead_codes: "commit_ahead (codes s) \<longleftrightarrow> starts_with_commit s"
proof -
  have all: "list_all sha_code (codes x) \<longleftrightarrow> list_all commit_char x" for x
    by (simp add: codes_all sha_code_char)
  have len: "length (codes x) = length x" for x by (simp add: codes_def)
  have "commit_ahead (codes s) \<longleftrightarrow> (\<exists>a b. s = a @ b \<and> length (codes a) = 40 \<and> list_all sha_code (codes a))"
    unfolding commit_ahead_def codes_split by blast
  then show ?thesis unfolding starts_with_commit_def long_prefix len all .
qed

lemma space_codes: "list_all latin_space (codes s) \<longleftrightarrow> list_all py_isspace s"
  by (simp add: codes_all latin_space_code)

lemma action_codes: "list_all action_code (codes s) \<longleftrightarrow> list_all action_char s"
  by (simp add: codes_all action_code_char)

lemma quote_code_char: "quote_code (of_char c) \<longleftrightarrow> c = CHR 0x27 \<or> c = CHR 0x22"
  using code_of[of c "CHR 0x27"] code_of[of c "CHR 0x22"] by (auto simp: quote_code_def)

lemma quote_codes: "codes s \<in> insert [] {[c] |c. quote_code c} \<longleftrightarrow> s \<in> {'''', [CHR 0x27], [CHR 0x22]}"
  by (cases s) (auto simp: codes_def quote_code_char)

lemma cons_codes: "codes s = c # e \<longleftrightarrow> (\<exists>d t. s = d # t \<and> of_char d = c \<and> codes t = e)"
  by (auto simp: codes_def map_eq_Cons_conv)

definition code_use :: "nat list \<Rightarrow> bool" where
  "code_use v \<longleftrightarrow> (\<exists>w q a c e. v = codes ''uses:'' @ w @ q @ a @ codes ''@'' @ c # e
       \<and> list_all latin_space w \<and> q \<in> insert [] {[c] |c. quote_code c} \<and> a \<noteq> [] \<and> list_all action_code a
       \<and> \<not> commit_ahead (c # e) \<and> ref_code c)"

lemma use_at: "(\<exists>u v j. s = u @ v \<and> (length u, j) \<in> spans (u @ v) UNPINNED_ACTION_PATTERN) \<longleftrightarrow> (\<exists>u v. s = u @ v \<and> code_use v)"
proof -
  have "(\<exists>u v j. s = u @ v \<and> (length u, j) \<in> spans (u @ v) UNPINNED_ACTION_PATTERN)
      \<longleftrightarrow> (\<exists>u v. s = u @ v \<and> (\<exists>j. (length u, j) \<in> spans (u @ v) UNPINNED_ACTION_PATTERN))"
    by blast
  then show ?thesis unfolding pattern_split code_use_def .
qed

lemma text_pattern: "text_matches UNPINNED_ACTION_PATTERN l \<longleftrightarrow> unpinned_use l"
proof -
  have "text_matches UNPINNED_ACTION_PATTERN l \<longleftrightarrow> (\<exists>u v. codes l = u @ v \<and> code_use v)"
    unfolding text_matches_def matches_split by (simp only: use_at)
  also have "\<dots> \<longleftrightarrow> unpinned_use l"
  proof
    assume "\<exists>u v. codes l = u @ v \<and> code_use v"
    then obtain u w q a c e where l: "codes l = u @ codes ''uses:'' @ w @ q @ a @ codes ''@'' @ c # e"
      and p: "list_all latin_space w" "q \<in> insert [] {[c] |c. quote_code c}" "a \<noteq> []" "list_all action_code a"
        "\<not> commit_ahead (c # e)" "ref_code c"
      unfolding code_use_def by blast
    from l obtain u' w' q' a' r' where s: "l = u' @ ''uses:'' @ w' @ q' @ a' @ ''@'' @ r'"
      "codes w' = w" "codes q' = q" "codes a' = a" "codes r' = c # e"
      unfolding codes_split codes_eq by blast
    from s(5) obtain d t where r: "r' = d # t" "of_char d = c" unfolding cons_codes by blast
    have "list_all py_isspace w'" "q' \<in> {'''', [CHR 0x27], [CHR 0x22]}" "list_all action_char a'" "\<not> starts_with_commit r'"
      using p unfolding s(2-5)[symmetric] space_codes quote_codes action_codes commit_ahead_codes by blast+
    moreover have "a' \<noteq> ''''" "reference_char (hd r')" "r' \<noteq> ''''"
      using p(3,6) r s(4) by (auto simp: ref_code_char[symmetric] codes_def)
    ultimately show "unpinned_use l" unfolding unpinned_use_def using s(1) by blast
  next
    assume "unpinned_use l"
    then obtain u w q a r where l: "l = u @ ''uses:'' @ w @ q @ a @ ''@'' @ r"
      and p: "list_all py_isspace w" "q \<in> {'''', [CHR 0x27], [CHR 0x22]}" "a \<noteq> ''''" "list_all action_char a"
        "r \<noteq> ''''" "reference_char (hd r)" "\<not> starts_with_commit r"
      unfolding unpinned_use_def by blast
    from p(5) obtain d t where r: "r = d # t" by (cases r) auto
    have "codes l = codes u @ codes ''uses:'' @ codes w @ codes q @ codes a @ codes ''@'' @ of_char d # codes t"
      unfolding l r by (simp add: codes_def)
    moreover have "list_all latin_space (codes w)" "codes q \<in> insert [] {[c] |c. quote_code c}" "list_all action_code (codes a)"
      using p(1,2,4) unfolding space_codes quote_codes action_codes .
    moreover have "codes a \<noteq> []" "ref_code (of_char d)" using p(3,6) r by (simp_all add: ref_code_char codes_def)
    moreover have "of_char d # codes t = codes r" by (simp add: r codes_def)
    then have "\<not> commit_ahead (of_char d # codes t)" using p(7) commit_ahead_codes[of r] by simp
    ultimately show "\<exists>u v. codes l = u @ v \<and> code_use v" unfolding code_use_def by blast
  qed
  finally show ?thesis .
qed

text \<open>C23: A workflow is reported at exactly those of its lines that use, anywhere in the line and quoted or not, an
  action at a reference that does not start with forty characters of a commit hash.\<close>

theorem unpinned_iff:
  "map line (check_action_pins p ls) = filter (\<lambda>n. unpinned_use (ls ! (n - 1))) [1..<Suc (length ls)]"
proof -
  have "map line (check_action_pins p ls) = map fst (filter (\<lambda>(n, l). unpinned_use l) (zip [1..<Suc (length ls)] ls))"
    by (simp add: check_action_pins_def numbered_def text_pattern comp_def split_beta enumerate_eq_zip del: upt_Suc)
  also have "\<dots> = filter (\<lambda>n. unpinned_use (ls ! (n - 1))) [1..<Suc (length ls)]"
  proof -
    have "zip [1..<Suc (length ls)] ls = map (\<lambda>n. (n, ls ! (n - 1))) [1..<Suc (length ls)]"
      by (rule nth_equalityI) (simp_all del: upt_Suc)
    then show ?thesis by (simp add: filter_map comp_def del: upt_Suc)
  qed
  finally show ?thesis .
qed

lemma indented_step_is_reported: "map line (check_action_pins p [''jobs:'', ''      - uses: actions/checkout@v4'']) = [2]"
proof -
  have "unpinned_use ''      - uses: actions/checkout@v4''"
    unfolding unpinned_use_def
    by (rule exI[of _ "''      - ''"], rule exI[of _ "'' ''"], rule exI[of _ "''''"], rule exI[of _ "''actions/checkout''"], rule exI[of _ "''v4''"])
      (simp add: action_char_def py_isspace_def reference_char_def starts_with_commit_def commit_char_def latin_word_def
        ascii_alnum_def ascii_lower_def in_range_def)
  moreover have "\<not> unpinned_use ''jobs:''" unfolding unpinned_use_def
    by (auto dest!: arg_cong[of _ _ "\<lambda>t. CHR ''@'' \<in> set t"])
  ultimately show ?thesis by (simp add: check_action_pins_def numbered_def text_pattern)
qed

text \<open>A branch whose name starts like a hash passes for a pinned commit.\<close>

lemma hash_like_branch_passes: "check_action_pins p [''uses: a/b@'' @ replicate 40 CHR ''a'' @ ''-evil''] = []"
proof -
  let ?r = "replicate 40 CHR ''a'' @ ''-evil''"
  have "starts_with_commit r" if "''uses: a/b@'' @ ?r = u @ ''@'' @ r" for u r
  proof -
    have "''uses: a/b'' @ CHR ''@'' # ?r = u @ CHR ''@'' # r" using that by simp
    then have "r = ?r" by (subst (asm) append_Cons_eq_iff) (auto dest: split_list)
    then show ?thesis unfolding starts_with_commit_def long_prefix
      by (intro exI[of _ "replicate 40 CHR ''a''"] exI[of _ "''-evil''"]) (simp add: commit_char_def list_all_iff)
  qed
  then have "\<not> unpinned_use (''uses: a/b@'' @ ?r)" unfolding unpinned_use_def by (metis append.assoc)
  then show ?thesis by (simp add: check_action_pins_def numbered_def text_pattern)
qed

end
