(* ===== verification/Go_Leak.thy ===== *)
theory Go_Leak
  imports Py_Unicode
begin

text \<open>
  \<open>examples/go-leak-sentinel/go_leak_sentinel.py\<close>: the parser of goroutine dumps, the audit of the
  profiles and the helpers that fail a test run. The emoji of the printed report are parameters.
\<close>

section \<open>Data\<close>

definition SYSTEM_GOROUTINE_PATTERNS :: "string list" where
  "SYSTEM_GOROUTINE_PATTERNS = [''runtime.gopark'', ''runtime.timerproc'', ''runtime.gcBgMarkWorker'', ''runtime.bgsweep'',
     ''runtime.scavenger'', ''internal/poll.runtime_pollWait'', ''testing.(*T).Run'']"

datatype goroutine_state = RUNNING | CHAN_SEND | CHAN_RECEIVE | SELECT | IO_WAIT | SLEEP | UNKNOWN

fun state_value :: "goroutine_state \<Rightarrow> string" where
  "state_value RUNNING = ''running''"
| "state_value CHAN_SEND = ''chan send''"
| "state_value CHAN_RECEIVE = ''chan receive''"
| "state_value SELECT = ''select''"
| "state_value IO_WAIT = ''IO wait''"
| "state_value SLEEP = ''sleep''"
| "state_value UNKNOWN = ''unknown''"

definition STATE_KEYWORDS :: "(string list \<times> goroutine_state) list" where
  "STATE_KEYWORDS = [([''chan send''], CHAN_SEND), ([''chan receive''], CHAN_RECEIVE), ([''select''], SELECT),
     ([''io wait'', ''syscall''], IO_WAIT), ([''sleep'', ''timer''], SLEEP), ([''running''], RUNNING)]"

text \<open>The template of a state with the name of the function put in.\<close>

definition remediation :: "goroutine_state \<Rightarrow> string \<Rightarrow> string option" where
  "remediation s fn = (case s of
     CHAN_SEND \<Rightarrow> Some (''['' @ fn @ ''] Channel send blocked indefinitely. Ensure channel has capacity or active reader.'')
   | SELECT \<Rightarrow> Some (''['' @ fn @ ''] Select blocked without termination. Add '' @ [CHR 0x27] @ ''case <-ctx.Done(): return''
       @ [CHR 0x27] @ ''.'')
   | CHAN_RECEIVE \<Rightarrow> Some (''['' @ fn @ ''] Channel receive blocked. Ensure sender closes channel on termination.'')
   | _ \<Rightarrow> None)"

datatype leak_severity = CRITICAL | HIGH | MEDIUM | LOW | CLEAN

fun leak_severity_value :: "leak_severity \<Rightarrow> string" where
  "leak_severity_value CRITICAL = ''CRITICAL''"
| "leak_severity_value HIGH = ''HIGH''"
| "leak_severity_value MEDIUM = ''MEDIUM''"
| "leak_severity_value LOW = ''LOW''"
| "leak_severity_value CLEAN = ''CLEAN''"

record stack_frame =
  function_name :: string
  frame_path :: string
  frame_line :: nat

record goroutine_profile =
  goroutine_id :: nat
  raw_state :: string
  state_category :: goroutine_state
  is_system :: bool
  frames :: "stack_frame list"
  created_by :: "string option"
  age_minutes :: py_float

record concurrency_report =
  total_goroutines :: nat
  system_goroutines :: nat
  user_goroutines :: nat
  leaked_goroutines :: nat
  severity :: leak_severity
  score :: py_float
  remediations :: "string list"
  profiles :: "goroutine_profile list"

section \<open>Reading a dump\<close>

definition any_char :: "nat \<Rightarrow> bool" where
  "any_char n \<longleftrightarrow> n \<noteq> 10"

definition HEADER_RE :: "nat rx" where
  "HEADER_RE = cats [Test at_start, ulit ''goroutine'', latin_spaces, Group 1 (some digits), latin_spaces,
     opt (cats [Star (Cls (\<lambda>n. \<not> one_of ''[]'' n)), Cls latin_space]), ulit ''['',
     Group 2 (some (Cls (\<lambda>n. \<not> one_of '']'' n))), ulit '']:'']"

definition FRAME_RE :: "nat rx" where
  "FRAME_RE = cats [Test at_start, latin_spaces, Group 1 (some (Cls any_char)), ulit '':'', Group 2 (some digits),
     opt (cats [latin_spaces, ulit ''+0x'', some (Cls (\<lambda>n. ascii_digit n \<or> in_range 97 102 n))]), Test (at_end 10)]"

definition CREATED_RE :: "nat rx" where
  "CREATED_RE = cats [Test at_start, ulit ''created by '', Group 1 (some (Cls any_char)), ulit '' in goroutine '', some digits]"

definition number_of :: "string \<Rightarrow> nat" where
  "number_of s = undigits (rev s)"

definition categorize_state :: "string \<Rightarrow> goroutine_state" where
  "categorize_state raw = (case List.find (\<lambda>(ks, s). list_ex (\<lambda>k. contains_sub k (py_lower raw)) ks) STATE_KEYWORDS of
     Some (ks, s) \<Rightarrow> s | None \<Rightarrow> UNKNOWN)"

text \<open>\<open>rpartition("(")\<close>: the text up to the last opening parenthesis, if there is one.\<close>

definition trace_function_name :: "string \<Rightarrow> string" where
  "trace_function_name l = (let s = py_strip l in
     if CHR ''('' \<in> set s then py_strip (rev (tl (dropWhile (\<lambda>c. c \<noteq> CHR ''('') (rev s)))) else s)"

definition is_function_line :: "string \<Rightarrow> bool" where
  "is_function_line l \<longleftrightarrow> \<not> (starts_with l [CHR 0x09] \<or> starts_with l ''    '' \<or> starts_with l ''  '') \<and> contains_sub ''('' l"

definition parse_created_by :: "string \<Rightarrow> string" where
  "parse_created_by l = (case match_prefix CREATED_RE (codes l) of Some m \<Rightarrow> text_group l m 1 | None \<Rightarrow> l)"

definition append_frame_if_match ::
    "string \<Rightarrow> string \<Rightarrow> stack_frame list \<Rightarrow> string option \<times> stack_frame list" where
  "append_frame_if_match l fn fs = (case match_prefix FRAME_RE (codes l) of
     Some m \<Rightarrow> (None, fs @ [\<lparr>function_name = fn, frame_path = text_group l m 1, frame_line = number_of (text_group l m 2)\<rparr>])
   | None \<Rightarrow> (Some fn, fs))"

text \<open>An empty name is false to Python: a line \<open>(\<close> alone starts no frame.\<close>

definition handle_trace_line ::
    "string \<Rightarrow> string option \<Rightarrow> stack_frame list \<Rightarrow> string option \<times> stack_frame list" where
  "handle_trace_line l current fs =
     (if is_function_line l then (Some (trace_function_name l), fs)
      else case current of
        Some fn \<Rightarrow> if fn \<noteq> '''' then append_frame_if_match l fn fs else (current, fs)
      | None \<Rightarrow> (None, fs))"

fun extract_frames_from :: "string list \<Rightarrow> string option \<Rightarrow> stack_frame list \<Rightarrow> string option
    \<Rightarrow> stack_frame list \<times> string option" where
  "extract_frames_from [] current fs created = (fs, created)"
| "extract_frames_from (l # ls) current fs created =
     (if starts_with (py_strip l) ''created by ''
      then extract_frames_from ls current fs (Some (parse_created_by (py_strip l)))
      else let (current', fs') = handle_trace_line l current fs in extract_frames_from ls current' fs' created)"

definition extract_frames :: "string list \<Rightarrow> stack_frame list \<times> string option" where
  "extract_frames ls = extract_frames_from ls None [] None"

definition is_system_goroutine :: "stack_frame list \<Rightarrow> bool" where
  "is_system_goroutine fs \<longleftrightarrow>
     list_ex (\<lambda>f. list_ex (\<lambda>p. contains_sub p (function_name f)) SYSTEM_GOROUTINE_PATTERNS) fs"

definition parse_single_block :: "string list \<Rightarrow> goroutine_profile option" where
  "parse_single_block ls = (case ls of
     [] \<Rightarrow> None
   | h # rest \<Rightarrow> (let s = py_strip h in case match_prefix HEADER_RE (codes s) of
       None \<Rightarrow> None
     | Some m \<Rightarrow> (let raw = py_strip (text_group s m 2); (fs, created) = extract_frames rest in
         Some \<lparr>goroutine_id = number_of (text_group s m 1), raw_state = raw, state_category = categorize_state raw,
           is_system = is_system_goroutine fs, frames = fs, created_by = created, age_minutes = 0\<rparr>)))"

fun split_blocks_from :: "string list \<Rightarrow> string list \<Rightarrow> string list list" where
  "split_blocks_from [] current = (if current = [] then [] else [current])"
| "split_blocks_from (l # ls) current =
     (let trimmed = py_strip l in
      if trimmed = '''' then split_blocks_from ls current
      else if starts_with trimmed ''goroutine '' \<and> current \<noteq> [] then current # split_blocks_from ls [l]
      else split_blocks_from ls (current @ [l]))"

definition split_into_blocks :: "string \<Rightarrow> string list list" where
  "split_into_blocks raw = split_blocks_from (py_splitlines (py_strip raw)) []"

definition parse_trace :: "string \<Rightarrow> goroutine_profile list" where
  "parse_trace raw = List.map_filter parse_single_block (split_into_blocks raw)"

section \<open>The audit\<close>

definition is_leaked :: "goroutine_profile \<Rightarrow> bool" where
  "is_leaked p \<longleftrightarrow> state_category p = CHAN_SEND \<or> state_category p = CHAN_RECEIVE \<or> state_category p = SELECT"

fun filter_leaks :: "goroutine_profile list \<Rightarrow> nat \<times> nat \<times> goroutine_profile list \<Rightarrow> nat \<times> nat \<times> goroutine_profile list" where
  "filter_leaks [] acc = acc"
| "filter_leaks (p # ps) (sys, usr, leaks) =
     (if is_system p then filter_leaks ps (sys + 1, usr, leaks)
      else filter_leaks ps (sys, usr + 1, if is_leaked p then leaks @ [p] else leaks))"

definition determine_severity :: "goroutine_profile list \<Rightarrow> leak_severity" where
  "determine_severity leaks = (if leaks = [] then CLEAN
     else let states = map state_category leaks in
       if CHAN_SEND \<in> set states then CRITICAL else if SELECT \<in> set states then HIGH else MEDIUM)"

definition generate_remediations :: "goroutine_profile list \<Rightarrow> string list" where
  "generate_remediations leaks = List.map_filter (\<lambda>p. remediation (state_category p)
     (case frames p of f # _ \<Rightarrow> function_name f | [] \<Rightarrow> ''goroutine_'' @ show_nat (goroutine_id p))) leaks"

definition go_audit :: "goroutine_profile list \<Rightarrow> concurrency_report" where
  "go_audit ps = (let (sys, usr, leaks) = filter_leaks ps (0, 0, []) in
     \<lparr>total_goroutines = length ps, system_goroutines = sys, user_goroutines = usr, leaked_goroutines = length leaks,
      severity = determine_severity leaks, score = py_round 1 (max 0 (100 - of_nat (length leaks) * 25)),
      remediations = generate_remediations leaks, profiles = ps\<rparr>)"

section \<open>Test runs\<close>

text \<open>The text of the \<open>AssertionError\<close>, or the report.\<close>

definition verify_test_run :: "string \<Rightarrow> bool \<Rightarrow> int \<Rightarrow> (string, concurrency_report) result" where
  "verify_test_run trace fail_on_leak tolerated = (let r = go_audit (parse_trace trace) in
     if fail_on_leak \<and> int (leaked_goroutines r) > tolerated
     then Inl (''Test runner concurrency leak failure: '' @ show_nat (leaked_goroutines r) @ '' leaked goroutines (severity ''
       @ leak_severity_value (severity r) @ '', score '' @ show_float (score r) @ ''/100.0).'' @ newline @ ''Remediations:'' @ newline
       @ join_with newline (map (\<lambda>x. ''  - '' @ x) (remediations r)))
     else Inr r)"

definition assert_no_goroutine_leaks :: "string \<Rightarrow> int \<Rightarrow> (string, concurrency_report) result" where
  "assert_no_goroutine_leaks trace tolerated = verify_test_run trace True tolerated"

definition frame_json :: "stack_frame \<Rightarrow> json" where
  "frame_json f = JObj [(''function'', JStr (function_name f)), (''file_path'', JStr (frame_path f)), (''line'', JInt (int (frame_line f)))]"

definition profile_json :: "goroutine_profile \<Rightarrow> json" where
  "profile_json p = JObj
     [(''goroutine_id'', JInt (int (goroutine_id p))), (''raw_state'', JStr (raw_state p)),
      (''state_category'', JStr (state_value (state_category p))), (''is_system'', JBool (is_system p)),
      (''frames'', JArr (map frame_json (frames p))),
      (''created_by'', case created_by p of Some s \<Rightarrow> JStr s | None \<Rightarrow> JNull), (''age_minutes'', JFloat (age_minutes p))]"

definition go_report_dict :: "concurrency_report \<Rightarrow> json" where
  "go_report_dict r = JObj
     [(''total_goroutines'', JInt (int (total_goroutines r))), (''system_goroutines'', JInt (int (system_goroutines r))),
      (''user_goroutines'', JInt (int (user_goroutines r))), (''leaked_goroutines'', JInt (int (leaked_goroutines r))),
      (''severity'', JStr (leak_severity_value (severity r))), (''score'', JFloat (score r)),
      (''remediations'', JArr (map JStr (remediations r))), (''profiles'', JArr (map profile_json (profiles r)))]"

definition print_report :: "string \<Rightarrow> string \<Rightarrow> string \<Rightarrow> string \<Rightarrow> string \<Rightarrow> concurrency_report \<Rightarrow> string list" where
  "print_report hamster dash siren bullet tick r =
     [replicate 80 CHR ''='', hamster @ '' GO CONCURRENCY & GOROUTINE LEAK SENTINEL '' @ dash @ '' AUDIT REPORT'',
      replicate 80 CHR ''='', ''Total Goroutines:    '' @ show_nat (total_goroutines r),
      ''System Daemons:      '' @ show_nat (system_goroutines r), ''User Goroutines:     '' @ show_nat (user_goroutines r),
      ''Leaked Goroutines:   '' @ show_nat (leaked_goroutines r), ''Severity Rating:     '' @ leak_severity_value (severity r),
      ''Concurrency Score:   '' @ show_float (score r) @ ''/100.0'', replicate 80 CHR ''-'']
     @ (if remediations r \<noteq> []
        then (siren @ '' IDENTIFIED CONCURRENCY LEAKS & REMEDIATIONS:'') # map (\<lambda>x. ''  '' @ bullet @ '' '' @ x) (remediations r)
        else [tick @ '' CLEAN EXECUTION: Zero leaked goroutines detected.'']) @ [replicate 80 CHR ''='']"

text \<open>The exit status of \<open>--scan\<close>, for a file with the given text or none.\<close>

definition handle_scan_command :: "string option \<Rightarrow> bool \<Rightarrow> nat" where
  "handle_scan_command source fail_on_leak = (case source of
     None \<Rightarrow> 1
   | Some text \<Rightarrow> (let r = go_audit (parse_trace text) in
       if fail_on_leak \<and> leaked_goroutines r > 0 then 1 else if leaked_goroutines r = 0 then 0 else 1))"

section \<open>Samples\<close>

definition tab_line :: "string \<Rightarrow> string" where
  "tab_line s = CHR 0x09 # s"

definition SAMPLE_CLEAN_TRACE :: string where
  "SAMPLE_CLEAN_TRACE = newline @ concat (map (\<lambda>l. l @ newline)
     [''goroutine 1 [running]:'', ''main.main()'', tab_line ''/app/main.go:15 +0x24'', ''goroutine 2 [force gc (idle)]:'',
      ''runtime.gopark(0x0, 0x0, 0x0, 0x0)'', tab_line ''/usr/local/go/src/runtime/proc.go:400 +0x30''])"

definition SAMPLE_LEAKY_TRACE :: string where
  "SAMPLE_LEAKY_TRACE = newline @ concat (map (\<lambda>l. l @ newline)
     [''goroutine 1 [running]:'', ''main.main()'', tab_line ''/app/main.go:20 +0x24'', ''goroutine 19 [chan send]:'',
      ''example.com/go-leak-sentinel.LeakyChannelWorker.func1()'', tab_line ''/app/sentinel.go:88 +0x34'',
      ''created by example.com/go-leak-sentinel.LeakyChannelWorker in goroutine 1'', tab_line ''/app/sentinel.go:86 +0x80'',
      ''goroutine 20 [select]:'', ''example.com/go-leak-sentinel.LeakyContextWorker.func1()'',
      tab_line ''/app/sentinel.go:108 +0x68'', ''created by example.com/go-leak-sentinel.LeakyContextWorker in goroutine 1'',
      tab_line ''/app/sentinel.go:106 +0x50'', ''goroutine 2 [force gc (idle)]:'', ''runtime.gopark(0x0, 0x0, 0x0, 0x0)'',
      tab_line ''/usr/local/go/src/runtime/proc.go:400 +0x30''])"

text \<open>
  The blocks of a dump, the counts of the audit, when a test run fails, and the goroutines that a parked
  frame hides.
\<close>

section \<open>Blocks\<close>

definition blank_line :: "string \<Rightarrow> bool" where
  "blank_line l \<longleftrightarrow> py_strip l = ''''"

definition opens_block :: "string \<Rightarrow> bool" where
  "opens_block l \<longleftrightarrow> starts_with (py_strip l) ''goroutine ''"

definition one_goroutine :: "string list \<Rightarrow> bool" where
  "one_goroutine b \<longleftrightarrow> b \<noteq> [] \<and> \<not> list_ex opens_block (tl b)"

lemma blocks_from: "(current = [] \<or> one_goroutine current) \<Longrightarrow>
    concat (split_blocks_from ls current) = current @ filter (\<lambda>l. \<not> blank_line l) ls
    \<and> list_all one_goroutine (split_blocks_from ls current)"
proof (induction ls arbitrary: current)
  case (Cons l ls)
  show ?case
  proof (cases "blank_line l")
    case True
    then show ?thesis using Cons by (simp add: blank_line_def)
  next
    case False
    show ?thesis
    proof (cases "opens_block l \<and> current \<noteq> []")
      case True
      have "one_goroutine [l]" by (simp add: one_goroutine_def)
      then show ?thesis using Cons.IH[of "[l]"] Cons.prems True False by (simp add: opens_block_def blank_line_def)
    next
      case False': False
      have "one_goroutine (current @ [l])" using Cons.prems False' by (cases current) (auto simp: one_goroutine_def)
      then show ?thesis using Cons.IH[of "current @ [l]"] False False' by (auto simp: opens_block_def blank_line_def)
    qed
  qed
qed (auto simp: one_goroutine_def)

text \<open>The blocks of a dump are its lines that are not blank, in their order, cut before every header.\<close>

theorem blocks_partition:
  "concat (split_into_blocks raw) = filter (\<lambda>l. \<not> blank_line l) (py_splitlines (py_strip raw))
   \<and> list_all one_goroutine (split_into_blocks raw)"
  using blocks_from[of "[]"] by (simp add: split_into_blocks_def)

section \<open>The audit\<close>

definition leaking :: "goroutine_profile \<Rightarrow> bool" where
  "leaking p \<longleftrightarrow> \<not> is_system p \<and> is_leaked p"

lemma filter_leaks_eq: "filter_leaks ps (s, u, ls) =
    (s + length (filter is_system ps), u + length (filter (\<lambda>p. \<not> is_system p) ps), ls @ filter leaking ps)"
  by (induction ps arbitrary: s u ls) (auto simp: leaking_def)

lemma remediations_length: "list_all is_leaked ps \<Longrightarrow> length (generate_remediations ps) = length ps"
  by (induction ps) (auto simp: generate_remediations_def List.map_filter_simps is_leaked_def remediation_def)

definition worst_state :: "goroutine_profile list \<Rightarrow> leak_severity" where
  "worst_state ps = (if list_ex (\<lambda>p. state_category p = CHAN_SEND) ps then CRITICAL
     else if list_ex (\<lambda>p. state_category p = SELECT) ps then HIGH
     else if list_ex (\<lambda>p. state_category p = CHAN_RECEIVE) ps then MEDIUM else CLEAN)"

text \<open>The audit counts as leaked the goroutines that no frame marks as the runtime's and that wait on a
  channel or a select; it is clean exactly without them, rates the worst of their states, advises on
  each of them, and takes off 25 points for each until none is left.\<close>

theorem audit_counts:
  "(let r = go_audit ps; leaks = filter leaking ps in
     leaked_goroutines r = length leaks \<and> severity r = worst_state leaks
     \<and> length (remediations r) = length leaks \<and> score r = max 0 (100 - of_nat (length leaks) * 25)
     \<and> system_goroutines r + user_goroutines r = total_goroutines r)"
proof -
  let ?leaks = "filter leaking ps"
  have "list_all is_leaked ?leaks" by (simp add: list_all_iff leaking_def)
  note n = remediations_length[OF this]
  have sev: "determine_severity xs = worst_state xs" if "list_all is_leaked xs" for xs
  proof (cases "xs = []")
    case False
    then have "list_ex (\<lambda>p. state_category p = CHAN_RECEIVE) xs"
      if "\<not> list_ex (\<lambda>p. state_category p = CHAN_SEND) xs" "\<not> list_ex (\<lambda>p. state_category p = SELECT) xs"
      using that \<open>list_all is_leaked xs\<close> by (cases xs) (auto simp: is_leaked_def)
    moreover have "CHAN_SEND \<in> set (map state_category xs) \<longleftrightarrow> list_ex (\<lambda>p. state_category p = CHAN_SEND) xs"
      "SELECT \<in> set (map state_category xs) \<longleftrightarrow> list_ex (\<lambda>p. state_category p = SELECT) xs"
      unfolding list_ex_iff set_map image_iff by metis+
    ultimately show ?thesis unfolding determine_severity_def worst_state_def Let_def using False by presburger
  qed (simp add: determine_severity_def worst_state_def)
  have "max 0 (100 - of_nat k * 25) = (of_int (max 0 (100 - int k * 25)) :: py_float)" for k
    by (simp add: of_int_max)
  then have sc: "py_round 1 (max 0 (100 - of_nat k * 25)) = (max 0 (100 - of_nat k * 25) :: py_float)" for k
    by (simp only: py_round_int)
  have sum: "length (filter is_system ps) + length (filter (\<lambda>p. \<not> is_system p) ps) = length ps"
    by (rule partition_length)
  have rep: "go_audit ps = \<lparr>total_goroutines = length ps, system_goroutines = length (filter is_system ps),
      user_goroutines = length (filter (\<lambda>p. \<not> is_system p) ps), leaked_goroutines = length ?leaks,
      severity = determine_severity ?leaks, score = py_round 1 (max 0 (100 - of_nat (length ?leaks) * 25)),
      remediations = generate_remediations ?leaks, profiles = ps\<rparr>"
    by (simp add: go_audit_def filter_leaks_eq)
  show ?thesis unfolding rep Let_def using n sev[OF \<open>list_all is_leaked ?leaks\<close>] sum by (simp only: sc concurrency_report.simps)
qed

lemma leaks_of_audit: "leaked_goroutines (go_audit ps) = length (filter leaking ps)"
  using audit_counts[of ps] by (simp add: Let_def)

text \<open>A test run fails exactly when it is asked to and the dump has more leaks than it tolerates; the
  command fails on any leak, with or without its flag.\<close>

theorem test_fails_iff:
  "isl (verify_test_run trace fail tolerated) = (fail \<and> tolerated < int (length (filter leaking (parse_trace trace))))
   \<and> handle_scan_command (Some trace) fail = of_bool (list_ex leaking (parse_trace trace))"
  by (auto simp: verify_test_run_def handle_scan_command_def leaks_of_audit Let_def list_ex_iff filter_empty_conv)

section \<open>Parked goroutines\<close>

text \<open>A goroutine with a frame of \<open>runtime.gopark\<close>, through which every blocked goroutine waits, is taken
  for the runtime's own whatever it waits for.\<close>

theorem parked_never_leaks:
  assumes "parse_single_block ls = Some p" "f \<in> set (frames p)" "contains_sub ''runtime.gopark'' (function_name f)"
  shows "\<not> leaking p"
proof -
  have "is_system p = is_system_goroutine (frames p)"
    using assms(1) by (auto simp: parse_single_block_def Let_def split: list.splits option.splits prod.splits)
  moreover have "is_system_goroutine (frames p)"
    using assms(2,3) by (auto simp: is_system_goroutine_def list_ex_iff SYSTEM_GOROUTINE_PATTERNS_def)
  ultimately show ?thesis by (simp add: leaking_def)
qed

definition parked_block :: "string list" where
  "parked_block = [''goroutine 7 [chan send]:'', ''runtime.gopark()'', tab_line ''p.go:4'']"

theorem parked_never_leaks_witness:
  "(\<exists>p. parse_single_block parked_block = Some p \<and> is_leaked p \<and> \<not> leaking p)"
proof -
  have "(case parse_single_block parked_block of None \<Rightarrow> False
      | Some p \<Rightarrow> is_leaked p \<and> frames p = [\<lparr>function_name = ''runtime.gopark'', frame_path = ''p.go'', frame_line = 4\<rparr>])"
    by code_simp
  then obtain p where p: "parse_single_block parked_block = Some p" "is_leaked p"
    "frames p = [\<lparr>function_name = ''runtime.gopark'', frame_path = ''p.go'', frame_line = 4\<rparr>]"
    by (auto split: option.splits)
  have "contains_sub ''runtime.gopark'' ''runtime.gopark''" by code_simp
  then have "\<not> leaking p" by (intro parked_never_leaks[OF p(1), of "\<lparr>function_name = ''runtime.gopark'', frame_path = ''p.go'', frame_line = 4\<rparr>"]) (simp_all add: p(3))
  then show ?thesis using p by blast
qed

end
