(* ===== verification/Cpp_Lifetime.thy ===== *)
theory Cpp_Lifetime
  imports Py_Unicode Py_Json
begin

text \<open>
  \<open>tools/cpp_lifetime_sentinel.py\<close>: the comment stripper, the five rules over C++ sources, the audit, its
  documents and the exit status. SHA-256 is the parameter \<open>sha\<close>, the tick of the report the parameter
  \<open>tick\<close>; what \<open>Path\<close> says of the targets is given with them.
\<close>

section \<open>Data\<close>

definition SENTINEL_VERSION :: string where
  "SENTINEL_VERSION = ''v1.0.0''"

definition CPP_EXTENSIONS :: "string list" where
  "CPP_EXTENSIONS = [''.cpp'', ''.cc'', ''.cxx'', ''.c++'', ''.h'', ''.hpp'', ''.hxx'', ''.h++'']"

datatype cpp_severity = CRITICAL | HIGH | MEDIUM | LOW

fun severity_value :: "cpp_severity \<Rightarrow> string" where
  "severity_value CRITICAL = ''critical''"
| "severity_value HIGH = ''high''"
| "severity_value MEDIUM = ''medium''"
| "severity_value LOW = ''low''"

datatype sentinel_preset = STRICT | STANDARD | RELAXED

record cpp_finding =
  rule_id :: string
  severity :: cpp_severity
  cpp_message :: string
  location :: string
  line_number :: nat
  recommendation :: string
  finding_hash :: string

record cpp_summary =
  total_files :: nat
  total_lines :: nat
  total_violations :: nat
  is_compliant :: bool
  findings :: "cpp_finding list"

definition compute_hash :: "(string \<Rightarrow> string) \<Rightarrow> string \<Rightarrow> string" where
  "compute_hash sha s = take 16 (sha s)"

definition place :: "string \<Rightarrow> nat \<Rightarrow> string" where
  "place fname n = fname @ '':'' @ show_nat n"

section \<open>Comments\<close>

definition any_code :: "nat rx" where
  "any_code = Cls (\<lambda>n. True)"

definition quoted_rx :: "nat \<Rightarrow> nat rx" where
  "quoted_rx q = cats [Cls ((=) q), Star (Alt (Cat (Cls ((=) 92)) any_code) (Cls (\<lambda>n. n \<noteq> 92 \<and> n \<noteq> q))), Cls ((=) q)]"

definition comment_rx :: "nat rx" where
  "comment_rx = alts [cats [ulit ''//'', Lazy any_code, Test (line_end 10)],
     cats [ulit ''/*'', Lazy any_code, ulit ''*/''], quoted_rx 39, quoted_rx 34]"

definition newlines_in :: "string \<Rightarrow> nat" where
  "newlines_in s = length (filter (\<lambda>c. c = CHR 0x0A) s)"

text \<open>The replacer, from a matched text to what stands for it.\<close>

definition comment_replacer :: "string \<Rightarrow> string" where
  "comment_replacer s = (if starts_with s ''/'' then replicate (newlines_in s) (CHR 0x0A) else s)"

definition strip_cpp_comments :: "string \<Rightarrow> string" where
  "strip_cpp_comments source =
     sub_from (\<lambda>m. comment_replacer (text_matched source m)) source 0 (find_all comment_rx (codes source))"

section \<open>CPP001: manual memory management\<close>

definition cpp001_rx :: "nat rx" where
  "cpp001_rx = Cat latin_boundary (Group 1 (alts
     [cats [ulit ''delete'', maybe_spaces, ulit ''['', maybe_spaces, ulit '']''], Cat (ulit ''delete'') latin_boundary,
      cats [ulit ''free'', maybe_spaces, ulit ''(''], cats [ulit ''malloc'', maybe_spaces, ulit ''(''],
      cats [ulit ''calloc'', maybe_spaces, ulit ''(''], cats [ulit ''realloc'', maybe_spaces, ulit ''('']]))"

text \<open>\<open>split()[0].split("(")[0]\<close> of the group, which starts with a letter.\<close>

definition cpp001_token :: "string \<Rightarrow> string" where
  "cpp001_token g = takeWhile (\<lambda>c. c \<noteq> CHR ''('') (takeWhile (\<lambda>c. \<not> py_isspace c) g)"

definition check_cpp001_line :: "(string \<Rightarrow> string) \<Rightarrow> string \<Rightarrow> nat \<Rightarrow> string \<Rightarrow> cpp_finding option" where
  "check_cpp001_line sha line n fname = (case text_search cpp001_rx line of
     None \<Rightarrow> None
   | Some m \<Rightarrow> (let token = cpp001_token (text_group line m 1); loc = place fname n in Some
       \<lparr>rule_id = ''CPP001'', severity = HIGH,
        cpp_message = ''Manual memory deallocation '' @ [CHR 0x27] @ token @ [CHR 0x27] @ '' violates RAII invariant'',
        location = loc, line_number = n,
        recommendation = ''Replace manual allocation with RAII container (std::vector, std::string) or std::make_unique<T>()'',
        finding_hash = compute_hash sha (''CPP001:'' @ loc @ '':'' @ token)\<rparr>))"

section \<open>Blocks\<close>

definition brace_delta :: "char \<Rightarrow> int" where
  "brace_delta c = (if c = CHR ''{'' then 1 else if c = CHR ''}'' then -1 else 0)"

text \<open>The loop of \<open>_find_matching_brace\<close> over the rest of the source, from an index and a depth.\<close>

fun matching_brace_from :: "string \<Rightarrow> nat \<Rightarrow> int \<Rightarrow> nat option" where
  "matching_brace_from [] i depth = None"
| "matching_brace_from (c # cs) i depth =
     (if depth + brace_delta c = 0 then Some i else matching_brace_from cs (Suc i) (depth + brace_delta c))"

definition find_matching_brace :: "string \<Rightarrow> nat \<Rightarrow> nat option" where
  "find_matching_brace source i = matching_brace_from (drop i source) i 0"

text \<open>The body after a declaration that ends with an opening brace.\<close>

definition block_body :: "string \<Rightarrow> match \<Rightarrow> string option" where
  "block_body source m = map_option (slice source (fst (snd m))) (find_matching_brace source (fst (snd m) - 1))"

definition line_of :: "string \<Rightarrow> nat \<Rightarrow> nat" where
  "line_of source i = newlines_in (take i source) + 1"

definition ident :: "nat rx" where
  "ident = some (Cls (\<lambda>n. ascii_alnum n \<or> n = 95))"

definition scoped_ident :: "nat rx" where
  "scoped_ident = some (Cls (\<lambda>n. ascii_alnum n \<or> n = 95 \<or> n = 58))"

definition parameter_list :: "nat rx" where
  "parameter_list = cats [ulit ''('', Star (Cls (\<lambda>n. n \<noteq> 41)), ulit '')'', maybe_spaces, ulit ''{'']"

section \<open>CPP002: views of local strings\<close>

definition view_rx :: "nat rx" where
  "view_rx = cats [latin_boundary,
     Group 1 (Cat (ulit ''std::'') (Alt (ulit ''string_view'') (cats [ulit ''span<'', some (Cls (\<lambda>n. n \<noteq> 62)), ulit ''>'']))),
     latin_spaces, Group 2 scoped_ident, maybe_spaces, parameter_list]"

record view_function =
  return_type :: string
  func_name :: string
  func_body :: string
  func_line :: nat

definition extract_view_functions :: "string \<Rightarrow> view_function list" where
  "extract_view_functions source = List.map_filter (\<lambda>m. case block_body source m of
       None \<Rightarrow> None
     | Some b \<Rightarrow> Some \<lparr>return_type = text_group source m 1, func_name = text_group source m 2, func_body = b,
         func_line = line_of source (fst m)\<rparr>) (find_all view_rx (codes source))"

definition return_rx :: "nat rx" where
  "return_rx = cats [latin_boundary, ulit ''return'', latin_spaces, Group 1 ident, maybe_spaces, ulit '';'']"

definition string_decl_rx :: "string \<Rightarrow> nat rx" where
  "string_decl_rx v = cats [latin_boundary, ulit ''std::string'', latin_spaces, ulit v, latin_boundary]"

definition inspect_dangling_func_return :: "(string \<Rightarrow> string) \<Rightarrow> view_function \<Rightarrow> string \<Rightarrow> cpp_finding list" where
  "inspect_dangling_func_return sha f fname = List.map_filter (\<lambda>m. let v = text_group (func_body f) m 1 in
     if \<not> text_matches (string_decl_rx v) (func_body f) then None
     else (let n = func_line f + newlines_in (take (fst m) (func_body f)); loc = place fname n in Some
       \<lparr>rule_id = ''CPP002'', severity = CRITICAL,
        cpp_message = ''Function '' @ [CHR 0x27] @ func_name f @ [CHR 0x27] @ '' returns '' @ [CHR 0x27] @ return_type f @ [CHR 0x27]
          @ '' over local temporary '' @ [CHR 0x27] @ v @ [CHR 0x27],
        location = loc, line_number = n,
        recommendation = ''Return std::string by value or annotate parameter with [[clang::lifetimebound]]'',
        finding_hash = compute_hash sha (''CPP002:'' @ loc @ '':'' @ func_name f)\<rparr>))
     (find_all return_rx (codes (func_body f)))"

definition check_cpp002_dangling_views :: "(string \<Rightarrow> string) \<Rightarrow> string \<Rightarrow> string \<Rightarrow> cpp_finding list" where
  "check_cpp002_dangling_views sha source fname =
     concat (map (\<lambda>f. inspect_dangling_func_return sha f fname) (extract_view_functions source))"

section \<open>CPP003: the rule of five\<close>

definition class_rx :: "nat rx" where
  "class_rx = cats [latin_boundary, Alt (ulit ''class'') (ulit ''struct''), latin_spaces, Group 1 ident, latin_boundary,
     Star (Cls (\<lambda>n. n \<noteq> 123)), ulit ''{'']"

definition destructor_rx :: "string \<Rightarrow> nat rx" where
  "destructor_rx c = cats [ulit ''~'', ulit c, maybe_spaces, ulit ''('']"

text \<open>What stands between the parentheses: a constant reference, or a reference to a temporary.\<close>

definition copied_rx :: "string \<Rightarrow> nat rx" where
  "copied_rx c = cats [maybe_spaces, ulit ''('', maybe_spaces, ulit ''const'', latin_spaces, ulit c, maybe_spaces, ulit ''&'']"

definition moved_rx :: "string \<Rightarrow> nat rx" where
  "moved_rx c = cats [maybe_spaces, ulit ''('', maybe_spaces, ulit c, maybe_spaces, ulit ''&&'']"

definition constructor_rx :: "string \<Rightarrow> nat rx \<Rightarrow> nat rx" where
  "constructor_rx c r = cats [latin_boundary, ulit c, r]"

definition assignment_rx :: "nat rx \<Rightarrow> nat rx" where
  "assignment_rx r = cats [latin_boundary, ulit ''operator'', maybe_spaces, ulit ''='', r]"

definition rule_of_five_complete :: "string \<Rightarrow> string \<Rightarrow> bool" where
  "rule_of_five_complete c body \<longleftrightarrow>
     text_matches (constructor_rx c (copied_rx c)) body \<and> text_matches (constructor_rx c (moved_rx c)) body
     \<and> text_matches (assignment_rx (copied_rx c)) body \<and> text_matches (assignment_rx (moved_rx c)) body"

definition check_rule_of_five_class ::
    "(string \<Rightarrow> string) \<Rightarrow> string \<Rightarrow> string \<Rightarrow> nat \<Rightarrow> string \<Rightarrow> cpp_finding option" where
  "check_rule_of_five_class sha c body n fname =
     (if \<not> text_matches (destructor_rx c) body then None
      else if rule_of_five_complete c body then None
      else (let loc = place fname n in Some
        \<lparr>rule_id = ''CPP003'', severity = MEDIUM,
         cpp_message = ''Class '' @ [CHR 0x27] @ c @ [CHR 0x27] @ '' defines custom destructor but violates Rule of Five'',
         location = loc, line_number = n,
         recommendation = ''Explicitly define or = delete copy/move constructors and assignment operators'',
         finding_hash = compute_hash sha (''CPP003:'' @ loc @ '':'' @ c)\<rparr>))"

definition extract_class_blocks :: "string \<Rightarrow> (string \<times> string \<times> nat) list" where
  "extract_class_blocks source = List.map_filter (\<lambda>m. case block_body source m of
       None \<Rightarrow> None
     | Some b \<Rightarrow> Some (text_group source m 1, b, line_of source (fst m))) (find_all class_rx (codes source))"

definition check_cpp003_rule_of_five :: "(string \<Rightarrow> string) \<Rightarrow> string \<Rightarrow> string \<Rightarrow> cpp_finding list" where
  "check_cpp003_rule_of_five sha source fname =
     List.map_filter (\<lambda>(c, b, n). check_rule_of_five_class sha c b n fname) (extract_class_blocks source)"

section \<open>CPP004: raw pointers\<close>

definition member_rx :: "nat rx" where
  "member_rx = cats [Test at_start, maybe_spaces, scoped_ident, maybe_spaces, ulit ''*'', maybe_spaces,
     Group 1 (Cat ident (opt (ulit ''_''))), maybe_spaces, ulit '';'', maybe_spaces, Test (at_end 10)]"

definition new_rx :: "nat rx" where
  "new_rx = cats [latin_boundary, scoped_ident, maybe_spaces, ulit ''*'', maybe_spaces, Group 1 ident, maybe_spaces,
     ulit ''='', maybe_spaces, ulit ''new'', latin_spaces]"

definition check_cpp004_line :: "(string \<Rightarrow> string) \<Rightarrow> string \<Rightarrow> nat \<Rightarrow> string \<Rightarrow> cpp_finding option" where
  "check_cpp004_line sha line n fname = (let l = py_strip line in
     case (case text_search member_rx l of None \<Rightarrow> text_search new_rx l | Some m \<Rightarrow> Some m) of
       None \<Rightarrow> None
     | Some m \<Rightarrow> (if contains_sub ''char*'' l \<or> contains_sub ''char *'' l then None
         else (let loc = place fname n; v = text_group l m 1 in Some
           \<lparr>rule_id = ''CPP004'', severity = MEDIUM,
            cpp_message = ''Unmanaged raw pointer '' @ [CHR 0x27] @ v @ [CHR 0x27] @ '' lacks explicit smart pointer ownership'',
            location = loc, line_number = n,
            recommendation = ''Wrap resource in std::unique_ptr<T> or std::shared_ptr<T>'',
            finding_hash = compute_hash sha (''CPP004:'' @ loc @ '':'' @ v)\<rparr>)))"

section \<open>CPP005: use after move\<close>

definition use_rx :: "string \<Rightarrow> nat rx" where
  "use_rx v = cats [latin_boundary, ulit v, latin_boundary,
     Alt (Cat maybe_spaces (ulit ''->'')) (Cat maybe_spaces (ulit ''.''))]"

definition check_moved_var_usage ::
    "(string \<Rightarrow> string) \<Rightarrow> string \<Rightarrow> nat \<Rightarrow> string \<times> nat \<Rightarrow> string \<Rightarrow> cpp_finding option" where
  "check_moved_var_usage sha line n info fname = (case info of (v, moved_at) \<Rightarrow>
     if n \<le> moved_at then None
     else if \<not> text_matches (use_rx v) line then None
     else (let loc = place fname n in Some
       \<lparr>rule_id = ''CPP005'', severity = HIGH,
        cpp_message = ''Use-after-move hazard on variable '' @ [CHR 0x27] @ v @ [CHR 0x27] @ '' (moved at line '' @ show_nat moved_at @ '')'',
        location = loc, line_number = n,
        recommendation = ''Avoid referencing moved-from object; reset or reassign variable before reuse'',
        finding_hash = compute_hash sha (''CPP005:'' @ loc @ '':'' @ v)\<rparr>))"

definition move_rx :: "nat rx" where
  "move_rx = cats [latin_boundary, ulit ''std::move'', maybe_spaces, ulit ''('', maybe_spaces, Group 1 ident, maybe_spaces, ulit '')'']"

definition moved_names :: "string \<Rightarrow> string list" where
  "moved_names line = map (\<lambda>m. text_group line m 1) (find_all move_rx (codes line))"

definition record_moves :: "string \<Rightarrow> nat \<Rightarrow> (string, nat) dict \<Rightarrow> (string, nat) dict" where
  "record_moves line n moved = fold (\<lambda>v. dict_set v n) (moved_names line) moved"

text \<open>The loop over a copy of the items, with the dictionary that loses what was reported.\<close>

fun drain_from :: "(string \<Rightarrow> string) \<Rightarrow> string \<Rightarrow> nat \<Rightarrow> string \<Rightarrow> (string \<times> nat) list \<Rightarrow> (string, nat) dict
    \<Rightarrow> cpp_finding list \<times> (string, nat) dict" where
  "drain_from sha line n fname [] moved = ([], moved)"
| "drain_from sha line n fname (info # rest) moved = (case check_moved_var_usage sha line n info fname of
     None \<Rightarrow> drain_from sha line n fname rest moved
   | Some f \<Rightarrow> (let (fs, moved') = drain_from sha line n fname rest (dict_pop (fst info) moved) in (f # fs, moved')))"

definition drain_moved_var_findings :: "(string \<Rightarrow> string) \<Rightarrow> string \<Rightarrow> nat \<Rightarrow> (string, nat) dict \<Rightarrow> string
    \<Rightarrow> cpp_finding list \<times> (string, nat) dict" where
  "drain_moved_var_findings sha line n moved fname = drain_from sha line n fname moved moved"

fun scan_block_from :: "(string \<Rightarrow> string) \<Rightarrow> string list \<Rightarrow> nat \<Rightarrow> string \<Rightarrow> (string, nat) dict \<Rightarrow> cpp_finding list" where
  "scan_block_from sha [] n fname moved = []"
| "scan_block_from sha (line # ls) n fname moved =
     (let (fs, moved') = drain_moved_var_findings sha line n (record_moves line n moved) fname in
      fs @ scan_block_from sha ls (Suc n) fname moved')"

definition scan_block_for_use_after_move :: "(string \<Rightarrow> string) \<Rightarrow> string list \<Rightarrow> nat \<Rightarrow> string \<Rightarrow> cpp_finding list" where
  "scan_block_for_use_after_move sha ls start fname = scan_block_from sha ls start fname []"

definition function_rx :: "nat rx" where
  "function_rx = cats [latin_boundary, scoped_ident, latin_spaces, scoped_ident, maybe_spaces, parameter_list]"

definition extract_function_blocks :: "string \<Rightarrow> (string \<times> nat) list" where
  "extract_function_blocks source = List.map_filter (\<lambda>m. case block_body source m of
       None \<Rightarrow> None
     | Some b \<Rightarrow> Some (b, line_of source (fst (snd m)))) (find_all function_rx (codes source))"

definition check_cpp005_use_after_move :: "(string \<Rightarrow> string) \<Rightarrow> string \<Rightarrow> string \<Rightarrow> cpp_finding list" where
  "check_cpp005_use_after_move sha source fname =
     concat (map (\<lambda>(b, n). scan_block_for_use_after_move sha (py_splitlines b) n fname) (extract_function_blocks source))"

section \<open>The audit\<close>

definition audit_line_invariants :: "(string \<Rightarrow> string) \<Rightarrow> sentinel_preset \<Rightarrow> string \<Rightarrow> nat \<Rightarrow> string \<Rightarrow> cpp_finding list" where
  "audit_line_invariants sha preset line n fname =
     (case check_cpp001_line sha line n fname of Some f \<Rightarrow> [f] | None \<Rightarrow> [])
     @ (if preset \<noteq> RELAXED then (case check_cpp004_line sha line n fname of Some f \<Rightarrow> [f] | None \<Rightarrow> []) else [])"

definition audit_source :: "(string \<Rightarrow> string) \<Rightarrow> sentinel_preset \<Rightarrow> string \<Rightarrow> string \<Rightarrow> cpp_finding list" where
  "audit_source sha preset source fname = (let clean = strip_cpp_comments source in
     concat (map (\<lambda>(n, line). audit_line_invariants sha preset line n fname) (enumerate 1 (py_splitlines clean)))
     @ check_cpp002_dangling_views sha clean fname @ check_cpp003_rule_of_five sha clean fname
     @ check_cpp005_use_after_move sha clean fname)"

definition blocking :: "cpp_finding \<Rightarrow> bool" where
  "blocking f \<longleftrightarrow> severity f = CRITICAL \<or> severity f = HIGH"

definition audit_string :: "(string \<Rightarrow> string) \<Rightarrow> sentinel_preset \<Rightarrow> string \<Rightarrow> string \<Rightarrow> cpp_summary" where
  "audit_string sha preset source fname = (let fs = audit_source sha preset source fname in
     \<lparr>total_files = 1, total_lines = length (py_splitlines source), total_violations = length fs,
      is_compliant = \<not> list_ex blocking fs, findings = fs\<rparr>)"

text \<open>A path with its parts and the suffix that \<open>Path\<close> gives it; whether it is a file, and its text.\<close>

record cpp_path =
  path_name :: string
  path_parts :: "string list"
  path_suffix :: string
  file_text :: "string option"

definition cpp_source :: "cpp_path \<Rightarrow> string option" where
  "cpp_source p = (if py_lower (path_suffix p) \<in> set CPP_EXTENSIONS then file_text p else None)"

definition audit_files :: "(string \<Rightarrow> string) \<Rightarrow> sentinel_preset \<Rightarrow> cpp_path list \<Rightarrow> cpp_summary" where
  "audit_files sha preset ps = (let inspected = List.map_filter (\<lambda>p. map_option (\<lambda>t. (path_name p, t)) (cpp_source p)) ps;
       fs = concat (map (\<lambda>(nm, t). audit_source sha preset t nm) inspected) in
     \<lparr>total_files = length inspected, total_lines = sum_list (map (\<lambda>(nm, t). length (py_splitlines t)) inspected),
      total_violations = length fs, is_compliant = \<not> list_ex blocking fs, findings = fs\<rparr>)"

text \<open>An argument of the command: a file, a directory with its answer to \<open>glob("**/*" + ext)\<close>, or neither.\<close>

datatype cpp_target = File_Target cpp_path | Directory_Target "string \<Rightarrow> cpp_path list" | No_Target

fun expand_path_target :: "cpp_target \<Rightarrow> cpp_path list" where
  "expand_path_target (File_Target p) = (if py_lower (path_suffix p) \<in> set CPP_EXTENSIONS then [p] else [])"
| "expand_path_target (Directory_Target glob) = concat (map glob CPP_EXTENSIONS)"
| "expand_path_target No_Target = []"

text \<open>Paths are equal and ordered by their parts.\<close>

definition collect_target_paths :: "cpp_target list \<Rightarrow> cpp_path list" where
  "collect_target_paths ts = (let ps = concat (map expand_path_target ts) in
     sort_key path_parts (map (\<lambda>k. the (List.find (\<lambda>p. path_parts p = k) ps)) (remdups (map path_parts ps))))"

definition cpp_exit_code :: "(string \<Rightarrow> string) \<Rightarrow> sentinel_preset \<Rightarrow> cpp_target list \<Rightarrow> nat" where
  "cpp_exit_code sha preset ts = (let ps = collect_target_paths ts in
     if ps = [] then 0 else if is_compliant (audit_files sha preset ps) then 0 else 1)"

section \<open>Documents\<close>

definition cpp_rule :: "string \<Rightarrow> string \<Rightarrow> string \<Rightarrow> string \<Rightarrow> string \<times> json" where
  "cpp_rule i nm text level = (i, JObj
     [(''id'', JStr i), (''name'', JStr nm), (''shortDescription'', JObj [(''text'', JStr text)]),
      (''defaultConfiguration'', JObj [(''level'', JStr level)]),
      (''helpUri'', JStr ''https://github.com/dan-petty/vibes'')])"

definition SARIF_RULES :: "(string \<times> json) list" where
  "SARIF_RULES =
     [cpp_rule ''CPP001'' ''ManualMemoryManagement''
        ''Manual deallocation via delete or free violates RAII discipline.'' ''error'',
      cpp_rule ''CPP002'' ''DanglingViewLifetime''
        ''Returning non-owning view over local temporary causes dangling reference.'' ''error'',
      cpp_rule ''CPP003'' ''RuleOfFiveIncomplete''
        ''Class with custom destructor fails to define or delete copy/move operations.'' ''warning'',
      cpp_rule ''CPP004'' ''UnmanagedRawPointer''
        ''Raw pointer member or allocation lacks explicit smart pointer ownership.'' ''warning'',
      cpp_rule ''CPP005'' ''UseAfterMove''
        ''Access or method call on moved-from identifier constitutes use-after-move.'' ''error'']"

text \<open>\<open>rule_def["defaultConfiguration"]["level"]\<close>; an id without a rule has the level \<open>warning\<close>.\<close>

definition rule_level :: "string \<Rightarrow> json" where
  "rule_level i = (case map_of SARIF_RULES i of
     None \<Rightarrow> JStr ''warning''
   | Some r \<Rightarrow> (case json_field r ''defaultConfiguration'' of
        None \<Rightarrow> JNull
      | Some c \<Rightarrow> (case json_field c ''level'' of None \<Rightarrow> JNull | Some l \<Rightarrow> l)))"

definition cpp_result :: "cpp_finding \<Rightarrow> json" where
  "cpp_result f = JObj
     [(''ruleId'', JStr (rule_id f)), (''level'', rule_level (rule_id f)),
      (''message'', JObj [(''text'', JStr (cpp_message f))]),
      (''locations'', JArr [JObj [(''physicalLocation'', JObj
         [(''artifactLocation'', JObj [(''uri'', JStr (takeWhile (\<lambda>c. c \<noteq> CHR '':'') (location f)))]),
          (''region'', JObj [(''startLine'', JInt (int (max 1 (line_number f))))])])]]),
      (''properties'', JObj
         [(''severity'', JStr (severity_value (severity f))),
          (''recommendation'', JStr (recommendation f)), (''findingHash'', JStr (finding_hash f))])]"

definition cpp_sarif :: "cpp_summary \<Rightarrow> json" where
  "cpp_sarif s = JObj
     [(''$schema'', JStr ''https://json.schemastore.org/sarif-2.1.0.json''), (''version'', JStr ''2.1.0''),
      (''runs'', JArr [JObj
         [(''tool'', JObj [(''driver'', JObj
            [(''name'', JStr ''vibes-cpp-lifetime-sentinel''),
             (''informationUri'', JStr ''https://github.com/dan-petty/vibes''),
             (''version'', JStr SENTINEL_VERSION), (''rules'', JArr (map snd SARIF_RULES))])]),
          (''results'', JArr (map cpp_result (findings s)))]])]"

text \<open>The value that \<open>export_json\<close> hands to \<open>json.dumps\<close>.\<close>

definition finding_json :: "cpp_finding \<Rightarrow> json" where
  "finding_json f = JObj
     [(''rule_id'', JStr (rule_id f)), (''severity'', JStr (severity_value (severity f))),
      (''message'', JStr (cpp_message f)), (''location'', JStr (location f)),
      (''line_number'', JInt (int (line_number f))), (''recommendation'', JStr (recommendation f))]"

definition cpp_json :: "cpp_summary \<Rightarrow> json" where
  "cpp_json s = JObj
     [(''sentinel_version'', JStr SENTINEL_VERSION), (''total_files'', JInt (int (total_files s))),
      (''total_lines'', JInt (int (total_lines s))), (''total_violations'', JInt (int (total_violations s))),
      (''is_compliant'', JBool (is_compliant s)), (''findings'', JArr (map finding_json (findings s)))]"

fun severity_label :: "cpp_severity \<Rightarrow> string" where
  "severity_label CRITICAL = ''CRITICAL''"
| "severity_label HIGH = ''HIGH''"
| "severity_label MEDIUM = ''MEDIUM''"
| "severity_label LOW = ''LOW''"

definition cpp_row :: "cpp_finding \<Rightarrow> string" where
  "cpp_row f = ''| `'' @ rule_id f @ ''` | **'' @ severity_label (severity f) @ ''** | `'' @ location f @ ''` | ''
     @ cpp_message f @ '' | '' @ recommendation f @ '' |''"

definition cpp_markdown :: "string \<Rightarrow> cpp_summary \<Rightarrow> string" where
  "cpp_markdown tick s = (let status = (if is_compliant s then ''PASSED'' else ''FAILED'') in join_with newline
     ([''# C++ RAII & Lifetime Invariant Audit Report: '' @ status, '''',
       ''- **Audited Files**: '' @ show_nat (total_files s),
       ''- **Total Lines Analyzed**: '' @ show_nat (total_lines s),
       ''- **Total Violations**: '' @ show_nat (total_violations s),
       ''- **Compliance Gate**: `'' @ status @ ''`'', '''']
      @ (if findings s = []
         then [tick @ '' **Zero lifetime or RAII hazards detected.** All C++ contracts strictly enforced.'' @ newline]
         else [''## Lifetime & RAII Findings'', '''', ''| Rule | Severity | Location | Finding | Recommendation |'',
               ''| :--- | :--- | :--- | :--- | :--- |''] @ map cpp_row (findings s) @ [''''])))"

end
