(* ===== verification/Cpp_Props.thy ===== *)
theory Cpp_Props
  imports Cpp_Lifetime
begin

text \<open>
  Properties of the C++ lifetime sentinel: what stripping comments keeps, which findings decide the
  verdict, which uses after a move are reported, and the brace that closes a block.
\<close>

section \<open>Lines\<close>

lemma newlines_append: "newlines_in (a @ b) = newlines_in a + newlines_in b"
  by (simp add: newlines_in_def)

lemma newlines_replacer [simp]: "newlines_in (comment_replacer s) = newlines_in s"
  by (simp add: comment_replacer_def newlines_in_def)

text \<open>Stripping comments keeps the number of line breaks of every source, so that the line numbers of
  the findings are those of the source.\<close>

theorem stripping_keeps_lines: "newlines_in (strip_cpp_comments source) = newlines_in source"
proof -
  have "in_order 0 (find_all comment_rx (codes source)) (length source)"
    using in_order_find_all[of comment_rx "codes source"] by simp
  then show ?thesis unfolding strip_cpp_comments_def
    by (subst sub_from_measure[where \<mu> = newlines_in]) (auto simp: newlines_append text_matched_def)
qed

section \<open>The verdict\<close>

lemma text_search_None: "text_search r s = None \<longleftrightarrow> \<not> text_matches r s"
  unfolding text_search_def text_matches_def matches_def by (rule not_not[symmetric])

lemma cpp001_fires: "check_cpp001_line sha line n fname = None \<longleftrightarrow> \<not> text_matches cpp001_rx line"
  by (auto simp: check_cpp001_line_def Let_def text_search_None[symmetric] split: option.splits)

lemma cpp001_blocking: "check_cpp001_line sha line n fname = Some f \<Longrightarrow> blocking f"
  by (auto simp: check_cpp001_line_def Let_def blocking_def split: option.splits)

lemma cpp002_blocking: "f \<in> set (check_cpp002_dangling_views sha source fname) \<Longrightarrow> blocking f"
  by (auto simp: check_cpp002_dangling_views_def inspect_dangling_func_return_def map_filter_def Let_def blocking_def
      split: if_splits)

lemma cpp003_advisory: "f \<in> set (check_cpp003_rule_of_five sha source fname) \<Longrightarrow> \<not> blocking f"
  by (auto simp: check_cpp003_rule_of_five_def check_rule_of_five_class_def map_filter_def Let_def blocking_def
      split: if_splits)

lemma cpp004_advisory: "check_cpp004_line sha line n fname = Some f \<Longrightarrow> \<not> blocking f"
  by (auto simp: check_cpp004_line_def Let_def blocking_def split: option.splits if_splits)

lemma moved_use_iff:
  "check_moved_var_usage sha line n (v, m) fname \<noteq> None \<longleftrightarrow> m < n \<and> text_matches (use_rx v) line"
  by (simp add: check_moved_var_usage_def Let_def)

lemma moved_use_blocking: "check_moved_var_usage sha line n info fname = Some f \<Longrightarrow> blocking f"
  by (auto simp: check_moved_var_usage_def Let_def blocking_def split: prod.splits if_splits)

lemma line_blocking: "list_ex blocking (audit_line_invariants sha preset line n fname) \<longleftrightarrow> text_matches cpp001_rx line"
proof -
  have "list_ex blocking (if preset \<noteq> RELAXED
      then (case check_cpp004_line sha line n fname of Some f \<Rightarrow> [f] | None \<Rightarrow> []) else []) = False"
    by (auto dest: cpp004_advisory split: option.splits)
  moreover have "list_ex blocking (case check_cpp001_line sha line n fname of Some f \<Rightarrow> [f] | None \<Rightarrow> [])
      \<longleftrightarrow> text_matches cpp001_rx line"
    using cpp001_fires[of sha line n fname] by (auto dest: cpp001_blocking split: option.splits)
  ultimately show ?thesis by (simp add: audit_line_invariants_def)
qed

section \<open>Uses after a move\<close>

lemma drain_result: "drain_from sha line n fname items moved =
    (List.map_filter (\<lambda>i. check_moved_var_usage sha line n i fname) items,
     fold dict_pop (map fst (filter (\<lambda>i. check_moved_var_usage sha line n i fname \<noteq> None) items)) moved)"
  by (induction items arbitrary: moved) (auto simp: map_filter_def split: option.splits)

lemma scan_from_blocking: "f \<in> set (scan_block_from sha ls n fname moved) \<Longrightarrow> blocking f"
  by (induction ls arbitrary: n moved)
     (auto simp: drain_moved_var_findings_def drain_result map_filter_def dest: moved_use_blocking)

lemma cpp005_blocking: "f \<in> set (check_cpp005_use_after_move sha source fname) \<Longrightarrow> blocking f"
  by (auto simp: check_cpp005_use_after_move_def scan_block_for_use_after_move_def dest: scan_from_blocking)

lemma list_ex_all: "(\<And>x. x \<in> set xs \<Longrightarrow> P x) \<Longrightarrow> list_ex P xs \<longleftrightarrow> xs \<noteq> []"
  by (cases xs) (auto simp: list_ex_iff)

lemma audit_blocking: "list_ex blocking (audit_source sha preset source fname) \<longleftrightarrow>
    (let clean = strip_cpp_comments source in
       (\<exists>line\<in>set (py_splitlines clean). text_matches cpp001_rx line)
       \<or> check_cpp002_dangling_views sha clean fname \<noteq> [] \<or> check_cpp005_use_after_move sha clean fname \<noteq> [])"
proof -
  let ?c = "strip_cpp_comments source"
  have "list_ex blocking (concat (map (\<lambda>(n, line). audit_line_invariants sha preset line n fname) (enumerate k ls)))
      \<longleftrightarrow> (\<exists>line\<in>set ls. text_matches cpp001_rx line)" for k ls
    by (induction ls arbitrary: k) (simp_all add: line_blocking)
  moreover have "\<not> list_ex blocking (check_cpp003_rule_of_five sha ?c fname)"
    by (auto simp: list_ex_iff dest: cpp003_advisory)
  ultimately show ?thesis
    by (simp add: audit_source_def Let_def list_ex_all[OF cpp002_blocking] list_ex_all[OF cpp005_blocking])
qed

text \<open>A source passes exactly when no line of it without comments calls for memory by hand, no view of
  a local string is returned and nothing is used after a move. Neither the rule of five nor a raw pointer
  ever matters, so the three presets give the same verdict.\<close>

theorem verdict_of_source: "is_compliant (audit_string sha preset source fname) \<longleftrightarrow>
    (\<forall>line\<in>set (py_splitlines (strip_cpp_comments source)). \<not> text_matches cpp001_rx line)
    \<and> check_cpp002_dangling_views sha (strip_cpp_comments source) fname = []
    \<and> check_cpp005_use_after_move sha (strip_cpp_comments source) fname = []"
  using audit_blocking[of sha preset source fname] by (auto simp: audit_string_def Let_def)

lemma presets_share_verdict:
  "is_compliant (audit_string sha preset source fname) = is_compliant (audit_string sha preset' source fname)"
  by (simp add: audit_string_def audit_blocking Let_def)

lemma standard_is_strict: "audit_source sha STANDARD source fname = audit_source sha STRICT source fname"
  by (simp add: audit_source_def audit_line_invariants_def Let_def)

text \<open>The dictionary of moved names after the first \<open>i\<close> lines: a name is there with its last move, unless
  it has been used since.\<close>

definition moves_at :: "string list \<Rightarrow> string \<Rightarrow> nat \<Rightarrow> bool" where
  "moves_at ls v i \<longleftrightarrow> v \<in> set (moved_names (ls ! i))"

definition uses_at :: "string list \<Rightarrow> string \<Rightarrow> nat \<Rightarrow> bool" where
  "uses_at ls v i \<longleftrightarrow> text_matches (use_rx v) (ls ! i)"

definition still_moved :: "string list \<Rightarrow> string \<Rightarrow> nat \<Rightarrow> nat \<Rightarrow> bool" where
  "still_moved ls v i m \<longleftrightarrow> m < i \<and> moves_at ls v m \<and> (\<forall>k. m < k \<longrightarrow> k < i \<longrightarrow> \<not> moves_at ls v k \<and> \<not> uses_at ls v k)"

definition moved_after :: "string list \<Rightarrow> nat \<Rightarrow> nat \<Rightarrow> (string, nat) dict \<Rightarrow> bool" where
  "moved_after ls start i moved \<longleftrightarrow> wf_dict moved \<and>
     (\<forall>v n. dict_get moved v = Some n \<longleftrightarrow> (\<exists>m. n = start + m \<and> still_moved ls v i m))"

lemma get_record: "dict_get (fold (\<lambda>v. dict_set v n) vs d) v = (if v \<in> set vs then Some n else dict_get d v)"
  by (induction vs arbitrary: d) auto

lemma wf_record: "wf_dict d \<Longrightarrow> wf_dict (fold (\<lambda>v. dict_set v n) vs d)"
  by (induction vs arbitrary: d) (auto intro: alist_dict.inv_set)

lemma still_moved_Suc: "still_moved ls v (Suc i) m \<longleftrightarrow>
    (m = i \<and> moves_at ls v i) \<or> (still_moved ls v i m \<and> \<not> moves_at ls v i \<and> \<not> uses_at ls v i)"
  by (auto simp: still_moved_def less_Suc_eq)

lemma still_moved_unique: "still_moved ls v i m \<Longrightarrow> still_moved ls v i m' \<Longrightarrow> m = m'"
  unfolding still_moved_def by (meson linorder_neqE_nat)

lemma moved_after_record:
  assumes "moved_after ls start i moved"
  shows "dict_get (record_moves (ls ! i) (start + i) moved) v = Some n \<longleftrightarrow>
      (\<exists>m. n = start + m \<and> (m = i \<and> moves_at ls v i \<or> still_moved ls v i m \<and> \<not> moves_at ls v i))"
    and "wf_dict (record_moves (ls ! i) (start + i) moved)"
  using assms by (auto simp: moved_after_def record_moves_def get_record wf_record moves_at_def)

lemma moved_after_drain:
  assumes "moved_after ls start i moved"
  shows "moved_after ls start (Suc i)
    (snd (drain_moved_var_findings sha (ls ! i) (start + i) (record_moves (ls ! i) (start + i) moved) fname))"
proof -
  let ?d = "record_moves (ls ! i) (start + i) moved"
  let ?hit = "\<lambda>info. check_moved_var_usage sha (ls ! i) (start + i) info fname \<noteq> None"
  let ?d' = "fold dict_pop (map fst (filter ?hit ?d)) ?d"
  note rec = moved_after_record[OF assms]
  have hit: "v \<in> set (map fst (filter ?hit ?d)) \<longleftrightarrow>
      (\<exists>m. still_moved ls v i m) \<and> \<not> moves_at ls v i \<and> uses_at ls v i" for v
  proof -
    have "v \<in> set (map fst (filter ?hit ?d)) \<longleftrightarrow> (\<exists>n. dict_get ?d v = Some n \<and> n < start + i \<and> uses_at ls v i)"
      unfolding dict_get_iff[OF rec(2)] uses_at_def by (force simp: moved_use_iff image_iff simp del: not_None_eq)
    also have "\<dots> \<longleftrightarrow> (\<exists>m. still_moved ls v i m) \<and> \<not> moves_at ls v i \<and> uses_at ls v i"
      unfolding rec(1) by (auto simp: still_moved_def)
    finally show ?thesis .
  qed
  have "dict_get ?d' v = Some n \<longleftrightarrow> (\<exists>m. n = start + m \<and> still_moved ls v (Suc i) m)" for v n
    unfolding alist_dict.fold_pop_get[OF rec(2)] hit still_moved_Suc using rec(1)[of v n] by auto
  then show ?thesis
    unfolding drain_moved_var_findings_def drain_result moved_after_def
    using alist_dict.fold_pop_inv[OF rec(2)] by simp
qed

text \<open>What a line reports: the names whose last move is before it and that have not been used in between.\<close>

lemma drain_findings:
  assumes "moved_after ls start i moved"
  shows "f \<in> set (fst (drain_moved_var_findings sha (ls ! i) (start + i) (record_moves (ls ! i) (start + i) moved) fname))
    \<longleftrightarrow> (\<exists>v m. still_moved ls v i m \<and> \<not> moves_at ls v i
          \<and> check_moved_var_usage sha (ls ! i) (start + i) (v, start + m) fname = Some f)"
proof -
  note rec = moved_after_record[OF assms]
  have "f \<in> set (fst (drain_moved_var_findings sha (ls ! i) (start + i) (record_moves (ls ! i) (start + i) moved) fname))
    \<longleftrightarrow> (\<exists>v n. dict_get (record_moves (ls ! i) (start + i) moved) v = Some n
          \<and> check_moved_var_usage sha (ls ! i) (start + i) (v, n) fname = Some f)"
    unfolding drain_moved_var_findings_def drain_result dict_get_iff[OF rec(2)]
    by (auto simp: map_filter_def image_iff) force+
  also have "\<dots> \<longleftrightarrow> (\<exists>v m. still_moved ls v i m \<and> \<not> moves_at ls v i
          \<and> check_moved_var_usage sha (ls ! i) (start + i) (v, start + m) fname = Some f)"
    unfolding rec(1) using moved_use_iff[of sha "ls ! i" "start + i" _ "start + i" fname] by auto
  finally show ?thesis .
qed

lemma scan_findings:
  assumes "moved_after ls start i moved"
  shows "f \<in> set (scan_block_from sha (drop i ls) (start + i) fname moved) \<longleftrightarrow>
    (\<exists>j v m. i \<le> j \<and> j < length ls \<and> still_moved ls v j m \<and> \<not> moves_at ls v j
       \<and> check_moved_var_usage sha (ls ! j) (start + j) (v, start + m) fname = Some f)"
  using assms
proof (induction "length ls - i" arbitrary: i moved)
  case (Suc k)
  then have i: "i < length ls" by simp
  let ?r = "drain_moved_var_findings sha (ls ! i) (start + i) (record_moves (ls ! i) (start + i) moved) fname"
  have "f \<in> set (scan_block_from sha (drop i ls) (start + i) fname moved) \<longleftrightarrow>
      f \<in> set (fst ?r) \<or> f \<in> set (scan_block_from sha (drop (Suc i) ls) (start + Suc i) fname (snd ?r))"
    using i by (simp add: Cons_nth_drop_Suc[symmetric] case_prod_beta Let_def)
  moreover note drain_findings[OF Suc.prems]
  moreover have "f \<in> set (scan_block_from sha (drop (Suc i) ls) (start + Suc i) fname (snd ?r)) \<longleftrightarrow>
      (\<exists>j v m. Suc i \<le> j \<and> j < length ls \<and> still_moved ls v j m \<and> \<not> moves_at ls v j
         \<and> check_moved_var_usage sha (ls ! j) (start + j) (v, start + m) fname = Some f)"
    by (rule Suc.hyps(1)[OF _ moved_after_drain[OF Suc.prems]]) (use Suc.hyps(2) in simp)
  ultimately show ?case using i by (metis Suc_le_eq le_eq_less_or_eq)
qed auto

text \<open>C28: A use after a move is reported exactly for the first use of a name on a line after its last move: no
  line between them moves it again or uses it, and the line of the use does not move it.\<close>

theorem use_after_move_reported_iff:
  "f \<in> set (scan_block_for_use_after_move sha ls start fname) \<longleftrightarrow>
    (\<exists>v m j. m < j \<and> j < length ls \<and> v \<in> set (moved_names (ls ! m))
       \<and> (\<forall>k\<in>{m<..j}. v \<notin> set (moved_names (ls ! k)))
       \<and> (\<forall>k\<in>{m<..<j}. \<not> text_matches (use_rx v) (ls ! k))
       \<and> check_moved_var_usage sha (ls ! j) (start + j) (v, start + m) fname = Some f)"
proof -
  have "moved_after ls start 0 []" by (simp add: moved_after_def still_moved_def)
  note scan = scan_findings[OF this, of f sha fname]
  then have "f \<in> set (scan_block_for_use_after_move sha ls start fname) \<longleftrightarrow>
      (\<exists>v m j. (still_moved ls v j m \<and> \<not> moves_at ls v j) \<and> j < length ls
         \<and> check_moved_var_usage sha (ls ! j) (start + j) (v, start + m) fname = Some f)"
    unfolding scan_block_for_use_after_move_def by auto
  moreover have "still_moved ls v j m \<and> \<not> moves_at ls v j \<longleftrightarrow> m < j \<and> v \<in> set (moved_names (ls ! m))
      \<and> (\<forall>k\<in>{m<..j}. v \<notin> set (moved_names (ls ! k))) \<and> (\<forall>k\<in>{m<..<j}. \<not> text_matches (use_rx v) (ls ! k))" for v j m
    by (auto simp: still_moved_def moves_at_def uses_at_def le_less)
  ultimately show ?thesis by (simp add: ac_simps)
qed

lemma use_after_move_reported_witness:
  "the (check_moved_var_usage id ''a.run();'' 3 (''a'', 1) ''m'')
     \<in> set (scan_block_for_use_after_move id [''g(std::move(a));'', ''h();'', ''a.run();''] 1 ''m'')"
proof -
  let ?ls = "[''g(std::move(a));'', ''h();'', ''a.run();'']"
  have range: "{0<..2} = {1, 2::nat}" "{0<..<2} = {1::nat}" by auto
  have names: "moved_names ''g(std::move(a));'' = [''a'']" "moved_names ''h();'' = []" "moved_names ''a.run();'' = []"
    by code_simp+
  have uses: "\<not> text_matches (use_rx ''a'') ''h();''" "text_matches (use_rx ''a'') ''a.run();''" by code_simp+
  have use: "check_moved_var_usage id ''a.run();'' 3 (''a'', 1) ''m''
      = Some (the (check_moved_var_usage id ''a.run();'' 3 (''a'', 1) ''m''))"
    using uses(2) by (simp add: check_moved_var_usage_def Let_def)
  show ?thesis unfolding use_after_move_reported_iff
  proof (intro exI conjI)
    show "check_moved_var_usage id (?ls ! 2) (1 + 2) (''a'', 1 + 0) ''m''
        = Some (the (check_moved_var_usage id ''a.run();'' 3 (''a'', 1) ''m''))"
      using use by (simp add: numeral_3_eq_3)
  qed (simp_all add: range names uses)
qed

section \<open>Braces\<close>

definition brace_depth :: "string \<Rightarrow> int" where
  "brace_depth s = sum_list (map brace_delta s)"

lemma brace_depth_append: "brace_depth (a @ b) = brace_depth a + brace_depth b"
  by (simp add: brace_depth_def)

lemma ex_from_zero: "(\<exists>n. P n) \<longleftrightarrow> P 0 \<or> (\<exists>n. P (Suc n))"
  by (metis not0_implies_Suc)

lemma matching_brace_from_iff: "matching_brace_from cs i depth = Some j \<longleftrightarrow>
    (\<exists>n. j = i + n \<and> n < length cs \<and> depth + brace_depth (take (Suc n) cs) = 0
       \<and> (\<forall>k<n. depth + brace_depth (take (Suc k) cs) \<noteq> 0))"
proof (induction cs arbitrary: i depth)
  case (Cons c cs)
  show ?case
  proof (cases "depth + brace_delta c = 0")
    case True
    then show ?thesis by (auto simp: brace_depth_def dest: spec[of _ 0])
  next
    case False
    have "(\<exists>n. j = i + n \<and> n < length (c # cs) \<and> depth + brace_depth (take (Suc n) (c # cs)) = 0
          \<and> (\<forall>k<n. depth + brace_depth (take (Suc k) (c # cs)) \<noteq> 0)) \<longleftrightarrow>
        (\<exists>n. j = Suc i + n \<and> n < length cs \<and> depth + brace_delta c + brace_depth (take (Suc n) cs) = 0
          \<and> (\<forall>k<n. depth + brace_delta c + brace_depth (take (Suc k) cs) \<noteq> 0))" (is "(\<exists>n. ?P n) \<longleftrightarrow> (\<exists>n. ?Q n)")
    proof -
      have z: "?P 0 = False" using False by (simp add: brace_depth_def)
      have n: "?P (Suc n) = ?Q n" for n
        using False by (auto simp: brace_depth_def All_less_Suc2 add.assoc)
      have "(\<exists>n. ?P n) \<longleftrightarrow> ?P 0 \<or> (\<exists>n. ?P (Suc n))" by (rule ex_from_zero)
      then show ?thesis unfolding z n by simp
    qed
    then show ?thesis using False Cons.IH by simp
  qed
qed simp

lemma shifted_all: "i \<le> j \<Longrightarrow> (\<forall>k<j - i. P k) \<longleftrightarrow> (\<forall>k. i \<le> k \<longrightarrow> k < j \<longrightarrow> P (k - i))" for i j :: nat
  by (metis diff_add_inverse diff_less_mono le_add1 less_diff_conv add.commute)

text \<open>The brace found for an opening brace: the first place after it at which the braces balance.\<close>

lemma matching_brace_iff: "find_matching_brace source i = Some j \<longleftrightarrow>
    i \<le> j \<and> j < length source \<and> brace_depth (slice source i (Suc j)) = 0
      \<and> (\<forall>k. i \<le> k \<longrightarrow> k < j \<longrightarrow> brace_depth (slice source i (Suc k)) \<noteq> 0)"
proof (cases "i \<le> j \<and> j < length source")
  case True
  have "find_matching_brace source i = Some j \<longleftrightarrow> brace_depth (take (Suc (j - i)) (drop i source)) = 0
      \<and> (\<forall>k<j - i. brace_depth (take (Suc k) (drop i source)) \<noteq> 0)"
    unfolding find_matching_brace_def matching_brace_from_iff using True by (auto intro!: exI[of _ "j - i"])
  also have "\<dots> \<longleftrightarrow> brace_depth (take (Suc (j - i)) (drop i source)) = 0
      \<and> (\<forall>k. i \<le> k \<longrightarrow> k < j \<longrightarrow> brace_depth (take (Suc (k - i)) (drop i source)) \<noteq> 0)"
    unfolding shifted_all[OF conjunct1[OF True], of "\<lambda>k. brace_depth (take (Suc k) (drop i source)) \<noteq> 0"] ..
  finally show ?thesis using True by (simp add: slice_def Suc_diff_le)
qed (auto simp: find_matching_brace_def matching_brace_from_iff)

section \<open>Deleted operations\<close>

lemma word_edge: "latin_word (codes s ! i) \<noteq> latin_word (codes s ! Suc i) \<Longrightarrow> Suc i < length s
    \<Longrightarrow> (Suc i, Suc i) \<in> spans (codes s) latin_boundary"
  by (auto simp: latin_boundary_def boundary_def word_at_def)

lemma codes_nth: "i < length s \<Longrightarrow> codes s ! i = of_char (s ! i)"
  by (simp add: codes_def)

lemma deleted_text_matches: "text_matches cpp001_rx (a @ '' delete;'' @ b)"
proof -
  let ?s = "a @ '' delete;'' @ b" and ?n = "length a"
  let ?t = "codes ?s"
  have at: "codes ?s ! (?n + k) = of_char ('' delete;'' ! k)" if "k < 8" for k
    using that by (subst codes_nth, simp, subst nth_append_length_plus, subst nth_append) simp
  have v: "codes ?s ! ?n = 32" "codes ?s ! Suc ?n = 100" "codes ?s ! (?n + 6) = 101" "codes ?s ! Suc (?n + 6) = 59"
    using at[of 0] at[of 1] at[of 6] at[of 7] by (simp_all del: codes_append add: eval_nat_numeral)
  have w: "latin_word 32 = False" "latin_word 100 = True" "latin_word 101 = True" "latin_word 59 = False" by code_simp+
  have first: "(Suc ?n, Suc ?n) \<in> spans ?t latin_boundary"
    by (rule word_edge) (simp only: v w simp_thms, simp)
  have "(Suc (?n + 6), Suc (?n + 6)) \<in> spans ?t latin_boundary"
    by (rule word_edge) (simp only: v w simp_thms, simp)
  moreover have "(Suc ?n, Suc (?n + 6)) \<in> spans ?t (ulit ''delete'')"
  proof -
    have "slice ?t (Suc ?n) (Suc (?n + 6)) = codes ''delete''"
      by (simp add: slice_def codes_def)
    then show ?thesis unfolding ulit_def spans_lit by simp
  qed
  ultimately have "(Suc ?n, Suc (?n + 6)) \<in> spans ?t (Cat (ulit ''delete'') latin_boundary)" by auto
  with first have "(Suc ?n, Suc (?n + 6)) \<in> spans ?t cpp001_rx"
    by (auto simp: cpp001_rx_def spans_alts)
  then show ?thesis unfolding text_matches_def matches_iff
    by (intro exI[of _ "Suc ?n"] exI[of _ "Suc (?n + 6)"]) simp
qed

text \<open>A class that deletes a special member, as the rule of five recommends, fails the audit under every
  preset: the line is taken for a call of \<open>delete\<close>.\<close>

theorem deleted_member_fails:
  assumes "a @ ''= delete;'' @ b \<in> set (py_splitlines (strip_cpp_comments source))"
  shows "\<not> is_compliant (audit_string sha preset source fname)"
proof -
  have "a @ ''= delete;'' @ b = (a @ ''='') @ '' delete;'' @ b" by simp
  then have "text_matches cpp001_rx (a @ ''= delete;'' @ b)" using deleted_text_matches by metis
  then show ?thesis using assms verdict_of_source by blast
qed

lemma deleted_member_fails_witness:
  "\<not> is_compliant (audit_string id RELAXED ''A(const A&) = delete; // no copies'' ''a.h'')"
  by (rule deleted_member_fails[where a = "''A(const A&) ''" and b = "'' ''"]) code_simp

section \<open>What the rules miss\<close>

text \<open>A variable that is assigned anew after the move, as the recommendation says, is still reported.\<close>

lemma reassigned_still_reported:
  "map line_number (scan_block_for_use_after_move id [''g(std::move(a));'', ''a = A();'', ''a.run();''] 1 ''m'') = [3]"
  by code_simp

text \<open>A return in a function whose signature takes two lines is reported one line too early: here the line
  of \<open>return\<close> is the third.\<close>

lemma multiline_signature_misplaced:
  "map line_number (check_cpp002_dangling_views id
     (''std::string_view f('' @ newline @ ''int x) { std::string s;'' @ newline @ ''return s; }'') ''m'') = [2]"
  by code_simp

text \<open>The body of an \<open>else if\<close> is also taken for a function: its findings are counted twice.\<close>

lemma else_if_counted_twice:
  "map line_number (check_cpp005_use_after_move id
     (''int f() { else if (y) {'' @ newline @ ''g(std::move(a));'' @ newline @ ''a.run(); } }'') ''m'') = [3, 3]"
  by code_simp

text \<open>A closing brace inside a string literal ends the function for the rules.\<close>

lemma brace_in_literal_ends_block:
  "find_matching_brace (''{ p('' @ [CHR 0x22] @ ''}'' @ [CHR 0x22] @ ''); }'') 0 = Some 5"
  by code_simp

end
