(* ===== verification/Sentinel_Rules.thy ===== *)
theory Sentinel_Rules
  imports Py_Json Text_Search
begin

text \<open>
  \<open>examples/ast-invariant-sentinel/sentinel.py\<close>, its rules, presets and configuration. \<open>tomllib.loads\<close> is
  the parameter \<open>toml\<close>: \<open>None\<close> where it raises.
\<close>

section \<open>Violations\<close>

record violation =
  file_path :: string
  line_number :: nat
  invariant :: string
  violation_text :: string
  metric_value :: "nat option"
  threshold :: "int option"

record audit_report =
  files_checked :: nat
  py_files_checked :: nat
  polyglot_files_checked :: nat
  violations :: "violation list"

definition empty_report :: audit_report where
  "empty_report = \<lparr>files_checked = 0, py_files_checked = 0, polyglot_files_checked = 0, violations = []\<rparr>"

definition is_clean :: "audit_report \<Rightarrow> bool" where
  "is_clean r \<longleftrightarrow> length (violations r) = 0"

section \<open>Rules\<close>

definition ALL_INVARIANT_RULES :: "string set" where
  "ALL_INVARIANT_RULES = {''CyclomaticComplexity'', ''NestingDepth'', ''ZeroTrustSanitization'', ''SyntaxIntegrity'',
     ''TargetIntegrity'', ''WaiverIntegrity''}"

definition RULE_ALIASES :: "(string \<times> string) list" where
  "RULE_ALIASES =
     [(''cyclomaticcomplexity'', ''CyclomaticComplexity''), (''complexity'', ''CyclomaticComplexity''),
      (''c901'', ''CyclomaticComplexity''), (''cc001'', ''CyclomaticComplexity''),
      (''nestingdepth'', ''NestingDepth''), (''nesting'', ''NestingDepth''), (''nd001'', ''NestingDepth''),
      (''zerotrustsanitization'', ''ZeroTrustSanitization''), (''sanitization'', ''ZeroTrustSanitization''),
      (''security'', ''ZeroTrustSanitization''), (''zt001'', ''ZeroTrustSanitization''),
      (''s101'', ''ZeroTrustSanitization''),
      (''syntaxintegrity'', ''SyntaxIntegrity''), (''syntax'', ''SyntaxIntegrity''), (''si001'', ''SyntaxIntegrity''),
      (''targetintegrity'', ''TargetIntegrity''), (''targets'', ''TargetIntegrity''), (''ti001'', ''TargetIntegrity''),
      (''waiverintegrity'', ''WaiverIntegrity''), (''waivers'', ''WaiverIntegrity''), (''wi001'', ''WaiverIntegrity'')]"

definition normalize_rule_name :: "string \<Rightarrow> string" where
  "normalize_rule_name nm = (case map_of RULE_ALIASES (py_lower (py_strip nm)) of
     Some c \<Rightarrow> c | None \<Rightarrow> py_strip nm)"

record rule_preset =
  preset_title :: string
  description :: string
  preset_complexity :: int
  preset_depth :: int
  preset_rules :: "string set"

definition STANDARD_PRESET :: rule_preset where
  "STANDARD_PRESET = \<lparr>preset_title = ''standard'',
     description = ''Standard baseline invariants (M <= 10, depth <= 5, zero-trust sanitization)'',
     preset_complexity = 10, preset_depth = 5, preset_rules = ALL_INVARIANT_RULES\<rparr>"

definition PRESETS :: "rule_preset list" where
  "PRESETS =
     [STANDARD_PRESET,
      \<lparr>preset_title = ''strict'',
       description = ''Strict proactive headroom invariants (M <= 6, depth <= 3, zero-trust sanitization)'',
       preset_complexity = 6, preset_depth = 3, preset_rules = ALL_INVARIANT_RULES\<rparr>,
      \<lparr>preset_title = ''pedantic'',
       description = ''Pedantic ultra-compact invariants for critical concurrency/functional kernels (M <= 4, depth <= 2)'',
       preset_complexity = 4, preset_depth = 2, preset_rules = ALL_INVARIANT_RULES\<rparr>,
      \<lparr>preset_title = ''relaxed'',
       description = ''Relaxed migration thresholds for legacy codebases (M <= 15, depth <= 6)'',
       preset_complexity = 15, preset_depth = 6, preset_rules = ALL_INVARIANT_RULES\<rparr>,
      \<lparr>preset_title = ''security_only'',
       description = ''Zero-trust egress and sanitization audit only; complexity/nesting ignored'',
       preset_complexity = 999, preset_depth = 99,
       preset_rules = {''ZeroTrustSanitization'', ''SyntaxIntegrity'', ''TargetIntegrity'', ''WaiverIntegrity''}\<rparr>,
      \<lparr>preset_title = ''structural_only'',
       description = ''Structural AST complexity and nesting depth audit only; sanitization ignored'',
       preset_complexity = 10, preset_depth = 5,
       preset_rules = {''CyclomaticComplexity'', ''NestingDepth'', ''SyntaxIntegrity'', ''TargetIntegrity''}\<rparr>]"

definition preset_of :: "string \<Rightarrow> rule_preset" where
  "preset_of nm = (case List.find (\<lambda>p. preset_title p = nm) PRESETS of Some p \<Rightarrow> p | None \<Rightarrow> STANDARD_PRESET)"

section \<open>Configuration\<close>

record sentinel_config =
  preset_name :: string
  max_complexity :: int
  max_depth :: int
  active_rules :: "string set"
  selected_rules :: "string set"
  ignored_rules :: "string set"
  extended_rules :: "string set"

definition default_config :: sentinel_config where
  "default_config = \<lparr>preset_name = ''standard'', max_complexity = 10, max_depth = 5, active_rules = ALL_INVARIANT_RULES,
     selected_rules = {}, ignored_rules = {}, extended_rules = {}\<rparr>"

definition is_rule_active :: "sentinel_config \<Rightarrow> string \<Rightarrow> bool" where
  "is_rule_active cfg r \<longleftrightarrow> normalize_rule_name r \<in> active_rules cfg"

text \<open>What \<open>read_text\<close> of a file gives: its text, an \<open>OSError\<close>, or a \<open>UnicodeDecodeError\<close> with its text.\<close>

datatype file_read = Readable string | Unreadable string | Undecodable string

record toml_file =
  toml_name :: string
  toml_content :: file_read

record config_overrides =
  o_preset :: "string option"
  o_complexity :: "int option"
  o_depth :: "int option"
  o_select :: "string list option"
  o_ignore :: "string list option"
  o_extend :: "string list option"
  o_config :: "toml_file option option"

definition no_overrides :: config_overrides where
  "no_overrides = \<lparr>o_preset = None, o_complexity = None, o_depth = None, o_select = None, o_ignore = None, o_extend = None,
     o_config = None\<rparr>"

text \<open>The directory of the process and those above it, each with its \<open>pyproject.toml\<close> and \<open>sentinel.toml\<close>.\<close>

fun find_default_config :: "(toml_file option \<times> toml_file option) list \<Rightarrow> toml_file option" where
  "find_default_config [] = None"
| "find_default_config ((pyproject, sentinel_toml) # dirs) = (case pyproject of
     Some f \<Rightarrow> Some f
   | None \<Rightarrow> (case sentinel_toml of Some f \<Rightarrow> Some f | None \<Rightarrow> find_default_config dirs))"

text \<open>\<open>dict(v)\<close>; a key that is no string is of no use to the readers of the result.\<close>

definition pair_of :: "json \<Rightarrow> (string \<times> json) list py" where
  "pair_of v = result_bind (py_iter v) (\<lambda>xs. case xs of
     [JStr k, x] \<Rightarrow> Inr [(k, x)]
   | [JArr _, x] \<Rightarrow> Inl Type_Error
   | [JObj _, x] \<Rightarrow> Inl Type_Error
   | [_, x] \<Rightarrow> Inr []
   | _ \<Rightarrow> Inl (Value_Error ''dictionary update sequence''))"

definition py_dict :: "json \<Rightarrow> (string, json) dict py" where
  "py_dict v = (case v of
     JObj kvs \<Rightarrow> Inr kvs
   | _ \<Rightarrow> result_bind (py_iter v) (\<lambda>xs. result_bind (map_result pair_of xs) (\<lambda>ps.
       Inr (fold (\<lambda>(k, x). dict_set k x) (concat ps) []))))"

definition load_toml_config :: "(string \<Rightarrow> (string, json) dict option) \<Rightarrow> (toml_file option \<times> toml_file option) list
    \<Rightarrow> toml_file option option \<Rightarrow> (string, json) dict py" where
  "load_toml_config toml dirs path =
     (case (case path of None \<Rightarrow> find_default_config dirs | Some f \<Rightarrow> f) of
        None \<Rightarrow> Inr []
      | Some f \<Rightarrow> (case toml_content f of
          Unreadable e \<Rightarrow> Inr []
        | Undecodable e \<Rightarrow> Inl Decode_Error
        | Readable s \<Rightarrow> (case toml s of
            None \<Rightarrow> Inr []
          | Some data \<Rightarrow>
              if toml_name f = ''pyproject.toml''
              then result_bind (py_get (field_or data ''tool'' (JObj [])) ''sentinel'' (JObj [])) py_dict
              else Inr data)))"

definition split_csv_tokens :: "string \<Rightarrow> string list" where
  "split_csv_tokens s = map py_strip (filter (\<lambda>t. py_strip t \<noteq> '''') (py_split '','' s))"

definition parse_rule_sequence :: "json \<Rightarrow> string list" where
  "parse_rule_sequence raw = (case raw of
     JStr s \<Rightarrow> split_csv_tokens s
   | JArr xs \<Rightarrow> map (\<lambda>x. py_strip (json_str x)) (filter (\<lambda>x. py_strip (json_str x) \<noteq> '''') xs)
   | _ \<Rightarrow> [])"

definition normalize_rule_set :: "string list \<Rightarrow> string set" where
  "normalize_rule_set rs = normalize_rule_name ` set rs"

definition resolve_active_rules :: "rule_preset \<Rightarrow> string list \<Rightarrow> string list \<Rightarrow> string list \<Rightarrow> string set" where
  "resolve_active_rules preset select ext ignore =
     (let base = (if select \<noteq> [] then normalize_rule_set select else preset_rules preset);
          base = (if ext \<noteq> [] then base \<union> normalize_rule_set ext else base) in
      if ignore \<noteq> [] then base - normalize_rule_set ignore else base)"

text \<open>A Boolean is an \<open>int\<close> to Python.\<close>

definition extract_threshold :: "int option \<Rightarrow> json \<Rightarrow> int \<Rightarrow> int" where
  "extract_threshold override v dflt = (case override of
     Some n \<Rightarrow> n
   | None \<Rightarrow> (case v of JInt i \<Rightarrow> i | JBool b \<Rightarrow> (if b then 1 else 0) | _ \<Rightarrow> dflt))"

definition pick_raw_sequence :: "string list option \<Rightarrow> json \<Rightarrow> json" where
  "pick_raw_sequence override v = (case override of Some rs \<Rightarrow> JArr (map JStr rs) | None \<Rightarrow> v)"

definition resolve_preset_name :: "string option \<Rightarrow> json \<Rightarrow> string" where
  "resolve_preset_name override v = (case override of
     Some nm \<Rightarrow> nm | None \<Rightarrow> (case v of JStr s \<Rightarrow> s | _ \<Rightarrow> ''standard''))"

definition config_of :: "config_overrides \<Rightarrow> (string, json) dict \<Rightarrow> sentinel_config" where
  "config_of opts data =
     (let field = (\<lambda>k. field_or data k JNull);
          preset = preset_of (resolve_preset_name (o_preset opts) (field ''preset''));
          select = parse_rule_sequence (pick_raw_sequence (o_select opts) (field ''select''));
          ext = parse_rule_sequence (pick_raw_sequence (o_extend opts) (field ''extend_select''));
          ignore = parse_rule_sequence (pick_raw_sequence (o_ignore opts) (field ''ignore'')) in
      \<lparr>preset_name = preset_title preset,
       max_complexity = extract_threshold (o_complexity opts) (field ''max_complexity'') (preset_complexity preset),
       max_depth = extract_threshold (o_depth opts) (field ''max_depth'') (preset_depth preset),
       active_rules = resolve_active_rules preset select ext ignore,
       selected_rules = normalize_rule_set select, ignored_rules = normalize_rule_set ignore,
       extended_rules = normalize_rule_set ext\<rparr>)"

definition resolve_config :: "(string \<Rightarrow> (string, json) dict option) \<Rightarrow> (toml_file option \<times> toml_file option) list
    \<Rightarrow> config_overrides \<Rightarrow> sentinel_config py" where
  "resolve_config toml dirs opts =
     result_bind (load_toml_config toml dirs (o_config opts)) (\<lambda>data. Inr (config_of opts data))"

definition rule_description :: "rule_preset \<Rightarrow> string" where
  "rule_description p = (if preset_rules p = ALL_INVARIANT_RULES then show_nat (card (preset_rules p)) @ '' rules''
     else join_with '', '' (sorted_list_of_set (preset_rules p)))"

definition render_presets_table :: string where
  "render_presets_table = (let le = [CHR 0x5C] @ ''le '' in join_with newline
     ([''| Preset Name | Complexity ($M$) | Max Depth | Active Invariant Rules | Description |'', ''|---|---|---|---|---|'']
      @ map (\<lambda>p. ''| `'' @ preset_title p @ ''` | $'' @ le @ show_int (preset_complexity p) @ ''$ | $'' @ le
          @ show_int (preset_depth p) @ ''$ | '' @ rule_description p @ '' | '' @ description p @ '' |'') PRESETS))"

text \<open>The options of the command line that carry lists.\<close>

definition split_cli_csv :: "string option \<Rightarrow> string list option" where
  "split_cli_csv raw = map_option split_csv_tokens raw"

end
