(* ===== verification/Sentinel_Audit.thy ===== *)
theory Sentinel_Audit
  imports Sentinel_Rules Address_Policy Ast_Tree Py_Unicode
begin

text \<open>
  \<open>examples/ast-invariant-sentinel/sentinel.py\<close>, the audit: the visitors over Python trees, the waivers of
  a module header, the audit of other languages by patterns and braces, and the targets of a run. The
  addresses are those of \<open>Address_Policy\<close>. \<open>ast.parse\<close> is the parameter \<open>parse\<close>, which gives the line and
  text of a \<open>SyntaxError\<close> or a tree; \<open>tokens\<close> are the tokens that \<open>tokenize\<close> yields before it fails;
  \<open>dash\<close> is a character for the em dash, which is no code point of the model.
\<close>

section \<open>Trees\<close>

text \<open>What the visitors read of a node: its class, the fields of its weight, and its place in the
  \<open>body\<close> of its parent.\<close>

record node_label =
  node_class :: string
  has_orelse :: bool
  ifs_count :: nat
  values_count :: nat
  is_wildcard :: bool
  in_body :: bool
  node_name :: string
  lineno :: nat
  string_value :: "string option"

type_synonym py_node = "node_label tree"

definition loop_weight :: "node_label \<Rightarrow> nat" where
  "loop_weight n = 1 + (if has_orelse n then 1 else 0)"

definition try_weight :: "node_label \<Rightarrow> nat" where
  "try_weight n = (if has_orelse n then 1 else 0)"

definition comprehension_weight :: "node_label \<Rightarrow> nat" where
  "comprehension_weight n = 1 + ifs_count n"

definition match_case_weight :: "node_label \<Rightarrow> nat" where
  "match_case_weight n = (if is_wildcard n then 0 else 1)"

definition boolop_weight :: "node_label \<Rightarrow> nat" where
  "boolop_weight n = values_count n - 1"

definition WEIGHTS :: "(string \<times> (node_label \<Rightarrow> nat)) list" where
  "WEIGHTS =
     [(''While'', loop_weight), (''For'', loop_weight), (''AsyncFor'', loop_weight), (''Try'', try_weight),
      (''TryStar'', try_weight), (''comprehension'', comprehension_weight), (''match_case'', match_case_weight),
      (''BoolOp'', boolop_weight), (''If'', \<lambda>_. 1), (''IfExp'', \<lambda>_. 1), (''ExceptHandler'', \<lambda>_. 1), (''Assert'', \<lambda>_. 1)]"

definition ast_node_complexity :: "node_label \<Rightarrow> nat" where
  "ast_node_complexity n = (case map_of WEIGHTS (node_class n) of Some w \<Rightarrow> w n | None \<Rightarrow> 0)"

definition calculate_complexity :: "py_node \<Rightarrow> nat" where
  "calculate_complexity t = 1 + sum_list (map (\<lambda>c. ast_node_complexity (label c)) (tree_walk t))"

definition nesting_node_types :: "string list" where
  "nesting_node_types = [''If'', ''While'', ''For'', ''AsyncFor'', ''With'', ''AsyncWith'', ''Try'', ''ExceptHandler'', ''TryStar'',
     ''Match'', ''match_case'']"

definition opens_block :: "node_label \<Rightarrow> bool" where
  "opens_block n \<longleftrightarrow> node_class n \<in> set nesting_node_types"

definition body_of :: "py_node \<Rightarrow> py_node list" where
  "body_of t = filter (\<lambda>c. in_body (label c)) (subtrees t)"

definition calculate_max_nesting :: "py_node \<Rightarrow> nat" where
  "calculate_max_nesting t = foldl (\<lambda>m s. max m (deepest opens_block s 1)) 0 (body_of t)"

definition exceeded :: "string \<Rightarrow> nat \<Rightarrow> string \<Rightarrow> string \<Rightarrow> string \<Rightarrow> nat \<Rightarrow> int \<Rightarrow> violation" where
  "exceeded path line rule entity what n limit =
     \<lparr>file_path = path, line_number = line, invariant = rule,
      violation_text = entity @ '' has '' @ what @ '' of '' @ show_nat n @ '' (limit: '' @ show_int limit @ '').'',
      metric_value = Some n, threshold = Some limit\<rparr>"

definition function_entity :: "string \<Rightarrow> string" where
  "function_entity nm = ''Function '' @ [CHR 0x27] @ nm @ [CHR 0x27]"

definition audit_function :: "string \<Rightarrow> sentinel_config \<Rightarrow> py_node \<Rightarrow> violation list" where
  "audit_function path cfg t =
     (let complexity = calculate_complexity t; depth = calculate_max_nesting t; n = label t in
      (if int complexity > max_complexity cfg
       then [exceeded path (lineno n) ''CyclomaticComplexity'' (function_entity (node_name n)) ''cyclomatic complexity''
               complexity (max_complexity cfg)] else [])
      @ (if int depth > max_depth cfg
         then [exceeded path (lineno n) ''NestingDepth'' (function_entity (node_name n)) ''nesting depth'' depth (max_depth cfg)]
         else []))"

definition is_function :: "node_label \<Rightarrow> bool" where
  "is_function n \<longleftrightarrow> node_class n = ''FunctionDef'' \<or> node_class n = ''AsyncFunctionDef''"

fun complexity_visit :: "string \<Rightarrow> sentinel_config \<Rightarrow> py_node \<Rightarrow> violation list" where
  "complexity_visit path cfg (Tree n ts) =
     (if is_function n then audit_function path cfg (Tree n ts) else []) @ concat (map (complexity_visit path cfg) ts)"

section \<open>Sanitization\<close>

definition is_url_with_example :: "string \<Rightarrow> bool" where
  "is_url_with_example s \<longleftrightarrow> contains_sub ''example.com'' s \<and> (contains_sub ''http://'' s \<or> contains_sub ''https://'' s)"

definition url_rx :: "nat rx" where
  "url_rx = cats [ulit ''http'', opt (ulit ''s''), ulit ''://'',
     Group 1 (some (Cls (\<lambda>n. \<not> (one_of ''/:)]'' n \<or> latin_space n \<or> n = 34 \<or> n = 39))))]"

definition extract_disallowed_subdomain :: "string \<Rightarrow> string option" where
  "extract_disallowed_subdomain s = (if \<not> is_url_with_example s then None
     else List.find (\<lambda>h. h \<noteq> ''example.com'' \<and> ends_with h ''.example.com'')
            (map (\<lambda>m. text_group s m 1) (find_all url_rx (codes s))))"

definition sanitization_violation :: "string \<Rightarrow> nat \<Rightarrow> string \<Rightarrow> violation" where
  "sanitization_violation path line msg =
     \<lparr>file_path = path, line_number = line, invariant = ''ZeroTrustSanitization'', violation_text = msg,
      metric_value = None, threshold = None\<rparr>"

definition ip_message :: "string \<Rightarrow> string" where
  "ip_message ip = ''Private host address '' @ [CHR 0x27] @ ip @ [CHR 0x27] @ '' detected. Use RFC 5737 or loopback.''"

definition domain_message :: "string \<Rightarrow> string" where
  "domain_message h = ''Subdomain '' @ [CHR 0x27] @ h @ [CHR 0x27] @ '' detected. Standardize mock hostnames to '' @ [CHR 0x27]
     @ ''example.com'' @ [CHR 0x27] @ '' with no subdomains.''"

definition check_text :: "string \<Rightarrow> nat \<Rightarrow> string \<Rightarrow> violation list" where
  "check_text path line s =
     map (\<lambda>ip. sanitization_violation path line (ip_message ip)) (filter is_prohibited_ip (find_quads False s))
     @ (case extract_disallowed_subdomain s of
          None \<Rightarrow> [] | Some h \<Rightarrow> [sanitization_violation path line (domain_message h)])"

fun sanitization_visit :: "string \<Rightarrow> py_node \<Rightarrow> violation list" where
  "sanitization_visit path (Tree n ts) =
     (if node_class n = ''Constant'' then (case string_value n of Some s \<Rightarrow> check_text path (lineno n) s | None \<Rightarrow> []) else [])
     @ concat (map (sanitization_visit path) ts)"

section \<open>Waivers\<close>

definition WAIVABLE_INVARIANTS :: "string set" where
  "WAIVABLE_INVARIANTS = {''ZeroTrustSanitization''}"

definition WAIVER_HEADER_LINE_LIMIT :: nat where
  "WAIVER_HEADER_LINE_LIMIT = 15"

definition MIN_WAIVER_JUSTIFICATION_CHARS :: nat where
  "MIN_WAIVER_JUSTIFICATION_CHARS = 12"

definition letters :: "nat rx" where
  "letters = some (Cls (\<lambda>n. ascii_lower n \<or> ascii_upper n))"

definition WAIVER_PRAGMA_RE :: "char \<Rightarrow> nat rx" where
  "WAIVER_PRAGMA_RE dash = cats [Test at_start, alts [ulit ''#'', ulit ''//'', ulit ''*''], maybe_spaces, ulit ''sentinel:'',
     maybe_spaces, ulit ''allow['', Group 1 letters, ulit '']'', maybe_spaces,
     opt (Cat (Cls (\<lambda>n. one_of ''-:'' n \<or> n = of_char dash)) maybe_spaces),
     Group 2 (Cat (Cls (\<lambda>n. \<not> latin_space n)) (Star (Cls (\<lambda>n. n \<noteq> 10)))), Test (at_end 10)]"

record waiver_scan =
  waived :: "string set"
  waiver_violations :: "violation list"

text \<open>A token: its row, whether it is a comment, and its text.\<close>

type_synonym token = "nat \<times> bool \<times> string"

definition header_tokens :: "(string \<Rightarrow> token list) \<Rightarrow> string \<Rightarrow> token list" where
  "header_tokens tokens source = takeWhile (\<lambda>k. fst k \<le> WAIVER_HEADER_LINE_LIMIT) (tokens source)"

definition iter_header_comments :: "(string \<Rightarrow> token list) \<Rightarrow> string \<Rightarrow> (nat \<times> string) list" where
  "iter_header_comments tokens source =
     (let real = map (\<lambda>(row, _, s). (row, s)) (filter (\<lambda>(_, comment, _). comment) (header_tokens tokens source)) in
      if real \<noteq> [] then real
      else map (\<lambda>(i, l). (i, py_strip l))
        (filter (\<lambda>(i, l). list_ex (starts_with (py_strip l)) [''//'', ''#'', ''/*'', ''*''])
           (enumerate 1 (take WAIVER_HEADER_LINE_LIMIT (py_splitlines source)))))"

definition waiver_defect :: "string \<Rightarrow> match option \<Rightarrow> string option" where
  "waiver_defect s m = (case m of
     None \<Rightarrow> Some ''Malformed waiver. Expected: # sentinel: allow[<Invariant>] <justification>''
   | Some m \<Rightarrow> (let rule = text_group s m 1 in
       if rule \<notin> WAIVABLE_INVARIANTS
       then Some (''Invariant '' @ [CHR 0x27] @ rule @ [CHR 0x27] @ '' is not waivable. Waivable: ''
                  @ join_with '', '' (sorted_list_of_set WAIVABLE_INVARIANTS) @ ''.'')
       else if length (py_strip (text_group s m 2)) < MIN_WAIVER_JUSTIFICATION_CHARS
       then Some (''Waiver for '' @ [CHR 0x27] @ rule @ [CHR 0x27] @ '' needs >= ''
                  @ show_nat MIN_WAIVER_JUSTIFICATION_CHARS @ '' characters of justification.'')
       else None))"

definition waiver_violation :: "string \<Rightarrow> nat \<Rightarrow> string \<Rightarrow> violation" where
  "waiver_violation path line msg =
     \<lparr>file_path = path, line_number = line, invariant = ''WaiverIntegrity'', violation_text = msg,
      metric_value = None, threshold = None\<rparr>"

definition pragma_match :: "char \<Rightarrow> string \<Rightarrow> match option" where
  "pragma_match dash s = match_prefix (WAIVER_PRAGMA_RE dash) (codes s)"

fun scan_comments :: "char \<Rightarrow> string \<Rightarrow> (nat \<times> string) list \<Rightarrow> string set \<times> violation list \<Rightarrow> string set \<times> violation list" where
  "scan_comments dash path [] acc = acc"
| "scan_comments dash path ((line, s) # cs) (w, vs) =
     (if \<not> contains_sub ''sentinel:'' s then scan_comments dash path cs (w, vs)
      else (let t = py_strip s; m = pragma_match dash t in
        case (waiver_defect t m, m) of
          (Some d, _) \<Rightarrow> scan_comments dash path cs (w, vs @ [waiver_violation path line d])
        | (None, None) \<Rightarrow> scan_comments dash path cs (w, vs @ [waiver_violation path line ''Invalid waiver.''])
        | (None, Some m) \<Rightarrow> scan_comments dash path cs (insert (text_group t m 1) w, vs)))"

definition late_waiver_violations :: "char \<Rightarrow> string \<Rightarrow> string \<Rightarrow> string set \<Rightarrow> violation list" where
  "late_waiver_violations dash path source w = List.map_filter (\<lambda>(i, l). let t = py_strip l in
     case pragma_match dash t of
       None \<Rightarrow> None
     | Some m \<Rightarrow> (let rule = text_group t m 1 in
         if rule \<in> w then None
         else Some (waiver_violation path i (''Waiver for '' @ [CHR 0x27] @ rule @ [CHR 0x27] @ '' is below line ''
           @ show_nat WAIVER_HEADER_LINE_LIMIT @ '' and has no effect. Move it into the module header.''))))
     (enumerate (WAIVER_HEADER_LINE_LIMIT + 1) (drop WAIVER_HEADER_LINE_LIMIT (py_splitlines source)))"

definition scan_waivers :: "char \<Rightarrow> (string \<Rightarrow> token list) \<Rightarrow> string \<Rightarrow> string \<Rightarrow> waiver_scan" where
  "scan_waivers dash tokens path source =
     (let (w, vs) = scan_comments dash path (iter_header_comments tokens source) ({}, []) in
      \<lparr>waived = w, waiver_violations = vs @ late_waiver_violations dash path source w\<rparr>)"

definition run_visitors :: "py_node \<Rightarrow> string \<Rightarrow> sentinel_config \<Rightarrow> violation list" where
  "run_visitors t path cfg = complexity_visit path cfg t
     @ (if is_rule_active cfg ''ZeroTrustSanitization'' then sanitization_visit path t else [])"

definition filter_active_violations :: "violation list \<Rightarrow> waiver_scan \<Rightarrow> sentinel_config \<Rightarrow> violation list" where
  "filter_active_violations detected ws cfg =
     filter (\<lambda>v. is_rule_active cfg (invariant v))
       (waiver_violations ws @ filter (\<lambda>v. invariant v \<notin> waived ws) detected)"

end
