(* ===== verification/Py_Path.thy ===== *)
theory Py_Path
  imports Py_Text Text_Search "HOL-Library.Sublist"
begin

text \<open>
  Pure POSIX paths of \<open>pathlib\<close> as texts: the name and the suffix of a path, its normal form, \<open>/\<close>, and
  whether one lies below another.
\<close>

definition path_name :: "string \<Rightarrow> string" where
  "path_name p = (let parts = filter (\<lambda>s. s \<noteq> '''' \<and> s \<noteq> ''.'') (py_split ''/'' p) in if parts = [] then '''' else last parts)"

definition path_suffix :: "string \<Rightarrow> string" where
  "path_suffix p = (let nm = path_name p; ext = takeWhile (\<lambda>c. c \<noteq> CHR ''.'') (rev nm); stem = length nm - length ext in
     if ext = [] \<or> stem \<le> 1 then [] else CHR ''.'' # rev ext)"

text \<open>\<open>str(Path(p))\<close>, the identity on what it gives.\<close>

definition path_str :: "string \<Rightarrow> string" where
  "path_str p = (let parts = filter (\<lambda>s. s \<noteq> '''' \<and> s \<noteq> ''.'') (py_split ''/'' p);
       base = (if starts_with p ''//'' \<and> \<not> starts_with p ''///'' then ''//'' else if starts_with p ''/'' then ''/'' else '''') in
     if base = '''' \<and> parts = [] then ''.'' else base @ join_with ''/'' parts)"

definition path_join :: "string \<Rightarrow> string \<Rightarrow> string" where
  "path_join p nm = (if p = ''.'' then nm else if ends_with p ''/'' then p @ nm else p @ ''/'' @ nm)"

text \<open>The root and the parts of a path.\<close>

definition path_parts :: "string \<Rightarrow> bool \<times> string list" where
  "path_parts p = (starts_with p ''/'', filter (\<lambda>s. s \<noteq> '''' \<and> s \<noteq> ''.'') (py_split ''/'' p))"

definition is_relative_to :: "string \<Rightarrow> string \<Rightarrow> bool" where
  "is_relative_to p base \<longleftrightarrow> fst (path_parts p) = fst (path_parts base) \<and> prefix (snd (path_parts base)) (snd (path_parts p))"

section \<open>Letters of any case\<close>

lemma lower_contains: "contains_sub w (py_lower p) \<longleftrightarrow> (\<exists>u x v. p = u @ x @ v \<and> py_lower x = w)"
proof
  assume "contains_sub w (py_lower p)"
  then obtain a b where "map py_lower_char p = a @ w @ b" unfolding contains_sub_iff sublist_def py_lower_def by (elim exE)
  from map_eq_append_conv [THEN iffD1, OF this] obtain u t where t: "p = u @ t" "w @ b = map py_lower_char t" by blast
  from map_eq_append_conv [THEN iffD1, OF t(2) [symmetric]] obtain x v where "t = x @ v" "w = map py_lower_char x" by blast
  with t(1) show "\<exists>u x v. p = u @ x @ v \<and> py_lower x = w" unfolding py_lower_def by blast
next
  assume "\<exists>u x v. p = u @ x @ v \<and> py_lower x = w"
  then obtain u x v where "p = u @ x @ v" "py_lower x = w" by blast
  then have "py_lower p = py_lower u @ w @ py_lower v" by (simp add: py_lower_def)
  then show "contains_sub w (py_lower p)" unfolding contains_sub_iff sublist_def by blast
qed

lemma lower_prefix: "starts_with (py_lower p) w \<longleftrightarrow> (\<exists>u v. p = u @ v \<and> py_lower u = w)"
proof
  assume "starts_with (py_lower p) w"
  then obtain b where "map py_lower_char p = w @ b" unfolding starts_with_def prefix_def py_lower_def by blast
  from map_eq_append_conv [THEN iffD1, OF this] obtain u v where "p = u @ v" "w = map py_lower_char u" by blast
  then show "\<exists>u v. p = u @ v \<and> py_lower u = w" unfolding py_lower_def by blast
next
  assume "\<exists>u v. p = u @ v \<and> py_lower u = w"
  then show "starts_with (py_lower p) w" by (auto simp: starts_with_def py_lower_def)
qed

definition same_letters :: "string \<Rightarrow> string \<Rightarrow> bool" where
  "same_letters s t \<longleftrightarrow> list_all2 (\<lambda>c d. py_lower_char c = py_lower_char d) s t"

lemma same_letters_iff: "same_letters s t \<longleftrightarrow> py_lower s = py_lower t"
  unfolding same_letters_def py_lower_def by (simp add: list_all2_map1 list_all2_map2 flip: list.rel_eq)

section \<open>The name of a path\<close>

text \<open>\<open>w\<close> is the last component of the path that is neither empty nor a point.\<close>

definition last_component :: "string \<Rightarrow> string \<Rightarrow> bool" where
  "last_component p w \<longleftrightarrow> (\<exists>us ws. p = join_with ''/'' (us @ w # ws) \<and> list_all (\<lambda>c. CHR ''/'' \<notin> set c) (us @ w # ws)
     \<and> w \<noteq> '''' \<and> w \<noteq> ''.'' \<and> list_all (\<lambda>c. c = '''' \<or> c = ''.'') ws)"

lemma split_parts: "p \<in> set (py_split [c] s) \<Longrightarrow> c \<notin> set p"
proof (induction "length s" arbitrary: s rule: less_induct)
  case less
  show ?case
  proof (cases "c \<in> set s")
    case True
    then obtain h r where s: "s = h @ c # r" "c \<notin> set h" by (meson split_list_first)
    then have "p = h \<or> p \<in> set (py_split [c] r)" using less.prems by (simp add: py_split_char)
    then show ?thesis using s less.hyps [of r] by auto
  qed (use less.prems in \<open>simp add: py_split_char_absent\<close>)
qed

lemma last_filter: "filter P xs \<noteq> [] \<Longrightarrow> \<exists>us ws. xs = us @ last (filter P xs) # ws \<and> P (last (filter P xs)) \<and> list_all (\<lambda>x. \<not> P x) ws"
proof (induction xs rule: rev_induct)
  case (snoc x xs)
  show ?case
  proof (cases "P x")
    case False
    then have "filter P xs \<noteq> []" using snoc.prems by simp
    then obtain us ws where "xs = us @ last (filter P xs) # ws" "P (last (filter P xs))" "list_all (\<lambda>x. \<not> P x) ws"
      using snoc.IH by blast
    then show ?thesis using False by (intro exI [of _ us] exI [of _ "ws @ [x]"]) simp
  next
    case True
    then show ?thesis by (intro exI [of _ xs] exI [of _ "[]"]) simp
  qed
qed simp

lemma path_name_last: "path_name p = w \<and> w \<noteq> '''' \<longleftrightarrow> last_component p w"
proof
  assume w: "path_name p = w \<and> w \<noteq> ''''"
  let ?P = "\<lambda>s. s \<noteq> '''' \<and> s \<noteq> ''.''" and ?xs = "py_split ''/'' p"
  have parts: "filter ?P ?xs \<noteq> []" "w = last (filter ?P ?xs)"
    using w by (auto simp: path_name_def Let_def split: if_splits)
  from last_filter [OF parts(1)] parts(2) obtain us ws where xs: "?xs = us @ w # ws" "?P w" "list_all (\<lambda>x. \<not> ?P x) ws"
    by metis
  have "p = join_with ''/'' (us @ w # ws)" unfolding xs(1) [symmetric] by simp
  moreover have "list_all (\<lambda>c. CHR ''/'' \<notin> set c) (us @ w # ws)"
    unfolding xs(1) [symmetric] by (auto simp: list_all_iff dest: split_parts)
  moreover have "list_all (\<lambda>c. c = '''' \<or> c = ''.'') ws" using xs(3) by (auto simp: list_all_iff)
  ultimately show "last_component p w" unfolding last_component_def using xs(2) by blast
next
  assume "last_component p w"
  then obtain us ws where p: "p = join_with ''/'' (us @ w # ws)" "list_all (\<lambda>c. CHR ''/'' \<notin> set c) (us @ w # ws)"
    "w \<noteq> ''''" "w \<noteq> ''.''" "list_all (\<lambda>c. c = '''' \<or> c = ''.'') ws"
    unfolding last_component_def by blast
  have "py_split ''/'' p = us @ w # ws" unfolding p(1) using p(2) by (intro py_split_join_with) auto
  moreover have "filter (\<lambda>s. s \<noteq> '''' \<and> s \<noteq> ''.'') ws = []" using p(5) by (auto simp: list_all_iff filter_empty_conv)
  ultimately show "path_name p = w \<and> w \<noteq> ''''" using p(3,4) by (simp add: path_name_def Let_def)
qed

end
