(* ===== verification/Sentinel_Run.thy ===== *)
theory Sentinel_Run
  imports Sentinel_Audit Py_Path
begin

text \<open>
  \<open>examples/ast-invariant-sentinel/sentinel.py\<close>, a run: the audit of languages other than Python, of one
  file, and of the files beneath the targets. Directories are trees with what reading each file gives;
  \<open>Path.resolve\<close> is the parameter \<open>resolve\<close>.
\<close>

section \<open>Languages\<close>

definition POLYGLOT_LANGUAGE_EXTENSIONS :: "(string \<times> string) list" where
  "POLYGLOT_LANGUAGE_EXTENSIONS =
     [(''.rs'', ''rust''), (''.go'', ''go''), (''.ts'', ''typescript''), (''.tsx'', ''typescript''), (''.js'', ''javascript''),
      (''.jsx'', ''javascript''), (''.mjs'', ''javascript''), (''.cjs'', ''javascript''), (''.sh'', ''bash''), (''.bash'', ''bash''),
      (''.c'', ''c''), (''.h'', ''c''), (''.cpp'', ''cpp''), (''.hpp'', ''cpp''), (''.cc'', ''cpp''), (''.cxx'', ''cpp'')]"

definition is_polyglot :: "string \<Rightarrow> bool" where
  "is_polyglot p \<longleftrightarrow> path_suffix p \<in> fst ` set POLYGLOT_LANGUAGE_EXTENSIONS"

section \<open>Other languages\<close>

definition ident :: "nat rx" where
  "ident = some (Cls (\<lambda>n. ascii_alnum n \<or> n = 95))"

definition type_parameters :: "nat rx" where
  "type_parameters = opt (cats [ulit ''<'', some (Cls (\<lambda>n. n \<noteq> 62)), ulit ''>''])"

definition parenthesised :: "nat rx" where
  "parenthesised = cats [ulit ''('', Star (Cls (\<lambda>n. n \<noteq> 41)), ulit '')'']"

definition up_to_brace :: "nat rx" where
  "up_to_brace = cats [Star (Cls (\<lambda>n. n \<noteq> 123)), ulit ''{'']"

definition POLYGLOT_FN_RE :: "nat rx" where
  "POLYGLOT_FN_RE = alts
     [cats [Alt (ulit ''func'') (ulit ''fn''), latin_spaces,
        opt (cats [ulit ''('', some (Cls (\<lambda>n. n \<noteq> 41)), ulit '')'', latin_spaces]),
        Group 1 ident, maybe_spaces, type_parameters, maybe_spaces, parenthesised, up_to_brace],
      cats [opt (Cat (ulit ''export'') latin_spaces), opt (Cat (ulit ''default'') latin_spaces),
        opt (Cat (ulit ''async'') latin_spaces), ulit ''function'', latin_spaces,
        Group 2 ident, maybe_spaces, type_parameters, maybe_spaces, parenthesised, up_to_brace],
      cats [alts [ulit ''const'', ulit ''let'', ulit ''var''], latin_spaces, Group 3 ident, maybe_spaces, ulit ''='', maybe_spaces,
        opt (Cat (ulit ''async'') latin_spaces), parenthesised, maybe_spaces,
        opt (cats [ulit '':'', maybe_spaces, some (Cls (\<lambda>n. n \<noteq> 61))]), ulit ''=>'', maybe_spaces, ulit ''{''],
      cats [opt (Cat (ulit ''function'') latin_spaces), Group 4 (some (Cls (\<lambda>n. ascii_alnum n \<or> n = 95 \<or> n = 45))), maybe_spaces,
        opt (Cat (ulit ''()'') maybe_spaces), ulit ''{'']]"

definition POLYGLOT_DECISION_RE :: "nat rx" where
  "POLYGLOT_DECISION_RE = alts
     [cats [latin_boundary,
        Group 1 (alts [ulit ''if'', ulit ''elif'', cats [ulit ''else'', latin_spaces, ulit ''if''], ulit ''for'', ulit ''while'', ulit ''case'',
          ulit ''catch'', ulit ''match'', ulit ''select'']), latin_boundary],
      ulit ''&&'', ulit ''||'', ulit ''?'']"

definition brace_step :: "char \<Rightarrow> nat \<Rightarrow> nat \<Rightarrow> nat \<times> nat" where
  "brace_step ch depth mx = (if ch = CHR ''{'' then (depth + 1, max mx (depth + 1))
     else if ch = CHR ''}'' then (depth - 1, mx) else (depth, mx))"

fun brace_loop :: "string \<Rightarrow> nat \<Rightarrow> nat \<Rightarrow> nat \<Rightarrow> nat \<times> nat" where
  "brace_loop [] cur depth mx = (cur, mx)"
| "brace_loop (c # cs) cur depth mx =
     (if 0 < depth then (let (d, m) = brace_step c depth mx in brace_loop cs (Suc cur) d m) else (cur, mx))"

definition extract_brace_body :: "string \<Rightarrow> nat \<Rightarrow> string \<times> nat \<times> nat" where
  "extract_brace_body content pos =
     (let (cur, mx) = brace_loop (drop (Suc pos) content) (Suc pos) 1 1 in (slice content pos cur, cur, mx))"

definition evaluate_complexity_violations :: "string \<Rightarrow> nat \<Rightarrow> string \<Rightarrow> nat \<Rightarrow> nat \<Rightarrow> sentinel_config \<Rightarrow> violation list" where
  "evaluate_complexity_violations path line entity complexity depth cfg =
     (if is_rule_active cfg ''CyclomaticComplexity'' \<and> int complexity > max_complexity cfg
      then [exceeded path line ''CyclomaticComplexity'' entity ''cyclomatic complexity'' complexity (max_complexity cfg)] else [])
     @ (if is_rule_active cfg ''NestingDepth'' \<and> int depth > max_depth cfg
        then [exceeded path line ''NestingDepth'' entity ''nesting depth'' depth (max_depth cfg)] else [])"

definition decisions :: "string \<Rightarrow> nat" where
  "decisions body = length (find_all POLYGLOT_DECISION_RE (codes body))"

definition audit_polyglot_function :: "string \<Rightarrow> string \<Rightarrow> string \<Rightarrow> nat \<Rightarrow> nat \<Rightarrow> sentinel_config \<Rightarrow> violation list" where
  "audit_polyglot_function path nm body line mx cfg =
     evaluate_complexity_violations path line (function_entity nm) (1 + decisions body) (max 1 (mx - 1)) cfg"

text \<open>The first group that took part in the match.\<close>

definition function_name :: "string \<Rightarrow> match \<Rightarrow> string" where
  "function_name source m = (case List.find (\<lambda>k. group_span m k \<noteq> None) [1, 2, 3, 4] of
     Some k \<Rightarrow> text_group source m k | None \<Rightarrow> '''')"

lemma brace_loop_ge: "cur \<le> fst (brace_loop cs cur depth mx)"
  by (induction cs arbitrary: cur depth mx) (auto simp: case_prod_beta Let_def intro: Suc_leD)

lemma extract_end: "pos < fst (snd (extract_brace_body content pos))"
  using brace_loop_ge[of "Suc pos" "drop (Suc pos) content" 1 1]
  by (simp add: extract_brace_body_def case_prod_beta Let_def)

lemma function_rx_consuming: "consuming POLYGLOT_FN_RE"
  by (simp add: POLYGLOT_FN_RE_def up_to_brace_def cats_def ulit_def codes_def)

function audit_functions_from :: "string \<Rightarrow> string \<Rightarrow> sentinel_config \<Rightarrow> nat \<Rightarrow> violation list \<times> nat" where
  "audit_functions_from path source cfg pos =
     (if length source \<le> pos then ([], 0)
      else (case search_from POLYGLOT_FN_RE (codes source) pos of
        None \<Rightarrow> ([], 0)
      | Some m \<Rightarrow>
          (let (body, end_pos, mx) = extract_brace_body source (fst (snd m) - 1);
               line = length (filter (\<lambda>c. c = CHR 0x0A) (take (fst m) source)) + 1;
               (vs, n) = audit_functions_from path source cfg (fst (snd (extract_brace_body source (fst (snd m) - 1)))) in
           (audit_polyglot_function path (function_name source m) body line mx cfg @ vs, Suc n))))"
  by pat_completeness auto
termination
proof (relation "measure (\<lambda>(path, source, cfg, pos). length source - pos)")
  fix source pos m
  assume "\<not> length source \<le> pos" and m: "search_from POLYGLOT_FN_RE (codes source) pos = Some m"
  obtain i j g where mm: "m = (i, j, g)" by (cases m) auto
  from search_from_Some(1,3)[OF m[unfolded mm]] have "pos \<le> i" "i < j"
    using consuming_spans[OF function_rx_consuming] by auto
  with extract_end[of "j - 1" source] \<open>\<not> length source \<le> pos\<close> mm
  show "((path, source, cfg, fst (snd (extract_brace_body source (fst (snd m) - 1)))), path, source, cfg, pos)
      \<in> measure (\<lambda>(path, source, cfg, pos). length source - pos)" for path cfg by auto
qed simp

declare audit_functions_from.simps [simp del]

definition audit_polyglot_functions :: "string \<Rightarrow> string \<Rightarrow> sentinel_config \<Rightarrow> violation list \<times> nat" where
  "audit_polyglot_functions path source cfg = audit_functions_from path source cfg 0"

definition audit_polyglot_module_fallback :: "string \<Rightarrow> string \<Rightarrow> sentinel_config \<Rightarrow> violation list" where
  "audit_polyglot_module_fallback path source cfg =
     (let depth = (if CHR ''{'' \<in> set source then max 1 (snd (snd (extract_brace_body source 0)) - 1) else 1) in
      evaluate_complexity_violations path 1 (''Module '' @ [CHR 0x27] @ path_name path @ [CHR 0x27]) (1 + decisions source) depth cfg)"

definition audit_polyglot_complexity :: "string \<Rightarrow> string \<Rightarrow> sentinel_config \<Rightarrow> violation list" where
  "audit_polyglot_complexity path source cfg = (let (vs, n) = audit_polyglot_functions path source cfg in
     if 0 < n then vs else audit_polyglot_module_fallback path source cfg)"

definition audit_line_sanitization :: "string \<Rightarrow> nat \<Rightarrow> string \<Rightarrow> violation list" where
  "audit_line_sanitization path line l =
     (if starts_with (py_strip l) ''// sentinel:'' \<or> starts_with (py_strip l) ''# sentinel:'' then [] else check_text path line l)"

definition audit_polyglot_sanitization :: "string \<Rightarrow> string \<Rightarrow> violation list" where
  "audit_polyglot_sanitization path source =
     concat (map (\<lambda>(i, l). audit_line_sanitization path i l) (enumerate 1 (py_splitlines source)))"

section \<open>One file\<close>

definition syntax_violation :: "string \<Rightarrow> nat \<Rightarrow> string \<Rightarrow> violation" where
  "syntax_violation path line err =
     \<lparr>file_path = path, line_number = line, invariant = ''SyntaxIntegrity'', violation_text = ''Could not parse file: '' @ err,
      metric_value = None, threshold = None\<rparr>"

text \<open>The parameters of the audit: \<open>ast.parse\<close>, \<open>tokenize\<close> and the em dash.\<close>

record audit_env =
  ast_parse :: "string \<Rightarrow> (nat \<times> string) + py_node"
  tokenise :: "string \<Rightarrow> token list"
  em_dash :: char

definition audit_polyglot_source :: "audit_env \<Rightarrow> string \<Rightarrow> string \<Rightarrow> sentinel_config \<Rightarrow> violation list" where
  "audit_polyglot_source env path source cfg =
     filter_active_violations
       ((if is_rule_active cfg ''ZeroTrustSanitization'' then audit_polyglot_sanitization path source else [])
        @ audit_polyglot_complexity path source cfg)
       (scan_waivers (em_dash env) (tokenise env) (path_str path) source) cfg"

definition syntax_failure :: "string \<Rightarrow> nat \<Rightarrow> string \<Rightarrow> sentinel_config \<Rightarrow> violation list" where
  "syntax_failure path line err cfg = (if is_rule_active cfg ''SyntaxIntegrity'' then [syntax_violation path line err] else [])"

definition audit_python_source :: "audit_env \<Rightarrow> string \<Rightarrow> string \<Rightarrow> sentinel_config \<Rightarrow> violation list" where
  "audit_python_source env path source cfg = (case ast_parse env source of
     Inl (line, err) \<Rightarrow> syntax_failure (path_str path) line err cfg
   | Inr t \<Rightarrow> filter_active_violations (run_visitors t path cfg) (scan_waivers (em_dash env) (tokenise env) (path_str path) source) cfg)"

definition audit_source :: "audit_env \<Rightarrow> string \<Rightarrow> string \<Rightarrow> sentinel_config \<Rightarrow> violation list" where
  "audit_source env source path cfg =
     (if is_polyglot path then audit_polyglot_source env path source cfg else audit_python_source env path source cfg)"

text \<open>An \<open>OSError\<close> is caught for the other languages, not for Python.\<close>

definition audit_file :: "audit_env \<Rightarrow> sentinel_config \<Rightarrow> string \<Rightarrow> file_read \<Rightarrow> violation list py" where
  "audit_file env cfg path content =
     (if is_polyglot path
      then (case content of
          Readable s \<Rightarrow> Inr (audit_polyglot_source env path s cfg)
        | Unreadable e \<Rightarrow> Inr (syntax_failure path 1 e cfg)
        | Undecodable e \<Rightarrow> Inr (syntax_failure path 1 e cfg))
      else (case content of
          Readable s \<Rightarrow> Inr (audit_python_source env path s cfg)
        | Unreadable e \<Rightarrow> Inl Os_Error
        | Undecodable e \<Rightarrow> Inr (syntax_failure path 1 e cfg)))"

section \<open>Targets\<close>

definition VENDORED_DIR_NAMES :: "string set" where
  "VENDORED_DIR_NAMES = {''node_modules'', ''__pycache__'', ''venv''}"

definition VENDORED_DIR_SUFFIXES :: "string list" where
  "VENDORED_DIR_SUFFIXES = [''.egg-info'']"

definition is_repository_dir :: "string \<Rightarrow> bool" where
  "is_repository_dir nm \<longleftrightarrow> \<not> (starts_with nm ''.'' \<or> nm \<in> VENDORED_DIR_NAMES \<or> list_ex (ends_with nm) VENDORED_DIR_SUFFIXES)"

text \<open>A directory: its name, its files, its directories.\<close>

datatype directory = Directory string "(string \<times> file_read) list" "directory list"

fun dir_name :: "directory \<Rightarrow> string" where
  "dir_name (Directory nm _ _) = nm"

text \<open>\<open>os.walk\<close> with the directories that are none of the repository's removed before it goes on.\<close>

fun walk_repository :: "(string \<Rightarrow> bool) \<Rightarrow> string \<Rightarrow> directory \<Rightarrow> (string \<times> file_read) list" where
  "walk_repository keep path (Directory nm files subs) =
     map (\<lambda>(f, c). (path_join path f, c)) (filter (\<lambda>(f, c). keep f) files)
     @ concat (map (\<lambda>d. if is_repository_dir (dir_name d) then walk_repository keep (path_join path (dir_name d)) d else []) subs)"

definition is_py_name :: "string \<Rightarrow> bool" where
  "is_py_name nm \<longleftrightarrow> ends_with nm ''.py''"

datatype audit_target = File_Target string file_read | Dir_Target string directory | Missing_Target string

fun target_path :: "audit_target \<Rightarrow> string" where
  "target_path (File_Target p _) = p"
| "target_path (Dir_Target p _) = p"
| "target_path (Missing_Target p) = p"

fun target_exists :: "audit_target \<Rightarrow> bool" where
  "target_exists (Missing_Target p) = False"
| "target_exists _ = True"

text \<open>Paths are ordered by their parts.\<close>

definition sort_paths :: "(string \<times> file_read) list \<Rightarrow> (string \<times> file_read) list" where
  "sort_paths = sort_key (\<lambda>(p, c). py_split ''/'' p)"

fun collect_py_targets :: "audit_target \<Rightarrow> (string \<times> file_read) list" where
  "collect_py_targets (File_Target p c) = (if path_suffix p = ''.py'' then [(p, c)] else [])"
| "collect_py_targets (Dir_Target p d) = sort_paths (walk_repository is_py_name p d)"
| "collect_py_targets (Missing_Target p) = []"

fun collect_polyglot_targets :: "audit_target \<Rightarrow> (string \<times> file_read) list" where
  "collect_polyglot_targets (File_Target p c) = (if is_polyglot p then [(p, c)] else [])"
| "collect_polyglot_targets (Dir_Target p d) = sort_paths (walk_repository is_polyglot p d)"
| "collect_polyglot_targets (Missing_Target p) = []"

definition collect_audit_targets :: "audit_target \<Rightarrow> (string \<times> file_read) list" where
  "collect_audit_targets t = collect_py_targets t @ collect_polyglot_targets t"

text \<open>\<open>setdefault\<close> over the resolved paths: the first of equal files stays.\<close>

fun keep_first :: "(string \<Rightarrow> string) \<Rightarrow> string list \<Rightarrow> (string \<times> file_read) list \<Rightarrow> (string \<times> file_read) list" where
  "keep_first resolve seen [] = []"
| "keep_first resolve seen ((p, c) # rest) =
     (if resolve p \<in> set seen then keep_first resolve seen rest else (p, c) # keep_first resolve (resolve p # seen) rest)"

definition expand_targets :: "(string \<Rightarrow> string) \<Rightarrow> audit_target list \<Rightarrow> (string \<times> file_read) list" where
  "expand_targets resolve ts = keep_first resolve [] (concat (map collect_audit_targets ts))"

definition find_missing_targets :: "audit_target list \<Rightarrow> violation list" where
  "find_missing_targets ts = map (\<lambda>t. \<lparr>file_path = target_path t, line_number = 1, invariant = ''TargetIntegrity'',
     violation_text = ''Audit target does not exist; the gate would otherwise certify nothing as clean.'',
     metric_value = None, threshold = None\<rparr>) (filter (\<lambda>t. \<not> target_exists t) ts)"

definition tally_audit_targets :: "audit_report \<Rightarrow> (string \<times> file_read) list \<Rightarrow> audit_report" where
  "tally_audit_targets r targets = (let py = length (filter (\<lambda>(p, c). path_suffix p = ''.py'') targets) in
     r\<lparr>files_checked := length targets, py_files_checked := py, polyglot_files_checked := length targets - py\<rparr>)"

definition audit_targets :: "audit_env \<Rightarrow> (string \<Rightarrow> string) \<Rightarrow> sentinel_config \<Rightarrow> audit_target list \<Rightarrow> audit_report py" where
  "audit_targets env resolve cfg ts =
     (let missing = (if is_rule_active cfg ''TargetIntegrity'' then find_missing_targets ts else []);
          targets = expand_targets resolve (filter target_exists ts);
          r = tally_audit_targets empty_report targets in
      result_bind (map_result (\<lambda>(p, c). audit_file env cfg p c) targets)
        (\<lambda>vss. Inr (r\<lparr>violations := missing @ concat vss\<rparr>)))"

text \<open>The lines that a run prints and its exit status; \<open>shield\<close>, \<open>tick\<close> and \<open>cross\<close> are the emoji and
  \<open>long_dash\<close> the dash of the lines.\<close>

definition violation_line :: "string \<Rightarrow> violation \<Rightarrow> string" where
  "violation_line long_dash v = ''  ['' @ invariant v @ ''] '' @ file_path v @ '':'' @ show_nat (line_number v) @ '' '' @ long_dash
     @ '' '' @ violation_text v"

definition run_cli_audit :: "audit_env \<Rightarrow> (string \<Rightarrow> string) \<Rightarrow> string \<times> string \<times> string \<times> string \<Rightarrow> sentinel_config
    \<Rightarrow> audit_target list \<Rightarrow> (string list \<times> nat) py" where
  "run_cli_audit env resolve signs cfg ts = (case signs of (shield, tick, cross, long_dash) \<Rightarrow>
     result_bind (audit_targets env resolve cfg ts) (\<lambda>r.
       (let intro = [shield @ ''  AST Invariant Sentinel [preset='' @ preset_name cfg @ '']: Scanning ''
                @ join_with '', '' (map (\<lambda>t. [CHR 0x27] @ target_path t @ [CHR 0x27]) ts) @ ''...'',
              if polyglot_files_checked r = 0 then ''Checked '' @ show_nat (files_checked r) @ '' Python files.''
              else ''Checked '' @ show_nat (files_checked r) @ '' files ('' @ show_nat (py_files_checked r) @ '' Python, ''
                @ show_nat (polyglot_files_checked r) @ '' polyglot).''] in
        if is_clean r then Inr (intro @ [tick @ '' All architectural invariants PASSED! Zero violations.''], 0)
        else Inr (intro @ [newline @ cross @ '' Found '' @ show_nat (length (violations r)) @ '' architectural invariant violation(s):'']
                    @ map (violation_line long_dash) (violations r), 1))))"

definition resolve_cli_targets :: "string list \<Rightarrow> string list" where
  "resolve_cli_targets raw = (if raw = [] then [''.''] else raw)"

end
