(* ===== verification/Sentinel_Lsp.thy ===== *)
theory Sentinel_Lsp
  imports Sentinel_Run
begin

text \<open>
  \<open>examples/ast-invariant-sentinel/sentinel.py\<close>, the remedies and the language server. A stream is a list of
  bytes; \<open>json.dumps\<close> with the encoding to UTF-8, and \<open>json.loads\<close> after the decoding, are the fields
  \<open>encode_json\<close> and \<open>decode_json\<close> of a record, and \<open>order\<close> is the order in which a set of addresses is
  enumerated.
\<close>

section \<open>Remedies\<close>

fun lines_keep :: "string \<Rightarrow> string \<Rightarrow> string list" where
  "lines_keep cur [] = (if cur = [] then [] else [rev cur])"
| "lines_keep cur [c] = [rev (c # cur)]"
| "lines_keep cur (c # d # cs) =
     (if line_break c
      then (if c = CHR 0x0D \<and> d = CHR 0x0A then rev (d # c # cur) # lines_keep [] cs else rev (c # cur) # lines_keep [] (d # cs))
      else lines_keep (c # cur) (d # cs))"

definition splitlines_keep :: "string \<Rightarrow> string list" where
  "splitlines_keep s = lines_keep [] s"

definition SAFE_DOC_REPLACEMENT_IP :: string where
  "SAFE_DOC_REPLACEMENT_IP = ''192.0.2.1''"

definition collect_prohibited_ips :: "string \<Rightarrow> string list" where
  "collect_prohibited_ips l = filter is_prohibited_ip (find_quads False l)"

definition fix_ip_in_line :: "(string list \<Rightarrow> string list) \<Rightarrow> string \<Rightarrow> string \<times> nat" where
  "fix_ip_in_line order l =
     (if contains_sub ''# sentinel:'' l \<or> contains_sub ''ipaddress.ip_network('' l then (l, 0)
      else (let found = collect_prohibited_ips l in
        if found = [] then (l, 0)
        else (fold (\<lambda>ip s. py_replace ip SAFE_DOC_REPLACEMENT_IP s) (order (remdups found)) l, length found)))"

definition SUBDOMAIN_PATTERN :: "nat rx" where
  "SUBDOMAIN_PATTERN = cats [Group 1 (cats [ulit ''http'', opt (ulit ''s''), ulit ''://'']),
     some (Cls (\<lambda>n. ascii_alnum n \<or> one_of ''_-.'' n)), ulit ''.example.com'']"

definition fix_subdomains_in_line :: "string \<Rightarrow> string \<times> nat" where
  "fix_subdomains_in_line l =
     (if \<not> contains_sub ''example.com'' l \<or> \<not> contains_sub ''://'' l \<or> contains_sub ''# sentinel:'' l then (l, 0)
      else (let ms = find_all SUBDOMAIN_PATTERN (codes l) in
        (sub_from (\<lambda>m. text_group l m 1 @ ''example.com'') l 0 ms, length ms)))"

definition is_valid_waiver_line :: "char \<Rightarrow> string \<Rightarrow> bool" where
  "is_valid_waiver_line dash l = (case pragma_match dash (py_strip l) of
     None \<Rightarrow> False
   | Some m \<Rightarrow> MIN_WAIVER_JUSTIFICATION_CHARS \<le> length (py_strip (text_group (py_strip l) m 2)))"

definition allow_rx :: "nat rx" where
  "allow_rx = cats [ulit ''allow['', Group 1 letters, ulit '']'']"

definition fix_waiver_in_line :: "char \<Rightarrow> string \<Rightarrow> string \<times> nat" where
  "fix_waiver_in_line dash l =
     (if \<not> contains_sub ''sentinel: allow'' l \<or> \<not> starts_with (py_strip l) ''#'' then (l, 0)
      else if is_valid_waiver_line dash l then (l, 0)
      else (case text_search allow_rx l of
          None \<Rightarrow> (l, 0)
        | Some m \<Rightarrow> (if text_group l m 1 \<notin> WAIVABLE_INVARIANTS then (l, 0)
            else (''# sentinel: allow['' @ text_group l m 1 @ ''] '' @ [dash] @ '' sanitized mock reference'' @ newline, 1))))"

definition fix_line :: "char \<Rightarrow> (string list \<Rightarrow> string list) \<Rightarrow> string \<Rightarrow> string \<times> nat" where
  "fix_line dash order l =
     (let (l1, n1) = fix_ip_in_line order l; (l2, n2) = fix_subdomains_in_line l1; (l3, n3) = fix_waiver_in_line dash l2 in
      (l3, n1 + n2 + n3))"

definition auto_fix_source :: "audit_env \<Rightarrow> (string list \<Rightarrow> string list) \<Rightarrow> sentinel_config \<Rightarrow> string \<Rightarrow> string \<times> nat" where
  "auto_fix_source env order cfg source =
     (if \<not> is_rule_active cfg ''ZeroTrustSanitization'' then (source, 0)
      else (let fixed = map (fix_line (em_dash env) order) (splitlines_keep source); total = sum_list (map snd fixed) in
        if total = 0 then (source, 0)
        else (let candidate = concat (map fst fixed) in
          case ast_parse env candidate of Inl _ \<Rightarrow> (source, 0) | Inr _ \<Rightarrow> (candidate, total))))"

text \<open>The count, and the new content where the file is written.\<close>

definition auto_fix_file :: "audit_env \<Rightarrow> (string list \<Rightarrow> string list) \<Rightarrow> sentinel_config \<Rightarrow> file_read \<Rightarrow> nat \<times> string option" where
  "auto_fix_file env order cfg content = (case content of
     Readable s \<Rightarrow> (let (fixed, n) = auto_fix_source env order cfg s in (n, if 0 < n \<and> fixed \<noteq> s then Some fixed else None))
   | _ \<Rightarrow> (0, None))"

definition auto_fix_targets :: "audit_env \<Rightarrow> (string list \<Rightarrow> string list) \<Rightarrow> (string \<Rightarrow> string) \<Rightarrow> sentinel_config
    \<Rightarrow> audit_target list \<Rightarrow> nat \<times> (string \<times> string) list" where
  "auto_fix_targets env order resolve cfg ts =
     (let rs = map (\<lambda>(p, c). (p, auto_fix_file env order cfg c)) (expand_targets resolve (filter target_exists ts)) in
      (sum_list (map (\<lambda>(p, n, w). n) rs), List.map_filter (\<lambda>(p, n, w). map_option (\<lambda>s. (p, s)) w) rs))"

section \<open>Frames\<close>

record json_codec =
  encode_json :: "json \<Rightarrow> string"
  decode_json :: "string \<Rightarrow> json option"

text \<open>White space of \<open>bytes\<close>, and \<open>int\<close> of them: ASCII only.\<close>

definition byte_space :: "char \<Rightarrow> bool" where
  "byte_space c \<longleftrightarrow> (let n = (of_char c :: nat) in 9 \<le> n \<and> n \<le> 13 \<or> n = 32)"

definition byte_strip :: "string \<Rightarrow> string" where
  "byte_strip s = rev (dropWhile byte_space (rev (dropWhile byte_space s)))"

definition byte_lower :: "char \<Rightarrow> char" where
  "byte_lower c = (let n = (of_char c :: nat) in if 65 \<le> n \<and> n \<le> 90 then char_of (n + 32) else c)"

definition int_of_bytes :: "string \<Rightarrow> int option" where
  "int_of_bytes s = (if list_all (\<lambda>c. (of_char c :: nat) < 128) s
     then (case int_of_text s of Inr n \<Rightarrow> Some n | Inl _ \<Rightarrow> None) else None)"

definition parse_content_length :: "string \<Rightarrow> int option" where
  "parse_content_length header =
     (if \<not> starts_with (map byte_lower header) ''content-length:'' then None
      else int_of_bytes (byte_strip (tl (dropWhile (\<lambda>c. c \<noteq> CHR '':'') header))))"

definition read_line :: "string \<Rightarrow> string \<times> string" where
  "read_line s = (takeWhile (\<lambda>c. c \<noteq> CHR 0x0A) s @ take 1 (dropWhile (\<lambda>c. c \<noteq> CHR 0x0A) s),
     drop 1 (dropWhile (\<lambda>c. c \<noteq> CHR 0x0A) s))"

lemma read_line_split: "fst (read_line s) @ snd (read_line s) = s"
  by (simp add: read_line_def)

lemma read_line_nonempty: "s \<noteq> [] \<Longrightarrow> fst (read_line s) \<noteq> []"
  by (cases s) (auto simp: read_line_def)

lemma read_line_shorter: "fst (read_line s) \<noteq> [] \<Longrightarrow> length (snd (read_line s)) < length s"
  using read_line_split[of s] by (metis length_append length_greater_0_conv less_add_same_cancel2)

function read_lsp_headers :: "int option \<Rightarrow> string \<Rightarrow> int option \<times> string" where
  "read_lsp_headers content_length s =
     (if fst (read_line s) = [] then (None, snd (read_line s))
      else (let stripped = byte_strip (fst (read_line s)) in
        if stripped = [] then (content_length, snd (read_line s))
        else read_lsp_headers (case parse_content_length stripped of Some n \<Rightarrow> Some n | None \<Rightarrow> content_length)
               (snd (read_line s))))"
  by pat_completeness auto
termination
  by (relation "measure (\<lambda>(n, s). length s)") (auto intro: read_line_shorter)

declare read_lsp_headers.simps [simp del]

text \<open>A message and the rest of the stream; \<open>None\<close> ends the server.\<close>

definition read_lsp_message :: "json_codec \<Rightarrow> string \<Rightarrow> json option \<times> string" where
  "read_lsp_message codec s = (case read_lsp_headers None s of
     (None, rest) \<Rightarrow> (None, rest)
   | (Some n, rest) \<Rightarrow>
       if n \<le> 0 then (None, rest)
       else (let body = take (nat n) rest in
         if length body < nat n then (None, drop (nat n) rest)
         else (case decode_json codec body of
             None \<Rightarrow> (None, drop (nat n) rest)
           | Some v \<Rightarrow> (if v = JNull then None else Some v, drop (nat n) rest))))"

definition write_lsp_message :: "json_codec \<Rightarrow> json \<Rightarrow> string" where
  "write_lsp_message codec d = (let body = encode_json codec d in
     ''Content-Length: '' @ show_nat (length body) @ [CHR 0x0D, CHR 0x0A, CHR 0x0D, CHR 0x0A] @ body)"

section \<open>Requests and notifications\<close>

definition point :: "nat \<Rightarrow> nat \<Rightarrow> json" where
  "point line ch = JObj [(''line'', JInt (int line)), (''character'', JInt (int ch))]"

definition violation_to_lsp_diagnostic :: "violation \<Rightarrow> json" where
  "violation_to_lsp_diagnostic v = (let line = line_number v - 1 in JObj
     [(''range'', JObj [(''start'', point line 0), (''end'', point line 80)]), (''severity'', JInt 1),
      (''code'', JStr (invariant v)), (''source'', JStr ''ast-invariant-sentinel''),
      (''message'', JStr (''['' @ invariant v @ ''] '' @ violation_text v))])"

definition lsp_response :: "json \<Rightarrow> json \<Rightarrow> json" where
  "lsp_response req_id r = JObj [(''jsonrpc'', JStr ''2.0''), (''id'', req_id), (''result'', r)]"

text \<open>What a server works with: the audit, the enumeration of sets, and its configuration.\<close>

record lsp_env =
  audit_part :: audit_env
  enumeration :: "string list \<Rightarrow> string list"
  lsp_config :: sentinel_config
  codec :: json_codec

type_synonym open_docs = "(string, string) dict"

text \<open>The text of \<open>open_docs.get(uri, "")\<close>: a list or a dict is no key.\<close>

definition document :: "open_docs \<Rightarrow> json \<Rightarrow> string py" where
  "document docs uri = (case uri of
     JStr s \<Rightarrow> Inr (case dict_get docs s of Some t \<Rightarrow> t | None \<Rightarrow> '''')
   | JArr _ \<Rightarrow> Inl Type_Error
   | JObj _ \<Rightarrow> Inl Type_Error
   | _ \<Rightarrow> Inr '''')"

definition code_action :: "json \<Rightarrow> string \<Rightarrow> string \<Rightarrow> nat \<Rightarrow> json" where
  "code_action uri source fixed fixes =
     (let ls = py_splitlines source; last_line = length ls - 1; last_char = (if ls = [] then 0 else length (ls ! last_line)) in
      JObj [(''title'', JStr (''Fix '' @ show_nat fixes @ '' invariant violation(s) (ast-invariant-sentinel)'')),
        (''kind'', JStr ''quickfix''), (''isPreferred'', JBool True),
        (''edit'', JObj [(''changes'', JObj [(json_str uri, JArr [JObj
           [(''range'', JObj [(''start'', point 0 0), (''end'', point last_line last_char)]), (''newText'', JStr fixed)]])])])])"

definition handle_code_action :: "lsp_env \<Rightarrow> json \<Rightarrow> json \<Rightarrow> open_docs \<Rightarrow> json py" where
  "handle_code_action env req_id params docs =
     result_bind (py_get params ''textDocument'' (JObj [])) (\<lambda>doc.
     result_bind (py_get doc ''uri'' (JStr '''')) (\<lambda>uri.
     result_bind (document docs uri) (\<lambda>source.
       if source = '''' then Inr (lsp_response req_id (JArr []))
       else (let (fixed, fixes) = auto_fix_source (audit_part env) (enumeration env) (lsp_config env) source in
         if fixes = 0 \<or> fixed = source then Inr (lsp_response req_id (JArr []))
         else Inr (lsp_response req_id (JArr [code_action uri source fixed fixes]))))))"

definition handle_lsp_request :: "lsp_env \<Rightarrow> json \<Rightarrow> open_docs \<Rightarrow> json py" where
  "handle_lsp_request env msg docs =
     result_bind (py_get msg ''id'' JNull) (\<lambda>req_id.
     result_bind (py_get msg ''method'' (JStr '''')) (\<lambda>m.
     result_bind (py_get msg ''params'' (JObj [])) (\<lambda>params.
       if m = JStr ''initialize''
       then Inr (lsp_response req_id (JObj
         [(''capabilities'', JObj [(''textDocumentSync'', JInt 1), (''codeActionProvider'', JBool True)]),
          (''serverInfo'', JObj [(''name'', JStr ''ast-invariant-sentinel''), (''version'', JStr ''0.4.0'')])]))
       else if m = JStr ''shutdown'' then Inr (lsp_response req_id JNull)
       else if m = JStr ''textDocument/codeAction'' then handle_code_action env req_id params docs
       else Inr (lsp_response req_id JNull))))"

text \<open>\<open>changes[0].get("text", "") if changes else doc.get("text", "")\<close>.\<close>

definition changed_text :: "json \<Rightarrow> json \<Rightarrow> json py" where
  "changed_text changes doc =
     (if \<not> py_truthy changes then py_get doc ''text'' (JStr '''')
      else (case changes of
          JArr (c # _) \<Rightarrow> py_get c ''text'' (JStr '''')
        | JObj _ \<Rightarrow> Inl (Key_Error ''0'')
        | JStr _ \<Rightarrow> Inl Attribute_Error
        | _ \<Rightarrow> Inl Type_Error))"

definition publish :: "lsp_env \<Rightarrow> string \<Rightarrow> string \<Rightarrow> json" where
  "publish env uri text = JObj
     [(''jsonrpc'', JStr ''2.0''), (''method'', JStr ''textDocument/publishDiagnostics''),
      (''params'', JObj [(''uri'', JStr uri),
         (''diagnostics'', JArr (map violation_to_lsp_diagnostic (audit_source (audit_part env) text uri (lsp_config env))))])]"

text \<open>The output and the documents after a change; a text or address that is no string makes the audit raise.\<close>

definition on_did_change_doc :: "lsp_env \<Rightarrow> json \<Rightarrow> open_docs \<Rightarrow> (string \<times> open_docs) py" where
  "on_did_change_doc env params docs =
     result_bind (py_get params ''textDocument'' (JObj [])) (\<lambda>doc.
     result_bind (py_get doc ''uri'' (JStr '''')) (\<lambda>uri.
     result_bind (py_get params ''contentChanges'' (JArr [])) (\<lambda>changes.
     result_bind (changed_text changes doc) (\<lambda>t.
       if \<not> py_truthy uri then Inr ('''', docs)
       else (case (uri, t) of
           (JStr u, JStr s) \<Rightarrow> Inr (write_lsp_message (codec env) (publish env u s), dict_set u s docs)
         | (JStr u, _) \<Rightarrow>
             Inl (if is_polyglot u \<and> is_rule_active (lsp_config env) ''ZeroTrustSanitization'' then Attribute_Error else Type_Error)
         | _ \<Rightarrow> Inl Type_Error)))))"

definition on_did_close :: "json \<Rightarrow> open_docs \<Rightarrow> open_docs py" where
  "on_did_close params docs =
     result_bind (py_get params ''textDocument'' (JObj [])) (\<lambda>doc.
     result_bind (py_get doc ''uri'' JNull) (\<lambda>uri.
       if \<not> py_truthy uri then Inr docs
       else (case uri of
           JStr u \<Rightarrow> Inr (dict_pop u docs) | JArr _ \<Rightarrow> Inl Type_Error | JObj _ \<Rightarrow> Inl Type_Error | _ \<Rightarrow> Inr docs)))"

text \<open>The output, the documents, and whether the server is to exit.\<close>

definition handle_lsp_notification :: "lsp_env \<Rightarrow> json \<Rightarrow> open_docs \<Rightarrow> (string \<times> open_docs \<times> bool) py" where
  "handle_lsp_notification env msg docs =
     result_bind (py_get msg ''method'' (JStr '''')) (\<lambda>m.
     result_bind (py_get msg ''params'' (JObj [])) (\<lambda>params.
       if m = JStr ''exit'' then Inr ('''', docs, True)
       else if m = JStr ''textDocument/didOpen'' \<or> m = JStr ''textDocument/didChange''
       then result_bind (on_did_change_doc env params docs) (\<lambda>(out, docs'). Inr (out, docs', False))
       else if m = JStr ''textDocument/didClose''
       then result_bind (on_did_close params docs) (\<lambda>docs'. Inr ('''', docs', False))
       else Inr ('''', docs, False)))"

text \<open>\<open>"id" in msg\<close>.\<close>

definition has_id :: "json \<Rightarrow> bool py" where
  "has_id msg = (case msg of
     JObj kvs \<Rightarrow> Inr (''id'' \<in> fst ` set kvs)
   | JArr xs \<Rightarrow> Inr (JStr ''id'' \<in> set xs)
   | JStr s \<Rightarrow> Inr (contains_sub ''id'' s)
   | _ \<Rightarrow> Inl Type_Error)"

definition dispatch_lsp_msg :: "lsp_env \<Rightarrow> json \<Rightarrow> open_docs \<Rightarrow> (string \<times> open_docs \<times> bool) py" where
  "dispatch_lsp_msg env msg docs = result_bind (has_id msg) (\<lambda>is_request.
     if is_request
     then result_bind (handle_lsp_request env msg docs) (\<lambda>r. Inr (write_lsp_message (codec env) r, docs, False))
     else handle_lsp_notification env msg docs)"

section \<open>The server\<close>

lemma read_headers_shorter: "read_lsp_headers n s = (Some k, rest) \<Longrightarrow> length rest < length s"
proof (induction n s rule: read_lsp_headers.induct)
  case (1 n s)
  show ?case
  proof (cases "fst (read_line s) = [] \<or> byte_strip (fst (read_line s)) = []")
    case True
    then show ?thesis using "1.prems" read_line_shorter[of s]
      by (simp add: read_lsp_headers.simps[of n s] split: if_splits)
  next
    case False
    then have "length rest < length (snd (read_line s))"
      using "1.prems" by (intro "1.IH") (simp_all add: read_lsp_headers.simps[of n s])
    then show ?thesis using read_line_shorter[of s] False by simp
  qed
qed

lemma read_message_shorter: "read_lsp_message cd s = (Some msg, rest) \<Longrightarrow> length rest < length s"
  using read_headers_shorter[of None s]
  by (auto simp: read_lsp_message_def Let_def split: prod.splits option.splits if_splits)

text \<open>The bytes written, and the exception that ends the process, if any.\<close>

function run_lsp_server :: "lsp_env \<Rightarrow> open_docs \<Rightarrow> string \<Rightarrow> string \<times> py_error option" where
  "run_lsp_server env docs s = (case read_lsp_message (codec env) s of
     (None, _) \<Rightarrow> ('''', None)
   | (Some msg, rest) \<Rightarrow> (case dispatch_lsp_msg env msg docs of
       Inl e \<Rightarrow> ('''', Some e)
     | Inr (out, docs', exit) \<Rightarrow> (if exit then (out, None)
         else (let (more, e) = run_lsp_server env docs' rest in (out @ more, e)))))"
  by pat_completeness auto
termination
  by (relation "measure (\<lambda>(env, docs, s). length s)") (auto dest!: read_message_shorter[OF sym])

declare run_lsp_server.simps [simp del]

end
