(* ===== verification/Sentinel_Props.thy ===== *)
theory Sentinel_Props
  imports Sentinel_Run
begin

text \<open>
  Properties of the audit: when a Python file passes, that the structural caps cannot be waived, which
  files of a tree are audited, and how the configuration selects the rules.
\<close>

section \<open>Rules\<close>

lemma rules_normal: "r \<in> ALL_INVARIANT_RULES \<Longrightarrow> normalize_rule_name r = r"
proof -
  have "\<forall>r\<in>ALL_INVARIANT_RULES. normalize_rule_name r = r" by code_simp
  then show "r \<in> ALL_INVARIANT_RULES \<Longrightarrow> normalize_rule_name r = r" by blast
qed

lemma active_iff: "r \<in> ALL_INVARIANT_RULES \<Longrightarrow> is_rule_active cfg r \<longleftrightarrow> r \<in> active_rules cfg"
  by (simp add: is_rule_active_def rules_normal)

lemmas known_rules = ALL_INVARIANT_RULES_def insertI1 insertI2

lemma aliases_normal: "map_of RULE_ALIASES a = Some c \<Longrightarrow> normalize_rule_name c = c"
proof -
  have "\<forall>(a, c)\<in>set RULE_ALIASES. normalize_rule_name c = c" by code_simp
  then show "map_of RULE_ALIASES a = Some c \<Longrightarrow> normalize_rule_name c = c" by (auto dest: map_of_SomeD)
qed

lemma strip_strip: "py_strip (py_strip s) = py_strip s"
proof -
  have "dropWhile P (dropWhile P xs) = dropWhile P xs" for P and xs :: string
    by (induction xs) auto
  moreover have "dropWhile P (rev (dropWhile P (rev (dropWhile P s)))) = rev (dropWhile P (rev (dropWhile P s)))" for P
  proof (cases "rev (dropWhile P (rev (dropWhile P s)))")
    case (Cons c cs)
    have "\<exists>zs. dropWhile P s = rev (dropWhile P (rev (dropWhile P s))) @ zs"
      by (metis append_Nil2 rev_append rev_rev_ident takeWhile_dropWhile_id)
    then obtain zs where "dropWhile P s = c # (cs @ zs)" using Cons by auto
    then have "\<not> P c" using hd_dropWhile[of P s] by (metis list.sel(1) list.distinct(1))
    then show ?thesis using Cons by simp
  next
    case Nil
    then show ?thesis by (simp only: dropWhile.simps)
  qed
  ultimately show ?thesis by (simp add: py_strip_def py_lstrip_def py_rstrip_def)
qed

lemma normalize_idem: "normalize_rule_name (normalize_rule_name r) = normalize_rule_name r"
proof (cases "map_of RULE_ALIASES (py_lower (py_strip r))")
  case None
  then show ?thesis by (simp add: normalize_rule_name_def strip_strip)
next
  case (Some c)
  then show ?thesis using aliases_normal by (simp add: normalize_rule_name_def[of r])
qed

section \<open>Functions\<close>

definition within_caps :: "sentinel_config \<Rightarrow> py_node \<Rightarrow> bool" where
  "within_caps cfg f \<longleftrightarrow> int (calculate_complexity f) \<le> max_complexity cfg"

definition functions_of :: "py_node \<Rightarrow> py_node list" where
  "functions_of t = filter (\<lambda>f. is_function (label f)) (preorder t)"

lemma complexity_visit_functions: "complexity_visit path cfg t = concat (map (audit_function path cfg) (functions_of t))"
proof (induction t)
  case (Tree n ts)
  have "concat (map (complexity_visit path cfg) ts) = concat (map (audit_function path cfg) (filter (\<lambda>f. is_function (label f)) (concat (map preorder ts))))"
    using Tree.IH by (induction ts) (simp_all add: functions_of_def)
  then show ?case by (simp add: functions_of_def)
qed

definition constants_of :: "py_node \<Rightarrow> (nat \<times> string) list" where
  "constants_of t = List.map_filter (\<lambda>c. if node_class (label c) = ''Constant''
     then map_option (\<lambda>s. (lineno (label c), s)) (string_value (label c)) else None) (preorder t)"

lemma map_filter_append: "List.map_filter f (xs @ ys) = List.map_filter f xs @ List.map_filter f ys"
  by (simp add: map_filter_def)

lemma sanitization_visit_constants: "sanitization_visit path t = concat (map (\<lambda>(line, s). check_text path line s) (constants_of t))"
proof (induction t)
  case (Tree n ts)
  have "concat (map (sanitization_visit path) ts) = concat (map (\<lambda>(line, s). check_text path line s)
      (List.map_filter (\<lambda>c. if node_class (label c) = ''Constant''
         then map_option (\<lambda>s. (lineno (label c), s)) (string_value (label c)) else None) (concat (map preorder ts))))"
    using Tree.IH by (induction ts) (simp_all add: constants_of_def map_filter_append)
  then show ?case by (simp add: constants_of_def map_filter_simps split: option.splits)
qed

text \<open>A text with no private address and no subdomain of the mock domain.\<close>

definition sanitized :: "string \<Rightarrow> bool" where
  "sanitized s \<longleftrightarrow> list_all (\<lambda>ip. \<not> is_prohibited_ip ip) (find_quads False s) \<and> extract_disallowed_subdomain s = None"

lemma check_text_empty: "check_text path line s = [] \<longleftrightarrow> sanitized s"
  by (auto simp: check_text_def sanitized_def filter_empty_conv list_all_iff split: option.splits)

section \<open>Waivers\<close>

lemma scan_comments_waived: "fst (scan_comments dash path cs acc) \<subseteq> fst acc \<union> WAIVABLE_INVARIANTS"
proof (induction dash path cs acc rule: scan_comments.induct)
  case (2 dash path line s cs w vs)
  show ?case
  proof (cases "contains_sub ''sentinel:'' s")
    case True
    let ?t = "py_strip s"
    show ?thesis
    proof (cases "waiver_defect ?t (pragma_match dash ?t)")
      case None
      then obtain m where m: "pragma_match dash ?t = Some m" "text_group ?t m 1 \<in> WAIVABLE_INVARIANTS"
        by (auto simp: waiver_defect_def Let_def split: option.splits if_splits)
      then show ?thesis using 2 True None by (fastforce simp: Let_def)
    qed (use True 2 in \<open>fastforce simp: Let_def\<close>)
  qed (use 2 in auto)
qed simp

lemma waived_waivable: "waived (scan_waivers dash tokens path source) \<subseteq> WAIVABLE_INVARIANTS"
  using scan_comments_waived[of dash path "iter_header_comments tokens source" "({}, [])"]
  by (simp add: scan_waivers_def case_prod_beta)

section \<open>The verdict on a Python file\<close>

lemma audit_function_rules: "v \<in> set (audit_function path cfg f) \<Longrightarrow> invariant v = ''CyclomaticComplexity'' \<or> invariant v = ''NestingDepth''"
  by (auto simp: audit_function_def exceeded_def Let_def split: if_splits)

lemma check_text_rules: "v \<in> set (check_text path line s) \<Longrightarrow> invariant v = ''ZeroTrustSanitization''"
  by (auto simp: check_text_def sanitization_violation_def split: option.splits)

lemma visit_rules:
  "v \<in> set (complexity_visit path cfg t) \<Longrightarrow> invariant v = ''CyclomaticComplexity'' \<or> invariant v = ''NestingDepth''"
  "v \<in> set (sanitization_visit path t) \<Longrightarrow> invariant v = ''ZeroTrustSanitization''"
  using audit_function_rules check_text_rules
  by (auto simp: complexity_visit_functions sanitization_visit_constants)

lemma scan_comments_rules:
  "v \<in> set (snd (scan_comments dash path cs (w, vs))) \<Longrightarrow> v \<in> set vs \<or> invariant v = ''WaiverIntegrity''"
proof (induction cs arbitrary: w vs)
  case (Cons c cs)
  obtain line s where c: "c = (line, s)" by (cases c) auto
  show ?case using Cons.prems unfolding c
    by (auto simp: Let_def waiver_violation_def split: if_splits option.splits dest!: Cons.IH)
qed simp

lemma late_rules: "v \<in> set (late_waiver_violations dash path source w) \<Longrightarrow> invariant v = ''WaiverIntegrity''"
  by (auto simp: late_waiver_violations_def map_filter_def Let_def waiver_violation_def split: option.splits if_splits)

lemma waiver_rules: "v \<in> set (waiver_violations (scan_waivers dash tokens path source)) \<Longrightarrow> invariant v = ''WaiverIntegrity''"
  using scan_comments_rules[of v dash path "iter_header_comments tokens source" "{}" "[]"] late_rules
  by (auto simp: scan_waivers_def case_prod_beta)

definition complexity_kept :: "sentinel_config \<Rightarrow> py_node \<Rightarrow> bool" where
  "complexity_kept cfg t \<longleftrightarrow> list_all (\<lambda>f. int (calculate_complexity f) \<le> max_complexity cfg) (functions_of t)"

definition nesting_kept :: "sentinel_config \<Rightarrow> py_node \<Rightarrow> bool" where
  "nesting_kept cfg t \<longleftrightarrow> list_all (\<lambda>f. int (calculate_max_nesting f) \<le> max_depth cfg) (functions_of t)"

definition constants_sanitized :: "py_node \<Rightarrow> bool" where
  "constants_sanitized t \<longleftrightarrow> list_all (\<lambda>(line, s). sanitized s) (constants_of t)"

lemma exceeded_rule: "invariant (exceeded path line r entity what n limit) = r"
  by (simp add: exceeded_def)

lemma complexity_visit_active:
  "filter (\<lambda>v. is_rule_active cfg (invariant v)) (complexity_visit path cfg t) = [] \<longleftrightarrow>
    (is_rule_active cfg ''CyclomaticComplexity'' \<longrightarrow> complexity_kept cfg t) \<and> (is_rule_active cfg ''NestingDepth'' \<longrightarrow> nesting_kept cfg t)"
proof -
  have one: "(\<forall>v\<in>set (audit_function path cfg f). \<not> is_rule_active cfg (invariant v)) \<longleftrightarrow>
      (is_rule_active cfg ''CyclomaticComplexity'' \<longrightarrow> int (calculate_complexity f) \<le> max_complexity cfg)
      \<and> (is_rule_active cfg ''NestingDepth'' \<longrightarrow> int (calculate_max_nesting f) \<le> max_depth cfg)" for f
    by (simp add: audit_function_def exceeded_rule Let_def ball_Un) linarith
  show ?thesis
    by (simp add: filter_empty_conv complexity_visit_functions complexity_kept_def nesting_kept_def list_all_iff ball_UN one) blast
qed

lemma sanitization_visit_empty: "sanitization_visit path t = [] \<longleftrightarrow> constants_sanitized t"
  by (auto simp: sanitization_visit_constants constants_sanitized_def list_all_iff check_text_empty)

lemma filter_constant: "(\<And>v. v \<in> set xs \<Longrightarrow> P v = b) \<Longrightarrow> filter P xs = [] \<longleftrightarrow> \<not> b \<or> xs = []"
  by (cases xs) (auto simp: filter_empty_conv)

text \<open>C5: A Python file passes exactly when, for each rule that is active: every function keeps both caps,
  every string constant is sanitized or the header waives that, and the waivers are in order. No waiver
  changes what is said of the caps.\<close>

theorem python_file_passes_iff:
  assumes "ast_parse env source = Inr t"
  shows "audit_python_source env path source cfg = [] \<longleftrightarrow>
    (let ws = scan_waivers (em_dash env) (tokenise env) (path_str path) source in
      (is_rule_active cfg ''CyclomaticComplexity'' \<longrightarrow> complexity_kept cfg t)
      \<and> (is_rule_active cfg ''NestingDepth'' \<longrightarrow> nesting_kept cfg t)
      \<and> (is_rule_active cfg ''ZeroTrustSanitization'' \<longrightarrow> ''ZeroTrustSanitization'' \<in> waived ws \<or> constants_sanitized t)
      \<and> (is_rule_active cfg ''WaiverIntegrity'' \<longrightarrow> waiver_violations ws = []))"
proof -
  let ?ws = "scan_waivers (em_dash env) (tokenise env) (path_str path) source"
  let ?on = "is_rule_active cfg"
  let ?san = "if ?on ''ZeroTrustSanitization'' then sanitization_visit path t else []"
  have "audit_python_source env path source cfg =
      filter (\<lambda>v. ?on (invariant v)) (waiver_violations ?ws)
      @ filter (\<lambda>v. ?on (invariant v)) (filter (\<lambda>v. invariant v \<notin> waived ?ws) (complexity_visit path cfg t))
      @ filter (\<lambda>v. ?on (invariant v)) (filter (\<lambda>v. invariant v \<notin> waived ?ws) ?san)"
    by (simp only: audit_python_source_def assms sum.case filter_active_violations_def run_visitors_def filter_append)
  moreover have "filter (\<lambda>v. ?on (invariant v)) (waiver_violations ?ws) = []
      \<longleftrightarrow> \<not> ?on ''WaiverIntegrity'' \<or> waiver_violations ?ws = []"
    by (rule filter_constant) (simp add: waiver_rules)
  moreover have "filter (\<lambda>v. invariant v \<notin> waived ?ws) (complexity_visit path cfg t) = complexity_visit path cfg t"
    using waived_waivable visit_rules(1) by (fastforce simp: filter_id_conv WAIVABLE_INVARIANTS_def)
  moreover have "filter (\<lambda>v. ?on (invariant v)) (filter (\<lambda>v. invariant v \<notin> waived ?ws) ?san) = []
      \<longleftrightarrow> \<not> (?on ''ZeroTrustSanitization'' \<and> ''ZeroTrustSanitization'' \<notin> waived ?ws) \<or> ?san = []"
    unfolding filter_filter by (rule filter_constant) (use visit_rules(2) in \<open>auto split: if_splits\<close>)
  ultimately show ?thesis
    by (auto simp: complexity_visit_active sanitization_visit_empty Let_def)
qed

text \<open>A small module with a function and a private address, and the same without the address.\<close>

definition leaf :: "string \<Rightarrow> node_label" where
  "leaf c = \<lparr>node_class = c, has_orelse = False, ifs_count = 0, values_count = 0, is_wildcard = False, in_body = True,
     node_name = ''f'', lineno = 1, string_value = None\<rparr>"

definition sample_tree :: "string \<Rightarrow> py_node" where
  "sample_tree s = Tree (leaf ''Module'') [Tree (leaf ''FunctionDef'') [Tree (leaf ''If'') [],
     Tree ((leaf ''Constant'')\<lparr>string_value := Some s\<rparr>) []]]"

definition sample_env :: audit_env where
  "sample_env = \<lparr>ast_parse = (\<lambda>s. Inr (sample_tree s)), tokenise = (\<lambda>s. [(1, True, ''# a comment'')]), em_dash = CHR 0x97\<rparr>"

lemma python_file_passes_witness:
  "audit_python_source sample_env ''m.py'' ''10.0.0.1'' default_config \<noteq> []
   \<and> audit_python_source sample_env ''m.py'' ''192.0.2.1'' default_config = []"
proof -
  have parses: "ast_parse sample_env s = Inr (sample_tree s)" for s by (simp add: sample_env_def)
  have ws: "waived (scan_waivers (em_dash sample_env) (tokenise sample_env) (path_str ''m.py'') ''10.0.0.1'') = {}"
    "waiver_violations (scan_waivers (em_dash sample_env) (tokenise sample_env) (path_str ''m.py'') ''192.0.2.1'') = []"
    by code_simp+
  have caps: "complexity_kept default_config (sample_tree s)" "nesting_kept default_config (sample_tree s)" for s
    by (simp_all add: complexity_kept_def nesting_kept_def functions_of_def sample_tree_def leaf_def is_function_def
        calculate_complexity_def tree_walk_def ast_node_complexity_def WEIGHTS_def default_config_def
        calculate_max_nesting_def body_of_def opens_block_def nesting_node_types_def)
  have text_ok: "constants_sanitized (sample_tree s) \<longleftrightarrow> sanitized s" for s
    by (simp add: constants_sanitized_def constants_of_def sample_tree_def leaf_def map_filter_simps)
  have "\<not> sanitized ''10.0.0.1''" "sanitized ''192.0.2.1''" by code_simp+
  moreover have "is_rule_active default_config ''ZeroTrustSanitization''" by code_simp
  ultimately show ?thesis
    unfolding python_file_passes_iff[OF parses] Let_def using ws caps text_ok by simp
qed

section \<open>Targets\<close>

text \<open>A file of a directory tree, with the names of the directories above it.\<close>

fun holds_file :: "directory \<Rightarrow> string list \<Rightarrow> string \<Rightarrow> file_read \<Rightarrow> bool" where
  "holds_file (Directory nm files subs) [] f c \<longleftrightarrow> (f, c) \<in> set files"
| "holds_file (Directory nm files subs) (d # ds) f c \<longleftrightarrow> (\<exists>s\<in>set subs. dir_name s = d \<and> holds_file s ds f c)"

lemma ex_list: "(\<exists>xs. P xs) \<longleftrightarrow> P [] \<or> (\<exists>x xs. P (x # xs))"
  by (metis list.exhaust)

lemma walked_files: "(p, c) \<in> set (walk_repository keep path d) \<longleftrightarrow>
    (\<exists>dirs f. holds_file d dirs f c \<and> keep f \<and> list_all is_repository_dir dirs \<and> p = path_join (foldl path_join path dirs) f)"
proof (induction d arbitrary: path)
  case (Directory nm files subs)
  let ?Q = "\<lambda>s q ds f. holds_file s ds f c \<and> keep f \<and> list_all is_repository_dir ds \<and> p = path_join (foldl path_join q ds) f"
  have "(p, c) \<in> set (walk_repository keep path (Directory nm files subs)) \<longleftrightarrow>
      (\<exists>f. (f, c) \<in> set files \<and> keep f \<and> p = path_join path f)
      \<or> (\<exists>s\<in>set subs. is_repository_dir (dir_name s) \<and> (p, c) \<in> set (walk_repository keep (path_join path (dir_name s)) s))"
    by (auto split: if_splits)
  also have "\<dots> \<longleftrightarrow> (\<exists>f. ?Q (Directory nm files subs) path [] f)
      \<or> (\<exists>s\<in>set subs. is_repository_dir (dir_name s) \<and> (\<exists>ds f. ?Q s (path_join path (dir_name s)) ds f))"
    using Directory.IH by auto
  also have "\<dots> \<longleftrightarrow> (\<exists>f. ?Q (Directory nm files subs) path [] f) \<or> (\<exists>d ds f. ?Q (Directory nm files subs) path (d # ds) f)"
    by (rule arg_cong[of _ _ "(\<or>) _"]) (simp, blast)
  also have "\<dots> \<longleftrightarrow> (\<exists>dirs f. ?Q (Directory nm files subs) path dirs f)"
    by (rule ex_list[symmetric, of "\<lambda>dirs. \<exists>f. ?Q (Directory nm files subs) path dirs f"])
  finally show ?case .
qed

text \<open>C24: Beneath a directory exactly the Python and polyglot files are audited that have no hidden or vendored
  directory above them.\<close>

theorem audited_files_iff: "(p, c) \<in> set (collect_audit_targets (Dir_Target path d)) \<longleftrightarrow>
    (\<exists>dirs f. holds_file d dirs f c \<and> list_all is_repository_dir dirs \<and> (is_py_name f \<or> is_polyglot f)
       \<and> p = path_join (foldl path_join path dirs) f)"
  by (auto simp: collect_audit_targets_def sort_paths_def walked_files)

lemma keep_first_distinct: "distinct (map (resolve \<circ> fst) (keep_first resolve seen fs))
    \<and> set (map (resolve \<circ> fst) (keep_first resolve seen fs)) = set (map (resolve \<circ> fst) fs) - set seen"
  by (induction resolve seen fs rule: keep_first.induct) auto

text \<open>Every file that a target names is audited once, however often and under whatever names it is named.\<close>

lemma targets_audited_once: "distinct (map (resolve \<circ> fst) (expand_targets resolve ts))
    \<and> set (map (resolve \<circ> fst) (expand_targets resolve ts)) = set (map (resolve \<circ> fst) (concat (map collect_audit_targets ts)))"
  using keep_first_distinct[of resolve "[]"] by (simp add: expand_targets_def)

section \<open>The selection of rules\<close>

lemma active_rules_config: "active_rules (config_of opts data) =
    ((if selected_rules (config_of opts data) = {} then preset_rules (preset_of (resolve_preset_name (o_preset opts) (field_or data ''preset'' JNull)))
      else selected_rules (config_of opts data)) \<union> extended_rules (config_of opts data)) - ignored_rules (config_of opts data)"
  by (auto simp: config_of_def Let_def resolve_active_rules_def normalize_rule_set_def)

lemma silent_filter: "(\<And>v. v \<in> set (waiver_violations ws) \<union> set detected \<Longrightarrow> \<not> is_rule_active cfg (invariant v))
    \<Longrightarrow> filter_active_violations detected ws cfg = []"
  by (auto simp: filter_active_violations_def filter_empty_conv)

definition selected_names :: "config_overrides \<Rightarrow> (string, json) dict \<Rightarrow> string list" where
  "selected_names opts data = parse_rule_sequence (pick_raw_sequence (o_select opts) (field_or data ''select'' JNull))"

definition extended_names :: "config_overrides \<Rightarrow> (string, json) dict \<Rightarrow> string list" where
  "extended_names opts data = parse_rule_sequence (pick_raw_sequence (o_extend opts) (field_or data ''extend_select'' JNull))"

definition no_alias :: "string \<Rightarrow> bool" where
  "no_alias nm \<longleftrightarrow> py_lower (py_strip nm) \<notin> fst ` set RULE_ALIASES"

lemma rules_have_aliases: "r \<in> ALL_INVARIANT_RULES \<Longrightarrow> py_lower r \<in> fst ` set RULE_ALIASES"
proof -
  have "\<forall>r\<in>ALL_INVARIANT_RULES. py_lower r \<in> fst ` set RULE_ALIASES" by code_simp
  then show "r \<in> ALL_INVARIANT_RULES \<Longrightarrow> py_lower r \<in> fst ` set RULE_ALIASES" by blast
qed

lemma no_alias_normal: "no_alias nm \<Longrightarrow> normalize_rule_name nm \<notin> ALL_INVARIANT_RULES"
  using rules_have_aliases[of "py_strip nm"]
  by (auto simp: no_alias_def normalize_rule_name_def split: option.splits dest: map_of_SomeD)
     (metis fst_conv image_eqI map_of_SomeD)+



section \<open>What the audit misses\<close>

text \<open>Without a comment in the header, the lines of a docstring are read as comments: an example in a string
  waives the rule for the module.\<close>

lemma docstring_waives:
  "waived (scan_waivers (CHR 0x97) (\<lambda>s. [(1, False, s)]) ''m.py''
     (replicate 3 (CHR 0x22) @ newline @ ''# sentinel: allow[ZeroTrustSanitization] as in this example'' @ newline
      @ replicate 3 (CHR 0x22))) = {''ZeroTrustSanitization''}"
  by code_simp

text \<open>A function of C with parameters is not found; here only the block after \<open>else\<close> is taken for one, and
  the nesting of the function is not measured.\<close>

lemma c_function_not_found:
  "map (\<lambda>v. (invariant v, metric_value v)) (audit_polyglot_complexity ''f.c''
     ''int f(int a) { if (a) { if (a) { x(); } } else { y(); } }'' (default_config\<lparr>max_complexity := 0, max_depth := 0\<rparr>))
   = [(''CyclomaticComplexity'', Some 1), (''NestingDepth'', Some 1)]"
  by code_simp

end
