(* ===== verification/Sentinel_Lsp_Props.thy ===== *)
theory Sentinel_Lsp_Props
  imports Sentinel_Lsp Sentinel_Props Address_Props
begin

text \<open>
  Properties of the language server and of the remedies: frames are read back as they were written, a
  server that reads written frames is a fold over the messages, and what a remedy may change.
\<close>

section \<open>Frames\<close>

lemma byte_strip_word:
  assumes "xs \<noteq> []" "\<not> byte_space (hd xs)" "\<not> byte_space (last xs)" "list_all byte_space a" "list_all byte_space b"
  shows "byte_strip (a @ xs @ b) = xs"
proof -
  have "dropWhile byte_space (a @ xs @ b) = xs @ b"
    using assms(1,2,4) by (cases xs) (auto simp: list_all_iff dropWhile_append2)
  moreover have "dropWhile byte_space (rev b @ rev xs) = dropWhile byte_space (rev xs)"
    by (rule dropWhile_append2) (use assms(5) in \<open>auto simp: list_all_iff\<close>)
  moreover have "dropWhile byte_space (rev xs) = rev xs"
    using assms(1,3) by (cases "rev xs") auto
  ultimately show ?thesis by (simp add: byte_strip_def)
qed

lemma digit_not_space: "is_digit c \<Longrightarrow> \<not> byte_space c \<and> (of_char c :: nat) < 128"
  by (auto simp: is_digit_def byte_space_def Let_def)

lemma show_nat_ends: "\<not> byte_space (hd (show_nat n))" "\<not> byte_space (last (show_nat n))"
  using digit_not_space show_nat_digits[of _ n] hd_in_set[of "show_nat n"] last_in_set[of "show_nat n"] by auto

lemma spaces_are_spaces: "byte_space (CHR '' '')" "byte_space (CHR 0x0D)" "byte_space (CHR 0x0A)" "\<not> byte_space (CHR ''C'')"
  by code_simp+

lemma parse_length_header: "parse_content_length (''Content-Length: '' @ show_nat n) = Some (int n)"
proof -
  have lower: "map byte_lower ''Content-Length: '' = ''content-length: ''" by code_simp
  have "byte_strip (tl (dropWhile (\<lambda>c. c \<noteq> CHR '':'') (''Content-Length: '' @ show_nat n))) = byte_strip ('' '' @ show_nat n @ [])"
    by simp
  also have "\<dots> = show_nat n"
    by (rule byte_strip_word) (simp_all add: show_nat_ends spaces_are_spaces)
  finally have "byte_strip (tl (dropWhile (\<lambda>c. c \<noteq> CHR '':'') (''Content-Length: '' @ show_nat n))) = show_nat n" .
  moreover have "starts_with (map byte_lower (''Content-Length: '' @ show_nat n)) ''content-length:''"
    unfolding map_append lower by (simp add: starts_with_def)
  moreover have "int_of_bytes (show_nat n) = Some (int n)"
    by (simp add: int_of_bytes_def int_of_text_show_nat list_all_iff digit_not_space show_nat_digits)
  ultimately show ?thesis by (simp only: parse_content_length_def not_True_eq_False if_False)
qed

lemma read_line_at: "list_all (\<lambda>c. c \<noteq> CHR 0x0A) l \<Longrightarrow> read_line (l @ CHR 0x0A # rest) = (l @ [CHR 0x0A], rest)"
  by (simp add: read_line_def list_all_iff takeWhile_append2 dropWhile_append2)

lemma read_headers_written:
  "read_lsp_headers None (''Content-Length: '' @ show_nat n @ [CHR 0x0D, CHR 0x0A, CHR 0x0D, CHR 0x0A] @ rest) = (Some (int n), rest)"
proof -
  let ?h = "''Content-Length: '' @ show_nat n"
  have "list_all (\<lambda>c. c \<noteq> CHR 0x0A) (?h @ [CHR 0x0D])"
    by (auto simp: list_all_iff is_digit_def dest: show_nat_digits)
  then have one: "read_line ((?h @ [CHR 0x0D]) @ CHR 0x0A # (CHR 0x0D # CHR 0x0A # rest))
      = ((?h @ [CHR 0x0D]) @ [CHR 0x0A], CHR 0x0D # CHR 0x0A # rest)" by (rule read_line_at)
  have two: "read_line (CHR 0x0D # CHR 0x0A # rest) = ([CHR 0x0D, CHR 0x0A], rest)"
    using read_line_at[of "[CHR 0x0D]" rest] by simp
  have strip: "byte_strip ((?h @ [CHR 0x0D]) @ [CHR 0x0A]) = ?h"
    using byte_strip_word[of ?h "[]" "[CHR 0x0D, CHR 0x0A]"] show_nat_ends(2)[of n] by (simp add: spaces_are_spaces)
  have blank: "byte_strip [CHR 0x0D, CHR 0x0A] = []" by code_simp
  have "read_lsp_headers None ((?h @ [CHR 0x0D]) @ CHR 0x0A # (CHR 0x0D # CHR 0x0A # rest))
      = read_lsp_headers (Some (int n)) (CHR 0x0D # CHR 0x0A # rest)"
    by (subst read_lsp_headers.simps) (simp only: one strip fst_conv snd_conv Let_def parse_length_header option.case, simp)
  also have "\<dots> = (Some (int n), rest)"
    by (subst read_lsp_headers.simps) (simp add: two blank)
  finally show ?thesis by simp
qed

text \<open>A frame is read back as the message it was written for, and the stream goes on behind it, when
  \<open>json.loads\<close> reads what \<open>json.dumps\<close> writes.\<close>

theorem frame_roundtrip:
  assumes "decode_json cd (encode_json cd d) = Some d" "encode_json cd d \<noteq> []" "d \<noteq> JNull"
  shows "read_lsp_message cd (write_lsp_message cd d @ rest) = (Some d, rest)"
proof -
  let ?b = "encode_json cd d"
  have "read_lsp_headers None (write_lsp_message cd d @ rest) = (Some (int (length ?b)), ?b @ rest)"
    using read_headers_written[of "length ?b" "?b @ rest"] by (simp add: write_lsp_message_def Let_def)
  then show ?thesis using assms by (simp add: read_lsp_message_def)
qed

definition sample_codec :: json_codec where
  "sample_codec = \<lparr>encode_json = (\<lambda>j. ''{}''), decode_json = (\<lambda>s. if s = ''{}'' then Some (JObj []) else None)\<rparr>"

lemma frame_roundtrip_witness:
  "read_lsp_message sample_codec (write_lsp_message sample_codec (JObj []) @ ''Content'') = (Some (JObj []), ''Content'')"
  by (rule frame_roundtrip) (simp_all add: sample_codec_def)

section \<open>The server\<close>

text \<open>What the server is to do with the messages of a stream, one after the other.\<close>

fun serve :: "lsp_env \<Rightarrow> open_docs \<Rightarrow> json list \<Rightarrow> string \<times> py_error option" where
  "serve env docs [] = ('''', None)"
| "serve env docs (msg # msgs) = (case dispatch_lsp_msg env msg docs of
     Inl e \<Rightarrow> ('''', Some e)
   | Inr (out, docs', exit) \<Rightarrow>
       if exit then (out, None) else (let (more, e) = serve env docs' msgs in (out @ more, e)))"

text \<open>C6: On a stream of written frames the server does with each message in turn what its dispatcher says,
  until one of them makes it exit or raise, or the stream ends.\<close>

theorem server_serves_messages:
  assumes "\<forall>m\<in>set msgs. m \<noteq> JNull \<and> encode_json (codec env) m \<noteq> [] \<and> decode_json (codec env) (encode_json (codec env) m) = Some m"
  shows "run_lsp_server env docs (concat (map (write_lsp_message (codec env)) msgs)) = serve env docs msgs"
  using assms
proof (induction msgs arbitrary: docs)
  case Nil
  have "read_lsp_message cd [] = (None, [])" for cd
    by (simp add: read_lsp_message_def read_lsp_headers.simps[of None "[]"] read_line_def)
  then show ?case by (simp add: run_lsp_server.simps)
next
  case (Cons m ms)
  then have "read_lsp_message (codec env) (concat (map (write_lsp_message (codec env)) (m # ms)))
      = (Some m, concat (map (write_lsp_message (codec env)) ms))"
    by (simp add: frame_roundtrip)
  then show ?case using Cons.IH Cons.prems
    by (simp add: run_lsp_server.simps[of env docs "write_lsp_message (codec env) m @ concat (map (write_lsp_message (codec env)) ms)"] split: sum.splits)
qed

text \<open>A codec of three messages, and a server that reads two of them.\<close>

definition shutdown_request :: json where
  "shutdown_request = JObj [(''id'', JInt 7), (''method'', JStr ''shutdown'')]"

definition exit_notification :: json where
  "exit_notification = JObj [(''method'', JStr ''exit'')]"

definition word_codec :: json_codec where
  "word_codec = \<lparr>encode_json = (\<lambda>j. if j = shutdown_request then ''S'' else if j = exit_notification then ''X'' else ''R''),
     decode_json = (\<lambda>s. if s = ''S'' then Some shutdown_request else if s = ''X'' then Some exit_notification else None)\<rparr>"

definition sample_server :: lsp_env where
  "sample_server = \<lparr>audit_part = sample_env, enumeration = id, lsp_config = default_config, codec = word_codec\<rparr>"

lemma server_serves_witness:
  "run_lsp_server sample_server [] (concat (map (write_lsp_message (codec sample_server)) [shutdown_request, exit_notification]))
   = (write_lsp_message word_codec (lsp_response (JInt 7) JNull), None)"
proof -
  have "run_lsp_server sample_server [] (concat (map (write_lsp_message (codec sample_server)) [shutdown_request, exit_notification]))
      = serve sample_server [] [shutdown_request, exit_notification]"
    by (rule server_serves_messages) (simp add: sample_server_def word_codec_def shutdown_request_def exit_notification_def)
  then show ?thesis
    by (simp add: dispatch_lsp_msg_def has_id_def handle_lsp_request_def handle_lsp_notification_def
        shutdown_request_def exit_notification_def sample_server_def)
qed

text \<open>A request is answered by one frame with its id, and changes no document; a dispatch that raises writes
  nothing.\<close>

lemma request_answered:
  assumes "msg = JObj kvs" "map_of kvs ''id'' = Some i" "dispatch_lsp_msg env msg docs = Inr (out, docs', exit)"
  shows "\<exists>r. out = write_lsp_message (codec env) (lsp_response i r) \<and> docs' = docs \<and> \<not> exit"
proof -
  have "''id'' \<in> fst ` set kvs" using assms(2) by (force dest: map_of_SomeD)
  then have "\<exists>resp. handle_lsp_request env msg docs = Inr resp \<and> out = write_lsp_message (codec env) resp \<and> docs' = docs \<and> \<not> exit"
    using assms(1,3) by (auto simp: dispatch_lsp_msg_def has_id_def result_bind_def split: sum.splits)
  moreover have "\<exists>r. resp = lsp_response i r" if "handle_lsp_request env msg docs = Inr resp" for resp
    using that assms(1,2)
    by (auto simp: handle_lsp_request_def handle_code_action_def result_bind_def Let_def split: sum.splits option.splits if_splits prod.splits)
  ultimately show ?thesis by blast
qed

section \<open>Remedies\<close>

text \<open>A remedy either leaves the source as it is and counts nothing, or gives a source that parses.\<close>

theorem remedy_parses: "auto_fix_source env order cfg source = (source, 0)
    \<or> (\<exists>fixed n t. auto_fix_source env order cfg source = (fixed, n) \<and> 0 < n \<and> ast_parse env fixed = Inr t)"
  by (auto simp: auto_fix_source_def Let_def split: sum.splits)

text \<open>Nothing is done where the rule is off, or no line has anything to remedy.\<close>

lemma remedy_inactive: "\<not> is_rule_active cfg ''ZeroTrustSanitization'' \<Longrightarrow> auto_fix_source env order cfg source = (source, 0)"
  by (simp add: auto_fix_source_def)

text \<open>The replacement goes by text: an address that ends like a private one is damaged, and what two
  addresses become depends on the order in which the set is enumerated.\<close>

lemma remedy_damages_neighbour: "fix_ip_in_line order ''10.0.0.1 110.0.0.1'' = (''192.0.2.1 1192.0.2.1'', 1)"
  if "order [''10.0.0.1''] = [''10.0.0.1'']"
proof -
  have "collect_prohibited_ips ''10.0.0.1 110.0.0.1'' = [''10.0.0.1'']"
    and "py_replace ''10.0.0.1'' SAFE_DOC_REPLACEMENT_IP ''10.0.0.1 110.0.0.1'' = ''192.0.2.1 1192.0.2.1''"
    and "\<not> contains_sub ''# sentinel:'' ''10.0.0.1 110.0.0.1''" "\<not> contains_sub ''ipaddress.ip_network('' ''10.0.0.1 110.0.0.1''"
    by code_simp+
  then show ?thesis using that by (simp add: fix_ip_in_line_def)
qed

lemma remedy_depends_on_order:
  "fst (fix_ip_in_line id ''10.0.0.1 10.0.0.12'') \<noteq> fst (fix_ip_in_line rev ''10.0.0.1 10.0.0.12'')"
  by code_simp

text \<open>A module that waives the rule passes the audit, but the remedy rewrites its addresses all the same.\<close>

lemma remedy_ignores_waiver:
  "snd (auto_fix_source sample_env id default_config
     (''# sentinel: allow[ZeroTrustSanitization] the ranges of the policy'' @ newline @ ''NET = 10.0.0.1'')) = 1"
  by code_simp

end
