(* ===== verification/Ebpf_Tracer.thy ===== *)
theory Ebpf_Tracer
  imports Py_Json Py_Path Py_Ipaddress
begin

text \<open>
  \<open>tools/ebpf_tracer.py\<close>: the parser of event streams, the five rules, the audit, the policies written for
  Tetragon and Falco, the documents and the exit status. \<open>json.loads\<close>, SHA-256 and \<open>is_private\<close> of the module
  \<open>ipaddress\<close> are the parameters \<open>loads\<close>, \<open>sha\<close> and \<open>is_private\<close>; \<open>order\<close> enumerates a set, and the marks of
  the report are parameters.
\<close>

section \<open>Data\<close>

definition TRACER_VERSION :: string where
  "TRACER_VERSION = ''1.0.0''"

definition DISALLOWED_BINARIES :: "string list" where
  "DISALLOWED_BINARIES = [''nc'', ''ncat'', ''netcat'', ''telnet'', ''nmap'', ''socat'', ''tcpdump'', ''wireshark'', ''chattr'']"

definition SENSITIVE_PATH_PREFIXES :: "string list" where
  "SENSITIVE_PATH_PREFIXES = [''/etc/shadow'', ''/etc/passwd'', ''/etc/sudoers'', ''/root'', ''~/.ssh'', ''~/.aws'', ''~/.gnupg'',
     ''~/.config/gcloud'', ''/proc/kcore'']"

definition PRIVILEGE_SYSCALLS :: "string list" where
  "PRIVILEGE_SYSCALLS = [''setuid'', ''setgid'', ''cap_set_proc'', ''capset'', ''pivot_root'', ''unshare'']"

datatype ebpf_event_type = EXECVE | SOCKET_CONNECT | FILE_OPEN | PRIVILEGE_CHANGE | PTRACE_EVASION | UNKNOWN

datatype ebpf_severity = CRITICAL | HIGH | MEDIUM | LOW

fun severity_value :: "ebpf_severity \<Rightarrow> string" where
  "severity_value CRITICAL = ''critical''"
| "severity_value HIGH = ''high''"
| "severity_value MEDIUM = ''medium''"
| "severity_value LOW = ''low''"

datatype tracer_preset = STRICT | AUDIT_ONLY | NETWORK_ONLY

record trace_event =
  event_type :: ebpf_event_type
  pid :: int
  process_name :: string
  command_line :: string
  target_path :: string
  destination_ip :: string
  destination_port :: int
  syscall :: string
  timestamp :: py_float
  namespace_id :: int

record ebpf_finding =
  rule_id :: string
  severity :: ebpf_severity
  ebpf_message :: string
  process :: string
  finding_pid :: int
  detail :: string
  recommendation :: string
  finding_hash :: string

record ebpf_summary =
  total_events :: nat
  total_violations :: nat
  is_compliant :: bool
  findings :: "ebpf_finding list"
  findings_by_rule :: "(string, nat) dict"

definition compute_hash :: "(string \<Rightarrow> string) \<Rightarrow> string \<Rightarrow> string" where
  "compute_hash sha s = take 16 (sha s)"

section \<open>Reading events\<close>

definition resolve_event_type :: "string \<Rightarrow> ebpf_event_type" where
  "resolve_event_type s = (case map_of
     [(''execve'', EXECVE), (''process_exec'', EXECVE), (''socket_connect'', SOCKET_CONNECT), (''connect'', SOCKET_CONNECT),
      (''file_open'', FILE_OPEN), (''openat'', FILE_OPEN), (''privilege_change'', PRIVILEGE_CHANGE),
      (''ptrace_evasion'', PTRACE_EVASION)] s of Some t \<Rightarrow> t | None \<Rightarrow> UNKNOWN)"

text \<open>\<open>raw.get(k, raw.get(k', d))\<close>.\<close>

definition get_either :: "(string, json) dict \<Rightarrow> string \<Rightarrow> string \<Rightarrow> json \<Rightarrow> json" where
  "get_either raw k k' d = field_or raw k (field_or raw k' d)"

definition event_of :: "(string, json) dict \<Rightarrow> trace_event py" where
  "event_of raw =
     result_bind (py_int (field_or raw ''pid'' (JInt 0))) (\<lambda>p.
     result_bind (py_int (get_either raw ''destination_port'' ''dport'' (JInt 0))) (\<lambda>port.
     result_bind (py_float_of (field_or raw ''timestamp'' (JFloat 0))) (\<lambda>ts.
     result_bind (py_int (get_either raw ''namespace_id'' ''ns'' (JInt 0))) (\<lambda>ns.
       Inr \<lparr>event_type = resolve_event_type (py_lower (json_str (get_either raw ''event_type'' ''type'' (JStr ''unknown'')))),
            pid = p,
            process_name = json_str (get_either raw ''process_name'' ''comm'' (JStr ''unknown'')),
            command_line = json_str (get_either raw ''command_line'' ''args'' (JStr '''')),
            target_path = json_str (get_either raw ''target_path'' ''path'' (JStr '''')),
            destination_ip = json_str (get_either raw ''destination_ip'' ''daddr'' (JStr '''')),
            destination_port = port,
            syscall = json_str (field_or raw ''syscall'' (JStr '''')),
            timestamp = ts, namespace_id = ns\<rparr>))))"

definition parse_trace_event :: "json \<Rightarrow> trace_event py" where
  "parse_trace_event raw = (case raw of JObj kvs \<Rightarrow> event_of kvs | _ \<Rightarrow> Inl Attribute_Error)"

definition event_lines :: "string \<Rightarrow> string list" where
  "event_lines s = filter (\<lambda>l. l \<noteq> '''' \<and> \<not> starts_with l ''#'') (map py_strip (py_splitlines s))"

definition parse_events_jsonl :: "(string \<Rightarrow> json option) \<Rightarrow> string \<Rightarrow> trace_event list py" where
  "parse_events_jsonl loads s = map_result (\<lambda>l. case loads l of
     None \<Rightarrow> Inl Decode_Error | Some v \<Rightarrow> parse_trace_event v) (event_lines s)"

section \<open>Rules\<close>

definition quoted_name :: "string \<Rightarrow> string" where
  "quoted_name s = [CHR 0x27] @ s @ [CHR 0x27]"

definition is_disallowed_binary :: "trace_event \<Rightarrow> bool" where
  "is_disallowed_binary e \<longleftrightarrow> py_lower (path_name (process_name e)) \<in> set DISALLOWED_BINARIES
     \<or> contains_sub ''bash -i'' (command_line e)"

definition check_ebpf001_binary :: "(string \<Rightarrow> string) \<Rightarrow> trace_event \<Rightarrow> ebpf_finding option" where
  "check_ebpf001_binary sha e =
     (if event_type e \<noteq> EXECVE then None
      else if \<not> is_disallowed_binary e then None
      else Some \<lparr>rule_id = ''EBPF001'', severity = CRITICAL,
        ebpf_message = ''Unauthorized binary execution '' @ quoted_name (process_name e) @ '' detected'',
        process = process_name e, finding_pid = pid e, detail = ''Command: '' @ command_line e,
        recommendation = ''Pin container allowed binaries and enforce in-kernel Sigkill via Tetragon'',
        finding_hash = compute_hash sha (''EBPF001:'' @ show_int (pid e) @ '':'' @ process_name e)\<rparr>)"

text \<open>An address that \<open>ip_address\<close> refuses raises.\<close>

definition is_prohibited_ip :: "(ip_address \<Rightarrow> bool) \<Rightarrow> string \<Rightarrow> bool py" where
  "is_prohibited_ip is_private s =
     (if s = '''' then Inr False
      else (case ip_address_of s of
          None \<Rightarrow> Inl (Value_Error s)
        | Some ip \<Rightarrow> Inr (is_private ip \<or> is_link_local ip \<or> ip = IPv4 0xA9FEA9FE)))"

definition destination :: "trace_event \<Rightarrow> string" where
  "destination e = destination_ip e @ '':'' @ show_int (destination_port e)"

definition check_ebpf002_network :: "(ip_address \<Rightarrow> bool) \<Rightarrow> (string \<Rightarrow> string) \<Rightarrow> trace_event \<Rightarrow> ebpf_finding option py" where
  "check_ebpf002_network is_private sha e =
     (if event_type e \<noteq> SOCKET_CONNECT then Inr None
      else result_bind (is_prohibited_ip is_private (destination_ip e)) (\<lambda>prohibited.
        if \<not> prohibited then Inr None
        else Inr (Some \<lparr>rule_id = ''EBPF002'', severity = HIGH,
          ebpf_message = ''Prohibited network connection to '' @ quoted_name (destination e),
          process = process_name e, finding_pid = pid e, detail = ''Syscall: '' @ syscall e @ '', Dst: '' @ destination e,
          recommendation = ''Apply zero-trust NetworkPolicy dropping private RFC 1918 and metadata egress'',
          finding_hash = compute_hash sha (''EBPF002:'' @ show_int (pid e) @ '':'' @ destination e)\<rparr>)))"

definition is_sensitive_path :: "string \<Rightarrow> bool" where
  "is_sensitive_path p \<longleftrightarrow> list_ex (\<lambda>q. starts_with (py_lower p) (py_lower q)) SENSITIVE_PATH_PREFIXES"

definition check_ebpf003_filesystem :: "(string \<Rightarrow> string) \<Rightarrow> trace_event \<Rightarrow> ebpf_finding option" where
  "check_ebpf003_filesystem sha e =
     (if event_type e \<noteq> FILE_OPEN then None
      else if \<not> is_sensitive_path (target_path e) then None
      else Some \<lparr>rule_id = ''EBPF003'', severity = CRITICAL,
        ebpf_message = ''Sensitive file access attempted on '' @ quoted_name (target_path e),
        process = process_name e, finding_pid = pid e, detail = ''Target path: '' @ target_path e,
        recommendation = ''Confine container root filesystem with read-only rootfs and restricted volume mounts'',
        finding_hash = compute_hash sha (''EBPF003:'' @ show_int (pid e) @ '':'' @ target_path e)\<rparr>)"

definition is_privilege_event :: "trace_event \<Rightarrow> bool" where
  "is_privilege_event e \<longleftrightarrow> event_type e = PRIVILEGE_CHANGE \<or> syscall e \<in> set PRIVILEGE_SYSCALLS"

definition check_ebpf004_privilege :: "(string \<Rightarrow> string) \<Rightarrow> trace_event \<Rightarrow> ebpf_finding option" where
  "check_ebpf004_privilege sha e =
     (if \<not> is_privilege_event e then None
      else Some \<lparr>rule_id = ''EBPF004'', severity = HIGH,
        ebpf_message = ''Unauthorized privilege escalation syscall '' @ quoted_name (syscall e),
        process = process_name e, finding_pid = pid e, detail = ''Syscall: '' @ syscall e @ '', Process: '' @ process_name e,
        recommendation = ''Enable --cap-drop ALL and set securityContext.allowPrivilegeEscalation=false'',
        finding_hash = compute_hash sha (''EBPF004:'' @ show_int (pid e) @ '':'' @ syscall e)\<rparr>)"

definition is_evasion_event :: "trace_event \<Rightarrow> bool" where
  "is_evasion_event e \<longleftrightarrow> event_type e = PTRACE_EVASION \<or> contains_sub ''ptrace'' (py_lower (syscall e))"

definition check_ebpf005_evasion :: "(string \<Rightarrow> string) \<Rightarrow> trace_event \<Rightarrow> ebpf_finding option" where
  "check_ebpf005_evasion sha e =
     (if \<not> is_evasion_event e then None
      else Some \<lparr>rule_id = ''EBPF005'', severity = HIGH,
        ebpf_message = ''Anti-debugging or ptrace evasion detected via '' @ quoted_name (syscall e),
        process = process_name e, finding_pid = pid e, detail = ''Command: '' @ command_line e,
        recommendation = ''Block ptrace in seccomp filter and verify eBPF LSM hook integrity'',
        finding_hash = compute_hash sha (''EBPF005:'' @ show_int (pid e) @ '':'' @ syscall e)\<rparr>)"

section \<open>The audit\<close>

definition option_list :: "'a option \<Rightarrow> 'a list" where
  "option_list x = (case x of Some y \<Rightarrow> [y] | None \<Rightarrow> [])"

definition audit_event :: "(ip_address \<Rightarrow> bool) \<Rightarrow> (string \<Rightarrow> string) \<Rightarrow> tracer_preset \<Rightarrow> trace_event \<Rightarrow> ebpf_finding list py" where
  "audit_event is_private sha preset e = result_bind (check_ebpf002_network is_private sha e) (\<lambda>net.
     if preset = NETWORK_ONLY then Inr (option_list net)
     else Inr (option_list (check_ebpf001_binary sha e) @ option_list net @ option_list (check_ebpf003_filesystem sha e)
       @ option_list (check_ebpf004_privilege sha e) @ option_list (check_ebpf005_evasion sha e)))"

definition tally :: "(string, nat) dict \<Rightarrow> ebpf_finding \<Rightarrow> (string, nat) dict" where
  "tally counts f = dict_set (rule_id f) ((case dict_get counts (rule_id f) of Some n \<Rightarrow> n | None \<Rightarrow> 0) + 1) counts"

definition blocking :: "ebpf_finding \<Rightarrow> bool" where
  "blocking f \<longleftrightarrow> severity f = CRITICAL \<or> severity f = HIGH"

definition audit_events :: "(ip_address \<Rightarrow> bool) \<Rightarrow> (string \<Rightarrow> string) \<Rightarrow> tracer_preset \<Rightarrow> trace_event list \<Rightarrow> ebpf_summary py" where
  "audit_events is_private sha preset es = result_bind (map_result (audit_event is_private sha preset) es) (\<lambda>fss.
     (let fs = concat fss in Inr
       \<lparr>total_events = length es, total_violations = length fs, is_compliant = \<not> list_ex blocking fs, findings = fs,
        findings_by_rule = foldl tally [] fs\<rparr>))"

section \<open>Policies\<close>

definition executed :: "trace_event list \<Rightarrow> string list" where
  "executed es = map process_name (filter (\<lambda>e. event_type e = EXECVE) es)"

definition generate_tetragon_policy :: "(string list \<Rightarrow> string list) \<Rightarrow> trace_event list \<Rightarrow> string \<Rightarrow> json" where
  "generate_tetragon_policy order es policy_name = JObj
     [(''apiVersion'', JStr ''cilium.io/v1alpha1''), (''kind'', JStr ''TracingPolicy''),
      (''metadata'', JObj [(''name'', JStr policy_name)]),
      (''spec'', JObj
         [(''kprobes'', JArr [JObj
            [(''call'', JStr ''sys_enter_execve''), (''syscall'', JBool True),
             (''args'', JArr [JObj [(''index'', JInt 0), (''type'', JStr ''string'')]]),
             (''selectors'', JArr [JObj
                [(''matchArgs'', JArr [JObj
                   [(''index'', JInt 0), (''operator'', JStr ''Prefix''),
                    (''values'', JArr (map (\<lambda>b. JStr (''/bin/'' @ b)) (order DISALLOWED_BINARIES)))]]),
                 (''matchActions'', JArr [JObj [(''action'', JStr ''Sigkill'')]])]])]]),
          (''allowedProcesses'', JArr (map JStr (sorted_list_of_set (set (executed es)))))])]"

definition falco_allowed :: "trace_event list \<Rightarrow> string" where
  "falco_allowed es = (let s = join_with '', '' (map quoted_name (executed es)) in if s = '''' then quoted_name ''python'' else s)"

definition generate_falco_policy :: "trace_event list \<Rightarrow> string \<Rightarrow> string" where
  "generate_falco_policy es rule_name = join_with newline
     [''- rule: '' @ rule_name,
      ''  desc: Detect unexpected agent process spawns outside baseline manifest'',
      ''  condition: spawned_process and not proc.name in ('' @ falco_allowed es @ '')'',
      ''  output: '' @ [CHR 0x22] @ ''Unexpected agent process execution (proc=%proc.name cmd=%proc.cmdline)'' @ [CHR 0x22],
      ''  priority: WARNING'', ''  tags: [agent, sandbox, ebpf]'', '''']"

section \<open>Documents\<close>

definition ebpf_rule :: "string \<Rightarrow> string \<Rightarrow> string \<Rightarrow> string \<Rightarrow> string \<times> json" where
  "ebpf_rule i nm text level = (i, JObj
     [(''id'', JStr i), (''name'', JStr nm), (''shortDescription'', JObj [(''text'', JStr text)]),
      (''defaultConfiguration'', JObj [(''level'', JStr level)]),
      (''helpUri'', JStr ''https://github.com/dan-petty/vibes'')])"

definition SARIF_RULES :: "(string \<times> json) list" where
  "SARIF_RULES =
     [ebpf_rule ''EBPF001'' ''UnauthorizedBinaryExecution''
        ''Agent executed an unauthorized utility or shell outside the sandbox manifest.'' ''error'',
      ebpf_rule ''EBPF002'' ''NetworkEgressViolation''
        ''Outbound socket connection directed to private RFC 1918 or cloud metadata space.'' ''error'',
      ebpf_rule ''EBPF003'' ''SensitiveFileTampering''
        ''Process attempted to access or modify host files outside workspace sandbox root.'' ''error'',
      ebpf_rule ''EBPF004'' ''PrivilegeEscalationAttempt''
        ''Process invoked namespace or capability modification syscalls to escalate privileges.'' ''error'',
      ebpf_rule ''EBPF005'' ''AntiDebuggingEvasion''
        ''Process attempted ptrace or memory introspection evasion against runtime audit.'' ''warning'']"

text \<open>\<open>rule_def["defaultConfiguration"]["level"]\<close>; an id without a rule has the level \<open>warning\<close>.\<close>

definition rule_level :: "string \<Rightarrow> json" where
  "rule_level i = (case map_of SARIF_RULES i of
     None \<Rightarrow> JStr ''warning''
   | Some r \<Rightarrow> (case json_field r ''defaultConfiguration'' of
        None \<Rightarrow> JNull
      | Some c \<Rightarrow> (case json_field c ''level'' of None \<Rightarrow> JNull | Some l \<Rightarrow> l)))"

definition ebpf_result :: "string \<Rightarrow> ebpf_finding \<Rightarrow> json" where
  "ebpf_result uri f = JObj
     [(''ruleId'', JStr (rule_id f)), (''level'', rule_level (rule_id f)),
      (''message'', JObj [(''text'', JStr (ebpf_message f))]),
      (''locations'', JArr [JObj [(''physicalLocation'', JObj
         [(''artifactLocation'', JObj [(''uri'', JStr uri)]), (''region'', JObj [(''startLine'', JInt 1)])])]]),
      (''properties'', JObj
         [(''process'', JStr (process f)), (''pid'', JInt (finding_pid f)), (''detail'', JStr (detail f)),
          (''recommendation'', JStr (recommendation f)), (''findingHash'', JStr (finding_hash f))])]"

definition ebpf_sarif :: "ebpf_summary \<Rightarrow> string \<Rightarrow> json" where
  "ebpf_sarif s uri = JObj
     [(''$schema'', JStr ''https://json.schemastore.org/sarif-2.1.0.json''), (''version'', JStr ''2.1.0''),
      (''runs'', JArr [JObj
         [(''tool'', JObj [(''driver'', JObj
            [(''name'', JStr ''vibes-ebpf-tracer''), (''informationUri'', JStr ''https://github.com/dan-petty/vibes''),
             (''version'', JStr TRACER_VERSION), (''rules'', JArr (map snd SARIF_RULES))])]),
          (''results'', JArr (map (ebpf_result uri) (findings s)))]])]"

definition finding_json :: "ebpf_finding \<Rightarrow> json" where
  "finding_json f = JObj
     [(''rule_id'', JStr (rule_id f)), (''severity'', JStr (severity_value (severity f))),
      (''message'', JStr (ebpf_message f)), (''process'', JStr (process f)), (''pid'', JInt (finding_pid f)),
      (''detail'', JStr (detail f)), (''recommendation'', JStr (recommendation f))]"

text \<open>The value that \<open>export_json\<close> hands to \<open>json.dumps\<close>.\<close>

definition ebpf_json :: "ebpf_summary \<Rightarrow> json" where
  "ebpf_json s = JObj
     [(''tracer_version'', JStr TRACER_VERSION), (''total_events'', JInt (int (total_events s))),
      (''total_violations'', JInt (int (total_violations s))), (''is_compliant'', JBool (is_compliant s)),
      (''findings_by_rule'', JObj (map (\<lambda>(k, n). (k, JInt (int n))) (findings_by_rule s))),
      (''findings'', JArr (map finding_json (findings s)))]"

fun severity_label :: "ebpf_severity \<Rightarrow> string" where
  "severity_label CRITICAL = ''CRITICAL''"
| "severity_label HIGH = ''HIGH''"
| "severity_label MEDIUM = ''MEDIUM''"
| "severity_label LOW = ''LOW''"

definition ebpf_row :: "ebpf_finding \<Rightarrow> string" where
  "ebpf_row f = ''| `'' @ rule_id f @ ''` | **'' @ severity_label (severity f) @ ''** | `'' @ process f @ '' ('' @ show_int (finding_pid f)
     @ '')` | '' @ ebpf_message f @ '' | '' @ recommendation f @ '' |''"

definition ebpf_markdown :: "string \<Rightarrow> string \<Rightarrow> ebpf_summary \<Rightarrow> string" where
  "ebpf_markdown tick cross s = join_with newline
     ([''# eBPF Agent Sandbox Introspection Report'', '''', ''| Metric | Value |'', ''| :--- | :--- |'',
       ''| **Tracer Version** | `'' @ TRACER_VERSION @ ''` |'',
       ''| **Total Events Audited** | '' @ show_nat (total_events s) @ '' |'',
       ''| **Total Invariant Violations** | '' @ show_nat (total_violations s) @ '' |'',
       ''| **Sandbox Compliance Status** | ''
         @ (if is_compliant s then tick @ '' COMPLIANT'' else cross @ '' NON-COMPLIANT'') @ '' |'', '''']
      @ (if findings s = []
         then [tick @ '' **Zero runtime kernel invariant violations detected.** Agent sandbox verified secure.'' @ newline]
         else [''## Runtime Kernel Invariant Findings'', '''', ''| Rule | Severity | Process (PID) | Finding | Recommendation |'',
               ''| :--- | :--- | :--- | :--- | :--- |''] @ map ebpf_row (findings s) @ ['''']))"

section \<open>The command\<close>

text \<open>Without targets the standard input is read; a target that is no file is skipped.\<close>

definition load_events_from_targets :: "(string \<Rightarrow> json option) \<Rightarrow> string \<Rightarrow> string option list \<Rightarrow> trace_event list py" where
  "load_events_from_targets loads stdin targets =
     (if targets = [] then (if py_strip stdin \<noteq> '''' then parse_events_jsonl loads stdin else Inr [])
      else result_bind (map_result (parse_events_jsonl loads) (List.map_filter id targets)) (\<lambda>ess. Inr (concat ess)))"

definition ebpf_exit_code :: "(ip_address \<Rightarrow> bool) \<Rightarrow> (string \<Rightarrow> string) \<Rightarrow> (string \<Rightarrow> json option) \<Rightarrow> tracer_preset \<Rightarrow> string
    \<Rightarrow> string option list \<Rightarrow> nat py" where
  "ebpf_exit_code is_private sha loads preset stdin targets =
     result_bind (load_events_from_targets loads stdin targets) (\<lambda>es.
     result_bind (audit_events is_private sha preset es) (\<lambda>s. Inr (if is_compliant s then 0 else 1)))"

text \<open>
  Properties of the tracer: which events a summary blames, when a stream makes the audit raise, what the
  counts add up to, and what the synthesised policies allow.
\<close>

section \<open>Verdicts\<close>

text \<open>
  What the rules look for, event by event: a connection to a private or link-local address or that of the metadata
  service, where the address can be read; a tool of a list by its name, in letters of any case, or an interactive
  \<open>bash\<close>; a path that starts like one of a list, in letters of any case; a privileged system call of a list in its
  exact spelling; a system call with \<open>ptrace\<close> in its name.
\<close>

definition reaches_private :: "(ip_address \<Rightarrow> bool) \<Rightarrow> trace_event \<Rightarrow> bool" where
  "reaches_private is_private e \<longleftrightarrow> event_type e = SOCKET_CONNECT
     \<and> (\<exists>ip. ip_address_of (destination_ip e) = Some ip \<and> destination_ip e \<noteq> '''' \<and> (is_private ip \<or> is_link_local ip \<or> ip = IPv4 0xA9FEA9FE))"

definition runs_tool :: "trace_event \<Rightarrow> bool" where
  "runs_tool e \<longleftrightarrow> event_type e = EXECVE
     \<and> ((\<exists>w tool. last_component (process_name e) w \<and> same_letters w tool
            \<and> tool \<in> {''nc'', ''ncat'', ''netcat'', ''telnet'', ''nmap'', ''socat'', ''tcpdump'', ''wireshark'', ''chattr''})
        \<or> (\<exists>u v. command_line e = u @ ''bash -i'' @ v))"

definition opens_sensitive :: "trace_event \<Rightarrow> bool" where
  "opens_sensitive e \<longleftrightarrow> event_type e = FILE_OPEN
     \<and> (\<exists>u v start. target_path e = u @ v \<and> same_letters u start
            \<and> start \<in> {''/etc/shadow'', ''/etc/passwd'', ''/etc/sudoers'', ''/root'', ''~/.ssh'', ''~/.aws'', ''~/.gnupg'',
                 ''~/.config/gcloud'', ''/proc/kcore''})"

definition changes_privileges :: "trace_event \<Rightarrow> bool" where
  "changes_privileges e \<longleftrightarrow> event_type e = PRIVILEGE_CHANGE
     \<or> syscall e \<in> {''setuid'', ''setgid'', ''cap_set_proc'', ''capset'', ''pivot_root'', ''unshare''}"

definition traces_process :: "trace_event \<Rightarrow> bool" where
  "traces_process e \<longleftrightarrow> event_type e = PTRACE_EVASION
     \<or> (\<exists>u w v. syscall e = u @ w @ v \<and> same_letters w ''ptrace'')"

definition violates :: "(ip_address \<Rightarrow> bool) \<Rightarrow> trace_event \<Rightarrow> bool" where
  "violates is_private e \<longleftrightarrow> runs_tool e \<or> reaches_private is_private e \<or> opens_sensitive e
     \<or> changes_privileges e \<or> traces_process e"

lemma runs_tool_iff: "event_type e = EXECVE \<and> is_disallowed_binary e \<longleftrightarrow> runs_tool e"
proof -
  have low: "list_all (\<lambda>b. py_lower b = b \<and> b \<noteq> '''') DISALLOWED_BINARIES" by code_simp
  have named: "py_lower (path_name p) \<in> set DISALLOWED_BINARIES
      \<longleftrightarrow> (\<exists>w tool. last_component p w \<and> same_letters w tool \<and> tool \<in> set DISALLOWED_BINARIES)" (is "?l \<longleftrightarrow> ?r") for p
  proof
    assume l: ?l
    then have "py_lower (path_name p) \<noteq> ''''" "py_lower (py_lower (path_name p)) = py_lower (path_name p)"
      using low by (auto simp: list_all_iff)
    then have "path_name p \<noteq> ''''" "same_letters (path_name p) (py_lower (path_name p))"
      by (auto simp: py_lower_def same_letters_iff)
    then have "last_component p (path_name p)" using path_name_last by blast
    with l \<open>same_letters _ _\<close> show ?r by blast
  next
    assume ?r
    then obtain w tool where w: "last_component p w" "same_letters w tool" "tool \<in> set DISALLOWED_BINARIES" by blast
    then have "path_name p = w" "py_lower w = tool"
      using path_name_last [of p w] low by (auto simp: same_letters_iff list_all_iff)
    with w(3) show ?l by simp
  qed
  have listed: "is_disallowed_binary e \<longleftrightarrow> (\<exists>w tool. last_component (process_name e) w \<and> same_letters w tool
      \<and> tool \<in> set DISALLOWED_BINARIES) \<or> (\<exists>u v. command_line e = u @ ''bash -i'' @ v)"
    unfolding is_disallowed_binary_def named contains_sub_iff sublist_def ..
  show ?thesis unfolding listed runs_tool_def DISALLOWED_BINARIES_def list.set ..
qed

lemma opens_sensitive_iff: "event_type e = FILE_OPEN \<and> is_sensitive_path (target_path e) \<longleftrightarrow> opens_sensitive e"
proof -
  have "is_sensitive_path p \<longleftrightarrow> (\<exists>u v start. p = u @ v \<and> same_letters u start \<and> start \<in> set SENSITIVE_PATH_PREFIXES)" for p
    unfolding is_sensitive_path_def list_ex_iff lower_prefix same_letters_iff by blast
  then show ?thesis unfolding opens_sensitive_def SENSITIVE_PATH_PREFIXES_def list.set by simp
qed

lemma changes_privileges_iff: "is_privilege_event e \<longleftrightarrow> changes_privileges e"
  unfolding is_privilege_event_def changes_privileges_def PRIVILEGE_SYSCALLS_def list.set ..

lemma traces_process_iff: "is_evasion_event e \<longleftrightarrow> traces_process e"
proof -
  have "py_lower ''ptrace'' = ''ptrace''" by code_simp
  then show ?thesis unfolding is_evasion_event_def traces_process_def lower_contains same_letters_iff by simp
qed


definition unreadable_address :: "trace_event \<Rightarrow> bool" where
  "unreadable_address e \<longleftrightarrow> event_type e = SOCKET_CONNECT \<and> destination_ip e \<noteq> '''' \<and> ip_address_of (destination_ip e) = None"

lemma network_error: "(\<exists>err. check_ebpf002_network is_private sha e = Inl err) \<longleftrightarrow> unreadable_address e"
  by (auto simp: check_ebpf002_network_def is_prohibited_ip_def unreadable_address_def result_bind_def split: option.splits sum.splits)

lemma network_hit: "check_ebpf002_network is_private sha e = Inr f \<Longrightarrow> f \<noteq> None \<longleftrightarrow> reaches_private is_private e"
  by (auto simp: check_ebpf002_network_def is_prohibited_ip_def reaches_private_def result_bind_def split: option.splits sum.splits if_splits)

lemma network_blocking: "check_ebpf002_network is_private sha e = Inr (Some f) \<Longrightarrow> blocking f"
  by (auto simp: check_ebpf002_network_def is_prohibited_ip_def blocking_def result_bind_def split: option.splits sum.splits if_splits)

lemma option_list_Nil [simp]: "option_list x = [] \<longleftrightarrow> x = None" and set_option_list [simp]: "set (option_list x) = set_option x"
  by (auto simp: option_list_def split: option.splits)

lemma rules_hit:
  "check_ebpf001_binary sha e = None \<longleftrightarrow> \<not> runs_tool e"
  "check_ebpf003_filesystem sha e = None \<longleftrightarrow> \<not> opens_sensitive e"
  "check_ebpf004_privilege sha e = None \<longleftrightarrow> \<not> changes_privileges e"
  "check_ebpf005_evasion sha e = None \<longleftrightarrow> \<not> traces_process e"
  unfolding runs_tool_iff [symmetric] opens_sensitive_iff [symmetric] changes_privileges_iff [symmetric] traces_process_iff [symmetric]
  by (simp_all add: check_ebpf001_binary_def check_ebpf003_filesystem_def check_ebpf004_privilege_def check_ebpf005_evasion_def)


lemma rules_blocking:
  "check_ebpf001_binary sha e = Some f \<Longrightarrow> blocking f" "check_ebpf003_filesystem sha e = Some f \<Longrightarrow> blocking f"
  "check_ebpf004_privilege sha e = Some f \<Longrightarrow> blocking f" "check_ebpf005_evasion sha e = Some f \<Longrightarrow> blocking f"
  by (auto simp: check_ebpf001_binary_def check_ebpf003_filesystem_def check_ebpf004_privilege_def check_ebpf005_evasion_def
      blocking_def split: if_splits)

definition blamed :: "(ip_address \<Rightarrow> bool) \<Rightarrow> tracer_preset \<Rightarrow> trace_event \<Rightarrow> bool" where
  "blamed is_private preset e \<longleftrightarrow> (if preset = NETWORK_ONLY then reaches_private is_private e else violates is_private e)"

lemma audit_event_blames:
  assumes "audit_event is_private sha preset e = Inr fs"
  shows "list_all blocking fs" "fs \<noteq> [] \<longleftrightarrow> blamed is_private preset e"
proof -
  from assms obtain net where net: "check_ebpf002_network is_private sha e = Inr net"
    by (auto simp: audit_event_def result_bind_def split: sum.splits)
  show "list_all blocking fs"
    using assms net network_blocking[of is_private sha e] rules_blocking[of sha e]
    by (auto simp: audit_event_def list_all_iff split: if_splits)
  show "fs \<noteq> [] \<longleftrightarrow> blamed is_private preset e"
    using assms net network_hit[OF net] by (auto simp: audit_event_def blamed_def violates_def rules_hit split: if_splits)
qed

lemma map_result_Inr_iff: "map_result f xs = Inr ys \<longleftrightarrow> map f xs = map Inr ys"
proof (induction xs arbitrary: ys)
  case (Cons x xs)
  show ?case
  proof (cases "f x")
    case (Inr y)
    then show ?thesis using Cons.IH
      by (cases "map_result f xs") (auto simp: Cons_eq_map_conv result_bind_def split: sum.splits)
  qed (auto simp: Cons_eq_map_conv result_bind_def)
qed (auto simp: map_eq_Cons_conv)

text \<open>C37: When an audit gives a summary, it is compliant exactly when no event reaches a private, link-local or
  metadata address nor, unless the preset is for the network only, runs one of nine tools or an interactive bash,
  opens a path that starts like one of nine, makes one of six privileged system calls or a ptrace call, or is
  labelled as either; and then it has no finding at all. Nothing else is looked for: curl, /etc/hosts, ~/.bashrc and
  /proc/self/mem, which the documentation names, pass.\<close>

theorem compliant_iff_nothing_blamed:
  assumes "audit_events is_private sha preset es = Inr s"
  shows "(is_compliant s \<longleftrightarrow> list_all (\<lambda>e. \<not> blamed is_private preset e) es) \<and> (is_compliant s \<longleftrightarrow> findings s = [])"
proof -
  from assms obtain fss where fss: "map (audit_event is_private sha preset) es = map Inr fss"
    and s: "is_compliant s \<longleftrightarrow> \<not> list_ex blocking (concat fss)" "findings s = concat fss"
    by (auto simp: audit_events_def result_bind_def map_result_Inr_iff Let_def split: sum.splits)
  have each: "\<forall>fs\<in>set fss. list_all blocking fs" "list_all (\<lambda>e. \<not> blamed is_private preset e) es \<longleftrightarrow> (\<forall>fs\<in>set fss. fs = [])"
    using fss
  proof (induction es arbitrary: fss)
    case (Cons e es)
    { case 1 then show ?case using Cons.IH(1) audit_event_blames(1)[of is_private sha preset e] by (auto simp: Cons_eq_map_conv map_eq_Cons_conv) }
    { case 2 then show ?case using Cons.IH(2) audit_event_blames(2)[of is_private sha preset e] by (auto simp: Cons_eq_map_conv map_eq_Cons_conv) }
  qed auto
  have "\<forall>f\<in>set (concat fss). blocking f" using each(1) by (auto simp: list_all_iff)
  then have "list_ex blocking (concat fss) \<longleftrightarrow> concat fss \<noteq> []" by (cases "concat fss") (auto simp del: concat_eq_Nil_conv)
  then show ?thesis using s each(2) by auto
qed

lemma audit_raises: "(\<exists>err. audit_events is_private sha preset es = Inl err) \<longleftrightarrow> list_ex unreadable_address es"
proof -
  have one: "(\<exists>err. audit_event is_private sha preset e = Inl err) \<longleftrightarrow> unreadable_address e" for e
    using network_error[of is_private sha e] by (auto simp: audit_event_def result_bind_def split: sum.splits)
  have "(\<exists>err. map_result (audit_event is_private sha preset) es = Inl err) \<longleftrightarrow> list_ex unreadable_address es"
  proof (induction es)
    case (Cons e es)
    then show ?case using one[of e]
      by (cases "audit_event is_private sha preset e"; cases "map_result (audit_event is_private sha preset) es") (auto simp: result_bind_def)
  qed simp
  then show ?thesis by (auto simp: audit_events_def result_bind_def Let_def split: sum.splits)
qed

text \<open>An audit raises exactly when some connection of the stream names its destination by anything but an
  address, such as a host name: then no event of the stream is reported.\<close>

theorem audit_raises_iff: "(\<exists>err. audit_events is_private sha preset es = Inl err) \<longleftrightarrow> list_ex unreadable_address es"
  by (rule audit_raises)

lemma audit_only_is_strict: "audit_events is_private sha AUDIT_ONLY es = audit_events is_private sha STRICT es"
proof -
  have "audit_event is_private sha AUDIT_ONLY = audit_event is_private sha STRICT" by (rule ext) (simp add: audit_event_def)
  then show ?thesis by (simp add: audit_events_def)
qed

section \<open>Counts\<close>

lemma tally_count: "dict_get (foldl tally d fs) r = (case length (filter (\<lambda>f. rule_id f = r) fs) of
    0 \<Rightarrow> dict_get d r | Suc n \<Rightarrow> Some (Suc n + (case dict_get d r of Some k \<Rightarrow> k | None \<Rightarrow> 0)))"
proof (induction fs arbitrary: d)
  case (Cons f fs)
  show ?case unfolding foldl_Cons Cons.IH
    by (auto simp: tally_def split: nat.splits option.splits)
qed simp

text \<open>The count of a rule in the summary is the number of its findings.\<close>

lemma counts_are_findings:
  assumes "audit_events is_private sha preset es = Inr s"
  shows "(case dict_get (findings_by_rule s) r of Some n \<Rightarrow> n | None \<Rightarrow> 0) = length (filter (\<lambda>f. rule_id f = r) (findings s))"
  using assms by (auto simp: audit_events_def result_bind_def tally_count Let_def split: sum.splits nat.splits)

section \<open>Policies\<close>

text \<open>What was executed is allowed, whether or not the audit blames it.\<close>

lemma executed_is_allowed: "e \<in> set es \<Longrightarrow> event_type e = EXECVE \<Longrightarrow> process_name e \<in> set (executed es)"
  by (auto simp: executed_def)

definition netcat_event :: trace_event where
  "netcat_event = \<lparr>event_type = EXECVE, pid = 1, process_name = ''nc'', command_line = '''', target_path = '''', destination_ip = '''',
     destination_port = 0, syscall = '''', timestamp = 0, namespace_id = 0\<rparr>"

lemma policy_allows_what_is_blamed: "blamed is_private STRICT netcat_event \<and> falco_allowed [netcat_event] = [CHR 0x27] @ ''nc'' @ [CHR 0x27]"
proof -
  have "event_type netcat_event = EXECVE \<and> is_disallowed_binary netcat_event" "falco_allowed [netcat_event] = [CHR 0x27] @ ''nc'' @ [CHR 0x27]" by code_simp+
  then show ?thesis using runs_tool_iff [of netcat_event] by (simp add: blamed_def violates_def)
qed

text \<open>The paths are compared as texts: a path that is not in normal form is missed, and one that only begins
  like a sensitive one is blamed.\<close>

lemma sensitive_paths_by_text:
  "\<not> is_sensitive_path ''/tmp/../etc/shadow'' \<and> \<not> is_sensitive_path ''//etc/shadow'' \<and> is_sensitive_path ''/rootfs/readme''"
  by code_simp

text \<open>The rules look for no more than that. What the observation on the tracer lists beside it is compliant: a
  download, a start file of the shell, another file below \<open>/etc\<close>, the memory of the process, a public address.\<close>

definition event :: "ebpf_event_type \<Rightarrow> string \<Rightarrow> string \<Rightarrow> string \<Rightarrow> trace_event" where
  "event t name path ip = \<lparr>event_type = t, pid = 1, process_name = name, command_line = '''', target_path = path,
     destination_ip = ip, destination_port = 443, syscall = '''', timestamp = 0, namespace_id = 0\<rparr>"

definition documented_events :: "trace_event list" where
  "documented_events = [event EXECVE ''curl'' '''' '''', event EXECVE ''wget'' '''' '''', event FILE_OPEN ''cat'' ''~/.bashrc'' '''',
     event FILE_OPEN ''cat'' ''/etc/hosts'' '''', event FILE_OPEN ''cat'' ''/proc/self/mem'' '''', event SOCKET_CONNECT ''nc'' '''' ''192.0.2.1'']"

lemma documented_events_are_compliant:
  "\<exists>s. audit_events (\<lambda>_. False) id STRICT documented_events = Inr s \<and> is_compliant s"
proof -
  have "(case audit_events (\<lambda>_. False) id STRICT documented_events of Inr s \<Rightarrow> is_compliant s | Inl e \<Rightarrow> False)" by code_simp
  then show ?thesis by (auto split: sum.splits)
qed

section \<open>Witnesses\<close>

lemma compliant_witness: "\<exists>s. audit_events (\<lambda>_. False) id STRICT [netcat_event] = Inr s \<and> \<not> is_compliant s"
proof -
  have "\<not> list_ex unreadable_address [netcat_event]" by (simp add: unreadable_address_def netcat_event_def)
  then obtain s where s: "audit_events (\<lambda>_. False) id STRICT [netcat_event] = Inr s"
    using audit_raises[of "\<lambda>_. False" id STRICT "[netcat_event]"]
    by (cases "audit_events (\<lambda>_. False) id STRICT [netcat_event]") auto
  from compliant_iff_nothing_blamed[OF s] show ?thesis using s policy_allows_what_is_blamed by auto
qed

end
