(* ===== verification/Py_Lines.thy ===== *)
theory Py_Lines
  imports Py_Text
begin

text \<open>
  Texts as sequences of lines that keep their line break, \<open>splitlines(keepends=True)\<close>, and the words of
  \<open>split()\<close>.
\<close>

fun keep_lines_from :: "string \<Rightarrow> string \<Rightarrow> string list" where
  "keep_lines_from cur [] = (if cur = [] then [] else [rev cur])"
| "keep_lines_from cur [c] = [rev (c # cur)]"
| "keep_lines_from cur (c # d # cs) =
     (if c = CHR 0x0D \<and> d = CHR 0x0A then rev (d # c # cur) # keep_lines_from [] cs
      else if line_break c then rev (c # cur) # keep_lines_from [] (d # cs)
      else keep_lines_from (c # cur) (d # cs))"

definition keep_lines :: "string \<Rightarrow> string list" where
  "keep_lines s = keep_lines_from [] s"

text \<open>Texts whose only line break is the line feed, and those that end with one.\<close>

definition plain_lines :: "string \<Rightarrow> bool" where
  "plain_lines s \<longleftrightarrow> (\<forall>c\<in>set s. line_break c \<longleftrightarrow> c = CHR 0x0A)"

definition line_closed :: "string \<Rightarrow> bool" where
  "line_closed s \<longleftrightarrow> s = [] \<or> last s = CHR 0x0A"

lemma line_closed_Nil [simp]: "line_closed []"
  by (simp add: line_closed_def)

lemma plain_lines_append [simp]: "plain_lines (a @ b) \<longleftrightarrow> plain_lines a \<and> plain_lines b"
  by (auto simp: plain_lines_def)

lemma line_feed_breaks [simp]: "line_break (CHR 0x0A)"
  by (simp add: line_break_def)

lemma carriage_return_breaks [simp]: "line_break (CHR 0x0D)"
  by (simp add: line_break_def)

lemma concat_keep_lines_from: "concat (keep_lines_from cur s) = rev cur @ s"
  by (induction cur s rule: keep_lines_from.induct) auto

lemma concat_keep_lines [simp]: "concat (keep_lines s) = s"
  by (simp add: keep_lines_def concat_keep_lines_from)

lemma length_lines_from: "length (keep_lines_from cur s) = length (lines_from cur s)"
proof (induction cur s rule: keep_lines_from.induct)
  case (3 cur c d cs)
  show ?case
  proof (cases "c = CHR 0x0D \<and> d = CHR 0x0A")
    case True
    then show ?thesis using 3(1) by simp
  next
    case False
    then have "keep_lines_from cur (c # d # cs) = (if line_break c then rev (c # cur) # keep_lines_from [] (d # cs)
        else keep_lines_from (c # cur) (d # cs))"
      "lines_from cur (c # d # cs) = (if line_break c then rev cur # lines_from [] (d # cs) else lines_from (c # cur) (d # cs))"
      by (simp_all only: keep_lines_from.simps lines_from.simps if_False)
    then show ?thesis using 3(2)[OF False] 3(3)[OF False] by (simp del: keep_lines_from.simps lines_from.simps)
  qed
qed simp_all

lemma length_keep_lines: "length (keep_lines s) = length (py_splitlines s)"
  by (simp add: keep_lines_def py_splitlines_def length_lines_from)

text \<open>On plain texts a line ends at each line feed and nowhere else.\<close>

lemma keep_lines_step: "line_break c \<longleftrightarrow> c = CHR 0x0A \<Longrightarrow> keep_lines_from cur (c # s) =
    (if c = CHR 0x0A then rev (c # cur) # keep_lines_from [] s else keep_lines_from (c # cur) s)"
proof (cases s)
  case Nil
  then show ?thesis by (cases "c = CHR 0x0A") simp_all
next
  case (Cons d cs)
  assume "line_break c \<longleftrightarrow> c = CHR 0x0A"
  then show ?thesis using Cons by (cases "c = CHR 0x0A"; cases "c = CHR 0x0D") simp_all
qed

declare keep_lines_from.simps [simp del]

lemma keep_lines_from_Nil [simp]: "keep_lines_from cur [] = (if cur = [] then [] else [rev cur])"
  by (simp add: keep_lines_from.simps)

lemma keep_lines_from_append: "plain_lines a \<Longrightarrow> line_closed a \<Longrightarrow> a \<noteq> [] \<Longrightarrow>
    keep_lines_from cur (a @ b) = keep_lines_from cur a @ keep_lines_from [] b"
proof (induction a arbitrary: cur)
  case (Cons c a)
  have plain: "plain_lines a" and c: "line_break c \<longleftrightarrow> c = CHR 0x0A" using Cons.prems(1) by (auto simp: plain_lines_def)
  show ?case
  proof (cases "a = []")
    case True
    then have "c = CHR 0x0A" using Cons.prems(2) by (simp add: line_closed_def)
    then show ?thesis using True by (simp add: keep_lines_step)
  next
    case False
    then have "line_closed a" using Cons.prems(2) by (simp add: line_closed_def)
    then show ?thesis using Cons.IH[OF plain] False c by (simp add: keep_lines_step)
  qed
qed simp

lemma keep_lines_append: "plain_lines a \<Longrightarrow> line_closed a \<Longrightarrow> keep_lines (a @ b) = keep_lines a @ keep_lines b"
  by (cases "a = []") (simp_all add: keep_lines_def keep_lines_from_append)

text \<open>A line is a text without line feeds, or one with a line feed after it.\<close>

lemma keep_lines_line: "CHR 0x0A \<notin> set a \<Longrightarrow> plain_lines a \<Longrightarrow>
    keep_lines_from cur (a @ [CHR 0x0A]) = [rev cur @ a @ [CHR 0x0A]]
    \<and> keep_lines_from cur a = (if rev cur @ a = [] then [] else [rev cur @ a])"
proof (induction a arbitrary: cur)
  case Nil
  show ?case by (simp add: keep_lines_step)
next
  case (Cons c a)
  then have "c \<noteq> CHR 0x0A" "\<not> line_break c" "plain_lines a" by (auto simp: plain_lines_def)
  then show ?case using Cons by (auto simp: keep_lines_step)
qed

lemma line_of_lines: "plain_lines (rev cur @ s) \<Longrightarrow> CHR 0x0A \<notin> set cur \<Longrightarrow> l \<in> set (keep_lines_from cur s) \<Longrightarrow>
    keep_lines l = [l] \<and> plain_lines l"
proof (induction s arbitrary: cur)
  case Nil
  then show ?case using keep_lines_line[of "rev cur" "[]"] by (simp add: keep_lines_def split: if_splits)
next
  case (Cons c s)
  have cur: "plain_lines (rev cur)" and s: "plain_lines s" and c: "line_break c \<longleftrightarrow> c = CHR 0x0A"
    using Cons.prems(1) by (simp_all add: plain_lines_def)
  show ?case
  proof (cases "c = CHR 0x0A")
    case True
    then consider "l = rev cur @ [CHR 0x0A]" | "l \<in> set (keep_lines_from [] s)" using Cons.prems(3) by (auto simp: keep_lines_step)
    then show ?thesis
    proof cases
      case 1
      then show ?thesis using keep_lines_line[of "rev cur" "[]"] Cons.prems(2) cur by (simp add: keep_lines_def plain_lines_def)
    next
      case 2
      then show ?thesis using Cons.IH[of "[]"] s by simp
    qed
  next
    case False
    then show ?thesis using Cons.IH[of "c # cur"] Cons.prems c by (simp add: keep_lines_step)
  qed
qed

text \<open>Every line but the last one is closed, and taking lines keeps the text plain.\<close>

lemma closed_butlast_from: "plain_lines s \<Longrightarrow> Suc i < length (keep_lines_from cur s) \<Longrightarrow> line_closed (keep_lines_from cur s ! i)"
proof (induction s arbitrary: cur i)
  case (Cons c s)
  have c: "line_break c \<longleftrightarrow> c = CHR 0x0A" and plain: "plain_lines s" using Cons.prems(1) by (auto simp: plain_lines_def)
  show ?case
  proof (cases "c = CHR 0x0A")
    case True
    then show ?thesis using Cons.prems Cons.IH[OF plain, of _ "[]"] by (cases i) (auto simp: keep_lines_step line_closed_def)
  next
    case False
    then show ?thesis using Cons.prems Cons.IH[OF plain, of i "c # cur"] c by (simp add: keep_lines_step)
  qed
qed (simp split: if_splits)

lemma closed_concat: "(\<And>l. l \<in> set ls \<Longrightarrow> line_closed l) \<Longrightarrow> line_closed (concat ls)"
proof (induction ls rule: rev_induct)
  case (snoc l ls)
  then have "line_closed l" "line_closed (concat ls)" by auto
  then show ?case by (cases "l = []") (simp_all add: line_closed_def)
qed simp

lemma closed_take_lines:
  assumes "plain_lines s" "n < length (keep_lines s) \<or> line_closed s"
  shows "line_closed (concat (take n (keep_lines s)))"
proof (cases "n < length (keep_lines s)")
  case True
  show ?thesis
  proof (rule closed_concat)
    fix l assume "l \<in> set (take n (keep_lines s))"
    then obtain i where "i < n" "l = keep_lines s ! i" using True by (auto simp: in_set_conv_nth)
    then show "line_closed l" using True closed_butlast_from[OF assms(1), of i "[]"] by (simp add: keep_lines_def)
  qed
next
  case False
  then show ?thesis using assms by simp
qed

lemma plain_take_lines: "plain_lines s \<Longrightarrow> plain_lines (concat (take n (keep_lines s)))"
proof -
  assume "plain_lines s"
  moreover have "s = concat (take n (keep_lines s)) @ concat (drop n (keep_lines s))"
    by (metis append_take_drop_id concat_append concat_keep_lines)
  ultimately show ?thesis by (metis plain_lines_append)
qed

text \<open>The lines of a first and a last part of the lines of a text are those lines.\<close>

lemma keep_lines_concat: "list_all (\<lambda>l. keep_lines l = [l] \<and> plain_lines l) ls \<Longrightarrow> list_all line_closed (butlast ls) \<Longrightarrow>
    keep_lines (concat ls) = ls"
proof (induction ls)
  case Nil
  show ?case by (simp add: keep_lines_def)
next
  case (Cons l ls)
  then show ?case by (cases "ls = []") (simp_all add: keep_lines_append)
qed

lemma keep_lines_part:
  assumes "plain_lines s" "keep_lines s = xs @ ys @ zs"
  shows "keep_lines (concat ys) = ys"
proof (rule keep_lines_concat)
  show "list_all (\<lambda>l. keep_lines l = [l] \<and> plain_lines l) ys"
    using line_of_lines[of "[]" s] assms by (auto simp: list_all_iff keep_lines_def)
  have "line_closed (ys ! i)" if "Suc i < length ys" for i
    using closed_butlast_from[OF assms(1), of "length xs + i" "[]"] assms(2) that
    by (simp add: keep_lines_def nth_append)
  then show "list_all line_closed (butlast ys)" by (auto simp: list_all_length nth_butlast)
qed

section \<open>Words\<close>

fun words_from :: "string \<Rightarrow> string \<Rightarrow> string list" where
  "words_from cur [] = (if cur = [] then [] else [rev cur])"
| "words_from cur (c # cs) =
     (if py_isspace c then (if cur = [] then words_from [] cs else rev cur # words_from [] cs)
      else words_from (c # cur) cs)"

definition py_words :: "string \<Rightarrow> string list" where
  "py_words s = words_from [] s"

end
