(* ===== verification/Cst_Parser.thy ===== *)
theory Cst_Parser
  imports Py_Lines Py_Path Py_Json Py_Unicode Ast_Tree
begin

text \<open>
  \<open>examples/polyglot-cst-parser/parser.py\<close>: symbols of five languages, structural queries, the guard before
  a file is read, complexity and nesting, the reparse of an edited region, and what is printed.
  \<open>ast.parse\<close> is the parameter \<open>parse\<close> (\<open>None\<close> is a \<open>SyntaxError\<close>), \<open>re.search\<close> for the pattern of a query
  the parameter \<open>pattern_in\<close> (\<open>None\<close> is a pattern that is refused); \<open>resolve\<close>, \<open>stat\<close> and \<open>read_text\<close> of
  paths are parameters, with the message of an \<open>OSError\<close> on the left.
\<close>

section \<open>Data\<close>

definition MAX_FILE_SIZE_BYTES :: int where
  "MAX_FILE_SIZE_BYTES = 5 * 1024 * 1024"

definition EXT_TO_LANG :: "(string \<times> string) list" where
  "EXT_TO_LANG = [(''.py'', ''python''), (''.pyi'', ''python''), (''.rs'', ''rust''), (''.go'', ''go''), (''.ts'', ''typescript''),
     (''.tsx'', ''typescript''), (''.js'', ''javascript''), (''.jsx'', ''javascript''), (''.sh'', ''bash''), (''.bash'', ''bash'')]"

section \<open>Patterns\<close>

definition line_anchor :: "nat rx" where
  "line_anchor = Cat (Test (line_start 10)) maybe_spaces"

definition identifier_rx :: "nat rx" where
  "identifier_rx = Group 1 (some (Cls (\<lambda>n. ascii_alnum n \<or> n = 95)))"

definition word_then_spaces :: "string \<Rightarrow> nat rx" where
  "word_then_spaces w = Cat (ulit w) latin_spaces"

text \<open>A pair of parentheses around anything but a closing one.\<close>

definition parenthesised :: "nat rx" where
  "parenthesised = cats [ulit ''('', some (Cls (\<lambda>n. n \<noteq> 41)), ulit '')'']"

definition rust_visibility :: "nat rx" where
  "rust_visibility = opt (cats [ulit ''pub'', opt parenthesised, latin_spaces])"

definition RUST_STRUCT_RE :: "nat rx" where
  "RUST_STRUCT_RE = cats [line_anchor, rust_visibility, word_then_spaces ''struct'', identifier_rx]"

definition RUST_TRAIT_RE :: "nat rx" where
  "RUST_TRAIT_RE = cats [line_anchor, rust_visibility, word_then_spaces ''trait'', identifier_rx]"

definition RUST_FN_RE :: "nat rx" where
  "RUST_FN_RE = cats [line_anchor, rust_visibility, opt (word_then_spaces ''async''), word_then_spaces ''fn'', identifier_rx]"

definition GO_TYPE_STRUCT_RE :: "nat rx" where
  "GO_TYPE_STRUCT_RE = cats [line_anchor, word_then_spaces ''type'', identifier_rx, latin_spaces, ulit ''struct'', latin_boundary]"

definition GO_TYPE_INTERFACE_RE :: "nat rx" where
  "GO_TYPE_INTERFACE_RE = cats [line_anchor, word_then_spaces ''type'', identifier_rx, latin_spaces, ulit ''interface'', latin_boundary]"

definition GO_FUNC_RE :: "nat rx" where
  "GO_FUNC_RE = cats [line_anchor, word_then_spaces ''func'', opt (Cat parenthesised latin_spaces), identifier_rx, maybe_spaces, ulit ''('']"

definition TS_CLASS_RE :: "nat rx" where
  "TS_CLASS_RE = cats [line_anchor, opt (word_then_spaces ''export''), word_then_spaces ''class'', identifier_rx]"

definition TS_INTERFACE_RE :: "nat rx" where
  "TS_INTERFACE_RE = cats [line_anchor, opt (word_then_spaces ''export''), word_then_spaces ''interface'', identifier_rx]"

definition TS_FUNC_RE :: "nat rx" where
  "TS_FUNC_RE = cats [line_anchor, opt (word_then_spaces ''export''), opt (word_then_spaces ''async''), word_then_spaces ''function'',
     identifier_rx]"

definition BASH_FUNC_RE :: "nat rx" where
  "BASH_FUNC_RE = cats [line_anchor, opt (word_then_spaces ''function''), Group 1 (some (Cls (\<lambda>n. ascii_alnum n \<or> n = 95 \<or> n = 45))),
     maybe_spaces, ulit ''()'', maybe_spaces, ulit ''{'']"

section \<open>Symbols and queries\<close>

datatype symbol_kind = FUNCTION | METHOD | CLASS | STRUCT | INTERFACE | TRAIT

fun kind_value :: "symbol_kind \<Rightarrow> string" where
  "kind_value FUNCTION = ''FUNCTION''"
| "kind_value METHOD = ''METHOD''"
| "kind_value CLASS = ''CLASS''"
| "kind_value STRUCT = ''STRUCT''"
| "kind_value INTERFACE = ''INTERFACE''"
| "kind_value TRAIT = ''TRAIT''"

definition SYMBOL_KINDS :: "symbol_kind list" where
  "SYMBOL_KINDS = [FUNCTION, METHOD, CLASS, STRUCT, INTERFACE, TRAIT]"

record polyglot_symbol =
  name :: string
  kind :: symbol_kind
  signature :: string
  line_start :: int
  line_end :: int
  docstring :: string
  language :: string
  parent_scope :: "string option"

record structural_query =
  query_kind :: "symbol_kind option"
  name_pattern :: "string option"
  query_scope :: "string option"
  query_language :: "string option"
  min_line :: "int option"
  max_line :: "int option"

definition empty_query :: structural_query where
  "empty_query = \<lparr>query_kind = None, name_pattern = None, query_scope = None, query_language = None, min_line = None, max_line = None\<rparr>"

definition allows :: "'a option \<Rightarrow> ('a \<Rightarrow> bool) \<Rightarrow> bool" where
  "allows c P = (case c of None \<Rightarrow> True | Some x \<Rightarrow> P x)"

definition matches_type_and_scope :: "structural_query \<Rightarrow> polyglot_symbol \<Rightarrow> bool" where
  "matches_type_and_scope q s \<longleftrightarrow>
     allows (query_kind q) (\<lambda>k. kind s = k)
     \<and> allows (query_language q) (\<lambda>l. py_lower (language s) = py_lower l)
     \<and> allows (query_scope q) (\<lambda>p. parent_scope s = Some p)"

definition matches_lines :: "structural_query \<Rightarrow> polyglot_symbol \<Rightarrow> bool" where
  "matches_lines q s \<longleftrightarrow> allows (min_line q) (\<lambda>n. n \<le> line_start s) \<and> allows (max_line q) (\<lambda>n. line_end s \<le> n)"

text \<open>The pattern is compiled only for symbols that pass the other tests.\<close>

definition symbol_matches :: "(string \<Rightarrow> string \<Rightarrow> bool option) \<Rightarrow> structural_query \<Rightarrow> polyglot_symbol \<Rightarrow> bool py" where
  "symbol_matches pattern_in q s =
     (if \<not> (matches_type_and_scope q s \<and> matches_lines q s) then Inr False
      else (case name_pattern q of
        None \<Rightarrow> Inr True
      | Some p \<Rightarrow> (case pattern_in p (name s) of None \<Rightarrow> Inl (Value_Error p) | Some b \<Rightarrow> Inr b)))"

text \<open>\<open>upper()\<close>: the sharp s becomes two letters; the two letters of Latin-1 whose capital is outside it
  stay as they are.\<close>

definition py_upper_char :: "char \<Rightarrow> string" where
  "py_upper_char c = (let n = (of_char c :: nat) in
     if n = 223 then ''SS''
     else if (97 \<le> n \<and> n \<le> 122) \<or> (224 \<le> n \<and> n \<le> 254 \<and> n \<noteq> 247) then [char_of (n - 32)] else [c])"

definition py_upper :: "string \<Rightarrow> string" where
  "py_upper s = concat (map py_upper_char s)"

definition handle_kind_filter :: "string \<Rightarrow> structural_query \<Rightarrow> structural_query" where
  "handle_kind_filter v q = (case List.find (\<lambda>k. kind_value k = py_upper v) SYMBOL_KINDS of
     None \<Rightarrow> q | Some k \<Rightarrow> q\<lparr>query_kind := Some k\<rparr>)"

text \<open>\<open>isdigit()\<close> also holds of the superscripts, which \<open>int\<close> refuses.\<close>

definition py_isdigit :: "string \<Rightarrow> bool" where
  "py_isdigit s \<longleftrightarrow> s \<noteq> [] \<and> list_all (\<lambda>c. is_digit c \<or> (of_char c :: nat) \<in> {178, 179, 185}) s"

definition int_filter :: "string \<Rightarrow> (int option) py" where
  "int_filter v = (if py_isdigit v then (case int_of_text v of Inl e \<Rightarrow> Inl e | Inr n \<Rightarrow> Inr (Some n)) else Inr None)"

definition handle_min_line :: "string \<Rightarrow> structural_query \<Rightarrow> structural_query py" where
  "handle_min_line v q = result_bind (int_filter v) (\<lambda>n. Inr (case n of None \<Rightarrow> q | Some i \<Rightarrow> q\<lparr>min_line := Some i\<rparr>))"

definition handle_max_line :: "string \<Rightarrow> structural_query \<Rightarrow> structural_query py" where
  "handle_max_line v q = result_bind (int_filter v) (\<lambda>n. Inr (case n of None \<Rightarrow> q | Some i \<Rightarrow> q\<lparr>max_line := Some i\<rparr>))"

definition QUERY_HANDLERS :: "(string \<times> (string \<Rightarrow> structural_query \<Rightarrow> structural_query py)) list" where
  "QUERY_HANDLERS =
     [(''kind'', \<lambda>v q. Inr (handle_kind_filter v q)),
      (''name'', \<lambda>v q. Inr (q\<lparr>name_pattern := Some v\<rparr>)),
      (''pattern'', \<lambda>v q. Inr (q\<lparr>name_pattern := Some v\<rparr>)),
      (''scope'', \<lambda>v q. Inr (q\<lparr>query_scope := Some v\<rparr>)),
      (''parent'', \<lambda>v q. Inr (q\<lparr>query_scope := Some v\<rparr>)),
      (''lang'', \<lambda>v q. Inr (q\<lparr>query_language := Some (py_lower v)\<rparr>)),
      (''min_line'', handle_min_line),
      (''max_line'', handle_max_line)]"

definition apply_token :: "string \<Rightarrow> structural_query \<Rightarrow> structural_query py" where
  "apply_token token q =
     (if CHR '':'' \<notin> set token then Inr (q\<lparr>name_pattern := Some token\<rparr>)
      else (let key = takeWhile (\<lambda>c. c \<noteq> CHR '':'') token; val = drop (Suc (length key)) token in
        (case map_of QUERY_HANDLERS (py_lower key) of None \<Rightarrow> Inr q | Some h \<Rightarrow> h val q)))"

fun apply_tokens :: "string list \<Rightarrow> structural_query \<Rightarrow> structural_query py" where
  "apply_tokens [] q = Inr q"
| "apply_tokens (t # ts) q = result_bind (apply_token t q) (apply_tokens ts)"

definition parse_structural_query :: "string \<Rightarrow> structural_query py" where
  "parse_structural_query s = apply_tokens (py_words (py_strip s)) empty_query"

section \<open>Edits\<close>

record edit_span =
  start_line :: int
  old_end_line :: int
  new_text :: string

text \<open>\<open>xs[n:]\<close>, from the end when \<open>n\<close> is negative.\<close>

definition drop_int :: "int \<Rightarrow> 'a list \<Rightarrow> 'a list" where
  "drop_int n xs = drop (nat (if n < 0 then int (length xs) + n else n)) xs"

definition replacement :: "string \<Rightarrow> string" where
  "replacement t = (if ends_with t newline \<or> t = [] then t else t @ newline)"

definition apply_edit_span :: "string \<Rightarrow> edit_span \<Rightarrow> string" where
  "apply_edit_span content e =
     (let ls = keep_lines content in
      concat (take (nat (start_line e - 1)) ls) @ replacement (new_text e) @ concat (drop_int (old_end_line e) ls))"

definition shift_symbol_lines :: "int \<Rightarrow> polyglot_symbol \<Rightarrow> polyglot_symbol" where
  "shift_symbol_lines delta s = s\<lparr>line_start := max 1 (line_start s + delta), line_end := max 1 (line_end s + delta)\<rparr>"

definition partition_symbols_by_edit ::
  "polyglot_symbol list \<Rightarrow> edit_span \<Rightarrow> int \<Rightarrow> polyglot_symbol list \<times> polyglot_symbol list" where
  "partition_symbols_by_edit symbols e delta =
     (filter (\<lambda>s. line_end s < start_line e) symbols,
      map (shift_symbol_lines delta) (filter (\<lambda>s. old_end_line e < line_start s) symbols))"

definition newlines_before :: "string \<Rightarrow> nat \<Rightarrow> nat" where
  "newlines_before content n = length (filter (\<lambda>c. c = CHR 0x0A) (take n content))"

definition match_lineno :: "string \<Rightarrow> nat \<Rightarrow> int" where
  "match_lineno content n = int (newlines_before content n) + 1"

record file_metrics =
  cyclomatic_complexity :: nat
  max_nesting_depth :: nat
  lines_of_code :: nat
  symbol_count :: nat
  metrics_language :: string

definition default_metrics :: file_metrics where
  "default_metrics = \<lparr>cyclomatic_complexity = 1, max_nesting_depth = 1, lines_of_code = 0, symbol_count = 0,
     metrics_language = ''unknown''\<rparr>"

record polyglot_file_node =
  file_path :: string
  node_language :: string
  symbols :: "polyglot_symbol list"
  metrics :: file_metrics
  skipped :: bool
  skip_reason :: string
  incremental :: bool
  reparsed_symbols_count :: nat

text \<open>The comprehension over the symbols raises with the first pattern that is refused.\<close>

fun matched_symbols :: "(polyglot_symbol \<Rightarrow> bool py) \<Rightarrow> polyglot_symbol list \<Rightarrow> polyglot_symbol list py" where
  "matched_symbols m [] = Inr []"
| "matched_symbols m (s # ss) =
     result_bind (m s) (\<lambda>b. result_bind (matched_symbols m ss) (\<lambda>rest. Inr (if b then s # rest else rest)))"

definition query_symbols :: "(string \<Rightarrow> string \<Rightarrow> bool option) \<Rightarrow> polyglot_file_node \<Rightarrow> string \<Rightarrow> polyglot_symbol list py" where
  "query_symbols pattern_in node query =
     result_bind (parse_structural_query query) (\<lambda>q. matched_symbols (symbol_matches pattern_in q) (symbols node))"

section \<open>Before a file is read\<close>

definition detect_language :: "string \<Rightarrow> string option" where
  "detect_language path = map_of EXT_TO_LANG (py_lower (path_suffix path))"

definition check_root_containment :: "(string \<Rightarrow> (string, string) result) \<Rightarrow> string \<Rightarrow> string \<Rightarrow> bool \<times> string" where
  "check_root_containment resolve resolved base = (case resolve base of
     Inl err \<Rightarrow> (False, ''Workspace boundary verification error ('' @ take 200 err @ '')'')
   | Inr b \<Rightarrow> if is_relative_to resolved b then (True, '''')
             else (False, ''File points outside workspace root ('' @ resolved @ '')''))"

definition verify_containment ::
  "(string \<Rightarrow> (string, string) result) \<Rightarrow> string \<Rightarrow> string option \<Rightarrow> bool \<times> string option \<times> string" where
  "verify_containment resolve target base = (case resolve target of
     Inl err \<Rightarrow> (False, None, ''Symlink resolution failed ('' @ take 200 err @ '')'')
   | Inr resolved \<Rightarrow> (case base of
        None \<Rightarrow> (True, Some resolved, '''')
      | Some b \<Rightarrow> (case check_root_containment resolve resolved b of (ok, err) \<Rightarrow> (ok, Some resolved, err))))"

definition verify_size :: "(string \<Rightarrow> (string, int) result) \<Rightarrow> string \<Rightarrow> int \<Rightarrow> bool \<times> string" where
  "verify_size stat resolved max_size = (case stat resolved of
     Inl err \<Rightarrow> (False, ''File stat error ('' @ take 200 err @ '')'')
   | Inr n \<Rightarrow> if n > max_size
             then (False, ''Size ('' @ show_int n @ '' bytes) exceeds maximum limit ('' @ show_int max_size @ '' bytes)'')
             else (True, ''''))"

definition guard_verify ::
  "(string \<Rightarrow> (string, string) result) \<Rightarrow> (string \<Rightarrow> (string, int) result) \<Rightarrow> string \<Rightarrow> string option \<Rightarrow> int
    \<Rightarrow> bool \<times> string option \<times> string" where
  "guard_verify resolve stat target base max_size =
     (case verify_containment resolve target base of (ok, resolved, err) \<Rightarrow>
        (case (ok, resolved) of
          (True, Some r) \<Rightarrow> (case verify_size stat r max_size of
             (ok_size, err_size) \<Rightarrow> if ok_size then (True, resolved, '''') else (False, resolved, err_size))
        | _ \<Rightarrow> (False, resolved, err)))"
section \<open>Complexity and nesting\<close>

text \<open>What is read of a node of a Python tree. \<open>doc\<close> is what \<open>ast.get_docstring\<close> gives.\<close>

record cst_label =
  node_class :: string
  in_body :: bool
  node_name :: string
  lineno :: nat
  end_lineno :: nat
  doc :: "string option"
  ifs_count :: nat
  values_count :: nat
  is_wildcard :: bool

type_synonym cst_node = "cst_label tree"

definition match_case_weight :: "cst_label \<Rightarrow> nat" where
  "match_case_weight n = (if is_wildcard n then 0 else 1)"

definition comprehension_weight :: "cst_label \<Rightarrow> nat" where
  "comprehension_weight n = 1 + ifs_count n"

definition boolop_weight :: "cst_label \<Rightarrow> nat" where
  "boolop_weight n = values_count n - 1"

definition DECISION_WEIGHTS :: "(string \<times> (cst_label \<Rightarrow> nat)) list" where
  "DECISION_WEIGHTS =
     [(''If'', \<lambda>_. 1), (''While'', \<lambda>_. 1), (''For'', \<lambda>_. 1), (''AsyncFor'', \<lambda>_. 1), (''ExceptHandler'', \<lambda>_. 1),
      (''Assert'', \<lambda>_. 1), (''IfExp'', \<lambda>_. 1), (''comprehension'', comprehension_weight), (''match_case'', match_case_weight),
      (''BoolOp'', boolop_weight)]"

definition node_decision_count :: "cst_label \<Rightarrow> nat" where
  "node_decision_count n = (case map_of DECISION_WEIGHTS (node_class n) of Some w \<Rightarrow> w n | None \<Rightarrow> 0)"

definition nesting_types :: "string list" where
  "nesting_types = [''If'', ''While'', ''For'', ''AsyncFor'', ''With'', ''AsyncWith'', ''Try'', ''TryStar'', ''ExceptHandler'',
     ''Match'', ''match_case'']"

fun get_depth :: "cst_node \<Rightarrow> nat \<Rightarrow> nat" where
  "get_depth (Tree l ts) cur =
     (let next_cur = (if node_class l \<in> set nesting_types then cur + 1 else cur) in
      if ts = [] then next_cur else Max (set (map (\<lambda>c. get_depth c next_cur) ts)))"

definition calculate_py_depth :: "cst_node \<Rightarrow> nat" where
  "calculate_py_depth t = get_depth t 0"

definition calculate_python :: "(string \<Rightarrow> cst_node option) \<Rightarrow> string \<Rightarrow> nat \<times> nat" where
  "calculate_python parse content = (case parse content of
     None \<Rightarrow> (1, 1)
   | Some t \<Rightarrow> (1 + sum_list (map (\<lambda>c. node_decision_count (label c)) (tree_walk t)), calculate_py_depth t))"

definition keyword_rx :: "string \<Rightarrow> nat rx" where
  "keyword_rx w = cats [latin_boundary, ulit w, latin_boundary]"

definition decision_rx :: "nat rx" where
  "decision_rx = alts (map keyword_rx [''if'', ''elif'', ''for'', ''while'', ''case'', ''catch'', ''match'', ''select'']
     @ [ulit ''&&'', ulit ''||'', ulit ''?''])"

definition count_polyglot_decisions :: "string \<Rightarrow> nat" where
  "count_polyglot_decisions content = length (find_all decision_rx (codes content))"

definition brace_step :: "char \<Rightarrow> int \<times> int \<Rightarrow> int \<times> int" where
  "brace_step ch s = (case s of (current, max_depth) \<Rightarrow>
     (let c = max 0 (current + (if ch = CHR ''{'' then 1 else 0) - (if ch = CHR ''}'' then 1 else 0)) in (c, max max_depth c)))"

definition calculate_brace_nesting :: "string \<Rightarrow> nat" where
  "calculate_brace_nesting content = nat (snd (fold brace_step content (0, 1)))"

definition calculate_polyglot_tokens :: "string \<Rightarrow> nat \<times> nat" where
  "calculate_polyglot_tokens content = (1 + count_polyglot_decisions content, calculate_brace_nesting content)"

definition calculate_metrics :: "(string \<Rightarrow> cst_node option) \<Rightarrow> string \<Rightarrow> string \<Rightarrow> nat \<times> nat" where
  "calculate_metrics parse content lang =
     (if lang = ''python'' then calculate_python parse content else calculate_polyglot_tokens content)"

section \<open>Extraction\<close>

definition code_line :: "string \<Rightarrow> bool" where
  "code_line l \<longleftrightarrow> (let s = py_strip l in s \<noteq> '''' \<and> \<not> starts_with s ''#'' \<and> \<not> starts_with s ''//'')"

definition count_code_lines :: "string \<Rightarrow> nat" where
  "count_code_lines content = length (filter code_line (py_splitlines content))"

definition build_py_fn_symbol :: "cst_label \<Rightarrow> string option \<Rightarrow> symbol_kind \<Rightarrow> polyglot_symbol" where
  "build_py_fn_symbol n scope k =
     \<lparr>name = node_name n, kind = k, signature = ''def '' @ node_name n @ ''(...)'', line_start = int (lineno n),
      line_end = int (end_lineno n), docstring = (case doc n of None \<Rightarrow> '''' | Some d \<Rightarrow> d), language = ''python'',
      parent_scope = scope\<rparr>"

definition is_function :: "cst_label \<Rightarrow> bool" where
  "is_function n \<longleftrightarrow> node_class n = ''FunctionDef'' \<or> node_class n = ''AsyncFunctionDef''"

definition body_of :: "cst_node \<Rightarrow> cst_label list" where
  "body_of t = map label (filter (\<lambda>c. in_body (label c)) (subtrees t))"

definition class_symbol :: "cst_label \<Rightarrow> polyglot_symbol" where
  "class_symbol n =
     \<lparr>name = node_name n, kind = CLASS, signature = ''class '' @ node_name n, line_start = int (lineno n),
      line_end = int (end_lineno n), docstring = (case doc n of None \<Rightarrow> '''' | Some d \<Rightarrow> d), language = ''python'',
      parent_scope = None\<rparr>"

definition extract_py_class_members :: "cst_node \<Rightarrow> polyglot_symbol list" where
  "extract_py_class_members t = class_symbol (label t)
     # map (\<lambda>n. build_py_fn_symbol n (Some (node_name (label t))) METHOD) (filter is_function (body_of t))"

definition extract_py_node_symbols :: "cst_node \<Rightarrow> polyglot_symbol list" where
  "extract_py_node_symbols t =
     (if is_function (label t) then [build_py_fn_symbol (label t) None FUNCTION]
      else if node_class (label t) = ''ClassDef'' then extract_py_class_members t else [])"

definition extract_python_symbols :: "(string \<Rightarrow> cst_node option) \<Rightarrow> string \<Rightarrow> polyglot_symbol list" where
  "extract_python_symbols parse content = (case parse content of
     None \<Rightarrow> []
   | Some t \<Rightarrow> concat (map extract_py_node_symbols (filter (\<lambda>c. in_body (label c)) (subtrees t))))"

text \<open>A symbol of a match: the line of its first character.\<close>

definition match_symbol :: "string \<Rightarrow> symbol_kind \<Rightarrow> (string \<Rightarrow> string) \<Rightarrow> string \<Rightarrow> match \<Rightarrow> polyglot_symbol" where
  "match_symbol lang k sig content m =
     (let nm = text_group content m 1; ln = match_lineno content (fst m) in
      \<lparr>name = nm, kind = k, signature = sig nm, line_start = ln, line_end = ln, docstring = '''', language = lang, parent_scope = None\<rparr>)"

definition pattern_symbols :: "string \<Rightarrow> nat rx \<times> symbol_kind \<times> (string \<Rightarrow> string) \<Rightarrow> string \<Rightarrow> polyglot_symbol list" where
  "pattern_symbols lang p content =
     (case p of (r, k, sig) \<Rightarrow> map (match_symbol lang k sig content) (find_all r (codes content)))"

definition extract_rust_symbols :: "string \<Rightarrow> polyglot_symbol list" where
  "extract_rust_symbols content =
     pattern_symbols ''rust'' (RUST_STRUCT_RE, STRUCT, (@) ''struct '') content
     @ pattern_symbols ''rust'' (RUST_TRAIT_RE, TRAIT, (@) ''trait '') content
     @ pattern_symbols ''rust'' (RUST_FN_RE, FUNCTION, (@) ''fn '') content"

definition extract_go_symbols :: "string \<Rightarrow> polyglot_symbol list" where
  "extract_go_symbols content =
     pattern_symbols ''go'' (GO_TYPE_STRUCT_RE, STRUCT, \<lambda>n. ''type '' @ n @ '' struct'') content
     @ pattern_symbols ''go'' (GO_TYPE_INTERFACE_RE, INTERFACE, \<lambda>n. ''type '' @ n @ '' interface'') content
     @ pattern_symbols ''go'' (GO_FUNC_RE, FUNCTION, (@) ''func '') content"

definition extract_ts_symbols :: "string \<Rightarrow> polyglot_symbol list" where
  "extract_ts_symbols content =
     pattern_symbols ''typescript'' (TS_CLASS_RE, CLASS, (@) ''class '') content
     @ pattern_symbols ''typescript'' (TS_INTERFACE_RE, INTERFACE, (@) ''interface '') content
     @ pattern_symbols ''typescript'' (TS_FUNC_RE, FUNCTION, (@) ''function '') content"

definition extract_bash_symbols :: "string \<Rightarrow> polyglot_symbol list" where
  "extract_bash_symbols content = pattern_symbols ''bash'' (BASH_FUNC_RE, FUNCTION, \<lambda>n. n @ ''()'') content"

definition extract_symbols :: "(string \<Rightarrow> cst_node option) \<Rightarrow> string \<Rightarrow> string \<Rightarrow> polyglot_symbol list" where
  "extract_symbols parse content lang =
     (if lang = ''python'' then extract_python_symbols parse content
      else if lang = ''rust'' then extract_rust_symbols content
      else if lang = ''go'' then extract_go_symbols content
      else if lang = ''typescript'' \<or> lang = ''javascript'' then extract_ts_symbols content
      else if lang = ''bash'' then extract_bash_symbols content
      else [])"

section \<open>Parsing\<close>

definition metrics_of :: "(string \<Rightarrow> cst_node option) \<Rightarrow> string \<Rightarrow> string \<Rightarrow> nat \<Rightarrow> file_metrics" where
  "metrics_of parse content lang n =
     (case calculate_metrics parse content lang of (complexity, depth) \<Rightarrow>
        \<lparr>cyclomatic_complexity = complexity, max_nesting_depth = depth, lines_of_code = count_code_lines content,
         symbol_count = n, metrics_language = lang\<rparr>)"

definition parse_content :: "(string \<Rightarrow> cst_node option) \<Rightarrow> string \<Rightarrow> string \<Rightarrow> string \<Rightarrow> polyglot_file_node" where
  "parse_content parse content path lang =
     (let syms = extract_symbols parse content lang in
      \<lparr>file_path = path, node_language = lang, symbols = syms, metrics = metrics_of parse content lang (length syms),
       skipped = False, skip_reason = '''', incremental = False, reparsed_symbols_count = 0\<rparr>)"

definition skipped_node :: "string \<Rightarrow> string \<Rightarrow> string \<Rightarrow> polyglot_file_node" where
  "skipped_node path lang reason =
     \<lparr>file_path = path, node_language = lang, symbols = [], metrics = default_metrics, skipped = True, skip_reason = reason,
      incremental = False, reparsed_symbols_count = 0\<rparr>"

definition parse_file ::
  "(string \<Rightarrow> cst_node option) \<Rightarrow> (string \<Rightarrow> (string, string) result) \<Rightarrow> (string \<Rightarrow> (string, int) result)
    \<Rightarrow> (string \<Rightarrow> (string, string) result) \<Rightarrow> int \<Rightarrow> string \<Rightarrow> string option \<Rightarrow> polyglot_file_node" where
  "parse_file parse resolve stat read_text max_size path base =
     (let lang = (case detect_language path of None \<Rightarrow> ''unknown'' | Some l \<Rightarrow> l) in
      case guard_verify resolve stat path base max_size of (ok, resolved, reason) \<Rightarrow>
        (case (ok, resolved) of
          (True, Some r) \<Rightarrow> (case read_text r of
             Inl err \<Rightarrow> skipped_node path lang (''Read error: '' @ take 200 err)
           | Inr content \<Rightarrow> parse_content parse content path lang)
        | _ \<Rightarrow> skipped_node path lang reason))"

definition reparse_edited_region :: "(string \<Rightarrow> cst_node option) \<Rightarrow> string \<Rightarrow> string \<Rightarrow> int \<Rightarrow> polyglot_symbol list" where
  "reparse_edited_region parse t lang offset =
     (if py_strip t = '''' then []
      else map (\<lambda>s. s\<lparr>line_start := line_start s + offset, line_end := line_end s + offset\<rparr>) (extract_symbols parse t lang))"

definition edit_delta :: "edit_span \<Rightarrow> int" where
  "edit_delta e = int (if new_text e = [] then 0 else length (py_splitlines (new_text e)))
     - max 0 (old_end_line e - start_line e + 1)"

definition incremental_reparse ::
  "(string \<Rightarrow> cst_node option) \<Rightarrow> polyglot_file_node \<Rightarrow> string \<Rightarrow> edit_span \<Rightarrow> polyglot_file_node \<times> string" where
  "incremental_reparse parse node content e =
     (let updated = apply_edit_span content e;
          (pre, post) = partition_symbols_by_edit (symbols node) e (edit_delta e);
          reparsed = reparse_edited_region parse (new_text e) (node_language node) (start_line e - 1);
          all_symbols = sort_key (\<lambda>s. (line_start s, name s)) (pre @ reparsed @ post)
      in (\<lparr>file_path = file_path node, node_language = node_language node, symbols = all_symbols,
           metrics = metrics_of parse updated (node_language node) (length all_symbols), skipped = False, skip_reason = '''',
           incremental = True, reparsed_symbols_count = length reparsed\<rparr>, updated))"

section \<open>Output\<close>

definition print_symbol_item :: "polyglot_symbol \<Rightarrow> string" where
  "print_symbol_item s =
     ''    - ['' @ kind_value (kind s) @ ''] '' @ pad_right CHR '' '' 24 (name s) @ '' L'' @ show_int (line_start s) @ ''-L''
     @ show_int (line_end s) @ '' '' @ signature s
     @ (case parent_scope s of None \<Rightarrow> '''' | Some p \<Rightarrow> if p = '''' then '''' else '' (scope: '' @ p @ '')'')"

definition print_symbols_list :: "polyglot_symbol list \<Rightarrow> nat \<Rightarrow> bool \<Rightarrow> string list" where
  "print_symbols_list ss extracted is_query =
     (if is_query then ''  Symbols Matched ('' @ show_nat (length ss) @ ''):''
      else ''  Symbols Extracted ('' @ show_nat extracted @ ''):'') # map print_symbol_item ss"

definition print_file_node :: "(string \<Rightarrow> string \<Rightarrow> bool option) \<Rightarrow> polyglot_file_node \<Rightarrow> string option \<Rightarrow> (string list) py" where
  "print_file_node pattern_in node query =
     (let title = ''File: '' @ file_path node @ '' (Language: '' @ node_language node @ '')'';
          asked = (case query of None \<Rightarrow> False | Some q \<Rightarrow> q \<noteq> '''') in
      if skipped node then Inr [title, ''  [SKIPPED] '' @ skip_reason node]
      else result_bind (case query of Some q \<Rightarrow> if asked then query_symbols pattern_in node q else Inr (symbols node)
                        | None \<Rightarrow> Inr (symbols node))
        (\<lambda>found. Inr (title
          # (''  LOC: '' @ show_nat (lines_of_code (metrics node)) @ '' | Complexity (M): ''
               @ show_nat (cyclomatic_complexity (metrics node)) @ '' | Depth: '' @ show_nat (max_nesting_depth (metrics node))
               @ (if incremental node then '' [Incremental, reparsed '' @ show_nat (reparsed_symbols_count node) @ '']'' else ''''))
          # print_symbols_list found (length (symbols node)) asked)))"

definition demo_samples :: "(string \<times> string \<times> string) list" where
  "demo_samples =
     [(''Python'', ''def process_data(x):'' @ newline @ ''    if x > 0: return x * 2'' @ newline @ ''    return 0'', ''python''),
      (''Rust'', ''pub struct Queue;'' @ newline @ ''pub fn push(val: u32) { if val > 0 {} }'', ''rust''),
      (''Go'', ''type Store struct{}'' @ newline @ ''func (s Store) Get() string { return '' @ [CHR 0x22] @ ''ok'' @ [CHR 0x22] @ '' }'', ''go''),
      (''TypeScript'', ''interface Event { id: string }'' @ newline @ ''function handle(e: Event) { return e.id }'', ''typescript''),
      (''Bash'', ''backup_db() { if [ -f /tmp/db ]; then cp /tmp/db /backup; fi }'', ''bash'')]"

definition demo_row :: "(string \<Rightarrow> cst_node option) \<Rightarrow> string \<times> string \<times> string \<Rightarrow> string \<times> string \<times> nat \<times> nat" where
  "demo_row parse sample = (case sample of (lang_name, code, lang) \<Rightarrow>
     (let node = parse_content parse code (''sample.'' @ lang) lang in
      (lang_name, lang, length (symbols node), cyclomatic_complexity (metrics node))))"

definition run_demo_matrix :: "(string \<Rightarrow> cst_node option) \<Rightarrow> (string \<times> string \<times> nat \<times> nat) list" where
  "run_demo_matrix parse = map (demo_row parse) demo_samples"

definition rule_of :: "char \<Rightarrow> string" where
  "rule_of c = replicate 74 c"

definition scorecard_row :: "string \<Rightarrow> string \<Rightarrow> string \<Rightarrow> string \<Rightarrow> string" where
  "scorecard_row a b c d = pad_right CHR '' '' 14 a @ '' | '' @ pad_right CHR '' '' 14 b @ '' | '' @ pad_right CHR '' '' 10 c @ '' | ''
     @ pad_right CHR '' '' 14 d"

text \<open>\<open>globe\<close> is the mark of the title.\<close>

definition print_scorecard :: "string \<Rightarrow> (string \<times> string \<times> nat \<times> nat) list \<Rightarrow> string list" where
  "print_scorecard globe matrix =
     [rule_of CHR ''='', globe @ '' POLYGLOT CST INGESTION SCORECARD'', rule_of CHR ''-'',
      scorecard_row ''LANGUAGE'' ''CANONICAL ID'' ''SYMBOLS'' ''COMPLEXITY (M)'', rule_of CHR ''-'']
     @ map (\<lambda>(lang, lang_id, n, comp). scorecard_row lang lang_id (show_nat n) (show_nat comp)) matrix
     @ [rule_of CHR ''='']"

text \<open>\<open>main\<close>: the lines that are printed. A scan passes no root to the guard.\<close>

definition cst_main ::
  "(string \<Rightarrow> cst_node option) \<Rightarrow> (string \<Rightarrow> string \<Rightarrow> bool option) \<Rightarrow> (string \<Rightarrow> (string, string) result)
    \<Rightarrow> (string \<Rightarrow> (string, int) result) \<Rightarrow> (string \<Rightarrow> (string, string) result) \<Rightarrow> string \<Rightarrow> string option \<Rightarrow> string option
    \<Rightarrow> (string list) py" where
  "cst_main parse pattern_in resolve stat read_text globe scan query =
     (case scan of
        Some p \<Rightarrow> if p = '''' then Inr (print_scorecard globe (run_demo_matrix parse))
          else print_file_node pattern_in (parse_file parse resolve stat read_text MAX_FILE_SIZE_BYTES (path_str p) None) query
      | None \<Rightarrow> Inr (print_scorecard globe (run_demo_matrix parse)))"

end
