(* ===== verification/Cst_Props.thy ===== *)
theory Cst_Props
  imports Cst_Parser
begin

text \<open>
  Properties of the polyglot parser: where the symbols are after an edit and which are lost, when a file is
  read, what the nesting measures, and when a query raises.
\<close>

section \<open>The lines after an edit\<close>

lemma replacement_closed: "line_closed (replacement t)"
  by (auto simp: replacement_def line_closed_def ends_with_def newline_def suffix_def)

lemma plain_replacement: "plain_lines t \<Longrightarrow> plain_lines (replacement t)"
  by (simp add: replacement_def newline_def plain_lines_def)

lemma replacement_open: "t \<noteq> [] \<Longrightarrow> \<not> ends_with t newline \<Longrightarrow> \<not> line_closed t"
  by (cases t rule: rev_cases) (auto simp: line_closed_def ends_with_def newline_def suffix_def)

lemma keep_lines_add_feed: "plain_lines t \<Longrightarrow> \<not> line_closed t \<Longrightarrow>
    length (keep_lines_from cur (t @ newline)) = length (keep_lines_from cur t)"
proof (induction t arbitrary: cur)
  case (Cons c t)
  have plain: "plain_lines t" and c: "line_break c \<longleftrightarrow> c = CHR 0x0A" using Cons.prems(1) by (simp_all add: plain_lines_def)
  show ?case
  proof (cases "t = []")
    case True
    then have "c \<noteq> CHR 0x0A" using Cons.prems(2) by (simp add: line_closed_def)
    then show ?thesis using True c by (simp add: keep_lines_step newline_def)
  next
    case False
    then have "\<not> line_closed t" using Cons.prems(2) by (simp add: line_closed_def)
    then show ?thesis using Cons.IH[OF plain] c by (simp add: keep_lines_step)
  qed
qed simp

lemma replacement_lines: "plain_lines t \<Longrightarrow> length (keep_lines (replacement t)) = (if t = [] then 0 else length (py_splitlines t))"
  using keep_lines_add_feed[of t "[]"] replacement_open[of t]
  by (auto simp: replacement_def keep_lines_def[symmetric] length_keep_lines) (simp_all add: py_splitlines_def)

text \<open>An edit of lines that are there: it ends no earlier than the line before the one it starts at.\<close>

definition edits_lines :: "edit_span \<Rightarrow> bool" where
  "edits_lines e \<longleftrightarrow> 1 \<le> start_line e \<and> start_line e \<le> old_end_line e + 1"

lemma edited_lines:
  assumes "plain_lines content" "plain_lines (new_text e)" "edits_lines e"
    "start_line e \<le> int (length (keep_lines content)) \<or> line_closed content"
  shows "keep_lines (apply_edit_span content e) = take (nat (start_line e - 1)) (keep_lines content)
    @ keep_lines (replacement (new_text e)) @ drop (nat (old_end_line e)) (keep_lines content)"
proof -
  let ?ls = "keep_lines content" and ?n = "nat (start_line e - 1)" and ?m = "nat (old_end_line e)"
  have m: "drop_int (old_end_line e) ?ls = drop ?m ?ls" using assms(3) by (simp add: drop_int_def edits_lines_def)
  have n: "?n < length ?ls \<or> line_closed content" using assms(3,4) by (auto simp: edits_lines_def)
  have "keep_lines (concat (take ?n ?ls)) = take ?n ?ls" using keep_lines_part[OF assms(1), of "[]" "take ?n ?ls" "drop ?n ?ls"] by simp
  moreover have "keep_lines (concat (drop ?m ?ls)) = drop ?m ?ls" using keep_lines_part[OF assms(1), of "take ?m ?ls" "drop ?m ?ls" "[]"] by simp
  moreover have "line_closed (concat (take ?n ?ls))" using closed_take_lines[OF assms(1) n] .
  ultimately show ?thesis unfolding apply_edit_span_def Let_def m
    by (simp add: keep_lines_append[OF plain_take_lines[OF assms(1)]] keep_lines_append[OF plain_replacement[OF assms(2)] replacement_closed])
qed

lemma line_after_edit:
  assumes "plain_lines content" "plain_lines (new_text e)" "edits_lines e"
    "old_end_line e < line_start s" "line_start s \<le> int (length (keep_lines content))"
  shows "keep_lines (apply_edit_span content e) ! nat (line_start (shift_symbol_lines (edit_delta e) s) - 1)
      = keep_lines content ! nat (line_start s - 1)"
proof -
  let ?ls = "keep_lines content" and ?n = "nat (start_line e - 1)" and ?m = "nat (old_end_line e)"
  let ?k = "length (keep_lines (replacement (new_text e)))"
  have n: "?n < length ?ls" "?n \<le> ?m" using assms(3,4,5) by (auto simp: edits_lines_def)
  have ints: "int ?n = start_line e - 1" "int ?m = old_end_line e" using assms(3) by (auto simp: edits_lines_def)
  then have delta: "edit_delta e = int ?k - (int ?m - int ?n)"
    using assms(3) replacement_lines[OF assms(2)] by (simp add: edit_delta_def edits_lines_def)
  obtain i where i: "line_start s = int (?m + i) + 1" using assms(3,4)
    by (metis (no_types, opaque_lifting) ints(2) add.commute of_nat_add zless_iff_Suc_zadd add.assoc of_nat_Suc)
  then have at: "line_start (shift_symbol_lines (edit_delta e) s) = int (?n + (?k + i)) + 1"
    using delta n by (simp add: shift_symbol_lines_def)
  have old: "nat (line_start s - 1) = ?m + i" and new: "nat (line_start (shift_symbol_lines (edit_delta e) s) - 1) = ?n + (?k + i)"
    by (simp_all only: i at)
  have bound: "?m + i < length ?ls" using assms(5) unfolding i by linarith
  have "start_line e \<le> int (length ?ls)" using n(1) ints(1) by linarith
  then have "keep_lines (apply_edit_span content e) = take ?n ?ls @ keep_lines (replacement (new_text e)) @ drop ?m ?ls"
    using edited_lines[OF assms(1,2,3)] by blast
  moreover have "length (take ?n ?ls) = ?n" using n by simp
  ultimately show ?thesis unfolding old new using bound by (simp add: nth_append del: length_take)
qed

lemma line_before_edit:
  assumes "plain_lines content" "plain_lines (new_text e)" "edits_lines e"
    "start_line e \<le> int (length (keep_lines content)) \<or> line_closed content"
    "1 \<le> line_start s" "line_start s < start_line e" "line_start s \<le> int (length (keep_lines content))"
  shows "keep_lines (apply_edit_span content e) ! nat (line_start s - 1) = keep_lines content ! nat (line_start s - 1)"
proof -
  have "nat (line_start s - 1) < nat (start_line e - 1)" "nat (line_start s - 1) < length (keep_lines content)"
    using assms(5-7) by auto
  then show ?thesis unfolding edited_lines[OF assms(1-4)] by (simp add: nth_append)
qed

text \<open>A symbol meets the edit when some line of it is replaced, or the edit is put between two of its lines; a
  symbol that does not is kept, after the edit at the shifted line.\<close>

definition meets :: "edit_span \<Rightarrow> polyglot_symbol \<Rightarrow> bool" where
  "meets e s \<longleftrightarrow> start_line e \<le> line_end s \<and> line_start s \<le> old_end_line e"

definition moved_by :: "edit_span \<Rightarrow> polyglot_symbol \<Rightarrow> polyglot_symbol" where
  "moved_by e s = (if line_end s < start_line e then s else shift_symbol_lines (edit_delta e) s)"

lemma kept_by_reparse: "s \<in> set (symbols node) \<Longrightarrow> \<not> meets e s \<Longrightarrow>
    moved_by e s \<in> set (symbols (fst (incremental_reparse parse node content e)))"
  by (auto simp: incremental_reparse_def partition_symbols_by_edit_def moved_by_def meets_def Let_def split: if_splits)

text \<open>C35: When the lines of the file and of the new text end by line feeds only, and the edit replaces lines that follow
  each other or is put before a line or after a closed last one, an incremental reparse keeps every symbol that does
  not meet the edit, before or after it, and its line number, shifted when it stands after the edit, is that of
  the same line in the edited text.\<close>

theorem kept_symbols_stay_on_their_line:
  assumes "plain_lines content" "plain_lines (new_text e)" "edits_lines e"
    "start_line e \<le> int (length (keep_lines content)) \<or> line_closed content"
    "s \<in> set (symbols node)" "\<not> meets e s"
    "1 \<le> line_start s" "line_start s \<le> line_end s" "line_start s \<le> int (length (keep_lines content))"
  shows "case incremental_reparse parse node content e of (node', content') \<Rightarrow>
    moved_by e s \<in> set (symbols node')
    \<and> keep_lines content' ! nat (line_start (moved_by e s) - 1) = keep_lines content ! nat (line_start s - 1)"
proof -
  have content': "snd (incremental_reparse parse node content e) = apply_edit_span content e"
    by (simp add: incremental_reparse_def partition_symbols_by_edit_def Let_def)
  have "keep_lines (apply_edit_span content e) ! nat (line_start (moved_by e s) - 1) = keep_lines content ! nat (line_start s - 1)"
  proof (cases "line_end s < start_line e")
    case True
    then show ?thesis using line_before_edit[OF assms(1-4,7) _ assms(9)] assms(8) by (simp add: moved_by_def)
  next
    case False
    then have "old_end_line e < line_start s" using assms(6) by (simp add: meets_def)
    then show ?thesis using line_after_edit[OF assms(1-3) _ assms(9)] False by (simp add: moved_by_def)
  qed
  then show ?thesis using kept_by_reparse[OF assms(5,6), of parse content] content' by (simp add: split_beta)
qed

definition two_functions :: string where
  "two_functions = ''fn a() {}'' @ newline @ newline @ ''fn b() {}'' @ newline"

definition longer_first :: edit_span where
  "longer_first = \<lparr>start_line = 1, old_end_line = 1, new_text = ''fn a() {'' @ newline @ ''}''\<rparr>"

definition at_line :: "int \<Rightarrow> polyglot_symbol" where
  "at_line n = \<lparr>name = ''b'', kind = FUNCTION, signature = ''fn b'', line_start = n, line_end = n, docstring = '''',
     language = ''rust'', parent_scope = None\<rparr>"

definition node_of :: "polyglot_symbol list \<Rightarrow> polyglot_file_node" where
  "node_of ss = \<lparr>file_path = ''a.rs'', node_language = ''rust'', symbols = ss, metrics = metrics_of (\<lambda>_. None) two_functions ''rust'' 1,
     skipped = False, skip_reason = '''', incremental = False, reparsed_symbols_count = 0\<rparr>"

theorem kept_symbols_witness:
  "case incremental_reparse (\<lambda>_. None) (node_of [at_line 3]) two_functions longer_first of (node', content') \<Rightarrow>
    moved_by longer_first (at_line 3) \<in> set (symbols node')
    \<and> keep_lines content' ! nat (line_start (moved_by longer_first (at_line 3)) - 1) = keep_lines two_functions ! nat (line_start (at_line 3) - 1)"
  by (rule kept_symbols_stay_on_their_line)
     (simp_all add: two_functions_def longer_first_def at_line_def edits_lines_def plain_lines_def line_break_def newline_def
       keep_lines_def keep_lines_from.simps node_of_def meets_def)

text \<open>Without those conditions it may not be so: the shift counts the lines of \<open>splitlines\<close>, which a form feed ends
  as well, while the symbols count line feeds; and an edit after an open last line is joined to it.\<close>

definition form_feed_edit :: edit_span where
  "form_feed_edit = \<lparr>start_line = 1, old_end_line = 1, new_text = ''# x'' @ [CHR 0x0C] @ ''# y''\<rparr>"

lemma form_feed_shifts_too_far:
  "apply_edit_span two_functions form_feed_edit = ''# x'' @ [CHR 0x0C] @ ''# y'' @ newline @ newline @ ''fn b() {}'' @ newline
    \<and> line_start (shift_symbol_lines (edit_delta form_feed_edit) (at_line 3)) = 4"
  by code_simp

lemma edit_after_open_line_joins:
  "apply_edit_span ''fn a() {}'' \<lparr>start_line = 2, old_end_line = 1, new_text = ''fn b() {}''\<rparr> = ''fn a() {}fn b() {}'' @ newline"
  by code_simp

section \<open>The symbols after an edit\<close>


lemma partition_by_edit:
  assumes "edits_lines e" "list_all (\<lambda>s. line_start s \<le> line_end s) ss"
  shows "mset (fst (partition_symbols_by_edit ss e (edit_delta e))) + mset (snd (partition_symbols_by_edit ss e (edit_delta e)))
    = image_mset (moved_by e) (filter_mset (\<lambda>s. \<not> meets e s) (mset ss))"
  using assms(2)
proof (induction ss)
  case (Cons s ss)
  consider "line_end s < start_line e" "\<not> old_end_line e < line_start s" "\<not> meets e s"
    | "\<not> line_end s < start_line e" "old_end_line e < line_start s" "\<not> meets e s"
    | "\<not> line_end s < start_line e" "\<not> old_end_line e < line_start s" "meets e s"
    using Cons.prems assms(1) unfolding meets_def edits_lines_def list.pred_inject by linarith
  then show ?case by cases (use Cons in \<open>simp_all add: partition_symbols_by_edit_def moved_by_def\<close>)
qed (simp add: partition_symbols_by_edit_def)

text \<open>What an incremental reparse leaves: the symbols of the snippet, and every old symbol that does not
  meet the edit.\<close>

theorem symbols_after_edit:
  assumes "edits_lines e" "list_all (\<lambda>s. line_start s \<le> line_end s) (symbols node)"
  shows "mset (symbols (fst (incremental_reparse parse node content e)))
      = mset (reparse_edited_region parse (new_text e) (node_language node) (start_line e - 1))
        + image_mset (moved_by e) (filter_mset (\<lambda>s. \<not> meets e s) (mset (symbols node)))"
  using partition_by_edit[OF assms]
  by (cases "partition_symbols_by_edit (symbols node) e (edit_delta e)") (simp add: incremental_reparse_def Let_def)

lemma symbols_after_edit_sorted:
  "sorted (map (\<lambda>s. (line_start s, name s)) (symbols (fst (incremental_reparse parse node content e))))"
  by (cases "partition_symbols_by_edit (symbols node) e (edit_delta e)") (simp add: incremental_reparse_def Let_def)

text \<open>C0: The line of a match is that of its first character, and a pattern starts with the blanks before the
  keyword: a function after a blank line is placed on the blank line, and writing that line again loses
  the function.\<close>

definition blank_again :: edit_span where
  "blank_again = \<lparr>start_line = 2, old_end_line = 2, new_text = newline\<rparr>"

theorem blank_line_holds_the_function:
  "map (\<lambda>s. (name s, line_start s)) (symbols (parse_content parse two_functions p ''rust'')) = [(''a'', 1), (''b'', 2)]
   \<and> apply_edit_span two_functions blank_again = two_functions
   \<and> map name (symbols (fst (incremental_reparse parse (parse_content parse two_functions p ''rust'') two_functions blank_again))) = [''a'']"
proof -
  have syms: "extract_rust_symbols two_functions = [(at_line 1)\<lparr>name := ''a'', signature := ''fn a''\<rparr>, at_line 2]"
    by code_simp
  have again: "apply_edit_span two_functions blank_again = two_functions" "py_strip (new_text blank_again) = []" by code_simp+
  show ?thesis using again
    by (simp add: parse_content_def extract_symbols_def syms incremental_reparse_def reparse_edited_region_def
        partition_symbols_by_edit_def Let_def at_line_def blank_again_def)
qed

section \<open>Nesting\<close>

lemma Max_eq_deepest: "get_depth t d = deepest (\<lambda>l. node_class l \<in> set nesting_types) t d"
proof (induction t arbitrary: d)
  case (Tree l ts)
  let ?P = "\<lambda>l. node_class l \<in> set nesting_types"
  let ?next = "if ?P l then d + 1 else d"
  show ?case
  proof (cases "ts = []")
    case False
    have grows: "?next \<le> deepest ?P c ?next" for c
      using deepest_reached[of c ?P ?next] by auto
    have "Max (set (map (\<lambda>c. get_depth c ?next) ts)) = Max ((\<lambda>c. deepest ?P c ?next) ` set ts)" using Tree.IH by simp
    also have "\<dots> = Max (insert ?next ((\<lambda>c. deepest ?P c ?next) ` set ts))"
    proof -
      obtain c where "c \<in> set ts" using False by (cases ts) auto
      then have "?next \<le> Max ((\<lambda>c. deepest ?P c ?next) ` set ts)" using grows[of c] by (meson Max_ge finite_imageI finite_set imageI order_trans)
      then show ?thesis using False by simp
    qed
    finally show ?thesis using False by (simp add: Let_def foldl_max_Max)
  qed simp
qed

text \<open>The depth of a Python module is that of its deepest path, and its complexity does not depend on the
  order of the walk.\<close>

lemma python_metrics: "parse content = Some t \<Longrightarrow> calculate_metrics parse content ''python'' =
    (1 + sum_list (map (\<lambda>c. node_decision_count (label c)) (preorder t)),
     Max (opened_on (\<lambda>l. node_class l \<in> set nesting_types) ` set (root_paths t)))"
proof -
  have "sum_list (map f (tree_walk t)) = sum_list (map f (preorder t))" for f :: "cst_node \<Rightarrow> nat"
    by (metis mset_map mset_tree_walk sum_mset_sum_list)
  then show "parse content = Some t \<Longrightarrow> ?thesis"
    by (simp add: calculate_metrics_def calculate_python_def calculate_py_depth_def Max_eq_deepest deepest_Max)
qed

definition brace_surplus :: "string \<Rightarrow> int" where
  "brace_surplus t = int (length (filter ((=) CHR ''{'') t)) - int (length (filter ((=) CHR ''}'') t))"

lemma brace_surplus_simps [simp]: "brace_surplus [] = 0"
  "brace_surplus (a @ b) = brace_surplus a + brace_surplus b"
  by (simp_all add: brace_surplus_def)

lemma brace_surplus_single: "brace_surplus [c] = (if c = CHR ''{'' then 1 else 0) - (if c = CHR ''}'' then 1 else 0)"
  by (simp add: brace_surplus_def)

text \<open>The running count is the largest surplus of a part that ends here, as in the search for a maximal
  segment.\<close>

lemma brace_fold: "fold brace_step t (0, 1) =
    (Max (brace_surplus ` set (suffixes t)), Max (insert 1 (brace_surplus ` set (sublists t))))"
proof (induction t rule: rev_induct)
  case Nil
  show ?case by simp
next
  case (snoc c t)
  let ?S = "brace_surplus ` set (suffixes t)" and ?d = "brace_surplus [c]"
  have suf: "brace_surplus ` set (suffixes (t @ [c])) = insert 0 ((\<lambda>x. x + ?d) ` ?S)"
    by (simp only: suffixes_snoc) (auto simp: image_image)
  have "?S \<noteq> {}" "finite ?S" by auto
  then have cur: "Max (brace_surplus ` set (suffixes (t @ [c]))) = max 0 (Max ?S + ?d)"
    using Max_add_commute[of ?S "\<lambda>x. x" ?d] unfolding suf by simp
  have "set (sublists (t @ [c])) = set (sublists t) \<union> set (suffixes (t @ [c]))"
    by (auto simp: sublist_snoc)
  then have "Max (insert 1 (brace_surplus ` set (sublists (t @ [c]))))
      = Max (insert 1 (brace_surplus ` set (sublists t)) \<union> brace_surplus ` set (suffixes (t @ [c])))" by (simp add: image_Un)
  also have "\<dots> = max (Max (insert 1 (brace_surplus ` set (sublists t)))) (max 0 (Max ?S + ?d))"
    by (subst Max_Un) (simp only: cur | simp)+
  finally show ?case using snoc cur
    by (simp add: brace_step_def Let_def brace_surplus_single del: suffixes_snoc)
qed

text \<open>C36: The nesting of a text in another language is the largest surplus of opening over closing braces in any
  part of the text, at least one. Text in strings and comments counts like code.\<close>

theorem nesting_is_largest_surplus:
  "int (calculate_brace_nesting content) = Max (insert 1 (brace_surplus ` set (sublists content)))"
proof -
  have "1 \<le> Max (insert 1 (brace_surplus ` set (sublists content)))" by (rule Max_ge) auto
  then have "0 \<le> Max (insert 1 (brace_surplus ` set (sublists content)))" by linarith
  then show ?thesis by (simp only: calculate_brace_nesting_def brace_fold snd_conv int_nat_eq if_True)
qed

section \<open>The guard\<close>

text \<open>When the guard lets a file through, and what is then known of it.\<close>

definition may_be_read ::
  "(string \<Rightarrow> (string, string) result) \<Rightarrow> (string \<Rightarrow> (string, int) result) \<Rightarrow> string \<Rightarrow> string option \<Rightarrow> int \<Rightarrow> string \<Rightarrow> bool" where
  "may_be_read resolve stat path base max_size r \<longleftrightarrow> resolve path = Inr r
     \<and> (case base of None \<Rightarrow> True | Some b \<Rightarrow> (case resolve b of Inl _ \<Rightarrow> False | Inr root_dir \<Rightarrow> is_relative_to r root_dir))
     \<and> (case stat r of Inl _ \<Rightarrow> False | Inr n \<Rightarrow> n \<le> max_size)"

lemma guard_resolved: "resolve path = Inr r \<Longrightarrow> \<exists>err. guard_verify resolve stat path base max_size
    = (may_be_read resolve stat path base max_size r, Some r, err)"
  by (cases "stat r"; cases base; cases "resolve (the base)")
     (simp_all add: guard_verify_def verify_containment_def check_root_containment_def verify_size_def may_be_read_def)

lemma guard_unresolved: "resolve path = Inl e \<Longrightarrow> \<exists>err. guard_verify resolve stat path base max_size = (False, None, err)"
  by (simp add: guard_verify_def verify_containment_def)

text \<open>A file is parsed exactly when its path resolves, to a place below the root if there is one, its size is
  within the bound and it can be read; then what is parsed is what stands at the resolved path.\<close>

theorem parsed_iff_guarded:
  "(\<not> skipped (parse_file parse resolve stat read_text max_size path base)) =
     (\<exists>r content. may_be_read resolve stat path base max_size r \<and> read_text r = Inr content
        \<and> parse_file parse resolve stat read_text max_size path base
          = parse_content parse content path (case detect_language path of None \<Rightarrow> ''unknown'' | Some l \<Rightarrow> l))"
proof -
  have dist: "\<not> skipped (parse_content parse c p l)" "skipped (skipped_node p l m)" for c p l m
    by (simp_all add: parse_content_def skipped_node_def Let_def)
  show ?thesis
  proof (cases "resolve path")
    case (Inl e)
    then show ?thesis using guard_unresolved[of resolve path e stat base max_size]
      by (auto simp: parse_file_def Let_def dist may_be_read_def)
  next
    case (Inr r)
    then have only: "may_be_read resolve stat path base max_size r' \<Longrightarrow> r' = r" for r' by (simp add: may_be_read_def)
    obtain err where g: "guard_verify resolve stat path base max_size
        = (may_be_read resolve stat path base max_size r, Some r, err)" using guard_resolved[of resolve path r] Inr by blast
    let ?lang = "case detect_language path of None \<Rightarrow> ''unknown'' | Some l \<Rightarrow> l"
    have pf: "parse_file parse resolve stat read_text max_size path base
        = (if may_be_read resolve stat path base max_size r
           then (case read_text r of Inl e \<Rightarrow> skipped_node path ?lang (''Read error: '' @ take 200 e)
             | Inr content \<Rightarrow> parse_content parse content path ?lang)
           else skipped_node path ?lang err)"
      by (simp add: parse_file_def Let_def g)
    show ?thesis
    proof (cases "may_be_read resolve stat path base max_size r \<and> (\<exists>c. read_text r = Inr c)")
      case True
      then obtain c where c: "may_be_read resolve stat path base max_size r" "read_text r = Inr c" by blast
      then show ?thesis unfolding pf using dist(1) by auto
    next
      case False
      then have "skipped (parse_file parse resolve stat read_text max_size path base)"
        unfolding pf by (cases "read_text r") (auto simp: dist)
      then show ?thesis using False only by blast
    qed
  qed
qed

section \<open>Queries\<close>

definition superscript_line :: "string \<Rightarrow> bool" where
  "superscript_line token \<longleftrightarrow>
     (let key = takeWhile (\<lambda>c. c \<noteq> CHR '':'') token; v = drop (Suc (length key)) token in
      CHR '':'' \<in> set token \<and> py_lower key \<in> {''min_line'', ''max_line''} \<and> py_isdigit v \<and> \<not> list_all is_digit v)"

lemma digit_of_line: "py_isdigit v \<Longrightarrow> c \<in> set v \<Longrightarrow>
    (48 \<le> (of_char c :: nat) \<and> (of_char c :: nat) \<le> 57) \<or> (of_char c :: nat) \<in> {178, 179, 185}"
  by (auto simp: py_isdigit_def list_all_iff is_digit_def)

lemma int_of_digits: "py_isdigit v \<Longrightarrow> (\<exists>n. int_of_text v = Inr n) \<longleftrightarrow> list_all is_digit v"
proof -
  assume v: "py_isdigit v"
  have vs: "\<not> number_blank v c" "c \<noteq> CHR ''_''" "c \<noteq> CHR ''-''" "c \<noteq> CHR ''+''" if "c \<in> set v" for c
    using digit_of_line[OF v that] by (auto simp: number_blank_def py_isspace_def)
  have "number_strip v = v"
  proof -
    have keep: "(\<And>c. c \<in> set w \<Longrightarrow> \<not> number_blank v c) \<Longrightarrow> dropWhile (number_blank v) w = w" for w by (cases w) auto
    show ?thesis unfolding number_strip_def using keep[of v] keep[of "rev v"] vs(1) by simp
  qed
  moreover have "split_sign v = (False, v)" using vs(3,4) v by (cases v) (auto simp: split_sign_def starts_with_def)
  moreover have "py_split ''_'' v = [v]" using vs(2) by (metis py_split_char_absent)
  ultimately show ?thesis using v by (auto simp: int_of_text_def digit_groups_def py_isdigit_def)
qed

lemma token_raises: "(\<exists>e. apply_token t q = Inl e) \<longleftrightarrow> superscript_line t"
proof -
  have filt: "(\<exists>e. int_filter v = Inl e) \<longleftrightarrow> py_isdigit v \<and> \<not> list_all is_digit v" for v
    using int_of_digits[of v] by (cases "int_of_text v") (auto simp: int_filter_def)
  have bind: "(\<exists>e. result_bind r (\<lambda>n. Inr (f n)) = Inl e) \<longleftrightarrow> (\<exists>e. r = Inl e)" for r :: "'a py" and f :: "'a \<Rightarrow> 'b"
    by (cases r) auto
  show ?thesis
    by (auto simp: apply_token_def superscript_line_def Let_def QUERY_HANDLERS_def handle_min_line_def handle_max_line_def
        bind filt split: if_splits)
qed

text \<open>A query raises exactly when it has a token for a line whose value is made of digits, one of them a
  superscript: \<open>isdigit\<close> holds of it and \<open>int\<close> refuses it. Tokens with an unknown key are ignored.\<close>

theorem query_raises_iff:
  "(\<exists>e. parse_structural_query query = Inl e) \<longleftrightarrow> list_ex superscript_line (py_words (py_strip query))"
proof -
  have "(\<exists>e. apply_tokens ts q = Inl e) \<longleftrightarrow> list_ex superscript_line ts" for ts q
  proof (induction ts arbitrary: q)
    case (Cons t ts)
    show ?case
    proof (cases "apply_token t q")
      case (Inl e)
      then show ?thesis using token_raises[of t q] by auto
    next
      case (Inr q')
      then show ?thesis using token_raises[of t q] Cons.IH[of q'] by auto
    qed
  qed simp
  then show ?thesis by (simp add: parse_structural_query_def)
qed

lemma matched_without_error: "(\<And>s. s \<in> set ss \<Longrightarrow> m s = Inr (f s)) \<Longrightarrow> matched_symbols m ss = Inr (filter f ss)"
  by (induction ss) auto

end
