(* ===== verification/Hook_Sentinel.thy ===== *)
theory Hook_Sentinel
  imports Address_Scan Py_Path
begin

text \<open>
  \<open>examples/agentic-ide-hook-sentinel/hook_sentinel.py\<close>: the verdicts on tool calls and file writes, commands in
  a process group of their own, and the summary of diagnostics. The addresses are those of \<open>Address_Policy\<close>.
  \<open>Path.resolve\<close> is the parameter \<open>resolve\<close>, with the text of an \<open>OSError\<close> or \<open>RuntimeError\<close> on the left; the
  operating system is the record \<open>process_api\<close>.
\<close>

section \<open>Data\<close>

definition MAX_ALLOWED_FILE_SIZE_BYTES :: nat where
  "MAX_ALLOWED_FILE_SIZE_BYTES = 5 * 1024 * 1024"

definition PROTECTED_PATH_PATTERNS :: "string list" where
  "PROTECTED_PATH_PATTERNS = [''.env'', ''.ssh'', ''.gnupg'', ''.git'', ''id_rsa'', ''id_ed25519'', ''/etc/passwd'', ''/etc/shadow'']"

datatype hook_decision = ALLOW | DENY

record hook_evaluation =
  decision :: hook_decision
  reason :: string
  details :: "(string \<times> json) list"

record command_result =
  command :: "string list"
  exit_code :: int
  stdout :: string
  stderr :: string
  timed_out :: bool

record diagnostic_evaluation =
  file_path :: string
  error_count :: nat
  warning_count :: nat
  is_clean :: bool
  prescriptive_guidance :: string

record ide_hook_sentinel =
  workspace_root :: string

definition denied :: "string \<Rightarrow> (string \<times> json) list \<Rightarrow> hook_evaluation" where
  "denied why what = \<lparr>decision = DENY, reason = why, details = what\<rparr>"

definition allowed :: "string \<Rightarrow> hook_evaluation" where
  "allowed why = \<lparr>decision = ALLOW, reason = why, details = []\<rparr>"

section \<open>Tool calls\<close>

definition is_protected_path :: "string \<Rightarrow> bool" where
  "is_protected_path p \<longleftrightarrow> list_ex (\<lambda>pat. contains_sub (py_lower pat) (py_lower p)) PROTECTED_PATH_PATTERNS"

definition protected_text :: "json \<Rightarrow> string option" where
  "protected_text v = (case v of JStr s \<Rightarrow> if is_protected_path s then Some s else None | _ \<Rightarrow> None)"

text \<open>The loop over the arguments, which returns at the first protected text.\<close>

fun check_arguments :: "(string \<times> json) list \<Rightarrow> hook_evaluation" where
  "check_arguments [] = allowed ''Tool execution verified safe''"
| "check_arguments ((k, v) # kvs) = (case protected_text v of
     Some s \<Rightarrow> denied (''Access to protected credential or system path blocked: '' @ quoted s)
                [(''field'', JStr k), (''path'', JStr s)]
   | None \<Rightarrow> check_arguments kvs)"

definition evaluate_tool_call :: "string \<Rightarrow> (string \<times> json) list \<Rightarrow> hook_evaluation" where
  "evaluate_tool_call tool_name arguments = (case scan_for_forbidden_ips (json_repr (JObj arguments)) of
     ip # ips \<Rightarrow> denied (''Forbidden private host address detected: '' @ ip) [(''forbidden_ips'', JArr (map JStr (ip # ips)))]
   | [] \<Rightarrow> check_arguments arguments)"

section \<open>File writes\<close>

text \<open>What is written: bytes, or a text that is encoded in UTF-8.\<close>

datatype file_content = Bytes "8 word list" | Text string

definition utf8_length :: "string \<Rightarrow> nat" where
  "utf8_length s = sum_list (map (\<lambda>c. if (of_char c :: nat) < 128 then 1 else 2) s)"

definition byte_length :: "file_content \<Rightarrow> nat" where
  "byte_length c = (case c of Bytes bs \<Rightarrow> length bs | Text s \<Rightarrow> utf8_length s)"

definition evaluate_file_write ::
  "(string \<Rightarrow> (string, string) result) \<Rightarrow> ide_hook_sentinel \<Rightarrow> string \<Rightarrow> file_content \<Rightarrow> hook_evaluation" where
  "evaluate_file_write resolve sentinel target content =
     (let n = byte_length content in
      if n > MAX_ALLOWED_FILE_SIZE_BYTES
      then denied (''File size ('' @ show_nat n @ '' bytes) exceeds maximum cap ('' @ show_nat MAX_ALLOWED_FILE_SIZE_BYTES @ '' bytes)'')
             [(''size_bytes'', JInt (int n)), (''max_bytes'', JInt (int MAX_ALLOWED_FILE_SIZE_BYTES))]
      else (case resolve target of
        Inl err \<Rightarrow> denied (''Unresolvable file path or circular symlink: '' @ err) []
      | Inr resolved \<Rightarrow>
          if \<not> is_relative_to resolved (workspace_root sentinel)
          then denied (''File path '' @ quoted resolved @ '' escapes workspace root '' @ quoted (workspace_root sentinel)) []
          else if is_protected_path resolved then denied (''Target file matches protected path: '' @ quoted resolved) []
          else allowed ''File write verified safe''))"

definition new_sentinel :: "(string \<Rightarrow> (string, string) result) \<Rightarrow> string \<Rightarrow> (string, ide_hook_sentinel) result" where
  "new_sentinel resolve root_path = result_bind (resolve root_path) (\<lambda>r. Inr \<lparr>workspace_root = r\<rparr>)"

section \<open>Commands\<close>

datatype signal = SIGTERM | SIGKILL

text \<open>
  What the code uses of processes, over states of the system: \<open>Popen\<close> in a new session, \<open>communicate\<close> with a
  bound (\<open>None\<close> is \<open>TimeoutExpired\<close>) and without one (\<open>None\<close>: it never returns), the return code, and the
  signal to a group, whose \<open>ProcessLookupError\<close> and \<open>PermissionError\<close> are suppressed.
\<close>

record 'w process_api =
  popen :: "'w \<Rightarrow> string list \<Rightarrow> string \<Rightarrow> (string, nat \<times> 'w) result"
  communicate_for :: "'w \<Rightarrow> nat \<Rightarrow> py_float \<Rightarrow> (string \<times> string) option \<times> 'w"
  communicate :: "'w \<Rightarrow> nat \<Rightarrow> ((string \<times> string) \<times> 'w) option"
  killpg :: "'w \<Rightarrow> nat \<Rightarrow> signal \<Rightarrow> 'w"
  returncode :: "'w \<Rightarrow> nat \<Rightarrow> int"

definition reap_timed_out_process :: "'w process_api \<Rightarrow> 'w \<Rightarrow> nat \<Rightarrow> py_float \<Rightarrow> ((string \<times> string) \<times> 'w) option" where
  "reap_timed_out_process os w pid grace =
     (case communicate_for os (killpg os w pid SIGTERM) pid grace of
        (Some out, w') \<Rightarrow> Some (out, w')
      | (None, w') \<Rightarrow> communicate os (killpg os w' pid SIGKILL) pid)"

text \<open>\<open>None\<close>: the call never returns; on the left, that the command could not be started.\<close>

definition run_isolated_command ::
  "'w process_api \<Rightarrow> ide_hook_sentinel \<Rightarrow> 'w \<Rightarrow> string list \<Rightarrow> string option \<Rightarrow> py_float \<Rightarrow> py_float
    \<Rightarrow> (string, command_result \<times> 'w) result option" where
  "run_isolated_command os sentinel w cmd cwd timeout grace =
     (case popen os w cmd (case cwd of None \<Rightarrow> workspace_root sentinel | Some d \<Rightarrow> d) of
        Inl err \<Rightarrow> Some (Inl err)
      | Inr (pid, w1) \<Rightarrow>
          (case (case communicate_for os w1 pid timeout of
                   (Some out, w2) \<Rightarrow> Some (out, w2, False)
                 | (None, w2) \<Rightarrow> map_option (\<lambda>(out, w3). (out, w3, True)) (reap_timed_out_process os w2 pid grace)) of
             None \<Rightarrow> None
           | Some ((out, err), w', late) \<Rightarrow>
               Some (Inr (\<lparr>command = cmd, exit_code = returncode os w' pid, stdout = out, stderr = err, timed_out = late\<rparr>, w'))))"

section \<open>Diagnostics\<close>

definition LSP_SEVERITY_NAMES :: "(string \<times> int) list" where
  "LSP_SEVERITY_NAMES = [(''error'', 1), (''warning'', 2), (''information'', 3), (''hint'', 4)]"

definition lsp_severity :: "(string \<times> json) list \<Rightarrow> int" where
  "lsp_severity d = (case dict_get d ''severity'' of
     None \<Rightarrow> 1
   | Some (JBool b) \<Rightarrow> 1
   | Some JNull \<Rightarrow> 1
   | Some (JInt i) \<Rightarrow> i
   | Some raw \<Rightarrow> (case dict_get LSP_SEVERITY_NAMES (py_lower (py_strip (json_str raw))) of None \<Rightarrow> 1 | Some n \<Rightarrow> n))"

text \<open>\<open>line + 1\<close> as it is printed.\<close>

definition next_line :: "json \<Rightarrow> string py" where
  "next_line j = (case j of
     JInt i \<Rightarrow> Inr (show_int (i + 1)) | JBool b \<Rightarrow> Inr (show_int (if b then 2 else 1)) | JFloat q \<Rightarrow> Inr (show_float (q + 1))
   | _ \<Rightarrow> Inl Type_Error)"

definition error_line :: "(string \<times> json) list \<Rightarrow> string py" where
  "error_line d = result_bind (py_get (JObj d) ''range'' (JObj []))
     (\<lambda>r. result_bind (py_get r ''start'' (JObj [])) (\<lambda>s. result_bind (py_get s ''line'' (JInt 0)) next_line))"

definition evaluate_lsp_diagnostics :: "string \<Rightarrow> (string \<times> json) list list \<Rightarrow> diagnostic_evaluation py" where
  "evaluate_lsp_diagnostics path diagnostics =
     (let errors = filter (\<lambda>d. lsp_severity d = 1) diagnostics;
          warnings = filter (\<lambda>d. lsp_severity d = 2) diagnostics in
      case errors of
        [] \<Rightarrow> Inr \<lparr>file_path = path, error_count = 0, warning_count = length warnings, is_clean = True,
                prescriptive_guidance = ''No compiler errors detected. Verification passed.''\<rparr>
      | top_err # _ \<Rightarrow> result_bind (error_line top_err) (\<lambda>line.
          Inr \<lparr>file_path = path, error_count = length errors, warning_count = length warnings, is_clean = False,
               prescriptive_guidance = ''Compiler Error at line '' @ line @ '': ''
                 @ json_str (case dict_get top_err ''message'' of None \<Rightarrow> JStr ''Unknown compiler error'' | Some m \<Rightarrow> m)
                 @ ''. Please revise the implementation to satisfy language type constraints.''\<rparr>))"

text \<open>
  Properties of the hook sentinel: which tool calls and writes pass, which addresses the scan never sees,
  when diagnostics are clean, and when a command returns.
\<close>

section \<open>Tool calls\<close>

lemma arguments_allowed_iff: "decision (check_arguments kvs) = ALLOW \<longleftrightarrow> \<not> list_ex (\<lambda>(k, v). protected_text v \<noteq> None) kvs"
  by (induction kvs) (auto simp: allowed_def denied_def split: option.splits)

lemma tool_call_allowed_iff: "decision (evaluate_tool_call tool args) = ALLOW \<longleftrightarrow>
    scan_for_forbidden_ips (json_repr (JObj args)) = [] \<and> \<not> list_ex (\<lambda>(k, v). protected_text v \<noteq> None) args"
  by (auto simp: evaluate_tool_call_def arguments_allowed_iff denied_def split: list.splits)

text \<open>A tool call whose arguments are lists and dictionaries passes unless an address in it is private: the
  paths in them are never looked at.\<close>

theorem nested_paths_pass:
  "decision (evaluate_tool_call tool (map (\<lambda>(k, vs). (k, JArr vs)) args)) = ALLOW
     \<longleftrightarrow> scan_for_forbidden_ips (json_repr (JObj (map (\<lambda>(k, vs). (k, JArr vs)) args))) = []"
  by (auto simp: tool_call_allowed_iff list_ex_iff protected_text_def)

lemma key_read_through_list: "decision (evaluate_tool_call ''read'' [(''paths'', JArr [JStr ''~/.ssh/id_rsa''])]) = ALLOW"
  by code_simp

lemma key_blocked_as_text: "decision (evaluate_tool_call ''read'' [(''path'', JStr ''~/.ssh/id_rsa'')]) = DENY"
  by code_simp

section \<open>Addresses\<close>

text \<open>Which spellings of an address a scan reports is in \<open>Address_Scan\<close>; an IPv4 address written in hexadecimal
  inside an IPv6 one is not seen.\<close>

definition mapped_address :: string where
  "mapped_address = ''http://[::ffff:a00:1]/''"

lemma mapped_address_unseen: "scan_for_forbidden_ips mapped_address = [] \<and> scan_for_forbidden_ips ''http://10.0.0.1/'' = [''10.0.0.1'']"
  by code_simp

lemma hexadecimal_call_passes:
  "decision (evaluate_tool_call ''fetch'' [(''url'', JStr ''http://0x0a.0.0.1/'')]) = ALLOW"
  by code_simp

section \<open>File writes\<close>

text \<open>The encoding of a text in UTF-8, whose code points are below 256.\<close>

definition utf8_bytes :: "string \<Rightarrow> 8 word list" where
  "utf8_bytes s = concat (map (\<lambda>c. let n = (of_char c :: nat) in
     if n < 0x80 then [of_nat n] else [of_nat (0xC0 + n div 64), of_nat (0x80 + n mod 64)]) s)"

definition content_bytes :: "file_content \<Rightarrow> 8 word list" where
  "content_bytes c = (case c of Bytes bs \<Rightarrow> bs | Text s \<Rightarrow> utf8_bytes s)"

lemma byte_length_bytes: "byte_length c = length (content_bytes c)"
proof (cases c)
  case (Text s)
  have "utf8_length s = length (utf8_bytes s)"
    by (induction s) (simp_all add: utf8_length_def utf8_bytes_def Let_def)
  then show ?thesis using Text by (simp add: byte_length_def content_bytes_def)
qed (simp add: byte_length_def content_bytes_def)

text \<open>An absolute path as its components, as \<open>resolve\<close> gives it.\<close>

definition component :: "string \<Rightarrow> bool" where
  "component c \<longleftrightarrow> c \<noteq> '''' \<and> c \<noteq> ''.'' \<and> CHR ''/'' \<notin> set c"

definition absolute :: "string list \<Rightarrow> string" where
  "absolute cs = ''/'' @ join_with ''/'' cs"

lemma parts_absolute: "list_all component cs \<Longrightarrow> path_parts (absolute cs) = (True, cs)"
proof -
  assume cs: "list_all component cs"
  have "filter (\<lambda>s. s \<noteq> '''' \<and> s \<noteq> ''.'') (py_split ''/'' (join_with ''/'' cs)) = cs"
  proof (cases "cs = []")
    case False
    then have "py_split ''/'' (join_with ''/'' cs) = cs"
      using cs by (intro py_split_join_with) (auto simp: list_all_iff component_def)
    then show ?thesis using cs by (auto simp: list_all_iff component_def filter_id_conv)
  qed (simp add: py_split_char_absent)
  moreover have "py_split ''/'' (absolute cs) = '''' # py_split ''/'' (join_with ''/'' cs)"
    using py_split_char [of "CHR ''/''" "''''" "join_with ''/'' cs"] by (simp add: absolute_def)
  moreover have "starts_with (absolute cs) ''/''" by (simp add: absolute_def starts_with_def)
  ultimately show ?thesis by (simp add: path_parts_def)
qed

lemma absolute_inj: "list_all component cs \<Longrightarrow> list_all component ds \<Longrightarrow> absolute cs = absolute ds \<Longrightarrow> cs = ds"
  by (metis parts_absolute snd_conv)

text \<open>One of the protected words occurs in the path, in letters of any case.\<close>

definition names_protected :: "string \<Rightarrow> bool" where
  "names_protected p \<longleftrightarrow> (\<exists>u w v. p = u @ w @ v \<and> py_lower w \<in> {''.env'', ''.ssh'', ''.gnupg'', ''.git'', ''id_rsa'',
     ''id_ed25519'', ''/etc/passwd'', ''/etc/shadow''})"

lemma protected_iff: "is_protected_path p \<longleftrightarrow> names_protected p"
proof -
  have low: "map py_lower PROTECTED_PATH_PATTERNS = PROTECTED_PATH_PATTERNS" by code_simp
  have "is_protected_path p \<longleftrightarrow> list_ex (\<lambda>w. contains_sub w (py_lower p)) (map py_lower PROTECTED_PATH_PATTERNS)"
    by (simp add: is_protected_path_def list_ex_iff)
  also have "\<dots> \<longleftrightarrow> (\<exists>w\<in>set PROTECTED_PATH_PATTERNS. \<exists>u x v. p = u @ x @ v \<and> py_lower x = w)"
    unfolding low list_ex_iff lower_contains ..
  also have "\<dots> \<longleftrightarrow> (\<exists>u x v. p = u @ x @ v \<and> py_lower x \<in> set PROTECTED_PATH_PATTERNS)" by blast
  also have "\<dots> \<longleftrightarrow> names_protected p" unfolding names_protected_def PROTECTED_PATH_PATTERNS_def list.set ..
  finally show ?thesis .
qed

text \<open>C39: When paths resolve to absolute ones, a write passes exactly when its bytes, those of the UTF-8 encoding of
  a text, are at most five mebibytes, the path resolves to one that the root of the workspace is a beginning of,
  component by component, and none of the protected words occurs in the resolved path in letters of any case.\<close>

theorem write_allowed_iff:
  assumes "\<And>p. resolve target = Inr p \<Longrightarrow> p \<in> absolute ` {cs. list_all component cs}"
    and "workspace_root sentinel = absolute rs" "list_all component rs"
  shows "decision (evaluate_file_write resolve sentinel target content) = ALLOW \<longleftrightarrow>
     length (content_bytes content) \<le> 5 * 1024 * 1024
     \<and> (\<exists>cs. list_all component cs \<and> resolve target = Inr (absolute cs) \<and> prefix rs cs \<and> \<not> names_protected (absolute cs))"
proof (cases "resolve target")
  case (Inl e)
  then show ?thesis by (simp add: evaluate_file_write_def denied_def Let_def)
next
  case (Inr p)
  then obtain cs where cs: "list_all component cs" "p = absolute cs" using assms(1) by blast
  have "decision (evaluate_file_write resolve sentinel target content) = ALLOW \<longleftrightarrow>
     length (content_bytes content) \<le> 5 * 1024 * 1024 \<and> prefix rs cs \<and> \<not> names_protected (absolute cs)"
    using Inr cs assms(2,3)
    by (simp add: evaluate_file_write_def denied_def allowed_def Let_def byte_length_bytes MAX_ALLOWED_FILE_SIZE_BYTES_def
        is_relative_to_def parts_absolute protected_iff)
  moreover have "resolve target = Inr (absolute ds) \<longleftrightarrow> ds = cs" if "list_all component ds" for ds
    using Inr cs that absolute_inj by auto
  ultimately show ?thesis using cs(1) by metis
qed

text \<open>A file below the root, and one beside it whose name only begins as the root's does.\<close>

theorem write_allowed_witness:
  "decision (evaluate_file_write (\<lambda>p. Inr p) \<lparr>workspace_root = absolute [''work'']\<rparr> (absolute [''work'', ''a'']) (Text ''x'')) = ALLOW
   \<and> decision (evaluate_file_write (\<lambda>p. Inr p) \<lparr>workspace_root = absolute [''work'']\<rparr> (absolute [''workshop'', ''a'']) (Text ''x'')) = DENY"
proof -
  have comps: "list_all component [''work'', ''a'']" "list_all component [''workshop'', ''a'']" "list_all component [''work'']"
    by (simp_all add: component_def)
  have bytes: "length (content_bytes (Text ''x'')) \<le> 5 * 1024 * 1024"
    by (simp add: content_bytes_def utf8_bytes_def Let_def)
  have free: "\<not> names_protected (absolute [''work'', ''a''])" unfolding protected_iff [symmetric] by code_simp
  have none: "absolute [''workshop'', ''a''] \<noteq> absolute cs" if "list_all component cs" "prefix [''work''] cs" for cs
    using absolute_inj [OF comps(2) that(1)] that(2) by auto
  have "decision (evaluate_file_write (\<lambda>p. Inr p) \<lparr>workspace_root = absolute [''work'']\<rparr> (absolute [''work'', ''a'']) (Text ''x'')) = ALLOW"
    using comps bytes free by (subst write_allowed_iff [where rs = "[''work'']"]) (auto intro: exI [of _ "[''work'', ''a'']"])
  moreover have "decision (evaluate_file_write (\<lambda>p. Inr p) \<lparr>workspace_root = absolute [''work'']\<rparr> (absolute [''workshop'', ''a'']) (Text ''x'')) \<noteq> ALLOW"
    using comps by (subst write_allowed_iff [where rs = "[''work'']"]) (auto dest: none)
  ultimately show ?thesis by (cases "decision (evaluate_file_write (\<lambda>p. Inr p) \<lparr>workspace_root = absolute [''work'']\<rparr> (absolute [''workshop'', ''a'']) (Text ''x''))") simp_all
qed


lemma workflows_are_protected: "is_protected_path ''/repo/.github/workflows/ci.yml''"
  by code_simp

section \<open>Diagnostics\<close>

lemma severity_of_ungraded: "dict_get d ''severity'' = None \<Longrightarrow> lsp_severity d = 1"
  by (simp add: lsp_severity_def)

text \<open>Diagnostics are clean exactly when none of them counts as an error, which one without a severity does;
  they raise exactly when the position of the first error is malformed.\<close>

theorem clean_iff_no_error:
  "(case evaluate_lsp_diagnostics path ds of
      Inr r \<Rightarrow> is_clean r = (\<not> list_ex (\<lambda>d. lsp_severity d = 1) ds)
               \<and> error_count r = length (filter (\<lambda>d. lsp_severity d = 1) ds)
    | Inl e \<Rightarrow> \<exists>d ds'. filter (\<lambda>d. lsp_severity d = 1) ds = d # ds' \<and> error_line d = Inl e)"
proof (cases "filter (\<lambda>d. lsp_severity d = 1) ds")
  case Nil
  then have "\<not> list_ex (\<lambda>d. lsp_severity d = 1) ds" by (auto simp: list_ex_iff filter_empty_conv)
  then show ?thesis using Nil by (simp add: evaluate_lsp_diagnostics_def)
next
  case (Cons d ds')
  then have "d \<in> set (filter (\<lambda>d. lsp_severity d = 1) ds)" by simp
  then have "list_ex (\<lambda>d. lsp_severity d = 1) ds" by (auto simp: list_ex_iff)
  then show ?thesis using Cons by (cases "error_line d") (simp_all add: evaluate_lsp_diagnostics_def)
qed

section \<open>Commands\<close>

lemma command_hangs_iff:
  "run_isolated_command os sentinel w cmd cwd timeout grace = None \<longleftrightarrow>
     (\<exists>pid w1 w2 w3. popen os w cmd (case cwd of None \<Rightarrow> workspace_root sentinel | Some d \<Rightarrow> d) = Inr (pid, w1)
        \<and> communicate_for os w1 pid timeout = (None, w2)
        \<and> communicate_for os (killpg os w2 pid SIGTERM) pid grace = (None, w3)
        \<and> communicate os (killpg os w3 pid SIGKILL) pid = None)"
  by (auto simp: run_isolated_command_def reap_timed_out_process_def split: sum.splits prod.splits option.splits)

text \<open>A command returns when reading its output after the kill does; which it need not, as a grandchild in a
  session of its own is not in the group and may hold the pipe.\<close>

lemma command_returns:
  assumes "\<And>w pid. communicate os (killpg os w pid SIGKILL) pid \<noteq> None"
  shows "run_isolated_command os sentinel w cmd cwd timeout grace \<noteq> None"
  unfolding command_hangs_iff using assms by blast

end
