(* ===== verification/Spec2Isabelle.thy ===== *)
theory Spec2Isabelle
  imports Sanitizer_Spec Tree_CRDT_Props Code_Memory_Props Seccomp_Props Slo_Props Finding_Baseline
    Milestone_Governor Wasm_Props Syscall_Props Packer_Props Token_Gateway Reconciler_Props Cache_Props
    Sdlc_Props Contract_Props Variables_Props Deprecation_Props Address_Props
    Cegis_Props Lsm_Gate Worktree_Arbiter Context_Handshake Model_Router
    Rot_Props Orchestrator_Props Portfolio_Balance Scanner_Props Triage_Props Go_Leak Cpp_Props
    Sentinel_Lsp_Props Ebpf_Tracer Cst_Props Hook_Sentinel
begin

text \<open>
  A verification library for \<open>vibes\<close>, a repository of command line tools (\<open>tools/\<close>) and sample
  applications (\<open>examples/\<close>) for agent driven software engineering. The Python programs stand side by
  side: they share no code and meet only in the files they write, so the library has one model theory
  per program and one theory of lemmas and properties above it.

  \<^bold>\<open>Parts.\<close>

  \<^item> \<open>Sanitizer\<close>, \<open>Sanitizer_Spec\<close>: \<open>examples/streaming-reasoning-sanitizer/sanitizer.py\<close>. The state of
    \<open>StreamingReasoningSanitizer\<close> is a record, \<open>feed\<close>, \<open>flush\<close> and the two consume steps are
    functions on it. The specification cuts the whole stream into visible text and thoughts; the
    chunk fed parser refines it, conserves every character and does not depend on the chunks.
  \<^item> \<open>Tree_CRDT\<close>, \<open>Tree_CRDT_Props\<close>: \<open>examples/ast-crdt-collaborative-editor/ast_crdt.py\<close>. A replica is
    the record of \<open>ASTTreeCRDT\<close>; each operation of its dispatch table is a function. Tree shape is
    kept by a \<open>step_invariant\<close>; convergence, and where it fails, is stated over synchronised peers.
  \<^item> \<open>Code_Memory\<close>, \<open>Code_Memory_Audit\<close>, \<open>Code_Memory_Props\<close>: \<open>tools/code_memory.py\<close>. The visitor,
    the incremental index, blast radius, cycle search, serialisation and the audits. The searches are
    proved equal to reachability.
  \<^item> \<open>Seccomp_Synthesizer\<close>, \<open>Seccomp_Props\<close>: \<open>tools/seccomp_synthesizer.py\<close>, from syntax trees and traces
    to profiles, their audit and comparison.
  \<^item> \<open>Syscall_Filter\<close>, \<open>Syscall_Props\<close>: \<open>examples/ephemeral-container-sandbox/syscall_filter.py\<close>. The
    fields of a BPF instruction are words of 8, 16 and 32 bits. The locale \<open>bpf_machine\<close> states the
    documented meaning of the instructions; the assembled program is proved to be the policy.
  \<^item> \<open>Slo_Engine\<close>, \<open>Slo_Props\<close>: \<open>tools/reliability_slo.py\<close>, indicators, error budgets and the policy.
  \<^item> \<open>Finding_Baseline\<close>: \<open>tools/finding_baseline.py\<close>, the baseline file and its commands.
  \<^item> \<open>Milestone_Governor\<close>: \<open>tools/milestone_governor.py\<close>, metrics, audit and rollover.
  \<^item> \<open>Wasm_Sandbox\<close>, \<open>Wasm_Props\<close>: \<open>examples/wasm-capability-sandbox/wasm_sandbox.py\<close>, capabilities,
    header and WIT parsing, gas.
  \<^item> \<open>Context_Packer\<close>, \<open>Packer_Props\<close>: \<open>examples/binary-search-context-packer/context_packer.py\<close>. The
    binary search is proved equal to a scan of all prefixes.
  \<^item> \<open>Token_Gateway\<close>: \<open>examples/fastmcp-token-bucket-gateway/gateway.py\<close>. The rate of
    the bucket, when \<open>acquire\<close> returns, and the telemetry.
  \<^item> \<open>Ast_Reconciler\<close>, \<open>Reconciler_Props\<close>: \<open>examples/ast-semantic-reconciler/ast_reconciler.py\<close>, the
    three way merge: where it collides, its symmetry, what it loses.
  \<^item> \<open>Repomap_Cache\<close>, \<open>Cache_Props\<close>: \<open>examples/valkey-l2-repomap-cache/repomap_cache.py\<close>: the RESP
    protocol, the client with its fallback store, the two cache tiers.
  \<^item> \<open>Sdlc_Manager\<close>, \<open>Sdlc_Props\<close>: \<open>tools/sdlc_project_manager.py\<close>: the board of tasks, the blockers,
    the audit of circular dependencies, the next action, the scan of the roadmap and of the checks.
  \<^item> \<open>Tool_Contract\<close>, \<open>Contract_Props\<close>: \<open>examples/tool-contract-verifier/verifier.py\<close>: signatures to
    JSON schemas, checked calls, runtime contracts. What a verified call accepts is what its schema
    describes.
  \<^item> \<open>Contract_Variables\<close>, \<open>Variables_Props\<close>: \<open>tools/contract_variables.py\<close>: declarations, coercion,
    the dialogue that resolves them and the substitution of placeholders.
  \<^item> \<open>Deprecation_Protocol\<close>, \<open>Deprecation_Props\<close>: \<open>tools/deprecation_protocol.py\<close>: versions, flags,
    migration of arguments, schema comparison, dead branches.
  \<^item> \<open>Address_Policy\<close>, \<open>Address_Props\<close>, \<open>Address_Scan\<close>: \<open>tools/sanitization_policy.py\<close>, and its copies in
    \<open>examples/ast-invariant-sentinel/sentinel.py\<close>, \<open>examples/prompt-mutation-fuzzer/fuzzer.py\<close>,
    \<open>examples/agentic-ide-hook-sentinel/hook_sentinel.py\<close>, \<open>tools/resource_iteration_workbench.py\<close>
    and \<open>tools/cegis_engine.py\<close>: addresses are words of 32 and 128 bits. The copies agree but for the
    one of the CEGIS engine, which reads only what the strict parser reads. \<open>Address_Scan\<close> says which
    parts of a text the search for dotted quads finds, and which spellings of an address it reports.
  \<^item> \<open>Cegis_Engine\<close>, \<open>Cegis_Props\<close>: \<open>tools/cegis_engine.py\<close>: the five invariant checkers over syntax
    trees, the constraints distilled from their findings, and the loop that asks a synthesiser for a
    repair until one is sound. A candidate passes exactly when its tree keeps the bounds and no plain
    private IPv4 address stands alone in a constant; IPv6 addresses pass, against the documentation.
  \<^item> \<open>Lsm_Gate\<close>: \<open>examples/ebpf-lsm-kernel-gate/lsm_gate.py\<close>, the hooks, the policies and
    the campaign of attacks: a stricter policy contains what a weaker one contains.
  \<^item> \<open>Worktree_Arbiter\<close>: \<open>examples/worktree-swarm-arbiter/worktree_arbiter.py\<close>, the
    leases of worktrees over a world of git, lock files and process groups.
  \<^item> \<open>Context_Handshake\<close>: \<open>examples/epistemic-context-handshake/context_handshake.py\<close>,
    manifests of context, their attestation and the tampering it detects.
  \<^item> \<open>Model_Router\<close>: \<open>tools/model_router.py\<close>, the complexity score of a task, the tier it is
    routed to and the audit of routed tasks; the score is monotone in every indicator.
  \<^item> \<open>Context_Rot\<close>, \<open>Rot_Props\<close>: \<open>tools/context_rot_auditor.py\<close>, transcripts, the audit of repeated and
    masked context, compaction. The single pass is proved equal to a rule on first occurrences.
  \<^item> \<open>Subagent_Orchestrator\<close>, \<open>Orchestrator_Props\<close>: \<open>tools/subagent_orchestrator.py\<close>, the metrics of
    syntax trees and the verdict on a refactoring. Nesting depth is the deepest path of the tree.
  \<^item> \<open>Portfolio_Balance\<close>: \<open>tools/portfolio_balance.py\<close>, declared areas, the measured
    churn and the balance between them.
  \<^item> \<open>Prompt_Scanner\<close>, \<open>Scanner_Props\<close>: \<open>tools/prompt_injection_scanner.py\<close>, invisible characters,
    smuggled text, patterns, presets and the SARIF log.
  \<^item> \<open>Pr_Triage\<close>, \<open>Triage_Props\<close>: \<open>tools/pr_triage_bot.py\<close>, the checks on a pull request and its verdict:
    pinned actions, secrets, complexity, labels.
  \<^item> \<open>Go_Leak\<close>: \<open>examples/go-leak-sentinel/go_leak_sentinel.py\<close>, the parser of goroutine
    dumps, the audit and the test helper built on it.
  \<^item> \<open>Cpp_Lifetime\<close>, \<open>Cpp_Props\<close>: \<open>tools/cpp_lifetime_sentinel.py\<close>, comments, blocks, the five rules
    over C++ sources and the verdict.
  \<^item> \<open>Sentinel_Rules\<close>, \<open>Sentinel_Audit\<close>, \<open>Sentinel_Run\<close>, \<open>Sentinel_Lsp\<close>, \<open>Sentinel_Props\<close>,
    \<open>Sentinel_Lsp_Props\<close>: \<open>examples/ast-invariant-sentinel/sentinel.py\<close>: the configuration of the rules,
    the audit of Python trees with its waivers, the audit of other languages, the targets of a run, the
    remedies and the language server. When a file passes is stated over its tree; the server is a fold
    over the messages of its stream.
  \<^item> \<open>Ebpf_Tracer\<close>: \<open>tools/ebpf_tracer.py\<close>, event streams, the five rules, the audit
    and the policies written for Tetragon and Falco. What a compliant stream is free of is stated over
    its events alone; events that only the documentation names are shown to be compliant.
  \<^item> \<open>Cst_Parser\<close>, \<open>Cst_Props\<close>: \<open>examples/polyglot-cst-parser/parser.py\<close>, symbols, queries, the guard of
    a read, and the incremental reparse, which is proved to keep the symbols that do not meet the edit on
    their lines, as long as only line feeds end a line.
  \<^item> \<open>Hook_Sentinel\<close>: \<open>examples/agentic-ide-hook-sentinel/hook_sentinel.py\<close>, the verdicts on
    tool calls and writes, the escalation of signals, and the summary of diagnostics. When a write
    passes is stated over the bytes of its encoding and the components of its path.

  \<^bold>\<open>Shared theories.\<close> \<open>Prelude\<close>: results (\<open>Inl\<close> an error, \<open>Inr\<close> a value), Python's dictionaries as
  association lists behind the locale \<open>ordered_dict\<close>, the locale \<open>step_invariant\<close> for runs of a step
  function, JSON values, decimal rendering. \<open>Text_Search\<close>: \<open>str.find\<close>, \<open>split\<close>, \<open>replace\<close> and the
  search over a stream that arrives in chunks (locale \<open>stream_cut\<close>). \<open>Py_Float\<close>, \<open>Py_Text\<close>: rounding,
  formatting, \<open>repr\<close>, \<open>splitlines\<close>, untyped access to decoded JSON with the exceptions it raises.
  \<open>Py_Path\<close>: names, suffixes and components of paths, and parts of a text in letters of any case. \<open>Py_Lines\<close>: lines with their breaks. \<open>Py_Json\<close>: \<open>int\<close> and
  \<open>float\<close> of texts, Python's equality of JSON values. \<open>Py_Ipaddress\<close>: the strict
  parsers of the module \<open>ipaddress\<close>. \<open>Py_Regex\<close>: a backtracking matcher for the patterns of the module
  \<open>re\<close> with groups, proved to find exactly the spans of a denotation by relations on positions, and the
  languages of patterns that do not look around.
  \<open>Py_Unicode\<close>: texts as lists of code points, character classes, word boundaries. \<open>Ast_Tree\<close>: labelled
  trees, their walks and their deepest paths.

  \<^bold>\<open>Conventions.\<close> A class is a record and a method a function from the old state to the new one; a
  Python exception is an \<open>Inl\<close>; a call that may not return is an \<open>option\<close> (\<open>None\<close>: it does not), made
  with \<open>partial_function (option)\<close>, and that it does return is then a theorem of its own. Characters
  are code points below 256, except in the programs whose subject is Unicode, whose texts are lists of
  numbers; floats are exact rationals: binary rounding is idealised, \<open>round\<close> and the
  format codes are not. The arguments of a definition that stand for code outside the repository are
  \<open>ast.parse\<close>, \<open>ast.dump\<close>, \<open>ast.unparse\<close>, \<open>tokenize\<close>, \<open>tomllib\<close>, SHA-256, \<open>json.loads\<close> and \<open>json.dumps\<close>, the ISO time parser,
  \<open>Path.resolve\<close>, clocks, random numbers, sockets, \<open>prctl\<close>, git, lock files and process groups, the
  complexity metric of \<open>radon\<close>, the tables of Unicode, and the decoder of UTF-8. A property that
  relies on one of them names the law as a hypothesis and has a witness with a concrete function.

  \<^bold>\<open>Bounds.\<close> The depth bound of the cycle search is the number of ids of the graph plus one, the
  parent walk of the CRDT is bounded by the code itself; both are proved to be enough on every input.
  Every other loop terminates by a measure, in the theory that defines it.

  \<^bold>\<open>Properties.\<close> Each is a theorem after a text block that starts with its number; they are
  refinements and equivalences with a reference definition, invariants, bounds, round trips, and the
  exact conditions of errors. Several show what the code does against its documentation: a merge that
  drops class attributes, an index whose blast radii are empty, concurrent moves that diverge, a
  bucket that waits forever, a sanitizer that hangs on an empty close tag.

  \<^bold>\<open>Not modelled.\<close> Argument parsing, printing and the file system around the modelled functions; the
  feature extractor of the repomap cache and the context ranker, whose arithmetic is in square roots,
  logarithms and fixed points of floats. The remaining tools and examples are listed as components of
  their own with the reason; next are the other scanners built on regular
  expressions.
\<close>

end
